(* ===== verification/Prelude.thy ===== *)
theory Prelude
  imports Main
begin

text \<open>
  Shared vocabulary of the development. The program is written in TypeScript, so this theory
  fixes how the parts of the language the sources use are read in HOL:
  \<^item> a \<^verbatim>\<open>Date\<close> is the integer \<^verbatim>\<open>getTime()\<close> returns, milliseconds since the epoch;
  \<^item> a thrown exception is a value of type \<open>exn\<close>, a function that may throw returns \<open>exn + 'a\<close>;
  \<^item> an optional property (\<^verbatim>\<open>x?: T\<close>) is \<open>'a option\<close>, with \<open>None\<close> for \<^verbatim>\<open>undefined\<close>;
  \<^item> one property of an object that is spread over another one is a \<open>'a field\<close>: absent, present
    with the value \<^verbatim>\<open>undefined\<close>, or present with a value (the three cases differ in JavaScript);
  \<^item> an \<^verbatim>\<open>async\<close> service method is a state transformer that returns a result or an exception
    together with the state its effects left (effects made before a throw persist).
\<close>

named_theorems svc_simps \<open>unfolding of the service combinators\<close>
named_theorems wf_intros \<open>operations keep the well-formedness predicates\<close>

type_synonym millis = int
type_synonym uid = string

subsection \<open>Exceptions and JSON values\<close>

datatype exn =
    Error string
  | InvalidTicketTransitionError string
  | TypeError
  | NotFoundException string
  | BadRequestException string
  | HttpException nat string

fun message :: "exn \<Rightarrow> string" where
  "message (Error m) = m"
| "message (InvalidTicketTransitionError m) = m"
| "message TypeError = ''Cannot read properties of undefined''"
| "message (NotFoundException m) = m"
| "message (BadRequestException m) = m"
| "message (HttpException c m) = m"

datatype json =
    JNull
  | JBool bool
  | JNum int
  | JStr string
  | JArr "json list"
  | JObj "(string \<times> json) list"

type_synonym jobject = "string \<rightharpoonup> json"

subsection \<open>Truthiness and object spread\<close>

text \<open>\<^verbatim>\<open>!!s\<close> for an optional string: the empty string is falsy.\<close>

definition truthy :: "string option \<Rightarrow> bool" where
  "truthy s = (case s of None \<Rightarrow> False | Some t \<Rightarrow> t \<noteq> [])"

text \<open>\<^verbatim>\<open>s || undefined\<close> and \<^verbatim>\<open>s || null\<close>.\<close>

definition orUndefined :: "string option \<Rightarrow> string option" where
  "orUndefined s = (if truthy s then s else None)"

datatype 'a field = Absent | Undef | Val 'a

text \<open>One key of \<^verbatim>\<open>{ ...old, ...patch }\<close>: an own property of the patch wins, also when its value
  is \<^verbatim>\<open>undefined\<close>.\<close>

fun spread :: "'a option \<Rightarrow> 'a field \<Rightarrow> 'a option" where
  "spread old Absent = old"
| "spread old Undef = None"
| "spread old (Val v) = Some v"

text \<open>\<^verbatim>\<open>key: x\<close> in an object literal, for an optional \<^verbatim>\<open>x\<close>: the key is always present.\<close>

fun own :: "'a option \<Rightarrow> 'a field" where
  "own None = Undef"
| "own (Some v) = Val v"

lemma spread_own [simp]: "spread old (own x) = x"
  by (cases x) auto

lemma truthy_simps [simp]: "\<not> truthy None" "truthy (Some t) \<longleftrightarrow> t \<noteq> []"
  by (auto simp: truthy_def)

lemma orUndefined_simps [simp]:
  "orUndefined None = None" "orUndefined (Some t) = (if t = [] then None else Some t)"
  by (auto simp: orUndefined_def)

lemma orUndefined_idem [simp]: "orUndefined (orUndefined s) = orUndefined s"
  by (cases s) auto

subsection \<open>Results that may be exceptions\<close>

fun rbind :: "exn + 'a \<Rightarrow> ('a \<Rightarrow> exn + 'b) \<Rightarrow> exn + 'b" where
  "rbind (Inl e) f = Inl e"
| "rbind (Inr a) f = f a"

lemma rbind_Inr_iff: "rbind m f = Inr b \<longleftrightarrow> (\<exists>a. m = Inr a \<and> f a = Inr b)"
  by (cases m) auto

lemma rbind_Inl_iff: "rbind m f = Inl e \<longleftrightarrow> m = Inl e \<or> (\<exists>a. m = Inr a \<and> f a = Inl e)"
  by (cases m) auto

text \<open>Reading a property through a reference that may be \<^verbatim>\<open>undefined\<close> throws.\<close>

definition deref :: "'a option \<Rightarrow> exn + 'a" where
  "deref x = (case x of None \<Rightarrow> Inl TypeError | Some a \<Rightarrow> Inr a)"

lemma deref_simps [simp]: "deref None = Inl TypeError" "deref (Some a) = Inr a"
  by (auto simp: deref_def)

lemma deref_Inr_iff [simp]: "deref x = Inr a \<longleftrightarrow> x = Some a"
  by (cases x) auto

subsection \<open>Service methods\<close>

type_synonym ('s, 'a) svc = "'s \<Rightarrow> (exn + 'a) \<times> 's"

definition ret :: "'a \<Rightarrow> ('s, 'a) svc" where
  "ret a = (\<lambda>s. (Inr a, s))"

definition throw :: "exn \<Rightarrow> ('s, 'a) svc" where
  "throw e = (\<lambda>s. (Inl e, s))"

definition andThen :: "('s, 'a) svc \<Rightarrow> ('a \<Rightarrow> ('s, 'b) svc) \<Rightarrow> ('s, 'b) svc" where
  "andThen m k = (\<lambda>s. case m s of (Inl e, s') \<Rightarrow> (Inl e, s') | (Inr a, s') \<Rightarrow> k a s')"

text \<open>\<^verbatim>\<open>try { m } catch (e) { h e }\<close>: the handler runs in the state the failed body left.\<close>

definition tryCatch :: "('s, 'a) svc \<Rightarrow> (exn \<Rightarrow> ('s, 'a) svc) \<Rightarrow> ('s, 'a) svc" where
  "tryCatch m h = (\<lambda>s. case m s of (Inl e, s') \<Rightarrow> h e s' | (Inr a, s') \<Rightarrow> (Inr a, s'))"

definition liftR :: "exn + 'a \<Rightarrow> ('s, 'a) svc" where
  "liftR r = (\<lambda>s. (r, s))"

definition asks :: "('s \<Rightarrow> 'a) \<Rightarrow> ('s, 'a) svc" where
  "asks f = (\<lambda>s. (Inr (f s), s))"

definition modify :: "('s \<Rightarrow> 's) \<Rightarrow> ('s, unit) svc" where
  "modify f = (\<lambda>s. (Inr (), f s))"

text \<open>\<^verbatim>\<open>for (const x of xs) { await f(x) }\<close>: the first throw leaves the loop.\<close>

fun forEach :: "'a list \<Rightarrow> ('a \<Rightarrow> ('s, unit) svc) \<Rightarrow> ('s, unit) svc" where
  "forEach [] f = ret ()"
| "forEach (x # xs) f = andThen (f x) (\<lambda>_. forEach xs f)"

lemma andThen_app [svc_simps]:
  "andThen m k s = (case m s of (Inl e, s') \<Rightarrow> (Inl e, s') | (Inr a, s') \<Rightarrow> k a s')"
  by (simp add: andThen_def)

lemma tryCatch_app [svc_simps]:
  "tryCatch m h s = (case m s of (Inl e, s') \<Rightarrow> h e s' | (Inr a, s') \<Rightarrow> (Inr a, s'))"
  by (simp add: tryCatch_def)

lemma andThen_assoc: "andThen (andThen m k) h = andThen m (\<lambda>a. andThen (k a) h)"
  by (rule ext) (simp add: andThen_def split: prod.splits sum.splits)

lemma ret_app [simp]: "ret a s = (Inr a, s)"
  by (simp add: ret_def)

lemma throw_app [simp]: "throw e s = (Inl e, s)"
  by (simp add: throw_def)

lemma liftR_app [simp]: "liftR r s = (r, s)"
  by (simp add: liftR_def)

lemma asks_app [simp]: "asks f s = (Inr (f s), s)"
  by (simp add: asks_def)

lemma modify_app [simp]: "modify f s = (Inr (), f s)"
  by (simp add: modify_def)

lemma ret_andThen: "andThen (ret a) k = k a"
  by (rule ext) (simp add: andThen_app)

lemma andThen_Inr [simp]: "m s = (Inr a, s') \<Longrightarrow> andThen m k s = k a s'"
  by (simp add: andThen_def)

lemma andThen_Inl [simp]: "m s = (Inl e, s') \<Longrightarrow> andThen m k s = (Inl e, s')"
  by (simp add: andThen_def)

lemma tryCatch_Inr [simp]: "m s = (Inr a, s') \<Longrightarrow> tryCatch m h s = (Inr a, s')"
  by (simp add: tryCatch_def)

lemma tryCatch_Inl [simp]: "m s = (Inl e, s') \<Longrightarrow> tryCatch m h s = h e s'"
  by (simp add: tryCatch_def)

lemma andThen_InrE:
  assumes "andThen m k s = (Inr b, s'')"
  obtains a s' where "m s = (Inr a, s')" "k a s' = (Inr b, s'')"
proof (cases "m s")
  case (Pair r s')
  with assms that show ?thesis by (cases r) (auto simp: andThen_def)
qed

subsection \<open>Numbers and strings\<close>

text \<open>\<^verbatim>\<open>Math.round(a / b)\<close> for integers and \<open>b > 0\<close>: halves round towards plus infinity.\<close>

definition roundDiv :: "int \<Rightarrow> int \<Rightarrow> int" where
  "roundDiv a b = (2 * a + b) div (2 * b)"

lemma roundDiv_exact: "0 < b \<Longrightarrow> roundDiv (k * b) b = k"
proof -
  assume b: "0 < b"
  have "(2 * (k * b) + b) div (2 * b) = (b + k * (2 * b)) div (2 * b)"
    by (simp add: algebra_simps)
  also have "\<dots> = k + b div (2 * b)" using b by (subst div_mult_self1) auto
  also have "b div (2 * b) = 0" using b by (simp add: div_pos_pos_trivial)
  finally show ?thesis by (simp add: roundDiv_def)
qed

text \<open>\<^verbatim>\<open>String(n)\<close> for a non-negative integer.\<close>

fun showNat :: "nat \<Rightarrow> string" where
  "showNat n = (if n < 10 then [char_of (n + 48)] else showNat (n div 10) @ [char_of (n mod 10 + 48)])"

declare showNat.simps [simp del]

definition padStart :: "nat \<Rightarrow> char \<Rightarrow> string \<Rightarrow> string" where
  "padStart n c s = replicate (n - length s) c @ s"

definition digitVal :: "char \<Rightarrow> nat" where
  "digitVal c = of_char c - 48"

text \<open>Value of a decimal numeral: what a reader of the printed number recovers.\<close>

definition readNat :: "string \<Rightarrow> nat" where
  "readNat s = foldl (\<lambda>a c. 10 * a + digitVal c) 0 s"

lemma digitVal_char_of [simp]: "d < 10 \<Longrightarrow> digitVal (char_of (d + 48)) = d"
  by (simp add: digitVal_def)

lemma readNat_showNat [simp]: "readNat (showNat n) = n"
proof (induction n rule: showNat.induct)
  case (1 n)
  show ?case
  proof (cases "n < 10")
    case True
    then show ?thesis by (simp add: showNat.simps readNat_def)
  next
    case False
    with 1 have "foldl (\<lambda>a c. 10 * a + digitVal c) 0 (showNat (n div 10)) = n div 10"
      by (simp add: readNat_def)
    with False show ?thesis by (simp add: showNat.simps [of n] readNat_def)
  qed
qed

lemma readNat_zeros: "readNat (replicate k (CHR ''0'') @ s) = readNat s"
  by (induction k) (auto simp: readNat_def digitVal_def)

lemma readNat_padStart: "readNat (padStart k (CHR ''0'') s) = readNat s"
  by (simp add: padStart_def readNat_zeros)

lemma showNat_digit: "c \<in> set (showNat n) \<Longrightarrow> \<exists>d<(10::nat). c = char_of (d + 48)"
proof (induction n rule: showNat.induct)
  case (1 n)
  show ?case
  proof (cases "n < 10")
    case True
    with "1.prems" show ?thesis by (auto simp: showNat.simps)
  next
    case False
    with "1.prems" have "c \<in> set (showNat (n div 10)) \<or> c = char_of (n mod 10 + 48)"
      by (subst (asm) showNat.simps) auto
    moreover have "n mod 10 < 10" by simp
    ultimately show ?thesis using "1.IH" False by blast
  qed
qed

lemma showNat_not_Nil [simp]: "showNat n \<noteq> []"
  by (subst showNat.simps) simp

lemma length_showNat: "n < 10 ^ k \<Longrightarrow> 0 < k \<Longrightarrow> length (showNat n) \<le> k"
proof (induction k arbitrary: n)
  case 0
  then show ?case by simp
next
  case (Suc k)
  show ?case
  proof (cases "n < 10")
    case True
    then show ?thesis by (simp add: showNat.simps)
  next
    case False
    with Suc.prems have "n div 10 < 10 ^ k" by (simp add: div_less_iff_less_mult mult.commute)
    moreover from False Suc.prems have "0 < k" by (cases k) auto
    ultimately have "length (showNat (n div 10)) \<le> k" by (rule Suc.IH)
    with False show ?thesis by (simp add: showNat.simps [of n])
  qed
qed

text \<open>ASCII part of \<^verbatim>\<open>toUpperCase\<close> and \<^verbatim>\<open>trim\<close>.\<close>

definition isSpace :: "char \<Rightarrow> bool" where
  "isSpace c = (c = CHR '' '' \<or> (9 \<le> (of_char c :: nat) \<and> (of_char c :: nat) \<le> 13))"

definition trim :: "string \<Rightarrow> string" where
  "trim s = rev (dropWhile isSpace (rev (dropWhile isSpace s)))"

definition upChar :: "char \<Rightarrow> char" where
  "upChar c = (if 97 \<le> (of_char c :: nat) \<and> (of_char c :: nat) \<le> 122
               then char_of ((of_char c :: nat) - 32) else c)"

definition toUpperCase :: "string \<Rightarrow> string" where
  "toUpperCase s = map upChar s"

lemma dropWhile_isSpace_id: "list_all (\<lambda>c. \<not> isSpace c) s \<Longrightarrow> dropWhile isSpace s = s"
  by (cases s) auto

lemma trim_id: "list_all (\<lambda>c. \<not> isSpace c) s \<Longrightarrow> trim s = s"
  by (simp add: trim_def dropWhile_isSpace_id list_all_rev)

lemma toUpperCase_id: "list_all (\<lambda>c. upChar c = c) s \<Longrightarrow> toUpperCase s = s"
  by (simp add: toUpperCase_def map_idI list_all_iff)

lemma digit_plain:
  assumes "(d::nat) < 10"
  shows "\<not> isSpace (char_of (d + 48))" "upChar (char_of (d + 48)) = char_of (d + 48)"
proof -
  from assms have code: "of_char (char_of (d + 48) :: char) = d + 48" by simp
  have "char_of (d + 48) \<noteq> CHR '' ''"
  proof
    assume "char_of (d + 48) = CHR '' ''"
    then have "of_char (char_of (d + 48) :: char) = (of_char (CHR '' '') :: nat)" by simp
    then show False unfolding code by simp
  qed
  with code assms show "\<not> isSpace (char_of (d + 48))" by (simp add: isSpace_def)
  from code assms show "upChar (char_of (d + 48)) = char_of (d + 48)" by (simp add: upChar_def)
qed

lemma upChar_code: "97 \<le> (of_char c :: nat) \<Longrightarrow> of_char c \<le> (122 :: nat) \<Longrightarrow> (of_char (upChar c) :: nat) = of_char c - 32"
  by (simp add: upChar_def)

lemma upChar_other: "\<not> (97 \<le> (of_char c :: nat) \<and> of_char c \<le> (122 :: nat)) \<Longrightarrow> upChar c = c"
  by (auto simp: upChar_def)

lemma upChar_space [simp]: "isSpace (upChar c) = isSpace c"
proof (cases "97 \<le> (of_char c :: nat) \<and> (of_char c :: nat) \<le> 122")
  case True
  with upChar_code have code: "(of_char (upChar c) :: nat) = of_char c - 32" by blast
  have "upChar c \<noteq> CHR '' ''" "c \<noteq> CHR '' ''" using code True by auto
  moreover have "\<not> (of_char (upChar c) \<le> (13 :: nat))" "\<not> (of_char c \<le> (13 :: nat))" using code True by linarith+
  ultimately show ?thesis by (simp add: isSpace_def)
qed (simp add: upChar_other)

lemma upChar_idem [simp]: "upChar (upChar c) = upChar c"
proof (cases "97 \<le> (of_char c :: nat) \<and> (of_char c :: nat) \<le> 122")
  case True
  with upChar_code have "(of_char (upChar c) :: nat) = of_char c - 32" by blast
  with True have "\<not> (97 \<le> (of_char (upChar c) :: nat) \<and> of_char (upChar c) \<le> (122 :: nat))" by linarith
  then show ?thesis by (rule upChar_other)
qed (simp add: upChar_other)

lemma dropWhile_map_upChar: "dropWhile isSpace (map upChar s) = map upChar (dropWhile isSpace s)"
  by (induction s) auto

lemma trim_toUpperCase: "trim (toUpperCase s) = toUpperCase (trim s)"
  by (simp add: trim_def toUpperCase_def dropWhile_map_upChar rev_map)

lemma toUpperCase_idem [simp]: "toUpperCase (toUpperCase s) = toUpperCase s"
  by (simp add: toUpperCase_def)

lemma toUpperCase_Nil [simp]: "toUpperCase s = [] \<longleftrightarrow> s = []"
  by (simp add: toUpperCase_def)

lemma dropWhile_snoc_keep: "\<not> P x \<Longrightarrow> dropWhile P (ys @ [x]) = dropWhile P ys @ [x]"
  by (induction ys) auto

lemma trim_idem [simp]: "trim (trim s) = trim s"
proof (cases "dropWhile isSpace s")
  case Nil
  then have "trim s = []" by (simp add: trim_def del: dropWhile_eq_Nil_conv)
  moreover have "trim [] = []" by (simp add: trim_def)
  ultimately show ?thesis by simp
next
  case (Cons x xs)
  then have "\<not> isSpace x" by (simp add: dropWhile_eq_Cons_conv)
  with Cons show ?thesis by (simp add: trim_def dropWhile_snoc_keep)
qed

subsection \<open>Lists\<close>

lemma find_Some_set: "List.find P xs = Some x \<Longrightarrow> x \<in> set xs \<and> P x"
  by (auto simp: find_Some_iff)

lemma hd_sort_key_min:
  assumes "xs \<noteq> []" "x \<in> set xs"
  shows "f (hd (sort_key f xs)) \<le> f x"
proof -
  from assms(1) have ne: "sort_key f xs \<noteq> []" by (metis length_0_conv length_sort)
  then obtain y ys where eq: "sort_key f xs = y # ys" by (cases "sort_key f xs") auto
  have "sorted (map f (sort_key f xs))" by simp
  moreover from assms(2) have "x \<in> set (sort_key f xs)" by simp
  ultimately show ?thesis by (auto simp: eq)
qed

lemma hd_sort_key_in: "xs \<noteq> [] \<Longrightarrow> hd (sort_key f xs) \<in> set xs"
  by (metis hd_in_set length_0_conv length_sort set_sort)

end
