(* ===== verification/Ticket_Values.thy ===== *)
theory Ticket_Values
  imports Prelude
begin

text \<open>
  The value objects of the ticket module (\<^verbatim>\<open>src/modules/tickets/domain/value-objects.ts\<close>):
  ticket numbers, the status enumeration with its transition rules, the priority scale and the
  ticket sources. Every enumeration comes with its string values and with the checking
  constructor (\<^verbatim>\<open>X.create\<close>), which throws on a string outside the enumeration; the two are
  inverse to each other. The lemmas at the end characterise the status machine and the
  escalation of priorities.
\<close>

subsection \<open>Ticket numbers\<close>

definition TicketNumber_create :: "string \<Rightarrow> exn + string" where
  "TicketNumber_create v =
     (let cleaned = toUpperCase (trim v)
      in if cleaned = [] \<or> 50 < length cleaned
         then Inl (Error (''Invalid ticket number: '' @ v)) else Inr cleaned)"

definition TicketNumber_generate :: "nat \<Rightarrow> string \<Rightarrow> exn + string" where
  "TicketNumber_generate sequence prefix =
     TicketNumber_create (prefix @ ''-'' @ padStart 6 (CHR ''0'') (showNat sequence))"

subsection \<open>Status\<close>

datatype TicketStatusEnum =
    TS_OPEN | TS_ASSIGNED | TS_IN_PROGRESS | TS_WAITING_CUSTOMER | TS_WAITING_INTERNAL
  | TS_APPROVAL_PENDING | TS_RESOLVED | TS_CLOSED | TS_REOPENED | TS_CANCELLED

fun TicketStatus_value :: "TicketStatusEnum \<Rightarrow> string" where
  "TicketStatus_value TS_OPEN = ''OPEN''"
| "TicketStatus_value TS_ASSIGNED = ''ASSIGNED''"
| "TicketStatus_value TS_IN_PROGRESS = ''IN_PROGRESS''"
| "TicketStatus_value TS_WAITING_CUSTOMER = ''WAITING_CUSTOMER''"
| "TicketStatus_value TS_WAITING_INTERNAL = ''WAITING_INTERNAL''"
| "TicketStatus_value TS_APPROVAL_PENDING = ''APPROVAL_PENDING''"
| "TicketStatus_value TS_RESOLVED = ''RESOLVED''"
| "TicketStatus_value TS_CLOSED = ''CLOSED''"
| "TicketStatus_value TS_REOPENED = ''REOPENED''"
| "TicketStatus_value TS_CANCELLED = ''CANCELLED''"

definition TicketStatus_values :: "TicketStatusEnum list" where
  "TicketStatus_values =
     [TS_OPEN, TS_ASSIGNED, TS_IN_PROGRESS, TS_WAITING_CUSTOMER, TS_WAITING_INTERNAL,
      TS_APPROVAL_PENDING, TS_RESOLVED, TS_CLOSED, TS_REOPENED, TS_CANCELLED]"

definition TicketStatus_create :: "string \<Rightarrow> exn + TicketStatusEnum" where
  "TicketStatus_create v =
     (case List.find (\<lambda>s. TicketStatus_value s = v) TicketStatus_values of
        None \<Rightarrow> Inl (Error (''Invalid ticket status: '' @ v))
      | Some s \<Rightarrow> Inr s)"

definition TERMINAL_STATUSES :: "TicketStatusEnum list" where
  "TERMINAL_STATUSES = [TS_CLOSED, TS_CANCELLED]"

definition TicketStatus_isTerminal :: "TicketStatusEnum \<Rightarrow> bool" where
  "TicketStatus_isTerminal s = (s \<in> set TERMINAL_STATUSES)"

definition TicketStatus_isResolved :: "TicketStatusEnum \<Rightarrow> bool" where
  "TicketStatus_isResolved s = (s = TS_RESOLVED)"

definition TicketStatus_canTransitionTo :: "TicketStatusEnum \<Rightarrow> TicketStatusEnum \<Rightarrow> bool" where
  "TicketStatus_canTransitionTo s nxt =
     (if TicketStatus_isTerminal s then nxt = TS_REOPENED
      else if nxt = TS_REOPENED then s = TS_RESOLVED
      else True)"

definition transitionMessage :: "TicketStatusEnum \<Rightarrow> TicketStatusEnum \<Rightarrow> string" where
  "transitionMessage from to =
     ''Cannot transition ticket from '' @ TicketStatus_value from @ '' to '' @ TicketStatus_value to"

definition TicketStatus_assertCanTransitionTo ::
  "TicketStatusEnum \<Rightarrow> TicketStatusEnum \<Rightarrow> exn + unit" where
  "TicketStatus_assertCanTransitionTo s nxt =
     (if \<not> TicketStatus_canTransitionTo s nxt
      then Inl (InvalidTicketTransitionError (transitionMessage s nxt)) else Inr ())"

subsection \<open>Priority\<close>

datatype TicketPriorityEnum = TP_LOW | TP_MEDIUM | TP_HIGH | TP_URGENT | TP_CRITICAL

fun TicketPriority_value :: "TicketPriorityEnum \<Rightarrow> string" where
  "TicketPriority_value TP_LOW = ''LOW''"
| "TicketPriority_value TP_MEDIUM = ''MEDIUM''"
| "TicketPriority_value TP_HIGH = ''HIGH''"
| "TicketPriority_value TP_URGENT = ''URGENT''"
| "TicketPriority_value TP_CRITICAL = ''CRITICAL''"

fun PRIORITY_WEIGHTS :: "TicketPriorityEnum \<Rightarrow> nat" where
  "PRIORITY_WEIGHTS TP_LOW = 1"
| "PRIORITY_WEIGHTS TP_MEDIUM = 2"
| "PRIORITY_WEIGHTS TP_HIGH = 3"
| "PRIORITY_WEIGHTS TP_URGENT = 4"
| "PRIORITY_WEIGHTS TP_CRITICAL = 5"

definition PRIORITY_ORDER :: "TicketPriorityEnum list" where
  "PRIORITY_ORDER = [TP_LOW, TP_MEDIUM, TP_HIGH, TP_URGENT, TP_CRITICAL]"

definition TicketPriority_create :: "string \<Rightarrow> exn + TicketPriorityEnum" where
  "TicketPriority_create v =
     (case List.find (\<lambda>p. TicketPriority_value p = v) PRIORITY_ORDER of
        None \<Rightarrow> Inl (Error (''Invalid ticket priority: '' @ v))
      | Some p \<Rightarrow> Inr p)"

definition TicketPriority_weight :: "TicketPriorityEnum \<Rightarrow> nat" where
  "TicketPriority_weight p = PRIORITY_WEIGHTS p"

text \<open>\<^verbatim>\<open>indexOf\<close> of a member of the list.\<close>

fun indexOf :: "'a list \<Rightarrow> 'a \<Rightarrow> nat" where
  "indexOf [] x = 0"
| "indexOf (y # ys) x = (if x = y then 0 else Suc (indexOf ys x))"

definition TicketPriority_escalated :: "TicketPriorityEnum \<Rightarrow> TicketPriorityEnum" where
  "TicketPriority_escalated p =
     (let idx = indexOf PRIORITY_ORDER p
      in PRIORITY_ORDER ! min (idx + 1) (length PRIORITY_ORDER - 1))"

subsection \<open>Source and category\<close>

datatype TicketSourceEnum =
    SRC_MANUAL | SRC_CONVERSATION | SRC_AI_ESCALATION | SRC_EMAIL | SRC_WHATSAPP | SRC_WEBCHAT
  | SRC_API | SRC_WORKFLOW

fun TicketSource_value :: "TicketSourceEnum \<Rightarrow> string" where
  "TicketSource_value SRC_MANUAL = ''MANUAL''"
| "TicketSource_value SRC_CONVERSATION = ''CONVERSATION''"
| "TicketSource_value SRC_AI_ESCALATION = ''AI_ESCALATION''"
| "TicketSource_value SRC_EMAIL = ''EMAIL''"
| "TicketSource_value SRC_WHATSAPP = ''WHATSAPP''"
| "TicketSource_value SRC_WEBCHAT = ''WEBCHAT''"
| "TicketSource_value SRC_API = ''API''"
| "TicketSource_value SRC_WORKFLOW = ''WORKFLOW''"

definition TicketSource_create :: "string \<Rightarrow> exn + TicketSourceEnum" where
  "TicketSource_create v =
     (case List.find (\<lambda>s. TicketSource_value s = v)
        [SRC_MANUAL, SRC_CONVERSATION, SRC_AI_ESCALATION, SRC_EMAIL, SRC_WHATSAPP, SRC_WEBCHAT,
         SRC_API, SRC_WORKFLOW] of
        None \<Rightarrow> Inl (Error (''Invalid ticket source: '' @ v))
      | Some s \<Rightarrow> Inr s)"

definition TicketCategory_create :: "string \<Rightarrow> exn + string" where
  "TicketCategory_create v =
     (let cleaned = trim v
      in if cleaned = [] \<or> 255 < length cleaned
         then Inl (Error (''Invalid ticket category: '' @ v)) else Inr cleaned)"

subsection \<open>The enumerations and their strings\<close>

lemma TicketStatus_create_value [simp]: "TicketStatus_create (TicketStatus_value s) = Inr s"
  by (cases s) (simp_all add: TicketStatus_create_def TicketStatus_values_def)

lemma TicketStatus_create_Inr: "TicketStatus_create v = Inr s \<Longrightarrow> v = TicketStatus_value s"
  by (auto simp: TicketStatus_create_def dest: find_Some_set split: option.splits)

lemma TicketPriority_create_value [simp]: "TicketPriority_create (TicketPriority_value p) = Inr p"
  by (cases p) (simp_all add: TicketPriority_create_def PRIORITY_ORDER_def)

lemma TicketSource_create_value [simp]: "TicketSource_create (TicketSource_value s) = Inr s"
  by (cases s) (simp_all add: TicketSource_create_def)

lemma TicketStatus_value_inj [simp]: "TicketStatus_value s = TicketStatus_value t \<longleftrightarrow> s = t"
  by (metis TicketStatus_create_value sum.inject(2))

subsection \<open>Status transitions\<close>

lemma isTerminal_iff [simp]: "TicketStatus_isTerminal s \<longleftrightarrow> s = TS_CLOSED \<or> s = TS_CANCELLED"
  by (auto simp: TicketStatus_isTerminal_def TERMINAL_STATUSES_def)

lemma canTransitionTo_REOPENED:
  "TicketStatus_canTransitionTo s TS_REOPENED \<longleftrightarrow> s \<in> {TS_RESOLVED, TS_CLOSED, TS_CANCELLED}"
  by (auto simp: TicketStatus_canTransitionTo_def)

lemma canTransitionTo_other:
  "nxt \<noteq> TS_REOPENED \<Longrightarrow> TicketStatus_canTransitionTo s nxt \<longleftrightarrow> \<not> TicketStatus_isTerminal s"
  by (auto simp: TicketStatus_canTransitionTo_def)

lemma assert_Inr [simp]:
  "TicketStatus_assertCanTransitionTo s nxt = Inr () \<longleftrightarrow> TicketStatus_canTransitionTo s nxt"
  by (simp add: TicketStatus_assertCanTransitionTo_def)

lemma assert_ok [simp]:
  "TicketStatus_canTransitionTo s nxt \<Longrightarrow> TicketStatus_assertCanTransitionTo s nxt = Inr ()"
  by (simp add: TicketStatus_assertCanTransitionTo_def)

lemma assert_refused [simp]:
  "\<not> TicketStatus_canTransitionTo s nxt \<Longrightarrow>
   TicketStatus_assertCanTransitionTo s nxt = Inl (InvalidTicketTransitionError (transitionMessage s nxt))"
  by (simp add: TicketStatus_assertCanTransitionTo_def)

subsection \<open>Escalation\<close>

lemma weight_escalated:
  "TicketPriority_weight (TicketPriority_escalated p) = min 5 (TicketPriority_weight p + 1)"
  by (cases p) (simp_all add: TicketPriority_weight_def TicketPriority_escalated_def PRIORITY_ORDER_def)

lemma weight_inj: "TicketPriority_weight p = TicketPriority_weight q \<Longrightarrow> p = q"
  by (cases p; cases q) (simp_all add: TicketPriority_weight_def)

lemma weight_range: "1 \<le> TicketPriority_weight p \<and> TicketPriority_weight p \<le> 5"
  by (cases p) (simp_all add: TicketPriority_weight_def)

lemma weight_escalations:
  "TicketPriority_weight ((TicketPriority_escalated ^^ n) p) = min 5 (TicketPriority_weight p + n)"
  using weight_range [of p] by (induction n) (auto simp: weight_escalated)

subsection \<open>Generated numbers\<close>

lemma list_all_showNat:
  "(\<And>d. d < (10::nat) \<Longrightarrow> P (char_of (d + 48))) \<Longrightarrow> list_all P (showNat n)"
  by (auto simp: list_all_iff dest!: showNat_digit)

lemma padded_plain:
  "list_all (\<lambda>c. \<not> isSpace c \<and> upChar c = c) (padStart 6 (CHR ''0'') (showNat n))"
proof -
  have "list_all (\<lambda>c. \<not> isSpace c \<and> upChar c = c) (showNat n)"
    by (rule list_all_showNat) (simp add: digit_plain)
  moreover have "\<not> isSpace (CHR ''0'') \<and> upChar (CHR ''0'') = CHR ''0''"
    by (simp add: isSpace_def upChar_def)
  ultimately show ?thesis by (auto simp: padStart_def list_all_iff)
qed

lemma TicketNumber_create_plain:
  assumes "list_all (\<lambda>c. \<not> isSpace c \<and> upChar c = c) v" "v \<noteq> []" "length v \<le> 50"
  shows "TicketNumber_create v = Inr v"
proof -
  from assms(1) have "trim v = v" "toUpperCase v = v"
    by (auto intro!: trim_id toUpperCase_id simp: list_all_iff)
  with assms show ?thesis by (simp add: TicketNumber_create_def)
qed

lemma TicketNumber_generate_TKT:
  assumes "n < 10 ^ 40"
  shows "TicketNumber_generate n ''TKT'' = Inr (''TKT-'' @ padStart 6 (CHR ''0'') (showNat n))"
proof -
  have "length (showNat n) \<le> 40" using assms by (intro length_showNat) auto
  then have "length (padStart 6 (CHR ''0'') (showNat n)) \<le> 40" by (simp add: padStart_def)
  with padded_plain [of n] show ?thesis
    unfolding TicketNumber_generate_def
    by (subst TicketNumber_create_plain) (auto simp: list_all_iff isSpace_def upChar_def)
qed

lemma readNat_generated:
  assumes "n < 10 ^ 40" "TicketNumber_generate n ''TKT'' = Inr s"
  shows "readNat (drop 4 s) = n"
  using assms by (auto simp: TicketNumber_generate_TKT readNat_padStart)

lemma TicketNumber_create_idem: "TicketNumber_create v = Inr n \<Longrightarrow> TicketNumber_create n = Inr n"
  by (auto simp: TicketNumber_create_def Let_def trim_toUpperCase split: if_splits)

end
