(* ===== verification/Ticket_Children.thy ===== *)
theory Ticket_Children
  imports Prelude
begin

text \<open>
  The entities a ticket owns (\<^verbatim>\<open>src/modules/tickets/domain/ticket-*.entity.ts\<close>): comments, tags,
  watchers, assignment records, attachments, catalog categories and approvals. A record stands for the private
  \<^verbatim>\<open>props\<close> object of the class together with its getters, \<open>new_X\<close> for its constructor, which
  fills the defaults in; \<open>now\<close> is the value of \<^verbatim>\<open>new Date()\<close>. An approval is a small state
  machine: only a pending one can be decided, and the decision is final.
\<close>

subsection \<open>Comments\<close>

record TicketComment =
  c_id :: uid
  c_tenantId :: uid
  c_ticketId :: uid
  c_authorId :: uid
  c_comment :: string
  c_visibility :: string
  c_attachmentsCount :: int
  c_createdAt :: millis
  c_updatedAt :: millis

definition new_TicketComment ::
  "millis \<Rightarrow> uid \<Rightarrow> uid \<Rightarrow> uid \<Rightarrow> uid \<Rightarrow> string \<Rightarrow> string option \<Rightarrow> int option
   \<Rightarrow> millis option \<Rightarrow> millis option \<Rightarrow> TicketComment" where
  "new_TicketComment now eid tenantId ticketId authorId comment visibility attachmentsCount
     createdAt updatedAt =
     \<lparr>c_id = eid, c_tenantId = tenantId, c_ticketId = ticketId, c_authorId = authorId,
      c_comment = comment,
      c_visibility = (if truthy visibility then the visibility else ''PUBLIC''),
      c_attachmentsCount = (case attachmentsCount of None \<Rightarrow> 0 | Some n \<Rightarrow> n),
      c_createdAt = (case createdAt of None \<Rightarrow> now | Some d \<Rightarrow> d),
      c_updatedAt = (case updatedAt of None \<Rightarrow> now | Some d \<Rightarrow> d)\<rparr>"

definition TicketComment_isInternal :: "TicketComment \<Rightarrow> bool" where
  "TicketComment_isInternal c = (c_visibility c = ''INTERNAL'')"

definition TicketComment_incrementAttachments :: "millis \<Rightarrow> int \<Rightarrow> TicketComment \<Rightarrow> TicketComment" where
  "TicketComment_incrementAttachments now by c =
     c\<lparr>c_attachmentsCount := c_attachmentsCount c + by, c_updatedAt := now\<rparr>"

subsection \<open>Tags and watchers\<close>

record TicketTag =
  tg_id :: uid
  tg_tenantId :: uid
  tg_ticketId :: uid
  tg_tag :: string
  tg_color :: "string option"
  tg_createdAt :: millis
  tg_updatedAt :: millis

definition new_TicketTag ::
  "millis \<Rightarrow> uid \<Rightarrow> uid \<Rightarrow> uid \<Rightarrow> string \<Rightarrow> string option \<Rightarrow> millis option \<Rightarrow> millis option
   \<Rightarrow> TicketTag" where
  "new_TicketTag now eid tenantId ticketId tag color createdAt updatedAt =
     \<lparr>tg_id = eid, tg_tenantId = tenantId, tg_ticketId = ticketId, tg_tag = tag, tg_color = color,
      tg_createdAt = (case createdAt of None \<Rightarrow> now | Some d \<Rightarrow> d),
      tg_updatedAt = (case updatedAt of None \<Rightarrow> now | Some d \<Rightarrow> d)\<rparr>"

record TicketWatcher =
  w_id :: uid
  w_tenantId :: uid
  w_ticketId :: uid
  w_userId :: uid
  w_notificationPreferences :: jobject
  w_createdAt :: millis
  w_updatedAt :: millis

definition new_TicketWatcher ::
  "millis \<Rightarrow> uid \<Rightarrow> uid \<Rightarrow> uid \<Rightarrow> uid \<Rightarrow> jobject option \<Rightarrow> millis option \<Rightarrow> millis option
   \<Rightarrow> TicketWatcher" where
  "new_TicketWatcher now eid tenantId ticketId userId prefs createdAt updatedAt =
     \<lparr>w_id = eid, w_tenantId = tenantId, w_ticketId = ticketId, w_userId = userId,
      w_notificationPreferences = (case prefs of None \<Rightarrow> Map.empty | Some p \<Rightarrow> p),
      w_createdAt = (case createdAt of None \<Rightarrow> now | Some d \<Rightarrow> d),
      w_updatedAt = (case updatedAt of None \<Rightarrow> now | Some d \<Rightarrow> d)\<rparr>"

subsection \<open>Assignment records and attachments\<close>

record TicketAssignment =
  as_id :: uid
  as_tenantId :: uid
  as_ticketId :: uid
  as_agentId :: "uid option"
  as_teamId :: "uid option"
  as_assignmentType :: string
  as_assignedAt :: millis
  as_assignedBy :: "uid option"
  as_createdAt :: millis
  as_updatedAt :: millis

definition new_TicketAssignment ::
  "millis \<Rightarrow> uid \<Rightarrow> uid \<Rightarrow> uid \<Rightarrow> uid option \<Rightarrow> uid option \<Rightarrow> string option \<Rightarrow> uid option
   \<Rightarrow> millis option \<Rightarrow> millis option \<Rightarrow> millis option \<Rightarrow> TicketAssignment" where
  "new_TicketAssignment now eid tenantId ticketId agentId teamId assignmentType assignedBy
     assignedAt createdAt updatedAt =
     \<lparr>as_id = eid, as_tenantId = tenantId, as_ticketId = ticketId, as_agentId = agentId,
      as_teamId = teamId,
      as_assignmentType = (if truthy assignmentType then the assignmentType else ''MANUAL''),
      as_assignedAt = (case assignedAt of None \<Rightarrow> now | Some d \<Rightarrow> d),
      as_assignedBy = assignedBy,
      as_createdAt = (case createdAt of None \<Rightarrow> now | Some d \<Rightarrow> d),
      as_updatedAt = (case updatedAt of None \<Rightarrow> now | Some d \<Rightarrow> d)\<rparr>"

record TicketAttachment =
  at_id :: uid
  at_tenantId :: uid
  at_ticketId :: uid
  at_commentId :: "uid option"
  at_fileName :: string
  at_fileType :: "string option"
  at_fileSize :: "int option"
  at_fileUrl :: "string option"
  at_checksum :: "string option"
  at_createdAt :: millis
  at_updatedAt :: millis

definition new_TicketAttachment ::
  "millis \<Rightarrow> uid \<Rightarrow> uid \<Rightarrow> uid \<Rightarrow> uid option \<Rightarrow> string \<Rightarrow> string option \<Rightarrow> int option \<Rightarrow> string option
   \<Rightarrow> string option \<Rightarrow> millis option \<Rightarrow> millis option \<Rightarrow> TicketAttachment" where
  "new_TicketAttachment now eid tenantId ticketId commentId fileName fileType fileSize fileUrl
     checksum createdAt updatedAt =
     \<lparr>at_id = eid, at_tenantId = tenantId, at_ticketId = ticketId, at_commentId = commentId,
      at_fileName = fileName, at_fileType = fileType, at_fileSize = fileSize, at_fileUrl = fileUrl,
      at_checksum = checksum,
      at_createdAt = (case createdAt of None \<Rightarrow> now | Some d \<Rightarrow> d),
      at_updatedAt = (case updatedAt of None \<Rightarrow> now | Some d \<Rightarrow> d)\<rparr>"

subsection \<open>Catalog categories\<close>

record TicketCategoryDefinition =
  cat_id :: uid
  cat_tenantId :: uid
  cat_name :: string
  cat_description :: "string option"
  cat_color :: "string option"
  cat_isActive :: bool
  cat_createdAt :: millis
  cat_updatedAt :: millis

definition TicketCategoryDefinition_update ::
  "millis \<Rightarrow> string option \<Rightarrow> string option \<Rightarrow> string option \<Rightarrow> bool option
   \<Rightarrow> TicketCategoryDefinition \<Rightarrow> TicketCategoryDefinition" where
  "TicketCategoryDefinition_update now name description color isActive c =
     c\<lparr>cat_name := (case name of None \<Rightarrow> cat_name c | Some n \<Rightarrow> n),
       cat_description := (if description \<noteq> None then description else cat_description c),
       cat_color := (if color \<noteq> None then color else cat_color c),
       cat_isActive := (case isActive of None \<Rightarrow> cat_isActive c | Some b \<Rightarrow> b),
       cat_updatedAt := now\<rparr>"

subsection \<open>Approvals\<close>

datatype ApprovalStatusEnum = AP_PENDING | AP_APPROVED | AP_REJECTED | AP_CANCELLED

fun ApprovalStatus_value :: "ApprovalStatusEnum \<Rightarrow> string" where
  "ApprovalStatus_value AP_PENDING = ''PENDING''"
| "ApprovalStatus_value AP_APPROVED = ''APPROVED''"
| "ApprovalStatus_value AP_REJECTED = ''REJECTED''"
| "ApprovalStatus_value AP_CANCELLED = ''CANCELLED''"

datatype ApprovalTypeEnum = AT_REFUND | AT_CREDIT | AT_ESCALATION | AT_CUSTOM

fun ApprovalType_value :: "ApprovalTypeEnum \<Rightarrow> string" where
  "ApprovalType_value AT_REFUND = ''REFUND''"
| "ApprovalType_value AT_CREDIT = ''CREDIT''"
| "ApprovalType_value AT_ESCALATION = ''ESCALATION''"
| "ApprovalType_value AT_CUSTOM = ''CUSTOM''"

record TicketApproval =
  ap_id :: uid
  ap_tenantId :: uid
  ap_ticketId :: uid
  ap_approverId :: uid
  ap_status :: ApprovalStatusEnum
  ap_type :: ApprovalTypeEnum
  ap_comments :: "string option"
  ap_approvedAt :: "millis option"
  ap_createdAt :: millis
  ap_updatedAt :: millis

definition new_TicketApproval ::
  "millis \<Rightarrow> uid \<Rightarrow> uid \<Rightarrow> uid \<Rightarrow> uid \<Rightarrow> ApprovalStatusEnum option \<Rightarrow> ApprovalTypeEnum option
   \<Rightarrow> string option \<Rightarrow> millis option \<Rightarrow> millis option \<Rightarrow> millis option \<Rightarrow> TicketApproval" where
  "new_TicketApproval now eid tenantId ticketId approverId status ty comments approvedAt
     createdAt updatedAt =
     \<lparr>ap_id = eid, ap_tenantId = tenantId, ap_ticketId = ticketId, ap_approverId = approverId,
      ap_status = (case status of None \<Rightarrow> AP_PENDING | Some s \<Rightarrow> s),
      ap_type = (case ty of None \<Rightarrow> AT_CUSTOM | Some t \<Rightarrow> t),
      ap_comments = comments, ap_approvedAt = approvedAt,
      ap_createdAt = (case createdAt of None \<Rightarrow> now | Some d \<Rightarrow> d),
      ap_updatedAt = (case updatedAt of None \<Rightarrow> now | Some d \<Rightarrow> d)\<rparr>"

definition TicketApproval_isPending :: "TicketApproval \<Rightarrow> bool" where
  "TicketApproval_isPending a = (ap_status a = AP_PENDING)"

definition alreadyDecided :: "TicketApproval \<Rightarrow> exn" where
  "alreadyDecided a = Error (''Approval '' @ ap_id a @ '' is already '' @ ApprovalStatus_value (ap_status a))"

definition TicketApproval_approve ::
  "millis \<Rightarrow> string option \<Rightarrow> TicketApproval \<Rightarrow> exn + TicketApproval" where
  "TicketApproval_approve now comments a =
     (if \<not> TicketApproval_isPending a then Inl (alreadyDecided a)
      else Inr (a\<lparr>ap_status := AP_APPROVED,
                  ap_comments := (if comments = None then ap_comments a else comments),
                  ap_approvedAt := Some now, ap_updatedAt := now\<rparr>))"

definition TicketApproval_reject ::
  "millis \<Rightarrow> string option \<Rightarrow> TicketApproval \<Rightarrow> exn + TicketApproval" where
  "TicketApproval_reject now comments a =
     (if \<not> TicketApproval_isPending a then Inl (alreadyDecided a)
      else Inr (a\<lparr>ap_status := AP_REJECTED,
                  ap_comments := (if comments = None then ap_comments a else comments),
                  ap_approvedAt := Some now, ap_updatedAt := now\<rparr>))"

definition TicketApproval_cancel :: "millis \<Rightarrow> TicketApproval \<Rightarrow> exn + TicketApproval" where
  "TicketApproval_cancel now a =
     (if \<not> TicketApproval_isPending a then Inl (alreadyDecided a)
      else Inr (a\<lparr>ap_status := AP_CANCELLED, ap_updatedAt := now\<rparr>))"

subsection \<open>Decisions are final\<close>

text \<open>The three ways of deciding an approval, as one operation type.\<close>

datatype decision = Approve "string option" | Reject "string option" | Cancel

fun decide :: "millis \<Rightarrow> decision \<Rightarrow> TicketApproval \<Rightarrow> exn + TicketApproval" where
  "decide now (Approve c) a = TicketApproval_approve now c a"
| "decide now (Reject c) a = TicketApproval_reject now c a"
| "decide now Cancel a = TicketApproval_cancel now a"

lemmas decide_defs =
  TicketApproval_approve_def TicketApproval_reject_def TicketApproval_cancel_def
  TicketApproval_isPending_def

lemma decide_pending: "TicketApproval_isPending a \<Longrightarrow> \<exists>a'. decide now d a = Inr a'"
  by (cases d) (auto simp: decide_defs)

lemma decide_not_pending:
  "decide now d a = Inr a' \<Longrightarrow> TicketApproval_isPending a \<and> \<not> TicketApproval_isPending a'"
  by (cases d) (auto simp: decide_defs split: if_splits)

lemma decide_decided: "\<not> TicketApproval_isPending a \<Longrightarrow> decide now d a = Inl (alreadyDecided a)"
  by (cases d) (auto simp: decide_defs)

lemma decide_frame:
  "decide now d a = Inr a' \<Longrightarrow>
   ap_id a' = ap_id a \<and> ap_tenantId a' = ap_tenantId a \<and> ap_ticketId a' = ap_ticketId a \<and>
   ap_approverId a' = ap_approverId a \<and> ap_type a' = ap_type a"
  by (cases d) (auto simp: decide_defs split: if_splits)

end
