(* ===== verification/Ticket_Aggregate.thy ===== *)
theory Ticket_Aggregate
  imports Ticket_Values Ticket_Children
begin

text \<open>
  The aggregate root of the ticket module (\<^verbatim>\<open>src/modules/tickets/domain/ticket.aggregate.ts\<close>).
  The record \<open>Ticket\<close> is the private \<^verbatim>\<open>props\<close> object with the queue of domain events; one
  definition per method. The properties \<^verbatim>\<open>status\<close>, \<^verbatim>\<open>priority\<close>, \<^verbatim>\<open>subject\<close> and \<^verbatim>\<open>metadata\<close> are
  optional in the record although the interface declares them required: \<^verbatim>\<open>update\<close> spreads a
  partial object over the properties, and an own property with the value \<^verbatim>\<open>undefined\<close> erases
  what was there. Reading \<^verbatim>\<open>this.status.value\<close> afterwards throws, which the model shows as
  \<open>Inl TypeError\<close>. \<open>wf_ticket\<close> is the type invariant the interface declares.
\<close>

subsection \<open>Domain events\<close>

datatype ticket_event =
    TicketCreatedEvent uid uid string TicketPriorityEnum TicketStatusEnum
  | TicketUpdatedEvent uid uid TicketStatusEnum TicketPriorityEnum
  | TicketAssignedEvent uid uid uid "uid option"
  | TicketTransferredEvent uid uid "uid option" uid
  | TicketEscalatedEvent uid uid string TicketPriorityEnum
  | TicketResolvedEvent uid uid string
  | TicketClosedEvent uid uid "uid option"
  | TicketReopenedEvent uid uid "uid option"
  | TicketApprovalRequestedEvent uid uid uid uid ApprovalTypeEnum
  | TicketCommentedEvent uid uid uid uid string
  | TicketApprovedEvent uid uid uid uid
  | TicketRejectedEvent uid uid uid uid
  | SlaBreachedEvent uid uid uid string

subsection \<open>State\<close>

record Ticket =
  t_id :: uid
  t_tenantId :: uid
  t_ticketNumber :: string
  t_customerId :: "uid option"
  t_conversationId :: "uid option"
  t_assignedAgentId :: "uid option"
  t_assignedTeamId :: "uid option"
  t_categoryId :: "uid option"
  t_priority :: "TicketPriorityEnum option"
  t_status :: "TicketStatusEnum option"
  t_source :: TicketSourceEnum
  t_subject :: "string option"
  t_description :: "string option"
  t_resolutionSummary :: "string option"
  t_openedAt :: millis
  t_firstResponseAt :: "millis option"
  t_resolvedAt :: "millis option"
  t_closedAt :: "millis option"
  t_metadata :: "jobject option"
  t_createdAt :: millis
  t_updatedAt :: millis
  t_deletedAt :: "millis option"
  t_version :: nat
  t_comments :: "TicketComment list"
  t_tags :: "TicketTag list"
  t_watchers :: "TicketWatcher list"
  t_approvals :: "TicketApproval list"
  t_domainEvents :: "ticket_event list"

text \<open>What a caller passes to the constructor; the other properties take their defaults.\<close>

record TicketInit =
  i_tenantId :: uid
  i_ticketNumber :: string
  i_customerId :: "uid option"
  i_conversationId :: "uid option"
  i_assignedAgentId :: "uid option"
  i_assignedTeamId :: "uid option"
  i_categoryId :: "uid option"
  i_priority :: TicketPriorityEnum
  i_status :: TicketStatusEnum
  i_source :: TicketSourceEnum
  i_subject :: string
  i_description :: "string option"
  i_metadata :: "jobject option"

definition new_Ticket :: "millis \<Rightarrow> uid \<Rightarrow> TicketInit \<Rightarrow> Ticket" where
  "new_Ticket now tid p =
     \<lparr>t_id = tid, t_tenantId = i_tenantId p, t_ticketNumber = i_ticketNumber p,
      t_customerId = i_customerId p, t_conversationId = i_conversationId p,
      t_assignedAgentId = i_assignedAgentId p, t_assignedTeamId = i_assignedTeamId p,
      t_categoryId = i_categoryId p, t_priority = Some (i_priority p),
      t_status = Some (i_status p), t_source = i_source p, t_subject = Some (i_subject p),
      t_description = i_description p, t_resolutionSummary = None, t_openedAt = now,
      t_firstResponseAt = None, t_resolvedAt = None, t_closedAt = None,
      t_metadata = Some (case i_metadata p of None \<Rightarrow> Map.empty | Some m \<Rightarrow> m),
      t_createdAt = now, t_updatedAt = now, t_deletedAt = None, t_version = 1,
      t_comments = [], t_tags = [], t_watchers = [], t_approvals = [], t_domainEvents = []\<rparr>"

definition addDomainEvent :: "ticket_event \<Rightarrow> Ticket \<Rightarrow> Ticket" where
  "addDomainEvent e t = t\<lparr>t_domainEvents := t_domainEvents t @ [e]\<rparr>"

definition clearEvents :: "Ticket \<Rightarrow> Ticket" where
  "clearEvents t = t\<lparr>t_domainEvents := []\<rparr>"

subsection \<open>Methods\<close>

definition Ticket_create :: "millis \<Rightarrow> uid \<Rightarrow> TicketInit \<Rightarrow> Ticket" where
  "Ticket_create now tid p =
     addDomainEvent (TicketCreatedEvent (i_tenantId p) tid (i_subject p) (i_priority p) (i_status p))
       (new_Ticket now tid p)"

definition Ticket_touch :: "millis \<Rightarrow> Ticket \<Rightarrow> Ticket" where
  "Ticket_touch now t = t\<lparr>t_updatedAt := now, t_version := t_version t + 1\<rparr>"

definition Ticket_emitUpdated :: "Ticket \<Rightarrow> exn + Ticket" where
  "Ticket_emitUpdated t =
     rbind (deref (t_status t)) (\<lambda>s.
     rbind (deref (t_priority t)) (\<lambda>p.
     Inr (addDomainEvent (TicketUpdatedEvent (t_tenantId t) (t_id t) s p) t)))"

record TicketPatch =
  p_subject :: "string field"
  p_description :: "string field"
  p_priority :: "TicketPriorityEnum field"
  p_categoryId :: "uid field"
  p_status :: "TicketStatusEnum field"
  p_metadata :: "jobject field"

definition Ticket_assertStatus :: "Ticket \<Rightarrow> TicketStatusEnum \<Rightarrow> exn + unit" where
  "Ticket_assertStatus t nxt =
     rbind (deref (t_status t)) (\<lambda>s. TicketStatus_assertCanTransitionTo s nxt)"

definition Ticket_update :: "millis \<Rightarrow> TicketPatch \<Rightarrow> Ticket \<Rightarrow> exn + Ticket" where
  "Ticket_update now p t =
     rbind (case p_status p of Val s \<Rightarrow> Ticket_assertStatus t s | _ \<Rightarrow> Inr ()) (\<lambda>_.
     Ticket_emitUpdated (Ticket_touch now
       (t\<lparr>t_subject := spread (t_subject t) (p_subject p),
          t_description := spread (t_description t) (p_description p),
          t_priority := spread (t_priority t) (p_priority p),
          t_categoryId := spread (t_categoryId t) (p_categoryId p),
          t_status := spread (t_status t) (p_status p),
          t_metadata := spread (t_metadata t) (p_metadata p)\<rparr>)))"

definition Ticket_markFirstResponse :: "millis \<Rightarrow> Ticket \<Rightarrow> Ticket" where
  "Ticket_markFirstResponse now t =
     (if t_firstResponseAt t = None then Ticket_touch now (t\<lparr>t_firstResponseAt := Some now\<rparr>) else t)"

definition Ticket_assign :: "millis \<Rightarrow> uid \<Rightarrow> uid option \<Rightarrow> Ticket \<Rightarrow> exn + Ticket" where
  "Ticket_assign now agentId teamId t =
     rbind (deref (t_status t)) (\<lambda>s.
     Inr (addDomainEvent (TicketAssignedEvent (t_tenantId t) (t_id t) agentId teamId)
       (Ticket_touch now
         (t\<lparr>t_assignedAgentId := Some agentId,
            t_assignedTeamId := (if truthy teamId then teamId else t_assignedTeamId t),
            t_status := (if \<not> TicketStatus_isTerminal s then Some TS_ASSIGNED else t_status t)\<rparr>))))"

definition Ticket_transfer :: "millis \<Rightarrow> uid \<Rightarrow> Ticket \<Rightarrow> exn + Ticket" where
  "Ticket_transfer now toAgentId t =
     Inr (addDomainEvent
           (TicketTransferredEvent (t_tenantId t) (t_id t) (t_assignedAgentId t) toAgentId)
           (Ticket_touch now (t\<lparr>t_assignedAgentId := Some toAgentId, t_status := Some TS_ASSIGNED\<rparr>)))"

definition Ticket_start :: "millis \<Rightarrow> Ticket \<Rightarrow> exn + Ticket" where
  "Ticket_start now t =
     rbind (Ticket_assertStatus t TS_IN_PROGRESS) (\<lambda>_.
     Ticket_emitUpdated (Ticket_touch now (t\<lparr>t_status := Some TS_IN_PROGRESS\<rparr>)))"

definition Ticket_escalate :: "millis \<Rightarrow> string \<Rightarrow> Ticket \<Rightarrow> exn + Ticket" where
  "Ticket_escalate now reason t =
     rbind (deref (t_priority t)) (\<lambda>p.
     let p' = TicketPriority_escalated p
     in Inr (addDomainEvent (TicketEscalatedEvent (t_tenantId t) (t_id t) reason p')
               (Ticket_touch now (t\<lparr>t_priority := Some p'\<rparr>))))"

definition Ticket_hasPending :: "Ticket \<Rightarrow> bool" where
  "Ticket_hasPending t = list_ex TicketApproval_isPending (t_approvals t)"

definition Ticket_resolve ::
  "millis \<Rightarrow> string option \<Rightarrow> uid option \<Rightarrow> Ticket \<Rightarrow> exn + Ticket" where
  "Ticket_resolve now resolutionSummary resolvedBy t =
     (if Ticket_hasPending t then Inl (Error ''Cannot resolve ticket with pending approvals'')
      else rbind (Ticket_assertStatus t TS_RESOLVED) (\<lambda>_.
        Inr (addDomainEvent
              (TicketResolvedEvent (t_tenantId t) (t_id t) (case resolvedBy of None \<Rightarrow> [] | Some u \<Rightarrow> u))
              (Ticket_touch now
                (t\<lparr>t_status := Some TS_RESOLVED, t_resolvedAt := Some now,
                   t_resolutionSummary :=
                     (if truthy resolutionSummary then resolutionSummary
                      else t_resolutionSummary t)\<rparr>)))))"

definition Ticket_close :: "millis \<Rightarrow> uid option \<Rightarrow> Ticket \<Rightarrow> exn + Ticket" where
  "Ticket_close now closedBy t =
     (if Ticket_hasPending t then Inl (Error ''Cannot close ticket with pending approvals'')
      else rbind (Ticket_assertStatus t TS_CLOSED) (\<lambda>_.
        Inr (addDomainEvent (TicketClosedEvent (t_tenantId t) (t_id t) closedBy)
               (Ticket_touch now (t\<lparr>t_status := Some TS_CLOSED, t_closedAt := Some now\<rparr>)))))"

definition Ticket_reopen :: "millis \<Rightarrow> uid option \<Rightarrow> Ticket \<Rightarrow> exn + Ticket" where
  "Ticket_reopen now reopenedBy t =
     rbind (Ticket_assertStatus t TS_REOPENED) (\<lambda>_.
     Inr (addDomainEvent (TicketReopenedEvent (t_tenantId t) (t_id t) reopenedBy)
            (Ticket_touch now
              (t\<lparr>t_status := Some TS_REOPENED, t_resolvedAt := None, t_closedAt := None\<rparr>))))"

definition Ticket_cancel :: "millis \<Rightarrow> Ticket \<Rightarrow> exn + Ticket" where
  "Ticket_cancel now t =
     rbind (Ticket_assertStatus t TS_CANCELLED) (\<lambda>_.
     Ticket_emitUpdated (Ticket_touch now (t\<lparr>t_status := Some TS_CANCELLED\<rparr>)))"

definition Ticket_requestApproval :: "millis \<Rightarrow> TicketApproval \<Rightarrow> Ticket \<Rightarrow> Ticket" where
  "Ticket_requestApproval now a t =
     addDomainEvent
       (TicketApprovalRequestedEvent (t_tenantId t) (t_id t) (ap_id a) (ap_approverId a) (ap_type a))
       (Ticket_touch now
         (t\<lparr>t_approvals := t_approvals t @ [a], t_status := Some TS_APPROVAL_PENDING\<rparr>))"

definition Ticket_addComment :: "millis \<Rightarrow> TicketComment \<Rightarrow> Ticket \<Rightarrow> Ticket" where
  "Ticket_addComment now c t =
     addDomainEvent
       (TicketCommentedEvent (t_tenantId t) (t_id t) (c_id c) (c_authorId c) (c_visibility c))
       (Ticket_touch now (Ticket_markFirstResponse now (t\<lparr>t_comments := t_comments t @ [c]\<rparr>)))"

definition Ticket_addTag :: "millis \<Rightarrow> TicketTag \<Rightarrow> Ticket \<Rightarrow> Ticket" where
  "Ticket_addTag now tg t =
     (if list_ex (\<lambda>x. tg_tag x = tg_tag tg) (t_tags t) then t
      else Ticket_touch now (t\<lparr>t_tags := t_tags t @ [tg]\<rparr>))"

definition Ticket_removeTag :: "millis \<Rightarrow> string \<Rightarrow> Ticket \<Rightarrow> Ticket" where
  "Ticket_removeTag now tagValue t =
     Ticket_touch now (t\<lparr>t_tags := filter (\<lambda>x. tg_tag x \<noteq> tagValue) (t_tags t)\<rparr>)"

definition Ticket_addWatcher :: "millis \<Rightarrow> TicketWatcher \<Rightarrow> Ticket \<Rightarrow> Ticket" where
  "Ticket_addWatcher now w t =
     (if list_ex (\<lambda>x. w_userId x = w_userId w) (t_watchers t) then t
      else Ticket_touch now (t\<lparr>t_watchers := t_watchers t @ [w]\<rparr>))"

definition Ticket_removeWatcher :: "millis \<Rightarrow> uid \<Rightarrow> Ticket \<Rightarrow> Ticket" where
  "Ticket_removeWatcher now userId t =
     Ticket_touch now (t\<lparr>t_watchers := filter (\<lambda>x. w_userId x \<noteq> userId) (t_watchers t)\<rparr>)"

definition Ticket_setMetadata :: "millis \<Rightarrow> jobject \<Rightarrow> Ticket \<Rightarrow> Ticket" where
  "Ticket_setMetadata now m t =
     Ticket_touch now
       (t\<lparr>t_metadata := Some ((case t_metadata t of None \<Rightarrow> Map.empty | Some m0 \<Rightarrow> m0) ++ m)\<rparr>)"

definition Ticket_softDelete :: "millis \<Rightarrow> Ticket \<Rightarrow> Ticket" where
  "Ticket_softDelete now t = Ticket_touch now (t\<lparr>t_deletedAt := Some now\<rparr>)"

end
