(* ===== verification/Ticket_SLA.thy ===== *)
theory Ticket_SLA
  imports Prelude
begin

text \<open>
  The SLA clock of a ticket (\<^verbatim>\<open>src/modules/tickets/domain/ticket-sla.entity.ts\<close>): two deadlines
  that move forward while the clock is paused, and a breach flag that is raised once. The record
  is the \<^verbatim>\<open>props\<close> object with its getters. The second half relates a run of pauses and resumes to
  an abstract clock that only counts the time it was running.
\<close>

datatype SlaBreachType = RESPONSE | RESOLUTION

fun SlaBreachType_value :: "SlaBreachType \<Rightarrow> string" where
  "SlaBreachType_value RESPONSE = ''RESPONSE''"
| "SlaBreachType_value RESOLUTION = ''RESOLUTION''"

record TicketSLA =
  s_id :: uid
  s_tenantId :: uid
  s_ticketId :: uid
  s_policyId :: "uid option"
  s_responseDueAt :: "millis option"
  s_resolutionDueAt :: "millis option"
  s_breached :: bool
  s_breachedAt :: "millis option"
  s_remainingSeconds :: "int option"
  s_pausedAt :: "millis option"
  s_pausedSeconds :: int
  s_createdAt :: millis
  s_updatedAt :: millis

definition new_TicketSLA ::
  "millis \<Rightarrow> uid \<Rightarrow> uid \<Rightarrow> uid \<Rightarrow> uid option \<Rightarrow> millis option \<Rightarrow> millis option \<Rightarrow> bool option
   \<Rightarrow> millis option \<Rightarrow> int option \<Rightarrow> millis option \<Rightarrow> int option \<Rightarrow> millis option \<Rightarrow> millis option
   \<Rightarrow> TicketSLA" where
  "new_TicketSLA now sid tenantId ticketId policyId responseDueAt resolutionDueAt breached
     breachedAt remainingSeconds pausedAt pausedSeconds createdAt updatedAt =
     \<lparr>s_id = sid, s_tenantId = tenantId, s_ticketId = ticketId, s_policyId = policyId,
      s_responseDueAt = responseDueAt, s_resolutionDueAt = resolutionDueAt,
      s_breached = (case breached of None \<Rightarrow> False | Some b \<Rightarrow> b), s_breachedAt = breachedAt,
      s_remainingSeconds = remainingSeconds, s_pausedAt = pausedAt,
      s_pausedSeconds = (case pausedSeconds of None \<Rightarrow> 0 | Some n \<Rightarrow> n),
      s_createdAt = (case createdAt of None \<Rightarrow> now | Some d \<Rightarrow> d),
      s_updatedAt = (case updatedAt of None \<Rightarrow> now | Some d \<Rightarrow> d)\<rparr>"

definition TicketSLA_isPaused :: "TicketSLA \<Rightarrow> bool" where
  "TicketSLA_isPaused s = (s_pausedAt s \<noteq> None)"

text \<open>\<open>at\<close> is the argument of the method, \<open>now\<close> the \<^verbatim>\<open>new Date()\<close> of the time stamp.\<close>

definition TicketSLA_pause :: "millis \<Rightarrow> millis \<Rightarrow> TicketSLA \<Rightarrow> TicketSLA" where
  "TicketSLA_pause now at s =
     (if s_breached s \<or> s_pausedAt s \<noteq> None then s
      else s\<lparr>s_pausedAt := Some at, s_updatedAt := now\<rparr>)"

definition TicketSLA_resume :: "millis \<Rightarrow> millis \<Rightarrow> TicketSLA \<Rightarrow> TicketSLA" where
  "TicketSLA_resume now at s =
     (case s_pausedAt s of
        None \<Rightarrow> s
      | Some p \<Rightarrow>
          let elapsedMs = at - p; elapsedSecs = roundDiv elapsedMs 1000
          in s\<lparr>s_responseDueAt := map_option (\<lambda>d. d + elapsedMs) (s_responseDueAt s),
               s_resolutionDueAt := map_option (\<lambda>d. d + elapsedMs) (s_resolutionDueAt s),
               s_pausedSeconds := s_pausedSeconds s + elapsedSecs,
               s_pausedAt := None, s_updatedAt := now\<rparr>)"

definition pastDue :: "millis option \<Rightarrow> millis \<Rightarrow> bool" where
  "pastDue due at = (case due of None \<Rightarrow> False | Some d \<Rightarrow> d \<le> at)"

definition TicketSLA_detectBreach ::
  "millis \<Rightarrow> bool \<Rightarrow> bool \<Rightarrow> TicketSLA \<Rightarrow> SlaBreachType option" where
  "TicketSLA_detectBreach at responded resolved s =
     (if s_breached s then None
      else if s_pausedAt s \<noteq> None then None
      else if \<not> resolved \<and> pastDue (s_resolutionDueAt s) at then Some RESOLUTION
      else if \<not> responded \<and> pastDue (s_responseDueAt s) at then Some RESPONSE
      else None)"

definition TicketSLA_markBreached :: "millis \<Rightarrow> millis \<Rightarrow> TicketSLA \<Rightarrow> TicketSLA" where
  "TicketSLA_markBreached now at s =
     s\<lparr>s_breached := True, s_breachedAt := Some at, s_remainingSeconds := Some 0, s_updatedAt := now\<rparr>"

definition TicketSLA_recalculateRemaining :: "millis \<Rightarrow> millis \<Rightarrow> TicketSLA \<Rightarrow> TicketSLA" where
  "TicketSLA_recalculateRemaining now at s =
     (if s_pausedAt s \<noteq> None then s
      else case s_resolutionDueAt s of
        None \<Rightarrow> s\<lparr>s_remainingSeconds := None\<rparr>
      | Some d \<Rightarrow> s\<lparr>s_remainingSeconds := Some (max 0 ((d - at) div 1000)), s_updatedAt := now\<rparr>)"

subsection \<open>Basic facts\<close>

lemma pastDue_simps [simp]: "\<not> pastDue None at" "pastDue (Some d) at \<longleftrightarrow> d \<le> at"
  by (auto simp: pastDue_def)

lemma detectBreach_marked [simp]:
  "TicketSLA_detectBreach at r v (TicketSLA_markBreached now at' s) = None"
  by (simp add: TicketSLA_detectBreach_def TicketSLA_markBreached_def)

lemma pause_idem: "TicketSLA_pause now' at' (TicketSLA_pause now at s) = TicketSLA_pause now at s"
  by (simp add: TicketSLA_pause_def)

lemma resume_not_paused [simp]: "s_pausedAt (TicketSLA_resume now at s) = None"
  by (auto simp: TicketSLA_resume_def Let_def split: option.splits)

lemma resume_running [simp]: "s_pausedAt s = None \<Longrightarrow> TicketSLA_resume now at s = s"
  by (simp add: TicketSLA_resume_def)

subsection \<open>Pauses and the running time\<close>

text \<open>Switching the clock at given instants; \<open>True\<close> pauses, \<open>False\<close> resumes.\<close>

fun switch :: "bool \<times> millis \<Rightarrow> TicketSLA \<Rightarrow> TicketSLA" where
  "switch (True, at) s = TicketSLA_pause at at s"
| "switch (False, at) s = TicketSLA_resume at at s"

fun switches :: "(bool \<times> millis) list \<Rightarrow> TicketSLA \<Rightarrow> TicketSLA" where
  "switches [] s = s"
| "switches (e # es) s = switches es (switch e s)"

text \<open>
  The abstract clock: the time it has stood still so far, given the switches in order. A clock
  paused since \<open>p\<close> and observed at \<open>at\<close> has also stood still from \<open>p\<close> to \<open>at\<close>.
\<close>

fun stoodStill :: "millis option \<Rightarrow> (bool \<times> millis) list \<Rightarrow> millis \<Rightarrow> int" where
  "stoodStill p [] at = (case p of None \<Rightarrow> 0 | Some q \<Rightarrow> at - q)"
| "stoodStill None ((True, a) # es) at = stoodStill (Some a) es at"
| "stoodStill (Some q) ((True, a) # es) at = stoodStill (Some q) es at"
| "stoodStill None ((False, a) # es) at = stoodStill None es at"
| "stoodStill (Some q) ((False, a) # es) at = (a - q) + stoodStill None es at"

text \<open>A deadline as an observer at \<open>at\<close> has to read it: a paused clock is running late by the
  time since the pause began.\<close>

definition effectiveDue :: "millis option \<Rightarrow> TicketSLA \<Rightarrow> millis \<Rightarrow> millis option" where
  "effectiveDue due s at = map_option (\<lambda>d. d + (case s_pausedAt s of None \<Rightarrow> 0 | Some p \<Rightarrow> at - p)) due"

lemma switches_unbreached:
  "\<not> s_breached s \<Longrightarrow> \<not> s_breached (switches es s)"
proof (induction es arbitrary: s)
  case (Cons e es)
  obtain b a where "e = (b, a)" by (cases e)
  with Cons show ?case
    by (cases b) (auto simp: TicketSLA_pause_def TicketSLA_resume_def Let_def split: option.splits)
qed simp

lemma switches_effective_resolution:
  "\<not> s_breached s \<Longrightarrow> s_resolutionDueAt s = Some d \<Longrightarrow>
   effectiveDue (s_resolutionDueAt (switches es s)) (switches es s) at
     = Some (d + stoodStill (s_pausedAt s) es at)"
proof (induction es arbitrary: s d)
  case Nil
  then show ?case by (simp add: effectiveDue_def)
next
  case (Cons e es)
  obtain b a where e: "e = (b, a)" by (cases e)
  show ?case
  proof (cases b)
    case True
    with Cons e show ?thesis
      by (cases "s_pausedAt s") (auto simp: TicketSLA_pause_def)
  next
    case False
    show ?thesis
    proof (cases "s_pausedAt s")
      case None
      with Cons e False show ?thesis by simp
    next
      case (Some p)
      let ?s = "TicketSLA_resume a a s"
      have "\<not> s_breached ?s" "s_resolutionDueAt ?s = Some (d + (a - p))" "s_pausedAt ?s = None"
        using Cons.prems Some by (auto simp: TicketSLA_resume_def Let_def)
      from Cons.IH [OF this(1,2)] this(3) Some e False show ?thesis by simp
    qed
  qed
qed

lemma detectBreach_resolution_iff:
  assumes "\<not> s_breached s" "s_pausedAt s = None"
  shows "TicketSLA_detectBreach at responded False s = Some RESOLUTION \<longleftrightarrow>
         (\<exists>d. s_resolutionDueAt s = Some d \<and> d \<le> at)"
  using assms by (cases "s_resolutionDueAt s") (auto simp: TicketSLA_detectBreach_def)

end
