(* ===== verification/Ticket_Store.thy ===== *)
theory Ticket_Store
  imports Ticket_Aggregate Ticket_SLA
begin

text \<open>
  The ticket repository (\<^verbatim>\<open>src/modules/tickets/repositories/drizzle-ticket.repository.ts\<close>) and the
  row mapper (\<^verbatim>\<open>ticket.mapper.ts\<close>). A table is the list of its rows in insertion order; a query
  with equalities in its \<^verbatim>\<open>where\<close> is a filter, \<^verbatim>\<open>insert\<close> appends, \<^verbatim>\<open>update ... set\<close> maps over the
  matching rows and leaves a column alone when its value is \<^verbatim>\<open>undefined\<close>. The primary keys and
  the unique indexes of \<^verbatim>\<open>packages/database/src/schema.ts\<close> decide what \<^verbatim>\<open>onConflictDoNothing\<close>
  skips and which inserts fail. \<open>save\<close> is one transaction: an exception leaves the database as
  it was. What the services rely on is proved in \<open>Ticket_Store_Facts\<close>.
\<close>

subsection \<open>Tables\<close>

record TicketRow =
  r_id :: uid
  r_tenantId :: uid
  r_ticketNumber :: string
  r_customerId :: "uid option"
  r_conversationId :: "uid option"
  r_assignedAgentId :: "uid option"
  r_assignedTeamId :: "uid option"
  r_categoryId :: "uid option"
  r_priority :: string
  r_status :: string
  r_source :: string
  r_subject :: string
  r_description :: "string option"
  r_resolutionSummary :: "string option"
  r_openedAt :: millis
  r_firstResponseAt :: "millis option"
  r_resolvedAt :: "millis option"
  r_closedAt :: "millis option"
  r_metadata :: "jobject option"
  r_createdAt :: millis
  r_updatedAt :: millis
  r_deletedAt :: "millis option"
  r_version :: nat

record TicketDb =
  tickets :: "TicketRow list"
  ticketComments :: "TicketComment list"
  ticketTags :: "TicketTag list"
  ticketWatchers :: "TicketWatcher list"
  ticketApprovals :: "TicketApproval list"
  ticketAssignments :: "TicketAssignment list"
  ticketAttachments :: "TicketAttachment list"
  ticketSla :: "TicketSLA list"

subsection \<open>Mapper\<close>

definition commentToDomain :: "TicketComment \<Rightarrow> TicketComment" where
  "commentToDomain r =
     new_TicketComment 0 (c_id r) (c_tenantId r) (c_ticketId r) (c_authorId r) (c_comment r)
       (Some (if c_visibility r = [] then ''PUBLIC'' else c_visibility r))
       (Some (c_attachmentsCount r)) (Some (c_createdAt r)) (Some (c_updatedAt r))"

definition tagToDomain :: "TicketTag \<Rightarrow> TicketTag" where
  "tagToDomain r =
     new_TicketTag 0 (tg_id r) (tg_tenantId r) (tg_ticketId r) (tg_tag r) (orUndefined (tg_color r))
       (Some (tg_createdAt r)) (Some (tg_updatedAt r))"

definition watcherToDomain :: "TicketWatcher \<Rightarrow> TicketWatcher" where
  "watcherToDomain r =
     new_TicketWatcher 0 (w_id r) (w_tenantId r) (w_ticketId r) (w_userId r)
       (Some (w_notificationPreferences r)) (Some (w_createdAt r)) (Some (w_updatedAt r))"

definition approvalToDomain :: "TicketApproval \<Rightarrow> TicketApproval" where
  "approvalToDomain r =
     new_TicketApproval 0 (ap_id r) (ap_tenantId r) (ap_ticketId r) (ap_approverId r)
       (Some (ap_status r)) (Some (ap_type r)) (orUndefined (ap_comments r)) (ap_approvedAt r)
       (Some (ap_createdAt r)) (Some (ap_updatedAt r))"

definition assignmentToDomain :: "TicketAssignment \<Rightarrow> TicketAssignment" where
  "assignmentToDomain r =
     new_TicketAssignment 0 (as_id r) (as_tenantId r) (as_ticketId r) (orUndefined (as_agentId r))
       (orUndefined (as_teamId r))
       (Some (if as_assignmentType r = [] then ''MANUAL'' else as_assignmentType r))
       (orUndefined (as_assignedBy r)) (Some (as_assignedAt r)) (Some (as_createdAt r))
       (Some (as_updatedAt r))"

definition attachmentToDomain :: "TicketAttachment \<Rightarrow> TicketAttachment" where
  "attachmentToDomain r =
     new_TicketAttachment 0 (at_id r) (at_tenantId r) (at_ticketId r) (orUndefined (at_commentId r))
       (at_fileName r) (orUndefined (at_fileType r)) (at_fileSize r) (orUndefined (at_fileUrl r))
       (orUndefined (at_checksum r)) (Some (at_createdAt r)) (Some (at_updatedAt r))"

definition slaToDomain :: "TicketSLA \<Rightarrow> TicketSLA" where
  "slaToDomain r =
     new_TicketSLA 0 (s_id r) (s_tenantId r) (s_ticketId r) (orUndefined (s_policyId r))
       (s_responseDueAt r) (s_resolutionDueAt r) (Some (s_breached r)) (s_breachedAt r)
       (s_remainingSeconds r) (s_pausedAt r) (Some (s_pausedSeconds r)) (Some (s_createdAt r))
       (Some (s_updatedAt r))"

definition toDomain ::
  "TicketRow \<Rightarrow> TicketComment list \<Rightarrow> TicketTag list \<Rightarrow> TicketWatcher list \<Rightarrow> TicketApproval list
   \<Rightarrow> exn + Ticket" where
  "toDomain raw rawComments rawTags rawWatchers rawApprovals =
     rbind (TicketNumber_create (r_ticketNumber raw)) (\<lambda>number.
     rbind (TicketPriority_create (r_priority raw)) (\<lambda>prio.
     rbind (TicketStatus_create (r_status raw)) (\<lambda>status.
     rbind (TicketSource_create (r_source raw)) (\<lambda>source.
     Inr \<lparr>t_id = r_id raw, t_tenantId = r_tenantId raw, t_ticketNumber = number,
          t_customerId = orUndefined (r_customerId raw),
          t_conversationId = orUndefined (r_conversationId raw),
          t_assignedAgentId = orUndefined (r_assignedAgentId raw),
          t_assignedTeamId = orUndefined (r_assignedTeamId raw),
          t_categoryId = orUndefined (r_categoryId raw),
          t_priority = Some prio, t_status = Some status, t_source = source,
          t_subject = Some (r_subject raw), t_description = orUndefined (r_description raw),
          t_resolutionSummary = orUndefined (r_resolutionSummary raw),
          t_openedAt = r_openedAt raw, t_firstResponseAt = r_firstResponseAt raw,
          t_resolvedAt = r_resolvedAt raw, t_closedAt = r_closedAt raw,
          t_metadata = Some (case r_metadata raw of None \<Rightarrow> Map.empty | Some m \<Rightarrow> m),
          t_createdAt = r_createdAt raw, t_updatedAt = r_updatedAt raw,
          t_deletedAt = r_deletedAt raw,
          t_version = (if r_version raw = 0 then 1 else r_version raw),
          t_comments = map commentToDomain rawComments, t_tags = map tagToDomain rawTags,
          t_watchers = map watcherToDomain rawWatchers,
          t_approvals = map approvalToDomain rawApprovals, t_domainEvents = []\<rparr>))))"

subsection \<open>Reading tickets\<close>

definition isTicketRow :: "uid \<Rightarrow> uid \<Rightarrow> TicketRow \<Rightarrow> bool" where
  "isTicketRow tid tenantId r = (r_id r = tid \<and> r_tenantId r = tenantId)"

definition loadComments :: "uid \<Rightarrow> uid \<Rightarrow> TicketDb \<Rightarrow> TicketComment list" where
  "loadComments tid tenantId db =
     sort_key c_createdAt
       (filter (\<lambda>c. c_ticketId c = tid \<and> c_tenantId c = tenantId) (ticketComments db))"

definition loadTags :: "uid \<Rightarrow> uid \<Rightarrow> TicketDb \<Rightarrow> TicketTag list" where
  "loadTags tid tenantId db =
     filter (\<lambda>g. tg_ticketId g = tid \<and> tg_tenantId g = tenantId) (ticketTags db)"

definition loadWatchers :: "uid \<Rightarrow> uid \<Rightarrow> TicketDb \<Rightarrow> TicketWatcher list" where
  "loadWatchers tid tenantId db =
     filter (\<lambda>w. w_ticketId w = tid \<and> w_tenantId w = tenantId) (ticketWatchers db)"

definition loadApprovals :: "uid \<Rightarrow> uid \<Rightarrow> TicketDb \<Rightarrow> TicketApproval list" where
  "loadApprovals tid tenantId db =
     filter (\<lambda>a. ap_ticketId a = tid \<and> ap_tenantId a = tenantId) (ticketApprovals db)"

definition findById :: "uid \<Rightarrow> uid \<Rightarrow> TicketDb \<Rightarrow> exn + Ticket option" where
  "findById tid tenantId db =
     (case List.find (isTicketRow tid tenantId) (tickets db) of
        None \<Rightarrow> Inr None
      | Some row \<Rightarrow>
          rbind (toDomain row (loadComments tid tenantId db) (loadTags tid tenantId db)
                   (loadWatchers tid tenantId db) (loadApprovals tid tenantId db))
            (\<lambda>t. Inr (Some t)))"

definition findByNumber :: "uid \<Rightarrow> string \<Rightarrow> TicketDb \<Rightarrow> exn + Ticket option" where
  "findByNumber tenantId number db =
     (case List.find (\<lambda>r. r_tenantId r = tenantId \<and> r_ticketNumber r = number) (tickets db) of
        None \<Rightarrow> Inr None
      | Some row \<Rightarrow> rbind (toDomain row [] [] [] []) (\<lambda>t. Inr (Some t)))"

definition nextSequence :: "uid \<Rightarrow> TicketDb \<Rightarrow> nat" where
  "nextSequence tenantId db = length (filter (\<lambda>r. r_tenantId r = tenantId) (tickets db)) + 1"

subsection \<open>Writing tickets\<close>

text \<open>\<^verbatim>\<open>insert ... onConflictDoNothing()\<close> on the child tables, with their unique keys.\<close>

definition insertComment :: "TicketComment \<Rightarrow> TicketComment list \<Rightarrow> TicketComment list" where
  "insertComment c rows = (if list_ex (\<lambda>r. c_id r = c_id c) rows then rows else rows @ [c])"

definition insertTag :: "TicketTag \<Rightarrow> TicketTag list \<Rightarrow> TicketTag list" where
  "insertTag g rows =
     (if list_ex (\<lambda>r. tg_id r = tg_id g \<or>
           (tg_tenantId r = tg_tenantId g \<and> tg_ticketId r = tg_ticketId g \<and> tg_tag r = tg_tag g)) rows
      then rows else rows @ [g\<lparr>tg_color := orUndefined (tg_color g)\<rparr>])"

definition insertWatcher :: "TicketWatcher \<Rightarrow> TicketWatcher list \<Rightarrow> TicketWatcher list" where
  "insertWatcher w rows =
     (if list_ex (\<lambda>r. w_id r = w_id w \<or>
           (w_tenantId r = w_tenantId w \<and> w_ticketId r = w_ticketId w \<and> w_userId r = w_userId w)) rows
      then rows else rows @ [w])"

text \<open>\<^verbatim>\<open>onConflictDoUpdate\<close> on the primary key.\<close>

definition upsertApproval :: "millis \<Rightarrow> TicketApproval \<Rightarrow> TicketApproval list \<Rightarrow> TicketApproval list" where
  "upsertApproval now a rows =
     (if list_ex (\<lambda>r. ap_id r = ap_id a) rows
      then map (\<lambda>r. if ap_id r = ap_id a
                    then r\<lparr>ap_status := ap_status a, ap_comments := orUndefined (ap_comments a),
                           ap_approvedAt := ap_approvedAt a, ap_updatedAt := now\<rparr>
                    else r) rows
      else rows @ [a\<lparr>ap_comments := orUndefined (ap_comments a)\<rparr>])"

text \<open>\<^verbatim>\<open>update tickets set raw\<close>: every column of \<^verbatim>\<open>raw\<close>, and \<^verbatim>\<open>updatedAt\<close>; not \<^verbatim>\<open>createdAt\<close>.\<close>

definition rawUpdate ::
  "millis \<Rightarrow> Ticket \<Rightarrow> TicketPriorityEnum \<Rightarrow> TicketStatusEnum \<Rightarrow> TicketRow \<Rightarrow> TicketRow" where
  "rawUpdate now t prio status r =
     r\<lparr>r_id := t_id t, r_tenantId := t_tenantId t, r_ticketNumber := t_ticketNumber t,
       r_customerId := orUndefined (t_customerId t),
       r_conversationId := orUndefined (t_conversationId t),
       r_assignedAgentId := orUndefined (t_assignedAgentId t),
       r_assignedTeamId := orUndefined (t_assignedTeamId t),
       r_categoryId := orUndefined (t_categoryId t),
       r_priority := TicketPriority_value prio, r_status := TicketStatus_value status,
       r_source := TicketSource_value (t_source t),
       r_subject := (case t_subject t of None \<Rightarrow> r_subject r | Some x \<Rightarrow> x),
       r_description := orUndefined (t_description t),
       r_resolutionSummary := orUndefined (t_resolutionSummary t),
       r_openedAt := t_openedAt t, r_firstResponseAt := t_firstResponseAt t,
       r_resolvedAt := t_resolvedAt t, r_closedAt := t_closedAt t, r_metadata := t_metadata t,
       r_deletedAt := t_deletedAt t, r_version := t_version t, r_updatedAt := now\<rparr>"

definition rawInsert :: "Ticket \<Rightarrow> TicketPriorityEnum \<Rightarrow> TicketStatusEnum \<Rightarrow> string \<Rightarrow> TicketRow" where
  "rawInsert t prio status subject =
     \<lparr>r_id = t_id t, r_tenantId = t_tenantId t, r_ticketNumber = t_ticketNumber t,
      r_customerId = orUndefined (t_customerId t),
      r_conversationId = orUndefined (t_conversationId t),
      r_assignedAgentId = orUndefined (t_assignedAgentId t),
      r_assignedTeamId = orUndefined (t_assignedTeamId t),
      r_categoryId = orUndefined (t_categoryId t),
      r_priority = TicketPriority_value prio, r_status = TicketStatus_value status,
      r_source = TicketSource_value (t_source t), r_subject = subject,
      r_description = orUndefined (t_description t),
      r_resolutionSummary = orUndefined (t_resolutionSummary t),
      r_openedAt = t_openedAt t, r_firstResponseAt = t_firstResponseAt t,
      r_resolvedAt = t_resolvedAt t, r_closedAt = t_closedAt t, r_metadata = t_metadata t,
      r_createdAt = t_createdAt t, r_updatedAt = t_createdAt t, r_deletedAt = t_deletedAt t,
      r_version = t_version t\<rparr>"

text \<open>The unique index on (tenant, number) and the primary key, as an insert meets them.\<close>

definition ticketConflict :: "Ticket \<Rightarrow> TicketRow list \<Rightarrow> bool" where
  "ticketConflict t rows =
     list_ex (\<lambda>r. r_id r = t_id t \<or>
       (r_tenantId r = t_tenantId t \<and> r_ticketNumber r = t_ticketNumber t)) rows"

definition saveRow :: "millis \<Rightarrow> Ticket \<Rightarrow> uid \<Rightarrow> TicketRow list \<Rightarrow> exn + TicketRow list" where
  "saveRow now t tenantId rows =
     rbind (deref (t_priority t)) (\<lambda>prio.
     rbind (deref (t_status t)) (\<lambda>status.
     if list_ex (isTicketRow (t_id t) tenantId) rows
     then Inr (map (\<lambda>r. if isTicketRow (t_id t) tenantId r then rawUpdate now t prio status r else r) rows)
     else case t_subject t of
            None \<Rightarrow> Inl (Error ''null value in column subject'')
          | Some subject \<Rightarrow>
              if ticketConflict t rows then Inl (Error ''duplicate key value violates unique constraint'')
              else Inr (rows @ [rawInsert t prio status subject])))"

definition save :: "millis \<Rightarrow> Ticket \<Rightarrow> uid \<Rightarrow> TicketDb \<Rightarrow> exn + TicketDb" where
  "save now t tenantId db =
     rbind (saveRow now t tenantId (tickets db)) (\<lambda>rows.
     Inr (db\<lparr>tickets := rows,
             ticketComments := fold insertComment (t_comments t) (ticketComments db),
             ticketTags := fold insertTag (t_tags t) (ticketTags db),
             ticketWatchers := fold insertWatcher (t_watchers t) (ticketWatchers db),
             ticketApprovals := fold (upsertApproval now) (t_approvals t) (ticketApprovals db)\<rparr>))"

definition deleteTicket :: "millis \<Rightarrow> uid \<Rightarrow> uid \<Rightarrow> TicketDb \<Rightarrow> bool \<times> TicketDb" where
  "deleteTicket now tid tenantId db =
     (if \<not> list_ex (isTicketRow tid tenantId) (tickets db) then (False, db)
      else (True, db\<lparr>tickets :=
              map (\<lambda>r. if isTicketRow tid tenantId r
                       then r\<lparr>r_deletedAt := Some now, r_status := ''CANCELLED'', r_updatedAt := now\<rparr>
                       else r) (tickets db)\<rparr>))"

subsection \<open>Queries\<close>

record TicketQueryOptions =
  q_status :: "string option"
  q_priority :: "string option"
  q_source :: "string option"
  q_customerId :: "uid option"
  q_categoryId :: "uid option"
  q_conversationId :: "uid option"
  q_assignedAgentId :: "uid option"
  q_assignedTeamId :: "uid option"
  q_unassigned :: bool

text \<open>\<^verbatim>\<open>buildConditions\<close> without the \<^verbatim>\<open>ilike\<close> search on the subject.\<close>

definition whenSet :: "string option \<Rightarrow> (string \<Rightarrow> bool) \<Rightarrow> bool" where
  "whenSet x P = (if truthy x then P (the x) else True)"

definition buildConditions :: "uid \<Rightarrow> TicketQueryOptions \<Rightarrow> TicketRow \<Rightarrow> bool" where
  "buildConditions tenantId q r =
     (r_tenantId r = tenantId \<and> r_deletedAt r = None \<and>
      whenSet (q_status q) (\<lambda>v. r_status r = v) \<and>
      whenSet (q_priority q) (\<lambda>v. r_priority r = v) \<and>
      whenSet (q_source q) (\<lambda>v. r_source r = v) \<and>
      whenSet (q_customerId q) (\<lambda>v. r_customerId r = Some v) \<and>
      whenSet (q_categoryId q) (\<lambda>v. r_categoryId r = Some v) \<and>
      whenSet (q_conversationId q) (\<lambda>v. r_conversationId r = Some v) \<and>
      whenSet (q_assignedAgentId q) (\<lambda>v. r_assignedAgentId r = Some v) \<and>
      whenSet (q_assignedTeamId q) (\<lambda>v. r_assignedTeamId r = Some v) \<and>
      (q_unassigned q \<longrightarrow> r_assignedAgentId r = None))"

definition findComments :: "uid \<Rightarrow> uid \<Rightarrow> bool \<Rightarrow> TicketDb \<Rightarrow> TicketComment list" where
  "findComments tenantId ticketId customerVisibleOnly db =
     map commentToDomain (sort_key c_createdAt
       (filter (\<lambda>c. c_tenantId c = tenantId \<and> c_ticketId c = ticketId \<and>
                   (customerVisibleOnly \<longrightarrow> c_visibility c = ''PUBLIC'')) (ticketComments db)))"

definition addAssignment :: "TicketAssignment \<Rightarrow> uid \<Rightarrow> TicketDb \<Rightarrow> TicketDb" where
  "addAssignment a tenantId db =
     db\<lparr>ticketAssignments := ticketAssignments db @
          [a\<lparr>as_tenantId := tenantId, as_agentId := orUndefined (as_agentId a),
             as_teamId := orUndefined (as_teamId a), as_assignedBy := orUndefined (as_assignedBy a)\<rparr>]\<rparr>"

definition addAttachment :: "TicketAttachment \<Rightarrow> uid \<Rightarrow> TicketDb \<Rightarrow> TicketDb" where
  "addAttachment a tenantId db =
     db\<lparr>ticketAttachments := ticketAttachments db @
          [a\<lparr>at_tenantId := tenantId, at_commentId := orUndefined (at_commentId a),
             at_fileType := orUndefined (at_fileType a), at_fileUrl := orUndefined (at_fileUrl a),
             at_checksum := orUndefined (at_checksum a)\<rparr>]\<rparr>"

definition findAttachments :: "uid \<Rightarrow> uid \<Rightarrow> TicketDb \<Rightarrow> TicketAttachment list" where
  "findAttachments tenantId ticketId db =
     map attachmentToDomain
       (filter (\<lambda>a. at_tenantId a = tenantId \<and> at_ticketId a = ticketId) (ticketAttachments db))"

definition findAssignments :: "uid \<Rightarrow> uid \<Rightarrow> TicketDb \<Rightarrow> TicketAssignment list" where
  "findAssignments tenantId ticketId db =
     map assignmentToDomain (sort_key (\<lambda>a. - as_assignedAt a)
       (filter (\<lambda>a. as_tenantId a = tenantId \<and> as_ticketId a = ticketId) (ticketAssignments db)))"

subsection \<open>SLA rows and approvals\<close>

definition isSlaRow :: "uid \<Rightarrow> uid \<Rightarrow> TicketSLA \<Rightarrow> bool" where
  "isSlaRow tenantId ticketId r = (s_tenantId r = tenantId \<and> s_ticketId r = ticketId)"

definition slaRaw :: "millis \<Rightarrow> TicketSLA \<Rightarrow> uid \<Rightarrow> TicketSLA" where
  "slaRaw now sla tenantId =
     sla\<lparr>s_tenantId := tenantId, s_policyId := orUndefined (s_policyId sla), s_updatedAt := now\<rparr>"

definition upsertSla :: "millis \<Rightarrow> TicketSLA \<Rightarrow> uid \<Rightarrow> TicketDb \<Rightarrow> TicketDb" where
  "upsertSla now sla tenantId db =
     (if list_ex (isSlaRow tenantId (s_ticketId sla)) (ticketSla db)
      then db\<lparr>ticketSla := map (\<lambda>r. if isSlaRow tenantId (s_ticketId sla) r
                                   then (slaRaw now sla tenantId)\<lparr>s_createdAt := s_createdAt r\<rparr>
                                   else r) (ticketSla db)\<rparr>
      else db\<lparr>ticketSla := ticketSla db @ [slaRaw now sla tenantId]\<rparr>)"

definition getSla :: "uid \<Rightarrow> uid \<Rightarrow> TicketDb \<Rightarrow> TicketSLA option" where
  "getSla tenantId ticketId db =
     map_option slaToDomain (List.find (isSlaRow tenantId ticketId) (ticketSla db))"

definition dueRow :: "uid option \<Rightarrow> millis \<Rightarrow> TicketSLA \<Rightarrow> bool" where
  "dueRow tenantId now r =
     (\<not> s_breached r \<and> pastDue (s_resolutionDueAt r) now \<and> whenSet tenantId (\<lambda>v. s_tenantId r = v))"

definition findDueSlas :: "uid option \<Rightarrow> millis \<Rightarrow> nat \<Rightarrow> TicketDb \<Rightarrow> TicketSLA list" where
  "findDueSlas tenantId now limit db =
     map slaToDomain (take limit
       (sort_key (\<lambda>r. case s_resolutionDueAt r of None \<Rightarrow> 0 | Some d \<Rightarrow> d)
         (filter (dueRow tenantId now) (ticketSla db))))"

definition isApprovalRow :: "uid \<Rightarrow> uid \<Rightarrow> TicketApproval \<Rightarrow> bool" where
  "isApprovalRow tenantId approvalId r = (ap_tenantId r = tenantId \<and> ap_id r = approvalId)"

definition saveApproval :: "millis \<Rightarrow> TicketApproval \<Rightarrow> uid \<Rightarrow> TicketDb \<Rightarrow> TicketDb" where
  "saveApproval now a tenantId db =
     (let raw = a\<lparr>ap_tenantId := tenantId, ap_comments := orUndefined (ap_comments a), ap_updatedAt := now\<rparr>
      in if list_ex (isApprovalRow tenantId (ap_id a)) (ticketApprovals db)
         then db\<lparr>ticketApprovals := map (\<lambda>r. if isApprovalRow tenantId (ap_id a) r
                   then raw\<lparr>ap_createdAt := ap_createdAt r\<rparr> else r) (ticketApprovals db)\<rparr>
         else db\<lparr>ticketApprovals := ticketApprovals db @ [raw]\<rparr>)"

definition getApproval :: "uid \<Rightarrow> uid \<Rightarrow> TicketDb \<Rightarrow> TicketApproval option" where
  "getApproval tenantId approvalId db =
     map_option approvalToDomain (List.find (isApprovalRow tenantId approvalId) (ticketApprovals db))"

definition findApprovals :: "uid \<Rightarrow> uid \<Rightarrow> TicketDb \<Rightarrow> TicketApproval list" where
  "findApprovals tenantId ticketId db =
     map approvalToDomain (sort_key (\<lambda>a. - ap_createdAt a)
       (filter (\<lambda>a. ap_tenantId a = tenantId \<and> ap_ticketId a = ticketId) (ticketApprovals db)))"

end
