(* ===== verification/Ticket_Lifecycle.thy ===== *)
theory Ticket_Lifecycle
  imports Ticket_Aggregate "HOL-Library.Sublist"
begin

text \<open>
  What the methods of the ticket aggregate guarantee. The public mutating methods are collected
  in one operation type, \<open>ticket_op\<close>, and run by \<open>apply_op\<close>; \<open>reachable\<close> are the tickets a
  sequence of successful operations can produce from a newly created one. The theory shows the
  type invariant the interface declares, what no operation changes, which operations can leave a
  terminal status, that versions and event queues only grow, and the branches of \<^verbatim>\<open>update\<close>,
  \<^verbatim>\<open>resolve\<close> and \<^verbatim>\<open>close\<close> that throw.
\<close>

datatype ticket_op =
    OpUpdate TicketPatch
  | OpMarkFirstResponse
  | OpAssign uid "uid option"
  | OpTransfer uid
  | OpStart
  | OpEscalate string
  | OpResolve "string option" "uid option"
  | OpClose "uid option"
  | OpReopen "uid option"
  | OpCancel
  | OpRequestApproval TicketApproval
  | OpAddComment TicketComment
  | OpAddTag TicketTag
  | OpRemoveTag string
  | OpAddWatcher TicketWatcher
  | OpRemoveWatcher uid
  | OpSetMetadata jobject
  | OpSoftDelete

fun apply_op :: "millis \<Rightarrow> ticket_op \<Rightarrow> Ticket \<Rightarrow> exn + Ticket" where
  "apply_op now (OpUpdate p) t = Ticket_update now p t"
| "apply_op now OpMarkFirstResponse t = Inr (Ticket_markFirstResponse now t)"
| "apply_op now (OpAssign a g) t = Ticket_assign now a g t"
| "apply_op now (OpTransfer a) t = Ticket_transfer now a t"
| "apply_op now OpStart t = Ticket_start now t"
| "apply_op now (OpEscalate r) t = Ticket_escalate now r t"
| "apply_op now (OpResolve s u) t = Ticket_resolve now s u t"
| "apply_op now (OpClose u) t = Ticket_close now u t"
| "apply_op now (OpReopen u) t = Ticket_reopen now u t"
| "apply_op now OpCancel t = Ticket_cancel now t"
| "apply_op now (OpRequestApproval a) t = Inr (Ticket_requestApproval now a t)"
| "apply_op now (OpAddComment c) t = Inr (Ticket_addComment now c t)"
| "apply_op now (OpAddTag g) t = Inr (Ticket_addTag now g t)"
| "apply_op now (OpRemoveTag g) t = Inr (Ticket_removeTag now g t)"
| "apply_op now (OpAddWatcher w) t = Inr (Ticket_addWatcher now w t)"
| "apply_op now (OpRemoveWatcher u) t = Inr (Ticket_removeWatcher now u t)"
| "apply_op now (OpSetMetadata m) t = Inr (Ticket_setMetadata now m t)"
| "apply_op now OpSoftDelete t = Inr (Ticket_softDelete now t)"

fun apply_ops :: "(millis \<times> ticket_op) list \<Rightarrow> Ticket \<Rightarrow> exn + Ticket" where
  "apply_ops [] t = Inr t"
| "apply_ops ((now, op) # ops) t = rbind (apply_op now op t) (apply_ops ops)"

lemmas ticket_defs =
  Ticket_update_def Ticket_markFirstResponse_def Ticket_assign_def Ticket_transfer_def
  Ticket_start_def Ticket_escalate_def Ticket_resolve_def Ticket_close_def Ticket_reopen_def
  Ticket_cancel_def Ticket_requestApproval_def Ticket_addComment_def Ticket_addTag_def
  Ticket_removeTag_def Ticket_addWatcher_def Ticket_removeWatcher_def Ticket_setMetadata_def
  Ticket_softDelete_def

lemmas ticket_base_defs =
  addDomainEvent_def Ticket_touch_def Ticket_emitUpdated_def Ticket_assertStatus_def Let_def

subsection \<open>The guards\<close>

lemma emitUpdated_Inr_iff:
  "Ticket_emitUpdated t = Inr t' \<longleftrightarrow>
   (\<exists>s p. t_status t = Some s \<and> t_priority t = Some p \<and>
      t' = addDomainEvent (TicketUpdatedEvent (t_tenantId t) (t_id t) s p) t)"
  by (auto simp: Ticket_emitUpdated_def rbind_Inr_iff)

lemma assertStatus_Inr_iff:
  "Ticket_assertStatus t nxt = Inr u \<longleftrightarrow>
   (\<exists>s. t_status t = Some s \<and> TicketStatus_canTransitionTo s nxt)"
  by (auto simp: Ticket_assertStatus_def rbind_Inr_iff)

lemmas guard_iffs = emitUpdated_Inr_iff assertStatus_Inr_iff rbind_Inr_iff

subsection \<open>Frame: what no operation changes\<close>

definition same_identity :: "Ticket \<Rightarrow> Ticket \<Rightarrow> bool" where
  "same_identity t t' \<longleftrightarrow>
     t_id t' = t_id t \<and> t_tenantId t' = t_tenantId t \<and> t_ticketNumber t' = t_ticketNumber t \<and>
     t_customerId t' = t_customerId t \<and> t_conversationId t' = t_conversationId t \<and>
     t_source t' = t_source t \<and> t_openedAt t' = t_openedAt t \<and> t_createdAt t' = t_createdAt t"

text \<open>A change by which a ticket evolves: identity kept, version not decreased, events appended.\<close>

definition evolves :: "Ticket \<Rightarrow> Ticket \<Rightarrow> bool" where
  "evolves t t' \<longleftrightarrow>
     same_identity t t' \<and> t_version t \<le> t_version t' \<and> prefix (t_domainEvents t) (t_domainEvents t') \<and>
     (t_firstResponseAt t \<noteq> None \<longrightarrow> t_firstResponseAt t' = t_firstResponseAt t)"

lemma evolves_refl [simp]: "evolves t t"
  by (simp add: evolves_def same_identity_def)

lemma evolves_trans: "evolves t u \<Longrightarrow> evolves u v \<Longrightarrow> evolves t v"
  unfolding evolves_def same_identity_def by (auto intro: prefix_order.trans)

lemma apply_op_evolves: "apply_op now op t = Inr t' \<Longrightarrow> evolves t t'"
proof (induction now op t rule: apply_op.induct)
  case (3 now a g t)
  then show ?case
    by (auto simp: Ticket_assign_def ticket_base_defs evolves_def same_identity_def rbind_Inr_iff)
qed (auto simp: ticket_defs ticket_base_defs evolves_def same_identity_def rbind_Inr_iff
      split: if_splits field.splits)

lemma apply_ops_evolves: "apply_ops ops t = Inr t' \<Longrightarrow> evolves t t'"
  by (induction ops t rule: apply_ops.induct)
    (auto simp: rbind_Inr_iff dest!: apply_op_evolves intro: evolves_trans)

text \<open>Operations that always count as a modification.\<close>

fun quiet :: "ticket_op \<Rightarrow> bool" where
  "quiet OpMarkFirstResponse = True"
| "quiet (OpAddTag g) = True"
| "quiet (OpAddWatcher w) = True"
| "quiet _ = False"

lemma apply_op_version:
  assumes "apply_op now op t = Inr t'" "\<not> quiet op"
  shows "t_version t < t_version t' \<and> t_updatedAt t' = now"
  using assms
proof (induction now op t rule: apply_op.induct)
  case (3 now a g t)
  then show ?case by (auto simp: Ticket_assign_def ticket_base_defs rbind_Inr_iff)
qed (auto simp: ticket_defs ticket_base_defs rbind_Inr_iff split: if_splits field.splits)

subsection \<open>The type invariant\<close>

definition wf_ticket :: "Ticket \<Rightarrow> bool" where
  "wf_ticket t \<longleftrightarrow>
     t_status t \<noteq> None \<and> t_priority t \<noteq> None \<and> t_subject t \<noteq> None \<and> 1 \<le> t_version t \<and>
     distinct (map tg_tag (t_tags t)) \<and> distinct (map w_userId (t_watchers t))"

text \<open>Patches that do not carry an own \<^verbatim>\<open>subject\<close> with the value \<^verbatim>\<open>undefined\<close>.\<close>

fun clean_op :: "ticket_op \<Rightarrow> bool" where
  "clean_op (OpUpdate p) = (p_subject p \<noteq> Undef)"
| "clean_op _ = True"

lemma wf_create [wf_intros]: "wf_ticket (Ticket_create now tid p)"
  by (simp add: wf_ticket_def Ticket_create_def new_Ticket_def addDomainEvent_def)

lemma spread_not_None: "f \<noteq> Undef \<Longrightarrow> \<exists>y. spread (Some x) f = Some y"
  by (cases f) auto

lemma apply_op_wf [wf_intros]:
  assumes "apply_op now op t = Inr t'" "wf_ticket t" "clean_op op"
  shows "wf_ticket t'"
proof (cases op)
  case (OpUpdate p)
  with assms(3) have "p_subject p \<noteq> Undef" by simp
  with OpUpdate assms show ?thesis
    by (auto simp: Ticket_update_def ticket_base_defs wf_ticket_def rbind_Inr_iff
      intro: spread_not_None split: field.splits)
next
  case (OpAddTag g)
  with assms show ?thesis
    by (force simp: Ticket_addTag_def Ticket_touch_def wf_ticket_def list_ex_iff split: if_splits)
next
  case (OpAddWatcher w)
  with assms show ?thesis
    by (force simp: Ticket_addWatcher_def Ticket_touch_def wf_ticket_def list_ex_iff split: if_splits)
qed (use assms in \<open>auto simp: ticket_defs ticket_base_defs wf_ticket_def rbind_Inr_iff
        distinct_map_filter split: if_splits\<close>)

inductive reachable :: "Ticket \<Rightarrow> bool" where
  created: "reachable (Ticket_create now tid p)"
| step: "reachable t \<Longrightarrow> clean_op op \<Longrightarrow> apply_op now op t = Inr t' \<Longrightarrow> reachable t'"

lemma reachable_wf: "reachable t \<Longrightarrow> wf_ticket t"
  by (induction rule: reachable.induct) (auto intro: wf_intros)

subsection \<open>Operations that leave the status alone\<close>

fun keeps_status :: "ticket_op \<Rightarrow> bool" where
  "keeps_status OpMarkFirstResponse = True"
| "keeps_status (OpEscalate r) = True"
| "keeps_status (OpAddComment c) = True"
| "keeps_status (OpAddTag g) = True"
| "keeps_status (OpRemoveTag g) = True"
| "keeps_status (OpAddWatcher w) = True"
| "keeps_status (OpRemoveWatcher u) = True"
| "keeps_status (OpSetMetadata m) = True"
| "keeps_status OpSoftDelete = True"
| "keeps_status _ = False"

lemma apply_op_keeps_status:
  assumes "apply_op now op t = Inr t'" "keeps_status op"
  shows "t_status t' = t_status t \<and> t_closedAt t' = t_closedAt t \<and> t_resolvedAt t' = t_resolvedAt t"
  using assms
  by (induction now op t rule: apply_op.induct)
    (auto simp: ticket_defs ticket_base_defs rbind_Inr_iff)

subsection \<open>Terminal statuses\<close>

definition terminal :: "Ticket \<Rightarrow> bool" where
  "terminal t \<longleftrightarrow> (\<exists>s. t_status t = Some s \<and> TicketStatus_isTerminal s)"

text \<open>The two methods that set a status without asking \<^verbatim>\<open>canTransitionTo\<close>.\<close>

fun unguarded :: "ticket_op \<Rightarrow> bool" where
  "unguarded (OpTransfer a) = True"
| "unguarded (OpRequestApproval a) = True"
| "unguarded _ = False"

lemma terminal_exit_status:
  assumes "apply_op now op t = Inr t'" "terminal t" "\<not> terminal t'"
  shows "unguarded op \<or> t_status t' = Some TS_REOPENED"
  using assms
  by (cases op)
    (auto simp: ticket_defs ticket_base_defs terminal_def rbind_Inr_iff TicketStatus_canTransitionTo_def
      split: if_splits field.splits)

lemma unguarded_leaves:
  assumes "unguarded op"
  shows "\<exists>t'. apply_op now op t = Inr t' \<and> \<not> terminal t'"
  using assms by (cases op) (auto simp: ticket_defs ticket_base_defs terminal_def)

subsection \<open>Time stamps of the dedicated methods\<close>

text \<open>The operations other than the generic \<^verbatim>\<open>update\<close> of the status and the two unguarded ones.\<close>

fun dedicated :: "ticket_op \<Rightarrow> bool" where
  "dedicated (OpUpdate p) = (p_status p = Absent)"
| "dedicated op = (\<not> unguarded op)"

definition stamps_ok :: "Ticket \<Rightarrow> bool" where
  "stamps_ok t \<longleftrightarrow>
     (t_closedAt t \<noteq> None \<longleftrightarrow> t_status t = Some TS_CLOSED) \<and>
     (t_status t = Some TS_RESOLVED \<longrightarrow> t_resolvedAt t \<noteq> None) \<and>
     (t_status t = Some TS_REOPENED \<longrightarrow> t_resolvedAt t = None)"

lemma canTransitionTo_cases:
  "TicketStatus_canTransitionTo s TS_IN_PROGRESS \<longleftrightarrow> s \<noteq> TS_CLOSED \<and> s \<noteq> TS_CANCELLED"
  "TicketStatus_canTransitionTo s TS_RESOLVED \<longleftrightarrow> s \<noteq> TS_CLOSED \<and> s \<noteq> TS_CANCELLED"
  "TicketStatus_canTransitionTo s TS_CLOSED \<longleftrightarrow> s \<noteq> TS_CLOSED \<and> s \<noteq> TS_CANCELLED"
  "TicketStatus_canTransitionTo s TS_CANCELLED \<longleftrightarrow> s \<noteq> TS_CLOSED \<and> s \<noteq> TS_CANCELLED"
  by (simp_all add: canTransitionTo_other)

lemma apply_op_stamps:
  assumes "apply_op now op t = Inr t'" "stamps_ok t" "dedicated op"
  shows "stamps_ok t'"
proof (cases "keeps_status op")
  case True
  with apply_op_keeps_status [OF assms(1)] assms(2) show ?thesis by (simp add: stamps_ok_def)
next
  case False
  with assms show ?thesis
  proof (induction now op t rule: apply_op.induct)
    case (3 now a g t)
    then obtain s where "t_status t = Some s" by (cases "t_status t") (auto simp: Ticket_assign_def)
    with 3 show ?case by (cases s) (auto simp: Ticket_assign_def ticket_base_defs stamps_ok_def)
  qed (auto simp: Ticket_update_def Ticket_start_def Ticket_resolve_def Ticket_close_def
         Ticket_reopen_def Ticket_cancel_def ticket_base_defs stamps_ok_def rbind_Inr_iff
         canTransitionTo_cases split: if_splits)
qed

lemma apply_ops_stamps:
  "apply_ops ops t = Inr t' \<Longrightarrow> stamps_ok t \<Longrightarrow> list_all (dedicated \<circ> snd) ops \<Longrightarrow> stamps_ok t'"
  by (induction ops t rule: apply_ops.induct) (auto simp: rbind_Inr_iff dest: apply_op_stamps)

subsection \<open>Pending approvals\<close>

lemma resolve_blocked:
  "Ticket_hasPending t \<Longrightarrow> \<exists>m. Ticket_resolve now s u t = Inl (Error m)"
  by (simp add: Ticket_resolve_def)

lemma close_blocked:
  "Ticket_hasPending t \<Longrightarrow> \<exists>m. Ticket_close now u t = Inl (Error m)"
  by (simp add: Ticket_close_def)

end
