(* ===== verification/Keyed_Store.thy ===== *)
theory Keyed_Store
  imports Prelude
begin

text \<open>
  Tables as lists, and the contract of a store with an upsert by key: a reader finds what was
  written last under a key (as far as the caller controls the columns) and other keys are left
  alone. The locale derives what clients use for sequences of writes. It is interpreted for the
  SLA rows, the approval rows and the circuit breaker cache.
\<close>

subsection \<open>Lists as tables\<close>

lemma find_map_upd:
  assumes "\<And>r. P r \<Longrightarrow> P (f r)"
  shows "List.find P (map (\<lambda>r. if P r then f r else r) rows) = map_option f (List.find P rows)"
  using assms by (induction rows) auto

lemma find_map_other:
  assumes "\<And>r. P r \<Longrightarrow> \<not> Q r" "\<And>r. P r \<Longrightarrow> \<not> Q (f r)"
  shows "List.find Q (map (\<lambda>r. if P r then f r else r) rows) = List.find Q rows"
  using assms by (induction rows) auto

lemma find_append_new: "\<not> list_ex P rows \<Longrightarrow> List.find P (rows @ [r]) = (if P r then Some r else None)"
  by (induction rows) auto

lemma find_append_other: "\<not> P r \<Longrightarrow> List.find P (rows @ [r]) = List.find P rows"
  by (induction rows) auto

lemma list_ex_find: "list_ex P rows \<Longrightarrow> \<exists>r. List.find P rows = Some r \<and> P r"
  by (induction rows) auto

lemma find_None_list_ex: "List.find P rows = None \<longleftrightarrow> \<not> list_ex P rows"
  by (induction rows) auto

subsection \<open>The contract of an upsert by key\<close>

locale keyed_store =
  fixes lookup :: "'k \<Rightarrow> 'db \<Rightarrow> 'v option"
    and put :: "'v \<Rightarrow> 'db \<Rightarrow> 'db"
    and key :: "'v \<Rightarrow> 'k"
    and view :: "'v \<Rightarrow> 'w"
  assumes lookup_put: "map_option view (lookup (key v) (put v db)) = Some (view v)"
    and lookup_put_other: "k \<noteq> key v \<Longrightarrow> lookup k (put v db) = lookup k db"
begin

lemma lookup_puts_other: "k \<notin> key ` set vs \<Longrightarrow> lookup k (fold put vs db) = lookup k db"
  by (induction vs arbitrary: db) (auto simp: lookup_put_other)

lemma last_write_wins:
  assumes "key v \<notin> key ` set ws"
  shows "map_option view (lookup (key v) (fold put (us @ v # ws) db)) = Some (view v)"
  using assms by (simp add: lookup_puts_other lookup_put)

lemma overwrite: "key u = key v \<Longrightarrow> map_option view (lookup (key u) (put v (put u db))) = Some (view v)"
  by (simp add: lookup_put)

lemma lookup_put_cases:
  "map_option view (lookup k (put v db)) = (if k = key v then Some (view v) else map_option view (lookup k db))"
  by (simp add: lookup_put lookup_put_other)

end

end
