(* ===== verification/Ticket_Store_Facts.thy ===== *)
theory Ticket_Store_Facts
  imports Ticket_Store Ticket_Lifecycle Keyed_Store
begin

text \<open>
  What the repository guarantees. The contract \<open>keyed_store\<close> of a table with an upsert by key is
  interpreted for the SLA rows and for the approval rows. For tickets,
  \<open>save\<close> followed by \<open>findById\<close> returns the saved aggregate up to the normalisation the code
  performs; child rows are only ever added; generated ticket numbers never collide.
\<close>

subsection \<open>SLA rows\<close>

text \<open>The columns a caller controls: not the row's time stamps, and an empty policy id is none.\<close>

definition sla_view :: "TicketSLA \<Rightarrow> TicketSLA" where
  "sla_view s = s\<lparr>s_policyId := orUndefined (s_policyId s), s_createdAt := 0, s_updatedAt := 0\<rparr>"

definition getSlaK :: "uid \<times> uid \<Rightarrow> TicketDb \<Rightarrow> TicketSLA option" where
  "getSlaK k db = getSla (fst k) (snd k) db"

definition putSla :: "millis \<Rightarrow> TicketSLA \<Rightarrow> TicketDb \<Rightarrow> TicketDb" where
  "putSla now s db = upsertSla now s (s_tenantId s) db"

definition slaKey :: "TicketSLA \<Rightarrow> uid \<times> uid" where
  "slaKey s = (s_tenantId s, s_ticketId s)"

lemma slaToDomain_eq: "slaToDomain r = r\<lparr>s_policyId := orUndefined (s_policyId r)\<rparr>"
  by (simp add: slaToDomain_def new_TicketSLA_def)

lemma isSlaRow_slaRaw [simp]:
  "isSlaRow ten tid ((slaRaw now s ten)\<lparr>s_createdAt := c\<rparr>) \<longleftrightarrow> s_ticketId s = tid"
  "isSlaRow ten tid (slaRaw now s ten) \<longleftrightarrow> s_ticketId s = tid"
  by (auto simp: isSlaRow_def slaRaw_def)

lemma getSla_upsert:
  "\<exists>c. getSla ten (s_ticketId s) (upsertSla now s ten db) = Some ((slaRaw now s ten)\<lparr>s_createdAt := c\<rparr>)"
proof (cases "list_ex (isSlaRow ten (s_ticketId s)) (ticketSla db)")
  case True
  then obtain r where "List.find (isSlaRow ten (s_ticketId s)) (ticketSla db) = Some r"
    by (auto dest: list_ex_find)
  moreover have "List.find (isSlaRow ten (s_ticketId s))
      (map (\<lambda>r. if isSlaRow ten (s_ticketId s) r then (slaRaw now s ten)\<lparr>s_createdAt := s_createdAt r\<rparr> else r)
        (ticketSla db)) =
      map_option (\<lambda>r. (slaRaw now s ten)\<lparr>s_createdAt := s_createdAt r\<rparr>)
        (List.find (isSlaRow ten (s_ticketId s)) (ticketSla db))"
    by (rule find_map_upd) simp
  ultimately show ?thesis using True
    by (simp add: getSla_def upsertSla_def slaToDomain_eq)
      (rule exI [of _ "s_createdAt r"], simp add: slaRaw_def)
next
  case False
  then show ?thesis
    by (simp add: getSla_def upsertSla_def find_append_new slaToDomain_eq)
      (rule exI [of _ "s_createdAt s"], simp add: slaRaw_def)
qed

lemma getSla_upsert_other:
  assumes "(ten', tid) \<noteq> (ten, s_ticketId s)"
  shows "getSla ten' tid (upsertSla now s ten db) = getSla ten' tid db"
proof -
  have "\<not> isSlaRow ten' tid (slaRaw now s ten)" "\<And>c. \<not> isSlaRow ten' tid ((slaRaw now s ten)\<lparr>s_createdAt := c\<rparr>)"
    using assms by (auto simp: isSlaRow_def slaRaw_def)
  moreover have "\<And>r. isSlaRow ten (s_ticketId s) r \<Longrightarrow> \<not> isSlaRow ten' tid r"
    using assms by (auto simp: isSlaRow_def)
  ultimately show ?thesis
    by (simp add: getSla_def upsertSla_def find_append_other find_map_other)
qed

interpretation sla_rows: keyed_store getSlaK "putSla now" slaKey sla_view
proof unfold_locales
  fix s :: TicketSLA and db :: TicketDb
  obtain c where "getSla (s_tenantId s) (s_ticketId s) (upsertSla now s (s_tenantId s) db) =
      Some ((slaRaw now s (s_tenantId s))\<lparr>s_createdAt := c\<rparr>)" using getSla_upsert by blast
  then show "map_option sla_view (getSlaK (slaKey s) (putSla now s db)) = Some (sla_view s)"
    by (simp add: getSlaK_def putSla_def slaKey_def slaRaw_def sla_view_def)
next
  fix k s and db :: TicketDb
  assume "k \<noteq> slaKey s"
  then show "getSlaK k (putSla now s db) = getSlaK k db"
    by (cases k) (simp add: getSlaK_def putSla_def slaKey_def getSla_upsert_other)
qed

subsection \<open>Approval rows\<close>

definition approval_view :: "TicketApproval \<Rightarrow> TicketApproval" where
  "approval_view a = a\<lparr>ap_comments := orUndefined (ap_comments a), ap_createdAt := 0, ap_updatedAt := 0\<rparr>"

definition getApprovalK :: "uid \<times> uid \<Rightarrow> TicketDb \<Rightarrow> TicketApproval option" where
  "getApprovalK k db = getApproval (fst k) (snd k) db"

definition putApproval :: "millis \<Rightarrow> TicketApproval \<Rightarrow> TicketDb \<Rightarrow> TicketDb" where
  "putApproval now a db = saveApproval now a (ap_tenantId a) db"

definition approvalKey :: "TicketApproval \<Rightarrow> uid \<times> uid" where
  "approvalKey a = (ap_tenantId a, ap_id a)"

lemma approvalToDomain_eq: "approvalToDomain r = r\<lparr>ap_comments := orUndefined (ap_comments r)\<rparr>"
  by (simp add: approvalToDomain_def new_TicketApproval_def)

definition approvalRaw :: "millis \<Rightarrow> TicketApproval \<Rightarrow> TicketApproval" where
  "approvalRaw now a = a\<lparr>ap_comments := orUndefined (ap_comments a), ap_updatedAt := now\<rparr>"

lemma isApprovalRow_raw [simp]:
  "isApprovalRow ten ai (approvalRaw now a) \<longleftrightarrow> isApprovalRow ten ai a"
  "isApprovalRow ten ai ((approvalRaw now a)\<lparr>ap_createdAt := c\<rparr>) \<longleftrightarrow> isApprovalRow ten ai a"
  by (simp_all add: isApprovalRow_def approvalRaw_def)

lemma isApprovalRow_self [simp]: "isApprovalRow (ap_tenantId a) (ap_id a) a"
  by (simp add: isApprovalRow_def)

lemma putApproval_eq:
  "ticketApprovals (putApproval now a db) =
   (let P = isApprovalRow (ap_tenantId a) (ap_id a)
    in if list_ex P (ticketApprovals db)
       then map (\<lambda>r. if P r then (approvalRaw now a)\<lparr>ap_createdAt := ap_createdAt r\<rparr> else r) (ticketApprovals db)
       else ticketApprovals db @ [approvalRaw now a])"
  by (simp add: putApproval_def saveApproval_def Let_def approvalRaw_def)

interpretation approval_rows: keyed_store getApprovalK "putApproval now" approvalKey approval_view
proof unfold_locales
  fix a :: TicketApproval and db :: TicketDb
  let ?P = "isApprovalRow (ap_tenantId a) (ap_id a)"
  have upd: "List.find ?P
      (map (\<lambda>r. if ?P r then (approvalRaw now a)\<lparr>ap_createdAt := ap_createdAt r\<rparr> else r) (ticketApprovals db)) =
      map_option (\<lambda>r. (approvalRaw now a)\<lparr>ap_createdAt := ap_createdAt r\<rparr>) (List.find ?P (ticketApprovals db))"
    by (rule find_map_upd) simp
  show "map_option approval_view (getApprovalK (approvalKey a) (putApproval now a db)) = Some (approval_view a)"
  proof (cases "list_ex ?P (ticketApprovals db)")
    case True
    then obtain r where "List.find ?P (ticketApprovals db) = Some r" by (auto dest: list_ex_find)
    with True upd show ?thesis
      by (simp add: getApprovalK_def approvalKey_def getApproval_def putApproval_eq approvalToDomain_eq)
        (simp add: approvalRaw_def approval_view_def)
  next
    case False
    then show ?thesis
      by (simp add: getApprovalK_def approvalKey_def getApproval_def putApproval_eq find_append_new
            approvalToDomain_eq)
        (simp add: approvalRaw_def approval_view_def)
  qed
next
  fix k a and db :: TicketDb
  assume k: "k \<noteq> approvalKey a"
  obtain ten ai where [simp]: "k = (ten, ai)" by (cases k)
  have "\<And>r. isApprovalRow (ap_tenantId a) (ap_id a) r \<Longrightarrow> \<not> isApprovalRow ten ai r"
    "\<not> isApprovalRow ten ai a"
    using k by (auto simp: isApprovalRow_def approvalKey_def)
  then show "getApprovalK k (putApproval now a db) = getApprovalK k db"
    by (simp add: getApprovalK_def getApproval_def putApproval_eq Let_def find_append_other find_map_other)
qed

subsection \<open>Tickets: what a reader sees after a save\<close>

lemma isTicketRow_rawUpdate [simp]:
  "isTicketRow tid ten (rawUpdate now t p st r) \<longleftrightarrow> t_id t = tid \<and> t_tenantId t = ten"
  by (simp add: isTicketRow_def rawUpdate_def)

lemma isTicketRow_rawInsert [simp]:
  "isTicketRow tid ten (rawInsert t p st sub) \<longleftrightarrow> t_id t = tid \<and> t_tenantId t = ten"
  by (simp add: isTicketRow_def rawInsert_def)

text \<open>The row a successful save leaves under the ticket's key.\<close>

lemma saveRow_find:
  assumes "saveRow now t (t_tenantId t) rows = Inr rows'" "t_status t = Some st" "t_priority t = Some p"
  shows "(\<exists>r. List.find (isTicketRow (t_id t) (t_tenantId t)) rows = Some r \<and>
            List.find (isTicketRow (t_id t) (t_tenantId t)) rows' = Some (rawUpdate now t p st r)) \<or>
         (List.find (isTicketRow (t_id t) (t_tenantId t)) rows = None \<and>
            (\<exists>sub. t_subject t = Some sub \<and>
               List.find (isTicketRow (t_id t) (t_tenantId t)) rows' = Some (rawInsert t p st sub)))"
proof (cases "list_ex (isTicketRow (t_id t) (t_tenantId t)) rows")
  case True
  have "List.find (isTicketRow (t_id t) (t_tenantId t))
      (map (\<lambda>r. if isTicketRow (t_id t) (t_tenantId t) r then rawUpdate now t p st r else r) rows) =
      map_option (rawUpdate now t p st) (List.find (isTicketRow (t_id t) (t_tenantId t)) rows)"
    by (rule find_map_upd) simp
  with True assms list_ex_find [OF True] show ?thesis by (auto simp: saveRow_def)
next
  case False
  with assms show ?thesis
    by (auto simp: saveRow_def find_None_list_ex find_append_new split: option.splits if_splits)
qed

lemma saveRow_find_other:
  assumes "saveRow now t (t_tenantId t) rows = Inr rows'" "(tid, ten) \<noteq> (t_id t, t_tenantId t)"
  shows "List.find (isTicketRow tid ten) rows' = List.find (isTicketRow tid ten) rows"
proof -
  have "\<And>r. isTicketRow (t_id t) (t_tenantId t) r \<Longrightarrow> \<not> isTicketRow tid ten r"
    using assms(2) by (auto simp: isTicketRow_def)
  with assms show ?thesis
    by (auto simp: saveRow_def rbind_Inr_iff find_append_other find_map_other
        split: if_splits option.splits)
qed

text \<open>Two aggregates that agree on the columns of the ticket row (empty strings are null).\<close>

definition same_columns :: "Ticket \<Rightarrow> Ticket \<Rightarrow> bool" where
  "same_columns t u \<longleftrightarrow>
     t_id u = t_id t \<and> t_tenantId u = t_tenantId t \<and> t_ticketNumber u = t_ticketNumber t \<and>
     t_customerId u = orUndefined (t_customerId t) \<and>
     t_conversationId u = orUndefined (t_conversationId t) \<and>
     t_assignedAgentId u = orUndefined (t_assignedAgentId t) \<and>
     t_assignedTeamId u = orUndefined (t_assignedTeamId t) \<and>
     t_categoryId u = orUndefined (t_categoryId t) \<and>
     t_priority u = t_priority t \<and> t_status u = t_status t \<and> t_source u = t_source t \<and>
     t_subject u = t_subject t \<and> t_description u = orUndefined (t_description t) \<and>
     t_resolutionSummary u = orUndefined (t_resolutionSummary t) \<and>
     t_openedAt u = t_openedAt t \<and> t_firstResponseAt u = t_firstResponseAt t \<and>
     t_resolvedAt u = t_resolvedAt t \<and> t_closedAt u = t_closedAt t \<and>
     t_deletedAt u = t_deletedAt t \<and> t_version u = t_version t"

lemma save_rows:
  assumes "save now t ten db = Inr db'"
  shows "saveRow now t ten (tickets db) = Inr (tickets db')"
    and "ticketComments db' = fold insertComment (t_comments t) (ticketComments db)"
    and "ticketTags db' = fold insertTag (t_tags t) (ticketTags db)"
    and "ticketWatchers db' = fold insertWatcher (t_watchers t) (ticketWatchers db)"
    and "ticketApprovals db' = fold (upsertApproval now) (t_approvals t) (ticketApprovals db)"
    and "ticketSla db' = ticketSla db"
    and "ticketAssignments db' = ticketAssignments db"
  using assms by (auto simp: save_def rbind_Inr_iff)

lemma findById_after_save:
  assumes "save now t (t_tenantId t) db = Inr db'"
    and st: "t_status t = Some st" "t_priority t = Some p" "t_subject t = Some sub" and v: "1 \<le> t_version t"
    and number: "TicketNumber_create (t_ticketNumber t) = Inr (t_ticketNumber t)"
  shows "\<exists>u. findById (t_id t) (t_tenantId t) db' = Inr (Some u) \<and> same_columns t u \<and>
           t_domainEvents u = []"
proof -
  from saveRow_find [OF save_rows(1) [OF assms(1)] st(1,2)]
  obtain row where row: "List.find (isTicketRow (t_id t) (t_tenantId t)) (tickets db') = Some row"
    and "(\<exists>r. row = rawUpdate now t p st r) \<or> row = rawInsert t p st sub"
    using st(3) by auto
  then show ?thesis
    using st v number
    by (auto simp: findById_def toDomain_def rawUpdate_def rawInsert_def same_columns_def)
qed

subsection \<open>Child rows are never removed\<close>

lemma insertTag_superset: "set rows \<subseteq> set (insertTag g rows)"
  by (auto simp: insertTag_def)

lemma fold_insertTag_superset: "set rows \<subseteq> set (fold insertTag gs rows)"
  by (induction gs arbitrary: rows) (use insertTag_superset in force)+

lemma insertWatcher_superset: "set rows \<subseteq> set (insertWatcher w rows)"
  by (auto simp: insertWatcher_def)

lemma fold_insertWatcher_superset: "set rows \<subseteq> set (fold insertWatcher ws rows)"
  by (induction ws arbitrary: rows) (use insertWatcher_superset in force)+

lemma save_keeps_tags:
  "save now t ten db = Inr db' \<Longrightarrow> set (loadTags tid ten' db) \<subseteq> set (loadTags tid ten' db')"
  using fold_insertTag_superset by (fastforce simp: loadTags_def save_rows)

lemma save_keeps_watchers:
  "save now t ten db = Inr db' \<Longrightarrow> set (loadWatchers tid ten' db) \<subseteq> set (loadWatchers tid ten' db')"
  using fold_insertWatcher_superset by (fastforce simp: loadWatchers_def save_rows)

subsection \<open>Ticket numbers\<close>

definition generated :: "nat \<Rightarrow> string" where
  "generated n = ''TKT-'' @ padStart 6 (CHR ''0'') (showNat n)"

lemma generated_inj: "generated m = generated n \<Longrightarrow> m = n"
  by (metis append_same_eq generated_def readNat_padStart readNat_showNat same_append_eq)

lemma generate_generated: "n < 10 ^ 40 \<Longrightarrow> TicketNumber_generate n ''TKT'' = Inr (generated n)"
  by (simp add: TicketNumber_generate_TKT generated_def)

text \<open>A tenant whose tickets carry the numbers 1 to n, in the order of their creation.\<close>

definition numbered :: "uid \<Rightarrow> TicketDb \<Rightarrow> bool" where
  "numbered ten db \<longleftrightarrow>
     map r_ticketNumber (filter (\<lambda>r. r_tenantId r = ten) (tickets db)) =
     map generated [1..<nextSequence ten db]"

lemma numbered_fresh:
  assumes "numbered ten db" "r \<in> set (tickets db)" "r_tenantId r = ten"
  shows "r_ticketNumber r \<noteq> generated (nextSequence ten db)"
proof
  assume eq: "r_ticketNumber r = generated (nextSequence ten db)"
  have "r_ticketNumber r \<in> set (map r_ticketNumber (filter (\<lambda>r. r_tenantId r = ten) (tickets db)))"
    using assms by auto
  with assms(1) obtain n where "n < nextSequence ten db" "r_ticketNumber r = generated n"
    by (auto simp: numbered_def)
  with eq generated_inj show False by fastforce
qed

lemma numbered_append:
  assumes "numbered ten db" "r_tenantId r = ten" "r_ticketNumber r = generated (nextSequence ten db)"
  shows "numbered ten (db\<lparr>tickets := tickets db @ [r]\<rparr>)"
  using assms by (simp add: numbered_def nextSequence_def)

end
