(* ===== verification/Business_Hours.thy ===== *)
theory Business_Hours
  imports Prelude
begin

text \<open>
  The business calendar of the SLA engine (\<^verbatim>\<open>src/modules/tickets/services/business-hours.ts\<close>).
  Instants are milliseconds since the epoch, so the UTC accessors of \<^verbatim>\<open>Date\<close> are integer
  divisions (HOL's \<open>div\<close> rounds down, as the calendar does before 1970). \<open>isoDate\<close> is
  \<^verbatim>\<open>toISOString().slice(0, 10)\<close>, by the proleptic Gregorian calendar. The minute loop is a
  recursive function with the same guard counter as the source; \<open>businessMinutesIn\<close> counts the
  working minutes of an interval independently of the loop, and the lemmas relate the two.
\<close>

subsection \<open>UTC accessors\<close>

definition getUTCDay :: "millis \<Rightarrow> int" where
  "getUTCDay d = (d div 86400000 + 4) mod 7"

definition getUTCHours :: "millis \<Rightarrow> int" where
  "getUTCHours d = (d div 3600000) mod 24"

text \<open>Year, month and day of a day number (days since 1970-01-01), in 400-year eras.\<close>

definition civilFromDays :: "int \<Rightarrow> int \<times> int \<times> int" where
  "civilFromDays n =
     (let z = n + 719468; era = z div 146097; doe = z mod 146097;
          yoe = (doe - doe div 1460 + doe div 36524 - doe div 146096) div 365;
          doy = doe - (365 * yoe + yoe div 4 - yoe div 100);
          mp = (5 * doy + 2) div 153;
          d = doy - (153 * mp + 2) div 5 + 1;
          m = (if mp < 10 then mp + 3 else mp - 9);
          y = yoe + era * 400 + (if m \<le> 2 then 1 else 0)
      in (y, m, d))"

definition isoDate :: "millis \<Rightarrow> string" where
  "isoDate t =
     (case civilFromDays (t div 86400000) of (y, m, d) \<Rightarrow>
        padStart 4 (CHR ''0'') (showNat (nat y)) @ ''-'' @
        padStart 2 (CHR ''0'') (showNat (nat m)) @ ''-'' @
        padStart 2 (CHR ''0'') (showNat (nat d)))"

definition toISOString :: "millis \<Rightarrow> string" where
  "toISOString t =
     (let ms = t mod 86400000; pad = (\<lambda>n k. padStart n (CHR ''0'') (showNat (nat k)))
      in isoDate t @ ''T'' @ pad 2 (ms div 3600000) @ '':'' @ pad 2 (ms div 60000 mod 60) @ '':'' @
         pad 2 (ms div 1000 mod 60) @ ''.'' @ pad 3 (ms mod 1000) @ ''Z'')"

subsection \<open>The calendar and the loop\<close>

record BusinessCalendar =
  workingDays :: "int list"
  startHour :: int
  endHour :: int
  holidays :: "string list"

text \<open>The hours and the holidays come from the process environment.\<close>

definition DEFAULT_BUSINESS_CALENDAR :: "int \<Rightarrow> int \<Rightarrow> string list \<Rightarrow> BusinessCalendar" where
  "DEFAULT_BUSINESS_CALENDAR startH endH DEFAULT_HOLIDAYS =
     \<lparr>workingDays = [1, 2, 3, 4, 5], startHour = startH, endHour = endH, holidays = DEFAULT_HOLIDAYS\<rparr>"

definition isWorkingMoment :: "millis \<Rightarrow> BusinessCalendar \<Rightarrow> bool" where
  "isWorkingMoment date calendar =
     (if getUTCDay date \<notin> set (workingDays calendar) then False
      else if isoDate date \<in> set (holidays calendar) then False
      else startHour calendar \<le> getUTCHours date \<and> getUTCHours date < endHour calendar)"

definition maxIterations :: int where
  "maxIterations = 60 * 24 * 366"

text \<open>The \<^verbatim>\<open>while\<close> loop; \<^verbatim>\<open>setUTCMinutes(getUTCMinutes() + 1)\<close> adds sixty seconds.\<close>

function businessLoop :: "BusinessCalendar \<Rightarrow> millis \<Rightarrow> int \<Rightarrow> int \<Rightarrow> millis" where
  "businessLoop calendar cursor remaining guard =
     (if 0 < remaining \<and> guard < maxIterations
      then if isWorkingMoment cursor calendar
           then businessLoop calendar (cursor + 60000) (remaining - 1) (guard + 1)
           else businessLoop calendar (cursor + 60000) remaining (guard + 1)
      else cursor)"
  by pat_completeness auto
termination
  by (relation "measure (\<lambda>(calendar, cursor, remaining, guard). nat (maxIterations - guard))") auto

declare businessLoop.simps [simp del]

definition addBusinessMinutes :: "millis \<Rightarrow> int \<Rightarrow> BusinessCalendar \<Rightarrow> millis" where
  "addBusinessMinutes start minutes calendar = businessLoop calendar start minutes 0"

definition addCalendarMinutes :: "millis \<Rightarrow> int \<Rightarrow> millis" where
  "addCalendarMinutes start minutes = start + minutes * 60 * 1000"

subsection \<open>Counting working minutes\<close>

text \<open>How many of the \<open>n\<close> one-minute steps from \<open>start\<close> begin at a working moment.\<close>

fun businessMinutesIn :: "BusinessCalendar \<Rightarrow> millis \<Rightarrow> nat \<Rightarrow> int" where
  "businessMinutesIn calendar start 0 = 0"
| "businessMinutesIn calendar start (Suc n) =
     (if isWorkingMoment start calendar then 1 else 0) + businessMinutesIn calendar (start + 60000) n"

lemma businessMinutesIn_nonneg: "0 \<le> businessMinutesIn c s n"
  by (induction n arbitrary: s) auto

lemma businessMinutesIn_snoc:
  "businessMinutesIn c s (Suc n) =
   businessMinutesIn c s n + (if isWorkingMoment (s + 60000 * int n) c then 1 else 0)"
proof (induction n arbitrary: s)
  case 0
  show ?case by simp
next
  case (Suc n)
  have "s + 60000 + 60000 * int n = s + 60000 * int (Suc n)" by (simp add: algebra_simps)
  with Suc [of "s + 60000"] show ?case by simp
qed

text \<open>
  The loop takes \<open>k\<close> steps, as many as it needs to meet the requested number of working
  minutes; it stops early only when the guard counter is exhausted.
\<close>

lemma businessLoop_steps:
  assumes "0 \<le> r" "g \<le> maxIterations"
  shows "\<exists>k. businessLoop c s r g = s + 60000 * int k \<and> int k \<le> maxIterations - g \<and>
           businessMinutesIn c s k \<le> r \<and>
           (businessMinutesIn c s k = r \<or> int k = maxIterations - g) \<and>
           (\<forall>j<k. businessMinutesIn c s j < r)"
  using assms
proof (induction c s r g rule: businessLoop.induct)
  case (1 c s r g)
  show ?case
  proof (cases "0 < r \<and> g < maxIterations")
    case False
    with "1.prems" have "businessLoop c s r g = s" "r = 0 \<or> g = maxIterations"
      by (auto simp: businessLoop.simps [of c s r g])
    with "1.prems" show ?thesis by (intro exI [of _ 0]) auto
  next
    case True
    define r' where "r' = (if isWorkingMoment s c then r - 1 else r)"
    have eq: "businessLoop c s r g = businessLoop c (s + 60000) r' (g + 1)"
      using True by (simp add: businessLoop.simps [of c s r g] r'_def)
    from True "1.IH" have "\<exists>k. businessLoop c (s + 60000) r' (g + 1) = s + 60000 + 60000 * int k \<and>
        int k \<le> maxIterations - (g + 1) \<and> businessMinutesIn c (s + 60000) k \<le> r' \<and>
        (businessMinutesIn c (s + 60000) k = r' \<or> int k = maxIterations - (g + 1)) \<and>
        (\<forall>j<k. businessMinutesIn c (s + 60000) j < r')"
      by (cases "isWorkingMoment s c") (auto simp: r'_def)
    then obtain k where k: "businessLoop c (s + 60000) r' (g + 1) = s + 60000 + 60000 * int k"
        "int k \<le> maxIterations - (g + 1)" "businessMinutesIn c (s + 60000) k \<le> r'"
        "businessMinutesIn c (s + 60000) k = r' \<or> int k = maxIterations - (g + 1)"
        "\<forall>j<k. businessMinutesIn c (s + 60000) j < r'" by blast
    have "\<forall>j<Suc k. businessMinutesIn c s j < r"
    proof (intro allI impI)
      fix j assume "j < Suc k"
      with k(5) True show "businessMinutesIn c s j < r" by (cases j) (auto simp: r'_def split: if_splits)
    qed
    with k eq show ?thesis by (intro exI [of _ "Suc k"]) (auto simp: r'_def)
  qed
qed

lemma addBusinessMinutes_spec:
  assumes "0 \<le> m"
  obtains k where "addBusinessMinutes s m c = s + 60000 * int k" "int k \<le> maxIterations"
    "businessMinutesIn c s k \<le> m"
    "businessMinutesIn c s k = m \<or> int k = maxIterations"
    "\<forall>j<k. businessMinutesIn c s j < m"
proof -
  have "(0::int) \<le> maxIterations" by (simp add: maxIterations_def)
  from businessLoop_steps [OF assms this, of c s] that show ?thesis
    by (auto simp: addBusinessMinutes_def)
qed

text \<open>A calendar without working moments drives the loop to its guard.\<close>

lemma businessMinutesIn_none:
  assumes "\<And>d. \<not> isWorkingMoment d c"
  shows "businessMinutesIn c s n = 0"
  using assms by (induction n arbitrary: s) auto

end
