(* ===== verification/Ticket_Domain_Properties.thy ===== *)
theory Ticket_Domain_Properties
  imports Ticket_Store_Facts Business_Hours
begin

text \<open>
  Properties of the ticket domain below the services: the type invariant of reachable aggregates,
  what a run of operations keeps, the terminal statuses, the time stamps, the approval gate of the
  aggregate, the working-minute calendar, the SLA clock and the numbering.
\<close>

subsection \<open>The aggregate\<close>


definition exampleInit :: TicketInit where
  "exampleInit =
     \<lparr>i_tenantId = ''acme'', i_ticketNumber = ''TKT-000001'', i_customerId = None, i_conversationId = None,
      i_assignedAgentId = None, i_assignedTeamId = None, i_categoryId = None, i_priority = TP_LOW,
      i_status = TS_OPEN, i_source = SRC_MANUAL, i_subject = ''Help'', i_description = None, i_metadata = None\<rparr>"


lemma apply_ops_version:
  "apply_ops ops t = Inr t' \<Longrightarrow> t_version t + length (filter (\<lambda>x. \<not> quiet (snd x)) ops) \<le> t_version t'"
proof (induction ops arbitrary: t)
  case (Cons x ops)
  obtain now op where x: "x = (now, op)" by fastforce
  with Cons.prems obtain t1 where t1: "apply_op now op t = Inr t1" "apply_ops ops t1 = Inr t'"
    by (auto simp: rbind_Inr_iff)
  from apply_op_evolves [OF t1(1)] have "t_version t \<le> t_version t1" by (simp add: evolves_def)
  moreover from apply_op_version [OF t1(1)] have "\<not> quiet op \<Longrightarrow> t_version t < t_version t1" by simp
  ultimately show ?case using Cons.IH [OF t1(2)] x by (cases "quiet op") auto
qed simp

text \<open>A run of operations on a ticket keeps its identity (identifiers, number, customer, conversation,
  source, opening and creation time), only appends to its queue of domain events, never changes a
  first response once it is recorded, and raises the version by at least one for every operation
  that always counts as a modification.\<close>

theorem runs_keep_the_identity_and_count_their_modifications:
  assumes "apply_ops ops t = Inr t'"
  shows "same_identity t t' \<and> prefix (t_domainEvents t) (t_domainEvents t') \<and>
    (t_firstResponseAt t \<noteq> None \<longrightarrow> t_firstResponseAt t' = t_firstResponseAt t) \<and>
    t_version t + length (filter (\<lambda>x. \<not> quiet (snd x)) ops) \<le> t_version t'"
  using apply_ops_evolves [OF assms] apply_ops_version [OF assms] by (simp add: evolves_def)

theorem runs_keep_the_identity_and_count_their_modifications_witness:
  "\<exists>t'. apply_ops [(2, OpStart), (3, OpEscalate ''sla''), (4, OpClose None)] (Ticket_create 1 ''t1'' exampleInit) = Inr t' \<and>
     4 \<le> t_version t' \<and> t_id t' = ''t1''"
proof -
  let ?t = "Ticket_create 1 ''t1'' exampleInit"
  have "\<not> isl (apply_ops [(2, OpStart), (3, OpEscalate ''sla''), (4, OpClose None)] ?t)" by code_simp
  then obtain t' where t': "apply_ops [(2, OpStart), (3, OpEscalate ''sla''), (4, OpClose None)] ?t = Inr t'"
    by (metis sum.collapse(2))
  from runs_keep_the_identity_and_count_their_modifications [OF t'] t' show ?thesis
    by (auto simp: same_identity_def Ticket_create_def new_Ticket_def addDomainEvent_def)
qed

text \<open>A closed or cancelled ticket leaves its terminal status in two ways only: by becoming
  \<^verbatim>\<open>REOPENED\<close>, or through \<^verbatim>\<open>transfer\<close> and \<^verbatim>\<open>requestApproval\<close>, which never ask whether the transition is
  allowed and always leave it.\<close>

theorem terminal_statuses_are_left_by_reopening_or_unguarded_operations:
  assumes "terminal t"
  shows "(apply_op now op t = Inr t' \<and> \<not> terminal t' \<longrightarrow> unguarded op \<or> t_status t' = Some TS_REOPENED) \<and>
         (unguarded op \<longrightarrow> (\<exists>t'. apply_op now op t = Inr t' \<and> \<not> terminal t'))"
  using terminal_exit_status assms unguarded_leaves by blast

theorem terminal_statuses_are_left_by_reopening_or_unguarded_operations_witness:
  "\<exists>t'. apply_op 5 (OpTransfer ''ann'') ((Ticket_create 1 ''t1'' exampleInit)\<lparr>t_status := Some TS_CLOSED\<rparr>) = Inr t' \<and>
     \<not> terminal t'"
  using terminal_statuses_are_left_by_reopening_or_unguarded_operations
    [of "(Ticket_create 1 ''t1'' exampleInit)\<lparr>t_status := Some TS_CLOSED\<rparr>" 5 "OpTransfer ''ann''"]
  by (simp add: terminal_def)

text \<open>The dedicated operations keep status and time stamps in step. Along any run of operations other
  than a status patch, a transfer or an approval request, a ticket has a closing time exactly when
  it is closed, has a resolution time whenever it is resolved, and has none after a reopening.\<close>

theorem dedicated_operations_keep_status_and_stamps_in_step:
  assumes "apply_ops ops t = Inr t'" "stamps_ok t" "list_all (dedicated \<circ> snd) ops"
  shows "(t_closedAt t' \<noteq> None \<longleftrightarrow> t_status t' = Some TS_CLOSED) \<and>
         (t_status t' = Some TS_RESOLVED \<longrightarrow> t_resolvedAt t' \<noteq> None) \<and>
         (t_status t' = Some TS_REOPENED \<longrightarrow> t_resolvedAt t' = None)"
  using apply_ops_stamps [OF assms] by (simp add: stamps_ok_def)

theorem dedicated_operations_keep_status_and_stamps_in_step_witness:
  "\<exists>t'. apply_ops [(2, OpResolve None None), (3, OpClose None), (4, OpReopen None)] (Ticket_create 1 ''t1'' exampleInit) = Inr t' \<and>
     (t_closedAt t' \<noteq> None \<longleftrightarrow> t_status t' = Some TS_CLOSED)"
proof -
  let ?t = "Ticket_create 1 ''t1'' exampleInit"
  let ?ops = "[(2, OpResolve None None), (3, OpClose None), (4, OpReopen None)]"
  have "\<not> isl (apply_ops ?ops ?t)" by code_simp
  then obtain t' where t': "apply_ops ?ops ?t = Inr t'" by (metis sum.collapse(2))
  have "stamps_ok ?t" by (simp add: stamps_ok_def Ticket_create_def new_Ticket_def addDomainEvent_def exampleInit_def)
  from dedicated_operations_keep_status_and_stamps_in_step [OF t' this] t' show ?thesis by simp
qed

text \<open>Pending approvals stop \<^verbatim>\<open>resolve\<close> and \<^verbatim>\<open>close\<close> but not a status patch. On a ticket with a pending
  approval that is not terminal, both methods throw, while an update that carries the status
  \<^verbatim>\<open>CLOSED\<close> succeeds: the ticket is then closed with the approval still pending and with the closing
  time stamp it had before.\<close>

theorem status_patches_bypass_the_approval_gate:
  assumes "Ticket_hasPending t" "\<not> terminal t" "t_status t = Some s" "t_priority t = Some p"
  shows "(\<exists>m. Ticket_resolve now sm u t = Inl (Error m)) \<and> (\<exists>m. Ticket_close now u t = Inl (Error m)) \<and>
    (\<exists>t'. Ticket_update now \<lparr>p_subject = Absent, p_description = Absent, p_priority = Absent, p_categoryId = Absent,
             p_status = Val TS_CLOSED, p_metadata = Absent\<rparr> t = Inr t' \<and>
          t_status t' = Some TS_CLOSED \<and> Ticket_hasPending t' \<and> t_closedAt t' = t_closedAt t)"
  using assms
  by (auto simp: resolve_blocked close_blocked Ticket_update_def Ticket_assertStatus_def terminal_def
      TicketStatus_assertCanTransitionTo_def TicketStatus_canTransitionTo_def Ticket_emitUpdated_def
      Ticket_touch_def addDomainEvent_def Ticket_hasPending_def)

theorem status_patches_bypass_the_approval_gate_witness:
  "\<exists>t'. Ticket_update 3 \<lparr>p_subject = Absent, p_description = Absent, p_priority = Absent, p_categoryId = Absent,
       p_status = Val TS_CLOSED, p_metadata = Absent\<rparr>
     (Ticket_requestApproval 2 (new_TicketApproval 2 ''a1'' ''acme'' ''t1'' ''boss'' (Some AP_PENDING) None None None None None)
        (Ticket_create 1 ''t1'' exampleInit)) = Inr t' \<and> t_status t' = Some TS_CLOSED \<and> Ticket_hasPending t'"
proof -
  let ?t = "Ticket_requestApproval 2 (new_TicketApproval 2 ''a1'' ''acme'' ''t1'' ''boss'' (Some AP_PENDING) None None None None None)
        (Ticket_create 1 ''t1'' exampleInit)"
  have "Ticket_hasPending ?t" "\<not> terminal ?t" "t_status ?t = Some TS_APPROVAL_PENDING" "t_priority ?t = Some TP_LOW"
    by (simp_all add: Ticket_requestApproval_def addDomainEvent_def Ticket_touch_def Ticket_hasPending_def
        new_TicketApproval_def TicketApproval_isPending_def terminal_def Ticket_create_def new_Ticket_def exampleInit_def)
  from status_patches_bypass_the_approval_gate [OF this, of 3] show ?thesis by blast
qed

subsection \<open>Working minutes\<close>

text \<open>C32: Adding \<open>m\<close> working minutes advances the start minute by minute to the first instant by which
  exactly \<open>m\<close> of the minutes passed began at a working moment; the loop always ends, and the only
  other outcome is that the guard of \<open>maxIterations\<close> minutes is exhausted first, and then fewer than
  \<open>m\<close> working minutes have passed.\<close>

theorem business_minutes_are_counted_to_the_first_instant_they_are_full:
  assumes "0 \<le> m"
  shows "\<exists>k. addBusinessMinutes start m calendar = start + 60000 * int k \<and> int k \<le> maxIterations \<and>
    (\<forall>j<k. businessMinutesIn calendar start j < m) \<and>
    (businessMinutesIn calendar start k = m \<or>
     int k = maxIterations \<and> businessMinutesIn calendar start k < m)"
  using addBusinessMinutes_spec [OF assms, of start calendar] by (metis order_le_less)

theorem business_minutes_are_counted_to_the_first_instant_they_are_full_witness:
  "\<exists>k. addBusinessMinutes 0 30 (DEFAULT_BUSINESS_CALENDAR 9 17 []) = 60000 * int k \<and> int k \<le> maxIterations \<and>
    (businessMinutesIn (DEFAULT_BUSINESS_CALENDAR 9 17 []) 0 k = 30 \<or>
     int k = maxIterations \<and> businessMinutesIn (DEFAULT_BUSINESS_CALENDAR 9 17 []) 0 k < 30)"
  using business_minutes_are_counted_to_the_first_instant_they_are_full
    [of 30 0 "DEFAULT_BUSINESS_CALENDAR 9 17 []"] by auto

text \<open>A calendar on which no moment is a working moment (working window empty, every day a holiday)
  makes the loop give up: the deadline it returns is 366 days after the start, whatever number of
  minutes was asked for, and no error is raised.\<close>

theorem calendars_without_working_time_end_at_the_guard:
  assumes "endHour calendar \<le> startHour calendar" "0 < m"
  shows "addBusinessMinutes start m calendar = start + 366 * 86400000"
proof -
  have "\<not> isWorkingMoment d calendar" for d using assms(1) by (simp add: isWorkingMoment_def)
  then have none: "businessMinutesIn calendar start n = 0" for n by (rule businessMinutesIn_none)
  from assms(2) have "0 \<le> m" by simp
  then obtain k where "addBusinessMinutes start m calendar = start + 60000 * int k"
    "businessMinutesIn calendar start k = m \<or> int k = maxIterations"
    by (rule addBusinessMinutes_spec)
  with none assms(2) have "addBusinessMinutes start m calendar = start + 60000 * int k" "int k = maxIterations" by auto
  then show ?thesis by (simp add: maxIterations_def)
qed

theorem calendars_without_working_time_end_at_the_guard_witness:
  "addBusinessMinutes 0 1 (DEFAULT_BUSINESS_CALENDAR 17 9 []) = 366 * 86400000"
  using calendars_without_working_time_end_at_the_guard [of "DEFAULT_BUSINESS_CALENDAR 17 9 []" 1 0]
  by (simp add: DEFAULT_BUSINESS_CALENDAR_def)

subsection \<open>The SLA clock\<close>

text \<open>C15: The SLA clock counts running time only. For every sequence of pauses and resumptions of a clock
  that is not breached, in any order and with repetitions, the resolution deadline as an observer
  has to read it (moved on by the current pause) is the original deadline plus exactly the time the
  clock has stood still; so a running clock reports a missed resolution at an instant exactly when
  the running time has reached the original deadline.\<close>

theorem sla_clock_counts_running_time_only:
  assumes "\<not> s_breached s" "s_resolutionDueAt s = Some d"
  shows "effectiveDue (s_resolutionDueAt (switches es s)) (switches es s) at
           = Some (d + stoodStill (s_pausedAt s) es at) \<and>
         (s_pausedAt (switches es s) = None \<longrightarrow>
           (TicketSLA_detectBreach at responded False (switches es s) = Some RESOLUTION \<longleftrightarrow>
            d + stoodStill (s_pausedAt s) es at \<le> at))"
proof -
  note eff = switches_effective_resolution [OF assms, of es at]
  moreover have "TicketSLA_detectBreach at responded False (switches es s) = Some RESOLUTION \<longleftrightarrow>
      d + stoodStill (s_pausedAt s) es at \<le> at" if "s_pausedAt (switches es s) = None"
    using detectBreach_resolution_iff [OF switches_unbreached [OF assms(1)] that] eff that
    by (auto simp: effectiveDue_def)
  ultimately show ?thesis by blast
qed

theorem sla_clock_counts_running_time_only_witness:
  "TicketSLA_detectBreach 1300 False False
     (switches [(True, 100), (True, 150), (False, 400)]
       (new_TicketSLA 0 ''s'' ''acme'' ''t1'' None None (Some 1000) None None None None None None None)) = Some RESOLUTION"
proof -
  let ?s = "new_TicketSLA 0 ''s'' ''acme'' ''t1'' None None (Some 1000) None None None None None None None"
  let ?es = "[(True, 100), (True, 150), (False, 400)]"
  have "\<not> s_breached ?s" "s_resolutionDueAt ?s = Some 1000" by (simp_all add: new_TicketSLA_def)
  from sla_clock_counts_running_time_only [OF this, of ?es 1300 False] show ?thesis
    by (simp add: new_TicketSLA_def TicketSLA_pause_def TicketSLA_resume_def Let_def)
qed

subsection \<open>Stored rows\<close>

text \<open>The SLA table behaves as a map from tickets to clocks. After any sequence of upserts, a lookup
  under a key finds the columns of the last clock written under it (time stamps of the row apart),
  and a key that was not written reads as before.\<close>

theorem sla_table_returns_the_last_write:
  assumes "slaKey v \<notin> slaKey ` set ws" "k \<notin> slaKey ` set (us @ v # ws)"
  shows "map_option sla_view (getSlaK (slaKey v) (fold (putSla now) (us @ v # ws) db)) = Some (sla_view v) \<and>
         getSlaK k (fold (putSla now) (us @ v # ws) db) = getSlaK k db"
  using sla_rows.last_write_wins [OF assms(1)] sla_rows.lookup_puts_other [OF assms(2)] by blast

theorem sla_table_returns_the_last_write_witness:
  "\<exists>s. getSlaK (''acme'', ''t1'') (fold (putSla 9)
       [new_TicketSLA 0 ''s'' ''acme'' ''t1'' None None (Some 1000) None None None None None None None,
        new_TicketSLA 0 ''s'' ''acme'' ''t1'' None None (Some 2000) None None None None None None None]
       \<lparr>tickets = [], ticketComments = [], ticketTags = [], ticketWatchers = [], ticketApprovals = [],
        ticketAssignments = [], ticketAttachments = [], ticketSla = []\<rparr>) = Some s \<and> s_resolutionDueAt s = Some 2000"
proof -
  let ?db = "\<lparr>tickets = [], ticketComments = [], ticketTags = [], ticketWatchers = [], ticketApprovals = [],
        ticketAssignments = [], ticketAttachments = [], ticketSla = []\<rparr> :: TicketDb"
  let ?u = "new_TicketSLA 0 ''s'' ''acme'' ''t1'' None None (Some 1000) None None None None None None None"
  let ?v = "new_TicketSLA 0 ''s'' ''acme'' ''t1'' None None (Some 2000) None None None None None None None"
  have key: "slaKey ?v = (''acme'', ''t1'')" "slaKey ?u = (''acme'', ''t1'')" by (simp_all add: slaKey_def new_TicketSLA_def)
  have "map_option sla_view (getSlaK (slaKey ?v) (fold (putSla 9) ([?u] @ ?v # []) ?db)) = Some (sla_view ?v)"
    using sla_table_returns_the_last_write [of ?v "[]" "(''x'', ''y'')" "[?u]" 9 ?db] key by simp
  then obtain s where s: "getSlaK (slaKey ?v) (fold (putSla 9) ([?u] @ ?v # []) ?db) = Some s" "sla_view s = sla_view ?v"
    by auto
  from arg_cong [OF s(2), of s_resolutionDueAt] have "s_resolutionDueAt s = Some 2000"
    by (simp add: sla_view_def new_TicketSLA_def)
  with s(1) key show ?thesis by simp
qed

text \<open>Ticket numbers print and parse back. For every sequence number that fits the fifty characters of
  the column, the generated number is accepted by the value object unchanged, and the decimal value
  of what follows the prefix is the sequence number, so different sequence numbers give different
  ticket numbers.\<close>

theorem generated_ticket_numbers_read_back:
  assumes "n < 10 ^ 40"
  shows "\<exists>s. TicketNumber_generate n ''TKT'' = Inr s \<and> TicketNumber_create s = Inr s \<and> readNat (drop 4 s) = n \<and>
    (\<forall>m<10 ^ 40. TicketNumber_generate m ''TKT'' = Inr s \<longrightarrow> m = n)"
proof (intro exI conjI)
  show gen: "TicketNumber_generate n ''TKT'' = Inr (generated n)" by (rule generate_generated [OF assms])
  then show "TicketNumber_create (generated n) = Inr (generated n)"
    unfolding TicketNumber_generate_def by (rule TicketNumber_create_idem)
  show "readNat (drop 4 (generated n)) = n" by (rule readNat_generated [OF assms gen])
  then show "\<forall>m<10 ^ 40. TicketNumber_generate m ''TKT'' = Inr (generated n) \<longrightarrow> m = n"
    using readNat_generated by blast
qed

theorem generated_ticket_numbers_read_back_witness:
  "\<exists>s. TicketNumber_generate 42 ''TKT'' = Inr s \<and> readNat (drop 4 s) = 42"
proof -
  have "(42::nat) < 10 ^ 40" by simp
  from generated_ticket_numbers_read_back [OF this] show ?thesis by blast
qed

end
