(* ===== verification/Ticket_World.thy ===== *)
theory Ticket_World
  imports Ticket_Store_Facts Business_Hours Complex_Main
begin

text \<open>
  The state the ticket services share and the collaborators they call. \<open>World\<close> holds the ticket
  database, the jobs handed to the queues (\<^verbatim>\<open>packages/shared-queues/src/queue.service.ts\<close>), the
  audit trail (\<^verbatim>\<open>src/modules/audit\<close>), the realtime broadcasts and the workflow triggers sent, the
  clock and the supply of random identifiers. A queue that is down makes \<^verbatim>\<open>addJob\<close> throw. The
  clock does not advance within one operation. \<open>Env\<close> collects the answers of the modules the
  ticket services only consult (customers, tenant settings, holidays, conversations, agent
  selection, presence, file upload) and the settings read from the process environment; they are
  arguments of the operations that use them.
\<close>

subsection \<open>Jobs\<close>

datatype job =
    TicketAssignmentJob uid uid "uid option"
  | TicketCreateFromConversationJob string "string option" "uid option" "uid option"
      "TicketPriorityEnum option" "TicketSourceEnum option"
  | TicketEscalationJob uid "uid option" "string option" "uid option" "uid option"
  | SlaMonitorJob "uid option"
  | AgentOfflineReassignmentJob "uid option"
  | TicketApprovalJob uid uid uid
  | TicketAnalyticsJob uid string ticket_event
  | RunWorkflowJob uid uid uid
  | CustomerNotificationJob string uid string uid string "(string \<times> string option) list"
  | SlaBreachNotificationJob uid uid string SlaBreachType uid
  | TicketAssignedNotificationJob uid uid uid string
  | ApprovalRequestNotificationJob uid uid uid "uid option"
  | TicketEventAnalyticsJob uid string "uid option" ticket_event
  | AuditEventJob uid "uid option" string string

datatype queue =
    CONVERSATION | MESSAGE | TICKET | KNOWLEDGE | CONNECTOR | WORKFLOW | ANALYTICS | NOTIFICATION
  | CUSTOMER | TEAM | CHANNEL | SETTINGS | INBOX | ADMIN | WIDGET | AI | DEAD_LETTER

fun jobQueue :: "job \<Rightarrow> queue" where
  "jobQueue (RunWorkflowJob _ _ _) = WORKFLOW"
| "jobQueue (CustomerNotificationJob _ _ _ _ _ _) = NOTIFICATION"
| "jobQueue (SlaBreachNotificationJob _ _ _ _ _) = NOTIFICATION"
| "jobQueue (TicketAssignedNotificationJob _ _ _ _) = NOTIFICATION"
| "jobQueue (ApprovalRequestNotificationJob _ _ _ _) = NOTIFICATION"
| "jobQueue (TicketEventAnalyticsJob _ _ _ _) = ANALYTICS"
| "jobQueue (AuditEventJob _ _ _ _) = ANALYTICS"
| "jobQueue _ = TICKET"

text \<open>A job with the tenant context \<^verbatim>\<open>addJob\<close> puts into its envelope.\<close>

record QueuedJob =
  qj_queue :: queue
  qj_data :: job
  qj_tenantContext :: "uid option"

subsection \<open>The world\<close>

record AuditEntry =
  au_tenantId :: uid
  au_userId :: "uid option"
  au_action :: string
  au_details :: string

datatype trigger = TICKET_CREATED | TICKET_UPDATED | TICKET_ESCALATED

record World =
  wd_db :: TicketDb
  wd_now :: millis
  wd_uuid :: "nat \<Rightarrow> uid"
  wd_uuidNext :: nat
  wd_tenantContext :: "uid option"
  wd_queueUp :: bool
  wd_jobs :: "QueuedJob list"
  wd_audit :: "AuditEntry list"
  wd_realtime :: "(uid \<times> Ticket) list"
  wd_triggers :: "(uid \<times> trigger \<times> uid) list"

type_synonym 'a service = "(World, 'a) svc"

record CustomerView =
  cu_email :: "string option"
  cu_syntheticEmail :: bool

record SlaSettings =
  responseTimeTarget :: int
  resolutionTimeTarget :: int
  businessHoursOnly :: bool

record StorageRef =
  sr_contentType :: string
  sr_fileSize :: int
  sr_publicUrl :: string
  sr_checksum :: "string option"

record Env =
  env_customer :: "uid \<Rightarrow> uid \<Rightarrow> exn + CustomerView"
  env_slaSettings :: "uid \<Rightarrow> SlaSettings"
  env_holidays :: "uid \<Rightarrow> millis list"
  env_splitConversation :: "uid \<Rightarrow> uid option \<Rightarrow> uid option \<Rightarrow> exn + uid"
  env_assignEntity :: "uid \<Rightarrow> uid \<Rightarrow> uid \<Rightarrow> nat \<Rightarrow> exn + uid"
  env_offlineAgents :: "uid option \<Rightarrow> (uid \<times> uid) list"
  env_finalizeUpload :: "uid \<Rightarrow> string \<Rightarrow> exn + StorageRef"
  env_SLA_BUSINESS_START_HOUR :: int
  env_SLA_BUSINESS_END_HOUR :: int
  env_SLA_HOLIDAYS :: "string list"
  env_TICKET_AI_CONFIDENCE_THRESHOLD :: real
  env_TICKET_NEGATIVE_SENTIMENT_THRESHOLD :: real

subsection \<open>Clock, identifiers and database access\<close>

definition getNow :: "millis service" where
  "getNow = asks wd_now"

definition randomUUID :: "uid service" where
  "randomUUID = (\<lambda>w. (Inr (wd_uuid w (wd_uuidNext w)), w\<lparr>wd_uuidNext := wd_uuidNext w + 1\<rparr>))"

definition repoRead :: "(TicketDb \<Rightarrow> exn + 'a) \<Rightarrow> 'a service" where
  "repoRead f = (\<lambda>w. (f (wd_db w), w))"

text \<open>A statement or a transaction: an exception rolls it back.\<close>

definition repoWrite :: "(TicketDb \<Rightarrow> exn + TicketDb) \<Rightarrow> unit service" where
  "repoWrite f = (\<lambda>w. case f (wd_db w) of Inl e \<Rightarrow> (Inl e, w) | Inr db \<Rightarrow> (Inr (), w\<lparr>wd_db := db\<rparr>))"

subsection \<open>Queues, audit trail, realtime\<close>

definition addJob :: "job \<Rightarrow> unit service" where
  "addJob j = (\<lambda>w.
     if wd_queueUp w
     then (Inr (), w\<lparr>wd_jobs := wd_jobs w @
             [\<lparr>qj_queue = jobQueue j, qj_data = j, qj_tenantContext = wd_tenantContext w\<rparr>]\<rparr>)
     else (Inl (Error ''Connection is closed.''), w))"

definition AuditEventPublisher_publish :: "AuditEntry \<Rightarrow> unit service" where
  "AuditEventPublisher_publish e =
     tryCatch (addJob (AuditEventJob (au_tenantId e) (au_userId e) (au_action e) (au_details e)))
       (\<lambda>_. ret ())"

definition AuditService_log :: "uid \<Rightarrow> uid option \<Rightarrow> string \<Rightarrow> string \<Rightarrow> unit service" where
  "AuditService_log tenantId userId action details =
     (let e = \<lparr>au_tenantId = tenantId, au_userId = userId, au_action = action, au_details = details\<rparr>
      in andThen (modify (\<lambda>w. w\<lparr>wd_audit := wd_audit w @ [e]\<rparr>)) (\<lambda>_. AuditEventPublisher_publish e))"

definition emitTicketUpdate :: "uid \<Rightarrow> Ticket \<Rightarrow> unit service" where
  "emitTicketUpdate tenantId t = modify (\<lambda>w. w\<lparr>wd_realtime := wd_realtime w @ [(tenantId, t)]\<rparr>)"

text \<open>The workflow engine is told; what it answers or throws is discarded by the caller.\<close>

definition evaluateWorkflowTriggers :: "uid \<Rightarrow> trigger \<Rightarrow> Ticket \<Rightarrow> unit service" where
  "evaluateWorkflowTriggers tenantId tr t =
     modify (\<lambda>w. w\<lparr>wd_triggers := wd_triggers w @ [(tenantId, tr, t_id t)]\<rparr>)"

subsection \<open>Event publisher\<close>

fun eventName :: "ticket_event \<Rightarrow> string" where
  "eventName (TicketCreatedEvent _ _ _ _ _) = ''ticket.created''"
| "eventName (TicketUpdatedEvent _ _ _ _) = ''ticket.updated''"
| "eventName (TicketAssignedEvent _ _ _ _) = ''ticket.assigned''"
| "eventName (TicketTransferredEvent _ _ _ _) = ''ticket.transferred''"
| "eventName (TicketEscalatedEvent _ _ _ _) = ''ticket.escalated''"
| "eventName (TicketResolvedEvent _ _ _) = ''ticket.resolved''"
| "eventName (TicketClosedEvent _ _ _) = ''ticket.closed''"
| "eventName (TicketReopenedEvent _ _ _) = ''ticket.reopened''"
| "eventName (TicketApprovalRequestedEvent _ _ _ _ _) = ''ticket.approval.requested''"
| "eventName (TicketCommentedEvent _ _ _ _ _) = ''ticket.commented''"
| "eventName (TicketApprovedEvent _ _ _ _) = ''ticket.approved''"
| "eventName (TicketRejectedEvent _ _ _ _) = ''ticket.rejected''"
| "eventName (SlaBreachedEvent _ _ _ _) = ''sla.breached''"

fun getAggregateId :: "ticket_event \<Rightarrow> uid" where
  "getAggregateId (TicketCreatedEvent _ i _ _ _) = i"
| "getAggregateId (TicketUpdatedEvent _ i _ _) = i"
| "getAggregateId (TicketAssignedEvent _ i _ _) = i"
| "getAggregateId (TicketTransferredEvent _ i _ _) = i"
| "getAggregateId (TicketEscalatedEvent _ i _ _) = i"
| "getAggregateId (TicketResolvedEvent _ i _) = i"
| "getAggregateId (TicketClosedEvent _ i _) = i"
| "getAggregateId (TicketReopenedEvent _ i _) = i"
| "getAggregateId (TicketApprovalRequestedEvent _ i _ _ _) = i"
| "getAggregateId (TicketCommentedEvent _ i _ _ _) = i"
| "getAggregateId (TicketApprovedEvent _ i _ _) = i"
| "getAggregateId (TicketRejectedEvent _ i _ _) = i"
| "getAggregateId (SlaBreachedEvent _ i _ _) = i"

definition ANALYTICS_EVENTS :: "string list" where
  "ANALYTICS_EVENTS =
     [''ticket.created'', ''ticket.updated'', ''ticket.assigned'', ''ticket.transferred'',
      ''ticket.commented'', ''ticket.escalated'', ''ticket.resolved'', ''ticket.closed'',
      ''ticket.reopened'', ''ticket.approval.requested'', ''ticket.approved'', ''ticket.rejected'',
      ''sla.breached'']"

definition TicketEventPublisher_publish :: "ticket_event \<Rightarrow> unit service" where
  "TicketEventPublisher_publish e =
     tryCatch
       (if eventName e \<in> set ANALYTICS_EVENTS
        then addJob (TicketAnalyticsJob (getAggregateId e) (eventName e) e)
        else ret ())
       (\<lambda>_. ret ())"

definition publishAll :: "ticket_event list \<Rightarrow> unit service" where
  "publishAll events = forEach events TicketEventPublisher_publish"

section \<open>A sample world\<close>

text \<open>
  A small concrete setting for the examples of the development: one tenant with one open ticket,
  its SLA row and one pending approval on a second ticket, a working queue and collaborators that
  answer. The facts below evaluate the repository on it.
\<close>

definition sampleRow :: TicketRow where
  "sampleRow =
     \<lparr>r_id = ''t1'', r_tenantId = ''acme'', r_ticketNumber = ''TKT-000001'', r_customerId = Some ''c1'',
      r_conversationId = None, r_assignedAgentId = None, r_assignedTeamId = Some ''team'',
      r_categoryId = None, r_priority = ''MEDIUM'', r_status = ''OPEN'', r_source = ''MANUAL'',
      r_subject = ''Printer'', r_description = None, r_resolutionSummary = None, r_openedAt = 0,
      r_firstResponseAt = None, r_resolvedAt = None, r_closedAt = None, r_metadata = None,
      r_createdAt = 0, r_updatedAt = 0, r_deletedAt = None, r_version = 1\<rparr>"

definition sampleTag :: TicketTag where
  "sampleTag =
     \<lparr>tg_id = ''g1'', tg_tenantId = ''acme'', tg_ticketId = ''t1'', tg_tag = ''vip'', tg_color = None,
      tg_createdAt = 0, tg_updatedAt = 0\<rparr>"

definition sampleApproval :: TicketApproval where
  "sampleApproval = new_TicketApproval 0 ''a1'' ''acme'' ''t2'' ''boss'' (Some AP_PENDING) (Some AT_REFUND) None None None None"

definition sampleSla :: TicketSLA where
  "sampleSla = new_TicketSLA 0 ''s1'' ''acme'' ''t1'' None (Some 1000) (Some 5000) None None None None None None None"

definition sampleDb :: TicketDb where
  "sampleDb =
     \<lparr>tickets = [sampleRow, sampleRow\<lparr>r_id := ''t2'', r_ticketNumber := ''TKT-000002'', r_status := ''APPROVAL_PENDING''\<rparr>],
      ticketComments = [], ticketTags = [sampleTag], ticketWatchers = [], ticketApprovals = [sampleApproval],
      ticketAssignments = [], ticketAttachments = [], ticketSla = [sampleSla]\<rparr>"

definition sampleWorld :: World where
  "sampleWorld =
     \<lparr>wd_db = sampleDb, wd_now = 6000, wd_uuid = (\<lambda>n. ''u'' @ showNat n), wd_uuidNext = 0,
      wd_tenantContext = Some ''acme'', wd_queueUp = True, wd_jobs = [], wd_audit = [],
      wd_realtime = [], wd_triggers = []\<rparr>"

definition sampleEnv :: Env where
  "sampleEnv =
     \<lparr>env_customer = (\<lambda>_ _. Inr \<lparr>cu_email = Some ''c@x.io'', cu_syntheticEmail = False\<rparr>),
      env_slaSettings = (\<lambda>_. \<lparr>responseTimeTarget = 3600, resolutionTimeTarget = 86400, businessHoursOnly = False\<rparr>),
      env_holidays = (\<lambda>_. []), env_splitConversation = (\<lambda>_ _ _. Inr ''conv''),
      env_assignEntity = (\<lambda>_ _ _ _. Inr ''agent''), env_offlineAgents = (\<lambda>_. []),
      env_finalizeUpload = (\<lambda>_ _. Inl (Error ''upload'')), env_SLA_BUSINESS_START_HOUR = 9,
      env_SLA_BUSINESS_END_HOUR = 17, env_SLA_HOLIDAYS = [],
      env_TICKET_AI_CONFIDENCE_THRESHOLD = 6 / 10, env_TICKET_NEGATIVE_SENTIMENT_THRESHOLD = - 3 / 10\<rparr>"

definition sampleTicket :: Ticket where
  "sampleTicket =
     \<lparr>t_id = ''t1'', t_tenantId = ''acme'', t_ticketNumber = ''TKT-000001'', t_customerId = Some ''c1'',
      t_conversationId = None, t_assignedAgentId = None, t_assignedTeamId = Some ''team'',
      t_categoryId = None, t_priority = Some TP_MEDIUM, t_status = Some TS_OPEN, t_source = SRC_MANUAL,
      t_subject = Some ''Printer'', t_description = None, t_resolutionSummary = None, t_openedAt = 0,
      t_firstResponseAt = None, t_resolvedAt = None, t_closedAt = None, t_metadata = Some Map.empty,
      t_createdAt = 0, t_updatedAt = 0, t_deletedAt = None, t_version = 1, t_comments = [],
      t_tags = [sampleTag], t_watchers = [], t_approvals = [], t_domainEvents = []\<rparr>"

definition sampleTicket2 :: Ticket where
  "sampleTicket2 =
     sampleTicket\<lparr>t_id := ''t2'', t_ticketNumber := ''TKT-000002'', t_status := Some TS_APPROVAL_PENDING,
       t_tags := [], t_approvals := [sampleApproval]\<rparr>"

lemma sample_number:
  "TicketNumber_create ''TKT-000001'' = Inr ''TKT-000001''"
  "TicketNumber_create ''TKT-000002'' = Inr ''TKT-000002''"
  by code_simp+

lemma sample_parse:
  "TicketStatus_create ''OPEN'' = Inr TS_OPEN"
  "TicketStatus_create ''APPROVAL_PENDING'' = Inr TS_APPROVAL_PENDING"
  "TicketPriority_create ''MEDIUM'' = Inr TP_MEDIUM"
  "TicketSource_create ''MANUAL'' = Inr SRC_MANUAL"
  by code_simp+

lemma sample_findById:
  "findById ''t1'' ''acme'' sampleDb = Inr (Some sampleTicket)"
  "findById ''t2'' ''acme'' sampleDb = Inr (Some sampleTicket2)"
  by (simp_all add: findById_def sampleDb_def sampleRow_def isTicketRow_def toDomain_def sample_number sample_parse
      sampleTicket_def sampleTicket2_def loadComments_def loadTags_def loadWatchers_def loadApprovals_def
      sampleTag_def sampleApproval_def tagToDomain_def approvalToDomain_def new_TicketTag_def new_TicketApproval_def)

lemma sampleWorld_simps [simp]:
  "wd_db sampleWorld = sampleDb" "wd_now sampleWorld = 6000" "wd_queueUp sampleWorld"
  by (simp_all add: sampleWorld_def)

lemma sampleTicket_simps [simp]:
  "t_status sampleTicket = Some TS_OPEN" "t_priority sampleTicket = Some TP_MEDIUM"
  "t_status sampleTicket2 = Some TS_APPROVAL_PENDING" "t_priority sampleTicket2 = Some TP_MEDIUM"
  "t_firstResponseAt sampleTicket = None" "t_approvals sampleTicket = []"
  by (simp_all add: sampleTicket_def sampleTicket2_def)

end
