(* ===== verification/Ticket_SLA_Service.thy ===== *)
theory Ticket_SLA_Service
  imports Ticket_World
begin

text \<open>
  The SLA service (\<^verbatim>\<open>src/modules/tickets/services/ticket-sla.service.ts\<close>): deadlines from the
  priority matrix and the tenant's settings, the pause and resume calls the ticket service makes,
  and the breach sweep of the monitor job. The lemmas describe each call as a database update
  under the SLA key, through the interpretation \<open>sla_rows\<close> of the store's contract.
\<close>

subsection \<open>Deadlines\<close>

fun DEFAULT_SLA_MATRIX :: "TicketPriorityEnum \<Rightarrow> int \<times> int" where
  "DEFAULT_SLA_MATRIX TP_LOW = (480, 5760)"
| "DEFAULT_SLA_MATRIX TP_MEDIUM = (240, 2880)"
| "DEFAULT_SLA_MATRIX TP_HIGH = (60, 1440)"
| "DEFAULT_SLA_MATRIX TP_URGENT = (30, 480)"
| "DEFAULT_SLA_MATRIX TP_CRITICAL = (15, 240)"

definition SLA_SWEEP_BATCH :: nat where
  "SLA_SWEEP_BATCH = 500"

record ConfigureSlaDto =
  cs_policyId :: "uid option"
  cs_responseMinutes :: "int option"
  cs_resolutionMinutes :: "int option"
  cs_businessHours :: "bool option"

definition emptyConfigureSlaDto :: ConfigureSlaDto where
  "emptyConfigureSlaDto =
     \<lparr>cs_policyId = None, cs_responseMinutes = None, cs_resolutionMinutes = None, cs_businessHours = None\<rparr>"

text \<open>\<^verbatim>\<open>x ?? d\<close>.\<close>

definition orElse :: "'a option \<Rightarrow> 'a \<Rightarrow> 'a" where
  "orElse x d = (case x of None \<Rightarrow> d | Some v \<Rightarrow> v)"

lemma orElse_simps [simp]: "orElse None d = d" "orElse (Some v) d = v"
  by (simp_all add: orElse_def)

text \<open>Response and resolution minutes of a ticket of a priority.\<close>

definition slaMinutes :: "SlaSettings \<Rightarrow> TicketPriorityEnum \<Rightarrow> ConfigureSlaDto \<Rightarrow> int \<times> int" where
  "slaMinutes tenantSla prio dto =
     (let matrix = DEFAULT_SLA_MATRIX prio;
          isBaselinePriority = (prio = TP_MEDIUM);
          defaultResponseMinutes =
            (if isBaselinePriority then roundDiv (responseTimeTarget tenantSla) 60 else fst matrix);
          defaultResolutionMinutes =
            (if isBaselinePriority then roundDiv (resolutionTimeTarget tenantSla) 60 else snd matrix)
      in (orElse (cs_responseMinutes dto) defaultResponseMinutes,
          orElse (cs_resolutionMinutes dto) defaultResolutionMinutes))"

definition slaCalendar :: "Env \<Rightarrow> uid \<Rightarrow> bool \<Rightarrow> BusinessCalendar" where
  "slaCalendar env tenantId businessHours =
     (let base = DEFAULT_BUSINESS_CALENDAR (env_SLA_BUSINESS_START_HOUR env)
                   (env_SLA_BUSINESS_END_HOUR env) (env_SLA_HOLIDAYS env);
          dbHolidays = env_holidays env tenantId
      in if businessHours \<and> dbHolidays \<noteq> []
         then base\<lparr>holidays := holidays base @ map isoDate dbHolidays\<rparr> else base)"

definition slaDueAt :: "bool \<Rightarrow> BusinessCalendar \<Rightarrow> millis \<Rightarrow> int \<Rightarrow> millis" where
  "slaDueAt businessHours calendar base minutes =
     (if businessHours then addBusinessMinutes base minutes calendar
      else addCalendarMinutes base minutes)"

subsection \<open>Operations\<close>

definition slaGet :: "uid \<Rightarrow> uid \<Rightarrow> TicketSLA option service" where
  "slaGet tenantId ticketId = repoRead (\<lambda>db. Inr (getSla tenantId ticketId db))"

definition slaPut :: "TicketSLA \<Rightarrow> uid \<Rightarrow> unit service" where
  "slaPut sla tenantId =
     andThen getNow (\<lambda>now. repoWrite (\<lambda>db. Inr (upsertSla now sla tenantId db)))"

definition configureForTicket :: "Env \<Rightarrow> uid \<Rightarrow> Ticket \<Rightarrow> ConfigureSlaDto \<Rightarrow> TicketSLA service" where
  "configureForTicket env tenantId ticket dto =
     andThen (liftR (deref (t_priority ticket))) (\<lambda>prio.
     let tenantSla = env_slaSettings env tenantId;
         (responseMinutes, resolutionMinutes) = slaMinutes tenantSla prio dto;
         businessHours = orElse (cs_businessHours dto) (businessHoursOnly tenantSla);
         base = t_openedAt ticket;
         calendar = slaCalendar env tenantId businessHours;
         responseDueAt = slaDueAt businessHours calendar base responseMinutes;
         resolutionDueAt = slaDueAt businessHours calendar base resolutionMinutes
     in andThen (slaGet tenantId (t_id ticket)) (\<lambda>existing.
        andThen (if truthy (map_option s_id existing) then ret (s_id (the existing)) else randomUUID) (\<lambda>sid.
        andThen getNow (\<lambda>now.
        let sla = TicketSLA_recalculateRemaining now now
              (new_TicketSLA now sid tenantId (t_id ticket)
                 (case cs_policyId dto of Some p \<Rightarrow> Some p | None \<Rightarrow> Option.bind existing s_policyId)
                 (Some responseDueAt) (Some resolutionDueAt)
                 (Some (orElse (map_option s_breached existing) False))
                 (Option.bind existing s_breachedAt) None (Option.bind existing s_pausedAt)
                 (Some (orElse (map_option s_pausedSeconds existing) 0))
                 (map_option s_createdAt existing) None)
        in andThen (slaPut sla tenantId) (\<lambda>_. ret sla)))))"

definition getForTicket :: "uid \<Rightarrow> uid \<Rightarrow> TicketSLA service" where
  "getForTicket tenantId ticketId =
     andThen (slaGet tenantId ticketId) (\<lambda>s. case s of
       None \<Rightarrow> throw (NotFoundException (''No SLA configured for ticket '' @ ticketId))
     | Some sla \<Rightarrow> ret sla)"

definition refreshRemaining :: "uid \<Rightarrow> uid \<Rightarrow> unit service" where
  "refreshRemaining tenantId ticketId =
     andThen (slaGet tenantId ticketId) (\<lambda>s. case s of
       None \<Rightarrow> ret ()
     | Some sla \<Rightarrow>
         if s_breached sla then ret ()
         else andThen getNow (\<lambda>now. slaPut (TicketSLA_recalculateRemaining now now sla) tenantId))"

definition pauseSlaForTicket :: "uid \<Rightarrow> uid \<Rightarrow> unit service" where
  "pauseSlaForTicket tenantId ticketId =
     andThen (slaGet tenantId ticketId) (\<lambda>s. case s of
       None \<Rightarrow> ret ()
     | Some sla \<Rightarrow>
         if s_breached sla then ret ()
         else andThen getNow (\<lambda>now. slaPut (TicketSLA_pause now now sla) tenantId))"

definition resumeSlaForTicket :: "uid \<Rightarrow> uid \<Rightarrow> unit service" where
  "resumeSlaForTicket tenantId ticketId =
     andThen (slaGet tenantId ticketId) (\<lambda>s. case s of
       None \<Rightarrow> ret ()
     | Some sla \<Rightarrow>
         if s_breached sla then ret ()
         else andThen getNow (\<lambda>now.
                slaPut (TicketSLA_recalculateRemaining now now (TicketSLA_resume now now sla)) tenantId))"

text \<open>One row of the sweep; the result says whether it counts as a breach.\<close>

definition sweepRow :: "millis \<Rightarrow> TicketSLA \<Rightarrow> bool service" where
  "sweepRow asOf sla =
     andThen (repoRead (findById (s_ticketId sla) (s_tenantId sla))) (\<lambda>found. case found of
       None \<Rightarrow> ret False
     | Some ticket \<Rightarrow>
         andThen (liftR (deref (t_status ticket))) (\<lambda>st.
         let resolved = TicketStatus_isResolved st \<or> TicketStatus_isTerminal st;
             responded = (t_firstResponseAt ticket \<noteq> None)
         in case TicketSLA_detectBreach asOf responded resolved sla of
              None \<Rightarrow> ret False
            | Some breachType \<Rightarrow>
                andThen getNow (\<lambda>now.
                andThen (slaPut (TicketSLA_markBreached now asOf sla) (s_tenantId sla)) (\<lambda>_.
                andThen (TicketEventPublisher_publish (SlaBreachedEvent (s_tenantId sla) (t_id ticket)
                           (s_id sla) (SlaBreachType_value breachType))) (\<lambda>_.
                andThen (addJob (TicketEscalationJob (t_id ticket) (Some (s_tenantId sla))
                           (Some (''SLA_'' @ SlaBreachType_value breachType @ ''_BREACH'')) None None)) (\<lambda>_.
                andThen (if truthy (t_assignedAgentId ticket)
                         then addJob (SlaBreachNotificationJob (s_tenantId sla) (t_id ticket)
                                (t_ticketNumber ticket) breachType (the (t_assignedAgentId ticket)))
                         else ret ()) (\<lambda>_.
                andThen (AuditService_log (s_tenantId sla) None ''SLA_BREACH''
                           (''Ticket '' @ t_id ticket @ '' breached '' @ SlaBreachType_value breachType @ '' SLA'')) (\<lambda>_.
                ret True))))))))"

fun sweepRows :: "millis \<Rightarrow> TicketSLA list \<Rightarrow> nat \<Rightarrow> nat service" where
  "sweepRows asOf [] breached = ret breached"
| "sweepRows asOf (sla # rest) breached =
     andThen (sweepRow asOf sla) (\<lambda>b. sweepRows asOf rest (if b then breached + 1 else breached))"

definition runBreachSweep :: "uid option \<Rightarrow> millis \<Rightarrow> nat service" where
  "runBreachSweep tenantId asOf =
     andThen (repoRead (\<lambda>db. Inr (findDueSlas tenantId asOf SLA_SWEEP_BATCH db))) (\<lambda>dueSlas.
     sweepRows asOf dueSlas 0)"

subsection \<open>What the calls do to the database\<close>

lemma getNow_app [simp]: "getNow w = (Inr (wd_now w), w)"
  by (simp add: getNow_def)

lemma repoRead_app [simp]: "repoRead f w = (f (wd_db w), w)"
  by (simp add: repoRead_def)

lemma slaGet_app [simp]: "slaGet ten tid w = (Inr (getSla ten tid (wd_db w)), w)"
  by (simp add: slaGet_def)

lemma slaPut_app [simp]: "slaPut s ten w = (Inr (), w\<lparr>wd_db := upsertSla (wd_now w) s ten (wd_db w)\<rparr>)"
  by (simp add: slaPut_def repoWrite_def)

lemma getSla_key:
  assumes "getSla ten tid db = Some s"
  shows "s_tenantId s = ten" "s_ticketId s = tid"
  using assms by (auto simp: getSla_def slaToDomain_eq isSlaRow_def dest!: find_Some_set)

lemma pauseSlaForTicket_app:
  "pauseSlaForTicket ten tid w =
   (Inr (), case getSla ten tid (wd_db w) of
              None \<Rightarrow> w
            | Some s \<Rightarrow> if s_breached s then w
                        else w\<lparr>wd_db := upsertSla (wd_now w) (TicketSLA_pause (wd_now w) (wd_now w) s) ten (wd_db w)\<rparr>)"
  by (auto simp: pauseSlaForTicket_def svc_simps split: option.splits)

lemma resumeSlaForTicket_app:
  "resumeSlaForTicket ten tid w =
   (Inr (), case getSla ten tid (wd_db w) of
              None \<Rightarrow> w
            | Some s \<Rightarrow> if s_breached s then w
                        else w\<lparr>wd_db := upsertSla (wd_now w)
                                 (TicketSLA_recalculateRemaining (wd_now w) (wd_now w)
                                   (TicketSLA_resume (wd_now w) (wd_now w) s)) ten (wd_db w)\<rparr>)"
  by (auto simp: resumeSlaForTicket_def svc_simps split: option.splits)

lemma refreshRemaining_app:
  "refreshRemaining ten tid w =
   (Inr (), case getSla ten tid (wd_db w) of
              None \<Rightarrow> w
            | Some s \<Rightarrow> if s_breached s then w
                        else w\<lparr>wd_db := upsertSla (wd_now w)
                                 (TicketSLA_recalculateRemaining (wd_now w) (wd_now w) s) ten (wd_db w)\<rparr>)"
  by (auto simp: refreshRemaining_def svc_simps split: option.splits)

end
