(* ===== verification/Ticket_SLA_Sweep.thy ===== *)
theory Ticket_SLA_Sweep
  imports Ticket_SLA_Service Ticket_World
begin

text \<open>
  Correctness of the breach sweep. With the queue up, a sweep writes exactly the rows whose
  breach the entity detects, once each, and enqueues one escalation job for each of them; the
  final database is a \<open>fold\<close> of upserts, so the contract of the SLA store (\<open>sla_rows\<close>) gives what
  a reader finds afterwards. Two consequences of the way the batch is chosen are stated as well:
  rows that are due but not breached (resolved or paused tickets) never leave the batch, and a
  queue that fails after the row was flagged loses the escalation.
\<close>

subsection \<open>Effects of the collaborators\<close>

lemma publish_app:
  "TicketEventPublisher_publish e w =
   (Inr (), if wd_queueUp w
            then w\<lparr>wd_jobs := wd_jobs w @ [\<lparr>qj_queue = TICKET,
                   qj_data = TicketAnalyticsJob (getAggregateId e) (eventName e) e,
                   qj_tenantContext = wd_tenantContext w\<rparr>]\<rparr>
            else w)"
proof -
  have "eventName e \<in> set ANALYTICS_EVENTS" by (cases e) (simp_all add: ANALYTICS_EVENTS_def)
  then show ?thesis by (simp add: TicketEventPublisher_publish_def tryCatch_app addJob_def)
qed

lemma auditLog_app:
  "AuditService_log ten u a d w =
   (Inr (), let w' = w\<lparr>wd_audit := wd_audit w @
                 [\<lparr>au_tenantId = ten, au_userId = u, au_action = a, au_details = d\<rparr>]\<rparr>
            in if wd_queueUp w
               then w'\<lparr>wd_jobs := wd_jobs w @ [\<lparr>qj_queue = ANALYTICS,
                      qj_data = AuditEventJob ten u a d, qj_tenantContext = wd_tenantContext w\<rparr>]\<rparr>
               else w')"
  by (simp add: AuditService_log_def AuditEventPublisher_publish_def tryCatch_app addJob_def Let_def andThen_app)

lemma addJob_up:
  "wd_queueUp w \<Longrightarrow> addJob j w = (Inr (), w\<lparr>wd_jobs := wd_jobs w @
     [\<lparr>qj_queue = jobQueue j, qj_data = j, qj_tenantContext = wd_tenantContext w\<rparr>]\<rparr>)"
  by (simp add: addJob_def)

lemma addJob_down: "\<not> wd_queueUp w \<Longrightarrow> addJob j w = (Inl (Error ''Connection is closed.''), w)"
  by (simp add: addJob_def)

text \<open>A world that differs in the database and in what was sent only.\<close>

definition same_setting :: "World \<Rightarrow> World \<Rightarrow> bool" where
  "same_setting w w' \<longleftrightarrow>
     wd_now w' = wd_now w \<and> wd_uuid w' = wd_uuid w \<and> wd_queueUp w' = wd_queueUp w \<and>
     wd_tenantContext w' = wd_tenantContext w"

lemma same_setting_refl [simp]: "same_setting w w"
  by (simp add: same_setting_def)

lemma same_setting_trans: "same_setting u v \<Longrightarrow> same_setting v w \<Longrightarrow> same_setting u w"
  by (simp add: same_setting_def)

subsection \<open>What the sweep decides\<close>

fun isEscalation :: "job \<Rightarrow> bool" where
  "isEscalation (TicketEscalationJob _ _ _ _ _) = True"
| "isEscalation _ = False"

definition escalations :: "World \<Rightarrow> job list" where
  "escalations w = filter isEscalation (map qj_data (wd_jobs w))"

definition breachOf :: "millis \<Rightarrow> TicketDb \<Rightarrow> TicketSLA \<Rightarrow> SlaBreachType option" where
  "breachOf asOf db sla =
     (case findById (s_ticketId sla) (s_tenantId sla) db of
        Inr (Some t) \<Rightarrow>
          (case t_status t of
             None \<Rightarrow> None
           | Some st \<Rightarrow> TicketSLA_detectBreach asOf (t_firstResponseAt t \<noteq> None)
                          (TicketStatus_isResolved st \<or> TicketStatus_isTerminal st) sla)
      | _ \<Rightarrow> None)"

definition loads :: "TicketDb \<Rightarrow> TicketSLA \<Rightarrow> bool" where
  "loads db sla \<longleftrightarrow> (\<exists>r. findById (s_ticketId sla) (s_tenantId sla) db = Inr r)"

definition escalationFor :: "millis \<Rightarrow> TicketDb \<Rightarrow> TicketSLA \<Rightarrow> job" where
  "escalationFor asOf db sla =
     TicketEscalationJob (s_ticketId sla) (Some (s_tenantId sla))
       (Some (''SLA_'' @ SlaBreachType_value (the (breachOf asOf db sla)) @ ''_BREACH'')) None None"

lemma findById_status: "findById tid ten db = Inr (Some t) \<Longrightarrow> t_id t = tid \<and> (\<exists>st. t_status t = Some st)"
  by (auto simp: findById_def toDomain_def rbind_Inr_iff isTicketRow_def dest!: find_Some_set split: option.splits)

lemma findById_upsertSla [simp]: "findById tid ten (upsertSla now s ten' db) = findById tid ten db"
  by (cases "List.find (isTicketRow tid ten) (tickets db)")
    (simp_all add: findById_def upsertSla_def loadComments_def loadTags_def loadWatchers_def loadApprovals_def)

lemma findById_putSlas [simp]: "findById tid ten (fold (putSla now) ss db) = findById tid ten db"
  by (induction ss arbitrary: db) (auto simp: putSla_def)

lemma sweepRow_quiet:
  assumes "loads (wd_db w) sla" "breachOf asOf (wd_db w) sla = None"
  shows "sweepRow asOf sla w = (Inr False, w)"
proof -
  from assms(1) obtain r where r: "findById (s_ticketId sla) (s_tenantId sla) (wd_db w) = Inr r"
    by (auto simp: loads_def)
  show ?thesis
  proof (cases r)
    case None
    with r show ?thesis by (simp add: sweepRow_def)
  next
    case (Some t)
    with r obtain st where "t_status t = Some st" using findById_status by blast
    with r Some assms(2) show ?thesis by (simp add: sweepRow_def breachOf_def Let_def)
  qed
qed

lemma sweepRow_breach:
  assumes "wd_queueUp w" "breachOf asOf (wd_db w) sla = Some b"
  shows "\<exists>w'. sweepRow asOf sla w = (Inr True, w') \<and> same_setting w w' \<and>
           wd_db w' = putSla (wd_now w) (TicketSLA_markBreached (wd_now w) asOf sla) (wd_db w) \<and>
           escalations w' = escalations w @ [escalationFor asOf (wd_db w) sla]"
proof -
  from assms(2) obtain t st where t: "findById (s_ticketId sla) (s_tenantId sla) (wd_db w) = Inr (Some t)"
      "t_status t = Some st" and b: "TicketSLA_detectBreach asOf (t_firstResponseAt t \<noteq> None)
                          (TicketStatus_isResolved st \<or> TicketStatus_isTerminal st) sla = Some b"
    by (auto simp: breachOf_def split: sum.splits option.splits)
  from t(1) have [simp]: "t_id t = s_ticketId sla" using findById_status by blast
  show ?thesis
    using assms t b
    by (simp add: sweepRow_def Let_def andThen_app publish_app addJob_up auditLog_app
        same_setting_def putSla_def TicketSLA_markBreached_def escalations_def escalationFor_def)
qed

text \<open>The whole loop: which rows are written, what is counted and what is enqueued.\<close>

lemma breachOf_putSlas [simp]: "breachOf asOf (fold (putSla now) ss db) s = breachOf asOf db s"
  by (simp add: breachOf_def)

lemma loads_putSlas [simp]: "loads (fold (putSla now) ss db) s = loads db s"
  by (simp add: loads_def)

lemma escalationFor_putSlas [simp]: "escalationFor asOf (fold (putSla now) ss db) = escalationFor asOf db"
  by (rule ext) (simp add: escalationFor_def)

definition breaching :: "millis \<Rightarrow> TicketDb \<Rightarrow> TicketSLA list \<Rightarrow> TicketSLA list" where
  "breaching asOf db ss = filter (\<lambda>s. breachOf asOf db s \<noteq> None) ss"

lemma breaching_simps [simp]:
  "breaching asOf db [] = []"
  "breachOf asOf db s = None \<Longrightarrow> breaching asOf db (s # ss) = breaching asOf db ss"
  "breachOf asOf db s = Some b \<Longrightarrow> breaching asOf db (s # ss) = s # breaching asOf db ss"
  by (simp_all add: breaching_def)

lemma breaching_putSlas [simp]: "breaching asOf (fold (putSla now) vs db) ss = breaching asOf db ss"
  by (simp add: breaching_def)

lemmas putSla1 = fold_simps(2) [of "putSla now" v "[]" db for now v db, unfolded fold_simps(1), symmetric]

lemma sweepRows_effect:
  assumes "wd_queueUp w" "\<forall>s\<in>set ss. loads (wd_db w) s"
  shows "\<exists>w'. sweepRows asOf ss n w = (Inr (n + length (breaching asOf (wd_db w) ss)), w') \<and>
           same_setting w w' \<and>
           wd_db w' = fold (putSla (wd_now w))
             (map (TicketSLA_markBreached (wd_now w) asOf) (breaching asOf (wd_db w) ss)) (wd_db w) \<and>
           escalations w' = escalations w @ map (escalationFor asOf (wd_db w)) (breaching asOf (wd_db w) ss)"
  using assms
proof (induction ss arbitrary: n w)
  case Nil
  then show ?case by simp
next
  case (Cons s ss)
  show ?case
  proof (cases "breachOf asOf (wd_db w) s")
    case None
    with Cons.prems have "sweepRow asOf s w = (Inr False, w)" by (simp add: sweepRow_quiet)
    with Cons.IH [of w n] Cons.prems None show ?thesis by (simp add: andThen_app)
  next
    case (Some b)
    let ?m = "TicketSLA_markBreached (wd_now w) asOf s"
    from sweepRow_breach [OF Cons.prems(1) Some] obtain w1 where
      w1: "sweepRow asOf s w = (Inr True, w1)" "same_setting w w1"
        "wd_db w1 = fold (putSla (wd_now w)) [?m] (wd_db w)"
        "escalations w1 = escalations w @ [escalationFor asOf (wd_db w) s]" by auto
    have [simp]: "breaching asOf (wd_db w1) ss = breaching asOf (wd_db w) ss"
      "escalationFor asOf (wd_db w1) = escalationFor asOf (wd_db w)"
      by (simp_all only: w1(3) breaching_putSlas escalationFor_putSlas)
    have "\<forall>s\<in>set ss. loads (wd_db w1) s" using Cons.prems(2) by (simp only: w1(3) loads_putSlas) simp
    moreover from w1(2) Cons.prems have "wd_queueUp w1" "wd_now w1 = wd_now w"
      by (simp_all add: same_setting_def)
    ultimately obtain w' where "sweepRows asOf ss (n + 1) w1 =
        (Inr (n + 1 + length (breaching asOf (wd_db w) ss)), w')" "same_setting w1 w'"
        "wd_db w' = fold (putSla (wd_now w))
           (map (TicketSLA_markBreached (wd_now w) asOf) (breaching asOf (wd_db w) ss)) (wd_db w1)"
        "escalations w' = escalations w1 @ map (escalationFor asOf (wd_db w)) (breaching asOf (wd_db w) ss)"
      using Cons.IH [of w1 "n + 1"] by auto
    with w1 Some show ?thesis
      by (auto simp: andThen_app intro: same_setting_trans)
  qed
qed

subsection \<open>Reading the table after a sweep\<close>

definition sla_unique :: "TicketDb \<Rightarrow> bool" where
  "sla_unique db \<longleftrightarrow> distinct (map slaKey (ticketSla db))"

lemma slaKey_toDomain [simp]: "slaKey (slaToDomain r) = slaKey r"
  by (simp add: slaKey_def slaToDomain_eq)

lemma findDueSlas_distinct:
  assumes "sla_unique db"
  shows "distinct (map slaKey (findDueSlas ten asOf n db))"
proof -
  let ?rows = "sort_key (\<lambda>r. case s_resolutionDueAt r of None \<Rightarrow> 0 | Some d \<Rightarrow> d) (filter (dueRow ten asOf) (ticketSla db))"
  have "inj_on slaKey (set (ticketSla db))" "distinct (ticketSla db)"
    using assms by (simp_all add: sla_unique_def distinct_map)
  then have "inj_on slaKey (set ?rows)" "distinct ?rows"
    by (auto simp: distinct_sort intro: inj_on_subset)
  then have "distinct (map slaKey ?rows)" by (simp add: distinct_map)
  then have "distinct (take n (map slaKey ?rows))" by (rule distinct_take)
  then show ?thesis by (simp add: findDueSlas_def take_map comp_def)
qed

lemma slaKey_mark [simp]: "slaKey (TicketSLA_markBreached now asOf s) = slaKey s"
  by (simp add: slaKey_def TicketSLA_markBreached_def)

lemma sla_view_flags:
  assumes "sla_view z = sla_view s"
  shows "s_breached z = s_breached s" "s_breachedAt z = s_breachedAt s"
  using arg_cong [OF assms, of s_breached] arg_cong [OF assms, of s_breachedAt]
  by (simp_all add: sla_view_def)

lemma sweep_read:
  assumes "distinct (map slaKey ss)" "s \<in> set ss"
  shows "\<exists>s'. getSlaK (slaKey s) (fold (putSla now) (map (TicketSLA_markBreached now asOf) ss) db) = Some s' \<and>
           s_breached s' \<and> s_breachedAt s' = Some asOf"
proof -
  from assms(2) obtain us vs where ss: "ss = us @ s # vs" by (auto simp: in_set_conv_decomp)
  with assms(1) have "slaKey s \<notin> slaKey ` set vs" by auto
  then have "slaKey (TicketSLA_markBreached now asOf s) \<notin> slaKey ` set (map (TicketSLA_markBreached now asOf) vs)"
    by (auto simp: image_iff)
  from sla_rows.last_write_wins [OF this, of now "map (TicketSLA_markBreached now asOf) us" db]
  obtain z where "getSlaK (slaKey s) (fold (putSla now) (map (TicketSLA_markBreached now asOf) ss) db) = Some z"
    and view: "sla_view z = sla_view (TicketSLA_markBreached now asOf s)" by (auto simp: ss)
  with sla_view_flags [OF view] show ?thesis by (simp add: TicketSLA_markBreached_def)
qed

subsection \<open>Properties of the sweep\<close>

lemma runBreachSweep_effect:
  assumes "wd_queueUp w" "\<forall>s\<in>set (findDueSlas ten asOf SLA_SWEEP_BATCH (wd_db w)). loads (wd_db w) s"
  obtains w' where
    "runBreachSweep ten asOf w =
       (Inr (length (breaching asOf (wd_db w) (findDueSlas ten asOf SLA_SWEEP_BATCH (wd_db w)))), w')"
    "wd_db w' = fold (putSla (wd_now w)) (map (TicketSLA_markBreached (wd_now w) asOf)
       (breaching asOf (wd_db w) (findDueSlas ten asOf SLA_SWEEP_BATCH (wd_db w)))) (wd_db w)"
    "escalations w' = escalations w @ map (escalationFor asOf (wd_db w))
       (breaching asOf (wd_db w) (findDueSlas ten asOf SLA_SWEEP_BATCH (wd_db w)))"
  using sweepRows_effect [OF assms, of asOf 0] by (auto simp: runBreachSweep_def)

text \<open>C5: With the queue up and readable tickets, one breach sweep returns the number of SLAs in its
  batch whose breach the entity detects, every one of those SLAs reads back as breached at the
  sweep's instant, every SLA outside that set reads back unchanged, and exactly one escalation job
  per breach, in batch order, is added to the queue.\<close>

theorem sweep_flags_every_breach_of_the_batch:
  assumes "wd_queueUp w" "sla_unique (wd_db w)"
    and "batch = findDueSlas ten asOf SLA_SWEEP_BATCH (wd_db w)"
    and "\<forall>s\<in>set batch. loads (wd_db w) s"
    and "runBreachSweep ten asOf w = (r, w')"
  shows "r = Inr (length (breaching asOf (wd_db w) batch)) \<and>
    (\<forall>s\<in>set (breaching asOf (wd_db w) batch). \<exists>s'.
       getSla (s_tenantId s) (s_ticketId s) (wd_db w') = Some s' \<and> s_breached s' \<and> s_breachedAt s' = Some asOf) \<and>
    (\<forall>tn tid. (tn, tid) \<notin> slaKey ` set (breaching asOf (wd_db w) batch) \<longrightarrow>
       getSla tn tid (wd_db w') = getSla tn tid (wd_db w)) \<and>
    escalations w' = escalations w @ map (escalationFor asOf (wd_db w)) (breaching asOf (wd_db w) batch)"
proof -
  let ?hits = "breaching asOf (wd_db w) batch"
  have dist: "distinct (map slaKey ?hits)"
    using findDueSlas_distinct [OF assms(2)] by (simp add: assms(3) breaching_def distinct_map_filter)
  from runBreachSweep_effect [OF assms(1), of ten asOf] assms(3-5) have
    eff: "r = Inr (length ?hits)"
      "wd_db w' = fold (putSla (wd_now w)) (map (TicketSLA_markBreached (wd_now w) asOf) ?hits) (wd_db w)"
      "escalations w' = escalations w @ map (escalationFor asOf (wd_db w)) ?hits" by auto
  have "\<exists>s'. getSla (s_tenantId s) (s_ticketId s) (wd_db w') = Some s' \<and> s_breached s' \<and> s_breachedAt s' = Some asOf"
    if "s \<in> set ?hits" for s
    using sweep_read [OF dist that, of "wd_now w" asOf "wd_db w"] by (simp add: eff(2) getSlaK_def slaKey_def)
  moreover have "getSla tn tid (wd_db w') = getSla tn tid (wd_db w)" if "(tn, tid) \<notin> slaKey ` set ?hits" for tn tid
  proof -
    from that have "(tn, tid) \<notin> slaKey ` set (map (TicketSLA_markBreached (wd_now w) asOf) ?hits)"
      by (auto simp: image_iff)
    from sla_rows.lookup_puts_other [OF this, of "wd_now w" "wd_db w"] show ?thesis
      by (simp add: eff(2) getSlaK_def)
  qed
  ultimately show ?thesis using eff(1,3) by blast
qed

lemma sample_batch: "findDueSlas None 6000 SLA_SWEEP_BATCH sampleDb = [sampleSla]"
  by (simp add: findDueSlas_def sampleDb_def sampleSla_def new_TicketSLA_def dueRow_def whenSet_def slaToDomain_def SLA_SWEEP_BATCH_def)

lemma sample_breach: "breachOf 6000 sampleDb sampleSla = Some RESOLUTION"
  by (simp add: breachOf_def sampleSla_def new_TicketSLA_def sample_findById TicketSLA_detectBreach_def
      TicketStatus_isResolved_def)

lemma sample_loads: "loads sampleDb sampleSla"
  by (simp add: loads_def sampleSla_def new_TicketSLA_def sample_findById)

theorem sweep_flags_every_breach_of_the_batch_witness:
  "\<exists>w' s'. runBreachSweep None 6000 sampleWorld = (Inr 1, w') \<and>
     getSla ''acme'' ''t1'' (wd_db w') = Some s' \<and> s_breached s' \<and> length (escalations w') = 1"
proof -
  obtain r w' where run: "runBreachSweep None 6000 sampleWorld = (r, w')" by fastforce
  have keys: "s_tenantId sampleSla = ''acme''" "s_ticketId sampleSla = ''t1''"
    by (simp_all add: sampleSla_def new_TicketSLA_def)
  have "sla_unique sampleDb" by (simp add: sla_unique_def sampleDb_def)
  moreover have "escalations sampleWorld = []" by (simp add: escalations_def sampleWorld_def)
  ultimately show ?thesis
    using sweep_flags_every_breach_of_the_batch [OF _ _ refl _ run] run
    by (auto simp: sample_batch sample_loads sample_breach keys)
qed

text \<open>The batch is never drained of rows that are due but not in breach. When the rows of the
  batch all belong to resolved, closed or paused tickets, the sweep reports no breach and leaves
  the database as it was, whatever rows lie behind them in the due order; the next sweep meets the
  same batch again, so with \<open>SLA_SWEEP_BATCH\<close> such rows the monitor flags nothing any more.\<close>

theorem sweep_starves_behind_a_settled_batch:
  assumes "wd_queueUp w" "\<forall>s\<in>set (findDueSlas ten asOf SLA_SWEEP_BATCH (wd_db w)).
             loads (wd_db w) s \<and> breachOf asOf (wd_db w) s = None"
  shows "\<exists>w'. runBreachSweep ten asOf w = (Inr 0, w') \<and> wd_db w' = wd_db w \<and>
    findDueSlas ten asOf SLA_SWEEP_BATCH (wd_db w') = findDueSlas ten asOf SLA_SWEEP_BATCH (wd_db w)"
proof -
  have "breaching asOf (wd_db w) (findDueSlas ten asOf SLA_SWEEP_BATCH (wd_db w)) = []"
    using assms(2) by (simp add: breaching_def filter_empty_conv)
  with runBreachSweep_effect [OF assms(1), of ten asOf] assms(2) show ?thesis
    by (metis fold_simps(1) list.map(1) list.size(3))
qed

definition settledWorld :: World where
  "settledWorld = sampleWorld\<lparr>wd_db := sampleDb\<lparr>ticketSla := [sampleSla\<lparr>s_pausedAt := Some 100\<rparr>]\<rparr>\<rparr>"

theorem sweep_starves_behind_a_settled_batch_witness:
  "\<exists>w'. runBreachSweep None 6000 settledWorld = (Inr 0, w') \<and> wd_db w' = wd_db settledWorld \<and>
     findDueSlas None 6000 SLA_SWEEP_BATCH (wd_db w') = [sampleSla\<lparr>s_pausedAt := Some 100\<rparr>]"
proof -
  let ?s = "sampleSla\<lparr>s_pausedAt := Some 100\<rparr>"
  have batch: "findDueSlas None 6000 SLA_SWEEP_BATCH (wd_db settledWorld) = [?s]"
    by (simp add: settledWorld_def findDueSlas_def sampleSla_def new_TicketSLA_def dueRow_def whenSet_def
        slaToDomain_def SLA_SWEEP_BATCH_def)
  have "findById ''t1'' ''acme'' (wd_db settledWorld) = Inr (Some sampleTicket)"
    using sample_findById(1) by (simp add: settledWorld_def findById_def loadComments_def loadTags_def
        loadWatchers_def loadApprovals_def split: option.splits)
  then have "loads (wd_db settledWorld) ?s \<and> breachOf 6000 (wd_db settledWorld) ?s = None"
    by (simp add: loads_def breachOf_def sampleSla_def new_TicketSLA_def TicketSLA_detectBreach_def)
  then show ?thesis
    using sweep_starves_behind_a_settled_batch [of settledWorld None 6000] batch
    by (auto simp: settledWorld_def)
qed

text \<open>When the queue is down, the sweep flags the first breach of its batch in the database and
  then fails before it has enqueued the escalation: no job is added, and since the row is flagged,
  no later sweep looks at it again.\<close>

theorem sweep_loses_the_escalation_when_the_queue_is_down:
  assumes "\<not> wd_queueUp w" "findDueSlas ten asOf SLA_SWEEP_BATCH (wd_db w) = sla # rest"
    and "breachOf asOf (wd_db w) sla = Some b"
  shows "\<exists>e w'. runBreachSweep ten asOf w = (Inl e, w') \<and> wd_jobs w' = wd_jobs w \<and>
    (\<exists>s'. getSla (s_tenantId sla) (s_ticketId sla) (wd_db w') = Some s' \<and> s_breached s')"
proof -
  let ?m = "TicketSLA_markBreached (wd_now w) asOf sla"
  from assms(3) obtain t st where t: "findById (s_ticketId sla) (s_tenantId sla) (wd_db w) = Inr (Some t)"
      "t_status t = Some st" and b: "TicketSLA_detectBreach asOf (t_firstResponseAt t \<noteq> None)
                          (TicketStatus_isResolved st \<or> TicketStatus_isTerminal st) sla = Some b"
    by (auto simp: breachOf_def split: sum.splits option.splits)
  let ?w = "w\<lparr>wd_db := upsertSla (wd_now w) ?m (s_tenantId sla) (wd_db w)\<rparr>"
  have "runBreachSweep ten asOf w = (Inl (Error ''Connection is closed.''), ?w)"
    using assms t b
    by (simp add: runBreachSweep_def sweepRow_def Let_def andThen_app publish_app addJob_down)
  moreover obtain c where "getSla (s_tenantId sla) (s_ticketId sla) (wd_db ?w) =
      Some ((slaRaw (wd_now w) ?m (s_tenantId sla))\<lparr>s_createdAt := c\<rparr>)"
    using getSla_upsert [of "s_tenantId sla" ?m "wd_now w" "wd_db w"]
    by (auto simp: TicketSLA_markBreached_def)
  ultimately show ?thesis by (force simp: slaRaw_def TicketSLA_markBreached_def)
qed

theorem sweep_loses_the_escalation_when_the_queue_is_down_witness:
  "\<exists>e w' s'. runBreachSweep None 6000 (sampleWorld\<lparr>wd_queueUp := False\<rparr>) = (Inl e, w') \<and> wd_jobs w' = [] \<and>
     getSla ''acme'' ''t1'' (wd_db w') = Some s' \<and> s_breached s'"
proof -
  have keys: "s_tenantId sampleSla = ''acme''" "s_ticketId sampleSla = ''t1''"
    by (simp_all add: sampleSla_def new_TicketSLA_def)
  have "wd_jobs sampleWorld = []" by (simp add: sampleWorld_def)
  then show ?thesis
    using sweep_loses_the_escalation_when_the_queue_is_down
      [of "sampleWorld\<lparr>wd_queueUp := False\<rparr>" None 6000 sampleSla "[]" RESOLUTION]
    by (auto simp: sample_batch sample_breach keys)
qed

text \<open>The batch is selected by the resolution deadline alone, and the entity reports a missed
  resolution first: so the sweep reports a missed first response only for tickets that are already
  resolved, closed or cancelled. While a ticket is open, a missed response deadline is never
  reported as such.\<close>

theorem sweep_reports_response_breaches_only_after_resolution:
  assumes "sla \<in> set (findDueSlas ten asOf n db)"
    and "findById (s_ticketId sla) (s_tenantId sla) db = Inr (Some t)" "t_status t = Some st"
    and "breachOf asOf db sla = Some RESPONSE"
  shows "TicketStatus_isResolved st \<or> TicketStatus_isTerminal st"
proof -
  from assms(1) obtain r where "dueRow ten asOf r" "sla = slaToDomain r"
    by (auto simp: findDueSlas_def dest!: in_set_takeD)
  then have "pastDue (s_resolutionDueAt sla) asOf" by (simp add: dueRow_def slaToDomain_eq)
  with assms(2-4) show ?thesis by (auto simp: breachOf_def TicketSLA_detectBreach_def split: if_splits)
qed

definition answeredDb :: TicketDb where
  "answeredDb = sampleDb\<lparr>tickets := [sampleRow\<lparr>r_status := ''RESOLVED''\<rparr>]\<rparr>"

theorem sweep_reports_response_breaches_only_after_resolution_witness:
  "\<exists>t st. findById ''t1'' ''acme'' answeredDb = Inr (Some t) \<and> t_status t = Some st \<and>
     breachOf 6000 answeredDb sampleSla = Some RESPONSE \<and> (TicketStatus_isResolved st \<or> TicketStatus_isTerminal st)"
proof -
  have parse: "TicketStatus_create ''RESOLVED'' = Inr TS_RESOLVED" by code_simp
  obtain t where t: "findById ''t1'' ''acme'' answeredDb = Inr (Some t)" "t_status t = Some TS_RESOLVED"
      "t_firstResponseAt t = None"
    by (simp add: answeredDb_def findById_def sampleDb_def sampleRow_def isTicketRow_def toDomain_def
        sample_number sample_parse parse)
  have keys: "s_tenantId sampleSla = ''acme''" "s_ticketId sampleSla = ''t1''"
    by (simp_all add: sampleSla_def new_TicketSLA_def)
  have "sampleSla \<in> set (findDueSlas None 6000 SLA_SWEEP_BATCH answeredDb)"
    using sample_batch by (simp add: findDueSlas_def answeredDb_def)
  moreover have b: "breachOf 6000 answeredDb sampleSla = Some RESPONSE"
    using t by (simp add: breachOf_def keys TicketSLA_detectBreach_def TicketStatus_isResolved_def)
      (simp add: sampleSla_def new_TicketSLA_def)
  ultimately have "TicketStatus_isResolved TS_RESOLVED \<or> TicketStatus_isTerminal TS_RESOLVED"
    using t by (intro sweep_reports_response_breaches_only_after_resolution [of sampleSla None 6000 SLA_SWEEP_BATCH answeredDb t])
      (simp_all add: keys)
  with t b show ?thesis by auto
qed

end
