(* ===== verification/Ticket_Service.thy ===== *)
theory Ticket_Service
  imports Ticket_SLA_Sweep
begin

text \<open>
  The ticket service (\<^verbatim>\<open>src/modules/tickets/services/ticket.service.ts\<close>), one definition per
  method. A method loads the aggregate, runs one of its operations, persists it (database,
  domain events, realtime) and then performs the follow-up calls in the order of the source.
  \<open>runTransition\<close> turns an illegal transition into a \<^verbatim>\<open>BadRequestException\<close> and nothing else.
\<close>

subsection \<open>Helpers\<close>

definition repoSave :: "Ticket \<Rightarrow> uid \<Rightarrow> unit service" where
  "repoSave t tenantId = andThen getNow (\<lambda>now. repoWrite (save now t tenantId))"

text \<open>Returns the aggregate as it is after \<^verbatim>\<open>clearEvents\<close>.\<close>

definition persist :: "Ticket \<Rightarrow> uid \<Rightarrow> Ticket service" where
  "persist ticket tenantId =
     andThen (repoSave ticket tenantId) (\<lambda>_.
     andThen (publishAll (t_domainEvents ticket)) (\<lambda>_.
     let ticket' = clearEvents ticket
     in andThen (emitTicketUpdate tenantId ticket') (\<lambda>_. ret ticket')))"

definition runTransition :: "exn + 'a \<Rightarrow> 'a service" where
  "runTransition r =
     (case r of
        Inl (InvalidTicketTransitionError m) \<Rightarrow> throw (BadRequestException m)
      | _ \<Rightarrow> liftR r)"

definition getOrThrow :: "uid \<Rightarrow> uid \<Rightarrow> Ticket service" where
  "getOrThrow tenantId tid =
     andThen (repoRead (findById tid tenantId)) (\<lambda>found. case found of
       None \<Rightarrow> throw (NotFoundException (''Ticket with ID '' @ tid @ '' not found''))
     | Some t \<Rightarrow> ret t)"

definition notifyCustomer :: "Env \<Rightarrow> uid \<Rightarrow> Ticket \<Rightarrow> string \<Rightarrow> (string \<times> string option) list \<Rightarrow> unit service" where
  "notifyCustomer env tenantId ticket jobName extraPayload =
     (if \<not> truthy (t_customerId ticket) then ret ()
      else tryCatch
        (andThen (liftR (env_customer env tenantId (the (t_customerId ticket)))) (\<lambda>customer.
           if truthy (cu_email customer) \<and> \<not> cu_syntheticEmail customer
           then addJob (CustomerNotificationJob jobName tenantId (the (cu_email customer)) (t_id ticket)
                  (t_ticketNumber ticket) extraPayload)
           else ret ()))
        (\<lambda>_. ret ()))"

subsection \<open>Create and update\<close>

record CreateTicketDto =
  ct_subject :: string
  ct_description :: "string option"
  ct_customerId :: "uid option"
  ct_conversationId :: "uid option"
  ct_categoryId :: "uid option"
  ct_assignedAgentId :: "uid option"
  ct_assignedTeamId :: "uid option"
  ct_priority :: "TicketPriorityEnum option"
  ct_source :: "TicketSourceEnum option"
  ct_metadata :: "jobject option"

definition TicketService_create :: "Env \<Rightarrow> uid \<Rightarrow> CreateTicketDto \<Rightarrow> uid option \<Rightarrow> Ticket service" where
  "TicketService_create env tenantId dto userId =
     andThen (if truthy (ct_customerId dto)
              then andThen (liftR (env_customer env tenantId (the (ct_customerId dto)))) (\<lambda>_. ret ())
              else ret ()) (\<lambda>_.
     andThen (repoRead (\<lambda>db. Inr (nextSequence tenantId db))) (\<lambda>sequence.
     andThen randomUUID (\<lambda>ticketId.
     andThen (liftR (TicketNumber_generate sequence ''TKT'')) (\<lambda>number.
     andThen getNow (\<lambda>now.
     let initialStatus = (if truthy (ct_assignedAgentId dto) then TS_ASSIGNED else TS_OPEN);
         ticket = Ticket_create now ticketId
           \<lparr>i_tenantId = tenantId, i_ticketNumber = number, i_customerId = ct_customerId dto,
            i_conversationId = ct_conversationId dto, i_assignedAgentId = ct_assignedAgentId dto,
            i_assignedTeamId = ct_assignedTeamId dto, i_categoryId = ct_categoryId dto,
            i_priority = orElse (ct_priority dto) TP_MEDIUM, i_status = initialStatus,
            i_source = orElse (ct_source dto) SRC_MANUAL, i_subject = ct_subject dto,
            i_description = ct_description dto, i_metadata = Some (orElse (ct_metadata dto) Map.empty)\<rparr>
     in andThen (persist ticket tenantId) (\<lambda>ticket.
        andThen (configureForTicket env tenantId ticket emptyConfigureSlaDto) (\<lambda>_.
        andThen (if truthy (ct_assignedTeamId dto) \<and> \<not> truthy (ct_assignedAgentId dto)
                 then addJob (TicketAssignmentJob ticketId (the (ct_assignedTeamId dto)) userId)
                 else ret ()) (\<lambda>_.
        andThen (AuditService_log tenantId userId ''TICKET_CREATE''
                   (''Created ticket '' @ t_ticketNumber ticket @ '' ('' @ ticketId @ '')'')) (\<lambda>_.
        andThen (evaluateWorkflowTriggers tenantId TICKET_CREATED ticket) (\<lambda>_.
        andThen (notifyCustomer env tenantId ticket ''ticket-created'' [(''subject'', t_subject ticket)]) (\<lambda>_.
        ret ticket)))))))))))"

record UpdateTicketDto =
  ut_subject :: "string option"
  ut_description :: "string option"
  ut_priority :: "TicketPriorityEnum option"
  ut_status :: "TicketStatusEnum option"
  ut_categoryId :: "uid option"
  ut_metadata :: "jobject option"

definition SLA_PAUSE_STATUSES :: "TicketStatusEnum list" where
  "SLA_PAUSE_STATUSES = [TS_WAITING_CUSTOMER, TS_WAITING_INTERNAL, TS_APPROVAL_PENDING]"

definition SLA_RESUME_STATUSES :: "TicketStatusEnum list" where
  "SLA_RESUME_STATUSES = [TS_IN_PROGRESS, TS_ASSIGNED, TS_REOPENED]"

text \<open>The object literal \<^verbatim>\<open>update\<close> builds: every key is an own property, set or not.\<close>

definition updatePatch :: "UpdateTicketDto \<Rightarrow> Ticket \<Rightarrow> TicketPatch" where
  "updatePatch dto t =
     \<lparr>p_subject = own (ut_subject dto), p_description = own (ut_description dto),
      p_priority = own (ut_priority dto), p_categoryId = own (ut_categoryId dto),
      p_status = own (ut_status dto),
      p_metadata = (case ut_metadata dto of None \<Rightarrow> Undef
                    | Some m \<Rightarrow> Val ((case t_metadata t of None \<Rightarrow> Map.empty | Some m0 \<Rightarrow> m0) ++ m))\<rparr>"

text \<open>\<^verbatim>\<open>{ status }\<close>.\<close>

definition statusPatch :: "TicketStatusEnum \<Rightarrow> TicketPatch" where
  "statusPatch st =
     \<lparr>p_subject = Absent, p_description = Absent, p_priority = Absent, p_categoryId = Absent,
      p_status = Val st, p_metadata = Absent\<rparr>"

definition TicketService_update ::
  "Env \<Rightarrow> uid \<Rightarrow> uid \<Rightarrow> UpdateTicketDto \<Rightarrow> uid option \<Rightarrow> Ticket service" where
  "TicketService_update env tenantId tid dto userId =
     andThen (getOrThrow tenantId tid) (\<lambda>ticket.
     andThen (if ut_priority dto = None then ret False
              else andThen (liftR (deref (t_priority ticket))) (\<lambda>p. ret (ut_priority dto \<noteq> Some p))) (\<lambda>priorityChanged.
     andThen getNow (\<lambda>now.
     andThen (runTransition (Ticket_update now (updatePatch dto ticket) ticket)) (\<lambda>ticket.
     andThen (persist ticket tenantId) (\<lambda>ticket.
     andThen (if priorityChanged
              then andThen (configureForTicket env tenantId ticket emptyConfigureSlaDto) (\<lambda>_. ret ())
              else ret ()) (\<lambda>_.
     andThen (case ut_status dto of
                None \<Rightarrow> ret ()
              | Some st \<Rightarrow>
                  if st \<in> set SLA_PAUSE_STATUSES then pauseSlaForTicket tenantId tid
                  else if st \<in> set SLA_RESUME_STATUSES then resumeSlaForTicket tenantId tid
                  else ret ()) (\<lambda>_.
     andThen (AuditService_log tenantId userId ''TICKET_UPDATE'' (''Updated ticket '' @ tid)) (\<lambda>_.
     andThen (evaluateWorkflowTriggers tenantId TICKET_UPDATED ticket) (\<lambda>_.
     ret ticket)))))))))"

subsection \<open>Transitions\<close>

text \<open>Load, transition, persist: the part every transition method shares.\<close>

definition transition ::
  "uid \<Rightarrow> uid \<Rightarrow> (millis \<Rightarrow> Ticket \<Rightarrow> exn + Ticket) \<Rightarrow> Ticket service" where
  "transition tenantId tid f =
     andThen (getOrThrow tenantId tid) (\<lambda>ticket.
     andThen getNow (\<lambda>now.
     andThen (runTransition (f now ticket)) (\<lambda>ticket.
     persist ticket tenantId)))"

definition TicketService_start :: "uid \<Rightarrow> uid \<Rightarrow> uid option \<Rightarrow> Ticket service" where
  "TicketService_start tenantId tid userId =
     andThen (transition tenantId tid Ticket_start) (\<lambda>ticket.
     andThen (AuditService_log tenantId userId ''TICKET_START'' (''Started work on ticket '' @ tid)) (\<lambda>_.
     ret ticket))"

definition TicketService_waitForCustomer :: "uid \<Rightarrow> uid \<Rightarrow> uid option \<Rightarrow> Ticket service" where
  "TicketService_waitForCustomer tenantId tid userId =
     andThen (transition tenantId tid (\<lambda>now. Ticket_update now (statusPatch TS_WAITING_CUSTOMER))) (\<lambda>ticket.
     andThen (pauseSlaForTicket tenantId tid) (\<lambda>_.
     andThen (AuditService_log tenantId userId ''TICKET_WAITING_CUSTOMER''
       (''Ticket '' @ tid @ '' marked as waiting for customer - SLA clock paused'')) (\<lambda>_.
     ret ticket)))"

definition TicketService_resumeFromWaiting :: "uid \<Rightarrow> uid \<Rightarrow> uid option \<Rightarrow> Ticket service" where
  "TicketService_resumeFromWaiting tenantId tid userId =
     andThen (transition tenantId tid (\<lambda>now. Ticket_update now (statusPatch TS_IN_PROGRESS))) (\<lambda>ticket.
     andThen (resumeSlaForTicket tenantId tid) (\<lambda>_.
     andThen (AuditService_log tenantId userId ''TICKET_RESUME_FROM_WAITING''
       (''Ticket '' @ tid @ '' resumed from waiting - SLA clock resumed'')) (\<lambda>_.
     ret ticket)))"

definition TicketService_resolve :: "Env \<Rightarrow> uid \<Rightarrow> uid \<Rightarrow> string option \<Rightarrow> uid option \<Rightarrow> Ticket service" where
  "TicketService_resolve env tenantId tid resolutionSummary userId =
     andThen (transition tenantId tid (\<lambda>now. Ticket_resolve now resolutionSummary userId)) (\<lambda>ticket.
     andThen (refreshRemaining tenantId tid) (\<lambda>_.
     andThen (AuditService_log tenantId userId ''TICKET_RESOLVE'' (''Resolved ticket '' @ tid)) (\<lambda>_.
     andThen (notifyCustomer env tenantId ticket ''ticket-resolution'' [(''summary'', resolutionSummary)]) (\<lambda>_.
     ret ticket))))"

definition TicketService_close :: "Env \<Rightarrow> uid \<Rightarrow> uid \<Rightarrow> uid option \<Rightarrow> Ticket service" where
  "TicketService_close env tenantId tid userId =
     andThen (transition tenantId tid (\<lambda>now. Ticket_close now userId)) (\<lambda>ticket.
     andThen (AuditService_log tenantId userId ''TICKET_CLOSE'' (''Closed ticket '' @ tid)) (\<lambda>_.
     andThen (notifyCustomer env tenantId ticket ''ticket-closed'' []) (\<lambda>_.
     ret ticket)))"

definition TicketService_reopen :: "Env \<Rightarrow> uid \<Rightarrow> uid \<Rightarrow> uid option \<Rightarrow> Ticket service" where
  "TicketService_reopen env tenantId tid userId =
     andThen (transition tenantId tid (\<lambda>now. Ticket_reopen now userId)) (\<lambda>ticket.
     andThen (configureForTicket env tenantId ticket emptyConfigureSlaDto) (\<lambda>_.
     andThen (AuditService_log tenantId userId ''TICKET_REOPEN'' (''Reopened ticket '' @ tid)) (\<lambda>_.
     andThen (notifyCustomer env tenantId ticket ''ticket-reopened'' []) (\<lambda>_.
     ret ticket))))"

definition TicketService_cancel :: "Env \<Rightarrow> uid \<Rightarrow> uid \<Rightarrow> uid option \<Rightarrow> Ticket service" where
  "TicketService_cancel env tenantId tid userId =
     andThen (transition tenantId tid Ticket_cancel) (\<lambda>ticket.
     andThen (AuditService_log tenantId userId ''TICKET_CANCEL'' (''Cancelled ticket '' @ tid)) (\<lambda>_.
     andThen (notifyCustomer env tenantId ticket ''ticket-cancelled'' []) (\<lambda>_.
     ret ticket)))"

definition TicketService_delete :: "uid \<Rightarrow> uid \<Rightarrow> uid option \<Rightarrow> bool service" where
  "TicketService_delete tenantId tid userId =
     andThen (getOrThrow tenantId tid) (\<lambda>ticket.
     andThen getNow (\<lambda>now.
     andThen (repoWrite (\<lambda>db. Inr (snd (deleteTicket now tid tenantId db)))) (\<lambda>_.
     andThen (AuditService_log tenantId userId ''TICKET_DELETE'' (''Soft deleted ticket '' @ tid)) (\<lambda>_.
     ret True))))"

subsection \<open>Tags and watchers\<close>

record TagTicketDto =
  tt_tag :: string
  tt_color :: "string option"

definition TicketService_addTag :: "uid \<Rightarrow> uid \<Rightarrow> TagTicketDto \<Rightarrow> Ticket service" where
  "TicketService_addTag tenantId tid dto =
     andThen (getOrThrow tenantId tid) (\<lambda>ticket.
     andThen randomUUID (\<lambda>uuid.
     andThen getNow (\<lambda>now.
     persist (Ticket_addTag now (new_TicketTag now uuid tenantId tid (tt_tag dto) (tt_color dto) None None) ticket)
       tenantId)))"

definition TicketService_removeTag :: "uid \<Rightarrow> uid \<Rightarrow> string \<Rightarrow> Ticket service" where
  "TicketService_removeTag tenantId tid tag =
     andThen (getOrThrow tenantId tid) (\<lambda>ticket.
     andThen getNow (\<lambda>now. persist (Ticket_removeTag now tag ticket) tenantId))"

record WatchTicketDto =
  wt_userId :: uid
  wt_notificationPreferences :: "jobject option"

definition TicketService_watch :: "uid \<Rightarrow> uid \<Rightarrow> WatchTicketDto \<Rightarrow> Ticket service" where
  "TicketService_watch tenantId tid dto =
     andThen (getOrThrow tenantId tid) (\<lambda>ticket.
     andThen randomUUID (\<lambda>uuid.
     andThen getNow (\<lambda>now.
     persist (Ticket_addWatcher now
       (new_TicketWatcher now uuid tenantId tid (wt_userId dto)
          (Some (orElse (wt_notificationPreferences dto) Map.empty)) None None) ticket)
       tenantId)))"

definition TicketService_unwatch :: "uid \<Rightarrow> uid \<Rightarrow> uid \<Rightarrow> Ticket service" where
  "TicketService_unwatch tenantId tid userId =
     andThen (getOrThrow tenantId tid) (\<lambda>ticket.
     andThen getNow (\<lambda>now. persist (Ticket_removeWatcher now userId ticket) tenantId))"

subsection \<open>Merge and split\<close>

text \<open>\<^verbatim>\<open>[...(v || [])]\<close> for a metadata value: strings spread into their characters; a truthy
  number, boolean or object is not iterable.\<close>

fun spreadValue :: "json option \<Rightarrow> exn + json list" where
  "spreadValue None = Inr []"
| "spreadValue (Some JNull) = Inr []"
| "spreadValue (Some (JBool b)) = (if b then Inl TypeError else Inr [])"
| "spreadValue (Some (JNum n)) = (if n = 0 then Inr [] else Inl TypeError)"
| "spreadValue (Some (JStr s)) = Inr (map (\<lambda>c. JStr [c]) s)"
| "spreadValue (Some (JArr xs)) = Inr xs"
| "spreadValue (Some (JObj kvs)) = Inl TypeError"

definition metadataOf :: "Ticket \<Rightarrow> jobject" where
  "metadataOf t = (case t_metadata t of None \<Rightarrow> Map.empty | Some m \<Rightarrow> m)"

definition TicketService_merge :: "uid \<Rightarrow> uid \<Rightarrow> uid \<Rightarrow> uid option \<Rightarrow> Ticket service" where
  "TicketService_merge tenantId sourceId targetId userId =
     andThen (getOrThrow tenantId sourceId) (\<lambda>source.
     andThen (getOrThrow tenantId targetId) (\<lambda>target.
     andThen (liftR (spreadValue (metadataOf target ''mergedTicketIds''))) (\<lambda>merged.
     andThen getNow (\<lambda>now.
     let target' = Ticket_setMetadata now [''mergedTicketIds'' \<mapsto> JArr (merged @ [JStr sourceId])] target;
         source' = Ticket_setMetadata now [''mergedInto'' \<mapsto> JStr targetId] source
     in andThen (liftR (deref (t_status source'))) (\<lambda>st.
        andThen (if \<not> TicketStatus_isTerminal st then liftR (Ticket_close now userId source') else ret source') (\<lambda>source'.
        andThen (persist target' tenantId) (\<lambda>target'.
        andThen (persist source' tenantId) (\<lambda>_.
        andThen (AuditService_log tenantId userId ''TICKET_MERGE''
                   (''Merged ticket '' @ sourceId @ '' into '' @ targetId)) (\<lambda>_.
        ret target')))))))))"

record SplitTicketDto =
  st_messageId :: uid
  st_newSubject :: "string option"

definition TicketService_split :: "Env \<Rightarrow> uid \<Rightarrow> uid \<Rightarrow> SplitTicketDto \<Rightarrow> uid option \<Rightarrow> Ticket service" where
  "TicketService_split env tenantId tid dto userId =
     andThen (getOrThrow tenantId tid) (\<lambda>parent.
     andThen (liftR (env_splitConversation env tenantId (t_conversationId parent) userId)) (\<lambda>splitConversation.
     andThen (repoRead (\<lambda>db. Inr (nextSequence tenantId db))) (\<lambda>sequence.
     andThen randomUUID (\<lambda>splitId.
     andThen (liftR (TicketNumber_generate sequence ''TKT'')) (\<lambda>number.
     andThen (liftR (deref (t_priority parent))) (\<lambda>prio.
     andThen getNow (\<lambda>now.
     let subject = (if truthy (st_newSubject dto) then the (st_newSubject dto)
                    else ''Split: '' @ orElse (t_subject parent) ''undefined'');
         splitTicket = Ticket_create now splitId
           \<lparr>i_tenantId = tenantId, i_ticketNumber = number, i_customerId = t_customerId parent,
            i_conversationId = Some splitConversation, i_assignedAgentId = t_assignedAgentId parent,
            i_assignedTeamId = t_assignedTeamId parent, i_categoryId = t_categoryId parent,
            i_priority = prio, i_status = TS_OPEN, i_source = t_source parent, i_subject = subject,
            i_description = Some (''Split off from ticket '' @ t_ticketNumber parent @ '' on message '' @ st_messageId dto),
            i_metadata = Some [''splitFromTicketId'' \<mapsto> JStr tid, ''splitFromMessageId'' \<mapsto> JStr (st_messageId dto)]\<rparr>
     in andThen (liftR (spreadValue (metadataOf parent ''splitTicketIds''))) (\<lambda>splitTickets.
        let parent' = Ticket_setMetadata now
              ((metadataOf parent)(''splitTicketIds'' \<mapsto> JArr (splitTickets @ [JStr splitId]))) parent
        in andThen (persist splitTicket tenantId) (\<lambda>splitTicket.
           andThen (persist parent' tenantId) (\<lambda>_.
           andThen (configureForTicket env tenantId splitTicket emptyConfigureSlaDto) (\<lambda>_.
           andThen (AuditService_log tenantId userId ''TICKET_SPLIT''
                      (''Split ticket '' @ splitId @ '' from parent ticket '' @ tid)) (\<lambda>_.
           andThen (evaluateWorkflowTriggers tenantId TICKET_CREATED splitTicket) (\<lambda>_.
           ret splitTicket)))))))))))))"

subsection \<open>Bulk status and queries\<close>

definition emptyUpdateTicketDto :: UpdateTicketDto where
  "emptyUpdateTicketDto =
     \<lparr>ut_subject = None, ut_description = None, ut_priority = None, ut_status = None,
      ut_categoryId = None, ut_metadata = None\<rparr>"

definition bulkOne :: "Env \<Rightarrow> uid \<Rightarrow> uid \<Rightarrow> TicketStatusEnum \<Rightarrow> uid option \<Rightarrow> Ticket service" where
  "bulkOne env tenantId tid status userId =
     (case status of
        TS_RESOLVED \<Rightarrow> TicketService_resolve env tenantId tid None userId
      | TS_CLOSED \<Rightarrow> TicketService_close env tenantId tid userId
      | TS_CANCELLED \<Rightarrow> TicketService_cancel env tenantId tid userId
      | TS_REOPENED \<Rightarrow> TicketService_reopen env tenantId tid userId
      | _ \<Rightarrow> TicketService_update env tenantId tid (emptyUpdateTicketDto\<lparr>ut_status := Some status\<rparr>) userId)"

fun bulkLoop ::
  "Env \<Rightarrow> uid \<Rightarrow> TicketStatusEnum \<Rightarrow> uid option \<Rightarrow> uid list \<Rightarrow> nat \<Rightarrow> (uid \<rightharpoonup> string)
   \<Rightarrow> (nat \<times> (uid \<rightharpoonup> string)) service" where
  "bulkLoop env tenantId status userId [] updatedCount errors = ret (updatedCount, errors)"
| "bulkLoop env tenantId status userId (tid # rest) updatedCount errors =
     andThen (tryCatch (andThen (bulkOne env tenantId tid status userId) (\<lambda>_. ret (updatedCount + 1, errors)))
                (\<lambda>err. ret (updatedCount, errors(tid \<mapsto> message err)))) (\<lambda>(n, es).
     bulkLoop env tenantId status userId rest n es)"

definition TicketService_bulkUpdateStatus ::
  "Env \<Rightarrow> uid \<Rightarrow> uid list \<Rightarrow> TicketStatusEnum \<Rightarrow> uid option \<Rightarrow> (nat \<times> nat \<times> (uid \<rightharpoonup> string)) service" where
  "TicketService_bulkUpdateStatus env tenantId ticketIds status userId =
     andThen (bulkLoop env tenantId status userId ticketIds 0 Map.empty) (\<lambda>(updatedCount, errors).
     andThen (AuditService_log tenantId userId ''TICKET_BULK_UPDATE''
       (''Bulk set status '' @ TicketStatus_value status @ '': '' @ showNat updatedCount @ '' succeeded, '' @
        showNat (length ticketIds - updatedCount) @ '' failed'')) (\<lambda>_.
     ret (updatedCount, length ticketIds - updatedCount, errors)))"

definition TicketService_findById :: "uid \<Rightarrow> uid \<Rightarrow> Ticket service" where
  "TicketService_findById tenantId tid = getOrThrow tenantId tid"

definition TicketService_findByNumber :: "uid \<Rightarrow> string \<Rightarrow> Ticket service" where
  "TicketService_findByNumber tenantId ticketNumber =
     andThen (repoRead (findByNumber tenantId ticketNumber)) (\<lambda>found. case found of
       None \<Rightarrow> throw (NotFoundException (''Ticket '' @ ticketNumber @ '' not found''))
     | Some t \<Rightarrow> ret t)"

end
