(* ===== verification/Ticket_Desk.thy ===== *)
theory Ticket_Desk
  imports Ticket_Service
begin

text \<open>
  The services around the ticket service: approvals (\<^verbatim>\<open>ticket-approval.service.ts\<close>), escalation
  (\<^verbatim>\<open>ticket-escalation.service.ts\<close>), assignment (\<^verbatim>\<open>ticket-assignment.service.ts\<close>), comments and
  attachments (\<^verbatim>\<open>ticket-comment.service.ts\<close>), the two cron producers and the worker that
  dispatches the jobs of the ticket queue (\<^verbatim>\<open>jobs/ticket-queue.processor.ts\<close>).
\<close>

subsection \<open>Approvals\<close>

text \<open>Save and publish, without the realtime broadcast of the ticket service.\<close>

definition saveAndPublish :: "Ticket \<Rightarrow> uid \<Rightarrow> Ticket service" where
  "saveAndPublish ticket tenantId =
     andThen (repoSave ticket tenantId) (\<lambda>_.
     andThen (publishAll (t_domainEvents ticket)) (\<lambda>_.
     ret (clearEvents ticket)))"

record RequestApprovalDto =
  ra_approverId :: uid
  ra_type :: "ApprovalTypeEnum option"
  ra_comments :: "string option"

definition TicketApprovalService_request ::
  "uid \<Rightarrow> uid \<Rightarrow> RequestApprovalDto \<Rightarrow> uid option \<Rightarrow> TicketApproval service" where
  "TicketApprovalService_request tenantId ticketId dto userId =
     andThen (getOrThrow tenantId ticketId) (\<lambda>ticket.
     andThen randomUUID (\<lambda>uuid.
     andThen getNow (\<lambda>now.
     let approval = new_TicketApproval now uuid tenantId ticketId (ra_approverId dto) (Some AP_PENDING)
                      (Some (orElse (ra_type dto) AT_CUSTOM)) (ra_comments dto) None None None
     in andThen (saveAndPublish (Ticket_requestApproval now approval ticket) tenantId) (\<lambda>_.
        andThen (AuditService_log tenantId userId ''TICKET_APPROVAL_REQUEST''
          (''Requested '' @ ApprovalType_value (ap_type approval) @ '' approval '' @ ap_id approval @
           '' on ticket '' @ ticketId)) (\<lambda>_.
        ret approval)))))"

definition getApprovalOrThrow :: "uid \<Rightarrow> uid \<Rightarrow> TicketApproval service" where
  "getApprovalOrThrow tenantId approvalId =
     andThen (repoRead (\<lambda>db. Inr (getApproval tenantId approvalId db))) (\<lambda>found. case found of
       None \<Rightarrow> throw (NotFoundException (''Approval '' @ approvalId @ '' not found''))
     | Some a \<Rightarrow> ret a)"

definition resumeTicket :: "uid \<Rightarrow> uid \<Rightarrow> unit service" where
  "resumeTicket tenantId ticketId =
     andThen (repoRead (findById ticketId tenantId)) (\<lambda>found. case found of
       None \<Rightarrow> ret ()
     | Some ticket \<Rightarrow>
         andThen (liftR (deref (t_status ticket))) (\<lambda>st.
         if st \<noteq> TS_APPROVAL_PENDING then ret ()
         else if list_ex TicketApproval_isPending (t_approvals ticket) then ret ()
         else andThen getNow (\<lambda>now.
              andThen (liftR (Ticket_update now (statusPatch TS_IN_PROGRESS) ticket)) (\<lambda>ticket.
              andThen (saveAndPublish ticket tenantId) (\<lambda>_. ret ())))))"

text \<open>The shared course of \<^verbatim>\<open>approve\<close>, \<^verbatim>\<open>reject\<close> and \<^verbatim>\<open>cancel\<close>.\<close>

definition decideApproval ::
  "uid \<Rightarrow> uid \<Rightarrow> (millis \<Rightarrow> TicketApproval \<Rightarrow> exn + TicketApproval)
   \<Rightarrow> (TicketApproval \<Rightarrow> unit service) \<Rightarrow> TicketApproval service" where
  "decideApproval tenantId approvalId f announce =
     andThen (getApprovalOrThrow tenantId approvalId) (\<lambda>approval.
     andThen getNow (\<lambda>now.
     andThen (liftR (f now approval)) (\<lambda>approval.
     andThen (repoWrite (\<lambda>db. Inr (saveApproval now approval tenantId db))) (\<lambda>_.
     andThen (resumeTicket tenantId (ap_ticketId approval)) (\<lambda>_.
     andThen (announce approval) (\<lambda>_.
     ret approval))))))"

definition TicketApprovalService_approve ::
  "uid \<Rightarrow> uid \<Rightarrow> string option \<Rightarrow> uid option \<Rightarrow> TicketApproval service" where
  "TicketApprovalService_approve tenantId approvalId comments userId =
     decideApproval tenantId approvalId (\<lambda>now. TicketApproval_approve now comments) (\<lambda>a.
       andThen (TicketEventPublisher_publish
                  (TicketApprovedEvent tenantId (ap_ticketId a) (ap_id a) (ap_approverId a))) (\<lambda>_.
       AuditService_log tenantId userId ''TICKET_APPROVED''
         (''Approved '' @ ap_id a @ '' on ticket '' @ ap_ticketId a)))"

definition TicketApprovalService_reject ::
  "uid \<Rightarrow> uid \<Rightarrow> string option \<Rightarrow> uid option \<Rightarrow> TicketApproval service" where
  "TicketApprovalService_reject tenantId approvalId comments userId =
     decideApproval tenantId approvalId (\<lambda>now. TicketApproval_reject now comments) (\<lambda>a.
       andThen (TicketEventPublisher_publish
                  (TicketRejectedEvent tenantId (ap_ticketId a) (ap_id a) (ap_approverId a))) (\<lambda>_.
       AuditService_log tenantId userId ''TICKET_REJECTED''
         (''Rejected '' @ ap_id a @ '' on ticket '' @ ap_ticketId a)))"

definition TicketApprovalService_cancel :: "uid \<Rightarrow> uid \<Rightarrow> uid option \<Rightarrow> TicketApproval service" where
  "TicketApprovalService_cancel tenantId approvalId userId =
     decideApproval tenantId approvalId TicketApproval_cancel (\<lambda>a.
       AuditService_log tenantId userId ''TICKET_APPROVAL_CANCELLED''
         (''Cancelled approval '' @ ap_id a @ '' on ticket '' @ ap_ticketId a))"

definition listApprovals :: "uid \<Rightarrow> uid \<Rightarrow> TicketApproval list service" where
  "listApprovals tenantId ticketId = repoRead (\<lambda>db. Inr (findApprovals tenantId ticketId db))"

subsection \<open>Escalation\<close>

record EscalationSignals =
  aiConfidence :: "real option"
  sentimentScore :: "real option"
  humanRequested :: bool
  priorityRequested :: bool
  workflowId :: "string option"

definition escalationReasons :: "Env \<Rightarrow> EscalationSignals \<Rightarrow> string list" where
  "escalationReasons env signals =
     (case aiConfidence signals of None \<Rightarrow> []
      | Some c \<Rightarrow> if c < env_TICKET_AI_CONFIDENCE_THRESHOLD env then [''AI_LOW_CONFIDENCE''] else []) @
     (case sentimentScore signals of None \<Rightarrow> []
      | Some s \<Rightarrow> if s \<le> env_TICKET_NEGATIVE_SENTIMENT_THRESHOLD env then [''NEGATIVE_SENTIMENT''] else []) @
     (if humanRequested signals then [''HUMAN_REQUESTED''] else []) @
     (if priorityRequested signals then [''PRIORITY''] else []) @
     (if truthy (workflowId signals) then [''WORKFLOW''] else [])"

fun joinComma :: "string list \<Rightarrow> string" where
  "joinComma [] = []"
| "joinComma [x] = x"
| "joinComma (x # y # zs) = x @ '','' @ joinComma (y # zs)"

definition TicketEscalationService_evaluate ::
  "Env \<Rightarrow> uid \<Rightarrow> uid \<Rightarrow> EscalationSignals \<Rightarrow> (bool \<times> string list) service" where
  "TicketEscalationService_evaluate env tenantId ticketId signals =
     (let reasons = escalationReasons env signals
      in if reasons = [] then ret (False, reasons)
         else andThen (addJob (TicketEscalationJob ticketId (Some tenantId) (Some (joinComma reasons))
                         (workflowId signals) None)) (\<lambda>_. ret (True, reasons)))"

definition repoAddAssignment :: "TicketAssignment \<Rightarrow> uid \<Rightarrow> unit service" where
  "repoAddAssignment a tenantId = repoWrite (\<lambda>db. Inr (addAssignment a tenantId db))"

definition TicketEscalationService_escalate ::
  "uid \<Rightarrow> uid \<Rightarrow> string \<Rightarrow> string option \<Rightarrow> uid option \<Rightarrow> Ticket service" where
  "TicketEscalationService_escalate tenantId ticketId reason workflow userId =
     andThen (getOrThrow tenantId ticketId) (\<lambda>ticket.
     andThen getNow (\<lambda>now.
     andThen (liftR (Ticket_escalate now reason ticket)) (\<lambda>ticket.
     andThen (saveAndPublish ticket tenantId) (\<lambda>ticket.
     andThen randomUUID (\<lambda>uuid.
     andThen (repoAddAssignment (new_TicketAssignment now uuid tenantId ticketId (t_assignedAgentId ticket)
                (t_assignedTeamId ticket) (Some ''ESCALATION'') userId None None None) tenantId) (\<lambda>_.
     andThen (if truthy workflow then addJob (RunWorkflowJob (the workflow) ticketId tenantId) else ret ()) (\<lambda>_.
     andThen (liftR (deref (t_priority ticket))) (\<lambda>prio.
     andThen (AuditService_log tenantId userId ''TICKET_ESCALATE''
                (''Escalated ticket '' @ ticketId @ '' ('' @ reason @ '') to '' @ TicketPriority_value prio)) (\<lambda>_.
     andThen (evaluateWorkflowTriggers tenantId TICKET_ESCALATED ticket) (\<lambda>_.
     ret ticket))))))))))"

subsection \<open>Assignment\<close>

definition ACTIVE_TICKET_STATUSES :: "TicketStatusEnum list" where
  "ACTIVE_TICKET_STATUSES =
     [TS_OPEN, TS_ASSIGNED, TS_IN_PROGRESS, TS_WAITING_CUSTOMER, TS_WAITING_INTERNAL,
      TS_APPROVAL_PENDING, TS_REOPENED]"

definition notifyAssignedAgent :: "uid \<Rightarrow> uid \<Rightarrow> Ticket \<Rightarrow> unit service" where
  "notifyAssignedAgent tenantId agentId ticket =
     tryCatch (addJob (TicketAssignedNotificationJob tenantId agentId (t_id ticket) (t_ticketNumber ticket)))
       (\<lambda>_. ret ())"

definition recordAssignment ::
  "uid \<Rightarrow> uid \<Rightarrow> uid option \<Rightarrow> uid option \<Rightarrow> string \<Rightarrow> uid option \<Rightarrow> unit service" where
  "recordAssignment tenantId ticketId agentId teamId assignmentType assignedBy =
     andThen randomUUID (\<lambda>uuid. andThen getNow (\<lambda>now.
     repoAddAssignment (new_TicketAssignment now uuid tenantId ticketId agentId teamId
       (Some assignmentType) assignedBy None None None) tenantId))"

definition TicketAssignmentService_assign ::
  "uid \<Rightarrow> uid \<Rightarrow> uid \<Rightarrow> uid option \<Rightarrow> string \<Rightarrow> uid option \<Rightarrow> Ticket service" where
  "TicketAssignmentService_assign tenantId ticketId agentId teamId assignmentType userId =
     andThen (getOrThrow tenantId ticketId) (\<lambda>ticket.
     andThen getNow (\<lambda>now.
     andThen (liftR (Ticket_assign now agentId teamId ticket)) (\<lambda>ticket.
     andThen (persist ticket tenantId) (\<lambda>ticket.
     andThen (recordAssignment tenantId ticketId (Some agentId) teamId assignmentType userId) (\<lambda>_.
     andThen (notifyAssignedAgent tenantId agentId ticket) (\<lambda>_.
     andThen (AuditService_log tenantId userId ''TICKET_ASSIGN''
                (''Assigned ticket '' @ ticketId @ '' to agent '' @ agentId @ '' ('' @ assignmentType @ '')'')) (\<lambda>_.
     ret ticket)))))))"

definition TicketAssignmentService_autoAssign ::
  "Env \<Rightarrow> uid \<Rightarrow> uid \<Rightarrow> uid \<Rightarrow> uid option \<Rightarrow> Ticket service" where
  "TicketAssignmentService_autoAssign env tenantId ticketId teamId userId =
     andThen (getOrThrow tenantId ticketId) (\<lambda>ticket.
     andThen (liftR (deref (t_priority ticket))) (\<lambda>prio.
     andThen (liftR (env_assignEntity env tenantId teamId ticketId (TicketPriority_weight prio))) (\<lambda>agentId.
     TicketAssignmentService_assign tenantId ticketId agentId (Some teamId) ''AUTO'' userId)))"

definition TicketAssignmentService_transfer ::
  "Env \<Rightarrow> uid \<Rightarrow> uid \<Rightarrow> uid option \<Rightarrow> uid option \<Rightarrow> uid option \<Rightarrow> Ticket service" where
  "TicketAssignmentService_transfer env tenantId ticketId toAgentId toTeamId userId =
     (if \<not> truthy toAgentId \<and> truthy toTeamId
      then TicketAssignmentService_autoAssign env tenantId ticketId (the toTeamId) userId
      else if \<not> truthy toAgentId
      then throw (BadRequestException ''Either toAgentId or toTeamId is required'')
      else andThen (getOrThrow tenantId ticketId) (\<lambda>ticket.
           andThen getNow (\<lambda>now.
           andThen (liftR (Ticket_transfer now (the toAgentId) ticket)) (\<lambda>ticket.
           andThen (persist ticket tenantId) (\<lambda>ticket.
           andThen (recordAssignment tenantId ticketId toAgentId (t_assignedTeamId ticket) ''TRANSFER'' userId) (\<lambda>_.
           andThen (notifyAssignedAgent tenantId (the toAgentId) ticket) (\<lambda>_.
           andThen (AuditService_log tenantId userId ''TICKET_TRANSFER''
                      (''Transferred ticket '' @ ticketId @ '' to agent '' @ the toAgentId)) (\<lambda>_.
           ret ticket))))))))"

text \<open>\<^verbatim>\<open>findPaginated\<close> as the reassignment calls it: newest first, two hundred rows, no children.\<close>

definition findAssigned :: "uid \<Rightarrow> uid \<Rightarrow> TicketDb \<Rightarrow> exn + Ticket list" where
  "findAssigned tenantId agentId db =
     (let rows = take 200 (sort_key (\<lambda>r. - r_openedAt r)
            (filter (buildConditions tenantId
               \<lparr>q_status = None, q_priority = None, q_source = None, q_customerId = None,
                q_categoryId = None, q_conversationId = None, q_assignedAgentId = Some agentId,
                q_assignedTeamId = None, q_unassigned = False\<rparr>) (tickets db)))
      in foldr (\<lambda>r acc. rbind (toDomain r [] [] [] []) (\<lambda>t. rbind acc (\<lambda>ts. Inr (t # ts)))) rows (Inr []))"

definition reassignOne :: "Env \<Rightarrow> uid \<Rightarrow> nat \<times> nat \<Rightarrow> Ticket \<Rightarrow> (nat \<times> nat) service" where
  "reassignOne env tenantId counts ticket =
     andThen (liftR (deref (t_status ticket))) (\<lambda>st.
     case counts of (reassigned, skipped) \<Rightarrow>
     if st \<notin> set ACTIVE_TICKET_STATUSES then ret (reassigned, skipped)
     else if \<not> truthy (t_assignedTeamId ticket) then ret (reassigned, skipped + 1)
     else tryCatch
       (andThen (TicketAssignmentService_autoAssign env tenantId (t_id ticket) (the (t_assignedTeamId ticket)) None)
          (\<lambda>_. ret (reassigned + 1, skipped)))
       (\<lambda>_. ret (reassigned, skipped + 1)))"

fun reassignTickets :: "Env \<Rightarrow> uid \<Rightarrow> Ticket list \<Rightarrow> nat \<times> nat \<Rightarrow> (nat \<times> nat) service" where
  "reassignTickets env tenantId [] counts = ret counts"
| "reassignTickets env tenantId (t # ts) counts =
     andThen (reassignOne env tenantId counts t) (reassignTickets env tenantId ts)"

fun reassignAgents :: "Env \<Rightarrow> (uid \<times> uid) list \<Rightarrow> nat \<times> nat \<Rightarrow> (nat \<times> nat) service" where
  "reassignAgents env [] counts = ret counts"
| "reassignAgents env ((tenantId, agentId) # agents) counts =
     andThen (repoRead (findAssigned tenantId agentId)) (\<lambda>assigned.
     andThen (reassignTickets env tenantId assigned counts) (reassignAgents env agents))"

definition reassignFromOfflineAgents :: "Env \<Rightarrow> uid option \<Rightarrow> (nat \<times> nat) service" where
  "reassignFromOfflineAgents env tenantId = reassignAgents env (env_offlineAgents env tenantId) (0, 0)"

subsection \<open>Comments and attachments\<close>

definition TicketCommentService_addComment ::
  "uid \<Rightarrow> uid \<Rightarrow> string \<Rightarrow> string option \<Rightarrow> uid \<Rightarrow> TicketComment service" where
  "TicketCommentService_addComment tenantId ticketId text visibility authorId =
     andThen (getOrThrow tenantId ticketId) (\<lambda>ticket.
     andThen randomUUID (\<lambda>uuid.
     andThen getNow (\<lambda>now.
     let comment = new_TicketComment now uuid tenantId ticketId authorId text
           (Some (if truthy visibility then the visibility else ''PUBLIC'')) (Some 0) None None
     in andThen (saveAndPublish (Ticket_addComment now comment ticket) tenantId) (\<lambda>_.
        andThen (AuditService_log tenantId (Some authorId) ''TICKET_COMMENT''
          (''Added '' @ c_visibility comment @ '' comment to ticket '' @ ticketId)) (\<lambda>_.
        ret comment)))))"

record AddTicketAttachmentDto =
  aa_commentId :: "uid option"
  aa_fileName :: string
  aa_fileType :: "string option"
  aa_fileSize :: "int option"
  aa_uploadReference :: string

definition TicketCommentService_addAttachment ::
  "Env \<Rightarrow> uid \<Rightarrow> uid \<Rightarrow> AddTicketAttachmentDto \<Rightarrow> uid option \<Rightarrow> TicketAttachment service" where
  "TicketCommentService_addAttachment env tenantId ticketId dto userId =
     andThen (getOrThrow tenantId ticketId) (\<lambda>_.
     andThen (liftR (env_finalizeUpload env tenantId (aa_uploadReference dto))) (\<lambda>storageRef.
     andThen randomUUID (\<lambda>uuid.
     andThen getNow (\<lambda>now.
     let attachment = new_TicketAttachment now uuid tenantId ticketId (aa_commentId dto) (aa_fileName dto)
           (if truthy (aa_fileType dto) then aa_fileType dto else Some (sr_contentType storageRef))
           (Some (orElse (aa_fileSize dto) (sr_fileSize storageRef)))
           (Some (sr_publicUrl storageRef)) (sr_checksum storageRef) None None
     in andThen (repoWrite (\<lambda>db. Inr (addAttachment attachment tenantId db))) (\<lambda>_.
        andThen (AuditService_log tenantId userId ''TICKET_ATTACHMENT''
          (''Added attachment '' @ at_id attachment @ '' to ticket '' @ ticketId)) (\<lambda>_.
        ret attachment))))))"

subsection \<open>Cron producers and the worker of the ticket queue\<close>

definition SlaMonitorScheduler_enqueueSweep :: "unit service" where
  "SlaMonitorScheduler_enqueueSweep = tryCatch (addJob (SlaMonitorJob None)) (\<lambda>_. ret ())"

definition OfflineAgentScheduler_enqueueSweep :: "unit service" where
  "OfflineAgentScheduler_enqueueSweep = tryCatch (addJob (AgentOfflineReassignmentJob None)) (\<lambda>_. ret ())"

datatype job_result =
    AssignedResult uid "uid option"
  | TicketResult uid
  | EscalatedResult uid TicketPriorityEnum
  | SweepResult nat
  | ReassignResult "nat \<times> nat"
  | NotifiedResult uid
  | ForwardedResult uid

text \<open>\<^verbatim>\<open>job.data._tenantContext?.tenantId || job.data.tenantId\<close>; a job without either passes
  \<^verbatim>\<open>undefined\<close> on, which matches no row (the empty identifier here).\<close>

fun jobTenantId :: "job \<Rightarrow> uid option" where
  "jobTenantId (TicketEscalationJob _ ten _ _ _) = ten"
| "jobTenantId (SlaMonitorJob ten) = ten"
| "jobTenantId (AgentOfflineReassignmentJob ten) = ten"
| "jobTenantId _ = None"

definition workerTenant :: "QueuedJob \<Rightarrow> uid option" where
  "workerTenant qj = (if truthy (qj_tenantContext qj) then qj_tenantContext qj else jobTenantId (qj_data qj))"

definition handleJob :: "Env \<Rightarrow> QueuedJob \<Rightarrow> job_result service" where
  "handleJob env qj =
     (let ten = orElse (workerTenant qj) []
      in case qj_data qj of
           TicketAssignmentJob ticketId teamId userId \<Rightarrow>
             andThen (TicketAssignmentService_autoAssign env ten ticketId teamId userId) (\<lambda>t.
             ret (AssignedResult (t_id t) (t_assignedAgentId t)))
         | TicketCreateFromConversationJob subject description customerId conversationId prio source \<Rightarrow>
             andThen (TicketService_create env ten
               \<lparr>ct_subject = subject, ct_description = description, ct_customerId = customerId,
                ct_conversationId = conversationId, ct_categoryId = None, ct_assignedAgentId = None,
                ct_assignedTeamId = None, ct_priority = prio, ct_source = source, ct_metadata = None\<rparr> None) (\<lambda>t.
             ret (TicketResult (t_id t)))
         | TicketEscalationJob ticketId _ reason workflow userId \<Rightarrow>
             andThen (TicketEscalationService_escalate ten ticketId
               (if truthy reason then the reason else ''ESCALATION'') workflow userId) (\<lambda>t.
             andThen (liftR (deref (t_priority t))) (\<lambda>prio. ret (EscalatedResult (t_id t) prio)))
         | SlaMonitorJob tenantId \<Rightarrow>
             andThen getNow (\<lambda>now. andThen (runBreachSweep tenantId now) (\<lambda>n. ret (SweepResult n)))
         | AgentOfflineReassignmentJob tenantId \<Rightarrow>
             andThen (reassignFromOfflineAgents env tenantId) (\<lambda>r. ret (ReassignResult r))
         | TicketApprovalJob ticketId approvalId approverId \<Rightarrow>
             andThen (addJob (ApprovalRequestNotificationJob ticketId approvalId approverId (workerTenant qj))) (\<lambda>_.
             ret (NotifiedResult approvalId))
         | TicketAnalyticsJob ticketId name payload \<Rightarrow>
             andThen (addJob (TicketEventAnalyticsJob ticketId name (workerTenant qj) payload)) (\<lambda>_.
             ret (ForwardedResult ticketId))
         | _ \<Rightarrow> throw (Error ''Unknown job name''))"

end
