(* ===== verification/Ticket_Service_Facts.thy ===== *)
theory Ticket_Service_Facts
  imports Ticket_Desk
begin

text \<open>
  Facts about the ticket services. The first part describes each collaborator call by its effect
  on the database and on the setting (clock, queue, identifiers); the second part derives the
  properties of the methods: what a rejected transition leaves, what a reader sees after an
  accepted one, which failures are swallowed, and where the methods do less than they announce.
\<close>

subsection \<open>Calls that leave the database alone\<close>

text \<open>A call that cannot fail, changes neither database nor setting and returns \<open>a\<close>.\<close>

definition silent :: "'a service \<Rightarrow> 'a \<Rightarrow> World \<Rightarrow> bool" where
  "silent m a w \<longleftrightarrow> (\<exists>w'. m w = (Inr a, w') \<and> wd_db w' = wd_db w \<and> same_setting w w')"

lemma silentI: "m w = (Inr a, w') \<Longrightarrow> wd_db w' = wd_db w \<Longrightarrow> same_setting w w' \<Longrightarrow> silent m a w"
  by (auto simp: silent_def)

lemma silentE:
  assumes "silent m a w"
  obtains w' where "m w = (Inr a, w')" "wd_db w' = wd_db w" "same_setting w w'"
  using assms by (auto simp: silent_def)

lemma silent_ret [simp]: "silent (ret a) a w"
  by (simp add: silent_def)

lemma silent_andThen:
  assumes "silent m a w" "\<And>w'. wd_db w' = wd_db w \<Longrightarrow> same_setting w w' \<Longrightarrow> silent (k a) b w'"
  shows "silent (andThen m k) b w"
proof -
  from assms(1) obtain w1 where w1: "m w = (Inr a, w1)" "wd_db w1 = wd_db w" "same_setting w w1"
    by (rule silentE)
  with assms(2) obtain w2 where "k a w1 = (Inr b, w2)" "wd_db w2 = wd_db w1" "same_setting w1 w2"
    by (meson silentE)
  with w1 show ?thesis by (auto intro!: silentI simp: andThen_app intro: same_setting_trans)
qed

lemma silent_publish [simp]: "silent (TicketEventPublisher_publish e) () w"
  by (auto intro: silentI simp: publish_app same_setting_def)

lemma silent_publishAll [simp]: "silent (publishAll es) () w"
proof (induction es arbitrary: w)
  case (Cons e es)
  then show ?case unfolding publishAll_def by (auto intro: silent_andThen)
qed (simp add: publishAll_def)

lemma silent_audit [simp]: "silent (AuditService_log ten u a d) () w"
  by (auto intro: silentI simp: auditLog_app Let_def same_setting_def)

lemma silent_emit [simp]: "silent (emitTicketUpdate ten t) () w"
  by (auto intro: silentI simp: emitTicketUpdate_def same_setting_def)

lemma silent_triggers [simp]: "silent (evaluateWorkflowTriggers ten tr t) () w"
  by (auto intro: silentI simp: evaluateWorkflowTriggers_def same_setting_def)

lemma silent_tryJob: "silent (tryCatch (addJob j) (\<lambda>_. ret ())) () w"
  by (simp add: silent_def tryCatch_app addJob_def same_setting_def)

lemma silent_notifyAssignedAgent [simp]: "silent (notifyAssignedAgent ten ag t) () w"
  by (simp add: notifyAssignedAgent_def silent_tryJob)

lemma silent_notifyCustomer [simp]: "silent (notifyCustomer env ten t n xs) () w"
proof (cases "truthy (t_customerId t)")
  case False
  then show ?thesis by (simp add: notifyCustomer_def)
next
  case True
  then show ?thesis
    by (cases "env_customer env ten (the (t_customerId t))")
      (simp_all add: silent_def notifyCustomer_def tryCatch_app andThen_app addJob_def same_setting_def)
qed

text \<open>Silent calls in sequence: the result and the database are those of the rest.\<close>

lemma andThen_silent:
  assumes "silent m a w"
  obtains w' where "andThen m k w = k a w'" "wd_db w' = wd_db w" "same_setting w w'"
proof -
  from assms obtain w' where "m w = (Inr a, w')" "wd_db w' = wd_db w" "same_setting w w'" by (rule silentE)
  then show thesis by (intro that [of w']) (simp_all add: andThen_app)
qed

subsection \<open>Loading and persisting\<close>

lemma getOrThrow_app:
  "getOrThrow ten tid w =
   (case findById tid ten (wd_db w) of
      Inl e \<Rightarrow> (Inl e, w)
    | Inr None \<Rightarrow> (Inl (NotFoundException (''Ticket with ID '' @ tid @ '' not found'')), w)
    | Inr (Some t) \<Rightarrow> (Inr t, w))"
  by (auto simp: getOrThrow_def andThen_app split: sum.splits option.splits)

lemma repoSave_app:
  "repoSave t ten w = (case save (wd_now w) t ten (wd_db w) of
     Inl e \<Rightarrow> (Inl e, w) | Inr db \<Rightarrow> (Inr (), w\<lparr>wd_db := db\<rparr>))"
  by (simp add: repoSave_def repoWrite_def andThen_app)

lemma persist_fails: "save (wd_now w) t ten (wd_db w) = Inl e \<Longrightarrow> persist t ten w = (Inl e, w)"
  by (simp add: persist_def andThen_app repoSave_app)

lemma persist_ok:
  assumes "save (wd_now w) t ten (wd_db w) = Inr db"
  obtains w' where "persist t ten w = (Inr (clearEvents t), w')" "wd_db w' = db" "same_setting w w'"
proof -
  let ?w = "w\<lparr>wd_db := db\<rparr>"
  obtain w1 where w1: "publishAll (t_domainEvents t) ?w = (Inr (), w1)" "wd_db w1 = db" "same_setting ?w w1"
    using silentE [OF silent_publishAll [of "t_domainEvents t" ?w]] by auto
  obtain w2 where w2: "emitTicketUpdate ten (clearEvents t) w1 = (Inr (), w2)" "wd_db w2 = db" "same_setting w1 w2"
    using silentE [OF silent_emit [of ten "clearEvents t" w1]] w1(2) by metis
  have "persist t ten w = (Inr (clearEvents t), w2)"
    using assms w1 w2 by (simp add: persist_def andThen_app repoSave_app Let_def)
  moreover have "same_setting w w2"
    using w1(3) w2(3) by (simp add: same_setting_def)
  ultimately show thesis using w2(2) by (intro that)
qed

lemma persist_inv:
  assumes "persist t ten w = (Inr t', w')"
  shows "\<exists>db. save (wd_now w) t ten (wd_db w) = Inr db \<and> wd_db w' = db \<and> t' = clearEvents t \<and> same_setting w w'"
proof (cases "save (wd_now w) t ten (wd_db w)")
  case (Inl e)
  with assms show ?thesis by (simp add: persist_fails)
next
  case (Inr db)
  from persist_ok [OF Inr] assms show ?thesis using Inr by force
qed

lemma runTransition_Inr [simp]: "runTransition (Inr a) w = (Inr a, w)"
  by (simp add: runTransition_def)

lemma runTransition_Inl: "\<exists>e'. runTransition (Inl e) w = (Inl e', w)"
  by (cases e) (simp_all add: runTransition_def)

subsection \<open>Transitions as atomic database steps\<close>

text \<open>
  What a caller and a reader of the database can observe of a method: its result and the tables.
  \<open>transitionSpec\<close> is the abstract course of a transition method, one atomic step of the database.
\<close>

definition observe :: "(exn + 'a) \<times> World \<Rightarrow> (exn + 'a) \<times> TicketDb" where
  "observe x = (fst x, wd_db (snd x))"

fun badRequest :: "exn \<Rightarrow> exn" where
  "badRequest (InvalidTicketTransitionError m) = BadRequestException m"
| "badRequest e = e"

definition transitionSpec ::
  "uid \<Rightarrow> uid \<Rightarrow> (Ticket \<Rightarrow> exn + Ticket) \<Rightarrow> millis \<Rightarrow> TicketDb \<Rightarrow> (exn + Ticket) \<times> TicketDb" where
  "transitionSpec ten tid f now db =
     (case findById tid ten db of
        Inl e \<Rightarrow> (Inl e, db)
      | Inr None \<Rightarrow> (Inl (NotFoundException (''Ticket with ID '' @ tid @ '' not found'')), db)
      | Inr (Some t) \<Rightarrow>
          (case f t of
             Inl e \<Rightarrow> (Inl (badRequest e), db)
           | Inr t' \<Rightarrow>
               (case save now t' ten db of
                  Inl e \<Rightarrow> (Inl e, db)
                | Inr db' \<Rightarrow> (Inr (clearEvents t'), db'))))"

lemma runTransition_eq: "runTransition r w = (case r of Inl e \<Rightarrow> (Inl (badRequest e), w) | Inr a \<Rightarrow> (Inr a, w))"
  by (auto simp: runTransition_def split: sum.splits exn.splits)

text \<open>A transition either leaves the world untouched or steps the database as specified.\<close>

lemma transition_refines:
  obtains (rejected) e where "transition ten tid f w = (Inl e, w)"
      "transitionSpec ten tid (f (wd_now w)) (wd_now w) (wd_db w) = (Inl e, wd_db w)"
  | (accepted) t t' db w' where "findById tid ten (wd_db w) = Inr (Some t)" "f (wd_now w) t = Inr t'"
      "save (wd_now w) t' ten (wd_db w) = Inr db"
      "transitionSpec ten tid (f (wd_now w)) (wd_now w) (wd_db w) = (Inr (clearEvents t'), db)"
      "transition ten tid f w = (Inr (clearEvents t'), w')" "wd_db w' = db" "same_setting w w'"
proof (cases "\<exists>t t' db. findById tid ten (wd_db w) = Inr (Some t) \<and> f (wd_now w) t = Inr t' \<and>
    save (wd_now w) t' ten (wd_db w) = Inr db")
  case True
  then obtain t t' db where t: "findById tid ten (wd_db w) = Inr (Some t)" "f (wd_now w) t = Inr t'"
    "save (wd_now w) t' ten (wd_db w) = Inr db" by auto
  obtain w' where "persist t' ten w = (Inr (clearEvents t'), w')" "wd_db w' = db" "same_setting w w'"
    by (rule persist_ok [OF t(3)])
  with t show thesis
    by (intro accepted) (simp_all add: transition_def transitionSpec_def andThen_app getOrThrow_app)
next
  case False
  then have "\<exists>e. transition ten tid f w = (Inl e, w) \<and>
      transitionSpec ten tid (f (wd_now w)) (wd_now w) (wd_db w) = (Inl e, wd_db w)"
    by (auto simp: transition_def transitionSpec_def andThen_app getOrThrow_app runTransition_eq persist_fails
        split: sum.splits option.splits)
  then show thesis using rejected by blast
qed

text \<open>A method that is a transition followed by silent calls refines the atomic step.\<close>

lemma observe_transition_silent:
  assumes "\<And>t w'. silent (k t) t w'"
  shows "observe (andThen (transition ten tid f) k w) =
         transitionSpec ten tid (f (wd_now w)) (wd_now w) (wd_db w)"
proof (cases rule: transition_refines [of ten tid f w])
  case (rejected e)
  then show ?thesis by (simp add: observe_def andThen_app)
next
  case (accepted t t' db w')
  from assms [of "clearEvents t'" w'] obtain w2 where "k (clearEvents t') w' = (Inr (clearEvents t'), w2)"
    "wd_db w2 = wd_db w'" by (rule silentE)
  with accepted show ?thesis by (simp add: observe_def andThen_app)
qed

end
