(* ===== verification/Ticket_Service_Properties.thy ===== *)
theory Ticket_Service_Properties
  imports Ticket_Service_Facts
begin

text \<open>
  Properties of the ticket service: its transition methods refine atomic database steps whatever
  the queue and the customer directory do, a rejected transition changes nothing, an accepted one
  is what the next reader sees, waiting shifts the deadlines, and the partial update and the bulk
  update fail in the cases the patch they build does not cover.
\<close>

subsection \<open>Refinement\<close>

definition slaStep :: "(TicketSLA \<Rightarrow> TicketSLA) \<Rightarrow> millis \<Rightarrow> uid \<Rightarrow> uid \<Rightarrow> TicketDb \<Rightarrow> TicketDb" where
  "slaStep f now ten tid db =
     (case getSla ten tid db of
        None \<Rightarrow> db
      | Some s \<Rightarrow> if s_breached s then db else upsertSla now (f s) ten db)"

definition thenSla ::
  "(TicketDb \<Rightarrow> TicketDb) \<Rightarrow> (exn + Ticket) \<times> TicketDb \<Rightarrow> (exn + Ticket) \<times> TicketDb" where
  "thenSla g x = (case fst x of Inl e \<Rightarrow> x | Inr t \<Rightarrow> (Inr t, g (snd x)))"

lemma slaStep_calls:
  "pauseSlaForTicket ten tid w = (Inr (), w\<lparr>wd_db := slaStep (TicketSLA_pause (wd_now w) (wd_now w)) (wd_now w) ten tid (wd_db w)\<rparr>)"
  "resumeSlaForTicket ten tid w = (Inr (), w\<lparr>wd_db := slaStep (\<lambda>s. TicketSLA_recalculateRemaining (wd_now w) (wd_now w)
      (TicketSLA_resume (wd_now w) (wd_now w) s)) (wd_now w) ten tid (wd_db w)\<rparr>)"
  "refreshRemaining ten tid w = (Inr (), w\<lparr>wd_db := slaStep (TicketSLA_recalculateRemaining (wd_now w) (wd_now w)) (wd_now w) ten tid (wd_db w)\<rparr>)"
  by (auto simp: pauseSlaForTicket_app resumeSlaForTicket_app refreshRemaining_app slaStep_def split: option.splits)

text \<open>A transition, an SLA call and silent calls.\<close>

lemma observe_transition_sla:
  assumes "\<And>w. m w = (Inr (), w\<lparr>wd_db := g (wd_now w) (wd_db w)\<rparr>)" "\<And>t w'. silent (k t) t w'"
  shows "observe (andThen (transition ten tid f) (\<lambda>t. andThen m (\<lambda>_. k t)) w) =
         thenSla (g (wd_now w)) (transitionSpec ten tid (f (wd_now w)) (wd_now w) (wd_db w))"
proof (cases rule: transition_refines [of ten tid f w])
  case (rejected e)
  then show ?thesis by (simp add: observe_def andThen_app thenSla_def)
next
  case (accepted t t' db w')
  let ?w1 = "w'\<lparr>wd_db := g (wd_now w') (wd_db w')\<rparr>"
  from assms(2) [of "clearEvents t'" ?w1] obtain w2 where "k (clearEvents t') ?w1 = (Inr (clearEvents t'), w2)"
    "wd_db w2 = wd_db ?w1" by (rule silentE)
  with accepted assms(1) show ?thesis by (simp add: observe_def andThen_app thenSla_def same_setting_def)
qed

lemmas silent_tail = silent_andThen [OF silent_audit] silent_andThen [OF silent_notifyCustomer]

lemma close_refines:
  "observe (TicketService_close env ten tid u w) =
   transitionSpec ten tid (Ticket_close (wd_now w) u) (wd_now w) (wd_db w)"
  unfolding TicketService_close_def by (rule observe_transition_silent) (intro silent_tail silent_ret)

lemma cancel_refines:
  "observe (TicketService_cancel env ten tid u w) =
   transitionSpec ten tid (Ticket_cancel (wd_now w)) (wd_now w) (wd_db w)"
  unfolding TicketService_cancel_def by (rule observe_transition_silent) (intro silent_tail silent_ret)

lemma start_refines:
  "observe (TicketService_start ten tid u w) =
   transitionSpec ten tid (Ticket_start (wd_now w)) (wd_now w) (wd_db w)"
  unfolding TicketService_start_def by (rule observe_transition_silent) (intro silent_tail silent_ret)

lemma resolve_refines:
  "observe (TicketService_resolve env ten tid sm u w) =
   thenSla (slaStep (TicketSLA_recalculateRemaining (wd_now w) (wd_now w)) (wd_now w) ten tid)
     (transitionSpec ten tid (Ticket_resolve (wd_now w) sm u) (wd_now w) (wd_db w))"
  unfolding TicketService_resolve_def
  by (rule observe_transition_sla [OF slaStep_calls(3)]) (intro silent_tail silent_ret)

lemma wait_refines:
  "observe (TicketService_waitForCustomer ten tid u w) =
   thenSla (slaStep (TicketSLA_pause (wd_now w) (wd_now w)) (wd_now w) ten tid)
     (transitionSpec ten tid (Ticket_update (wd_now w) (statusPatch TS_WAITING_CUSTOMER)) (wd_now w) (wd_db w))"
  unfolding TicketService_waitForCustomer_def
  by (rule observe_transition_sla [OF slaStep_calls(1)]) (intro silent_tail silent_ret)

lemma resume_refines:
  "observe (TicketService_resumeFromWaiting ten tid u w) =
   thenSla (slaStep (\<lambda>s. TicketSLA_recalculateRemaining (wd_now w) (wd_now w)
                          (TicketSLA_resume (wd_now w) (wd_now w) s)) (wd_now w) ten tid)
     (transitionSpec ten tid (Ticket_update (wd_now w) (statusPatch TS_IN_PROGRESS)) (wd_now w) (wd_db w))"
  unfolding TicketService_resumeFromWaiting_def
  by (rule observe_transition_sla [OF slaStep_calls(2)]) (intro silent_tail silent_ret)

text \<open>C1: The transition methods of the ticket service refine one atomic step of the database. What
  a caller gets and what a reader of the tables finds after \<^verbatim>\<open>close\<close>, \<^verbatim>\<open>cancel\<close> and \<^verbatim>\<open>start\<close> is what
  \<open>transitionSpec\<close> says of the aggregate's own operation, and \<^verbatim>\<open>resolve\<close>, \<^verbatim>\<open>waitForCustomer\<close> and
  \<^verbatim>\<open>resumeFromWaiting\<close> add the refresh, the pause or the resumption of the SLA clock and nothing
  else. No outcome depends on the state of the queue, on the customer directory or on the event,
  audit and realtime sinks: a failed notification never fails a transition.\<close>

theorem lifecycle_methods_refine_atomic_steps:
  "observe (TicketService_close env ten tid u w) =
     transitionSpec ten tid (Ticket_close (wd_now w) u) (wd_now w) (wd_db w) \<and>
   observe (TicketService_cancel env ten tid u w) =
     transitionSpec ten tid (Ticket_cancel (wd_now w)) (wd_now w) (wd_db w) \<and>
   observe (TicketService_start ten tid u w) =
     transitionSpec ten tid (Ticket_start (wd_now w)) (wd_now w) (wd_db w) \<and>
   observe (TicketService_resolve env ten tid sm u w) =
     thenSla (slaStep (TicketSLA_recalculateRemaining (wd_now w) (wd_now w)) (wd_now w) ten tid)
       (transitionSpec ten tid (Ticket_resolve (wd_now w) sm u) (wd_now w) (wd_db w)) \<and>
   observe (TicketService_waitForCustomer ten tid u w) =
     thenSla (slaStep (TicketSLA_pause (wd_now w) (wd_now w)) (wd_now w) ten tid)
       (transitionSpec ten tid (Ticket_update (wd_now w) (statusPatch TS_WAITING_CUSTOMER)) (wd_now w) (wd_db w)) \<and>
   observe (TicketService_resumeFromWaiting ten tid u w) =
     thenSla (slaStep (\<lambda>s. TicketSLA_recalculateRemaining (wd_now w) (wd_now w)
                            (TicketSLA_resume (wd_now w) (wd_now w) s)) (wd_now w) ten tid)
       (transitionSpec ten tid (Ticket_update (wd_now w) (statusPatch TS_IN_PROGRESS)) (wd_now w) (wd_db w))"
  by (intro conjI close_refines cancel_refines start_refines resolve_refines wait_refines resume_refines)

subsection \<open>Rejected transitions\<close>

lemma transitionSpec_rejected:
  assumes "findById tid ten db = Inr (Some t)" "f t = Inl e"
  shows "transitionSpec ten tid f now db = (Inl (badRequest e), db)"
  using assms by (simp add: transitionSpec_def)

lemma transition_rejected:
  assumes "findById tid ten (wd_db w) = Inr (Some t)" "f (wd_now w) t = Inl e"
  shows "andThen (transition ten tid f) k w = (Inl (badRequest e), w)"
  using assms by (simp add: transition_def andThen_app getOrThrow_app runTransition_eq)



subsection \<open>Accepted transitions\<close>

text \<open>What the repository guarantees of an aggregate it returns.\<close>

lemma findById_loaded:
  assumes "findById tid ten db = Inr (Some t)"
  shows "t_id t = tid" "t_tenantId t = ten" "TicketNumber_create (t_ticketNumber t) = Inr (t_ticketNumber t)"
    "t_domainEvents t = []" "\<exists>st. t_status t = Some st" "\<exists>p. t_priority t = Some p" "\<exists>sub. t_subject t = Some sub"
  using assms
  by (auto simp: findById_def toDomain_def rbind_Inr_iff isTicketRow_def TicketNumber_create_idem
      dest!: find_Some_set split: option.splits)

text \<open>The parts a save needs.\<close>

definition parts :: "Ticket \<Rightarrow> bool" where
  "parts t \<longleftrightarrow> t_status t \<noteq> None \<and> t_priority t \<noteq> None \<and> t_subject t \<noteq> None \<and> 1 \<le> t_version t"

lemma apply_op_parts:
  assumes "apply_op now op t = Inr t'" "parts t" "clean_op op"
  shows "parts t'"
proof (cases op)
  case (OpUpdate p)
  with assms(3) have "p_subject p \<noteq> Undef" by simp
  with OpUpdate assms show ?thesis
    by (auto simp: Ticket_update_def ticket_base_defs parts_def rbind_Inr_iff
      intro: spread_not_None split: field.splits)
next
  case (OpAssign a g)
  with assms show ?thesis by (auto simp: Ticket_assign_def ticket_base_defs parts_def rbind_Inr_iff)
qed (use assms in \<open>auto simp: ticket_defs ticket_base_defs parts_def rbind_Inr_iff split: if_splits\<close>)

lemma findById_version: "findById tid ten db = Inr (Some t) \<Longrightarrow> 1 \<le> t_version t"
  by (auto simp: findById_def toDomain_def rbind_Inr_iff split: option.splits)

lemma loaded_parts: "findById tid ten db = Inr (Some t) \<Longrightarrow> parts t"
  using findById_loaded [of tid ten db t] findById_version [of tid ten db t] by (auto simp: parts_def)

lemma saved_is_visible:
  assumes "findById tid ten db = Inr (Some t)" "evolves t t'" "parts t'" "save now t' ten db = Inr db'"
  shows "\<exists>v. findById tid ten db' = Inr (Some v) \<and> same_columns t' v"
    and "(tid', ten') \<noteq> (tid, ten) \<Longrightarrow>
      List.find (isTicketRow tid' ten') (tickets db') = List.find (isTicketRow tid' ten') (tickets db)"
proof -
  note loaded = findById_loaded [OF assms(1)]
  from assms(2) loaded have ids: "t_id t' = tid" "t_tenantId t' = ten" "t_ticketNumber t' = t_ticketNumber t"
    by (auto simp: evolves_def same_identity_def)
  from assms(3) obtain st p sub where "t_status t' = Some st" "t_priority t' = Some p" "t_subject t' = Some sub"
    "1 \<le> t_version t'" by (auto simp: parts_def)
  from findById_after_save [of now t' db db', OF _ this] assms(4) ids loaded
  show "\<exists>v. findById tid ten db' = Inr (Some v) \<and> same_columns t' v" by auto
  show "List.find (isTicketRow tid' ten') (tickets db') = List.find (isTicketRow tid' ten') (tickets db)"
    if "(tid', ten') \<noteq> (tid, ten)"
    using saveRow_find_other [of now t' "tickets db" "tickets db'" tid' ten'] save_rows(1) [OF assms(4)] ids that
    by simp
qed



subsection \<open>Waiting\<close>

lemma getSla_save: "save now t ten db = Inr db' \<Longrightarrow> getSla ten' tid db' = getSla ten' tid db"
  by (simp add: getSla_def save_rows)

lemma slaStep_reads:
  assumes "getSla ten tid db = Some s" "\<not> s_breached s" "s_ticketId (f s) = s_ticketId s"
  shows "\<exists>c. getSla ten tid (slaStep f now ten tid db) = Some ((slaRaw now (f s) ten)\<lparr>s_createdAt := c\<rparr>)"
  using assms getSla_key [OF assms(1)] getSla_upsert [of ten "f s" now db] by (simp add: slaStep_def)

lemma observe_thenSla:
  assumes "observe x = thenSla g (transitionSpec ten tid f now db0)" "x = (Inr t, w')"
  obtains db where "wd_db w' = g db" "\<And>ten' tid'. getSla ten' tid' db = getSla ten' tid' db0"
proof -
  obtain r db where spec: "transitionSpec ten tid f now db0 = (r, db)" by fastforce
  then have "r = Inr t" "wd_db w' = g db"
    using assms by (auto simp: observe_def thenSla_def split: sum.splits)
  moreover from this spec have "getSla ten' tid' db = getSla ten' tid' db0" for ten' tid'
    by (auto simp: transitionSpec_def split: sum.splits option.splits dest: getSla_save)
  ultimately show thesis using that by blast
qed

text \<open>Waiting for the customer costs the agent no time. When a ticket whose clock is running is put
  into \<^verbatim>\<open>WAITING_CUSTOMER\<close> at one instant and resumed at a later one, the resolution deadline and the
  response deadline stored afterwards are the old ones moved by exactly the time between the two
  calls, and the clock is running again.\<close>

theorem waiting_shifts_both_deadlines_by_the_time_waited:
  assumes "getSla ten tid (wd_db w) = Some s" "\<not> s_breached s" "s_pausedAt s = None"
    and "TicketService_waitForCustomer ten tid u w = (Inr t1, w1)"
    and "TicketService_resumeFromWaiting ten tid u (w1\<lparr>wd_now := later\<rparr>) = (Inr t2, w2)"
  shows "\<exists>s'. getSla ten tid (wd_db w2) = Some s' \<and> s_pausedAt s' = None \<and>
      s_resolutionDueAt s' = map_option (\<lambda>d. d + (later - wd_now w)) (s_resolutionDueAt s) \<and>
      s_responseDueAt s' = map_option (\<lambda>d. d + (later - wd_now w)) (s_responseDueAt s)"
proof -
  let ?pause = "TicketSLA_pause (wd_now w) (wd_now w)"
  let ?resume = "\<lambda>s. TicketSLA_recalculateRemaining later later (TicketSLA_resume later later s)"
  obtain db1 where db1: "wd_db w1 = slaStep ?pause (wd_now w) ten tid db1"
    "\<And>ten' tid'. getSla ten' tid' db1 = getSla ten' tid' (wd_db w)"
    using observe_thenSla [OF wait_refines assms(4)] by auto
  obtain db2 where db2: "wd_db w2 = slaStep ?resume later ten tid db2"
    "\<And>ten' tid'. getSla ten' tid' db2 = getSla ten' tid' (wd_db w1)"
    using observe_thenSla [OF resume_refines [of ten tid u "w1\<lparr>wd_now := later\<rparr>"] assms(5)] by auto
  have "s_ticketId (?pause s) = s_ticketId s" by (simp add: TicketSLA_pause_def)
  with slaStep_reads [of ten tid db1 s ?pause "wd_now w"] db1 assms obtain c where
    s1: "getSla ten tid (wd_db w1) = Some ((slaRaw (wd_now w) (?pause s) ten)\<lparr>s_createdAt := c\<rparr>)" (is "_ = Some ?s1")
    by auto
  have "\<not> s_breached ?s1" using assms by (simp add: slaRaw_def TicketSLA_pause_def)
  moreover have "s_ticketId (?resume ?s1) = s_ticketId ?s1"
    by (simp add: TicketSLA_recalculateRemaining_def TicketSLA_resume_def Let_def split: option.splits)
  ultimately obtain c' where
    "getSla ten tid (wd_db w2) = Some ((slaRaw later (?resume ?s1) ten)\<lparr>s_createdAt := c'\<rparr>)"
    using slaStep_reads [of ten tid db2 ?s1 ?resume later] db2 s1 by auto
  then show ?thesis
    using assms(2,3)
    by (auto simp: slaRaw_def TicketSLA_pause_def TicketSLA_resume_def TicketSLA_recalculateRemaining_def Let_def
        split: option.splits)
qed

lemma ok_result: "\<not> isl (fst x) \<Longrightarrow> \<exists>t w. x = (Inr t, w)"
  by (cases x; cases "fst x") auto

theorem waiting_shifts_both_deadlines_by_the_time_waited_witness:
  "\<exists>s'. getSla ''acme'' ''t1'' (wd_db (snd (TicketService_resumeFromWaiting ''acme'' ''t1'' None
      ((snd (TicketService_waitForCustomer ''acme'' ''t1'' None (sampleWorld\<lparr>wd_now := 2000\<rparr>)))\<lparr>wd_now := 2500\<rparr>)))) = Some s' \<and>
    s_resolutionDueAt s' = Some 5500"
proof -
  let ?w = "sampleWorld\<lparr>wd_now := 2000\<rparr>"
  have "\<not> isl (fst (TicketService_waitForCustomer ''acme'' ''t1'' None ?w))" by code_simp
  then obtain t1 w1 where w1: "TicketService_waitForCustomer ''acme'' ''t1'' None ?w = (Inr t1, w1)"
    using ok_result by blast
  have "\<not> isl (fst (TicketService_resumeFromWaiting ''acme'' ''t1'' None
      ((snd (TicketService_waitForCustomer ''acme'' ''t1'' None ?w))\<lparr>wd_now := 2500\<rparr>)))" by code_simp
  then have "\<not> isl (fst (TicketService_resumeFromWaiting ''acme'' ''t1'' None (w1\<lparr>wd_now := 2500\<rparr>)))"
    using w1 by simp
  then obtain t2 w2 where w2: "TicketService_resumeFromWaiting ''acme'' ''t1'' None (w1\<lparr>wd_now := 2500\<rparr>) = (Inr t2, w2)"
    using ok_result by blast
  have s: "getSla ''acme'' ''t1'' (wd_db ?w) = Some sampleSla"
    by (simp add: getSla_def sampleDb_def isSlaRow_def sampleSla_def new_TicketSLA_def slaToDomain_def)
  then have "\<not> s_breached sampleSla" "s_pausedAt sampleSla = None" "s_resolutionDueAt sampleSla = Some 5000"
    by (simp_all add: sampleSla_def new_TicketSLA_def)
  with waiting_shifts_both_deadlines_by_the_time_waited [OF s _ _ w1 w2] w1 w2 show ?thesis by auto
qed

end
