(* ===== verification/Ticket_Service_Limits.thy ===== *)
theory Ticket_Service_Limits
  imports Ticket_Service_Properties
begin

text \<open>
  Where the ticket service does less than it announces: the partial update, the bulk change to a
  working status, removed tags and watchers that stay in the database, the ticket numbers of two
  concurrent creations, and the deadlines after a reconfiguration.
\<close>

subsection \<open>Partial updates\<close>

lemma getOrThrow_missing:
  "\<not> (\<exists>t. findById tid ten (wd_db w) = Inr (Some t)) \<Longrightarrow> \<exists>e. getOrThrow ten tid w = (Inl e, w)"
  by (auto simp: getOrThrow_app split: sum.splits option.splits)

lemma incomplete_patch_throws:
  assumes "ut_status dto = None \<or> ut_priority dto = None"
  shows "\<exists>e. Ticket_update now (updatePatch dto t) t = Inl e"
proof (cases "Ticket_update now (updatePatch dto t) t")
  case (Inr t')
  with assms have False
    by (auto simp: Ticket_update_def updatePatch_def emitUpdated_Inr_iff rbind_Inr_iff Ticket_touch_def)
  then show ?thesis ..
qed auto

lemma incomplete_update_fails:
  assumes "ut_status dto = None \<or> ut_priority dto = None"
  shows "\<exists>e. TicketService_update env ten tid dto u w = (Inl e, w)"
proof (cases "\<exists>t. findById tid ten (wd_db w) = Inr (Some t)")
  case False
  from getOrThrow_missing [OF False] show ?thesis by (auto simp: TicketService_update_def andThen_app)
next
  case True
  then obtain t where t: "findById tid ten (wd_db w) = Inr (Some t)" by auto
  obtain e where "Ticket_update (wd_now w) (updatePatch dto t) t = Inl e"
    using incomplete_patch_throws [OF assms] by blast
  with t findById_loaded(6) [OF t] show ?thesis
    by (auto simp: TicketService_update_def andThen_app getOrThrow_app runTransition_eq)
qed

text \<open>\<^verbatim>\<open>TicketService.update\<close> needs both a status and a priority. The patch it builds carries every
  key of the request, also the ones the caller left out, so a missing status or priority erases the
  property, the event the aggregate emits next reads through it, and the method throws. A request
  without a status or without a priority therefore always fails and changes nothing at all.\<close>

theorem update_needs_both_status_and_priority:
  assumes "ut_status dto = None \<or> ut_priority dto = None"
  shows "\<exists>e. TicketService_update env ten tid dto u w = (Inl e, w)"
  by (rule incomplete_update_fails [OF assms])

theorem update_needs_both_status_and_priority_witness:
  "\<exists>e. TicketService_update sampleEnv ''acme'' ''t1'' (emptyUpdateTicketDto\<lparr>ut_subject := Some ''x''\<rparr>) None sampleWorld
     = (Inl e, sampleWorld)"
  by (rule update_needs_both_status_and_priority) (simp add: emptyUpdateTicketDto_def)

subsection \<open>Bulk updates\<close>

definition bulkDedicated :: "TicketStatusEnum \<Rightarrow> bool" where
  "bulkDedicated st = (st \<in> {TS_RESOLVED, TS_CLOSED, TS_CANCELLED, TS_REOPENED})"

lemma bulkOne_fails: "\<not> bulkDedicated st \<Longrightarrow> \<exists>e. bulkOne env ten tid st u w = (Inl e, w)"
  by (cases st) (simp_all add: bulkOne_def bulkDedicated_def incomplete_update_fails emptyUpdateTicketDto_def)

lemma bulkLoop_fails:
  "\<not> bulkDedicated st \<Longrightarrow>
   \<exists>es'. bulkLoop env ten st u ids n es w = (Inr (n, es'), w) \<and> dom es' = dom es \<union> set ids"
proof (induction ids arbitrary: es)
  case (Cons i ids)
  obtain e where "bulkOne env ten i st u w = (Inl e, w)" using bulkOne_fails [OF Cons.prems] by blast
  then have "bulkLoop env ten st u (i # ids) n es w = bulkLoop env ten st u ids n (es(i \<mapsto> message e)) w"
    by (simp add: andThen_app tryCatch_app)
  moreover obtain es' where "bulkLoop env ten st u ids n (es(i \<mapsto> message e)) w = (Inr (n, es'), w)"
    "dom es' = dom (es(i \<mapsto> message e)) \<union> set ids" using Cons.IH [OF Cons.prems] by blast
  ultimately show ?case by (intro exI [of _ es']) simp
qed simp

text \<open>A bulk change to a status other than resolved, closed, cancelled or reopened never changes
  a ticket. It goes through the partial update without a priority, so every ticket fails: the answer
  is zero updated, all failed, with one error for each ticket, and the database is untouched.\<close>

theorem bulk_change_to_a_working_status_fails_for_every_ticket:
  assumes "\<not> bulkDedicated st"
  shows "\<exists>es w'. TicketService_bulkUpdateStatus env ten ids st u w = (Inr (0, length ids, es), w') \<and>
           dom es = set ids \<and> wd_db w' = wd_db w"
proof -
  obtain es where es: "bulkLoop env ten st u ids 0 Map.empty w = (Inr (0, es), w)" "dom es = set ids"
    using bulkLoop_fails [OF assms, of env ten u ids 0 Map.empty w] by auto
  show ?thesis
    using es silentE [OF silent_audit]
    by (auto simp: TicketService_bulkUpdateStatus_def andThen_app auditLog_app Let_def)
qed

theorem bulk_change_to_a_working_status_fails_for_every_ticket_witness:
  "\<exists>es w'. TicketService_bulkUpdateStatus sampleEnv ''acme'' [''t1'', ''t2''] TS_IN_PROGRESS None sampleWorld =
      (Inr (0, 2, es), w') \<and> dom es = {''t1'', ''t2''} \<and> wd_db w' = sampleDb"
  using bulk_change_to_a_working_status_fails_for_every_ticket
    [of TS_IN_PROGRESS sampleEnv "''acme''" "[''t1'', ''t2'']" None sampleWorld]
  by (simp add: bulkDedicated_def numeral_2_eq_2)

lemma bulkLoop_counts:
  "\<exists>k es' w'. bulkLoop env ten st u ids n es w = (Inr (n + k, es'), w') \<and> k \<le> length ids \<and>
     dom es' \<subseteq> dom es \<union> set ids"
proof (induction ids arbitrary: n es w)
  case (Cons i ids)
  obtain r w1 where r: "bulkOne env ten i st u w = (r, w1)" by fastforce
  show ?case
  proof (cases r)
    case (Inl e)
    with r have "bulkLoop env ten st u (i # ids) n es w = bulkLoop env ten st u ids n (es(i \<mapsto> message e)) w1"
      by (simp add: andThen_app tryCatch_app)
    moreover obtain k es' w' where "bulkLoop env ten st u ids n (es(i \<mapsto> message e)) w1 = (Inr (n + k, es'), w')"
      "k \<le> length ids" "dom es' \<subseteq> dom (es(i \<mapsto> message e)) \<union> set ids" using Cons.IH by blast
    ultimately show ?thesis by (intro exI [of _ k] exI [of _ es'] exI [of _ w']) auto
  next
    case (Inr t)
    with r have "bulkLoop env ten st u (i # ids) n es w = bulkLoop env ten st u ids (n + 1) es w1"
      by (simp add: andThen_app tryCatch_app)
    moreover obtain k es' w' where "bulkLoop env ten st u ids (n + 1) es w1 = (Inr (n + 1 + k, es'), w')"
      "k \<le> length ids" "dom es' \<subseteq> dom es \<union> set ids" using Cons.IH by blast
    ultimately show ?thesis by (intro exI [of _ "k + 1"] exI [of _ es'] exI [of _ w']) auto
  qed
qed simp

text \<open>A bulk status change never throws, whatever the tickets, the status and the state of the
  collaborators: it returns with the numbers of updated and failed tickets adding up to the number
  of identifiers given, and it reports errors only for identifiers of the request.\<close>

theorem bulk_update_always_accounts_for_every_ticket:
  "\<exists>k f es w'. TicketService_bulkUpdateStatus env ten ids st u w = (Inr (k, f, es), w') \<and>
     k + f = length ids \<and> dom es \<subseteq> set ids"
proof -
  obtain k es w1 where "bulkLoop env ten st u ids 0 Map.empty w = (Inr (k, es), w1)" "k \<le> length ids" "dom es \<subseteq> set ids"
    using bulkLoop_counts [of env ten st u ids 0 Map.empty w] by auto
  then show ?thesis by (auto simp: TicketService_bulkUpdateStatus_def andThen_app auditLog_app Let_def)
qed

subsection \<open>Removing tags and watchers\<close>

text \<open>\<^verbatim>\<open>removeTag\<close> and \<^verbatim>\<open>unwatch\<close> do not survive a reload. They answer with a ticket without the tag
  or the watcher, but saving only inserts child rows: every tag and every watcher the database held
  for any ticket before the call is still there after it.\<close>

theorem removed_tags_and_watchers_stay_in_the_database:
  "(TicketService_removeTag ten tid tag w = (Inr t', w') \<longrightarrow>
      tag \<notin> tg_tag ` set (t_tags t') \<and>
      set (loadTags tid' ten' (wd_db w)) \<subseteq> set (loadTags tid' ten' (wd_db w'))) \<and>
   (TicketService_unwatch ten tid usr w = (Inr t', w') \<longrightarrow>
      usr \<notin> w_userId ` set (t_watchers t') \<and>
      set (loadWatchers tid' ten' (wd_db w)) \<subseteq> set (loadWatchers tid' ten' (wd_db w')))"
proof (intro conjI impI)
  assume "TicketService_removeTag ten tid tag w = (Inr t', w')"
  then obtain t where "persist (Ticket_removeTag (wd_now w) tag t) ten w = (Inr t', w')"
    by (auto simp: TicketService_removeTag_def andThen_app getOrThrow_app split: sum.splits option.splits)
  then obtain db where "save (wd_now w) (Ticket_removeTag (wd_now w) tag t) ten (wd_db w) = Inr db"
    "wd_db w' = db" "t' = clearEvents (Ticket_removeTag (wd_now w) tag t)"
    using persist_inv by blast
  then show "tag \<notin> tg_tag ` set (t_tags t')" "set (loadTags tid' ten' (wd_db w)) \<subseteq> set (loadTags tid' ten' (wd_db w'))"
    by (auto simp: clearEvents_def Ticket_removeTag_def Ticket_touch_def dest: save_keeps_tags)
next
  assume "TicketService_unwatch ten tid usr w = (Inr t', w')"
  then obtain t where "persist (Ticket_removeWatcher (wd_now w) usr t) ten w = (Inr t', w')"
    by (auto simp: TicketService_unwatch_def andThen_app getOrThrow_app split: sum.splits option.splits)
  then obtain db where "save (wd_now w) (Ticket_removeWatcher (wd_now w) usr t) ten (wd_db w) = Inr db"
    "wd_db w' = db" "t' = clearEvents (Ticket_removeWatcher (wd_now w) usr t)"
    using persist_inv by blast
  then show "usr \<notin> w_userId ` set (t_watchers t')" "set (loadWatchers tid' ten' (wd_db w)) \<subseteq> set (loadWatchers tid' ten' (wd_db w'))"
    by (auto simp: clearEvents_def Ticket_removeWatcher_def Ticket_touch_def dest: save_keeps_watchers)
qed

theorem removed_tags_and_watchers_stay_in_the_database_witness:
  "\<exists>t' w'. TicketService_removeTag ''acme'' ''t1'' ''vip'' sampleWorld = (Inr t', w') \<and>
     ''vip'' \<notin> tg_tag ` set (t_tags t') \<and> sampleTag \<in> set (loadTags ''t1'' ''acme'' (wd_db w'))"
proof -
  have "\<not> isl (fst (TicketService_removeTag ''acme'' ''t1'' ''vip'' sampleWorld))" by code_simp
  then obtain t' w' where "TicketService_removeTag ''acme'' ''t1'' ''vip'' sampleWorld = (Inr t', w')"
    using ok_result by blast
  moreover have "sampleTag \<in> set (loadTags ''t1'' ''acme'' (wd_db sampleWorld))"
    by (simp add: loadTags_def sampleDb_def sampleTag_def)
  ultimately show ?thesis
    using removed_tags_and_watchers_stay_in_the_database [of "''acme''" "''t1''" "''vip''" sampleWorld t' w' "''t1''" "''acme''"]
    by blast
qed

subsection \<open>Deadlines\<close>

definition configuredDue :: "Env \<Rightarrow> uid \<Rightarrow> ConfigureSlaDto \<Rightarrow> millis \<Rightarrow> int \<Rightarrow> millis" where
  "configuredDue env ten dto openedAt minutes =
     (let bh = orElse (cs_businessHours dto) (businessHoursOnly (env_slaSettings env ten))
      in slaDueAt bh (slaCalendar env ten bh) openedAt minutes)"

lemma configure_effect:
  assumes "t_priority t = Some p"
  obtains sla w' where "configureForTicket env ten t dto w = (Inr sla, w')"
    "wd_db w' = upsertSla (wd_now w) sla ten (wd_db w)" "same_setting w w'" "s_ticketId sla = t_id t"
    "s_responseDueAt sla = Some (configuredDue env ten dto (t_openedAt t) (fst (slaMinutes (env_slaSettings env ten) p dto)))"
    "s_resolutionDueAt sla = Some (configuredDue env ten dto (t_openedAt t) (snd (slaMinutes (env_slaSettings env ten) p dto)))"
    "s_pausedAt sla = Option.bind (getSla ten (t_id t) (wd_db w)) s_pausedAt"
    "s_pausedSeconds sla = orElse (map_option s_pausedSeconds (getSla ten (t_id t) (wd_db w))) 0"
    "s_breached sla = orElse (map_option s_breached (getSla ten (t_id t) (wd_db w))) False"
proof -
  obtain a b where ab: "slaMinutes (env_slaSettings env ten) p dto = (a, b)" by fastforce
  show thesis
    using assms ab
    by (intro that [of "projr (fst (configureForTicket env ten t dto w))" "snd (configureForTicket env ten t dto w)"])
      (auto simp: configureForTicket_def andThen_app Let_def randomUUID_def TicketSLA_recalculateRemaining_def
        new_TicketSLA_def configuredDue_def same_setting_def orElse_def split: option.splits)
qed

text \<open>Reopening a ticket recomputes its deadlines from the instant the ticket was first opened. The
  stored resolution deadline afterwards depends on that instant, the priority and the tenant's
  settings only; the time the clock stood still before is dropped from the deadline although the
  row still carries the paused seconds.\<close>

theorem reopen_drops_the_time_waited_from_the_deadline:
  assumes "TicketService_reopen env ten tid u w = (Inr t', w')"
  shows "\<exists>t p s. findById tid ten (wd_db w) = Inr (Some t) \<and> t_priority t = Some p \<and>
    getSla ten tid (wd_db w') = Some s \<and>
    s_resolutionDueAt s = Some (configuredDue env ten emptyConfigureSlaDto (t_openedAt t)
       (snd (slaMinutes (env_slaSettings env ten) p emptyConfigureSlaDto))) \<and>
    s_pausedSeconds s = orElse (map_option s_pausedSeconds (getSla ten tid (wd_db w))) 0"
proof (cases rule: transition_refines [of ten tid "\<lambda>now. Ticket_reopen now u" w])
  case (rejected e)
  with assms show ?thesis by (simp add: TicketService_reopen_def andThen_app)
next
  case (accepted t t1 db w1)
  from findById_loaded [OF accepted(1)] obtain p where p: "t_priority t = Some p" "t_id t = tid" by blast
  from accepted(2) have t1: "t_priority (clearEvents t1) = t_priority t" "t_id (clearEvents t1) = t_id t"
      "t_openedAt (clearEvents t1) = t_openedAt t"
    by (auto simp: Ticket_reopen_def rbind_Inr_iff addDomainEvent_def Ticket_touch_def clearEvents_def)
  have sla_same: "getSla ten tid (wd_db w1) = getSla ten tid (wd_db w)"
    using accepted by (simp add: getSla_save)
  from configure_effect [of "clearEvents t1" p env ten emptyConfigureSlaDto w1] t1 p obtain sla w2 where
    c: "configureForTicket env ten (clearEvents t1) emptyConfigureSlaDto w1 = (Inr sla, w2)"
      "wd_db w2 = upsertSla (wd_now w1) sla ten (wd_db w1)" "s_ticketId sla = tid"
      "s_resolutionDueAt sla = Some (configuredDue env ten emptyConfigureSlaDto (t_openedAt t)
         (snd (slaMinutes (env_slaSettings env ten) p emptyConfigureSlaDto)))"
      "s_pausedSeconds sla = orElse (map_option s_pausedSeconds (getSla ten tid (wd_db w1))) 0" by metis
  have "silent (andThen (AuditService_log ten u ''TICKET_REOPEN'' (''Reopened ticket '' @ tid)) (\<lambda>_.
      andThen (notifyCustomer env ten (clearEvents t1) ''ticket-reopened'' []) (\<lambda>_. ret (clearEvents t1)))) (clearEvents t1) w2"
    by (intro silent_tail silent_ret)
  with assms accepted(5) c(1) have "wd_db w' = wd_db w2"
    by (auto simp: TicketService_reopen_def andThen_app elim!: silentE)
  moreover obtain c0 where "getSla ten tid (wd_db w2) = Some ((slaRaw (wd_now w1) sla ten)\<lparr>s_createdAt := c0\<rparr>)"
    using getSla_upsert [of ten sla "wd_now w1" "wd_db w1"] c(2,3) by auto
  ultimately show ?thesis
    using accepted(1) p c(4,5) sla_same by (auto simp: slaRaw_def)
qed

definition resolvedWorld :: World where
  "resolvedWorld = sampleWorld\<lparr>wd_db := sampleDb\<lparr>tickets := [sampleRow\<lparr>r_status := ''RESOLVED''\<rparr>]\<rparr>\<rparr>"

theorem reopen_drops_the_time_waited_from_the_deadline_witness:
  "\<exists>t p s. findById ''t1'' ''acme'' (wd_db resolvedWorld) = Inr (Some t) \<and> t_priority t = Some p \<and>
    getSla ''acme'' ''t1'' (wd_db (snd (TicketService_reopen sampleEnv ''acme'' ''t1'' None resolvedWorld))) = Some s \<and>
    s_resolutionDueAt s = Some (configuredDue sampleEnv ''acme'' emptyConfigureSlaDto (t_openedAt t)
       (snd (slaMinutes (env_slaSettings sampleEnv ''acme'') p emptyConfigureSlaDto)))"
proof -
  have "\<not> isl (fst (TicketService_reopen sampleEnv ''acme'' ''t1'' None resolvedWorld))" by code_simp
  then obtain t' w' where w': "TicketService_reopen sampleEnv ''acme'' ''t1'' None resolvedWorld = (Inr t', w')"
    using ok_result by blast
  from reopen_drops_the_time_waited_from_the_deadline [OF this] show ?thesis unfolding w' by auto
qed

end
