(* ===== verification/Ticket_Creation.thy ===== *)
theory Ticket_Creation
  imports Ticket_Service_Limits
begin

text \<open>
  Creating tickets: a creation that runs alone takes the next number of its tenant, stores the
  ticket and its deadlines and keeps the numbering; two creations that read the sequence before
  either has saved collide on the unique index.
\<close>

subsection \<open>Saving a new ticket\<close>

lemma rawInsert_simps [simp]:
  "r_id (rawInsert t p st sub) = t_id t" "r_tenantId (rawInsert t p st sub) = t_tenantId t"
  "r_ticketNumber (rawInsert t p st sub) = t_ticketNumber t"
  by (simp_all add: rawInsert_def)

lemma save_new:
  assumes "parts t" "t_tenantId t = ten" "t_comments t = []" "t_tags t = []" "t_watchers t = []" "t_approvals t = []"
    and "\<not> ticketConflict t (tickets db)"
  obtains row where "save now t ten db = Inr (db\<lparr>tickets := tickets db @ [row]\<rparr>)"
    "r_tenantId row = ten" "r_ticketNumber row = t_ticketNumber t" "r_id row = t_id t"
proof -
  from assms(1) obtain st p sub where st: "t_status t = Some st" "t_priority t = Some p" "t_subject t = Some sub"
    by (auto simp: parts_def)
  have "\<not> list_ex (isTicketRow (t_id t) ten) (tickets db)"
    using assms(7) by (auto simp: ticketConflict_def list_ex_iff isTicketRow_def)
  with st assms have "save now t ten db = Inr (db\<lparr>tickets := tickets db @ [rawInsert t p st sub]\<rparr>)"
    by (simp add: save_def saveRow_def)
  with assms(2) show thesis by (intro that [of "rawInsert t p st sub"]) simp_all
qed

text \<open>Ticket numbers are computed as the number of rows plus one before the row is written. When two
  creations of one tenant interleave so that both read the sequence before either has saved, the
  second save violates the unique index and fails: one of the two requests is lost with a database
  error, and nothing of it is stored.\<close>

theorem interleaved_creations_collide_on_the_ticket_number:
  assumes "save now t1 (i_tenantId p1) db = Inr db1"
    and "t1 = Ticket_create now id1 p1" "t2 = Ticket_create now' id2 p2"
    and "i_tenantId p2 = i_tenantId p1" "i_ticketNumber p1 = generated (nextSequence (i_tenantId p1) db)"
    and "i_ticketNumber p2 = generated (nextSequence (i_tenantId p1) db)"
    and "\<forall>r\<in>set (tickets db). r_id r \<noteq> id1 \<and> r_id r \<noteq> id2" "id1 \<noteq> id2"
  shows "\<exists>m. save now' t2 (i_tenantId p2) db1 = Inl (Error m)"
proof -
  have t2: "t_id t2 = id2" "t_tenantId t2 = i_tenantId p1" "t_ticketNumber t2 = i_ticketNumber p1"
      "t_status t2 = Some (i_status p2)" "t_priority t2 = Some (i_priority p2)" "t_subject t2 = Some (i_subject p2)"
    using assms(3-6) by (simp_all add: Ticket_create_def new_Ticket_def addDomainEvent_def)
  have t1: "t_id t1 = id1" "t_tenantId t1 = i_tenantId p1" "t_ticketNumber t1 = i_ticketNumber p1"
      "t_status t1 = Some (i_status p1)" "t_priority t1 = Some (i_priority p1)" "t_subject t1 = Some (i_subject p1)"
    using assms(2) by (simp_all add: Ticket_create_def new_Ticket_def addDomainEvent_def)
  have "\<not> list_ex (isTicketRow id1 (i_tenantId p1)) (tickets db)"
    using assms(7) by (auto simp: list_ex_iff isTicketRow_def)
  then have rows: "tickets db1 = tickets db @ [rawInsert t1 (i_priority p1) (i_status p1) (i_subject p1)]"
    using save_rows(1) [OF assms(1)] t1 by (auto simp: saveRow_def split: if_splits)
  have "\<not> list_ex (isTicketRow id2 (i_tenantId p1)) (tickets db1)"
    using assms(7,8) t1(1) by (auto simp: rows list_ex_iff isTicketRow_def rawInsert_def)
  moreover have "ticketConflict t2 (tickets db1)"
    using t1 t2 by (simp add: rows ticketConflict_def rawInsert_def)
  ultimately show ?thesis using t2 assms(4) by (simp add: save_def saveRow_def)
qed

definition sampleInit :: TicketInit where
  "sampleInit =
     \<lparr>i_tenantId = ''acme'', i_ticketNumber = generated (nextSequence ''acme'' sampleDb), i_customerId = None,
      i_conversationId = None, i_assignedAgentId = None, i_assignedTeamId = None, i_categoryId = None,
      i_priority = TP_HIGH, i_status = TS_OPEN, i_source = SRC_MANUAL, i_subject = ''New'',
      i_description = None, i_metadata = None\<rparr>"

theorem interleaved_creations_collide_on_the_ticket_number_witness:
  "\<exists>db1 m. save 0 (Ticket_create 0 ''n1'' sampleInit) ''acme'' sampleDb = Inr db1 \<and>
     save 1 (Ticket_create 1 ''n2'' sampleInit) ''acme'' db1 = Inl (Error m)"
proof -
  have "\<not> isl (save 0 (Ticket_create 0 ''n1'' sampleInit) ''acme'' sampleDb)" by code_simp
  then obtain db1 where s: "save 0 (Ticket_create 0 ''n1'' sampleInit) ''acme'' sampleDb = Inr db1"
    by (metis sum.collapse(2))
  then have "\<exists>m. save 1 (Ticket_create 1 ''n2'' sampleInit) (i_tenantId sampleInit) db1 = Inl (Error m)"
    using interleaved_creations_collide_on_the_ticket_number
      [of 0 "Ticket_create 0 ''n1'' sampleInit" sampleInit sampleDb db1 "''n1''" "Ticket_create 1 ''n2'' sampleInit" 1 "''n2''" sampleInit]
    by (simp add: sampleInit_def sampleDb_def sampleRow_def)
  with s show ?thesis by (simp add: sampleInit_def)
qed

subsection \<open>Creating a ticket\<close>

text \<open>The aggregate a request describes.\<close>

definition requested :: "uid \<Rightarrow> string \<Rightarrow> CreateTicketDto \<Rightarrow> TicketInit" where
  "requested tenantId number dto =
     \<lparr>i_tenantId = tenantId, i_ticketNumber = number, i_customerId = ct_customerId dto,
      i_conversationId = ct_conversationId dto, i_assignedAgentId = ct_assignedAgentId dto,
      i_assignedTeamId = ct_assignedTeamId dto, i_categoryId = ct_categoryId dto,
      i_priority = orElse (ct_priority dto) TP_MEDIUM,
      i_status = (if truthy (ct_assignedAgentId dto) then TS_ASSIGNED else TS_OPEN),
      i_source = orElse (ct_source dto) SRC_MANUAL, i_subject = ct_subject dto,
      i_description = ct_description dto, i_metadata = Some (orElse (ct_metadata dto) Map.empty)\<rparr>"

lemma create_simps:
  "t_id (Ticket_create now i p) = i" "t_tenantId (Ticket_create now i p) = i_tenantId p"
  "t_ticketNumber (Ticket_create now i p) = i_ticketNumber p" "t_priority (Ticket_create now i p) = Some (i_priority p)"
  "t_status (Ticket_create now i p) = Some (i_status p)" "t_openedAt (Ticket_create now i p) = now"
  "t_comments (Ticket_create now i p) = []" "t_tags (Ticket_create now i p) = []"
  "t_watchers (Ticket_create now i p) = []" "t_approvals (Ticket_create now i p) = []" "parts (Ticket_create now i p)"
  by (simp_all add: Ticket_create_def new_Ticket_def addDomainEvent_def parts_def)

lemma clearEvents_simps [simp]:
  "t_id (clearEvents t) = t_id t" "t_tenantId (clearEvents t) = t_tenantId t"
  "t_ticketNumber (clearEvents t) = t_ticketNumber t" "t_priority (clearEvents t) = t_priority t"
  "t_status (clearEvents t) = t_status t" "t_openedAt (clearEvents t) = t_openedAt t"
  by (simp_all add: clearEvents_def)

lemma andThen_step: "m w = (Inr a, w') \<Longrightarrow> k a w' = x \<Longrightarrow> andThen m k w = x"
  by (simp add: andThen_app)

lemma numbered_upsertSla: "numbered ten (upsertSla now s ten' db) = numbered ten db"
  by (simp add: numbered_def nextSequence_def upsertSla_def)

lemma nextSequence_upsertSla: "nextSequence ten (upsertSla now s ten' db) = nextSequence ten db"
  by (simp add: nextSequence_def upsertSla_def)

text \<open>The first half of a creation: the row is in the table under the next number.\<close>

lemma create_persists:
  assumes "numbered ten (wd_db w)" "nextSequence ten (wd_db w) < 10 ^ 40"
    and "i_tenantId p = ten" "i_ticketNumber p = generated (nextSequence ten (wd_db w))"
    and "\<forall>r\<in>set (tickets (wd_db w)). r_id r \<noteq> tid"
  obtains w' where "persist (Ticket_create now tid p) ten w = (Inr (clearEvents (Ticket_create now tid p)), w')"
    "same_setting w w'" "numbered ten (wd_db w')" "nextSequence ten (wd_db w') = nextSequence ten (wd_db w) + 1"
proof -
  let ?t = "Ticket_create now tid p"
  have "\<not> ticketConflict ?t (tickets (wd_db w))"
    using assms(3-5) numbered_fresh [OF assms(1)] by (auto simp: ticketConflict_def list_ex_iff create_simps)
  then obtain row where row: "save (wd_now w) ?t ten (wd_db w) = Inr ((wd_db w)\<lparr>tickets := tickets (wd_db w) @ [row]\<rparr>)"
    "r_tenantId row = ten" "r_ticketNumber row = t_ticketNumber ?t"
    using save_new [of ?t ten "wd_db w" "wd_now w"] assms(3) by (auto simp: create_simps)
  obtain w' where "persist ?t ten w = (Inr (clearEvents ?t), w')"
    "wd_db w' = (wd_db w)\<lparr>tickets := tickets (wd_db w) @ [row]\<rparr>" "same_setting w w'"
    by (rule persist_ok [OF row(1)])
  moreover have "numbered ten ((wd_db w)\<lparr>tickets := tickets (wd_db w) @ [row]\<rparr>)"
    using numbered_append [OF assms(1) row(2)] row(3) assms(4) by (simp add: create_simps)
  ultimately show thesis using row(2) by (intro that [of w']) (simp_all add: nextSequence_def)
qed

text \<open>C6: A ticket creation that runs alone succeeds and takes the next number. When the tenant's tickets
  carry the numbers one to n, the customer (if any) exists, the fresh identifier is unused and the
  queue is up, the method returns a ticket numbered n+1 that is assigned when an agent was given and
  open otherwise; the tenant's tickets are again numbered without gaps, and the SLA row of the new
  ticket carries the two deadlines that the priority and the tenant's settings prescribe, counted
  from the instant of creation.\<close>

theorem creation_takes_the_next_number_and_sets_the_deadlines:
  assumes "numbered ten (wd_db w)" "nextSequence ten (wd_db w) < 10 ^ 40" "wd_queueUp w"
    and "truthy (ct_customerId dto) \<longrightarrow> \<not> isl (env_customer env ten (the (ct_customerId dto)))"
    and "\<forall>r\<in>set (tickets (wd_db w)). r_id r \<noteq> wd_uuid w (wd_uuidNext w)"
  shows "\<exists>t w' s. TicketService_create env ten dto u w = (Inr t, w') \<and>
    t_ticketNumber t = generated (nextSequence ten (wd_db w)) \<and>
    t_status t = Some (if truthy (ct_assignedAgentId dto) then TS_ASSIGNED else TS_OPEN) \<and>
    numbered ten (wd_db w') \<and> nextSequence ten (wd_db w') = nextSequence ten (wd_db w) + 1 \<and>
    getSla ten (t_id t) (wd_db w') = Some s \<and>
    (s_responseDueAt s, s_resolutionDueAt s) =
      (let m = slaMinutes (env_slaSettings env ten) (orElse (ct_priority dto) TP_MEDIUM) emptyConfigureSlaDto
       in (Some (configuredDue env ten emptyConfigureSlaDto (wd_now w) (fst m)),
           Some (configuredDue env ten emptyConfigureSlaDto (wd_now w) (snd m))))"
proof -
  let ?n = "nextSequence ten (wd_db w)" and ?tid = "wd_uuid w (wd_uuidNext w)"
  let ?p = "requested ten (generated ?n) dto"
  let ?t = "Ticket_create (wd_now w) ?tid ?p"
  let ?w0 = "w\<lparr>wd_uuidNext := wd_uuidNext w + 1\<rparr>"
  obtain w1 where w1: "persist ?t ten ?w0 = (Inr (clearEvents ?t), w1)" "same_setting ?w0 w1"
      "numbered ten (wd_db w1)" "nextSequence ten (wd_db w1) = ?n + 1"
    using create_persists [of ten ?w0 ?p ?tid "wd_now w"] assms by (auto simp: requested_def)
  have prio: "t_priority (clearEvents ?t) = Some (orElse (ct_priority dto) TP_MEDIUM)"
    by (simp add: create_simps requested_def)
  obtain sla w2 where w2: "configureForTicket env ten (clearEvents ?t) emptyConfigureSlaDto w1 = (Inr sla, w2)"
      "wd_db w2 = upsertSla (wd_now w1) sla ten (wd_db w1)" "same_setting w1 w2" "s_ticketId sla = t_id (clearEvents ?t)"
    and due: "s_responseDueAt sla = Some (configuredDue env ten emptyConfigureSlaDto (t_openedAt (clearEvents ?t))
        (fst (slaMinutes (env_slaSettings env ten) (orElse (ct_priority dto) TP_MEDIUM) emptyConfigureSlaDto)))"
      "s_resolutionDueAt sla = Some (configuredDue env ten emptyConfigureSlaDto (t_openedAt (clearEvents ?t))
        (snd (slaMinutes (env_slaSettings env ten) (orElse (ct_priority dto) TP_MEDIUM) emptyConfigureSlaDto)))"
    using configure_effect [OF prio, of env ten emptyConfigureSlaDto w1] by blast
  let ?job = "if truthy (ct_assignedTeamId dto) \<and> \<not> truthy (ct_assignedAgentId dto)
              then addJob (TicketAssignmentJob ?tid (the (ct_assignedTeamId dto)) u) else ret ()"
  have "silent (andThen ?job (\<lambda>_. andThen (AuditService_log ten u ''TICKET_CREATE''
           (''Created ticket '' @ t_ticketNumber (clearEvents ?t) @ '' ('' @ ?tid @ '')'')) (\<lambda>_.
         andThen (evaluateWorkflowTriggers ten TICKET_CREATED (clearEvents ?t)) (\<lambda>_.
         andThen (notifyCustomer env ten (clearEvents ?t) ''ticket-created'' [(''subject'', t_subject (clearEvents ?t))]) (\<lambda>_.
         ret (clearEvents ?t)))))) (clearEvents ?t) w2"
    using assms(3) w1(2) w2(3)
    by (intro silent_andThen [where a = "()"] silent_audit silent_triggers silent_notifyCustomer silent_ret)
      (auto simp: silent_def addJob_def same_setting_def)
  then obtain w3 where w3: "andThen ?job (\<lambda>_. andThen (AuditService_log ten u ''TICKET_CREATE''
           (''Created ticket '' @ t_ticketNumber (clearEvents ?t) @ '' ('' @ ?tid @ '')'')) (\<lambda>_.
         andThen (evaluateWorkflowTriggers ten TICKET_CREATED (clearEvents ?t)) (\<lambda>_.
         andThen (notifyCustomer env ten (clearEvents ?t) ''ticket-created'' [(''subject'', t_subject (clearEvents ?t))]) (\<lambda>_.
         ret (clearEvents ?t))))) w2 = (Inr (clearEvents ?t), w3)" "wd_db w3 = wd_db w2" by (rule silentE)
  have pre: "(if truthy (ct_customerId dto)
        then andThen (liftR (env_customer env ten (the (ct_customerId dto)))) (\<lambda>_. ret ()) else ret ()) w = (Inr (), w)"
      "repoRead (\<lambda>db. Inr (nextSequence ten db)) w = (Inr ?n, w)" "randomUUID w = (Inr ?tid, ?w0)"
      "liftR (TicketNumber_generate ?n ''TKT'') ?w0 = (Inr (generated ?n), ?w0)" "getNow ?w0 = (Inr (wd_now w), ?w0)"
    using assms(4) generate_generated [OF assms(2)]
    by (cases "env_customer env ten (the (ct_customerId dto))"; simp add: andThen_app randomUUID_def)+
  have run: "TicketService_create env ten dto u w = (Inr (clearEvents ?t), w3)"
    unfolding TicketService_create_def requested_def Let_def
    by ((rule andThen_step, rule pre w1(1) [unfolded requested_def] w2(1) [unfolded requested_def])+,
        rule w3(1) [unfolded requested_def])
  obtain c where "getSla ten ?tid (wd_db w3) = Some ((slaRaw (wd_now w1) sla ten)\<lparr>s_createdAt := c\<rparr>)"
    using getSla_upsert [of ten sla "wd_now w1" "wd_db w1"] w2(2,4) w3(2) by (auto simp: create_simps)
  with run w1(3,4) w2(2) w3(2) due show ?thesis
    by (intro exI [of _ "clearEvents ?t"] exI [of _ w3] exI [of _ "(slaRaw (wd_now w1) sla ten)\<lparr>s_createdAt := c\<rparr>"])
      (simp add: create_simps requested_def numbered_upsertSla nextSequence_upsertSla slaRaw_def Let_def)
qed

theorem creation_takes_the_next_number_and_sets_the_deadlines_witness:
  "\<exists>t w' s. TicketService_create sampleEnv ''acme''
     \<lparr>ct_subject = ''Mouse'', ct_description = None, ct_customerId = Some ''c1'', ct_conversationId = None,
      ct_categoryId = None, ct_assignedAgentId = None, ct_assignedTeamId = Some ''team'',
      ct_priority = Some TP_URGENT, ct_source = None, ct_metadata = None\<rparr> None sampleWorld = (Inr t, w') \<and>
    t_ticketNumber t = generated 3 \<and> getSla ''acme'' (t_id t) (wd_db w') = Some s \<and>
    s_resolutionDueAt s = Some (6000 + 480 * 60000)"
proof -
  have "numbered ''acme'' sampleDb" by code_simp
  moreover have seq: "nextSequence ''acme'' sampleDb = 3" by (simp add: nextSequence_def sampleDb_def sampleRow_def)
  moreover have "wd_uuid sampleWorld (wd_uuidNext sampleWorld) = ''u0''" by code_simp
  ultimately show ?thesis
    using creation_takes_the_next_number_and_sets_the_deadlines [of "''acme''" sampleWorld
      "\<lparr>ct_subject = ''Mouse'', ct_description = None, ct_customerId = Some ''c1'', ct_conversationId = None,
      ct_categoryId = None, ct_assignedAgentId = None, ct_assignedTeamId = Some ''team'',
      ct_priority = Some TP_URGENT, ct_source = None, ct_metadata = None\<rparr>" sampleEnv None]
    by (auto simp: sampleEnv_def sampleDb_def sampleRow_def Let_def slaMinutes_def configuredDue_def
        emptyConfigureSlaDto_def slaDueAt_def addCalendarMinutes_def)
qed

end
