(* ===== verification/Ticket_Desk_Properties.thy ===== *)
theory Ticket_Desk_Properties
  imports Ticket_Creation
begin

text \<open>
  Properties of the approval, escalation, assignment and merge flows: when a ticket leaves the
  approval gate, that a decision is final, what an escalation stores, which flows leave a terminal
  status, and what a merge leaves in the two rows.
\<close>

subsection \<open>Approvals\<close>

definition pendingRow :: "uid \<Rightarrow> uid \<Rightarrow> TicketApproval \<Rightarrow> bool" where
  "pendingRow tid ten r \<longleftrightarrow> ap_ticketId r = tid \<and> ap_tenantId r = ten \<and> TicketApproval_isPending r"

lemma isPending_toDomain [simp]: "TicketApproval_isPending (approvalToDomain r) = TicketApproval_isPending r"
  by (simp add: approvalToDomain_eq TicketApproval_isPending_def)

lemma findById_loadApprovals:
  "findById tid ten db = Inr (Some t) \<Longrightarrow> t_approvals t = map approvalToDomain (loadApprovals tid ten db)"
  by (auto simp: findById_def toDomain_def rbind_Inr_iff split: option.splits)

lemma findById_approvals:
  assumes "findById tid ten db = Inr (Some t)"
  shows "list_ex TicketApproval_isPending (t_approvals t) \<longleftrightarrow> (\<exists>r\<in>set (ticketApprovals db). pendingRow tid ten r)"
proof -
  have "list_ex TicketApproval_isPending (t_approvals t) \<longleftrightarrow>
      (\<exists>r\<in>set (loadApprovals tid ten db). TicketApproval_isPending r)"
    by (simp add: findById_loadApprovals [OF assms] list_ex_iff)
  then show ?thesis by (fastforce simp: loadApprovals_def pendingRow_def)
qed

lemma findById_saveApproval:
  "findById tid ten db = Inr (Some t) \<Longrightarrow>
   \<exists>t'. findById tid ten (saveApproval now a ten' db) = Inr (Some t') \<and> t_status t' = t_status t"
  by (auto simp: findById_def toDomain_def rbind_Inr_iff saveApproval_def Let_def loadComments_def loadTags_def
      loadWatchers_def split: option.splits)

lemma saveApproval_pending:
  assumes "\<not> TicketApproval_isPending a" "getApproval ten (ap_id a) db = Some b"
  shows "(\<exists>r\<in>set (ticketApprovals (saveApproval now a ten db)). pendingRow tid ten r) \<longleftrightarrow>
         (\<exists>r\<in>set (ticketApprovals db). pendingRow tid ten r \<and> ap_id r \<noteq> ap_id a)"
proof -
  define g where "g = (\<lambda>r. if isApprovalRow ten (ap_id a) r
    then a\<lparr>ap_tenantId := ten, ap_comments := orUndefined (ap_comments a), ap_updatedAt := now, ap_createdAt := ap_createdAt r\<rparr>
    else r)"
  have "list_ex (isApprovalRow ten (ap_id a)) (ticketApprovals db)"
    using assms(2) by (auto simp: getApproval_def list_ex_iff dest: find_Some_set)
  then have "ticketApprovals (saveApproval now a ten db) = map g (ticketApprovals db)"
    by (simp add: saveApproval_def Let_def g_def)
  moreover have "pendingRow tid ten (g r) \<longleftrightarrow> pendingRow tid ten r \<and> ap_id r \<noteq> ap_id a" for r
    using assms(1) by (auto simp: g_def pendingRow_def isApprovalRow_def TicketApproval_isPending_def)
  ultimately show ?thesis by simp
qed

definition announceDecision :: "decision \<Rightarrow> uid \<Rightarrow> uid option \<Rightarrow> TicketApproval \<Rightarrow> unit service" where
  "announceDecision d ten u a =
     (case d of
        Approve _ \<Rightarrow> andThen (TicketEventPublisher_publish
            (TicketApprovedEvent ten (ap_ticketId a) (ap_id a) (ap_approverId a))) (\<lambda>_.
          AuditService_log ten u ''TICKET_APPROVED'' (''Approved '' @ ap_id a @ '' on ticket '' @ ap_ticketId a))
      | Reject _ \<Rightarrow> andThen (TicketEventPublisher_publish
            (TicketRejectedEvent ten (ap_ticketId a) (ap_id a) (ap_approverId a))) (\<lambda>_.
          AuditService_log ten u ''TICKET_REJECTED'' (''Rejected '' @ ap_id a @ '' on ticket '' @ ap_ticketId a))
      | Cancel \<Rightarrow> AuditService_log ten u ''TICKET_APPROVAL_CANCELLED''
          (''Cancelled approval '' @ ap_id a @ '' on ticket '' @ ap_ticketId a))"

text \<open>The three decision methods of the service, by the decision they carry out.\<close>

fun decisionMethod :: "decision \<Rightarrow> uid \<Rightarrow> uid \<Rightarrow> uid option \<Rightarrow> TicketApproval service" where
  "decisionMethod (Approve c) ten aid u = TicketApprovalService_approve ten aid c u"
| "decisionMethod (Reject c) ten aid u = TicketApprovalService_reject ten aid c u"
| "decisionMethod Cancel ten aid u = TicketApprovalService_cancel ten aid u"

lemma decisionMethod_eq:
  "decisionMethod d ten aid u = decideApproval ten aid (\<lambda>now. decide now d) (announceDecision d ten u)"
proof -
  have eqs: "(\<lambda>now. decide now (Approve c)) = (\<lambda>now. TicketApproval_approve now c)"
    "(\<lambda>now. decide now (Reject c)) = (\<lambda>now. TicketApproval_reject now c)"
    "(\<lambda>now. decide now Cancel) = TicketApproval_cancel" for c
    by (rule ext, rule ext, simp)+
  have ann: "announceDecision (Approve c) ten u = (\<lambda>a. andThen (TicketEventPublisher_publish
            (TicketApprovedEvent ten (ap_ticketId a) (ap_id a) (ap_approverId a))) (\<lambda>_.
          AuditService_log ten u ''TICKET_APPROVED'' (''Approved '' @ ap_id a @ '' on ticket '' @ ap_ticketId a)))"
    "announceDecision (Reject c) ten u = (\<lambda>a. andThen (TicketEventPublisher_publish
            (TicketRejectedEvent ten (ap_ticketId a) (ap_id a) (ap_approverId a))) (\<lambda>_.
          AuditService_log ten u ''TICKET_REJECTED'' (''Rejected '' @ ap_id a @ '' on ticket '' @ ap_ticketId a)))"
    "announceDecision Cancel ten u = (\<lambda>a. AuditService_log ten u ''TICKET_APPROVAL_CANCELLED''
          (''Cancelled approval '' @ ap_id a @ '' on ticket '' @ ap_ticketId a))" for c
    by (rule ext, simp add: announceDecision_def)+
  show ?thesis
    by (cases d) (simp_all only: decisionMethod.simps eqs ann TicketApprovalService_approve_def
        TicketApprovalService_reject_def TicketApprovalService_cancel_def)
qed

lemma silent_announce: "silent (announceDecision d ten u a) () w"
  by (cases d) (auto simp: announceDecision_def intro!: silent_andThen)

lemma getApprovalOrThrow_app:
  "getApproval ten aid (wd_db w) = Some a \<Longrightarrow> getApprovalOrThrow ten aid w = (Inr a, w)"
  by (simp add: getApprovalOrThrow_def andThen_app)

text \<open>A decision on an approval is final. Approving, rejecting or cancelling an approval that is no
  longer pending fails with the error that names its status and leaves the whole world as it was.\<close>

theorem decided_approvals_cannot_be_decided_again:
  assumes "getApproval ten aid (wd_db w) = Some a" "\<not> TicketApproval_isPending a"
  shows "TicketApprovalService_approve ten aid c u w = (Inl (alreadyDecided a), w) \<and>
         TicketApprovalService_reject ten aid c u w = (Inl (alreadyDecided a), w) \<and>
         TicketApprovalService_cancel ten aid u w = (Inl (alreadyDecided a), w)"
proof -
  have "decisionMethod d ten aid u w = (Inl (alreadyDecided a), w)" for d
    using assms(1) decide_decided [OF assms(2)]
    by (simp add: decisionMethod_eq decideApproval_def andThen_app getApprovalOrThrow_app)
  from this [of "Approve c"] this [of "Reject c"] this [of Cancel] show ?thesis by simp
qed

definition decidedWorld :: World where
  "decidedWorld = sampleWorld\<lparr>wd_db := sampleDb\<lparr>ticketApprovals := [sampleApproval\<lparr>ap_status := AP_APPROVED\<rparr>]\<rparr>\<rparr>"

theorem decided_approvals_cannot_be_decided_again_witness:
  "\<exists>e. TicketApprovalService_reject ''acme'' ''a1'' None None decidedWorld = (Inl e, decidedWorld)"
proof -
  have "getApproval ''acme'' ''a1'' (wd_db decidedWorld) = Some (sampleApproval\<lparr>ap_status := AP_APPROVED\<rparr>)"
    by (simp add: decidedWorld_def getApproval_def isApprovalRow_def sampleApproval_def new_TicketApproval_def approvalToDomain_eq)
  then show ?thesis
    using decided_approvals_cannot_be_decided_again [of "''acme''" "''a1''" decidedWorld _ None None]
    by (auto simp: TicketApproval_isPending_def)
qed

lemma save_loaded:
  assumes "findById tid ten db = Inr (Some t)" "evolves t t'" "parts t'"
  shows "\<exists>db'. save now t' ten db = Inr db'"
proof -
  have "list_ex (isTicketRow tid ten) (tickets db)"
    using assms(1) by (auto simp: findById_def list_ex_iff dest: find_Some_set split: option.splits)
  moreover from findById_loaded [OF assms(1)] assms(2) have "t_id t' = tid"
    by (simp add: evolves_def same_identity_def)
  ultimately show ?thesis using assms(3) by (auto simp: parts_def save_def saveRow_def)
qed

lemma saveAndPublish_ok:
  assumes "save (wd_now w) t ten (wd_db w) = Inr db"
  obtains w' where "saveAndPublish t ten w = (Inr (clearEvents t), w')" "wd_db w' = db" "same_setting w w'"
proof -
  let ?w = "w\<lparr>wd_db := db\<rparr>"
  obtain w1 where "publishAll (t_domainEvents t) ?w = (Inr (), w1)" "wd_db w1 = db" "same_setting ?w w1"
    using silentE [OF silent_publishAll [of "t_domainEvents t" ?w]] by auto
  with assms show thesis
    by (intro that [of w1]) (simp_all add: saveAndPublish_def andThen_app repoSave_app same_setting_def)
qed

lemma resumeTicket_effect:
  assumes t: "findById tid ten (wd_db w) = Inr (Some t)" "t_status t = Some TS_APPROVAL_PENDING"
  shows "\<exists>w' v. resumeTicket ten tid w = (Inr (), w') \<and> same_setting w w' \<and> findById tid ten (wd_db w') = Inr (Some v) \<and>
    t_status v = Some (if \<exists>r\<in>set (ticketApprovals (wd_db w)). pendingRow tid ten r
                       then TS_APPROVAL_PENDING else TS_IN_PROGRESS)"
proof (cases "\<exists>r\<in>set (ticketApprovals (wd_db w)). pendingRow tid ten r")
  case True
  with t findById_approvals [OF t(1)] show ?thesis by (simp add: resumeTicket_def andThen_app)
next
  case False
  let ?op = "OpUpdate (statusPatch TS_IN_PROGRESS)"
  from findById_loaded(6) [OF t(1)] obtain t' where
    t': "apply_op (wd_now w) ?op t = Inr t'" "t_status t' = Some TS_IN_PROGRESS"
    using t(2) by (auto simp: statusPatch_def Ticket_update_def Ticket_assertStatus_def Ticket_emitUpdated_def
        TicketStatus_assertCanTransitionTo_def TicketStatus_canTransitionTo_def TicketStatus_isTerminal_def
        TERMINAL_STATUSES_def Ticket_touch_def addDomainEvent_def)
  have ev: "evolves t t'" by (rule apply_op_evolves [OF t'(1)])
    moreover have "parts t'" by (rule apply_op_parts [OF t'(1) loaded_parts [OF t(1)]]) (simp add: statusPatch_def)
  ultimately have ev: "evolves t t'" "parts t'" .
  from save_loaded [OF t(1) ev] obtain db where db: "save (wd_now w) t' ten (wd_db w) = Inr db" by blast
  obtain w' where w': "saveAndPublish t' ten w = (Inr (clearEvents t'), w')" "wd_db w' = db" "same_setting w w'"
    by (rule saveAndPublish_ok [OF db])
  have "resumeTicket ten tid w = (Inr (), w')"
    using t t' w'(1) False findById_approvals [OF t(1)] by (simp add: resumeTicket_def andThen_app)
  moreover obtain v where "findById tid ten db = Inr (Some v)" "same_columns t' v"
    using saved_is_visible(1) [OF t(1) ev db] by blast
  ultimately show ?thesis using w' t'(2) False by (auto simp: same_columns_def)
qed

text \<open>C8: The approval gate opens exactly when the last pending approval is decided. When a pending
  approval of a ticket in \<^verbatim>\<open>APPROVAL_PENDING\<close> is approved, rejected or cancelled, the call succeeds, and
  the ticket read back is in \<^verbatim>\<open>IN_PROGRESS\<close> if no other approval of it is pending and still in
  \<^verbatim>\<open>APPROVAL_PENDING\<close> otherwise.\<close>

theorem approval_gate_opens_with_the_last_decision:
  assumes "getApproval ten aid (wd_db w) = Some a" "TicketApproval_isPending a"
    and "findById (ap_ticketId a) ten (wd_db w) = Inr (Some t)" "t_status t = Some TS_APPROVAL_PENDING"
  shows "\<exists>a' w' v. decisionMethod d ten aid u w = (Inr a', w') \<and> \<not> TicketApproval_isPending a' \<and>
    findById (ap_ticketId a) ten (wd_db w') = Inr (Some v) \<and>
    t_status v = Some (if \<exists>r\<in>set (ticketApprovals (wd_db w)). pendingRow (ap_ticketId a) ten r \<and> ap_id r \<noteq> aid
                       then TS_APPROVAL_PENDING else TS_IN_PROGRESS)"
proof -
  from decide_pending [OF assms(2)] obtain a' where a': "decide (wd_now w) d a = Inr a'" by blast
  note frame = decide_frame [OF a'] and done_ = decide_not_pending [OF a']
  have aid: "ap_id a' = aid"
    using assms(1) frame by (auto simp: getApproval_def approvalToDomain_eq isApprovalRow_def dest!: find_Some_set)
  let ?w1 = "w\<lparr>wd_db := saveApproval (wd_now w) a' ten (wd_db w)\<rparr>"
  obtain t1 where t1: "findById (ap_ticketId a) ten (wd_db ?w1) = Inr (Some t1)" "t_status t1 = Some TS_APPROVAL_PENDING"
    using findById_saveApproval [OF assms(3), of "wd_now w" a' ten] assms(4) by auto
  obtain w2 v where w2: "resumeTicket ten (ap_ticketId a) ?w1 = (Inr (), w2)"
      "findById (ap_ticketId a) ten (wd_db w2) = Inr (Some v)"
      "t_status v = Some (if \<exists>r\<in>set (ticketApprovals (wd_db ?w1)). pendingRow (ap_ticketId a) ten r
                          then TS_APPROVAL_PENDING else TS_IN_PROGRESS)"
    using resumeTicket_effect [OF t1] by blast
  obtain w3 where w3: "announceDecision d ten u a' w2 = (Inr (), w3)" "wd_db w3 = wd_db w2"
    by (rule silentE [OF silent_announce])
  have "decisionMethod d ten aid u w = (Inr a', w3)"
    using assms(1) a' w2(1) w3(1) frame
    by (simp add: decisionMethod_eq decideApproval_def andThen_app getApprovalOrThrow_app repoWrite_def)
  moreover have "(\<exists>r\<in>set (ticketApprovals (wd_db ?w1)). pendingRow (ap_ticketId a) ten r) \<longleftrightarrow>
      (\<exists>r\<in>set (ticketApprovals (wd_db w)). pendingRow (ap_ticketId a) ten r \<and> ap_id r \<noteq> aid)"
    using saveApproval_pending [of a' ten "wd_db w" a "wd_now w" "ap_ticketId a"] done_ assms(1) aid by simp
  ultimately show ?thesis using w2 w3(2) done_ by auto
qed

theorem approval_gate_opens_with_the_last_decision_witness:
  "\<exists>a' w' v. decisionMethod (Approve None) ''acme'' ''a1'' None sampleWorld = (Inr a', w') \<and>
     findById ''t2'' ''acme'' (wd_db w') = Inr (Some v) \<and> t_status v = Some TS_IN_PROGRESS"
proof -
  have a: "getApproval ''acme'' ''a1'' (wd_db sampleWorld) = Some sampleApproval"
    by (simp add: getApproval_def sampleDb_def isApprovalRow_def sampleApproval_def new_TicketApproval_def approvalToDomain_eq)
  have pend: "TicketApproval_isPending sampleApproval" and tid: "ap_ticketId sampleApproval = ''t2''"
    by (simp_all add: sampleApproval_def new_TicketApproval_def TicketApproval_isPending_def)
  have no_other: "\<not> (\<exists>r\<in>set (ticketApprovals (wd_db sampleWorld)). pendingRow ''t2'' ''acme'' r \<and> ap_id r \<noteq> ''a1'')"
    by (simp add: sampleDb_def sampleApproval_def new_TicketApproval_def)
  have found: "findById (ap_ticketId sampleApproval) ''acme'' (wd_db sampleWorld) = Inr (Some sampleTicket2)"
    by (simp add: tid sample_findById)
  from approval_gate_opens_with_the_last_decision [OF a pend found, of "Approve None" None] no_other
  show ?thesis by (auto simp: tid)
qed

subsection \<open>Escalation\<close>

lemma getOrThrow_found:
  "andThen (getOrThrow ten tid) k w = (Inr a, w') \<Longrightarrow>
   \<exists>t. findById tid ten (wd_db w) = Inr (Some t) \<and> k t w = (Inr a, w')"
  by (auto simp: andThen_app getOrThrow_app split: sum.splits option.splits)

lemma findById_addAssignment: "findById tid ten (addAssignment a ten' db) = findById tid ten db"
  by (cases "List.find (isTicketRow tid ten) (tickets db)")
    (simp_all add: findById_def addAssignment_def loadComments_def loadTags_def loadWatchers_def loadApprovals_def)

text \<open>An escalation that succeeds raises the stored priority by one step of the order, at most to
  \<^verbatim>\<open>CRITICAL\<close>, leaves the status as it was, and adds exactly one assignment record, of type
  \<^verbatim>\<open>ESCALATION\<close>, for the agent and the team the ticket has.\<close>

theorem escalation_raises_the_stored_priority_one_step:
  assumes "TicketEscalationService_escalate ten tid reason flow u w = (Inr t', w')"
  shows "\<exists>t p v a. findById tid ten (wd_db w) = Inr (Some t) \<and> t_priority t = Some p \<and>
    findById tid ten (wd_db w') = Inr (Some v) \<and> t_priority v = Some (TicketPriority_escalated p) \<and>
    TicketPriority_weight (TicketPriority_escalated p) = min 5 (TicketPriority_weight p + 1) \<and>
    t_status v = t_status t \<and>
    ticketAssignments (wd_db w') = ticketAssignments (wd_db w) @ [a] \<and>
    as_assignmentType a = ''ESCALATION'' \<and> as_ticketId a = tid \<and> as_tenantId a = ten \<and>
    as_agentId a = orUndefined (t_assignedAgentId t) \<and> as_teamId a = orUndefined (t_assignedTeamId t)"
proof -
  obtain t where t: "findById tid ten (wd_db w) = Inr (Some t)"
    using assms unfolding TicketEscalationService_escalate_def by (auto dest: getOrThrow_found)
  from findById_loaded(6) [OF t] obtain p where p: "t_priority t = Some p" ..
  obtain t1 where t1: "apply_op (wd_now w) (OpEscalate reason) t = Inr t1"
      "t_priority t1 = Some (TicketPriority_escalated p)" "t_status t1 = t_status t"
      "t_assignedAgentId t1 = t_assignedAgentId t" "t_assignedTeamId t1 = t_assignedTeamId t"
    using p by (simp add: Ticket_escalate_def Let_def addDomainEvent_def Ticket_touch_def)
  have ev: "evolves t t1" "parts t1"
    using apply_op_evolves [OF t1(1)] apply_op_parts [OF t1(1) loaded_parts [OF t]] by simp_all
  obtain db where db: "save (wd_now w) t1 ten (wd_db w) = Inr db" using save_loaded [OF t ev] by blast
  obtain w1 where w1: "saveAndPublish t1 ten w = (Inr (clearEvents t1), w1)" "wd_db w1 = db" "same_setting w w1"
    by (rule saveAndPublish_ok [OF db])
  let ?a = "new_TicketAssignment (wd_now w) (wd_uuid w1 (wd_uuidNext w1)) ten tid (t_assignedAgentId t1)
      (t_assignedTeamId t1) (Some ''ESCALATION'') u None None None"
  have "wd_db w' = addAssignment ?a ten db"
    using assms t t1(1) w1 p
    by (auto simp: TicketEscalationService_escalate_def andThen_app getOrThrow_app randomUUID_def repoAddAssignment_def
        repoWrite_def addJob_def clearEvents_def t1 auditLog_app evaluateWorkflowTriggers_def Let_def
        split: if_splits)
  moreover obtain v where "findById tid ten db = Inr (Some v)" "same_columns t1 v"
    using saved_is_visible(1) [OF t ev db] by blast
  moreover have "findById tid ten (addAssignment ?a ten db) = findById tid ten db"
    by (simp add: findById_addAssignment)
  ultimately show ?thesis
    using t p t1 weight_escalated [of p] save_rows(7) [OF db]
    by (intro exI [of _ t] exI [of _ p] exI [of _ v]) (simp add: same_columns_def addAssignment_def new_TicketAssignment_def)
qed

theorem escalation_raises_the_stored_priority_one_step_witness:
  "\<exists>w' v. findById ''t1'' ''acme'' (wd_db w') = Inr (Some v) \<and> t_priority v = Some TP_HIGH \<and>
     w' = snd (TicketEscalationService_escalate ''acme'' ''t1'' ''SLA'' None None sampleWorld)"
proof -
  have "\<not> isl (fst (TicketEscalationService_escalate ''acme'' ''t1'' ''SLA'' None None sampleWorld))" by code_simp
  then obtain t' w' where w': "TicketEscalationService_escalate ''acme'' ''t1'' ''SLA'' None None sampleWorld = (Inr t', w')"
    using ok_result by blast
  have "TicketPriority_escalated TP_MEDIUM = TP_HIGH" by code_simp
  with escalation_raises_the_stored_priority_one_step [OF w'] w' show ?thesis by (auto simp: sample_findById)
qed

subsection \<open>Assignment and transfer\<close>

text \<open>Load, run an operation of the aggregate, persist, record the assignment, notify, audit.\<close>

lemma assignment_course:
  assumes t: "findById tid ten (wd_db w) = Inr (Some t)" and t1: "apply_op (wd_now w) op t = Inr t1" "clean_op op"
    and m: "m w = andThen (persist t1 ten) (\<lambda>ticket.
       andThen (recordAssignment ten tid ag (tm ticket) ty u) (\<lambda>_. andThen (notifyAssignedAgent ten ag' ticket) (\<lambda>_.
       andThen (AuditService_log ten u act det) (\<lambda>_. ret ticket)))) w"
  shows "\<exists>w' v. m w = (Inr (clearEvents t1), w') \<and> findById tid ten (wd_db w') = Inr (Some v) \<and> same_columns t1 v"
proof -
  have ev: "evolves t t1" "parts t1"
    using apply_op_evolves [OF t1(1)] apply_op_parts [OF t1(1) loaded_parts [OF t] t1(2)] by simp_all
  obtain db where db: "save (wd_now w) t1 ten (wd_db w) = Inr db" using save_loaded [OF t ev] by blast
  obtain w1 where w1: "persist t1 ten w = (Inr (clearEvents t1), w1)" "wd_db w1 = db"
    by (rule persist_ok [OF db])
  obtain v where v: "findById tid ten db = Inr (Some v)" "same_columns t1 v"
    using saved_is_visible(1) [OF t ev db] by blast
  obtain a w2 where w2: "recordAssignment ten tid ag (tm (clearEvents t1)) ty u w1 = (Inr (), w2)" "wd_db w2 = addAssignment a ten db"
    using w1(2) by (simp add: recordAssignment_def andThen_app randomUUID_def repoAddAssignment_def repoWrite_def)
  have "silent (andThen (notifyAssignedAgent ten ag' (clearEvents t1)) (\<lambda>_.
      andThen (AuditService_log ten u act det) (\<lambda>_. ret (clearEvents t1)))) (clearEvents t1) w2"
    by (intro silent_andThen [OF silent_notifyAssignedAgent] silent_andThen [OF silent_audit] silent_ret)
  then obtain w3 where "andThen (notifyAssignedAgent ten ag' (clearEvents t1)) (\<lambda>_.
      andThen (AuditService_log ten u act det) (\<lambda>_. ret (clearEvents t1))) w2 = (Inr (clearEvents t1), w3)"
    "wd_db w3 = wd_db w2" by (rule silentE)
  with m w1(1) w2 v show ?thesis
    by (intro exI [of _ w3] exI [of _ v]) (simp add: andThen_app [of "persist a b" for a b] andThen_app [of "recordAssignment a b c d e f" for a b c d e f]
      findById_addAssignment)
qed

text \<open>A transfer leaves a terminal status, an assignment does not. Transferring any existing ticket to
  an agent succeeds and the ticket read back is assigned to that agent with the status
  \<^verbatim>\<open>ASSIGNED\<close>, also when it was closed or cancelled, and its closing time stamp is kept. Assigning an
  agent to a closed or cancelled ticket succeeds as well but leaves its status alone.\<close>

theorem transfer_reopens_terminal_tickets_and_assign_does_not:
  assumes "findById tid ten (wd_db w) = Inr (Some t)" "ag \<noteq> []"
  shows "\<exists>w1 v1 w2 v2.
    (\<exists>t1. TicketAssignmentService_transfer env ten tid (Some ag) team u w = (Inr t1, w1)) \<and>
    findById tid ten (wd_db w1) = Inr (Some v1) \<and> t_status v1 = Some TS_ASSIGNED \<and>
    t_assignedAgentId v1 = Some ag \<and> t_closedAt v1 = t_closedAt t \<and>
    (\<exists>t2. TicketAssignmentService_assign ten tid ag team ty u w = (Inr t2, w2)) \<and>
    findById tid ten (wd_db w2) = Inr (Some v2) \<and> t_assignedAgentId v2 = Some ag \<and>
    t_status v2 = (if terminal t then t_status t else Some TS_ASSIGNED)"
proof -
  from findById_loaded(5) [OF assms(1)] obtain st where st: "t_status t = Some st" ..
  obtain x where x: "apply_op (wd_now w) (OpTransfer ag) t = Inr x" "t_status x = Some TS_ASSIGNED"
      "t_assignedAgentId x = Some ag" "t_closedAt x = t_closedAt t"
    by (simp add: Ticket_transfer_def addDomainEvent_def Ticket_touch_def)
  have "\<exists>w' v. TicketAssignmentService_transfer env ten tid (Some ag) team u w = (Inr (clearEvents x), w') \<and>
      findById tid ten (wd_db w') = Inr (Some v) \<and> same_columns x v"
    by (rule assignment_course [OF assms(1) x(1), where ag = "Some ag" and tm = t_assignedTeamId and ty = "''TRANSFER''"
          and u = u and ag' = ag and act = "''TICKET_TRANSFER''" and det = "''Transferred ticket '' @ tid @ '' to agent '' @ ag"])
      (use assms x(1) in \<open>simp_all add: TicketAssignmentService_transfer_def andThen_app [of "getOrThrow a b" for a b]
        andThen_app [of getNow] andThen_app [of "liftR a" for a] getOrThrow_app\<close>)
  then obtain w1 v1 where 1: "TicketAssignmentService_transfer env ten tid (Some ag) team u w = (Inr (clearEvents x), w1)"
      "findById tid ten (wd_db w1) = Inr (Some v1)" "same_columns x v1" by blast
  obtain y where y: "apply_op (wd_now w) (OpAssign ag team) t = Inr y" "t_assignedAgentId y = Some ag"
      "t_status y = (if terminal t then t_status t else Some TS_ASSIGNED)"
    using st by (simp add: Ticket_assign_def addDomainEvent_def Ticket_touch_def terminal_def)
  have "\<exists>w' v. TicketAssignmentService_assign ten tid ag team ty u w = (Inr (clearEvents y), w') \<and>
      findById tid ten (wd_db w') = Inr (Some v) \<and> same_columns y v"
    by (rule assignment_course [OF assms(1) y(1), where ag = "Some ag" and tm = "\<lambda>_. team" and ty = ty
          and u = u and ag' = ag and act = "''TICKET_ASSIGN''"
          and det = "''Assigned ticket '' @ tid @ '' to agent '' @ ag @ '' ('' @ ty @ '')''"])
      (use assms y(1) in \<open>simp_all add: TicketAssignmentService_assign_def andThen_app [of "getOrThrow a b" for a b]
        andThen_app [of getNow] andThen_app [of "liftR a" for a] getOrThrow_app\<close>)
  then obtain w2 v2 where 2: "TicketAssignmentService_assign ten tid ag team ty u w = (Inr (clearEvents y), w2)"
      "findById tid ten (wd_db w2) = Inr (Some v2)" "same_columns y v2" by blast
  show ?thesis
    using 1 2 x(2-4) y(2,3) assms(2)
    by (intro exI [of _ w1] exI [of _ v1] exI [of _ w2] exI [of _ v2]) (simp add: same_columns_def)
qed

definition closedWorld :: World where
  "closedWorld = sampleWorld\<lparr>wd_db := sampleDb\<lparr>tickets := [sampleRow\<lparr>r_status := ''CLOSED'', r_closedAt := Some 10\<rparr>]\<rparr>\<rparr>"

theorem transfer_reopens_terminal_tickets_and_assign_does_not_witness:
  "\<exists>t w1 v1. findById ''t1'' ''acme'' (wd_db closedWorld) = Inr (Some t) \<and> t_status t = Some TS_CLOSED \<and>
     w1 = snd (TicketAssignmentService_transfer sampleEnv ''acme'' ''t1'' (Some ''ann'') None None closedWorld) \<and>
     findById ''t1'' ''acme'' (wd_db w1) = Inr (Some v1) \<and> t_status v1 = Some TS_ASSIGNED"
proof -
  have parse: "TicketStatus_create ''CLOSED'' = Inr TS_CLOSED" by code_simp
  obtain t where t: "findById ''t1'' ''acme'' (wd_db closedWorld) = Inr (Some t)" "t_status t = Some TS_CLOSED"
    by (simp add: closedWorld_def findById_def sampleDb_def sampleRow_def isTicketRow_def toDomain_def sample_number sample_parse parse)
  from transfer_reopens_terminal_tickets_and_assign_does_not [OF t(1), of "''ann''" sampleEnv None None "''MANUAL''"] t
  show ?thesis by fastforce
qed

subsection \<open>Merging\<close>

lemma rawUpdate_simps [simp]:
  "r_status (rawUpdate now t p st r) = TicketStatus_value st" "r_metadata (rawUpdate now t p st r) = t_metadata t"
  by (simp_all add: rawUpdate_def)

lemma persist_known:
  assumes "List.find (isTicketRow (t_id t) ten) (tickets (wd_db w)) = Some r" "parts t" "t_tenantId t = ten"
  obtains w' p st where "persist t ten w = (Inr (clearEvents t), w')" "same_setting w w'"
    "t_priority t = Some p" "t_status t = Some st"
    "List.find (isTicketRow (t_id t) ten) (tickets (wd_db w')) = Some (rawUpdate (wd_now w) t p st r)"
    "\<And>i. i \<noteq> t_id t \<Longrightarrow> List.find (isTicketRow i ten) (tickets (wd_db w')) = List.find (isTicketRow i ten) (tickets (wd_db w))"
proof -
  from assms(2) obtain p st where ps: "t_priority t = Some p" "t_status t = Some st" by (auto simp: parts_def)
  from assms(1) have "list_ex (isTicketRow (t_id t) ten) (tickets (wd_db w))"
    by (auto simp: list_ex_iff dest: find_Some_set)
  with ps obtain db where db: "save (wd_now w) t ten (wd_db w) = Inr db" by (auto simp: save_def saveRow_def)
  obtain w' where w': "persist t ten w = (Inr (clearEvents t), w')" "wd_db w' = db" "same_setting w w'"
    by (rule persist_ok [OF db])
  have row: "List.find (isTicketRow (t_id t) ten) (tickets db) = Some (rawUpdate (wd_now w) t p st r)"
    using saveRow_find [of "wd_now w" t "tickets (wd_db w)" "tickets db" st p] save_rows(1) [OF db] assms ps by auto
  have "List.find (isTicketRow i ten) (tickets db) = List.find (isTicketRow i ten) (tickets (wd_db w))" if "i \<noteq> t_id t" for i
    using saveRow_find_other [of "wd_now w" t "tickets (wd_db w)" "tickets db" i ten] save_rows(1) [OF db] assms(3) that by simp
  with w' row ps show thesis by (intro that [of w' p st]) auto
qed

lemma findById_row: "findById tid ten db = Inr (Some t) \<Longrightarrow> \<exists>r. List.find (isTicketRow tid ten) (tickets db) = Some r"
  by (auto simp: findById_def split: option.splits)

lemma merge_source:
  assumes "findById sid ten db = Inr (Some s)" "\<not> Ticket_hasPending s"
  obtains s2 where "(\<exists>st. t_status (Ticket_setMetadata now [''mergedInto'' \<mapsto> JStr tid] s) = Some st \<and>
      (if \<not> TicketStatus_isTerminal st then Ticket_close now u (Ticket_setMetadata now [''mergedInto'' \<mapsto> JStr tid] s)
       else Inr (Ticket_setMetadata now [''mergedInto'' \<mapsto> JStr tid] s)) = Inr s2)"
    "parts s2" "t_id s2 = sid" "t_tenantId s2 = ten"
    "t_status s2 = (if terminal s then t_status s else Some TS_CLOSED)"
    "t_metadata s2 = Some ((metadataOf s)(''mergedInto'' \<mapsto> JStr tid))"
proof -
  let ?s1 = "Ticket_setMetadata now [''mergedInto'' \<mapsto> JStr tid] s"
  note loaded = findById_loaded [OF assms(1)]
  from loaded(5) obtain st where st: "t_status s = Some st" ..
  have s1: "t_status ?s1 = Some st" "parts ?s1" "t_id ?s1 = sid" "t_tenantId ?s1 = ten" "t_approvals ?s1 = t_approvals s"
      "t_metadata ?s1 = Some ((metadataOf s)(''mergedInto'' \<mapsto> JStr tid))"
    using loaded_parts [OF assms(1)] loaded st
    by (simp_all add: Ticket_setMetadata_def Ticket_touch_def parts_def metadataOf_def split: option.splits)
  show thesis
  proof (cases "TicketStatus_isTerminal st")
    case True
    with s1 st show thesis by (intro that [of ?s1]) (auto simp: terminal_def)
  next
    case False
    then obtain s2 where s2: "Ticket_close now u ?s1 = Inr s2"
      using s1 assms(2) by (simp add: Ticket_close_def Ticket_hasPending_def Ticket_assertStatus_def
          TicketStatus_assertCanTransitionTo_def TicketStatus_canTransitionTo_def)
    then have "t_status s2 = Some TS_CLOSED" "t_id s2 = t_id ?s1" "t_tenantId s2 = t_tenantId ?s1" "t_metadata s2 = t_metadata ?s1"
      by (auto simp: Ticket_close_def rbind_Inr_iff addDomainEvent_def Ticket_touch_def split: if_splits)
    moreover have "parts s2" using apply_op_parts [of now "OpClose u" ?s1 s2] s2 s1(2) by simp
    ultimately show thesis using False s1 st s2 by (intro that [of s2]) (auto simp: terminal_def)
  qed
qed

text \<open>Merging links both tickets and closes the source. When two different tickets exist, the source has
  no pending approval and the target's list of merged tickets is a list (or missing), the merge
  succeeds; afterwards the row of the source is closed (or keeps its terminal status) and names the
  target, and the target's metadata list of merged tickets is the old one with the source appended.\<close>

theorem merge_closes_the_source_and_links_both_rows:
  assumes "findById sid ten (wd_db w) = Inr (Some s)" "findById tid ten (wd_db w) = Inr (Some t)" "sid \<noteq> tid"
    and "\<not> Ticket_hasPending s" "spreadValue (metadataOf t ''mergedTicketIds'') = Inr ids"
  shows "\<exists>t' w' rs rt ms mt. TicketService_merge ten sid tid u w = (Inr t', w') \<and>
    List.find (isTicketRow sid ten) (tickets (wd_db w')) = Some rs \<and>
    List.find (isTicketRow tid ten) (tickets (wd_db w')) = Some rt \<and>
    (terminal s \<or> r_status rs = ''CLOSED'') \<and>
    r_metadata rs = Some ms \<and> ms ''mergedInto'' = Some (JStr tid) \<and>
    r_metadata rt = Some mt \<and> mt ''mergedTicketIds'' = Some (JArr (ids @ [JStr sid]))"
proof -
  let ?now = "wd_now w"
  let ?t1 = "Ticket_setMetadata ?now [''mergedTicketIds'' \<mapsto> JArr (ids @ [JStr sid])] t"
  let ?s1 = "Ticket_setMetadata ?now [''mergedInto'' \<mapsto> JStr tid] s"
  obtain s2 st where s2: "t_status ?s1 = Some st"
      "(if \<not> TicketStatus_isTerminal st then Ticket_close ?now u ?s1 else Inr ?s1) = Inr s2"
      "parts s2" "t_id s2 = sid" "t_tenantId s2 = ten"
      "t_status s2 = (if terminal s then t_status s else Some TS_CLOSED)"
      "t_metadata s2 = Some ((metadataOf s)(''mergedInto'' \<mapsto> JStr tid))"
    using merge_source [OF assms(1,4), of ?now tid u] by blast
  have t1: "parts ?t1" "t_id ?t1 = tid" "t_tenantId ?t1 = ten"
      "t_metadata ?t1 = Some ((metadataOf t)(''mergedTicketIds'' \<mapsto> JArr (ids @ [JStr sid])))"
    using loaded_parts [OF assms(2)] findById_loaded [OF assms(2)]
    by (simp_all add: Ticket_setMetadata_def Ticket_touch_def parts_def metadataOf_def split: option.splits)
  obtain rs0 rt0 where rows: "List.find (isTicketRow sid ten) (tickets (wd_db w)) = Some rs0"
      "List.find (isTicketRow tid ten) (tickets (wd_db w)) = Some rt0"
    using findById_row assms(1,2) by blast
  obtain w1 p1 st1 where w1: "persist ?t1 ten w = (Inr (clearEvents ?t1), w1)" "same_setting w w1"
      "List.find (isTicketRow tid ten) (tickets (wd_db w1)) = Some (rawUpdate ?now ?t1 p1 st1 rt0)"
      "List.find (isTicketRow sid ten) (tickets (wd_db w1)) = Some rs0"
    using persist_known [of ?t1 ten w rt0] t1 rows assms(3) by metis
  obtain w2 p2 st2 where w2: "persist s2 ten w1 = (Inr (clearEvents s2), w2)" "t_status s2 = Some st2"
      "List.find (isTicketRow sid ten) (tickets (wd_db w2)) = Some (rawUpdate (wd_now w1) s2 p2 st2 rs0)"
      "List.find (isTicketRow tid ten) (tickets (wd_db w2)) = Some (rawUpdate ?now ?t1 p1 st1 rt0)"
    using persist_known [of s2 ten w1 rs0] s2 w1 assms(3) by metis
  obtain w3 where w3: "AuditService_log ten u ''TICKET_MERGE'' (''Merged ticket '' @ sid @ '' into '' @ tid) w2 = (Inr (), w3)"
      "wd_db w3 = wd_db w2" by (rule silentE [OF silent_audit])
  have pre: "getOrThrow ten sid w = (Inr s, w)" "getOrThrow ten tid w = (Inr t, w)"
      "liftR (spreadValue (metadataOf t ''mergedTicketIds'')) w = (Inr ids, w)" "getNow w = (Inr ?now, w)"
      "liftR (deref (t_status ?s1)) w = (Inr st, w)"
    using assms(1,2,5) s2(1) by (simp_all add: getOrThrow_app)
  have closed: "(if \<not> TicketStatus_isTerminal st then liftR (Ticket_close ?now u ?s1) else ret ?s1) w = (Inr s2, w)"
    using s2(2) by (cases "TicketStatus_isTerminal st") (auto simp del: isTerminal_iff)
  have run: "TicketService_merge ten sid tid u w = (Inr (clearEvents ?t1), w3)"
    unfolding TicketService_merge_def Let_def
    by ((rule andThen_step, rule pre closed w1(1) w2(1) w3(1))+, rule ret_app)
  show ?thesis
    using run w2(2-4) w3(2) s2(6,7) t1(4)
    by (intro exI [of _ "clearEvents ?t1"] exI [of _ w3] exI [of _ "rawUpdate (wd_now w1) s2 p2 st2 rs0"]
        exI [of _ "rawUpdate ?now ?t1 p1 st1 rt0"] exI [of _ "(metadataOf s)(''mergedInto'' \<mapsto> JStr tid)"]
        exI [of _ "(metadataOf t)(''mergedTicketIds'' \<mapsto> JArr (ids @ [JStr sid]))"])
      (auto split: if_splits)
qed

theorem merge_closes_the_source_and_links_both_rows_witness:
  "\<exists>t' w' rs. TicketService_merge ''acme'' ''t1'' ''t2'' None sampleWorld = (Inr t', w') \<and>
     List.find (isTicketRow ''t1'' ''acme'') (tickets (wd_db w')) = Some rs \<and> r_status rs = ''CLOSED''"
proof -
  have "\<not> Ticket_hasPending sampleTicket" "\<not> terminal sampleTicket"
    by (simp_all add: Ticket_hasPending_def terminal_def)
  moreover have "spreadValue (metadataOf sampleTicket2 ''mergedTicketIds'') = Inr []"
    by (simp add: metadataOf_def sampleTicket2_def sampleTicket_def)
  ultimately show ?thesis
    using merge_closes_the_source_and_links_both_rows [of "''t1''" "''acme''" sampleWorld sampleTicket "''t2''" sampleTicket2 "[]" None]
    by (auto simp: sample_findById)
qed

end
