(* ===== verification/Circuit_Breaker.thy ===== *)
theory Circuit_Breaker
  imports Keyed_Store
begin

text \<open>
  The circuit breaker of the connector engine (\<^verbatim>\<open>src/modules/connectors/domain/circuit-breaker.ts\<close>)
  and its manager (\<^verbatim>\<open>engine/circuit-breaker-manager.ts\<close>). The record is the private state of the
  class; \<^verbatim>\<open>canRequest\<close> moves an expired \<^verbatim>\<open>OPEN\<close> breaker to \<^verbatim>\<open>HALF_OPEN\<close> as a side effect, so it
  returns the new breaker with its answer. The manager keeps snapshots in a memory map and, when
  Redis is available, in a store whose entries live for a week; its lookup and save interpret the
  contract of a keyed store. A breaker is driven by calls: ask, then record the outcome.
\<close>

subsection \<open>State machine\<close>

datatype CircuitState = CLOSED | OPEN | HALF_OPEN

record CircuitBreakerOptions =
  failureThreshold :: int
  successThreshold :: int
  resetTimeoutMs :: int

record CircuitBreaker =
  cb_state :: CircuitState
  cb_failureCount :: int
  cb_successCount :: int
  cb_openedAt :: "millis option"

text \<open>The constructor: the snapshot is the record itself.\<close>

definition new_CircuitBreaker :: "CircuitBreaker option \<Rightarrow> CircuitBreaker" where
  "new_CircuitBreaker snapshot =
     (case snapshot of
        None \<Rightarrow> \<lparr>cb_state = CLOSED, cb_failureCount = 0, cb_successCount = 0, cb_openedAt = None\<rparr>
      | Some s \<Rightarrow> s)"

definition canRequest :: "CircuitBreakerOptions \<Rightarrow> millis \<Rightarrow> CircuitBreaker \<Rightarrow> bool \<times> CircuitBreaker" where
  "canRequest opts now b =
     (if cb_state b = OPEN
      then (case cb_openedAt b of
              None \<Rightarrow> (False, b)
            | Some t \<Rightarrow> if resetTimeoutMs opts \<le> now - t
                        then (True, b\<lparr>cb_state := HALF_OPEN, cb_successCount := 0\<rparr>) else (False, b))
      else (True, b))"

definition trip :: "millis \<Rightarrow> CircuitBreaker \<Rightarrow> CircuitBreaker" where
  "trip now b = b\<lparr>cb_state := OPEN, cb_openedAt := Some now, cb_successCount := 0\<rparr>"

definition closeBreaker :: "CircuitBreaker \<Rightarrow> CircuitBreaker" where
  "closeBreaker b = b\<lparr>cb_state := CLOSED, cb_failureCount := 0, cb_successCount := 0, cb_openedAt := None\<rparr>"

definition recordSuccess :: "CircuitBreakerOptions \<Rightarrow> CircuitBreaker \<Rightarrow> CircuitBreaker" where
  "recordSuccess opts b =
     (if cb_state b = HALF_OPEN
      then let b' = b\<lparr>cb_successCount := cb_successCount b + 1\<rparr>
           in if successThreshold opts \<le> cb_successCount b' then closeBreaker b' else b'
      else b\<lparr>cb_failureCount := 0\<rparr>)"

definition recordFailure :: "CircuitBreakerOptions \<Rightarrow> millis \<Rightarrow> CircuitBreaker \<Rightarrow> CircuitBreaker" where
  "recordFailure opts now b =
     (if cb_state b = HALF_OPEN then trip now b
      else let b' = b\<lparr>cb_failureCount := cb_failureCount b + 1\<rparr>
           in if failureThreshold opts \<le> cb_failureCount b' then trip now b' else b')"

definition isOpen :: "CircuitBreaker \<Rightarrow> bool" where
  "isOpen b = (cb_state b = OPEN)"

subsection \<open>Manager\<close>

record CbManager =
  cm_isRedisAvailable :: bool
  cm_redis :: "string \<rightharpoonup> CircuitBreaker \<times> millis"
  cm_memoryCache :: "string \<rightharpoonup> CircuitBreaker"

definition getCacheKey :: "string \<Rightarrow> string" where
  "getCacheKey breakerGroupKey = ''connector:cb:'' @ breakerGroupKey"

definition redisGet :: "millis \<Rightarrow> string \<Rightarrow> CbManager \<Rightarrow> CircuitBreaker option" where
  "redisGet now key m =
     (case cm_redis m key of None \<Rightarrow> None | Some (s, expiresAt) \<Rightarrow> if now < expiresAt then Some s else None)"

definition breakerSnapshot :: "millis \<Rightarrow> string \<Rightarrow> CbManager \<Rightarrow> CircuitBreaker option" where
  "breakerSnapshot now breakerGroupKey m =
     (let key = getCacheKey breakerGroupKey;
          snapshot = (if cm_isRedisAvailable m then redisGet now key m else None)
      in case snapshot of None \<Rightarrow> cm_memoryCache m key | Some s \<Rightarrow> Some s)"

definition getBreaker :: "millis \<Rightarrow> string \<Rightarrow> CbManager \<Rightarrow> CircuitBreaker" where
  "getBreaker now breakerGroupKey m = new_CircuitBreaker (breakerSnapshot now breakerGroupKey m)"

definition saveBreaker :: "millis \<Rightarrow> string \<Rightarrow> CircuitBreaker \<Rightarrow> CbManager \<Rightarrow> CbManager" where
  "saveBreaker now breakerGroupKey breaker m =
     (let key = getCacheKey breakerGroupKey;
          m1 = m\<lparr>cm_memoryCache := (cm_memoryCache m)(key \<mapsto> breaker)\<rparr>
      in if cm_isRedisAvailable m
         then m1\<lparr>cm_redis := (cm_redis m)(key \<mapsto> (breaker, now + 7 * 24 * 3600 * 1000))\<rparr>
         else m1)"

interpretation breaker_cache:
  keyed_store "\<lambda>k m. map_option (Pair k) (breakerSnapshot now k m)" "\<lambda>v. saveBreaker now (fst v) (snd v)" fst id
proof unfold_locales
  fix v :: "string \<times> CircuitBreaker" and db :: CbManager
  show "map_option id (map_option (Pair (fst v)) (breakerSnapshot now (fst v) (saveBreaker now (fst v) (snd v) db))) = Some (id v)"
    by (simp add: breakerSnapshot_def saveBreaker_def redisGet_def Let_def)
next
  fix k and v :: "string \<times> CircuitBreaker" and db :: CbManager
  assume "k \<noteq> fst v"
  then have "getCacheKey k \<noteq> getCacheKey (fst v)" by (simp add: getCacheKey_def)
  then show "map_option (Pair k) (breakerSnapshot now k (saveBreaker now (fst v) (snd v) db)) =
      map_option (Pair k) (breakerSnapshot now k db)"
    by (cases "cm_isRedisAvailable db") (simp_all add: breakerSnapshot_def saveBreaker_def redisGet_def Let_def split: option.split)
qed

subsection \<open>Calls\<close>

text \<open>One call of the engine through a breaker: refused, or made with the given outcome.\<close>

definition cbCall :: "CircuitBreakerOptions \<Rightarrow> millis \<times> bool \<Rightarrow> CircuitBreaker \<Rightarrow> bool \<times> CircuitBreaker" where
  "cbCall opts c b =
     (case canRequest opts (fst c) b of
        (False, b') \<Rightarrow> (False, b')
      | (True, b') \<Rightarrow> (True, if snd c then recordSuccess opts b' else recordFailure opts (fst c) b'))"

fun cbCalls :: "CircuitBreakerOptions \<Rightarrow> (millis \<times> bool) list \<Rightarrow> CircuitBreaker \<Rightarrow> bool list \<times> CircuitBreaker" where
  "cbCalls opts [] b = ([], b)"
| "cbCalls opts (c # cs) b =
     (let (made, b1) = cbCall opts c b; (rest, b2) = cbCalls opts cs b1 in (made # rest, b2))"

subsection \<open>Invariant\<close>

definition wf_options :: "CircuitBreakerOptions \<Rightarrow> bool" where
  "wf_options opts \<longleftrightarrow> 1 \<le> failureThreshold opts \<and> 1 \<le> successThreshold opts \<and> 0 \<le> resetTimeoutMs opts"

definition wf_breaker :: "CircuitBreakerOptions \<Rightarrow> CircuitBreaker \<Rightarrow> bool" where
  "wf_breaker opts b \<longleftrightarrow>
     0 \<le> cb_failureCount b \<and> 0 \<le> cb_successCount b \<and>
     (cb_state b = CLOSED \<longrightarrow> cb_failureCount b < failureThreshold opts \<and> cb_openedAt b = None) \<and>
     (cb_state b = OPEN \<longrightarrow> cb_openedAt b \<noteq> None) \<and>
     (cb_state b = HALF_OPEN \<longrightarrow> cb_openedAt b \<noteq> None \<and> cb_successCount b < successThreshold opts)"

lemmas breaker_defs = canRequest_def recordSuccess_def recordFailure_def trip_def closeBreaker_def Let_def

lemma wf_new [wf_intros]: "wf_options opts \<Longrightarrow> wf_breaker opts (new_CircuitBreaker None)"
  by (simp add: wf_breaker_def new_CircuitBreaker_def wf_options_def)

lemma wf_canRequest [wf_intros]: "wf_options opts \<Longrightarrow> wf_breaker opts b \<Longrightarrow> wf_breaker opts (snd (canRequest opts now b))"
  by (auto simp: wf_breaker_def wf_options_def breaker_defs split: option.splits)

lemma wf_recordSuccess [wf_intros]: "wf_options opts \<Longrightarrow> wf_breaker opts b \<Longrightarrow> wf_breaker opts (recordSuccess opts b)"
  by (auto simp: wf_breaker_def wf_options_def breaker_defs)

lemma wf_recordFailure [wf_intros]: "wf_breaker opts b \<Longrightarrow> wf_breaker opts (recordFailure opts now b)"
  by (auto simp: wf_breaker_def breaker_defs)

lemma wf_cbCall [wf_intros]:
  assumes "wf_options opts" "wf_breaker opts b"
  shows "wf_breaker opts (snd (cbCall opts c b))"
  using wf_canRequest [OF assms, of "fst c"]
  by (auto simp: cbCall_def split: prod.splits bool.splits intro: wf_recordSuccess [OF assms(1)] wf_recordFailure)

lemma cbCalls_Cons_eq:
  "cbCalls opts (c # cs) b =
     (fst (cbCall opts c b) # fst (cbCalls opts cs (snd (cbCall opts c b))), snd (cbCalls opts cs (snd (cbCall opts c b))))"
  by (simp add: case_prod_unfold Let_def)

declare cbCalls.simps(2) [simp del]

lemma wf_cbCalls: "wf_options opts \<Longrightarrow> wf_breaker opts b \<Longrightarrow> wf_breaker opts (snd (cbCalls opts cs b))"
  by (induction cs arbitrary: b) (simp_all add: cbCalls_Cons_eq wf_cbCall)

subsection \<open>Tripping and recovering\<close>

lemma cbCall_closed_failure:
  assumes "cb_state b = CLOSED"
  shows "cbCall opts (t, False) b =
    (True, if failureThreshold opts \<le> cb_failureCount b + 1
           then b\<lparr>cb_failureCount := cb_failureCount b + 1, cb_state := OPEN, cb_openedAt := Some t, cb_successCount := 0\<rparr>
           else b\<lparr>cb_failureCount := cb_failureCount b + 1\<rparr>)"
  using assms by (simp add: cbCall_def breaker_defs)

lemma cbCall_open:
  assumes "cb_state b = OPEN" "cb_openedAt b = Some t0"
  shows "t - t0 < resetTimeoutMs opts \<Longrightarrow> cbCall opts (t, ok) b = (False, b)"
    and "resetTimeoutMs opts \<le> t - t0 \<Longrightarrow>
      cbCall opts (t, ok) b = cbCall opts (t, ok) (b\<lparr>cb_state := HALF_OPEN, cb_successCount := 0\<rparr>)"
  using assms by (simp_all add: cbCall_def breaker_defs)

lemma cbCall_half_open:
  assumes "cb_state b = HALF_OPEN"
  shows "cbCall opts (t, False) b = (True, trip t b)"
    and "cbCall opts (t, True) b =
      (True, if successThreshold opts \<le> cb_successCount b + 1 then closeBreaker b
             else b\<lparr>cb_successCount := cb_successCount b + 1\<rparr>)"
  using assms by (simp_all add: cbCall_def breaker_defs)

lemma closed_run_of_failures:
  assumes "cb_state b = CLOSED" "cb_failureCount b + int (length ts) < failureThreshold opts"
  shows "cbCalls opts (map (\<lambda>t. (t, False)) ts) b =
    (replicate (length ts) True, b\<lparr>cb_failureCount := cb_failureCount b + int (length ts)\<rparr>)"
  using assms by (induction ts arbitrary: b) (simp_all add: cbCalls_Cons_eq cbCall_closed_failure)

lemma cbCalls_append:
  "cbCalls opts (cs @ ds) b =
     (fst (cbCalls opts cs b) @ fst (cbCalls opts ds (snd (cbCalls opts cs b))),
      snd (cbCalls opts ds (snd (cbCalls opts cs b))))"
  by (induction cs arbitrary: b) (simp_all add: cbCalls_Cons_eq)

lemma open_run_refused:
  assumes "cb_state b = OPEN" "cb_openedAt b = Some t0" "\<And>c. c \<in> set cs \<Longrightarrow> fst c - t0 < resetTimeoutMs opts"
  shows "cbCalls opts cs b = (replicate (length cs) False, b)"
  using assms
proof (induction cs)
  case (Cons c cs)
  have "cbCall opts c b = (False, b)"
    using cbCall_open(1) [OF Cons.prems(1,2), of "fst c" opts "snd c"] Cons.prems(3) by simp
  with Cons show ?case by (simp add: cbCalls_Cons_eq)
qed simp

lemma half_open_run_of_successes:
  assumes "cb_state b = HALF_OPEN" "cb_successCount b + int (length ts) < successThreshold opts"
  shows "cbCalls opts (map (\<lambda>t. (t, True)) ts) b =
    (replicate (length ts) True, b\<lparr>cb_successCount := cb_successCount b + int (length ts)\<rparr>)"
  using assms by (induction ts arbitrary: b) (simp_all add: cbCalls_Cons_eq cbCall_half_open)

lemma trip_after_failures:
  assumes "cb_state b = CLOSED" "cb_failureCount b + int (length ts) + 1 = failureThreshold opts"
  shows "cbCalls opts (map (\<lambda>t. (t, False)) (ts @ [t0])) b =
    (replicate (length ts + 1) True,
     b\<lparr>cb_failureCount := failureThreshold opts, cb_state := OPEN, cb_openedAt := Some t0, cb_successCount := 0\<rparr>)"
  using assms closed_run_of_failures [of b ts opts]
  by (simp add: cbCalls_append cbCalls_Cons_eq cbCall_closed_failure replicate_append_same)

text \<open>C18: A closed breaker that has counted no failure makes each of the next
  \<^verbatim>\<open>failureThreshold\<close> failing calls and is open after the last one, at time \<^verbatim>\<open>t0\<close>; every further
  call before \<^verbatim>\<open>t0 + resetTimeoutMs\<close>, in any number and whatever its outcome would be, is refused,
  and refusing leaves the breaker as it is. One success before the threshold starts the count again.\<close>

theorem breaker_trips_and_refuses_until_the_timeout:
  assumes "wf_options opts" "cb_state b = CLOSED" "cb_failureCount b = 0"
    and "int (length ts) + 1 = failureThreshold opts"
    and "\<And>c. c \<in> set blocked \<Longrightarrow> fst c < t0 + resetTimeoutMs opts"
  shows "\<exists>b'. cb_state b' = OPEN \<and> cb_openedAt b' = Some t0 \<and>
      cbCalls opts (map (\<lambda>t. (t, False)) (ts @ [t0])) b = (replicate (length ts + 1) True, b') \<and>
      cbCalls opts blocked b' = (replicate (length blocked) False, b') \<and>
      cbCalls opts (map (\<lambda>t. (t, False)) ts @ [(t0, True)]) b = (replicate (length ts + 1) True, b)"
proof -
  let ?b = "b\<lparr>cb_failureCount := failureThreshold opts, cb_state := OPEN, cb_openedAt := Some t0, cb_successCount := 0\<rparr>"
  have "cbCalls opts (map (\<lambda>t. (t, False)) (ts @ [t0])) b = (replicate (length ts + 1) True, ?b)"
    using trip_after_failures [of b ts opts t0] assms by simp
  moreover have "cbCalls opts blocked ?b = (replicate (length blocked) False, ?b)"
    by (rule open_run_refused [of _ t0]) (use assms(5) in \<open>auto simp: algebra_simps\<close>)
  moreover have "cbCalls opts (map (\<lambda>t. (t, False)) ts @ [(t0, True)]) b = (replicate (length ts + 1) True, b)"
    using closed_run_of_failures [of b ts opts] assms
    by (simp add: cbCalls_append cbCalls_Cons_eq cbCall_def breaker_defs replicate_append_same)
  ultimately show ?thesis by (intro exI [of _ ?b]) simp
qed

definition sampleOptions :: CircuitBreakerOptions where
  "sampleOptions = \<lparr>failureThreshold = 5, successThreshold = 2, resetTimeoutMs = 30000\<rparr>"

theorem breaker_trips_and_refuses_until_the_timeout_witness:
  "\<exists>b'. cb_state b' = OPEN \<and> cb_openedAt b' = Some 400 \<and>
      cbCalls sampleOptions (map (\<lambda>t. (t, False)) ([0, 100, 200, 300] @ [400])) (new_CircuitBreaker None) =
        (replicate (length [0, 100, 200, 300 :: int] + 1) True, b') \<and>
      cbCalls sampleOptions [(500, True), (30399, True)] b' = (replicate (length [(500 :: int, True), (30399, True)]) False, b') \<and>
      cbCalls sampleOptions (map (\<lambda>t. (t, False)) [0, 100, 200, 300] @ [(400, True)]) (new_CircuitBreaker None) =
        (replicate (length [0, 100, 200, 300 :: int] + 1) True, new_CircuitBreaker None)"
  by (rule breaker_trips_and_refuses_until_the_timeout)
     (auto simp: sampleOptions_def wf_options_def new_CircuitBreaker_def)

text \<open>Once the reset timeout has passed the breaker lets probes through. With fewer than
  \<^verbatim>\<open>successThreshold\<close> successful probes it stays half open: one failing probe at time \<^verbatim>\<open>t1\<close> opens it
  again for a whole timeout counted from \<^verbatim>\<open>t1\<close>, while the last missing success closes it with all
  counters at zero, exactly as a new breaker.\<close>

theorem probes_close_the_breaker_or_reopen_it:
  assumes "cb_state b = OPEN" "cb_openedAt b = Some t0"
    and "t0 + resetTimeoutMs opts \<le> t" "int (length ts) + 2 = successThreshold opts"
    and "t2 < t1 + resetTimeoutMs opts"
  shows "cbCalls opts (map (\<lambda>t. (t, True)) (t # ts) @ [(t1, True)]) b =
      (replicate (length ts + 2) True, new_CircuitBreaker None)
    \<and> (\<exists>b'. cbCalls opts (map (\<lambda>t. (t, True)) (t # ts) @ [(t1, False), (t2, ok)]) b =
          (replicate (length ts + 2) True @ [False], b') \<and> cb_state b' = OPEN \<and> cb_openedAt b' = Some t1)"
proof -
  let ?h = "b\<lparr>cb_state := HALF_OPEN, cb_successCount := 1\<rparr>"
  let ?h' = "b\<lparr>cb_state := HALF_OPEN, cb_successCount := 1 + int (length ts)\<rparr>"
  have first: "cbCall opts (t, True) b = (True, ?h)"
    using assms(3,4) cbCall_open(2) [OF assms(1,2), of opts t True] by (simp add: cbCall_half_open algebra_simps)
  have probes: "cbCalls opts (map (\<lambda>t. (t, True)) (t # ts)) b = (replicate (length ts + 1) True, ?h')"
    using half_open_run_of_successes [of ?h ts opts] assms(4) by (simp add: cbCalls_Cons_eq first)
  have closes: "cbCall opts (t1, True) ?h' = (True, new_CircuitBreaker None)"
    using assms(4) by (simp add: cbCall_half_open closeBreaker_def new_CircuitBreaker_def)
  have opens: "cbCall opts (t1, False) ?h' = (True, trip t1 ?h')"
    by (simp add: cbCall_half_open)
  have refused: "cbCall opts (t2, ok) (trip t1 ?h') = (False, trip t1 ?h')"
    using assms(5) by (intro cbCall_open(1) [of _ t1]) (simp_all add: trip_def)
  have "cb_state (trip t1 ?h') = OPEN" "cb_openedAt (trip t1 ?h') = Some t1"
    by (simp_all add: trip_def)
  then show ?thesis
    by (simp only: cbCalls_append probes fst_conv snd_conv)
      (simp add: cbCalls_Cons_eq closes opens refused replicate_append_same)
qed

theorem probes_close_the_breaker_or_reopen_it_witness:
  "cbCalls sampleOptions (map (\<lambda>t. (t, True)) (30400 # []) @ [(30500, True)]) (trip 400 (new_CircuitBreaker None)) =
      (replicate (length ([] :: int list) + 2) True, new_CircuitBreaker None)
    \<and> (\<exists>b'. cbCalls sampleOptions (map (\<lambda>t. (t, True)) (30400 # []) @ [(30500, False), (40000, True)])
            (trip 400 (new_CircuitBreaker None)) =
          (replicate (length ([] :: int list) + 2) True @ [False], b') \<and> cb_state b' = OPEN \<and> cb_openedAt b' = Some 30500)"
  by (rule probes_close_the_breaker_or_reopen_it [of _ 400])
     (simp_all add: sampleOptions_def trip_def)

end
