(* ===== verification/Connector_Rate_Limit.thy ===== *)
theory Connector_Rate_Limit
  imports Keyed_Store
begin

text \<open>
  Rate limiting of connector calls: the fixed-window counter
  (\<^verbatim>\<open>src/modules/connectors/domain/connector-rate-limit.entity.ts\<close>), its rows
  (\<^verbatim>\<open>drizzle-connector.repository.ts\<close>, \<^verbatim>\<open>getRateLimit\<close> and \<^verbatim>\<open>upsertRateLimit\<close>) and the Lua script that
  \<^verbatim>\<open>ExecutionEngine.checkRateLimit\<close> runs in Redis. The record has the private properties of the
  entity; a getter with a default (\<^verbatim>\<open>this.props.maxRequests || 1000\<close>) is a definition of its own,
  because a stored zero reads as the default. The column \<^verbatim>\<open>version\<close> is left out: no operation
  changes it. A Redis counter is its value with the time it expires.
\<close>

subsection \<open>The fixed window\<close>

record ConnectorRateLimit =
  rl_id :: uid
  rl_tenantId :: uid
  rl_connectorId :: uid
  rl_instanceId :: "uid option"
  rl_windowSeconds :: int
  rl_maxRequests :: int
  rl_currentUsage :: int
  rl_resetAt :: millis
  rl_createdAt :: millis
  rl_updatedAt :: millis

definition orElse :: "int \<Rightarrow> int \<Rightarrow> int" where
  "orElse n d = (if n = 0 then d else n)"

definition windowSeconds :: "ConnectorRateLimit \<Rightarrow> int" where
  "windowSeconds l = orElse (rl_windowSeconds l) 60"

definition maxRequests :: "ConnectorRateLimit \<Rightarrow> int" where
  "maxRequests l = orElse (rl_maxRequests l) 1000"

definition rollWindowIfNeeded :: "millis \<Rightarrow> ConnectorRateLimit \<Rightarrow> ConnectorRateLimit" where
  "rollWindowIfNeeded now l =
     (if rl_resetAt l \<le> now
      then l\<lparr>rl_currentUsage := 0, rl_resetAt := now + windowSeconds l * 1000\<rparr> else l)"

definition isLimited :: "millis \<Rightarrow> ConnectorRateLimit \<Rightarrow> bool \<times> ConnectorRateLimit" where
  "isLimited now l = (let l' = rollWindowIfNeeded now l in (maxRequests l' \<le> rl_currentUsage l', l'))"

definition consume :: "millis \<Rightarrow> ConnectorRateLimit \<Rightarrow> bool \<times> ConnectorRateLimit" where
  "consume now l =
     (let l' = rollWindowIfNeeded now l
      in if maxRequests l' \<le> rl_currentUsage l' then (False, l')
         else (True, l'\<lparr>rl_currentUsage := rl_currentUsage l' + 1, rl_updatedAt := now\<rparr>))"

definition resetLimit :: "millis \<Rightarrow> ConnectorRateLimit \<Rightarrow> ConnectorRateLimit" where
  "resetLimit now l = l\<lparr>rl_currentUsage := 0, rl_resetAt := now + windowSeconds l * 1000, rl_updatedAt := now\<rparr>"

definition increment :: "millis \<Rightarrow> ConnectorRateLimit \<Rightarrow> ConnectorRateLimit" where
  "increment now l = l\<lparr>rl_currentUsage := rl_currentUsage l + 1, rl_updatedAt := now\<rparr>"

definition updateUsage :: "millis \<Rightarrow> int \<Rightarrow> ConnectorRateLimit \<Rightarrow> ConnectorRateLimit" where
  "updateUsage now n l = l\<lparr>rl_currentUsage := n, rl_updatedAt := now\<rparr>"

definition configure :: "millis \<Rightarrow> int \<Rightarrow> int \<Rightarrow> ConnectorRateLimit \<Rightarrow> ConnectorRateLimit" where
  "configure now mx window l = l\<lparr>rl_maxRequests := mx, rl_windowSeconds := window, rl_updatedAt := now\<rparr>"

subsection \<open>Rows\<close>

text \<open>\<^verbatim>\<open>rateLimitToDomain\<close> and the constructor: zero columns read as the defaults.\<close>

definition rateLimitToDomain :: "ConnectorRateLimit \<Rightarrow> ConnectorRateLimit" where
  "rateLimitToDomain r = r\<lparr>rl_windowSeconds := windowSeconds r, rl_maxRequests := maxRequests r\<rparr>"

definition sameLimit :: "uid \<Rightarrow> uid \<Rightarrow> ConnectorRateLimit \<Rightarrow> bool" where
  "sameLimit tenantId connectorId r = (rl_tenantId r = tenantId \<and> rl_connectorId r = connectorId)"

definition getRateLimit :: "uid \<Rightarrow> uid \<Rightarrow> ConnectorRateLimit list \<Rightarrow> ConnectorRateLimit option" where
  "getRateLimit tenantId connectorId rows =
     map_option rateLimitToDomain (List.find (sameLimit tenantId connectorId) rows)"

definition upsertRateLimit :: "millis \<Rightarrow> ConnectorRateLimit \<Rightarrow> uid \<Rightarrow> ConnectorRateLimit list \<Rightarrow> ConnectorRateLimit list" where
  "upsertRateLimit now l tenantId rows =
     (let cols = (\<lambda>r. r\<lparr>rl_windowSeconds := windowSeconds l, rl_maxRequests := maxRequests l,
                        rl_currentUsage := rl_currentUsage l, rl_resetAt := rl_resetAt l, rl_updatedAt := now\<rparr>);
          same = sameLimit tenantId (rl_connectorId l)
      in if list_ex same rows then map (\<lambda>r. if same r then cols r else r) rows
         else rows @ [cols (l\<lparr>rl_tenantId := tenantId\<rparr>)])"

text \<open>What a write controls of a row.\<close>

definition limitColumns :: "ConnectorRateLimit \<Rightarrow> int \<times> int \<times> int \<times> millis" where
  "limitColumns l = (windowSeconds l, maxRequests l, rl_currentUsage l, rl_resetAt l)"

lemma orElse_idem [simp]: "d \<noteq> 0 \<Longrightarrow> orElse (orElse n d) d = orElse n d"
  by (simp add: orElse_def)

lemma limitColumns_toDomain [simp]: "limitColumns (rateLimitToDomain r) = limitColumns r"
  by (simp add: limitColumns_def rateLimitToDomain_def windowSeconds_def maxRequests_def)

interpretation rate_limits:
  keyed_store "\<lambda>k. getRateLimit (fst k) (snd k)" "\<lambda>l. upsertRateLimit now l (rl_tenantId l)"
    "\<lambda>l. (rl_tenantId l, rl_connectorId l)" limitColumns
proof unfold_locales
  fix l :: ConnectorRateLimit and rows
  let ?same = "sameLimit (rl_tenantId l) (rl_connectorId l)"
  let ?cols = "\<lambda>r. r\<lparr>rl_windowSeconds := windowSeconds l, rl_maxRequests := maxRequests l,
    rl_currentUsage := rl_currentUsage l, rl_resetAt := rl_resetAt l, rl_updatedAt := now\<rparr>"
  have cols: "limitColumns (?cols r) = limitColumns l" for r
    by (simp add: limitColumns_def windowSeconds_def maxRequests_def)
  have same: "?same r \<Longrightarrow> ?same (?cols r)" for r by (simp add: sameLimit_def)
  show "map_option limitColumns (getRateLimit (fst (rl_tenantId l, rl_connectorId l)) (snd (rl_tenantId l, rl_connectorId l))
      (upsertRateLimit now l (rl_tenantId l) rows)) = Some (limitColumns l)"
  proof (cases "list_ex ?same rows")
    case True
    then obtain r where "List.find ?same rows = Some r" using list_ex_find by blast
    then show ?thesis
      using True find_map_upd [of ?same ?cols rows, OF same]
      by (simp add: upsertRateLimit_def getRateLimit_def Let_def cols option.map_comp comp_def)
  next
    case False
    have new: "?same (?cols (l\<lparr>rl_tenantId := rl_tenantId l\<rparr>))" by (simp add: sameLimit_def)
    from False show ?thesis
      using find_append_new [OF False, of "?cols (l\<lparr>rl_tenantId := rl_tenantId l\<rparr>)"] new
      by (simp add: upsertRateLimit_def getRateLimit_def Let_def)
        (simp add: limitColumns_def windowSeconds_def maxRequests_def)
  qed
next
  fix k and l :: ConnectorRateLimit and rows
  assume "k \<noteq> (rl_tenantId l, rl_connectorId l)"
  then have other: "\<not> (rl_tenantId l = fst k \<and> rl_connectorId l = snd k)" by (cases k) auto
  show "getRateLimit (fst k) (snd k) (upsertRateLimit now l (rl_tenantId l) rows) = getRateLimit (fst k) (snd k) rows"
    unfolding upsertRateLimit_def getRateLimit_def Let_def
    using other
    by (auto intro!: arg_cong [where f = "map_option rateLimitToDomain"] find_map_other find_append_other
        simp: sameLimit_def)
qed

subsection \<open>The script in Redis\<close>

type_synonym counters = "string \<rightharpoonup> int \<times> millis"

definition liveCounter :: "millis \<Rightarrow> string \<Rightarrow> counters \<Rightarrow> int option" where
  "liveCounter now key cs =
     (case cs key of None \<Rightarrow> None | Some (n, expiresAt) \<Rightarrow> if now < expiresAt then Some n else None)"

text \<open>The reply of \<^verbatim>\<open>redis.eval\<close>: \<^verbatim>\<open>set ... 'EX'\<close> is an error for a time that is not positive.\<close>

definition rateScript :: "millis \<Rightarrow> string \<Rightarrow> int \<Rightarrow> int \<Rightarrow> counters \<Rightarrow> (exn + int) \<times> counters" where
  "rateScript now key mx window cs =
     (case liveCounter now key cs of
        Some current \<Rightarrow>
          if mx \<le> current then (Inr current, cs)
          else (Inr (current + 1), cs(key \<mapsto> (current + 1, snd (the (cs key)))))
      | None \<Rightarrow>
          if window \<le> 0 then (Inl (Error ''ERR invalid expire time in set''), cs)
          else (Inr 1, cs(key \<mapsto> (1, now + window * 1000))))"

subsection \<open>What the window guarantees\<close>

definition wf_limit :: "ConnectorRateLimit \<Rightarrow> bool" where
  "wf_limit l \<longleftrightarrow> 0 \<le> rl_currentUsage l \<and> rl_currentUsage l \<le> maxRequests l"

lemma consume_in_window:
  assumes "t < rl_resetAt l"
  shows "consume t l = (if maxRequests l \<le> rl_currentUsage l then (False, l)
                        else (True, l\<lparr>rl_currentUsage := rl_currentUsage l + 1, rl_updatedAt := t\<rparr>))"
  using assms by (simp add: consume_def rollWindowIfNeeded_def)

lemma maxRequests_consume [simp]: "maxRequests (snd (consume t l)) = maxRequests l"
  by (simp add: consume_def rollWindowIfNeeded_def Let_def maxRequests_def)

lemma wf_consume [wf_intros]: "0 \<le> maxRequests l \<Longrightarrow> wf_limit l \<Longrightarrow> wf_limit (snd (consume t l))"
  by (auto simp: wf_limit_def consume_def rollWindowIfNeeded_def Let_def maxRequests_def)

end
