(* ===== verification/Js_Values.thy ===== *)
theory Js_Values
  imports Prelude Complex_Main
begin

text \<open>
  The parts of the JavaScript runtime that several modules use on values: \<^verbatim>\<open>String\<close>, \<^verbatim>\<open>JSON.stringify\<close>, \<^verbatim>\<open>Number\<close>,
  truthiness, the search for a substring and the reading of a property. A value that may be \<^verbatim>\<open>undefined\<close> is a
  \<open>json option\<close>. \<^verbatim>\<open>Number\<close> of a text is its exact decimal value: the rounding of a literal with more
  than fifteen digits to a double is left out.
\<close>

subsection \<open>Strings of values\<close>

definition showInt :: "int \<Rightarrow> string" where
  "showInt i = (if i < 0 then CHR ''-'' # showNat (nat (- i)) else showNat (nat i))"

fun joinWith :: "string \<Rightarrow> string list \<Rightarrow> string" where
  "joinWith sep [] = []"
| "joinWith sep [s] = s"
| "joinWith sep (s # ss) = s @ sep @ joinWith sep ss"

definition hexDigit :: "nat \<Rightarrow> char" where
  "hexDigit n = (if n < 10 then char_of (n + 48) else char_of (n + 87))"

definition jsonChar :: "char \<Rightarrow> string" where
  "jsonChar c =
     (let n = (of_char c :: nat); bs = char_of (92 :: nat)
      in if n = 34 \<or> n = 92 then [bs, c]
         else if n = 8 then [bs, CHR ''b''] else if n = 9 then [bs, CHR ''t'']
         else if n = 10 then [bs, CHR ''n''] else if n = 12 then [bs, CHR ''f'']
         else if n = 13 then [bs, CHR ''r'']
         else if n < 32 then [bs, CHR ''u'', CHR ''0'', CHR ''0'', hexDigit (n div 16), hexDigit (n mod 16)]
         else [c])"

definition jsonString :: "string \<Rightarrow> string" where
  "jsonString s = (let q = char_of (34 :: nat) in q # concat (map jsonChar s) @ [q])"

fun jsonStringify :: "json \<Rightarrow> string" where
  "jsonStringify JNull = ''null''"
| "jsonStringify (JBool b) = (if b then ''true'' else ''false'')"
| "jsonStringify (JNum n) = showInt n"
| "jsonStringify (JStr s) = jsonString s"
| "jsonStringify (JArr js) = ''['' @ joinWith '','' (map jsonStringify js) @ '']''"
| "jsonStringify (JObj fs) =
     CHR ''{'' # joinWith '','' (map (\<lambda>f. jsonString (fst f) @ '':'' @ jsonStringify (snd f)) fs) @ [CHR ''}'']"

text \<open>\<^verbatim>\<open>String(value)\<close>: an array is its elements joined by commas, with nothing for null.\<close>

fun stringOf :: "json \<Rightarrow> string" where
  "stringOf JNull = ''null''"
| "stringOf (JBool b) = (if b then ''true'' else ''false'')"
| "stringOf (JNum n) = showInt n"
| "stringOf (JStr s) = s"
| "stringOf (JArr js) = joinWith '','' (map (\<lambda>j. if j = JNull then [] else stringOf j) js)"
| "stringOf (JObj _) = ''[object Object]''"

fun truthyJson :: "json \<Rightarrow> bool" where
  "truthyJson JNull = False"
| "truthyJson (JBool b) = b"
| "truthyJson (JNum n) = (n \<noteq> 0)"
| "truthyJson (JStr s) = (s \<noteq> [])"
| "truthyJson _ = True"

subsection \<open>Substrings\<close>

fun startsWith :: "string \<Rightarrow> string \<Rightarrow> bool" where
  "startsWith [] s = True"
| "startsWith (p # ps) [] = False"
| "startsWith (p # ps) (c # cs) = (p = c \<and> startsWith ps cs)"

fun includesText :: "string \<Rightarrow> string \<Rightarrow> bool" where
  "includesText pat [] = (pat = [])"
| "includesText pat (c # cs) = (startsWith pat (c # cs) \<or> includesText pat cs)"

lemma startsWith_append: "startsWith p (p @ s)"
  by (induction p) auto

lemma startsWith_iff: "startsWith p s \<longleftrightarrow> (\<exists>t. s = p @ t)"
  by (induction p s rule: startsWith.induct) auto

lemma includesText_iff: "includesText p s \<longleftrightarrow> (\<exists>u v. s = u @ p @ v)"
proof (induction s)
  case (Cons c s)
  note IH = Cons.IH
  show ?case
  proof
    assume "includesText p (c # s)"
    then consider "startsWith p (c # s)" | "includesText p s" by auto
    then show "\<exists>u v. c # s = u @ p @ v"
    proof cases
      case 1
      then show ?thesis by (metis append_Nil startsWith_iff)
    next
      case 2
      with Cons.IH show ?thesis by (metis append_Cons)
    qed
  next
    assume "\<exists>u v. c # s = u @ p @ v"
    then obtain u v where eq: "c # s = u @ p @ v" by blast
    show "includesText p (c # s)"
    proof (cases u)
      case Nil
      with eq have "startsWith p (c # s)" by (metis append_Nil startsWith_iff)
      then show ?thesis by simp
    next
      case (Cons a u')
      with eq have "s = u' @ p @ v" by simp
      then show ?thesis using IH by auto
    qed
  qed
qed auto

subsection \<open>Replacement patterns\<close>

text \<open>The replacement of one match by \<^verbatim>\<open>String.prototype.replace\<close>: \<^verbatim>\<open>$$\<close>, \<^verbatim>\<open>$&\<close>, and the text before and after the match.\<close>

fun expandReplacement :: "string \<Rightarrow> string \<Rightarrow> string \<Rightarrow> string \<Rightarrow> string" where
  "expandReplacement matched pre post (d # c # r) =
     (if d = CHR ''$'' then
        (if c = CHR ''$'' then CHR ''$'' # expandReplacement matched pre post r
         else if c = CHR ''&'' then matched @ expandReplacement matched pre post r
         else if (of_char c :: nat) = 96 then pre @ expandReplacement matched pre post r
         else if (of_char c :: nat) = 39 then post @ expandReplacement matched pre post r
         else d # expandReplacement matched pre post (c # r))
      else d # expandReplacement matched pre post (c # r))"
| "expandReplacement matched pre post r = r"

text \<open>\<^verbatim>\<open>resolved.replace(regex, String(value))\<close> with the global flag: matches do not overlap, and the
  replaced text is not searched again.\<close>

function replaceFrom :: "string \<Rightarrow> string \<Rightarrow> string \<Rightarrow> string \<Rightarrow> string" where
  "replaceFrom pat rep pre s =
     (if s = [] then []
      else if pat \<noteq> [] \<and> startsWith pat s
      then expandReplacement pat pre (drop (length pat) s) rep @
             replaceFrom pat rep (pre @ pat) (drop (length pat) s)
      else hd s # replaceFrom pat rep (pre @ [hd s]) (tl s))"
  by pat_completeness auto
termination by (relation "measure (\<lambda>(pat, rep, pre, s). length s)") auto

declare replaceFrom.simps [simp del]

definition replaceAll :: "string \<Rightarrow> string \<Rightarrow> string \<Rightarrow> string" where
  "replaceAll pat rep s = replaceFrom pat rep [] s"

subsection \<open>Defaults\<close>

text \<open>\<^verbatim>\<open>a || b\<close> on optional strings, and a value inside a template literal.\<close>

definition orS :: "string option \<Rightarrow> string option \<Rightarrow> string option" where
  "orS a b = (if truthy a then a else b)"

definition inTemplate :: "string option \<Rightarrow> string" where
  "inTemplate s = (case s of None \<Rightarrow> ''undefined'' | Some t \<Rightarrow> t)"

subsection \<open>Undefined, lower case, numbers\<close>

definition jsString :: "json option \<Rightarrow> string" where
  "jsString v = (case v of None \<Rightarrow> ''undefined'' | Some j \<Rightarrow> stringOf j)"

definition truthyJs :: "json option \<Rightarrow> bool" where
  "truthyJs v = (case v of None \<Rightarrow> False | Some j \<Rightarrow> truthyJson j)"

definition orJs :: "json option \<Rightarrow> json option \<Rightarrow> json option" where
  "orJs a b = (if truthyJs a then a else b)"

definition lowChar :: "char \<Rightarrow> char" where
  "lowChar c = (if 65 \<le> (of_char c :: nat) \<and> (of_char c :: nat) \<le> 90
               then char_of ((of_char c :: nat) + 32) else c)"

definition toLowerCase :: "string \<Rightarrow> string" where
  "toLowerCase s = map lowChar s"

datatype jsnum = NaN | NegInf | PosInf | Fin rat

definition isDigitChar :: "char \<Rightarrow> bool" where
  "isDigitChar c = (48 \<le> (of_char c :: nat) \<and> (of_char c :: nat) \<le> 57)"

text \<open>The exponent part of a decimal literal, and the literal without its sign.\<close>

definition parseExponent :: "string \<Rightarrow> rat option" where
  "parseExponent s =
     (let (neg, ds) = (case s of c # r \<Rightarrow> if c = CHR ''-'' then (True, r) else if c = CHR ''+'' then (False, r) else (False, s)
                       | [] \<Rightarrow> (False, []))
      in if ds \<noteq> [] \<and> list_all isDigitChar ds
         then Some (if neg then 1 / 10 ^ readNat ds else 10 ^ readNat ds) else None)"

definition parseDecimal :: "string \<Rightarrow> rat option" where
  "parseDecimal s =
     (let ip = takeWhile isDigitChar s; r1 = dropWhile isDigitChar s;
          (fp, r2) = (case r1 of c # r \<Rightarrow> if c = CHR ''.'' then (takeWhile isDigitChar r, dropWhile isDigitChar r) else ([], r1)
                      | [] \<Rightarrow> ([], []));
          mant = of_nat (readNat ip) + of_nat (readNat fp) / 10 ^ length fp
      in if ip = [] \<and> fp = [] then None
         else case r2 of
                [] \<Rightarrow> Some mant
              | c # r \<Rightarrow> if c = CHR ''e'' \<or> c = CHR ''E'' then map_option ((*) mant) (parseExponent r) else None)"

definition digitOfBase :: "nat \<Rightarrow> char \<Rightarrow> nat option" where
  "digitOfBase b c =
     (let n = (of_char c :: nat);
          d = (if 48 \<le> n \<and> n \<le> 57 then n - 48 else if 97 \<le> n \<and> n \<le> 102 then n - 87
               else if 65 \<le> n \<and> n \<le> 70 then n - 55 else 99)
      in if d < b then Some d else None)"

fun parseBase :: "nat \<Rightarrow> nat \<Rightarrow> string \<Rightarrow> nat option" where
  "parseBase b acc [] = Some acc"
| "parseBase b acc (c # cs) = (case digitOfBase b c of None \<Rightarrow> None | Some d \<Rightarrow> parseBase b (acc * b + d) cs)"

definition prefixedNumber :: "string \<Rightarrow> jsnum option" where
  "prefixedNumber t =
     (case t of
        z # x # ds \<Rightarrow>
          if z = CHR ''0'' \<and> x \<in> set ''xXoObB''
          then let b = (if x \<in> set ''xX'' then 16 else if x \<in> set ''oO'' then 8 else 2)
               in Some (case (if ds = [] then None else parseBase b 0 ds) of None \<Rightarrow> NaN | Some n \<Rightarrow> Fin (of_nat n))
          else None
      | _ \<Rightarrow> None)"

definition stringToNumber :: "string \<Rightarrow> jsnum" where
  "stringToNumber s =
     (let t = trim s
      in if t = [] then Fin 0
         else case prefixedNumber t of
                Some n \<Rightarrow> n
              | None \<Rightarrow>
                  let (neg, u) = (if hd t = CHR ''-'' then (True, tl t) else if hd t = CHR ''+'' then (False, tl t) else (False, t))
                  in if u = ''Infinity'' then (if neg then NegInf else PosInf)
                     else case parseDecimal u of None \<Rightarrow> NaN | Some q \<Rightarrow> Fin (if neg then - q else q))"

fun numberOf :: "json \<Rightarrow> jsnum" where
  "numberOf JNull = Fin 0"
| "numberOf (JBool b) = Fin (if b then 1 else 0)"
| "numberOf (JNum n) = Fin (of_int n)"
| "numberOf (JStr s) = stringToNumber s"
| "numberOf (JArr js) = stringToNumber (stringOf (JArr js))"
| "numberOf (JObj _) = NaN"

definition jsNumber :: "json option \<Rightarrow> jsnum" where
  "jsNumber v = (case v of None \<Rightarrow> NaN | Some j \<Rightarrow> numberOf j)"

text \<open>\<^verbatim>\<open>a < b\<close> and \<^verbatim>\<open>a <= b\<close>: false whenever one side is not a number.\<close>

fun jsLess :: "jsnum \<Rightarrow> jsnum \<Rightarrow> bool" where
  "jsLess NaN _ = False"
| "jsLess _ NaN = False"
| "jsLess (Fin a) (Fin b) = (a < b)"
| "jsLess NegInf b = (b \<noteq> NegInf)"
| "jsLess a PosInf = (a \<noteq> PosInf)"
| "jsLess _ _ = False"

definition jsLeq :: "jsnum \<Rightarrow> jsnum \<Rightarrow> bool" where
  "jsLeq a b = (a \<noteq> NaN \<and> b \<noteq> NaN \<and> \<not> jsLess b a)"

lemma jsLess_NaN [simp]: "\<not> jsLess a NaN" by (cases a) auto

subsection \<open>Properties of values\<close>

text \<open>\<^verbatim>\<open>v[part]\<close> for the own properties of objects, arrays and strings.\<close>

definition arrayIndex :: "string \<Rightarrow> nat option" where
  "arrayIndex part = (if part \<noteq> [] \<and> list_all isDigitChar part \<and> showNat (readNat part) = part then Some (readNat part) else None)"

fun propertyOf :: "json \<Rightarrow> string \<Rightarrow> json option" where
  "propertyOf (JObj fs) k = map_of fs k"
| "propertyOf (JArr js) k =
     (if k = ''length'' then Some (JNum (int (length js)))
      else case arrayIndex k of None \<Rightarrow> None | Some i \<Rightarrow> if i < length js then Some (js ! i) else None)"
| "propertyOf (JStr s) k =
     (if k = ''length'' then Some (JNum (int (length s)))
      else case arrayIndex k of None \<Rightarrow> None | Some i \<Rightarrow> if i < length s then Some (JStr [s ! i]) else None)"
| "propertyOf _ k = None"

fun splitOn :: "char \<Rightarrow> string \<Rightarrow> string list" where
  "splitOn d [] = [[]]"
| "splitOn d (c # cs) =
     (if c = d then [] # splitOn d cs
      else (case splitOn d cs of [] \<Rightarrow> [[c]] | p # ps \<Rightarrow> (c # p) # ps))"

end
