(* ===== verification/Connector_Request.thy ===== *)
theory Connector_Request
  imports Js_Values
begin

text \<open>
  How the connector engine builds an outgoing request
  (\<^verbatim>\<open>src/modules/connectors/engine/connector-factory.ts\<close>) and the value objects it needs.
  A parameter object is the list of its entries in the order of \<^verbatim>\<open>Object.entries\<close>;
  \<^verbatim>\<open>resolveUrlTemplates\<close> deletes the entries it consumes from the caller's object, so it returns the
  object it leaves. The search for \<^verbatim>\<open>{key}\<close> is a regular expression in the code; the definition
  matches it literally, which is what the expression means for the keys \<open>plainKey\<close> describes.
  The replacement text follows \<^verbatim>\<open>String.prototype.replace\<close>, dollar patterns included.
  Of the connector's configuration object the keys the engine reads are kept, at the types it
  expects. HMAC and Base64 are functions of the runtime and arguments here.
\<close>

datatype ConnectorTypeEnum =
    REST_API | GRAPHQL | WEBHOOK | SHOPIFY | WOOCOMMERCE | MAGENTO | HUBSPOT | SALESFORCE | ZOHO | JIRA | CUSTOM

datatype AuthTypeEnum = NONE | API_KEY | BEARER | BASIC | OAUTH2 | HMAC

type_synonym obj = "(string \<times> json) list"

record ConnectorConfig =
  cf_graphqlQuery :: "string option"
  cf_apiVersion :: "string option"
  cf_timeout :: "int option"
  cf_maxRetries :: "int option"

text \<open>A decrypted credential: the fields of a JSON object, or a text that is not JSON.\<close>

datatype secret = SecretFields "string \<rightharpoonup> string" | SecretText string

fun secretField :: "secret \<Rightarrow> string \<Rightarrow> string option" where
  "secretField (SecretFields m) k = m k"
| "secretField (SecretText _) k = None"

fun truthySecret :: "secret \<Rightarrow> bool" where
  "truthySecret (SecretFields _) = True"
| "truthySecret (SecretText t) = (t \<noteq> [])"

subsection \<open>URL templates\<close>

definition plainKey :: "string \<Rightarrow> bool" where
  "plainKey k =
     (let letter = (\<lambda>c. let n = (of_char c :: nat) in 65 \<le> n \<and> n \<le> 90 \<or> 97 \<le> n \<and> n \<le> 122 \<or> n = 95);
          digit = (\<lambda>c. let n = (of_char c :: nat) in 48 \<le> n \<and> n \<le> 57)
      in k \<noteq> [] \<and> letter (hd k) \<and> list_all (\<lambda>c. letter c \<or> digit c) k)"

definition placeholder :: "string \<Rightarrow> string" where
  "placeholder key = CHR ''{'' # key @ [CHR ''}'']"

definition deleteKey :: "string \<Rightarrow> obj \<Rightarrow> obj" where
  "deleteKey k params = filter (\<lambda>e. fst e \<noteq> k) params"

fun resolveEntries :: "obj \<Rightarrow> string \<Rightarrow> obj \<Rightarrow> string \<times> obj" where
  "resolveEntries [] resolved params = (resolved, params)"
| "resolveEntries ((key, v) # es) resolved params =
     (if includesText (placeholder key) resolved
      then resolveEntries es (replaceAll (placeholder key) (stringOf v) resolved) (deleteKey key params)
      else resolveEntries es resolved params)"

definition resolveUrlTemplates :: "string \<Rightarrow> obj \<Rightarrow> string \<times> obj" where
  "resolveUrlTemplates template params = resolveEntries params template params"

subsection \<open>Authentication\<close>

record Crypto =
  cr_hmacSha256Hex :: "string \<Rightarrow> string \<Rightarrow> string"
  cr_base64 :: "string \<Rightarrow> string"

fun setKey :: "string \<Rightarrow> 'v \<Rightarrow> (string \<times> 'v) list \<Rightarrow> (string \<times> 'v) list" where
  "setKey k v [] = [(k, v)]"
| "setKey k v (e # es) = (if fst e = k then (k, v) # es else e # setKey k v es)"

definition calculateHmac :: "Crypto \<Rightarrow> string option \<Rightarrow> obj \<Rightarrow> exn + string" where
  "calculateHmac cr secret d =
     (case secret of None \<Rightarrow> Inl TypeError | Some s \<Rightarrow> Inr (cr_hmacSha256Hex cr s (jsonStringify (JObj d))))"

text \<open>An undefined API key sets a property that neither the query string nor the stored payload
  shows, so it is not entered.\<close>

definition applyAuth :: "Crypto \<Rightarrow> (string \<times> string) list \<Rightarrow> obj \<Rightarrow> AuthTypeEnum \<Rightarrow> secret option
    \<Rightarrow> exn + (string \<times> string) list \<times> obj" where
  "applyAuth cr headers queryParams authType d =
     (case d of
        None \<Rightarrow> Inr (headers, queryParams)
      | Some sec \<Rightarrow>
          if \<not> truthySecret sec then Inr (headers, queryParams)
          else let f = secretField sec in
            case authType of
              NONE \<Rightarrow> Inr (headers, queryParams)
            | API_KEY \<Rightarrow>
                (let headerName = inTemplate (orS (f ''headerName'') (Some ''x-api-key''));
                     apiKey = orS (f ''apiKey'') (f ''apiKeyValue'')
                 in case apiKey of
                      None \<Rightarrow> Inr (headers, queryParams)
                    | Some k \<Rightarrow> if f ''in'' = Some ''query''
                                then Inr (headers, setKey headerName (JStr k) queryParams)
                                else Inr (setKey headerName k headers, queryParams))
            | BEARER \<Rightarrow>
                Inr (setKey ''Authorization'' (''Bearer '' @ inTemplate (orS (f ''token'') (f ''accessToken''))) headers,
                     queryParams)
            | BASIC \<Rightarrow>
                Inr (setKey ''Authorization''
                       (''Basic '' @ cr_base64 cr (inTemplate (orS (f ''username'') (Some [])) @ '':'' @
                          inTemplate (orS (f ''password'') (Some [])))) headers, queryParams)
            | OAUTH2 \<Rightarrow>
                Inr (setKey ''Authorization'' (''Bearer '' @ inTemplate (f ''accessToken'')) headers, queryParams)
            | HMAC \<Rightarrow>
                rbind (calculateHmac cr (orS (f ''clientSecret'') (f ''secret'')) queryParams)
                  (\<lambda>sig. Inr (setKey (inTemplate (orS (f ''signatureHeader'') (Some ''x-signature''))) sig headers, queryParams)))"

subsection \<open>The request\<close>

record AxiosRequestConfig =
  ax_method :: string
  ax_url :: string
  ax_headers :: "(string \<times> string) list"
  ax_params :: "obj option"
  ax_data :: "obj option"
  ax_timeout :: int

definition stripTrailingSlash :: "string \<Rightarrow> string" where
  "stripTrailingSlash s = (if s \<noteq> [] \<and> last s = CHR ''/'' then butlast s else s)"

definition stripLeadingSlash :: "string \<Rightarrow> string" where
  "stripLeadingSlash s = (if s \<noteq> [] \<and> hd s = CHR ''/'' then tl s else s)"

text \<open>The URL of the adjusted connector types is built again from the templates, with whatever the
  first pass left of the parameters.\<close>

definition versionedUrl :: "string \<Rightarrow> string \<Rightarrow> string \<Rightarrow> string \<Rightarrow> string \<Rightarrow> obj \<Rightarrow> string \<times> obj" where
  "versionedUrl marker apiVersion baseUrl path resolved params =
     (if includesText marker resolved then (resolved, params)
      else resolveUrlTemplates (stripTrailingSlash baseUrl @ marker @ apiVersion @ ''/'' @ stripLeadingSlash path) params)"

definition prepareRequest :: "Crypto \<Rightarrow> ConnectorTypeEnum \<Rightarrow> string \<Rightarrow> string \<Rightarrow> string \<Rightarrow> obj
    \<Rightarrow> AuthTypeEnum \<Rightarrow> secret option \<Rightarrow> ConnectorConfig \<Rightarrow> exn + AxiosRequestConfig \<times> obj" where
  "prepareRequest cr connectorType baseUrl method path params authType authData config =
     (let (resolved, params1) = resolveUrlTemplates (stripTrailingSlash baseUrl @ ''/'' @ stripLeadingSlash path) params;
          bodyMethod = toUpperCase method \<in> {''POST'', ''PUT'', ''PATCH'', ''DELETE''};
          headers = [(''Content-Type'', ''application/json''), (''Accept'', ''application/json'')]
      in rbind (applyAuth cr headers (if bodyMethod then [] else params1) authType authData) (\<lambda>(headers, queryParams).
        let requestData = (if connectorType = GRAPHQL
                           then Some [(''query'', JStr (inTemplate (orS (cf_graphqlQuery config) (Some [])))), (''variables'', JObj params1)]
                           else if bodyMethod then Some params1 else None);
            (url, params2) =
              (if connectorType = SHOPIFY
               then versionedUrl ''/admin/api/'' (inTemplate (orS (cf_apiVersion config) (Some ''2026-04''))) baseUrl path resolved params1
               else if connectorType = SALESFORCE
               then versionedUrl ''/services/data/'' (inTemplate (orS (cf_apiVersion config) (Some ''v57.0''))) baseUrl path resolved params1
               else (resolved, params1))
        in Inr (\<lparr>ax_method = toUpperCase method, ax_url = url, ax_headers = headers,
                 ax_params = (if queryParams \<noteq> [] then Some queryParams else None), ax_data = requestData,
                 ax_timeout = (case cf_timeout config of None \<Rightarrow> 10000 | Some t \<Rightarrow> if t = 0 then 10000 else t)\<rparr>, params2)))"

end
