(* ===== verification/Connector_Engine.thy ===== *)
theory Connector_Engine
  imports Circuit_Breaker Connector_Rate_Limit Connector_Request
begin

text \<open>
  The connector execution engine (\<^verbatim>\<open>src/modules/connectors/engine/execution-engine.ts\<close>) with the
  entities and repository operations it uses, the credential manager, the retry engine and the
  execution service in front of it. \<open>ConnWorld\<close> is the state they share: the connector tables, the
  breaker cache, the Redis counters, the jobs handed to the queues, the upstream calls made, the
  clock and the supply of identifiers. \<open>ConnEnv\<close> collects what is outside the repository: the
  upstream services, which may answer by what they have been asked before, the ciphers, JSON
  parsing and the breaker options read from the process environment. The clock advances by the
  latency of an upstream call. Statements of the database do not fail; a queue may be down.
\<close>

subsection \<open>Entities\<close>

datatype ExecutionStatusEnum = PENDING | RUNNING | SUCCESS | FAILED | RETRYING | CIRCUIT_OPEN
datatype ConnectorStatusEnum = DRAFT | ACTIVE | PAUSED | DISABLED | ERROR
datatype CredentialStatusEnum = ACTIVE_CREDENTIAL | EXPIRED | ROTATING | REVOKED

record Connector =
  cn_id :: uid
  cn_tenantId :: uid
  cn_name :: string
  cn_connectorType :: ConnectorTypeEnum
  cn_baseUrl :: "string option"
  cn_authType :: AuthTypeEnum
  cn_status :: ConnectorStatusEnum
  cn_config :: ConnectorConfig
  cn_deletedAt :: "millis option"

record ConnectorCapability =
  cp_id :: uid
  cp_tenantId :: uid
  cp_connectorId :: uid
  cp_capabilityType :: string
  cp_name :: string
  cp_method :: string
  cp_path :: string
  cp_enabled :: bool
  cp_createdAt :: millis

record ConnectorCredential =
  cc_id :: uid
  cc_tenantId :: uid
  cc_connectorId :: uid
  cc_authType :: AuthTypeEnum
  cc_encryptedData :: string
  cc_keyId :: "string option"
  cc_status :: CredentialStatusEnum
  cc_expiresAt :: "millis option"
  cc_rotatedAt :: "millis option"
  cc_createdAt :: millis
  cc_updatedAt :: millis

definition rotate :: "millis \<Rightarrow> string \<Rightarrow> millis option \<Rightarrow> string option \<Rightarrow> ConnectorCredential \<Rightarrow> ConnectorCredential" where
  "rotate now encryptedData expiresAt keyId c =
     c\<lparr>cc_encryptedData := encryptedData, cc_expiresAt := expiresAt,
       cc_keyId := (case keyId of None \<Rightarrow> cc_keyId c | Some k \<Rightarrow> Some k),
       cc_rotatedAt := Some now, cc_status := ACTIVE_CREDENTIAL, cc_updatedAt := now\<rparr>"

record ConnectorExecution =
  ex_id :: uid
  ex_tenantId :: uid
  ex_connectorId :: uid
  ex_capabilityId :: "uid option"
  ex_capabilityType :: string
  ex_status :: ExecutionStatusEnum
  ex_statusCode :: "int option"
  ex_requestPayload :: "obj option"
  ex_responsePayload :: "json option"
  ex_error :: "string option"
  ex_attempt :: int
  ex_latencyMs :: millis
  ex_workflowId :: "uid option"
  ex_conversationId :: "uid option"
  ex_ticketId :: "uid option"
  ex_idempotencyKey :: "string option"
  ex_startedAt :: "millis option"
  ex_completedAt :: "millis option"
  ex_createdAt :: millis
  ex_updatedAt :: millis

definition markSuccess :: "millis \<Rightarrow> int \<Rightarrow> json \<Rightarrow> millis \<Rightarrow> ConnectorExecution \<Rightarrow> ConnectorExecution" where
  "markSuccess now statusCode responsePayload latencyMs e =
     e\<lparr>ex_status := SUCCESS, ex_statusCode := Some statusCode, ex_responsePayload := Some responsePayload,
       ex_latencyMs := latencyMs, ex_completedAt := Some now, ex_updatedAt := now\<rparr>"

definition markFailed :: "millis \<Rightarrow> string \<Rightarrow> millis \<Rightarrow> int \<Rightarrow> ConnectorExecution \<Rightarrow> ConnectorExecution" where
  "markFailed now err latencyMs statusCode e =
     e\<lparr>ex_status := FAILED, ex_error := Some err, ex_statusCode := Some statusCode,
       ex_latencyMs := latencyMs, ex_completedAt := Some now, ex_updatedAt := now\<rparr>"

definition markRetrying :: "millis \<Rightarrow> ConnectorExecution \<Rightarrow> ConnectorExecution" where
  "markRetrying now e = e\<lparr>ex_status := RETRYING, ex_attempt := orElse (ex_attempt e) 1 + 1, ex_updatedAt := now\<rparr>"

subsection \<open>Jobs, the world, the environment\<close>

record ExecOptions =
  eo_workflowId :: "uid option"
  eo_conversationId :: "uid option"
  eo_ticketId :: "uid option"
  eo_idempotencyKey :: "string option"
  eo_attempt :: "int option"

datatype connJob =
    ConnectorRetryJob uid string obj ExecOptions
  | AdminIncidentJob uid string string string
  | AdminIncidentResolveJob uid string
  | ConnectorSyncJob uid uid

record QueuedConnJob =
  qc_job :: connJob
  qc_tenantContext :: "uid option"
  qc_delay :: millis

datatype logLevel = INFO | LOG_ERROR

record ConnectorLog =
  lg_tenantId :: uid
  lg_connectorId :: uid
  lg_executionId :: uid
  lg_level :: logLevel
  lg_message :: string
  lg_statusCode :: "int option"

record ConnWorld =
  cw_now :: millis
  cw_uuid :: "nat \<Rightarrow> uid"
  cw_uuidNext :: nat
  cw_tenantContext :: "uid option"
  cw_breakers :: CbManager
  cw_redisUp :: bool
  cw_counters :: counters
  cw_connectors :: "Connector list"
  cw_capabilities :: "ConnectorCapability list"
  cw_credentials :: "ConnectorCredential list"
  cw_rateLimits :: "ConnectorRateLimit list"
  cw_executions :: "ConnectorExecution list"
  cw_logs :: "ConnectorLog list"
  cw_queueUp :: bool
  cw_jobs :: "QueuedConnJob list"
  cw_calls :: "AxiosRequestConfig list"
  cw_triggers :: "(uid \<times> string \<times> obj \<times> json) list"

type_synonym 'a conn = "(ConnWorld, 'a) svc"

text \<open>An answer of the upstream, or the error \<^verbatim>\<open>axios\<close> throws: status and body of the response when
  there is one, and the message.\<close>

datatype HttpOutcome = HttpOk int json | HttpFail "int option" "json option" string

record TokenResponse =
  tk_access_token :: "string option"
  tk_expires_in :: "int option"
  tk_refresh_token :: "string option"

record ConnEnv =
  ce_crypto :: Crypto
  ce_circuitOptions :: CircuitBreakerOptions
  ce_upstream :: "AxiosRequestConfig list \<Rightarrow> AxiosRequestConfig \<Rightarrow> HttpOutcome \<times> millis"
  ce_decipherGcm :: "string \<Rightarrow> string \<Rightarrow> string \<Rightarrow> exn + string"
  ce_decipherCbc :: "string \<Rightarrow> string \<Rightarrow> exn + string"
  ce_encipherGcm :: "secret \<Rightarrow> string"
  ce_jsonParse :: "string \<Rightarrow> (string \<rightharpoonup> string) option"
  ce_tokenPost :: "string \<Rightarrow> (string \<times> string option) list \<Rightarrow> exn + TokenResponse"

definition connUUID :: "uid conn" where
  "connUUID = (\<lambda>w. (Inr (cw_uuid w (cw_uuidNext w)), w\<lparr>cw_uuidNext := cw_uuidNext w + 1\<rparr>))"

definition addConnJob :: "connJob \<Rightarrow> millis \<Rightarrow> unit conn" where
  "addConnJob j delay = (\<lambda>w.
     if cw_queueUp w
     then (Inr (), w\<lparr>cw_jobs := cw_jobs w @ [\<lparr>qc_job = j, qc_tenantContext = cw_tenantContext w, qc_delay = delay\<rparr>]\<rparr>)
     else (Inl (Error ''Connection is closed.''), w))"

subsection \<open>Repository\<close>

definition resolveCapability :: "uid \<Rightarrow> string \<Rightarrow> ConnWorld \<Rightarrow> (Connector \<times> ConnectorCapability) option" where
  "resolveCapability tenantId capabilityType w =
     (let joined = concat (map (\<lambda>p. map (\<lambda>c. (c, p)) (filter (\<lambda>c. cp_connectorId p = cn_id c) (cw_connectors w)))
                     (cw_capabilities w));
          rows = sort_key (\<lambda>r. cp_createdAt (snd r)) (filter (\<lambda>(c, p). cp_tenantId p = tenantId \<and>
                   cp_capabilityType p = capabilityType \<and> cp_enabled p \<and> cn_status c = ACTIVE \<and> cn_deletedAt c = None) joined)
      in case rows of [] \<Rightarrow> None | r # _ \<Rightarrow> Some r)"

definition getActiveCredential :: "uid \<Rightarrow> uid \<Rightarrow> ConnWorld \<Rightarrow> ConnectorCredential option" where
  "getActiveCredential tenantId connectorId w =
     (case sort_key (\<lambda>c. - cc_createdAt c) (filter (\<lambda>c. cc_tenantId c = tenantId \<and> cc_connectorId c = connectorId \<and>
         cc_status c = ACTIVE_CREDENTIAL) (cw_credentials w)) of
        [] \<Rightarrow> None | c # _ \<Rightarrow> Some c)"

definition upsertBy :: "('r \<Rightarrow> bool) \<Rightarrow> ('r \<Rightarrow> 'r) \<Rightarrow> 'r \<Rightarrow> 'r list \<Rightarrow> 'r list" where
  "upsertBy same upd new rows =
     (if list_ex same rows then map (\<lambda>r. if same r then upd r else r) rows else rows @ [new])"

definition saveCredential :: "ConnectorCredential \<Rightarrow> uid \<Rightarrow> unit conn" where
  "saveCredential c tenantId = modify (\<lambda>w.
     let raw = c\<lparr>cc_tenantId := tenantId, cc_keyId := orUndefined (cc_keyId c), cc_updatedAt := cw_now w\<rparr>
     in w\<lparr>cw_credentials := upsertBy (\<lambda>r. cc_id r = cc_id c \<and> cc_tenantId r = tenantId)
            (\<lambda>r. raw\<lparr>cc_createdAt := cc_createdAt r\<rparr>) raw (cw_credentials w)\<rparr>)"

text \<open>The columns of a saved execution: falsy optional values are stored as null.\<close>

definition executionColumns :: "millis \<Rightarrow> uid \<Rightarrow> ConnectorExecution \<Rightarrow> ConnectorExecution" where
  "executionColumns now tenantId e =
     e\<lparr>ex_tenantId := tenantId, ex_capabilityId := orUndefined (ex_capabilityId e),
       ex_responsePayload := (case ex_responsePayload e of None \<Rightarrow> None | Some j \<Rightarrow> if truthyJson j then Some j else None),
       ex_error := orUndefined (ex_error e), ex_attempt := orElse (ex_attempt e) 1,
       ex_workflowId := orUndefined (ex_workflowId e), ex_conversationId := orUndefined (ex_conversationId e),
       ex_ticketId := orUndefined (ex_ticketId e), ex_idempotencyKey := orUndefined (ex_idempotencyKey e),
       ex_updatedAt := now\<rparr>"

definition saveExecution :: "ConnectorExecution \<Rightarrow> uid \<Rightarrow> unit conn" where
  "saveExecution e tenantId = modify (\<lambda>w.
     let raw = executionColumns (cw_now w) tenantId e
     in w\<lparr>cw_executions := upsertBy (\<lambda>r. ex_id r = ex_id e \<and> ex_tenantId r = tenantId)
            (\<lambda>r. raw\<lparr>ex_createdAt := ex_createdAt r\<rparr>) raw (cw_executions w)\<rparr>)"

definition getExecutionRow :: "uid \<Rightarrow> uid \<Rightarrow> ConnWorld \<Rightarrow> ConnectorExecution option" where
  "getExecutionRow tenantId executionId w =
     List.find (\<lambda>r. ex_tenantId r = tenantId \<and> ex_id r = executionId) (cw_executions w)"

definition findExecutionByIdempotency :: "uid \<Rightarrow> string \<Rightarrow> ConnWorld \<Rightarrow> ConnectorExecution option" where
  "findExecutionByIdempotency tenantId idempotencyKey w =
     (case sort_key (\<lambda>r. - ex_createdAt r) (filter (\<lambda>r. ex_tenantId r = tenantId \<and>
         ex_idempotencyKey r = Some idempotencyKey) (cw_executions w)) of
        [] \<Rightarrow> None | r # _ \<Rightarrow> Some r)"

definition addLog :: "uid \<Rightarrow> ConnectorLog \<Rightarrow> unit conn" where
  "addLog tenantId l = modify (\<lambda>w. w\<lparr>cw_logs := cw_logs w @ [l\<lparr>lg_tenantId := tenantId\<rparr>]\<rparr>)"

subsection \<open>Events\<close>

datatype connector_event =
    ConnectorCreatedEvent uid uid
  | ConnectorUpdatedEvent uid uid
  | ConnectorExecutedEvent uid uid string int millis
  | ConnectorFailedEvent uid uid string string
  | ConnectorRetryEvent uid uid uid int

definition ConnectorEventPublisher_publish :: "connector_event \<Rightarrow> unit conn" where
  "ConnectorEventPublisher_publish event =
     tryCatch
       (case event of
          ConnectorCreatedEvent tenantId connectorId \<Rightarrow> addConnJob (ConnectorSyncJob tenantId connectorId) 0
        | ConnectorUpdatedEvent tenantId connectorId \<Rightarrow> addConnJob (ConnectorSyncJob tenantId connectorId) 0
        | ConnectorFailedEvent tenantId connectorId capabilityName reason \<Rightarrow>
            addConnJob (AdminIncidentJob tenantId (''connector:'' @ connectorId)
              (''Connector failed: '' @ capabilityName) reason) 0
        | ConnectorExecutedEvent tenantId connectorId _ _ _ \<Rightarrow>
            addConnJob (AdminIncidentResolveJob tenantId (''connector:'' @ connectorId)) 0
        | ConnectorRetryEvent _ _ _ _ \<Rightarrow> ret ())
       (\<lambda>_. ret ())"

subsection \<open>Credentials\<close>

definition decrypt :: "ConnEnv \<Rightarrow> string \<Rightarrow> exn + secret" where
  "decrypt env encryptedData =
     (let plain = (case splitOn (CHR '':'') encryptedData of
                     [iv, authTag, text] \<Rightarrow> ce_decipherGcm env iv authTag text
                   | [iv, text] \<Rightarrow> ce_decipherCbc env iv text
                   | _ \<Rightarrow> Inl (Error ''Invalid encrypted data format''))
      in case plain of
           Inl e \<Rightarrow> Inl (Error (''Credential decryption failed: '' @ message e))
         | Inr d \<Rightarrow> Inr (case ce_jsonParse env d of Some m \<Rightarrow> SecretFields m | None \<Rightarrow> SecretText d))"

definition refreshOAuthToken :: "ConnEnv \<Rightarrow> uid \<Rightarrow> ConnectorCredential \<Rightarrow> ConnectorCredential conn" where
  "refreshOAuthToken env tenantId c =
     andThen (liftR (decrypt env (cc_encryptedData c))) (\<lambda>dec.
       let f = secretField dec in
       if cc_authType c \<noteq> OAUTH2 \<or> \<not> truthy (f ''refreshToken'') \<or> \<not> truthy (f ''tokenUrl'') then ret c
       else case ce_tokenPost env (inTemplate (f ''tokenUrl''))
                [(''grant_type'', Some ''refresh_token''), (''client_id'', f ''clientId''),
                 (''client_secret'', f ''clientSecret''), (''refresh_token'', f ''refreshToken'')] of
              Inl e \<Rightarrow> throw (Error (''OAuth token refresh failed: '' @ message e))
            | Inr tok \<Rightarrow> (\<lambda>w.
                let newDec = SecretFields (f(''accessToken'' := tk_access_token tok,
                                             ''refreshToken'' := orS (tk_refresh_token tok) (f ''refreshToken'')));
                    expiresAt = (case tk_expires_in tok of None \<Rightarrow> None
                                 | Some n \<Rightarrow> if n = 0 then None else Some (cw_now w + n * 1000));
                    c' = rotate (cw_now w) (ce_encipherGcm env newDec) expiresAt (Some ''v2'') c
                in andThen (saveCredential c' tenantId) (\<lambda>_. ret c') w))"

definition authConfigFor :: "ConnEnv \<Rightarrow> uid \<Rightarrow> Connector \<Rightarrow> (AuthTypeEnum \<times> secret option) conn" where
  "authConfigFor env tenantId connector =
     (if cn_authType connector = NONE then ret (NONE, None)
      else andThen (asks (\<lambda>w. (getActiveCredential tenantId (cn_id connector) w, cw_now w))) (\<lambda>(found, now).
        case found of
          None \<Rightarrow> ret (NONE, None)
        | Some credential \<Rightarrow>
            andThen
              (if cc_authType credential = OAUTH2 \<and>
                  (case cc_expiresAt credential of None \<Rightarrow> False | Some t \<Rightarrow> t < now)
               then tryCatch (refreshOAuthToken env tenantId credential) (\<lambda>_. ret credential)
               else ret credential)
              (\<lambda>credential. andThen (liftR (decrypt env (cc_encryptedData credential)))
                 (\<lambda>d. ret (cc_authType credential, Some d)))))"

subsection \<open>Rate limit\<close>

definition syncRateLimitUsage :: "uid \<Rightarrow> ConnectorRateLimit \<Rightarrow> int \<Rightarrow> ConnWorld \<Rightarrow> ConnWorld" where
  "syncRateLimitUsage tenantId limit currentUsage w =
     w\<lparr>cw_rateLimits := upsertRateLimit (cw_now w) (updateUsage (cw_now w) currentUsage limit) tenantId (cw_rateLimits w)\<rparr>"

definition checkDbLimit :: "uid \<Rightarrow> ConnectorRateLimit \<Rightarrow> bool conn" where
  "checkDbLimit tenantId limit = (\<lambda>w.
     let (allowed, limit') = consume (cw_now w) limit
     in if \<not> allowed then (Inr True, w)
        else (Inr False, w\<lparr>cw_rateLimits := upsertRateLimit (cw_now w) limit' tenantId (cw_rateLimits w)\<rparr>))"

definition rateKey :: "uid \<Rightarrow> uid \<Rightarrow> string" where
  "rateKey tenantId connectorId = ''connector:rate:'' @ tenantId @ '':'' @ connectorId"

definition checkRateLimit :: "uid \<Rightarrow> uid \<Rightarrow> bool conn" where
  "checkRateLimit tenantId connectorId = (\<lambda>w.
     case getRateLimit tenantId connectorId (cw_rateLimits w) of
       None \<Rightarrow> (Inr False, w)
     | Some limit \<Rightarrow>
         if cw_redisUp w
         then (case rateScript (cw_now w) (rateKey tenantId connectorId) (maxRequests limit) (windowSeconds limit) (cw_counters w) of
                 (Inl _, cs) \<Rightarrow> checkDbLimit tenantId limit (w\<lparr>cw_counters := cs\<rparr>)
               | (Inr currentUsage, cs) \<Rightarrow>
                   let w1 = w\<lparr>cw_counters := cs\<rparr>;
                       w2 = (if currentUsage mod 10 = 0 \<or> maxRequests limit \<le> currentUsage
                             then syncRateLimitUsage tenantId limit currentUsage w1 else w1)
                   in (Inr (maxRequests limit < currentUsage), w2))
         else checkDbLimit tenantId limit w)"

subsection \<open>Execution\<close>

fun connectorTypeName :: "ConnectorTypeEnum \<Rightarrow> string" where
  "connectorTypeName REST_API = ''REST_API''"
| "connectorTypeName GRAPHQL = ''GRAPHQL''"
| "connectorTypeName WEBHOOK = ''WEBHOOK''"
| "connectorTypeName SHOPIFY = ''SHOPIFY''"
| "connectorTypeName WOOCOMMERCE = ''WOOCOMMERCE''"
| "connectorTypeName MAGENTO = ''MAGENTO''"
| "connectorTypeName HUBSPOT = ''HUBSPOT''"
| "connectorTypeName SALESFORCE = ''SALESFORCE''"
| "connectorTypeName ZOHO = ''ZOHO''"
| "connectorTypeName JIRA = ''JIRA''"
| "connectorTypeName CUSTOM = ''CUSTOM''"

definition getBreakerGroupKey :: "Connector \<Rightarrow> string" where
  "getBreakerGroupKey connector =
     (if truthy (cn_baseUrl connector)
      then connectorTypeName (cn_connectorType connector) @ '':'' @ inTemplate (cn_baseUrl connector)
      else connectorTypeName (cn_connectorType connector))"

definition new_ConnectorExecution :: "uid \<Rightarrow> uid \<Rightarrow> Connector \<Rightarrow> ConnectorCapability \<Rightarrow> ExecutionStatusEnum \<Rightarrow> int
    \<Rightarrow> ExecOptions \<Rightarrow> millis \<Rightarrow> ConnectorExecution" where
  "new_ConnectorExecution i tenantId connector capability status attempt options now =
     \<lparr>ex_id = i, ex_tenantId = tenantId, ex_connectorId = cn_id connector, ex_capabilityId = Some (cp_id capability),
      ex_capabilityType = cp_capabilityType capability, ex_status = status, ex_statusCode = None,
      ex_requestPayload = None, ex_responsePayload = None, ex_error = None, ex_attempt = attempt, ex_latencyMs = 0,
      ex_workflowId = eo_workflowId options, ex_conversationId = eo_conversationId options,
      ex_ticketId = eo_ticketId options, ex_idempotencyKey = eo_idempotencyKey options,
      ex_startedAt = Some now, ex_completedAt = None, ex_createdAt = now, ex_updatedAt = now\<rparr>"

text \<open>The record of a call that is refused before it is made, and the exception.\<close>

definition refuse :: "uid \<Rightarrow> Connector \<Rightarrow> ConnectorCapability \<Rightarrow> ExecutionStatusEnum \<Rightarrow> int \<Rightarrow> ExecOptions
    \<Rightarrow> string \<Rightarrow> exn \<Rightarrow> 'a conn" where
  "refuse tenantId connector capability status attempt options err e =
     andThen connUUID (\<lambda>i. andThen (asks cw_now) (\<lambda>now.
     andThen (saveExecution ((new_ConnectorExecution i tenantId connector capability status attempt options now)
               \<lparr>ex_completedAt := Some now, ex_error := Some err\<rparr>) tenantId) (\<lambda>_. throw e)))"

definition axiosCall :: "ConnEnv \<Rightarrow> AxiosRequestConfig \<Rightarrow> (HttpOutcome \<times> millis) conn" where
  "axiosCall env config = (\<lambda>w.
     let (outcome, latency) = ce_upstream env (cw_calls w) config
     in (Inr (outcome, latency), w\<lparr>cw_calls := cw_calls w @ [config], cw_now := cw_now w + latency\<rparr>))"

definition saveBreakerOf :: "string \<Rightarrow> CircuitBreaker \<Rightarrow> unit conn" where
  "saveBreakerOf key b = modify (\<lambda>w. w\<lparr>cw_breakers := saveBreaker (cw_now w) key b (cw_breakers w)\<rparr>)"

definition logOf :: "Connector \<Rightarrow> uid \<Rightarrow> logLevel \<Rightarrow> string \<Rightarrow> int option \<Rightarrow> ConnectorLog" where
  "logOf connector executionId level msg code =
     \<lparr>lg_tenantId = [], lg_connectorId = cn_id connector, lg_executionId = executionId, lg_level = level,
      lg_message = msg, lg_statusCode = code\<rparr>"

text \<open>The \<^verbatim>\<open>try\<close> block after the call: nothing in it throws but the call itself.\<close>

definition onUpstreamSuccess :: "ConnEnv \<Rightarrow> uid \<Rightarrow> Connector \<Rightarrow> ConnectorCapability \<Rightarrow> CircuitBreaker
    \<Rightarrow> ConnectorExecution \<Rightarrow> int \<Rightarrow> json \<Rightarrow> millis \<Rightarrow> json conn" where
  "onUpstreamSuccess env tenantId connector capability breaker execution status body latencyMs =
     andThen (asks cw_now) (\<lambda>now.
     andThen (saveExecution (markSuccess now status body latencyMs execution) tenantId) (\<lambda>_.
     andThen (saveBreakerOf (getBreakerGroupKey connector) (recordSuccess (ce_circuitOptions env) breaker)) (\<lambda>_.
     andThen (addLog tenantId (logOf connector (ex_id execution) INFO
       (''Connector executed successfully in '' @ showInt latencyMs @ ''ms. Status: '' @ showInt status) None)) (\<lambda>_.
     andThen (ConnectorEventPublisher_publish
       (ConnectorExecutedEvent tenantId (cn_id connector) (cp_name capability) status latencyMs)) (\<lambda>_.
     ret body)))))"

definition maxRetries :: "Connector \<Rightarrow> int" where
  "maxRetries connector = (case cf_maxRetries (cn_config connector) of None \<Rightarrow> 3 | Some n \<Rightarrow> n)"

text \<open>The \<^verbatim>\<open>catch\<close> block. The parameters of the scheduled job are the object the request left.\<close>

definition onUpstreamFailure :: "ConnEnv \<Rightarrow> uid \<Rightarrow> string \<Rightarrow> obj \<Rightarrow> ExecOptions \<Rightarrow> int \<Rightarrow> Connector \<Rightarrow> ConnectorCapability
    \<Rightarrow> CircuitBreaker \<Rightarrow> ConnectorExecution \<Rightarrow> int option \<Rightarrow> json option \<Rightarrow> string \<Rightarrow> millis \<Rightarrow> 'a conn" where
  "onUpstreamFailure env tenantId capabilityType params options attempt connector capability breaker execution st body msg latencyMs =
     andThen (asks cw_now) (\<lambda>now.
     let statusCode = (case st of None \<Rightarrow> 500 | Some n \<Rightarrow> orElse n 500);
         errorMsg = (case body of None \<Rightarrow> msg | Some j \<Rightarrow> if truthyJson j then jsonStringify j else msg);
         failed = markFailed now errorMsg latencyMs statusCode execution
     in andThen (saveExecution failed tenantId) (\<lambda>_.
        andThen (saveBreakerOf (getBreakerGroupKey connector) (recordFailure (ce_circuitOptions env) now breaker)) (\<lambda>_.
        andThen (addLog tenantId (logOf connector (ex_id execution) LOG_ERROR
          (''Connector execution failed in '' @ showInt latencyMs @ ''ms: '' @ errorMsg) (Some statusCode))) (\<lambda>_.
        andThen
          (if attempt < maxRetries connector
           then andThen (saveExecution (markRetrying now failed) tenantId) (\<lambda>_.
                andThen (ConnectorEventPublisher_publish
                  (ConnectorRetryEvent tenantId (cn_id connector) (ex_id execution) (attempt + 1))) (\<lambda>_.
                addConnJob (ConnectorRetryJob tenantId capabilityType params (options\<lparr>eo_attempt := Some (attempt + 1)\<rparr>))
                  (2 ^ nat attempt * 1000)))
           else ConnectorEventPublisher_publish
                  (ConnectorFailedEvent tenantId (cn_id connector) (cp_name capability) errorMsg)) (\<lambda>_.
        throw (HttpException 502 (''Connector invocation failed: '' @ errorMsg)))))))"

definition attemptOf :: "ExecOptions \<Rightarrow> int" where
  "attemptOf options = (case eo_attempt options of None \<Rightarrow> 1 | Some n \<Rightarrow> orElse n 1)"

text \<open>From the request on: the execution is recorded as running, the call is made, and its outcome is
  recorded. The result comes with the parameter object as the request left it.\<close>

definition invoke :: "ConnEnv \<Rightarrow> uid \<Rightarrow> string \<Rightarrow> obj \<Rightarrow> ExecOptions \<Rightarrow> Connector \<Rightarrow> ConnectorCapability
    \<Rightarrow> CircuitBreaker \<Rightarrow> AxiosRequestConfig \<Rightarrow> (json \<times> obj) conn" where
  "invoke env tenantId capabilityType params options connector capability breaker config =
     andThen connUUID (\<lambda>executionId. andThen (asks cw_now) (\<lambda>startTime.
     let execution = (new_ConnectorExecution executionId tenantId connector capability RUNNING (attemptOf options) options startTime)
           \<lparr>ex_requestPayload := Some (case ax_data config of Some d \<Rightarrow> d
              | None \<Rightarrow> (case ax_params config of Some q \<Rightarrow> q | None \<Rightarrow> []))\<rparr>
     in andThen (saveExecution execution tenantId) (\<lambda>_.
        andThen (addLog tenantId (logOf connector executionId INFO
          (''Started connector execution. Method: '' @ ax_method config @ '', URL: '' @ ax_url config) None)) (\<lambda>_.
        andThen (axiosCall env config) (\<lambda>(outcome, latencyMs).
          case outcome of
            HttpOk status body \<Rightarrow>
              andThen (onUpstreamSuccess env tenantId connector capability breaker execution status body latencyMs)
                (\<lambda>r. ret (r, params))
          | HttpFail st body msg \<Rightarrow>
              onUpstreamFailure env tenantId capabilityType params options (attemptOf options) connector capability breaker
                execution st body msg latencyMs)))))"

definition execute :: "ConnEnv \<Rightarrow> uid \<Rightarrow> string \<Rightarrow> obj \<Rightarrow> ExecOptions \<Rightarrow> (json \<times> obj) conn" where
  "execute env tenantId capabilityType params options =
     andThen (asks (resolveCapability tenantId capabilityType)) (\<lambda>resolved.
     case resolved of
       None \<Rightarrow> throw (HttpException 400 (''Capability '' @ capabilityType @
         '' is not registered or configured for tenant '' @ tenantId))
     | Some (connector, capability) \<Rightarrow>
         if \<not> cp_enabled capability
         then throw (HttpException 400 (''Capability '' @ capabilityType @ '' is currently disabled''))
         else andThen (asks (\<lambda>w. canRequest (ce_circuitOptions env) (cw_now w)
                (getBreaker (cw_now w) (getBreakerGroupKey connector) (cw_breakers w)))) (\<lambda>(allowed, breaker).
           if \<not> allowed
           then refuse tenantId connector capability CIRCUIT_OPEN (attemptOf options) options ''Circuit Breaker Open''
                  (HttpException 503 (''Circuit breaker is OPEN for connector '' @ cn_name connector @ ''. Execution blocked.''))
           else andThen (checkRateLimit tenantId (cn_id connector)) (\<lambda>limited.
             if limited
             then refuse tenantId connector capability FAILED (attemptOf options) options ''Rate Limit Exceeded''
                    (HttpException 429 (''Rate limit exceeded for connector '' @ cn_name connector @ ''.''))
             else andThen (authConfigFor env tenantId connector) (\<lambda>(authType, authData).
                  andThen (liftR (prepareRequest (ce_crypto env) (cn_connectorType connector)
                    (case cn_baseUrl connector of None \<Rightarrow> [] | Some u \<Rightarrow> u) (cp_method capability) (cp_path capability)
                    params authType authData (cn_config connector))) (\<lambda>(config, params').
                  invoke env tenantId capabilityType params' options connector capability breaker config)))))"

subsection \<open>Retry engine and execution service\<close>

definition processRetryJob :: "ConnEnv \<Rightarrow> uid \<Rightarrow> string \<Rightarrow> obj \<Rightarrow> ExecOptions \<Rightarrow> json conn" where
  "processRetryJob env tenantId capabilityType params options =
     andThen (execute env tenantId capabilityType params options) (\<lambda>(r, _). ret r)"

text \<open>\<^verbatim>\<open>executeCapability\<close>: a stored success under the idempotency key answers without a call. A
  missing payload is the value \<^verbatim>\<open>undefined\<close>. Evaluating the triggers never fails the operation.\<close>

definition executeAndTrigger :: "ConnEnv \<Rightarrow> uid \<Rightarrow> string \<Rightarrow> obj \<Rightarrow> ExecOptions \<Rightarrow> json option conn" where
  "executeAndTrigger env tenantId capabilityType params options =
     andThen (execute env tenantId capabilityType params options) (\<lambda>(r, params').
     andThen (modify (\<lambda>w. w\<lparr>cw_triggers := cw_triggers w @ [(tenantId, capabilityType, params', r)]\<rparr>))
       (\<lambda>_. ret (Some r)))"

definition executeCapability :: "ConnEnv \<Rightarrow> uid \<Rightarrow> string \<Rightarrow> obj \<Rightarrow> ExecOptions \<Rightarrow> json option conn" where
  "executeCapability env tenantId capabilityType params options =
     andThen (asks (\<lambda>w. if truthy (eo_idempotencyKey options)
        then findExecutionByIdempotency tenantId (inTemplate (eo_idempotencyKey options)) w else None)) (\<lambda>existing.
     case existing of
       None \<Rightarrow> executeAndTrigger env tenantId capabilityType params options
     | Some e \<Rightarrow>
         if ex_status e = SUCCESS then ret (ex_responsePayload e)
         else executeAndTrigger env tenantId capabilityType params options)"

definition getExecution :: "uid \<Rightarrow> uid \<Rightarrow> ConnectorExecution conn" where
  "getExecution tenantId executionId = (\<lambda>w.
     case getExecutionRow tenantId executionId w of
       None \<Rightarrow> (Inl (NotFoundException (''Execution with ID '' @ executionId @ '' not found'')), w)
     | Some e \<Rightarrow> (Inr e, w))"

fun statusName :: "ExecutionStatusEnum \<Rightarrow> string" where
  "statusName PENDING = ''PENDING''"
| "statusName RUNNING = ''RUNNING''"
| "statusName SUCCESS = ''SUCCESS''"
| "statusName FAILED = ''FAILED''"
| "statusName RETRYING = ''RETRYING''"
| "statusName CIRCUIT_OPEN = ''CIRCUIT_OPEN''"

definition retryExecution :: "ConnEnv \<Rightarrow> uid \<Rightarrow> uid \<Rightarrow> json option conn" where
  "retryExecution env tenantId executionId =
     andThen (getExecution tenantId executionId) (\<lambda>e.
     if ex_status e \<noteq> FAILED \<and> ex_status e \<noteq> CIRCUIT_OPEN
     then throw (BadRequestException (''Execution '' @ executionId @ '' cannot be retried from status '' @ statusName (ex_status e)))
     else executeCapability env tenantId (ex_capabilityType e)
            (case ex_requestPayload e of None \<Rightarrow> [] | Some p \<Rightarrow> p)
            \<lparr>eo_workflowId = ex_workflowId e, eo_conversationId = ex_conversationId e, eo_ticketId = ex_ticketId e,
             eo_idempotencyKey = None, eo_attempt = None\<rparr>)"

text \<open>\<^verbatim>\<open>ConnectorQueueProcessor.handleJob\<close> on a retry job, under the tenant the envelope restores.\<close>

definition handleRetryJob :: "ConnEnv \<Rightarrow> QueuedConnJob \<Rightarrow> json conn" where
  "handleRetryJob env j =
     (case qc_job j of
        ConnectorRetryJob tenantId capabilityType params options \<Rightarrow>
          (let tenant = inTemplate (orS (qc_tenantContext j) (Some tenantId))
           in (\<lambda>w. let (r, w') = processRetryJob env tenant capabilityType params options
                     (w\<lparr>cw_tenantContext := (if truthy (qc_tenantContext j) then qc_tenantContext j else cw_tenantContext w)\<rparr>)
                 in (r, w'\<lparr>cw_tenantContext := cw_tenantContext w\<rparr>)))
      | _ \<Rightarrow> ret JNull)"

end
