(* ===== verification/Connector_Request_Facts.thy ===== *)
theory Connector_Request_Facts
  imports Connector_Request
begin

text \<open>
  A template as a list of segments, literal text and holes, gives \<^verbatim>\<open>resolveUrlTemplates\<close> a
  specification: each hole with a parameter is filled with it, and exactly the parameters that
  filled a hole are gone from the object. The values are taken without braces and dollar signs,
  and keys and literals without braces; the scan of the code is then the substitution.
\<close>

datatype segment = Lit string | Hole string

fun renderSegment :: "segment \<Rightarrow> string" where
  "renderSegment (Lit s) = s"
| "renderSegment (Hole k) = placeholder k"

definition render :: "segment list \<Rightarrow> string" where
  "render segs = concat (map renderSegment segs)"

definition braceFree :: "string \<Rightarrow> bool" where
  "braceFree s = (CHR ''{'' \<notin> set s \<and> CHR ''}'' \<notin> set s)"

fun plainSegment :: "segment \<Rightarrow> bool" where
  "plainSegment (Lit s) = braceFree s"
| "plainSegment (Hole k) = braceFree k"

definition plainEntry :: "string \<times> json \<Rightarrow> bool" where
  "plainEntry e = (braceFree (fst e) \<and> braceFree (stringOf (snd e)) \<and> CHR ''$'' \<notin> set (stringOf (snd e)))"

definition fillHole :: "string \<Rightarrow> string \<Rightarrow> segment \<Rightarrow> segment" where
  "fillHole k v s = (if s = Hole k then Lit v else s)"

definition fillSegment :: "obj \<Rightarrow> segment \<Rightarrow> segment" where
  "fillSegment params s =
     (case s of Lit t \<Rightarrow> Lit t
      | Hole k \<Rightarrow> (case map_of params k of None \<Rightarrow> Hole k | Some v \<Rightarrow> Lit (stringOf v)))"

definition unusedBy :: "segment list \<Rightarrow> obj \<Rightarrow> obj" where
  "unusedBy segs params = filter (\<lambda>e. Hole (fst e) \<notin> set segs) params"

lemma render_simps [simp]: "render [] = []" "render (s # segs) = renderSegment s @ render segs"
  by (simp_all add: render_def)

lemma render_append: "render (as @ bs) = render as @ render bs"
  by (simp add: render_def)

subsection \<open>Scanning\<close>

lemma brace_free_split:
  assumes "braceFree j" "braceFree k" "j @ CHR ''}'' # s = k @ CHR ''}'' # t"
  shows "j = k \<and> s = t"
  using assms by (induction j arbitrary: k) (auto simp: braceFree_def Cons_eq_append_conv append_eq_Cons_conv)

lemma startsWith_placeholder:
  assumes "braceFree j" "braceFree k"
  shows "startsWith (placeholder j) (placeholder k @ s) \<longleftrightarrow> j = k"
proof
  assume "startsWith (placeholder j) (placeholder k @ s)"
  then obtain t where "j @ CHR ''}'' # t = k @ CHR ''}'' # s"
    by (auto simp: startsWith_iff placeholder_def)
  then show "j = k" using brace_free_split assms by blast
qed (simp add: startsWith_append)

lemma startsWith_no_open:
  assumes "x \<noteq> CHR ''{''"
  shows "\<not> startsWith (placeholder j) (x # s)"
  using assms by (simp add: placeholder_def)

lemma replaceFrom_plain:
  assumes "CHR ''{'' \<notin> set xs"
  shows "replaceFrom (placeholder j) rep pre (xs @ s) = xs @ replaceFrom (placeholder j) rep (pre @ xs) s"
  using assms
proof (induction xs arbitrary: pre)
  case (Cons x xs)
  then have "\<not> startsWith (placeholder j) (x # xs @ s)" by (intro startsWith_no_open) auto
  with Cons show ?case by (subst replaceFrom.simps) simp
qed simp

lemma expandReplacement_plain: "CHR ''$'' \<notin> set rep \<Longrightarrow> expandReplacement m pre post rep = rep"
  by (induction m pre post rep rule: expandReplacement.induct) auto

lemma replaceFrom_Nil [simp]: "replaceFrom pat rep pre [] = []"
  by (subst replaceFrom.simps) simp

lemma replaceFrom_hole:
  assumes "braceFree j" "braceFree k" "CHR ''$'' \<notin> set rep"
  shows "replaceFrom (placeholder j) rep pre (placeholder k @ s) =
    (if k = j then rep else placeholder k) @ replaceFrom (placeholder j) rep (pre @ placeholder k) s"
proof (cases "k = j")
  case True
  then show ?thesis
    using assms(3) startsWith_append [of "placeholder j" s]
    by (subst replaceFrom.simps) (simp add: placeholder_def expandReplacement_plain)
next
  case False
  then have no: "\<not> startsWith (placeholder j) (placeholder k @ s)"
    using startsWith_placeholder [OF assms(1,2)] by auto
  have "replaceFrom (placeholder j) rep pre (placeholder k @ s) =
      CHR ''{'' # replaceFrom (placeholder j) rep (pre @ [CHR ''{'']) ((k @ [CHR ''}'']) @ s)"
    using no by (subst replaceFrom.simps) (simp add: placeholder_def)
  also have "\<dots> = placeholder k @ replaceFrom (placeholder j) rep (pre @ placeholder k) s"
    using assms(2) replaceFrom_plain [of "k @ [CHR ''}'']" j rep "pre @ [CHR ''{'']" s]
    by (simp add: braceFree_def placeholder_def)
  finally show ?thesis using False by simp
qed

lemma replaceFrom_render:
  assumes "list_all plainSegment segs" "braceFree j" "CHR ''$'' \<notin> set rep"
  shows "replaceFrom (placeholder j) rep pre (render segs) = render (map (fillHole j rep) segs)"
  using assms(1)
proof (induction segs arbitrary: pre)
  case (Cons s segs)
  then show ?case
    by (cases s) (auto simp: fillHole_def braceFree_def replaceFrom_plain replaceFrom_hole [OF assms(2) _ assms(3)])
qed simp

lemma includes_plain:
  assumes "CHR ''{'' \<notin> set xs"
  shows "includesText (placeholder j) (xs @ s) = includesText (placeholder j) s"
  using assms by (induction xs) (auto simp: startsWith_no_open)

lemma includes_hole:
  assumes "braceFree j" "braceFree k"
  shows "includesText (placeholder j) (placeholder k @ s) \<longleftrightarrow> j = k \<or> includesText (placeholder j) s"
proof -
  have "includesText (placeholder j) (placeholder k @ s) \<longleftrightarrow>
      startsWith (placeholder j) (placeholder k @ s) \<or> includesText (placeholder j) ((k @ [CHR ''}'']) @ s)"
    by (simp add: placeholder_def)
  also have "includesText (placeholder j) ((k @ [CHR ''}'']) @ s) = includesText (placeholder j) s"
    using assms(2) by (intro includes_plain) (auto simp: braceFree_def)
  finally show ?thesis using startsWith_placeholder [OF assms] by simp
qed

lemma includes_render:
  assumes "list_all plainSegment segs" "braceFree j"
  shows "includesText (placeholder j) (render segs) \<longleftrightarrow> Hole j \<in> set segs"
  using assms(1)
proof (induction segs)
  case Nil
  then show ?case by (simp add: placeholder_def)
next
  case (Cons s segs)
  then show ?case
    by (cases s) (auto simp: braceFree_def includes_plain includes_hole [OF assms(2)])
qed

subsection \<open>Resolving a template\<close>

lemma plain_fillHole:
  "list_all plainSegment segs \<Longrightarrow> braceFree v \<Longrightarrow> list_all plainSegment (map (fillHole k v) segs)"
  by (auto simp: list_all_iff fillHole_def)

lemma fill_Cons:
  assumes "k \<notin> fst ` set es"
  shows "map (fillSegment es) (map (fillHole k (stringOf v)) segs) = map (fillSegment ((k, v) # es)) segs"
  using assms by (auto simp: fillSegment_def fillHole_def split: segment.splits option.splits)

lemma hole_fillHole: "Hole j \<in> fillHole k v ` set segs \<longleftrightarrow> j \<noteq> k \<and> Hole j \<in> set segs"
  by (auto simp: fillHole_def image_iff split: if_splits)

lemma resolveEntries_render:
  assumes "list_all plainSegment segs" "list_all plainEntry es" "distinct (map fst es)"
  shows "resolveEntries es (render segs) params =
    (render (map (fillSegment es) segs),
     filter (\<lambda>e. \<not> (fst e \<in> fst ` set es \<and> Hole (fst e) \<in> set segs)) params)"
  using assms
proof (induction es arbitrary: segs params)
  case Nil
  have "map (fillSegment []) segs = segs"
    by (rule map_idI) (auto simp: fillSegment_def split: segment.splits)
  then show ?case by simp
next
  case (Cons e es)
  obtain k v where e: "e = (k, v)" by (cases e)
  from Cons.prems e have k: "braceFree k" "braceFree (stringOf v)" "CHR ''$'' \<notin> set (stringOf v)" "k \<notin> fst ` set es"
    by (auto simp: plainEntry_def)
  show ?case
  proof (cases "Hole k \<in> set segs")
    case True
    let ?segs = "map (fillHole k (stringOf v)) segs"
    have "resolveEntries (e # es) (render segs) params = resolveEntries es (render ?segs) (deleteKey k params)"
      using True Cons.prems k by (simp add: e includes_render replaceAll_def replaceFrom_render)
    also have "\<dots> = (render (map (fillSegment es) ?segs),
        filter (\<lambda>e. \<not> (fst e \<in> fst ` set es \<and> Hole (fst e) \<in> set ?segs)) (deleteKey k params))"
      using Cons.prems k by (intro Cons.IH) (auto simp: plain_fillHole)
    also have "filter (\<lambda>e. \<not> (fst e \<in> fst ` set es \<and> Hole (fst e) \<in> set ?segs)) (deleteKey k params) =
        filter (\<lambda>d. \<not> (fst d \<in> fst ` set (e # es) \<and> Hole (fst d) \<in> set segs)) params"
      using True k(4) by (auto simp: deleteKey_def e hole_fillHole intro!: filter_cong)
    also have "map (fillSegment es) ?segs = map (fillSegment (e # es)) segs"
      unfolding e by (rule fill_Cons [OF k(4)])
    finally show ?thesis .
  next
    case False
    have "map (fillSegment es) segs = map (fillSegment (e # es)) segs"
      using False by (auto simp: fillSegment_def e split: segment.splits)
    moreover have "filter (\<lambda>d. \<not> (fst d \<in> fst ` set es \<and> Hole (fst d) \<in> set segs)) params =
        filter (\<lambda>d. \<not> (fst d \<in> fst ` set (e # es) \<and> Hole (fst d) \<in> set segs)) params"
      using False by (auto simp: e intro!: filter_cong)
    moreover have "resolveEntries (e # es) (render segs) params = resolveEntries es (render segs) params"
      using False Cons.prems k by (simp add: e includes_render)
    moreover have "resolveEntries es (render segs) params = (render (map (fillSegment es) segs),
        filter (\<lambda>d. \<not> (fst d \<in> fst ` set es \<and> Hole (fst d) \<in> set segs)) params)"
      using Cons.prems by (intro Cons.IH) simp_all
    ultimately show ?thesis by presburger
  qed
qed

lemma resolveUrlTemplates_render:
  assumes "list_all plainSegment segs" "list_all plainEntry params" "distinct (map fst params)"
  shows "resolveUrlTemplates (render segs) params = (render (map (fillSegment params) segs), unusedBy segs params)"
  unfolding resolveUrlTemplates_def resolveEntries_render [OF assms]
  by (auto simp: unusedBy_def intro!: filter_cong)

text \<open>A second pass over the holes of the first finds no parameter for them.\<close>

lemma fillSegment_unused: "s \<in> set segs \<Longrightarrow> fillSegment (unusedBy segs params) s = s"
  by (auto simp: fillSegment_def unusedBy_def split: segment.splits option.splits dest!: map_of_SomeD)

lemma fillSegment_Lit [simp]: "fillSegment params (Lit t) = Lit t"
  by (simp add: fillSegment_def)

lemma plain_unused: "list_all plainEntry params \<Longrightarrow> list_all plainEntry (unusedBy segs params)"
  by (auto simp: unusedBy_def list_all_iff)

lemma distinct_unused: "distinct (map fst params) \<Longrightarrow> distinct (map fst (unusedBy segs params))"
  by (simp add: unusedBy_def distinct_map_filter)

lemma prepareRequest_url:
  assumes "prepareRequest cr connectorType baseUrl method path params authType authData config = Inr (req, params')"
    and "resolveUrlTemplates (stripTrailingSlash baseUrl @ ''/'' @ stripLeadingSlash path) params = (resolved, params1)"
  shows "(ax_url req, params') =
    (if connectorType = SHOPIFY
     then versionedUrl ''/admin/api/'' (inTemplate (orS (cf_apiVersion config) (Some ''2026-04''))) baseUrl path resolved params1
     else if connectorType = SALESFORCE
     then versionedUrl ''/services/data/'' (inTemplate (orS (cf_apiVersion config) (Some ''v57.0''))) baseUrl path resolved params1
     else (resolved, params1))"
  using assms(1) unfolding prepareRequest_def assms(2) Let_def prod.case rbind_Inr_iff
  by (clarsimp simp: case_prod_unfold)

lemma prepared_url_filled:
  assumes "stripTrailingSlash baseUrl = render bs" "stripLeadingSlash path = render ps"
    and "list_all plainSegment (bs @ ps)" "list_all plainEntry params" "distinct (map fst params)"
    and "connectorType \<notin> {SHOPIFY, SALESFORCE}"
    and "prepareRequest cr connectorType baseUrl method path params authType authData config = Inr (req, params')"
  shows "ax_url req = render (map (fillSegment params) (bs @ Lit ''/'' # ps)) \<and> params' = unusedBy (bs @ ps) params"
proof -
  have "list_all plainSegment (bs @ Lit ''/'' # ps)" using assms(3) by (simp add: braceFree_def)
  from resolveUrlTemplates_render [OF this assms(4,5)]
  have "resolveUrlTemplates (stripTrailingSlash baseUrl @ ''/'' @ stripLeadingSlash path) params =
      (render (map (fillSegment params) (bs @ Lit ''/'' # ps)), unusedBy (bs @ Lit ''/'' # ps) params)"
    by (simp add: assms(1,2) render_append)
  from prepareRequest_url [OF assms(7) this] assms(6) show ?thesis
    by (auto simp: unusedBy_def intro!: filter_cong)
qed

text \<open>The URL of a prepared request. Base URL and path are templates; for most connector types
  every hole that has a parameter carries its value and the parameters used this way leave the
  object, so they are not sent twice. For the types whose URL is built again (\<^verbatim>\<open>SHOPIFY\<close>, and
  \<^verbatim>\<open>SALESFORCE\<close> alike) when the base URL does not name the API path, the second pass runs on an object
  whose used parameters are already gone: the request goes out with every such hole still in
  its URL, and the values are nowhere in it.\<close>

theorem url_holes_are_filled_or_sent_verbatim:
  assumes "stripTrailingSlash baseUrl = render bs" "stripLeadingSlash path = render ps"
    and "list_all plainSegment (bs @ ps)" "list_all plainEntry params" "distinct (map fst params)"
    and "braceFree (inTemplate (orS (cf_apiVersion config) (Some ''2026-04'')))"
    and "prepareRequest cr connectorType baseUrl method path params authType authData config = Inr (req, params')"
  shows "(connectorType \<notin> {SHOPIFY, SALESFORCE} \<longrightarrow>
      ax_url req = render (map (fillSegment params) (bs @ Lit ''/'' # ps)) \<and> params' = unusedBy (bs @ ps) params)
    \<and> (connectorType = SHOPIFY \<and> \<not> includesText ''/admin/api/'' (render (map (fillSegment params) (bs @ Lit ''/'' # ps))) \<longrightarrow>
      ax_url req = render (bs @ Lit (''/admin/api/'' @ inTemplate (orS (cf_apiVersion config) (Some ''2026-04'')) @ ''/'') # ps)
      \<and> params' = unusedBy (bs @ ps) params)"
proof -
  let ?segs = "bs @ Lit ''/'' # ps"
  let ?v = "inTemplate (orS (cf_apiVersion config) (Some ''2026-04''))"
  let ?segs2 = "bs @ Lit (''/admin/api/'' @ ?v @ ''/'') # ps"
  let ?left = "unusedBy (bs @ ps) params"
  have slash: "unusedBy ?segs params = ?left" by (auto simp: unusedBy_def intro!: filter_cong)
  have plain: "list_all plainSegment ?segs" "list_all plainSegment ?segs2"
    using assms(3,6) by (auto simp: braceFree_def)
  have first: "resolveUrlTemplates (stripTrailingSlash baseUrl @ ''/'' @ stripLeadingSlash path) params =
      (render (map (fillSegment params) ?segs), ?left)"
    using resolveUrlTemplates_render [OF plain(1) assms(4,5)] by (simp add: assms(1,2) render_append slash)
  have "map (fillSegment ?left) ?segs2 = ?segs2"
    by (rule map_idI) (auto simp: fillSegment_unused)
  moreover have "unusedBy ?segs2 ?left = ?left"
    by (auto simp: unusedBy_def intro!: filter_True)
  ultimately have second: "resolveUrlTemplates (stripTrailingSlash baseUrl @ ''/admin/api/'' @ ?v @ ''/'' @ stripLeadingSlash path) ?left =
      (render ?segs2, ?left)"
    using resolveUrlTemplates_render [OF plain(2) plain_unused [OF assms(4)] distinct_unused [OF assms(5)], of "bs @ ps"]
    by (simp add: assms(1,2) render_append)
  show ?thesis
    using prepareRequest_url [OF assms(7) first] second by (auto simp: versionedUrl_def)
qed

definition sampleCrypto :: Crypto where
  "sampleCrypto = \<lparr>cr_hmacSha256Hex = (\<lambda>_ _. ''00''), cr_base64 = (\<lambda>s. s)\<rparr>"

definition sampleConfig :: ConnectorConfig where
  "sampleConfig = \<lparr>cf_graphqlQuery = None, cf_apiVersion = None, cf_timeout = None, cf_maxRetries = None\<rparr>"

definition sampleRequest :: "ConnectorTypeEnum \<Rightarrow> exn + AxiosRequestConfig \<times> obj" where
  "sampleRequest ty = prepareRequest sampleCrypto ty ''https://shop.example'' ''GET'' ''/orders/{orderId}.json''
     [(''orderId'', JNum 42)] NONE None sampleConfig"

theorem url_holes_are_filled_or_sent_verbatim_witness:
  "sampleRequest REST_API = Inr (\<lparr>ax_method = ''GET'', ax_url = ''https://shop.example/orders/42.json'',
     ax_headers = [(''Content-Type'', ''application/json''), (''Accept'', ''application/json'')],
     ax_params = None, ax_data = None, ax_timeout = 10000\<rparr>, [])
   \<and> (\<exists>req. sampleRequest SHOPIFY = Inr (req, []) \<and>
        ax_url req = render ([Lit ''https://shop.example''] @ Lit (''/admin/api/'' @ ''2026-04'' @ ''/'') #
          [Lit ''orders/'', Hole ''orderId'', Lit ''.json'']))"
proof
  show "sampleRequest REST_API = Inr (\<lparr>ax_method = ''GET'', ax_url = ''https://shop.example/orders/42.json'',
     ax_headers = [(''Content-Type'', ''application/json''), (''Accept'', ''application/json'')],
     ax_params = None, ax_data = None, ax_timeout = 10000\<rparr>, [])"
    by code_simp
  have "case sampleRequest SHOPIFY of Inl _ \<Rightarrow> False | Inr (req, params) \<Rightarrow> params = []" by code_simp
  then obtain req where req: "sampleRequest SHOPIFY = Inr (req, [])" by (auto split: sum.splits)
  have strip: "stripTrailingSlash ''https://shop.example'' = render [Lit ''https://shop.example'']"
    "stripLeadingSlash ''/orders/{orderId}.json'' = render [Lit ''orders/'', Hole ''orderId'', Lit ''.json'']"
    by code_simp+
  have plain: "list_all plainSegment ([Lit ''https://shop.example''] @ [Lit ''orders/'', Hole ''orderId'', Lit ''.json''])"
    "list_all plainEntry [(''orderId'', JNum 42)]" "distinct (map fst [(''orderId'', JNum 42)])"
    "braceFree (inTemplate (orS (cf_apiVersion sampleConfig) (Some ''2026-04'')))"
    by code_simp+
  have no: "\<not> includesText ''/admin/api/'' (render (map (fillSegment [(''orderId'', JNum 42)])
      ([Lit ''https://shop.example''] @ Lit ''/'' # [Lit ''orders/'', Hole ''orderId'', Lit ''.json''])))"
    by code_simp
  have v: "inTemplate (orS (cf_apiVersion sampleConfig) (Some ''2026-04'')) = ''2026-04''" by code_simp
  show "\<exists>req. sampleRequest SHOPIFY = Inr (req, []) \<and>
        ax_url req = render ([Lit ''https://shop.example''] @ Lit (''/admin/api/'' @ ''2026-04'' @ ''/'') #
          [Lit ''orders/'', Hole ''orderId'', Lit ''.json''])"
    using url_holes_are_filled_or_sent_verbatim
      [OF strip plain req [unfolded sampleRequest_def], THEN conjunct2, THEN mp, OF conjI [OF refl no], unfolded v] req
    by blast
qed

end
