(* ===== verification/Connector_Engine_Facts.thy ===== *)
theory Connector_Engine_Facts
  imports Connector_Engine Connector_Request_Facts
begin

text \<open>
  The engine past its guards: \<open>admitted\<close> says that an execution reaches the upstream call, and
  under it \<^verbatim>\<open>execute\<close> is \<^verbatim>\<open>invoke\<close>, whose effect on every part of the world is computed here once
  for each outcome. The properties of the engine use these facts only.
\<close>

lemmas conn_defs = connUUID_def axiosCall_def saveExecution_def addLog_def saveBreakerOf_def addConnJob_def
  ConnectorEventPublisher_publish_def

text \<open>An execution whose guards other than the breaker let it pass: capability found and enabled, no
  rate limit row, no credential needed, request built.\<close>

definition routable :: "ConnEnv \<Rightarrow> uid \<Rightarrow> string \<Rightarrow> obj \<Rightarrow> ConnWorld \<Rightarrow> Connector \<Rightarrow> ConnectorCapability
    \<Rightarrow> AxiosRequestConfig \<Rightarrow> obj \<Rightarrow> bool" where
  "routable env tenantId capabilityType params w connector capability config params' \<longleftrightarrow>
     resolveCapability tenantId capabilityType w = Some (connector, capability) \<and>
     getRateLimit tenantId (cn_id connector) (cw_rateLimits w) = None \<and>
     cn_authType connector = NONE \<and>
     prepareRequest (ce_crypto env) (cn_connectorType connector) (case cn_baseUrl connector of None \<Rightarrow> [] | Some u \<Rightarrow> u)
       (cp_method capability) (cp_path capability) params NONE None (cn_config connector) = Inr (config, params')"

definition currentBreaker :: "string \<Rightarrow> ConnWorld \<Rightarrow> CircuitBreaker" where
  "currentBreaker key w = getBreaker (cw_now w) key (cw_breakers w)"

definition admitted :: "ConnEnv \<Rightarrow> uid \<Rightarrow> string \<Rightarrow> obj \<Rightarrow> ConnWorld \<Rightarrow> Connector \<Rightarrow> ConnectorCapability
    \<Rightarrow> CircuitBreaker \<Rightarrow> AxiosRequestConfig \<Rightarrow> obj \<Rightarrow> bool" where
  "admitted env tenantId capabilityType params w connector capability breaker config params' \<longleftrightarrow>
     routable env tenantId capabilityType params w connector capability config params' \<and>
     canRequest (ce_circuitOptions env) (cw_now w) (currentBreaker (getBreakerGroupKey connector) w) = (True, breaker)"

lemma resolveCapability_enabled:
  assumes "resolveCapability tenantId capabilityType w = Some (connector, capability)"
  shows "cp_enabled capability \<and> cn_status connector = ACTIVE \<and> cn_deletedAt connector = None \<and>
    cp_tenantId capability = tenantId \<and> cp_capabilityType capability = capabilityType \<and>
    cp_connectorId capability = cn_id connector"
proof -
  let ?rows = "filter (\<lambda>(c, p). cp_tenantId p = tenantId \<and> cp_capabilityType p = capabilityType \<and> cp_enabled p \<and>
      cn_status c = ACTIVE \<and> cn_deletedAt c = None)
    (concat (map (\<lambda>p. map (\<lambda>c. (c, p)) (filter (\<lambda>c. cp_connectorId p = cn_id c) (cw_connectors w))) (cw_capabilities w)))"
  from assms obtain rest where "sort_key (\<lambda>r. cp_createdAt (snd r)) ?rows = (connector, capability) # rest"
    by (auto simp: resolveCapability_def Let_def split: list.splits)
  then have "(connector, capability) \<in> set (sort_key (\<lambda>r. cp_createdAt (snd r)) ?rows)" by simp
  then show ?thesis by auto
qed

lemma checkRateLimit_none:
  "getRateLimit tenantId connectorId (cw_rateLimits w) = None \<Longrightarrow> checkRateLimit tenantId connectorId w = (Inr False, w)"
  by (simp add: checkRateLimit_def)

lemma authConfigFor_none: "cn_authType connector = NONE \<Longrightarrow> authConfigFor env tenantId connector w = (Inr (NONE, None), w)"
  by (simp add: authConfigFor_def)

lemma execute_admitted:
  assumes "admitted env tenantId capabilityType params w connector capability breaker config params'"
  shows "execute env tenantId capabilityType params options w =
    invoke env tenantId capabilityType params' options connector capability breaker config w"
  using assms resolveCapability_enabled [of tenantId capabilityType w connector capability]
  by (simp add: admitted_def routable_def currentBreaker_def execute_def andThen_app checkRateLimit_none authConfigFor_none)

subsection \<open>Saved rows\<close>

lemma find_upsertBy:
  assumes "\<And>r. same r \<Longrightarrow> same (upd r)" "same new"
  shows "List.find same (upsertBy same upd new rows) =
    Some (case List.find same rows of None \<Rightarrow> new | Some r \<Rightarrow> upd r)"
proof (cases "list_ex same rows")
  case True
  then obtain r where "List.find same rows = Some r" using list_ex_find by blast
  with True show ?thesis by (simp add: upsertBy_def find_map_upd [of same upd, OF assms(1)])
next
  case False
  then have "List.find same rows = None" by (simp add: find_None_list_ex)
  with False assms(2) show ?thesis by (simp add: upsertBy_def find_append_new)
qed

lemma upsertBy_new: "\<not> list_ex same rows \<Longrightarrow> upsertBy same upd new rows = rows @ [new]"
  by (simp add: upsertBy_def)

lemma upsertBy_again:
  assumes "\<not> list_ex same rows" "same r"
  shows "upsertBy same upd new (rows @ [r]) = rows @ [upd r]"
proof -
  have "map (\<lambda>r. if same r then upd r else r) rows = rows"
    using assms(1) by (auto simp: list_ex_iff intro!: map_idI)
  with assms show ?thesis by (simp add: upsertBy_def)
qed

definition freshId :: "uid \<Rightarrow> ConnWorld \<Rightarrow> bool" where
  "freshId tenantId w \<longleftrightarrow>
     \<not> list_ex (\<lambda>r. ex_id r = cw_uuid w (cw_uuidNext w) \<and> ex_tenantId r = tenantId) (cw_executions w)"

definition startedExecution :: "uid \<Rightarrow> Connector \<Rightarrow> ConnectorCapability \<Rightarrow> ExecOptions \<Rightarrow> AxiosRequestConfig
    \<Rightarrow> ConnWorld \<Rightarrow> ConnectorExecution" where
  "startedExecution tenantId connector capability options config w =
     (new_ConnectorExecution (cw_uuid w (cw_uuidNext w)) tenantId connector capability RUNNING (attemptOf options) options (cw_now w))
       \<lparr>ex_requestPayload := Some (case ax_data config of Some d \<Rightarrow> d
          | None \<Rightarrow> (case ax_params config of Some q \<Rightarrow> q | None \<Rightarrow> []))\<rparr>"

definition failureMessage :: "json option \<Rightarrow> string \<Rightarrow> string" where
  "failureMessage body msg = (case body of None \<Rightarrow> msg | Some j \<Rightarrow> if truthyJson j then jsonStringify j else msg)"

definition failureCode :: "int option \<Rightarrow> int" where
  "failureCode st = (case st of None \<Rightarrow> 500 | Some n \<Rightarrow> orElse n 500)"

lemmas execution_defs = executionColumns_def new_ConnectorExecution_def startedExecution_def markSuccess_def
  markFailed_def markRetrying_def

lemma new_id [simp]: "ex_id (new_ConnectorExecution i tenantId connector capability status attempt options now) = i"
  by (simp add: new_ConnectorExecution_def)

lemma started_ids [simp]:
  "ex_id (startedExecution tenantId connector capability options config w) = cw_uuid w (cw_uuidNext w)"
  "ex_tenantId (startedExecution tenantId connector capability options config w) = tenantId"
  "ex_createdAt (startedExecution tenantId connector capability options config w) = cw_now w"
  by (simp_all add: execution_defs)

lemma executionColumns_ids [simp]:
  "ex_id (executionColumns now tenantId e) = ex_id e" "ex_tenantId (executionColumns now tenantId e) = tenantId"
  "ex_createdAt (executionColumns now tenantId e) = ex_createdAt e"
  by (simp_all add: executionColumns_def)

lemma mark_ids [simp]:
  "ex_id (markSuccess now st body l e) = ex_id e" "ex_createdAt (markSuccess now st body l e) = ex_createdAt e"
  "ex_id (markFailed now err l st e) = ex_id e" "ex_createdAt (markFailed now err l st e) = ex_createdAt e"
  "ex_id (markRetrying now e) = ex_id e" "ex_createdAt (markRetrying now e) = ex_createdAt e"
  by (simp_all add: execution_defs)

text \<open>Saving an execution again under its identifier replaces the row at the end.\<close>

lemma save_again:
  assumes "\<not> list_ex (\<lambda>r. ex_id r = i \<and> ex_tenantId r = tenantId) rows" "ex_id e = i" "ex_createdAt e = ex_createdAt e'" "ex_id e' = i"
  shows "upsertBy (\<lambda>r. ex_id r = i \<and> ex_tenantId r = tenantId) (\<lambda>r. (executionColumns now tenantId e)\<lparr>ex_createdAt := ex_createdAt r\<rparr>)
      (executionColumns now tenantId e) (rows @ [executionColumns now' tenantId e']) = rows @ [executionColumns now tenantId e]"
proof -
  have "(executionColumns now tenantId e)\<lparr>ex_createdAt := ex_createdAt (executionColumns now' tenantId e')\<rparr> =
      executionColumns now tenantId e"
    using assms(3) by (simp add: executionColumns_def)
  with assms show ?thesis by (subst upsertBy_again) simp_all
qed

definition connectorFrame :: "ConnWorld \<Rightarrow> ConnWorld \<Rightarrow> bool" where
  "connectorFrame w w' \<longleftrightarrow> cw_connectors w' = cw_connectors w \<and> cw_capabilities w' = cw_capabilities w \<and>
     cw_rateLimits w' = cw_rateLimits w \<and> cw_credentials w' = cw_credentials w \<and> cw_uuid w' = cw_uuid w \<and>
     cw_uuidNext w' = cw_uuidNext w + 1 \<and> cw_queueUp w' = cw_queueUp w \<and> cw_tenantContext w' = cw_tenantContext w \<and>
     cw_redisUp w' = cw_redisUp w \<and> cw_counters w' = cw_counters w \<and> cw_triggers w' = cw_triggers w"

lemma invoke_success:
  assumes "ce_upstream env (cw_calls w) config = (HttpOk status body, latency)" "freshId tenantId w"
  shows "\<exists>w'. invoke env tenantId capabilityType params' options connector capability breaker config w = (Inr (body, params'), w') \<and>
    cw_calls w' = cw_calls w @ [config] \<and> cw_now w' = cw_now w + latency \<and>
    cw_breakers w' = saveBreaker (cw_now w + latency) (getBreakerGroupKey connector)
      (recordSuccess (ce_circuitOptions env) breaker) (cw_breakers w) \<and>
    cw_executions w' = cw_executions w @ [executionColumns (cw_now w + latency) tenantId
      (markSuccess (cw_now w + latency) status body latency (startedExecution tenantId connector capability options config w))] \<and>
    cw_jobs w' = cw_jobs w @ (if cw_queueUp w then [\<lparr>qc_job = AdminIncidentResolveJob tenantId (''connector:'' @ cn_id connector),
      qc_tenantContext = cw_tenantContext w, qc_delay = 0\<rparr>] else []) \<and>
    connectorFrame w w'"
  using assms
  by (simp add: invoke_def onUpstreamSuccess_def conn_defs svc_simps Let_def freshId_def upsertBy_new save_again
      connectorFrame_def flip: startedExecution_def)

lemma invoke_failure:
  assumes "ce_upstream env (cw_calls w) config = (HttpFail st body msg, latency)" "freshId tenantId w" "cw_queueUp w"
  shows "\<exists>w'. invoke env tenantId capabilityType params' options connector capability breaker config w =
      (Inl (HttpException 502 (''Connector invocation failed: '' @ failureMessage body msg)), w') \<and>
    cw_calls w' = cw_calls w @ [config] \<and> cw_now w' = cw_now w + latency \<and>
    cw_breakers w' = saveBreaker (cw_now w + latency) (getBreakerGroupKey connector)
      (recordFailure (ce_circuitOptions env) (cw_now w + latency) breaker) (cw_breakers w) \<and>
    cw_executions w' = cw_executions w @ [executionColumns (cw_now w + latency) tenantId
      ((if attemptOf options < maxRetries connector then markRetrying (cw_now w + latency) else id)
         (markFailed (cw_now w + latency) (failureMessage body msg) latency (failureCode st)
            (startedExecution tenantId connector capability options config w)))] \<and>
    cw_jobs w' = cw_jobs w @ [\<lparr>qc_job = (if attemptOf options < maxRetries connector
        then ConnectorRetryJob tenantId capabilityType params' (options\<lparr>eo_attempt := Some (attemptOf options + 1)\<rparr>)
        else AdminIncidentJob tenantId (''connector:'' @ cn_id connector) (''Connector failed: '' @ cp_name capability)
          (failureMessage body msg)),
      qc_tenantContext = cw_tenantContext w,
      qc_delay = (if attemptOf options < maxRetries connector then 2 ^ nat (attemptOf options) * 1000 else 0)\<rparr>] \<and>
    connectorFrame w w'"
  using assms
  by (simp add: invoke_def onUpstreamFailure_def conn_defs svc_simps Let_def freshId_def upsertBy_new save_again
      connectorFrame_def flip: startedExecution_def failureMessage_def failureCode_def)

subsection \<open>Refused executions\<close>

lemma execute_open:
  assumes "routable env tenantId capabilityType params w connector capability config params'"
    and "canRequest (ce_circuitOptions env) (cw_now w) (currentBreaker (getBreakerGroupKey connector) w) = (False, breaker)"
    and "freshId tenantId w"
  shows "\<exists>w'. execute env tenantId capabilityType params options w =
      (Inl (HttpException 503 (''Circuit breaker is OPEN for connector '' @ cn_name connector @ ''. Execution blocked.'')), w') \<and>
    cw_calls w' = cw_calls w \<and> cw_jobs w' = cw_jobs w \<and> cw_breakers w' = cw_breakers w \<and> cw_now w' = cw_now w \<and>
    (\<exists>e. cw_executions w' = cw_executions w @ [e] \<and> ex_status e = CIRCUIT_OPEN \<and> ex_tenantId e = tenantId) \<and>
    connectorFrame w w'"
  using assms resolveCapability_enabled [of tenantId capabilityType w connector capability]
  by (simp add: routable_def currentBreaker_def execute_def svc_simps refuse_def conn_defs Let_def freshId_def upsertBy_new
      connectorFrame_def) (simp add: executionColumns_def new_ConnectorExecution_def)

lemma getBreaker_saveBreaker [simp]: "getBreaker now key (saveBreaker now key b m) = b"
  by (simp add: getBreaker_def breakerSnapshot_def saveBreaker_def redisGet_def new_CircuitBreaker_def Let_def)

subsection \<open>Runs of executions\<close>

type_synonym execCall = "uid \<times> string \<times> obj \<times> ExecOptions"

fun executeCall :: "ConnEnv \<Rightarrow> execCall \<Rightarrow> (json \<times> obj) conn" where
  "executeCall env (tenantId, capabilityType, params, options) = execute env tenantId capabilityType params options"

definition runCalls :: "ConnEnv \<Rightarrow> execCall list \<Rightarrow> ConnWorld \<Rightarrow> ConnWorld" where
  "runCalls env cs w = fold (\<lambda>c w. snd (executeCall env c w)) cs w"

fun callReaches :: "ConnEnv \<Rightarrow> string \<Rightarrow> ConnWorld \<Rightarrow> execCall \<Rightarrow> bool" where
  "callReaches env key w (tenantId, capabilityType, params, options) \<longleftrightarrow>
     (\<exists>connector capability config params'. routable env tenantId capabilityType params w connector capability config params' \<and>
        getBreakerGroupKey connector = key)"

definition upstreamDown :: "ConnEnv \<Rightarrow> bool" where
  "upstreamDown env \<longleftrightarrow> (\<forall>h req. case ce_upstream env h req of (HttpOk _ _, _) \<Rightarrow> False | (HttpFail _ _ _, _) \<Rightarrow> True)"

definition idsFresh :: "ConnWorld \<Rightarrow> bool" where
  "idsFresh w \<longleftrightarrow> inj (cw_uuid w) \<and> (\<forall>n \<ge> cw_uuidNext w. \<forall>r \<in> set (cw_executions w). ex_id r \<noteq> cw_uuid w n)"

definition sameTables :: "ConnWorld \<Rightarrow> ConnWorld \<Rightarrow> bool" where
  "sameTables w w' \<longleftrightarrow> cw_connectors w' = cw_connectors w \<and> cw_capabilities w' = cw_capabilities w \<and>
     cw_rateLimits w' = cw_rateLimits w"

lemma idsFresh_freshId: "idsFresh w \<Longrightarrow> freshId tenantId w"
  by (auto simp: idsFresh_def freshId_def list_ex_iff)

lemma idsFresh_step:
  assumes "idsFresh w" "connectorFrame w w'" "cw_executions w' = cw_executions w @ [e]" "ex_id e = cw_uuid w (cw_uuidNext w)"
  shows "idsFresh w'"
  using assms by (auto simp: idsFresh_def connectorFrame_def inj_eq)

lemma callReaches_same: "sameTables w w' \<Longrightarrow> callReaches env key w' c = callReaches env key w c"
  by (cases c) (simp add: routable_def resolveCapability_def sameTables_def)

declare callReaches.simps [simp del]

lemma upstreamDown_fails:
  assumes "upstreamDown env"
  obtains st body msg latency where "ce_upstream env h req = (HttpFail st body msg, latency)"
proof (cases "ce_upstream env h req")
  case (Pair out latency)
  have "case ce_upstream env h req of (HttpOk _ _, _) \<Rightarrow> False | (HttpFail _ _ _, _) \<Rightarrow> True"
    using assms by (simp add: upstreamDown_def)
  with Pair that show ?thesis by (cases out) auto
qed

text \<open>One execution while the breaker admits it and the upstream is down.\<close>

lemma failing_execution:
  assumes "upstreamDown env" "callReaches env key w c" "idsFresh w" "cw_queueUp w"
    and "canRequest (ce_circuitOptions env) (cw_now w) (currentBreaker key w) = (True, b)"
  defines "w' \<equiv> snd (executeCall env c w)"
  shows "sameTables w w' \<and> idsFresh w' \<and> cw_queueUp w' \<and> length (cw_calls w') = length (cw_calls w) + 1 \<and>
    currentBreaker key w' = recordFailure (ce_circuitOptions env) (cw_now w') b"
proof -
  obtain tenantId capabilityType params options where c: "c = (tenantId, capabilityType, params, options)" by (cases c)
  with assms(2) obtain connector capability config params' where
    r: "routable env tenantId capabilityType params w connector capability config params'" "getBreakerGroupKey connector = key"
    by (auto simp: callReaches.simps)
  obtain st body msg latency where up: "ce_upstream env (cw_calls w) config = (HttpFail st body msg, latency)"
    using upstreamDown_fails [OF assms(1)] .
  have "admitted env tenantId capabilityType params w connector capability b config params'"
    using r assms(5) by (simp add: admitted_def)
  then have ex: "executeCall env c w = invoke env tenantId capabilityType params' options connector capability b config w"
    by (simp add: c execute_admitted)
  from invoke_failure [OF up idsFresh_freshId [OF assms(3)] assms(4), where capabilityType = capabilityType and params' = params'
      and options = options and connector = connector and capability = capability and breaker = b]
  obtain w1 where w1: "invoke env tenantId capabilityType params' options connector capability b config w =
        (Inl (HttpException 502 (''Connector invocation failed: '' @ failureMessage body msg)), w1)"
      "cw_calls w1 = cw_calls w @ [config]" "cw_now w1 = cw_now w + latency"
      "cw_breakers w1 = saveBreaker (cw_now w + latency) key
         (recordFailure (ce_circuitOptions env) (cw_now w + latency) b) (cw_breakers w)"
      "cw_executions w1 = cw_executions w @ [executionColumns (cw_now w + latency) tenantId
         ((if attemptOf options < maxRetries connector then markRetrying (cw_now w + latency) else id)
           (markFailed (cw_now w + latency) (failureMessage body msg) latency (failureCode st)
             (startedExecution tenantId connector capability options config w)))]" "connectorFrame w w1"
    unfolding r(2) by blast
  have "idsFresh w1" by (rule idsFresh_step [OF assms(3) w1(6,5)]) simp
  with w1 show ?thesis
    using assms(4) by (simp add: w'_def ex sameTables_def connectorFrame_def currentBreaker_def)
qed

section \<open>A sample world\<close>

text \<open>
  A small connector world for the witnesses: one active REST connector with one capability, an
  upstream that always gives the same answer, and, for the limiters, a limit row.
\<close>

definition sampleConnector :: Connector where
  "sampleConnector = \<lparr>cn_id = ''con-1'', cn_tenantId = ''t1'', cn_name = ''Shop'', cn_connectorType = REST_API,
     cn_baseUrl = Some ''https://api.example'', cn_authType = NONE, cn_status = ACTIVE, cn_config = sampleConfig, cn_deletedAt = None\<rparr>"

definition sampleCapability :: ConnectorCapability where
  "sampleCapability = \<lparr>cp_id = ''cap-1'', cp_tenantId = ''t1'', cp_connectorId = ''con-1'', cp_capabilityType = ''ORDER_TRACKING'',
     cp_name = ''track'', cp_method = ''GET'', cp_path = ''/orders/{orderId}'', cp_enabled = True, cp_createdAt = 0\<rparr>"

definition sampleConnWorld :: ConnWorld where
  "sampleConnWorld = \<lparr>cw_now = 1000, cw_uuid = (\<lambda>n. replicate n (CHR ''x'')), cw_uuidNext = 1, cw_tenantContext = Some ''t1'',
     cw_breakers = \<lparr>cm_isRedisAvailable = True, cm_redis = (\<lambda>_. None), cm_memoryCache = (\<lambda>_. None)\<rparr>,
     cw_redisUp = True, cw_counters = (\<lambda>_. None), cw_connectors = [sampleConnector], cw_capabilities = [sampleCapability],
     cw_credentials = [], cw_rateLimits = [], cw_executions = [], cw_logs = [], cw_queueUp = True, cw_jobs = [],
     cw_calls = [], cw_triggers = []\<rparr>"

definition sampleConnEnv :: "HttpOutcome \<Rightarrow> ConnEnv" where
  "sampleConnEnv out = \<lparr>ce_crypto = sampleCrypto, ce_circuitOptions = sampleOptions, ce_upstream = (\<lambda>_ _. (out, 25)),
     ce_decipherGcm = (\<lambda>_ _ t. Inr t), ce_decipherCbc = (\<lambda>_ t. Inr t), ce_encipherGcm = (\<lambda>_. ''0:0:0''),
     ce_jsonParse = (\<lambda>_. None), ce_tokenPost = (\<lambda>_ _. Inl (Error ''down''))\<rparr>"

definition noOptions :: ExecOptions where
  "noOptions = \<lparr>eo_workflowId = None, eo_conversationId = None, eo_ticketId = None, eo_idempotencyKey = None, eo_attempt = None\<rparr>"

definition sampleGet :: "string \<Rightarrow> AxiosRequestConfig" where
  "sampleGet url = \<lparr>ax_method = ''GET'', ax_url = url,
     ax_headers = [(''Content-Type'', ''application/json''), (''Accept'', ''application/json'')],
     ax_params = None, ax_data = None, ax_timeout = 10000\<rparr>"

lemma sample_routable:
  "routable (sampleConnEnv out) ''t1'' ''ORDER_TRACKING'' [(''orderId'', JStr ''A7'')] sampleConnWorld
     sampleConnector sampleCapability (sampleGet ''https://api.example/orders/A7'') []"
  by (simp add: routable_def) code_simp

lemma sample_fresh: "idsFresh sampleConnWorld"
  by (auto simp: idsFresh_def sampleConnWorld_def inj_def)

lemma sample_breaker: "currentBreaker key sampleConnWorld = new_CircuitBreaker None"
  by (simp add: currentBreaker_def getBreaker_def breakerSnapshot_def redisGet_def sampleConnWorld_def Let_def)

definition sampleLimit :: ConnectorRateLimit where
  "sampleLimit = \<lparr>rl_id = ''rl-1'', rl_tenantId = ''t1'', rl_connectorId = ''con-1'', rl_instanceId = None,
     rl_windowSeconds = 60, rl_maxRequests = 3, rl_currentUsage = 2, rl_resetAt = 5000, rl_createdAt = 0, rl_updatedAt = 0\<rparr>"

definition limitedWorld :: "bool \<Rightarrow> ConnWorld" where
  "limitedWorld redis = sampleConnWorld\<lparr>cw_redisUp := redis, cw_rateLimits := [sampleLimit]\<rparr>"

end
