(* ===== verification/Connector_Properties.thy ===== *)
theory Connector_Properties
  imports Connector_Engine_Facts
begin

text \<open>
  Properties of the connector engine: outcome and bookkeeping of one execution, the breaker that
  tenants share, the two rate limiters, retries, and idempotent execution.
\<close>

subsection \<open>The breaker tenants share\<close>

lemma runCalls_simps [simp]:
  "runCalls env [] w = w" "runCalls env (c # cs) w = runCalls env cs (snd (executeCall env c w))"
  by (simp_all add: runCalls_def)

lemma runCalls_append: "runCalls env (cs @ ds) w = runCalls env ds (runCalls env cs w)"
  by (simp add: runCalls_def)

lemma canRequest_closed: "cb_state b = CLOSED \<Longrightarrow> canRequest opts now b = (True, b)"
  by (simp add: canRequest_def)

lemma failing_run_below_threshold:
  assumes "upstreamDown env" "list_all (callReaches env key w) cs" "idsFresh w" "cw_queueUp w"
    and "cb_state (currentBreaker key w) = CLOSED"
    and "cb_failureCount (currentBreaker key w) + int (length cs) < failureThreshold (ce_circuitOptions env)"
  shows "sameTables w (runCalls env cs w) \<and> idsFresh (runCalls env cs w) \<and> cw_queueUp (runCalls env cs w) \<and>
    length (cw_calls (runCalls env cs w)) = length (cw_calls w) + length cs \<and>
    cb_state (currentBreaker key (runCalls env cs w)) = CLOSED \<and>
    cb_failureCount (currentBreaker key (runCalls env cs w)) = cb_failureCount (currentBreaker key w) + int (length cs)"
  using assms
proof (induction cs arbitrary: w)
  case Nil
  then show ?case by (simp add: sameTables_def)
next
  case (Cons c cs)
  let ?w = "snd (executeCall env c w)"
  have step: "sameTables w ?w \<and> idsFresh ?w \<and> cw_queueUp ?w \<and> length (cw_calls ?w) = length (cw_calls w) + 1 \<and>
      currentBreaker key ?w = recordFailure (ce_circuitOptions env) (cw_now ?w) (currentBreaker key w)"
    using Cons.prems by (intro failing_execution) (simp_all add: canRequest_closed)
  then have b: "cb_state (currentBreaker key ?w) = CLOSED"
      "cb_failureCount (currentBreaker key ?w) = cb_failureCount (currentBreaker key w) + 1"
    using Cons.prems by (simp_all add: recordFailure_def Let_def)
  have "list_all (callReaches env key ?w) cs"
    using Cons.prems(2) step by (auto simp: list_all_iff callReaches_same)
  from Cons.IH [OF Cons.prems(1) this] step b Cons.prems(6) show ?case
    by (simp add: sameTables_def)
qed



subsection \<open>Outcome of an execution\<close>

lemma attemptOf_set [simp]: "attemptOf (options\<lparr>eo_attempt := Some n\<rparr>) = orElse n 1"
  by (simp add: attemptOf_def)

lemma status_columns [simp]:
  "ex_status (executionColumns now tenantId e) = ex_status e" "ex_statusCode (executionColumns now tenantId e) = ex_statusCode e"
  "ex_attempt (executionColumns now tenantId e) = orElse (ex_attempt e) 1"
  "ex_status (markSuccess now st body l e) = SUCCESS" "ex_statusCode (markSuccess now st body l e) = Some st"
  "ex_status (markFailed now err l st e) = FAILED" "ex_statusCode (markFailed now err l st e) = Some st"
  "ex_status (markRetrying now e) = RETRYING" "ex_statusCode (markRetrying now e) = ex_statusCode e"
  "ex_attempt (markRetrying now e) = orElse (ex_attempt e) 1 + 1" "ex_attempt (markFailed now err l st e) = ex_attempt e"
  "ex_attempt (startedExecution tenantId connector capability options config w) = attemptOf options"
  by (simp_all add: execution_defs)

text \<open>C9: What one admitted execution leaves behind. A successful call returns the body, stores the
  execution as \<^verbatim>\<open>SUCCESS\<close> with the status of the response and counts as a success of the breaker. A
  failed call is answered with 502 and counts as a failure; below the retry limit of the connector the
  execution becomes \<^verbatim>\<open>RETRYING\<close> and exactly one retry job is queued, for the next attempt and
  \<^verbatim>\<open>2^attempt\<close> seconds later; at the limit it stays \<^verbatim>\<open>FAILED\<close> and an incident is opened instead, so a
  chain of retries ends.\<close>

theorem execution_outcome_matches_its_records:
  assumes "admitted env tenantId capabilityType params w connector capability breaker config params'"
    and "freshId tenantId w" "cw_queueUp w" "1 \<le> attemptOf options"
  shows "case ce_upstream env (cw_calls w) config of
      (HttpOk status body, latency) \<Rightarrow>
        (\<exists>w' e. execute env tenantId capabilityType params options w = (Inr (body, params'), w') \<and>
           cw_calls w' = cw_calls w @ [config] \<and> cw_executions w' = cw_executions w @ [e] \<and>
           ex_status e = SUCCESS \<and> ex_statusCode e = Some status \<and>
           currentBreaker (getBreakerGroupKey connector) w' = recordSuccess (ce_circuitOptions env) breaker)
    | (HttpFail st body msg, latency) \<Rightarrow>
        (\<exists>w' e j. execute env tenantId capabilityType params options w =
             (Inl (HttpException 502 (''Connector invocation failed: '' @ failureMessage body msg)), w') \<and>
           cw_calls w' = cw_calls w @ [config] \<and> cw_executions w' = cw_executions w @ [e] \<and> cw_jobs w' = cw_jobs w @ [j] \<and>
           ex_statusCode e = Some (failureCode st) \<and>
           currentBreaker (getBreakerGroupKey connector) w' =
             recordFailure (ce_circuitOptions env) (cw_now w + latency) breaker \<and>
           (if attemptOf options < maxRetries connector
            then ex_status e = RETRYING \<and> ex_attempt e = attemptOf options + 1 \<and>
                 qc_delay j = 2 ^ nat (attemptOf options) * 1000 \<and>
                 (\<exists>options'. qc_job j = ConnectorRetryJob tenantId capabilityType params' options' \<and>
                    attemptOf options' = attemptOf options + 1)
            else ex_status e = FAILED \<and>
                 qc_job j = AdminIncidentJob tenantId (''connector:'' @ cn_id connector)
                   (''Connector failed: '' @ cp_name capability) (failureMessage body msg)))"
proof (cases "ce_upstream env (cw_calls w) config")
  case (Pair out latency)
  show ?thesis
  proof (cases out)
    case (HttpOk status body)
    from invoke_success [OF Pair [unfolded HttpOk] assms(2)] execute_admitted [OF assms(1)] show ?thesis
      by (simp add: Pair HttpOk currentBreaker_def) fastforce
  next
    case (HttpFail st body msg)
    let ?e = "executionColumns (cw_now w + latency) tenantId
      ((if attemptOf options < maxRetries connector then markRetrying (cw_now w + latency) else id)
         (markFailed (cw_now w + latency) (failureMessage body msg) latency (failureCode st)
            (startedExecution tenantId connector capability options config w)))"
    let ?j = "\<lparr>qc_job = (if attemptOf options < maxRetries connector
        then ConnectorRetryJob tenantId capabilityType params' (options\<lparr>eo_attempt := Some (attemptOf options + 1)\<rparr>)
        else AdminIncidentJob tenantId (''connector:'' @ cn_id connector) (''Connector failed: '' @ cp_name capability)
          (failureMessage body msg)),
      qc_tenantContext = cw_tenantContext w,
      qc_delay = (if attemptOf options < maxRetries connector then 2 ^ nat (attemptOf options) * 1000 else 0)\<rparr>"
    from invoke_failure [OF Pair [unfolded HttpFail] assms(2,3), where capabilityType = capabilityType and params' = params'
      and options = options and connector = connector and capability = capability and breaker = breaker]
    obtain w' where w': "execute env tenantId capabilityType params options w =
          (Inl (HttpException 502 (''Connector invocation failed: '' @ failureMessage body msg)), w')"
        "cw_calls w' = cw_calls w @ [config]" "cw_executions w' = cw_executions w @ [?e]" "cw_jobs w' = cw_jobs w @ [?j]"
        "currentBreaker (getBreakerGroupKey connector) w' = recordFailure (ce_circuitOptions env) (cw_now w + latency) breaker"
      unfolding execute_admitted [OF assms(1)] currentBreaker_def by (metis getBreaker_saveBreaker)
    show ?thesis
      unfolding Pair HttpFail prod.case HttpOutcome.case
      by (rule exI [of _ w'], rule exI [of _ ?e], rule exI [of _ ?j])
        (use assms(4) in \<open>simp add: w' orElse_def\<close>)
  qed
qed

lemma sample_admitted:
  "admitted (sampleConnEnv out) ''t1'' ''ORDER_TRACKING'' [(''orderId'', JStr ''A7'')] sampleConnWorld
     sampleConnector sampleCapability (new_CircuitBreaker None) (sampleGet ''https://api.example/orders/A7'') []"
  using sample_routable by (simp add: admitted_def sample_breaker canRequest_def new_CircuitBreaker_def)

lemma sample_upstream [simp]: "ce_upstream (sampleConnEnv out) h req = (out, 25)"
  by (simp add: sampleConnEnv_def)

lemma sample_options [simp]: "attemptOf noOptions = 1" "maxRetries sampleConnector = 3"
  by (simp_all add: attemptOf_def noOptions_def maxRetries_def sampleConnector_def sampleConfig_def)

lemma sample_world [simp]: "cw_queueUp sampleConnWorld" "cw_jobs sampleConnWorld = []" "cw_executions sampleConnWorld = []"
  by (simp_all add: sampleConnWorld_def)

theorem execution_outcome_matches_its_records_witness:
  "\<exists>w' e j. execute (sampleConnEnv (HttpFail None None ''down'')) ''t1'' ''ORDER_TRACKING'' [(''orderId'', JStr ''A7'')] noOptions sampleConnWorld =
      (Inl (HttpException 502 (''Connector invocation failed: '' @ failureMessage None ''down'')), w') \<and>
    cw_executions w' = [e] \<and> cw_jobs w' = [j] \<and> ex_status e = RETRYING \<and> ex_statusCode e = Some 500 \<and> qc_delay j = 2000"
  using execution_outcome_matches_its_records
    [OF sample_admitted idsFresh_freshId [OF sample_fresh], of noOptions "HttpFail None None ''down''"]
  by (simp add: failureCode_def) blast

text \<open>The retry of a failed execution has lost the parameters of its path. The job queued for the
  next attempt carries only the parameters that filled no hole of the URL template, so every request
  prepared from the job goes to the template itself, with all its holes unfilled.\<close>

theorem retries_lose_the_path_parameters:
  assumes "admitted env tenantId capabilityType params w connector capability breaker config params'"
    and "freshId tenantId w" "cw_queueUp w" "attemptOf options < maxRetries connector"
    and "ce_upstream env (cw_calls w) config = (HttpFail st body msg, latency)"
    and "stripTrailingSlash (case cn_baseUrl connector of None \<Rightarrow> [] | Some u \<Rightarrow> u) = render bs"
    and "stripLeadingSlash (cp_path capability) = render ps" "list_all plainSegment (bs @ ps)"
    and "list_all plainEntry params" "distinct (map fst params)" "cn_connectorType connector \<notin> {SHOPIFY, SALESFORCE}"
  shows "ax_url config = render (map (fillSegment params) (bs @ Lit ''/'' # ps))
    \<and> (\<exists>w' j options'. snd (execute env tenantId capabilityType params options w) = w' \<and> cw_jobs w' = cw_jobs w @ [j] \<and>
         qc_job j = ConnectorRetryJob tenantId capabilityType (unusedBy (bs @ ps) params) options')
    \<and> (\<forall>config2 params2. prepareRequest (ce_crypto env) (cn_connectorType connector)
           (case cn_baseUrl connector of None \<Rightarrow> [] | Some u \<Rightarrow> u) (cp_method capability) (cp_path capability)
           (unusedBy (bs @ ps) params) NONE None (cn_config connector) = Inr (config2, params2) \<longrightarrow>
         ax_url config2 = render (bs @ Lit ''/'' # ps))"
proof -
  from assms(1) have req: "prepareRequest (ce_crypto env) (cn_connectorType connector)
      (case cn_baseUrl connector of None \<Rightarrow> [] | Some u \<Rightarrow> u) (cp_method capability) (cp_path capability) params NONE None
      (cn_config connector) = Inr (config, params')"
    by (simp add: admitted_def routable_def)
  note filled = prepared_url_filled [OF assms(6-8) _ _ assms(11)]
  have first: "ax_url config = render (map (fillSegment params) (bs @ Lit ''/'' # ps))" "params' = unusedBy (bs @ ps) params"
    using filled [OF assms(9,10) req] by simp_all
  have verbatim: "map (fillSegment (unusedBy (bs @ ps) params)) (bs @ Lit ''/'' # ps) = bs @ Lit ''/'' # ps"
    by (rule map_idI) (auto simp: fillSegment_unused)
  have "\<exists>w' j options'. snd (execute env tenantId capabilityType params options w) = w' \<and> cw_jobs w' = cw_jobs w @ [j] \<and>
      qc_job j = ConnectorRetryJob tenantId capabilityType params' options'"
    using invoke_failure [OF assms(5) assms(2,3), where capabilityType = capabilityType and params' = params'
      and options = options and connector = connector and capability = capability and breaker = breaker] assms(4)
    unfolding execute_admitted [OF assms(1)] by auto
  moreover have "ax_url config2 = render (bs @ Lit ''/'' # ps)"
    if "prepareRequest (ce_crypto env) (cn_connectorType connector)
      (case cn_baseUrl connector of None \<Rightarrow> [] | Some u \<Rightarrow> u) (cp_method capability) (cp_path capability)
      (unusedBy (bs @ ps) params) NONE None (cn_config connector) = Inr (config2, params2)" for config2 params2
    using filled [OF plain_unused [OF assms(9)] distinct_unused [OF assms(10)] that] verbatim by simp
  ultimately show ?thesis using first by simp
qed

theorem retries_lose_the_path_parameters_witness:
  "\<exists>w' j options'. snd (execute (sampleConnEnv (HttpFail None None ''down'')) ''t1'' ''ORDER_TRACKING''
      [(''orderId'', JStr ''A7'')] noOptions sampleConnWorld) = w' \<and> cw_jobs w' = [] @ [j] \<and>
    qc_job j = ConnectorRetryJob ''t1'' ''ORDER_TRACKING'' [] options'"
proof -
  have t: "stripTrailingSlash (case cn_baseUrl sampleConnector of None \<Rightarrow> [] | Some u \<Rightarrow> u) = render [Lit ''https://api.example'']"
    "stripLeadingSlash (cp_path sampleCapability) = render [Lit ''orders/'', Hole ''orderId'']"
    "list_all plainSegment ([Lit ''https://api.example''] @ [Lit ''orders/'', Hole ''orderId''])"
    "list_all plainEntry [(''orderId'', JStr ''A7'')]" "distinct (map fst [(''orderId'', JStr ''A7'')])"
    "cn_connectorType sampleConnector \<notin> {SHOPIFY, SALESFORCE}"
    "unusedBy ([Lit ''https://api.example''] @ [Lit ''orders/'', Hole ''orderId'']) [(''orderId'', JStr ''A7'')] = []"
    by code_simp+
  show ?thesis
    using retries_lose_the_path_parameters [OF sample_admitted idsFresh_freshId [OF sample_fresh] _ _ sample_upstream t(1-6), of noOptions]
    unfolding t(7) by simp
qed

subsection \<open>Idempotent execution\<close>

lemma sort_key_newest:
  assumes "\<And>x. x \<in> set xs \<Longrightarrow> f e < f x"
  shows "sort_key f (xs @ [e]) = e # sort_key f xs"
proof -
  have "foldr (insort_key f) xs [e] = e # foldr (insort_key f) xs []"
    using assms
  proof (induction xs)
    case (Cons x xs)
    from Cons.prems [of x] have "\<not> f x \<le> f e" by simp
    with Cons show ?case by simp
  qed simp
  then show ?thesis by (simp add: sort_key_def)
qed

lemma idempotent_answer:
  assumes "findExecutionByIdempotency tenantId k w = Some e" "ex_status e = SUCCESS" "eo_idempotencyKey options = Some k" "k \<noteq> []"
  shows "executeCapability env tenantId capabilityType params options w = (Inr (ex_responsePayload e), w)"
  using assms by (simp add: executeCapability_def andThen_app inTemplate_def)

lemma no_idempotent_answer:
  assumes "\<And>e. findExecutionByIdempotency tenantId k w = Some e \<Longrightarrow> ex_status e \<noteq> SUCCESS" "eo_idempotencyKey options = Some k" "k \<noteq> []"
  shows "executeCapability env tenantId capabilityType params options w =
    executeAndTrigger env tenantId capabilityType params options w"
  using assms by (cases "findExecutionByIdempotency tenantId k w") (simp_all add: executeCapability_def andThen_app inTemplate_def)

lemma findExecution_member:
  assumes "findExecutionByIdempotency tenantId k w = Some e"
  shows "e \<in> set (cw_executions w) \<and> ex_tenantId e = tenantId \<and> ex_idempotencyKey e = Some k"
proof -
  let ?rows = "filter (\<lambda>r. ex_tenantId r = tenantId \<and> ex_idempotencyKey r = Some k) (cw_executions w)"
  from assms obtain rest where "sort_key (\<lambda>r. - ex_createdAt r) ?rows = e # rest"
    by (auto simp: findExecutionByIdempotency_def split: list.splits)
  then have "e \<in> set (sort_key (\<lambda>r. - ex_createdAt r) ?rows)" by simp
  then show ?thesis by simp
qed

lemma findExecution_newest:
  assumes "cw_executions w' = cw_executions w @ [e]" "ex_tenantId e = tenantId" "ex_idempotencyKey e = Some k"
    and "\<And>r. r \<in> set (cw_executions w) \<Longrightarrow> ex_tenantId r = tenantId \<Longrightarrow> ex_idempotencyKey r = Some k \<Longrightarrow> ex_createdAt r < ex_createdAt e"
  shows "findExecutionByIdempotency tenantId k w' = Some e"
proof -
  let ?rows = "filter (\<lambda>r. ex_tenantId r = tenantId \<and> ex_idempotencyKey r = Some k) (cw_executions w)"
  have "sort_key (\<lambda>r. - ex_createdAt r) (?rows @ [e]) = e # sort_key (\<lambda>r. - ex_createdAt r) ?rows"
    using assms(4) by (intro sort_key_newest) auto
  then show ?thesis using assms(1-3) by (simp add: findExecutionByIdempotency_def)
qed



end
