(* ===== verification/Connector_Limits.thy ===== *)
theory Connector_Limits
  imports Connector_Engine_Facts
begin

text \<open>
  The two rate limiters behind \<^verbatim>\<open>ExecutionEngine.checkRateLimit\<close>. The fixed window kept in the
  database admits exactly its budget; the counter kept in Redis is compared with the wrong side of
  the limit and admits everything. Both are shown for any sequence of checks at given times.
\<close>

fun checksAt :: "uid \<Rightarrow> uid \<Rightarrow> millis list \<Rightarrow> ConnWorld \<Rightarrow> (exn + bool) list \<times> ConnWorld" where
  "checksAt tenantId connectorId [] w = ([], w)"
| "checksAt tenantId connectorId (t # ts) w =
     (let (r, w1) = checkRateLimit tenantId connectorId (w\<lparr>cw_now := t\<rparr>);
          (rs, w2) = checksAt tenantId connectorId ts w1
      in (r # rs, w2))"

lemma checksAt_step:
  assumes "checkRateLimit tenantId connectorId (w\<lparr>cw_now := t\<rparr>) = (r, w1)"
  shows "fst (checksAt tenantId connectorId (t # ts) w) = r # fst (checksAt tenantId connectorId ts w1)"
  using assms by (simp add: case_prod_unfold Let_def)

declare checksAt.simps(2) [simp del]

text \<open>The row of a limit as the limiter sees it.\<close>

definition limitIs :: "uid \<Rightarrow> uid \<Rightarrow> ConnWorld \<Rightarrow> int \<times> int \<times> int \<times> millis \<Rightarrow> bool" where
  "limitIs tenantId connectorId w cols \<longleftrightarrow>
     map_option limitColumns (getRateLimit tenantId connectorId (cw_rateLimits w)) = Some cols"

lemma limitIs_now [simp]: "limitIs tenantId connectorId (w\<lparr>cw_now := t\<rparr>) cols = limitIs tenantId connectorId w cols"
  by (simp add: limitIs_def)

lemma limitIsE:
  assumes "limitIs tenantId connectorId w (win, mx, usage, resetAt)"
  obtains l where "getRateLimit tenantId connectorId (cw_rateLimits w) = Some l" "windowSeconds l = win" "maxRequests l = mx"
    "rl_currentUsage l = usage" "rl_resetAt l = resetAt" "rl_tenantId l = tenantId" "rl_connectorId l = connectorId"
proof -
  from assms obtain l where l: "getRateLimit tenantId connectorId (cw_rateLimits w) = Some l"
      "limitColumns l = (win, mx, usage, resetAt)"
    by (auto simp: limitIs_def)
  then have "rl_tenantId l = tenantId" "rl_connectorId l = connectorId"
    by (auto simp: getRateLimit_def rateLimitToDomain_def sameLimit_def dest!: find_Some_set)
  with l show ?thesis by (intro that [of l]) (simp_all add: limitColumns_def)
qed

lemma limitIs_upsert:
  assumes "rl_tenantId l = tenantId" "rl_connectorId l = connectorId"
  shows "limitIs tenantId connectorId (w\<lparr>cw_rateLimits := upsertRateLimit now l tenantId (cw_rateLimits w)\<rparr>) (limitColumns l)"
  using rate_limits.lookup_put [of l now "cw_rateLimits w"] assms by (simp add: limitIs_def)

subsection \<open>The window in the database\<close>

definition windowAt :: "millis \<Rightarrow> int \<times> int \<times> int \<times> millis \<Rightarrow> int \<times> int \<times> int \<times> millis" where
  "windowAt t cols = (case cols of (win, mx, usage, resetAt) \<Rightarrow>
     if resetAt \<le> t then (win, mx, 0, t + win * 1000) else cols)"

lemma db_check:
  assumes "\<not> cw_redisUp w" "limitIs tenantId connectorId w cols" "windowAt t cols = (win, mx, usage, resetAt)"
  shows "if mx \<le> usage then checkRateLimit tenantId connectorId (w\<lparr>cw_now := t\<rparr>) = (Inr True, w\<lparr>cw_now := t\<rparr>)
    else (\<exists>w'. checkRateLimit tenantId connectorId (w\<lparr>cw_now := t\<rparr>) = (Inr False, w') \<and> \<not> cw_redisUp w' \<and>
      limitIs tenantId connectorId w' (win, mx, usage + 1, resetAt))"
proof -
  obtain win0 mx0 usage0 resetAt0 where cols: "cols = (win0, mx0, usage0, resetAt0)" by (cases cols)
  from assms(2) obtain l where l: "getRateLimit tenantId connectorId (cw_rateLimits w) = Some l" "windowSeconds l = win0"
      "maxRequests l = mx0" "rl_currentUsage l = usage0" "rl_resetAt l = resetAt0" "rl_tenantId l = tenantId" "rl_connectorId l = connectorId"
    unfolding cols by (rule limitIsE)
  let ?r = "rollWindowIfNeeded t l"
  have r: "maxRequests ?r = mx" "rl_currentUsage ?r = usage" "rl_resetAt ?r = resetAt" "windowSeconds ?r = win"
      "rl_tenantId ?r = tenantId" "rl_connectorId ?r = connectorId"
    using assms(3) l(2-7) unfolding cols
    by (auto simp: rollWindowIfNeeded_def windowAt_def maxRequests_def windowSeconds_def split: if_splits)
  show ?thesis
  proof (cases "mx \<le> usage")
    case True
    then show ?thesis using assms(1) l(1) r
      by (simp add: checkRateLimit_def checkDbLimit_def consume_def Let_def)
  next
    case False
    let ?l = "?r\<lparr>rl_currentUsage := usage + 1, rl_updatedAt := t\<rparr>"
    have "limitColumns ?l = (win, mx, usage + 1, resetAt)"
      using r by (simp add: limitColumns_def maxRequests_def windowSeconds_def)
    then have "limitIs tenantId connectorId ((w\<lparr>cw_now := t\<rparr>)\<lparr>cw_rateLimits := upsertRateLimit t ?l tenantId (cw_rateLimits w)\<rparr>)
        (win, mx, usage + 1, resetAt)"
      using limitIs_upsert [of ?l tenantId connectorId t "w\<lparr>cw_now := t\<rparr>"] r by simp
    then show ?thesis using False assms(1) l(1) r
      by (simp add: checkRateLimit_def checkDbLimit_def consume_def Let_def)
  qed
qed

lemma db_checks_in_window:
  assumes "\<not> cw_redisUp w" "limitIs tenantId connectorId w (win, mx, usage, resetAt)" "usage \<le> mx"
    and "\<And>t. t \<in> set ts \<Longrightarrow> t < resetAt"
  shows "fst (checksAt tenantId connectorId ts w) =
    map Inr (replicate (min (length ts) (nat (mx - usage))) False @ replicate (length ts - nat (mx - usage)) True)"
  using assms
proof (induction ts arbitrary: w usage)
  case (Cons t ts)
  from Cons.prems(4) [of t] have win: "windowAt t (win, mx, usage, resetAt) = (win, mx, usage, resetAt)" by (simp add: windowAt_def)
  note chk = db_check [OF Cons.prems(1,2) win]
  show ?case
  proof (cases "mx \<le> usage")
    case True
    with chk have step: "checkRateLimit tenantId connectorId (w\<lparr>cw_now := t\<rparr>) = (Inr True, w\<lparr>cw_now := t\<rparr>)" by simp
    from Cons.IH [of "w\<lparr>cw_now := t\<rparr>" usage] Cons.prems True show ?thesis
      by (simp add: checksAt_step [OF step])
  next
    case False
    with chk obtain w' where step: "checkRateLimit tenantId connectorId (w\<lparr>cw_now := t\<rparr>) = (Inr False, w')"
      and w': "\<not> cw_redisUp w'" "limitIs tenantId connectorId w' (win, mx, usage + 1, resetAt)" by auto
    obtain k where k: "nat (mx - usage) = Suc k" "nat (mx - (usage + 1)) = k"
      using False by (cases "nat (mx - usage)") auto
    from Cons.IH [OF w'] Cons.prems(4) False show ?thesis
      by (simp add: checksAt_step [OF step] k)
  qed
qed simp

text \<open>C22: With Redis unavailable the limit of a connector is a fixed window kept in its row. Within
  the current window exactly the unused part of the budget is admitted and every further check is
  refused; a check after the window has ended opens a new one, in which exactly \<^verbatim>\<open>maxRequests\<close> checks
  are admitted whatever was used before.\<close>

theorem database_window_admits_exactly_its_budget:
  assumes "\<not> cw_redisUp w" "limitIs tenantId connectorId w (win, mx, usage, resetAt)" "usage \<le> mx" "1 \<le> mx"
    and "\<And>t. t \<in> set ts \<Longrightarrow> t < resetAt"
    and "resetAt \<le> t0" "\<And>t. t \<in> set us \<Longrightarrow> t < t0 + win * 1000"
  shows "fst (checksAt tenantId connectorId ts w) =
      map Inr (replicate (min (length ts) (nat (mx - usage))) False @ replicate (length ts - nat (mx - usage)) True)
    \<and> fst (checksAt tenantId connectorId (t0 # us) w) =
      map Inr (replicate (min (length us + 1) (nat mx)) False @ replicate (length us + 1 - nat mx) True)"
proof
  show "fst (checksAt tenantId connectorId ts w) =
      map Inr (replicate (min (length ts) (nat (mx - usage))) False @ replicate (length ts - nat (mx - usage)) True)"
    by (rule db_checks_in_window [OF assms(1-3)]) (rule assms(5))
  have "windowAt t0 (win, mx, usage, resetAt) = (win, mx, 0, t0 + win * 1000)" using assms(6) by (simp add: windowAt_def)
  from db_check [OF assms(1,2) this] assms(4)
  obtain w' where step: "checkRateLimit tenantId connectorId (w\<lparr>cw_now := t0\<rparr>) = (Inr False, w')"
    and w': "\<not> cw_redisUp w'" "limitIs tenantId connectorId w' (win, mx, 1, t0 + win * 1000)" by auto
  obtain k where k: "nat mx = Suc k" "nat (mx - 1) = k" using assms(4) by (cases "nat mx") auto
  have "fst (checksAt tenantId connectorId us w') =
      map Inr (replicate (min (length us) (nat (mx - 1))) False @ replicate (length us - nat (mx - 1)) True)"
    by (rule db_checks_in_window [OF w' assms(4)]) (rule assms(7))
  then show "fst (checksAt tenantId connectorId (t0 # us) w) =
      map Inr (replicate (min (length us + 1) (nat mx)) False @ replicate (length us + 1 - nat mx) True)"
    by (simp add: checksAt_step [OF step] k)
qed

lemma sample_limitIs: "limitIs ''t1'' ''con-1'' (limitedWorld redis) (60, 3, 2, 5000)"
  by (simp add: limitIs_def limitedWorld_def getRateLimit_def sameLimit_def sampleLimit_def rateLimitToDomain_def
      limitColumns_def windowSeconds_def maxRequests_def orElse_def)

theorem database_window_admits_exactly_its_budget_witness:
  "fst (checksAt ''t1'' ''con-1'' [1000, 2000] (limitedWorld False)) =
      map Inr (replicate (min (length [1000, 2000 :: int]) (nat (3 - 2))) False @ replicate (length [1000, 2000 :: int] - nat (3 - 2)) True)
    \<and> fst (checksAt ''t1'' ''con-1'' (6000 # [6001, 6002, 6003]) (limitedWorld False)) =
      map Inr (replicate (min (length [6001, 6002, 6003 :: int] + 1) (nat 3)) False @ replicate (length [6001, 6002, 6003 :: int] + 1 - nat 3) True)"
  by (rule database_window_admits_exactly_its_budget [OF _ sample_limitIs]) (auto simp: limitedWorld_def)

subsection \<open>The counter in Redis\<close>

text \<open>A limit is in force with a counter that has not passed it.\<close>

definition counterWithin :: "uid \<Rightarrow> uid \<Rightarrow> int \<Rightarrow> ConnWorld \<Rightarrow> bool" where
  "counterWithin tenantId connectorId mx w \<longleftrightarrow>
     (case cw_counters w (rateKey tenantId connectorId) of None \<Rightarrow> True | Some (n, _) \<Rightarrow> n \<le> mx)"

lemma rateScript_within:
  assumes "1 \<le> mx" "1 \<le> win" "case cs key of None \<Rightarrow> True | Some (n, _) \<Rightarrow> n \<le> mx"
  shows "\<exists>n cs'. rateScript t key mx win cs = (Inr n, cs') \<and> n \<le> mx \<and>
    (case cs' key of None \<Rightarrow> True | Some (n, _) \<Rightarrow> n \<le> mx)"
proof (cases "liveCounter t key cs")
  case None
  with assms show ?thesis by (simp add: rateScript_def)
next
  case (Some n)
  then have "n \<le> mx" using assms(3) by (auto simp: liveCounter_def split: option.splits if_splits)
  with Some assms show ?thesis by (cases "mx \<le> n") (simp_all add: rateScript_def)
qed

lemma redis_check:
  assumes "cw_redisUp w" "limitIs tenantId connectorId w (win, mx, usage, resetAt)" "1 \<le> mx" "1 \<le> win"
    and "counterWithin tenantId connectorId mx w"
  shows "\<exists>w' usage'. checkRateLimit tenantId connectorId (w\<lparr>cw_now := t\<rparr>) = (Inr False, w') \<and> cw_redisUp w' \<and>
    limitIs tenantId connectorId w' (win, mx, usage', resetAt) \<and> counterWithin tenantId connectorId mx w'"
proof -
  let ?key = "rateKey tenantId connectorId"
  from assms(2) obtain l where l: "getRateLimit tenantId connectorId (cw_rateLimits w) = Some l" "windowSeconds l = win"
      "maxRequests l = mx" "rl_currentUsage l = usage" "rl_resetAt l = resetAt" "rl_tenantId l = tenantId" "rl_connectorId l = connectorId"
    by (rule limitIsE)
  obtain n cs where script: "rateScript t ?key mx win (cw_counters w) = (Inr n, cs)" "n \<le> mx"
      "case cs ?key of None \<Rightarrow> True | Some (n, _) \<Rightarrow> n \<le> mx"
    using rateScript_within [of mx win "cw_counters w" ?key t] assms(3-5) by (auto simp: counterWithin_def)
  have sync: "limitIs tenantId connectorId (syncRateLimitUsage tenantId l n v) (win, mx, n, resetAt)"
    if "cw_rateLimits v = cw_rateLimits w" for v
  proof -
    have "limitColumns (updateUsage (cw_now v) n l) = (win, mx, n, resetAt)"
      using l by (simp add: limitColumns_def updateUsage_def windowSeconds_def maxRequests_def)
    then show ?thesis
      using limitIs_upsert [of "updateUsage (cw_now v) n l" tenantId connectorId "cw_now v" v] l
      by (simp add: syncRateLimitUsage_def updateUsage_def)
  qed
  have keep: "limitIs tenantId connectorId ((w\<lparr>cw_now := t\<rparr>)\<lparr>cw_counters := cs\<rparr>) (win, mx, usage, resetAt)"
    using assms(2) by (simp add: limitIs_def)
  show ?thesis
  proof (cases "n mod 10 = 0 \<or> mx \<le> n")
    case True
    then show ?thesis
      using assms(1) l(1-3) script sync [of "(w\<lparr>cw_now := t\<rparr>)\<lparr>cw_counters := cs\<rparr>"]
      by (auto simp: checkRateLimit_def Let_def counterWithin_def syncRateLimitUsage_def)
  next
    case False
    then show ?thesis
      using assms(1) l(1-3) script keep by (auto simp: checkRateLimit_def Let_def counterWithin_def)
  qed
qed

text \<open>With Redis available the limit is never enforced: the script stops counting at
  \<^verbatim>\<open>maxRequests\<close> and the caller refuses only a count above it, so however many checks are made and
  whenever they are made, every one is admitted.\<close>

theorem redis_limit_never_refuses:
  assumes "cw_redisUp w" "limitIs tenantId connectorId w (win, mx, usage, resetAt)" "1 \<le> mx" "1 \<le> win"
    and "counterWithin tenantId connectorId mx w"
  shows "fst (checksAt tenantId connectorId ts w) = replicate (length ts) (Inr False)"
  using assms
proof (induction ts arbitrary: w usage)
  case (Cons t ts)
  from redis_check [OF Cons.prems, of t] obtain w' usage' where
    step: "checkRateLimit tenantId connectorId (w\<lparr>cw_now := t\<rparr>) = (Inr False, w')"
    and w': "cw_redisUp w'" "limitIs tenantId connectorId w' (win, mx, usage', resetAt)" "counterWithin tenantId connectorId mx w'"
    by blast
  from Cons.IH [OF w'(1,2) Cons.prems(3,4) w'(3)] show ?case by (simp add: checksAt_step [OF step])
qed simp

theorem redis_limit_never_refuses_witness:
  "fst (checksAt ''t1'' ''con-1'' [1000, 1001, 1002, 1003, 1004] (limitedWorld True)) =
     replicate (length [1000, 1001, 1002, 1003, 1004 :: int]) (Inr False)"
  by (rule redis_limit_never_refuses [OF _ sample_limitIs])
    (simp_all add: counterWithin_def limitedWorld_def sampleConnWorld_def)

end
