(* ===== verification/Queue_Worker.thy ===== *)
theory Queue_Worker
  imports Prelude
begin

text \<open>
  The base class of the queue workers (\<^verbatim>\<open>packages/shared-queues/src/base-worker.ts\<close>) and the
  dead-letter side of the queue service. The handler of a worker is an argument. The queue itself is
  a library: how often it delivers a failing job and which \<^verbatim>\<open>attemptsMade\<close> the worker reads in each
  delivery are arguments of \<open>deliveries\<close>.
\<close>

record WorkerJob =
  wj_id :: "string option"
  wj_name :: string
  wj_attempts :: "nat option"
  wj_attemptsMade :: nat
  wj_tenantId :: "uid option"
  wj_data :: json

record DeadLetterPayload =
  dl_sourceQueue :: string
  dl_jobName :: string
  dl_originalJobId :: "string option"
  dl_attemptsMade :: nat
  dl_failedReason :: string
  dl_failedAt :: millis
  dl_tenantId :: "uid option"
  dl_data :: json

record QueueWorld =
  qw_now :: millis
  qw_tenantContext :: "uid option"
  qw_dlqUp :: bool
  qw_dead :: "DeadLetterPayload list"

text \<open>\<^verbatim>\<open>RETRY_POLICIES\<close>: the attempts of each policy; \<^verbatim>\<open>DEFAULT_JOB_OPTIONS\<close> spreads the first.\<close>

datatype RetryPolicyName = DEFAULT_POLICY | CRITICAL_POLICY | NONE_POLICY

fun policyAttempts :: "RetryPolicyName \<Rightarrow> nat" where
  "policyAttempts DEFAULT_POLICY = 3"
| "policyAttempts CRITICAL_POLICY = 5"
| "policyAttempts NONE_POLICY = 1"

definition moveToDeadLetter :: "string \<Rightarrow> WorkerJob \<Rightarrow> exn \<Rightarrow> (QueueWorld, unit) svc" where
  "moveToDeadLetter sourceQueue job err = (\<lambda>w.
     if qw_dlqUp w
     then (Inr (), w\<lparr>qw_dead := qw_dead w @
            [\<lparr>dl_sourceQueue = sourceQueue, dl_jobName = wj_name job, dl_originalJobId = wj_id job,
              dl_attemptsMade = wj_attemptsMade job, dl_failedReason = message err, dl_failedAt = qw_now w,
              dl_tenantId = (case wj_tenantId job of None \<Rightarrow> qw_tenantContext w | Some t \<Rightarrow> Some t),
              dl_data = wj_data job\<rparr>]\<rparr>)
     else (Inl (Error ''Connection is closed.''), w))"

text \<open>A worker without a source queue or a queue service only logs.\<close>

definition routeToDeadLetter :: "string option \<Rightarrow> WorkerJob \<Rightarrow> exn \<Rightarrow> (QueueWorld, unit) svc" where
  "routeToDeadLetter sourceQueue job err =
     (case sourceQueue of
        None \<Rightarrow> ret ()
      | Some q \<Rightarrow> tryCatch (moveToDeadLetter q job err) (\<lambda>_. ret ()))"

definition handleFailure :: "string option \<Rightarrow> WorkerJob \<Rightarrow> exn \<Rightarrow> (QueueWorld, unit) svc" where
  "handleFailure sourceQueue job err =
     (let maxAttempts = (case wj_attempts job of None \<Rightarrow> 1 | Some n \<Rightarrow> n)
      in if wj_attemptsMade job < maxAttempts then ret () else routeToDeadLetter sourceQueue job err)"

text \<open>\<^verbatim>\<open>TenantContext.run\<close>: the context holds while the body runs.\<close>

definition withTenant :: "uid \<Rightarrow> (QueueWorld, 'a) svc \<Rightarrow> (QueueWorld, 'a) svc" where
  "withTenant tenantId m = (\<lambda>w.
     let (r, w') = m (w\<lparr>qw_tenantContext := Some tenantId\<rparr>) in (r, w'\<lparr>qw_tenantContext := qw_tenantContext w\<rparr>))"

definition processJob :: "string option \<Rightarrow> (WorkerJob \<Rightarrow> (QueueWorld, 'a) svc) \<Rightarrow> WorkerJob \<Rightarrow> (QueueWorld, 'a) svc" where
  "processJob sourceQueue handleJob job =
     (let run = tryCatch (handleJob job) (\<lambda>e. andThen (handleFailure sourceQueue job e) (\<lambda>_. throw e))
      in if truthy (wj_tenantId job) then withTenant (the (wj_tenantId job)) run else run)"

text \<open>The event handler for jobs the stalled-job checker gave up on.\<close>

definition onFailedEvent :: "string option \<Rightarrow> WorkerJob option \<Rightarrow> string \<Rightarrow> exn \<Rightarrow> (QueueWorld, unit) svc" where
  "onFailedEvent sourceQueue job errName err =
     (case job of
        None \<Rightarrow> ret ()
      | Some j \<Rightarrow> if errName \<noteq> ''UnrecoverableError'' then ret () else routeToDeadLetter sourceQueue j err)"

text \<open>The queue delivers the job until a delivery succeeds or \<open>n\<close> deliveries failed; in delivery \<open>k\<close>
  the worker reads the count \<open>made k\<close>.\<close>

fun deliveries :: "string option \<Rightarrow> (WorkerJob \<Rightarrow> (QueueWorld, 'a) svc) \<Rightarrow> (nat \<Rightarrow> nat) \<Rightarrow> WorkerJob \<Rightarrow> nat \<Rightarrow> nat
    \<Rightarrow> QueueWorld \<Rightarrow> QueueWorld" where
  "deliveries q h made job k 0 w = w"
| "deliveries q h made job k (Suc n) w =
     (case processJob q h (job\<lparr>wj_attemptsMade := made k\<rparr>) w of
        (Inr _, w') \<Rightarrow> w'
      | (Inl _, w') \<Rightarrow> deliveries q h made job (Suc k) n w')"

subsection \<open>When a failing job reaches the dead-letter queue\<close>

definition alwaysFails :: "(WorkerJob \<Rightarrow> (QueueWorld, 'a) svc) \<Rightarrow> bool" where
  "alwaysFails h \<longleftrightarrow> (\<forall>job w. \<exists>e. h job w = (Inl e, w))"

lemma handleFailure_early:
  "wj_attemptsMade job < (case wj_attempts job of None \<Rightarrow> 1 | Some n \<Rightarrow> n) \<Longrightarrow> handleFailure q job e w = (Inr (), w)"
  by (simp add: handleFailure_def)

lemma handleFailure_last:
  assumes "(case wj_attempts job of None \<Rightarrow> 1 | Some n \<Rightarrow> n) \<le> wj_attemptsMade job" "qw_dlqUp w"
  shows "\<exists>w' d. handleFailure (Some q) job e w = (Inr (), w') \<and> qw_dead w' = qw_dead w @ [d] \<and> dl_data d = wj_data job \<and>
    dl_sourceQueue d = q \<and> qw_dlqUp w' \<and> qw_tenantContext w' = qw_tenantContext w"
  using assms by (simp add: handleFailure_def routeToDeadLetter_def moveToDeadLetter_def tryCatch_app)

lemma process_failing_early:
  assumes "alwaysFails h" "wj_attemptsMade job < (case wj_attempts job of None \<Rightarrow> 1 | Some n \<Rightarrow> n)"
  shows "\<exists>e. processJob q h job w = (Inl e, w)"
proof -
  obtain e where "h job (if truthy (wj_tenantId job) then w\<lparr>qw_tenantContext := Some (the (wj_tenantId job))\<rparr> else w) =
      (Inl e, if truthy (wj_tenantId job) then w\<lparr>qw_tenantContext := Some (the (wj_tenantId job))\<rparr> else w)"
    using assms(1) by (auto simp: alwaysFails_def)
  then show ?thesis
    by (simp add: processJob_def withTenant_def svc_simps handleFailure_early [OF assms(2)] split: if_splits)
qed

lemma process_failing_last:
  assumes "alwaysFails h" "(case wj_attempts job of None \<Rightarrow> 1 | Some n \<Rightarrow> n) \<le> wj_attemptsMade job" "qw_dlqUp w"
  shows "\<exists>e w' d. processJob (Some q) h job w = (Inl e, w') \<and> qw_dead w' = qw_dead w @ [d] \<and> dl_data d = wj_data job \<and>
    dl_sourceQueue d = q"
proof -
  let ?w = "if truthy (wj_tenantId job) then w\<lparr>qw_tenantContext := Some (the (wj_tenantId job))\<rparr> else w"
  obtain e where h: "h job ?w = (Inl e, ?w)" using assms(1) by (auto simp: alwaysFails_def)
  have "qw_dlqUp ?w" using assms(3) by simp
  from handleFailure_last [OF assms(2) this] obtain w' d where
    "handleFailure (Some q) job e ?w = (Inr (), w')" "qw_dead w' = qw_dead ?w @ [d]" "dl_data d = wj_data job" "dl_sourceQueue d = q"
    by blast
  with h show ?thesis
    by (cases "truthy (wj_tenantId job)") (auto simp: processJob_def withTenant_def svc_simps)
qed

lemma deliveries_early:
  assumes "alwaysFails h" "\<And>i. k \<le> i \<Longrightarrow> i < k + n \<Longrightarrow> made i < (case wj_attempts job of None \<Rightarrow> 1 | Some m \<Rightarrow> m)"
  shows "deliveries q h made job k n w = w"
  using assms(2)
proof (induction n arbitrary: k)
  case (Suc n)
  have "made k < (case wj_attempts job of None \<Rightarrow> 1 | Some m \<Rightarrow> m)" by (rule Suc.prems) simp_all
  then obtain e where "processJob q h (job\<lparr>wj_attemptsMade := made k\<rparr>) w = (Inl e, w)"
    using process_failing_early [OF assms(1), of "job\<lparr>wj_attemptsMade := made k\<rparr>" q w] by auto
  moreover have "deliveries q h made job (Suc k) n w = w" by (rule Suc.IH) (simp add: Suc.prems)
  ultimately show ?case by simp
qed simp

lemma handleFailure_returns: "\<exists>w'. handleFailure q job e w = (Inr (), w')"
  by (cases q) (simp_all add: handleFailure_def routeToDeadLetter_def moveToDeadLetter_def tryCatch_app Let_def)

lemma process_fails:
  assumes "alwaysFails h"
  shows "\<exists>e w'. processJob q h job w = (Inl e, w')"
proof -
  let ?w = "if truthy (wj_tenantId job) then w\<lparr>qw_tenantContext := Some (the (wj_tenantId job))\<rparr> else w"
  obtain e where h: "h job ?w = (Inl e, ?w)" using assms by (auto simp: alwaysFails_def)
  obtain w' where "handleFailure q job e ?w = (Inr (), w')" using handleFailure_returns by blast
  with h show ?thesis
    by (cases "truthy (wj_tenantId job)") (simp_all add: processJob_def withTenant_def svc_simps)
qed

lemma deliveries_append:
  assumes "alwaysFails h"
  shows "deliveries q h made job k (n + m) w = deliveries q h made job (k + n) m (deliveries q h made job k n w)"
proof (induction n arbitrary: k w)
  case (Suc n)
  show ?case
  proof (cases "processJob q h (job\<lparr>wj_attemptsMade := made k\<rparr>) w")
    case (Pair r w')
    with process_fails [OF assms, of q "job\<lparr>wj_attemptsMade := made k\<rparr>" w] obtain e where "r = Inl e" by auto
    with Pair Suc show ?thesis by simp
  qed
qed simp

text \<open>A job with \<open>n\<close> attempts whose handler fails in every delivery. When the worker reads in each
  delivery the number of attempts made before it, as \<^verbatim>\<open>ConversationQueueProcessor\<close> takes it when it looks
  for the last attempt with \<^verbatim>\<open>attemptsMade + 1 >= maxAttempts\<close>, the guard of \<^verbatim>\<open>handleFailure\<close> holds in all of them and
  the job is lost: nothing reaches the dead-letter queue. Only if the running attempt were already
  counted would the job be routed there, once, after its last attempt.\<close>

theorem exhausted_jobs_reach_the_dead_letter_queue_only_if_counted_first:
  assumes "alwaysFails h" "wj_attempts job = Some (Suc n)" "qw_dlqUp w"
  shows "deliveries (Some q) h (\<lambda>k. k) job 0 (Suc n) w = w
    \<and> (\<exists>d. qw_dead (deliveries (Some q) h Suc job 0 (Suc n) w) = qw_dead w @ [d] \<and> dl_data d = wj_data job \<and> dl_sourceQueue d = q)"
proof
  show "deliveries (Some q) h (\<lambda>k. k) job 0 (Suc n) w = w"
    by (rule deliveries_early [OF assms(1)]) (simp add: assms(2))
  have before: "deliveries (Some q) h Suc job 0 n w = w"
    by (rule deliveries_early [OF assms(1)]) (simp add: assms(2))
  from process_failing_last [OF assms(1), of "job\<lparr>wj_attemptsMade := Suc n\<rparr>" w q] assms(2,3)
  obtain e w' d where "processJob (Some q) h (job\<lparr>wj_attemptsMade := Suc n\<rparr>) w = (Inl e, w')"
      "qw_dead w' = qw_dead w @ [d]" "dl_data d = wj_data job" "dl_sourceQueue d = q"
    by auto
  then show "\<exists>d. qw_dead (deliveries (Some q) h Suc job 0 (Suc n) w) = qw_dead w @ [d] \<and> dl_data d = wj_data job \<and> dl_sourceQueue d = q"
    using deliveries_append [OF assms(1), of "Some q" Suc job 0 n 1 w] by (simp add: before)
qed

definition sampleJob :: WorkerJob where
  "sampleJob = \<lparr>wj_id = Some ''1'', wj_name = ''ticket-escalation-job'', wj_attempts = Some (policyAttempts DEFAULT_POLICY),
     wj_attemptsMade = 0, wj_tenantId = Some ''t1'', wj_data = JNull\<rparr>"

definition sampleQueueWorld :: QueueWorld where
  "sampleQueueWorld = \<lparr>qw_now = 0, qw_tenantContext = None, qw_dlqUp = True, qw_dead = []\<rparr>"

theorem exhausted_jobs_reach_the_dead_letter_queue_only_if_counted_first_witness:
  "deliveries (Some ''ticket-queue'') (\<lambda>_ w. (Inl (Error ''boom'') :: exn + unit, w)) (\<lambda>k. k) sampleJob 0 (Suc 2) sampleQueueWorld = sampleQueueWorld
    \<and> (\<exists>d. qw_dead (deliveries (Some ''ticket-queue'') (\<lambda>_ w. (Inl (Error ''boom'') :: exn + unit, w)) Suc sampleJob 0 (Suc 2) sampleQueueWorld) =
        qw_dead sampleQueueWorld @ [d] \<and> dl_data d = wj_data sampleJob \<and> dl_sourceQueue d = ''ticket-queue'')"
  by (rule exhausted_jobs_reach_the_dead_letter_queue_only_if_counted_first)
    (simp_all add: alwaysFails_def sampleJob_def sampleQueueWorld_def)

end
