(* ===== verification/Workflow_Model.thy ===== *)
theory Workflow_Model
  imports Prelude
begin

text \<open>
  The domain of the workflow module (\<^verbatim>\<open>src/modules/workflows/domain\<close>): templates with their triggers,
  conditions and actions, executions, approvals and schedules, with every method of the entities.
  A configuration or context object is the list of its entries. The serialisation methods are left
  out.
\<close>

datatype WorkflowTypeEnum =
    TICKET_WORKFLOW | CONVERSATION_WORKFLOW | ESCALATION_WORKFLOW | APPROVAL_WORKFLOW | CUSTOMER_WORKFLOW
  | CONNECTOR_WORKFLOW | AI_WORKFLOW | SCHEDULED_WORKFLOW | CUSTOM_WORKFLOW

datatype WorkflowStatusEnum = WF_DRAFT | WF_ACTIVE | WF_PAUSED | WF_ARCHIVED | WF_FAILED | WF_COMPLETED

datatype TriggerTypeEnum =
    ON_CONVERSATION_CREATED | ON_MESSAGE_RECEIVED | ON_TICKET_CREATED | ON_TICKET_UPDATED | ON_TICKET_ESCALATED
  | ON_CUSTOMER_CREATED | ON_CUSTOMER_UPDATED | ON_SLA_BREACHED | ON_CONNECTOR_EXECUTED | ON_AI_ESCALATED
  | ON_SCHEDULED | ON_WEBHOOK | ON_MANUAL

datatype ActionTypeEnum =
    CREATE_TICKET | UPDATE_TICKET | ASSIGN_TICKET | ESCALATE_TICKET | SEND_MESSAGE | SEND_EMAIL
  | SEND_NOTIFICATION | CALL_CONNECTOR | TRIGGER_AI_WORKFLOW | WAIT | APPROVAL | UPDATE_CUSTOMER
  | ADD_TAG | REMOVE_TAG | CUSTOM_ACTION

datatype WfApprovalStatusEnum = AP_PENDING | AP_APPROVED | AP_REJECTED

type_synonym entries = "(string \<times> json) list"

subsection \<open>Templates\<close>

record WorkflowTrigger =
  tr_id :: uid
  tr_tenantId :: uid
  tr_workflowId :: uid
  tr_triggerType :: TriggerTypeEnum
  tr_configuration :: entries
  tr_createdAt :: millis
  tr_updatedAt :: millis

record WorkflowCondition =
  co_id :: uid
  co_tenantId :: uid
  co_workflowId :: uid
  co_triggerId :: "uid option"
  co_field :: string
  co_operator :: string
  co_value :: string
  co_createdAt :: millis
  co_updatedAt :: millis

record WorkflowAction =
  ac_id :: uid
  ac_tenantId :: uid
  ac_workflowId :: uid
  ac_actionType :: ActionTypeEnum
  ac_configuration :: entries
  ac_sequenceOrder :: int
  ac_createdAt :: millis
  ac_updatedAt :: millis

type_synonym variables = "(string \<times> string \<times> string) list"

text \<open>Name and status of a template become \<^verbatim>\<open>undefined\<close> when a patch carries them so.\<close>

record WorkflowTemplate =
  wt_id :: uid
  wt_tenantId :: uid
  wt_name :: "string option"
  wt_description :: "string option"
  wt_workflowType :: WorkflowTypeEnum
  wt_status :: "WorkflowStatusEnum option"
  wt_isSystem :: bool
  wt_triggers :: "WorkflowTrigger list"
  wt_conditions :: "WorkflowCondition list"
  wt_actions :: "WorkflowAction list"
  wt_variables :: variables
  wt_createdAt :: millis
  wt_updatedAt :: millis
  wt_version :: int

text \<open>The patch of \<^verbatim>\<open>update\<close> is the whole data transfer object, so it also reaches the properties the
  signature does not name. A collection spread in as \<^verbatim>\<open>undefined\<close> reads as empty.\<close>

record TemplatePatch =
  tp_name :: "string field"
  tp_description :: "string field"
  tp_status :: "WorkflowStatusEnum field"
  tp_triggers :: "WorkflowTrigger list field"
  tp_conditions :: "WorkflowCondition list field"
  tp_actions :: "WorkflowAction list field"
  tp_variables :: "variables field"

fun spreadList :: "'a list \<Rightarrow> 'a list field \<Rightarrow> 'a list" where
  "spreadList old Absent = old"
| "spreadList old Undef = []"
| "spreadList old (Val xs) = xs"

definition Template_update :: "millis \<Rightarrow> TemplatePatch \<Rightarrow> WorkflowTemplate \<Rightarrow> WorkflowTemplate" where
  "Template_update now p t =
     t\<lparr>wt_name := spread (wt_name t) (tp_name p), wt_description := spread (wt_description t) (tp_description p),
       wt_status := spread (wt_status t) (tp_status p), wt_triggers := spreadList (wt_triggers t) (tp_triggers p),
       wt_conditions := spreadList (wt_conditions t) (tp_conditions p), wt_actions := spreadList (wt_actions t) (tp_actions p),
       wt_variables := spreadList (wt_variables t) (tp_variables p), wt_updatedAt := now\<rparr>"

definition emptyTemplatePatch :: TemplatePatch where
  "emptyTemplatePatch = \<lparr>tp_name = Absent, tp_description = Absent, tp_status = Absent, tp_triggers = Absent,
     tp_conditions = Absent, tp_actions = Absent, tp_variables = Absent\<rparr>"

definition setDefinition :: "millis \<Rightarrow> WorkflowTrigger list \<Rightarrow> WorkflowCondition list \<Rightarrow> WorkflowAction list
    \<Rightarrow> WorkflowTemplate \<Rightarrow> WorkflowTemplate" where
  "setDefinition now triggers conditions actions t =
     t\<lparr>wt_triggers := triggers, wt_conditions := conditions, wt_actions := actions, wt_updatedAt := now\<rparr>"

definition setVariables :: "millis \<Rightarrow> variables \<Rightarrow> WorkflowTemplate \<Rightarrow> WorkflowTemplate" where
  "setVariables now vs t = t\<lparr>wt_variables := vs, wt_updatedAt := now\<rparr>"

definition publishNewVersion :: "millis \<Rightarrow> WorkflowTemplate \<Rightarrow> int \<times> WorkflowTemplate" where
  "publishNewVersion now t =
     (let v = (if wt_version t = 0 then 1 else wt_version t) + 1 in (v, t\<lparr>wt_version := v, wt_updatedAt := now\<rparr>))"

subsection \<open>Executions and approvals\<close>

record WorkflowApproval =
  wa_id :: uid
  wa_tenantId :: uid
  wa_workflowExecutionId :: uid
  wa_approverId :: "uid option"
  wa_approvalStatus :: WfApprovalStatusEnum
  wa_comments :: "string option"
  wa_approvedAt :: "millis option"
  wa_expiresAt :: "millis option"
  wa_createdAt :: millis
  wa_updatedAt :: millis

definition orComments :: "string option \<Rightarrow> string option \<Rightarrow> string option" where
  "orComments c old = (if truthy c then c else old)"

definition Approval_approve :: "millis \<Rightarrow> string option \<Rightarrow> WorkflowApproval \<Rightarrow> WorkflowApproval" where
  "Approval_approve now comments a =
     a\<lparr>wa_approvalStatus := AP_APPROVED, wa_comments := orComments comments (wa_comments a),
       wa_approvedAt := Some now, wa_updatedAt := now\<rparr>"

definition Approval_reject :: "millis \<Rightarrow> string option \<Rightarrow> WorkflowApproval \<Rightarrow> WorkflowApproval" where
  "Approval_reject now comments a =
     a\<lparr>wa_approvalStatus := AP_REJECTED, wa_comments := orComments comments (wa_comments a),
       wa_approvedAt := Some now, wa_updatedAt := now\<rparr>"

definition Approval_isExpired :: "millis \<Rightarrow> WorkflowApproval \<Rightarrow> bool" where
  "Approval_isExpired now a = (case wa_expiresAt a of None \<Rightarrow> False | Some t \<Rightarrow> t < now)"

record WorkflowExecution =
  we_id :: uid
  we_tenantId :: uid
  we_workflowId :: uid
  we_executionStatus :: WorkflowStatusEnum
  we_startedAt :: millis
  we_completedAt :: "millis option"
  we_executionTimeMs :: int
  we_triggerSource :: string
  we_triggerReferenceId :: "json option"
  we_context :: entries
  we_result :: "entries option"
  we_error :: "entries option"
  we_approvals :: "WorkflowApproval list"
  we_createdAt :: millis
  we_updatedAt :: millis
  we_version :: int

definition Execution_start :: "millis \<Rightarrow> WorkflowExecution \<Rightarrow> WorkflowExecution" where
  "Execution_start now e = e\<lparr>we_executionStatus := WF_ACTIVE, we_startedAt := now, we_updatedAt := now\<rparr>"

definition Execution_complete :: "millis \<Rightarrow> entries \<Rightarrow> WorkflowExecution \<Rightarrow> WorkflowExecution" where
  "Execution_complete now r e =
     e\<lparr>we_executionStatus := WF_COMPLETED, we_completedAt := Some now, we_result := Some r,
       we_executionTimeMs := now - we_startedAt e, we_updatedAt := now\<rparr>"

definition Execution_fail :: "millis \<Rightarrow> entries \<Rightarrow> WorkflowExecution \<Rightarrow> WorkflowExecution" where
  "Execution_fail now err e =
     e\<lparr>we_executionStatus := WF_FAILED, we_completedAt := Some now, we_error := Some err,
       we_executionTimeMs := now - we_startedAt e, we_updatedAt := now\<rparr>"

definition Execution_pause :: "millis \<Rightarrow> WorkflowExecution \<Rightarrow> WorkflowExecution" where
  "Execution_pause now e = e\<lparr>we_executionStatus := WF_PAUSED, we_updatedAt := now\<rparr>"

definition Execution_addApproval :: "millis \<Rightarrow> WorkflowApproval \<Rightarrow> WorkflowExecution \<Rightarrow> WorkflowExecution" where
  "Execution_addApproval now a e = e\<lparr>we_approvals := we_approvals e @ [a], we_updatedAt := now\<rparr>"

subsection \<open>Schedules\<close>

record WorkflowSchedule =
  sc_id :: uid
  sc_tenantId :: uid
  sc_workflowId :: uid
  sc_cronExpression :: string
  sc_timezone :: string
  sc_nextRunAt :: "millis option"
  sc_lastRunAt :: "millis option"
  sc_isActive :: bool
  sc_createdAt :: millis
  sc_updatedAt :: millis

definition updateRun :: "millis \<Rightarrow> millis \<Rightarrow> WorkflowSchedule \<Rightarrow> WorkflowSchedule" where
  "updateRun now nextRun s = s\<lparr>sc_lastRunAt := Some now, sc_nextRunAt := Some nextRun, sc_updatedAt := now\<rparr>"

definition toggle :: "millis \<Rightarrow> bool \<Rightarrow> WorkflowSchedule \<Rightarrow> WorkflowSchedule" where
  "toggle now active s = s\<lparr>sc_isActive := active, sc_updatedAt := now\<rparr>"

subsection \<open>Names of the enumerations\<close>

fun triggerName :: "TriggerTypeEnum \<Rightarrow> string" where
  "triggerName ON_CONVERSATION_CREATED = ''CONVERSATION_CREATED''"
| "triggerName ON_MESSAGE_RECEIVED = ''MESSAGE_RECEIVED''"
| "triggerName ON_TICKET_CREATED = ''TICKET_CREATED''"
| "triggerName ON_TICKET_UPDATED = ''TICKET_UPDATED''"
| "triggerName ON_TICKET_ESCALATED = ''TICKET_ESCALATED''"
| "triggerName ON_CUSTOMER_CREATED = ''CUSTOMER_CREATED''"
| "triggerName ON_CUSTOMER_UPDATED = ''CUSTOMER_UPDATED''"
| "triggerName ON_SLA_BREACHED = ''SLA_BREACHED''"
| "triggerName ON_CONNECTOR_EXECUTED = ''CONNECTOR_EXECUTED''"
| "triggerName ON_AI_ESCALATED = ''AI_ESCALATED''"
| "triggerName ON_SCHEDULED = ''SCHEDULED''"
| "triggerName ON_WEBHOOK = ''WEBHOOK''"
| "triggerName ON_MANUAL = ''MANUAL''"

fun actionName :: "ActionTypeEnum \<Rightarrow> string" where
  "actionName CREATE_TICKET = ''CREATE_TICKET''"
| "actionName UPDATE_TICKET = ''UPDATE_TICKET''"
| "actionName ASSIGN_TICKET = ''ASSIGN_TICKET''"
| "actionName ESCALATE_TICKET = ''ESCALATE_TICKET''"
| "actionName SEND_MESSAGE = ''SEND_MESSAGE''"
| "actionName SEND_EMAIL = ''SEND_EMAIL''"
| "actionName SEND_NOTIFICATION = ''SEND_NOTIFICATION''"
| "actionName CALL_CONNECTOR = ''CALL_CONNECTOR''"
| "actionName TRIGGER_AI_WORKFLOW = ''TRIGGER_AI_WORKFLOW''"
| "actionName WAIT = ''WAIT''"
| "actionName APPROVAL = ''APPROVAL''"
| "actionName UPDATE_CUSTOMER = ''UPDATE_CUSTOMER''"
| "actionName ADD_TAG = ''ADD_TAG''"
| "actionName REMOVE_TAG = ''REMOVE_TAG''"
| "actionName CUSTOM_ACTION = ''CUSTOM_ACTION''"

fun approvalStatusName :: "WfApprovalStatusEnum \<Rightarrow> string" where
  "approvalStatusName AP_PENDING = ''PENDING''"
| "approvalStatusName AP_APPROVED = ''APPROVED''"
| "approvalStatusName AP_REJECTED = ''REJECTED''"

end
