(* ===== verification/Workflow_Store.thy ===== *)
theory Workflow_Store
  imports Workflow_Model Keyed_Store Js_Values
begin

text \<open>
  The workflow tables and their statements
  (\<^verbatim>\<open>src/modules/workflows/repositories/drizzle-workflow.repository.ts\<close> and \<^verbatim>\<open>workflow.mapper.ts\<close>). A
  template is spread over five tables; saving it writes the template row and replaces its triggers,
  conditions, actions and variables. An \<^verbatim>\<open>undefined\<close> column is left out of an update; of the columns
  without a default only the name can be undefined in an insert, which the constraint refuses. The
  version column is never written, so it keeps its default.
\<close>

subsection \<open>Tables\<close>

record TemplateRow =
  tw_id :: uid
  tw_tenantId :: uid
  tw_name :: string
  tw_description :: "string option"
  tw_workflowType :: WorkflowTypeEnum
  tw_status :: WorkflowStatusEnum
  tw_isSystem :: bool
  tw_createdAt :: millis
  tw_updatedAt :: millis
  tw_version :: int

record VariableRow =
  va_tenantId :: uid
  va_workflowId :: uid
  va_name :: string
  va_type :: string
  va_value :: "string option"

record VersionRow =
  vr_tenantId :: uid
  vr_workflowTemplateId :: uid
  vr_versionNumber :: int
  vr_definition :: WorkflowTemplate
  vr_isActive :: bool

record WfAuditRow =
  au_row_tenantId :: uid
  au_row_workflowId :: "uid option"
  au_row_executionId :: "uid option"
  au_row_action :: string
  au_row_details :: string

record WfDb =
  db_templates :: "TemplateRow list"
  db_triggers :: "WorkflowTrigger list"
  db_conditions :: "WorkflowCondition list"
  db_actions :: "WorkflowAction list"
  db_variables :: "VariableRow list"
  db_versions :: "VersionRow list"
  db_executions :: "WorkflowExecution list"
  db_approvals :: "WorkflowApproval list"
  db_schedules :: "WorkflowSchedule list"
  db_audit :: "WfAuditRow list"

subsection \<open>Templates\<close>

definition templateColumns :: "millis \<Rightarrow> WorkflowTemplate \<Rightarrow> TemplateRow \<Rightarrow> TemplateRow" where
  "templateColumns now t r =
     r\<lparr>tw_tenantId := wt_tenantId t, tw_name := (case wt_name t of None \<Rightarrow> tw_name r | Some n \<Rightarrow> n),
       tw_description := orUndefined (wt_description t), tw_workflowType := wt_workflowType t,
       tw_status := (case wt_status t of None \<Rightarrow> tw_status r | Some s \<Rightarrow> s), tw_isSystem := wt_isSystem t,
       tw_updatedAt := now\<rparr>"

definition sameTemplate :: "uid \<Rightarrow> uid \<Rightarrow> TemplateRow \<Rightarrow> bool" where
  "sameTemplate i tenantId r = (tw_id r = i \<and> tw_tenantId r = tenantId)"

definition saveTemplateRow :: "millis \<Rightarrow> WorkflowTemplate \<Rightarrow> uid \<Rightarrow> TemplateRow list \<Rightarrow> exn + TemplateRow list" where
  "saveTemplateRow now t tenantId rows =
     (if list_ex (sameTemplate (wt_id t) tenantId) rows
      then Inr (map (\<lambda>r. if sameTemplate (wt_id t) tenantId r then templateColumns now t r else r) rows)
      else case wt_name t of
             None \<Rightarrow> Inl (Error ''null value in column name violates not-null constraint'')
           | Some n \<Rightarrow> Inr (rows @ [templateColumns now t
               \<lparr>tw_id = wt_id t, tw_tenantId = wt_tenantId t, tw_name = n, tw_description = None,
                tw_workflowType = wt_workflowType t, tw_status = WF_DRAFT, tw_isSystem = False,
                tw_createdAt = wt_createdAt t, tw_updatedAt = now, tw_version = 1\<rparr>]))"

text \<open>Delete the rows of the template, insert the given ones.\<close>

definition resync :: "('r \<Rightarrow> bool) \<Rightarrow> 'r list \<Rightarrow> 'r list \<Rightarrow> 'r list" where
  "resync mine new rows = filter (\<lambda>r. \<not> mine r) rows @ new"

definition saveTemplate :: "millis \<Rightarrow> WorkflowTemplate \<Rightarrow> uid \<Rightarrow> WfDb \<Rightarrow> exn + WfDb" where
  "saveTemplate now t tenantId db =
     rbind (saveTemplateRow now t tenantId (db_templates db)) (\<lambda>rows. Inr (db
       \<lparr>db_templates := rows,
        db_triggers := resync (\<lambda>r. tr_workflowId r = wt_id t \<and> tr_tenantId r = tenantId)
          (map (\<lambda>r. r\<lparr>tr_updatedAt := now\<rparr>) (wt_triggers t)) (db_triggers db),
        db_conditions := resync (\<lambda>r. co_workflowId r = wt_id t \<and> co_tenantId r = tenantId)
          (map (\<lambda>r. r\<lparr>co_triggerId := orUndefined (co_triggerId r), co_updatedAt := now\<rparr>) (wt_conditions t)) (db_conditions db),
        db_actions := resync (\<lambda>r. ac_workflowId r = wt_id t \<and> ac_tenantId r = tenantId)
          (map (\<lambda>r. r\<lparr>ac_updatedAt := now\<rparr>) (wt_actions t)) (db_actions db),
        db_variables := resync (\<lambda>r. va_workflowId r = wt_id t \<and> va_tenantId r = tenantId)
          (map (\<lambda>(n, ty, v). \<lparr>va_tenantId = tenantId, va_workflowId = wt_id t, va_name = n, va_type = ty, va_value = Some v\<rparr>)
             (wt_variables t)) (db_variables db)\<rparr>))"

text \<open>Assignment to a key of the object: a repeated name keeps its place and takes the last value.\<close>

fun assignKey :: "string \<Rightarrow> 'v \<Rightarrow> (string \<times> 'v) list \<Rightarrow> (string \<times> 'v) list" where
  "assignKey k v [] = [(k, v)]"
| "assignKey k v (e # es) = (if fst e = k then (k, v) # es else e # assignKey k v es)"

definition getVariables :: "uid \<Rightarrow> uid \<Rightarrow> WfDb \<Rightarrow> variables" where
  "getVariables workflowId tenantId db =
     fold (\<lambda>r m. assignKey (va_name r) (va_type r, case va_value r of None \<Rightarrow> [] | Some v \<Rightarrow> v) m)
       (filter (\<lambda>r. va_workflowId r = workflowId \<and> va_tenantId r = tenantId) (db_variables db)) []"

text \<open>\<^verbatim>\<open>WorkflowMapper.templateToDomain\<close> over the rows of the template; actions come in sequence order.\<close>

definition templateOfRow :: "uid \<Rightarrow> WfDb \<Rightarrow> TemplateRow \<Rightarrow> WorkflowTemplate" where
  "templateOfRow tenantId db r =
     \<lparr>wt_id = tw_id r, wt_tenantId = tw_tenantId r, wt_name = Some (tw_name r), wt_description = orUndefined (tw_description r),
      wt_workflowType = tw_workflowType r, wt_status = Some (tw_status r), wt_isSystem = tw_isSystem r,
      wt_triggers = filter (\<lambda>x. tr_workflowId x = tw_id r \<and> tr_tenantId x = tenantId) (db_triggers db),
      wt_conditions = filter (\<lambda>x. co_workflowId x = tw_id r \<and> co_tenantId x = tenantId) (db_conditions db),
      wt_actions = sort_key ac_sequenceOrder
        (filter (\<lambda>x. ac_workflowId x = tw_id r \<and> ac_tenantId x = tenantId) (db_actions db)),
      wt_variables = getVariables (tw_id r) tenantId db,
      wt_createdAt = tw_createdAt r, wt_updatedAt = tw_updatedAt r,
      wt_version = (if tw_version r = 0 then 1 else tw_version r)\<rparr>"

definition getTemplateById :: "uid \<Rightarrow> uid \<Rightarrow> WfDb \<Rightarrow> WorkflowTemplate option" where
  "getTemplateById i tenantId db =
     map_option (templateOfRow tenantId db) (List.find (sameTemplate i tenantId) (db_templates db))"

definition findTemplates :: "uid \<Rightarrow> WorkflowStatusEnum option \<Rightarrow> WorkflowTypeEnum option \<Rightarrow> WfDb \<Rightarrow> WorkflowTemplate list" where
  "findTemplates tenantId status ty db =
     map (templateOfRow tenantId db) (filter (\<lambda>r. tw_tenantId r = tenantId \<and>
        (case status of None \<Rightarrow> True | Some s \<Rightarrow> tw_status r = s) \<and>
        (case ty of None \<Rightarrow> True | Some y \<Rightarrow> tw_workflowType r = y)) (db_templates db))"

text \<open>Deleting a template cascades over everything that refers to it.\<close>

definition deleteTemplate :: "uid \<Rightarrow> uid \<Rightarrow> WfDb \<Rightarrow> bool \<times> WfDb" where
  "deleteTemplate i tenantId db =
     (if \<not> list_ex (sameTemplate i tenantId) (db_templates db) then (False, db)
      else let gone = map we_id (filter (\<lambda>e. we_workflowId e = i) (db_executions db))
           in (True, db
             \<lparr>db_templates := filter (\<lambda>r. \<not> sameTemplate i tenantId r) (db_templates db),
              db_triggers := filter (\<lambda>r. tr_workflowId r \<noteq> i) (db_triggers db),
              db_conditions := filter (\<lambda>r. co_workflowId r \<noteq> i) (db_conditions db),
              db_actions := filter (\<lambda>r. ac_workflowId r \<noteq> i) (db_actions db),
              db_variables := filter (\<lambda>r. va_workflowId r \<noteq> i) (db_variables db),
              db_versions := filter (\<lambda>r. vr_workflowTemplateId r \<noteq> i) (db_versions db),
              db_executions := filter (\<lambda>e. we_workflowId e \<noteq> i) (db_executions db),
              db_approvals := filter (\<lambda>a. wa_workflowExecutionId a \<notin> set gone) (db_approvals db),
              db_schedules := filter (\<lambda>s. sc_workflowId s \<noteq> i) (db_schedules db),
              db_audit := filter (\<lambda>a. au_row_workflowId a \<noteq> Some i) (db_audit db)\<rparr>))"

definition saveVersion :: "uid \<Rightarrow> int \<Rightarrow> WorkflowTemplate \<Rightarrow> bool \<Rightarrow> uid \<Rightarrow> WfDb \<Rightarrow> WfDb" where
  "saveVersion templateId versionNumber d isActive tenantId db =
     db\<lparr>db_versions :=
        (if isActive then map (\<lambda>r. if vr_workflowTemplateId r = templateId \<and> vr_tenantId r = tenantId
                                   then r\<lparr>vr_isActive := False\<rparr> else r) (db_versions db)
         else db_versions db) @
        [\<lparr>vr_tenantId = tenantId, vr_workflowTemplateId = templateId, vr_versionNumber = versionNumber,
          vr_definition = d, vr_isActive = isActive\<rparr>]\<rparr>"

definition getActiveVersion :: "uid \<Rightarrow> uid \<Rightarrow> WfDb \<Rightarrow> VersionRow option" where
  "getActiveVersion templateId tenantId db =
     List.find (\<lambda>r. vr_workflowTemplateId r = templateId \<and> vr_isActive r \<and> vr_tenantId r = tenantId) (db_versions db)"

subsection \<open>Approvals, executions, schedules, audit\<close>

definition approvalColumns :: "millis \<Rightarrow> WorkflowApproval \<Rightarrow> WorkflowApproval" where
  "approvalColumns now a = a\<lparr>wa_comments := orUndefined (wa_comments a), wa_updatedAt := now\<rparr>"

definition sameApproval :: "uid \<Rightarrow> uid \<Rightarrow> WorkflowApproval \<Rightarrow> bool" where
  "sameApproval i tenantId r = (wa_id r = i \<and> wa_tenantId r = tenantId)"

definition putWfApproval :: "millis \<Rightarrow> uid \<Rightarrow> WorkflowApproval \<Rightarrow> WorkflowApproval list \<Rightarrow> WorkflowApproval list" where
  "putWfApproval now tenantId a rows =
     (if list_ex (sameApproval (wa_id a) tenantId) rows
      then map (\<lambda>r. if sameApproval (wa_id a) tenantId r then (approvalColumns now a)\<lparr>wa_createdAt := wa_createdAt r\<rparr> else r) rows
      else rows @ [approvalColumns now a])"

definition saveWfApproval :: "millis \<Rightarrow> WorkflowApproval \<Rightarrow> uid \<Rightarrow> WfDb \<Rightarrow> WfDb" where
  "saveWfApproval now a tenantId db = db\<lparr>db_approvals := putWfApproval now tenantId a (db_approvals db)\<rparr>"

definition getWfApprovalById :: "uid \<Rightarrow> uid \<Rightarrow> WfDb \<Rightarrow> WorkflowApproval option" where
  "getWfApprovalById i tenantId db = List.find (sameApproval i tenantId) (db_approvals db)"

definition findApprovalsByExecutionId :: "uid \<Rightarrow> uid \<Rightarrow> WfDb \<Rightarrow> WorkflowApproval list" where
  "findApprovalsByExecutionId executionId tenantId db =
     filter (\<lambda>a. wa_workflowExecutionId a = executionId \<and> wa_tenantId a = tenantId) (db_approvals db)"

definition findExpiredPendingApprovals :: "uid option \<Rightarrow> millis \<Rightarrow> WfDb \<Rightarrow> WorkflowApproval list" where
  "findExpiredPendingApprovals tenantId now db =
     filter (\<lambda>a. wa_approvalStatus a = AP_PENDING \<and>
        (case wa_expiresAt a of None \<Rightarrow> False | Some t \<Rightarrow> t \<le> now) \<and>
        (truthy tenantId \<longrightarrow> Some (wa_tenantId a) = tenantId)) (db_approvals db)"

text \<open>An execution row: its approvals live in their own table, and a falsy reference is null.\<close>

definition wfExecutionColumns :: "millis \<Rightarrow> WorkflowExecution \<Rightarrow> WorkflowExecution" where
  "wfExecutionColumns now e = e\<lparr>we_triggerReferenceId := orJs (we_triggerReferenceId e) None, we_approvals := [], we_updatedAt := now, we_version := 1\<rparr>"

definition sameExecution :: "uid \<Rightarrow> uid \<Rightarrow> WorkflowExecution \<Rightarrow> bool" where
  "sameExecution i tenantId r = (we_id r = i \<and> we_tenantId r = tenantId)"

definition saveWfExecution :: "millis \<Rightarrow> WorkflowExecution \<Rightarrow> uid \<Rightarrow> WfDb \<Rightarrow> WfDb" where
  "saveWfExecution now e tenantId db =
     db\<lparr>db_executions :=
          (if list_ex (sameExecution (we_id e) tenantId) (db_executions db)
           then map (\<lambda>r. if sameExecution (we_id e) tenantId r
                         then (wfExecutionColumns now e)\<lparr>we_createdAt := we_createdAt r\<rparr> else r) (db_executions db)
           else db_executions db @ [wfExecutionColumns now e]),
        db_approvals := fold (putWfApproval now tenantId) (we_approvals e) (db_approvals db)\<rparr>"

definition getWfExecutionById :: "uid \<Rightarrow> uid \<Rightarrow> WfDb \<Rightarrow> WorkflowExecution option" where
  "getWfExecutionById i tenantId db =
     map_option (\<lambda>r. r\<lparr>we_approvals := findApprovalsByExecutionId i tenantId db\<rparr>)
       (List.find (sameExecution i tenantId) (db_executions db))"

definition sameSchedule :: "uid \<Rightarrow> uid \<Rightarrow> WorkflowSchedule \<Rightarrow> bool" where
  "sameSchedule i tenantId r = (sc_id r = i \<and> sc_tenantId r = tenantId)"

definition saveSchedule :: "millis \<Rightarrow> WorkflowSchedule \<Rightarrow> uid \<Rightarrow> WfDb \<Rightarrow> WfDb" where
  "saveSchedule now s tenantId db =
     db\<lparr>db_schedules :=
          (if list_ex (sameSchedule (sc_id s) tenantId) (db_schedules db)
           then map (\<lambda>r. if sameSchedule (sc_id s) tenantId r
                         then s\<lparr>sc_updatedAt := now, sc_createdAt := sc_createdAt r\<rparr> else r) (db_schedules db)
           else db_schedules db @ [s\<lparr>sc_updatedAt := now\<rparr>])\<rparr>"

definition getScheduleById :: "uid \<Rightarrow> uid \<Rightarrow> WfDb \<Rightarrow> WorkflowSchedule option" where
  "getScheduleById i tenantId db = List.find (sameSchedule i tenantId) (db_schedules db)"

definition findSchedules :: "uid \<Rightarrow> bool \<Rightarrow> WfDb \<Rightarrow> WorkflowSchedule list" where
  "findSchedules tenantId activeOnly db =
     filter (\<lambda>s. sc_tenantId s = tenantId \<and> (activeOnly \<longrightarrow> sc_isActive s)) (db_schedules db)"

definition deleteSchedule :: "uid \<Rightarrow> uid \<Rightarrow> WfDb \<Rightarrow> bool \<times> WfDb" where
  "deleteSchedule i tenantId db =
     (if list_ex (sameSchedule i tenantId) (db_schedules db)
      then (True, db\<lparr>db_schedules := filter (\<lambda>s. \<not> sameSchedule i tenantId s) (db_schedules db)\<rparr>)
      else (False, db))"

definition wfLogAudit :: "uid \<Rightarrow> uid option \<Rightarrow> uid option \<Rightarrow> string \<Rightarrow> string \<Rightarrow> WfDb \<Rightarrow> WfDb" where
  "wfLogAudit tenantId workflowId executionId action details db =
     db\<lparr>db_audit := db_audit db @
        [\<lparr>au_row_tenantId = tenantId, au_row_workflowId = orUndefined workflowId, au_row_executionId = orUndefined executionId,
          au_row_action = action, au_row_details = details\<rparr>]\<rparr>"

subsection \<open>What a reader finds\<close>

lemma find_upsert:
  assumes "\<And>r. same r \<Longrightarrow> same (upd r)" "same new"
  shows "List.find same (if list_ex same rows then map (\<lambda>r. if same r then upd r else r) rows else rows @ [new]) =
    Some (case List.find same rows of None \<Rightarrow> new | Some r \<Rightarrow> upd r)"
proof (cases "list_ex same rows")
  case True
  then obtain r where "List.find same rows = Some r" using list_ex_find by blast
  with True show ?thesis by (simp add: find_map_upd [of same upd, OF assms(1)])
next
  case False
  then have "List.find same rows = None" by (simp add: find_None_list_ex)
  with False assms(2) show ?thesis by (simp add: find_append_new)
qed

lemma find_upsert_other:
  assumes "\<And>r. same r \<Longrightarrow> \<not> other r" "\<And>r. same r \<Longrightarrow> \<not> other (upd r)" "\<not> other new"
  shows "List.find other (if list_ex same rows then map (\<lambda>r. if same r then upd r else r) rows else rows @ [new]) =
    List.find other rows"
  using assms by (simp add: find_map_other find_append_other)

text \<open>What a write controls of an approval or an execution row: everything but the times of the row.\<close>

definition approvalView :: "WorkflowApproval \<Rightarrow> WorkflowApproval" where
  "approvalView a = a\<lparr>wa_comments := orUndefined (wa_comments a), wa_createdAt := 0, wa_updatedAt := 0\<rparr>"

lemma find_putWfApproval:
  assumes "wa_tenantId a = tenantId"
  shows "map_option approvalView (List.find (sameApproval (wa_id a) tenantId) (putWfApproval now tenantId a rows)) =
    Some (approvalView a)"
  unfolding putWfApproval_def
  using assms by (subst find_upsert) (auto simp: sameApproval_def approvalColumns_def approvalView_def split: option.splits)

lemma find_putWfApproval_other:
  assumes "wa_tenantId a = tenantId" "i \<noteq> wa_id a \<or> tenantId' \<noteq> tenantId"
  shows "List.find (sameApproval i tenantId') (putWfApproval now tenantId a rows) = List.find (sameApproval i tenantId') rows"
  unfolding putWfApproval_def
  using assms by (intro find_upsert_other) (auto simp: sameApproval_def approvalColumns_def)

interpretation wf_approvals:
  keyed_store "\<lambda>k. getWfApprovalById (fst k) (snd k)" "\<lambda>a. saveWfApproval now a (wa_tenantId a)"
    "\<lambda>a. (wa_id a, wa_tenantId a)" approvalView
proof unfold_locales
  fix a :: WorkflowApproval and db
  show "map_option approvalView (getWfApprovalById (fst (wa_id a, wa_tenantId a)) (snd (wa_id a, wa_tenantId a))
      (saveWfApproval now a (wa_tenantId a) db)) = Some (approvalView a)"
    by (simp add: getWfApprovalById_def saveWfApproval_def find_putWfApproval)
next
  fix k and a :: WorkflowApproval and db
  assume "k \<noteq> (wa_id a, wa_tenantId a)"
  then show "getWfApprovalById (fst k) (snd k) (saveWfApproval now a (wa_tenantId a) db) = getWfApprovalById (fst k) (snd k) db"
    by (cases k) (auto simp: getWfApprovalById_def saveWfApproval_def find_putWfApproval_other)
qed

definition scheduleView :: "WorkflowSchedule \<Rightarrow> WorkflowSchedule" where
  "scheduleView s = s\<lparr>sc_createdAt := 0, sc_updatedAt := 0\<rparr>"

interpretation wf_schedules:
  keyed_store "\<lambda>k. getScheduleById (fst k) (snd k)" "\<lambda>s. saveSchedule now s (sc_tenantId s)"
    "\<lambda>s. (sc_id s, sc_tenantId s)" scheduleView
proof unfold_locales
  fix s :: WorkflowSchedule and db
  show "map_option scheduleView (getScheduleById (fst (sc_id s, sc_tenantId s)) (snd (sc_id s, sc_tenantId s))
      (saveSchedule now s (sc_tenantId s) db)) = Some (scheduleView s)"
    using find_upsert [of "sameSchedule (sc_id s) (sc_tenantId s)"
        "\<lambda>r. s\<lparr>sc_updatedAt := now, sc_createdAt := sc_createdAt r\<rparr>" "s\<lparr>sc_updatedAt := now\<rparr>" "db_schedules db"]
    by (simp add: getScheduleById_def saveSchedule_def)
      (auto simp: sameSchedule_def scheduleView_def split: option.splits)
next
  fix k and s :: WorkflowSchedule and db
  assume "k \<noteq> (sc_id s, sc_tenantId s)"
  then show "getScheduleById (fst k) (snd k) (saveSchedule now s (sc_tenantId s) db) = getScheduleById (fst k) (snd k) db"
    by (cases k) (auto simp: getScheduleById_def saveSchedule_def sameSchedule_def intro!: find_map_other find_append_other)
qed

text \<open>An execution read back after it was saved.\<close>

lemma find_saveWfExecution:
  assumes "we_tenantId e = tenantId"
  shows "\<exists>c. List.find (sameExecution (we_id e) tenantId) (db_executions (saveWfExecution now e tenantId db)) =
    Some ((wfExecutionColumns now e)\<lparr>we_createdAt := c\<rparr>)"
proof -
  have "List.find (sameExecution (we_id e) tenantId) (db_executions (saveWfExecution now e tenantId db)) =
      Some (case List.find (sameExecution (we_id e) tenantId) (db_executions db) of
        None \<Rightarrow> wfExecutionColumns now e | Some r \<Rightarrow> (wfExecutionColumns now e)\<lparr>we_createdAt := we_createdAt r\<rparr>)"
    using find_upsert [of "sameExecution (we_id e) tenantId"
        "\<lambda>r. (wfExecutionColumns now e)\<lparr>we_createdAt := we_createdAt r\<rparr>" "wfExecutionColumns now e" "db_executions db"] assms
    by (simp add: saveWfExecution_def sameExecution_def wfExecutionColumns_def)
  moreover have "wfExecutionColumns now e = (wfExecutionColumns now e)\<lparr>we_createdAt := we_createdAt e\<rparr>"
    by (simp add: wfExecutionColumns_def)
  ultimately show ?thesis by (metis option.case_eq_if)
qed

section \<open>Triggers and conditions\<close>

text \<open>
  Which templates an event starts: \<^verbatim>\<open>WorkflowTriggerService.findTriggeredTemplates\<close> and
  \<^verbatim>\<open>WorkflowEngineService.evaluateConditions\<close>
  (\<^verbatim>\<open>src/modules/workflows/services/workflow-trigger.service.ts\<close>, \<^verbatim>\<open>workflow-engine.service.ts\<close>). A field the context does not
  have reads as \<^verbatim>\<open>undefined\<close>. The context is an object of the sender, so its inherited properties
  are left out.
\<close>

definition findTriggeredTemplates :: "uid \<Rightarrow> TriggerTypeEnum \<Rightarrow> WfDb \<Rightarrow> WorkflowTemplate list" where
  "findTriggeredTemplates tenantId triggerType db =
     filter (\<lambda>t. list_ex (\<lambda>tr. tr_triggerType tr = triggerType) (wt_triggers t))
       (findTemplates tenantId (Some WF_ACTIVE) None db)"

fun evaluateConditions :: "WorkflowCondition list \<Rightarrow> entries \<Rightarrow> bool" where
  "evaluateConditions [] context = True"
| "evaluateConditions (cond # rest) context =
     (let actualVal = map_of context (co_field cond);
          targetVal = co_value cond;
          op = toUpperCase (co_operator cond)
      in if op = ''EQUALS'' then (if jsString actualVal \<noteq> targetVal then False else evaluateConditions rest context)
         else if op = ''CONTAINS''
         then (if \<not> includesText (toLowerCase targetVal) (toLowerCase (jsString actualVal)) then False
               else evaluateConditions rest context)
         else if op = ''GT''
         then (if jsLeq (jsNumber actualVal) (stringToNumber targetVal) then False else evaluateConditions rest context)
         else if op = ''LT''
         then (if jsLeq (stringToNumber targetVal) (jsNumber actualVal) then False else evaluateConditions rest context)
         else False)"

subsection \<open>What the conditions mean\<close>

text \<open>The reference: the relation each operator names, on numbers that may be no numbers.\<close>

definition unordered :: "jsnum \<Rightarrow> jsnum \<Rightarrow> bool" where
  "unordered a b = (a = NaN \<or> b = NaN)"

definition conditionHolds :: "entries \<Rightarrow> WorkflowCondition \<Rightarrow> bool" where
  "conditionHolds context c =
     (let v = map_of context (co_field c); n = jsNumber v; m = stringToNumber (co_value c); op = toUpperCase (co_operator c)
      in (op = ''EQUALS'' \<and> jsString v = co_value c) \<or>
         (op = ''CONTAINS'' \<and> (\<exists>before after. toLowerCase (jsString v) = before @ toLowerCase (co_value c) @ after)) \<or>
         (op = ''GT'' \<and> (jsLess m n \<or> unordered m n)) \<or>
         (op = ''LT'' \<and> (jsLess n m \<or> unordered n m)))"

lemma not_jsLeq_iff: "\<not> jsLeq a b \<longleftrightarrow> jsLess b a \<or> unordered a b"
  by (auto simp: jsLeq_def unordered_def)

lemma evaluateConditions_Cons:
  "evaluateConditions (c # cs) context \<longleftrightarrow> conditionHolds context c \<and> evaluateConditions cs context"
  by (auto simp: Let_def conditionHolds_def not_jsLeq_iff includesText_iff unordered_def jsLeq_def)

declare evaluateConditions.simps(2) [simp del]

lemma evaluateConditions_iff: "evaluateConditions cs context \<longleftrightarrow> (\<forall>c \<in> set cs. conditionHolds context c)"
  by (induction cs) (simp_all add: evaluateConditions_Cons)

end
