(* ===== verification/Workflow_World.thy ===== *)
theory Workflow_World
  imports Workflow_Store
begin

text \<open>
  The state the workflow services share, and the services next to the database: publisher, audit,
  executions (\<^verbatim>\<open>workflow-event.publisher.ts\<close>, \<^verbatim>\<open>workflow-audit.service.ts\<close>,
  \<^verbatim>\<open>workflow-execution.service.ts\<close>). \<open>ww_ext\<close> is the state of the modules the actions call, reached
  through the ports of \<open>Workflow_Actions\<close>. A promise nobody awaits (the actions of a started
  execution) is an entry of \<open>ww_tasks\<close>. The clock moves only where the code waits. A queue that is
  down makes \<^verbatim>\<open>addJob\<close> throw.
\<close>

subsection \<open>The world\<close>

datatype wf_job =
    WorkflowExecutionJob uid uid uid
  | WorkflowApprovalJob uid uid uid "json option"
  | WorkflowApprovalTimeoutJob "uid option"
  | WorkflowScheduleJob uid uid
  | WorkflowRetryJob uid uid
  | WorkflowCleanupJob
  | WfIncidentJob uid string string string
  | OtherWorkflowJob string

record QueuedWfJob =
  qf_job :: wf_job
  qf_tenantContext :: "uid option"

datatype wf_event =
    WorkflowCreatedEvent uid uid "string option"
  | WorkflowUpdatedEvent uid uid
  | WorkflowActivatedEvent uid uid
  | WorkflowPausedEvent uid uid
  | WorkflowExecutionStartedEvent uid uid uid
  | WorkflowExecutionCompletedEvent uid uid uid entries
  | WorkflowExecutionFailedEvent uid uid uid entries
  | WorkflowApprovalRequestedEvent uid uid uid "json option"
  | WorkflowApprovedEvent uid uid uid
  | WorkflowRejectedEvent uid uid uid

text \<open>The actions still to run for an execution; \<open>tk_resumed\<close> selects the wording of the failure.\<close>

record WfTask =
  tk_tenantId :: uid
  tk_templateId :: uid
  tk_executionId :: uid
  tk_actions :: "WorkflowAction list"
  tk_context :: entries
  tk_resumed :: bool

record 'x WfWorld =
  ww_db :: WfDb
  ww_now :: millis
  ww_uuid :: "nat \<Rightarrow> uid"
  ww_uuidNext :: nat
  ww_tenantContext :: "uid option"
  ww_queueUp :: bool
  ww_jobs :: "QueuedWfJob list"
  ww_realtime :: "(uid \<times> WorkflowExecution) list"
  ww_tasks :: "WfTask list"
  ww_ext :: 'x

type_synonym ('x, 'a) wfsvc = "('x WfWorld, 'a) svc"

definition wfNow :: "('x, millis) wfsvc" where
  "wfNow = asks ww_now"

definition wfUUID :: "('x, uid) wfsvc" where
  "wfUUID = (\<lambda>w. (Inr (ww_uuid w (ww_uuidNext w)), w\<lparr>ww_uuidNext := ww_uuidNext w + 1\<rparr>))"

definition wfSleep :: "int \<Rightarrow> ('x, unit) wfsvc" where
  "wfSleep ms = modify (\<lambda>w. w\<lparr>ww_now := ww_now w + max ms 0\<rparr>)"

definition wfRead :: "(WfDb \<Rightarrow> 'a) \<Rightarrow> ('x, 'a) wfsvc" where
  "wfRead f = asks (\<lambda>w. f (ww_db w))"

definition wfWrite :: "(millis \<Rightarrow> WfDb \<Rightarrow> WfDb) \<Rightarrow> ('x, unit) wfsvc" where
  "wfWrite f = modify (\<lambda>w. w\<lparr>ww_db := f (ww_now w) (ww_db w)\<rparr>)"

text \<open>A statement a constraint may refuse.\<close>

definition wfTryWrite :: "(millis \<Rightarrow> WfDb \<Rightarrow> exn + WfDb) \<Rightarrow> ('x, unit) wfsvc" where
  "wfTryWrite f = (\<lambda>w. case f (ww_now w) (ww_db w) of Inl e \<Rightarrow> (Inl e, w) | Inr db \<Rightarrow> (Inr (), w\<lparr>ww_db := db\<rparr>))"

definition wfAddJob :: "wf_job \<Rightarrow> ('x, unit) wfsvc" where
  "wfAddJob j = (\<lambda>w.
     if ww_queueUp w
     then (Inr (), w\<lparr>ww_jobs := ww_jobs w @ [\<lparr>qf_job = j, qf_tenantContext = ww_tenantContext w\<rparr>]\<rparr>)
     else (Inl (Error ''Connection is closed.''), w))"

subsection \<open>Publisher and audit\<close>

text \<open>Only two events become jobs; a queue that is down is logged.\<close>

definition WorkflowEventPublisher_publish :: "wf_event \<Rightarrow> ('x, unit) wfsvc" where
  "WorkflowEventPublisher_publish event =
     tryCatch
       (case event of
          WorkflowExecutionStartedEvent tenantId executionId workflowId \<Rightarrow>
            wfAddJob (WorkflowExecutionJob tenantId executionId workflowId)
        | WorkflowApprovalRequestedEvent tenantId approvalId executionId approverId \<Rightarrow>
            wfAddJob (WorkflowApprovalJob tenantId approvalId executionId approverId)
        | _ \<Rightarrow> ret ())
       (\<lambda>_. ret ())"

definition WorkflowAuditService_logAudit :: "uid \<Rightarrow> uid \<Rightarrow> uid \<Rightarrow> string \<Rightarrow> string \<Rightarrow> ('x, unit) wfsvc" where
  "WorkflowAuditService_logAudit tenantId workflowId executionId action details =
     wfWrite (\<lambda>_. wfLogAudit tenantId (Some workflowId) (Some executionId) action details)"

subsection \<open>Executions\<close>

definition emitWorkflowExecutionUpdate :: "uid \<Rightarrow> WorkflowExecution \<Rightarrow> ('x, unit) wfsvc" where
  "emitWorkflowExecutionUpdate tenantId e = modify (\<lambda>w. w\<lparr>ww_realtime := ww_realtime w @ [(tenantId, e)]\<rparr>)"

record ExecuteWorkflowDto =
  ew_workflowId :: uid
  ew_triggerSource :: "string option"
  ew_triggerReferenceId :: "json option"
  ew_context :: "entries option"

definition createExecution :: "uid \<Rightarrow> ExecuteWorkflowDto \<Rightarrow> ('x, WorkflowExecution) wfsvc" where
  "createExecution tenantId dto =
     andThen wfUUID (\<lambda>executionId.
     andThen wfNow (\<lambda>now.
     let execution =
       \<lparr>we_id = executionId, we_tenantId = tenantId, we_workflowId = ew_workflowId dto,
        we_executionStatus = WF_DRAFT, we_startedAt = now, we_completedAt = None, we_executionTimeMs = 0,
        we_triggerSource = inTemplate (orS (ew_triggerSource dto) (Some ''MANUAL'')),
        we_triggerReferenceId = ew_triggerReferenceId dto,
        we_context = (case ew_context dto of None \<Rightarrow> [] | Some c \<Rightarrow> c),
        we_result = None, we_error = None, we_approvals = [], we_createdAt = now, we_updatedAt = now, we_version = 1\<rparr>
     in andThen (wfWrite (\<lambda>now. saveWfExecution now execution tenantId)) (\<lambda>_.
        andThen (emitWorkflowExecutionUpdate tenantId execution) (\<lambda>_. ret execution))))"

definition getExecutionOrThrow :: "uid \<Rightarrow> uid \<Rightarrow> ('x, WorkflowExecution) wfsvc" where
  "getExecutionOrThrow tenantId i =
     andThen (wfRead (getWfExecutionById i tenantId)) (\<lambda>found. case found of
       None \<Rightarrow> throw (NotFoundException (''Workflow execution with ID '' @ i @ '' not found''))
     | Some e \<Rightarrow> ret e)"

text \<open>Load, change, save, publish, broadcast: the part the four state changes share.\<close>

definition changeExecution ::
  "uid \<Rightarrow> uid \<Rightarrow> (millis \<Rightarrow> WorkflowExecution \<Rightarrow> WorkflowExecution) \<Rightarrow> (WorkflowExecution \<Rightarrow> wf_event option)
   \<Rightarrow> ('x, WorkflowExecution) wfsvc" where
  "changeExecution tenantId i f event =
     andThen (getExecutionOrThrow tenantId i) (\<lambda>execution.
     andThen wfNow (\<lambda>now.
     let execution' = f now execution
     in andThen (wfWrite (\<lambda>now. saveWfExecution now execution' tenantId)) (\<lambda>_.
        andThen (case event execution' of None \<Rightarrow> ret () | Some e \<Rightarrow> WorkflowEventPublisher_publish e) (\<lambda>_.
        andThen (emitWorkflowExecutionUpdate tenantId execution') (\<lambda>_. ret execution')))))"

definition startExecution :: "uid \<Rightarrow> uid \<Rightarrow> ('x, WorkflowExecution) wfsvc" where
  "startExecution tenantId i =
     changeExecution tenantId i Execution_start (\<lambda>e. Some (WorkflowExecutionStartedEvent tenantId i (we_workflowId e)))"

definition completeExecution :: "uid \<Rightarrow> uid \<Rightarrow> entries \<Rightarrow> ('x, WorkflowExecution) wfsvc" where
  "completeExecution tenantId i r =
     changeExecution tenantId i (\<lambda>now. Execution_complete now r)
       (\<lambda>e. Some (WorkflowExecutionCompletedEvent tenantId i (we_workflowId e) r))"

definition failExecution :: "uid \<Rightarrow> uid \<Rightarrow> entries \<Rightarrow> ('x, WorkflowExecution) wfsvc" where
  "failExecution tenantId i err =
     changeExecution tenantId i (\<lambda>now. Execution_fail now err)
       (\<lambda>e. Some (WorkflowExecutionFailedEvent tenantId i (we_workflowId e) err))"

definition pauseExecution :: "uid \<Rightarrow> uid \<Rightarrow> ('x, WorkflowExecution) wfsvc" where
  "pauseExecution tenantId i = changeExecution tenantId i Execution_pause (\<lambda>_. None)"

end
