(* ===== verification/Workflow_Actions.thy ===== *)
theory Workflow_Actions
  imports Workflow_World
begin

text \<open>
  The actions of a workflow (\<^verbatim>\<open>src/modules/workflows/services/workflow-action.service.ts\<close>, with
  \<^verbatim>\<open>createApproval\<close> of \<^verbatim>\<open>workflow-approval.service.ts\<close>). The modules an action calls are the ports of
  \<open>ActionPorts\<close>: each field is one service call, given the time, the tenant and the arguments the
  source passes, on the state of those modules. \<open>Workflow_Platform\<close> plugs the ticket services and the
  connector engine into them. A value of the configuration that is absent is \<^verbatim>\<open>undefined\<close>; a result
  object keeps its defined properties.
\<close>

subsection \<open>Templates in texts\<close>

definition isBrace :: "char \<Rightarrow> bool" where
  "isBrace c = (c = CHR ''{'' \<or> c = CHR ''}'')"

fun lookupPath :: "json option \<Rightarrow> string list \<Rightarrow> json option" where
  "lookupPath v [] = v"
| "lookupPath v (part # parts) =
     (case v of None \<Rightarrow> None | Some j \<Rightarrow> if j = JNull then None else lookupPath (propertyOf j part) parts)"

text \<open>The callback of \<^verbatim>\<open>replace\<close>: the value of the path, or the match itself.\<close>

definition fillText :: "entries \<Rightarrow> string \<Rightarrow> string" where
  "fillText context key =
     (case lookupPath (Some (JObj context)) (splitOn (CHR ''.'') (trim key)) of
        None \<Rightarrow> ''{{'' @ key @ ''}}''
      | Some v \<Rightarrow> stringOf v)"

text \<open>The scan of \<^verbatim>\<open>/\{\{([^{}]+)\}\}/g\<close>: two opening braces, a run without braces, two closing ones.\<close>

definition holeAt :: "string \<Rightarrow> (string \<times> string) option" where
  "holeAt s =
     (if startsWith ''{{'' s
      then let key = takeWhile (\<lambda>c. \<not> isBrace c) (drop 2 s); r = dropWhile (\<lambda>c. \<not> isBrace c) (drop 2 s)
           in if key \<noteq> [] \<and> startsWith ''}}'' r then Some (key, drop 2 r) else None
      else None)"

lemma holeAt_shorter: "holeAt s = Some (key, r) \<Longrightarrow> length r < length s"
proof -
  assume "holeAt s = Some (key, r)"
  then have "startsWith ''{{'' s" "r = drop 2 (dropWhile (\<lambda>c. \<not> isBrace c) (drop 2 s))"
    by (auto simp: holeAt_def Let_def split: if_splits)
  moreover have "length (dropWhile (\<lambda>c. \<not> isBrace c) (drop 2 s)) \<le> length (drop 2 s)" by (rule length_dropWhile_le)
  ultimately show ?thesis by (auto simp: startsWith_iff)
qed

function interpolate :: "string \<Rightarrow> entries \<Rightarrow> string" where
  "interpolate text context =
     (case text of
        [] \<Rightarrow> []
      | c # cs \<Rightarrow>
          (case holeAt text of
             Some (key, r) \<Rightarrow> fillText context key @ interpolate r context
           | None \<Rightarrow> c # interpolate cs context))"
  by pat_completeness auto
termination
  by (relation "measure (\<lambda>(text, context). length text)") (use holeAt_shorter in force)+

declare interpolate.simps [simp del]

fun resolvePayload :: "json \<Rightarrow> entries \<Rightarrow> json" where
  "resolvePayload (JStr s) context = JStr (interpolate s context)"
| "resolvePayload (JArr js) context = JArr (map (\<lambda>j. resolvePayload j context) js)"
| "resolvePayload (JObj fs) context = JObj (map (\<lambda>f. (fst f, resolvePayload (snd f) context)) fs)"
| "resolvePayload v context = v"

text \<open>Only a string has \<^verbatim>\<open>replace\<close>.\<close>

definition interpolateValue :: "json option \<Rightarrow> entries \<Rightarrow> exn + string" where
  "interpolateValue v context = (case v of Some (JStr s) \<Rightarrow> Inr (interpolate s context) | _ \<Rightarrow> Inl TypeError)"

subsection \<open>Timers and deadlines\<close>

text \<open>\<^verbatim>\<open>setTimeout\<close> turns a delay that is not a number between 1 and \<open>2^31 - 1\<close> into 1.\<close>

definition timerDelay :: "jsnum \<Rightarrow> int" where
  "timerDelay n = (case n of Fin q \<Rightarrow> if 1 \<le> q \<and> q \<le> 2147483647 then \<lfloor>q\<rfloor> else 1 | _ \<Rightarrow> 1)"

definition scaled :: "int \<Rightarrow> jsnum \<Rightarrow> jsnum" where
  "scaled k n = (case n of Fin q \<Rightarrow> Fin (q * of_int k) | _ \<Rightarrow> n)"

text \<open>\<^verbatim>\<open>new Date(now + n)\<close>, written to a column: an invalid date has no text.\<close>

definition dateAfter :: "millis \<Rightarrow> jsnum \<Rightarrow> exn + millis" where
  "dateAfter now n =
     (case n of
        Fin q \<Rightarrow> (let t = (if 0 \<le> of_int now + q then \<lfloor>of_int now + q\<rfloor> else \<lceil>of_int now + q\<rceil>)
                  in if \<bar>t\<bar> \<le> 8640000000000000 then Inr t else Inl (Error ''Invalid time value''))
      | _ \<Rightarrow> Inl (Error ''Invalid time value''))"

subsection \<open>Approvals of an execution\<close>

definition approverColumn :: "json option \<Rightarrow> exn + uid" where
  "approverColumn v =
     (case v of
        Some (JStr s) \<Rightarrow> Inr s
      | None \<Rightarrow> Inl (Error ''null value in column approver_id violates not-null constraint'')
      | Some JNull \<Rightarrow> Inl (Error ''null value in column approver_id violates not-null constraint'')
      | Some j \<Rightarrow> Inl (Error (''invalid input syntax for type uuid: '' @ stringOf j)))"

definition createApproval :: "uid \<Rightarrow> uid \<Rightarrow> json option \<Rightarrow> json option \<Rightarrow> ('x, WorkflowApproval) wfsvc" where
  "createApproval tenantId workflowExecutionId approverId timeoutHours =
     andThen wfUUID (\<lambda>approvalId.
     andThen wfNow (\<lambda>now.
     andThen (liftR (dateAfter now (scaled 3600000 (jsNumber timeoutHours)))) (\<lambda>expiresAt.
     andThen (liftR (approverColumn approverId)) (\<lambda>approver.
     let approval =
       \<lparr>wa_id = approvalId, wa_tenantId = tenantId, wa_workflowExecutionId = workflowExecutionId,
        wa_approverId = Some approver, wa_approvalStatus = AP_PENDING, wa_comments = None, wa_approvedAt = None,
        wa_expiresAt = Some expiresAt, wa_createdAt = now, wa_updatedAt = now\<rparr>
     in andThen (wfWrite (\<lambda>now. saveWfApproval now approval tenantId)) (\<lambda>_.
        andThen (WorkflowEventPublisher_publish
                   (WorkflowApprovalRequestedEvent tenantId approvalId workflowExecutionId approverId)) (\<lambda>_.
        ret approval))))))"

subsection \<open>The modules an action calls\<close>

record TicketChange =
  tc_status :: "json option"
  tc_priority :: "json option"
  tc_subject :: "string option"
  tc_description :: "string option"
  tc_metadata :: "json option"

record 'x ActionPorts =
  po_createTicket :: "millis \<Rightarrow> uid \<Rightarrow> string \<Rightarrow> string \<Rightarrow> json option \<Rightarrow> json option \<Rightarrow> ('x, uid) svc"
  po_updateTicket :: "millis \<Rightarrow> uid \<Rightarrow> json option \<Rightarrow> TicketChange \<Rightarrow> ('x, unit) svc"
  po_assignTicket :: "millis \<Rightarrow> uid \<Rightarrow> json option \<Rightarrow> json option \<Rightarrow> json option \<Rightarrow> ('x, unit) svc"
  po_escalateTicket :: "millis \<Rightarrow> uid \<Rightarrow> json option \<Rightarrow> json option \<Rightarrow> uid \<Rightarrow> ('x, unit) svc"
  po_addTag :: "millis \<Rightarrow> uid \<Rightarrow> json option \<Rightarrow> json option \<Rightarrow> ('x, unit) svc"
  po_removeTag :: "millis \<Rightarrow> uid \<Rightarrow> json option \<Rightarrow> json option \<Rightarrow> ('x, unit) svc"
  po_updateCustomer :: "millis \<Rightarrow> uid \<Rightarrow> json option \<Rightarrow> json option \<Rightarrow> ('x, unit) svc"
  po_createMessage :: "millis \<Rightarrow> uid \<Rightarrow> json option \<Rightarrow> string \<Rightarrow> ('x, uid) svc"
  po_sendEmail :: "millis \<Rightarrow> uid \<Rightarrow> string \<Rightarrow> json option \<Rightarrow> string \<Rightarrow> string \<Rightarrow> ('x, unit) svc"
  po_sendPush :: "millis \<Rightarrow> uid \<Rightarrow> json option \<Rightarrow> string \<Rightarrow> ('x, unit) svc"
  po_executeCapability :: "millis \<Rightarrow> uid \<Rightarrow> json option \<Rightarrow> json option \<Rightarrow> uid \<Rightarrow> ('x, json option) svc"
  po_triggerAi :: "millis \<Rightarrow> uid \<Rightarrow> json option \<Rightarrow> json option \<Rightarrow> json option \<Rightarrow> ('x, uid) svc"

definition callPort :: "(millis \<Rightarrow> ('x, 'a) svc) \<Rightarrow> ('x, 'a) wfsvc" where
  "callPort p = (\<lambda>w. let (r, x) = p (ww_now w) (ww_ext w) in (r, w\<lparr>ww_ext := x\<rparr>))"

subsection \<open>One action\<close>

definition str :: "string \<Rightarrow> json option" where
  "str s = Some (JStr s)"

definition entryOf :: "string \<Rightarrow> json option \<Rightarrow> entries" where
  "entryOf k v = (case v of None \<Rightarrow> [] | Some j \<Rightarrow> [(k, j)])"

definition statusOnly :: "string \<Rightarrow> entries" where
  "statusOnly s = [(''status'', JStr s)]"

definition optionalText :: "json option \<Rightarrow> entries \<Rightarrow> exn + string option" where
  "optionalText v context = (if truthyJs v then rbind (interpolateValue v context) (\<lambda>t. Inr (Some t)) else Inr None)"

definition missingId :: "string \<Rightarrow> ('x, entries) wfsvc" where
  "missingId what = throw (Error (what @ '' action''))"

definition executeAction :: "'x ActionPorts \<Rightarrow> uid \<Rightarrow> WorkflowAction \<Rightarrow> entries \<Rightarrow> uid \<Rightarrow> ('x, entries) wfsvc" where
  "executeAction ports tenantId action context executionId =
     (let config = map_of (ac_configuration action); ctx = map_of context;
          ticketId = orJs (ctx ''ticketId'') (config ''ticketId'');
          customerId = orJs (ctx ''customerId'') (config ''customerId'');
          conversationId = orJs (ctx ''conversationId'') (config ''conversationId'');
          text = (\<lambda>v. liftR (interpolateValue v context))
      in case ac_actionType action of
           CREATE_TICKET \<Rightarrow>
             andThen (text (orJs (config ''subject'') (str ''Workflow Ticket''))) (\<lambda>subject.
             andThen (text (orJs (config ''description'') (str ''Created via workflow''))) (\<lambda>description.
             andThen (callPort (\<lambda>now. po_createTicket ports now tenantId subject description customerId
                        (orJs (config ''priority'') (str ''MEDIUM'')))) (\<lambda>i.
             ret [(''ticketId'', JStr i), (''status'', JStr ''created'')])))
         | UPDATE_TICKET \<Rightarrow>
             if truthyJs ticketId
             then andThen (liftR (optionalText (config ''subject'') context)) (\<lambda>subject.
                  andThen (liftR (optionalText (config ''description'') context)) (\<lambda>description.
                  andThen (callPort (\<lambda>now. po_updateTicket ports now tenantId ticketId
                    \<lparr>tc_status = config ''status'', tc_priority = config ''priority'', tc_subject = subject,
                     tc_description = description, tc_metadata = config ''metadata''\<rparr>)) (\<lambda>_.
                  ret (statusOnly ''updated''))))
             else missingId ''Ticket ID missing in context or configuration for update''
         | ASSIGN_TICKET \<Rightarrow>
             if truthyJs ticketId
             then andThen (callPort (\<lambda>now. po_assignTicket ports now tenantId ticketId (config ''agentId'') (config ''teamId'')))
                    (\<lambda>_. ret (statusOnly ''assigned''))
             else missingId ''Ticket ID missing in context or configuration for assign''
         | ESCALATE_TICKET \<Rightarrow>
             if truthyJs ticketId
             then andThen (callPort (\<lambda>now. po_escalateTicket ports now tenantId ticketId
                        (orJs (config ''reason'') (str ''Escalated by workflow orchestration'')) executionId))
                    (\<lambda>_. ret (statusOnly ''escalated''))
             else missingId ''Ticket ID missing in context or configuration for escalate''
         | UPDATE_CUSTOMER \<Rightarrow>
             if truthyJs customerId
             then andThen (callPort (\<lambda>now. po_updateCustomer ports now tenantId customerId
                        (orJs (config ''updateDto'') (Some (JObj [])))))
                    (\<lambda>_. ret (statusOnly ''customer_updated''))
             else missingId ''Customer ID missing in context or configuration for update_customer''
         | SEND_MESSAGE \<Rightarrow>
             andThen (text (orJs (config ''content'') (str []))) (\<lambda>content.
             andThen (callPort (\<lambda>now. po_createMessage ports now tenantId conversationId content)) (\<lambda>i.
             ret [(''messageId'', JStr i), (''status'', JStr ''sent'')]))
         | SEND_EMAIL \<Rightarrow>
             andThen (text (orJs (config ''to'') (orJs (ctx ''customerEmail'') (str ''customer@easydev'')))) (\<lambda>emailTo.
             andThen (text (orJs (config ''subject'') (str ''Workflow Alert''))) (\<lambda>subject.
             andThen (text (orJs (config ''body'') (orJs (config ''content'') (str [])))) (\<lambda>body.
             andThen (callPort (\<lambda>now. po_sendEmail ports now tenantId emailTo
                        (orJs (config ''templateId'') (str ''generic-template'')) subject body)) (\<lambda>_.
             ret (statusOnly ''email_sent'')))))
         | SEND_NOTIFICATION \<Rightarrow>
             (let notifyUser = orJs (config ''userId'') (orJs (ctx ''userId'') (orJs (ctx ''customerId'') (str [])))
              in andThen (if truthyJs notifyUser
                          then andThen (text (orJs (config ''message'') (str []))) (\<lambda>m.
                               callPort (\<lambda>now. po_sendPush ports now tenantId notifyUser m))
                          else ret ()) (\<lambda>_.
                 ret (statusOnly ''notified'')))
         | CALL_CONNECTOR \<Rightarrow>
             andThen (callPort (\<lambda>now. po_executeCapability ports now tenantId (config ''capability'')
                        (map_option (\<lambda>p. resolvePayload p context) (config ''payload'')) executionId)) (\<lambda>r.
             ret (entryOf ''result'' r @ statusOnly ''connector_executed''))
         | TRIGGER_AI_WORKFLOW \<Rightarrow>
             andThen (callPort (\<lambda>now. po_triggerAi ports now tenantId (config ''workflowId'') conversationId
                        (map_option (\<lambda>p. resolvePayload p context) (config ''variables'')))) (\<lambda>i.
             ret [(''aiWorkflowExecutionId'', JStr i), (''status'', JStr ''ai_triggered'')])
         | APPROVAL \<Rightarrow>
             andThen (createApproval tenantId executionId (config ''approverId'')
                        (orJs (config ''timeoutHours'') (Some (JNum 24)))) (\<lambda>a.
             ret [(''approvalId'', JStr (wa_id a)), (''status'', JStr ''approval_requested''), (''paused'', JBool True)])
         | WAIT \<Rightarrow>
             andThen (wfSleep (timerDelay (scaled 1000 (jsNumber (orJs (config ''durationSeconds'') (Some (JNum 10)))))))
               (\<lambda>_. ret (statusOnly ''waited''))
         | ADD_TAG \<Rightarrow>
             if truthyJs ticketId
             then andThen (callPort (\<lambda>now. po_addTag ports now tenantId ticketId (config ''tag'')))
                    (\<lambda>_. ret (entryOf ''tagAdded'' (config ''tag'') @ statusOnly ''tag_added''))
             else ret (entryOf ''tagAdded'' (config ''tag''))
         | REMOVE_TAG \<Rightarrow>
             if truthyJs ticketId
             then andThen (callPort (\<lambda>now. po_removeTag ports now tenantId ticketId (config ''tag'')))
                    (\<lambda>_. ret (entryOf ''tagRemoved'' (config ''tag'') @ statusOnly ''tag_removed''))
             else ret (entryOf ''tagRemoved'' (config ''tag''))
         | CUSTOM_ACTION \<Rightarrow> ret (statusOnly ''custom_completed''))"

end
