(* ===== verification/Workflow_Engine.thy ===== *)
theory Workflow_Engine
  imports Workflow_Actions
begin

text \<open>
  The workflow engine and the approval service
  (\<^verbatim>\<open>src/modules/workflows/services/workflow-engine.service.ts\<close>, \<^verbatim>\<open>workflow-approval.service.ts\<close>) with the
  approval endpoints (\<^verbatim>\<open>controllers/workflow-approval.controller.ts\<close>). Starting or resuming an
  execution leaves a task behind; \<open>runTask\<close> is that promise with its \<^verbatim>\<open>catch\<close>, and \<open>runPending\<close> lets one
  of the open tasks run to its end. Foreign keys are not modelled: a task that runs after its
  template was deleted still writes its audit rows.
\<close>

subsection \<open>Retries\<close>

definition RETRYABLE_ACTION_TYPES :: "ActionTypeEnum list" where
  "RETRYABLE_ACTION_TYPES = [UPDATE_TICKET, ASSIGN_TICKET, ESCALATE_TICKET, UPDATE_CUSTOMER, ADD_TAG, REMOVE_TAG]"

definition ACTION_RETRY_BACKOFF_MS :: "int list" where
  "ACTION_RETRY_BACKOFF_MS = [500, 1500, 3000]"

text \<open>The loop over the attempts: \<open>attempt\<close> failed attempts so far, \<open>delays\<close> still to wait.\<close>

fun retryLoop :: "'x ActionPorts \<Rightarrow> uid \<Rightarrow> WorkflowAction \<Rightarrow> entries \<Rightarrow> uid \<Rightarrow> uid \<Rightarrow> nat \<Rightarrow> int list \<Rightarrow> ('x, entries) wfsvc" where
  "retryLoop ports tenantId action context executionId templateId attempt [] =
     executeAction ports tenantId action context executionId"
| "retryLoop ports tenantId action context executionId templateId attempt (delayMs # delays) =
     tryCatch (executeAction ports tenantId action context executionId) (\<lambda>error.
       andThen (WorkflowAuditService_logAudit tenantId templateId executionId ''ACTION_RETRY''
         (''Action '' @ actionName (ac_actionType action) @ '' failed (attempt '' @ showNat (attempt + 1) @
          ''), retrying in '' @ showInt delayMs @ ''ms: '' @ message error)) (\<lambda>_.
       andThen (wfSleep delayMs) (\<lambda>_.
       retryLoop ports tenantId action context executionId templateId (attempt + 1) delays)))"

definition executeActionWithRetry :: "'x ActionPorts \<Rightarrow> uid \<Rightarrow> WorkflowAction \<Rightarrow> entries \<Rightarrow> uid \<Rightarrow> uid \<Rightarrow> ('x, entries) wfsvc" where
  "executeActionWithRetry ports tenantId action context executionId templateId =
     (if ac_actionType action \<notin> set RETRYABLE_ACTION_TYPES
      then executeAction ports tenantId action context executionId
      else retryLoop ports tenantId action context executionId templateId 0 ACTION_RETRY_BACKOFF_MS)"

subsection \<open>Running the actions\<close>

definition resultKey :: "WorkflowAction \<Rightarrow> string" where
  "resultKey a = (if ac_id a \<noteq> [] then ac_id a else showInt (ac_sequenceOrder a))"

definition pausedResult :: "entries \<Rightarrow> bool" where
  "pausedResult r = truthyJs (map_of r ''paused'')"

fun executeActionsFrom :: "'x ActionPorts \<Rightarrow> uid \<Rightarrow> WorkflowAction list \<Rightarrow> uid \<Rightarrow> entries \<Rightarrow> uid \<Rightarrow> entries \<Rightarrow> ('x, unit) wfsvc" where
  "executeActionsFrom ports tenantId [] executionId context templateId results =
     andThen (completeExecution tenantId executionId results) (\<lambda>_.
     WorkflowAuditService_logAudit tenantId templateId executionId ''EXECUTION_COMPLETED''
       ''Workflow execution completed successfully'')"
| "executeActionsFrom ports tenantId (action # rest) executionId context templateId results =
     andThen (executeActionWithRetry ports tenantId action context executionId templateId) (\<lambda>actionResult.
     let results' = assignKey (resultKey action) (JObj actionResult) results
     in if pausedResult actionResult
        then andThen (pauseExecution tenantId executionId) (\<lambda>_.
             WorkflowAuditService_logAudit tenantId templateId executionId ''EXECUTION_PAUSED''
               (''Execution paused for step approval: '' @ actionName (ac_actionType action)))
        else executeActionsFrom ports tenantId rest executionId context templateId results')"

definition executeActionsList :: "'x ActionPorts \<Rightarrow> uid \<Rightarrow> WorkflowAction list \<Rightarrow> uid \<Rightarrow> entries \<Rightarrow> uid \<Rightarrow> ('x, unit) wfsvc" where
  "executeActionsList ports tenantId actionsList executionId context templateId =
     executeActionsFrom ports tenantId actionsList executionId context templateId []"

definition alertExecutionFailure :: "uid \<Rightarrow> uid \<Rightarrow> uid \<Rightarrow> string \<Rightarrow> ('x, unit) wfsvc" where
  "alertExecutionFailure tenantId executionId templateId reason =
     tryCatch (wfAddJob (WfIncidentJob tenantId ''workflow.execution-failed'' ''Workflow execution failed''
       (''Execution '' @ executionId @ '' of workflow '' @ templateId @ '' failed: '' @ reason))) (\<lambda>_. ret ())"

definition onTaskError :: "WfTask \<Rightarrow> exn \<Rightarrow> ('x, unit) wfsvc" where
  "onTaskError t error =
     andThen (failExecution (tk_tenantId t) (tk_executionId t) [(''message'', JStr (message error))]) (\<lambda>_.
     andThen (WorkflowAuditService_logAudit (tk_tenantId t) (tk_templateId t) (tk_executionId t) ''EXECUTION_FAILED''
       ((if tk_resumed t then ''Resumed workflow'' else ''Workflow'') @ '' execution failed: '' @ message error)) (\<lambda>_.
     alertExecutionFailure (tk_tenantId t) (tk_executionId t) (tk_templateId t) (message error)))"

definition runTask :: "'x ActionPorts \<Rightarrow> WfTask \<Rightarrow> ('x, unit) wfsvc" where
  "runTask ports t =
     tryCatch (executeActionsList ports (tk_tenantId t) (tk_actions t) (tk_executionId t) (tk_context t) (tk_templateId t))
       (onTaskError t)"

definition addTask :: "WfTask \<Rightarrow> ('x, unit) wfsvc" where
  "addTask t = modify (\<lambda>w. w\<lparr>ww_tasks := ww_tasks w @ [t]\<rparr>)"

text \<open>An exception that escapes the \<^verbatim>\<open>catch\<close> rejects a promise nobody awaits.\<close>

definition runPending :: "'x ActionPorts \<Rightarrow> nat \<Rightarrow> 'x WfWorld \<Rightarrow> 'x WfWorld" where
  "runPending ports n w =
     (if n < length (ww_tasks w)
      then snd (runTask ports (ww_tasks w ! n) (w\<lparr>ww_tasks := take n (ww_tasks w) @ drop (n + 1) (ww_tasks w)\<rparr>))
      else w)"

subsection \<open>Starting\<close>

definition runWorkflowTemplate :: "uid \<Rightarrow> WorkflowTemplate \<Rightarrow> entries \<Rightarrow> string \<Rightarrow> ('x, uid) wfsvc" where
  "runWorkflowTemplate tenantId template context triggerSource =
     andThen (createExecution tenantId
       \<lparr>ew_workflowId = wt_id template, ew_triggerSource = Some triggerSource,
        ew_triggerReferenceId = orJs (map_of context ''id'') (orJs (map_of context ''conversationId'') (map_of context ''ticketId'')),
        ew_context = Some context\<rparr>) (\<lambda>execution.
     andThen (startExecution tenantId (we_id execution)) (\<lambda>_.
     andThen (WorkflowAuditService_logAudit tenantId (wt_id template) (we_id execution) ''EXECUTION_STARTED''
       (''Workflow execution started by trigger source '' @ triggerSource)) (\<lambda>_.
     andThen (addTask \<lparr>tk_tenantId = tenantId, tk_templateId = wt_id template, tk_executionId = we_id execution,
       tk_actions = wt_actions template, tk_context = context, tk_resumed = False\<rparr>) (\<lambda>_.
     ret (we_id execution)))))"

definition evaluateEventTriggers :: "uid \<Rightarrow> TriggerTypeEnum \<Rightarrow> entries \<Rightarrow> ('x, unit) wfsvc" where
  "evaluateEventTriggers tenantId triggerType context =
     andThen (wfRead (findTriggeredTemplates tenantId triggerType)) (\<lambda>matched.
     forEach matched (\<lambda>template.
       if evaluateConditions (wt_conditions template) context
       then andThen (runWorkflowTemplate tenantId template context (triggerName triggerType)) (\<lambda>_. ret ())
       else ret ()))"

subsection \<open>Resuming\<close>

definition getTemplateOrThrow :: "uid \<Rightarrow> uid \<Rightarrow> ('x, WorkflowTemplate) wfsvc" where
  "getTemplateOrThrow tenantId i =
     andThen (wfRead (getTemplateById i tenantId)) (\<lambda>found. case found of
       None \<Rightarrow> throw (NotFoundException (''Workflow template with ID '' @ i @ '' not found''))
     | Some t \<Rightarrow> ret t)"

text \<open>The actions behind the first approval action of the template, all of them when it has none.\<close>

definition remainingActions :: "WorkflowAction list \<Rightarrow> WorkflowAction list" where
  "remainingActions actions =
     (case dropWhile (\<lambda>a. ac_actionType a \<noteq> APPROVAL) actions of [] \<Rightarrow> actions | _ # rest \<Rightarrow> rest)"

definition resumeExecution :: "uid \<Rightarrow> uid \<Rightarrow> bool \<Rightarrow> string \<Rightarrow> string option \<Rightarrow> ('x, unit) wfsvc" where
  "resumeExecution tenantId executionId approved approverId comments =
     andThen (getExecutionOrThrow tenantId executionId) (\<lambda>execution.
     andThen (getTemplateOrThrow tenantId (we_workflowId execution)) (\<lambda>template.
     if we_executionStatus execution \<noteq> WF_PAUSED
     then throw (Error (''Workflow execution '' @ executionId @ '' is not in PAUSED state''))
     else if \<not> approved
     then andThen (failExecution tenantId executionId
            ([(''message'', JStr ''Approval rejected by approver''), (''approverId'', JStr approverId)] @
             entryOf ''comments'' (map_option JStr comments))) (\<lambda>_.
          WorkflowAuditService_logAudit tenantId (wt_id template) executionId ''APPROVAL_REJECTED''
            (''Workflow rejected by approver '' @ approverId @ ''. execution terminated.''))
     else andThen (startExecution tenantId executionId) (\<lambda>_.
          andThen (WorkflowAuditService_logAudit tenantId (wt_id template) executionId ''APPROVAL_GRANTED''
            (''Workflow approved by approver '' @ approverId @ ''. Resuming execution.'')) (\<lambda>_.
          addTask \<lparr>tk_tenantId = tenantId, tk_templateId = wt_id template, tk_executionId = executionId,
            tk_actions = remainingActions (wt_actions template), tk_context = we_context execution, tk_resumed = True\<rparr>))))"

subsection \<open>Approvals\<close>

definition getApprovalOr404 :: "uid \<Rightarrow> uid \<Rightarrow> ('x, WorkflowApproval) wfsvc" where
  "getApprovalOr404 tenantId i =
     andThen (wfRead (getWfApprovalById i tenantId)) (\<lambda>found. case found of
       None \<Rightarrow> throw (NotFoundException (''Workflow approval with ID '' @ i @ '' not found''))
     | Some a \<Rightarrow> ret a)"

definition resumeAsRejected :: "uid \<Rightarrow> uid \<Rightarrow> string \<Rightarrow> ('x, unit) wfsvc" where
  "resumeAsRejected tenantId workflowExecutionId comments =
     tryCatch (resumeExecution tenantId workflowExecutionId False ''system'' (Some comments)) (\<lambda>_. ret ())"

definition EXPIRED_COMMENT :: string where
  "EXPIRED_COMMENT = ''Auto-rejected: Approval request expired.''"

definition storeApproval :: "WorkflowApproval \<Rightarrow> uid \<Rightarrow> wf_event \<Rightarrow> ('x, unit) wfsvc" where
  "storeApproval a tenantId event =
     andThen (wfWrite (\<lambda>now. saveWfApproval now a tenantId)) (\<lambda>_. WorkflowEventPublisher_publish event)"

definition alreadyResolved :: "WorkflowApproval \<Rightarrow> exn" where
  "alreadyResolved a = BadRequestException (''Approval is already resolved as '' @ approvalStatusName (wa_approvalStatus a))"

definition WorkflowApprovalService_approve :: "uid \<Rightarrow> uid \<Rightarrow> string option \<Rightarrow> ('x, WorkflowApproval) wfsvc" where
  "WorkflowApprovalService_approve tenantId i comments =
     andThen (getApprovalOr404 tenantId i) (\<lambda>approval.
     andThen wfNow (\<lambda>now.
     if wa_approvalStatus approval \<noteq> AP_PENDING then throw (alreadyResolved approval)
     else if Approval_isExpired now approval
     then andThen (storeApproval (Approval_reject now (Some EXPIRED_COMMENT) approval) tenantId
            (WorkflowRejectedEvent tenantId i (wa_workflowExecutionId approval))) (\<lambda>_.
          andThen (resumeAsRejected tenantId (wa_workflowExecutionId approval) EXPIRED_COMMENT) (\<lambda>_.
          throw (BadRequestException ''Approval request has expired and was auto-rejected.'')))
     else let approval' = Approval_approve now comments approval
          in andThen (storeApproval approval' tenantId (WorkflowApprovedEvent tenantId i (wa_workflowExecutionId approval))) (\<lambda>_.
             ret approval')))"

definition WorkflowApprovalService_reject :: "uid \<Rightarrow> uid \<Rightarrow> string option \<Rightarrow> ('x, WorkflowApproval) wfsvc" where
  "WorkflowApprovalService_reject tenantId i comments =
     andThen (getApprovalOr404 tenantId i) (\<lambda>approval.
     andThen wfNow (\<lambda>now.
     if wa_approvalStatus approval \<noteq> AP_PENDING then throw (alreadyResolved approval)
     else let approval' = Approval_reject now comments approval
          in andThen (storeApproval approval' tenantId (WorkflowRejectedEvent tenantId i (wa_workflowExecutionId approval))) (\<lambda>_.
             ret approval')))"

text \<open>One expired approval of the sweep; every tenant's approvals come along, each under its own tenant.\<close>

definition sweepOne :: "WorkflowApproval \<Rightarrow> ('x, unit) wfsvc" where
  "sweepOne approval =
     andThen wfNow (\<lambda>now.
     let t = wa_tenantId approval
     in andThen (storeApproval (Approval_reject now (Some EXPIRED_COMMENT) approval) t
          (WorkflowRejectedEvent t (wa_id approval) (wa_workflowExecutionId approval))) (\<lambda>_.
        andThen (resumeAsRejected t (wa_workflowExecutionId approval) EXPIRED_COMMENT) (\<lambda>_.
        tryCatch (wfAddJob (WfIncidentJob t ''workflow.approval-timeout''
          ''Workflow execution blocked by an expired approval''
          (''Approval '' @ wa_id approval @ '' for workflow execution '' @ wa_workflowExecutionId approval @
           '' expired without a decision and was auto-rejected.''))) (\<lambda>_. ret ()))))"

definition sweepExpiredApprovals :: "uid option \<Rightarrow> ('x, nat) wfsvc" where
  "sweepExpiredApprovals tenantId =
     andThen wfNow (\<lambda>now.
     andThen (wfRead (findExpiredPendingApprovals tenantId now)) (\<lambda>expired.
     andThen (forEach expired sweepOne) (\<lambda>_. ret (length expired))))"

text \<open>The endpoints: decide, then resume.\<close>

definition nobody :: uid where
  "nobody = ''00000000-0000-0000-0000-000000000000''"

definition ApprovalController_approve :: "uid \<Rightarrow> uid \<Rightarrow> string option \<Rightarrow> uid option \<Rightarrow> ('x, WorkflowApproval) wfsvc" where
  "ApprovalController_approve tenantId i comments user =
     andThen (WorkflowApprovalService_approve tenantId i comments) (\<lambda>approval.
     andThen (resumeExecution tenantId (wa_workflowExecutionId approval) True (inTemplate (orS user (Some nobody))) comments) (\<lambda>_.
     ret approval))"

definition ApprovalController_reject :: "uid \<Rightarrow> uid \<Rightarrow> string option \<Rightarrow> uid option \<Rightarrow> ('x, WorkflowApproval) wfsvc" where
  "ApprovalController_reject tenantId i comments user =
     andThen (WorkflowApprovalService_reject tenantId i comments) (\<lambda>approval.
     andThen (resumeExecution tenantId (wa_workflowExecutionId approval) False (inTemplate (orS user (Some nobody))) comments) (\<lambda>_.
     ret approval))"

end
