(* ===== verification/Workflow_Admin.thy ===== *)
theory Workflow_Admin
  imports Workflow_Engine Business_Hours
begin

text \<open>
  Templates, schedules and the queue side of the workflow module
  (\<^verbatim>\<open>workflow-template.service.ts\<close>, \<^verbatim>\<open>workflow-schedule.service.ts\<close>, \<^verbatim>\<open>jobs/workflow-queue.processor.ts\<close>,
  \<^verbatim>\<open>jobs/workflow-approval-timeout.scheduler.ts\<close>, \<^verbatim>\<open>controllers/workflow-execution.controller.ts\<close>). The answer of
  the plan limit on the number of templates is an argument of \<open>createTemplate\<close>.
\<close>

subsection \<open>Data transfer objects\<close>

record TriggerConfigDto =
  td_triggerType :: TriggerTypeEnum
  td_configuration :: "entries option"

record ConditionConfigDto =
  cd_field :: string
  cd_operator :: string
  cd_value :: string

record ActionConfigDto =
  ad_actionType :: ActionTypeEnum
  ad_configuration :: "entries option"
  ad_sequenceOrder :: int

record CreateTemplateDto =
  ctd_name :: string
  ctd_description :: "string option"
  ctd_workflowType :: WorkflowTypeEnum
  ctd_status :: "WorkflowStatusEnum option"
  ctd_triggers :: "TriggerConfigDto list"
  ctd_conditions :: "ConditionConfigDto list"
  ctd_actions :: "ActionConfigDto list"
  ctd_variables :: variables

text \<open>Each property of an update is absent, present as \<^verbatim>\<open>undefined\<close> or present with a value.\<close>

record UpdateTemplateDto =
  utd_name :: "string field"
  utd_description :: "string field"
  utd_status :: "WorkflowStatusEnum field"
  utd_triggers :: "TriggerConfigDto list field"
  utd_conditions :: "ConditionConfigDto list field"
  utd_actions :: "ActionConfigDto list field"
  utd_variables :: "variables field"

subsection \<open>Building the parts of a template\<close>

text \<open>\<^verbatim>\<open>xs.map((x) => new T(crypto.randomUUID(), ...))\<close>.\<close>

fun mapFresh :: "(uid \<Rightarrow> 'a \<Rightarrow> 'b) \<Rightarrow> 'a list \<Rightarrow> ('x, 'b list) wfsvc" where
  "mapFresh f [] = ret []"
| "mapFresh f (x # xs) = andThen wfUUID (\<lambda>i. andThen (mapFresh f xs) (\<lambda>ys. ret (f i x # ys)))"

definition entriesOr :: "entries option \<Rightarrow> entries" where
  "entriesOr c = (case c of None \<Rightarrow> [] | Some e \<Rightarrow> e)"

definition new_WorkflowTrigger :: "millis \<Rightarrow> uid \<Rightarrow> uid \<Rightarrow> uid \<Rightarrow> TriggerConfigDto \<Rightarrow> WorkflowTrigger" where
  "new_WorkflowTrigger now tenantId workflowId i d =
     \<lparr>tr_id = i, tr_tenantId = tenantId, tr_workflowId = workflowId, tr_triggerType = td_triggerType d,
      tr_configuration = entriesOr (td_configuration d), tr_createdAt = now, tr_updatedAt = now\<rparr>"

definition new_WorkflowCondition :: "millis \<Rightarrow> uid \<Rightarrow> uid \<Rightarrow> uid \<Rightarrow> ConditionConfigDto \<Rightarrow> WorkflowCondition" where
  "new_WorkflowCondition now tenantId workflowId i d =
     \<lparr>co_id = i, co_tenantId = tenantId, co_workflowId = workflowId, co_triggerId = None, co_field = cd_field d,
      co_operator = cd_operator d, co_value = cd_value d, co_createdAt = now, co_updatedAt = now\<rparr>"

definition new_WorkflowAction :: "millis \<Rightarrow> uid \<Rightarrow> uid \<Rightarrow> uid \<Rightarrow> ActionConfigDto \<Rightarrow> WorkflowAction" where
  "new_WorkflowAction now tenantId workflowId i d =
     \<lparr>ac_id = i, ac_tenantId = tenantId, ac_workflowId = workflowId, ac_actionType = ad_actionType d,
      ac_configuration = entriesOr (ad_configuration d), ac_sequenceOrder = ad_sequenceOrder d,
      ac_createdAt = now, ac_updatedAt = now\<rparr>"

definition triggerDto :: "WorkflowTrigger \<Rightarrow> TriggerConfigDto" where
  "triggerDto t = \<lparr>td_triggerType = tr_triggerType t, td_configuration = Some (tr_configuration t)\<rparr>"

definition conditionDto :: "WorkflowCondition \<Rightarrow> ConditionConfigDto" where
  "conditionDto c = \<lparr>cd_field = co_field c, cd_operator = co_operator c, cd_value = co_value c\<rparr>"

definition actionDto :: "WorkflowAction \<Rightarrow> ActionConfigDto" where
  "actionDto a = \<lparr>ad_actionType = ac_actionType a, ad_configuration = Some (ac_configuration a), ad_sequenceOrder = ac_sequenceOrder a\<rparr>"

subsection \<open>Templates\<close>

definition createTemplate :: "(uid \<Rightarrow> nat \<Rightarrow> exn + unit) \<Rightarrow> uid \<Rightarrow> CreateTemplateDto \<Rightarrow> ('x, WorkflowTemplate) wfsvc" where
  "createTemplate enforceLimit tenantId dto =
     andThen (wfRead (findTemplates tenantId None None)) (\<lambda>existing.
     andThen (liftR (enforceLimit tenantId (length (filter (\<lambda>t. \<not> wt_isSystem t) existing)))) (\<lambda>_.
     andThen wfUUID (\<lambda>templateId.
     andThen wfNow (\<lambda>now.
     andThen (mapFresh (new_WorkflowTrigger now tenantId templateId) (ctd_triggers dto)) (\<lambda>triggers.
     andThen (mapFresh (new_WorkflowCondition now tenantId templateId) (ctd_conditions dto)) (\<lambda>conditions.
     andThen (mapFresh (new_WorkflowAction now tenantId templateId) (ctd_actions dto)) (\<lambda>actions.
     let template =
       \<lparr>wt_id = templateId, wt_tenantId = tenantId, wt_name = Some (ctd_name dto), wt_description = ctd_description dto,
        wt_workflowType = ctd_workflowType dto,
        wt_status = (case ctd_status dto of None \<Rightarrow> Some WF_DRAFT | Some s \<Rightarrow> Some s), wt_isSystem = False,
        wt_triggers = triggers, wt_conditions = conditions, wt_actions = actions, wt_variables = ctd_variables dto,
        wt_createdAt = now, wt_updatedAt = now, wt_version = 1\<rparr>
     in andThen (wfTryWrite (\<lambda>now. saveTemplate now template tenantId)) (\<lambda>_.
        andThen (WorkflowEventPublisher_publish (WorkflowCreatedEvent tenantId templateId (wt_name template))) (\<lambda>_.
        ret template)))))))))"

text \<open>\<^verbatim>\<open>dto.xs || template.xs.map((x) => x.toJSON())\<close>: an array is truthy, even an empty one.\<close>

fun givenOr :: "'d list field \<Rightarrow> 'd list \<Rightarrow> 'd list" where
  "givenOr (Val ds) loaded = ds"
| "givenOr _ loaded = loaded"

fun given :: "'a field \<Rightarrow> bool" where
  "given (Val _) = True"
| "given _ = False"

text \<open>\<^verbatim>\<open>template.update(dto)\<close> with the parts as they come; parts given with a value are rebuilt below.\<close>

fun emptied :: "'d list field \<Rightarrow> 'e list field" where
  "emptied Absent = Absent"
| "emptied Undef = Undef"
| "emptied (Val _) = Absent"

definition dtoPatch :: "UpdateTemplateDto \<Rightarrow> TemplatePatch" where
  "dtoPatch dto =
     \<lparr>tp_name = utd_name dto, tp_description = utd_description dto, tp_status = utd_status dto,
      tp_triggers = emptied (utd_triggers dto), tp_conditions = emptied (utd_conditions dto),
      tp_actions = emptied (utd_actions dto), tp_variables = utd_variables dto\<rparr>"

definition updateTemplate :: "uid \<Rightarrow> uid \<Rightarrow> UpdateTemplateDto \<Rightarrow> ('x, WorkflowTemplate) wfsvc" where
  "updateTemplate tenantId i dto =
     andThen (getTemplateOrThrow tenantId i) (\<lambda>loaded.
     andThen wfNow (\<lambda>now.
     let template = Template_update now (dtoPatch dto) loaded
     in andThen
          (if given (utd_triggers dto) \<or> given (utd_conditions dto) \<or> given (utd_actions dto)
           then andThen (mapFresh (new_WorkflowTrigger now tenantId i) (givenOr (utd_triggers dto) (map triggerDto (wt_triggers template)))) (\<lambda>triggers.
                andThen (mapFresh (new_WorkflowCondition now tenantId i) (givenOr (utd_conditions dto) (map conditionDto (wt_conditions template)))) (\<lambda>conditions.
                andThen (mapFresh (new_WorkflowAction now tenantId i) (givenOr (utd_actions dto) (map actionDto (wt_actions template)))) (\<lambda>actions.
                ret (setDefinition now triggers conditions actions template))))
           else ret template) (\<lambda>template.
        let template' = (case utd_variables dto of Val vs \<Rightarrow> setVariables now vs template | _ \<Rightarrow> template)
        in andThen (wfTryWrite (\<lambda>now. saveTemplate now template' tenantId)) (\<lambda>_.
           andThen (WorkflowEventPublisher_publish (WorkflowUpdatedEvent tenantId i)) (\<lambda>_.
           ret template')))))"

definition deleteTemplateOrThrow :: "uid \<Rightarrow> uid \<Rightarrow> ('x, bool) wfsvc" where
  "deleteTemplateOrThrow tenantId i =
     andThen (wfRead (\<lambda>db. fst (deleteTemplate i tenantId db))) (\<lambda>deleted.
     andThen (wfWrite (\<lambda>_ db. snd (deleteTemplate i tenantId db))) (\<lambda>_.
     if \<not> deleted then throw (NotFoundException (''Workflow template with ID '' @ i @ '' not found'')) else ret deleted))"

definition publishVersion :: "uid \<Rightarrow> uid \<Rightarrow> ('x, int) wfsvc" where
  "publishVersion tenantId i =
     andThen (getTemplateOrThrow tenantId i) (\<lambda>loaded.
     andThen wfNow (\<lambda>now.
     let (newVersion, template) = publishNewVersion now loaded
     in andThen (wfTryWrite (\<lambda>now. saveTemplate now template tenantId)) (\<lambda>_.
        andThen (wfWrite (\<lambda>_. saveVersion i newVersion template True tenantId)) (\<lambda>_.
        ret newVersion))))"

definition setTemplateStatus :: "uid \<Rightarrow> uid \<Rightarrow> WorkflowStatusEnum \<Rightarrow> wf_event \<Rightarrow> ('x, WorkflowTemplate) wfsvc" where
  "setTemplateStatus tenantId i status event =
     andThen (getTemplateOrThrow tenantId i) (\<lambda>loaded.
     andThen wfNow (\<lambda>now.
     let template = Template_update now (emptyTemplatePatch\<lparr>tp_status := Val status\<rparr>) loaded
     in andThen (wfTryWrite (\<lambda>now. saveTemplate now template tenantId)) (\<lambda>_.
        andThen (WorkflowEventPublisher_publish event) (\<lambda>_.
        ret template))))"

definition activateTemplate :: "uid \<Rightarrow> uid \<Rightarrow> ('x, WorkflowTemplate) wfsvc" where
  "activateTemplate tenantId i = setTemplateStatus tenantId i WF_ACTIVE (WorkflowActivatedEvent tenantId i)"

definition pauseTemplate :: "uid \<Rightarrow> uid \<Rightarrow> ('x, WorkflowTemplate) wfsvc" where
  "pauseTemplate tenantId i = setTemplateStatus tenantId i WF_PAUSED (WorkflowPausedEvent tenantId i)"

subsection \<open>Schedules\<close>

definition HOUR_MS :: int where
  "HOUR_MS = 3600000"

record CreateScheduleDto =
  csd_workflowId :: uid
  csd_cronExpression :: string
  csd_timezone :: "string option"

definition createSchedule :: "uid \<Rightarrow> CreateScheduleDto \<Rightarrow> ('x, WorkflowSchedule) wfsvc" where
  "createSchedule tenantId dto =
     andThen wfUUID (\<lambda>scheduleId.
     andThen wfNow (\<lambda>now.
     let schedule =
       \<lparr>sc_id = scheduleId, sc_tenantId = tenantId, sc_workflowId = csd_workflowId dto,
        sc_cronExpression = csd_cronExpression dto, sc_timezone = inTemplate (orS (csd_timezone dto) (Some ''UTC'')),
        sc_nextRunAt = Some (now + HOUR_MS), sc_lastRunAt = None, sc_isActive = True, sc_createdAt = now, sc_updatedAt = now\<rparr>
     in andThen (wfWrite (\<lambda>now. saveSchedule now schedule tenantId)) (\<lambda>_. ret schedule)))"

definition getScheduleOrThrow :: "uid \<Rightarrow> uid \<Rightarrow> ('x, WorkflowSchedule) wfsvc" where
  "getScheduleOrThrow tenantId i =
     andThen (wfRead (getScheduleById i tenantId)) (\<lambda>found. case found of
       None \<Rightarrow> throw (NotFoundException (''Workflow schedule with ID '' @ i @ '' not found''))
     | Some s \<Rightarrow> ret s)"

definition deleteScheduleOrThrow :: "uid \<Rightarrow> uid \<Rightarrow> ('x, bool) wfsvc" where
  "deleteScheduleOrThrow tenantId i =
     andThen (wfRead (\<lambda>db. fst (deleteSchedule i tenantId db))) (\<lambda>deleted.
     andThen (wfWrite (\<lambda>_ db. snd (deleteSchedule i tenantId db))) (\<lambda>_.
     if \<not> deleted then throw (NotFoundException (''Workflow schedule with ID '' @ i @ '' not found'')) else ret deleted))"

definition recordExecutionRun :: "uid \<Rightarrow> uid \<Rightarrow> ('x, WorkflowSchedule) wfsvc" where
  "recordExecutionRun tenantId i =
     andThen (getScheduleOrThrow tenantId i) (\<lambda>schedule.
     andThen wfNow (\<lambda>now.
     let schedule' = updateRun now (now + HOUR_MS) schedule
     in andThen (wfWrite (\<lambda>now. saveSchedule now schedule' tenantId)) (\<lambda>_. ret schedule')))"

definition toggleSchedule :: "uid \<Rightarrow> uid \<Rightarrow> bool \<Rightarrow> ('x, WorkflowSchedule) wfsvc" where
  "toggleSchedule tenantId i active =
     andThen (getScheduleOrThrow tenantId i) (\<lambda>schedule.
     andThen wfNow (\<lambda>now.
     let schedule' = toggle now active schedule
     in andThen (wfWrite (\<lambda>now. saveSchedule now schedule' tenantId)) (\<lambda>_. ret schedule')))"

subsection \<open>The queue\<close>

definition ApprovalTimeoutScheduler_enqueueSweep :: "('x, unit) wfsvc" where
  "ApprovalTimeoutScheduler_enqueueSweep = tryCatch (wfAddJob (WorkflowApprovalTimeoutJob None)) (\<lambda>_. ret ())"

text \<open>The name a job carries, and the tenant of its data.\<close>

fun wfJobName :: "wf_job \<Rightarrow> string" where
  "wfJobName (WorkflowExecutionJob _ _ _) = ''workflow-execution-job''"
| "wfJobName (WorkflowApprovalJob _ _ _ _) = ''workflow-approval-job''"
| "wfJobName (WorkflowApprovalTimeoutJob _) = ''workflow-approval-timeout-job''"
| "wfJobName (WorkflowScheduleJob _ _) = ''workflow-schedule-job''"
| "wfJobName (WorkflowRetryJob _ _) = ''workflow-retry-job''"
| "wfJobName WorkflowCleanupJob = ''workflow-cleanup-job''"
| "wfJobName (WfIncidentJob _ _ _ _) = ''admin-incident-job''"
| "wfJobName (OtherWorkflowJob n) = n"

definition jobTenant :: "QueuedWfJob \<Rightarrow> uid \<Rightarrow> uid" where
  "jobTenant q t = inTemplate (orS (qf_tenantContext q) (Some t))"

definition handleWorkflowJob :: "QueuedWfJob \<Rightarrow> ('x, entries) wfsvc" where
  "handleWorkflowJob q =
     (case qf_job q of
        WorkflowApprovalTimeoutJob t \<Rightarrow>
          andThen (sweepExpiredApprovals t) (\<lambda>n. ret [(''expired'', JNum (int n))])
      | WorkflowExecutionJob t e i \<Rightarrow> ret [(''success'', JBool True)]
      | WorkflowApprovalJob t approvalId e _ \<Rightarrow>
          (let tenantId = jobTenant q t
           in andThen (getApprovalOr404 tenantId approvalId) (\<lambda>approval.
              andThen wfNow (\<lambda>now.
              if Approval_isExpired now approval
              then andThen (tryCatch
                     (andThen (WorkflowApprovalService_reject tenantId (wa_id approval) (Some EXPIRED_COMMENT)) (\<lambda>_.
                      resumeExecution tenantId (wa_workflowExecutionId approval) False ''SYSTEM'' (Some ''Auto-rejected: Expired'')))
                     (\<lambda>_. ret ())) (\<lambda>_.
                   ret [(''status'', JStr ''expired_rejected'')])
              else ret [(''status'', JStr ''checked_active'')])))
      | WorkflowScheduleJob t scheduleId \<Rightarrow>
          (let tenantId = jobTenant q t
           in andThen (getScheduleOrThrow tenantId scheduleId) (\<lambda>schedule.
              if sc_isActive schedule
              then andThen (getTemplateOrThrow tenantId (sc_workflowId schedule)) (\<lambda>template.
                   andThen wfNow (\<lambda>now.
                   andThen (runWorkflowTemplate tenantId template
                     [(''scheduleId'', JStr (sc_id schedule)), (''triggeredAt'', JStr (toISOString now))] ''SCHEDULED'') (\<lambda>executionId.
                   andThen (recordExecutionRun tenantId (sc_id schedule)) (\<lambda>_.
                   ret [(''executionId'', JStr executionId), (''status'', JStr ''triggered'')]))))
              else ret [(''status'', JStr ''skipped_inactive'')]))
      | WorkflowRetryJob t executionId \<Rightarrow>
          andThen (resumeExecution (jobTenant q t) executionId True ''RETRY_ENGINE'' (Some ''Retrying execution step'')) (\<lambda>_.
          ret [(''success'', JBool True)])
      | WorkflowCleanupJob \<Rightarrow> ret [(''cleaned'', JBool True)]
      | j \<Rightarrow> throw (Error (''Unknown job name: '' @ wfJobName j)))"

definition ExecutionController_executeWorkflow :: "uid \<Rightarrow> ExecuteWorkflowDto \<Rightarrow> ('x, WorkflowExecution) wfsvc" where
  "ExecutionController_executeWorkflow tenantId dto =
     andThen (getTemplateOrThrow tenantId (ew_workflowId dto)) (\<lambda>template.
     andThen (runWorkflowTemplate tenantId template (entriesOr (ew_context dto))
       (inTemplate (orS (ew_triggerSource dto) (Some ''MANUAL'')))) (\<lambda>executionId.
     getExecutionOrThrow tenantId executionId))"

end
