(* ===== verification/State_Frame.thy ===== *)
theory State_Frame
  imports Prelude
begin

text \<open>
  What a service method leaves alone. \<open>state_frame\<close> is the interface: a reflexive and transitive
  relation between the state before and after. A method respects it when every run does, and the
  combinators of the prelude keep that, so a whole handler respects a relation as soon as its
  statements do.
\<close>

named_theorems frame_intros \<open>methods that respect a relation on states\<close>

definition framed :: "('s \<Rightarrow> 's \<Rightarrow> bool) \<Rightarrow> ('s, 'a) svc \<Rightarrow> bool" where
  "framed R m \<longleftrightarrow> (\<forall>s. R s (snd (m s)))"

lemma framedD: "framed R m \<Longrightarrow> m s = (r, s') \<Longrightarrow> R s s'"
  by (auto simp: framed_def dest: spec [of _ s])

locale state_frame =
  fixes R :: "'s \<Rightarrow> 's \<Rightarrow> bool"
  assumes R_refl: "R s s"
    and R_trans: "R s t \<Longrightarrow> R t u \<Longrightarrow> R s u"
begin

lemma frame_ret: "framed R (ret a)"
  by (simp add: framed_def R_refl)

lemma frame_throw: "framed R (throw e)"
  by (simp add: framed_def R_refl)

lemma frame_liftR: "framed R (liftR r)"
  by (simp add: framed_def R_refl)

lemma frame_asks: "framed R (asks f)"
  by (simp add: framed_def R_refl)

lemma frame_modify: "(\<And>s. R s (f s)) \<Longrightarrow> framed R (modify f)"
  by (simp add: framed_def)

lemma frame_andThen:
  assumes "framed R m" "\<And>a. framed R (k a)"
  shows "framed R (andThen m k)"
  unfolding framed_def
proof
  fix s
  obtain r s' where m: "m s = (r, s')" by (cases "m s")
  with assms(1) have 1: "R s s'" by (blast intro: framedD)
  show "R s (snd (andThen m k s))"
  proof (cases r)
    case (Inl e)
    with m 1 show ?thesis by simp
  next
    case (Inr a)
    from assms(2) have "R s' (snd (k a s'))" by (simp add: framed_def)
    with 1 m Inr R_trans show ?thesis by auto
  qed
qed

lemma frame_tryCatch:
  assumes "framed R m" "\<And>e. framed R (h e)"
  shows "framed R (tryCatch m h)"
  unfolding framed_def
proof
  fix s
  obtain r s' where m: "m s = (r, s')" by (cases "m s")
  with assms(1) have 1: "R s s'" by (blast intro: framedD)
  show "R s (snd (tryCatch m h s))"
  proof (cases r)
    case (Inl e)
    from assms(2) have "R s' (snd (h e s'))" by (simp add: framed_def)
    with 1 m Inl R_trans show ?thesis by auto
  next
    case (Inr a)
    with m 1 show ?thesis by simp
  qed
qed

lemma frame_forEach: "(\<And>x. framed R (f x)) \<Longrightarrow> framed R (forEach xs f)"
  by (induction xs) (auto intro: frame_ret frame_andThen)

lemmas frame_rules = frame_ret frame_throw frame_liftR frame_asks frame_andThen frame_tryCatch frame_forEach

end

end
