(* ===== verification/Workflow_Runs.thy ===== *)
theory Workflow_Runs
  imports Workflow_Admin State_Frame
begin

text \<open>
  The life of an execution. \<open>wf_step\<close> is one move of the module: an event, a request, a job, an open
  task that runs, time or the outside world. \<open>runInv\<close> says that an execution is active exactly as
  long as its actions are still to run and that its row records how it ended; every step keeps it.
\<close>

section \<open>Frames\<close>

text \<open>
  What the workflow services do to the rows of the executions and to the open tasks: an action
  touches neither, the four state changes of an execution overwrite exactly its rows, and a task
  leaves its execution at rest.
\<close>

subsection \<open>Actions leave executions and tasks alone\<close>

definition sameRun :: "'x WfWorld \<Rightarrow> 'x WfWorld \<Rightarrow> bool" where
  "sameRun w w' \<longleftrightarrow> db_executions (ww_db w') = db_executions (ww_db w) \<and> ww_tasks w' = ww_tasks w \<and>
     ww_uuid w' = ww_uuid w \<and> ww_uuidNext w \<le> ww_uuidNext w' \<and> db_templates (ww_db w') = db_templates (ww_db w)"

interpretation run_frame: state_frame sameRun
  by unfold_locales (auto simp: sameRun_def)

lemma frame_wfUUID [frame_intros]: "framed sameRun wfUUID"
  by (simp add: framed_def wfUUID_def sameRun_def)

lemma frame_wfNow [frame_intros]: "framed sameRun wfNow"
  unfolding wfNow_def by (rule run_frame.frame_asks)

lemma frame_wfRead [frame_intros]: "framed sameRun (wfRead f)"
  unfolding wfRead_def by (rule run_frame.frame_asks)

lemma frame_wfSleep [frame_intros]: "framed sameRun (wfSleep d)"
  by (simp add: wfSleep_def framed_def sameRun_def)

lemma frame_wfAddJob [frame_intros]: "framed sameRun (wfAddJob j)"
  by (simp add: wfAddJob_def framed_def sameRun_def)

lemma frame_callPort [frame_intros]: "framed sameRun (callPort p)"
  by (auto simp: callPort_def framed_def sameRun_def Let_def split: prod.splits)

lemma frame_publish [frame_intros]: "framed sameRun (WorkflowEventPublisher_publish e)"
  unfolding WorkflowEventPublisher_publish_def
  by (cases e) (auto intro!: run_frame.frame_rules frame_intros)

lemma frame_logAudit [frame_intros]: "framed sameRun (WorkflowAuditService_logAudit t i e a d)"
  by (simp add: WorkflowAuditService_logAudit_def wfWrite_def wfLogAudit_def framed_def sameRun_def)

lemma frame_saveApproval [frame_intros]: "framed sameRun (wfWrite (\<lambda>now. saveWfApproval now a t))"
  by (simp add: wfWrite_def saveWfApproval_def framed_def sameRun_def)

lemma frame_createApproval [frame_intros]: "framed sameRun (createApproval t e a h)"
  unfolding createApproval_def Let_def by (intro run_frame.frame_rules frame_intros)

lemma frame_executeAction [frame_intros]: "framed sameRun (executeAction ports t a c e)"
  unfolding executeAction_def Let_def missingId_def
  by (cases "ac_actionType a") (auto intro!: run_frame.frame_rules frame_intros)

lemma frame_retryLoop [frame_intros]: "framed sameRun (retryLoop ports t a c e i n ds)"
  by (induction ds arbitrary: n) (auto intro!: run_frame.frame_rules frame_intros)

lemma frame_executeActionWithRetry [frame_intros]: "framed sameRun (executeActionWithRetry ports t a c e i)"
  unfolding executeActionWithRetry_def by (auto intro!: frame_intros)

section \<open>Executions and tasks\<close>

subsection \<open>The state changes of an execution\<close>

definition overwriteRow :: "uid \<Rightarrow> uid \<Rightarrow> WorkflowExecution \<Rightarrow> WorkflowExecution \<Rightarrow> WorkflowExecution" where
  "overwriteRow i t e r = (if sameExecution i t r then e\<lparr>we_createdAt := we_createdAt r\<rparr> else r)"

lemma find_getWfExecutionById:
  "getWfExecutionById i t db = Some e \<Longrightarrow> we_id e = i \<and> we_tenantId e = t \<and>
     (\<exists>r \<in> set (db_executions db). sameExecution i t r \<and> we_executionStatus r = we_executionStatus e \<and>
        we_completedAt r = we_completedAt e \<and> we_result r = we_result e \<and> we_error r = we_error e)"
  by (auto simp: getWfExecutionById_def sameExecution_def dest!: find_Some_set)

lemma getWfExecutionById_None: "getWfExecutionById i t db = None \<longleftrightarrow> (\<forall>r \<in> set (db_executions db). \<not> sameExecution i t r)"
  by (auto simp: getWfExecutionById_def find_None_iff)

lemma changeExecution_missing:
  "getWfExecutionById i t (ww_db w) = None \<Longrightarrow>
   changeExecution t i f ev w = (Inl (NotFoundException (''Workflow execution with ID '' @ i @ '' not found'')), w)"
  by (simp add: changeExecution_def getExecutionOrThrow_def wfRead_def svc_simps)

lemma changeExecution_found:
  assumes found: "getWfExecutionById i t (ww_db w) = Some e"
    and key: "\<And>now. we_id (f now e) = i" "\<And>now. we_tenantId (f now e) = t"
  shows "\<exists>w'. changeExecution t i f ev w = (Inr (f (ww_now w) e), w') \<and>
     db_executions (ww_db w') = map (overwriteRow i t (wfExecutionColumns (ww_now w) (f (ww_now w) e))) (db_executions (ww_db w)) \<and>
     ww_tasks w' = ww_tasks w \<and> ww_uuid w' = ww_uuid w \<and> ww_uuidNext w' = ww_uuidNext w \<and>
     db_templates (ww_db w') = db_templates (ww_db w)"
proof -
  let ?e = "f (ww_now w) e"
  define w1 where "w1 = w\<lparr>ww_db := saveWfExecution (ww_now w) ?e t (ww_db w)\<rparr>"
  from find_getWfExecutionById [OF found] have ex: "list_ex (sameExecution i t) (db_executions (ww_db w))"
    by (auto simp: list_ex_iff)
  have rows: "db_executions (ww_db w1) =
      map (overwriteRow i t (wfExecutionColumns (ww_now w) ?e)) (db_executions (ww_db w))"
    using ex key by (simp add: w1_def saveWfExecution_def overwriteRow_def)
  let ?p = "case ev ?e of None \<Rightarrow> ret () | Some e \<Rightarrow> WorkflowEventPublisher_publish e"
  obtain r w2 where p: "?p w1 = (r, w2)" by (cases "?p w1")
  have "framed sameRun ?p" by (auto intro!: frame_intros run_frame.frame_ret split: option.split)
  with p have frame: "sameRun w1 w2" by (blast intro: framedD)
  have ok: "\<exists>u. r = Inr u"
    using p by (cases "ev ?e")
      (auto simp: WorkflowEventPublisher_publish_def wfAddJob_def svc_simps split: wf_event.splits if_splits)
  define w3 where "w3 = w2\<lparr>ww_realtime := ww_realtime w2 @ [(t, ?e)]\<rparr>"
  have next_same: "ww_uuidNext w2 = ww_uuidNext w1"
    using p by (cases "ev ?e")
      (auto simp: WorkflowEventPublisher_publish_def wfAddJob_def svc_simps split: wf_event.splits if_splits)
  have "changeExecution t i f ev w = (Inr ?e, w3)"
    using found p ok unfolding changeExecution_def
    by (auto simp: getExecutionOrThrow_def wfRead_def wfNow_def wfWrite_def emitWorkflowExecutionUpdate_def
        svc_simps w1_def w3_def Let_def)
  with rows frame next_same show ?thesis by (auto simp: sameRun_def w3_def w1_def saveWfExecution_def)
qed

subsection \<open>The invariant\<close>

definition taskKey :: "WfTask \<Rightarrow> uid \<times> uid" where
  "taskKey t = (tk_executionId t, tk_tenantId t)"

definition execKey :: "WorkflowExecution \<Rightarrow> uid \<times> uid" where
  "execKey e = (we_id e, we_tenantId e)"

text \<open>How a row records the end of its execution.\<close>

fun endRecorded :: "WorkflowStatusEnum \<Rightarrow> bool \<times> bool \<times> bool" where
  "endRecorded WF_COMPLETED = (True, True, False)"
| "endRecorded WF_FAILED = (True, False, True)"
| "endRecorded _ = (False, False, False)"

definition rowOk :: "WorkflowExecution \<Rightarrow> bool" where
  "rowOk e \<longleftrightarrow> (we_completedAt e \<noteq> None, we_result e \<noteq> None, we_error e \<noteq> None) = endRecorded (we_executionStatus e)"

definition usedIds :: "'x WfWorld \<Rightarrow> uid set" where
  "usedIds w = ww_uuid w ` {..<ww_uuidNext w}"

text \<open>\<open>K\<close> holds the executions being started and those whose actions run at this moment.\<close>

definition busy :: "WorkflowStatusEnum \<Rightarrow> bool" where
  "busy s \<longleftrightarrow> s = WF_ACTIVE \<or> s = WF_DRAFT"

definition runInvK :: "(uid \<times> uid) set \<Rightarrow> 'x WfWorld \<Rightarrow> bool" where
  "runInvK K w \<longleftrightarrow> inj (ww_uuid w) \<and> distinct (map taskKey (ww_tasks w)) \<and> K \<inter> taskKey ` set (ww_tasks w) = {} \<and>
     (\<forall>t \<in> set (ww_tasks w). tk_executionId t \<in> usedIds w) \<and>
     (\<forall>e \<in> set (db_executions (ww_db w)). we_id e \<in> usedIds w \<and> rowOk e \<and>
        (busy (we_executionStatus e) \<longleftrightarrow> execKey e \<in> taskKey ` set (ww_tasks w) \<union> K) \<and>
        (we_executionStatus e = WF_DRAFT \<longrightarrow> execKey e \<in> K))"

definition noDraft :: "'x WfWorld \<Rightarrow> bool" where
  "noDraft w \<longleftrightarrow> (\<forall>e \<in> set (db_executions (ww_db w)). we_executionStatus e \<noteq> WF_DRAFT)"

definition runInv :: "'x WfWorld \<Rightarrow> bool" where
  "runInv w \<longleftrightarrow> runInvK {} w"

lemma usedIds_mono: "ww_uuid w' = ww_uuid w \<Longrightarrow> ww_uuidNext w \<le> ww_uuidNext w' \<Longrightarrow> usedIds w \<subseteq> usedIds w'"
  by (auto simp: usedIds_def)

lemma runInvK_frame:
  assumes "db_executions (ww_db w') = db_executions (ww_db w)" "ww_tasks w' = ww_tasks w"
    "ww_uuid w' = ww_uuid w" "ww_uuidNext w \<le> ww_uuidNext w'" "runInvK K w"
  shows "runInvK K w'"
  using assms(5) usedIds_mono [OF assms(3,4)] unfolding runInvK_def assms(1-3) by auto

lemma runInvK_sameRun: "sameRun w w' \<Longrightarrow> runInvK K w \<Longrightarrow> runInvK K w'"
  by (rule runInvK_frame [of w' w]) (auto simp: sameRun_def)

lemma rowOk_columns [simp]: "rowOk ((wfExecutionColumns now e)\<lparr>we_createdAt := c\<rparr>) = rowOk e"
  by (simp add: rowOk_def wfExecutionColumns_def)

lemma columns_simps [simp]:
  "we_id (wfExecutionColumns now e) = we_id e" "we_tenantId (wfExecutionColumns now e) = we_tenantId e"
  "we_executionStatus (wfExecutionColumns now e) = we_executionStatus e"
  by (simp_all add: wfExecutionColumns_def)

lemma changeExecution_runInvK:
  assumes inv: "runInvK K w" and found: "getWfExecutionById i t (ww_db w) = Some e"
    and key: "\<And>now. we_id (f now e) = i" "\<And>now. we_tenantId (f now e) = t"
    and ok: "rowOk (f (ww_now w) e)"
    and st: "busy (we_executionStatus (f (ww_now w) e)) \<longleftrightarrow> (i, t) \<in> taskKey ` set (ww_tasks w) \<union> K'"
    and nodraft: "we_executionStatus (f (ww_now w) e) \<noteq> WF_DRAFT"
    and K': "K' - {(i, t)} = K - {(i, t)}" "K' \<inter> taskKey ` set (ww_tasks w) = {}"
    and run: "changeExecution t i f ev w = (r, w')"
  shows "r = Inr (f (ww_now w) e) \<and> runInvK K' w' \<and> ww_tasks w' = ww_tasks w"
proof -
  let ?e = "f (ww_now w) e"
  from changeExecution_found [where f = f and ev = ev, OF found key] run
  have w': "r = Inr ?e" "ww_tasks w' = ww_tasks w" "ww_uuid w' = ww_uuid w" "ww_uuidNext w' = ww_uuidNext w"
    and rows: "db_executions (ww_db w') = map (overwriteRow i t (wfExecutionColumns (ww_now w) ?e)) (db_executions (ww_db w))"
    by auto
  then have used: "usedIds w' = usedIds w" by (simp add: usedIds_def)
  have "we_id x \<in> usedIds w \<and> rowOk x \<and> (busy (we_executionStatus x) \<longleftrightarrow> execKey x \<in> taskKey ` set (ww_tasks w) \<union> K') \<and>
      (we_executionStatus x = WF_DRAFT \<longrightarrow> execKey x \<in> K')"
    if "x \<in> set (db_executions (ww_db w'))" for x
  proof -
    from that rows obtain y where y: "y \<in> set (db_executions (ww_db w))"
      and x: "x = overwriteRow i t (wfExecutionColumns (ww_now w) ?e) y" by auto
    from inv y have yinv: "we_id y \<in> usedIds w" "rowOk y"
      "busy (we_executionStatus y) \<longleftrightarrow> execKey y \<in> taskKey ` set (ww_tasks w) \<union> K"
      "we_executionStatus y = WF_DRAFT \<longrightarrow> execKey y \<in> K" by (auto simp: runInvK_def)
    show ?thesis
    proof (cases "sameExecution i t y")
      case True
      then have "we_id x = we_id y" "execKey x = (i, t)" "rowOk x" "we_executionStatus x = we_executionStatus ?e"
        using x key ok by (auto simp: overwriteRow_def sameExecution_def execKey_def)
      with yinv st nodraft show ?thesis by simp
    next
      case False
      then have "x = y" "execKey y \<noteq> (i, t)" using x by (auto simp: overwriteRow_def sameExecution_def execKey_def)
      with yinv K'(1) show ?thesis by blast
    qed
  qed
  with inv K'(2) used w' show ?thesis unfolding runInvK_def by auto
qed

lemma runInvK_absent:
  assumes "runInvK {(i, t)} w" "getWfExecutionById i t (ww_db w) = None"
  shows "runInvK {} w"
  using assms by (auto simp: runInvK_def getWfExecutionById_None sameExecution_def execKey_def)

subsection \<open>Ending, starting\<close>

lemma sleeping_row: "runInvK K w \<Longrightarrow> getWfExecutionById i t (ww_db w) = Some e \<Longrightarrow> rowOk e"
  using find_getWfExecutionById [of i t "ww_db w" e] by (fastforce simp: runInvK_def rowOk_def)

lemma running_row:
  "runInvK {(i, t)} w \<Longrightarrow> getWfExecutionById i t (ww_db w) = Some e \<Longrightarrow> busy (we_executionStatus e)"
  using find_getWfExecutionById [of i t "ww_db w" e] by (fastforce simp: runInvK_def sameExecution_def execKey_def)

lemmas execution_methods = Execution_complete_def Execution_fail_def Execution_pause_def Execution_start_def

text \<open>The three ways the running actions end.\<close>

lemma endExecution_runInvK:
  assumes inv: "runInvK {(i, t)} w"
    and f: "f = Execution_pause \<or> f = (\<lambda>now. Execution_complete now x) \<or> f = (\<lambda>now. Execution_fail now x)"
    and run: "changeExecution t i f ev w = (r, w')"
  shows "ww_tasks w' = ww_tasks w \<and> (case r of Inl _ \<Rightarrow> w' = w \<and> getWfExecutionById i t (ww_db w) = None
      | Inr e \<Rightarrow> runInvK {} w')"
proof (cases "getWfExecutionById i t (ww_db w)")
  case None
  with run changeExecution_missing [OF None] show ?thesis by auto
next
  case (Some e)
  from find_getWfExecutionById [OF Some] have key: "we_id e = i" "we_tenantId e = t" by auto
  from inv have notask: "(i, t) \<notin> taskKey ` set (ww_tasks w)" by (auto simp: runInvK_def)
  from sleeping_row [OF inv Some] running_row [OF inv Some] f have ok: "rowOk (f (ww_now w) e)"
    by (auto simp: rowOk_def execution_methods busy_def)
  have "r = Inr (f (ww_now w) e) \<and> runInvK {} w' \<and> ww_tasks w' = ww_tasks w"
    by (rule changeExecution_runInvK [where K = "{(i, t)}" and f = f, OF inv Some _ _ ok _ _ _ _ run])
      (use f key notask in \<open>auto simp: execution_methods busy_def\<close>)
  then show ?thesis by auto
qed

lemma startExecution_runInvK:
  assumes inv: "runInvK K w" and found: "getWfExecutionById i t (ww_db w) = Some e" and K: "K \<subseteq> {(i, t)}"
    and sleeping: "we_executionStatus e = WF_DRAFT \<or> we_executionStatus e = WF_PAUSED"
  shows "\<exists>w'. startExecution t i w = (Inr (Execution_start (ww_now w) e), w') \<and> runInvK {(i, t)} w' \<and> noDraft w' \<and>
    ww_tasks w' = ww_tasks w"
proof -
  obtain r w' where run: "startExecution t i w = (r, w')" by (cases "startExecution t i w")
  from find_getWfExecutionById [OF found] obtain y where key: "we_id e = i" "we_tenantId e = t"
    and y: "y \<in> set (db_executions (ww_db w))" "execKey y = (i, t)" "we_executionStatus y = we_executionStatus e"
    by (auto simp: sameExecution_def execKey_def)
  from inv y sleeping have notask: "(i, t) \<notin> taskKey ` set (ww_tasks w)" by (fastforce simp: runInvK_def busy_def)
  have "rowOk (Execution_start (ww_now w) e)"
    using sleeping_row [OF inv found] sleeping by (auto simp: rowOk_def execution_methods)
  then have "r = Inr (Execution_start (ww_now w) e) \<and> runInvK {(i, t)} w' \<and> ww_tasks w' = ww_tasks w"
    by (intro changeExecution_runInvK [where K = K and f = Execution_start, OF inv found
          _ _ _ _ _ _ _ run [unfolded startExecution_def]])
      (use key notask K in \<open>auto simp: execution_methods busy_def\<close>)
  moreover have "noDraft w'"
    using changeExecution_found [where f = Execution_start and ev = "\<lambda>e. Some (WorkflowExecutionStartedEvent t i (we_workflowId e))", OF found]
      inv K key run unfolding startExecution_def
    by (auto simp: noDraft_def runInvK_def overwriteRow_def sameExecution_def execKey_def execution_methods)
  ultimately show ?thesis using run by blast
qed

subsection \<open>A task runs to its end\<close>

lemma logAudit_runInvK:
  assumes "runInvK K w"
  shows "\<exists>w'. WorkflowAuditService_logAudit t i e a d w = (Inr (), w') \<and> runInvK K w' \<and> ww_tasks w' = ww_tasks w"
proof -
  obtain r w' where run: "WorkflowAuditService_logAudit t i e a d w = (r, w')" by (cases "WorkflowAuditService_logAudit t i e a d w")
  from framedD [OF frame_logAudit run] have "sameRun w w'" .
  with assms run show ?thesis
    by (auto simp: WorkflowAuditService_logAudit_def wfWrite_def sameRun_def intro: runInvK_sameRun)
qed

lemma executeActionsFrom_runInvK:
  assumes "runInvK {(i, t)} w"
  shows "\<exists>r w'. executeActionsFrom ports t as i c tid rs w = (r, w') \<and> ww_tasks w' = ww_tasks w \<and>
    (case r of Inl _ \<Rightarrow> runInvK {(i, t)} w' | Inr _ \<Rightarrow> runInvK {} w')"
  using assms
proof (induction "as" arbitrary: rs w)
  case Nil
  obtain r w1 where run: "completeExecution t i rs w = (r, w1)" by (cases "completeExecution t i rs w")
  from endExecution_runInvK [OF Nil _ run [unfolded completeExecution_def], of rs] have
    "ww_tasks w1 = ww_tasks w" "case r of Inl _ \<Rightarrow> w1 = w | Inr e \<Rightarrow> runInvK {} w1" by (auto split: sum.splits)
  with run logAudit_runInvK [of "{}" w1 t tid i] Nil show ?case
    by (cases r) (fastforce simp: svc_simps)+
next
  case (Cons a "as")
  obtain r w1 where run: "executeActionWithRetry ports t a c i tid w = (r, w1)" by (cases "executeActionWithRetry ports t a c i tid w")
  from framedD [OF frame_executeActionWithRetry run] have "sameRun w w1" .
  with Cons.prems have w1: "runInvK {(i, t)} w1" "ww_tasks w1 = ww_tasks w" by (auto simp: sameRun_def intro: runInvK_sameRun)
  show ?case
  proof (cases r)
    case (Inl e)
    with run w1 show ?thesis by simp
  next
    case (Inr res)
    show ?thesis
    proof (cases "pausedResult res")
      case True
      obtain r2 w2 where pause: "pauseExecution t i w1 = (r2, w2)" by (cases "pauseExecution t i w1")
      from endExecution_runInvK [OF w1(1) _ pause [unfolded pauseExecution_def]] have
        "ww_tasks w2 = ww_tasks w1" "case r2 of Inl _ \<Rightarrow> w2 = w1 | Inr e \<Rightarrow> runInvK {} w2" by (auto split: sum.splits)
      with Inr True run pause w1 logAudit_runInvK [of "{}" w2 t tid i] show ?thesis
        by (cases r2) (fastforce simp: svc_simps Let_def)+
    next
      case False
      with Inr run w1 Cons.IH [OF w1(1)] show ?thesis by (simp add: Let_def)
    qed
  qed
qed

lemma alert_runInvK: "runInvK K w \<Longrightarrow> alertExecutionFailure t e i m w = (r, w') \<Longrightarrow> runInvK K w' \<and> ww_tasks w' = ww_tasks w"
proof -
  assume inv: "runInvK K w" and run: "alertExecutionFailure t e i m w = (r, w')"
  have "framed sameRun (alertExecutionFailure t e i m)"
    unfolding alertExecutionFailure_def by (intro run_frame.frame_rules frame_intros)
  from framedD [OF this run] have "sameRun w w'" .
  with inv show ?thesis by (auto simp: sameRun_def intro: runInvK_sameRun)
qed

lemma onTaskError_runInvK:
  assumes inv: "runInvK {taskKey t} w"
  shows "runInvK {} (snd (onTaskError t err w)) \<and> ww_tasks (snd (onTaskError t err w)) = ww_tasks w"
proof -
  let ?i = "tk_executionId t" and ?t = "tk_tenantId t" and ?x = "[(''message'', JStr (message err))]"
  from inv have inv': "runInvK {(?i, ?t)} w" by (simp add: taskKey_def)
  obtain r w1 where run: "failExecution ?t ?i ?x w = (r, w1)" by (cases "failExecution ?t ?i ?x w")
  from endExecution_runInvK [OF inv' _ run [unfolded failExecution_def], of ?x] have w1: "ww_tasks w1 = ww_tasks w"
    "case r of Inl _ \<Rightarrow> w1 = w \<and> getWfExecutionById ?i ?t (ww_db w) = None | Inr e \<Rightarrow> runInvK {} w1" by auto
  show ?thesis
  proof (cases r)
    case (Inl e)
    with run w1 runInvK_absent [OF inv'] show ?thesis by (simp add: onTaskError_def)
  next
    case (Inr e)
    with w1 have "runInvK {} w1" by simp
    from logAudit_runInvK [OF this] obtain w2 where
      "WorkflowAuditService_logAudit ?t (tk_templateId t) ?i ''EXECUTION_FAILED''
        ((if tk_resumed t then ''Resumed workflow'' else ''Workflow'') @ '' execution failed: '' @ message err) w1 = (Inr (), w2)"
      "runInvK {} w2" "ww_tasks w2 = ww_tasks w1" by blast
    note log = this
    obtain r3 w3 where alert: "alertExecutionFailure ?t ?i (tk_templateId t) (message err) w2 = (r3, w3)"
      by (cases "alertExecutionFailure ?t ?i (tk_templateId t) (message err) w2")
    have "onTaskError t err w = (r3, w3)" using run Inr log(1) alert by (simp add: onTaskError_def del: append_Cons append_Nil)
    with alert_runInvK [OF log(2) alert] log(3) w1(1) show ?thesis by simp
  qed
qed

lemma runTask_runInvK:
  assumes "runInvK {taskKey t} w"
  shows "runInvK {} (snd (runTask ports t w)) \<and> ww_tasks (snd (runTask ports t w)) = ww_tasks w"
proof -
  from assms have "runInvK {(tk_executionId t, tk_tenantId t)} w" by (simp add: taskKey_def)
  from executeActionsFrom_runInvK [OF this, of ports "tk_actions t" "tk_context t" "tk_templateId t" "[]"]
  obtain r w1 where run: "executeActionsFrom ports (tk_tenantId t) (tk_actions t) (tk_executionId t) (tk_context t) (tk_templateId t) [] w = (r, w1)"
    and w1: "ww_tasks w1 = ww_tasks w"
      "case r of Inl _ \<Rightarrow> runInvK {(tk_executionId t, tk_tenantId t)} w1 | Inr _ \<Rightarrow> runInvK {} w1" by blast
  show ?thesis
  proof (cases r)
    case (Inl e)
    with w1 have "runInvK {taskKey t} w1" by (simp add: taskKey_def)
    from onTaskError_runInvK [OF this, of e] Inl run w1 show ?thesis by (simp add: runTask_def executeActionsList_def)
  next
    case (Inr u)
    with run w1 show ?thesis by (simp add: runTask_def executeActionsList_def)
  qed
qed

lemma popTask_runInvK:
  assumes "runInv w" "n < length (ww_tasks w)"
  shows "runInvK {taskKey (ww_tasks w ! n)} (w\<lparr>ww_tasks := take n (ww_tasks w) @ drop (n + 1) (ww_tasks w)\<rparr>)"
proof -
  let ?xs = "ww_tasks w"
  have split: "?xs = take n ?xs @ ?xs ! n # drop (n + 1) ?xs" using assms(2) by (simp add: id_take_nth_drop)
  have d: "distinct (map taskKey ?xs)" using assms(1) by (simp add: runInv_def runInvK_def)
  have set_xs: "set ?xs = insert (?xs ! n) (set (take n ?xs @ drop (n + 1) ?xs))" by (subst split) auto
  have "distinct (map taskKey (take n ?xs @ drop (n + 1) ?xs)) \<and> taskKey (?xs ! n) \<notin> taskKey ` set (take n ?xs @ drop (n + 1) ?xs)"
    using d by (subst (asm) split) auto
  with assms(1) set_xs show ?thesis
    by (auto simp: runInv_def runInvK_def usedIds_def)
qed

lemma runPending_runInv: "runInv w \<Longrightarrow> runInv (runPending ports n w)"
  using popTask_runInvK [of w n] runTask_runInvK by (auto simp: runPending_def runInv_def)

lemma runPending_tasks:
  "runInv w \<Longrightarrow> n < length (ww_tasks w) \<Longrightarrow> ww_tasks (runPending ports n w) = take n (ww_tasks w) @ drop (n + 1) (ww_tasks w)"
  using popTask_runInvK [of w n] runTask_runInvK by (fastforce simp: runPending_def)

end
