(* ===== verification/Workflow_Reach.thy ===== *)
theory Workflow_Reach
  imports Workflow_Runs
begin

text \<open>
  The moves of the workflow module and the worlds they reach. Every service method keeps \<open>runInv\<close>:
  the relation "the invariant carries over" is a \<open>state_frame\<close>, so only the statements that write an
  execution or a task need an argument of their own.
\<close>

subsection \<open>Services keep the invariant\<close>

definition keepsRun :: "'x WfWorld \<Rightarrow> 'x WfWorld \<Rightarrow> bool" where
  "keepsRun w w' \<longleftrightarrow> (runInv w \<longrightarrow> runInv w')"

interpretation inv_frame: state_frame keepsRun
  by unfold_locales (auto simp: keepsRun_def)

named_theorems keep_intros \<open>workflow services that keep the invariant of the executions\<close>

lemma keeps_framed: "framed sameRun m \<Longrightarrow> framed keepsRun m"
  by (auto simp: framed_def keepsRun_def runInv_def intro: runInvK_sameRun)

lemma keeps_wfTryWrite [keep_intros]:
  "(\<And>now db db'. f now db = Inr db' \<Longrightarrow> db_executions db' = db_executions db) \<Longrightarrow> framed keepsRun (wfTryWrite f)"
  by (auto simp: framed_def keepsRun_def wfTryWrite_def runInv_def split: sum.splits intro: runInvK_frame)

lemma keeps_wfWrite [keep_intros]:
  "(\<And>now db. db_executions (f now db) = db_executions db) \<Longrightarrow> framed keepsRun (wfWrite f)"
  by (auto simp: framed_def keepsRun_def wfWrite_def runInv_def intro: runInvK_frame)

lemma saveTemplate_executions: "saveTemplate now x t db = Inr db' \<Longrightarrow> db_executions db' = db_executions db"
  by (auto simp: saveTemplate_def rbind_Inr_iff)

lemma keeps_deleteTemplate [keep_intros]: "framed keepsRun (wfWrite (\<lambda>_ db. snd (deleteTemplate i t db)))"
  by (auto simp: framed_def keepsRun_def wfWrite_def runInv_def runInvK_def deleteTemplate_def Let_def usedIds_def)

lemma keeps_mapFresh [keep_intros]: "framed keepsRun (mapFresh f xs)"
  by (induction xs) (simp_all only: mapFresh.simps inv_frame.frame_rules keeps_framed [OF frame_wfUUID])

lemma addTask_runInv:
  assumes "runInvK {(i, t)} w" "noDraft w" "tk_executionId k = i" "tk_tenantId k = t" "i \<in> usedIds w"
  shows "runInv (snd (addTask k w))"
  using assms by (auto simp: runInv_def runInvK_def addTask_def taskKey_def usedIds_def noDraft_def)

lemma found_used: "runInvK K w \<Longrightarrow> getWfExecutionById i t (ww_db w) = Some e \<Longrightarrow> i \<in> usedIds w"
  using find_getWfExecutionById [of i t "ww_db w" e] by (fastforce simp: runInvK_def sameExecution_def)

lemma usedIds_startExecution: "startExecution t i w = (r, w') \<Longrightarrow> usedIds w' = usedIds w"
proof (cases "getWfExecutionById i t (ww_db w)")
  case None
  assume "startExecution t i w = (r, w')"
  with changeExecution_missing [OF None] show ?thesis by (auto simp: startExecution_def)
next
  case (Some e)
  assume run: "startExecution t i w = (r, w')"
  from find_getWfExecutionById [OF Some] have "\<And>now. we_id (Execution_start now e) = i" "\<And>now. we_tenantId (Execution_start now e) = t"
    by (auto simp: Execution_start_def)
  from changeExecution_found [where f = Execution_start and ev = "\<lambda>e. Some (WorkflowExecutionStartedEvent t i (we_workflowId e))", OF Some this] run
  show ?thesis unfolding startExecution_def usedIds_def by auto
qed

lemma usedIds_logAudit: "WorkflowAuditService_logAudit t i e a d w = (r, w') \<Longrightarrow> usedIds w' = usedIds w"
  by (auto simp: WorkflowAuditService_logAudit_def wfWrite_def usedIds_def)

text \<open>Start, log, leave the actions behind: the common end of starting and resuming.\<close>

lemma launch_runInv:
  assumes inv: "runInvK K w" and K: "K \<subseteq> {(i, t)}" and found: "getWfExecutionById i t (ww_db w) = Some e"
    and sleeping: "we_executionStatus e = WF_DRAFT \<or> we_executionStatus e = WF_PAUSED"
    and k: "tk_executionId k = i" "tk_tenantId k = t"
  shows "\<exists>w'. andThen (startExecution t i) (\<lambda>_. andThen (WorkflowAuditService_logAudit t tid i a d) (\<lambda>_. addTask k)) w = (Inr (), w') \<and> runInv w' \<and>
    ww_tasks w' = ww_tasks w @ [k]"
proof -
  from startExecution_runInvK [OF inv found K sleeping] obtain w1 where
    w1: "startExecution t i w = (Inr (Execution_start (ww_now w) e), w1)" "runInvK {(i, t)} w1"
      "ww_tasks w1 = ww_tasks w" "noDraft w1" by blast
  from logAudit_runInvK [OF w1(2)] obtain w2 where
    w2: "WorkflowAuditService_logAudit t tid i a d w1 = (Inr (), w2)" "runInvK {(i, t)} w2" "ww_tasks w2 = ww_tasks w1" by blast
  have used: "i \<in> usedIds w2"
    using found_used [OF inv found] usedIds_startExecution [OF w1(1)] usedIds_logAudit [OF w2(1)] by simp
  have "noDraft w2" using w1(4) framedD [OF frame_logAudit w2(1)] by (simp add: noDraft_def sameRun_def)
  from addTask_runInv [OF w2(2) this k used] have "runInv (w2\<lparr>ww_tasks := ww_tasks w2 @ [k]\<rparr>)" by (simp add: addTask_def)
  then show ?thesis using w1 w2 by (auto simp: addTask_def)
qed

subsection \<open>Starting and resuming\<close>

definition newExecution :: "uid \<Rightarrow> uid \<Rightarrow> millis \<Rightarrow> ExecuteWorkflowDto \<Rightarrow> WorkflowExecution" where
  "newExecution i t now dto =
     \<lparr>we_id = i, we_tenantId = t, we_workflowId = ew_workflowId dto,
      we_executionStatus = WF_DRAFT, we_startedAt = now, we_completedAt = None, we_executionTimeMs = 0,
      we_triggerSource = inTemplate (orS (ew_triggerSource dto) (Some ''MANUAL'')),
      we_triggerReferenceId = ew_triggerReferenceId dto,
      we_context = (case ew_context dto of None \<Rightarrow> [] | Some c \<Rightarrow> c),
      we_result = None, we_error = None, we_approvals = [], we_createdAt = now, we_updatedAt = now, we_version = 1\<rparr>"

lemma createExecution_runInv:
  assumes inv: "runInv w" and i: "i = ww_uuid w (ww_uuidNext w)"
  shows "\<exists>w' e. createExecution t dto w = (Inr (newExecution i t (ww_now w) dto), w') \<and> runInvK {(i, t)} w' \<and>
     ww_tasks w' = ww_tasks w \<and> getWfExecutionById i t (ww_db w') = Some e \<and> we_executionStatus e = WF_DRAFT"
proof -
  let ?n = "newExecution i t (ww_now w) dto"
  let ?r = "wfExecutionColumns (ww_now w) ?n"
  from inv i have fresh: "i \<notin> usedIds w" by (auto simp: runInv_def runInvK_def usedIds_def inj_def)
  have new: "\<not> list_ex (sameExecution i t) (db_executions (ww_db w))"
    using inv fresh by (auto simp: runInv_def runInvK_def list_ex_iff sameExecution_def)
  define w' where "w' = w\<lparr>ww_uuidNext := ww_uuidNext w + 1,
    ww_db := (ww_db w)\<lparr>db_executions := db_executions (ww_db w) @ [?r]\<rparr>, ww_realtime := ww_realtime w @ [(t, ?n)]\<rparr>"
  have run: "createExecution t dto w = (Inr ?n, w')"
    using new i unfolding createExecution_def
    by (simp add: wfUUID_def wfNow_def wfWrite_def emitWorkflowExecutionUpdate_def svc_simps Let_def w'_def
        saveWfExecution_def newExecution_def)
  have used: "usedIds w' = insert i (usedIds w)" using i by (auto simp: usedIds_def w'_def lessThan_Suc)
  have notask: "(i, t) \<notin> taskKey ` set (ww_tasks w)" using inv fresh by (auto simp: runInv_def runInvK_def taskKey_def)
  have row: "rowOk ?r" "we_executionStatus ?r = WF_DRAFT" "execKey ?r = (i, t)" "we_id ?r = i"
    by (simp_all add: rowOk_def wfExecutionColumns_def newExecution_def execKey_def)
  have others: "execKey e \<noteq> (i, t)" if "e \<in> set (db_executions (ww_db w))" for e
    using new that by (auto simp: list_ex_iff sameExecution_def execKey_def)
  have "runInvK {(i, t)} w'"
    using inv used row notask others unfolding runInv_def runInvK_def by (auto simp: w'_def busy_def)
  moreover have "getWfExecutionById i t (ww_db w') = Some (?r\<lparr>we_approvals := findApprovalsByExecutionId i t (ww_db w')\<rparr>)"
    using new by (simp add: getWfExecutionById_def w'_def find_append_new find_None_list_ex sameExecution_def newExecution_def)
  ultimately show ?thesis using run row(2) by (fastforce simp: w'_def)
qed

lemma runWorkflowTemplate_runInv:
  assumes inv: "runInv w"
  shows "\<exists>w' k. runWorkflowTemplate t tpl c src w = (Inr (ww_uuid w (ww_uuidNext w)), w') \<and> runInv w' \<and>
     ww_tasks w' = ww_tasks w @ [k]"
proof -
  let ?i = "ww_uuid w (ww_uuidNext w)"
  let ?dto = "\<lparr>ew_workflowId = wt_id tpl, ew_triggerSource = Some src,
        ew_triggerReferenceId = orJs (map_of c ''id'') (orJs (map_of c ''conversationId'') (map_of c ''ticketId'')),
        ew_context = Some c\<rparr>"
  from createExecution_runInv [OF inv refl] obtain w1 e where
    w1: "createExecution t ?dto w = (Inr (newExecution ?i t (ww_now w) ?dto), w1)" "runInvK {(?i, t)} w1" "ww_tasks w1 = ww_tasks w"
      "getWfExecutionById ?i t (ww_db w1) = Some e" "we_executionStatus e = WF_DRAFT" by blast
  let ?k = "\<lparr>tk_tenantId = t, tk_templateId = wt_id tpl, tk_executionId = ?i,
       tk_actions = wt_actions tpl, tk_context = c, tk_resumed = False\<rparr>"
  from launch_runInv [OF w1(2) subset_refl w1(4), where k = ?k and tid = "wt_id tpl" and a = "''EXECUTION_STARTED''" and
      d = "''Workflow execution started by trigger source '' @ src"] w1(5) obtain w2 where
    w2: "andThen (startExecution t ?i) (\<lambda>_. andThen (WorkflowAuditService_logAudit t (wt_id tpl) ?i ''EXECUTION_STARTED''
        (''Workflow execution started by trigger source '' @ src)) (\<lambda>_. addTask ?k)) w1 = (Inr (), w2)"
      "runInv w2" "ww_tasks w2 = ww_tasks w1 @ [?k]" by auto
  have id: "we_id (newExecution ?i t (ww_now w) ?dto) = ?i" by (simp add: newExecution_def)
  have "runWorkflowTemplate t tpl c src w = andThen (andThen (startExecution t ?i) (\<lambda>_. andThen (WorkflowAuditService_logAudit t (wt_id tpl) ?i ''EXECUTION_STARTED''
        (''Workflow execution started by trigger source '' @ src)) (\<lambda>_. addTask ?k))) (\<lambda>_. ret ?i) w1"
    using w1(1) unfolding runWorkflowTemplate_def andThen_assoc by (simp add: id)
  with w2 w1(3) show ?thesis by (auto simp del: append_Cons)
qed

lemma keeps_runWorkflowTemplate [keep_intros]: "framed keepsRun (runWorkflowTemplate t tpl c src)"
  unfolding framed_def keepsRun_def using runWorkflowTemplate_runInv by (metis snd_conv)

text \<open>The two outcomes of a decision, and when resuming refuses.\<close>

definition resumeTask :: "uid \<Rightarrow> WorkflowTemplate \<Rightarrow> WorkflowExecution \<Rightarrow> WfTask" where
  "resumeTask t tpl e = \<lparr>tk_tenantId = t, tk_templateId = wt_id tpl, tk_executionId = we_id e,
     tk_actions = remainingActions (wt_actions tpl), tk_context = we_context e, tk_resumed = True\<rparr>"

definition rejectionError :: "string \<Rightarrow> string option \<Rightarrow> entries" where
  "rejectionError who cm = [(''message'', JStr ''Approval rejected by approver''), (''approverId'', JStr who)] @
     entryOf ''comments'' (map_option JStr cm)"

lemma resumeExecution_eq:
  "resumeExecution t i ok who cm w =
     (case getWfExecutionById i t (ww_db w) of
        None \<Rightarrow> (Inl (NotFoundException (''Workflow execution with ID '' @ i @ '' not found'')), w)
      | Some e \<Rightarrow>
          (case getTemplateById (we_workflowId e) t (ww_db w) of
             None \<Rightarrow> (Inl (NotFoundException (''Workflow template with ID '' @ we_workflowId e @ '' not found'')), w)
           | Some tpl \<Rightarrow>
               if we_executionStatus e \<noteq> WF_PAUSED then (Inl (Error (''Workflow execution '' @ i @ '' is not in PAUSED state'')), w)
               else if ok
               then andThen (startExecution t i) (\<lambda>_. andThen (WorkflowAuditService_logAudit t (wt_id tpl) i ''APPROVAL_GRANTED''
                      (''Workflow approved by approver '' @ who @ ''. Resuming execution.'')) (\<lambda>_. addTask (resumeTask t tpl e))) w
               else andThen (failExecution t i (rejectionError who cm)) (\<lambda>_.
                      WorkflowAuditService_logAudit t (wt_id tpl) i ''APPROVAL_REJECTED''
                      (''Workflow rejected by approver '' @ who @ ''. execution terminated.'')) w))"
proof (cases "getWfExecutionById i t (ww_db w)")
  case (Some e)
  with find_getWfExecutionById [OF Some] show ?thesis
    by (simp add: resumeExecution_def getExecutionOrThrow_def getTemplateOrThrow_def wfRead_def svc_simps
        resumeTask_def rejectionError_def split: option.splits)
qed (simp add: resumeExecution_def getExecutionOrThrow_def wfRead_def svc_simps)

lemma failPaused_runInv:
  assumes inv: "runInv w" and found: "getWfExecutionById i t (ww_db w) = Some e"
    and paused: "we_executionStatus e = WF_PAUSED"
  shows "\<exists>w'. failExecution t i x w = (Inr (Execution_fail (ww_now w) x e), w') \<and> runInv w'"
proof -
  obtain r w' where run: "failExecution t i x w = (r, w')" by (cases "failExecution t i x w")
  from find_getWfExecutionById [OF found] obtain y where key: "we_id e = i" "we_tenantId e = t"
    and y: "y \<in> set (db_executions (ww_db w))" "execKey y = (i, t)" "we_executionStatus y = we_executionStatus e"
    by (auto simp: sameExecution_def execKey_def)
  from inv y paused have notask: "(i, t) \<notin> taskKey ` set (ww_tasks w)" by (fastforce simp: runInv_def runInvK_def busy_def)
  have "rowOk (Execution_fail (ww_now w) x e)"
    using sleeping_row [OF inv [unfolded runInv_def] found] paused by (auto simp: rowOk_def execution_methods)
  then have "r = Inr (Execution_fail (ww_now w) x e) \<and> runInvK {} w' \<and> ww_tasks w' = ww_tasks w"
    by (intro changeExecution_runInvK [where K = "{}" and f = "\<lambda>now. Execution_fail now x", OF inv [unfolded runInv_def] found
          _ _ _ _ _ _ _ run [unfolded failExecution_def]])
      (use key notask in \<open>auto simp: execution_methods busy_def\<close>)
  with run show ?thesis by (simp add: runInv_def)
qed

lemma decide_runInv:
  assumes inv: "runInv w" and found: "getWfExecutionById i t (ww_db w) = Some e"
    and tpl: "getTemplateById (we_workflowId e) t (ww_db w) = Some tpl"
    and paused: "we_executionStatus e = WF_PAUSED"
  shows "runInv (snd (resumeExecution t i ok who cm w))"
proof (cases ok)
  case True
  from find_getWfExecutionById [OF found] have k: "tk_executionId (resumeTask t tpl e) = i" "tk_tenantId (resumeTask t tpl e) = t"
    by (auto simp: resumeTask_def)
  from launch_runInv [OF inv [unfolded runInv_def] empty_subsetI found disjI2 [OF paused] k, of "wt_id tpl" "''APPROVAL_GRANTED''"
      "''Workflow approved by approver '' @ who @ ''. Resuming execution.''"]
  obtain w2 where "andThen (startExecution t i) (\<lambda>_. andThen (WorkflowAuditService_logAudit t (wt_id tpl) i ''APPROVAL_GRANTED''
      (''Workflow approved by approver '' @ who @ ''. Resuming execution.'')) (\<lambda>_. addTask (resumeTask t tpl e))) w = (Inr (), w2)"
    "runInv w2" by blast
  with found tpl paused True show ?thesis by (simp add: resumeExecution_eq)
next
  case False
  from failPaused_runInv [OF inv found paused] obtain w1 where
    w1: "failExecution t i (rejectionError who cm) w = (Inr (Execution_fail (ww_now w) (rejectionError who cm) e), w1)" "runInv w1" by blast
  with found tpl paused False
  have "snd (resumeExecution t i ok who cm w) = snd (WorkflowAuditService_logAudit t (wt_id tpl) i ''APPROVAL_REJECTED''
      (''Workflow rejected by approver '' @ who @ ''. execution terminated.'') w1)"
    by (simp add: resumeExecution_eq)
  with logAudit_runInvK [OF w1(2) [unfolded runInv_def]] show ?thesis by (metis runInv_def snd_conv)
qed

lemma keeps_resumeExecution [keep_intros]: "framed keepsRun (resumeExecution t i ok who cm)"
  unfolding framed_def keepsRun_def
proof (intro allI impI)
  fix w :: "'x WfWorld"
  assume inv: "runInv w"
  show "runInv (snd (resumeExecution t i ok who cm w))"
  proof (cases "\<exists>e tpl. getWfExecutionById i t (ww_db w) = Some e \<and> getTemplateById (we_workflowId e) t (ww_db w) = Some tpl \<and>
      we_executionStatus e = WF_PAUSED")
    case True
    with decide_runInv [OF inv] show ?thesis by blast
  next
    case False
    then have "snd (resumeExecution t i ok who cm w) = w" by (auto simp: resumeExecution_eq split: option.splits)
    with inv show ?thesis by simp
  qed
qed

subsection \<open>The other services\<close>

lemma keeps_frames [keep_intros]:
  "framed keepsRun wfNow" "framed keepsRun wfUUID" "framed keepsRun (wfRead f)" "framed keepsRun (wfAddJob j)"
  "framed keepsRun (WorkflowEventPublisher_publish ev)" "framed keepsRun (WorkflowAuditService_logAudit t x y a d)"
  by (rule keeps_framed, rule frame_intros)+

lemma keeps_getters [keep_intros]:
  "framed keepsRun (getExecutionOrThrow t i)" "framed keepsRun (getTemplateOrThrow t i)"
  "framed keepsRun (getApprovalOr404 t i)" "framed keepsRun (getScheduleOrThrow t i)"
  unfolding getExecutionOrThrow_def getTemplateOrThrow_def getApprovalOr404_def getScheduleOrThrow_def
  by (auto intro!: inv_frame.frame_rules keep_intros split: option.split)

lemma keeps_storeApproval [keep_intros]: "framed keepsRun (storeApproval a t ev)"
  unfolding storeApproval_def by (intro inv_frame.frame_rules keep_intros) (simp add: saveWfApproval_def)

lemma keeps_approvals [keep_intros]:
  "framed keepsRun (resumeAsRejected t i c)" "framed keepsRun (WorkflowApprovalService_approve t i cm)"
  "framed keepsRun (WorkflowApprovalService_reject t i cm)" "framed keepsRun (sweepOne a)"
  unfolding resumeAsRejected_def WorkflowApprovalService_approve_def WorkflowApprovalService_reject_def sweepOne_def Let_def
  by (auto intro!: inv_frame.frame_rules keep_intros)

lemma keeps_endpoints [keep_intros]:
  "framed keepsRun (ApprovalController_approve t i cm u)" "framed keepsRun (ApprovalController_reject t i cm u)"
  "framed keepsRun (sweepExpiredApprovals mt)" "framed keepsRun (evaluateEventTriggers t ty c)"
  "framed keepsRun (ExecutionController_executeWorkflow t dto)"
  unfolding ApprovalController_approve_def ApprovalController_reject_def sweepExpiredApprovals_def
    evaluateEventTriggers_def ExecutionController_executeWorkflow_def
  by (auto intro!: inv_frame.frame_rules keep_intros)

lemma keeps_schedules [keep_intros]:
  "framed keepsRun (createSchedule t sdto)" "framed keepsRun (recordExecutionRun t i)" "framed keepsRun (toggleSchedule t i b)"
  "framed keepsRun (deleteScheduleOrThrow t i)"
  unfolding createSchedule_def recordExecutionRun_def toggleSchedule_def deleteScheduleOrThrow_def Let_def
  by (auto intro!: inv_frame.frame_rules keep_intros simp: saveSchedule_def deleteSchedule_def)

lemma keeps_templates [keep_intros]:
  "framed keepsRun (createTemplate cap t cdto)" "framed keepsRun (updateTemplate t i udto)"
  "framed keepsRun (deleteTemplateOrThrow t i)" "framed keepsRun (publishVersion t i)" "framed keepsRun (setTemplateStatus t i st ev)"
  unfolding createTemplate_def updateTemplate_def deleteTemplateOrThrow_def publishVersion_def setTemplateStatus_def Let_def
  by (auto intro!: inv_frame.frame_rules keep_intros intro: saveTemplate_executions simp: saveVersion_def split: prod.split)

lemma keeps_handleWorkflowJob [keep_intros]: "framed keepsRun (handleWorkflowJob q)"
  unfolding handleWorkflowJob_def Let_def
  by (cases "qf_job q") (auto intro!: inv_frame.frame_rules keep_intros)

subsection \<open>Moves\<close>

text \<open>What one of the callers does: an event, a request or a job.\<close>

datatype wf_op =
    Event uid TriggerTypeEnum entries
  | Execute uid ExecuteWorkflowDto
  | Approve uid uid "string option" "uid option"
  | Reject uid uid "string option" "uid option"
  | Job QueuedWfJob
  | CreateTemplate uid CreateTemplateDto
  | UpdateTemplate uid uid UpdateTemplateDto
  | DeleteTemplate uid uid
  | PublishVersion uid uid
  | ActivateTemplate uid uid
  | PauseTemplate uid uid
  | CreateSchedule uid CreateScheduleDto
  | ToggleSchedule uid uid bool
  | DeleteSchedule uid uid
  | EnqueueSweep

fun perform :: "(uid \<Rightarrow> nat \<Rightarrow> exn + unit) \<Rightarrow> wf_op \<Rightarrow> 'x WfWorld \<Rightarrow> 'x WfWorld" where
  "perform cap (Event t ty c) w = snd (evaluateEventTriggers t ty c w)"
| "perform cap (Execute t dto) w = snd (ExecutionController_executeWorkflow t dto w)"
| "perform cap (Approve t i cm u) w = snd (ApprovalController_approve t i cm u w)"
| "perform cap (Reject t i cm u) w = snd (ApprovalController_reject t i cm u w)"
| "perform cap (Job q) w = snd (handleWorkflowJob q w)"
| "perform cap (CreateTemplate t dto) w = snd (createTemplate cap t dto w)"
| "perform cap (UpdateTemplate t i dto) w = snd (updateTemplate t i dto w)"
| "perform cap (DeleteTemplate t i) w = snd (deleteTemplateOrThrow t i w)"
| "perform cap (PublishVersion t i) w = snd (publishVersion t i w)"
| "perform cap (ActivateTemplate t i) w = snd (activateTemplate t i w)"
| "perform cap (PauseTemplate t i) w = snd (pauseTemplate t i w)"
| "perform cap (CreateSchedule t dto) w = snd (createSchedule t dto w)"
| "perform cap (ToggleSchedule t i b) w = snd (toggleSchedule t i b w)"
| "perform cap (DeleteSchedule t i) w = snd (deleteScheduleOrThrow t i w)"
| "perform cap EnqueueSweep w = snd (ApprovalTimeoutScheduler_enqueueSweep w)"

inductive wf_step :: "'x ActionPorts \<Rightarrow> (uid \<Rightarrow> nat \<Rightarrow> exn + unit) \<Rightarrow> 'x WfWorld \<Rightarrow> 'x WfWorld \<Rightarrow> bool" for ports cap where
  operation: "wf_step ports cap w (perform cap oper w)"
| background: "wf_step ports cap w (runPending ports n w)"
| time_passes: "0 \<le> d \<Longrightarrow> wf_step ports cap w (w\<lparr>ww_now := ww_now w + d\<rparr>)"
| outside: "wf_step ports cap w (w\<lparr>ww_ext := x, ww_queueUp := q, ww_tenantContext := c\<rparr>)"

inductive wf_reach :: "'x ActionPorts \<Rightarrow> (uid \<Rightarrow> nat \<Rightarrow> exn + unit) \<Rightarrow> 'x WfWorld \<Rightarrow> bool" for ports cap where
  start: "inj (ww_uuid w) \<Longrightarrow> db_executions (ww_db w) = [] \<Longrightarrow> ww_tasks w = [] \<Longrightarrow> wf_reach ports cap w"
| move: "wf_reach ports cap w \<Longrightarrow> wf_step ports cap w w' \<Longrightarrow> wf_reach ports cap w'"

inductive_cases wf_stepE: "wf_step ports cap w w'"

lemma framed_perform: "framed keepsRun m \<Longrightarrow> runInv w \<Longrightarrow> runInv (snd (m w))"
  by (simp add: framed_def keepsRun_def)

lemma perform_runInv: "runInv w \<Longrightarrow> runInv (perform cap oper w)"
  by (cases oper)
    (auto simp: activateTemplate_def pauseTemplate_def ApprovalTimeoutScheduler_enqueueSweep_def
      intro!: framed_perform keep_intros inv_frame.frame_rules)

lemma wf_step_runInv: "wf_step ports cap w w' \<Longrightarrow> runInv w \<Longrightarrow> runInv w'"
proof (erule wf_stepE, goal_cases)
  case (3 d)
  then show ?case using runInvK_frame [of w' w "{}"] by (simp add: runInv_def)
next
  case (4 x q c)
  then show ?case using runInvK_frame [of w' w "{}"] by (simp add: runInv_def)
qed (simp_all add: perform_runInv runPending_runInv)

lemma wf_reach_runInv: "wf_reach ports cap w \<Longrightarrow> runInv w"
proof (induction rule: wf_reach.induct)
  case (start w)
  then show ?case by (simp add: runInv_def runInvK_def)
qed (rule wf_step_runInv)

section \<open>A sample world\<close>

text \<open>Concrete worlds, templates and ports the properties of the workflow module are applied to.\<close>

definition sampleIds :: "nat \<Rightarrow> uid" where
  "sampleIds n = ''u'' @ showNat n"

lemma inj_sampleIds: "inj sampleIds"
  by (rule injI) (metis append_same_eq readNat_showNat sampleIds_def same_append_eq)

definition sampleAction :: "ActionTypeEnum \<Rightarrow> entries \<Rightarrow> int \<Rightarrow> WorkflowAction" where
  "sampleAction ty conf n =
     \<lparr>ac_id = ''a'' @ showInt n, ac_tenantId = ''acme'', ac_workflowId = ''wf1'', ac_actionType = ty,
      ac_configuration = conf, ac_sequenceOrder = n, ac_createdAt = 0, ac_updatedAt = 0\<rparr>"

definition sampleCondition :: "string \<Rightarrow> string \<Rightarrow> string \<Rightarrow> WorkflowCondition" where
  "sampleCondition f oper v =
     \<lparr>co_id = ''c1'', co_tenantId = ''acme'', co_workflowId = ''wf1'', co_triggerId = None, co_field = f,
      co_operator = oper, co_value = v, co_createdAt = 0, co_updatedAt = 0\<rparr>"

definition sampleTemplate :: "WorkflowAction list \<Rightarrow> WorkflowTemplate" where
  "sampleTemplate acts =
     \<lparr>wt_id = ''wf1'', wt_tenantId = ''acme'', wt_name = Some ''Escalation'', wt_description = None,
      wt_workflowType = TICKET_WORKFLOW, wt_status = Some WF_ACTIVE, wt_isSystem = False,
      wt_triggers = [\<lparr>tr_id = ''t1'', tr_tenantId = ''acme'', tr_workflowId = ''wf1'', tr_triggerType = ON_TICKET_CREATED,
                      tr_configuration = [], tr_createdAt = 0, tr_updatedAt = 0\<rparr>],
      wt_conditions = [], wt_actions = acts, wt_variables = [(''region'', ''string'', ''eu'')],
      wt_createdAt = 0, wt_updatedAt = 0, wt_version = 1\<rparr>"

definition emptyWfDb :: WfDb where
  "emptyWfDb = \<lparr>db_templates = [], db_triggers = [], db_conditions = [], db_actions = [], db_variables = [], db_versions = [],
     db_executions = [], db_approvals = [], db_schedules = [], db_audit = []\<rparr>"

definition templateDb :: "WorkflowAction list \<Rightarrow> WfDb" where
  "templateDb acts = (case saveTemplate 0 (sampleTemplate acts) ''acme'' emptyWfDb of Inl _ \<Rightarrow> emptyWfDb | Inr db \<Rightarrow> db)"

text \<open>The modules behind the ports count the calls; the first \<open>n\<close> of them fail.\<close>

definition flaky :: "nat \<Rightarrow> (nat, 'a) svc \<Rightarrow> (nat, 'a) svc" where
  "flaky n m = (\<lambda>k. if k < n then (Inl (Error ''timeout''), k + 1) else m (k + 1))"

definition samplePorts :: "nat \<Rightarrow> nat ActionPorts" where
  "samplePorts n =
     \<lparr>po_createTicket = (\<lambda>_ _ _ _ _ _. flaky n (ret ''tk1'')), po_updateTicket = (\<lambda>_ _ _ _. flaky n (ret ())),
      po_assignTicket = (\<lambda>_ _ _ _ _. flaky n (ret ())), po_escalateTicket = (\<lambda>_ _ _ _ _. flaky n (ret ())),
      po_addTag = (\<lambda>_ _ _ _. flaky n (ret ())), po_removeTag = (\<lambda>_ _ _ _. flaky n (ret ())),
      po_updateCustomer = (\<lambda>_ _ _ _. flaky n (ret ())), po_createMessage = (\<lambda>_ _ _ _. flaky n (ret ''m1'')),
      po_sendEmail = (\<lambda>_ _ _ _ _ _. flaky n (ret ())), po_sendPush = (\<lambda>_ _ _ _. flaky n (ret ())),
      po_executeCapability = (\<lambda>_ _ _ _ _. flaky n (ret (Some JNull))), po_triggerAi = (\<lambda>_ _ _ _ _. flaky n (ret ''ai1''))\<rparr>"

definition wfSampleWorld :: "WorkflowAction list \<Rightarrow> nat WfWorld" where
  "wfSampleWorld acts =
     \<lparr>ww_db = templateDb acts, ww_now = 1000, ww_uuid = sampleIds, ww_uuidNext = 0, ww_tenantContext = None,
      ww_queueUp = True, ww_jobs = [], ww_realtime = [], ww_tasks = [], ww_ext = 0\<rparr>"

definition noLimit :: "uid \<Rightarrow> nat \<Rightarrow> exn + unit" where
  "noLimit t n = Inr ()"

lemma wfSampleWorld_reach: "wf_reach ports cap (wfSampleWorld acts)"
  by (rule wf_reach.start)
    (simp_all add: wfSampleWorld_def inj_sampleIds templateDb_def saveTemplate_def saveTemplateRow_def sampleTemplate_def emptyWfDb_def)

lemma reach_perform: "wf_reach ports cap w \<Longrightarrow> wf_reach ports cap (perform cap oper w)"
  by (rule wf_reach.move) (auto intro: wf_step.operation)

lemma reach_background: "wf_reach ports cap w \<Longrightarrow> wf_reach ports cap (runPending ports n w)"
  by (rule wf_reach.move) (auto intro: wf_step.background)

end
