(* ===== verification/Workflow_Properties.thy ===== *)
theory Workflow_Properties
  imports Workflow_Reach
begin

text \<open>
  What the workflow engine promises: which contexts start a template, that the work it leaves in the
  background comes to an end and how the rows record it, how often an action is tried, and what an
  approval resumes.
\<close>

subsection \<open>Conditions\<close>


text \<open>A field the context does not have satisfies every numeric condition: the value is
  \<^verbatim>\<open>undefined\<close>, its number is not a number, and neither \<^verbatim>\<open><=\<close> nor \<^verbatim>\<open>>=\<close> holds of it. The seeded refund
  workflow (amount greater than 500) therefore starts for every ticket.\<close>

theorem missing_field_passes_numeric_conditions:
  assumes "list_all (\<lambda>c. toUpperCase (co_operator c) \<in> {''GT'', ''LT''} \<and> map_of context (co_field c) = None) conditions"
  shows "evaluateConditions conditions context"
  using assms by (auto simp: evaluateConditions_iff list_all_iff conditionHolds_def Let_def jsNumber_def unordered_def)

theorem missing_field_passes_numeric_conditions_witness:
  "evaluateConditions [sampleCondition ''amount'' ''GT'' ''500''] [(''subject'', JStr ''Hello'')]"
  by (rule missing_field_passes_numeric_conditions) (simp add: sampleCondition_def toUpperCase_def upChar_def)

subsection \<open>The life of an execution\<close>

lemma runPending_first:
  "runInv w \<Longrightarrow> ww_tasks w = k # ks \<Longrightarrow> runInv (runPending ports 0 w) \<and> ww_tasks (runPending ports 0 w) = ks"
  using runPending_tasks [of w 0 ports] runPending_runInv [of w ports 0] by simp

lemma drain_runInv:
  "runInv w \<Longrightarrow> length (ww_tasks w) = n \<Longrightarrow>
   runInv ((runPending ports 0 ^^ n) w) \<and> ww_tasks ((runPending ports 0 ^^ n) w) = []"
proof (induction n arbitrary: w)
  case (Suc n)
  then obtain k ks where "ww_tasks w = k # ks" by (cases "ww_tasks w") auto
  with runPending_first Suc.prems have "runInv (runPending ports 0 w)" "length (ww_tasks (runPending ports 0 w)) = n" by force+
  from Suc.IH [OF this] show ?case by (simp add: funpow_Suc_right del: funpow.simps)
qed simp



text \<open>C7: In every reachable state an execution is active exactly while its actions are still to run,
  and no execution has two runs open at once.\<close>

theorem active_executions_are_those_with_open_work:
  assumes "wf_reach ports cap w"
  shows "distinct (map taskKey (ww_tasks w)) \<and>
    list_all (\<lambda>e. we_executionStatus e = WF_ACTIVE \<longleftrightarrow> execKey e \<in> taskKey ` set (ww_tasks w)) (db_executions (ww_db w))"
  using wf_reach_runInv [OF assms] by (auto simp: runInv_def runInvK_def list_all_iff busy_def)

theorem active_executions_are_those_with_open_work_witness:
  "let w = perform noLimit (Event ''acme'' ON_TICKET_CREATED []) (wfSampleWorld [sampleAction WAIT [] 1])
   in map we_executionStatus (db_executions (ww_db w)) = [WF_ACTIVE] \<and>
      list_all (\<lambda>e. we_executionStatus e = WF_ACTIVE \<longleftrightarrow> execKey e \<in> taskKey ` set (ww_tasks w)) (db_executions (ww_db w))"
  unfolding Let_def
  by (intro conjI active_executions_are_those_with_open_work [OF reach_perform [OF wfSampleWorld_reach], THEN conjunct2]) code_simp

text \<open>C20: The rows are well typed for their status: a completed execution has an end time and a result
  and no error, a failed one an end time and an error and no result, and any other has none of the
  three.\<close>

theorem execution_rows_record_how_they_ended:
  assumes "wf_reach ports cap w" "e \<in> set (db_executions (ww_db w))"
  shows "case we_executionStatus e of
      WF_COMPLETED \<Rightarrow> we_completedAt e \<noteq> None \<and> we_result e \<noteq> None \<and> we_error e = None
    | WF_FAILED \<Rightarrow> we_completedAt e \<noteq> None \<and> we_result e = None \<and> we_error e \<noteq> None
    | _ \<Rightarrow> we_completedAt e = None \<and> we_result e = None \<and> we_error e = None"
  using wf_reach_runInv [OF assms(1)] assms(2)
  by (fastforce simp: runInv_def runInvK_def rowOk_def split: WorkflowStatusEnum.split)

theorem execution_rows_record_how_they_ended_witness:
  "let w = runPending (samplePorts 9) 0 (perform noLimit (Event ''acme'' ON_TICKET_CREATED []) (wfSampleWorld [sampleAction CREATE_TICKET [] 1]));
       e = hd (db_executions (ww_db w))
   in we_executionStatus e = WF_FAILED \<and> we_error e \<noteq> None"
proof -
  let ?w = "runPending (samplePorts 9) 0 (perform noLimit (Event ''acme'' ON_TICKET_CREATED []) (wfSampleWorld [sampleAction CREATE_TICKET [] 1]))"
  have "wf_reach (samplePorts 9) noLimit ?w" by (intro reach_background reach_perform wfSampleWorld_reach)
  moreover have rows: "db_executions (ww_db ?w) \<noteq> []" "we_executionStatus (hd (db_executions (ww_db ?w))) = WF_FAILED" by code_simp+
  ultimately show ?thesis
    using execution_rows_record_how_they_ended [of "samplePorts 9" noLimit ?w "hd (db_executions (ww_db ?w))"] by simp
qed

end
