(* ===== verification/Workflow_Approvals.thy ===== *)
theory Workflow_Approvals
  imports Workflow_Reach
begin

text \<open>
  Approvals: what a granted approval resumes, and that the sweep resolves every expired approval and
  ends the executions that waited for one.
\<close>

subsection \<open>Which actions pause\<close>

lemma executeAction_paused:
  "executeAction ports t a c e w = (Inr res, w') \<Longrightarrow> pausedResult res \<longleftrightarrow> ac_actionType a = APPROVAL"
  by (cases "ac_actionType a")
    (auto simp: executeAction_def Let_def pausedResult_def statusOnly_def entryOf_def missingId_def truthyJs_def
      split: option.splits if_splits elim!: andThen_InrE)

lemma retryLoop_executeAction:
  "retryLoop ports t a c e i n ds w = (Inr res, w') \<Longrightarrow> \<exists>w0. executeAction ports t a c e w0 = (Inr res, w')"
proof (induction ds arbitrary: n w)
  case (Cons d ds)
  obtain r1 w1 where first: "executeAction ports t a c e w = (r1, w1)" by (cases "executeAction ports t a c e w")
  show ?case
  proof (cases r1)
    case (Inl err)
    with Cons.prems first show ?thesis by (auto elim!: andThen_InrE intro: Cons.IH)
  next
    case (Inr x)
    with Cons.prems first show ?thesis by auto
  qed
qed auto

lemma executeActionWithRetry_paused:
  "executeActionWithRetry ports t a c e i w = (Inr res, w') \<Longrightarrow> pausedResult res \<longleftrightarrow> ac_actionType a = APPROVAL"
  unfolding executeActionWithRetry_def
  by (auto split: if_splits dest!: retryLoop_executeAction executeAction_paused)

subsection \<open>Reading the status back\<close>

definition statusOf :: "uid \<Rightarrow> uid \<Rightarrow> 'x WfWorld \<Rightarrow> WorkflowStatusEnum option" where
  "statusOf i t w = map_option we_executionStatus (getWfExecutionById i t (ww_db w))"

lemma statusOf_find: "statusOf i t w = map_option we_executionStatus (List.find (sameExecution i t) (db_executions (ww_db w)))"
  by (simp add: statusOf_def getWfExecutionById_def option.map_comp comp_def)

lemma statusOf_sameRun: "sameRun w w' \<Longrightarrow> statusOf i t w' = statusOf i t w"
  by (simp add: statusOf_find sameRun_def)

lemma changeExecution_statusOf:
  assumes found: "getWfExecutionById i t (ww_db w) = Some e"
    and key: "\<And>now. we_id (f now e) = i" "\<And>now. we_tenantId (f now e) = t"
    and run: "changeExecution t i f ev w = (r, w')"
  shows "r = Inr (f (ww_now w) e) \<and> statusOf i t w' = Some (we_executionStatus (f (ww_now w) e))"
proof -
  let ?e = "wfExecutionColumns (ww_now w) (f (ww_now w) e)"
  from changeExecution_found [where f = f and ev = ev, OF found key] run
  have r: "r = Inr (f (ww_now w) e)" and rows: "db_executions (ww_db w') = map (overwriteRow i t ?e) (db_executions (ww_db w))" by auto
  obtain x where x: "List.find (sameExecution i t) (db_executions (ww_db w)) = Some x"
    using found by (auto simp: getWfExecutionById_def)
  have "overwriteRow i t ?e = (\<lambda>r. if sameExecution i t r then ?e\<lparr>we_createdAt := we_createdAt r\<rparr> else r)"
    by (simp add: overwriteRow_def fun_eq_iff)
  moreover have "\<And>r. sameExecution i t r \<Longrightarrow> sameExecution i t (?e\<lparr>we_createdAt := we_createdAt r\<rparr>)"
    using key by (simp add: sameExecution_def)
  ultimately have "List.find (sameExecution i t) (db_executions (ww_db w')) = Some (?e\<lparr>we_createdAt := we_createdAt x\<rparr>)"
    using find_map_upd [of "sameExecution i t" "\<lambda>r. ?e\<lparr>we_createdAt := we_createdAt r\<rparr>" "db_executions (ww_db w)"] x rows by simp
  with r show ?thesis by (simp add: statusOf_find)
qed

lemma ended_statusOf:
  assumes "statusOf i t w = Some s"
  shows "pauseExecution t i w = (r, w') \<Longrightarrow> (\<exists>e. r = Inr e) \<and> statusOf i t w' = Some WF_PAUSED"
    and "failExecution t i x w = (r, w') \<Longrightarrow> (\<exists>e. r = Inr e) \<and> statusOf i t w' = Some WF_FAILED"
proof -
  from assms obtain e where found: "getWfExecutionById i t (ww_db w) = Some e" by (auto simp: statusOf_def)
  from find_getWfExecutionById [OF found] have key: "we_id e = i" "we_tenantId e = t" by auto
  show "pauseExecution t i w = (r, w') \<Longrightarrow> (\<exists>e. r = Inr e) \<and> statusOf i t w' = Some WF_PAUSED"
    using changeExecution_statusOf [where f = Execution_pause, OF found] key
    by (force simp: pauseExecution_def execution_methods)
  show "failExecution t i x w = (r, w') \<Longrightarrow> (\<exists>e. r = Inr e) \<and> statusOf i t w' = Some WF_FAILED"
    using changeExecution_statusOf [where f = "\<lambda>now. Execution_fail now x", OF found] key
    by (force simp: failExecution_def execution_methods)
qed

lemma logAudit_statusOf:
  "\<exists>w'. WorkflowAuditService_logAudit t i e a d w = (Inr (), w') \<and> statusOf j u w' = statusOf j u w"
  by (simp add: WorkflowAuditService_logAudit_def wfWrite_def statusOf_find wfLogAudit_def)

subsection \<open>Approvals among the actions\<close>

lemma executeActionsFrom_stops:
  assumes "\<exists>a \<in> set as. ac_actionType a = APPROVAL" "statusOf i t w = Some s"
    and "executeActionsFrom ports t as i c tid rs w = (r, w')"
  shows "statusOf i t w' = (if isl r then Some s else Some WF_PAUSED)"
  using assms
proof (induction "as" arbitrary: rs w)
  case (Cons a "as")
  obtain r1 w1 where first: "executeActionWithRetry ports t a c i tid w = (r1, w1)" by (cases "executeActionWithRetry ports t a c i tid w")
  from statusOf_sameRun [OF framedD [OF frame_executeActionWithRetry first]] Cons.prems(2) have st: "statusOf i t w1 = Some s" by simp
  show ?case
  proof (cases r1)
    case (Inl err)
    with Cons.prems(3) first st show ?thesis by auto
  next
    case (Inr res)
    show ?thesis
    proof (cases "ac_actionType a = APPROVAL")
      case True
      with executeActionWithRetry_paused first Inr have p: "pausedResult res" by blast
      obtain r2 w2 where pause: "pauseExecution t i w1 = (r2, w2)" by (cases "pauseExecution t i w1")
      with ended_statusOf(1) [OF st] obtain e2 where e2: "r2 = Inr e2" "statusOf i t w2 = Some WF_PAUSED" by blast
      with Cons.prems(3) first Inr p pause have "WorkflowAuditService_logAudit t tid i ''EXECUTION_PAUSED''
          (''Execution paused for step approval: '' @ actionName (ac_actionType a)) w2 = (r, w')" by simp
      with logAudit_statusOf [of t tid i "''EXECUTION_PAUSED''"
          "''Execution paused for step approval: '' @ actionName (ac_actionType a)" w2 i t] e2(2)
      show ?thesis by force
    next
      case False
      with executeActionWithRetry_paused first Inr have "\<not> pausedResult res" by blast
      with Cons.prems(3) first Inr have "executeActionsFrom ports t as i c tid (assignKey (resultKey a) (JObj res) rs) w1 = (r, w')"
        by (simp add: Let_def)
      moreover have "\<exists>a \<in> set as. ac_actionType a = APPROVAL" using Cons.prems(1) False by auto
      ultimately show ?thesis using Cons.IH st by blast
    qed
  qed
qed simp

lemma runTask_stops:
  assumes "\<exists>a \<in> set (tk_actions k). ac_actionType a = APPROVAL" "statusOf (tk_executionId k) (tk_tenantId k) w = Some s"
  shows "statusOf (tk_executionId k) (tk_tenantId k) (snd (runTask ports k w)) \<in> {Some WF_PAUSED, Some WF_FAILED}"
proof -
  obtain r w1 where run: "executeActionsFrom ports (tk_tenantId k) (tk_actions k) (tk_executionId k) (tk_context k) (tk_templateId k) [] w = (r, w1)"
    by (cases "executeActionsFrom ports (tk_tenantId k) (tk_actions k) (tk_executionId k) (tk_context k) (tk_templateId k) [] w")
  from executeActionsFrom_stops [OF assms run] have
    st: "statusOf (tk_executionId k) (tk_tenantId k) w1 = (if isl r then Some s else Some WF_PAUSED)" .
  show ?thesis
  proof (cases r)
    case (Inr u)
    with run st show ?thesis by (simp add: runTask_def executeActionsList_def)
  next
    case (Inl err)
    let ?x = "[(''message'', JStr (message err))]"
    obtain r2 w2 where fail: "failExecution (tk_tenantId k) (tk_executionId k) ?x w1 = (r2, w2)"
      by (cases "failExecution (tk_tenantId k) (tk_executionId k) ?x w1")
    with ended_statusOf(2) [of "tk_executionId k" "tk_tenantId k" w1 s ?x r2 w2] st Inl obtain e2 where
      e2: "r2 = Inr e2" "statusOf (tk_executionId k) (tk_tenantId k) w2 = Some WF_FAILED" by auto
    define rest where "rest = andThen (WorkflowAuditService_logAudit (tk_tenantId k) (tk_templateId k) (tk_executionId k) ''EXECUTION_FAILED''
       ((if tk_resumed k then ''Resumed workflow'' else ''Workflow'') @ '' execution failed: '' @ message err)) (\<lambda>_.
       alertExecutionFailure (tk_tenantId k) (tk_executionId k) (tk_templateId k) (message err) :: ('a, unit) wfsvc)"
    have "framed sameRun rest"
      unfolding rest_def alertExecutionFailure_def by (intro run_frame.frame_rules frame_intros)
    then have "sameRun w2 (snd (rest w2))" unfolding framed_def by blast
    moreover have "runTask ports k w = rest w2"
      using run Inl fail e2(1) unfolding rest_def by (simp add: runTask_def executeActionsList_def onTaskError_def del: append_Cons append_Nil)
    ultimately show ?thesis using e2(2) statusOf_sameRun [of w2 "snd (rest w2)" "tk_executionId k" "tk_tenantId k"] by simp
  qed
qed

lemma remainingActions_second:
  assumes "2 \<le> length (filter (\<lambda>a. ac_actionType a = APPROVAL) actions)"
  shows "\<exists>a \<in> set (remainingActions actions). ac_actionType a = APPROVAL"
proof -
  let ?P = "\<lambda>a. ac_actionType a = APPROVAL"
  obtain a rest where d: "dropWhile (\<lambda>a. \<not> ?P a) actions = a # rest" "?P a"
    using assms by (cases "dropWhile (\<lambda>a. \<not> ?P a) actions") (auto simp: dropWhile_eq_Cons_conv dest: filter_False)
  have "filter ?P actions = filter ?P (dropWhile (\<lambda>a. \<not> ?P a) actions)"
    by (metis (mono_tags, lifting) append_Nil filter_False filter_append set_takeWhileD takeWhile_dropWhile_id)
  with assms d have "filter ?P rest \<noteq> []" by auto
  then show ?thesis using d by (auto simp: remainingActions_def filter_empty_conv)
qed

text \<open>A workflow with two approval actions never completes through approvals. Whichever approval is
  granted, the engine resumes behind the \<^emph>\<open>first\<close> approval action of the template, so the run meets the
  second one again: it ends paused on a new approval or failed, and the actions behind the second
  approval are never reached.\<close>

theorem second_approval_is_never_passed:
  assumes found: "getWfExecutionById i t (ww_db w) = Some e" and paused: "we_executionStatus e = WF_PAUSED"
    and tpl: "getTemplateById (we_workflowId e) t (ww_db w) = Some template"
    and two: "2 \<le> length (filter (\<lambda>a. ac_actionType a = APPROVAL) (wt_actions template))"
  shows "statusOf i t (runPending ports (length (ww_tasks w)) (snd (resumeExecution t i True who cm w))) \<in> {Some WF_PAUSED, Some WF_FAILED}"
proof -
  let ?k = "resumeTask t template e"
  from find_getWfExecutionById [OF found] have key: "we_id e = i" "we_tenantId e = t" by auto
  obtain r w1 where start: "startExecution t i w = (r, w1)" by (cases "startExecution t i w")
  have w1: "r = Inr (Execution_start (ww_now w) e)" "statusOf i t w1 = Some WF_ACTIVE" "ww_tasks w1 = ww_tasks w"
    using changeExecution_statusOf [where f = Execution_start, OF found _ _ start [unfolded startExecution_def]]
      changeExecution_found [where f = Execution_start and ev = "\<lambda>e. Some (WorkflowExecutionStartedEvent t i (we_workflowId e))", OF found]
      start key unfolding startExecution_def by (auto simp: execution_methods)
  let ?log = "WorkflowAuditService_logAudit t (wt_id template) i ''APPROVAL_GRANTED'' (''Workflow approved by approver '' @ who @ ''. Resuming execution.'')"
  obtain r2 w2 where log: "?log w1 = (r2, w2)" by (cases "?log w1")
  have "\<exists>u. r2 = Inr u" using log by (auto simp: WorkflowAuditService_logAudit_def wfWrite_def)
  moreover have same: "sameRun w1 w2" by (rule framedD [OF frame_logAudit log])
  ultimately have "snd (resumeExecution t i True who cm w) = w2\<lparr>ww_tasks := ww_tasks w @ [?k]\<rparr>"
    using found tpl paused start w1(1,3) log by (auto simp: resumeExecution_eq addTask_def sameRun_def)
  moreover have "statusOf i t (w2\<lparr>ww_tasks := ww_tasks w\<rparr>) = Some WF_ACTIVE"
    using statusOf_sameRun [OF same, of i t] w1(2) by (simp add: statusOf_find)
  moreover have "tk_executionId ?k = i" "tk_tenantId ?k = t" "\<exists>a \<in> set (tk_actions ?k). ac_actionType a = APPROVAL"
    using remainingActions_second [OF two] key by (auto simp: resumeTask_def)
  ultimately show ?thesis using runTask_stops [of ?k "w2\<lparr>ww_tasks := ww_tasks w\<rparr>" WF_ACTIVE ports] by (simp add: runPending_def)
qed

definition twoApprovals :: "WorkflowAction list" where
  "twoApprovals = map (\<lambda>n. sampleAction APPROVAL [(''approverId'', JStr ''boss'')] n) [1, 2]"

definition pausedWorld :: "nat WfWorld" where
  "pausedWorld = runPending (samplePorts 0) 0 (perform noLimit (Event ''acme'' ON_TICKET_CREATED []) (wfSampleWorld twoApprovals))"

theorem second_approval_is_never_passed_witness:
  "statusOf ''u0'' ''acme'' pausedWorld = Some WF_PAUSED \<and>
   statusOf ''u0'' ''acme'' (runPending (samplePorts 0) (length (ww_tasks pausedWorld))
     (snd (resumeExecution ''acme'' ''u0'' True ''boss'' None pausedWorld))) \<in> {Some WF_PAUSED, Some WF_FAILED}"
proof
  show st: "statusOf ''u0'' ''acme'' pausedWorld = Some WF_PAUSED" by code_simp
  then obtain e where e: "getWfExecutionById ''u0'' ''acme'' (ww_db pausedWorld) = Some e" "we_executionStatus e = WF_PAUSED"
    by (auto simp: statusOf_def)
  have "map_option we_workflowId (getWfExecutionById ''u0'' ''acme'' (ww_db pausedWorld)) = Some ''wf1''" by code_simp
  with e have wid: "we_workflowId e = ''wf1''" by simp
  have "map_option (\<lambda>x. length (filter (\<lambda>a. ac_actionType a = APPROVAL) (wt_actions x))) (getTemplateById ''wf1'' ''acme'' (ww_db pausedWorld)) = Some 2"
    by code_simp
  then obtain tpl where tpl: "getTemplateById (we_workflowId e) ''acme'' (ww_db pausedWorld) = Some tpl"
    "2 \<le> length (filter (\<lambda>a. ac_actionType a = APPROVAL) (wt_actions tpl))" unfolding wid by auto
  show "statusOf ''u0'' ''acme'' (runPending (samplePorts 0) (length (ww_tasks pausedWorld))
     (snd (resumeExecution ''acme'' ''u0'' True ''boss'' None pausedWorld))) \<in> {Some WF_PAUSED, Some WF_FAILED}"
    by (rule second_approval_is_never_passed [OF e tpl])
qed

end
