(* ===== verification/Workflow_Sweep.thy ===== *)
theory Workflow_Sweep
  imports Workflow_Approvals
begin

text \<open>
  The sweep over expired approvals (\<^verbatim>\<open>sweepExpiredApprovals\<close>). Rejecting an approval also fails the
  execution that waits for it, and failing an execution writes all its approvals back, so the proof
  follows what the rows say of each approval: identifier, tenant, decision and deadline.
\<close>

subsection \<open>What the rows say of the approvals\<close>

type_synonym verdict = "uid \<times> uid \<times> WfApprovalStatusEnum \<times> millis option"

definition verdictOf :: "WorkflowApproval \<Rightarrow> verdict" where
  "verdictOf a = (wa_id a, wa_tenantId a, wa_approvalStatus a, wa_expiresAt a)"

definition verdicts :: "'x WfWorld \<Rightarrow> verdict list" where
  "verdicts w = map verdictOf (db_approvals (ww_db w))"

definition withVerdict :: "verdict \<Rightarrow> verdict \<Rightarrow> verdict" where
  "withVerdict d v = (if fst v = fst d \<and> fst (snd v) = fst (snd d) then d else v)"

lemma verdicts_putWfApproval:
  assumes "wa_tenantId a = t" "\<exists>r \<in> set rows. sameApproval (wa_id a) t r"
  shows "map verdictOf (putWfApproval now t a rows) = map (withVerdict (verdictOf a)) (map verdictOf rows)"
  using assms by (auto simp: putWfApproval_def list_ex_iff verdictOf_def withVerdict_def sameApproval_def approvalColumns_def)

lemma withVerdict_present: "distinct (map fst ds) \<Longrightarrow> d \<in> set ds \<Longrightarrow> map (withVerdict d) ds = ds"
proof (rule map_idI)
  fix v
  assume "distinct (map fst ds)" "d \<in> set ds" "v \<in> set ds"
  then show "withVerdict d v = v" unfolding withVerdict_def by (metis eq_key_imp_eq_value prod.collapse)
qed

lemma verdicts_fold:
  assumes "distinct (map fst (map verdictOf rows))" "\<forall>a \<in> set as. wa_tenantId a = t \<and> verdictOf a \<in> set (map verdictOf rows)"
  shows "map verdictOf (fold (putWfApproval now t) as rows) = map verdictOf rows"
  using assms
proof (induction "as" arbitrary: rows)
  case (Cons a "as")
  then have a: "wa_tenantId a = t" "verdictOf a \<in> set (map verdictOf rows)" by auto
  then have "\<exists>r \<in> set rows. sameApproval (wa_id a) t r" by (auto simp: verdictOf_def sameApproval_def)
  from verdicts_putWfApproval [OF a(1) this, of now] withVerdict_present [OF Cons.prems(1) a(2)]
  have same: "map verdictOf (putWfApproval now t a rows) = map verdictOf rows" by simp
  with Cons.IH [of "putWfApproval now t a rows"] Cons.prems show ?case by simp
qed simp

subsection \<open>The steps of the sweep\<close>

definition sameApprovals :: "'x WfWorld \<Rightarrow> 'x WfWorld \<Rightarrow> bool" where
  "sameApprovals w w' \<longleftrightarrow> ww_now w' = ww_now w \<and> db_approvals (ww_db w') = db_approvals (ww_db w)"

interpretation approval_frame: state_frame sameApprovals
  by unfold_locales (auto simp: sameApprovals_def)

lemma approvals_addJob: "framed sameApprovals (wfAddJob j)"
  by (simp add: wfAddJob_def framed_def sameApprovals_def)

lemma approvals_publish: "framed sameApprovals (WorkflowEventPublisher_publish ev)"
  unfolding WorkflowEventPublisher_publish_def
  by (cases ev) (auto intro!: approval_frame.frame_rules approvals_addJob)

lemma approvals_logAudit: "framed sameApprovals (WorkflowAuditService_logAudit t i e a d)"
  by (simp add: WorkflowAuditService_logAudit_def wfWrite_def wfLogAudit_def framed_def sameApprovals_def)

lemma publish_ok: "\<exists>w'. WorkflowEventPublisher_publish ev w = (Inr (), w')"
  by (cases ev) (auto simp: WorkflowEventPublisher_publish_def wfAddJob_def svc_simps)

text \<open>Failing an execution: its approvals are written back as they are.\<close>

lemma failExecution_verdicts:
  assumes found: "getWfExecutionById i t (ww_db w) = Some e" and d: "distinct (map fst (verdicts w))"
    and run: "failExecution t i x w = (r, w')"
  shows "verdicts w' = verdicts w \<and> ww_now w' = ww_now w"
proof -
  let ?e = "Execution_fail (ww_now w) x e"
  let ?ev = "WorkflowExecutionFailedEvent t i (we_workflowId ?e) x"
  define w1 where "w1 = w\<lparr>ww_db := saveWfExecution (ww_now w) ?e t (ww_db w)\<rparr>"
  from publish_ok [of ?ev w1] obtain w2 where p: "WorkflowEventPublisher_publish ?ev w1 = (Inr (), w2)" by blast
  have same: "sameApprovals w1 w2" by (rule framedD [OF approvals_publish p])
  have "w' = w2\<lparr>ww_realtime := ww_realtime w2 @ [(t, ?e)]\<rparr>"
    using run found p unfolding failExecution_def changeExecution_def
    by (auto simp: getExecutionOrThrow_def wfRead_def wfNow_def wfWrite_def emitWorkflowExecutionUpdate_def svc_simps w1_def Let_def)
  moreover have "we_approvals ?e = findApprovalsByExecutionId i t (ww_db w)"
    using found by (auto simp: getWfExecutionById_def Execution_fail_def)
  then have "verdicts w1 = verdicts w"
    using d unfolding verdicts_def w1_def saveWfExecution_def
    by (simp add: verdicts_fold findApprovalsByExecutionId_def)
  ultimately show ?thesis using same by (simp add: verdicts_def sameApprovals_def w1_def)
qed

text \<open>An execution that can still be resumed: paused, with its template.\<close>

definition waiting :: "uid \<Rightarrow> uid \<Rightarrow> 'x WfWorld \<Rightarrow> bool" where
  "waiting i t w \<longleftrightarrow> (\<exists>e. getWfExecutionById i t (ww_db w) = Some e \<and> we_executionStatus e = WF_PAUSED \<and>
     getTemplateById (we_workflowId e) t (ww_db w) \<noteq> None)"

lemma waiting_find:
  "waiting i t w \<longleftrightarrow> (\<exists>e. List.find (sameExecution i t) (db_executions (ww_db w)) = Some e \<and> we_executionStatus e = WF_PAUSED \<and>
     list_ex (sameTemplate (we_workflowId e) t) (db_templates (ww_db w)))"
  by (auto simp: waiting_def getWfExecutionById_def getTemplateById_def find_None_list_ex)

definition endsWaiting :: "uid \<times> uid \<Rightarrow> 'x WfWorld \<Rightarrow> 'x WfWorld \<Rightarrow> bool" where
  "endsWaiting k w w' \<longleftrightarrow> (\<forall>i t.
     (waiting i t w \<longrightarrow> (if (i, t) = k then statusOf i t w' = Some WF_FAILED else waiting i t w')) \<and>
     (statusOf i t w = Some WF_FAILED \<longrightarrow> statusOf i t w' = Some WF_FAILED))"

lemma sameRun_waiting: "sameRun w w' \<Longrightarrow> waiting i t w' = waiting i t w \<and> statusOf i t w' = statusOf i t w"
  by (simp add: waiting_find statusOf_find sameRun_def)

lemma failExecution_endsWaiting:
  assumes found: "getWfExecutionById i t (ww_db w) = Some e" and run: "failExecution t i x w = (r, w')"
  shows "(\<exists>y. r = Inr y) \<and> endsWaiting (i, t) w w'"
proof -
  from find_getWfExecutionById [OF found] have key: "we_id e = i" "we_tenantId e = t" by auto
  from found have "statusOf i t w = Some (we_executionStatus e)" by (simp add: statusOf_def)
  from ended_statusOf(2) [OF this run] have ok: "\<exists>y. r = Inr y" "statusOf i t w' = Some WF_FAILED" by auto
  let ?e = "wfExecutionColumns (ww_now w) (Execution_fail (ww_now w) x e)"
  from changeExecution_found [where f = "\<lambda>now. Execution_fail now x" and ev = "\<lambda>e. Some (WorkflowExecutionFailedEvent t i (we_workflowId e) x)", OF found]
    run key have w': "db_executions (ww_db w') = map (overwriteRow i t ?e) (db_executions (ww_db w))"
    "db_templates (ww_db w') = db_templates (ww_db w)" unfolding failExecution_def by (auto simp: Execution_fail_def)
  have other: "List.find (sameExecution j u) (db_executions (ww_db w')) = List.find (sameExecution j u) (db_executions (ww_db w))"
    if "(j, u) \<noteq> (i, t)" for j u
  proof -
    have "overwriteRow i t ?e = (\<lambda>r. if sameExecution i t r then ?e\<lparr>we_createdAt := we_createdAt r\<rparr> else r)"
      by (simp add: overwriteRow_def fun_eq_iff)
    with that key w'(1) show ?thesis
      by (auto simp: sameExecution_def Execution_fail_def intro!: find_map_other)
  qed
  show ?thesis
    using ok other w'(2) by (auto simp: endsWaiting_def waiting_find statusOf_find)
qed

lemma resumeAsRejected_effect:
  assumes d: "distinct (map fst (verdicts w))"
  shows "\<exists>w'. resumeAsRejected t i c w = (Inr (), w') \<and> verdicts w' = verdicts w \<and> ww_now w' = ww_now w \<and> endsWaiting (i, t) w w'"
proof (cases "waiting i t w")
  case True
  then obtain e tpl where found: "getWfExecutionById i t (ww_db w) = Some e" "we_executionStatus e = WF_PAUSED"
    "getTemplateById (we_workflowId e) t (ww_db w) = Some tpl" by (auto simp: waiting_def)
  let ?x = "rejectionError ''system'' (Some c)"
  obtain r w1 where fail: "failExecution t i ?x w = (r, w1)" by (cases "failExecution t i ?x w")
  from failExecution_endsWaiting [OF found(1) fail] obtain y where y: "r = Inr y" and ends: "endsWaiting (i, t) w w1" by blast
  let ?log = "WorkflowAuditService_logAudit t (wt_id tpl) i ''APPROVAL_REJECTED'' (''Workflow rejected by approver '' @ ''system'' @ ''. execution terminated.'')"
  obtain r2 w2 where log: "?log w1 = (r2, w2)" by (cases "?log w1")
  have r2: "r2 = Inr ()" using log by (simp add: WorkflowAuditService_logAudit_def wfWrite_def)
  have "resumeAsRejected t i c w = (Inr (), w2)"
    using found fail y log r2 by (simp add: resumeAsRejected_def svc_simps resumeExecution_eq)
  moreover have "sameApprovals w1 w2" "sameRun w1 w2" by (rule framedD [OF approvals_logAudit log], rule framedD [OF frame_logAudit log])
  ultimately show ?thesis
    using failExecution_verdicts [OF found(1) d fail] ends sameRun_waiting [OF \<open>sameRun w1 w2\<close>]
    by (auto simp: verdicts_def sameApprovals_def endsWaiting_def)
next
  case False
  then have "\<exists>err. resumeExecution t i False ''system'' (Some c) w = (Inl err, w)"
    by (auto simp: resumeExecution_eq waiting_def split: option.splits)
  with False show ?thesis by (auto simp: resumeAsRejected_def svc_simps endsWaiting_def)
qed

lemma storeApproval_effect:
  assumes "wa_tenantId a = t" "\<exists>r \<in> set (db_approvals (ww_db w)). sameApproval (wa_id a) t r"
  shows "\<exists>w'. storeApproval a t ev w = (Inr (), w') \<and> verdicts w' = map (withVerdict (verdictOf a)) (verdicts w) \<and>
    ww_now w' = ww_now w \<and> sameRun w w'"
proof -
  define w1 where "w1 = w\<lparr>ww_db := saveWfApproval (ww_now w) a t (ww_db w)\<rparr>"
  from publish_ok [of ev w1] obtain w2 where p: "WorkflowEventPublisher_publish ev w1 = (Inr (), w2)" by blast
  have "sameApprovals w1 w2" "sameRun w1 w2" by (rule framedD [OF approvals_publish p], rule framedD [OF frame_publish p])
  moreover have "verdicts w1 = map (withVerdict (verdictOf a)) (verdicts w)"
    using verdicts_putWfApproval [OF assms] by (simp add: verdicts_def w1_def saveWfApproval_def)
  moreover have "storeApproval a t ev w = (Inr (), w2)"
    using p by (simp add: storeApproval_def wfWrite_def w1_def svc_simps)
  ultimately show ?thesis by (auto simp: verdicts_def sameApprovals_def sameRun_def w1_def saveWfApproval_def)
qed

definition wfApprovalKey :: "WorkflowApproval \<Rightarrow> uid \<times> uid" where
  "wfApprovalKey a = (wa_id a, wa_tenantId a)"

definition executionKey :: "WorkflowApproval \<Rightarrow> uid \<times> uid" where
  "executionKey a = (wa_workflowExecutionId a, wa_tenantId a)"

lemma fst_withVerdict: "map fst (map (withVerdict d) ds) = map fst ds"
  by (simp add: withVerdict_def)

lemma key_withVerdict: "fst (withVerdict d v) = fst v" "fst (snd (withVerdict d v)) = fst (snd v)"
  by (simp_all add: withVerdict_def)

lemma sweepOne_effect:
  assumes d: "distinct (map fst (verdicts w))" and a: "wfApprovalKey a \<in> wfApprovalKey ` set (db_approvals (ww_db w))"
  shows "\<exists>w'. sweepOne a w = (Inr (), w') \<and> ww_now w' = ww_now w \<and> endsWaiting (executionKey a) w w' \<and>
    verdicts w' = map (withVerdict (wa_id a, wa_tenantId a, AP_REJECTED, wa_expiresAt a)) (verdicts w)"
proof -
  let ?a = "Approval_reject (ww_now w) (Some EXPIRED_COMMENT) a" and ?t = "wa_tenantId a"
  let ?ev = "WorkflowRejectedEvent ?t (wa_id a) (wa_workflowExecutionId a)"
  have view: "verdictOf ?a = (wa_id a, ?t, AP_REJECTED, wa_expiresAt a)" by (simp add: verdictOf_def Approval_reject_def)
  have "wa_tenantId ?a = ?t" "\<exists>r \<in> set (db_approvals (ww_db w)). sameApproval (wa_id ?a) ?t r"
    using a by (auto simp: Approval_reject_def wfApprovalKey_def sameApproval_def)
  from storeApproval_effect [OF this, of ?ev] obtain w1 where w1: "storeApproval ?a ?t ?ev w = (Inr (), w1)"
    "verdicts w1 = map (withVerdict (wa_id a, ?t, AP_REJECTED, wa_expiresAt a)) (verdicts w)" "ww_now w1 = ww_now w" "sameRun w w1"
    unfolding view by blast
  have "distinct (map fst (verdicts w1))" using d w1(2) by (simp only: fst_withVerdict)
  from resumeAsRejected_effect [OF this, of ?t "wa_workflowExecutionId a" EXPIRED_COMMENT] obtain w2 where
    w2: "resumeAsRejected ?t (wa_workflowExecutionId a) EXPIRED_COMMENT w1 = (Inr (), w2)" "verdicts w2 = verdicts w1"
      "ww_now w2 = ww_now w1" "endsWaiting (wa_workflowExecutionId a, ?t) w1 w2" by blast
  define alert where "alert = tryCatch (wfAddJob (WfIncidentJob ?t ''workflow.approval-timeout''
          ''Workflow execution blocked by an expired approval''
          (''Approval '' @ wa_id a @ '' for workflow execution '' @ wa_workflowExecutionId a @
           '' expired without a decision and was auto-rejected.''))) (\<lambda>_. ret () :: ('a, unit) wfsvc)"
  obtain r3 w3 where al: "alert w2 = (r3, w3)" by (cases "alert w2")
  have r3: "r3 = Inr ()" using al by (auto simp: alert_def wfAddJob_def svc_simps split: if_splits)
  have "framed sameApprovals alert" "framed sameRun alert"
    unfolding alert_def by (intro approval_frame.frame_rules approvals_addJob, intro run_frame.frame_rules frame_intros)
  from framedD [OF this(1) al] framedD [OF this(2) al] have same: "sameApprovals w2 w3" "sameRun w2 w3" .
  have "sweepOne a w = (Inr (), w3)"
    using w1(1) w2(1) al r3 unfolding sweepOne_def Let_def alert_def by (simp add: wfNow_def)
  moreover have "endsWaiting (executionKey a) w w3"
    using w2(4) sameRun_waiting [OF w1(4)] sameRun_waiting [OF same(2)] by (auto simp: endsWaiting_def executionKey_def)
  ultimately show ?thesis using w1 w2 same(1) by (auto simp: sameApprovals_def verdicts_def)
qed

lemma keys_verdicts: "wfApprovalKey ` set (db_approvals (ww_db w)) = (\<lambda>v. (fst v, fst (snd v))) ` set (verdicts w)"
  by (simp add: verdicts_def image_image wfApprovalKey_def verdictOf_def)

lemma sweep_loop:
  assumes "distinct (map fst (verdicts w))" "wfApprovalKey ` set as \<subseteq> wfApprovalKey ` set (db_approvals (ww_db w))"
  shows "\<exists>w'. forEach as sweepOne w = (Inr (), w') \<and> ww_now w' = ww_now w \<and>
    (\<forall>v \<in> set (verdicts w'). if (fst v, fst (snd v)) \<in> wfApprovalKey ` set as then fst (snd (snd v)) = AP_REJECTED else v \<in> set (verdicts w)) \<and>
    (\<forall>i t. (waiting i t w \<longrightarrow> (if (i, t) \<in> executionKey ` set as then statusOf i t w' = Some WF_FAILED else waiting i t w')) \<and>
       (statusOf i t w = Some WF_FAILED \<longrightarrow> statusOf i t w' = Some WF_FAILED))"
  using assms
proof (induction "as" arbitrary: w)
  case (Cons a "as")
  from Cons.prems sweepOne_effect [of w a] obtain w1 where w1: "sweepOne a w = (Inr (), w1)" "ww_now w1 = ww_now w"
    "endsWaiting (executionKey a) w w1" "verdicts w1 = map (withVerdict (wa_id a, wa_tenantId a, AP_REJECTED, wa_expiresAt a)) (verdicts w)"
    by auto
  have "distinct (map fst (verdicts w1))" using Cons.prems(1) w1(4) by (simp only: fst_withVerdict)
  moreover have "(\<lambda>v. (fst v, fst (snd v))) ` set (verdicts w1) = (\<lambda>v. (fst v, fst (snd v))) ` set (verdicts w)"
    unfolding w1(4) by (simp add: image_image key_withVerdict)
  then have "wfApprovalKey ` set as \<subseteq> wfApprovalKey ` set (db_approvals (ww_db w1))" using Cons.prems(2) by (simp add: keys_verdicts)
  ultimately obtain w' where w': "forEach as sweepOne w1 = (Inr (), w')" "ww_now w' = ww_now w1"
    "\<forall>v \<in> set (verdicts w'). if (fst v, fst (snd v)) \<in> wfApprovalKey ` set as then fst (snd (snd v)) = AP_REJECTED else v \<in> set (verdicts w1)"
    "\<forall>i t. (waiting i t w1 \<longrightarrow> (if (i, t) \<in> executionKey ` set as then statusOf i t w' = Some WF_FAILED else waiting i t w')) \<and>
       (statusOf i t w1 = Some WF_FAILED \<longrightarrow> statusOf i t w' = Some WF_FAILED)" using Cons.IH by blast
  have "if (fst v, fst (snd v)) \<in> wfApprovalKey ` set (a # as) then fst (snd (snd v)) = AP_REJECTED else v \<in> set (verdicts w)"
    if "v \<in> set (verdicts w')" for v
    using that w'(3) w1(4) by (fastforce simp: withVerdict_def wfApprovalKey_def split: if_splits)
  moreover have "(waiting i t w \<longrightarrow> (if (i, t) \<in> executionKey ` set (a # as) then statusOf i t w' = Some WF_FAILED else waiting i t w')) \<and>
       (statusOf i t w = Some WF_FAILED \<longrightarrow> statusOf i t w' = Some WF_FAILED)" for i t
    using w'(4) w1(3) by (fastforce simp: endsWaiting_def split: if_splits)
  ultimately show ?case using w1(1,2) w'(1,2) by (auto simp: svc_simps)
qed simp

subsection \<open>The sweep\<close>

lemma expired_iff: "set (findExpiredPendingApprovals None now db) =
    {a \<in> set (db_approvals db). wa_approvalStatus a = AP_PENDING \<and> (\<exists>x. wa_expiresAt a = Some x \<and> x \<le> now)}"
  by (auto simp: findExpiredPendingApprovals_def split: option.splits)

text \<open>C10: One sweep over all tenants resolves everything that has expired: it reports the number of
  expired approvals, afterwards no pending approval is past its deadline, and every execution that
  was paused on one of them (its template still there) has failed, so nothing waits for ever.\<close>

theorem sweep_resolves_expired_approvals_and_their_executions:
  assumes "distinct (map wa_id (db_approvals (ww_db w)))"
  shows "\<exists>w'. sweepExpiredApprovals None w = (Inr (length (findExpiredPendingApprovals None (ww_now w) (ww_db w))), w') \<and>
    findExpiredPendingApprovals None (ww_now w') (ww_db w') = [] \<and>
    list_all (\<lambda>a. waiting (wa_workflowExecutionId a) (wa_tenantId a) w \<longrightarrow>
        statusOf (wa_workflowExecutionId a) (wa_tenantId a) w' = Some WF_FAILED)
      (findExpiredPendingApprovals None (ww_now w) (ww_db w))"
proof -
  let ?as = "findExpiredPendingApprovals None (ww_now w) (ww_db w)"
  have d: "distinct (map fst (verdicts w))" using assms by (simp add: verdicts_def verdictOf_def comp_def)
  have sub: "wfApprovalKey ` set ?as \<subseteq> wfApprovalKey ` set (db_approvals (ww_db w))" by (auto simp: expired_iff)
  from sweep_loop [OF d sub] obtain w' where w': "forEach ?as sweepOne w = (Inr (), w')" "ww_now w' = ww_now w"
    "\<forall>v \<in> set (verdicts w'). if (fst v, fst (snd v)) \<in> wfApprovalKey ` set ?as then fst (snd (snd v)) = AP_REJECTED else v \<in> set (verdicts w)"
    "\<forall>i t. waiting i t w \<longrightarrow> (i, t) \<in> executionKey ` set ?as \<longrightarrow> statusOf i t w' = Some WF_FAILED" by metis
  have "findExpiredPendingApprovals None (ww_now w') (ww_db w') = []"
  proof (rule ccontr)
    assume "findExpiredPendingApprovals None (ww_now w') (ww_db w') \<noteq> []"
    then obtain a where "a \<in> set (findExpiredPendingApprovals None (ww_now w) (ww_db w'))" unfolding w'(2) by (meson list.set_sel(1))
    then have a: "verdictOf a \<in> set (verdicts w')" "wa_approvalStatus a = AP_PENDING" "\<exists>x. wa_expiresAt a = Some x \<and> x \<le> ww_now w"
      by (auto simp: expired_iff verdicts_def)
    from w'(3) a(1,2) have out: "wfApprovalKey a \<notin> wfApprovalKey ` set ?as" "verdictOf a \<in> set (verdicts w)"
      by (fastforce simp: verdictOf_def wfApprovalKey_def split: if_splits)+
    from out(2) obtain b where "b \<in> set (db_approvals (ww_db w))" "verdictOf b = verdictOf a" by (auto simp: verdicts_def)
    with a(2,3) have "b \<in> set ?as" "wfApprovalKey b = wfApprovalKey a" by (auto simp: expired_iff verdictOf_def wfApprovalKey_def)
    with out(1) show False by (metis imageI)
  qed
  moreover have "sweepExpiredApprovals None w = (Inr (length ?as), w')"
    using w'(1) by (simp add: sweepExpiredApprovals_def wfNow_def wfRead_def svc_simps)
  ultimately show ?thesis using w'(4) by (auto simp: list_all_iff executionKey_def)
qed

text \<open>A day later nobody has answered the approval of the sample run.\<close>

definition overdueWorld :: "nat WfWorld" where
  "overdueWorld = pausedWorld\<lparr>ww_now := 86401000\<rparr>"

theorem sweep_resolves_expired_approvals_and_their_executions_witness:
  "waiting ''u0'' ''acme'' overdueWorld \<and>
   (\<exists>w'. sweepExpiredApprovals None overdueWorld = (Inr 1, w') \<and> findExpiredPendingApprovals None (ww_now w') (ww_db w') = [])"
proof
  have "(case getWfExecutionById ''u0'' ''acme'' (ww_db overdueWorld) of None \<Rightarrow> False
      | Some e \<Rightarrow> we_executionStatus e = WF_PAUSED \<and> getTemplateById (we_workflowId e) ''acme'' (ww_db overdueWorld) \<noteq> None)" by code_simp
  then show "waiting ''u0'' ''acme'' overdueWorld" by (auto simp: waiting_def split: option.splits)
  have "distinct (map wa_id (db_approvals (ww_db overdueWorld)))" by code_simp
  moreover have "length (findExpiredPendingApprovals None (ww_now overdueWorld) (ww_db overdueWorld)) = 1" by code_simp
  ultimately show "\<exists>w'. sweepExpiredApprovals None overdueWorld = (Inr 1, w') \<and> findExpiredPendingApprovals None (ww_now w') (ww_db w') = []"
    using sweep_resolves_expired_approvals_and_their_executions [of overdueWorld] by auto
qed

end
