(* ===== verification/Workflow_Templates.thy ===== *)
theory Workflow_Templates
  imports Workflow_Reach
begin

text \<open>
  Templates: what is read back after a save, what an update does to the parts of a template, and the
  numbers of its versions.
\<close>

subsection \<open>A saved template\<close>

lemma filter_resync: "filter P (resync P new rows) = filter P new"
  by (simp add: resync_def)

lemma filter_resync_pair [simp]:
  "filter (\<lambda>x. f x = i \<and> g x = t) (resync (\<lambda>r. f r = i \<and> g r = t) new rows) = filter (\<lambda>x. f x = i \<and> g x = t) new"
  by (rule filter_resync)

lemma fold_assignKey:
  "distinct (map fst (m @ vs)) \<Longrightarrow> fold (\<lambda>(k, v) m. assignKey k v m) vs m = m @ vs"
proof (induction vs arbitrary: m)
  case (Cons x vs)
  have "assignKey k v m = m @ [(k, v)]" if "k \<notin> fst ` set m" for k v and m :: "(string \<times> 'a) list"
    using that by (induction m) auto
  with Cons show ?case by (cases x) (auto simp: image_iff)
qed simp

lemma getVariables_saved:
  assumes "distinct (map fst vs)"
  shows "getVariables i t (db\<lparr>db_variables := resync (\<lambda>r. va_workflowId r = i \<and> va_tenantId r = t)
    (map (\<lambda>(n, ty, v). \<lparr>va_tenantId = t, va_workflowId = i, va_name = n, va_type = ty, va_value = Some v\<rparr>) vs) rows\<rparr>) = vs"
proof -
  let ?row = "\<lambda>(n, ty, v). \<lparr>va_tenantId = t, va_workflowId = i, va_name = n, va_type = ty, va_value = Some v\<rparr>"
  have "fold (\<lambda>r m. assignKey (va_name r) (va_type r, case va_value r of None \<Rightarrow> [] | Some v \<Rightarrow> v) m) (map ?row vs) m =
      fold (\<lambda>(k, v) m. assignKey k v m) vs m" for m
    by (induction vs arbitrary: m) auto
  moreover have "filter (\<lambda>r. va_workflowId r = i \<and> va_tenantId r = t) (map ?row vs) = map ?row vs"
    by (auto intro!: filter_True)
  ultimately show ?thesis using fold_assignKey [of "[]" vs] assms by (simp add: getVariables_def)
qed

lemma saved_row:
  assumes save: "saveTemplate now x t db = Inr db'" and t: "wt_tenantId x = t"
  shows "\<exists>r. List.find (sameTemplate (wt_id x) t) (db_templates db') = Some r \<and> tw_id r = wt_id x \<and> tw_tenantId r = t \<and>
    (\<forall>n. wt_name x = Some n \<longrightarrow> tw_name r = n) \<and> (\<forall>s. wt_status x = Some s \<longrightarrow> tw_status r = s) \<and>
    tw_description r = orUndefined (wt_description x) \<and> tw_workflowType r = wt_workflowType x \<and> tw_isSystem r = wt_isSystem x \<and>
    tw_updatedAt r = now \<and>
    (\<forall>old. List.find (sameTemplate (wt_id x) t) (db_templates db) = Some old \<longrightarrow> r = templateColumns now x old)"
proof (cases "List.find (sameTemplate (wt_id x) t) (db_templates db)")
  case None
  then have new: "\<not> list_ex (sameTemplate (wt_id x) t) (db_templates db)" by (simp add: find_None_list_ex)
  with save obtain n where n: "wt_name x = Some n" by (cases "wt_name x") (auto simp: saveTemplate_def saveTemplateRow_def)
  with save new t show ?thesis
    using None by (auto simp: saveTemplate_def saveTemplateRow_def find_append_new sameTemplate_def templateColumns_def split: option.splits)
next
  case (Some old)
  then have "list_ex (sameTemplate (wt_id x) t) (db_templates db)" by (metis find_None_list_ex option.distinct(1))
  with save have "db_templates db' = map (\<lambda>r. if sameTemplate (wt_id x) t r then templateColumns now x r else r) (db_templates db)"
    by (auto simp: saveTemplate_def saveTemplateRow_def)
  with find_map_upd [of "sameTemplate (wt_id x) t" "templateColumns now x" "db_templates db"] Some t
  have "List.find (sameTemplate (wt_id x) t) (db_templates db') = Some (templateColumns now x old)"
    by (auto simp: sameTemplate_def templateColumns_def)
  moreover have "sameTemplate (wt_id x) t old" using Some by (auto dest: find_Some_set)
  ultimately show ?thesis using t Some by (auto simp: templateColumns_def sameTemplate_def)
qed

lemma saved_parts:
  assumes "saveTemplate now x t db = Inr db'"
  shows "filter (\<lambda>y. tr_workflowId y = wt_id x \<and> tr_tenantId y = t) (db_triggers db') =
      filter (\<lambda>y. tr_workflowId y = wt_id x \<and> tr_tenantId y = t) (map (\<lambda>r. r\<lparr>tr_updatedAt := now\<rparr>) (wt_triggers x))"
    "filter (\<lambda>y. co_workflowId y = wt_id x \<and> co_tenantId y = t) (db_conditions db') =
      filter (\<lambda>y. co_workflowId y = wt_id x \<and> co_tenantId y = t)
        (map (\<lambda>r. r\<lparr>co_triggerId := orUndefined (co_triggerId r), co_updatedAt := now\<rparr>) (wt_conditions x))"
    "filter (\<lambda>y. ac_workflowId y = wt_id x \<and> ac_tenantId y = t) (db_actions db') =
      filter (\<lambda>y. ac_workflowId y = wt_id x \<and> ac_tenantId y = t) (map (\<lambda>r. r\<lparr>ac_updatedAt := now\<rparr>) (wt_actions x))"
    "distinct (map fst (wt_variables x)) \<Longrightarrow> getVariables (wt_id x) t db' = wt_variables x"
  using assms by (auto simp: saveTemplate_def rbind_Inr_iff getVariables_saved)

text \<open>The parts of a template belong to it, in the order the reader sorts them.\<close>

definition ownParts :: "WorkflowTemplate \<Rightarrow> bool" where
  "ownParts x \<longleftrightarrow>
     list_all (\<lambda>y. tr_workflowId y = wt_id x \<and> tr_tenantId y = wt_tenantId x) (wt_triggers x) \<and>
     list_all (\<lambda>y. co_workflowId y = wt_id x \<and> co_tenantId y = wt_tenantId x) (wt_conditions x) \<and>
     list_all (\<lambda>y. ac_workflowId y = wt_id x \<and> ac_tenantId y = wt_tenantId x) (wt_actions x) \<and>
     sorted (map ac_sequenceOrder (wt_actions x)) \<and> distinct (map fst (wt_variables x))"

definition stamped :: "millis \<Rightarrow> WorkflowTemplate \<Rightarrow> WorkflowTemplate" where
  "stamped now x = x\<lparr>wt_description := orUndefined (wt_description x),
     wt_triggers := map (\<lambda>r. r\<lparr>tr_updatedAt := now\<rparr>) (wt_triggers x),
     wt_conditions := map (\<lambda>r. r\<lparr>co_triggerId := orUndefined (co_triggerId r), co_updatedAt := now\<rparr>) (wt_conditions x),
     wt_actions := map (\<lambda>r. r\<lparr>ac_updatedAt := now\<rparr>) (wt_actions x), wt_updatedAt := now\<rparr>"



subsection \<open>Saving a loaded template\<close>

lemma loaded_template:
  assumes "getTemplateById i t db = Some x"
  shows "wt_id x = i \<and> wt_tenantId x = t \<and> (\<exists>r. List.find (sameTemplate i t) (db_templates db) = Some r \<and> x = templateOfRow t db r)"
proof -
  from assms obtain r where r: "List.find (sameTemplate i t) (db_templates db) = Some r" "x = templateOfRow t db r"
    by (auto simp: getTemplateById_def)
  from find_Some_set [OF r(1)] have "sameTemplate i t r" by simp
  with r show ?thesis by (simp add: templateOfRow_def sameTemplate_def)
qed

lemma save_existing:
  assumes "List.find (sameTemplate (wt_id x) t) (db_templates db) = Some r"
  shows "\<exists>db'. saveTemplate now x t db = Inr db'"
proof -
  from assms have "list_ex (sameTemplate (wt_id x) t) (db_templates db)" by (metis find_None_list_ex option.distinct(1))
  then show ?thesis by (simp add: saveTemplate_def saveTemplateRow_def)
qed

subsection \<open>Updates\<close>

text \<open>An update whose data object carries the lists as \<^verbatim>\<open>undefined\<close> properties (what a class with
  declared fields leaves for keys the request did not send) empties the template: the triggers,
  conditions, actions and variables are gone from the database, while the update was meant to keep
  what it does not mention.\<close>

theorem update_with_undefined_lists_empties_the_template:
  assumes found: "getTemplateById i t (ww_db w) = Some x"
    and dto: "utd_triggers dto = Undef" "utd_conditions dto = Undef" "utd_actions dto = Undef" "utd_variables dto = Undef"
  shows "\<exists>y w' z. updateTemplate t i dto w = (Inr y, w') \<and> getTemplateById i t (ww_db w') = Some z \<and>
    wt_triggers z = [] \<and> wt_conditions z = [] \<and> wt_actions z = [] \<and> wt_variables z = []"
proof -
  let ?x = "Template_update (ww_now w) (dtoPatch dto) x"
  from loaded_template [OF found] obtain r where x: "wt_id x = i" "wt_tenantId x = t"
    "List.find (sameTemplate i t) (db_templates (ww_db w)) = Some r" by auto
  have new: "wt_id ?x = i" "wt_tenantId ?x = t" "wt_triggers ?x = []" "wt_conditions ?x = []" "wt_actions ?x = []" "wt_variables ?x = []"
    using x dto by (simp_all add: Template_update_def dtoPatch_def)
  from save_existing [of ?x t "ww_db w" r] x new obtain db' where save: "saveTemplate (ww_now w) ?x t (ww_db w) = Inr db'" by auto
  from saved_row [OF save new(2)] new(1) obtain r' where r': "List.find (sameTemplate i t) (db_templates db') = Some r'" "tw_id r' = i" by auto
  have z: "getTemplateById i t db' = Some (templateOfRow t db' r')" using r'(1) by (simp add: getTemplateById_def)
  have parts: "wt_triggers (templateOfRow t db' r') = []" "wt_conditions (templateOfRow t db' r') = []"
    "wt_actions (templateOfRow t db' r') = []" "wt_variables (templateOfRow t db' r') = []"
    using saved_parts [OF save] new r'(2) by (simp_all add: templateOfRow_def)
  have "updateTemplate t i dto w = (Inr ?x, w\<lparr>ww_db := db'\<rparr>)"
    using found dto save by (simp add: updateTemplate_def getTemplateOrThrow_def wfRead_def wfNow_def wfTryWrite_def svc_simps
        WorkflowEventPublisher_publish_def Let_def)
  with z parts show ?thesis by fastforce
qed

definition renameDto :: UpdateTemplateDto where
  "renameDto = \<lparr>utd_name = Val ''Renamed'', utd_description = Undef, utd_status = Undef, utd_triggers = Undef,
     utd_conditions = Undef, utd_actions = Undef, utd_variables = Undef\<rparr>"

theorem update_with_undefined_lists_empties_the_template_witness:
  "let w = wfSampleWorld [sampleAction WAIT [] 1]
   in map_option (length \<circ> wt_actions) (getTemplateById ''wf1'' ''acme'' (ww_db w)) = Some 1 \<and>
      (\<exists>y w' z. updateTemplate ''acme'' ''wf1'' renameDto w = (Inr y, w') \<and> getTemplateById ''wf1'' ''acme'' (ww_db w') = Some z \<and>
         wt_triggers z = [] \<and> wt_conditions z = [] \<and> wt_actions z = [] \<and> wt_variables z = [])"
proof -
  let ?w = "wfSampleWorld [sampleAction WAIT [] 1]"
  have one: "map_option (length \<circ> wt_actions) (getTemplateById ''wf1'' ''acme'' (ww_db ?w)) = Some 1" by code_simp
  then obtain x where "getTemplateById ''wf1'' ''acme'' (ww_db ?w) = Some x" by auto
  from update_with_undefined_lists_empties_the_template [OF this, of renameDto] one show ?thesis
    unfolding Let_def by (simp add: renameDto_def)
qed

subsection \<open>Versions\<close>

lemma publishVersion_found:
  assumes found: "getTemplateById i t (ww_db w) = Some x"
  shows "\<exists>w' x'. publishVersion t i w = (Inr (wt_version x + 1), w') \<and> getTemplateById i t (ww_db w') = Some x' \<and> wt_version x' = wt_version x \<and>
    (\<exists>rows r. db_versions (ww_db w') = rows @ [r] \<and> vr_workflowTemplateId r = i \<and> vr_tenantId r = t \<and> vr_versionNumber r = wt_version x + 1 \<and>
       map (\<lambda>r. (vr_workflowTemplateId r, vr_tenantId r, vr_versionNumber r)) rows =
       map (\<lambda>r. (vr_workflowTemplateId r, vr_tenantId r, vr_versionNumber r)) (db_versions (ww_db w)))"
proof -
  from loaded_template [OF found] obtain r where x: "wt_id x = i" "wt_tenantId x = t"
    "List.find (sameTemplate i t) (db_templates (ww_db w)) = Some r" "x = templateOfRow t (ww_db w) r" by auto
  have nz: "wt_version x \<noteq> 0" using x(4) by (simp add: templateOfRow_def)
  define y where "y = x\<lparr>wt_version := wt_version x + 1, wt_updatedAt := ww_now w\<rparr>"
  have pub: "publishNewVersion (ww_now w) x = (wt_version x + 1, y)" using nz by (simp add: publishNewVersion_def y_def Let_def)
  have y: "wt_id y = i" "wt_tenantId y = t" using x by (simp_all add: y_def)
  from save_existing [of y t "ww_db w" r] x y obtain db' where save: "saveTemplate (ww_now w) y t (ww_db w) = Inr db'" by auto
  from saved_row [OF save y(2)] x(3) y(1) have read: "List.find (sameTemplate i t) (db_templates db') = Some (templateColumns (ww_now w) y r)" by auto
  let ?db = "saveVersion i (wt_version x + 1) y True t db'"
  have same: "getTemplateById i t ?db = Some (templateOfRow t ?db (templateColumns (ww_now w) y r))"
    using read by (simp add: getTemplateById_def saveVersion_def)
  have version: "wt_version (templateOfRow t ?db (templateColumns (ww_now w) y r)) = wt_version x"
    using x(4) by (simp add: templateOfRow_def templateColumns_def)
  have versions: "db_versions db' = db_versions (ww_db w)" using save by (auto simp: saveTemplate_def rbind_Inr_iff)
  have "publishVersion t i w = (Inr (wt_version x + 1), w\<lparr>ww_db := ?db\<rparr>)"
    using found save pub by (simp add: publishVersion_def getTemplateOrThrow_def wfRead_def wfNow_def wfTryWrite_def wfWrite_def svc_simps)
  moreover have "map (\<lambda>r. (vr_workflowTemplateId r, vr_tenantId r, vr_versionNumber r)) (butlast (db_versions ?db)) =
      map (\<lambda>r. (vr_workflowTemplateId r, vr_tenantId r, vr_versionNumber r)) (db_versions (ww_db w))"
    using versions by (simp add: saveVersion_def)
  ultimately show ?thesis using same version versions
    by (intro exI [of _ "w\<lparr>ww_db := ?db\<rparr>"] exI [of _ "templateOfRow t ?db (templateColumns (ww_now w) y r)"]) (simp add: saveVersion_def)
qed

text \<open>Publishing a template twice gives both versions the same number: the number is computed from
  the version column, and saving a template never writes that column.\<close>

theorem republishing_repeats_the_version_number:
  assumes "getTemplateById i t (ww_db w) = Some x" "publishVersion t i w = (Inr v, w1)"
  shows "\<exists>w2. publishVersion t i w1 = (Inr v, w2) \<and>
    2 \<le> length (filter (\<lambda>r. vr_workflowTemplateId r = i \<and> vr_tenantId r = t \<and> vr_versionNumber r = v) (db_versions (ww_db w2)))"
proof -
  let ?key = "\<lambda>r. (vr_workflowTemplateId r, vr_tenantId r, vr_versionNumber r)"
  from publishVersion_found [OF assms(1)] assms(2) obtain x1 rows1 r1 where
    first: "v = wt_version x + 1" "getTemplateById i t (ww_db w1) = Some x1" "wt_version x1 = wt_version x"
      "db_versions (ww_db w1) = rows1 @ [r1]" "?key r1 = (i, t, v)" by auto
  from publishVersion_found [OF first(2)] first(1,3) obtain w2 rows2 r2 where
    second: "publishVersion t i w1 = (Inr v, w2)" "db_versions (ww_db w2) = rows2 @ [r2]" "?key r2 = (i, t, v)"
      "map ?key rows2 = map ?key (db_versions (ww_db w1))" by auto
  let ?P = "\<lambda>r. vr_workflowTemplateId r = i \<and> vr_tenantId r = t \<and> vr_versionNumber r = v"
  have "length (filter ?P rows2) = length (filter (\<lambda>k. k = (i, t, v)) (map ?key rows2))" by (simp add: filter_map comp_def)
  also have "\<dots> \<ge> 1" unfolding second(4) first(4) using first(5) by simp
  finally have "2 \<le> length (filter ?P (db_versions (ww_db w2)))" using second(2,3) by simp
  with second(1) show ?thesis by blast
qed

theorem republishing_repeats_the_version_number_witness:
  "fst (publishVersion ''acme'' ''wf1'' (wfSampleWorld [])) = Inr 2 \<and>
   (\<exists>w2. publishVersion ''acme'' ''wf1'' (snd (publishVersion ''acme'' ''wf1'' (wfSampleWorld []))) = (Inr 2, w2))"
proof -
  let ?p = "publishVersion ''acme'' ''wf1'' (wfSampleWorld [])"
  have two: "fst ?p = Inr 2" by code_simp
  have "getTemplateById ''wf1'' ''acme'' (ww_db (wfSampleWorld [])) \<noteq> None" by code_simp
  then obtain x where x: "getTemplateById ''wf1'' ''acme'' (ww_db (wfSampleWorld [])) = Some x" by auto
  have "?p = (Inr 2, snd ?p)" using two by (metis prod.collapse)
  from republishing_repeats_the_version_number [OF x this] two show ?thesis by blast
qed

end
