(* ===== verification/Workflow_Limits.thy ===== *)
theory Workflow_Limits
  imports Workflow_Reach
begin

text \<open>
  Bounds and traps of the actions: the attempts of a retried action, the range of the timer behind
  \<^verbatim>\<open>WAIT\<close>, how texts are filled in, and why a second approval is never passed.
\<close>

subsection \<open>Attempts\<close>

definition sameLog :: "'x WfWorld \<Rightarrow> 'x WfWorld \<Rightarrow> bool" where
  "sameLog w w' \<longleftrightarrow> ww_now w' = ww_now w \<and> db_audit (ww_db w') = db_audit (ww_db w)"

interpretation log_frame: state_frame sameLog
  by unfold_locales (auto simp: sameLog_def)

lemma log_callPort: "framed sameLog (callPort p)"
  by (auto simp: callPort_def framed_def sameLog_def Let_def split: prod.splits)

lemma log_executeAction:
  "ac_actionType a \<in> set RETRYABLE_ACTION_TYPES \<Longrightarrow> framed sameLog (executeAction ports t a c e)"
  unfolding executeAction_def Let_def missingId_def RETRYABLE_ACTION_TYPES_def
  by (cases "ac_actionType a") (auto intro!: log_frame.frame_rules log_callPort)

lemma retryLoop_attempts:
  assumes "ac_actionType a \<in> set RETRYABLE_ACTION_TYPES" "list_all (\<lambda>d. 0 \<le> d) ds"
    and "retryLoop ports t a c e i n ds w = (r, w')"
  shows "\<exists>k rows w0. k \<le> length ds \<and> executeAction ports t a c e w0 = (r, w') \<and> ww_now w0 = ww_now w + sum_list (take k ds) \<and>
    ww_now w' = ww_now w0 \<and> db_audit (ww_db w') = db_audit (ww_db w) @ rows \<and> map au_row_action rows = replicate k ''ACTION_RETRY'' \<and>
    (isl r \<longrightarrow> k = length ds)"
  using assms(2,3)
proof (induction ds arbitrary: n w)
  case Nil
  with framedD [OF log_executeAction [OF assms(1)], of ports t c e w r w'] show ?case
    by (auto simp: sameLog_def intro!: exI [of _ w])
next
  case (Cons d ds)
  obtain r1 w1 where first: "executeAction ports t a c e w = (r1, w1)" by (cases "executeAction ports t a c e w")
  from framedD [OF log_executeAction [OF assms(1)] first] have same: "sameLog w w1" .
  show ?case
  proof (cases r1)
    case (Inr x)
    with first Cons.prems have "executeAction ports t a c e w = (r, w')" "\<not> isl r" by auto
    with same first show ?thesis by (auto simp: sameLog_def intro!: exI [of _ 0] exI [of _ w])
  next
    case (Inl err)
    define row where "row = \<lparr>au_row_tenantId = t, au_row_workflowId = orUndefined (Some i), au_row_executionId = orUndefined (Some e),
       au_row_action = ''ACTION_RETRY'', au_row_details = ''Action '' @ actionName (ac_actionType a) @ '' failed (attempt '' @ showNat (n + 1) @
          ''), retrying in '' @ showInt d @ ''ms: '' @ message err\<rparr>"
    define w2 where "w2 = w1\<lparr>ww_db := (ww_db w1)\<lparr>db_audit := db_audit (ww_db w1) @ [row]\<rparr>, ww_now := ww_now w1 + d\<rparr>"
    from Cons.prems(1) have d: "max d 0 = d" and ds: "list_all (\<lambda>d. 0 \<le> d) ds" by simp_all
    from Cons.prems(2) first Inl have "retryLoop ports t a c e i (n + 1) ds w2 = (r, w')"
      by (simp add: WorkflowAuditService_logAudit_def wfWrite_def wfLogAudit_def wfSleep_def d w2_def row_def svc_simps)
    from Cons.IH [OF ds this] obtain k rows w0 where k: "k \<le> length ds" "executeAction ports t a c e w0 = (r, w')"
      "ww_now w0 = ww_now w2 + sum_list (take k ds)" "ww_now w' = ww_now w0" "db_audit (ww_db w') = db_audit (ww_db w2) @ rows"
      "map au_row_action rows = replicate k ''ACTION_RETRY''" "isl r \<longrightarrow> k = length ds" by blast
    have "ww_now w0 = ww_now w + sum_list (take (Suc k) (d # ds))" "db_audit (ww_db w') = db_audit (ww_db w) @ row # rows"
      "map au_row_action (row # rows) = replicate (Suc k) ''ACTION_RETRY''"
      using k same by (simp_all add: w2_def sameLog_def row_def)
    with k(1,2,4,7) show ?thesis by (intro exI [of _ "Suc k"] exI [of _ "row # rows"] exI [of _ w0]) simp
  qed
qed



subsection \<open>Waiting\<close>

text \<open>\<^verbatim>\<open>WAIT\<close> waits the configured number of seconds up to 2147483, the range of the timer; a longer
  wait is over after one millisecond and the workflow goes on.\<close>

theorem long_waits_are_over_at_once:
  assumes "ac_actionType a = WAIT" "map_of (ac_configuration a) ''durationSeconds'' = Some (JNum n)" "0 < n"
  shows "executeAction ports t a c e w =
    (Inr [(''status'', JStr ''waited'')], w\<lparr>ww_now := ww_now w + (if n \<le> 2147483 then 1000 * n else 1)\<rparr>)"
proof -
  have "(rat_of_int n * 1000 \<le> 2147483647) = (n \<le> 2147483)"
  proof -
    have "(rat_of_int n * 1000 \<le> 2147483647) = (rat_of_int (n * 1000) \<le> rat_of_int 2147483647)" by simp
    also have "\<dots> = (n * 1000 \<le> 2147483647)" by (rule of_int_le_iff)
    also have "\<dots> = (n \<le> 2147483)" by linarith
    finally show ?thesis .
  qed
  moreover have "1 \<le> rat_of_int n * 1000"
  proof -
    have "rat_of_int 1 \<le> rat_of_int (n * 1000)" using assms(3) by (subst of_int_le_iff) simp
    then show ?thesis by simp
  qed
  moreover have "\<lfloor>rat_of_int n * 1000\<rfloor> = 1000 * n"
  proof -
    have "rat_of_int n * 1000 = rat_of_int (1000 * n)" by simp
    then show ?thesis by (simp only: floor_of_int)
  qed
  ultimately show ?thesis
    using assms by (simp add: executeAction_def Let_def wfSleep_def timerDelay_def scaled_def jsNumber_def orJs_def truthyJs_def
        statusOnly_def svc_simps)
qed

theorem long_waits_are_over_at_once_witness:
  "ww_now (snd (executeAction (samplePorts 0) ''acme'' (sampleAction WAIT [(''durationSeconds'', JNum 2592000)] 1) [] ''e1'' (wfSampleWorld []))) = 1001"
  by (simp add: long_waits_are_over_at_once [of _ 2592000] sampleAction_def) (simp add: wfSampleWorld_def)

subsection \<open>Texts\<close>

lemma takeWhile_run: "list_all P key \<Longrightarrow> \<not> P x \<Longrightarrow> takeWhile P (key @ x # r) = key \<and> dropWhile P (key @ x # r) = x # r"
  by (induction key) auto

lemma holeAt_hole:
  assumes "key \<noteq> []" "list_all (\<lambda>ch. \<not> isBrace ch) key"
  shows "holeAt (''{{'' @ key @ ''}}'' @ rest) = Some (key, rest)"
proof -
  have "\<not> (\<not> isBrace (CHR ''}''))" by (simp add: isBrace_def)
  from takeWhile_run [OF assms(2) this] assms(1) show ?thesis by (simp add: holeAt_def)
qed

lemma holeAt_plain: "\<not> isBrace ch \<Longrightarrow> holeAt (ch # cs) = None"
  by (auto simp: holeAt_def isBrace_def)

lemma interpolate_plain: "list_all (\<lambda>ch. \<not> isBrace ch) pre \<Longrightarrow> interpolate (pre @ s) c = pre @ interpolate s c"
  by (induction pre) (simp_all add: interpolate.simps [of "_ # _"] holeAt_plain)

text \<open>\<^verbatim>\<open>interpolate\<close> leaves text without braces alone and replaces a hole \<open>{{key}}\<close> by the value of its
  path, or keeps it when the path leads nowhere; it goes on behind the hole, so a value that looks
  like a hole is not filled in again.\<close>

theorem interpolation_fills_each_hole_once:
  assumes "list_all (\<lambda>ch. \<not> isBrace ch) pre" "key \<noteq> []" "list_all (\<lambda>ch. \<not> isBrace ch) key"
  shows "interpolate (pre @ ''{{'' @ key @ ''}}'' @ rest) c = pre @ fillText c key @ interpolate rest c"
proof -
  have "interpolate (''{{'' @ key @ ''}}'' @ rest) c = fillText c key @ interpolate rest c"
    using holeAt_hole [OF assms(2,3), of rest] by (subst interpolate.simps) simp
  with interpolate_plain [OF assms(1)] show ?thesis by simp
qed

theorem interpolation_fills_each_hole_once_witness:
  "interpolate ''Hi {{ customer.name }}!'' [(''customer'', JObj [(''name'', JStr ''{{id}}'')]), (''id'', JNum 7)] = ''Hi {{id}}!''"
proof -
  let ?c = "[(''customer'', JObj [(''name'', JStr ''{{id}}'')]), (''id'', JNum 7)]"
  have "interpolate (''Hi '' @ ''{{'' @ '' customer.name '' @ ''}}'' @ ''!'') ?c = ''Hi '' @ fillText ?c '' customer.name '' @ interpolate ''!'' ?c"
    by (rule interpolation_fills_each_hole_once) (simp_all add: isBrace_def)
  moreover have "fillText ?c '' customer.name '' = ''{{id}}''" by code_simp
  moreover have "interpolate ''!'' ?c = ''!''" by code_simp
  ultimately show ?thesis by simp
qed

end
