(* ===== verification/Workflow_Platform.thy ===== *)
theory Workflow_Platform
  imports Workflow_Limits Ticket_Service_Limits Connector_Engine
begin

text \<open>
  The ports of the workflow actions connected to the ticket services and the connector engine. The
  clock of the engine is handed on with every call. Customers, messages, notifications and the AI
  service are recorded calls whose answer is an argument, and so are three calls the models of those
  services have no argument for: an assignment without an agent, and a capability whose name is no
  string or whose payload is no object.
\<close>

datatype outside_call =
    AssignWithoutAgent uid "json option" "json option" "json option"
  | OddCapability uid "json option" "json option" uid
  | UpdateCustomer uid "json option" "json option"
  | CreateMessage uid "json option" string
  | SendEmail uid string "json option" string string
  | SendPush uid "json option" string
  | TriggerAi uid "json option" "json option" "json option"

record Platform =
  pl_tickets :: World
  pl_conn :: ConnWorld
  pl_calls :: "outside_call list"

record PlatformEnv =
  pe_tickets :: Env
  pe_conn :: ConnEnv
  pe_answer :: "outside_call \<Rightarrow> exn + uid"

definition onTickets :: "millis \<Rightarrow> 'a service \<Rightarrow> (Platform, 'a) svc" where
  "onTickets now m = (\<lambda>p. let (r, x) = m ((pl_tickets p)\<lparr>wd_now := now\<rparr>) in (r, p\<lparr>pl_tickets := x\<rparr>))"

definition onConnectors :: "millis \<Rightarrow> (ConnWorld, 'a) svc \<Rightarrow> (Platform, 'a) svc" where
  "onConnectors now m = (\<lambda>p. let (r, x) = m ((pl_conn p)\<lparr>cw_now := now\<rparr>) in (r, p\<lparr>pl_conn := x\<rparr>))"

definition outsideCall :: "PlatformEnv \<Rightarrow> outside_call \<Rightarrow> (Platform, uid) svc" where
  "outsideCall env c = (\<lambda>p. (pe_answer env c, p\<lparr>pl_calls := pl_calls p @ [c]\<rparr>))"

definition outside :: "PlatformEnv \<Rightarrow> outside_call \<Rightarrow> (Platform, unit) svc" where
  "outside env c = andThen (outsideCall env c) (\<lambda>_. ret ())"

subsection \<open>Values of the configuration as arguments\<close>

text \<open>A value compared with an identifier column.\<close>

definition idArgument :: "json option \<Rightarrow> exn + uid" where
  "idArgument v = (case v of Some (JStr s) \<Rightarrow> Inr s | _ \<Rightarrow> Inl (Error (''invalid input syntax for type uuid: '' @ jsString v)))"

definition optionalId :: "json option \<Rightarrow> exn + uid option" where
  "optionalId v = (case v of None \<Rightarrow> Inr None | Some JNull \<Rightarrow> Inr None | _ \<Rightarrow> rbind (idArgument v) (\<lambda>s. Inr (Some s)))"

definition priorityValue :: "json \<Rightarrow> exn + TicketPriorityEnum" where
  "priorityValue j = (case j of JStr s \<Rightarrow> TicketPriority_create s | _ \<Rightarrow> Inl (Error (''Invalid ticket priority: '' @ stringOf j)))"

definition statusValue :: "json \<Rightarrow> exn + TicketStatusEnum" where
  "statusValue j = (case j of JStr s \<Rightarrow> TicketStatus_create s | _ \<Rightarrow> Inl (Error (''Invalid ticket status: '' @ stringOf j)))"

definition optionally :: "(json \<Rightarrow> exn + 'a) \<Rightarrow> json option \<Rightarrow> exn + 'a option" where
  "optionally f v = (case v of None \<Rightarrow> Inr None | Some j \<Rightarrow> rbind (f j) (\<lambda>x. Inr (Some x)))"

text \<open>The own properties \<^verbatim>\<open>...value\<close> copies.\<close>

fun spreadEntries :: "json \<Rightarrow> entries" where
  "spreadEntries (JObj fs) = fs"
| "spreadEntries (JArr js) = zip (map showNat [0..<length js]) js"
| "spreadEntries (JStr s) = zip (map showNat [0..<length s]) (map (\<lambda>c. JStr [c]) s)"
| "spreadEntries _ = []"

definition metadataArgument :: "json option \<Rightarrow> jobject option" where
  "metadataArgument v = (if truthyJs v then map_option (\<lambda>j. map_of (spreadEntries j)) v else None)"

subsection \<open>Tickets\<close>

definition createTicketPort :: "PlatformEnv \<Rightarrow> millis \<Rightarrow> uid \<Rightarrow> string \<Rightarrow> string \<Rightarrow> json option \<Rightarrow> json option \<Rightarrow> (Platform, uid) svc" where
  "createTicketPort env now tenantId subject description customerId priority =
     onTickets now (andThen (liftR (if truthyJs customerId then optionalId customerId else Inr None)) (\<lambda>customer.
       case optionally priorityValue priority of
         Inl e \<Rightarrow>
           andThen (if truthy customer then andThen (liftR (env_customer (pe_tickets env) tenantId (the customer))) (\<lambda>_. ret ()) else ret ())
             (\<lambda>_. throw e)
       | Inr prio \<Rightarrow>
           andThen (TicketService_create (pe_tickets env) tenantId
             \<lparr>ct_subject = subject, ct_description = Some description, ct_customerId = customer, ct_conversationId = None,
              ct_categoryId = None, ct_assignedAgentId = None, ct_assignedTeamId = None, ct_priority = prio, ct_source = None,
              ct_metadata = None\<rparr> None) (\<lambda>t. ret (t_id t))))"

definition updateTicketPort :: "PlatformEnv \<Rightarrow> millis \<Rightarrow> uid \<Rightarrow> json option \<Rightarrow> TicketChange \<Rightarrow> (Platform, unit) svc" where
  "updateTicketPort env now tenantId ticketId change =
     onTickets now (andThen (liftR (idArgument ticketId)) (\<lambda>tid.
       case rbind (optionally priorityValue (tc_priority change)) (\<lambda>prio.
            rbind (optionally statusValue (tc_status change)) (\<lambda>st. Inr (prio, st))) of
         Inl e \<Rightarrow> andThen (getOrThrow tenantId tid) (\<lambda>_. throw e)
       | Inr (prio, st) \<Rightarrow>
           andThen (TicketService_update (pe_tickets env) tenantId tid
             \<lparr>ut_subject = tc_subject change, ut_description = tc_description change, ut_priority = prio, ut_status = st,
              ut_categoryId = None, ut_metadata = metadataArgument (tc_metadata change)\<rparr> None) (\<lambda>_. ret ())))"

definition assignTicketPort :: "PlatformEnv \<Rightarrow> millis \<Rightarrow> uid \<Rightarrow> json option \<Rightarrow> json option \<Rightarrow> json option \<Rightarrow> (Platform, unit) svc" where
  "assignTicketPort env now tenantId ticketId agentId teamId =
     (case agentId of
        Some (JStr agent) \<Rightarrow>
          onTickets now (andThen (liftR (idArgument ticketId)) (\<lambda>tid. andThen (liftR (optionalId teamId)) (\<lambda>team.
            andThen (TicketAssignmentService_assign tenantId tid agent team ''WORKFLOW'' None) (\<lambda>_. ret ()))))
      | _ \<Rightarrow> outside env (AssignWithoutAgent tenantId ticketId agentId teamId))"

definition escalateTicketPort :: "millis \<Rightarrow> uid \<Rightarrow> json option \<Rightarrow> json option \<Rightarrow> uid \<Rightarrow> (Platform, unit) svc" where
  "escalateTicketPort now tenantId ticketId reason executionId =
     onTickets now (andThen (liftR (idArgument ticketId)) (\<lambda>tid.
       andThen (TicketEscalationService_escalate tenantId tid (jsString reason) (Some executionId) None) (\<lambda>_. ret ())))"

definition noTag :: exn where
  "noTag = Error ''null value in column tag violates not-null constraint''"

definition addTagPort :: "millis \<Rightarrow> uid \<Rightarrow> json option \<Rightarrow> json option \<Rightarrow> (Platform, unit) svc" where
  "addTagPort now tenantId ticketId tag =
     onTickets now (andThen (liftR (idArgument ticketId)) (\<lambda>tid.
       if tag = None \<or> tag = Some JNull then andThen (getOrThrow tenantId tid) (\<lambda>_. throw noTag)
       else andThen (TicketService_addTag tenantId tid \<lparr>tt_tag = jsString tag, tt_color = None\<rparr>) (\<lambda>_. ret ())))"

definition removeTagPort :: "millis \<Rightarrow> uid \<Rightarrow> json option \<Rightarrow> json option \<Rightarrow> (Platform, unit) svc" where
  "removeTagPort now tenantId ticketId tag =
     onTickets now (andThen (liftR (idArgument ticketId)) (\<lambda>tid.
       andThen (TicketService_removeTag tenantId tid (jsString tag)) (\<lambda>_. ret ())))"

definition executeCapabilityPort :: "PlatformEnv \<Rightarrow> millis \<Rightarrow> uid \<Rightarrow> json option \<Rightarrow> json option \<Rightarrow> uid \<Rightarrow> (Platform, json option) svc" where
  "executeCapabilityPort env now tenantId capability payload executionId =
     (case (capability, payload) of
        (Some (JStr cap), Some (JObj fs)) \<Rightarrow>
          onConnectors now (executeCapability (pe_conn env) tenantId cap fs
            \<lparr>eo_workflowId = Some executionId, eo_conversationId = None, eo_ticketId = None, eo_idempotencyKey = None, eo_attempt = None\<rparr>)
      | _ \<Rightarrow> andThen (outsideCall env (OddCapability tenantId capability payload executionId)) (\<lambda>i. ret (Some (JStr i))))"

definition platformPorts :: "PlatformEnv \<Rightarrow> Platform ActionPorts" where
  "platformPorts env =
     \<lparr>po_createTicket = createTicketPort env, po_updateTicket = updateTicketPort env, po_assignTicket = assignTicketPort env,
      po_escalateTicket = escalateTicketPort, po_addTag = addTagPort, po_removeTag = removeTagPort,
      po_updateCustomer = (\<lambda>_ t c d. outside env (UpdateCustomer t c d)),
      po_createMessage = (\<lambda>_ t c s. outsideCall env (CreateMessage t c s)),
      po_sendEmail = (\<lambda>_ t to tid s b. outside env (SendEmail t to tid s b)),
      po_sendPush = (\<lambda>_ t u m. outside env (SendPush t u m)),
      po_executeCapability = executeCapabilityPort env,
      po_triggerAi = (\<lambda>_ t i c v. outsideCall env (TriggerAi t i c v))\<rparr>"

subsection \<open>Updating a ticket from a workflow\<close>

lemma updateTicketPort_incomplete:
  assumes "tc_status change = None \<or> tc_priority change = None"
  shows "\<exists>e p'. updateTicketPort env now t tid change p = (Inl e, p') \<and> wd_db (pl_tickets p') = wd_db (pl_tickets p)"
proof -
  have get: "\<exists>r. getOrThrow t i x = (r, x)" for i and x :: World by (simp add: getOrThrow_app split: sum.split option.split)
  show ?thesis
  proof (cases "idArgument tid")
    case (Inl e)
    then show ?thesis by (simp add: updateTicketPort_def onTickets_def svc_simps)
  next
    case (Inr i)
    let ?x = "(pl_tickets p)\<lparr>wd_now := now\<rparr>"
    let ?r = "rbind (optionally priorityValue (tc_priority change)) (\<lambda>prio. rbind (optionally statusValue (tc_status change)) (\<lambda>st. Inr (prio, st)))"
    show ?thesis
    proof (cases ?r)
      case (Inl e)
      moreover obtain r where "getOrThrow t i ?x = (r, ?x)" using get by blast
      ultimately show ?thesis using Inr by (cases r) (simp_all add: updateTicketPort_def onTickets_def svc_simps)
    next
      fix ps
      assume ps: "?r = Inr ps"
      obtain prio st where "ps = (prio, st)" by (cases ps)
      with ps assms have none: "st = None \<or> prio = None" by (auto simp: rbind_Inr_iff optionally_def)
      let ?dto = "\<lparr>ut_subject = tc_subject change, ut_description = tc_description change, ut_priority = prio, ut_status = st,
              ut_categoryId = None, ut_metadata = metadataArgument (tc_metadata change)\<rparr>"
      from none have "ut_status ?dto = None \<or> ut_priority ?dto = None" by simp
      from incomplete_update_fails [OF this, of "pe_tickets env" t i None ?x] obtain e where
        "TicketService_update (pe_tickets env) t i ?dto None ?x = (Inl e, ?x)" by blast
      then show ?thesis using Inr ps \<open>ps = (prio, st)\<close> by (simp add: updateTicketPort_def onTickets_def svc_simps)
    qed
  qed
qed

lemma update_action_fails:
  assumes "ac_actionType a = UPDATE_TICKET"
    and "map_of (ac_configuration a) ''status'' = None \<or> map_of (ac_configuration a) ''priority'' = None"
  shows "\<exists>e w'. executeAction (platformPorts env) t a c i w = (Inl e, w') \<and> wd_db (pl_tickets (ww_ext w')) = wd_db (pl_tickets (ww_ext w))"
proof -
  have port: "\<exists>e w'. callPort (\<lambda>now. updateTicketPort env now t tid \<lparr>tc_status = map_of (ac_configuration a) ''status'',
      tc_priority = map_of (ac_configuration a) ''priority'', tc_subject = s, tc_description = d,
      tc_metadata = map_of (ac_configuration a) ''metadata''\<rparr>) w = (Inl e, w') \<and> wd_db (pl_tickets (ww_ext w')) = wd_db (pl_tickets (ww_ext w))" for tid s d
    using updateTicketPort_incomplete [of "\<lparr>tc_status = map_of (ac_configuration a) ''status'',
      tc_priority = map_of (ac_configuration a) ''priority'', tc_subject = s, tc_description = d,
      tc_metadata = map_of (ac_configuration a) ''metadata''\<rparr>" env "ww_now w" t tid "ww_ext w"] assms(2)
    by (auto simp: callPort_def)
  let ?s = "optionalText (map_of (ac_configuration a) ''subject'') c" and ?d = "optionalText (map_of (ac_configuration a) ''description'') c"
  show ?thesis
  proof (cases "truthyJs (orJs (map_of c ''ticketId'') (map_of (ac_configuration a) ''ticketId''))")
    case False
    with assms(1) show ?thesis by (simp add: executeAction_def Let_def missingId_def)
  next
    case True
    show ?thesis
    proof (cases ?s)
      case (Inl e)
      with True assms(1) show ?thesis by (simp add: executeAction_def Let_def svc_simps)
    next
      case (Inr s)
      show ?thesis
      proof (cases ?d)
        case (Inl e)
        with Inr True assms(1) show ?thesis by (simp add: executeAction_def Let_def svc_simps)
      next
        fix d
        assume "?d = Inr d"
        with Inr True assms(1) port [of "orJs (map_of c ''ticketId'') (map_of (ac_configuration a) ''ticketId'')" s d]
        show ?thesis by (auto simp: executeAction_def Let_def svc_simps platformPorts_def)
      qed
    qed
  qed
qed

lemma retry_keeps_failing:
  assumes "\<And>w. \<exists>e w'. executeAction ports t a c i w = (Inl e, w') \<and> P (ww_ext w') = P (ww_ext w)"
  shows "\<exists>e w'. retryLoop ports t a c i tpl n ds w = (Inl e, w') \<and> P (ww_ext w') = P (ww_ext w)"
proof (induction ds arbitrary: n w)
  case Nil
  from assms show ?case by simp
next
  case (Cons d ds)
  from assms obtain e w1 where first: "executeAction ports t a c i w = (Inl e, w1)" "P (ww_ext w1) = P (ww_ext w)" by blast
  define w2 where "w2 = snd (WorkflowAuditService_logAudit t tpl i ''ACTION_RETRY''
         (''Action '' @ actionName (ac_actionType a) @ '' failed (attempt '' @ showNat (n + 1) @
          ''), retrying in '' @ showInt d @ ''ms: '' @ message e) w1)"
  have w2: "ww_ext w2 = ww_ext w1" by (simp add: w2_def WorkflowAuditService_logAudit_def wfWrite_def)
  have "retryLoop ports t a c i tpl n (d # ds) w = retryLoop ports t a c i tpl (n + 1) ds (w2\<lparr>ww_now := ww_now w2 + max d 0\<rparr>)"
    using first(1) by (simp add: w2_def WorkflowAuditService_logAudit_def wfWrite_def wfSleep_def svc_simps)
  with Cons.IH [of "n + 1" "w2\<lparr>ww_now := ww_now w2 + max d 0\<rparr>"] w2 first(2) show ?case by auto
qed

text \<open>An \<^verbatim>\<open>UPDATE_TICKET\<close> action that does not set both a status and a priority can never succeed: the
  ticket service throws on every such update, the engine tries it four times, the action fails and
  the tickets are as before. A workflow that only raises the priority of a ticket always fails.\<close>

theorem update_ticket_action_needs_status_and_priority:
  assumes "ac_actionType a = UPDATE_TICKET"
    and "map_of (ac_configuration a) ''status'' = None \<or> map_of (ac_configuration a) ''priority'' = None"
  shows "\<exists>e w'. executeActionWithRetry (platformPorts env) t a c i tpl w = (Inl e, w') \<and>
    wd_db (pl_tickets (ww_ext w')) = wd_db (pl_tickets (ww_ext w))"
  using retry_keeps_failing [where P = "\<lambda>x. wd_db (pl_tickets x)", OF update_action_fails [OF assms]] assms(1)
  by (simp add: executeActionWithRetry_def RETRYABLE_ACTION_TYPES_def)

theorem update_ticket_action_needs_status_and_priority_witness:
  "\<forall>env w. \<exists>e w'. executeActionWithRetry (platformPorts env) ''acme''
     (sampleAction UPDATE_TICKET [(''priority'', JStr ''HIGH''), (''ticketId'', JStr ''t1'')] 1) [] ''e1'' ''wf1'' w = (Inl e, w') \<and>
     wd_db (pl_tickets (ww_ext w')) = wd_db (pl_tickets (ww_ext w))"
  by (intro allI update_ticket_action_needs_status_and_priority) (simp_all add: sampleAction_def)

end
