(* ===== verification/Settings_Service.thy ===== *)
theory Settings_Service
  imports Keyed_Store Js_Values "HOL-Library.Word"
begin

text \<open>
  The services of the settings module: tenant profile, feature flags with their engine and guard, plan limits and the
  settings queue. The flag engine and the queue processor share one Redis, the throttle of the billing
  synchronisation has its own; a Redis entry is its value with the time it expires. The environment of the process,
  the quotas of the billing service and the administrators the identity service names are given by the world.
  The payload of the settings events is left out but for the key of a flag.
\<close>

section \<open>The stored settings\<close>

text \<open>
  The settings of a tenant (\<^verbatim>\<open>src/modules/settings/domain/entities.ts\<close>): its profile, its feature flags and the
  limits of its plan, and the tables behind them
  (\<^verbatim>\<open>src/modules/settings/repositories/drizzle-settings-repository.ts\<close>). The first row a query returns is the
  first of the table. The columns of the limits are 32-bit integers, the storage a 64-bit one: a value
  outside is refused by the database.
\<close>

subsection \<open>Entities\<close>

record FeatureFlag =
  ff_id :: uid
  ff_tenantId :: uid
  ff_featureKey :: string
  ff_enabled :: bool
  ff_rolloutPercentage :: int
  ff_configuration :: "(string \<times> json) list"
  ff_createdAt :: millis
  ff_updatedAt :: millis

record UsageLimits =
  ul_id :: uid
  ul_tenantId :: uid
  ul_maxAgents :: int
  ul_maxConversations :: int
  ul_maxMessages :: int
  ul_maxWorkflows :: int
  ul_maxConnectors :: int
  ul_maxDocuments :: int
  ul_maxStorage :: int
  ul_maxAiRequests :: int
  ul_createdAt :: millis
  ul_updatedAt :: millis

text \<open>The limits a patch of \<^verbatim>\<open>UsageLimits.update\<close> carries: all of them, as its only caller writes them out.\<close>

record UpdateUsageLimitsDto =
  uld_maxAgents :: "int option"
  uld_maxConversations :: "int option"
  uld_maxMessages :: "int option"
  uld_maxWorkflows :: "int option"
  uld_maxConnectors :: "int option"
  uld_maxDocuments :: "int option"
  uld_maxStorage :: "int option"
  uld_maxAiRequests :: "int option"

definition definedOr :: "'a option \<Rightarrow> 'a \<Rightarrow> 'a" where
  "definedOr v d = (case v of None \<Rightarrow> d | Some x \<Rightarrow> x)"

definition UsageLimits_update :: "millis \<Rightarrow> UpdateUsageLimitsDto \<Rightarrow> UsageLimits \<Rightarrow> UsageLimits" where
  "UsageLimits_update now dto l =
     l\<lparr>ul_maxAgents := definedOr (uld_maxAgents dto) (ul_maxAgents l),
       ul_maxConversations := definedOr (uld_maxConversations dto) (ul_maxConversations l),
       ul_maxMessages := definedOr (uld_maxMessages dto) (ul_maxMessages l),
       ul_maxWorkflows := definedOr (uld_maxWorkflows dto) (ul_maxWorkflows l),
       ul_maxConnectors := definedOr (uld_maxConnectors dto) (ul_maxConnectors l),
       ul_maxDocuments := definedOr (uld_maxDocuments dto) (ul_maxDocuments l),
       ul_maxStorage := definedOr (uld_maxStorage dto) (ul_maxStorage l),
       ul_maxAiRequests := definedOr (uld_maxAiRequests dto) (ul_maxAiRequests l), ul_updatedAt := now\<rparr>"

record TenantSettings =
  ts_id :: uid
  ts_tenantId :: uid
  ts_tenantName :: string
  ts_industry :: "string option"
  ts_timezone :: string
  ts_locale :: string
  ts_country :: "string option"
  ts_currency :: string
  ts_supportEmail :: "string option"
  ts_supportPhone :: "string option"
  ts_websiteUrl :: "string option"
  ts_status :: string
  ts_metadata :: "(string \<times> json) list"
  ts_createdAt :: millis
  ts_updatedAt :: millis
  ts_version :: int

subsection \<open>Tables\<close>

record SettingsDb =
  sb_settings :: "TenantSettings list"
  sb_flags :: "FeatureFlag list"
  sb_limits :: "UsageLimits list"

definition orOne :: "int \<Rightarrow> int" where
  "orOne v = (if v = 0 then 1 else v)"

definition settingsColumns :: "millis \<Rightarrow> TenantSettings \<Rightarrow> TenantSettings" where
  "settingsColumns now s =
     s\<lparr>ts_industry := orUndefined (ts_industry s), ts_country := orUndefined (ts_country s),
       ts_supportEmail := orUndefined (ts_supportEmail s), ts_supportPhone := orUndefined (ts_supportPhone s),
       ts_websiteUrl := orUndefined (ts_websiteUrl s), ts_updatedAt := now, ts_version := orOne (ts_version s)\<rparr>"

definition saveSettings :: "millis \<Rightarrow> TenantSettings \<Rightarrow> SettingsDb \<Rightarrow> SettingsDb" where
  "saveSettings now s db =
     (let same = (\<lambda>r. ts_tenantId r = ts_tenantId s)
      in db\<lparr>sb_settings :=
        (if list_ex same (sb_settings db)
         then map (\<lambda>r. if same r then (settingsColumns now s)\<lparr>ts_createdAt := ts_createdAt r\<rparr> else r) (sb_settings db)
         else sb_settings db @ [settingsColumns now s])\<rparr>)"

definition getSettingsByTenant :: "uid \<Rightarrow> SettingsDb \<Rightarrow> TenantSettings option" where
  "getSettingsByTenant tenantId db =
     map_option (\<lambda>r. r\<lparr>ts_industry := orUndefined (ts_industry r), ts_country := orUndefined (ts_country r),
         ts_supportEmail := orUndefined (ts_supportEmail r), ts_supportPhone := orUndefined (ts_supportPhone r),
         ts_websiteUrl := orUndefined (ts_websiteUrl r), ts_version := orOne (ts_version r)\<rparr>)
       (List.find (\<lambda>r. ts_tenantId r = tenantId) (sb_settings db))"

definition flagKeyed :: "uid \<Rightarrow> string \<Rightarrow> FeatureFlag \<Rightarrow> bool" where
  "flagKeyed tenantId key r = (ff_tenantId r = tenantId \<and> ff_featureKey r = key)"

definition getFeatureFlagByKey :: "uid \<Rightarrow> string \<Rightarrow> SettingsDb \<Rightarrow> FeatureFlag option" where
  "getFeatureFlagByKey tenantId key db = List.find (flagKeyed tenantId key) (sb_flags db)"

definition getFeatureFlags :: "uid \<Rightarrow> SettingsDb \<Rightarrow> FeatureFlag list" where
  "getFeatureFlags tenantId db = filter (\<lambda>r. ff_tenantId r = tenantId) (sb_flags db)"

definition saveFeatureFlagRow :: "millis \<Rightarrow> FeatureFlag \<Rightarrow> SettingsDb \<Rightarrow> SettingsDb" where
  "saveFeatureFlagRow now flag db =
     db\<lparr>sb_flags :=
       (case getFeatureFlagByKey (ff_tenantId flag) (ff_featureKey flag) db of
          Some existing \<Rightarrow> map (\<lambda>r. if ff_id r = ff_id existing then flag\<lparr>ff_createdAt := ff_createdAt r, ff_updatedAt := now\<rparr> else r) (sb_flags db)
        | None \<Rightarrow> sb_flags db @ [flag\<lparr>ff_updatedAt := now\<rparr>])\<rparr>"

definition deleteFeatureFlagRow :: "uid \<Rightarrow> uid \<Rightarrow> SettingsDb \<Rightarrow> SettingsDb" where
  "deleteFeatureFlagRow i tenantId db = db\<lparr>sb_flags := filter (\<lambda>r. \<not> (ff_id r = i \<and> ff_tenantId r = tenantId)) (sb_flags db)\<rparr>"

text \<open>A value fits a signed column of the given width when reading it back gives the value.\<close>

definition fitsInt4 :: "int \<Rightarrow> bool" where
  "fitsInt4 n = (sint (word_of_int n :: 32 word) = n)"

definition fitsInt8 :: "int \<Rightarrow> bool" where
  "fitsInt8 n = (sint (word_of_int n :: 64 word) = n)"

definition limitsFit :: "UsageLimits \<Rightarrow> bool" where
  "limitsFit l = (list_all fitsInt4 [ul_maxAgents l, ul_maxConversations l, ul_maxMessages l, ul_maxWorkflows l, ul_maxConnectors l,
     ul_maxDocuments l, ul_maxAiRequests l] \<and> fitsInt8 (ul_maxStorage l))"

definition saveUsageLimits :: "millis \<Rightarrow> UsageLimits \<Rightarrow> SettingsDb \<Rightarrow> exn + SettingsDb" where
  "saveUsageLimits now l db =
     (let same = (\<lambda>r. ul_tenantId r = ul_tenantId l)
      in if \<not> limitsFit l then Inl (Error ''value out of range for type integer'')
         else Inr (db\<lparr>sb_limits :=
           (if list_ex same (sb_limits db)
            then map (\<lambda>r. if same r then l\<lparr>ul_createdAt := ul_createdAt r, ul_updatedAt := now\<rparr> else r) (sb_limits db)
            else sb_limits db @ [l\<lparr>ul_updatedAt := now\<rparr>])\<rparr>))"

definition getUsageLimitsRow :: "uid \<Rightarrow> SettingsDb \<Rightarrow> UsageLimits option" where
  "getUsageLimitsRow tenantId db = List.find (\<lambda>r. ul_tenantId r = tenantId) (sb_limits db)"

lemma fits_iff: "fitsInt4 n \<longleftrightarrow> - (2 ^ 31) \<le> n \<and> n < 2 ^ 31" "fitsInt8 n \<longleftrightarrow> - (2 ^ 63) \<le> n \<and> n < 2 ^ 63"
  by (simp_all add: fitsInt4_def fitsInt8_def signed_word_eqI sint_sbintrunc' signed_take_bit_int_eq_self_iff)

section \<open>Services\<close>

subsection \<open>The world\<close>

datatype settings_job =
    SettingsSyncJob uid string
  | SettingsAuditJob uid string
  | FeatureFlagRefreshJob uid string
  | UsageLimitJob uid
  | AdminIncidentJob uid string string string string
  | OtherSettingsJob string

datatype cached = CachedText string | CachedSettings TenantSettings | CachedLimits UsageLimits

type_synonym redis = "string \<rightharpoonup> cached \<times> millis"

record SettingsWorld =
  sw_db :: SettingsDb
  sw_now :: millis
  sw_uuid :: "nat \<Rightarrow> uid"
  sw_uuidNext :: nat
  sw_env :: "string \<rightharpoonup> string"
  sw_isRedisConnected :: bool
  sw_redisUp :: bool
  sw_redis :: redis
  sw_throttleUp :: bool
  sw_throttle :: redis
  sw_quotas :: "uid \<Rightarrow> json option"
  sw_admins :: "uid \<Rightarrow> string option list option"
  sw_tenantContext :: "uid option"
  sw_queueUp :: bool
  sw_jobs :: "(settings_job \<times> uid option) list"
  sw_emails :: "(uid \<times> string \<times> string \<times> nat \<times> int \<times> string) list"
  sw_audit :: "(uid \<times> string) list"

type_synonym 'a sesvc = "(SettingsWorld, 'a) svc"

definition seNow :: "millis sesvc" where
  "seNow = asks sw_now"

definition seUUID :: "uid sesvc" where
  "seUUID = (\<lambda>w. (Inr (sw_uuid w (sw_uuidNext w)), w\<lparr>sw_uuidNext := sw_uuidNext w + 1\<rparr>))"

definition seRead :: "(SettingsDb \<Rightarrow> 'a) \<Rightarrow> 'a sesvc" where
  "seRead f = asks (\<lambda>w. f (sw_db w))"

definition seWrite :: "(millis \<Rightarrow> SettingsDb \<Rightarrow> exn + SettingsDb) \<Rightarrow> unit sesvc" where
  "seWrite f = (\<lambda>w. case f (sw_now w) (sw_db w) of Inl e \<Rightarrow> (Inl e, w) | Inr db \<Rightarrow> (Inr (), w\<lparr>sw_db := db\<rparr>))"

definition seAddJob :: "settings_job \<Rightarrow> unit sesvc" where
  "seAddJob j = (\<lambda>w. if sw_queueUp w then (Inr (), w\<lparr>sw_jobs := sw_jobs w @ [(j, sw_tenantContext w)]\<rparr>)
                       else (Inl (Error ''Connection is closed.''), w))"

definition liveEntry :: "millis \<Rightarrow> string \<Rightarrow> redis \<Rightarrow> cached option" where
  "liveEntry now key m = (case m key of None \<Rightarrow> None | Some (v, expires) \<Rightarrow> if now < expires then Some v else None)"

definition seRedisGet :: "string \<Rightarrow> cached option sesvc" where
  "seRedisGet key = (\<lambda>w. (if sw_redisUp w then Inr (liveEntry (sw_now w) key (sw_redis w)) else Inl (Error ''Connection is closed.''), w))"

definition seRedisSet :: "string \<Rightarrow> cached \<Rightarrow> int \<Rightarrow> unit sesvc" where
  "seRedisSet key v seconds =
     (\<lambda>w. if sw_redisUp w then (Inr (), w\<lparr>sw_redis := (sw_redis w)(key \<mapsto> (v, sw_now w + seconds * 1000))\<rparr>)
          else (Inl (Error ''Connection is closed.''), w))"

definition seRedisDel :: "string \<Rightarrow> unit sesvc" where
  "seRedisDel key = (\<lambda>w. if sw_redisUp w then (Inr (), w\<lparr>sw_redis := (sw_redis w)(key := None)\<rparr>) else (Inl (Error ''Connection is closed.''), w))"

definition ignoring :: "unit sesvc \<Rightarrow> unit sesvc" where
  "ignoring m = tryCatch m (\<lambda>_. ret ())"

definition SettingsEventPublisher_publish :: "uid \<Rightarrow> string \<Rightarrow> string \<Rightarrow> unit sesvc" where
  "SettingsEventPublisher_publish tenantId eventName featureKey =
     ignoring (andThen (seAddJob (SettingsSyncJob tenantId eventName)) (\<lambda>_.
       andThen (seAddJob (SettingsAuditJob tenantId eventName)) (\<lambda>_.
       andThen (if eventName = ''feature_flag.updated'' then seAddJob (FeatureFlagRefreshJob tenantId featureKey) else ret ()) (\<lambda>_.
       if eventName = ''usage_limit.updated'' then seAddJob (UsageLimitJob tenantId) else ret ()))))"

subsection \<open>Tenant settings\<close>

record TenantSettingsDto =
  tsd_tenantName :: "string option"
  tsd_industry :: "string option"
  tsd_timezone :: "string option"
  tsd_locale :: "string option"
  tsd_country :: "string option"
  tsd_currency :: "string option"
  tsd_supportEmail :: "string option"
  tsd_supportPhone :: "string option"
  tsd_websiteUrl :: "string option"
  tsd_status :: "string option"
  tsd_metadata :: "(string \<times> json) list option"

definition textOr :: "string option \<Rightarrow> string \<Rightarrow> string" where
  "textOr s d = (if truthy s then the s else d)"

definition createSettings :: "uid \<Rightarrow> string \<Rightarrow> TenantSettingsDto \<Rightarrow> TenantSettings sesvc" where
  "createSettings tenantId tenantName dto =
     andThen seUUID (\<lambda>i.
     andThen seNow (\<lambda>now.
     let settings =
       \<lparr>ts_id = i, ts_tenantId = tenantId, ts_tenantName = tenantName, ts_industry = tsd_industry dto,
        ts_timezone = textOr (tsd_timezone dto) ''UTC'', ts_locale = textOr (tsd_locale dto) ''en'', ts_country = tsd_country dto,
        ts_currency = textOr (tsd_currency dto) ''USD'', ts_supportEmail = tsd_supportEmail dto, ts_supportPhone = tsd_supportPhone dto,
        ts_websiteUrl = tsd_websiteUrl dto, ts_status = ''ACTIVE'', ts_metadata = definedOr (tsd_metadata dto) [],
        ts_createdAt = now, ts_updatedAt = now, ts_version = 1\<rparr>
     in andThen (seWrite (\<lambda>now db. Inr (saveSettings now settings db))) (\<lambda>_.
        andThen (SettingsEventPublisher_publish tenantId ''settings.updated'' []) (\<lambda>_.
        ret settings))))"

definition defaultSettingsDto :: TenantSettingsDto where
  "defaultSettingsDto = \<lparr>tsd_tenantName = Some ''Default Workspace'', tsd_industry = None, tsd_timezone = Some ''UTC'', tsd_locale = Some ''en'',
     tsd_country = None, tsd_currency = Some ''USD'', tsd_supportEmail = None, tsd_supportPhone = None, tsd_websiteUrl = None,
     tsd_status = None, tsd_metadata = None\<rparr>"

definition getSettings :: "uid \<Rightarrow> TenantSettings sesvc" where
  "getSettings tenantId =
     andThen (seRead (getSettingsByTenant tenantId)) (\<lambda>found. case found of
       Some s \<Rightarrow> ret s
     | None \<Rightarrow> createSettings tenantId ''Default Workspace'' defaultSettingsDto)"

definition updateSettings :: "uid \<Rightarrow> TenantSettingsDto \<Rightarrow> TenantSettings sesvc" where
  "updateSettings tenantId dto =
     andThen (getSettings tenantId) (\<lambda>s.
     andThen seNow (\<lambda>now.
     let s' = s\<lparr>ts_tenantName := textOr (tsd_tenantName dto) (ts_tenantName s),
                ts_industry := (case tsd_industry dto of None \<Rightarrow> ts_industry s | v \<Rightarrow> v),
                ts_timezone := textOr (tsd_timezone dto) (ts_timezone s), ts_locale := textOr (tsd_locale dto) (ts_locale s),
                ts_country := (case tsd_country dto of None \<Rightarrow> ts_country s | v \<Rightarrow> v),
                ts_currency := textOr (tsd_currency dto) (ts_currency s),
                ts_supportEmail := (case tsd_supportEmail dto of None \<Rightarrow> ts_supportEmail s | v \<Rightarrow> v),
                ts_supportPhone := (case tsd_supportPhone dto of None \<Rightarrow> ts_supportPhone s | v \<Rightarrow> v),
                ts_websiteUrl := (case tsd_websiteUrl dto of None \<Rightarrow> ts_websiteUrl s | v \<Rightarrow> v),
                ts_status := textOr (tsd_status dto) (ts_status s), ts_metadata := definedOr (tsd_metadata dto) (ts_metadata s),
                ts_updatedAt := now, ts_version := orOne (ts_version s) + 1\<rparr>
     in andThen (seWrite (\<lambda>now db. Inr (saveSettings now s' db))) (\<lambda>_.
        andThen (SettingsEventPublisher_publish tenantId ''settings.updated'' []) (\<lambda>_.
        ret s'))))"

subsection \<open>Feature flags\<close>

text \<open>\<^verbatim>\<open>hash << 5\<close>: the number is cut to a signed 32-bit integer, the shift stays in 32 bits. The rest of the loop
  computes on numbers, not on 32-bit integers.\<close>

definition shl5 :: "int \<Rightarrow> int" where
  "shl5 n = sint (push_bit 5 (word_of_int n :: 32 word))"

definition hashStep :: "int \<Rightarrow> char \<Rightarrow> int" where
  "hashStep h c = of_char c + (shl5 h - h)"

text \<open>\<^verbatim>\<open>Math.abs(hash % 100)\<close>: the remainder has the sign of the hash.\<close>

definition getDeterministicPercentage :: "string \<Rightarrow> int" where
  "getDeterministicPercentage i = \<bar>foldl hashStep 0 i\<bar> mod 100"

definition flagCacheKey :: "uid \<Rightarrow> string \<Rightarrow> string" where
  "flagCacheKey tenantId featureKey = ''settings:flags:'' @ tenantId @ '':'' @ featureKey"

definition flagAnswer :: "uid \<Rightarrow> string option \<Rightarrow> FeatureFlag \<Rightarrow> bool" where
  "flagAnswer tenantId userId flag =
     (ff_enabled flag \<and> (ff_rolloutPercentage flag < 100 \<longrightarrow>
        getDeterministicPercentage (textOr userId tenantId) < ff_rolloutPercentage flag))"

definition boolText :: "bool \<Rightarrow> string" where
  "boolText b = (if b then ''true'' else ''false'')"

definition resolveFlag :: "uid \<Rightarrow> string \<Rightarrow> string option \<Rightarrow> bool sesvc" where
  "resolveFlag tenantId featureKey userId =
     andThen (asks sw_env) (\<lambda>env.
     case env (''FEATURE_FLAG_'' @ toUpperCase featureKey) of
       Some v \<Rightarrow> ret (v = ''true'')
     | None \<Rightarrow>
         andThen (asks sw_isRedisConnected) (\<lambda>connected.
         andThen (if connected then tryCatch (seRedisGet (flagCacheKey tenantId featureKey)) (\<lambda>_. ret None) else ret None) (\<lambda>hit.
         case hit of
           Some v \<Rightarrow> ret (v = CachedText ''true'')
         | None \<Rightarrow>
             andThen (seRead (getFeatureFlagByKey tenantId featureKey)) (\<lambda>found. case found of
               None \<Rightarrow> ret False
             | Some flag \<Rightarrow>
                 let resolved = flagAnswer tenantId userId flag
                 in andThen (if connected then ignoring (seRedisSet (flagCacheKey tenantId featureKey) (CachedText (boolText resolved)) 60) else ret ()) (\<lambda>_.
                    ret resolved)))))"

definition invalidateCache :: "uid \<Rightarrow> string \<Rightarrow> unit sesvc" where
  "invalidateCache tenantId featureKey =
     andThen (asks sw_isRedisConnected) (\<lambda>connected.
     if connected then ignoring (seRedisDel (flagCacheKey tenantId featureKey)) else ret ())"

record SaveFeatureFlagDto =
  sfd_featureKey :: string
  sfd_enabled :: bool
  sfd_rolloutPercentage :: int
  sfd_configuration :: "(string \<times> json) list option"

definition saveFeatureFlag :: "uid \<Rightarrow> SaveFeatureFlagDto \<Rightarrow> FeatureFlag sesvc" where
  "saveFeatureFlag tenantId dto =
     andThen (seRead (getFeatureFlagByKey tenantId (sfd_featureKey dto))) (\<lambda>existing.
     andThen (case existing of Some f \<Rightarrow> ret (ff_id f) | None \<Rightarrow> seUUID) (\<lambda>i.
     andThen seNow (\<lambda>now.
     let flag = \<lparr>ff_id = i, ff_tenantId = tenantId, ff_featureKey = sfd_featureKey dto, ff_enabled = sfd_enabled dto,
                 ff_rolloutPercentage = sfd_rolloutPercentage dto,
                 ff_configuration = definedOr (sfd_configuration dto) (case existing of Some f \<Rightarrow> ff_configuration f | None \<Rightarrow> []),
                 ff_createdAt = (case existing of Some f \<Rightarrow> ff_createdAt f | None \<Rightarrow> now), ff_updatedAt = now\<rparr>
     in andThen (seWrite (\<lambda>now db. Inr (saveFeatureFlagRow now flag db))) (\<lambda>_.
        andThen (invalidateCache tenantId (sfd_featureKey dto)) (\<lambda>_.
        andThen (SettingsEventPublisher_publish tenantId ''feature_flag.updated'' (sfd_featureKey dto)) (\<lambda>_.
        ret flag))))))"

definition deleteFeatureFlag :: "uid \<Rightarrow> uid \<Rightarrow> unit sesvc" where
  "deleteFeatureFlag tenantId i =
     andThen (seRead (getFeatureFlags tenantId)) (\<lambda>flags.
     case List.find (\<lambda>f. ff_id f = i) flags of
       None \<Rightarrow> ret ()
     | Some existing \<Rightarrow>
         andThen (seWrite (\<lambda>_ db. Inr (deleteFeatureFlagRow i tenantId db))) (\<lambda>_.
         andThen (invalidateCache tenantId (ff_featureKey existing)) (\<lambda>_.
         SettingsEventPublisher_publish tenantId ''feature_flag.updated'' (ff_featureKey existing))))"

text \<open>The guard asks for no user in particular.\<close>

definition FeatureFlagGuard_canActivate :: "string option \<Rightarrow> uid \<Rightarrow> bool sesvc" where
  "FeatureFlagGuard_canActivate requiredFeature tenantId =
     (if \<not> truthy requiredFeature then ret True
      else let feature = the requiredFeature
           in andThen (resolveFlag tenantId feature None) (\<lambda>enabled.
              if \<not> enabled
              then throw (HttpException 403 (''This feature (\"'' @ feature @
                     ''\") isn't included in your current plan. Upgrade your plan or contact billing to enable it.''))
              else ret True))"

subsection \<open>Plan limits\<close>

datatype resource = QuotaConversations | QuotaConnectors | QuotaAiRequests | QuotaAgents | QuotaWorkflows | QuotaDocuments

fun resourceName :: "resource \<Rightarrow> string" where
  "resourceName QuotaConversations = ''conversations''"
| "resourceName QuotaConnectors = ''connectors''"
| "resourceName QuotaAiRequests = ''aiRequests''"
| "resourceName QuotaAgents = ''agents''"
| "resourceName QuotaWorkflows = ''workflows''"
| "resourceName QuotaDocuments = ''documents''"

fun limitOf :: "resource \<Rightarrow> UsageLimits \<Rightarrow> int" where
  "limitOf QuotaConversations l = ul_maxConversations l"
| "limitOf QuotaConnectors l = ul_maxConnectors l"
| "limitOf QuotaAiRequests l = ul_maxAiRequests l"
| "limitOf QuotaAgents l = ul_maxAgents l"
| "limitOf QuotaWorkflows l = ul_maxWorkflows l"
| "limitOf QuotaDocuments l = ul_maxDocuments l"

definition getOrCreateRawLimits :: "uid \<Rightarrow> UsageLimits sesvc" where
  "getOrCreateRawLimits tenantId =
     andThen (seRead (getUsageLimitsRow tenantId)) (\<lambda>found. case found of
       Some l \<Rightarrow> ret l
     | None \<Rightarrow>
         andThen seUUID (\<lambda>i.
         andThen seNow (\<lambda>now.
         let limits = \<lparr>ul_id = i, ul_tenantId = tenantId, ul_maxAgents = 10, ul_maxConversations = 1000, ul_maxMessages = 10000,
                       ul_maxWorkflows = 5, ul_maxConnectors = 3, ul_maxDocuments = 50, ul_maxStorage = 1073741824,
                       ul_maxAiRequests = 5000, ul_createdAt = now, ul_updatedAt = now\<rparr>
         in andThen (seWrite (\<lambda>now. saveUsageLimits now limits)) (\<lambda>_. ret limits))))"

definition updateUsageLimits :: "uid \<Rightarrow> UpdateUsageLimitsDto \<Rightarrow> UsageLimits sesvc" where
  "updateUsageLimits tenantId dto =
     andThen (getOrCreateRawLimits tenantId) (\<lambda>limits.
     andThen seNow (\<lambda>now.
     let limits' = UsageLimits_update now dto limits
     in andThen (seWrite (\<lambda>now. saveUsageLimits now limits')) (\<lambda>_.
        andThen (SettingsEventPublisher_publish tenantId ''usage_limit.updated'' []) (\<lambda>_.
        ret limits'))))"

text \<open>A key counts when its value is a number that is not negative.\<close>

definition quota :: "(string \<times> json) list \<Rightarrow> string \<Rightarrow> int option" where
  "quota fs k = (case map_of fs k of Some (JNum n) \<Rightarrow> if 0 \<le> n then Some n else None | _ \<Rightarrow> None)"

definition sanitizeQuotas :: "json option \<Rightarrow> UpdateUsageLimitsDto option" where
  "sanitizeQuotas quotas =
     (case quotas of
        Some (JObj fs) \<Rightarrow>
          let out = \<lparr>uld_maxAgents = quota fs ''maxAgents'', uld_maxConversations = quota fs ''maxConversations'',
                     uld_maxMessages = quota fs ''maxMessages'', uld_maxWorkflows = quota fs ''maxWorkflows'',
                     uld_maxConnectors = quota fs ''maxConnectors'', uld_maxDocuments = quota fs ''maxDocuments'',
                     uld_maxStorage = quota fs ''maxStorage'', uld_maxAiRequests = quota fs ''maxAiRequests''\<rparr>
          in if list_ex (\<lambda>k. quota fs k \<noteq> None) [''maxAgents'', ''maxConversations'', ''maxMessages'', ''maxWorkflows'', ''maxConnectors'',
                 ''maxDocuments'', ''maxStorage'', ''maxAiRequests'']
             then Some out else None
      | _ \<Rightarrow> None)"

definition maybeSyncFromBilling :: "uid \<Rightarrow> unit sesvc" where
  "maybeSyncFromBilling tenantId =
     andThen (asks (\<lambda>w. sw_throttleUp w \<and> liveEntry (sw_now w) (''billing-sync:'' @ tenantId) (sw_throttle w) \<noteq> None)) (\<lambda>alreadySynced.
     if alreadySynced then ret ()
     else andThen (asks (\<lambda>w. sw_quotas w tenantId)) (\<lambda>quotas.
          andThen (case sanitizeQuotas quotas of
              None \<Rightarrow> ret ()
            | Some dto \<Rightarrow> ignoring (andThen (updateUsageLimits tenantId dto) (\<lambda>_. ret ()))) (\<lambda>_.
          modify (\<lambda>w. if sw_throttleUp w
            then w\<lparr>sw_throttle := (sw_throttle w)(''billing-sync:'' @ tenantId \<mapsto> (CachedText ''1'', sw_now w + 3600 * 1000))\<rparr> else w))))"

definition getUsageLimits :: "uid \<Rightarrow> UsageLimits sesvc" where
  "getUsageLimits tenantId =
     andThen (getOrCreateRawLimits tenantId) (\<lambda>limits.
     andThen (maybeSyncFromBilling tenantId) (\<lambda>_.
     andThen (seRead (getUsageLimitsRow tenantId)) (\<lambda>again.
     ret (definedOr again limits))))"

definition overage :: "uid \<Rightarrow> resource \<Rightarrow> nat \<Rightarrow> int \<Rightarrow> settings_job" where
  "overage tenantId r usage limit =
     AdminIncidentJob tenantId (''quota.'' @ resourceName r) (''Tenant exceeded '' @ resourceName r @ '' plan limit'') ''MEDIUM''
       (''Tenant has reached '' @ showNat usage @ ''/'' @ showInt limit @ '' '' @ resourceName r @
        ''. The triggering action was blocked. Overage billing or a plan upgrade may be needed to raise this limit.'')"

definition mailAdmins :: "uid \<Rightarrow> resource \<Rightarrow> nat \<Rightarrow> int \<Rightarrow> unit sesvc" where
  "mailAdmins tenantId r usage limit =
     andThen (asks (\<lambda>w. sw_admins w tenantId)) (\<lambda>admins.
     andThen (getSettings tenantId) (\<lambda>settings.
     andThen (liftR (deref admins)) (\<lambda>admins.
     modify (\<lambda>w. w\<lparr>sw_emails := sw_emails w @
       map (\<lambda>a. (tenantId, the a, resourceName r, usage, limit, ts_tenantName settings)) (filter truthy admins)\<rparr>))))"

definition limitReached :: "resource \<Rightarrow> int \<Rightarrow> exn" where
  "limitReached r limit = HttpException 403 (''You've reached your plan's '' @ resourceName r @ '' limit ('' @ showInt limit @
     ''). Upgrade your plan or contact billing about overage charges to continue.'')"

definition enforceLimit :: "uid \<Rightarrow> resource \<Rightarrow> nat \<Rightarrow> unit sesvc" where
  "enforceLimit tenantId r usage =
     andThen (getUsageLimits tenantId) (\<lambda>limits.
     let limit = limitOf r limits
     in if int usage < limit then ret ()
        else andThen (ignoring (seAddJob (overage tenantId r usage limit))) (\<lambda>_.
             andThen (ignoring (mailAdmins tenantId r usage limit)) (\<lambda>_.
             throw (limitReached r limit))))"

subsection \<open>The settings queue\<close>

definition handleSettingsJob :: "settings_job \<times> uid option \<Rightarrow> bool sesvc" where
  "handleSettingsJob q =
     andThen (asks sw_isRedisConnected) (\<lambda>connected.
     case fst q of
       SettingsSyncJob t _ \<Rightarrow>
         let tenantId = textOr (snd q) t
         in andThen (seRead (getSettingsByTenant tenantId)) (\<lambda>found.
            andThen (case found of Some s \<Rightarrow> if connected then seRedisSet (''settings:snapshot:'' @ tenantId) (CachedSettings s) 3600 else ret ()
                     | None \<Rightarrow> ret ()) (\<lambda>_. ret True))
     | FeatureFlagRefreshJob t flagKey \<Rightarrow>
         andThen (if connected then seRedisDel (flagCacheKey (textOr (snd q) t) flagKey) else ret ()) (\<lambda>_. ret True)
     | UsageLimitJob t \<Rightarrow>
         let tenantId = textOr (snd q) t
         in andThen (seRead (getUsageLimitsRow tenantId)) (\<lambda>found.
            andThen (case found of Some l \<Rightarrow> if connected then seRedisSet (''settings:usage:'' @ tenantId) (CachedLimits l) 3600 else ret ()
                     | None \<Rightarrow> ret ()) (\<lambda>_. ret True))
     | SettingsAuditJob t eventName \<Rightarrow>
         andThen (modify (\<lambda>w. w\<lparr>sw_audit := sw_audit w @ [(textOr (snd q) t, textOr (Some eventName) ''settings.updated'')]\<rparr>)) (\<lambda>_. ret True)
     | OtherSettingsJob n \<Rightarrow> throw (Error (''Unknown job name: '' @ n))
     | AdminIncidentJob _ _ _ _ _ \<Rightarrow> throw (Error (''Unknown job name: admin-incident-job'')))"

end
