(* ===== verification/Team_Model.thy ===== *)
theory Team_Model
  imports Keyed_Store Js_Values Complex_Main
begin

text \<open>
  Teams, agents and their availability (\<^verbatim>\<open>src/modules/teams/domain\<close>) and the tables behind them
  (\<^verbatim>\<open>src/modules/teams/repositories\<close>). A skill score is a rational number. A soft-deleted row stays
  in its table and is invisible to the readers, but the unique indexes (team names, the users and
  codes of agents) count it. The free-form metadata of a team is left out,
  and so are the version columns of profiles and availability, which nothing changes or reads.
\<close>

subsection \<open>Entities\<close>

datatype AssignmentStrategyEnum = ROUND_ROBIN | LEAST_LOADED | SKILL_BASED | PRIORITY_BASED | MANUAL

fun strategyName :: "AssignmentStrategyEnum \<Rightarrow> string" where
  "strategyName ROUND_ROBIN = ''ROUND_ROBIN''"
| "strategyName LEAST_LOADED = ''LEAST_LOADED''"
| "strategyName SKILL_BASED = ''SKILL_BASED''"
| "strategyName PRIORITY_BASED = ''PRIORITY_BASED''"
| "strategyName MANUAL = ''MANUAL''"

record AgentCapacity =
  cp_capacity :: int
  cp_maxConcurrentConversations :: int
  cp_maxOpenTickets :: int

definition AgentCapacity_create :: "int \<Rightarrow> int \<Rightarrow> int \<Rightarrow> exn + AgentCapacity" where
  "AgentCapacity_create c conv tick =
     (if c < 0 \<or> conv < 0 \<or> tick < 0 then Inl (Error ''Agent capacity metrics cannot be negative'')
      else Inr \<lparr>cp_capacity = c, cp_maxConcurrentConversations = conv, cp_maxOpenTickets = tick\<rparr>)"

record AgentProfile =
  ap_id :: uid
  ap_tenantId :: uid
  ap_userId :: uid
  ap_employeeCode :: "string option"
  ap_displayName :: string
  ap_avatarUrl :: "string option"
  ap_status :: string
  ap_capacity :: AgentCapacity
  ap_skillScore :: rat
  ap_timezone :: string
  ap_languagePreferences :: "string list"
  ap_metadata :: jobject
  ap_deletedAt :: "millis option"
  ap_createdAt :: millis
  ap_updatedAt :: millis

record AgentAvailability =
  av_id :: uid
  av_tenantId :: uid
  av_agentProfileId :: uid
  av_status :: string
  av_lastSeenAt :: millis
  av_workingHours :: "(string \<times> json) list option"
  av_currentLoad :: int
  av_activeConversations :: int
  av_activeTickets :: int
  av_createdAt :: millis
  av_updatedAt :: millis

text \<open>\<^verbatim>\<open>update({ status, workingHours, lastSeenAt })\<close>: the three keys are own properties of the patch.\<close>

definition Availability_update :: "millis \<Rightarrow> string \<Rightarrow> (string \<times> json) list option \<Rightarrow> AgentAvailability \<Rightarrow> AgentAvailability" where
  "Availability_update now status workingHours a =
     a\<lparr>av_status := status, av_workingHours := workingHours, av_lastSeenAt := now, av_updatedAt := now\<rparr>"

record TeamMember =
  mb_id :: uid
  mb_tenantId :: uid
  mb_teamId :: uid
  mb_agentProfileId :: uid
  mb_role :: string
  mb_joinedAt :: millis
  mb_isPrimary :: bool

record AssignmentRule =
  ru_id :: uid
  ru_tenantId :: uid
  ru_teamId :: uid
  ru_ruleType :: AssignmentStrategyEnum
  ru_priority :: int
  ru_configuration :: "(string \<times> json) list"
  ru_isActive :: bool

datatype team_event =
    TeamCreatedEvent uid uid "string option"
  | TeamUpdatedEvent uid uid "string option"
  | TeamArchivedEvent uid uid
  | AgentCreatedEvent uid uid uid
  | AgentUpdatedEvent uid uid uid
  | AgentAssignedEvent uid uid uid
  | AgentTransferredEvent uid uid uid uid
  | AvailabilityUpdatedEvent uid uid string
  | AssignmentCompletedEvent uid uid uid uid string

subsection \<open>The team aggregate\<close>

text \<open>Name, priority and activity become \<^verbatim>\<open>undefined\<close> when a patch carries them so.\<close>

record Team =
  te_id :: uid
  te_tenantId :: uid
  te_name :: "string option"
  te_description :: "string option"
  te_department :: "string option"
  te_priority :: "int option"
  te_isActive :: "bool option"
  te_deletedAt :: "millis option"
  te_createdAt :: millis
  te_updatedAt :: millis
  te_version :: int
  te_members :: "TeamMember list"
  te_rules :: "AssignmentRule list"
  te_domainEvents :: "team_event list"

definition addTeamEvent :: "team_event \<Rightarrow> Team \<Rightarrow> Team" where
  "addTeamEvent ev t = t\<lparr>te_domainEvents := te_domainEvents t @ [ev]\<rparr>"

record TeamPatch =
  tmp_name :: "string field"
  tmp_description :: "string field"
  tmp_department :: "string field"
  tmp_priority :: "int field"
  tmp_isActive :: "bool field"

definition Team_update :: "millis \<Rightarrow> TeamPatch \<Rightarrow> Team \<Rightarrow> Team" where
  "Team_update now p t =
     (let t' = t\<lparr>te_name := spread (te_name t) (tmp_name p), te_description := spread (te_description t) (tmp_description p),
                 te_department := spread (te_department t) (tmp_department p), te_priority := spread (te_priority t) (tmp_priority p),
                 te_isActive := spread (te_isActive t) (tmp_isActive p), te_updatedAt := now, te_version := te_version t + 1\<rparr>
      in addTeamEvent (TeamUpdatedEvent (te_tenantId t') (te_id t') (te_name t')) t')"

definition Team_archive :: "millis \<Rightarrow> Team \<Rightarrow> Team" where
  "Team_archive now t = addTeamEvent (TeamArchivedEvent (te_tenantId t) (te_id t))
     (t\<lparr>te_isActive := Some False, te_deletedAt := Some now, te_updatedAt := now, te_version := te_version t + 1\<rparr>)"

definition isMember :: "uid \<Rightarrow> Team \<Rightarrow> bool" where
  "isMember agent t = list_ex (\<lambda>m. mb_agentProfileId m = agent) (te_members t)"

definition Team_addMember :: "millis \<Rightarrow> TeamMember \<Rightarrow> Team \<Rightarrow> Team" where
  "Team_addMember now m t =
     (if isMember (mb_agentProfileId m) t then t
      else addTeamEvent (AgentAssignedEvent (te_tenantId t) (mb_agentProfileId m) (te_id t))
             (t\<lparr>te_members := te_members t @ [m], te_updatedAt := now\<rparr>))"

text \<open>Change or drop the first element with the property: \<^verbatim>\<open>find\<close>, and \<^verbatim>\<open>findIndex\<close> with \<^verbatim>\<open>splice\<close>.\<close>

fun updateFirst :: "('a \<Rightarrow> bool) \<Rightarrow> ('a \<Rightarrow> 'a) \<Rightarrow> 'a list \<Rightarrow> 'a list" where
  "updateFirst P f [] = []"
| "updateFirst P f (x # xs) = (if P x then f x # xs else x # updateFirst P f xs)"

fun dropFirst :: "('a \<Rightarrow> bool) \<Rightarrow> 'a list \<Rightarrow> 'a list" where
  "dropFirst P [] = []"
| "dropFirst P (x # xs) = (if P x then xs else x # dropFirst P xs)"

definition Team_updateMemberRole :: "millis \<Rightarrow> uid \<Rightarrow> string \<Rightarrow> Team \<Rightarrow> bool \<times> Team" where
  "Team_updateMemberRole now agent role t =
     (if isMember agent t
      then (True, t\<lparr>te_members := updateFirst (\<lambda>m. mb_agentProfileId m = agent) (\<lambda>m. m\<lparr>mb_role := role\<rparr>) (te_members t), te_updatedAt := now\<rparr>)
      else (False, t))"

definition Team_removeMember :: "millis \<Rightarrow> uid \<Rightarrow> Team \<Rightarrow> Team" where
  "Team_removeMember now agent t =
     (if isMember agent t then t\<lparr>te_members := dropFirst (\<lambda>m. mb_agentProfileId m = agent) (te_members t), te_updatedAt := now\<rparr> else t)"

definition Team_moveMember :: "millis \<Rightarrow> uid \<Rightarrow> uid \<Rightarrow> uid \<Rightarrow> Team \<Rightarrow> Team" where
  "Team_moveMember now agent fromTeamId toTeamId t =
     (if isMember agent t
      then addTeamEvent (AgentTransferredEvent (te_tenantId t) agent fromTeamId toTeamId)
             (t\<lparr>te_members := dropFirst (\<lambda>m. mb_agentProfileId m = agent) (te_members t), te_updatedAt := now\<rparr>)
      else t)"

definition Team_addRule :: "millis \<Rightarrow> AssignmentRule \<Rightarrow> Team \<Rightarrow> Team" where
  "Team_addRule now r t =
     (if list_ex (\<lambda>x. ru_ruleType x = ru_ruleType r) (te_rules t) then t
      else t\<lparr>te_rules := te_rules t @ [r], te_updatedAt := now\<rparr>)"

subsection \<open>Tables\<close>

record TeamRow =
  trw_id :: uid
  trw_tenantId :: uid
  trw_name :: string
  trw_description :: "string option"
  trw_department :: "string option"
  trw_priority :: int
  trw_isActive :: bool
  trw_deletedAt :: "millis option"
  trw_createdAt :: millis
  trw_updatedAt :: millis
  trw_version :: int

record TeamDb =
  tb_teams :: "TeamRow list"
  tb_members :: "TeamMember list"
  tb_rules :: "AssignmentRule list"
  tb_profiles :: "AgentProfile list"
  tb_availability :: "AgentAvailability list"

definition findTeamMembers :: "uid \<Rightarrow> uid \<Rightarrow> TeamDb \<Rightarrow> TeamMember list" where
  "findTeamMembers teamId tenantId db = filter (\<lambda>m. mb_teamId m = teamId \<and> mb_tenantId m = tenantId) (tb_members db)"

definition findRules :: "uid \<Rightarrow> uid \<Rightarrow> TeamDb \<Rightarrow> AssignmentRule list" where
  "findRules teamId tenantId db = filter (\<lambda>r. ru_teamId r = teamId \<and> ru_tenantId r = tenantId) (tb_rules db)"

definition deleteRule :: "uid \<Rightarrow> uid \<Rightarrow> TeamDb \<Rightarrow> TeamDb" where
  "deleteRule ruleId tenantId db = db\<lparr>tb_rules := filter (\<lambda>r. \<not> (ru_id r = ruleId \<and> ru_tenantId r = tenantId)) (tb_rules db)\<rparr>"

text \<open>\<^verbatim>\<open>TeamMapper.toDomain\<close>.\<close>

definition teamOfRow :: "uid \<Rightarrow> TeamDb \<Rightarrow> TeamRow \<Rightarrow> Team" where
  "teamOfRow tenantId db r =
     \<lparr>te_id = trw_id r, te_tenantId = trw_tenantId r, te_name = Some (trw_name r), te_description = orUndefined (trw_description r),
      te_department = orUndefined (trw_department r), te_priority = Some (trw_priority r), te_isActive = Some (trw_isActive r),
      te_deletedAt = trw_deletedAt r, te_createdAt = trw_createdAt r, te_updatedAt = trw_updatedAt r,
      te_version = (if trw_version r = 0 then 1 else trw_version r),
      te_members = findTeamMembers (trw_id r) tenantId db, te_rules = findRules (trw_id r) tenantId db, te_domainEvents = []\<rparr>"

definition findTeamById :: "uid \<Rightarrow> uid \<Rightarrow> TeamDb \<Rightarrow> Team option" where
  "findTeamById i tenantId db =
     map_option (teamOfRow tenantId db) (List.find (\<lambda>r. trw_id r = i \<and> trw_tenantId r = tenantId \<and> trw_deletedAt r = None) (tb_teams db))"

definition findTeamByName :: "string \<Rightarrow> uid \<Rightarrow> TeamDb \<Rightarrow> Team option" where
  "findTeamByName n tenantId db =
     map_option (teamOfRow tenantId db) (List.find (\<lambda>r. trw_name r = n \<and> trw_tenantId r = tenantId \<and> trw_deletedAt r = None) (tb_teams db))"

definition teamColumns :: "millis \<Rightarrow> Team \<Rightarrow> TeamRow \<Rightarrow> TeamRow" where
  "teamColumns now t r =
     r\<lparr>trw_tenantId := te_tenantId t, trw_name := (case te_name t of None \<Rightarrow> trw_name r | Some n \<Rightarrow> n),
       trw_description := orUndefined (te_description t), trw_department := orUndefined (te_department t),
       trw_priority := (case te_priority t of None \<Rightarrow> trw_priority r | Some p \<Rightarrow> p),
       trw_isActive := (case te_isActive t of None \<Rightarrow> trw_isActive r | Some b \<Rightarrow> b),
       trw_deletedAt := te_deletedAt t, trw_updatedAt := now, trw_version := te_version t\<rparr>"

definition sameTeam :: "uid \<Rightarrow> uid \<Rightarrow> TeamRow \<Rightarrow> bool" where
  "sameTeam i tenantId r = (trw_id r = i \<and> trw_tenantId r = tenantId)"

definition newTeamRow :: "Team \<Rightarrow> string \<Rightarrow> TeamRow" where
  "newTeamRow t n = \<lparr>trw_id = te_id t, trw_tenantId = te_tenantId t, trw_name = n, trw_description = None, trw_department = None,
     trw_priority = 1, trw_isActive = True, trw_deletedAt = None, trw_createdAt = te_createdAt t, trw_updatedAt = te_createdAt t,
     trw_version = 1\<rparr>"

definition uniqueTeams :: "TeamRow list \<Rightarrow> exn + TeamRow list" where
  "uniqueTeams rows =
     (if distinct (map (\<lambda>r. (trw_tenantId r, trw_name r)) rows) then Inr rows
      else Inl (Error ''duplicate key value violates unique constraint uq_teams_tenant_name''))"

text \<open>The transaction of \<^verbatim>\<open>save\<close>: the row, then the members and the rules anew.\<close>

definition saveTeam :: "millis \<Rightarrow> Team \<Rightarrow> uid \<Rightarrow> TeamDb \<Rightarrow> exn + TeamDb" where
  "saveTeam now t tenantId db =
     rbind (if list_ex (sameTeam (te_id t) tenantId) (tb_teams db)
            then uniqueTeams (map (\<lambda>r. if sameTeam (te_id t) tenantId r then teamColumns now t r else r) (tb_teams db))
            else case te_name t of
                   None \<Rightarrow> Inl (Error ''null value in column name violates not-null constraint'')
                 | Some n \<Rightarrow> uniqueTeams (tb_teams db @ [(teamColumns now t (newTeamRow t n))\<lparr>trw_updatedAt := te_createdAt t\<rparr>])) (\<lambda>rows.
     Inr (db\<lparr>tb_teams := rows,
       tb_members := filter (\<lambda>m. \<not> (mb_teamId m = te_id t \<and> mb_tenantId m = tenantId)) (tb_members db) @ te_members t,
       tb_rules := filter (\<lambda>r. \<not> (ru_teamId r = te_id t \<and> ru_tenantId r = tenantId)) (tb_rules db) @ te_rules t\<rparr>))"

definition liveProfile :: "uid \<Rightarrow> AgentProfile \<Rightarrow> bool" where
  "liveProfile tenantId p = (ap_tenantId p = tenantId \<and> ap_deletedAt p = None)"

definition findProfileById :: "uid \<Rightarrow> uid \<Rightarrow> TeamDb \<Rightarrow> AgentProfile option" where
  "findProfileById i tenantId db = List.find (\<lambda>p. ap_id p = i \<and> liveProfile tenantId p) (tb_profiles db)"

definition findProfileByUserId :: "uid \<Rightarrow> uid \<Rightarrow> TeamDb \<Rightarrow> AgentProfile option" where
  "findProfileByUserId u tenantId db = List.find (\<lambda>p. ap_userId p = u \<and> liveProfile tenantId p) (tb_profiles db)"

definition findProfileByEmployeeCode :: "string \<Rightarrow> uid \<Rightarrow> TeamDb \<Rightarrow> AgentProfile option" where
  "findProfileByEmployeeCode c tenantId db = List.find (\<lambda>p. ap_employeeCode p = Some c \<and> liveProfile tenantId p) (tb_profiles db)"

definition countProfiles :: "uid \<Rightarrow> TeamDb \<Rightarrow> nat" where
  "countProfiles tenantId db = length (filter (liveProfile tenantId) (tb_profiles db))"

definition sameProfile :: "uid \<Rightarrow> uid \<Rightarrow> AgentProfile \<Rightarrow> bool" where
  "sameProfile i tenantId p = (ap_id p = i \<and> ap_tenantId p = tenantId)"

definition profileColumns :: "millis \<Rightarrow> AgentProfile \<Rightarrow> AgentProfile" where
  "profileColumns now p = p\<lparr>ap_employeeCode := orUndefined (ap_employeeCode p), ap_avatarUrl := orUndefined (ap_avatarUrl p), ap_updatedAt := now\<rparr>"

definition uniqueProfiles :: "AgentProfile list \<Rightarrow> exn + AgentProfile list" where
  "uniqueProfiles rows =
     (if \<not> distinct (map (\<lambda>r. (ap_tenantId r, ap_userId r)) rows)
      then Inl (Error ''duplicate key value violates unique constraint uq_agent_profiles_tenant_user'')
      else if \<not> distinct (map (\<lambda>r. (ap_tenantId r, ap_employeeCode r)) (filter (\<lambda>r. ap_employeeCode r \<noteq> None) rows))
      then Inl (Error ''duplicate key value violates unique constraint uq_agent_profiles_tenant_emp_code'')
      else Inr rows)"

definition saveProfile :: "millis \<Rightarrow> AgentProfile \<Rightarrow> uid \<Rightarrow> TeamDb \<Rightarrow> exn + TeamDb" where
  "saveProfile now p tenantId db =
     rbind (uniqueProfiles
       (if list_ex (sameProfile (ap_id p) tenantId) (tb_profiles db)
        then map (\<lambda>r. if sameProfile (ap_id p) tenantId r then (profileColumns now p)\<lparr>ap_createdAt := ap_createdAt r\<rparr> else r) (tb_profiles db)
        else tb_profiles db @ [(profileColumns now p)\<lparr>ap_updatedAt := ap_createdAt p\<rparr>])) (\<lambda>rows.
     Inr (db\<lparr>tb_profiles := rows\<rparr>))"

definition deleteProfile :: "millis \<Rightarrow> uid \<Rightarrow> uid \<Rightarrow> TeamDb \<Rightarrow> bool \<times> TeamDb" where
  "deleteProfile now i tenantId db =
     (if list_ex (sameProfile i tenantId) (tb_profiles db)
      then (True, db\<lparr>tb_profiles := map (\<lambda>r. if sameProfile i tenantId r then r\<lparr>ap_deletedAt := Some now, ap_status := ''INACTIVE''\<rparr> else r) (tb_profiles db)\<rparr>)
      else (False, db))"

definition findAvailability :: "uid \<Rightarrow> uid \<Rightarrow> TeamDb \<Rightarrow> AgentAvailability option" where
  "findAvailability agentProfileId tenantId db =
     map_option (\<lambda>a. a\<lparr>av_workingHours := Some (case av_workingHours a of None \<Rightarrow> [] | Some h \<Rightarrow> h)\<rparr>)
       (List.find (\<lambda>a. av_agentProfileId a = agentProfileId \<and> av_tenantId a = tenantId) (tb_availability db))"

text \<open>Working hours that are \<^verbatim>\<open>undefined\<close> read as the empty object and are written so.\<close>

definition availabilityColumns :: "millis \<Rightarrow> AgentAvailability \<Rightarrow> AgentAvailability" where
  "availabilityColumns now a = a\<lparr>av_workingHours := Some (case av_workingHours a of None \<Rightarrow> [] | Some h \<Rightarrow> h), av_updatedAt := now\<rparr>"

definition saveAvailability :: "millis \<Rightarrow> AgentAvailability \<Rightarrow> uid \<Rightarrow> TeamDb \<Rightarrow> TeamDb" where
  "saveAvailability now a tenantId db =
     (let same = (\<lambda>r. av_id r = av_id a \<and> av_tenantId r = tenantId)
      in db\<lparr>tb_availability :=
        (if list_ex same (tb_availability db)
         then map (\<lambda>r. if same r then (availabilityColumns now a)\<lparr>av_createdAt := av_createdAt r\<rparr> else r) (tb_availability db)
         else tb_availability db @ [(availabilityColumns now a)\<lparr>av_updatedAt := av_createdAt a\<rparr>])\<rparr>)"

definition repoUpdateLoad :: "millis \<Rightarrow> uid \<Rightarrow> int \<Rightarrow> uid \<Rightarrow> TeamDb \<Rightarrow> TeamDb" where
  "repoUpdateLoad now agentProfileId change tenantId db =
     db\<lparr>tb_availability := map (\<lambda>r. if av_agentProfileId r = agentProfileId \<and> av_tenantId r = tenantId
        then r\<lparr>av_currentLoad := av_currentLoad r + change, av_updatedAt := now\<rparr> else r) (tb_availability db)\<rparr>"

definition repoUpdateCounters :: "millis \<Rightarrow> uid \<Rightarrow> int \<Rightarrow> int \<Rightarrow> uid \<Rightarrow> TeamDb \<Rightarrow> TeamDb" where
  "repoUpdateCounters now agentProfileId conversationsChange ticketsChange tenantId db =
     db\<lparr>tb_availability := map (\<lambda>r. if av_agentProfileId r = agentProfileId \<and> av_tenantId r = tenantId
        then r\<lparr>av_activeConversations := av_activeConversations r + conversationsChange,
               av_activeTickets := av_activeTickets r + ticketsChange,
               av_currentLoad := av_currentLoad r + (conversationsChange + ticketsChange), av_updatedAt := now\<rparr> else r) (tb_availability db)\<rparr>"

definition findOfflineAgents :: "uid option \<Rightarrow> TeamDb \<Rightarrow> AgentAvailability list" where
  "findOfflineAgents tenantId db =
     filter (\<lambda>a. av_status a = ''OFFLINE'' \<and> (truthy tenantId \<longrightarrow> Some (av_tenantId a) = tenantId)) (tb_availability db)"

end
