(* ===== verification/Team_Service.thy ===== *)
theory Team_Service
  imports Team_Model
begin

text \<open>
  The services of the team module (\<^verbatim>\<open>src/modules/teams/services\<close>) and its queue processor
  (\<^verbatim>\<open>src/modules/teams/jobs/team-queue.processor.ts\<close>). The answer of the plan limit on agents is an
  argument of \<open>AgentProfileService_create\<close>.
\<close>

subsection \<open>The world\<close>

datatype entity = TicketEntity | ConversationEntity

datatype team_job =
    LoadBalancerJob uid
  | AssignmentJob uid uid entity "rat option"
  | AvailabilitySyncJob uid
  | CapacityCalculationJob uid "int option"
  | OtherTeamJob string

record TeamWorld =
  tw_db :: TeamDb
  tw_now :: millis
  tw_uuid :: "nat \<Rightarrow> uid"
  tw_uuidNext :: nat
  tw_tenantContext :: "uid option"
  tw_queueUp :: bool
  tw_jobs :: "(team_job \<times> uid option) list"
  tw_audit :: "(uid \<times> uid option \<times> string \<times> string) list"

type_synonym 'a tmsvc = "(TeamWorld, 'a) svc"

definition tmNow :: "millis tmsvc" where
  "tmNow = asks tw_now"

definition tmUUID :: "uid tmsvc" where
  "tmUUID = (\<lambda>w. (Inr (tw_uuid w (tw_uuidNext w)), w\<lparr>tw_uuidNext := tw_uuidNext w + 1\<rparr>))"

definition tmRead :: "(TeamDb \<Rightarrow> 'a) \<Rightarrow> 'a tmsvc" where
  "tmRead f = asks (\<lambda>w. f (tw_db w))"

definition tmWrite :: "(millis \<Rightarrow> TeamDb \<Rightarrow> exn + TeamDb) \<Rightarrow> unit tmsvc" where
  "tmWrite f = (\<lambda>w. case f (tw_now w) (tw_db w) of Inl e \<Rightarrow> (Inl e, w) | Inr db \<Rightarrow> (Inr (), w\<lparr>tw_db := db\<rparr>))"

definition tmAddJob :: "team_job \<Rightarrow> unit tmsvc" where
  "tmAddJob j = (\<lambda>w. if tw_queueUp w then (Inr (), w\<lparr>tw_jobs := tw_jobs w @ [(j, tw_tenantContext w)]\<rparr>)
                       else (Inl (Error ''Connection is closed.''), w))"

definition tmLog :: "uid \<Rightarrow> uid option \<Rightarrow> string \<Rightarrow> string \<Rightarrow> unit tmsvc" where
  "tmLog tenantId userId action details = modify (\<lambda>w. w\<lparr>tw_audit := tw_audit w @ [(tenantId, userId, action, details)]\<rparr>)"

definition TeamEventPublisher_publish :: "team_event \<Rightarrow> unit tmsvc" where
  "TeamEventPublisher_publish ev =
     tryCatch (case ev of
         AgentAssignedEvent _ agent _ \<Rightarrow> tmAddJob (LoadBalancerJob agent)
       | AvailabilityUpdatedEvent _ agent _ \<Rightarrow> tmAddJob (LoadBalancerJob agent)
       | _ \<Rightarrow> ret ()) (\<lambda>_. ret ())"

text \<open>Save, publish the events of the aggregate, clear them.\<close>

definition persistTeam :: "Team \<Rightarrow> uid \<Rightarrow> Team tmsvc" where
  "persistTeam t tenantId =
     andThen (tmWrite (\<lambda>now. saveTeam now t tenantId)) (\<lambda>_.
     andThen (forEach (te_domainEvents t) TeamEventPublisher_publish) (\<lambda>_.
     ret (t\<lparr>te_domainEvents := []\<rparr>)))"

definition getTeamOrThrow :: "uid \<Rightarrow> uid \<Rightarrow> Team tmsvc" where
  "getTeamOrThrow tenantId i =
     andThen (tmRead (findTeamById i tenantId)) (\<lambda>found. case found of
       None \<Rightarrow> throw (NotFoundException (''Team '' @ i @ '' not found''))
     | Some t \<Rightarrow> ret t)"

subsection \<open>Teams\<close>

record CreateTeamDto =
  ctm_name :: string
  ctm_description :: "string option"
  ctm_department :: "string option"
  ctm_priority :: "int option"
  ctm_isActive :: "bool option"

definition orDefault :: "'a option \<Rightarrow> 'a \<Rightarrow> 'a" where
  "orDefault v d = (case v of None \<Rightarrow> d | Some x \<Rightarrow> x)"

definition TeamService_create :: "uid \<Rightarrow> CreateTeamDto \<Rightarrow> uid option \<Rightarrow> Team tmsvc" where
  "TeamService_create tenantId dto userId =
     andThen (tmRead (findTeamByName (ctm_name dto) tenantId)) (\<lambda>existing.
     if existing \<noteq> None then throw (HttpException 409 (''Team with name '' @ ctm_name dto @ '' already exists''))
     else andThen tmUUID (\<lambda>i.
     andThen tmNow (\<lambda>now.
     andThen (persistTeam
       \<lparr>te_id = i, te_tenantId = tenantId, te_name = Some (ctm_name dto), te_description = ctm_description dto,
        te_department = ctm_department dto, te_priority = Some (orDefault (ctm_priority dto) 1),
        te_isActive = Some (orDefault (ctm_isActive dto) True), te_deletedAt = None, te_createdAt = now, te_updatedAt = now,
        te_version = 1, te_members = [], te_rules = [], te_domainEvents = [TeamCreatedEvent tenantId i (Some (ctm_name dto))]\<rparr> tenantId) (\<lambda>team.
     andThen (tmLog tenantId userId ''TEAM_CREATE'' (''Created team '' @ ctm_name dto)) (\<lambda>_.
     ret team)))))"

definition TeamService_update :: "uid \<Rightarrow> uid \<Rightarrow> TeamPatch \<Rightarrow> uid option \<Rightarrow> Team tmsvc" where
  "TeamService_update tenantId i dto userId =
     andThen (getTeamOrThrow tenantId i) (\<lambda>team.
     andThen tmNow (\<lambda>now.
     andThen (persistTeam (Team_update now dto team) tenantId) (\<lambda>team.
     andThen (tmLog tenantId userId ''TEAM_UPDATE'' (''Updated team '' @ inTemplate (te_name team))) (\<lambda>_.
     ret team))))"

definition TeamService_archive :: "uid \<Rightarrow> uid \<Rightarrow> uid option \<Rightarrow> bool tmsvc" where
  "TeamService_archive tenantId i userId =
     andThen (getTeamOrThrow tenantId i) (\<lambda>team.
     andThen tmNow (\<lambda>now.
     andThen (persistTeam (Team_archive now team) tenantId) (\<lambda>_.
     andThen (tmLog tenantId userId ''TEAM_ARCHIVE'' (''Archived team '' @ i)) (\<lambda>_.
     ret True))))"

definition newMember :: "millis \<Rightarrow> uid \<Rightarrow> uid \<Rightarrow> uid \<Rightarrow> uid \<Rightarrow> string \<Rightarrow> TeamMember" where
  "newMember now i tenantId teamId agent role =
     \<lparr>mb_id = i, mb_tenantId = tenantId, mb_teamId = teamId, mb_agentProfileId = agent, mb_role = role, mb_joinedAt = now, mb_isPrimary = False\<rparr>"

definition TeamService_addAgent :: "uid \<Rightarrow> uid \<Rightarrow> uid \<Rightarrow> string \<Rightarrow> uid option \<Rightarrow> unit tmsvc" where
  "TeamService_addAgent tenantId teamId agent role userId =
     andThen (getTeamOrThrow tenantId teamId) (\<lambda>team.
     andThen (tmRead (findProfileById agent tenantId)) (\<lambda>profile.
     if profile = None then throw (NotFoundException (''Agent '' @ agent @ '' not found''))
     else andThen tmUUID (\<lambda>i.
     andThen tmNow (\<lambda>now.
     andThen (persistTeam (Team_addMember now (newMember now i tenantId teamId agent role) team) tenantId) (\<lambda>_.
     tmLog tenantId userId ''TEAM_MEMBER_ADD'' (''Added agent '' @ agent @ '' to team '' @ teamId))))))"

definition TeamService_removeAgent :: "uid \<Rightarrow> uid \<Rightarrow> uid \<Rightarrow> uid option \<Rightarrow> unit tmsvc" where
  "TeamService_removeAgent tenantId teamId agent userId =
     andThen (getTeamOrThrow tenantId teamId) (\<lambda>team.
     andThen tmNow (\<lambda>now.
     andThen (persistTeam (Team_removeMember now agent team) tenantId) (\<lambda>_.
     tmLog tenantId userId ''TEAM_MEMBER_REMOVE'' (''Removed agent '' @ agent @ '' from team '' @ teamId))))"

definition TeamService_updateAgentRole :: "uid \<Rightarrow> uid \<Rightarrow> uid \<Rightarrow> string \<Rightarrow> uid option \<Rightarrow> unit tmsvc" where
  "TeamService_updateAgentRole tenantId teamId agent role userId =
     andThen (getTeamOrThrow tenantId teamId) (\<lambda>team.
     andThen tmNow (\<lambda>now.
     let (updated, team') = Team_updateMemberRole now agent role team
     in if \<not> updated then throw (NotFoundException (''Agent '' @ agent @ '' is not a member of team '' @ teamId))
        else andThen (persistTeam team' tenantId) (\<lambda>_.
             tmLog tenantId userId ''TEAM_MEMBER_ROLE_UPDATE''
               (''Updated agent '' @ agent @ '' role to '' @ role @ '' in team '' @ teamId))))"

definition TeamService_moveAgent :: "uid \<Rightarrow> uid \<Rightarrow> uid \<Rightarrow> uid \<Rightarrow> uid option \<Rightarrow> unit tmsvc" where
  "TeamService_moveAgent tenantId fromTeamId toTeamId agent userId =
     andThen (tmRead (findTeamById fromTeamId tenantId)) (\<lambda>fromTeam.
     andThen (tmRead (findTeamById toTeamId tenantId)) (\<lambda>toTeam.
     case (fromTeam, toTeam) of
       (Some a, Some b) \<Rightarrow>
         andThen tmUUID (\<lambda>i.
         andThen tmNow (\<lambda>now.
         let a' = Team_moveMember now agent fromTeamId toTeamId a;
             b' = Team_addMember now (newMember now i tenantId toTeamId agent ''MEMBER'') b
         in andThen (tmWrite (\<lambda>now. saveTeam now a' tenantId)) (\<lambda>_.
            andThen (tmWrite (\<lambda>now. saveTeam now b' tenantId)) (\<lambda>_.
            andThen (forEach (te_domainEvents a') TeamEventPublisher_publish) (\<lambda>_.
            andThen (forEach (te_domainEvents b') TeamEventPublisher_publish) (\<lambda>_.
            tmLog tenantId userId ''TEAM_MEMBER_MOVE''
              (''Moved agent '' @ agent @ '' from team '' @ fromTeamId @ '' to '' @ toTeamId)))))))
     | _ \<Rightarrow> throw (NotFoundException ''Source or destination team not found'')))"

definition AssignmentRuleService_createRule ::
  "uid \<Rightarrow> uid \<Rightarrow> AssignmentStrategyEnum \<Rightarrow> int \<Rightarrow> (string \<times> json) list option \<Rightarrow> AssignmentRule tmsvc" where
  "AssignmentRuleService_createRule tenantId teamId ruleType priority configuration =
     andThen (getTeamOrThrow tenantId teamId) (\<lambda>team.
     andThen tmUUID (\<lambda>i.
     andThen tmNow (\<lambda>now.
     let rule = \<lparr>ru_id = i, ru_tenantId = tenantId, ru_teamId = teamId, ru_ruleType = ruleType, ru_priority = priority,
                 ru_configuration = orDefault configuration [], ru_isActive = True\<rparr>
     in andThen (tmWrite (\<lambda>now. saveTeam now (Team_addRule now rule team) tenantId)) (\<lambda>_. ret rule))))"

definition AssignmentRuleService_deleteRule :: "uid \<Rightarrow> uid \<Rightarrow> unit tmsvc" where
  "AssignmentRuleService_deleteRule tenantId ruleId = tmWrite (\<lambda>_ db. Inr (deleteRule ruleId tenantId db))"

subsection \<open>Agents\<close>

record AgentProfileDto =
  apd_userId :: uid
  apd_employeeCode :: "string option"
  apd_displayName :: string
  apd_avatarUrl :: "string option"
  apd_capacity :: "int option"
  apd_maxConcurrentConversations :: "int option"
  apd_maxOpenTickets :: "int option"
  apd_skillScore :: "rat option"
  apd_timezone :: "string option"
  apd_languagePreferences :: "string list option"
  apd_metadata :: "jobject option"

definition AgentProfileService_create :: "(uid \<Rightarrow> nat \<Rightarrow> exn + unit) \<Rightarrow> uid \<Rightarrow> AgentProfileDto \<Rightarrow> uid option \<Rightarrow> AgentProfile tmsvc" where
  "AgentProfileService_create enforceLimit tenantId dto userId =
     andThen (tmRead (countProfiles tenantId)) (\<lambda>total.
     andThen (liftR (enforceLimit tenantId total)) (\<lambda>_.
     andThen (tmRead (findProfileByUserId (apd_userId dto) tenantId)) (\<lambda>existing.
     if existing \<noteq> None then throw (HttpException 409 (''Agent profile for user '' @ apd_userId dto @ '' already exists''))
     else andThen (if truthy (apd_employeeCode dto) then tmRead (findProfileByEmployeeCode (the (apd_employeeCode dto)) tenantId) else ret None) (\<lambda>code.
     if code \<noteq> None then throw (HttpException 409 (''Agent with employee code '' @ inTemplate (apd_employeeCode dto) @ '' already exists''))
     else andThen tmUUID (\<lambda>i.
     andThen (liftR (AgentCapacity_create (orDefault (apd_capacity dto) 10) (orDefault (apd_maxConcurrentConversations dto) 5)
                (orDefault (apd_maxOpenTickets dto) 20))) (\<lambda>capacity.
     andThen tmNow (\<lambda>now.
     let profile =
       \<lparr>ap_id = i, ap_tenantId = tenantId, ap_userId = apd_userId dto, ap_employeeCode = apd_employeeCode dto,
        ap_displayName = apd_displayName dto, ap_avatarUrl = apd_avatarUrl dto, ap_status = ''ACTIVE'', ap_capacity = capacity,
        ap_skillScore = orDefault (apd_skillScore dto) 0, ap_timezone = inTemplate (orS (apd_timezone dto) (Some ''UTC'')),
        ap_languagePreferences = orDefault (apd_languagePreferences dto) [], ap_metadata = orDefault (apd_metadata dto) Map.empty,
        ap_deletedAt = None, ap_createdAt = now, ap_updatedAt = now\<rparr>
     in andThen (tmWrite (\<lambda>now. saveProfile now profile tenantId)) (\<lambda>_.
        andThen tmUUID (\<lambda>j.
        andThen (tmWrite (\<lambda>now db. Inr (saveAvailability now
          \<lparr>av_id = j, av_tenantId = tenantId, av_agentProfileId = i, av_status = ''OFFLINE'', av_lastSeenAt = now, av_workingHours = Some [],
           av_currentLoad = 0, av_activeConversations = 0, av_activeTickets = 0, av_createdAt = now, av_updatedAt = now\<rparr> tenantId db))) (\<lambda>_.
        andThen (TeamEventPublisher_publish (AgentCreatedEvent tenantId i (apd_userId dto))) (\<lambda>_.
        andThen (tmLog tenantId userId ''AGENT_CREATE'' (''Created agent profile for '' @ ap_displayName profile)) (\<lambda>_.
        ret profile))))))))))))"

text \<open>A key the request leaves out is not touched; the three limits are checked together.\<close>

record UpdateAgentProfileDto =
  uap_displayName :: "string option"
  uap_employeeCode :: "string option"
  uap_avatarUrl :: "string option"
  uap_timezone :: "string option"
  uap_languagePreferences :: "string list option"
  uap_metadata :: "jobject option"
  uap_skillScore :: "rat option"
  uap_capacity :: "int option"
  uap_maxConcurrentConversations :: "int option"
  uap_maxOpenTickets :: "int option"

definition patchedProfile :: "millis \<Rightarrow> UpdateAgentProfileDto \<Rightarrow> AgentProfile \<Rightarrow> exn + AgentProfile" where
  "patchedProfile now dto p =
     rbind (if uap_capacity dto = None \<and> uap_maxConcurrentConversations dto = None \<and> uap_maxOpenTickets dto = None
            then Inr (ap_capacity p)
            else AgentCapacity_create (orDefault (uap_capacity dto) (cp_capacity (ap_capacity p)))
                   (orDefault (uap_maxConcurrentConversations dto) (cp_maxConcurrentConversations (ap_capacity p)))
                   (orDefault (uap_maxOpenTickets dto) (cp_maxOpenTickets (ap_capacity p)))) (\<lambda>capacity.
     Inr (p\<lparr>ap_displayName := orDefault (uap_displayName dto) (ap_displayName p),
            ap_employeeCode := (case uap_employeeCode dto of None \<Rightarrow> ap_employeeCode p | c \<Rightarrow> c),
            ap_avatarUrl := (case uap_avatarUrl dto of None \<Rightarrow> ap_avatarUrl p | c \<Rightarrow> c),
            ap_timezone := orDefault (uap_timezone dto) (ap_timezone p),
            ap_languagePreferences := orDefault (uap_languagePreferences dto) (ap_languagePreferences p),
            ap_metadata := orDefault (uap_metadata dto) (ap_metadata p), ap_skillScore := orDefault (uap_skillScore dto) (ap_skillScore p),
            ap_capacity := capacity, ap_updatedAt := now\<rparr>))"

definition getProfileOrThrow :: "uid \<Rightarrow> uid \<Rightarrow> AgentProfile tmsvc" where
  "getProfileOrThrow tenantId i =
     andThen (tmRead (findProfileById i tenantId)) (\<lambda>found. case found of
       None \<Rightarrow> throw (NotFoundException (''Agent profile '' @ i @ '' not found''))
     | Some p \<Rightarrow> ret p)"

definition AgentProfileService_update :: "uid \<Rightarrow> uid \<Rightarrow> UpdateAgentProfileDto \<Rightarrow> uid option \<Rightarrow> AgentProfile tmsvc" where
  "AgentProfileService_update tenantId i dto userId =
     andThen (getProfileOrThrow tenantId i) (\<lambda>profile.
     andThen tmNow (\<lambda>now.
     andThen (liftR (patchedProfile now dto profile)) (\<lambda>profile.
     andThen (tmWrite (\<lambda>now. saveProfile now profile tenantId)) (\<lambda>_.
     andThen (TeamEventPublisher_publish (AgentUpdatedEvent tenantId (ap_id profile) (ap_userId profile))) (\<lambda>_.
     andThen (tmLog tenantId userId ''AGENT_UPDATE'' (''Updated agent profile for '' @ ap_displayName profile)) (\<lambda>_.
     ret profile))))))"

definition AgentProfileService_delete :: "uid \<Rightarrow> uid \<Rightarrow> uid option \<Rightarrow> bool tmsvc" where
  "AgentProfileService_delete tenantId i userId =
     andThen (getProfileOrThrow tenantId i) (\<lambda>_.
     andThen (tmWrite (\<lambda>now db. Inr (snd (deleteProfile now i tenantId db)))) (\<lambda>_.
     andThen (tmLog tenantId userId ''AGENT_DELETE'' (''Soft deleted agent profile '' @ i)) (\<lambda>_.
     ret True)))"

subsection \<open>Availability\<close>

definition getAvailabilityOrThrow :: "uid \<Rightarrow> uid \<Rightarrow> string \<Rightarrow> AgentAvailability tmsvc" where
  "getAvailabilityOrThrow tenantId agent what =
     andThen (tmRead (findAvailability agent tenantId)) (\<lambda>found. case found of
       None \<Rightarrow> throw (NotFoundException (what @ '' for agent '' @ agent @ '' not found''))
     | Some a \<Rightarrow> ret a)"

definition updateAvailability :: "uid \<Rightarrow> uid \<Rightarrow> string \<Rightarrow> (string \<times> json) list option \<Rightarrow> uid option \<Rightarrow> AgentAvailability tmsvc" where
  "updateAvailability tenantId agent status workingHours userId =
     andThen (getAvailabilityOrThrow tenantId agent ''Availability record'') (\<lambda>availability.
     andThen tmNow (\<lambda>now.
     let availability' = Availability_update now status workingHours availability
     in andThen (tmWrite (\<lambda>now db. Inr (saveAvailability now availability' tenantId db))) (\<lambda>_.
        andThen (TeamEventPublisher_publish (AvailabilityUpdatedEvent tenantId agent status)) (\<lambda>_.
        andThen (tmLog tenantId userId ''AVAILABILITY_UPDATE'' (''Updated availability status of agent '' @ agent @ '' to '' @ status)) (\<lambda>_.
        ret availability')))))"

definition AvailabilityService_updateLoad :: "uid \<Rightarrow> uid \<Rightarrow> int \<Rightarrow> unit tmsvc" where
  "AvailabilityService_updateLoad tenantId agent change = tmWrite (\<lambda>now db. Inr (repoUpdateLoad now agent change tenantId db))"

definition AvailabilityService_updateCounters :: "uid \<Rightarrow> uid \<Rightarrow> int \<Rightarrow> int \<Rightarrow> unit tmsvc" where
  "AvailabilityService_updateCounters tenantId agent conversationsChange ticketsChange =
     tmWrite (\<lambda>now db. Inr (repoUpdateCounters now agent conversationsChange ticketsChange tenantId db))"

section \<open>Choosing an agent\<close>

text \<open>
  The choice of an agent for a ticket or a conversation
  (\<^verbatim>\<open>src/modules/teams/services/agent-assignment.service.ts\<close>) and the team queue. The members are
  looked at in the order of the table; \<^verbatim>\<open>sort\<close> is stable, so the chosen agent is the first of the
  best ones.
\<close>

fun entityName :: "entity \<Rightarrow> string" where
  "entityName TicketEntity = ''TICKET''"
| "entityName ConversationEntity = ''CONVERSATION''"

type_synonym candidate = "AgentProfile \<times> AgentAvailability"

subsection \<open>Candidates\<close>

text \<open>The members whose profile and availability are both found.\<close>

definition knownAgents :: "uid \<Rightarrow> TeamMember list \<Rightarrow> TeamDb \<Rightarrow> candidate list" where
  "knownAgents tenantId members db =
     List.map_filter (\<lambda>m. case (findProfileById (mb_agentProfileId m) tenantId db, findAvailability (mb_agentProfileId m) tenantId db) of
        (Some p, Some a) \<Rightarrow> Some (p, a) | _ \<Rightarrow> None) members"

definition hasCapacity :: "entity \<Rightarrow> candidate \<Rightarrow> bool" where
  "hasCapacity ty c =
     (case ty of
        ConversationEntity \<Rightarrow> av_activeConversations (snd c) < cp_maxConcurrentConversations (ap_capacity (fst c))
      | TicketEntity \<Rightarrow> av_activeTickets (snd c) < cp_maxOpenTickets (ap_capacity (fst c)))"

definition onlineAgents :: "entity \<Rightarrow> candidate list \<Rightarrow> candidate list" where
  "onlineAgents ty = filter (\<lambda>c. av_status (snd c) = ''ONLINE'' \<and> hasCapacity ty c)"

definition load :: "candidate \<Rightarrow> int" where
  "load c = av_currentLoad (snd c)"

definition skill :: "candidate \<Rightarrow> rat" where
  "skill c = ap_skillScore (fst c)"

definition lastSeen :: "candidate \<Rightarrow> millis" where
  "lastSeen c = av_lastSeenAt (snd c)"

text \<open>The agents in the order of the strategy. \<^verbatim>\<open>PRIORITY_BASED\<close> compares skill, then load: a stable sort by
  load followed by one by skill.\<close>

definition ranked :: "AssignmentStrategyEnum \<Rightarrow> rat option \<Rightarrow> candidate list \<Rightarrow> candidate list" where
  "ranked strategy requiredSkill agents =
     (case strategy of
        LEAST_LOADED \<Rightarrow> sort_key load agents
      | SKILL_BASED \<Rightarrow>
          (let skilled = filter (\<lambda>c. orDefault requiredSkill 0 \<le> skill c) agents
           in sort_key (\<lambda>c. - skill c) (if skilled \<noteq> [] then skilled else agents))
      | PRIORITY_BASED \<Rightarrow> sort_key (\<lambda>c. - skill c) (sort_key load agents)
      | _ \<Rightarrow> sort_key lastSeen agents)"

subsection \<open>Assignment\<close>

definition routeAssignment :: "uid \<Rightarrow> uid \<Rightarrow> uid \<Rightarrow> entity \<Rightarrow> string \<Rightarrow> unit tmsvc" where
  "routeAssignment tenantId agent entityId ty strategy =
     andThen (tmWrite (\<lambda>now db. Inr (repoUpdateCounters now agent (if ty = ConversationEntity then 1 else 0)
       (if ty = TicketEntity then 1 else 0) tenantId db))) (\<lambda>_.
     andThen tmUUID (\<lambda>assignmentId.
     andThen (TeamEventPublisher_publish (AssignmentCompletedEvent tenantId assignmentId agent entityId strategy)) (\<lambda>_.
     tmLog tenantId None ''ASSIGNMENT_COMPLETE''
       (''Assigned '' @ entityName ty @ '' '' @ entityId @ '' to agent '' @ agent @ '' using strategy '' @ strategy))))"

definition activeStrategy :: "AssignmentRule list \<Rightarrow> AssignmentStrategyEnum" where
  "activeStrategy rules = (case List.find ru_isActive rules of None \<Rightarrow> ROUND_ROBIN | Some r \<Rightarrow> ru_ruleType r)"

definition assignEntity :: "uid \<Rightarrow> uid \<Rightarrow> uid \<Rightarrow> entity \<Rightarrow> rat option \<Rightarrow> uid tmsvc" where
  "assignEntity tenantId teamId entityId ty requiredSkill =
     andThen (getTeamOrThrow tenantId teamId) (\<lambda>_.
     andThen (tmRead (findRules teamId tenantId)) (\<lambda>rules.
     andThen (tmRead (findTeamMembers teamId tenantId)) (\<lambda>members.
     if members = [] then throw (BadRequestException ''No agents registered in the target team'')
     else andThen (tmRead (knownAgents tenantId members)) (\<lambda>known.
     let online = onlineAgents ty known; strategy = activeStrategy rules
     in if online = []
        then if known = [] then throw (BadRequestException ''No agents online or available for fallback in this team'')
             else let agent = ap_id (fst (hd (sort_key load known)))
                  in andThen (routeAssignment tenantId agent entityId ty ''FALLBACK'') (\<lambda>_. ret agent)
        else let agent = ap_id (fst (hd (ranked strategy requiredSkill online)))
             in andThen (routeAssignment tenantId agent entityId ty (strategyName strategy)) (\<lambda>_. ret agent)))))"

record WorkloadRow =
  wl_agentProfileId :: uid
  wl_displayName :: "string option"
  wl_status :: string
  wl_currentLoad :: int
  wl_activeConversations :: int
  wl_activeTickets :: int
  wl_maxConcurrentConversations :: "int option"
  wl_maxOpenTickets :: "int option"
  wl_isOverloaded :: bool

definition workloadRow :: "uid \<Rightarrow> TeamDb \<Rightarrow> TeamMember \<Rightarrow> WorkloadRow" where
  "workloadRow tenantId db m =
     (let p = findProfileById (mb_agentProfileId m) tenantId db; a = findAvailability (mb_agentProfileId m) tenantId db;
          conv = (case a of None \<Rightarrow> 0 | Some x \<Rightarrow> av_activeConversations x); tick = (case a of None \<Rightarrow> 0 | Some x \<Rightarrow> av_activeTickets x);
          maxConv = map_option (cp_maxConcurrentConversations \<circ> ap_capacity) p; maxTick = map_option (cp_maxOpenTickets \<circ> ap_capacity) p
      in \<lparr>wl_agentProfileId = mb_agentProfileId m, wl_displayName = map_option ap_displayName p,
          wl_status = (case a of None \<Rightarrow> ''OFFLINE'' | Some x \<Rightarrow> av_status x),
          wl_currentLoad = (case a of None \<Rightarrow> 0 | Some x \<Rightarrow> av_currentLoad x), wl_activeConversations = conv, wl_activeTickets = tick,
          wl_maxConcurrentConversations = maxConv, wl_maxOpenTickets = maxTick,
          wl_isOverloaded = ((case maxConv of None \<Rightarrow> False | Some n \<Rightarrow> n \<le> conv) \<or> (case maxTick of None \<Rightarrow> False | Some n \<Rightarrow> n \<le> tick))\<rparr>)"

definition getTeamWorkload :: "uid \<Rightarrow> uid \<Rightarrow> WorkloadRow list tmsvc" where
  "getTeamWorkload tenantId teamId =
     andThen (getTeamOrThrow tenantId teamId) (\<lambda>_.
     tmRead (\<lambda>db. map (workloadRow tenantId db) (findTeamMembers teamId tenantId db)))"

subsection \<open>The team queue\<close>

definition emptyAgentUpdate :: UpdateAgentProfileDto where
  "emptyAgentUpdate = \<lparr>uap_displayName = None, uap_employeeCode = None, uap_avatarUrl = None, uap_timezone = None,
     uap_languagePreferences = None, uap_metadata = None, uap_skillScore = None, uap_capacity = None,
     uap_maxConcurrentConversations = None, uap_maxOpenTickets = None\<rparr>"

text \<open>The tenant comes from the envelope only; a job without one looks for the tenant \<^verbatim>\<open>undefined\<close>.\<close>

definition handleTeamJob :: "team_job \<times> uid option \<Rightarrow> json tmsvc" where
  "handleTeamJob q =
     (let tenantId = inTemplate (snd q)
      in case fst q of
           AssignmentJob teamId entityId ty required \<Rightarrow>
             andThen (assignEntity tenantId teamId entityId ty required) (\<lambda>i. ret (JStr i))
         | AvailabilitySyncJob agent \<Rightarrow>
             andThen (getAvailabilityOrThrow tenantId agent ''Availability'') (\<lambda>availability.
             andThen tmNow (\<lambda>now.
             andThen (if 15 * 60000 < now - av_lastSeenAt availability \<and> av_status availability = ''ONLINE''
                      then andThen (updateAvailability tenantId agent ''AWAY'' None None) (\<lambda>_. ret ()) else ret ()) (\<lambda>_.
             ret (JObj [(''status'', JStr ''synced'')]))))
         | LoadBalancerJob agent \<Rightarrow>
             andThen (getAvailabilityOrThrow tenantId agent ''Availability'') (\<lambda>avail.
             let actualLoad = av_activeConversations avail + av_activeTickets avail
             in andThen (if av_currentLoad avail \<noteq> actualLoad
                         then AvailabilityService_updateLoad tenantId agent (actualLoad - av_currentLoad avail) else ret ()) (\<lambda>_.
                ret (JObj [(''actualLoad'', JNum actualLoad)])))
         | CapacityCalculationJob agent newCapacity \<Rightarrow>
             andThen (getProfileOrThrow tenantId agent) (\<lambda>profile.
             andThen (AgentProfileService_update tenantId agent (emptyAgentUpdate\<lparr>uap_capacity :=
               Some (case newCapacity of None \<Rightarrow> cp_capacity (ap_capacity profile)
                     | Some c \<Rightarrow> if c = 0 then cp_capacity (ap_capacity profile) else c)\<rparr>) None) (\<lambda>_.
             ret (JObj [(''status'', JStr ''success'')])))
         | OtherTeamJob n \<Rightarrow> throw (Error (''Unknown job name: '' @ n)))"

end
