(* ===== verification/Team_Properties.thy ===== *)
theory Team_Properties
  imports Team_Service
begin

text \<open>
  Who is chosen: the best agent of the strategy among those online with room, and the counters of
  exactly that agent grow. Then what the module gets wrong: turns that are never taken, working hours
  that are lost, agents that cannot come back.
\<close>

subsection \<open>The first of a stable sort\<close>

lemma hd_sort_key:
  fixes f :: "'a \<Rightarrow> 'b :: linorder"
  assumes "xs \<noteq> []"
  shows "hd (sort_key f xs) \<in> set xs \<and> (\<forall>y \<in> set xs. f (hd (sort_key f xs)) \<le> f y)"
  using hd_sort_key_in [OF assms, of f] hd_sort_key_min [OF assms, of _ f] by simp

lemma sort_key_map: "(\<And>x. f (g x) = f x) \<Longrightarrow> sort_key f (map g xs) = map g (sort_key f xs)"
proof -
  assume fg: "\<And>x. f (g x) = f x"
  have ins: "insort_key f (g x) (map g ys) = map g (insort_key f x ys)" for x ys by (induction ys) (auto simp: fg)
  show ?thesis by (induction xs) (simp_all add: ins)
qed

subsection \<open>The choice\<close>

definition bestFor :: "AssignmentStrategyEnum \<Rightarrow> candidate list \<Rightarrow> candidate \<Rightarrow> bool" where
  "bestFor strategy agents c \<longleftrightarrow>
     (case strategy of
        LEAST_LOADED \<Rightarrow> list_all (\<lambda>d. load c \<le> load d) agents
      | SKILL_BASED \<Rightarrow> list_all (\<lambda>d. skill d \<le> skill c) agents
      | PRIORITY_BASED \<Rightarrow> list_all (\<lambda>d. skill d < skill c \<or> (skill d = skill c \<and> load c \<le> load d)) agents
      | _ \<Rightarrow> list_all (\<lambda>d. lastSeen c \<le> lastSeen d) agents)"

lemma hd_skill_then_load:
  assumes "xs \<noteq> []"
  shows "hd (sort_key (\<lambda>c. - skill c) (sort_key load xs)) \<in> set xs \<and>
    bestFor PRIORITY_BASED xs (hd (sort_key (\<lambda>c. - skill c) (sort_key load xs)))"
proof -
  let ?ys = "sort_key load xs" and ?f = "\<lambda>c. - skill c"
  let ?h = "hd (sort_key ?f ?ys)"
  have ys: "?ys \<noteq> []" "set ?ys = set xs" using assms by (metis length_0_conv length_sort) simp
  from hd_sort_key [OF ys(1), of ?f] ys(2) have h: "?h \<in> set xs" "\<forall>y \<in> set xs. skill y \<le> skill ?h" by auto
  have "load ?h \<le> load d" if d: "d \<in> set xs" "skill d = skill ?h" for d
  proof -
    let ?P = "\<lambda>c. ?f c = ?f ?h"
    have same: "filter ?P (sort_key ?f ?ys) = filter ?P ?ys" by (rule sort_key_stable)
    have "sort_key ?f ?ys \<noteq> []" using ys(1) by (metis length_0_conv length_sort)
    then obtain zs where "sort_key ?f ?ys = ?h # zs" by (cases "sort_key ?f ?ys") auto
    then have "filter ?P (sort_key ?f ?ys) = ?h # filter ?P zs" by (metis (mono_tags, lifting) filter.simps(2))
    with same have head: "filter ?P ?ys = ?h # filter ?P zs" by simp
    have "sorted (map load (filter ?P ?ys))" by (simp add: sorted_filter)
    moreover have "d \<in> set (filter ?P ?ys)" using d ys(2) by simp
    ultimately have "sorted (map load (?h # filter ?P zs)) \<and> (d = ?h \<or> d \<in> set (filter ?P zs))" unfolding head by (simp only: list.set insert_iff simp_thms)
    then show ?thesis by (metis (no_types, lifting) image_eqI list.set_map list.simps(9) order_refl sorted_simps(2))
  qed
  with h show ?thesis by (auto simp: bestFor_def list_all_iff order.order_iff_strict)
qed

lemma ranked_best:
  assumes "xs \<noteq> []"
  shows "hd (ranked strategy r xs) \<in> set xs \<and> bestFor strategy xs (hd (ranked strategy r xs))"
proof (cases strategy)
  case SKILL_BASED
  let ?sk = "filter (\<lambda>c. orDefault r 0 \<le> skill c) xs"
  let ?ys = "if ?sk \<noteq> [] then ?sk else xs"
  have ys: "?ys \<noteq> []" using assms by simp
  from hd_sort_key [OF ys, of "\<lambda>c. - skill c"] have h: "hd (sort_key (\<lambda>c. - skill c) ?ys) \<in> set ?ys"
    "\<forall>y \<in> set ?ys. skill y \<le> skill (hd (sort_key (\<lambda>c. - skill c) ?ys))" by auto
  have "skill d \<le> skill (hd (sort_key (\<lambda>c. - skill c) ?ys))" if "d \<in> set xs" for d
  proof (cases "d \<in> set ?ys")
    case False
    with that have "?sk \<noteq> []" "skill d < orDefault r 0" by (auto split: if_splits)
    then show ?thesis using h(1) by (auto split: if_splits)
  qed (use h(2) in blast)
  with h(1) show ?thesis by (auto simp: SKILL_BASED ranked_def Let_def bestFor_def list_all_iff split: if_splits)
next
  case PRIORITY_BASED
  with hd_skill_then_load [OF assms] show ?thesis by (simp add: ranked_def)
qed (use hd_sort_key [OF assms, of load] hd_sort_key [OF assms, of lastSeen] in \<open>simp_all add: ranked_def bestFor_def list_all_iff\<close>)

lemma publish_keeps: "\<exists>w'. TeamEventPublisher_publish ev w = (Inr (), w') \<and> tw_db w' = tw_db w"
  by (cases ev) (auto simp: TeamEventPublisher_publish_def tmAddJob_def svc_simps)

lemma routeAssignment_db:
  "\<exists>w'. routeAssignment t agent i ty s w = (Inr (), w') \<and>
     tw_db w' = repoUpdateCounters (tw_now w) agent (if ty = ConversationEntity then 1 else 0) (if ty = TicketEntity then 1 else 0) t (tw_db w) \<and>
     tw_now w' = tw_now w"
proof -
  define w1 where "w1 = w\<lparr>tw_db := repoUpdateCounters (tw_now w) agent (if ty = ConversationEntity then 1 else 0) (if ty = TicketEntity then 1 else 0) t (tw_db w),
    tw_uuidNext := tw_uuidNext w + 1\<rparr>"
  let ?ev = "AssignmentCompletedEvent t (tw_uuid w (tw_uuidNext w)) agent i s"
  have "TeamEventPublisher_publish ?ev w1 = (Inr (), w1)" by (simp add: TeamEventPublisher_publish_def svc_simps)
  then show ?thesis
    unfolding routeAssignment_def by (auto simp: tmWrite_def tmUUID_def tmLog_def svc_simps w1_def)
qed

lemma assignEntity_online:
  assumes team: "findTeamById teamId t (tw_db w) = Some team"
    and online: "onlineAgents ty (knownAgents t (findTeamMembers teamId t (tw_db w)) (tw_db w)) \<noteq> []"
  shows "\<exists>w'. assignEntity t teamId i ty r w =
      (Inr (ap_id (fst (hd (ranked (activeStrategy (findRules teamId t (tw_db w))) r
         (onlineAgents ty (knownAgents t (findTeamMembers teamId t (tw_db w)) (tw_db w))))))), w') \<and>
    tw_db w' = repoUpdateCounters (tw_now w) (ap_id (fst (hd (ranked (activeStrategy (findRules teamId t (tw_db w))) r
         (onlineAgents ty (knownAgents t (findTeamMembers teamId t (tw_db w)) (tw_db w))))))) (if ty = ConversationEntity then 1 else 0)
       (if ty = TicketEntity then 1 else 0) t (tw_db w) \<and> tw_now w' = tw_now w"
proof -
  let ?o = "onlineAgents ty (knownAgents t (findTeamMembers teamId t (tw_db w)) (tw_db w))"
  let ?s = "activeStrategy (findRules teamId t (tw_db w))"
  from online have m: "findTeamMembers teamId t (tw_db w) \<noteq> []" by (auto simp: knownAgents_def map_filter_simps onlineAgents_def)
  from routeAssignment_db [of t "ap_id (fst (hd (ranked ?s r ?o)))" i ty "strategyName ?s" w] team online m
  show ?thesis by (fastforce simp: assignEntity_def getTeamOrThrow_def tmRead_def svc_simps Let_def)
qed



subsection \<open>Turns that are not taken\<close>

text \<open>What an assignment changes in the list of candidates.\<close>

definition bump :: "millis \<Rightarrow> uid \<Rightarrow> int \<Rightarrow> int \<Rightarrow> candidate \<Rightarrow> candidate" where
  "bump now agent conv tick c =
     (if av_agentProfileId (snd c) = agent
      then (fst c, (snd c)\<lparr>av_activeConversations := av_activeConversations (snd c) + conv,
              av_activeTickets := av_activeTickets (snd c) + tick,
              av_currentLoad := av_currentLoad (snd c) + (conv + tick), av_updatedAt := now\<rparr>)
      else c)"

lemma bump_keeps [simp]: "fst (bump now agent conv tick c) = fst c" "lastSeen (bump now agent conv tick c) = lastSeen c"
  by (simp_all add: bump_def lastSeen_def)

lemma findAvailability_counters:
  "findAvailability x t (repoUpdateCounters now agent conv tick t db) =
     map_option (\<lambda>a. snd (bump now agent conv tick (p, a))) (findAvailability x t db)"
proof -
  have "List.find (\<lambda>a. av_agentProfileId a = x \<and> av_tenantId a = t) (map (\<lambda>r. if av_agentProfileId r = agent \<and> av_tenantId r = t
        then r\<lparr>av_activeConversations := av_activeConversations r + conv, av_activeTickets := av_activeTickets r + tick,
               av_currentLoad := av_currentLoad r + (conv + tick), av_updatedAt := now\<rparr> else r) rows) =
      map_option (\<lambda>r. if av_agentProfileId r = agent
        then r\<lparr>av_activeConversations := av_activeConversations r + conv, av_activeTickets := av_activeTickets r + tick,
               av_currentLoad := av_currentLoad r + (conv + tick), av_updatedAt := now\<rparr> else r)
        (List.find (\<lambda>a. av_agentProfileId a = x \<and> av_tenantId a = t) rows)" for rows :: "AgentAvailability list"
    by (induction rows) auto
  then show ?thesis
    by (cases "List.find (\<lambda>a. av_agentProfileId a = x \<and> av_tenantId a = t) (tb_availability db)")
      (simp_all add: findAvailability_def repoUpdateCounters_def bump_def)
qed

lemma counters_keep [simp]:
  "findTeamById i t (repoUpdateCounters now agent conv tick t' db) = findTeamById i t db"
  "findTeamMembers i t (repoUpdateCounters now agent conv tick t' db) = findTeamMembers i t db"
  "findRules i t (repoUpdateCounters now agent conv tick t' db) = findRules i t db"
  "findProfileById i t (repoUpdateCounters now agent conv tick t' db) = findProfileById i t db"
proof -
  have rows: "tb_teams (repoUpdateCounters now agent conv tick t' db) = tb_teams db" "tb_members (repoUpdateCounters now agent conv tick t' db) = tb_members db"
    "tb_rules (repoUpdateCounters now agent conv tick t' db) = tb_rules db" "tb_profiles (repoUpdateCounters now agent conv tick t' db) = tb_profiles db"
    by (simp_all add: repoUpdateCounters_def)
  have parts: "findTeamMembers j u (repoUpdateCounters now agent conv tick t' db) = findTeamMembers j u db"
    "findRules j u (repoUpdateCounters now agent conv tick t' db) = findRules j u db" for j u
    by (simp_all add: findTeamMembers_def findRules_def rows)
  have "teamOfRow t (repoUpdateCounters now agent conv tick t' db) = teamOfRow t db"
    by (rule ext) (simp add: teamOfRow_def parts)
  then show "findTeamById i t (repoUpdateCounters now agent conv tick t' db) = findTeamById i t db"
    by (simp add: findTeamById_def rows)
qed (simp_all add: findTeamMembers_def findRules_def findProfileById_def repoUpdateCounters_def)

lemma knownAgents_counters:
  "knownAgents t members (repoUpdateCounters now agent conv tick t db) = map (bump now agent conv tick) (knownAgents t members db)"
  unfolding knownAgents_def
  by (induction members)
    (auto simp: map_filter_simps findAvailability_counters [where p = undefined] bump_def split: option.splits)

lemma knownAgents_inD:
  assumes "c \<in> set (knownAgents t members db)"
  shows "findProfileById (ap_id (fst c)) t db = Some (fst c) \<and> findAvailability (ap_id (fst c)) t db = Some (snd c) \<and>
    av_agentProfileId (snd c) = ap_id (fst c)"
proof -
  from assms obtain m :: TeamMember where m: "findProfileById (mb_agentProfileId m) t db = Some (fst c)" "findAvailability (mb_agentProfileId m) t db = Some (snd c)"
    by (auto simp: knownAgents_def map_filter_def split: option.splits)
  have "av_agentProfileId a = x" if "findAvailability x t db = Some a" for x a
    using that by (auto simp: findAvailability_def find_Some_iff)
  moreover have "ap_id p = x" if "findProfileById x t db = Some p" for x p
    using that by (auto simp: findProfileById_def find_Some_iff)
  ultimately have "ap_id (fst c) = mb_agentProfileId m" "av_agentProfileId (snd c) = mb_agentProfileId m" using m by blast+
  with m show ?thesis by simp
qed

text \<open>When the bumped agent stays online with room, the list of those online is the old one, bumped.\<close>

lemma onlineAgents_bump:
  assumes c: "c \<in> set (onlineAgents ty (knownAgents t members db))"
    and room: "hasCapacity ty (bump now (ap_id (fst c)) conv tick c)"
  shows "onlineAgents ty (map (bump now (ap_id (fst c)) conv tick) (knownAgents t members db)) =
    map (bump now (ap_id (fst c)) conv tick) (onlineAgents ty (knownAgents t members db))"
proof -
  let ?g = "bump now (ap_id (fst c)) conv tick" and ?k = "knownAgents t members db"
  let ?P = "\<lambda>c. av_status (snd c) = ''ONLINE'' \<and> hasCapacity ty c"
  have "?P (?g x) = ?P x" if x: "x \<in> set ?k" for x
  proof (cases "av_agentProfileId (snd x) = ap_id (fst c)")
    case True
    with knownAgents_inD [OF x] have "findProfileById (ap_id (fst c)) t db = Some (fst x)" "findAvailability (ap_id (fst c)) t db = Some (snd x)" by auto
    moreover from c have ck: "c \<in> set ?k" by (simp add: onlineAgents_def)
    ultimately have "x = c" using knownAgents_inD [OF ck] by (simp add: prod_eq_iff)
    then show ?thesis using c room by (auto simp: onlineAgents_def bump_def)
  qed (simp add: bump_def)
  then show ?thesis by (simp add: onlineAgents_def filter_map comp_def cong: filter_cong)
qed

text \<open>Taking turns does not happen. Without an active rule the agent seen longest ago is chosen, but an
  assignment does not change when the agent was seen: as long as that agent is online with room,
  the next assignment goes to it again.\<close>

theorem round_robin_stays_with_one_agent:
  assumes team: "findTeamById teamId t (tw_db w) = Some team"
    and turns: "activeStrategy (findRules teamId t (tw_db w)) = ROUND_ROBIN"
    and online: "onlineAgents ty (knownAgents t (findTeamMembers teamId t (tw_db w)) (tw_db w)) \<noteq> []"
    and first: "assignEntity t teamId i ty r w = (Inr agent, w')"
    and room: "agent \<in> (\<lambda>c. ap_id (fst c)) ` set (onlineAgents ty (knownAgents t (findTeamMembers teamId t (tw_db w')) (tw_db w')))"
  shows "\<exists>w''. assignEntity t teamId j ty s w' = (Inr agent, w'')"
proof -
  let ?conv = "if ty = ConversationEntity then 1 else 0" and ?tick = "if ty = TicketEntity then 1 else 0"
  let ?k = "knownAgents t (findTeamMembers teamId t (tw_db w)) (tw_db w)"
  let ?o = "onlineAgents ty ?k" and ?h = "hd (sort_key lastSeen (onlineAgents ty ?k))"
  let ?g = "bump (tw_now w) agent ?conv ?tick"
  from assignEntity_online [OF team online, of i r] first turns have agent: "agent = ap_id (fst ?h)"
    and db: "tw_db w' = repoUpdateCounters (tw_now w) agent ?conv ?tick t (tw_db w)" by (auto simp: ranked_def)
  have known: "knownAgents t (findTeamMembers teamId t (tw_db w')) (tw_db w') = map ?g ?k" by (simp add: db knownAgents_counters)
  have h: "?h \<in> set ?o" using hd_sort_key [OF online, of lastSeen] by simp
  have hk: "?h \<in> set ?k" using h by (simp add: onlineAgents_def)
  from room obtain y where "y \<in> set (onlineAgents ty (map ?g ?k))" "ap_id (fst y) = agent" unfolding known by (elim imageE) simp
  then have y: "y \<in> ?g ` set ?k" "ap_id (fst y) = agent" "hasCapacity ty y" by (simp_all add: onlineAgents_def)
  then obtain x where x: "x \<in> set ?k" "ap_id (fst x) = agent" "hasCapacity ty (?g x)" by (elim imageE) (metis bump_keeps(1))
  have "findProfileById agent t (tw_db w) = Some (fst x)" "findAvailability agent t (tw_db w) = Some (snd x)"
    using knownAgents_inD [OF x(1)] x(2) by simp_all
  moreover have "findProfileById agent t (tw_db w) = Some (fst ?h)" "findAvailability agent t (tw_db w) = Some (snd ?h)"
    using knownAgents_inD [OF hk] agent by simp_all
  ultimately have "x = ?h" by (simp add: prod_eq_iff)
  with x agent have "hasCapacity ty (bump (tw_now w) (ap_id (fst ?h)) ?conv ?tick ?h)" by simp
  from onlineAgents_bump [OF h this] agent known
  have online': "onlineAgents ty (knownAgents t (findTeamMembers teamId t (tw_db w')) (tw_db w')) = map ?g ?o" by simp
  have "sort_key lastSeen ?o \<noteq> []" using online by (metis length_0_conv length_sort)
  then have "ap_id (fst (hd (sort_key lastSeen (map ?g ?o)))) = agent"
    by (simp add: sort_key_map hd_map agent)
  moreover have "map ?g ?o \<noteq> []" using online by simp
  ultimately show ?thesis
    using assignEntity_online [of teamId t w' team ty j s] team turns online' by (auto simp: db ranked_def)
qed

subsection \<open>Working hours that are lost\<close>

lemma find_saved:
  assumes "List.find P rows = Some r" "same r" "\<And>x. P (f x)"
  shows "\<exists>x. List.find P (map (\<lambda>x. if same x then f x else x) rows) = Some (f x)"
  using assms by (induction rows) (auto split: if_splits)

lemma updateAvailability_result:
  assumes a: "findAvailability agent t (tw_db w) = Some a"
  shows "\<exists>w' b. updateAvailability t agent status workingHours u w = (Inr (Availability_update (tw_now w) status workingHours a), w') \<and>
    findAvailability agent t (tw_db w') = Some b \<and> av_status b = status \<and>
    av_workingHours b = Some (orDefault workingHours [])"
proof -
  let ?a = "Availability_update (tw_now w) status workingHours a"
  let ?db = "saveAvailability (tw_now w) ?a t (tw_db w)"
  let ?P = "\<lambda>x. av_agentProfileId x = agent \<and> av_tenantId x = t"
  from a obtain r where r: "List.find ?P (tb_availability (tw_db w)) = Some r" "av_id a = av_id r"
      "av_agentProfileId a = av_agentProfileId r" "av_tenantId a = av_tenantId r"
    by (auto simp: findAvailability_def)
  then have row: "r \<in> set (tb_availability (tw_db w))" "?P r" by (auto simp: find_Some_iff)
  define f where "f = (\<lambda>x :: AgentAvailability. (availabilityColumns (tw_now w) ?a)\<lparr>av_createdAt := av_createdAt x\<rparr>)"
  have P: "?P (f x)" for x :: AgentAvailability
    using r row by (simp add: f_def availabilityColumns_def Availability_update_def)
  from find_saved [of ?P "tb_availability (tw_db w)" r "\<lambda>x. av_id x = av_id ?a \<and> av_tenantId x = t" f] r row P
  obtain x where "List.find ?P (map (\<lambda>x. if av_id x = av_id ?a \<and> av_tenantId x = t then f x else x) (tb_availability (tw_db w))) = Some (f x)"
    by (auto simp: Availability_update_def)
  moreover have "list_ex (\<lambda>x. av_id x = av_id ?a \<and> av_tenantId x = t) (tb_availability (tw_db w))"
    using r row by (auto simp: list_ex_iff Availability_update_def)
  ultimately have "List.find ?P (tb_availability ?db) = Some (f x)" unfolding f_def by (simp add: saveAvailability_def)
  then have b: "\<exists>b. findAvailability agent t ?db = Some b \<and> av_status b = status \<and> av_workingHours b = Some (orDefault workingHours [])"
    by (simp add: findAvailability_def f_def availabilityColumns_def Availability_update_def orDefault_def split: option.splits)
  obtain w1 where "TeamEventPublisher_publish (AvailabilityUpdatedEvent t agent status) (w\<lparr>tw_db := ?db\<rparr>) = (Inr (), w1) \<and> tw_db w1 = ?db"
    using publish_keeps [of "AvailabilityUpdatedEvent t agent status" "w\<lparr>tw_db := ?db\<rparr>"] by auto
  with a b show ?thesis
    by (auto simp: updateAvailability_def getAvailabilityOrThrow_def tmRead_def tmNow_def tmWrite_def tmLog_def svc_simps Let_def)
qed

text \<open>Being away erases the working hours. When an online agent has not been seen for more than a
  quarter of an hour, the synchronisation job marks it as away, and since it hands on no working
  hours, those on record are replaced by none.\<close>

theorem idle_agent_loses_its_working_hours:
  assumes "findAvailability agent t (tw_db w) = Some a" "av_status a = ''ONLINE''" "15 * 60000 < tw_now w - av_lastSeenAt a"
  shows "\<exists>w' b. handleTeamJob (AvailabilitySyncJob agent, Some t) w = (Inr (JObj [(''status'', JStr ''synced'')]), w') \<and>
    findAvailability agent t (tw_db w') = Some b \<and> av_status b = ''AWAY'' \<and> av_workingHours b = Some []"
proof -
  from updateAvailability_result [OF assms(1), of "''AWAY''" None None] obtain w' b where
    "updateAvailability t agent ''AWAY'' None None w = (Inr (Availability_update (tw_now w) ''AWAY'' None a), w')"
    "findAvailability agent t (tw_db w') = Some b" "av_status b = ''AWAY''" "av_workingHours b = Some []"
    by (auto simp: orDefault_def)
  with assms show ?thesis
    by (auto simp: handleTeamJob_def Let_def inTemplate_def getAvailabilityOrThrow_def tmRead_def tmNow_def svc_simps)
qed

subsection \<open>Agents that cannot come back\<close>

lemma find_NoneI: "(\<And>x. x \<in> set xs \<Longrightarrow> \<not> P x) \<Longrightarrow> List.find P xs = None"
  by (auto simp: find_None_iff)

text \<open>A deleted agent cannot be created again. After the deletion no profile of the user is found, so
  the check for a conflict passes, but the row is still there and the unique index on tenant and user counts it: the
  insertion fails with the error of the database, and nothing is stored.\<close>

theorem deleted_agent_cannot_be_created_again:
  assumes found: "findProfileById i t (tw_db w) = Some p"
    and unique: "uniqueProfiles (tb_profiles (tw_db w)) = Inr rows"
    and deleted: "AgentProfileService_delete t i u w = (Inr True, w1)"
    and dto: "apd_userId dto = ap_userId p" "apd_employeeCode dto = None" "apd_capacity dto = None"
      "apd_maxConcurrentConversations dto = None" "apd_maxOpenTickets dto = None"
    and new: "tw_uuid w1 (tw_uuidNext w1) \<notin> ap_id ` set (tb_profiles (tw_db w1))"
    and allowed: "\<And>n. enforceLimit t n = Inr ()"
  shows "findProfileByUserId (ap_userId p) t (tw_db w1) = None \<and>
    (\<exists>w2. AgentProfileService_create enforceLimit t dto v w1 =
       (Inl (Error ''duplicate key value violates unique constraint uq_agent_profiles_tenant_user''), w2) \<and> tw_db w2 = tw_db w1)"
proof -
  let ?rows = "tb_profiles (tw_db w)"
  let ?d = "\<lambda>r. if sameProfile i t r then r\<lparr>ap_deletedAt := Some (tw_now w), ap_status := ''INACTIVE''\<rparr> else r"
  from found have p: "p \<in> set ?rows" "sameProfile i t p" by (auto simp: findProfileById_def find_Some_iff sameProfile_def liveProfile_def)
  then have "list_ex (sameProfile i t) ?rows" by (auto simp: list_ex_iff)
  with deleted found have db: "tb_profiles (tw_db w1) = map ?d ?rows"
    by (auto simp: AgentProfileService_delete_def getProfileOrThrow_def tmRead_def tmWrite_def tmLog_def deleteProfile_def svc_simps)
  from unique have inj: "inj_on (\<lambda>r. (ap_tenantId r, ap_userId r)) (set ?rows)"
    by (auto simp: uniqueProfiles_def distinct_map split: if_splits)
  have gone: "findProfileByUserId (ap_userId p) t (tw_db w1) = None"
    unfolding findProfileByUserId_def
  proof (rule find_NoneI)
    fix x assume "x \<in> set (tb_profiles (tw_db w1))"
    then obtain r where r: "r \<in> set ?rows" "x = ?d r" unfolding db by (auto simp only: set_map)
    have "r = p" if "ap_userId r = ap_userId p" "ap_tenantId r = t"
      using inj_onD [OF inj, of r p] that p r(1) by (simp add: sameProfile_def)
    then show "\<not> (ap_userId x = ap_userId p \<and> liveProfile t x)"
      using r(2) p(2) by (auto simp: liveProfile_def)
  qed
  have row: "?d p \<in> set (tb_profiles (tw_db w1))" unfolding db set_map by (rule imageI [OF p(1)])
  have "(t, ap_userId p) \<in> (\<lambda>r. (ap_tenantId r, ap_userId r)) ` set (tb_profiles (tw_db w1))"
    by (rule image_eqI [OF _ row]) (use p(2) in \<open>simp add: sameProfile_def\<close>)
  then have clash: "uniqueProfiles (tb_profiles (tw_db w1) @ [x]) = Inl (Error ''duplicate key value violates unique constraint uq_agent_profiles_tenant_user'')"
    if "ap_tenantId x = t" "ap_userId x = ap_userId p" for x
    using that by (simp add: uniqueProfiles_def)
  have fresh: "\<not> list_ex (sameProfile (tw_uuid w1 (tw_uuidNext w1)) t) (tb_profiles (tw_db w1))"
    using new by (simp add: list_ex_iff sameProfile_def) (metis imageI)
  have "saveProfile now q t (tw_db w1) = Inl (Error ''duplicate key value violates unique constraint uq_agent_profiles_tenant_user'')"
    if "ap_id q = tw_uuid w1 (tw_uuidNext w1)" "ap_tenantId q = t" "ap_userId q = ap_userId p" for now q
    using fresh that clash by (simp add: saveProfile_def profileColumns_def)
  with gone dto allowed show ?thesis
    by (simp add: AgentProfileService_create_def tmRead_def tmNow_def tmUUID_def tmWrite_def AgentCapacity_create_def orDefault_def
        svc_simps Let_def)
qed

subsection \<open>A team of two\<close>

definition sampleAgent :: "uid \<Rightarrow> rat \<Rightarrow> AgentProfile" where
  "sampleAgent i s = \<lparr>ap_id = i, ap_tenantId = ''acme'', ap_userId = ''user-'' @ i, ap_employeeCode = None, ap_displayName = i,
     ap_avatarUrl = None, ap_status = ''ACTIVE'',
     ap_capacity = \<lparr>cp_capacity = 10, cp_maxConcurrentConversations = 5, cp_maxOpenTickets = 20\<rparr>, ap_skillScore = s,
     ap_timezone = ''UTC'', ap_languagePreferences = [], ap_metadata = Map.empty, ap_deletedAt = None, ap_createdAt = 0, ap_updatedAt = 0\<rparr>"

definition samplePresence :: "uid \<Rightarrow> millis \<Rightarrow> int \<Rightarrow> AgentAvailability" where
  "samplePresence i seen n = \<lparr>av_id = ''av-'' @ i, av_tenantId = ''acme'', av_agentProfileId = i, av_status = ''ONLINE'',
     av_lastSeenAt = seen, av_workingHours = Some [(''mon'', JStr ''9-17'')], av_currentLoad = n, av_activeConversations = 0,
     av_activeTickets = n, av_createdAt = 0, av_updatedAt = 0\<rparr>"

definition sampleTeamWorld :: TeamWorld where
  "sampleTeamWorld =
     \<lparr>tw_db = \<lparr>tb_teams = [\<lparr>trw_id = ''team'', trw_tenantId = ''acme'', trw_name = ''Support'', trw_description = None, trw_department = None,
          trw_priority = 1, trw_isActive = True, trw_deletedAt = None, trw_createdAt = 0, trw_updatedAt = 0, trw_version = 1\<rparr>],
        tb_members = [newMember 0 ''m1'' ''acme'' ''team'' ''ann'' ''MEMBER'', newMember 0 ''m2'' ''acme'' ''team'' ''bob'' ''MEMBER''],
        tb_rules = [], tb_profiles = [sampleAgent ''ann'' 1, sampleAgent ''bob'' 2],
        tb_availability = [samplePresence ''ann'' 100 3, samplePresence ''bob'' 200 0]\<rparr>,
      tw_now = 1000000, tw_uuid = (\<lambda>n. ''u'' @ showNat n), tw_uuidNext = 0, tw_tenantContext = None, tw_queueUp = True, tw_jobs = [], tw_audit = []\<rparr>"

definition sampleAgentDto :: AgentProfileDto where
  "sampleAgentDto = \<lparr>apd_userId = ''user-ann'', apd_employeeCode = None, apd_displayName = ''Ann'', apd_avatarUrl = None, apd_capacity = None,
     apd_maxConcurrentConversations = None, apd_maxOpenTickets = None, apd_skillScore = None, apd_timezone = None,
     apd_languagePreferences = None, apd_metadata = None\<rparr>"


lemma sample_team:
  "findTeamById ''team'' ''acme'' (tw_db sampleTeamWorld) = Some (the (findTeamById ''team'' ''acme'' (tw_db sampleTeamWorld)))"
  "activeStrategy (findRules ''team'' ''acme'' (tw_db sampleTeamWorld)) = ROUND_ROBIN"
  "onlineAgents TicketEntity (knownAgents ''acme'' (findTeamMembers ''team'' ''acme'' (tw_db sampleTeamWorld)) (tw_db sampleTeamWorld)) =
     [(sampleAgent ''ann'' 1, samplePresence ''ann'' 100 3), (sampleAgent ''bob'' 2, samplePresence ''bob'' 200 0)]"
  by (simp_all add: sampleTeamWorld_def findTeamById_def findRules_def findTeamMembers_def knownAgents_def map_filter_simps
      activeStrategy_def newMember_def findProfileById_def findAvailability_def liveProfile_def sampleAgent_def samplePresence_def
      onlineAgents_def hasCapacity_def)


definition afterFirst :: TeamWorld where
  "afterFirst = snd (assignEntity ''acme'' ''team'' ''tk1'' TicketEntity None sampleTeamWorld)"

theorem round_robin_stays_with_one_agent_witness:
  "\<exists>w''. assignEntity ''acme'' ''team'' ''tk2'' TicketEntity None afterFirst = (Inr ''ann'', w'')"
proof (rule round_robin_stays_with_one_agent [OF sample_team(1,2)])
  show "onlineAgents TicketEntity (knownAgents ''acme'' (findTeamMembers ''team'' ''acme'' (tw_db sampleTeamWorld)) (tw_db sampleTeamWorld)) \<noteq> []"
    by (simp add: sample_team)
  have "fst (assignEntity ''acme'' ''team'' ''tk1'' TicketEntity None sampleTeamWorld) = Inr ''ann''" by code_simp
  then show "assignEntity ''acme'' ''team'' ''tk1'' TicketEntity None sampleTeamWorld = (Inr ''ann'', afterFirst)"
    by (simp add: afterFirst_def prod_eq_iff)
  have "list_ex (\<lambda>c. ap_id (fst c) = ''ann'') (onlineAgents TicketEntity
      (knownAgents ''acme'' (findTeamMembers ''team'' ''acme'' (tw_db afterFirst)) (tw_db afterFirst)))" by code_simp
  then show "''ann'' \<in> (\<lambda>c. ap_id (fst c)) ` set (onlineAgents TicketEntity
      (knownAgents ''acme'' (findTeamMembers ''team'' ''acme'' (tw_db afterFirst)) (tw_db afterFirst)))" by (force simp: list_ex_iff)
qed

theorem idle_agent_loses_its_working_hours_witness:
  "av_workingHours (samplePresence ''ann'' 100 3) = Some [(''mon'', JStr ''9-17'')] \<and>
   (\<exists>w' b. handleTeamJob (AvailabilitySyncJob ''ann'', Some ''acme'') sampleTeamWorld = (Inr (JObj [(''status'', JStr ''synced'')]), w') \<and>
     findAvailability ''ann'' ''acme'' (tw_db w') = Some b \<and> av_status b = ''AWAY'' \<and> av_workingHours b = Some [])"
proof
  have "findAvailability ''ann'' ''acme'' (tw_db sampleTeamWorld) = Some (samplePresence ''ann'' 100 3)"
    "av_status (samplePresence ''ann'' 100 3) = ''ONLINE''" "15 * 60000 < tw_now sampleTeamWorld - av_lastSeenAt (samplePresence ''ann'' 100 3)"
    by (simp_all add: sampleTeamWorld_def findAvailability_def samplePresence_def)
  then show "\<exists>w' b. handleTeamJob (AvailabilitySyncJob ''ann'', Some ''acme'') sampleTeamWorld = (Inr (JObj [(''status'', JStr ''synced'')]), w') \<and>
     findAvailability ''ann'' ''acme'' (tw_db w') = Some b \<and> av_status b = ''AWAY'' \<and> av_workingHours b = Some []"
    by (rule idle_agent_loses_its_working_hours)
qed (simp add: samplePresence_def)

definition afterDelete :: TeamWorld where
  "afterDelete = snd (AgentProfileService_delete ''acme'' ''ann'' None sampleTeamWorld)"

theorem deleted_agent_cannot_be_created_again_witness:
  "findProfileByUserId ''user-ann'' ''acme'' (tw_db afterDelete) = None \<and>
   (\<exists>w2. AgentProfileService_create (\<lambda>_ _. Inr ()) ''acme'' sampleAgentDto None afterDelete =
      (Inl (Error ''duplicate key value violates unique constraint uq_agent_profiles_tenant_user''), w2) \<and> tw_db w2 = tw_db afterDelete)"
proof -
  have "findProfileById ''ann'' ''acme'' (tw_db sampleTeamWorld) = Some (sampleAgent ''ann'' 1)"
    "uniqueProfiles (tb_profiles (tw_db sampleTeamWorld)) = Inr (tb_profiles (tw_db sampleTeamWorld))"
    by (simp_all add: sampleTeamWorld_def findProfileById_def liveProfile_def sampleAgent_def uniqueProfiles_def)
  moreover have "fst (AgentProfileService_delete ''acme'' ''ann'' None sampleTeamWorld) = Inr True" by code_simp
  then have "AgentProfileService_delete ''acme'' ''ann'' None sampleTeamWorld = (Inr True, afterDelete)"
    by (simp add: afterDelete_def prod_eq_iff)
  moreover have "\<not> list_ex (\<lambda>p. ap_id p = tw_uuid afterDelete (tw_uuidNext afterDelete)) (tb_profiles (tw_db afterDelete))" by code_simp
  then have "tw_uuid afterDelete (tw_uuidNext afterDelete) \<notin> ap_id ` set (tb_profiles (tw_db afterDelete))" by (auto simp: list_ex_iff)
  moreover have "ap_userId (sampleAgent ''ann'' 1) = ''user-ann''" by (simp add: sampleAgent_def)
  ultimately show ?thesis
    using deleted_agent_cannot_be_created_again [of "''ann''" "''acme''" sampleTeamWorld "sampleAgent ''ann'' 1" _ None afterDelete
        sampleAgentDto "\<lambda>_ _. Inr ()" None]
    by (simp add: sampleAgentDto_def)
qed

end
