(* ===== verification/Settings_Properties.thy ===== *)
theory Settings_Properties
  imports Settings_Service Team_Properties
begin

text \<open>
  Feature flags: the bucket of a user, the answer of a gradual rollout, what a saved flag does, and what the cache does to
  the users of a tenant. Plan limits: when an action is refused, what billing data can do to a limit, and the limit on agents
  across the two modules.
\<close>

subsection \<open>Buckets\<close>

unbundle bit_operations_syntax

lemma shl5_range: "- (2 ^ 31) \<le> shl5 h" "shl5 h < 2 ^ 31"
  using sint_range_size [of "push_bit 5 (word_of_int h :: 32 word)"] by (simp_all add: shl5_def word_size)

lemma shl5_mod: "shl5 h mod 2 ^ 32 = 32 * h mod 2 ^ 32"
proof -
  have "(word_of_int (shl5 h) :: 32 word) = word_of_int (32 * h)"
    by (simp add: shl5_def push_bit_eq_mult mult.commute)
  then have "uint (word_of_int (shl5 h) :: 32 word) = uint (word_of_int (32 * h) :: 32 word)" by (simp only:)
  then show ?thesis unfolding uint_word_of_int by simp
qed

definition polyHash :: "string \<Rightarrow> int" where
  "polyHash s = foldl (\<lambda>h c. 31 * h + of_char c) 0 s"

lemma hash_mod: "foldl hashStep 0 s mod 2 ^ 32 = polyHash s mod 2 ^ 32"
proof (induction s rule: rev_induct)
  case (snoc c s)
  let ?h = "foldl hashStep 0 s" and ?p = "polyHash s"
  have step: "(a + (x - y)) mod m = (a + (x mod m - y mod m)) mod m" for a x y m :: int by (metis mod_add_right_eq mod_diff_eq)
  have "hashStep ?h c mod 2 ^ 32 = (of_char c + (shl5 ?h mod 2 ^ 32 - ?h mod 2 ^ 32)) mod 2 ^ 32"
    unfolding hashStep_def by (rule step)
  also have "\<dots> = (of_char c + (32 * ?h - ?h)) mod 2 ^ 32" by (simp only: shl5_mod step [symmetric])
  also have "\<dots> = (31 * ?h + of_char c) mod 2 ^ 32" by (simp add: algebra_simps)
  also have "\<dots> = (31 * (?h mod 2 ^ 32) + of_char c) mod 2 ^ 32" by (metis mod_add_left_eq mod_mult_right_eq)
  also have "\<dots> = (31 * ?p + of_char c) mod 2 ^ 32" unfolding snoc by (metis mod_add_left_eq mod_mult_right_eq)
  finally show ?case by (simp add: polyHash_def)
qed (simp add: polyHash_def)

lemma char_code_range: "0 \<le> (of_char c :: int)" "(of_char c :: int) \<le> 255"
proof -
  have "(of_char c :: int) = int (of_char c)" by (simp add: of_char_def horner_sum_of_bool_2_less)
  moreover have "(of_char c :: nat) < 256" using of_char_mod_256 [of c, where ?'a = nat] by (metis mod_less_divisor zero_less_numeral)
  ultimately show "0 \<le> (of_char c :: int)" "(of_char c :: int) \<le> 255" by linarith+
qed

lemma hash_bound: "\<bar>foldl hashStep 0 s\<bar> \<le> int (length s) * (2 ^ 31 + 255)"
proof (induction s rule: rev_induct)
  case (snoc c s)
  have "\<bar>hashStep (foldl hashStep 0 s) c\<bar> \<le> (2 ^ 31 + 255) + \<bar>foldl hashStep 0 s\<bar>"
    using shl5_range [of "foldl hashStep 0 s"] char_code_range [of c] by (simp add: hashStep_def)
  with snoc show ?case by (simp add: algebra_simps)
qed simp

text \<open>The bucket of a user or tenant is the absolute value of a hash modulo one hundred, so one of a hundred. The hash
  is the polynomial one with factor 31 up to multiples of two to the 32, and each character adds at most two to the 31 plus
  255 to its size: for an identifier of up to four million characters every intermediate number is below two to
  the 53, where the arithmetic of the code is exact.\<close>

theorem bucket_comes_from_an_exact_hash:
  "0 \<le> getDeterministicPercentage i \<and> getDeterministicPercentage i < 100 \<and>
   foldl hashStep 0 i mod 2 ^ 32 = polyHash i mod 2 ^ 32 \<and> \<bar>foldl hashStep 0 i\<bar> \<le> int (length i) * (2 ^ 31 + 255) \<and>
   (length i \<le> 4000000 \<longrightarrow> \<bar>foldl hashStep 0 i\<bar> < 2 ^ 53)"
proof -
  have "\<bar>foldl hashStep 0 i\<bar> < 2 ^ 53" if "length i \<le> 4000000"
  proof -
    have "int (length i) * (2 ^ 31 + 255) \<le> 4000000 * (2 ^ 31 + 255)" using that by (intro mult_right_mono) auto
    with hash_bound [of i] show ?thesis by simp
  qed
  then show ?thesis using hash_mod [of i] hash_bound [of i] by (simp add: getDeterministicPercentage_def)
qed

theorem bucket_comes_from_an_exact_hash_witness: "\<bar>foldl hashStep 0 ''user-42''\<bar> < 2 ^ 53"
  using bucket_comes_from_an_exact_hash [of "''user-42''"] by simp

subsection \<open>The answer of a flag\<close>

lemma bucket_range: "0 \<le> getDeterministicPercentage i" "getDeterministicPercentage i < 100"
  by (simp_all add: getDeterministicPercentage_def)

definition cacheMiss :: "uid \<Rightarrow> string \<Rightarrow> SettingsWorld \<Rightarrow> bool" where
  "cacheMiss t k w \<longleftrightarrow> \<not> (sw_isRedisConnected w \<and> sw_redisUp w \<and> liveEntry (sw_now w) (flagCacheKey t k) (sw_redis w) \<noteq> None)"

definition noOverride :: "string \<Rightarrow> SettingsWorld \<Rightarrow> bool" where
  "noOverride k w \<longleftrightarrow> sw_env w (''FEATURE_FLAG_'' @ toUpperCase k) = None"

definition remembered :: "uid \<Rightarrow> string \<Rightarrow> bool \<Rightarrow> SettingsWorld \<Rightarrow> SettingsWorld" where
  "remembered t k b w =
     (if sw_isRedisConnected w \<and> sw_redisUp w
      then w\<lparr>sw_redis := (sw_redis w)(flagCacheKey t k \<mapsto> (CachedText (boolText b), sw_now w + 60 * 1000))\<rparr> else w)"

lemma resolveFlag_miss:
  assumes "noOverride k w" "cacheMiss t k w" "getFeatureFlagByKey t k (sw_db w) = Some flag"
  shows "resolveFlag t k u w = (Inr (flagAnswer t u flag), remembered t k (flagAnswer t u flag) w)"
  using assms
  by (cases "sw_isRedisConnected w"; cases "sw_redisUp w")
    (simp_all add: resolveFlag_def noOverride_def cacheMiss_def remembered_def seRedisGet_def seRedisSet_def ignoring_def seRead_def svc_simps Let_def
      del: append_Cons)

lemma resolveFlag_hit:
  assumes "noOverride k w" "sw_isRedisConnected w" "sw_redisUp w" "liveEntry (sw_now w) (flagCacheKey t k) (sw_redis w) = Some v"
  shows "resolveFlag t k u w = (Inr (v = CachedText ''true''), w)"
  using assms by (simp add: resolveFlag_def noOverride_def seRedisGet_def svc_simps del: append_Cons)

lemma boolText_eq [simp]: "boolText b = ''true'' \<longleftrightarrow> b"
  by (simp add: boolText_def)

text \<open>A gradual rollout is decided by the bucket alone. Without an override of the environment and without a
  remembered answer, an enabled flag is on exactly for the users (or, without a user, the tenants) whose bucket is below its
  percentage: for nobody at 0, for everybody at 100, and who has the feature keeps it when the
  percentage is raised.\<close>

theorem rollout_reaches_the_buckets_below_the_percentage:
  assumes "noOverride k w" "cacheMiss t k w" "getFeatureFlagByKey t k (sw_db w) = Some flag" "ff_enabled flag"
  shows "fst (resolveFlag t k u w) = Inr (getDeterministicPercentage (textOr u t) < ff_rolloutPercentage flag)"
  using resolveFlag_miss [OF assms(1-3)] assms(4) bucket_range [of "textOr u t"] by (auto simp: flagAnswer_def)

text \<open>The remembered answer has no user in it. Whatever the first user of a tenant was told, every user of that tenant is
  told for the next minute, whatever their buckets, and even after the row of the flag has been changed behind the
  service.\<close>

theorem first_user_decides_for_a_minute:
  assumes "noOverride k w" "cacheMiss t k w" "getFeatureFlagByKey t k (sw_db w) = Some flag"
    and up: "sw_isRedisConnected w" "sw_redisUp w"
    and first: "resolveFlag t k u w = (Inr b, w')"
    and later: "sw_now w \<le> now" "now < sw_now w + 60000"
  shows "fst (resolveFlag t k v (w'\<lparr>sw_now := now, sw_db := db\<rparr>)) = Inr b"
proof -
  from resolveFlag_miss [OF assms(1-3), of u] first have b: "b = flagAnswer t u flag" "w' = remembered t k b w" by simp_all
  with up later have "liveEntry now (flagCacheKey t k) (sw_redis w') = Some (CachedText (boolText b))"
    by (simp add: remembered_def liveEntry_def)
  moreover from b up assms(1) have "noOverride k (w'\<lparr>sw_now := now, sw_db := db\<rparr>)" "sw_isRedisConnected w'" "sw_redisUp w'"
    by (simp_all add: remembered_def noOverride_def del: append_Cons)
  ultimately show ?thesis by (simp add: resolveFlag_hit)
qed

subsection \<open>Saved flags\<close>

lemma getFeatureFlagByKey_save:
  "\<exists>c. getFeatureFlagByKey (ff_tenantId flag) (ff_featureKey flag) (saveFeatureFlagRow now flag db) = Some (flag\<lparr>ff_createdAt := c, ff_updatedAt := now\<rparr>)"
proof (cases "getFeatureFlagByKey (ff_tenantId flag) (ff_featureKey flag) db")
  case None
  then have "\<not> list_ex (flagKeyed (ff_tenantId flag) (ff_featureKey flag)) (sb_flags db)"
    by (simp add: getFeatureFlagByKey_def find_None_list_ex)
  from find_append_new [OF this, of "flag\<lparr>ff_updatedAt := now\<rparr>"] None show ?thesis
    by (intro exI [of _ "ff_createdAt flag"], cases flag) (simp add: saveFeatureFlagRow_def getFeatureFlagByKey_def flagKeyed_def)
next
  case (Some r)
  then have "List.find (flagKeyed (ff_tenantId flag) (ff_featureKey flag)) (sb_flags db) = Some r" by (simp add: getFeatureFlagByKey_def)
  from find_saved [OF this, of "\<lambda>x. ff_id x = ff_id r" "\<lambda>x. flag\<lparr>ff_createdAt := ff_createdAt x, ff_updatedAt := now\<rparr>"] Some
  show ?thesis by (auto simp: saveFeatureFlagRow_def getFeatureFlagByKey_def flagKeyed_def)
qed

definition eventJobs :: "uid \<Rightarrow> string \<Rightarrow> string \<Rightarrow> settings_job list" where
  "eventJobs t ev k = [SettingsSyncJob t ev, SettingsAuditJob t ev] @ (if ev = ''feature_flag.updated'' then [FeatureFlagRefreshJob t k] else []) @
     (if ev = ''usage_limit.updated'' then [UsageLimitJob t] else [])"

lemma publish_settings:
  "SettingsEventPublisher_publish t ev k w =
     (Inr (), w\<lparr>sw_jobs := sw_jobs w @ (if sw_queueUp w then map (\<lambda>j. (j, sw_tenantContext w)) (eventJobs t ev k) else [])\<rparr>)"
proof -
  define flag where "flag = (ev = ''feature_flag.updated'')"
  define usage where "usage = (ev = ''usage_limit.updated'')"
  show ?thesis
    unfolding SettingsEventPublisher_publish_def eventJobs_def flag_def [symmetric] usage_def [symmetric]
    by (cases "sw_queueUp w"; cases flag; cases usage) (simp_all add: ignoring_def seAddJob_def svc_simps)
qed

lemma invalidate_flag:
  assumes "sw_redisUp w \<or> \<not> sw_isRedisConnected w"
  shows "invalidateCache t k w = (Inr (), w\<lparr>sw_redis := (if sw_isRedisConnected w then (sw_redis w)(flagCacheKey t k := None) else sw_redis w)\<rparr>)"
  using assms by (cases w) (auto simp: invalidateCache_def seRedisDel_def ignoring_def svc_simps)

text \<open>A saved flag is in force at once. When the flag cache answers (or is not used), saving a flag forgets the
  remembered answer, and the next question of any user is answered by the saved state and percentage.\<close>

theorem saved_flag_is_in_force_at_once:
  assumes "noOverride (sfd_featureKey dto) w" "sw_redisUp w \<or> \<not> sw_isRedisConnected w"
  shows "\<exists>flag w'. saveFeatureFlag t dto w = (Inr flag, w') \<and> ff_featureKey flag = sfd_featureKey dto \<and>
    fst (resolveFlag t (sfd_featureKey dto) u w') =
      Inr (sfd_enabled dto \<and> (sfd_rolloutPercentage dto < 100 \<longrightarrow> getDeterministicPercentage (textOr u t) < sfd_rolloutPercentage dto))"
proof -
  let ?k = "sfd_featureKey dto"
  define found where "found = getFeatureFlagByKey t ?k (sw_db w)"
  define w1 where "w1 = (case found of None \<Rightarrow> w\<lparr>sw_uuidNext := sw_uuidNext w + 1\<rparr> | Some _ \<Rightarrow> w)"
  define flag where "flag = \<lparr>ff_id = (case found of Some f \<Rightarrow> ff_id f | None \<Rightarrow> sw_uuid w (sw_uuidNext w)), ff_tenantId = t, ff_featureKey = ?k,
    ff_enabled = sfd_enabled dto, ff_rolloutPercentage = sfd_rolloutPercentage dto,
    ff_configuration = definedOr (sfd_configuration dto) (case found of Some f \<Rightarrow> ff_configuration f | None \<Rightarrow> []),
    ff_createdAt = (case found of Some f \<Rightarrow> ff_createdAt f | None \<Rightarrow> sw_now w), ff_updatedAt = sw_now w\<rparr>"
  define w2 where "w2 = w1\<lparr>sw_db := saveFeatureFlagRow (sw_now w) flag (sw_db w),
    sw_redis := (if sw_isRedisConnected w then (sw_redis w)(flagCacheKey t ?k := None) else sw_redis w)\<rparr>"
  define jobs where "jobs = sw_jobs w2 @ (if sw_queueUp w2 then map (\<lambda>j. (j, sw_tenantContext w2)) (eventJobs t ''feature_flag.updated'' ?k) else [])"
  have inv: "invalidateCache t ?k (w1\<lparr>sw_db := saveFeatureFlagRow (sw_now w) flag (sw_db w)\<rparr>) = (Inr (), w2)"
    using assms(2) by (subst invalidate_flag) (auto simp: w1_def w2_def split: option.splits)
  have pub: "SettingsEventPublisher_publish t ''feature_flag.updated'' ?k w2 = (Inr (), w2\<lparr>sw_jobs := jobs\<rparr>)"
    by (simp only: publish_settings jobs_def)
  have saved: "saveFeatureFlag t dto w = (Inr flag, w2\<lparr>sw_jobs := jobs\<rparr>)"
  proof (cases found)
    case None
    with inv pub show ?thesis
      by (simp add: saveFeatureFlag_def found_def [symmetric] w1_def flag_def seRead_def seUUID_def seNow_def seWrite_def svc_simps Let_def)
  next
    case (Some f)
    with inv pub show ?thesis
      by (simp add: saveFeatureFlag_def found_def [symmetric] w1_def flag_def seRead_def seUUID_def seNow_def seWrite_def svc_simps Let_def)
  qed
  obtain c where row: "getFeatureFlagByKey t ?k (sw_db w2) = Some (flag\<lparr>ff_createdAt := c, ff_updatedAt := sw_now w\<rparr>)"
    using getFeatureFlagByKey_save [of flag "sw_now w" "sw_db w"] by (auto simp: w2_def flag_def)
  have "cacheMiss t ?k (w2\<lparr>sw_jobs := jobs\<rparr>)" "noOverride ?k (w2\<lparr>sw_jobs := jobs\<rparr>)"
    using assms by (simp_all add: cacheMiss_def noOverride_def w2_def w1_def liveEntry_def split: option.splits del: append_Cons)
  from resolveFlag_miss [OF this(2,1), of _ u] row saved show ?thesis
    by (simp add: flagAnswer_def) (simp add: flag_def)
qed

subsection \<open>Plan limits\<close>

definition soundLimits :: "UsageLimits \<Rightarrow> bool" where
  "soundLimits l \<longleftrightarrow> limitsFit l \<and> list_all (\<lambda>n. 0 \<le> n) [ul_maxAgents l, ul_maxConversations l, ul_maxMessages l, ul_maxWorkflows l,
     ul_maxConnectors l, ul_maxDocuments l, ul_maxStorage l, ul_maxAiRequests l]"

definition soundDb :: "SettingsDb \<Rightarrow> bool" where
  "soundDb db \<longleftrightarrow> list_all soundLimits (sb_limits db)"

lemma soundLimits_stamps [simp]: "soundLimits (l\<lparr>ul_createdAt := c, ul_updatedAt := u\<rparr>) = soundLimits l" "soundLimits (l\<lparr>ul_updatedAt := u\<rparr>) = soundLimits l"
  "soundLimits (l\<lparr>ul_createdAt := c\<rparr>) = soundLimits l"
  by (simp_all add: soundLimits_def limitsFit_def)

lemma saveUsageLimits_sound:
  assumes "soundDb db" "soundLimits l"
  shows "\<exists>db'. saveUsageLimits now l db = Inr db' \<and> soundDb db'"
proof -
  have "limitsFit l" using assms(2) by (simp add: soundLimits_def)
  with assms show ?thesis by (auto simp: saveUsageLimits_def soundDb_def list_all_iff Let_def)
qed

lemma sound_row: "soundDb db \<Longrightarrow> getUsageLimitsRow t db = Some l \<Longrightarrow> soundLimits l"
  by (auto simp: getUsageLimitsRow_def soundDb_def list_all_iff dest: find_Some_set)

lemma rawLimits_sound:
  assumes "soundDb (sw_db w)"
  shows "\<exists>l w'. getOrCreateRawLimits t w = (Inr l, w') \<and> soundLimits l \<and> soundDb (sw_db w')"
proof (cases "getUsageLimitsRow t (sw_db w)")
  case None
  define l where "l = \<lparr>ul_id = sw_uuid w (sw_uuidNext w), ul_tenantId = t, ul_maxAgents = 10, ul_maxConversations = 1000, ul_maxMessages = 10000,
    ul_maxWorkflows = 5, ul_maxConnectors = 3, ul_maxDocuments = 50, ul_maxStorage = 1073741824, ul_maxAiRequests = 5000,
    ul_createdAt = sw_now w, ul_updatedAt = sw_now w\<rparr>"
  have "soundLimits l" by (simp add: l_def soundLimits_def limitsFit_def fits_iff)
  moreover from saveUsageLimits_sound [OF assms this] obtain db where "saveUsageLimits (sw_now w) l (sw_db w) = Inr db" "soundDb db" by blast
  ultimately show ?thesis using None
    by (simp add: getOrCreateRawLimits_def seRead_def seUUID_def seNow_def seWrite_def svc_simps Let_def flip: l_def)
qed (use assms sound_row in \<open>auto simp: getOrCreateRawLimits_def seRead_def svc_simps\<close>)

definition soundDto :: "UpdateUsageLimitsDto \<Rightarrow> bool" where
  "soundDto d \<longleftrightarrow> list_all (\<lambda>v. case v of None \<Rightarrow> True | Some n \<Rightarrow> 0 \<le> n) [uld_maxAgents d, uld_maxConversations d, uld_maxMessages d,
     uld_maxWorkflows d, uld_maxConnectors d, uld_maxDocuments d, uld_maxStorage d, uld_maxAiRequests d]"

lemma quota_nonneg: "case quota fs k of None \<Rightarrow> True | Some n \<Rightarrow> 0 \<le> n"
  by (simp add: quota_def split: option.splits json.splits)

lemma sanitizeQuotas_sound:
  assumes "sanitizeQuotas q = Some d"
  shows "soundDto d"
proof (cases q)
  case (Some j)
  with assms obtain fs where "j = JObj fs" by (cases j) (simp_all add: sanitizeQuotas_def)
  with Some assms have "d = \<lparr>uld_maxAgents = quota fs ''maxAgents'', uld_maxConversations = quota fs ''maxConversations'',
      uld_maxMessages = quota fs ''maxMessages'', uld_maxWorkflows = quota fs ''maxWorkflows'', uld_maxConnectors = quota fs ''maxConnectors'',
      uld_maxDocuments = quota fs ''maxDocuments'', uld_maxStorage = quota fs ''maxStorage'', uld_maxAiRequests = quota fs ''maxAiRequests''\<rparr>"
    unfolding sanitizeQuotas_def Let_def by (simp only: option.case json.case split: if_splits) auto
  then show ?thesis by (simp only: soundDto_def list.pred_inject UpdateUsageLimitsDto.simps quota_nonneg simp_thms)
qed (use assms in \<open>simp add: sanitizeQuotas_def\<close>)

lemma definedOr_nonneg: "(case v of None \<Rightarrow> True | Some n \<Rightarrow> 0 \<le> n) \<Longrightarrow> 0 \<le> d \<Longrightarrow> 0 \<le> definedOr v (d :: int)"
  by (simp add: definedOr_def split: option.splits)

lemma UsageLimits_update_sound:
  assumes "soundDto d" "soundLimits l" "limitsFit (UsageLimits_update now d l)"
  shows "soundLimits (UsageLimits_update now d l)"
  using assms by (simp add: soundLimits_def soundDto_def UsageLimits_update_def definedOr_nonneg)

lemma updateUsageLimits_sound:
  assumes "soundDto d" "soundDb (sw_db w)" "updateUsageLimits t d w = (r, w')"
  shows "soundDb (sw_db w')"
proof -
  from rawLimits_sound [OF assms(2), of t] obtain l w1 where raw: "getOrCreateRawLimits t w = (Inr l, w1)" "soundLimits l" "soundDb (sw_db w1)" by blast
  let ?l = "UsageLimits_update (sw_now w1) d l"
  show ?thesis
  proof (cases "limitsFit ?l")
    case True
    from saveUsageLimits_sound [OF raw(3) UsageLimits_update_sound [OF assms(1) raw(2) True]]
    obtain db where "saveUsageLimits (sw_now w1) ?l (sw_db w1) = Inr db" "soundDb db" by blast
    with raw(1) assms(3) show ?thesis
      by (auto simp: updateUsageLimits_def seNow_def seWrite_def publish_settings svc_simps Let_def)
  next
    case False
    with raw assms(3) show ?thesis
      by (auto simp: updateUsageLimits_def seNow_def seWrite_def saveUsageLimits_def svc_simps Let_def)
  qed
qed

lemma ignoring_total: "\<exists>w'. ignoring m w = (Inr (), w') \<and> (\<exists>r. m w = (r, w'))"
  by (cases "m w"; cases "fst (m w)") (auto simp: ignoring_def svc_simps)

lemma maybeSync_sound:
  assumes "soundDb (sw_db w)"
  shows "\<exists>w'. maybeSyncFromBilling t w = (Inr (), w') \<and> soundDb (sw_db w')"
proof (cases "sw_throttleUp w \<and> liveEntry (sw_now w) (''billing-sync:'' @ t) (sw_throttle w) \<noteq> None")
  case True
  with assms show ?thesis by (simp add: maybeSyncFromBilling_def svc_simps del: append_Cons)
next
  case False
  let ?m = "case sanitizeQuotas (sw_quotas w t) of None \<Rightarrow> ret () | Some dto \<Rightarrow> ignoring (andThen (updateUsageLimits t dto) (\<lambda>_. ret ()))"
  have "\<exists>w1. ?m w = (Inr (), w1) \<and> soundDb (sw_db w1)"
  proof (cases "sanitizeQuotas (sw_quotas w t)")
    case (Some d)
    obtain r w1 where up: "updateUsageLimits t d w = (r, w1)" by fastforce
    then have "ignoring (andThen (updateUsageLimits t d) (\<lambda>_. ret ())) w = (Inr (), w1)" by (cases r) (simp_all add: ignoring_def svc_simps)
    with Some updateUsageLimits_sound [OF sanitizeQuotas_sound [OF Some] assms up] show ?thesis by simp
  qed (simp add: assms)
  then obtain w1 where "?m w = (Inr (), w1)" "soundDb (sw_db w1)" by blast
  with False show ?thesis by (auto simp: maybeSyncFromBilling_def svc_simps simp del: append_Cons)
qed

text \<open>Reading the limits of a plan always gives limits, and whatever the billing service answers (another shape, texts, negative or
  oversized numbers) no stored limit becomes negative or leaves the range of its column.\<close>

theorem billing_data_never_corrupts_a_limit:
  assumes "soundDb (sw_db w)"
  shows "\<exists>l w'. getUsageLimits t w = (Inr l, w') \<and> soundLimits l \<and> soundDb (sw_db w')"
proof -
  from rawLimits_sound [OF assms, of t] obtain l w1 where raw: "getOrCreateRawLimits t w = (Inr l, w1)" "soundLimits l" "soundDb (sw_db w1)" by blast
  from maybeSync_sound [OF this(3), of t] obtain w2 where "maybeSyncFromBilling t w1 = (Inr (), w2)" "soundDb (sw_db w2)" by blast
  with raw sound_row [OF \<open>soundDb (sw_db w2)\<close>] show ?thesis
    by (auto simp: getUsageLimits_def seRead_def svc_simps definedOr_def split: option.splits)
qed

lemma getUsageLimits_total: "\<exists>l w'. getUsageLimits t w = (Inr l, w')"
proof -
  have fits: "limitsFit \<lparr>ul_id = i, ul_tenantId = t, ul_maxAgents = 10, ul_maxConversations = 1000, ul_maxMessages = 10000,
    ul_maxWorkflows = 5, ul_maxConnectors = 3, ul_maxDocuments = 50, ul_maxStorage = 1073741824, ul_maxAiRequests = 5000,
    ul_createdAt = c, ul_updatedAt = u\<rparr>" for i c u by (simp add: limitsFit_def fits_iff)
  have "\<exists>l w1. getOrCreateRawLimits t w = (Inr l, w1)"
    by (cases "getUsageLimitsRow t (sw_db w)")
      (simp_all add: getOrCreateRawLimits_def seRead_def seUUID_def seNow_def seWrite_def saveUsageLimits_def fits svc_simps Let_def)
  then obtain l w1 where raw: "getOrCreateRawLimits t w = (Inr l, w1)" by blast
  let ?m = "case sanitizeQuotas (sw_quotas w1 t) of None \<Rightarrow> ret () | Some dto \<Rightarrow> ignoring (andThen (updateUsageLimits t dto) (\<lambda>_. ret ()))"
  obtain w2 where "?m w1 = (Inr (), w2)"
  proof (cases "sanitizeQuotas (sw_quotas w1 t)")
    case (Some d)
    from ignoring_total [of "andThen (updateUsageLimits t d) (\<lambda>_. ret ())" w1] Some that show ?thesis by auto
  qed (use that in simp)
  then have "\<exists>w3. maybeSyncFromBilling t w1 = (Inr (), w3)" by (simp add: maybeSyncFromBilling_def svc_simps del: append_Cons)
  then obtain w3 where "maybeSyncFromBilling t w1 = (Inr (), w3)" by blast
  with raw show ?thesis by (simp add: getUsageLimits_def seRead_def svc_simps)
qed

lemma getSettings_world:
  "\<exists>s w'. getSettings t w = (Inr s, w') \<and> sw_emails w' = sw_emails w \<and> (\<forall>j \<in> set (sw_jobs w). j \<in> set (sw_jobs w'))"
  by (cases "getSettingsByTenant t (sw_db w)")
    (simp_all add: getSettings_def createSettings_def seRead_def seUUID_def seNow_def seWrite_def publish_settings svc_simps Let_def)

definition mailed :: "uid \<Rightarrow> SettingsWorld \<Rightarrow> string set" where
  "mailed t w = {a. \<exists>r n limit name. (t, a, r, n, limit, name) \<in> set (sw_emails w)}"

text \<open>C19: An action is refused exactly when the usage has reached the limit in force. Below it nothing happens beyond reading the limits.
  At or above it the caller gets 403 with the limit, an incident is queued when the queue is up, and every
  administrator with an address is written to; neither a dead queue nor the mails change the refusal.\<close>

theorem action_is_refused_exactly_at_the_limit:
  "\<exists>l w1 w2. getUsageLimits t w = (Inr l, w1) \<and>
     enforceLimit t r n w = (if int n < limitOf r l then Inr () else Inl (limitReached r (limitOf r l)), w2) \<and>
     (int n < limitOf r l \<longrightarrow> w2 = w1) \<and>
     (\<not> int n < limitOf r l \<longrightarrow>
        (sw_queueUp w1 \<longrightarrow> (overage t r n (limitOf r l), sw_tenantContext w1) \<in> set (sw_jobs w2)) \<and>
        (\<forall>admins. sw_admins w1 t = Some admins \<longrightarrow> {a. Some a \<in> set admins \<and> a \<noteq> []} \<subseteq> mailed t w2))"
proof -
  from getUsageLimits_total obtain l w1 where l: "getUsageLimits t w = (Inr l, w1)" by blast
  show ?thesis
  proof (cases "int n < limitOf r l")
    case True
    with l show ?thesis by (auto simp: enforceLimit_def Let_def)
  next
    case False
    let ?j = "overage t r n (limitOf r l)"
    define w1' where "w1' = (if sw_queueUp w1 then w1\<lparr>sw_jobs := sw_jobs w1 @ [(?j, sw_tenantContext w1)]\<rparr> else w1)"
    have job: "ignoring (seAddJob ?j) w1 = (Inr (), w1')" by (simp add: w1'_def ignoring_def seAddJob_def svc_simps)
    from getSettings_world [of t w1'] obtain s w3 where s: "getSettings t w1' = (Inr s, w3)" "sw_emails w3 = sw_emails w1'"
      "\<forall>j \<in> set (sw_jobs w1'). j \<in> set (sw_jobs w3)" by blast
    define w4 where "w4 = (case sw_admins w1 t of None \<Rightarrow> w3 | Some admins \<Rightarrow> w3\<lparr>sw_emails := sw_emails w3 @
       map (\<lambda>a. (t, the a, resourceName r, n, limitOf r l, ts_tenantName s)) (filter truthy admins)\<rparr>)"
    have admins: "sw_admins w1' t = sw_admins w1 t" by (simp add: w1'_def)
    have mail: "ignoring (mailAdmins t r n (limitOf r l)) w1' = (Inr (), w4)"
      by (cases "sw_admins w1 t") (simp_all add: w4_def ignoring_def mailAdmins_def admins s svc_simps)
    have "enforceLimit t r n w = (Inl (limitReached r (limitOf r l)), w4)"
      using False l job mail by (simp add: enforceLimit_def Let_def)
    moreover have "sw_queueUp w1 \<longrightarrow> (?j, sw_tenantContext w1) \<in> set (sw_jobs w4)"
      using s(3) by (auto simp: w4_def w1'_def split: option.splits)
    moreover have "{a. Some a \<in> set admins \<and> a \<noteq> []} \<subseteq> mailed t w4" if "sw_admins w1 t = Some admins" for admins
      using that by (force simp: mailed_def w4_def)
    ultimately show ?thesis using False l by auto
  qed
qed

subsection \<open>The limit on agents\<close>

lemma countProfiles_save:
  assumes "saveProfile now p t db = Inr db'" "ap_id p \<notin> ap_id ` set (tb_profiles db)"
  shows "countProfiles t db' \<le> countProfiles t db + 1"
proof -
  have "\<not> list_ex (sameProfile (ap_id p) t) (tb_profiles db)" using assms(2) by (auto simp: list_ex_iff sameProfile_def image_iff)
  with assms(1) show ?thesis by (auto simp: saveProfile_def uniqueProfiles_def countProfiles_def rbind_Inr_iff split: if_splits)
qed

lemma create_counts:
  assumes "AgentProfileService_create f t dto u w = (Inr p, w')" "tw_uuid w (tw_uuidNext w) \<notin> ap_id ` set (tb_profiles (tw_db w))"
  shows "f t (countProfiles t (tw_db w)) = Inr () \<and> countProfiles t (tw_db w') \<le> countProfiles t (tw_db w) + 1"
proof -
  let ?i = "tw_uuid w (tw_uuidNext w)"
  from assms(1) obtain q db where f: "f t (countProfiles t (tw_db w)) = Inr ()"
    and q: "saveProfile (tw_now w) q t (tw_db w) = Inr db" "ap_id q = ?i" and profiles: "tb_profiles (tw_db w') = tb_profiles db"
    unfolding AgentProfileService_create_def
    by (elim andThen_InrE)
      (auto simp: tmRead_def tmUUID_def tmNow_def tmWrite_def tmLog_def TeamEventPublisher_publish_def saveAvailability_def Let_def svc_simps
        split: if_splits sum.splits elim!: andThen_InrE)
  from countProfiles_save [OF q(1)] q(2) assms(2) f profiles show ?thesis by (simp add: countProfiles_def)
qed

text \<open>C12: The plan limits the agents. An agent is created only while fewer live profiles than the limit in force
  exist, so afterwards the tenant has at most as many as the plan allows.\<close>

theorem agents_stay_within_the_plan:
  assumes limit: "getUsageLimits t sw = (Inr l, sw')"
    and created: "AgentProfileService_create (\<lambda>t n. fst (enforceLimit t QuotaAgents n sw)) t dto u w = (Inr p, w')"
    and new: "tw_uuid w (tw_uuidNext w) \<notin> ap_id ` set (tb_profiles (tw_db w))"
  shows "int (countProfiles t (tw_db w')) \<le> ul_maxAgents l"
proof -
  from create_counts [OF created new] have ok: "fst (enforceLimit t QuotaAgents (countProfiles t (tw_db w)) sw) = Inr ()"
    and n: "countProfiles t (tw_db w') \<le> countProfiles t (tw_db w) + 1" by auto
  have "int (countProfiles t (tw_db w)) < ul_maxAgents l"
  proof (rule ccontr)
    assume "\<not> int (countProfiles t (tw_db w)) < ul_maxAgents l"
    with limit have "\<exists>e. fst (enforceLimit t QuotaAgents (countProfiles t (tw_db w)) sw) = Inl e"
      using ignoring_total [of _ sw'] ignoring_total by (auto simp: enforceLimit_def Let_def andThen_def split: prod.splits sum.splits)
    with ok show False by simp
  qed
  with n show ?thesis by simp
qed

subsection \<open>A tenant with one flag\<close>

definition halfFlag :: FeatureFlag where
  "halfFlag = \<lparr>ff_id = ''f1'', ff_tenantId = ''acme'', ff_featureKey = ''beta'', ff_enabled = True, ff_rolloutPercentage = 50,
     ff_configuration = [], ff_createdAt = 0, ff_updatedAt = 0\<rparr>"

definition sampleSettings :: SettingsWorld where
  "sampleSettings =
     \<lparr>sw_db = \<lparr>sb_settings = [], sb_flags = [halfFlag], sb_limits = []\<rparr>, sw_now = 0, sw_uuid = (\<lambda>n. ''s'' @ showNat n), sw_uuidNext = 0,
      sw_env = Map.empty, sw_isRedisConnected = True, sw_redisUp = True, sw_redis = Map.empty, sw_throttleUp = True, sw_throttle = Map.empty,
      sw_quotas = (\<lambda>_. Some (JObj [(''maxAgents'', JNum 3), (''maxWorkflows'', JNum (- 1))])), sw_admins = (\<lambda>_. Some [Some ''ceo@acme'', None]),
      sw_tenantContext = None, sw_queueUp = True, sw_jobs = [], sw_emails = [], sw_audit = []\<rparr>"

definition fullDto :: SaveFeatureFlagDto where
  "fullDto = \<lparr>sfd_featureKey = ''beta'', sfd_enabled = True, sfd_rolloutPercentage = 100, sfd_configuration = None\<rparr>"

lemma sample_flag:
  "noOverride ''beta'' sampleSettings" "cacheMiss ''acme'' ''beta'' sampleSettings"
  "getFeatureFlagByKey ''acme'' ''beta'' (sw_db sampleSettings) = Some halfFlag"
  by (simp_all add: noOverride_def cacheMiss_def sampleSettings_def liveEntry_def getFeatureFlagByKey_def flagKeyed_def halfFlag_def)

theorem rollout_reaches_the_buckets_below_the_percentage_witness:
  "fst (resolveFlag ''acme'' ''beta'' (Some ''a'') sampleSettings) = Inr False \<and> fst (resolveFlag ''acme'' ''beta'' (Some ''d'') sampleSettings) = Inr True"
proof -
  have "ff_enabled halfFlag" "ff_rolloutPercentage halfFlag = 50" by (simp_all add: halfFlag_def)
  moreover have "getDeterministicPercentage (textOr (Some ''a'') ''acme'') = 97" "getDeterministicPercentage (textOr (Some ''d'') ''acme'') = 0" by code_simp+
  ultimately show ?thesis
    using rollout_reaches_the_buckets_below_the_percentage [OF sample_flag] by simp
qed

theorem first_user_decides_for_a_minute_witness:
  "getDeterministicPercentage ''a'' = 97 \<and>
   fst (resolveFlag ''acme'' ''beta'' (Some ''a'') ((remembered ''acme'' ''beta'' True sampleSettings)\<lparr>sw_now := 59999, sw_db := sw_db sampleSettings\<rparr>)) = Inr True"
proof
  have "getDeterministicPercentage (textOr (Some ''d'') ''acme'') = 0" by code_simp
  then have "flagAnswer ''acme'' (Some ''d'') halfFlag" by (simp add: flagAnswer_def halfFlag_def)
  with resolveFlag_miss [OF sample_flag, of "Some ''d''"]
  have "resolveFlag ''acme'' ''beta'' (Some ''d'') sampleSettings = (Inr True, remembered ''acme'' ''beta'' True sampleSettings)" by simp
  then show "fst (resolveFlag ''acme'' ''beta'' (Some ''a'')
      ((remembered ''acme'' ''beta'' True sampleSettings)\<lparr>sw_now := 59999, sw_db := sw_db sampleSettings\<rparr>)) = Inr True"
    by (rule first_user_decides_for_a_minute [OF sample_flag, rotated 2]) (simp_all add: sampleSettings_def)
  show "getDeterministicPercentage ''a'' = 97" by code_simp
qed

theorem saved_flag_is_in_force_at_once_witness:
  "\<exists>flag w'. saveFeatureFlag ''acme'' fullDto (remembered ''acme'' ''beta'' False sampleSettings) = (Inr flag, w') \<and>
     fst (resolveFlag ''acme'' ''beta'' (Some ''a'') w') = Inr True"
proof -
  have "noOverride (sfd_featureKey fullDto) (remembered ''acme'' ''beta'' False sampleSettings)" "sw_redisUp (remembered ''acme'' ''beta'' False sampleSettings)"
    by (simp_all add: noOverride_def remembered_def sampleSettings_def)
  with saved_flag_is_in_force_at_once [of fullDto "remembered ''acme'' ''beta'' False sampleSettings" "''acme''" "Some ''a''"]
  show ?thesis by (auto simp: fullDto_def)
qed

theorem billing_data_never_corrupts_a_limit_witness:
  "\<exists>l w'. getUsageLimits ''acme'' sampleSettings = (Inr l, w') \<and> soundLimits l \<and> soundDb (sw_db w')"
  using billing_data_never_corrupts_a_limit [of sampleSettings "''acme''"] by (simp add: sampleSettings_def soundDb_def)

theorem action_is_refused_exactly_at_the_limit_witness:
  "\<exists>w2. enforceLimit ''acme'' QuotaAgents 3 sampleSettings = (Inl (limitReached QuotaAgents 3), w2) \<and> ''ceo@acme'' \<in> mailed ''acme'' w2"
proof -
  have l: "map_sum (\<lambda>_. ()) ul_maxAgents (fst (getUsageLimits ''acme'' sampleSettings)) = Inr 3"
    "sw_admins (snd (getUsageLimits ''acme'' sampleSettings)) ''acme'' = Some [Some ''ceo@acme'', None]" by code_simp+
  from action_is_refused_exactly_at_the_limit [of "''acme''" sampleSettings QuotaAgents 3] obtain l w1 w2 where
    "getUsageLimits ''acme'' sampleSettings = (Inr l, w1)"
    "enforceLimit ''acme'' QuotaAgents 3 sampleSettings = (if 3 < ul_maxAgents l then Inr () else Inl (limitReached QuotaAgents (ul_maxAgents l)), w2)"
    "\<not> 3 < ul_maxAgents l \<longrightarrow> (\<forall>admins. sw_admins w1 ''acme'' = Some admins \<longrightarrow> {a. Some a \<in> set admins \<and> a \<noteq> []} \<subseteq> mailed ''acme'' w2)"
    by auto
  with l show ?thesis by auto
qed

definition afterCreate :: TeamWorld where
  "afterCreate = snd (AgentProfileService_create (\<lambda>t n. fst (enforceLimit t QuotaAgents n sampleSettings)) ''acme'' (sampleAgentDto\<lparr>apd_userId := ''user-cy''\<rparr>) None sampleTeamWorld)"

theorem agents_stay_within_the_plan_witness: "int (countProfiles ''acme'' (tw_db afterCreate)) \<le> 3"
proof -
  obtain l sw' where l: "getUsageLimits ''acme'' sampleSettings = (Inr l, sw')" using getUsageLimits_total by blast
  have "map_sum (\<lambda>_. ()) ul_maxAgents (fst (getUsageLimits ''acme'' sampleSettings)) = Inr 3" by code_simp
  with l have three: "ul_maxAgents l = 3" by simp
  let ?r = "AgentProfileService_create (\<lambda>t n. fst (enforceLimit t QuotaAgents n sampleSettings)) ''acme'' (sampleAgentDto\<lparr>apd_userId := ''user-cy''\<rparr>) None sampleTeamWorld"
  have "isl (fst ?r) = False" by code_simp
  then obtain p where "?r = (Inr p, afterCreate)" by (cases ?r; cases "fst ?r") (auto simp: afterCreate_def)
  moreover have "\<not> list_ex (\<lambda>p. ap_id p = tw_uuid sampleTeamWorld (tw_uuidNext sampleTeamWorld)) (tb_profiles (tw_db sampleTeamWorld))" by code_simp
  then have "tw_uuid sampleTeamWorld (tw_uuidNext sampleTeamWorld) \<notin> ap_id ` set (tb_profiles (tw_db sampleTeamWorld))" by (auto simp: list_ex_iff)
  ultimately show ?thesis using agents_stay_within_the_plan [OF l] three by metis
qed

end
