(* ===== verification/Conversation_Model.thy ===== *)
theory Conversation_Model
  imports Keyed_Store Js_Values
begin

text \<open>
  Conversations (\<^verbatim>\<open>src/modules/conversations/domain\<close>) and the tables behind them
  (\<^verbatim>\<open>src/modules/conversations/repositories\<close>). The aggregate has no guard between its statuses: every method
  sets the status it stands for. Status, priority and sentiment are typed by the validation of the requests, so
  their value objects cannot fail.
\<close>

subsection \<open>Value objects\<close>

datatype ConversationStatusEnum =
  CS_OPEN | CS_PENDING | CS_ASSIGNED | CS_WAITING_CUSTOMER | CS_WAITING_AGENT | CS_RESOLVED | CS_CLOSED | CS_ARCHIVED

fun convStatusName :: "ConversationStatusEnum \<Rightarrow> string" where
  "convStatusName CS_OPEN = ''OPEN''"
| "convStatusName CS_PENDING = ''PENDING''"
| "convStatusName CS_ASSIGNED = ''ASSIGNED''"
| "convStatusName CS_WAITING_CUSTOMER = ''WAITING_CUSTOMER''"
| "convStatusName CS_WAITING_AGENT = ''WAITING_AGENT''"
| "convStatusName CS_RESOLVED = ''RESOLVED''"
| "convStatusName CS_CLOSED = ''CLOSED''"
| "convStatusName CS_ARCHIVED = ''ARCHIVED''"

datatype ConversationPriorityEnum = CPR_LOW | CPR_MEDIUM | CPR_HIGH | CPR_URGENT | CPR_CRITICAL

fun convPriorityName :: "ConversationPriorityEnum \<Rightarrow> string" where
  "convPriorityName CPR_LOW = ''LOW''"
| "convPriorityName CPR_MEDIUM = ''MEDIUM''"
| "convPriorityName CPR_HIGH = ''HIGH''"
| "convPriorityName CPR_URGENT = ''URGENT''"
| "convPriorityName CPR_CRITICAL = ''CRITICAL''"

datatype ConversationSentimentEnum = SEN_POSITIVE | SEN_NEUTRAL | SEN_NEGATIVE

definition ConversationLanguage_create :: "string \<Rightarrow> exn + string" where
  "ConversationLanguage_create v =
     (let cleaned = toLowerCase (trim v)
      in if cleaned = [] \<or> 10 < length cleaned then Inl (Error (''Invalid language code: '' @ v)) else Inr cleaned)"

definition ConversationSource_create :: "string \<Rightarrow> exn + string" where
  "ConversationSource_create v =
     (let cleaned = toUpperCase (trim v)
      in if cleaned = [] \<or> 50 < length cleaned then Inl (Error (''Invalid conversation source: '' @ v)) else Inr cleaned)"

subsection \<open>Child entities\<close>

record ConversationTag =
  cg_id :: uid
  cg_tenantId :: uid
  cg_conversationId :: uid
  cg_tag :: string
  cg_color :: "string option"
  cg_isSystemTag :: bool
  cg_createdAt :: millis

record ConversationNote =
  ne_id :: uid
  ne_tenantId :: uid
  ne_conversationId :: uid
  ne_authorId :: uid
  ne_note :: string
  ne_visibility :: string
  ne_createdAt :: millis

record ConversationParticipant =
  pa_id :: uid
  pa_tenantId :: uid
  pa_conversationId :: uid
  pa_participantId :: uid
  pa_participantType :: string
  pa_joinedAt :: millis

record ConversationMention =
  me_id :: uid
  me_tenantId :: uid
  me_conversationId :: uid
  me_mentionedUserId :: uid
  me_mentionedBy :: uid
  me_messageReference :: "string option"
  me_createdAt :: millis

record ConversationAssignment =
  cas_id :: uid
  cas_tenantId :: uid
  cas_conversationId :: uid
  cas_agentProfileId :: "uid option"
  cas_teamId :: "uid option"
  cas_assignedAt :: millis
  cas_assignedBy :: "uid option"
  cas_assignmentType :: string

datatype conv_event =
    ConversationCreatedEvent uid uid uid string
  | ConversationUpdatedEvent uid uid ConversationStatusEnum ConversationPriorityEnum
  | ConversationAssignedEvent uid uid uid
  | ConversationTransferredEvent uid uid "uid option" uid
  | ConversationTaggedEvent uid uid string
  | ConversationNoteAddedEvent uid uid uid uid
  | ConversationResolvedEvent uid uid "uid option"
  | ConversationClosedEvent uid uid "string option"
  | ConversationArchivedEvent uid uid
  | ConversationResolutionStartedEvent uid uid uid
  | CustomerNotifiedOnResolutionEvent uid uid uid string

fun convEventName :: "conv_event \<Rightarrow> string" where
  "convEventName (ConversationCreatedEvent _ _ _ _) = ''conversation.created''"
| "convEventName (ConversationUpdatedEvent _ _ _ _) = ''conversation.updated''"
| "convEventName (ConversationAssignedEvent _ _ _) = ''conversation.assigned''"
| "convEventName (ConversationTransferredEvent _ _ _ _) = ''conversation.transferred''"
| "convEventName (ConversationTaggedEvent _ _ _) = ''conversation.tagged''"
| "convEventName (ConversationNoteAddedEvent _ _ _ _) = ''conversation.note_added''"
| "convEventName (ConversationResolvedEvent _ _ _) = ''conversation.resolved''"
| "convEventName (ConversationClosedEvent _ _ _) = ''conversation.closed''"
| "convEventName (ConversationArchivedEvent _ _) = ''conversation.archived''"
| "convEventName (ConversationResolutionStartedEvent _ _ _) = ''conversation.resolution.started''"
| "convEventName (CustomerNotifiedOnResolutionEvent _ _ _ _) = ''customer.notified.resolution''"

fun convEventAggregate :: "conv_event \<Rightarrow> uid" where
  "convEventAggregate (ConversationCreatedEvent _ i _ _) = i"
| "convEventAggregate (ConversationUpdatedEvent _ i _ _) = i"
| "convEventAggregate (ConversationAssignedEvent _ i _) = i"
| "convEventAggregate (ConversationTransferredEvent _ i _ _) = i"
| "convEventAggregate (ConversationTaggedEvent _ i _) = i"
| "convEventAggregate (ConversationNoteAddedEvent _ i _ _) = i"
| "convEventAggregate (ConversationResolvedEvent _ i _) = i"
| "convEventAggregate (ConversationClosedEvent _ i _) = i"
| "convEventAggregate (ConversationArchivedEvent _ i) = i"
| "convEventAggregate (ConversationResolutionStartedEvent _ i _) = i"
| "convEventAggregate (CustomerNotifiedOnResolutionEvent _ i _ _) = i"

subsection \<open>The aggregate\<close>

record Conversation =
  cv_id :: uid
  cv_tenantId :: uid
  cv_customerId :: uid
  cv_channelId :: "uid option"
  cv_assignedAgentId :: "uid option"
  cv_assignedTeamId :: "uid option"
  cv_status :: ConversationStatusEnum
  cv_priority :: ConversationPriorityEnum
  cv_subject :: "string option"
  cv_language :: string
  cv_sentiment :: ConversationSentimentEnum
  cv_source :: string
  cv_lastMessageAt :: "millis option"
  cv_lastActivityAt :: millis
  cv_firstResponseAt :: "millis option"
  cv_resolvedAt :: "millis option"
  cv_closedAt :: "millis option"
  cv_metadata :: "(string \<times> json) list"
  cv_createdAt :: millis
  cv_updatedAt :: millis
  cv_deletedAt :: "millis option"
  cv_version :: int
  cv_tags :: "ConversationTag list"
  cv_notes :: "ConversationNote list"
  cv_participants :: "ConversationParticipant list"
  cv_mentions :: "ConversationMention list"
  cv_domainEvents :: "conv_event list"

definition cvEvent :: "conv_event \<Rightarrow> Conversation \<Rightarrow> Conversation" where
  "cvEvent ev c = c\<lparr>cv_domainEvents := cv_domainEvents c @ [ev]\<rparr>"

definition cvTouch :: "millis \<Rightarrow> Conversation \<Rightarrow> Conversation" where
  "cvTouch now c = c\<lparr>cv_updatedAt := now, cv_lastActivityAt := now, cv_version := cv_version c + 1\<rparr>"

definition Conversation_create ::
  "millis \<Rightarrow> uid \<Rightarrow> uid \<Rightarrow> uid \<Rightarrow> uid option \<Rightarrow> uid option \<Rightarrow> uid option \<Rightarrow> ConversationStatusEnum \<Rightarrow> ConversationPriorityEnum \<Rightarrow>
   string option \<Rightarrow> string \<Rightarrow> ConversationSentimentEnum \<Rightarrow> string \<Rightarrow> (string \<times> json) list \<Rightarrow> Conversation" where
  "Conversation_create now i tenantId customerId channelId agent team st prio subject language sentiment source metadata =
     cvEvent (ConversationCreatedEvent tenantId i customerId (inTemplate (orS channelId (Some []))))
     \<lparr>cv_id = i, cv_tenantId = tenantId, cv_customerId = customerId, cv_channelId = channelId, cv_assignedAgentId = agent,
      cv_assignedTeamId = team, cv_status = st, cv_priority = prio, cv_subject = subject, cv_language = language,
      cv_sentiment = sentiment, cv_source = source, cv_lastMessageAt = None, cv_lastActivityAt = now, cv_firstResponseAt = None,
      cv_resolvedAt = None, cv_closedAt = None, cv_metadata = metadata, cv_createdAt = now, cv_updatedAt = now, cv_deletedAt = None,
      cv_version = 1, cv_tags = [], cv_notes = [], cv_participants = [], cv_mentions = [], cv_domainEvents = []\<rparr>"

text \<open>The patch carries only keys the request gave a value.\<close>

record ConversationPatch =
  cvp_status :: "ConversationStatusEnum option"
  cvp_priority :: "ConversationPriorityEnum option"
  cvp_subject :: "string option"
  cvp_language :: "string option"
  cvp_sentiment :: "ConversationSentimentEnum option"
  cvp_assignedTeamId :: "uid option"
  cvp_metadata :: "(string \<times> json) list option"

definition noPatch :: ConversationPatch where
  "noPatch = \<lparr>cvp_status = None, cvp_priority = None, cvp_subject = None, cvp_language = None, cvp_sentiment = None,
     cvp_assignedTeamId = None, cvp_metadata = None\<rparr>"

definition patched :: "'a option \<Rightarrow> 'a \<Rightarrow> 'a" where
  "patched v old = (case v of None \<Rightarrow> old | Some x \<Rightarrow> x)"

definition Conversation_update :: "millis \<Rightarrow> ConversationPatch \<Rightarrow> Conversation \<Rightarrow> Conversation" where
  "Conversation_update now p c =
     (let c' = cvTouch now (c\<lparr>cv_status := patched (cvp_status p) (cv_status c), cv_priority := patched (cvp_priority p) (cv_priority c),
           cv_subject := (case cvp_subject p of None \<Rightarrow> cv_subject c | s \<Rightarrow> s), cv_language := patched (cvp_language p) (cv_language c),
           cv_sentiment := patched (cvp_sentiment p) (cv_sentiment c),
           cv_assignedTeamId := (case cvp_assignedTeamId p of None \<Rightarrow> cv_assignedTeamId c | s \<Rightarrow> s),
           cv_metadata := patched (cvp_metadata p) (cv_metadata c)\<rparr>)
      in cvEvent (ConversationUpdatedEvent (cv_tenantId c') (cv_id c') (cv_status c') (cv_priority c')) c')"

definition markFirstResponse :: "millis \<Rightarrow> Conversation \<Rightarrow> Conversation" where
  "markFirstResponse now c = (case cv_firstResponseAt c of None \<Rightarrow> cvTouch now (c\<lparr>cv_firstResponseAt := Some now\<rparr>) | Some _ \<Rightarrow> c)"

definition assignAgent :: "millis \<Rightarrow> uid \<Rightarrow> uid option \<Rightarrow> Conversation \<Rightarrow> Conversation" where
  "assignAgent now agent team c =
     cvEvent (ConversationAssignedEvent (cv_tenantId c) (cv_id c) agent)
       (cvTouch now (c\<lparr>cv_assignedAgentId := Some agent,
          cv_assignedTeamId := (if truthy team then team else cv_assignedTeamId c), cv_status := CS_ASSIGNED\<rparr>))"

definition Conversation_transfer :: "millis \<Rightarrow> uid \<Rightarrow> Conversation \<Rightarrow> Conversation" where
  "Conversation_transfer now agent c =
     cvEvent (ConversationTransferredEvent (cv_tenantId c) (cv_id c) (cv_assignedAgentId c) agent)
       (cvTouch now (c\<lparr>cv_assignedAgentId := Some agent, cv_status := CS_ASSIGNED\<rparr>))"

definition assignTeam :: "millis \<Rightarrow> uid \<Rightarrow> Conversation \<Rightarrow> Conversation" where
  "assignTeam now team c = cvTouch now (c\<lparr>cv_assignedTeamId := Some team\<rparr>)"

definition Conversation_resolve :: "millis \<Rightarrow> uid option \<Rightarrow> Conversation \<Rightarrow> Conversation" where
  "Conversation_resolve now resolvedBy c =
     cvEvent (ConversationResolvedEvent (cv_tenantId c) (cv_id c) resolvedBy)
       (cvTouch now (c\<lparr>cv_status := CS_RESOLVED, cv_resolvedAt := Some now\<rparr>))"

definition Conversation_close :: "millis \<Rightarrow> string option \<Rightarrow> Conversation \<Rightarrow> Conversation" where
  "Conversation_close now reason c =
     cvEvent (ConversationClosedEvent (cv_tenantId c) (cv_id c) reason)
       (cvTouch now (c\<lparr>cv_status := CS_CLOSED, cv_closedAt := Some now\<rparr>))"

definition Conversation_archive :: "millis \<Rightarrow> Conversation \<Rightarrow> Conversation" where
  "Conversation_archive now c =
     cvEvent (ConversationArchivedEvent (cv_tenantId c) (cv_id c)) (cvTouch now (c\<lparr>cv_status := CS_ARCHIVED\<rparr>))"

definition Conversation_addTag :: "millis \<Rightarrow> ConversationTag \<Rightarrow> Conversation \<Rightarrow> Conversation" where
  "Conversation_addTag now t c =
     (if list_ex (\<lambda>x. cg_tag x = cg_tag t) (cv_tags c) then c
      else cvEvent (ConversationTaggedEvent (cv_tenantId c) (cv_id c) (cg_tag t)) (cvTouch now (c\<lparr>cv_tags := cv_tags c @ [t]\<rparr>)))"

definition Conversation_removeTag :: "millis \<Rightarrow> string \<Rightarrow> Conversation \<Rightarrow> Conversation" where
  "Conversation_removeTag now t c = cvTouch now (c\<lparr>cv_tags := filter (\<lambda>x. cg_tag x \<noteq> t) (cv_tags c)\<rparr>)"

definition addNote :: "millis \<Rightarrow> ConversationNote \<Rightarrow> Conversation \<Rightarrow> Conversation" where
  "addNote now n c =
     cvEvent (ConversationNoteAddedEvent (cv_tenantId c) (cv_id c) (ne_id n) (ne_authorId n)) (cvTouch now (c\<lparr>cv_notes := cv_notes c @ [n]\<rparr>))"

definition addParticipant :: "millis \<Rightarrow> ConversationParticipant \<Rightarrow> Conversation \<Rightarrow> Conversation" where
  "addParticipant now p c =
     (if list_ex (\<lambda>x. pa_participantId x = pa_participantId p) (cv_participants c) then c
      else cvTouch now (c\<lparr>cv_participants := cv_participants c @ [p]\<rparr>))"

definition addMention :: "millis \<Rightarrow> ConversationMention \<Rightarrow> Conversation \<Rightarrow> Conversation" where
  "addMention now x c = cvTouch now (c\<lparr>cv_mentions := cv_mentions c @ [x]\<rparr>)"

definition Conversation_softDelete :: "millis \<Rightarrow> Conversation \<Rightarrow> Conversation" where
  "Conversation_softDelete now c = cvTouch now (c\<lparr>cv_deletedAt := Some now\<rparr>)"

subsection \<open>The read model\<close>

record ConversationSummary =
  su_id :: uid
  su_tenantId :: uid
  su_conversationId :: uid
  su_customerName :: "string option"
  su_customerAvatar :: "string option"
  su_lastMessage :: "string option"
  su_lastMessageType :: "string option"
  su_lastMessageAt :: "millis option"
  su_unreadCount :: int
  su_totalMessages :: int
  su_totalAttachments :: int
  su_sentimentScore :: int
  su_priority :: "ConversationPriorityEnum option"
  su_status :: "ConversationStatusEnum option"
  su_assignedAgentName :: "string option"
  su_assignedTeamName :: "string option"
  su_createdAt :: millis
  su_updatedAt :: millis

subsection \<open>Tables\<close>

text \<open>A row of \<^verbatim>\<open>conversations\<close> is a \<open>Conversation\<close> whose children and events are empty.\<close>

record ConvDb =
  vb_conversations :: "Conversation list"
  vb_tags :: "ConversationTag list"
  vb_notes :: "ConversationNote list"
  vb_participants :: "ConversationParticipant list"
  vb_mentions :: "ConversationMention list"
  vb_assignments :: "ConversationAssignment list"
  vb_summaries :: "ConversationSummary list"

definition sameConversation :: "uid \<Rightarrow> uid \<Rightarrow> Conversation \<Rightarrow> bool" where
  "sameConversation i tenantId r = (cv_id r = i \<and> cv_tenantId r = tenantId)"

definition conversationColumns :: "millis \<Rightarrow> Conversation \<Rightarrow> Conversation" where
  "conversationColumns now c =
     c\<lparr>cv_channelId := orUndefined (cv_channelId c), cv_assignedAgentId := orUndefined (cv_assignedAgentId c),
       cv_assignedTeamId := orUndefined (cv_assignedTeamId c), cv_subject := orUndefined (cv_subject c), cv_updatedAt := now,
       cv_tags := [], cv_notes := [], cv_participants := [], cv_mentions := [], cv_domainEvents := []\<rparr>"

text \<open>\<^verbatim>\<open>insert ... onConflictDoNothing()\<close>: a row that meets another one in the primary key or a unique index is
  dropped.\<close>

definition insertNew :: "('r \<Rightarrow> 'r \<Rightarrow> bool) \<Rightarrow> 'r list \<Rightarrow> 'r list \<Rightarrow> 'r list" where
  "insertNew clash new rows = fold (\<lambda>x rs. if list_ex (clash x) rs then rs else rs @ [x]) new rows"

definition tagClash :: "ConversationTag \<Rightarrow> ConversationTag \<Rightarrow> bool" where
  "tagClash x r \<longleftrightarrow> cg_id x = cg_id r \<or>
     (cg_tenantId x = cg_tenantId r \<and> cg_conversationId x = cg_conversationId r \<and> cg_tag x = cg_tag r)"

definition participantClash :: "ConversationParticipant \<Rightarrow> ConversationParticipant \<Rightarrow> bool" where
  "participantClash x r \<longleftrightarrow> pa_id x = pa_id r \<or>
     (pa_tenantId x = pa_tenantId r \<and> pa_conversationId x = pa_conversationId r \<and> pa_participantId x = pa_participantId r)"

definition saveConversationRow :: "millis \<Rightarrow> Conversation \<Rightarrow> uid \<Rightarrow> Conversation list \<Rightarrow> Conversation list" where
  "saveConversationRow now c tenantId rows =
     (if list_ex (sameConversation (cv_id c) tenantId) rows
      then map (\<lambda>r. if sameConversation (cv_id c) tenantId r then (conversationColumns now c)\<lparr>cv_createdAt := cv_createdAt r\<rparr> else r) rows
      else rows @ [conversationColumns (cv_createdAt c) c])"

definition saveConversation :: "millis \<Rightarrow> Conversation \<Rightarrow> uid \<Rightarrow> ConvDb \<Rightarrow> ConvDb" where
  "saveConversation now c tenantId db =
     db\<lparr>vb_conversations := saveConversationRow now c tenantId (vb_conversations db),
        vb_tags := insertNew tagClash (map (\<lambda>t. t\<lparr>cg_color := orUndefined (cg_color t)\<rparr>) (cv_tags c)) (vb_tags db),
        vb_notes := insertNew (\<lambda>x r. ne_id x = ne_id r) (cv_notes c) (vb_notes db),
        vb_participants := insertNew participantClash (cv_participants c) (vb_participants db),
        vb_mentions := insertNew (\<lambda>x r. me_id x = me_id r)
          (map (\<lambda>x. x\<lparr>me_messageReference := orUndefined (me_messageReference x)\<rparr>) (cv_mentions c)) (vb_mentions db)\<rparr>"

definition mapped :: "Conversation \<Rightarrow> Conversation" where
  "mapped r = r\<lparr>cv_version := (if cv_version r = 0 then 1 else cv_version r)\<rparr>"

text \<open>\<^verbatim>\<open>findById\<close> and the mapper. A deleted row is found like any other.\<close>

definition findConversation :: "uid \<Rightarrow> uid \<Rightarrow> ConvDb \<Rightarrow> Conversation option" where
  "findConversation i tenantId db =
     map_option (\<lambda>r. (mapped r)\<lparr>
         cv_tags := filter (\<lambda>t. cg_conversationId t = i \<and> cg_tenantId t = tenantId) (vb_tags db),
         cv_notes := filter (\<lambda>n. ne_conversationId n = i \<and> ne_tenantId n = tenantId) (vb_notes db),
         cv_participants := filter (\<lambda>p. pa_conversationId p = i \<and> pa_tenantId p = tenantId) (vb_participants db),
         cv_mentions := filter (\<lambda>x. me_conversationId x = i \<and> me_tenantId x = tenantId) (vb_mentions db)\<rparr>)
       (List.find (sameConversation i tenantId) (vb_conversations db))"

definition deleteConversation :: "millis \<Rightarrow> uid \<Rightarrow> uid \<Rightarrow> ConvDb \<Rightarrow> bool \<times> ConvDb" where
  "deleteConversation now i tenantId db =
     (if list_ex (sameConversation i tenantId) (vb_conversations db)
      then (True, db\<lparr>vb_conversations := map (\<lambda>r. if sameConversation i tenantId r
              then r\<lparr>cv_deletedAt := Some now, cv_status := CS_ARCHIVED, cv_updatedAt := now\<rparr> else r) (vb_conversations db)\<rparr>)
      else (False, db))"

subsection \<open>Listing\<close>

text \<open>\<^verbatim>\<open>ORDER BY\<close> on a column that may be null: nulls come last when ascending and first when descending. Rows that are
  equal in the column keep the order of the table.\<close>

definition sqlOrder :: "bool \<Rightarrow> ('r \<Rightarrow> int option) \<Rightarrow> 'r list \<Rightarrow> 'r list" where
  "sqlOrder ascending f rows =
     (let nulls = filter (\<lambda>r. f r = None) rows;
          vals = sort_key (\<lambda>r. if ascending then the (f r) else - the (f r)) (filter (\<lambda>r. f r \<noteq> None) rows)
      in if ascending then vals @ nulls else nulls @ vals)"

text \<open>The order of \<^verbatim>\<open>uuid\<close> and \<^verbatim>\<open>varchar\<close> columns, character by character.\<close>

fun textLess :: "string \<Rightarrow> string \<Rightarrow> bool" where
  "textLess _ [] = False"
| "textLess [] (_ # _) = True"
| "textLess (c # cs) (d # ds) = ((of_char c :: nat) < of_char d \<or> (c = d \<and> textLess cs ds))"

text \<open>\<^verbatim>\<open>ILIKE\<close>: \<^verbatim>\<open>%\<close> stands for any text, \<^verbatim>\<open>_\<close> for one character and a backslash takes the next character literally.
  Both sides are compared in lower case.\<close>

fun sqlLike :: "string \<Rightarrow> string \<Rightarrow> bool" where
  "sqlLike [] s = (s = [])"
| "sqlLike (p # ps) [] = (p = CHR ''%'' \<and> sqlLike ps [])"
| "sqlLike (p # ps) (c # cs) =
     (if p = CHR ''%'' then sqlLike ps (c # cs) \<or> sqlLike (p # ps) cs
      else if p = CHR ''_'' then sqlLike ps cs
      else if p = CHR 0x5C then (case ps of [] \<Rightarrow> False | q # qs \<Rightarrow> q = c \<and> sqlLike qs cs)
      else p = c \<and> sqlLike ps cs)"

definition contains :: "string \<Rightarrow> string option \<Rightarrow> bool" where
  "contains q col = (case col of None \<Rightarrow> False | Some t \<Rightarrow> sqlLike (toLowerCase (''%'' @ q @ ''%'')) (toLowerCase t))"

record ConversationQueryOptions =
  cq_page :: "nat option"
  cq_limit :: "nat option"
  cq_cursor :: "uid option"
  cq_sortBy :: "string option"
  cq_ascending :: bool
  cq_status :: "ConversationStatusEnum option"
  cq_priority :: "ConversationPriorityEnum option"
  cq_assignedAgentId :: "uid option"
  cq_assignedTeamId :: "uid option"
  cq_customerId :: "uid option"
  cq_channelId :: "uid option"
  cq_search :: "string option"
  cq_unassigned :: bool

definition anyConversation :: ConversationQueryOptions where
  "anyConversation = \<lparr>cq_page = None, cq_limit = None, cq_cursor = None, cq_sortBy = None, cq_ascending = False, cq_status = None,
     cq_priority = None, cq_assignedAgentId = None, cq_assignedTeamId = None, cq_customerId = None, cq_channelId = None, cq_search = None,
     cq_unassigned = False\<rparr>"

record ('r, 'c) PaginatedResult =
  pg_data :: "'r list"
  pg_total :: nat
  pg_nextCursor :: "'c option"

text \<open>\<^verbatim>\<open>n || d\<close> on a number that may be absent.\<close>

definition orCount :: "nat option \<Rightarrow> nat \<Rightarrow> nat" where
  "orCount n d = (case n of None \<Rightarrow> d | Some k \<Rightarrow> if k = 0 then d else k)"

definition wanted :: "uid option \<Rightarrow> uid option \<Rightarrow> bool" where
  "wanted v col = (truthy v \<longrightarrow> col = v)"

definition conversationMatches :: "uid \<Rightarrow> ConversationQueryOptions \<Rightarrow> Conversation \<Rightarrow> bool" where
  "conversationMatches tenantId q r =
     (cv_tenantId r = tenantId \<and> cv_deletedAt r = None \<and> (cq_status q \<noteq> None \<longrightarrow> cq_status q = Some (cv_status r)) \<and>
      (cq_priority q \<noteq> None \<longrightarrow> cq_priority q = Some (cv_priority r)) \<and> wanted (cq_customerId q) (Some (cv_customerId r)) \<and>
      wanted (cq_channelId q) (cv_channelId r) \<and> wanted (cq_assignedAgentId q) (cv_assignedAgentId r) \<and>
      wanted (cq_assignedTeamId q) (cv_assignedTeamId r) \<and> (cq_unassigned q \<longrightarrow> cv_assignedAgentId r = None) \<and>
      (truthy (cq_search q) \<longrightarrow> contains (the (cq_search q)) (cv_subject r)) \<and>
      (truthy (cq_cursor q) \<longrightarrow> textLess (the (cq_cursor q)) (cv_id r)))"

text \<open>The priority column is text, so its order is that of the names.\<close>

definition priorityTextOrder :: "ConversationPriorityEnum \<Rightarrow> int" where
  "priorityTextOrder p = (case p of CPR_CRITICAL \<Rightarrow> 0 | CPR_HIGH \<Rightarrow> 1 | CPR_LOW \<Rightarrow> 2 | CPR_MEDIUM \<Rightarrow> 3 | CPR_URGENT \<Rightarrow> 4)"

definition sortColumn :: "string option \<Rightarrow> Conversation \<Rightarrow> int option" where
  "sortColumn by r =
     (if by = Some ''priority'' then Some (priorityTextOrder (cv_priority r))
      else if by = Some ''createdAt'' then Some (cv_createdAt r)
      else if by = Some ''lastMessageAt'' then cv_lastMessageAt r
      else Some (cv_lastActivityAt r))"

definition findPaginated :: "uid \<Rightarrow> ConversationQueryOptions \<Rightarrow> ConvDb \<Rightarrow> (Conversation, uid) PaginatedResult" where
  "findPaginated tenantId q db =
     (let limit = orCount (cq_limit q) 20;
          offset = (orCount (cq_page q) 1 - 1) * limit;
          found = filter (conversationMatches tenantId q) (vb_conversations db);
          rows = take limit (drop (if truthy (cq_cursor q) then 0 else offset) (sqlOrder (cq_ascending q) (sortColumn (cq_sortBy q)) found))
      in \<lparr>pg_data = map mapped rows, pg_total = length found,
          pg_nextCursor = (if length rows = limit then Some (cv_id (last rows)) else None)\<rparr>)"

definition searchConversations :: "uid \<Rightarrow> string \<Rightarrow> nat \<Rightarrow> ConvDb \<Rightarrow> Conversation list" where
  "searchConversations tenantId query limit db =
     map mapped (take limit (filter (\<lambda>r. cv_tenantId r = tenantId \<and> cv_deletedAt r = None \<and>
       (contains query (cv_subject r) \<or> contains query (Some (cv_source r)))) (vb_conversations db)))"

definition findAllConversations :: "uid \<Rightarrow> ConvDb \<Rightarrow> Conversation list" where
  "findAllConversations tenantId db = map mapped (filter (\<lambda>r. cv_tenantId r = tenantId \<and> cv_deletedAt r = None) (vb_conversations db))"

subsection \<open>Child rows and the read model\<close>

definition addConversationAssignment :: "ConversationAssignment \<Rightarrow> uid \<Rightarrow> ConvDb \<Rightarrow> ConvDb" where
  "addConversationAssignment a tenantId db =
     db\<lparr>vb_assignments := vb_assignments db @ [a\<lparr>cas_tenantId := tenantId, cas_agentProfileId := orUndefined (cas_agentProfileId a),
        cas_teamId := orUndefined (cas_teamId a), cas_assignedBy := orUndefined (cas_assignedBy a)\<rparr>]\<rparr>"

definition findConversationAssignments :: "uid \<Rightarrow> uid \<Rightarrow> ConvDb \<Rightarrow> ConversationAssignment list" where
  "findConversationAssignments i tenantId db =
     sort_key (\<lambda>a. - cas_assignedAt a) (filter (\<lambda>a. cas_conversationId a = i \<and> cas_tenantId a = tenantId) (vb_assignments db))"

definition findTags :: "uid \<Rightarrow> uid \<Rightarrow> ConvDb \<Rightarrow> ConversationTag list" where
  "findTags i tenantId db = filter (\<lambda>t. cg_conversationId t = i \<and> cg_tenantId t = tenantId) (vb_tags db)"

definition removeTagRow :: "uid \<Rightarrow> string \<Rightarrow> uid \<Rightarrow> ConvDb \<Rightarrow> ConvDb" where
  "removeTagRow i t tenantId db =
     db\<lparr>vb_tags := filter (\<lambda>x. \<not> (cg_conversationId x = i \<and> cg_tag x = t \<and> cg_tenantId x = tenantId)) (vb_tags db)\<rparr>"

definition findNotes :: "uid \<Rightarrow> uid \<Rightarrow> ConvDb \<Rightarrow> ConversationNote list" where
  "findNotes i tenantId db =
     sort_key (\<lambda>n. - ne_createdAt n) (filter (\<lambda>n. ne_conversationId n = i \<and> ne_tenantId n = tenantId) (vb_notes db))"

definition sameSummary :: "uid \<Rightarrow> uid \<Rightarrow> ConversationSummary \<Rightarrow> bool" where
  "sameSummary i tenantId s = (su_conversationId s = i \<and> su_tenantId s = tenantId)"

definition summaryColumns :: "millis \<Rightarrow> uid \<Rightarrow> ConversationSummary \<Rightarrow> ConversationSummary" where
  "summaryColumns now tenantId s =
     s\<lparr>su_tenantId := tenantId, su_customerName := orUndefined (su_customerName s), su_customerAvatar := orUndefined (su_customerAvatar s),
       su_lastMessage := orUndefined (su_lastMessage s), su_lastMessageType := orUndefined (su_lastMessageType s),
       su_assignedAgentName := orUndefined (su_assignedAgentName s), su_assignedTeamName := orUndefined (su_assignedTeamName s),
       su_updatedAt := now\<rparr>"

definition upsertSummary :: "millis \<Rightarrow> ConversationSummary \<Rightarrow> uid \<Rightarrow> ConvDb \<Rightarrow> ConvDb" where
  "upsertSummary now s tenantId db =
     (let same = sameSummary (su_conversationId s) tenantId
      in db\<lparr>vb_summaries :=
        (if list_ex same (vb_summaries db)
         then map (\<lambda>r. if same r then (summaryColumns now tenantId s)\<lparr>su_createdAt := su_createdAt r\<rparr> else r) (vb_summaries db)
         else vb_summaries db @ [summaryColumns now tenantId s])\<rparr>)"

definition getSummary :: "uid \<Rightarrow> uid \<Rightarrow> ConvDb \<Rightarrow> ConversationSummary option" where
  "getSummary i tenantId db = List.find (sameSummary i tenantId) (vb_summaries db)"

end
