(* ===== verification/Conversation_World.thy ===== *)
theory Conversation_World
  imports Conversation_Model Team_Service
begin

text \<open>
  What the services of conversations run in. The state of the team module is a part of the world, so that automatic
  assignment and the sweep over offline agents run the code of \<^verbatim>\<open>AgentAssignmentService\<close>. The customer directory, the
  plan limit on conversations, message creation and ticket resolution are answers of the world; the calls are
  recorded.
\<close>

subsection \<open>The world\<close>

datatype conv_job =
    ConversationAssignmentJob uid uid "uid option"
  | ConversationSummaryJob uid
  | ConversationMergeJob uid uid "uid option"
  | ConversationArchiveJob uid "uid option"
  | AgentOfflineReassignmentJob
  | ConversationAnalyticsJob uid string
  | InboxProjectionJob uid string uid
  | NotifyAssigned uid uid uid
  | NotifyMention uid uid uid
  | NotifyResolved uid uid "string option" "string option"
  | CustomerSurvey uid uid "string option"
  | AnalyticsConversationEvent uid string uid
  | AnalyticsResolved uid uid uid "string option"
  | OtherConversationJob string

record ConvCustomer =
  cuv_name :: string
  cuv_avatar :: "string option"
  cuv_email :: string

datatype conv_call =
    CreateMessageCall uid uid string uid
  | ResolveTicketCall uid uid "string option" uid

record InboxQueryOptions =
  iq_page :: "nat option"
  iq_limit :: "nat option"
  iq_cursor :: "millis option"
  iq_ascending :: bool
  iq_status :: "ConversationStatusEnum option"
  iq_priority :: "string option"
  iq_assignedAgentId :: "uid option"
  iq_assignedTeamId :: "uid option"
  iq_unassigned :: bool

text \<open>The cache of the inbox is keyed by tenant and query, an entry is a page with the time it expires; \<open>vw_cacheUp\<close> tells
  whether Redis answers.\<close>

record ConvWorld =
  vw_db :: ConvDb
  vw_team :: TeamWorld
  vw_now :: millis
  vw_uuid :: "nat \<Rightarrow> uid"
  vw_uuidNext :: nat
  vw_customer :: "uid \<Rightarrow> uid \<Rightarrow> exn + ConvCustomer"
  vw_enforceLimit :: "uid \<Rightarrow> nat \<Rightarrow> exn + unit"
  vw_answer :: "conv_call \<Rightarrow> exn + unit"
  vw_calls :: "conv_call list"
  vw_tenantContext :: "uid option"
  vw_queueUp :: bool
  vw_jobs :: "(conv_job \<times> uid option) list"
  vw_audit :: "(uid \<times> uid option \<times> string \<times> string) list"
  vw_cacheUp :: bool
  vw_cache :: "uid \<times> InboxQueryOptions \<rightharpoonup> (ConversationSummary, millis) PaginatedResult \<times> millis"

type_synonym 'a cvsvc = "(ConvWorld, 'a) svc"

definition cvNow :: "millis cvsvc" where
  "cvNow = asks vw_now"

definition cvUUID :: "uid cvsvc" where
  "cvUUID = (\<lambda>w. (Inr (vw_uuid w (vw_uuidNext w)), w\<lparr>vw_uuidNext := vw_uuidNext w + 1\<rparr>))"

definition cvRead :: "(ConvDb \<Rightarrow> 'a) \<Rightarrow> 'a cvsvc" where
  "cvRead f = asks (\<lambda>w. f (vw_db w))"

definition cvWrite :: "(millis \<Rightarrow> ConvDb \<Rightarrow> ConvDb) \<Rightarrow> unit cvsvc" where
  "cvWrite f = modify (\<lambda>w. w\<lparr>vw_db := f (vw_now w) (vw_db w)\<rparr>)"

definition cvAddJob :: "conv_job \<Rightarrow> unit cvsvc" where
  "cvAddJob j = (\<lambda>w. if vw_queueUp w then (Inr (), w\<lparr>vw_jobs := vw_jobs w @ [(j, vw_tenantContext w)]\<rparr>)
                       else (Inl (Error ''Connection is closed.''), w))"

definition cvLog :: "uid \<Rightarrow> uid option \<Rightarrow> string \<Rightarrow> string \<Rightarrow> unit cvsvc" where
  "cvLog tenantId userId action details = modify (\<lambda>w. w\<lparr>vw_audit := vw_audit w @ [(tenantId, userId, action, details)]\<rparr>)"

definition cvCall :: "conv_call \<Rightarrow> unit cvsvc" where
  "cvCall c = (\<lambda>w. (vw_answer w c, w\<lparr>vw_calls := vw_calls w @ [c]\<rparr>))"

definition bestEffort :: "unit cvsvc \<Rightarrow> unit cvsvc" where
  "bestEffort m = tryCatch m (\<lambda>_. ret ())"

text \<open>A call into the team module, at the clock of the caller.\<close>

definition onTeam :: "'a tmsvc \<Rightarrow> 'a cvsvc" where
  "onTeam m = (\<lambda>w. let (r, t) = m ((vw_team w)\<lparr>tw_now := vw_now w\<rparr>) in (r, w\<lparr>vw_team := t\<rparr>))"

section \<open>The query of the inbox and its cache\<close>

text \<open>
  The inbox (\<^verbatim>\<open>InboxService\<close>, \<^verbatim>\<open>RedisCacheService\<close>, \<^verbatim>\<open>findInbox\<close> and \<^verbatim>\<open>countUnread\<close> of the repository): pages of the
  summaries of a tenant, kept in a best-effort cache for 15 seconds. A cursor is the time it denotes; a cursor that is
  not a date is left out.
\<close>

subsection \<open>The query\<close>

definition anyInbox :: InboxQueryOptions where
  "anyInbox = \<lparr>iq_page = None, iq_limit = None, iq_cursor = None, iq_ascending = False, iq_status = None, iq_priority = None,
     iq_assignedAgentId = None, iq_assignedTeamId = None, iq_unassigned = False\<rparr>"

text \<open>\<^verbatim>\<open>conversation_id IN (SELECT id FROM conversations WHERE ... AND tenant_id = ...)\<close>\<close>

definition inConversations :: "(Conversation \<Rightarrow> bool) \<Rightarrow> uid \<Rightarrow> ConvDb \<Rightarrow> uid \<Rightarrow> bool" where
  "inConversations P tenantId db i = list_ex (\<lambda>r. cv_id r = i \<and> P r \<and> cv_tenantId r = tenantId) (vb_conversations db)"

definition buildInboxConditions :: "uid \<Rightarrow> InboxQueryOptions \<Rightarrow> ConvDb \<Rightarrow> ConversationSummary \<Rightarrow> bool" where
  "buildInboxConditions tenantId q db s =
     (su_tenantId s = tenantId \<and> (iq_status q \<noteq> None \<longrightarrow> iq_status q = su_status s) \<and>
      (truthy (iq_priority q) \<longrightarrow> iq_priority q = map_option convPriorityName (su_priority s)) \<and>
      (truthy (iq_assignedAgentId q) \<longrightarrow>
         inConversations (\<lambda>r. cv_assignedAgentId r = iq_assignedAgentId q) tenantId db (su_conversationId s)) \<and>
      (truthy (iq_assignedTeamId q) \<longrightarrow>
         inConversations (\<lambda>r. cv_assignedTeamId r = iq_assignedTeamId q) tenantId db (su_conversationId s)) \<and>
      (iq_unassigned q \<longrightarrow> inConversations (\<lambda>r. cv_assignedAgentId r = None) tenantId db (su_conversationId s)))"

text \<open>A null is never less than the cursor.\<close>

definition beforeCursor :: "millis option \<Rightarrow> ConversationSummary \<Rightarrow> bool" where
  "beforeCursor c s =
     (case c of None \<Rightarrow> True | Some t \<Rightarrow> (case su_lastMessageAt s of None \<Rightarrow> False | Some m \<Rightarrow> m < t))"

definition findInbox :: "uid \<Rightarrow> InboxQueryOptions \<Rightarrow> ConvDb \<Rightarrow> (ConversationSummary, millis) PaginatedResult" where
  "findInbox tenantId q db =
     (let limit = orCount (iq_limit q) 25;
          offset = (orCount (iq_page q) 1 - 1) * limit;
          found = filter (buildInboxConditions tenantId q db) (vb_summaries db);
          rows = take limit (drop (if iq_cursor q = None then offset else 0)
                   (sqlOrder (iq_ascending q) su_lastMessageAt (filter (beforeCursor (iq_cursor q)) found)))
      in \<lparr>pg_data = rows, pg_total = length found,
          pg_nextCursor = (if length rows = limit then su_lastMessageAt (last rows) else None)\<rparr>)"

definition countUnread :: "uid \<Rightarrow> InboxQueryOptions \<Rightarrow> ConvDb \<Rightarrow> int" where
  "countUnread tenantId q db =
     sum_list (map su_unreadCount (filter (\<lambda>s. buildInboxConditions tenantId q db s \<and> 0 < su_unreadCount s) (vb_summaries db)))"

subsection \<open>The cache\<close>

definition INBOX_TTL_SECONDS :: int where
  "INBOX_TTL_SECONDS = 15"

definition cacheGet :: "uid \<times> InboxQueryOptions \<Rightarrow> (ConversationSummary, millis) PaginatedResult option cvsvc" where
  "cacheGet key = asks (\<lambda>w. if \<not> vw_cacheUp w then None
     else case vw_cache w key of None \<Rightarrow> None | Some (page, expires) \<Rightarrow> if vw_now w < expires then Some page else None)"

definition cacheSet :: "uid \<times> InboxQueryOptions \<Rightarrow> (ConversationSummary, millis) PaginatedResult \<Rightarrow> int \<Rightarrow> unit cvsvc" where
  "cacheSet key page ttlSeconds =
     modify (\<lambda>w. if vw_cacheUp w then w\<lparr>vw_cache := (vw_cache w)(key \<mapsto> (page, vw_now w + ttlSeconds * 1000))\<rparr> else w)"

definition invalidateInbox :: "uid \<Rightarrow> unit cvsvc" where
  "invalidateInbox tenantId =
     modify (\<lambda>w. if vw_cacheUp w then w\<lparr>vw_cache := (\<lambda>key. if fst key = tenantId then None else vw_cache w key)\<rparr> else w)"

definition listInbox :: "uid \<Rightarrow> InboxQueryOptions \<Rightarrow> (ConversationSummary, millis) PaginatedResult cvsvc" where
  "listInbox tenantId q =
     andThen (cacheGet (tenantId, q)) (\<lambda>cached. case cached of
       Some page \<Rightarrow> ret page
     | None \<Rightarrow>
         andThen (cvRead (findInbox tenantId q)) (\<lambda>page.
         andThen (cacheSet (tenantId, q) page INBOX_TTL_SECONDS) (\<lambda>_. ret page)))"

definition myConversations :: "uid \<Rightarrow> uid \<Rightarrow> InboxQueryOptions \<Rightarrow> (ConversationSummary, millis) PaginatedResult cvsvc" where
  "myConversations tenantId agent q = listInbox tenantId (q\<lparr>iq_assignedAgentId := Some agent\<rparr>)"

definition teamConversations :: "uid \<Rightarrow> uid \<Rightarrow> InboxQueryOptions \<Rightarrow> (ConversationSummary, millis) PaginatedResult cvsvc" where
  "teamConversations tenantId team q = listInbox tenantId (q\<lparr>iq_assignedTeamId := Some team\<rparr>)"

definition unassignedConversations :: "uid \<Rightarrow> InboxQueryOptions \<Rightarrow> (ConversationSummary, millis) PaginatedResult cvsvc" where
  "unassignedConversations tenantId q = listInbox tenantId (q\<lparr>iq_unassigned := True\<rparr>)"

definition priorityView :: "uid \<Rightarrow> string \<Rightarrow> InboxQueryOptions \<Rightarrow> (ConversationSummary, millis) PaginatedResult cvsvc" where
  "priorityView tenantId priority q = listInbox tenantId (q\<lparr>iq_priority := Some priority\<rparr>)"

definition unreadCount :: "uid \<Rightarrow> InboxQueryOptions \<Rightarrow> int cvsvc" where
  "unreadCount tenantId q = cvRead (countUnread tenantId q)"

end
