(* ===== verification/Conversation_Service.thy ===== *)
theory Conversation_Service
  imports Conversation_World
begin

text \<open>
  The services of conversations (\<^verbatim>\<open>src/modules/conversations/services\<close>) and their queue processor. Every method loads the
  conversation, changes it, saves it, rebuilds its row of the read model and publishes its events; publishing is best
  effort. Deleting, tagging and noting do not rebuild the read model.
\<close>

subsection \<open>Publishing and the read model\<close>

definition SUMMARY_TRIGGER_EVENTS :: "string list" where
  "SUMMARY_TRIGGER_EVENTS = [''conversation.created'', ''conversation.updated'', ''conversation.assigned'', ''conversation.transferred'',
     ''conversation.resolved'', ''conversation.closed'', ''conversation.archived'']"

definition INBOX_PROJECTION_EVENTS :: "string list" where
  "INBOX_PROJECTION_EVENTS = [''conversation.created'', ''conversation.updated'']"

fun convEventTenant :: "conv_event \<Rightarrow> uid" where
  "convEventTenant (ConversationCreatedEvent t _ _ _) = t"
| "convEventTenant (ConversationUpdatedEvent t _ _ _) = t"
| "convEventTenant (ConversationAssignedEvent t _ _) = t"
| "convEventTenant (ConversationTransferredEvent t _ _ _) = t"
| "convEventTenant (ConversationTaggedEvent t _ _) = t"
| "convEventTenant (ConversationNoteAddedEvent t _ _ _) = t"
| "convEventTenant (ConversationResolvedEvent t _ _) = t"
| "convEventTenant (ConversationClosedEvent t _ _) = t"
| "convEventTenant (ConversationArchivedEvent t _) = t"
| "convEventTenant (ConversationResolutionStartedEvent t _ _) = t"
| "convEventTenant (CustomerNotifiedOnResolutionEvent t _ _ _) = t"

definition ConversationEventPublisher_publish :: "conv_event \<Rightarrow> unit cvsvc" where
  "ConversationEventPublisher_publish ev =
     (let n = convEventName ev; i = convEventAggregate ev
      in bestEffort (andThen
           (if n \<in> set SUMMARY_TRIGGER_EVENTS
            then andThen (cvAddJob (ConversationSummaryJob i)) (\<lambda>_. cvAddJob (ConversationAnalyticsJob i n)) else ret ()) (\<lambda>_.
           if n \<in> set INBOX_PROJECTION_EVENTS then cvAddJob (InboxProjectionJob (convEventTenant ev) n i) else ret ())))"

definition sentimentScore :: "ConversationSentimentEnum \<Rightarrow> int" where
  "sentimentScore s = (case s of SEN_POSITIVE \<Rightarrow> 1 | SEN_NEUTRAL \<Rightarrow> 0 | SEN_NEGATIVE \<Rightarrow> - 1)"

definition rebuild :: "uid \<Rightarrow> uid \<Rightarrow> ConversationSummary option cvsvc" where
  "rebuild tenantId conversationId =
     andThen (cvRead (findConversation conversationId tenantId)) (\<lambda>found. case found of
       None \<Rightarrow> ret None
     | Some conversation \<Rightarrow>
         andThen (asks (\<lambda>w. vw_customer w tenantId (cv_customerId conversation))) (\<lambda>customer.
         andThen (asks (\<lambda>w. tw_db (vw_team w))) (\<lambda>teams.
         andThen (cvRead (getSummary conversationId tenantId)) (\<lambda>existing.
         andThen (case existing of Some s \<Rightarrow> ret (su_id s) | None \<Rightarrow> cvUUID) (\<lambda>i.
         andThen cvNow (\<lambda>now.
         let summary =
           \<lparr>su_id = i, su_tenantId = tenantId, su_conversationId = conversationId,
            su_customerName = (case customer of Inl _ \<Rightarrow> None | Inr c \<Rightarrow> Some (cuv_name c)),
            su_customerAvatar = (case customer of Inl _ \<Rightarrow> None | Inr c \<Rightarrow> cuv_avatar c),
            su_lastMessage = (case existing of None \<Rightarrow> None | Some s \<Rightarrow> su_lastMessage s),
            su_lastMessageType = (case existing of None \<Rightarrow> None | Some s \<Rightarrow> su_lastMessageType s),
            su_lastMessageAt = (case cv_lastMessageAt conversation of Some t \<Rightarrow> Some t
              | None \<Rightarrow> (case existing of None \<Rightarrow> None | Some s \<Rightarrow> su_lastMessageAt s)),
            su_unreadCount = (case existing of None \<Rightarrow> 0 | Some s \<Rightarrow> su_unreadCount s),
            su_totalMessages = (case existing of None \<Rightarrow> 0 | Some s \<Rightarrow> su_totalMessages s),
            su_totalAttachments = (case existing of None \<Rightarrow> 0 | Some s \<Rightarrow> su_totalAttachments s),
            su_sentimentScore = sentimentScore (cv_sentiment conversation), su_priority = Some (cv_priority conversation),
            su_status = Some (cv_status conversation),
            su_assignedAgentName = (case orUndefined (cv_assignedAgentId conversation) of None \<Rightarrow> None
              | Some a \<Rightarrow> map_option ap_displayName (findProfileById a tenantId teams)),
            su_assignedTeamName = (case orUndefined (cv_assignedTeamId conversation) of None \<Rightarrow> None
              | Some t \<Rightarrow> Option.bind (findTeamById t tenantId teams) te_name),
            su_createdAt = (case existing of None \<Rightarrow> now | Some s \<Rightarrow> su_createdAt s), su_updatedAt = now\<rparr>
         in andThen (cvWrite (\<lambda>now. upsertSummary now summary tenantId)) (\<lambda>_. ret (Some summary))))))))"

definition cvPublishAll :: "Conversation \<Rightarrow> Conversation cvsvc" where
  "cvPublishAll c = andThen (forEach (cv_domainEvents c) ConversationEventPublisher_publish) (\<lambda>_. ret (c\<lparr>cv_domainEvents := []\<rparr>))"

definition persistConversation :: "Conversation \<Rightarrow> uid \<Rightarrow> Conversation cvsvc" where
  "persistConversation c tenantId =
     andThen (cvWrite (\<lambda>now. saveConversation now c tenantId)) (\<lambda>_.
     andThen (rebuild tenantId (cv_id c)) (\<lambda>_.
     cvPublishAll c))"

definition getConversationOrThrow :: "uid \<Rightarrow> uid \<Rightarrow> Conversation cvsvc" where
  "getConversationOrThrow tenantId i =
     andThen (cvRead (findConversation i tenantId)) (\<lambda>found. case found of
       None \<Rightarrow> throw (NotFoundException (''Conversation with ID '' @ i @ '' not found''))
     | Some c \<Rightarrow> ret c)"

text \<open>Load, change, persist, log: the shape of most methods.\<close>

definition changeConversation :: "uid \<Rightarrow> uid \<Rightarrow> (millis \<Rightarrow> Conversation \<Rightarrow> Conversation) \<Rightarrow> uid option \<Rightarrow> string \<Rightarrow> string \<Rightarrow> Conversation cvsvc" where
  "changeConversation tenantId i f userId action details =
     andThen (getConversationOrThrow tenantId i) (\<lambda>c.
     andThen cvNow (\<lambda>now.
     andThen (persistConversation (f now c) tenantId) (\<lambda>c'.
     andThen (cvLog tenantId userId action details) (\<lambda>_. ret c'))))"

subsection \<open>The conversation service\<close>

record CreateConversationDto =
  ccd_customerId :: uid
  ccd_channelId :: "uid option"
  ccd_assignedAgentId :: "uid option"
  ccd_assignedTeamId :: "uid option"
  ccd_priority :: "ConversationPriorityEnum option"
  ccd_subject :: "string option"
  ccd_language :: "string option"
  ccd_source :: "string option"
  ccd_metadata :: "(string \<times> json) list option"

definition ConversationService_create :: "uid \<Rightarrow> CreateConversationDto \<Rightarrow> uid option \<Rightarrow> Conversation cvsvc" where
  "ConversationService_create tenantId dto userId =
     andThen (asks (\<lambda>w. vw_customer w tenantId (ccd_customerId dto))) (\<lambda>customer.
     andThen (liftR customer) (\<lambda>_.
     andThen (cvRead (findPaginated tenantId (anyConversation\<lparr>cq_limit := Some 1\<rparr>))) (\<lambda>page.
     andThen (asks (\<lambda>w. vw_enforceLimit w tenantId (pg_total page))) (\<lambda>limit.
     andThen (liftR limit) (\<lambda>_.
     andThen cvUUID (\<lambda>i.
     andThen (liftR (ConversationLanguage_create (inTemplate (orS (ccd_language dto) (Some ''en''))))) (\<lambda>language.
     andThen (liftR (ConversationSource_create (inTemplate (orS (ccd_source dto) (Some ''API''))))) (\<lambda>source.
     andThen cvNow (\<lambda>now.
     andThen cvUUID (\<lambda>p.
     let c = addParticipant now
          \<lparr>pa_id = p, pa_tenantId = tenantId, pa_conversationId = i, pa_participantId = ccd_customerId dto, pa_participantType = ''CUSTOMER'', pa_joinedAt = now\<rparr>
          (Conversation_create now i tenantId (ccd_customerId dto) (ccd_channelId dto) (ccd_assignedAgentId dto) (ccd_assignedTeamId dto)
             (if truthy (ccd_assignedAgentId dto) then CS_ASSIGNED else CS_OPEN) (patched (ccd_priority dto) CPR_MEDIUM) (ccd_subject dto)
             language SEN_NEUTRAL source (patched (ccd_metadata dto) []))
     in andThen (persistConversation c tenantId) (\<lambda>c.
        andThen (cvLog tenantId userId ''CONVERSATION_CREATE'' (''Created conversation '' @ i @ '' for customer '' @ ccd_customerId dto)) (\<lambda>_.
        ret c))))))))))))"

definition ConversationService_update :: "uid \<Rightarrow> uid \<Rightarrow> ConversationPatch \<Rightarrow> uid option \<Rightarrow> Conversation cvsvc" where
  "ConversationService_update tenantId i dto userId =
     andThen (getConversationOrThrow tenantId i) (\<lambda>c.
     andThen (case cvp_language dto of None \<Rightarrow> ret None
              | Some l \<Rightarrow> andThen (liftR (ConversationLanguage_create l)) (\<lambda>l'. ret (Some l'))) (\<lambda>language.
     andThen cvNow (\<lambda>now.
     andThen (persistConversation (Conversation_update now (dto\<lparr>cvp_language := language\<rparr>) c) tenantId) (\<lambda>c'.
     andThen (cvLog tenantId userId ''CONVERSATION_UPDATE'' (''Updated conversation '' @ i)) (\<lambda>_. ret c')))))"

definition ConversationService_resolve :: "uid \<Rightarrow> uid \<Rightarrow> uid option \<Rightarrow> Conversation cvsvc" where
  "ConversationService_resolve tenantId i userId =
     changeConversation tenantId i (\<lambda>now. Conversation_resolve now userId) userId ''CONVERSATION_RESOLVE'' (''Resolved conversation '' @ i)"

definition ConversationService_close :: "uid \<Rightarrow> uid \<Rightarrow> string option \<Rightarrow> uid option \<Rightarrow> Conversation cvsvc" where
  "ConversationService_close tenantId i reason userId =
     changeConversation tenantId i (\<lambda>now. Conversation_close now reason) userId ''CONVERSATION_CLOSE'' (''Closed conversation '' @ i)"

definition ConversationService_archive :: "uid \<Rightarrow> uid \<Rightarrow> uid option \<Rightarrow> Conversation cvsvc" where
  "ConversationService_archive tenantId i userId =
     changeConversation tenantId i Conversation_archive userId ''CONVERSATION_ARCHIVE'' (''Archived conversation '' @ i)"

text \<open>The bulk methods: one item after the other, a failure is counted and does not stop the rest.\<close>

fun bulkChange :: "(uid \<Rightarrow> 'a cvsvc) \<Rightarrow> uid list \<Rightarrow> (nat \<times> uid list) cvsvc" where
  "bulkChange f [] = ret (0, [])"
| "bulkChange f (i # is) =
     andThen (tryCatch (andThen (f i) (\<lambda>_. ret True)) (\<lambda>_. ret False)) (\<lambda>ok.
     andThen (bulkChange f is) (\<lambda>(n, failed). ret (if ok then (n + 1, failed) else (n, i # failed))))"

definition bulkResolve :: "uid \<Rightarrow> uid list \<Rightarrow> uid option \<Rightarrow> (nat \<times> uid list) cvsvc" where
  "bulkResolve tenantId is userId = bulkChange (\<lambda>i. ConversationService_resolve tenantId i userId) is"

definition bulkClose :: "uid \<Rightarrow> uid list \<Rightarrow> string option \<Rightarrow> uid option \<Rightarrow> (nat \<times> uid list) cvsvc" where
  "bulkClose tenantId is reason userId = bulkChange (\<lambda>i. ConversationService_close tenantId i reason userId) is"

definition ConversationService_delete :: "uid \<Rightarrow> uid \<Rightarrow> uid option \<Rightarrow> bool cvsvc" where
  "ConversationService_delete tenantId i userId =
     andThen (getConversationOrThrow tenantId i) (\<lambda>_.
     andThen (cvWrite (\<lambda>now db. snd (deleteConversation now i tenantId db))) (\<lambda>_.
     andThen (cvLog tenantId userId ''CONVERSATION_DELETE'' (''Soft deleted conversation '' @ i)) (\<lambda>_.
     ret True)))"

definition withEntry :: "string \<Rightarrow> json \<Rightarrow> (string \<times> json) list \<Rightarrow> (string \<times> json) list" where
  "withEntry k v m = (if list_ex (\<lambda>e. fst e = k) m then map (\<lambda>e. if fst e = k then (k, v) else e) m else m @ [(k, v)])"

text \<open>\<^verbatim>\<open>[...(ids || []), sourceId]\<close>, for a list under that key.\<close>

definition mergedIds :: "(string \<times> json) list \<Rightarrow> json list" where
  "mergedIds m = (case map_of m ''mergedConversationIds'' of Some (JArr js) \<Rightarrow> js | _ \<Rightarrow> [])"

definition ConversationService_merge :: "uid \<Rightarrow> uid \<Rightarrow> uid \<Rightarrow> uid option \<Rightarrow> Conversation cvsvc" where
  "ConversationService_merge tenantId sourceId targetId userId =
     andThen (getConversationOrThrow tenantId sourceId) (\<lambda>source.
     andThen (getConversationOrThrow tenantId targetId) (\<lambda>target.
     andThen cvNow (\<lambda>now.
     let target' = Conversation_update now (noPatch\<lparr>cvp_metadata := Some (withEntry ''mergedConversationIds''
            (JArr (mergedIds (cv_metadata target) @ [JStr sourceId])) (cv_metadata target))\<rparr>) target;
         source' = Conversation_archive now (Conversation_update now (noPatch\<lparr>cvp_metadata := Some (withEntry ''mergedInto'' (JStr targetId)
            (cv_metadata source))\<rparr>) source)
     in andThen (persistConversation target' tenantId) (\<lambda>target''.
        andThen (persistConversation source' tenantId) (\<lambda>_.
        andThen (cvLog tenantId userId ''CONVERSATION_MERGE'' (''Merged conversation '' @ sourceId @ '' into '' @ targetId)) (\<lambda>_.
        ret target''))))))"

definition ConversationService_split :: "uid \<Rightarrow> uid \<Rightarrow> uid option \<Rightarrow> Conversation cvsvc" where
  "ConversationService_split tenantId i userId =
     andThen (getConversationOrThrow tenantId i) (\<lambda>origin.
     andThen cvUUID (\<lambda>newId.
     andThen (liftR (ConversationLanguage_create (cv_language origin))) (\<lambda>language.
     andThen (liftR (ConversationSource_create (cv_source origin))) (\<lambda>source.
     andThen cvNow (\<lambda>now.
     andThen (persistConversation (Conversation_create now newId tenantId (cv_customerId origin) (cv_channelId origin) None None CS_OPEN
        (cv_priority origin) (if truthy (cv_subject origin) then Some (the (cv_subject origin) @ '' (split)'') else None) language
        (cv_sentiment origin) source [(''splitFrom'', JStr i)]) tenantId) (\<lambda>c.
     andThen (cvLog tenantId userId ''CONVERSATION_SPLIT'' (''Split conversation '' @ i @ '' into '' @ newId)) (\<lambda>_.
     ret c)))))))"

subsection \<open>Assignment\<close>

definition recordConversationAssignment :: "uid \<Rightarrow> uid \<Rightarrow> uid option \<Rightarrow> uid option \<Rightarrow> string \<Rightarrow> uid option \<Rightarrow> unit cvsvc" where
  "recordConversationAssignment tenantId i agent team ty assignedBy =
     andThen cvUUID (\<lambda>a.
     cvWrite (\<lambda>now. addConversationAssignment \<lparr>cas_id = a, cas_tenantId = tenantId, cas_conversationId = i, cas_agentProfileId = agent, cas_teamId = team,
       cas_assignedAt = now, cas_assignedBy = assignedBy, cas_assignmentType = (if ty = [] then ''MANUAL'' else ty)\<rparr> tenantId))"

definition notifyConversationAgent :: "uid \<Rightarrow> uid \<Rightarrow> uid \<Rightarrow> unit cvsvc" where
  "notifyConversationAgent tenantId agent i = bestEffort (cvAddJob (NotifyAssigned tenantId agent i))"

definition assignConversation :: "uid \<Rightarrow> uid \<Rightarrow> uid \<Rightarrow> uid option \<Rightarrow> string \<Rightarrow> uid option \<Rightarrow> Conversation cvsvc" where
  "assignConversation tenantId i agent team ty userId =
     andThen (getConversationOrThrow tenantId i) (\<lambda>c.
     andThen cvNow (\<lambda>now.
     andThen (persistConversation (assignAgent now agent team c) tenantId) (\<lambda>c'.
     andThen (recordConversationAssignment tenantId i (Some agent) team ty userId) (\<lambda>_.
     andThen (notifyConversationAgent tenantId agent i) (\<lambda>_.
     andThen (cvLog tenantId userId ''CONVERSATION_ASSIGN'' (''Assigned conversation '' @ i @ '' to agent '' @ agent @ '' ('' @ ty @ '')'')) (\<lambda>_.
     ret c'))))))"

text \<open>The team module is asked with a priority only, so no skill is required.\<close>

definition autoAssignConversation :: "uid \<Rightarrow> uid \<Rightarrow> uid \<Rightarrow> uid option \<Rightarrow> Conversation cvsvc" where
  "autoAssignConversation tenantId i teamId userId =
     andThen (getConversationOrThrow tenantId i) (\<lambda>_.
     andThen (onTeam (assignEntity tenantId teamId i ConversationEntity None)) (\<lambda>agent.
     assignConversation tenantId i agent (Some teamId) ''AUTO'' userId))"

definition transferConversation :: "uid \<Rightarrow> uid \<Rightarrow> uid \<Rightarrow> uid option \<Rightarrow> Conversation cvsvc" where
  "transferConversation tenantId i agent userId =
     andThen (getConversationOrThrow tenantId i) (\<lambda>c.
     andThen cvNow (\<lambda>now.
     andThen (persistConversation (Conversation_transfer now agent c) tenantId) (\<lambda>c'.
     andThen (recordConversationAssignment tenantId i (Some agent) (cv_assignedTeamId c') ''TRANSFER'' userId) (\<lambda>_.
     andThen (notifyConversationAgent tenantId agent i) (\<lambda>_.
     andThen (cvLog tenantId userId ''CONVERSATION_TRANSFER'' (''Transferred conversation '' @ i @ '' to agent '' @ agent)) (\<lambda>_.
     ret c'))))))"

definition ACTIVE_CONVERSATION_STATUSES :: "ConversationStatusEnum list" where
  "ACTIVE_CONVERSATION_STATUSES = [CS_OPEN, CS_PENDING, CS_ASSIGNED, CS_WAITING_CUSTOMER, CS_WAITING_AGENT]"

text \<open>The inner loop of the sweep over the conversations of one offline agent.\<close>

fun reassignAll :: "uid \<Rightarrow> Conversation list \<Rightarrow> (nat \<times> nat) cvsvc" where
  "reassignAll tenantId [] = ret (0, 0)"
| "reassignAll tenantId (c # cs) =
     andThen (if cv_status c \<notin> set ACTIVE_CONVERSATION_STATUSES then ret (0, 0)
              else if \<not> truthy (cv_assignedTeamId c) then ret (0, 1)
              else tryCatch (andThen (autoAssignConversation tenantId (cv_id c) (the (cv_assignedTeamId c)) None) (\<lambda>_. ret (1, 0))) (\<lambda>_. ret (0, 1))) (\<lambda>(r, s).
     andThen (reassignAll tenantId cs) (\<lambda>(r', s'). ret (r + r', s + s')))"

fun reassignConversationsOf :: "AgentAvailability list \<Rightarrow> (nat \<times> nat) cvsvc" where
  "reassignConversationsOf [] = ret (0, 0)"
| "reassignConversationsOf (a # as) =
     andThen (cvRead (findPaginated (av_tenantId a) (anyConversation\<lparr>cq_assignedAgentId := Some (av_agentProfileId a), cq_limit := Some 200\<rparr>))) (\<lambda>page.
     andThen (reassignAll (av_tenantId a) (pg_data page)) (\<lambda>(r, s).
     andThen (reassignConversationsOf as) (\<lambda>(r', s'). ret (r + r', s + s'))))"

definition reassignConversationsFromOfflineAgents :: "uid option \<Rightarrow> (nat \<times> nat) cvsvc" where
  "reassignConversationsFromOfflineAgents tenantId =
     andThen (asks (\<lambda>w. findOfflineAgents tenantId (tw_db (vw_team w)))) reassignConversationsOf"

subsection \<open>Tags, notes and mentions\<close>

definition ConversationTagService_addTag :: "uid \<Rightarrow> uid \<Rightarrow> string \<Rightarrow> string option \<Rightarrow> bool option \<Rightarrow> uid option \<Rightarrow> ConversationTag cvsvc" where
  "ConversationTagService_addTag tenantId i tag color isSystemTag userId =
     andThen (getConversationOrThrow tenantId i) (\<lambda>c.
     andThen cvUUID (\<lambda>g.
     andThen cvNow (\<lambda>now.
     let t = \<lparr>cg_id = g, cg_tenantId = tenantId, cg_conversationId = i, cg_tag = tag, cg_color = color,
              cg_isSystemTag = patched isSystemTag False, cg_createdAt = now\<rparr>;
         c' = Conversation_addTag now t c
     in andThen (cvWrite (\<lambda>now. saveConversation now c' tenantId)) (\<lambda>_.
        andThen (cvPublishAll c') (\<lambda>_.
        andThen (cvLog tenantId userId ''CONVERSATION_TAG_ADD'' (''Tagged conversation '' @ i @ '' with '' @ tag)) (\<lambda>_.
        ret t))))))"

definition bulkAddTag :: "uid \<Rightarrow> uid list \<Rightarrow> string \<Rightarrow> string option \<Rightarrow> bool option \<Rightarrow> uid option \<Rightarrow> (nat \<times> uid list) cvsvc" where
  "bulkAddTag tenantId is tag color isSystemTag userId =
     bulkChange (\<lambda>i. ConversationTagService_addTag tenantId i tag color isSystemTag userId) is"

definition ConversationTagService_removeTag :: "uid \<Rightarrow> uid \<Rightarrow> string \<Rightarrow> uid option \<Rightarrow> unit cvsvc" where
  "ConversationTagService_removeTag tenantId i tag userId =
     andThen (getConversationOrThrow tenantId i) (\<lambda>_.
     andThen (cvWrite (\<lambda>_. removeTagRow i tag tenantId)) (\<lambda>_.
     cvLog tenantId userId ''CONVERSATION_TAG_REMOVE'' (''Removed tag '' @ tag @ '' from conversation '' @ i)))"

definition ConversationNoteService_addNote :: "uid \<Rightarrow> uid \<Rightarrow> string \<Rightarrow> string option \<Rightarrow> uid \<Rightarrow> ConversationNote cvsvc" where
  "ConversationNoteService_addNote tenantId i note visibility authorId =
     andThen (getConversationOrThrow tenantId i) (\<lambda>c.
     andThen cvUUID (\<lambda>n.
     andThen cvNow (\<lambda>now.
     let x = \<lparr>ne_id = n, ne_tenantId = tenantId, ne_conversationId = i, ne_authorId = authorId, ne_note = note,
              ne_visibility = inTemplate (orS visibility (Some ''INTERNAL'')), ne_createdAt = now\<rparr>;
         c' = addNote now x c
     in andThen (cvWrite (\<lambda>now. saveConversation now c' tenantId)) (\<lambda>_.
        andThen (cvPublishAll c') (\<lambda>_.
        andThen (cvLog tenantId (Some authorId) ''CONVERSATION_NOTE_ADD'' (''Added internal note to conversation '' @ i)) (\<lambda>_.
        ret x))))))"

definition ConversationNoteService_mention :: "uid \<Rightarrow> uid \<Rightarrow> uid \<Rightarrow> string option \<Rightarrow> uid \<Rightarrow> ConversationMention cvsvc" where
  "ConversationNoteService_mention tenantId i mentionedUserId messageReference mentionedBy =
     andThen (getConversationOrThrow tenantId i) (\<lambda>c.
     andThen cvUUID (\<lambda>m.
     andThen cvNow (\<lambda>now.
     let x = \<lparr>me_id = m, me_tenantId = tenantId, me_conversationId = i, me_mentionedUserId = mentionedUserId, me_mentionedBy = mentionedBy,
              me_messageReference = messageReference, me_createdAt = now\<rparr>
     in andThen (cvWrite (\<lambda>now. saveConversation now (addMention now x c) tenantId)) (\<lambda>_.
        andThen (bestEffort (cvAddJob (NotifyMention tenantId i mentionedUserId))) (\<lambda>_.
        andThen (cvLog tenantId (Some mentionedBy) ''CONVERSATION_MENTION'' (''Mentioned user '' @ mentionedUserId @ '' in conversation '' @ i)) (\<lambda>_.
        ret x))))))"

subsection \<open>Resolution\<close>

record ResolutionOptions =
  ro_summary :: "string option"
  ro_linkedTicketId :: "uid option"
  ro_closingMessage :: "string option"

definition resolveAndClose :: "uid \<Rightarrow> uid \<Rightarrow> uid \<Rightarrow> ResolutionOptions \<Rightarrow> (uid \<times> ConversationStatusEnum) cvsvc" where
  "resolveAndClose tenantId i agent options =
     andThen (ConversationEventPublisher_publish (ConversationResolutionStartedEvent tenantId i agent)) (\<lambda>_.
     andThen (getConversationOrThrow tenantId i) (\<lambda>conversation.
     andThen (if truthy (ro_closingMessage options) then cvCall (CreateMessageCall tenantId i (the (ro_closingMessage options)) agent) else ret ()) (\<lambda>_.
     andThen (ConversationService_resolve tenantId i (Some agent)) (\<lambda>_.
     andThen (if truthy (ro_linkedTicketId options)
              then bestEffort (cvCall (ResolveTicketCall tenantId (the (ro_linkedTicketId options)) (ro_summary options) agent)) else ret ()) (\<lambda>_.
     andThen (asks (\<lambda>w. vw_customer w tenantId (cv_customerId conversation))) (\<lambda>customer.
     let email = (case customer of Inl _ \<Rightarrow> None | Inr c \<Rightarrow> Some (cuv_email c))
     in andThen (cvAddJob (NotifyResolved tenantId i email (ro_summary options))) (\<lambda>_.
        andThen (if truthy email
                 then ConversationEventPublisher_publish (CustomerNotifiedOnResolutionEvent tenantId i (cv_customerId conversation) ''EMAIL'')
                 else ret ()) (\<lambda>_.
        andThen (cvAddJob (CustomerSurvey tenantId i email)) (\<lambda>_.
        andThen (ConversationService_close tenantId i (Some ''Agent resolved'') None) (\<lambda>closed.
        andThen (cvAddJob (AnalyticsResolved tenantId i agent (ro_summary options))) (\<lambda>_.
        andThen (cvLog tenantId (Some agent) ''CONVERSATION_RESOLVED'' (''Agent '' @ agent @ '' resolved conversation '' @ i)) (\<lambda>_.
        ret (cv_id closed, cv_status closed)))))))))))))"

subsection \<open>The conversation queue\<close>

fun convJobName :: "conv_job \<Rightarrow> string" where
  "convJobName (ConversationAssignmentJob _ _ _) = ''conversation-assignment-job''"
| "convJobName (ConversationSummaryJob _) = ''conversation-summary-job''"
| "convJobName (ConversationMergeJob _ _ _) = ''conversation-merge-job''"
| "convJobName (ConversationArchiveJob _ _) = ''conversation-archive-job''"
| "convJobName AgentOfflineReassignmentJob = ''agent-offline-reassignment-job''"
| "convJobName (ConversationAnalyticsJob _ _) = ''conversation-analytics-job''"
| "convJobName (OtherConversationJob n) = n"
| "convJobName _ = ''job of another queue''"

text \<open>The tenant is the one of the envelope, else that of the data (which none of these jobs carries); without one only the
  sweep runs. The case of the AI answer belongs to the AI module; the messages of the errors leave out the id of the job.\<close>

definition handleConversationJob :: "conv_job \<times> uid option \<Rightarrow> json cvsvc" where
  "handleConversationJob q =
     (let n = convJobName (fst q); tenantId = inTemplate (snd q)
      in if \<not> truthy (snd q) \<and> n \<noteq> ''agent-offline-reassignment-job''
         then throw (Error (''Job ['' @ n @ ''] has no tenantId context -- refusing to process''))
         else case fst q of
             ConversationAssignmentJob i teamId userId \<Rightarrow>
               andThen (autoAssignConversation tenantId i teamId userId) (\<lambda>c. ret (JObj ((''conversationId'', JStr (cv_id c)) #
                 (case cv_assignedAgentId c of None \<Rightarrow> [] | Some a \<Rightarrow> [(''assignedAgentId'', JStr a)]))))
           | ConversationSummaryJob i \<Rightarrow>
               andThen (rebuild tenantId i) (\<lambda>s.
               andThen (invalidateInbox tenantId) (\<lambda>_. ret (JObj [(''rebuilt'', JBool (s \<noteq> None)), (''conversationId'', JStr i)])))
           | ConversationMergeJob s t userId \<Rightarrow>
               andThen (ConversationService_merge tenantId s t userId) (\<lambda>c. ret (JObj [(''targetId'', JStr (cv_id c))]))
           | ConversationArchiveJob i userId \<Rightarrow>
               andThen (ConversationService_archive tenantId i userId) (\<lambda>c.
               ret (JObj [(''conversationId'', JStr (cv_id c)), (''status'', JStr (convStatusName (cv_status c)))]))
           | AgentOfflineReassignmentJob \<Rightarrow>
               andThen (reassignConversationsFromOfflineAgents (snd q)) (\<lambda>(r, s). ret (JObj [(''reassigned'', JNum (int r)), (''skipped'', JNum (int s))]))
           | ConversationAnalyticsJob i ev \<Rightarrow>
               andThen (cvAddJob (AnalyticsConversationEvent i ev tenantId)) (\<lambda>_.
               ret (JObj [(''forwarded'', JBool True), (''conversationId'', JStr i)]))
           | _ \<Rightarrow> throw (Error (''Unknown job name: '' @ n)))"

end
