(* ===== verification/Conversation_Facts.thy ===== *)
theory Conversation_Facts
  imports Conversation_Service State_Frame Team_Properties
begin

text \<open>
  What saving, rebuilding and publishing do to the tables: a saved conversation is read back with its columns, the
  rebuilt summary carries its status and priority, and publishing touches no table.
\<close>

subsection \<open>Tables\<close>

lemma sameConversation_columns [simp]:
  "cv_id (conversationColumns now c) = cv_id c" "cv_tenantId (conversationColumns now c) = cv_tenantId c"
  "cv_status (conversationColumns now c) = cv_status c" "cv_priority (conversationColumns now c) = cv_priority c"
  "cv_version (conversationColumns now c) = cv_version c" "cv_metadata (conversationColumns now c) = cv_metadata c"
  "cv_deletedAt (conversationColumns now c) = cv_deletedAt c"
  by (simp_all add: conversationColumns_def)

lemma mapped_simps [simp]:
  "cv_id (mapped c) = cv_id c" "cv_tenantId (mapped c) = cv_tenantId c" "cv_status (mapped c) = cv_status c"
  "cv_priority (mapped c) = cv_priority c" "cv_assignedAgentId (mapped c) = cv_assignedAgentId c"
  "cv_assignedTeamId (mapped c) = cv_assignedTeamId c" "cv_metadata (mapped c) = cv_metadata c" "cv_deletedAt (mapped c) = cv_deletedAt c"
  "cv_customerId (mapped c) = cv_customerId c" "cv_domainEvents (mapped c) = cv_domainEvents c"
  by (simp_all add: mapped_def)

lemma findConversation_keys:
  "findConversation i t db = Some c \<Longrightarrow> cv_id c = i \<and> cv_tenantId c = t"
  by (auto simp: findConversation_def sameConversation_def dest!: find_Some_set)

lemma savedConversation_row:
  assumes "cv_tenantId c = t"
  shows "\<exists>now' ca. List.find (sameConversation (cv_id c) t) (saveConversationRow now c t rows) = Some ((conversationColumns now' c)\<lparr>cv_createdAt := ca\<rparr>)"
proof (cases "list_ex (sameConversation (cv_id c) t) rows")
  case True
  then obtain r where r: "List.find (sameConversation (cv_id c) t) rows = Some r" using list_ex_find by fastforce
  have "List.find (sameConversation (cv_id c) t) (map (\<lambda>r. if sameConversation (cv_id c) t r then (conversationColumns now c)\<lparr>cv_createdAt := cv_createdAt r\<rparr> else r) rs)
    = map_option (\<lambda>r. (conversationColumns now c)\<lparr>cv_createdAt := cv_createdAt r\<rparr>) (List.find (sameConversation (cv_id c) t) rs)" for rs
    using assms by (induction rs) (auto simp: sameConversation_def)
  then show ?thesis using True r by (auto simp: saveConversationRow_def)
next
  case False
  then have "List.find (sameConversation (cv_id c) t) (saveConversationRow now c t rows) = Some (conversationColumns (cv_createdAt c) c)"
    using assms by (simp add: saveConversationRow_def find_append_new sameConversation_def)
  moreover have "conversationColumns n c = (conversationColumns n c)\<lparr>cv_createdAt := cv_createdAt c\<rparr>" for n
    by (simp add: conversationColumns_def)
  ultimately show ?thesis by metis
qed

text \<open>The part of a conversation its row keeps and the read model shows.\<close>

definition shown :: "Conversation \<Rightarrow> ConversationStatusEnum \<times> ConversationPriorityEnum \<times> uid option \<times> uid option \<times> (string \<times> json) list \<times> millis option" where
  "shown c = (cv_status c, cv_priority c, orUndefined (cv_assignedAgentId c), orUndefined (cv_assignedTeamId c), cv_metadata c, cv_deletedAt c)"

lemma findConversation_save:
  assumes "cv_tenantId c = t"
  shows "map_option shown (findConversation (cv_id c) t (saveConversation now c t db)) = Some (shown c)"
proof -
  obtain now' ca where "List.find (sameConversation (cv_id c) t) (saveConversationRow now c t (vb_conversations db)) =
      Some ((conversationColumns now' c)\<lparr>cv_createdAt := ca\<rparr>)"
    using savedConversation_row [OF assms] by blast
  then show ?thesis
    by (simp add: findConversation_def saveConversation_def shown_def) (simp add: conversationColumns_def)
qed

lemma findConversation_save_other:
  assumes "j \<noteq> cv_id c"
  shows "map_option shown (findConversation j t (saveConversation now c t' db)) = map_option shown (findConversation j t db)"
proof -
  have "List.find (sameConversation j t) (map (\<lambda>r. if sameConversation (cv_id c) t' r then (conversationColumns now c)\<lparr>cv_createdAt := cv_createdAt r\<rparr> else r) rs)
      = List.find (sameConversation j t) rs" for rs
    using assms by (induction rs) (auto simp: sameConversation_def)
  then have "List.find (sameConversation j t) (saveConversationRow now c t' rs) = List.find (sameConversation j t) rs" for rs
    using assms by (simp add: saveConversationRow_def find_append_other sameConversation_def)
  then show ?thesis
    by (cases "List.find (sameConversation j t) (vb_conversations db)") (simp_all add: findConversation_def saveConversation_def shown_def)
qed

lemma getSummary_upsert: 
  assumes "su_tenantId s = t"
  shows "\<exists>s'. getSummary (su_conversationId s) t (upsertSummary now s t db) = Some s' \<and> su_status s' = su_status s \<and> su_priority s' = su_priority s"
proof -
  define same where "same = sameSummary (su_conversationId s) t"
  have "List.find same (map (\<lambda>r. if same r then (summaryColumns now t s)\<lparr>su_createdAt := su_createdAt r\<rparr> else r) rs)
    = map_option (\<lambda>r. (summaryColumns now t s)\<lparr>su_createdAt := su_createdAt r\<rparr>) (List.find same rs)" for rs
    using assms by (induction rs) (auto simp: same_def sameSummary_def summaryColumns_def)
  moreover have "same (summaryColumns now t s)" by (simp add: same_def sameSummary_def summaryColumns_def)
  ultimately show ?thesis
    using list_ex_find [of same "vb_summaries db"]
    by (auto simp: getSummary_def upsertSummary_def same_def [symmetric] Let_def find_append_new summaryColumns_def)
qed

lemma findConversation_upsert [simp]: "findConversation i t (upsertSummary now s t' db) = findConversation i t db"
  by (simp add: findConversation_def upsertSummary_def Let_def)

subsection \<open>Publishing\<close>

text \<open>Publishing adds jobs and nothing else, and it never fails.\<close>

definition onlyJobs :: "ConvWorld \<Rightarrow> ConvWorld \<Rightarrow> bool" where
  "onlyJobs w w' \<longleftrightarrow> (\<exists>js. w' = w\<lparr>vw_jobs := js\<rparr>)"

lemma onlyJobs_refl: "onlyJobs w w"
  unfolding onlyJobs_def by (rule exI [of _ "vw_jobs w"]) simp

lemma onlyJobs_trans: "onlyJobs w w' \<Longrightarrow> onlyJobs w' w'' \<Longrightarrow> onlyJobs w w''"
  by (auto simp: onlyJobs_def)

lemma onlyJobs_same:
  assumes "onlyJobs w w'"
  shows "vw_db w' = vw_db w" "vw_now w' = vw_now w" "vw_team w' = vw_team w" "vw_uuid w' = vw_uuid w" "vw_uuidNext w' = vw_uuidNext w"
    "vw_customer w' = vw_customer w" "vw_cache w' = vw_cache w" "vw_cacheUp w' = vw_cacheUp w" "vw_queueUp w' = vw_queueUp w"
    "vw_answer w' = vw_answer w" "vw_calls w' = vw_calls w" "vw_audit w' = vw_audit w"
  using assms by (auto simp: onlyJobs_def)

lemma cvAddJob_only: "cvAddJob j w = (r, w') \<Longrightarrow> onlyJobs w w'"
  by (cases "vw_queueUp w") (auto simp: cvAddJob_def intro: onlyJobs_refl, auto simp: onlyJobs_def)

lemma bestEffort_ok: "fst (bestEffort m w) = Inr ()"
  by (auto simp: bestEffort_def svc_simps split: prod.splits sum.splits)

interpretation jobs: state_frame onlyJobs
  by unfold_locales (auto intro: onlyJobs_refl onlyJobs_trans)

lemma framed_cvAddJob: "framed onlyJobs (cvAddJob j)"
  unfolding framed_def by (metis cvAddJob_only prod.collapse)

lemma framed_publish: "framed onlyJobs (ConversationEventPublisher_publish ev)"
  by (auto simp: ConversationEventPublisher_publish_def bestEffort_def Let_def intro!: jobs.frame_rules framed_cvAddJob)

lemma forEach_unit_ok: "(\<And>x w. fst (f x w) = Inr ()) \<Longrightarrow> fst (forEach xs f w) = Inr ()"
proof (induction xs arbitrary: w)
  case (Cons x xs)
  obtain r w' where "f x w = (r, w')" by (cases "f x w")
  with Cons show ?case by (metis andThen_Inr forEach.simps(2) fst_conv)
qed simp

lemma publishAll_ok:
  obtains w' where "cvPublishAll c w = (Inr (c\<lparr>cv_domainEvents := []\<rparr>), w')" "onlyJobs w w'"
proof -
  obtain r w' where run: "forEach (cv_domainEvents c) ConversationEventPublisher_publish w = (r, w')" by fastforce
  moreover have "r = Inr ()"
    using forEach_unit_ok [of ConversationEventPublisher_publish "cv_domainEvents c" w] run
    by (simp add: ConversationEventPublisher_publish_def bestEffort_ok Let_def)
  moreover have "onlyJobs w w'"
    using run by (blast intro: framedD jobs.frame_forEach framed_publish)
  ultimately show thesis by (intro that [of w']) (simp_all add: cvPublishAll_def)
qed

subsection \<open>Persisting\<close>

text \<open>What the services of conversations never touch while they persist.\<close>

definition sameSurroundings :: "ConvWorld \<Rightarrow> ConvWorld \<Rightarrow> bool" where
  "sameSurroundings w w' \<longleftrightarrow> vw_now w' = vw_now w \<and> vw_team w' = vw_team w \<and> vw_uuid w' = vw_uuid w \<and> vw_customer w' = vw_customer w \<and>
     vw_cache w' = vw_cache w \<and> vw_cacheUp w' = vw_cacheUp w \<and> vw_queueUp w' = vw_queueUp w \<and> vw_answer w' = vw_answer w \<and> vw_calls w' = vw_calls w"

lemma sameSurroundings_refl [simp]: "sameSurroundings w w"
  by (simp add: sameSurroundings_def)

lemma sameSurroundings_trans: "sameSurroundings w w' \<Longrightarrow> sameSurroundings w' w'' \<Longrightarrow> sameSurroundings w w''"
  by (simp add: sameSurroundings_def)

lemma onlyJobs_surroundings: "onlyJobs w w' \<Longrightarrow> sameSurroundings w w'"
  by (auto simp: onlyJobs_def sameSurroundings_def)

lemma rebuild_ok:
  assumes "findConversation i t (vw_db w) = Some c"
  obtains s w' where "rebuild t i w = (Inr (Some s), w')" "sameSurroundings w w'" "vw_db w' = upsertSummary (vw_now w) s t (vw_db w)"
    "su_tenantId s = t" "su_conversationId s = i" "su_status s = Some (cv_status c)" "su_priority s = Some (cv_priority c)"
    "vw_audit w' = vw_audit w" "vw_jobs w' = vw_jobs w"
proof (cases "getSummary i t (vw_db w)")
  case None
  then show thesis using assms that
    by (simp add: rebuild_def cvRead_def cvUUID_def cvNow_def cvWrite_def svc_simps Let_def sameSurroundings_def)
next
  case (Some e)
  then show thesis using assms that
    by (simp add: rebuild_def cvRead_def cvUUID_def cvNow_def cvWrite_def svc_simps Let_def sameSurroundings_def)
qed

text \<open>The inbox shows a conversation as its row says.\<close>

definition inboxInStep :: "uid \<Rightarrow> uid \<Rightarrow> ConvDb \<Rightarrow> bool" where
  "inboxInStep i t db \<longleftrightarrow>
     (case (findConversation i t db, getSummary i t db) of
        (Some c, Some s) \<Rightarrow> su_status s = Some (cv_status c) \<and> su_priority s = Some (cv_priority c)
      | _ \<Rightarrow> False)"

lemma persistConversation_ok:
  assumes "cv_tenantId c = t"
  obtains w' where "persistConversation c t w = (Inr (c\<lparr>cv_domainEvents := []\<rparr>), w')" "sameSurroundings w w'"
    "map_option shown (findConversation (cv_id c) t (vw_db w')) = Some (shown c)" "inboxInStep (cv_id c) t (vw_db w')" "vw_audit w' = vw_audit w"
    "\<forall>j. j \<noteq> cv_id c \<longrightarrow> map_option shown (findConversation j t (vw_db w')) = map_option shown (findConversation j t (vw_db w))"
proof -
  define w1 where "w1 = w\<lparr>vw_db := saveConversation (vw_now w) c t (vw_db w)\<rparr>"
  have readBack: "map_option shown (findConversation (cv_id c) t (vw_db w1)) = Some (shown c)"
    using findConversation_save [OF assms] by (simp add: w1_def)
  then obtain d where d: "findConversation (cv_id c) t (vw_db w1) = Some d" "shown d = shown c" by auto
  obtain s w2 where w2: "rebuild t (cv_id c) w1 = (Inr (Some s), w2)" "sameSurroundings w1 w2"
    "vw_db w2 = upsertSummary (vw_now w1) s t (vw_db w1)" "su_tenantId s = t" "su_conversationId s = cv_id c" "su_status s = Some (cv_status d)"
    "su_priority s = Some (cv_priority d)" "vw_audit w2 = vw_audit w1"
    using rebuild_ok [OF d(1)] by metis
  obtain w' where w': "cvPublishAll c w2 = (Inr (c\<lparr>cv_domainEvents := []\<rparr>), w')" "onlyJobs w2 w'" using publishAll_ok by blast
  have "persistConversation c t w = (Inr (c\<lparr>cv_domainEvents := []\<rparr>), w')"
    using w2(1) w'(1) by (simp add: persistConversation_def cvWrite_def svc_simps flip: w1_def)
  moreover have "sameSurroundings w w'"
    using w2(2) onlyJobs_surroundings [OF w'(2)] by (simp add: w1_def sameSurroundings_def)
  moreover have "inboxInStep (cv_id c) t (vw_db w')"
    using getSummary_upsert [OF w2(4), of "vw_now w1" "vw_db w1"] d(1) w2(3,5-7) onlyJobs_same(1) [OF w'(2)]
    by (auto simp: inboxInStep_def)
  moreover have "map_option shown (findConversation (cv_id c) t (vw_db w')) = Some (shown c)"
    using readBack w2(3) onlyJobs_same(1) [OF w'(2)] by simp
  moreover have "vw_audit w' = vw_audit w" using w2(8) onlyJobs_same(12) [OF w'(2)] by (simp add: w1_def)
  moreover have "\<forall>j. j \<noteq> cv_id c \<longrightarrow> map_option shown (findConversation j t (vw_db w')) = map_option shown (findConversation j t (vw_db w))"
    using findConversation_save_other w2(3) onlyJobs_same(1) [OF w'(2)] by (simp add: w1_def)
  ultimately show thesis by (intro that)
qed

text \<open>The shape of the methods: they fail only when the conversation is unknown.\<close>

lemma getConversation_ok: "findConversation i t (vw_db w) = Some c \<Longrightarrow> getConversationOrThrow t i w = (Inr c, w)"
  by (simp add: getConversationOrThrow_def cvRead_def svc_simps)

lemma change_ok:
  assumes found: "findConversation i t (vw_db w) = Some c" and keys: "\<And>now. cv_id (f now c) = cv_id c" "\<And>now. cv_tenantId (f now c) = cv_tenantId c"
  obtains w' where "changeConversation t i f userId action details w = (Inr ((f (vw_now w) c)\<lparr>cv_domainEvents := []\<rparr>), w')" "sameSurroundings w w'"
    "map_option shown (findConversation i t (vw_db w')) = Some (shown (f (vw_now w) c))" "inboxInStep i t (vw_db w')"
proof -
  have ids: "cv_id (f (vw_now w) c) = i" "cv_tenantId (f (vw_now w) c) = t"
    using keys findConversation_keys [OF found] by simp_all
  obtain w1 where w1: "persistConversation (f (vw_now w) c) t w = (Inr ((f (vw_now w) c)\<lparr>cv_domainEvents := []\<rparr>), w1)" "sameSurroundings w w1"
      "map_option shown (findConversation i t (vw_db w1)) = Some (shown (f (vw_now w) c))" "inboxInStep i t (vw_db w1)"
    using persistConversation_ok [OF ids(2)] unfolding ids(1) by metis
  show thesis
  proof (rule that)
    show "changeConversation t i f userId action details w =
        (Inr ((f (vw_now w) c)\<lparr>cv_domainEvents := []\<rparr>), w1\<lparr>vw_audit := vw_audit w1 @ [(t, userId, action, details)]\<rparr>)"
      using w1(1) getConversation_ok [OF found] by (simp add: changeConversation_def cvNow_def cvLog_def)
  qed (use w1 in \<open>simp_all add: sameSurroundings_def\<close>)
qed

section \<open>A sample world\<close>

text \<open>A tenant with two conversations in the hands of an offline agent, and summaries for the pages of the inbox.\<close>

definition sampleConversation :: "uid \<Rightarrow> Conversation" where
  "sampleConversation i = (Conversation_create 0 i ''acme'' ''cust'' None (Some ''ann'') (Some ''team'') CS_ASSIGNED CPR_MEDIUM (Some ''Printer'') ''en'' SEN_NEUTRAL ''API'' [])\<lparr>cv_domainEvents := []\<rparr>"

definition sampleSummary :: "uid \<Rightarrow> millis option \<Rightarrow> ConversationSummary" where
  "sampleSummary i at' = \<lparr>su_id = ''s-'' @ i, su_tenantId = ''acme'', su_conversationId = i, su_customerName = None, su_customerAvatar = None,
     su_lastMessage = None, su_lastMessageType = None, su_lastMessageAt = at', su_unreadCount = 1, su_totalMessages = 1, su_totalAttachments = 0,
     su_sentimentScore = 0, su_priority = Some CPR_MEDIUM, su_status = Some CS_ASSIGNED, su_assignedAgentName = None, su_assignedTeamName = None,
     su_createdAt = 0, su_updatedAt = 0\<rparr>"

definition sampleConvDb :: ConvDb where
  "sampleConvDb = \<lparr>vb_conversations = [sampleConversation ''c1'', sampleConversation ''c2''], vb_tags = [], vb_notes = [], vb_participants = [],
     vb_mentions = [], vb_assignments = [], vb_summaries = [sampleSummary ''c1'' (Some 100), sampleSummary ''c2'' (Some 200), sampleSummary ''c3'' (Some 300)]\<rparr>"

definition offlineTeamWorld :: TeamWorld where
  "offlineTeamWorld = sampleTeamWorld\<lparr>tw_db := (tw_db sampleTeamWorld)\<lparr>tb_members := [newMember 0 ''m1'' ''acme'' ''team'' ''ann'' ''MEMBER''],
     tb_availability := [(samplePresence ''ann'' 100 3)\<lparr>av_status := ''OFFLINE''\<rparr>]\<rparr>\<rparr>"

definition sampleConvWorld :: ConvWorld where
  "sampleConvWorld = \<lparr>vw_db = sampleConvDb, vw_team = offlineTeamWorld, vw_now = 1000, vw_uuid = (\<lambda>n. ''u'' @ showNat n), vw_uuidNext = 0,
     vw_customer = (\<lambda>_ _. Inr \<lparr>cuv_name = ''Eve'', cuv_avatar = None, cuv_email = ''eve@mail.test''\<rparr>), vw_enforceLimit = (\<lambda>_ _. Inr ()),
     vw_answer = (\<lambda>_. Inr ()), vw_calls = [], vw_tenantContext = Some ''acme'', vw_queueUp = True, vw_jobs = [], vw_audit = [],
     vw_cacheUp = True, vw_cache = Map.empty\<rparr>"

lemma sample_found:
  "findConversation ''c1'' ''acme'' (vw_db sampleConvWorld) = Some (sampleConversation ''c1'')"
  "findConversation ''c2'' ''acme'' (vw_db sampleConvWorld) = Some (sampleConversation ''c2'')"
  by (simp_all add: sampleConvWorld_def sampleConvDb_def findConversation_def sampleConversation_def Conversation_create_def cvEvent_def
      sameConversation_def mapped_def)

definition someResolution :: ResolutionOptions where
  "someResolution = \<lparr>ro_summary = Some ''Fixed'', ro_linkedTicketId = None, ro_closingMessage = Some ''Bye''\<rparr>"

end
