(* ===== verification/Conversation_Properties.thy ===== *)
theory Conversation_Properties
  imports Conversation_Facts
begin

text \<open>
  What the conversation module promises: the read model follows every change of state, resolving ends in a closed
  conversation, merging links both rows, bulk methods account for every id. Then what it misses: deletions, a queue
  that is down, conversations merged with themselves.
\<close>

lemma shown_events [simp]: "shown (c\<lparr>cv_domainEvents := es\<rparr>) = shown c"
  by (simp add: shown_def)

lemmas conv_methods = Conversation_resolve_def Conversation_close_def Conversation_archive_def assignAgent_def
  Conversation_transfer_def Conversation_update_def cvEvent_def cvTouch_def Let_def

lemma conv_methods_keep_keys [simp]:
  "cv_id (Conversation_resolve now u c) = cv_id c" "cv_tenantId (Conversation_resolve now u c) = cv_tenantId c"
  "cv_id (Conversation_close now r c) = cv_id c" "cv_tenantId (Conversation_close now r c) = cv_tenantId c"
  "cv_id (Conversation_archive now c) = cv_id c" "cv_tenantId (Conversation_archive now c) = cv_tenantId c"
  "cv_id (assignAgent now a g c) = cv_id c" "cv_tenantId (assignAgent now a g c) = cv_tenantId c"
  "cv_id (Conversation_transfer now a c) = cv_id c" "cv_tenantId (Conversation_transfer now a c) = cv_tenantId c"
  "cv_id (Conversation_update now p c) = cv_id c" "cv_tenantId (Conversation_update now p c) = cv_tenantId c"
  by (simp_all add: conv_methods)

lemma conv_methods_status [simp]:
  "cv_status (Conversation_resolve now u c) = CS_RESOLVED" "cv_status (Conversation_close now r c) = CS_CLOSED"
  "cv_status (Conversation_archive now c) = CS_ARCHIVED" "cv_status (assignAgent now a g c) = CS_ASSIGNED"
  "cv_status (Conversation_transfer now a c) = CS_ASSIGNED"
  by (simp_all add: conv_methods)

text \<open>The state of a conversation as its row and its line of the inbox say it.\<close>

definition statusSeen :: "uid \<Rightarrow> uid \<Rightarrow> ConvWorld \<Rightarrow> ConversationStatusEnum option \<times> ConversationStatusEnum option" where
  "statusSeen i t w =
     (map_option cv_status (findConversation i t (vw_db w)), Option.bind (getSummary i t (vw_db w)) su_status)"

text \<open>A method that succeeds and leaves the conversation in a status both of them show.\<close>

definition endsIn :: "ConversationStatusEnum \<Rightarrow> uid \<Rightarrow> uid \<Rightarrow> Conversation cvsvc \<Rightarrow> ConvWorld \<Rightarrow> bool" where
  "endsIn st i t m w \<longleftrightarrow> (case m w of (Inl _, _) \<Rightarrow> False | (Inr _, w') \<Rightarrow> statusSeen i t w' = (Some st, Some st))"

lemma endsInI:
  assumes "m w = (Inr d, w')" "inboxInStep i t (vw_db w')" "map_option shown (findConversation i t (vw_db w')) = Some (shown c)" "cv_status c = st"
  shows "endsIn st i t m w"
  using assms by (auto simp: endsIn_def statusSeen_def inboxInStep_def shown_def split: option.splits)

lemma change_ends:
  assumes "findConversation i t (vw_db w) = Some c" "\<And>now. cv_id (f now c) = cv_id c" "\<And>now. cv_tenantId (f now c) = cv_tenantId c"
    "\<And>now. cv_status (f now c) = st"
  shows "endsIn st i t (changeConversation t i f u action details) w"
proof -
  obtain w' where "changeConversation t i f u action details w = (Inr ((f (vw_now w) c)\<lparr>cv_domainEvents := []\<rparr>), w')"
      "map_option shown (findConversation i t (vw_db w')) = Some (shown (f (vw_now w) c))" "inboxInStep i t (vw_db w')"
    using change_ok [OF assms(1), where f = f, OF assms(2,3)] by blast
  then show ?thesis using assms(4) by (blast intro: endsInI)
qed

subsection \<open>Assignment\<close>

lemma notify_ok:
  obtains w' where "notifyConversationAgent t agent i w = (Inr (), w')" "onlyJobs w w'"
proof -
  have "framed onlyJobs (notifyConversationAgent t agent i)"
    by (auto simp: notifyConversationAgent_def bestEffort_def intro!: jobs.frame_rules framed_cvAddJob)
  then have "onlyJobs w (snd (notifyConversationAgent t agent i w))" by (simp add: framed_def)
  moreover have "fst (notifyConversationAgent t agent i w) = Inr ()" by (simp add: notifyConversationAgent_def bestEffort_ok)
  ultimately show thesis by (intro that [of "snd (notifyConversationAgent t agent i w)"]) (auto simp: prod_eq_iff)
qed

lemma record_ok:
  obtains w' where "recordConversationAssignment t i agent team ty u w = (Inr (), w')" "sameSurroundings w w'"
    "\<And>j s. findConversation j s (vw_db w') = findConversation j s (vw_db w)" "\<And>j s. getSummary j s (vw_db w') = getSummary j s (vw_db w)"
  by (rule that [of "snd (recordConversationAssignment t i agent team ty u w)"])
    (simp_all add: recordConversationAssignment_def cvUUID_def cvWrite_def svc_simps sameSurroundings_def addConversationAssignment_def findConversation_def getSummary_def)

text \<open>Both methods persist the conversation, record the assignment, tell the agent and log.\<close>

definition handOver :: "Conversation \<Rightarrow> uid \<Rightarrow> uid \<Rightarrow> (Conversation \<Rightarrow> uid option) \<Rightarrow> string \<Rightarrow> uid option \<Rightarrow> string \<Rightarrow> string \<Rightarrow> Conversation cvsvc" where
  "handOver d t agent g ty u action details =
     andThen (persistConversation d t) (\<lambda>c'.
     andThen (recordConversationAssignment t (cv_id d) (Some agent) (g c') ty u) (\<lambda>_.
     andThen (notifyConversationAgent t agent (cv_id d)) (\<lambda>_.
     andThen (cvLog t u action details) (\<lambda>_.
     ret c'))))"

lemma handOver_ok:
  assumes "cv_tenantId d = t"
  obtains w' where "handOver d t agent g ty u action details w = (Inr (d\<lparr>cv_domainEvents := []\<rparr>), w')" "sameSurroundings w w'"
    "map_option shown (findConversation (cv_id d) t (vw_db w')) = Some (shown d)" "inboxInStep (cv_id d) t (vw_db w')"
    "\<forall>j. j \<noteq> cv_id d \<longrightarrow> map_option shown (findConversation j t (vw_db w')) = map_option shown (findConversation j t (vw_db w))"
proof -
  obtain w1 where w1: "persistConversation d t w = (Inr (d\<lparr>cv_domainEvents := []\<rparr>), w1)" "sameSurroundings w w1"
      "map_option shown (findConversation (cv_id d) t (vw_db w1)) = Some (shown d)" "inboxInStep (cv_id d) t (vw_db w1)"
      "\<forall>j. j \<noteq> cv_id d \<longrightarrow> map_option shown (findConversation j t (vw_db w1)) = map_option shown (findConversation j t (vw_db w))"
    using persistConversation_ok [OF assms] by metis
  obtain w2 where w2: "recordConversationAssignment t (cv_id d) (Some agent) (g (d\<lparr>cv_domainEvents := []\<rparr>)) ty u w1 = (Inr (), w2)" "sameSurroundings w1 w2"
      "\<And>j s. findConversation j s (vw_db w2) = findConversation j s (vw_db w1)" "\<And>j s. getSummary j s (vw_db w2) = getSummary j s (vw_db w1)"
    using record_ok by blast
  obtain w3 where w3: "notifyConversationAgent t agent (cv_id d) w2 = (Inr (), w3)" "onlyJobs w2 w3"
    using notify_ok by blast
  show thesis
  proof (rule that)
    show "handOver d t agent g ty u action details w = (Inr (d\<lparr>cv_domainEvents := []\<rparr>), w3\<lparr>vw_audit := vw_audit w3 @ [(t, u, action, details)]\<rparr>)"
      using w1(1) w2(1) w3(1) by (simp add: handOver_def cvLog_def)
  qed (use w1 w2 onlyJobs_same [OF w3(2)] in \<open>simp_all add: inboxInStep_def sameSurroundings_def\<close>)
qed

lemma assign_handOver:
  "findConversation i t (vw_db w) = Some c \<Longrightarrow>
   assignConversation t i agent team ty u w = handOver (assignAgent (vw_now w) agent team c) t agent (\<lambda>_. team) ty u ''CONVERSATION_ASSIGN''
     (''Assigned conversation '' @ i @ '' to agent '' @ agent @ '' ('' @ ty @ '')'') w"
  by (simp add: assignConversation_def handOver_def cvNow_def getConversation_ok findConversation_keys del: append_Cons)

lemma transfer_handOver:
  "findConversation i t (vw_db w) = Some c \<Longrightarrow>
   transferConversation t i agent u w = handOver (Conversation_transfer (vw_now w) agent c) t agent cv_assignedTeamId ''TRANSFER'' u
     ''CONVERSATION_TRANSFER'' (''Transferred conversation '' @ i @ '' to agent '' @ agent) w"
  by (simp add: transferConversation_def handOver_def cvNow_def getConversation_ok findConversation_keys del: append_Cons)

lemma handOver_ends:
  assumes "m w = handOver d t agent g ty u action details w" "cv_tenantId d = t" "cv_id d = i" "cv_status d = st"
  shows "endsIn st i t m w"
proof (rule handOver_ok [OF assms(2), of agent g ty u action details w])
  fix w'
  assume run: "handOver d t agent g ty u action details w = (Inr (d\<lparr>cv_domainEvents := []\<rparr>), w')"
    and row: "map_option shown (findConversation (cv_id d) t (vw_db w')) = Some (shown d)" and step: "inboxInStep (cv_id d) t (vw_db w')"
  show ?thesis by (rule endsInI) (use run row step assms in simp_all)
qed

subsection \<open>The read model\<close>

text \<open>Resolving, closing, archiving, assigning and transferring a known conversation always succeed, with the queue up or
  down, and afterwards its row and its line of the inbox both show the new status.\<close>

theorem status_changes_reach_the_inbox:
  assumes "findConversation i t (vw_db w) = Some c"
  shows "endsIn CS_RESOLVED i t (ConversationService_resolve t i u) w \<and>
    endsIn CS_CLOSED i t (ConversationService_close t i reason u) w \<and>
    endsIn CS_ARCHIVED i t (ConversationService_archive t i u) w \<and>
    endsIn CS_ASSIGNED i t (assignConversation t i agent team ty u) w \<and>
    endsIn CS_ASSIGNED i t (transferConversation t i agent u) w"
proof (intro conjI)
  note keys = findConversation_keys [OF assms]
  show "endsIn CS_ASSIGNED i t (assignConversation t i agent team ty u) w"
    by (rule handOver_ends, rule assign_handOver [OF assms]) (use keys in simp_all)
  show "endsIn CS_ASSIGNED i t (transferConversation t i agent u) w"
    by (rule handOver_ends, rule transfer_handOver [OF assms]) (use keys in simp_all)
qed (simp_all only: ConversationService_resolve_def ConversationService_close_def ConversationService_archive_def change_ends [OF assms]
      conv_methods_keep_keys conv_methods_status)

text \<open>Deleting a conversation archives and marks its row, so the list no longer shows it, but it touches no summary: every
  page of the inbox is the same as before, with the conversation in its old status, and the conversation can still be
  opened.\<close>

theorem deleted_conversation_stays_in_the_inbox:
  assumes "findConversation i t (vw_db w) = Some c"
  shows "\<exists>w' d. ConversationService_delete t i u w = (Inr True, w') \<and> findConversation i t (vw_db w') = Some d \<and>
    cv_status d = CS_ARCHIVED \<and> cv_deletedAt d = Some (vw_now w) \<and>
    i \<notin> cv_id ` set (pg_data (findPaginated t q (vw_db w'))) \<and> findInbox t r (vw_db w') = findInbox t r (vw_db w)"
proof -
  define same where "same = sameConversation i t"
  define mark where "mark = (\<lambda>r. if same r then r\<lparr>cv_deletedAt := Some (vw_now w), cv_status := CS_ARCHIVED, cv_updatedAt := vw_now w\<rparr> else r)"
  define db where "db = (vw_db w)\<lparr>vb_conversations := map mark (vb_conversations (vw_db w))\<rparr>"
  define w' where "w' = w\<lparr>vw_db := db, vw_audit := vw_audit w @ [(t, u, ''CONVERSATION_DELETE'', ''Soft deleted conversation '' @ i)]\<rparr>"
  obtain row where row: "List.find same (vb_conversations (vw_db w)) = Some row" using assms by (auto simp: findConversation_def same_def)
  then have "list_ex same (vb_conversations (vw_db w))" by (metis find_None_list_ex option.distinct(1))
  then have run: "ConversationService_delete t i u w = (Inr True, w')"
    using getConversation_ok [OF assms]
    by (simp add: ConversationService_delete_def cvWrite_def cvLog_def deleteConversation_def w'_def db_def mark_def same_def del: append_Cons)
  have "same (mark r) = same r" for r by (simp add: mark_def same_def sameConversation_def)
  then have "List.find same (map mark rs) = map_option mark (List.find same rs)" for rs by (induction rs) auto
  then have found: "List.find same (vb_conversations db) = Some (mark row)" "same row"
    using row find_Some_set [OF row] by (simp_all add: db_def)
  have gone: "cv_deletedAt r \<noteq> None" if "r \<in> set (vb_conversations db)" "cv_id r = i" "cv_tenantId r = t" for r
  proof -
    from that(1) obtain x where x: "r = mark x" by (auto simp: db_def)
    with that(2,3) have "same x" by (simp add: mark_def same_def sameConversation_def split: if_splits)
    with x show ?thesis by (simp add: mark_def)
  qed
  have ord: "set (sqlOrder b f rs) = set rs" for b f and rs :: "Conversation list" by (auto simp: sqlOrder_def Let_def)
  have "i \<notin> cv_id ` set (pg_data (findPaginated t q db))"
  proof
    assume "i \<in> cv_id ` set (pg_data (findPaginated t q db))"
    then obtain r where r: "r \<in> set (filter (conversationMatches t q) (vb_conversations db))" "i = cv_id r"
      by (auto simp: findPaginated_def Let_def ord dest!: in_set_takeD in_set_dropD)
    then show False using gone [of r] by (simp add: conversationMatches_def)
  qed
  moreover have "buildInboxConditions t r db = buildInboxConditions t r (vw_db w)"
  proof -
    have mark: "cv_id (mark x) = cv_id x" "cv_tenantId (mark x) = cv_tenantId x" "cv_assignedAgentId (mark x) = cv_assignedAgentId x"
      "cv_assignedTeamId (mark x) = cv_assignedTeamId x" for x by (simp_all add: mark_def)
    have "inConversations P t db j = inConversations P t (vw_db w) j" if "\<And>x. P (mark x) = P x" for P j
      by (simp add: inConversations_def db_def list_ex_iff mark that)
    then show ?thesis by (simp add: buildInboxConditions_def fun_eq_iff mark)
  qed
  then have "findInbox t r db = findInbox t r (vw_db w)" by (simp add: findInbox_def db_def)
  ultimately show ?thesis using run found by (auto simp: findConversation_def w'_def same_def mark_def simp del: append_Cons)
qed

subsection \<open>Bulk methods\<close>

lemma change_others:
  assumes "changeConversation t i f u action details w = (r, w')" "\<And>now c. cv_id (f now c) = cv_id c" "\<And>now c. cv_tenantId (f now c) = cv_tenantId c"
    and "j \<noteq> i"
  shows "map_option shown (findConversation j t (vw_db w')) = map_option shown (findConversation j t (vw_db w))"
proof (cases "findConversation i t (vw_db w)")
  case None
  then show ?thesis using assms(1) by (simp add: changeConversation_def getConversationOrThrow_def cvRead_def svc_simps)
next
  case (Some c)
  define d where "d = f (vw_now w) c"
  have keys: "cv_id d = i" "cv_tenantId d = t" using assms(2,3) findConversation_keys [OF Some] by (simp_all add: d_def)
  obtain w1 where w1: "persistConversation d t w = (Inr (d\<lparr>cv_domainEvents := []\<rparr>), w1)"
      "\<forall>j. j \<noteq> cv_id d \<longrightarrow> map_option shown (findConversation j t (vw_db w1)) = map_option shown (findConversation j t (vw_db w))"
    by (rule persistConversation_ok [OF keys(2), of w]) blast
  then have "w' = w1\<lparr>vw_audit := vw_audit w1 @ [(t, u, action, details)]\<rparr>"
    using assms(1) getConversation_ok [OF Some] by (simp add: changeConversation_def cvNow_def cvLog_def flip: d_def)
  then show ?thesis using w1(2) assms(4) keys(1) by simp
qed

lemma change_unknown:
  "findConversation i t (vw_db w) = None \<Longrightarrow>
   changeConversation t i f u action details w = (Inl (NotFoundException (''Conversation with ID '' @ i @ '' not found'')), w)"
  by (simp add: changeConversation_def getConversationOrThrow_def cvRead_def svc_simps)

lemma bulkChange_result:
  assumes f: "\<And>now c. cv_id (f now c) = cv_id c" "\<And>now c. cv_tenantId (f now c) = cv_tenantId c" "\<And>now c. cv_status (f now c) = st"
  shows "\<exists>w'. bulkChange (\<lambda>i. changeConversation t i f u action (details i)) is w =
      (Inr (length (filter (\<lambda>i. findConversation i t (vw_db w) \<noteq> None) is), filter (\<lambda>i. findConversation i t (vw_db w) = None) is), w') \<and>
    (\<forall>i. findConversation i t (vw_db w') = None \<longleftrightarrow> findConversation i t (vw_db w) = None) \<and>
    (\<forall>i. i \<in> set is \<or> map_option cv_status (findConversation i t (vw_db w)) = Some st \<longrightarrow>
       findConversation i t (vw_db w) \<noteq> None \<longrightarrow> map_option cv_status (findConversation i t (vw_db w')) = Some st)"
proof (induction "is" arbitrary: w)
  case (Cons i "is")
  obtain r w1 where run: "changeConversation t i f u action (details i) w = (r, w1)" by fastforce
  have others: "map_option shown (findConversation j t (vw_db w1)) = map_option shown (findConversation j t (vw_db w))" if "j \<noteq> i" for j
    using change_others [OF run f(1,2) that] .
  have mine: "if findConversation i t (vw_db w) = None then (\<exists>e. r = Inl e) \<and> w1 = w
      else (\<exists>d. r = Inr d) \<and> map_option cv_status (findConversation i t (vw_db w1)) = Some st"
  proof (cases "findConversation i t (vw_db w)")
    case None
    then show ?thesis using change_unknown [OF None, of f u action "details i"] run by simp
  next
    case (Some c)
    then have "endsIn st i t (changeConversation t i f u action (details i)) w" using f by (intro change_ends) auto
    then show ?thesis using run Some by (auto simp: endsIn_def statusSeen_def split: sum.splits)
  qed
  have none: "findConversation j t (vw_db w1) = None \<longleftrightarrow> findConversation j t (vw_db w) = None" for j
  proof (cases "j = i")
    case False
    then show ?thesis using others [OF False] by (metis option.map_disc_iff)
  qed (use mine in \<open>auto split: if_splits\<close>)
  have status: "map_option cv_status (findConversation j t (vw_db w1)) = Some st" if "map_option cv_status (findConversation j t (vw_db w)) = Some st" for j
  proof (cases "j = i")
    case True
    then show ?thesis using that mine by (auto split: if_splits)
  next
    case False
    then show ?thesis using that others [OF False] by (auto simp: shown_def)
  qed
  obtain w' where IH: "bulkChange (\<lambda>i. changeConversation t i f u action (details i)) is w1 =
      (Inr (length (filter (\<lambda>i. findConversation i t (vw_db w1) \<noteq> None) is), filter (\<lambda>i. findConversation i t (vw_db w1) = None) is), w')"
    "\<forall>i. findConversation i t (vw_db w') = None \<longleftrightarrow> findConversation i t (vw_db w1) = None"
    "\<forall>i. i \<in> set is \<or> map_option cv_status (findConversation i t (vw_db w1)) = Some st \<longrightarrow>
       findConversation i t (vw_db w1) \<noteq> None \<longrightarrow> map_option cv_status (findConversation i t (vw_db w')) = Some st"
    using Cons.IH by blast
  have "bulkChange (\<lambda>i. changeConversation t i f u action (details i)) (i # is) w =
      (Inr (length (filter (\<lambda>i. findConversation i t (vw_db w) \<noteq> None) (i # is)), filter (\<lambda>i. findConversation i t (vw_db w) = None) (i # is)), w')"
  proof (cases "findConversation i t (vw_db w) = None")
    case True
    then obtain e where "r = Inl e" "w1 = w" using mine by auto
    then show ?thesis using run IH(1) True by (simp add: svc_simps)
  next
    case False
    then obtain d where "r = Inr d" using mine by auto
    then show ?thesis using run IH(1) False by (simp add: svc_simps none)
  qed
  moreover have "map_option cv_status (findConversation j t (vw_db w')) = Some st"
    if "j \<in> set (i # is) \<or> map_option cv_status (findConversation j t (vw_db w)) = Some st" "findConversation j t (vw_db w) \<noteq> None" for j
    using that IH(3) [rule_format, of j] none [of j] status [of j] mine by (cases "j = i") auto
  ultimately show ?case using IH(2) none by (intro exI [of _ w'] conjI) simp_all
qed auto

text \<open>The bulk methods resolve and close every conversation that exists and report exactly the other ids as failed; the count
  and the failures together account for every id that was asked for.\<close>

theorem bulk_methods_change_every_known_conversation:
  "(\<exists>w'. bulkResolve t is u w =
       (Inr (length (filter (\<lambda>i. findConversation i t (vw_db w) \<noteq> None) is), filter (\<lambda>i. findConversation i t (vw_db w) = None) is), w') \<and>
     list_all (\<lambda>i. findConversation i t (vw_db w) = None \<or> map_option cv_status (findConversation i t (vw_db w')) = Some CS_RESOLVED) is) \<and>
   (\<exists>w'. bulkClose t is reason u w =
       (Inr (length (filter (\<lambda>i. findConversation i t (vw_db w) \<noteq> None) is), filter (\<lambda>i. findConversation i t (vw_db w) = None) is), w') \<and>
     list_all (\<lambda>i. findConversation i t (vw_db w) = None \<or> map_option cv_status (findConversation i t (vw_db w')) = Some CS_CLOSED) is)"
proof
  obtain w' where "bulkResolve t is u w =
       (Inr (length (filter (\<lambda>i. findConversation i t (vw_db w) \<noteq> None) is), filter (\<lambda>i. findConversation i t (vw_db w) = None) is), w')"
     "\<forall>i. i \<in> set is \<or> map_option cv_status (findConversation i t (vw_db w)) = Some CS_RESOLVED \<longrightarrow>
       findConversation i t (vw_db w) \<noteq> None \<longrightarrow> map_option cv_status (findConversation i t (vw_db w')) = Some CS_RESOLVED"
    using bulkChange_result [of "\<lambda>now. Conversation_resolve now u" CS_RESOLVED t u "''CONVERSATION_RESOLVE''" "\<lambda>i. ''Resolved conversation '' @ i" "is" w]
    unfolding bulkResolve_def ConversationService_resolve_def by (auto simp del: append_Cons)
  then show "\<exists>w'. bulkResolve t is u w =
       (Inr (length (filter (\<lambda>i. findConversation i t (vw_db w) \<noteq> None) is), filter (\<lambda>i. findConversation i t (vw_db w) = None) is), w') \<and>
     list_all (\<lambda>i. findConversation i t (vw_db w) = None \<or> map_option cv_status (findConversation i t (vw_db w')) = Some CS_RESOLVED) is"
    by (intro exI [of _ w']) (auto simp: list_all_iff)
  obtain w' where "bulkClose t is reason u w =
       (Inr (length (filter (\<lambda>i. findConversation i t (vw_db w) \<noteq> None) is), filter (\<lambda>i. findConversation i t (vw_db w) = None) is), w')"
     "\<forall>i. i \<in> set is \<or> map_option cv_status (findConversation i t (vw_db w)) = Some CS_CLOSED \<longrightarrow>
       findConversation i t (vw_db w) \<noteq> None \<longrightarrow> map_option cv_status (findConversation i t (vw_db w')) = Some CS_CLOSED"
    using bulkChange_result [of "\<lambda>now. Conversation_close now reason" CS_CLOSED t u "''CONVERSATION_CLOSE''" "\<lambda>i. ''Closed conversation '' @ i" "is" w]
    unfolding bulkClose_def ConversationService_close_def by (auto simp del: append_Cons)
  then show "\<exists>w'. bulkClose t is reason u w =
       (Inr (length (filter (\<lambda>i. findConversation i t (vw_db w) \<noteq> None) is), filter (\<lambda>i. findConversation i t (vw_db w) = None) is), w') \<and>
     list_all (\<lambda>i. findConversation i t (vw_db w) = None \<or> map_option cv_status (findConversation i t (vw_db w')) = Some CS_CLOSED) is"
    by (intro exI [of _ w']) (auto simp: list_all_iff)
qed


subsection \<open>Witnesses\<close>

theorem status_changes_reach_the_inbox_witness:
  "endsIn CS_RESOLVED ''c1'' ''acme'' (ConversationService_resolve ''acme'' ''c1'' None) sampleConvWorld \<and>
   endsIn CS_ASSIGNED ''c1'' ''acme'' (transferConversation ''acme'' ''c1'' ''bob'' None) sampleConvWorld"
  using status_changes_reach_the_inbox [OF sample_found(1), of None] by blast

theorem deleted_conversation_stays_in_the_inbox_witness:
  "\<exists>w'. ConversationService_delete ''acme'' ''c1'' None sampleConvWorld = (Inr True, w') \<and>
     findInbox ''acme'' anyInbox (vw_db w') = findInbox ''acme'' anyInbox (vw_db sampleConvWorld) \<and>
     map su_conversationId (pg_data (findInbox ''acme'' anyInbox (vw_db sampleConvWorld))) = [''c3'', ''c2'', ''c1'']"
proof -
  have "map su_conversationId (pg_data (findInbox ''acme'' anyInbox (vw_db sampleConvWorld))) = [''c3'', ''c2'', ''c1'']" by code_simp
  moreover obtain w' d where "ConversationService_delete ''acme'' ''c1'' None sampleConvWorld = (Inr True, w')"
      "findInbox ''acme'' anyInbox (vw_db w') = findInbox ''acme'' anyInbox (vw_db sampleConvWorld)"
    using deleted_conversation_stays_in_the_inbox [OF sample_found(1), of None anyConversation anyInbox] by auto
  ultimately show ?thesis by (intro exI [of _ w'] conjI)
qed

theorem bulk_methods_change_every_known_conversation_witness:
  "\<exists>w'. bulkResolve ''acme'' [''c1'', ''c9''] None sampleConvWorld = (Inr (1, [''c9'']), w')"
proof -
  have "findConversation ''c9'' ''acme'' (vw_db sampleConvWorld) = None" by code_simp
  then show ?thesis using bulk_methods_change_every_known_conversation [of "''acme''" "[''c1'', ''c9'']" None sampleConvWorld None] sample_found by auto
qed

end
