(* ===== verification/Conversation_Resolution.thy ===== *)
theory Conversation_Resolution
  imports Conversation_Properties
begin

text \<open>
  Methods that change a conversation in several steps: merging two conversations and resolving one on behalf of an
  agent.
\<close>

subsection \<open>Merging\<close>

lemma map_of_withEntry: "map_of (withEntry k v m) x = (if x = k then Some v else map_of m x)"
proof -
  have upd: "map_of (map (\<lambda>e. if fst e = k then (k, v) else e) m) y =
      (if y = k then (if list_ex (\<lambda>e. fst e = k) m then Some v else None) else map_of m y)" for y
    by (induction m) (auto split: if_splits)
  have "\<not> list_ex (\<lambda>e. fst e = k) m \<Longrightarrow> map_of m k = None" by (auto simp: map_of_eq_None_iff list_ex_iff)
  then show ?thesis by (auto simp: withEntry_def upd map_add_def split: option.splits)
qed

definition mergeTarget :: "millis \<Rightarrow> uid \<Rightarrow> Conversation \<Rightarrow> Conversation" where
  "mergeTarget now sourceId target = Conversation_update now (noPatch\<lparr>cvp_metadata := Some (withEntry ''mergedConversationIds''
     (JArr (mergedIds (cv_metadata target) @ [JStr sourceId])) (cv_metadata target))\<rparr>) target"

definition mergeSource :: "millis \<Rightarrow> uid \<Rightarrow> Conversation \<Rightarrow> Conversation" where
  "mergeSource now targetId source = Conversation_archive now (Conversation_update now (noPatch\<lparr>cvp_metadata := Some (withEntry ''mergedInto''
     (JStr targetId) (cv_metadata source))\<rparr>) source)"

lemma merge_parts [simp]:
  "cv_id (mergeTarget now s d) = cv_id d" "cv_tenantId (mergeTarget now s d) = cv_tenantId d" "cv_status (mergeTarget now s d) = cv_status d"
  "cv_id (mergeSource now s d) = cv_id d" "cv_tenantId (mergeSource now s d) = cv_tenantId d" "cv_status (mergeSource now s d) = CS_ARCHIVED"
  "cv_metadata (mergeTarget now s d) = withEntry ''mergedConversationIds'' (JArr (mergedIds (cv_metadata d) @ [JStr s])) (cv_metadata d)"
  "cv_metadata (mergeSource now s d) = withEntry ''mergedInto'' (JStr s) (cv_metadata d)"
  by (simp_all add: mergeTarget_def mergeSource_def conv_methods noPatch_def patched_def)

lemma merge_steps:
  assumes "findConversation sid t (vw_db w) = Some c" "findConversation tid t (vw_db w) = Some d"
  obtains e w2 where "ConversationService_merge t sid tid u w = (Inr e, w2)"
    "map_option shown (findConversation sid t (vw_db w2)) = Some (shown (mergeSource (vw_now w) tid c))" "inboxInStep sid t (vw_db w2)"
    "sid \<noteq> tid \<longrightarrow> map_option shown (findConversation tid t (vw_db w2)) = Some (shown (mergeTarget (vw_now w) sid d))"
proof -
  have keys: "cv_id (mergeTarget (vw_now w) sid d) = tid" "cv_tenantId (mergeTarget (vw_now w) sid d) = t"
    "cv_id (mergeSource (vw_now w) tid c) = sid" "cv_tenantId (mergeSource (vw_now w) tid c) = t"
    using findConversation_keys [OF assms(1)] findConversation_keys [OF assms(2)] by simp_all
  obtain w1 where w1: "persistConversation (mergeTarget (vw_now w) sid d) t w = (Inr ((mergeTarget (vw_now w) sid d)\<lparr>cv_domainEvents := []\<rparr>), w1)"
      "map_option shown (findConversation tid t (vw_db w1)) = Some (shown (mergeTarget (vw_now w) sid d))"
    using persistConversation_ok [OF keys(2)] unfolding keys(1) by metis
  obtain w2 where w2: "persistConversation (mergeSource (vw_now w) tid c) t w1 = (Inr ((mergeSource (vw_now w) tid c)\<lparr>cv_domainEvents := []\<rparr>), w2)"
      "map_option shown (findConversation sid t (vw_db w2)) = Some (shown (mergeSource (vw_now w) tid c))" "inboxInStep sid t (vw_db w2)"
      "\<forall>j. j \<noteq> sid \<longrightarrow> map_option shown (findConversation j t (vw_db w2)) = map_option shown (findConversation j t (vw_db w1))"
    using persistConversation_ok [OF keys(4)] unfolding keys(3) by metis
  have run: "ConversationService_merge t sid tid u w = (Inr ((mergeTarget (vw_now w) sid d)\<lparr>cv_domainEvents := []\<rparr>),
      w2\<lparr>vw_audit := vw_audit w2 @ [(t, u, ''CONVERSATION_MERGE'', ''Merged conversation '' @ sid @ '' into '' @ tid)]\<rparr>)"
    using getConversation_ok [OF assms(1)] getConversation_ok [OF assms(2)] w1(1) w2(1)
    by (simp add: ConversationService_merge_def cvNow_def cvLog_def flip: mergeTarget_def mergeSource_def del: append_Cons)
  show thesis by (rule that [OF run]) (use w1(2) w2(2-4) in \<open>simp_all del: append_Cons\<close>)
qed

text \<open>The metadata and the status a reader finds.\<close>

definition metaAt :: "string \<Rightarrow> uid \<Rightarrow> uid \<Rightarrow> ConvWorld \<Rightarrow> json option" where
  "metaAt k i t w = Option.bind (findConversation i t (vw_db w)) (\<lambda>c. map_of (cv_metadata c) k)"

lemma metaAt_shown:
  assumes "map_option shown (findConversation i t (vw_db w)) = Some (shown c)"
  shows "metaAt k i t w = map_of (cv_metadata c) k" "map_option cv_status (findConversation i t (vw_db w)) = Some (cv_status c)"
  using assms by (auto simp: metaAt_def shown_def)

text \<open>Merging two conversations always succeeds: the target keeps its status and lists the source after those merged before,
  the source is archived and names the target. Merging a conversation with itself archives it and loses the list, because
  the second copy of the row overwrites the first.\<close>

theorem merge_links_both_conversations:
  assumes "findConversation sid t (vw_db w) = Some c" "findConversation tid t (vw_db w) = Some d"
  shows "\<exists>e w'. ConversationService_merge t sid tid u w = (Inr e, w') \<and>
    statusSeen sid t w' = (Some CS_ARCHIVED, Some CS_ARCHIVED) \<and> metaAt ''mergedInto'' sid t w' = Some (JStr tid) \<and>
    (if sid \<noteq> tid
     then map_option cv_status (findConversation tid t (vw_db w')) = Some (cv_status d) \<and>
       metaAt ''mergedConversationIds'' tid t w' = Some (JArr (mergedIds (cv_metadata d) @ [JStr sid]))
     else metaAt ''mergedConversationIds'' tid t w' = map_of (cv_metadata d) ''mergedConversationIds'')"
proof -
  obtain e w' where run: "ConversationService_merge t sid tid u w = (Inr e, w')"
    and src: "map_option shown (findConversation sid t (vw_db w')) = Some (shown (mergeSource (vw_now w) tid c))" "inboxInStep sid t (vw_db w')"
    and tgt: "sid \<noteq> tid \<longrightarrow> map_option shown (findConversation tid t (vw_db w')) = Some (shown (mergeTarget (vw_now w) sid d))"
    by (rule merge_steps [OF assms, of u])
  have "statusSeen sid t w' = (Some CS_ARCHIVED, Some CS_ARCHIVED)"
    using metaAt_shown(2) [OF src(1)] src(2) by (auto simp: statusSeen_def inboxInStep_def split: option.splits)
  moreover have "metaAt ''mergedInto'' sid t w' = Some (JStr tid)" using metaAt_shown(1) [OF src(1)] by (simp add: map_of_withEntry)
  moreover have "metaAt ''mergedConversationIds'' tid t w' = Some (JArr (mergedIds (cv_metadata d) @ [JStr sid])) \<and>
      map_option cv_status (findConversation tid t (vw_db w')) = Some (cv_status d)" if "sid \<noteq> tid"
    using metaAt_shown [OF tgt [rule_format, OF that]] by (simp add: map_of_withEntry)
  moreover have "metaAt ''mergedConversationIds'' tid t w' = map_of (cv_metadata d) ''mergedConversationIds''" if "sid = tid"
    using metaAt_shown(1) [OF src(1), of "''mergedConversationIds''"] that assms by (simp add: map_of_withEntry)
  ultimately show ?thesis using run by auto
qed

subsection \<open>Jobs are never taken back\<close>

definition jobsGrow :: "ConvWorld \<Rightarrow> ConvWorld \<Rightarrow> bool" where
  "jobsGrow w w' \<longleftrightarrow> set (vw_jobs w) \<subseteq> set (vw_jobs w')"

interpretation grow: state_frame jobsGrow
  by unfold_locales (auto simp: jobsGrow_def)

lemma grow_same: "vw_jobs w' = vw_jobs w \<Longrightarrow> jobsGrow w w'"
  by (simp add: jobsGrow_def)

lemma grow_primitives:
  "framed jobsGrow (cvAddJob j)" "framed jobsGrow (cvWrite g)" "framed jobsGrow cvUUID" "framed jobsGrow cvNow" "framed jobsGrow (cvRead h)"
  "framed jobsGrow (cvLog t u a d)" "framed jobsGrow (cvCall call)"
  by (auto simp: framed_def jobsGrow_def cvAddJob_def cvWrite_def cvUUID_def cvNow_def cvRead_def cvLog_def cvCall_def)

lemma grow_publish: "framed jobsGrow (ConversationEventPublisher_publish ev)"
  by (auto simp: ConversationEventPublisher_publish_def bestEffort_def Let_def intro!: grow.frame_rules grow_primitives)

lemma grow_rebuild: "framed jobsGrow (rebuild t i)"
  unfolding rebuild_def Let_def
  by (intro grow.frame_andThen grow_primitives) (auto split: option.split intro!: grow.frame_rules grow_primitives)

lemma grow_change: "framed jobsGrow (changeConversation t i f u action details)"
  by (auto simp: changeConversation_def getConversationOrThrow_def persistConversation_def cvPublishAll_def split: option.split
      intro!: grow.frame_rules grow_primitives grow_publish grow_rebuild)

subsection \<open>Resolution by an agent\<close>

lemma cvPublish_ok:
  obtains w' where "ConversationEventPublisher_publish ev w = (Inr (), w')" "onlyJobs w w'" "jobsGrow w w'"
proof -
  have "fst (ConversationEventPublisher_publish ev w) = Inr ()" by (simp add: ConversationEventPublisher_publish_def bestEffort_ok Let_def)
  moreover have "onlyJobs w (snd (ConversationEventPublisher_publish ev w))" "jobsGrow w (snd (ConversationEventPublisher_publish ev w))"
    using framed_publish [of ev] grow_publish [of ev] by (simp_all add: framed_def)
  ultimately show thesis by (intro that [of "snd (ConversationEventPublisher_publish ev w)"]) (auto simp: prod_eq_iff)
qed

lemma call_ok: "bestEffort (cvCall call) w = (Inr (), w\<lparr>vw_calls := vw_calls w @ [call]\<rparr>)"
  by (auto simp: bestEffort_def cvCall_def svc_simps split: sum.splits)

text \<open>Everything up to the first job: the conversation is resolved, the tables are in step, the queue is as it was.\<close>

definition beginResolution :: "uid \<Rightarrow> uid \<Rightarrow> uid \<Rightarrow> ResolutionOptions \<Rightarrow> Conversation cvsvc" where
  "beginResolution t i agent options =
     andThen (ConversationEventPublisher_publish (ConversationResolutionStartedEvent t i agent)) (\<lambda>_.
     andThen (getConversationOrThrow t i) (\<lambda>conversation.
     andThen (if truthy (ro_closingMessage options) then cvCall (CreateMessageCall t i (the (ro_closingMessage options)) agent) else ret ()) (\<lambda>_.
     andThen (ConversationService_resolve t i (Some agent)) (\<lambda>_.
     andThen (if truthy (ro_linkedTicketId options)
              then bestEffort (cvCall (ResolveTicketCall t (the (ro_linkedTicketId options)) (ro_summary options) agent)) else ret ()) (\<lambda>_.
     ret conversation)))))"

lemma begin_ok:
  assumes found: "findConversation i t (vw_db w) = Some c"
    and message: "truthy (ro_closingMessage options) \<longrightarrow> vw_answer w (CreateMessageCall t i (the (ro_closingMessage options)) agent) = Inr ()"
  obtains w' where "beginResolution t i agent options w = (Inr c, w')" "vw_queueUp w' = vw_queueUp w" "vw_customer w' = vw_customer w"
    "statusSeen i t w' = (Some CS_RESOLVED, Some CS_RESOLVED)" "jobsGrow w w'"
proof -
  obtain w1 where w1: "ConversationEventPublisher_publish (ConversationResolutionStartedEvent t i agent) w = (Inr (), w1)" "onlyJobs w w1" "jobsGrow w w1"
    by (rule cvPublish_ok)
  define w2 where "w2 = (if truthy (ro_closingMessage options)
      then w1\<lparr>vw_calls := vw_calls w1 @ [CreateMessageCall t i (the (ro_closingMessage options)) agent]\<rparr> else w1)"
  have w2: "(if truthy (ro_closingMessage options) then cvCall (CreateMessageCall t i (the (ro_closingMessage options)) agent) else ret ()) w1 = (Inr (), w2)"
    using message onlyJobs_same(10) [OF w1(2)] by (simp add: cvCall_def w2_def)
  have found2: "findConversation i t (vw_db w2) = Some c" using found onlyJobs_same(1) [OF w1(2)] by (simp add: w2_def)
  obtain w3 where w3: "ConversationService_resolve t i (Some agent) w2 = (Inr ((Conversation_resolve (vw_now w2) (Some agent) c)\<lparr>cv_domainEvents := []\<rparr>), w3)"
      "sameSurroundings w2 w3"
    using change_ok [OF found2, where f = "\<lambda>now. Conversation_resolve now (Some agent)"] unfolding ConversationService_resolve_def
    by (metis (no_types, lifting) conv_methods_keep_keys(1,2))
  have seen: "statusSeen i t w3 = (Some CS_RESOLVED, Some CS_RESOLVED)"
    using change_ends [OF found2, of "\<lambda>now. Conversation_resolve now (Some agent)" CS_RESOLVED "Some agent" "''CONVERSATION_RESOLVE''" "''Resolved conversation '' @ i"] w3(1)
    by (simp add: endsIn_def ConversationService_resolve_def del: append_Cons)
  have grow3: "jobsGrow w2 w3" using grow_change w3(1) unfolding ConversationService_resolve_def by (blast intro: framedD)
  define w4 where "w4 = (if truthy (ro_linkedTicketId options)
      then w3\<lparr>vw_calls := vw_calls w3 @ [ResolveTicketCall t (the (ro_linkedTicketId options)) (ro_summary options) agent]\<rparr> else w3)"
  have w4: "(if truthy (ro_linkedTicketId options) then bestEffort (cvCall (ResolveTicketCall t (the (ro_linkedTicketId options)) (ro_summary options) agent)) else ret ()) w3 = (Inr (), w4)"
    by (simp add: call_ok w4_def)
  have start: "getConversationOrThrow t i w1 = (Inr c, w1)" using found onlyJobs_same(1) [OF w1(2)] by (simp add: getConversation_ok)
  show thesis
  proof (rule that)
    show "beginResolution t i agent options w = (Inr c, w4)"
      by (simp only: beginResolution_def andThen_Inr w1(1) start w2 w3(1) w4 ret_app)
    show "jobsGrow w w4" using w1(3) grow3 by (auto simp: jobsGrow_def w2_def w4_def split: if_splits)
  qed (use seen w3(2) onlyJobs_same [OF w1(2)] in \<open>simp_all add: w2_def w4_def sameSurroundings_def statusSeen_def\<close>)
qed

definition emailOf :: "ConvWorld \<Rightarrow> uid \<Rightarrow> uid \<Rightarrow> string option" where
  "emailOf w t customerId = (case vw_customer w t customerId of Inl _ \<Rightarrow> None | Inr c \<Rightarrow> Some (cuv_email c))"

text \<open>The rest, from the message to the customer on.\<close>

definition finishResolution :: "uid \<Rightarrow> uid \<Rightarrow> uid \<Rightarrow> ResolutionOptions \<Rightarrow> uid \<Rightarrow> string option \<Rightarrow> (uid \<times> ConversationStatusEnum) cvsvc" where
  "finishResolution t i agent options customerId email =
     andThen (cvAddJob (NotifyResolved t i email (ro_summary options))) (\<lambda>_.
     andThen (if truthy email then ConversationEventPublisher_publish (CustomerNotifiedOnResolutionEvent t i customerId ''EMAIL'') else ret ()) (\<lambda>_.
     andThen (cvAddJob (CustomerSurvey t i email)) (\<lambda>_.
     andThen (ConversationService_close t i (Some ''Agent resolved'') None) (\<lambda>closed.
     andThen (cvAddJob (AnalyticsResolved t i agent (ro_summary options))) (\<lambda>_.
     andThen (cvLog t (Some agent) ''CONVERSATION_RESOLVED'' (''Agent '' @ agent @ '' resolved conversation '' @ i)) (\<lambda>_.
     ret (cv_id closed, cv_status closed)))))))"

lemma resolve_split:
  "resolveAndClose t i agent options = andThen (beginResolution t i agent options) (\<lambda>conversation.
     andThen (asks (\<lambda>w. vw_customer w t (cv_customerId conversation))) (\<lambda>customer.
     finishResolution t i agent options (cv_customerId conversation) (case customer of Inl _ \<Rightarrow> None | Inr c \<Rightarrow> Some (cuv_email c))))"
  by (simp only: resolveAndClose_def beginResolution_def finishResolution_def andThen_assoc ret_andThen Let_def)

lemma finish_ok:
  assumes "vw_queueUp w" "map_option cv_status (findConversation i t (vw_db w)) = Some st"
  obtains w' where "finishResolution t i agent options customerId email w = (Inr (i, CS_CLOSED), w')"
    "statusSeen i t w' = (Some CS_CLOSED, Some CS_CLOSED)"
    "NotifyResolved t i email (ro_summary options) \<in> fst ` set (vw_jobs w')" "CustomerSurvey t i email \<in> fst ` set (vw_jobs w')"
    "AnalyticsResolved t i agent (ro_summary options) \<in> fst ` set (vw_jobs w')"
proof -
  define w1 where "w1 = w\<lparr>vw_jobs := vw_jobs w @ [(NotifyResolved t i email (ro_summary options), vw_tenantContext w)]\<rparr>"
  have w1: "cvAddJob (NotifyResolved t i email (ro_summary options)) w = (Inr (), w1)" using assms(1) by (simp add: cvAddJob_def w1_def)
  obtain w2 where w2: "(if truthy email then ConversationEventPublisher_publish (CustomerNotifiedOnResolutionEvent t i customerId ''EMAIL'') else ret ()) w1 = (Inr (), w2)"
      "onlyJobs w1 w2" "jobsGrow w1 w2"
  proof (cases "truthy email")
    case True
    obtain w2 where "ConversationEventPublisher_publish (CustomerNotifiedOnResolutionEvent t i customerId ''EMAIL'') w1 = (Inr (), w2)" "onlyJobs w1 w2" "jobsGrow w1 w2"
      by (rule cvPublish_ok)
    then show thesis using True that by simp
  next
    case False
    then show thesis using that [of w1] by (simp add: onlyJobs_refl grow_same)
  qed
  define w3 where "w3 = w2\<lparr>vw_jobs := vw_jobs w2 @ [(CustomerSurvey t i email, vw_tenantContext w2)]\<rparr>"
  have w3: "cvAddJob (CustomerSurvey t i email) w2 = (Inr (), w3)"
    using assms(1) onlyJobs_same(9) [OF w2(2)] by (simp add: cvAddJob_def w3_def w1_def)
  have db3: "vw_db w3 = vw_db w" using onlyJobs_same(1) [OF w2(2)] by (simp add: w3_def w1_def)
  then obtain c where c: "findConversation i t (vw_db w3) = Some c" using assms(2) by auto
  define d where "d = (Conversation_close (vw_now w3) (Some ''Agent resolved'') c)\<lparr>cv_domainEvents := []\<rparr>"
  obtain w4 where w4: "ConversationService_close t i (Some ''Agent resolved'') None w3 = (Inr d, w4)" "sameSurroundings w3 w4"
    using change_ok [OF c, where f = "\<lambda>now. Conversation_close now (Some ''Agent resolved'')"] unfolding ConversationService_close_def d_def
    by (metis (no_types, lifting) conv_methods_keep_keys(3,4))
  have seen: "statusSeen i t w4 = (Some CS_CLOSED, Some CS_CLOSED)"
    using change_ends [OF c, of "\<lambda>now. Conversation_close now (Some ''Agent resolved'')" CS_CLOSED None "''CONVERSATION_CLOSE''" "''Closed conversation '' @ i"] w4(1)
    by (simp add: endsIn_def ConversationService_close_def del: append_Cons)
  have grow4: "jobsGrow w3 w4" using grow_change w4(1) unfolding ConversationService_close_def by (blast intro: framedD)
  define w5 where "w5 = w4\<lparr>vw_jobs := vw_jobs w4 @ [(AnalyticsResolved t i agent (ro_summary options), vw_tenantContext w4)]\<rparr>"
  have w5: "cvAddJob (AnalyticsResolved t i agent (ro_summary options)) w4 = (Inr (), w5)"
    using assms(1) onlyJobs_same(9) [OF w2(2)] w4(2) by (simp add: cvAddJob_def w5_def w3_def w1_def sameSurroundings_def)
  define w6 where "w6 = w5\<lparr>vw_audit := vw_audit w5 @ [(t, Some agent, ''CONVERSATION_RESOLVED'', ''Agent '' @ agent @ '' resolved conversation '' @ i)]\<rparr>"
  have w6: "cvLog t (Some agent) ''CONVERSATION_RESOLVED'' (''Agent '' @ agent @ '' resolved conversation '' @ i) w5 = (Inr (), w6)"
    by (simp only: cvLog_def modify_app w6_def)
  have d: "(cv_id d, cv_status d) = (i, CS_CLOSED)" using findConversation_keys [OF c] by (simp add: d_def)
  show thesis
  proof (rule that)
    show "finishResolution t i agent options customerId email w = (Inr (i, CS_CLOSED), w6)"
      by (simp only: finishResolution_def andThen_Inr w1 w2(1) w3 w4(1) w5 w6 ret_app d)
    have "set (vw_jobs w1) \<subseteq> set (vw_jobs w2)" "set (vw_jobs w3) \<subseteq> set (vw_jobs w4)" using w2(3) grow4 by (simp_all add: jobsGrow_def)
    then have in4: "set (vw_jobs w1) \<subseteq> set (vw_jobs w6)" "set (vw_jobs w3) \<subseteq> set (vw_jobs w6)" by (auto simp: w3_def w5_def w6_def)
    show "NotifyResolved t i email (ro_summary options) \<in> fst ` set (vw_jobs w6)"
      using in4(1) unfolding w1_def by (force intro: rev_image_eqI)
    show "CustomerSurvey t i email \<in> fst ` set (vw_jobs w6)"
      using in4(2) unfolding w3_def by (force intro: rev_image_eqI)
    show "AnalyticsResolved t i agent (ro_summary options) \<in> fst ` set (vw_jobs w6)" by (simp add: w6_def w5_def)
    show "statusSeen i t w6 = (Some CS_CLOSED, Some CS_CLOSED)" using seen by (simp add: statusSeen_def w6_def w5_def)
  qed
qed

text \<open>With the queue up, resolving a known conversation on behalf of an agent ends with it closed in its row and in the inbox
  and with the jobs for the customer, the survey and the statistics queued; a ticket that cannot be resolved does not
  change that. With the queue down the request fails, and the conversation stays resolved but is never closed.\<close>

theorem agent_resolution_closes_or_stops_halfway:
  assumes found: "findConversation i t (vw_db w) = Some c"
    and message: "truthy (ro_closingMessage options) \<longrightarrow> vw_answer w (CreateMessageCall t i (the (ro_closingMessage options)) agent) = Inr ()"
  shows "if vw_queueUp w
    then \<exists>w'. resolveAndClose t i agent options w = (Inr (i, CS_CLOSED), w') \<and> statusSeen i t w' = (Some CS_CLOSED, Some CS_CLOSED) \<and>
      {NotifyResolved t i (emailOf w t (cv_customerId c)) (ro_summary options), CustomerSurvey t i (emailOf w t (cv_customerId c)),
       AnalyticsResolved t i agent (ro_summary options)} \<subseteq> fst ` set (vw_jobs w')
    else \<exists>w'. resolveAndClose t i agent options w = (Inl (Error ''Connection is closed.''), w') \<and>
      statusSeen i t w' = (Some CS_RESOLVED, Some CS_RESOLVED)"
proof -
  obtain w1 where w1: "beginResolution t i agent options w = (Inr c, w1)" "vw_queueUp w1 = vw_queueUp w" "vw_customer w1 = vw_customer w"
      "statusSeen i t w1 = (Some CS_RESOLVED, Some CS_RESOLVED)" "jobsGrow w w1"
    by (rule begin_ok [OF found message])
  let ?email = "emailOf w t (cv_customerId c)"
  have run: "resolveAndClose t i agent options w = finishResolution t i agent options (cv_customerId c) ?email w1"
    using w1(1,3) by (simp add: resolve_split emailOf_def)
  show ?thesis
  proof (cases "vw_queueUp w")
    case True
    obtain w' where "finishResolution t i agent options (cv_customerId c) ?email w1 = (Inr (i, CS_CLOSED), w')"
      "statusSeen i t w' = (Some CS_CLOSED, Some CS_CLOSED)"
      "NotifyResolved t i ?email (ro_summary options) \<in> fst ` set (vw_jobs w')" "CustomerSurvey t i ?email \<in> fst ` set (vw_jobs w')"
      "AnalyticsResolved t i agent (ro_summary options) \<in> fst ` set (vw_jobs w')"
      by (rule finish_ok [of w1 i t CS_RESOLVED agent options "cv_customerId c" ?email]) (use True w1 in \<open>simp_all add: statusSeen_def\<close>)
    then show ?thesis using True run by auto
  next
    case False
    then have "finishResolution t i agent options (cv_customerId c) ?email w1 = (Inl (Error ''Connection is closed.''), w1)"
      using w1(2) by (simp add: finishResolution_def cvAddJob_def)
    then show ?thesis using False run w1(4) by auto
  qed
qed


subsection \<open>Witnesses\<close>

theorem merge_links_both_conversations_witness:
  "\<exists>e w'. ConversationService_merge ''acme'' ''c1'' ''c2'' None sampleConvWorld = (Inr e, w') \<and>
     metaAt ''mergedInto'' ''c1'' ''acme'' w' = Some (JStr ''c2'') \<and> metaAt ''mergedConversationIds'' ''c2'' ''acme'' w' = Some (JArr [JStr ''c1''])"
proof -
  have "mergedIds (cv_metadata (sampleConversation ''c2'')) = []" by code_simp
  then show ?thesis using merge_links_both_conversations [OF sample_found, of None] by auto
qed

theorem agent_resolution_closes_or_stops_halfway_witness:
  "(\<exists>w'. resolveAndClose ''acme'' ''c1'' ''ann'' someResolution sampleConvWorld = (Inr (''c1'', CS_CLOSED), w') \<and>
     statusSeen ''c1'' ''acme'' w' = (Some CS_CLOSED, Some CS_CLOSED)) \<and>
   (\<exists>w'. resolveAndClose ''acme'' ''c1'' ''ann'' someResolution (sampleConvWorld\<lparr>vw_queueUp := False\<rparr>) = (Inl (Error ''Connection is closed.''), w') \<and>
     statusSeen ''c1'' ''acme'' w' = (Some CS_RESOLVED, Some CS_RESOLVED))"
proof
  have up: "vw_queueUp sampleConvWorld" and answers: "vw_answer sampleConvWorld = (\<lambda>_. Inr ())" by (simp_all add: sampleConvWorld_def)
  show "\<exists>w'. resolveAndClose ''acme'' ''c1'' ''ann'' someResolution sampleConvWorld = (Inr (''c1'', CS_CLOSED), w') \<and>
     statusSeen ''c1'' ''acme'' w' = (Some CS_CLOSED, Some CS_CLOSED)"
    using agent_resolution_closes_or_stops_halfway [OF sample_found(1), of someResolution "''ann''"] up answers by auto
  have down: "findConversation ''c1'' ''acme'' (vw_db (sampleConvWorld\<lparr>vw_queueUp := False\<rparr>)) = Some (sampleConversation ''c1'')"
    using sample_found by simp
  show "\<exists>w'. resolveAndClose ''acme'' ''c1'' ''ann'' someResolution (sampleConvWorld\<lparr>vw_queueUp := False\<rparr>) = (Inl (Error ''Connection is closed.''), w') \<and>
     statusSeen ''c1'' ''acme'' w' = (Some CS_RESOLVED, Some CS_RESOLVED)"
    using agent_resolution_closes_or_stops_halfway [OF down, of someResolution "''ann''"] answers by simp
qed

end
