(* ===== verification/Conversation_Listing.thy ===== *)
theory Conversation_Listing
  imports Conversation_Facts
begin

text \<open>
  Pages of the inbox and of the conversation list: how old a cached page can be, when a cursor gives the next page, and
  the orders and cursors that do not.
\<close>

subsection \<open>The cache\<close>

text \<open>No entry outlives its 15 seconds.\<close>

definition cacheBounded :: "ConvWorld \<Rightarrow> bool" where
  "cacheBounded w \<longleftrightarrow> (\<forall>key page expires. vw_cache w key = Some (page, expires) \<longrightarrow> expires \<le> vw_now w + INBOX_TTL_SECONDS * 1000)"

lemma listInbox_cases:
  obtains (hit) page expires where "vw_cacheUp w" "vw_cache w (t, q) = Some (page, expires)" "vw_now w < expires" "listInbox t q w = (Inr page, w)"
  | (miss) "\<not> (vw_cacheUp w \<and> (\<exists>page expires. vw_cache w (t, q) = Some (page, expires) \<and> vw_now w < expires))"
    "listInbox t q w = (Inr (findInbox t q (vw_db w)), if vw_cacheUp w then
       w\<lparr>vw_cache := (vw_cache w)((t, q) \<mapsto> (findInbox t q (vw_db w), vw_now w + INBOX_TTL_SECONDS * 1000))\<rparr> else w)"
proof (cases "vw_cacheUp w \<and> (\<exists>page expires. vw_cache w (t, q) = Some (page, expires) \<and> vw_now w < expires)")
  case True
  then show thesis using hit by (auto simp: listInbox_def cacheGet_def svc_simps)
next
  case False
  then have "cacheGet (t, q) w = (Inr None, w)" by (auto simp: cacheGet_def split: option.splits)
  then show thesis using False by (intro miss) (simp_all add: listInbox_def cvRead_def cacheSet_def)
qed

lemma listInbox_bounded:
  assumes "cacheBounded w" "listInbox t q w = (r, w')"
  shows "cacheBounded w' \<and> vw_now w' = vw_now w \<and> vw_db w' = vw_db w"
  by (rule listInbox_cases [of w t q]) (use assms in \<open>auto simp: cacheBounded_def split: if_splits\<close>)

text \<open>A page of the inbox is never older than 15 seconds: a listing always succeeds, and 15 seconds after it, whatever was
  cached before, the same listing is read from the tables again. Rebuilding a summary through the queue empties the cache of
  the tenant, so that every listing after it is read from the tables at once.\<close>

theorem inbox_pages_are_at_most_15_seconds_old:
  assumes "cacheBounded w" "listInbox t q w = (r, w1)" "vw_cache w2 = vw_cache w1" "vw_now w1 + 15000 \<le> vw_now w2"
  shows "(\<exists>page. r = Inr page) \<and> fst (listInbox t q w2) = Inr (findInbox t q (vw_db w2))"
proof
  show "\<exists>page. r = Inr page" by (rule listInbox_cases [of w t q]) (use assms(2) in auto)
  have "cacheBounded w1" using listInbox_bounded assms(1,2) by blast
  then have old: "expires \<le> vw_now w2" if "vw_cache w2 key = Some (page, expires)" for key page expires
  proof -
    have "expires \<le> vw_now w1 + 15 * 1000"
      using that assms(3) \<open>cacheBounded w1\<close> unfolding cacheBounded_def INBOX_TTL_SECONDS_def by metis
    with assms(4) show ?thesis by simp
  qed
  show "fst (listInbox t q w2) = Inr (findInbox t q (vw_db w2))"
  proof (rule listInbox_cases [of w2 t q])
    fix page expires
    assume "vw_cache w2 (t, q) = Some (page, expires)" "vw_now w2 < expires"
    then show ?thesis using old by fastforce
  qed simp
qed

text \<open>A summary job that ran while the cache was reachable makes the next listing of the tenant read the tables, however
  recent the cached pages were.\<close>

theorem summary_job_refreshes_the_inbox:
  assumes "vw_cacheUp w" "t \<noteq> []"
  shows "\<exists>answer w'. handleConversationJob (ConversationSummaryJob i, Some t) w = (Inr answer, w') \<and>
    fst (listInbox t q w') = Inr (findInbox t q (vw_db w'))"
proof -
  obtain s w1 where w1: "rebuild t i w = (Inr s, w1)" "vw_cacheUp w1"
  proof (cases "findConversation i t (vw_db w)")
    case None
    then show thesis using assms by (intro that [of None w]) (simp_all add: rebuild_def cvRead_def)
  next
    case (Some c)
    obtain s w1 where "rebuild t i w = (Inr (Some s), w1)" "sameSurroundings w w1" by (rule rebuild_ok [OF Some])
    then show thesis using assms by (intro that [of "Some s" w1]) (simp_all add: sameSurroundings_def)
  qed
  define w2 where "w2 = w1\<lparr>vw_cache := (\<lambda>key. if fst key = t then None else vw_cache w1 key)\<rparr>"
  have run: "handleConversationJob (ConversationSummaryJob i, Some t) w = (Inr (JObj [(''rebuilt'', JBool (s \<noteq> None)), (''conversationId'', JStr i)]), w2)"
    using w1 assms(2) by (simp add: handleConversationJob_def invalidateInbox_def w2_def inTemplate_def Let_def)
  have "fst (listInbox t q w2) = Inr (findInbox t q (vw_db w2))"
    by (rule listInbox_cases [of w2 t q]) (auto simp: w2_def)
  with run show ?thesis by blast
qed

subsection \<open>Pages of the inbox\<close>

lemma filter_below_strict:
  assumes "sorted_wrt (\<lambda>a b. f b < (f a :: int)) xs" "0 < n" "n \<le> length xs"
  shows "filter (\<lambda>x. f x < f (xs ! (n - 1))) xs = drop n xs"
proof -
  define ys where "ys = take n xs"
  define zs where "zs = drop n xs"
  have xs: "xs = ys @ zs" by (simp add: ys_def zs_def)
  have len: "length ys = n" using assms(3) by (simp add: ys_def)
  then obtain y ys' where ys: "ys = ys' @ [y]" using assms(2) by (metis length_0_conv less_not_refl rev_exhaust)
  have at: "xs ! (n - 1) = y" using len by (auto simp: xs ys nth_append)
  have "filter (\<lambda>x. f x < f y) ys = []" "filter (\<lambda>x. f x < f y) zs = zs"
    using assms(1) by (fastforce simp: xs ys sorted_wrt_append filter_empty_conv filter_id_conv)+
  then show ?thesis unfolding at by (simp add: xs len)
qed

text \<open>The summaries a query selects, in the order of the inbox.\<close>

definition inboxRows :: "uid \<Rightarrow> InboxQueryOptions \<Rightarrow> ConvDb \<Rightarrow> ConversationSummary list" where
  "inboxRows t q db = filter (buildInboxConditions t q db) (vb_summaries db)"

definition dated :: "ConversationSummary list \<Rightarrow> bool" where
  "dated rows \<longleftrightarrow> distinct (map su_lastMessageAt rows) \<and> list_all (\<lambda>s. su_lastMessageAt s \<noteq> None) rows"

lemma sqlOrder_dated:
  assumes "list_all (\<lambda>s. f s \<noteq> None) rows"
  shows "sqlOrder asc f rows = sort_key (\<lambda>s. if asc then the (f s) else - the (f s)) rows"
proof -
  have "filter (\<lambda>s. f s = None) rows = []" "filter (\<lambda>s. f s \<noteq> None) rows = rows"
    using assms by (auto simp: list_all_iff filter_empty_conv filter_id_conv)
  then show ?thesis by (simp only: sqlOrder_def Let_def append_Nil append_Nil2 if_cancel)
qed

lemma strictly_sorted:
  assumes "dated rows"
  shows "sorted_wrt (\<lambda>a b. the (su_lastMessageAt b) < the (su_lastMessageAt a)) (sort_key (\<lambda>s. - the (su_lastMessageAt s)) rows)"
    and "sorted_wrt (\<lambda>a b. the (su_lastMessageAt a) < the (su_lastMessageAt b)) (sort_key (\<lambda>s. the (su_lastMessageAt s)) rows)"
proof -
  have inj: "inj_on (\<lambda>s. the (su_lastMessageAt s)) (set rows)" and dist: "distinct rows"
    using assms by (auto simp: dated_def distinct_map list_all_iff inj_on_def) (metis option.expand option.distinct(1))
  have "inj_on (\<lambda>s. - the (su_lastMessageAt s)) (set rows)" using inj by (auto simp: inj_on_def)
  then have "sorted_wrt (<) (map (\<lambda>s. - the (su_lastMessageAt s)) (sort_key (\<lambda>s. - the (su_lastMessageAt s)) rows))"
    using dist by (simp add: strict_sorted_iff distinct_map)
  then show "sorted_wrt (\<lambda>a b. the (su_lastMessageAt b) < the (su_lastMessageAt a)) (sort_key (\<lambda>s. - the (su_lastMessageAt s)) rows)"
    by (simp add: sorted_wrt_map)
  have "sorted_wrt (<) (map (\<lambda>s. the (su_lastMessageAt s)) (sort_key (\<lambda>s. the (su_lastMessageAt s)) rows))"
    using dist inj by (simp add: strict_sorted_iff distinct_map)
  then show "sorted_wrt (\<lambda>a b. the (su_lastMessageAt a) < the (su_lastMessageAt b)) (sort_key (\<lambda>s. the (su_lastMessageAt s)) rows)"
    by (simp add: sorted_wrt_map)
qed

lemma conditions_ignore_page [simp]:
  "buildInboxConditions t (q\<lparr>iq_cursor := c\<rparr>) db = buildInboxConditions t q db"
  "buildInboxConditions t (q\<lparr>iq_page := p\<rparr>) db = buildInboxConditions t q db"
  by (simp_all add: buildInboxConditions_def fun_eq_iff)

lemma orCount_pos: "0 < d \<Longrightarrow> 0 < orCount n d"
  by (simp add: orCount_def split: option.splits)

definition pageSize :: "InboxQueryOptions \<Rightarrow> nat" where
  "pageSize q = orCount (iq_limit q) 25"

lemma pageSize_pos: "0 < pageSize q"
  by (simp add: pageSize_def orCount_pos)

text \<open>A page by number, over the rows in order.\<close>

lemma numbered_page:
  assumes "dated (inboxRows t q db)" "iq_cursor q = None"
  shows "findInbox t (q\<lparr>iq_page := Some (Suc k)\<rparr>) db =
    (let rows = take (pageSize q) (drop (k * pageSize q) (sort_key (\<lambda>s. if iq_ascending q then the (su_lastMessageAt s) else - the (su_lastMessageAt s)) (inboxRows t q db)))
     in \<lparr>pg_data = rows, pg_total = length (inboxRows t q db),
         pg_nextCursor = (if length rows = pageSize q then su_lastMessageAt (last rows) else None)\<rparr>)"
proof -
  have "list_all (\<lambda>s. su_lastMessageAt s \<noteq> None) (inboxRows t q db)" using assms(1) by (simp add: dated_def)
  moreover have "beforeCursor None = (\<lambda>_. True)" by (rule ext) (simp add: beforeCursor_def)
  ultimately show ?thesis
    using assms(2) by (simp add: findInbox_def pageSize_def Let_def sqlOrder_dated orCount_def flip: inboxRows_def)
qed

lemma cursor_page:
  assumes "dated (inboxRows t q db)"
  shows "pg_data (findInbox t (q\<lparr>iq_cursor := Some c\<rparr>) db) = take (pageSize q)
    (filter (\<lambda>s. the (su_lastMessageAt s) < c) (sort_key (\<lambda>s. if iq_ascending q then the (su_lastMessageAt s) else - the (su_lastMessageAt s)) (inboxRows t q db)))"
    and "pg_nextCursor (findInbox t (q\<lparr>iq_cursor := Some c\<rparr>) db) =
      (let rows = pg_data (findInbox t (q\<lparr>iq_cursor := Some c\<rparr>) db) in if length rows = pageSize q then su_lastMessageAt (last rows) else None)"
proof -
  have all: "list_all (\<lambda>s. su_lastMessageAt s \<noteq> None) (inboxRows t q db)" using assms by (simp add: dated_def)
  have "filter (beforeCursor (Some c)) (inboxRows t q db) = filter (\<lambda>s. the (su_lastMessageAt s) < c) (inboxRows t q db)"
    using all by (intro filter_cong) (auto simp: beforeCursor_def list_all_iff)
  moreover have "list_all (\<lambda>s. su_lastMessageAt s \<noteq> None) (filter (\<lambda>s. the (su_lastMessageAt s) < c) (inboxRows t q db))"
    using all by (auto simp: list_all_iff)
  ultimately show "pg_data (findInbox t (q\<lparr>iq_cursor := Some c\<rparr>) db) = take (pageSize q)
    (filter (\<lambda>s. the (su_lastMessageAt s) < c) (sort_key (\<lambda>s. if iq_ascending q then the (su_lastMessageAt s) else - the (su_lastMessageAt s)) (inboxRows t q db)))"
    by (simp add: findInbox_def pageSize_def Let_def sqlOrder_dated filter_sort flip: inboxRows_def)
  show "pg_nextCursor (findInbox t (q\<lparr>iq_cursor := Some c\<rparr>) db) =
      (let rows = pg_data (findInbox t (q\<lparr>iq_cursor := Some c\<rparr>) db) in if length rows = pageSize q then su_lastMessageAt (last rows) else None)"
    by (simp add: findInbox_def Let_def pageSize_def)
qed

text \<open>The pages a client gets that follows the cursors.\<close>

fun cursorPage :: "uid \<Rightarrow> InboxQueryOptions \<Rightarrow> ConvDb \<Rightarrow> nat \<Rightarrow> (ConversationSummary, millis) PaginatedResult option" where
  "cursorPage t q db 0 = Some (findInbox t q db)"
| "cursorPage t q db (Suc k) =
     (case cursorPage t q db k of None \<Rightarrow> None
      | Some page \<Rightarrow> map_option (\<lambda>c. findInbox t (q\<lparr>iq_cursor := Some c\<rparr>) db) (pg_nextCursor page))"

lemma first_page: "iq_page q = None \<Longrightarrow> findInbox t q db = findInbox t (q\<lparr>iq_page := Some (Suc 0)\<rparr>) db"
  by (simp add: findInbox_def orCount_def Let_def)

lemma cursorPage_rows:
  assumes dated: "dated (inboxRows t q db)" and q: "iq_cursor q = None" "iq_page q = None" "\<not> iq_ascending q"
    and "k * pageSize q < length (inboxRows t q db)"
  shows "\<exists>page. cursorPage t q db k = Some page \<and>
    pg_data page = take (pageSize q) (drop (k * pageSize q) (sort_key (\<lambda>s. - the (su_lastMessageAt s)) (inboxRows t q db))) \<and>
    pg_nextCursor page = (if length (pg_data page) = pageSize q then su_lastMessageAt (last (pg_data page)) else None)"
  using assms(5)
proof (induction k)
  case 0
  show ?case using numbered_page [OF dated q(1), of 0] first_page [OF q(2)] q(3) by (simp add: Let_def)
next
  case (Suc k)
  define n where "n = pageSize q"
  define xs where "xs = sort_key (\<lambda>s. - the (su_lastMessageAt s)) (inboxRows t q db)"
  have n: "0 < n" and len: "Suc k * n < length xs" using Suc.prems pageSize_pos by (simp_all add: n_def xs_def)
  obtain page where page: "cursorPage t q db k = Some page" "pg_data page = take n (drop (k * n) xs)"
      "pg_nextCursor page = (if length (pg_data page) = n then su_lastMessageAt (last (pg_data page)) else None)"
    using Suc.IH Suc.prems unfolding n_def xs_def by auto
  have full: "length (take n (drop (k * n) xs)) = n" using len by simp
  then have "last (take n (drop (k * n) xs)) = take n (drop (k * n) xs) ! (n - 1)" using n by (metis last_conv_nth length_0_conv less_irrefl)
  also have "\<dots> = xs ! (Suc k * n - 1)" using n len by (simp add: add.commute)
  finally have "last (pg_data page) = xs ! (Suc k * n - 1)" using page(2) by simp
  moreover have "su_lastMessageAt (xs ! (Suc k * n - 1)) \<noteq> None"
    using dated len nth_mem [of "Suc k * n - 1" xs] by (auto simp: dated_def list_all_iff xs_def)
  then obtain c where c: "su_lastMessageAt (xs ! (Suc k * n - 1)) = Some c" by blast
  ultimately have nextc: "pg_nextCursor page = Some c" using page(2,3) full by simp
  have "filter (\<lambda>s. the (su_lastMessageAt s) < the (su_lastMessageAt (xs ! (Suc k * n - 1)))) xs = drop (Suc k * n) xs"
    using filter_below_strict [OF strictly_sorted(1) [OF dated, folded xs_def], of "Suc k * n"] n len by simp
  then have "pg_data (findInbox t (q\<lparr>iq_cursor := Some c\<rparr>) db) = take n (drop (Suc k * n) xs)"
    using cursor_page(1) [OF dated, of c] q(3) c by (simp add: n_def xs_def)
  then show ?case using page(1) nextc cursor_page(2) [OF dated, of c] by (simp add: Let_def n_def xs_def)
qed


text \<open>Oldest first, the cursor goes the wrong way: the second page is the first one without its last row, and it has no
  cursor, so the rest of the inbox is not reached.\<close>

theorem ascending_cursor_repeats_the_first_page:
  assumes "dated (inboxRows t q db)" "iq_cursor q = None" "iq_page q = None" "iq_ascending q" "pageSize q \<le> length (inboxRows t q db)"
  shows "\<exists>page. cursorPage t q db 1 = Some page \<and> pg_data page = butlast (pg_data (findInbox t q db)) \<and> pg_nextCursor page = None"
proof -
  define n where "n = pageSize q"
  define xs where "xs = sort_key (\<lambda>s. the (su_lastMessageAt s)) (inboxRows t q db)"
  have n: "0 < n" "n \<le> length xs" using assms(5) pageSize_pos by (simp_all add: n_def xs_def)
  have first: "pg_data (findInbox t q db) = take n xs"
      "pg_nextCursor (findInbox t q db) = su_lastMessageAt (last (take n xs))"
    using numbered_page [OF assms(1,2), of 0] first_page [OF assms(3)] assms(4) n by (simp_all add: Let_def n_def xs_def)
  obtain ys y zs where ys: "take n xs = ys @ [y]" and xs: "xs = ys @ [y] @ zs" "length ys = n - 1"
  proof -
    have "take n xs \<noteq> []" using n by (metis length_0_conv length_take less_irrefl min.absorb2)
    then obtain ys y where "take n xs = ys @ [y]" by (metis rev_exhaust)
    moreover have "xs = take n xs @ drop n xs" by simp
    moreover have "length (take n xs) = n" using n by simp
    ultimately show thesis using that [of ys y "drop n xs"] by (metis append_assoc butlast_snoc length_butlast)
  qed
  have "y \<in> set (inboxRows t q db)" using xs(1) by (metis in_set_conv_decomp set_sort xs_def append_Cons append_Nil)
  then obtain c where c: "su_lastMessageAt y = Some c" using assms(1) by (auto simp: dated_def list_all_iff)
  have "sorted_wrt (\<lambda>a b. the (su_lastMessageAt a) < the (su_lastMessageAt b)) (ys @ [y] @ zs)"
    using strictly_sorted(2) [OF assms(1)] xs(1) by (simp add: xs_def)
  then have "filter (\<lambda>s. the (su_lastMessageAt s) < c) (ys @ [y] @ zs) = ys"
    using c by (fastforce simp: sorted_wrt_append filter_empty_conv filter_id_conv)
  then have "pg_data (findInbox t (q\<lparr>iq_cursor := Some c\<rparr>) db) = ys"
    using cursor_page(1) [OF assms(1), of c] assms(4) xs by (simp flip: xs_def n_def)
  moreover have "length ys \<noteq> n" using xs(2) n by simp
  ultimately show ?thesis
    using first ys c cursor_page(2) [OF assms(1), of c] by (simp add: Let_def flip: n_def)
qed

text \<open>Conversations without a message come first: as soon as they fill the first page it has no cursor, however many
  conversations with messages follow.\<close>

theorem silent_conversations_end_the_inbox:
  assumes "iq_cursor q = None" "iq_page q = None" "\<not> iq_ascending q"
    and "pageSize q \<le> length (filter (\<lambda>s. su_lastMessageAt s = None) (inboxRows t q db))"
  shows "length (pg_data (findInbox t q db)) = pageSize q \<and> pg_nextCursor (findInbox t q db) = None"
proof -
  define n where "n = pageSize q"
  define nulls where "nulls = filter (\<lambda>s. su_lastMessageAt s = None) (inboxRows t q db)"
  have n: "0 < n" "n \<le> length nulls" using assms(4) pageSize_pos by (simp_all add: n_def nulls_def)
  have "beforeCursor None = (\<lambda>_. True)" by (rule ext) (simp add: beforeCursor_def)
  then have rows: "pg_data (findInbox t q db) = take n nulls"
      "pg_nextCursor (findInbox t q db) = (if length (take n nulls) = n then su_lastMessageAt (last (take n nulls)) else None)"
    using assms(1-3) n by (simp_all add: findInbox_def pageSize_def n_def nulls_def sqlOrder_def Let_def orCount_def inboxRows_def)
  have "take n nulls \<noteq> []" using n by (metis length_0_conv length_take less_irrefl min.absorb2)
  then have "last (take n nulls) \<in> set (take n nulls)" by (rule last_in_set)
  then have "last (take n nulls) \<in> set nulls" by (rule in_set_takeD)
  then have "su_lastMessageAt (last (take n nulls)) = None" by (simp add: nulls_def)
  then show ?thesis using rows n by (simp add: n_def)
qed


subsection \<open>The conversation list\<close>

lemma sorted_page:
  assumes "\<And>r. f r \<noteq> None" "i < j" "j < length (take n (drop m (sqlOrder False f rows)))"
  shows "the (f (take n (drop m (sqlOrder False f rows)) ! j)) \<le> the (f (take n (drop m (sqlOrder False f rows)) ! i))"
proof -
  have order: "sqlOrder False f rows = sort_key (\<lambda>r. - the (f r)) rows"
    using sqlOrder_dated [of f rows False] assms(1) by (simp add: list_all_iff)
  have len: "m + j < length (sort_key (\<lambda>r. - the (f r)) rows)" using assms(3) by (auto simp: order)
  have "sorted (map (\<lambda>r. - the (f r)) (sort_key (\<lambda>r. - the (f r)) rows))" by simp
  then have "- the (f (sort_key (\<lambda>r. - the (f r)) rows ! (m + i))) \<le> - the (f (sort_key (\<lambda>r. - the (f r)) rows ! (m + j)))"
    using assms(2) len sorted_nth_mono [of "map (\<lambda>r. - the (f r)) (sort_key (\<lambda>r. - the (f r)) rows)" "m + i" "m + j"] by simp
  then show ?thesis using assms(2,3) len by (auto simp: order nth_drop)
qed

text \<open>The list sorted by priority, highest first, puts critical conversations at the end: the column is text.\<close>

lemma priority_sort_lists_critical_last:
  assumes "cq_sortBy q = Some ''priority''" "\<not> cq_ascending q" "i < j" "j < length (pg_data (findPaginated t q db))"
    and "cv_priority (pg_data (findPaginated t q db) ! i) = CPR_CRITICAL"
  shows "cv_priority (pg_data (findPaginated t q db) ! j) = CPR_CRITICAL"
proof -
  define rows where "rows = take (orCount (cq_limit q) 20) (drop (if truthy (cq_cursor q) then 0 else (orCount (cq_page q) 1 - 1) * orCount (cq_limit q) 20)
    (sqlOrder False (sortColumn (Some ''priority'')) (filter (conversationMatches t q) (vb_conversations db))))"
  have page: "pg_data (findPaginated t q db) = map mapped rows" using assms(1,2) by (simp add: findPaginated_def Let_def rows_def)
  then have len: "j < length rows" using assms(4) by simp
  have "the (sortColumn (Some ''priority'') (rows ! j)) \<le> the (sortColumn (Some ''priority'') (rows ! i))"
    unfolding rows_def by (rule sorted_page [OF _ assms(3) len [unfolded rows_def]]) (simp add: sortColumn_def)
  moreover have "cv_priority (rows ! i) = CPR_CRITICAL" using assms(3,5) len by (simp add: page)
  ultimately have "priorityTextOrder (cv_priority (rows ! j)) \<le> 0" by (simp add: sortColumn_def priorityTextOrder_def)
  then show ?thesis using len by (cases "cv_priority (rows ! j)") (simp_all add: page priorityTextOrder_def)
qed

subsection \<open>Witnesses\<close>

definition smallPage :: InboxQueryOptions where
  "smallPage = anyInbox\<lparr>iq_limit := Some 2\<rparr>"

lemma sample_dated:
  "dated (inboxRows ''acme'' smallPage sampleConvDb)" "dated (inboxRows ''acme'' (smallPage\<lparr>iq_ascending := True\<rparr>) sampleConvDb)"
  "pageSize smallPage = 2" "length (inboxRows ''acme'' smallPage sampleConvDb) = 3"
  "pageSize (smallPage\<lparr>iq_ascending := True\<rparr>) = 2" "length (inboxRows ''acme'' (smallPage\<lparr>iq_ascending := True\<rparr>) sampleConvDb) = 3"
  by code_simp+

theorem inbox_pages_are_at_most_15_seconds_old_witness:
  "fst (listInbox ''acme'' smallPage ((snd (listInbox ''acme'' smallPage sampleConvWorld))\<lparr>vw_now := 16000, vw_db := sampleConvDb\<lparr>vb_summaries := []\<rparr>\<rparr>)) =
     Inr (findInbox ''acme'' smallPage (sampleConvDb\<lparr>vb_summaries := []\<rparr>))"
proof -
  have bounded: "cacheBounded sampleConvWorld" by (simp add: cacheBounded_def sampleConvWorld_def)
  have "vw_now (snd (listInbox ''acme'' smallPage sampleConvWorld)) = 1000" by code_simp
  then show ?thesis
    using inbox_pages_are_at_most_15_seconds_old [OF bounded, of "''acme''" smallPage "fst (listInbox ''acme'' smallPage sampleConvWorld)" "snd (listInbox ''acme'' smallPage sampleConvWorld)"
      "(snd (listInbox ''acme'' smallPage sampleConvWorld))\<lparr>vw_now := 16000, vw_db := sampleConvDb\<lparr>vb_summaries := []\<rparr>\<rparr>"] by simp
qed

theorem summary_job_refreshes_the_inbox_witness:
  "\<exists>answer w'. handleConversationJob (ConversationSummaryJob ''c1'', Some ''acme'') sampleConvWorld = (Inr answer, w') \<and>
     fst (listInbox ''acme'' smallPage w') = Inr (findInbox ''acme'' smallPage (vw_db w'))"
  by (rule summary_job_refreshes_the_inbox) (simp_all add: sampleConvWorld_def)


theorem ascending_cursor_repeats_the_first_page_witness:
  "\<exists>page. cursorPage ''acme'' (smallPage\<lparr>iq_ascending := True\<rparr>) sampleConvDb 1 = Some page \<and>
     pg_data page = butlast (pg_data (findInbox ''acme'' (smallPage\<lparr>iq_ascending := True\<rparr>) sampleConvDb)) \<and> pg_nextCursor page = None"
  by (rule ascending_cursor_repeats_the_first_page [OF sample_dated(2)]) (simp_all add: sample_dated, simp_all add: smallPage_def anyInbox_def)

theorem silent_conversations_end_the_inbox_witness:
  "pg_nextCursor (findInbox ''acme'' smallPage (sampleConvDb\<lparr>vb_summaries := [sampleSummary ''c1'' None, sampleSummary ''c2'' None, sampleSummary ''c3'' (Some 300)]\<rparr>)) = None"
proof -
  have "pageSize smallPage \<le> length (filter (\<lambda>s. su_lastMessageAt s = None) (inboxRows ''acme'' smallPage
      (sampleConvDb\<lparr>vb_summaries := [sampleSummary ''c1'' None, sampleSummary ''c2'' None, sampleSummary ''c3'' (Some 300)]\<rparr>)))"
    by code_simp
  then show ?thesis using silent_conversations_end_the_inbox [of smallPage] by (simp add: smallPage_def anyInbox_def)
qed

text \<open>The cursor of the list is the id of the last row, while the rows are ordered by activity: a conversation with a smaller id is
  on no later page.\<close>

definition activeLater :: ConvDb where
  "activeLater = sampleConvDb\<lparr>vb_conversations := [(sampleConversation ''c1'')\<lparr>cv_lastActivityAt := 100\<rparr>, (sampleConversation ''c2'')\<lparr>cv_lastActivityAt := 200\<rparr>]\<rparr>"

lemma list_cursor_skips_conversations:
  "map cv_id (pg_data (findPaginated ''acme'' (anyConversation\<lparr>cq_limit := Some 1\<rparr>) activeLater)) = [''c2'']"
  "pg_nextCursor (findPaginated ''acme'' (anyConversation\<lparr>cq_limit := Some 1\<rparr>) activeLater) = Some ''c2''"
  "pg_data (findPaginated ''acme'' (anyConversation\<lparr>cq_limit := Some 1, cq_cursor := Some ''c2''\<rparr>) activeLater) = []"
  by code_simp+

end
