(* ===== verification/Conversation_Sweep.thy ===== *)
theory Conversation_Sweep
  imports Conversation_Properties Team_Properties
begin

text \<open>
  The sweep that takes conversations away from offline agents, on the code of the team module. In a team where nobody
  else is known the fallback of that code chooses the offline agent itself.
\<close>

subsection \<open>One conversation\<close>

lemma assignEntity_fallback:
  assumes team: "findTeamById g t (tw_db w) = Some team"
    and known: "knownAgents t (findTeamMembers g t (tw_db w)) (tw_db w) = [(p, a)]" and off: "av_status a \<noteq> ''ONLINE''"
  shows "\<exists>w'. assignEntity t g i ConversationEntity r w = (Inr (ap_id p), w') \<and> tw_db w' = repoUpdateCounters (tw_now w) (ap_id p) 1 0 t (tw_db w)"
proof -
  from known have m: "findTeamMembers g t (tw_db w) \<noteq> []" by (auto simp: knownAgents_def map_filter_simps)
  from routeAssignment_db [of t "ap_id p" i ConversationEntity "''FALLBACK''" w] team known m off
  show ?thesis by (fastforce simp: assignEntity_def getTeamOrThrow_def tmRead_def svc_simps Let_def onlineAgents_def)
qed

lemma autoAssign_fallback:
  assumes found: "findConversation i t (vw_db w) = Some c" and team: "findTeamById g t (tw_db (vw_team w)) = Some team"
    and known: "knownAgents t (findTeamMembers g t (tw_db (vw_team w))) (tw_db (vw_team w)) = [(p, a)]" and off: "av_status a \<noteq> ''ONLINE''"
  obtains d w' where "autoAssignConversation t i g u w = (Inr d, w')"
    "map_option shown (findConversation i t (vw_db w')) = Some (shown (assignAgent (vw_now w) (ap_id p) (Some g) c))"
    "\<forall>j. j \<noteq> i \<longrightarrow> map_option shown (findConversation j t (vw_db w')) = map_option shown (findConversation j t (vw_db w))"
    "tw_db (vw_team w') = repoUpdateCounters (vw_now w) (ap_id p) 1 0 t (tw_db (vw_team w))" "vw_now w' = vw_now w"
proof -
  obtain tw where tw: "assignEntity t g i ConversationEntity None ((vw_team w)\<lparr>tw_now := vw_now w\<rparr>) = (Inr (ap_id p), tw)"
      "tw_db tw = repoUpdateCounters (vw_now w) (ap_id p) 1 0 t (tw_db (vw_team w))"
    using assignEntity_fallback [of g t "(vw_team w)\<lparr>tw_now := vw_now w\<rparr>" team p a i None] team known off by auto
  define w1 where "w1 = w\<lparr>vw_team := tw\<rparr>"
  define d where "d = assignAgent (vw_now w1) (ap_id p) (Some g) c"
  have found1: "findConversation i t (vw_db w1) = Some c" using found by (simp add: w1_def)
  have keys: "cv_id d = i" "cv_tenantId d = t" using findConversation_keys [OF found] by (simp_all add: d_def)
  obtain w' where w': "handOver d t (ap_id p) (\<lambda>_. Some g) ''AUTO'' u ''CONVERSATION_ASSIGN''
         (''Assigned conversation '' @ i @ '' to agent '' @ ap_id p @ '' ('' @ ''AUTO'' @ '')'') w1 = (Inr (d\<lparr>cv_domainEvents := []\<rparr>), w')"
      "sameSurroundings w1 w'" "map_option shown (findConversation (cv_id d) t (vw_db w')) = Some (shown d)" "inboxInStep (cv_id d) t (vw_db w')"
      "\<forall>j. j \<noteq> cv_id d \<longrightarrow> map_option shown (findConversation j t (vw_db w')) = map_option shown (findConversation j t (vw_db w1))"
    by (rule handOver_ok [OF keys(2)])
  have run: "assignConversation t i (ap_id p) (Some g) ''AUTO'' u w1 = (Inr (d\<lparr>cv_domainEvents := []\<rparr>), w')"
    using w'(1) assign_handOver [OF found1, of "ap_id p" "Some g" "''AUTO''" u] by (simp only: d_def)
  show thesis
  proof (rule that)
    show "autoAssignConversation t i g u w = (Inr (d\<lparr>cv_domainEvents := []\<rparr>), w')"
      using run tw(1) getConversation_ok [OF found] by (simp add: autoAssignConversation_def onTeam_def w1_def svc_simps)
  qed (use w'(2-) tw(2) keys in \<open>simp_all add: d_def w1_def sameSurroundings_def\<close>)
qed

subsection \<open>All conversations of an agent\<close>

definition heldBy :: "uid \<Rightarrow> uid \<Rightarrow> ConvDb \<Rightarrow> uid option" where
  "heldBy t i db = Option.bind (findConversation i t db) cv_assignedAgentId"

definition soleAgent :: "uid \<Rightarrow> uid \<Rightarrow> AgentProfile \<Rightarrow> AgentAvailability \<Rightarrow> TeamDb \<Rightarrow> bool" where
  "soleAgent t g p a db \<longleftrightarrow> findTeamById g t db \<noteq> None \<and> knownAgents t (findTeamMembers g t db) db = [(p, a)]"

lemma heldBy_shown:
  assumes "map_option shown (findConversation i t db) = map_option shown (findConversation i t db')"
  shows "heldBy t i db = Some x \<and> x \<noteq> [] \<longleftrightarrow> heldBy t i db' = Some x \<and> x \<noteq> []"
    and "findConversation i t db = None \<longleftrightarrow> findConversation i t db' = None"
proof -
  have "cv_assignedAgentId c = Some x \<and> x \<noteq> [] \<longleftrightarrow> orUndefined (cv_assignedAgentId c) = Some x \<and> x \<noteq> []" for c :: Conversation
    by (cases "cv_assignedAgentId c") (auto simp: orUndefined_def)
  then show "heldBy t i db = Some x \<and> x \<noteq> [] \<longleftrightarrow> heldBy t i db' = Some x \<and> x \<noteq> []"
    using assms by (cases "findConversation i t db"; cases "findConversation i t db'") (auto simp: heldBy_def shown_def)
  show "findConversation i t db = None \<longleftrightarrow> findConversation i t db' = None" using assms by (metis option.map_disc_iff)
qed

lemma soleAgent_counters:
  assumes "soleAgent t g p a db"
  shows "\<exists>a'. soleAgent t g p a' (repoUpdateCounters now (ap_id p) 1 0 t db) \<and> av_status a' = av_status a \<and>
    av_activeConversations a' = av_activeConversations a + 1 \<and> av_currentLoad a' = av_currentLoad a + 1"
proof -
  have "(p, a) \<in> set (knownAgents t (findTeamMembers g t db) db)" using assms by (simp add: soleAgent_def)
  then have "av_agentProfileId a = ap_id p" using knownAgents_inD by fastforce
  then show ?thesis using assms by (simp add: soleAgent_def knownAgents_counters bump_def)
qed

lemma reassignAll_stranded:
  assumes "soleAgent t g p a (tw_db (vw_team w))" "av_status a \<noteq> ''ONLINE''" "ap_id p \<noteq> []" "g \<noteq> []"
    and "\<forall>c \<in> set cs. cv_status c \<in> set ACTIVE_CONVERSATION_STATUSES \<and> cv_assignedTeamId c = Some g \<and> findConversation (cv_id c) t (vw_db w) \<noteq> None"
  shows "\<exists>w' a'. reassignAll t cs w = (Inr (length cs, 0), w') \<and> soleAgent t g p a' (tw_db (vw_team w')) \<and> av_status a' = av_status a \<and>
    av_activeConversations a' = av_activeConversations a + int (length cs) \<and> av_currentLoad a' = av_currentLoad a + int (length cs) \<and>
    (\<forall>j. j \<in> cv_id ` set cs \<or> heldBy t j (vw_db w) = Some (ap_id p) \<longrightarrow> heldBy t j (vw_db w') = Some (ap_id p))"
  using assms
proof (induction cs arbitrary: w a)
  case (Cons c cs)
  then obtain d team where d: "findConversation (cv_id c) t (vw_db w) = Some d" and team: "findTeamById g t (tw_db (vw_team w)) = Some team"
    by (auto simp: soleAgent_def)
  note known = Cons.prems(1) [unfolded soleAgent_def, THEN conjunct2]
  obtain e w1 where w1: "autoAssignConversation t (cv_id c) g None w = (Inr e, w1)"
    "map_option shown (findConversation (cv_id c) t (vw_db w1)) = Some (shown (assignAgent (vw_now w) (ap_id p) (Some g) d))"
    "\<forall>j. j \<noteq> cv_id c \<longrightarrow> map_option shown (findConversation j t (vw_db w1)) = map_option shown (findConversation j t (vw_db w))"
    "tw_db (vw_team w1) = repoUpdateCounters (vw_now w) (ap_id p) 1 0 t (tw_db (vw_team w))" "vw_now w1 = vw_now w"
    by (rule autoAssign_fallback [OF d team known Cons.prems(2)])
  obtain a1 where a1: "soleAgent t g p a1 (tw_db (vw_team w1))" "av_status a1 = av_status a"
    "av_activeConversations a1 = av_activeConversations a + 1" "av_currentLoad a1 = av_currentLoad a + 1"
    using soleAgent_counters [OF Cons.prems(1)] w1(4) by auto
  have held: "heldBy t (cv_id c) (vw_db w1) = Some (ap_id p)"
    using w1(2) Cons.prems(3) by (auto simp: heldBy_def shown_def conv_methods orUndefined_def split: if_splits option.splits)
  have keep: "heldBy t j (vw_db w1) = Some (ap_id p)" if "heldBy t j (vw_db w) = Some (ap_id p)" for j
    using that held heldBy_shown(1) [OF w1(3) [rule_format]] Cons.prems(3) by (cases "j = cv_id c") auto
  have there: "findConversation j t (vw_db w1) \<noteq> None" if "findConversation j t (vw_db w) \<noteq> None" for j
    using that w1(2) heldBy_shown(2) [OF w1(3) [rule_format]] by (cases "j = cv_id c") auto
  obtain w' a' where IH: "reassignAll t cs w1 = (Inr (length cs, 0), w')" "soleAgent t g p a' (tw_db (vw_team w'))" "av_status a' = av_status a1"
    "av_activeConversations a' = av_activeConversations a1 + int (length cs)" "av_currentLoad a' = av_currentLoad a1 + int (length cs)"
    "\<forall>j. j \<in> cv_id ` set cs \<or> heldBy t j (vw_db w1) = Some (ap_id p) \<longrightarrow> heldBy t j (vw_db w') = Some (ap_id p)"
    using Cons.IH [OF a1(1)] a1(2) Cons.prems(2-5) there by auto
  have "reassignAll t (c # cs) w = (Inr (length (c # cs), 0), w')"
    using Cons.prems(4,5) w1(1) IH(1) by (simp add: svc_simps)
  then show ?case using IH a1 held keep by (intro exI [of _ w'] exI [of _ a']) auto
qed auto

lemma paged_conversations_exist:
  assumes "c \<in> set (pg_data (findPaginated t q db))"
  shows "findConversation (cv_id c) t db \<noteq> None"
proof -
  have ord: "set (sqlOrder b f rs) = set rs" for b f and rs :: "Conversation list" by (auto simp: sqlOrder_def Let_def)
  from assms obtain r where r: "c = mapped r" "r \<in> set (vb_conversations db)" "conversationMatches t q r"
    by (auto simp: findPaginated_def Let_def ord dest!: in_set_takeD in_set_dropD)
  then have "sameConversation (cv_id c) t r" by (simp add: sameConversation_def conversationMatches_def)
  with r(2) have "List.find (sameConversation (cv_id c) t) (vb_conversations db) \<noteq> None" by (auto simp: find_None_iff)
  then show ?thesis by (auto simp: findConversation_def)
qed

definition conversationsOf :: "AgentAvailability \<Rightarrow> ConvDb \<Rightarrow> Conversation list" where
  "conversationsOf b db =
     pg_data (findPaginated (av_tenantId b) (anyConversation\<lparr>cq_assignedAgentId := Some (av_agentProfileId b), cq_limit := Some 200\<rparr>) db)"

text \<open>When an offline agent is the only agent of its team the code can find, the sweep reports all its active conversations
  as reassigned, but they stay with the offline agent and its counters have grown by their number; every further sweep
  raises them again.\<close>

theorem offline_sweep_hands_conversations_back_to_the_offline_agent:
  assumes offline: "findOfflineAgents tenantId (tw_db (vw_team w)) = [b]"
    and sole: "soleAgent (av_tenantId b) g p b (tw_db (vw_team w))" and named: "ap_id p \<noteq> []" "g \<noteq> []"
    and active: "\<forall>c \<in> set (conversationsOf b (vw_db w)). cv_status c \<in> set ACTIVE_CONVERSATION_STATUSES \<and> cv_assignedTeamId c = Some g"
  shows "\<exists>w' b'. reassignConversationsFromOfflineAgents tenantId w = (Inr (length (conversationsOf b (vw_db w)), 0), w') \<and>
    (\<forall>c \<in> set (conversationsOf b (vw_db w)). heldBy (av_tenantId b) (cv_id c) (vw_db w') = Some (ap_id p)) \<and>
    soleAgent (av_tenantId b) g p b' (tw_db (vw_team w')) \<and> av_status b' = ''OFFLINE'' \<and>
    av_activeConversations b' = av_activeConversations b + int (length (conversationsOf b (vw_db w))) \<and>
    av_currentLoad b' = av_currentLoad b + int (length (conversationsOf b (vw_db w)))"
proof -
  have "b \<in> set (findOfflineAgents tenantId (tw_db (vw_team w)))" using offline by simp
  then have off: "av_status b = ''OFFLINE''" by (simp add: findOfflineAgents_def)
  have "\<forall>c \<in> set (conversationsOf b (vw_db w)). findConversation (cv_id c) (av_tenantId b) (vw_db w) \<noteq> None"
    by (simp add: conversationsOf_def paged_conversations_exist)
  then obtain w' a' where "reassignAll (av_tenantId b) (conversationsOf b (vw_db w)) w = (Inr (length (conversationsOf b (vw_db w)), 0), w')"
      "soleAgent (av_tenantId b) g p a' (tw_db (vw_team w'))" "av_status a' = av_status b"
      "av_activeConversations a' = av_activeConversations b + int (length (conversationsOf b (vw_db w)))"
      "av_currentLoad a' = av_currentLoad b + int (length (conversationsOf b (vw_db w)))"
      "\<forall>j. j \<in> cv_id ` set (conversationsOf b (vw_db w)) \<or> heldBy (av_tenantId b) j (vw_db w) = Some (ap_id p) \<longrightarrow>
         heldBy (av_tenantId b) j (vw_db w') = Some (ap_id p)"
    using reassignAll_stranded [OF sole _ named, of "conversationsOf b (vw_db w)"] off active by auto
  moreover from this(1) have "reassignConversationsFromOfflineAgents tenantId w = (Inr (length (conversationsOf b (vw_db w)), 0), w')"
    using offline by (simp add: reassignConversationsFromOfflineAgents_def svc_simps cvRead_def flip: conversationsOf_def)
  ultimately show ?thesis using off by (intro exI [of _ w'] exI [of _ a']) auto
qed


subsection \<open>Witness\<close>

definition offlineAnn :: AgentAvailability where
  "offlineAnn = (samplePresence ''ann'' 100 3)\<lparr>av_status := ''OFFLINE''\<rparr>"

theorem offline_sweep_hands_conversations_back_to_the_offline_agent_witness:
  "\<exists>w' b'. reassignConversationsFromOfflineAgents None sampleConvWorld = (Inr (2, 0), w') \<and> heldBy ''acme'' ''c1'' (vw_db w') = Some ''ann'' \<and>
     soleAgent ''acme'' ''team'' (sampleAgent ''ann'' 1) b' (tw_db (vw_team w')) \<and> av_currentLoad b' = 5"
proof -
  have ann: "av_tenantId offlineAnn = ''acme''" "av_currentLoad offlineAnn = 3" "ap_id (sampleAgent ''ann'' 1) = ''ann''"
    by (simp_all add: offlineAnn_def samplePresence_def sampleAgent_def)
  have off: "findOfflineAgents None (tw_db (vw_team sampleConvWorld)) = [offlineAnn]"
    by (simp add: sampleConvWorld_def offlineTeamWorld_def findOfflineAgents_def offlineAnn_def)
  have sole: "soleAgent (av_tenantId offlineAnn) ''team'' (sampleAgent ''ann'' 1) offlineAnn (tw_db (vw_team sampleConvWorld))"
    unfolding ann by (simp add: soleAgent_def sampleConvWorld_def offlineTeamWorld_def sampleTeamWorld_def findTeamById_def findTeamMembers_def
        knownAgents_def map_filter_simps newMember_def findProfileById_def findAvailability_def liveProfile_def sampleAgent_def offlineAnn_def samplePresence_def)
  have active: "list_all (\<lambda>c. cv_status c \<in> set ACTIVE_CONVERSATION_STATUSES \<and> cv_assignedTeamId c = Some ''team'') (conversationsOf offlineAnn (vw_db sampleConvWorld))"
    "length (conversationsOf offlineAnn (vw_db sampleConvWorld)) = 2" "list_ex (\<lambda>c. cv_id c = ''c1'') (conversationsOf offlineAnn (vw_db sampleConvWorld))"
    by code_simp+
  then have "\<forall>c \<in> set (conversationsOf offlineAnn (vw_db sampleConvWorld)). cv_status c \<in> set ACTIVE_CONVERSATION_STATUSES \<and> cv_assignedTeamId c = Some ''team''"
    by (simp add: list_all_iff)
  then obtain w' b' where "reassignConversationsFromOfflineAgents None sampleConvWorld = (Inr (length (conversationsOf offlineAnn (vw_db sampleConvWorld)), 0), w')"
      "\<forall>c \<in> set (conversationsOf offlineAnn (vw_db sampleConvWorld)). heldBy (av_tenantId offlineAnn) (cv_id c) (vw_db w') = Some (ap_id (sampleAgent ''ann'' 1))"
      "soleAgent (av_tenantId offlineAnn) ''team'' (sampleAgent ''ann'' 1) b' (tw_db (vw_team w'))"
      "av_currentLoad b' = av_currentLoad offlineAnn + int (length (conversationsOf offlineAnn (vw_db sampleConvWorld)))"
    using offline_sweep_hands_conversations_back_to_the_offline_agent [OF off sole] ann(3) by auto
  then show ?thesis using active(2,3) ann by (intro exI [of _ w'] exI [of _ b']) (auto simp: list_ex_iff)
qed

end
