(* ===== verification/Message_Model.thy ===== *)
theory Message_Model
  imports Conversation_Model
begin

text \<open>
  Messages (\<^verbatim>\<open>src/modules/messages/domain\<close>) and the tables behind them (\<^verbatim>\<open>src/modules/messages/repositories\<close>). The
  aggregate has no guard between its statuses: every method sets the status it stands for. Foreign keys are not
  modelled; the unique index on tenant, channel and external identifier is. A template whose update left a field out
  carries \<^verbatim>\<open>undefined\<close> in it, and a column that is set to \<^verbatim>\<open>undefined\<close> is not written.
\<close>

subsection \<open>Value objects\<close>

datatype MessageTypeEnum =
  MT_TEXT | MT_IMAGE | MT_AUDIO | MT_VIDEO | MT_DOCUMENT | MT_LOCATION | MT_CONTACT | MT_STICKER | MT_SYSTEM | MT_AI_RESPONSE | MT_INTERNAL_NOTE

fun messageTypeName :: "MessageTypeEnum \<Rightarrow> string" where
  "messageTypeName MT_TEXT = ''TEXT''"
| "messageTypeName MT_IMAGE = ''IMAGE''"
| "messageTypeName MT_AUDIO = ''AUDIO''"
| "messageTypeName MT_VIDEO = ''VIDEO''"
| "messageTypeName MT_DOCUMENT = ''DOCUMENT''"
| "messageTypeName MT_LOCATION = ''LOCATION''"
| "messageTypeName MT_CONTACT = ''CONTACT''"
| "messageTypeName MT_STICKER = ''STICKER''"
| "messageTypeName MT_SYSTEM = ''SYSTEM''"
| "messageTypeName MT_AI_RESPONSE = ''AI_RESPONSE''"
| "messageTypeName MT_INTERNAL_NOTE = ''INTERNAL_NOTE''"

definition allMessageTypes :: "MessageTypeEnum list" where
  "allMessageTypes = [MT_TEXT, MT_IMAGE, MT_AUDIO, MT_VIDEO, MT_DOCUMENT, MT_LOCATION, MT_CONTACT, MT_STICKER, MT_SYSTEM, MT_AI_RESPONSE, MT_INTERNAL_NOTE]"

definition MessageType_create :: "string \<Rightarrow> exn + MessageTypeEnum" where
  "MessageType_create v =
     (case List.find (\<lambda>t. messageTypeName t = v) allMessageTypes of
        None \<Rightarrow> Inl (Error (''Invalid message type: '' @ v))
      | Some t \<Rightarrow> Inr t)"

definition isMedia :: "MessageTypeEnum \<Rightarrow> bool" where
  "isMedia t \<longleftrightarrow> t = MT_IMAGE \<or> t = MT_AUDIO \<or> t = MT_VIDEO \<or> t = MT_DOCUMENT \<or> t = MT_STICKER"

datatype MessageDirectionEnum = MD_INBOUND | MD_OUTBOUND

fun messageDirectionName :: "MessageDirectionEnum \<Rightarrow> string" where
  "messageDirectionName MD_INBOUND = ''INBOUND''"
| "messageDirectionName MD_OUTBOUND = ''OUTBOUND''"

datatype MessageStatusEnum =
  MS_QUEUED | MS_PROCESSING | MS_SENT | MS_DELIVERED | MS_READ | MS_FAILED | MS_RETRYING | MS_ARCHIVED

fun messageStatusName :: "MessageStatusEnum \<Rightarrow> string" where
  "messageStatusName MS_QUEUED = ''QUEUED''"
| "messageStatusName MS_PROCESSING = ''PROCESSING''"
| "messageStatusName MS_SENT = ''SENT''"
| "messageStatusName MS_DELIVERED = ''DELIVERED''"
| "messageStatusName MS_READ = ''READ''"
| "messageStatusName MS_FAILED = ''FAILED''"
| "messageStatusName MS_RETRYING = ''RETRYING''"
| "messageStatusName MS_ARCHIVED = ''ARCHIVED''"

fun STATUS_RANK :: "MessageStatusEnum \<Rightarrow> int" where
  "STATUS_RANK MS_QUEUED = 0"
| "STATUS_RANK MS_PROCESSING = 1"
| "STATUS_RANK MS_SENT = 2"
| "STATUS_RANK MS_DELIVERED = 3"
| "STATUS_RANK MS_READ = 4"
| "STATUS_RANK MS_FAILED = 1"
| "STATUS_RANK MS_RETRYING = 1"
| "STATUS_RANK MS_ARCHIVED = 5"

definition isTerminal :: "MessageStatusEnum \<Rightarrow> bool" where
  "isTerminal s \<longleftrightarrow> s = MS_READ \<or> s = MS_ARCHIVED"

definition canRetry :: "MessageStatusEnum \<Rightarrow> bool" where
  "canRetry s \<longleftrightarrow> s = MS_FAILED \<or> s = MS_RETRYING"

subsection \<open>Child entities\<close>

record MessageAttachment =
  mga_id :: uid
  mga_tenantId :: uid
  mga_messageId :: uid
  mga_fileName :: string
  mga_fileType :: "string option"
  mga_fileSize :: "int option"
  mga_storageProvider :: "string option"
  mga_storagePath :: "string option"
  mga_publicUrl :: "string option"
  mga_checksum :: "string option"
  mga_thumbnailUrl :: "string option"
  mga_metadata :: "(string \<times> json) list"
  mga_createdAt :: millis
  mga_updatedAt :: millis

definition attachThumbnail :: "millis \<Rightarrow> string \<Rightarrow> MessageAttachment \<Rightarrow> MessageAttachment" where
  "attachThumbnail now url a = a\<lparr>mga_thumbnailUrl := Some url, mga_updatedAt := now\<rparr>"

record MessageReaction =
  mgr_id :: uid
  mgr_tenantId :: uid
  mgr_messageId :: uid
  mgr_userId :: uid
  mgr_reaction :: string
  mgr_createdAt :: millis

record MessageMention =
  mgm_id :: uid
  mgm_tenantId :: uid
  mgm_messageId :: uid
  mgm_mentionedUserId :: uid
  mgm_mentionedBy :: uid
  mgm_createdAt :: millis

record MessageDeliveryStatus =
  mgd_id :: uid
  mgd_tenantId :: uid
  mgd_messageId :: uid
  mgd_provider :: "json option"
  mgd_providerMessageId :: "string option"
  mgd_status :: string
  mgd_attemptCount :: int
  mgd_lastAttemptAt :: "millis option"
  mgd_failureReason :: "string option"
  mgd_createdAt :: millis
  mgd_updatedAt :: millis

definition new_MessageDeliveryStatus :: "millis \<Rightarrow> uid \<Rightarrow> uid \<Rightarrow> uid \<Rightarrow> json option \<Rightarrow> string option \<Rightarrow> string \<Rightarrow> MessageDeliveryStatus" where
  "new_MessageDeliveryStatus now i tenantId messageId provider providerMessageId status =
     \<lparr>mgd_id = i, mgd_tenantId = tenantId, mgd_messageId = messageId, mgd_provider = provider, mgd_providerMessageId = providerMessageId,
      mgd_status = status, mgd_attemptCount = 0, mgd_lastAttemptAt = None, mgd_failureReason = None, mgd_createdAt = now, mgd_updatedAt = now\<rparr>"

definition recordAttempt :: "millis \<Rightarrow> string \<Rightarrow> string option \<Rightarrow> string option \<Rightarrow> MessageDeliveryStatus \<Rightarrow> MessageDeliveryStatus" where
  "recordAttempt now status providerMessageId failureReason d =
     d\<lparr>mgd_status := status, mgd_attemptCount := mgd_attemptCount d + 1, mgd_lastAttemptAt := Some now,
       mgd_providerMessageId := (if truthy providerMessageId then providerMessageId else mgd_providerMessageId d),
       mgd_failureReason := failureReason, mgd_updatedAt := now\<rparr>"

subsection \<open>The aggregate\<close>

datatype msg_event =
    MessageCreatedEvent uid uid uid MessageDirectionEnum MessageTypeEnum
  | MessageReceivedEvent uid uid uid string string
  | MessageSentEvent uid uid uid string string
  | MessageDeliveredEvent uid uid uid "json option"
  | MessageReadEvent uid uid uid "uid option"
  | MessageFailedEvent uid uid string string
  | MessageRetriedEvent uid uid uid nat
  | MessageArchivedEvent uid uid uid
  | AttachmentUploadedEvent uid uid uid string
  | AttachmentDeletedEvent uid uid uid

fun msgEventName :: "msg_event \<Rightarrow> string" where
  "msgEventName (MessageCreatedEvent _ _ _ _ _) = ''message.created''"
| "msgEventName (MessageReceivedEvent _ _ _ _ _) = ''message.received''"
| "msgEventName (MessageSentEvent _ _ _ _ _) = ''message.sent''"
| "msgEventName (MessageDeliveredEvent _ _ _ _) = ''message.delivered''"
| "msgEventName (MessageReadEvent _ _ _ _) = ''message.read''"
| "msgEventName (MessageFailedEvent _ _ _ _) = ''message.failed''"
| "msgEventName (MessageRetriedEvent _ _ _ _) = ''message.retried''"
| "msgEventName (MessageArchivedEvent _ _ _) = ''message.archived''"
| "msgEventName (AttachmentUploadedEvent _ _ _ _) = ''attachment.uploaded''"
| "msgEventName (AttachmentDeletedEvent _ _ _) = ''attachment.deleted''"

fun msgEventAggregate :: "msg_event \<Rightarrow> uid" where
  "msgEventAggregate (MessageCreatedEvent _ i _ _ _) = i"
| "msgEventAggregate (MessageReceivedEvent _ i _ _ _) = i"
| "msgEventAggregate (MessageSentEvent _ i _ _ _) = i"
| "msgEventAggregate (MessageDeliveredEvent _ i _ _) = i"
| "msgEventAggregate (MessageReadEvent _ i _ _) = i"
| "msgEventAggregate (MessageFailedEvent _ i _ _) = i"
| "msgEventAggregate (MessageRetriedEvent _ i _ _) = i"
| "msgEventAggregate (MessageArchivedEvent _ i _) = i"
| "msgEventAggregate (AttachmentUploadedEvent _ i _ _) = i"
| "msgEventAggregate (AttachmentDeletedEvent _ i _) = i"

record Message =
  mg_id :: uid
  mg_tenantId :: uid
  mg_conversationId :: uid
  mg_channelId :: "uid option"
  mg_customerId :: "uid option"
  mg_senderId :: "uid option"
  mg_senderType :: string
  mg_messageType :: MessageTypeEnum
  mg_direction :: MessageDirectionEnum
  mg_content :: "string option"
  mg_contentHtml :: "string option"
  mg_status :: MessageStatusEnum
  mg_externalMessageId :: "string option"
  mg_replyToMessageId :: "uid option"
  mg_threadId :: "uid option"
  mg_sentAt :: "millis option"
  mg_deliveredAt :: "millis option"
  mg_readAt :: "millis option"
  mg_metadata :: "(string \<times> json) list"
  mg_createdAt :: millis
  mg_updatedAt :: millis
  mg_deletedAt :: "millis option"
  mg_version :: int
  mg_attachments :: "MessageAttachment list"
  mg_reactions :: "MessageReaction list"
  mg_mentions :: "MessageMention list"
  mg_deliveryStatuses :: "MessageDeliveryStatus list"
  mg_domainEvents :: "msg_event list"

definition mgEvent :: "msg_event \<Rightarrow> Message \<Rightarrow> Message" where
  "mgEvent ev m = m\<lparr>mg_domainEvents := mg_domainEvents m @ [ev]\<rparr>"

definition orBlank :: "string option \<Rightarrow> string" where
  "orBlank s = (case s of None \<Rightarrow> [] | Some t \<Rightarrow> t)"

definition Message_create ::
  "millis \<Rightarrow> uid \<Rightarrow> uid \<Rightarrow> uid \<Rightarrow> uid option \<Rightarrow> uid option \<Rightarrow> uid option \<Rightarrow> string \<Rightarrow> MessageTypeEnum \<Rightarrow> MessageDirectionEnum \<Rightarrow>
   string option \<Rightarrow> string option \<Rightarrow> MessageStatusEnum \<Rightarrow> string option \<Rightarrow> uid option \<Rightarrow> uid option \<Rightarrow> (string \<times> json) list \<Rightarrow> Message" where
  "Message_create now i tenantId conversationId channelId customerId senderId senderType ty dir content html st external replyTo thread metadata =
     (let m = mgEvent (MessageCreatedEvent tenantId i conversationId dir ty)
            \<lparr>mg_id = i, mg_tenantId = tenantId, mg_conversationId = conversationId, mg_channelId = channelId, mg_customerId = customerId,
             mg_senderId = senderId, mg_senderType = senderType, mg_messageType = ty, mg_direction = dir, mg_content = content,
             mg_contentHtml = html, mg_status = st, mg_externalMessageId = external, mg_replyToMessageId = replyTo, mg_threadId = thread,
             mg_sentAt = None, mg_deliveredAt = None, mg_readAt = None, mg_metadata = metadata, mg_createdAt = now, mg_updatedAt = now,
             mg_deletedAt = None, mg_version = 1, mg_attachments = [], mg_reactions = [], mg_mentions = [], mg_deliveryStatuses = [],
             mg_domainEvents = []\<rparr>
      in if dir = MD_INBOUND then mgEvent (MessageReceivedEvent tenantId i conversationId (orBlank content) senderType) m else m)"

definition mgTouch :: "millis \<Rightarrow> Message \<Rightarrow> Message" where
  "mgTouch now m = m\<lparr>mg_updatedAt := now, mg_version := mg_version m + 1\<rparr>"

definition markProcessing :: "millis \<Rightarrow> Message \<Rightarrow> Message" where
  "markProcessing now m = mgTouch now (m\<lparr>mg_status := MS_PROCESSING\<rparr>)"

definition markSent :: "millis \<Rightarrow> string option \<Rightarrow> Message \<Rightarrow> Message" where
  "markSent now external m =
     mgEvent (MessageSentEvent (mg_tenantId m) (mg_id m) (mg_conversationId m) (orBlank (mg_content m)) (orBlank (mg_customerId m)))
       (mgTouch now (m\<lparr>mg_status := MS_SENT, mg_sentAt := Some now,
          mg_externalMessageId := (if truthy external then external else mg_externalMessageId m)\<rparr>))"

definition markDelivered :: "millis \<Rightarrow> json option \<Rightarrow> Message \<Rightarrow> Message" where
  "markDelivered now provider m =
     mgEvent (MessageDeliveredEvent (mg_tenantId m) (mg_id m) (mg_conversationId m) provider)
       (mgTouch now (m\<lparr>mg_status := MS_DELIVERED, mg_deliveredAt := Some now\<rparr>))"

definition Message_markRead :: "millis \<Rightarrow> uid option \<Rightarrow> Message \<Rightarrow> Message" where
  "Message_markRead now readBy m =
     mgEvent (MessageReadEvent (mg_tenantId m) (mg_id m) (mg_conversationId m) readBy)
       (mgTouch now (m\<lparr>mg_status := MS_READ, mg_readAt := Some now\<rparr>))"

definition Message_markFailed :: "millis \<Rightarrow> string \<Rightarrow> Message \<Rightarrow> Message" where
  "Message_markFailed now reason m =
     mgEvent (MessageFailedEvent (mg_tenantId m) (mg_id m) (orBlank (mg_channelId m)) reason) (mgTouch now (m\<lparr>mg_status := MS_FAILED\<rparr>))"

definition Message_markRetrying :: "millis \<Rightarrow> nat \<Rightarrow> Message \<Rightarrow> Message" where
  "Message_markRetrying now attempt m =
     mgEvent (MessageRetriedEvent (mg_tenantId m) (mg_id m) (mg_conversationId m) attempt) (mgTouch now (m\<lparr>mg_status := MS_RETRYING\<rparr>))"

definition Message_archive :: "millis \<Rightarrow> Message \<Rightarrow> Message" where
  "Message_archive now m =
     mgEvent (MessageArchivedEvent (mg_tenantId m) (mg_id m) (mg_conversationId m)) (mgTouch now (m\<lparr>mg_status := MS_ARCHIVED\<rparr>))"

definition editContent :: "millis \<Rightarrow> string \<Rightarrow> string option \<Rightarrow> Message \<Rightarrow> Message" where
  "editContent now content html m =
     mgTouch now (m\<lparr>mg_content := Some content, mg_contentHtml := (case html of None \<Rightarrow> mg_contentHtml m | Some h \<Rightarrow> Some h)\<rparr>)"

definition Message_addReaction :: "millis \<Rightarrow> MessageReaction \<Rightarrow> Message \<Rightarrow> Message" where
  "Message_addReaction now r m =
     (if list_ex (\<lambda>x. mgr_userId x = mgr_userId r \<and> mgr_reaction x = mgr_reaction r) (mg_reactions m) then m
      else mgTouch now (m\<lparr>mg_reactions := mg_reactions m @ [r]\<rparr>))"

definition Message_addMention :: "millis \<Rightarrow> MessageMention \<Rightarrow> Message \<Rightarrow> Message" where
  "Message_addMention now x m =
     (if list_ex (\<lambda>y. mgm_mentionedUserId y = mgm_mentionedUserId x) (mg_mentions m) then m
      else mgTouch now (m\<lparr>mg_mentions := mg_mentions m @ [x]\<rparr>))"

definition recordDeliveryStatus :: "millis \<Rightarrow> MessageDeliveryStatus \<Rightarrow> Message \<Rightarrow> Message" where
  "recordDeliveryStatus now d m = mgTouch now (m\<lparr>mg_deliveryStatuses := mg_deliveryStatuses m @ [d]\<rparr>)"

subsection \<open>Drafts and templates\<close>

record MessageDraft =
  mgf_id :: uid
  mgf_tenantId :: uid
  mgf_conversationId :: uid
  mgf_authorId :: uid
  mgf_draftContent :: string
  mgf_draftType :: string
  mgf_expiresAt :: "millis option"
  mgf_createdAt :: millis
  mgf_updatedAt :: millis

definition MessageDraft_update :: "millis \<Rightarrow> string \<Rightarrow> string option \<Rightarrow> millis option \<Rightarrow> MessageDraft \<Rightarrow> MessageDraft" where
  "MessageDraft_update now content ty expiresAt d =
     d\<lparr>mgf_draftContent := content, mgf_draftType := (if truthy ty then the ty else mgf_draftType d),
       mgf_expiresAt := (case expiresAt of None \<Rightarrow> mgf_expiresAt d | Some t \<Rightarrow> Some t), mgf_updatedAt := now\<rparr>"

definition isExpired :: "millis \<Rightarrow> MessageDraft \<Rightarrow> bool" where
  "isExpired at' d = (case mgf_expiresAt d of None \<Rightarrow> False | Some t \<Rightarrow> t \<le> at')"

record MessageTemplate =
  mgt_id :: uid
  mgt_tenantId :: uid
  mgt_name :: string
  mgt_channelType :: "string option"
  mgt_category :: "string option"
  mgt_content :: "string option"
  mgt_contentHtml :: "string option"
  mgt_variables :: "(string \<times> json) list option"
  mgt_language :: "string option"
  mgt_isActive :: "bool option"
  mgt_createdAt :: millis
  mgt_updatedAt :: millis
  mgt_deletedAt :: "millis option"

record TemplateProps =
  tp_channelType :: "string option"
  tp_category :: "string option"
  tp_content :: "string option"
  tp_contentHtml :: "string option"
  tp_variables :: "(string \<times> json) list option"
  tp_language :: "string option"
  tp_isActive :: "bool option"

text \<open>Every key of the argument is an own property, so it wins also when it is \<^verbatim>\<open>undefined\<close>.\<close>

definition MessageTemplate_update :: "millis \<Rightarrow> TemplateProps \<Rightarrow> MessageTemplate \<Rightarrow> MessageTemplate" where
  "MessageTemplate_update now p t =
     t\<lparr>mgt_channelType := tp_channelType p, mgt_category := tp_category p, mgt_content := tp_content p, mgt_contentHtml := tp_contentHtml p,
       mgt_variables := tp_variables p, mgt_language := tp_language p, mgt_isActive := tp_isActive p, mgt_updatedAt := now\<rparr>"

text \<open>\<^verbatim>\<open>resolved.replace(/\{\{\s*key\s*\}\}/g, String(val))\<close> for a key that means itself in a regular expression and has no
  blanks: the match at the start of a text, and the scan over all matches with the number of characters still to skip.\<close>

definition matchHole :: "string \<Rightarrow> string \<Rightarrow> string option" where
  "matchHole key s =
     (if \<not> startsWith ''{{'' s then None
      else let a = takeWhile isSpace (drop 2 s); r1 = dropWhile isSpace (drop 2 s)
           in if \<not> startsWith key r1 then None
              else let b = takeWhile isSpace (drop (length key) r1); r2 = dropWhile isSpace (drop (length key) r1)
                   in if startsWith ''}}'' r2 then Some (''{{'' @ a @ key @ b @ ''}}'') else None)"

fun fillHoles :: "string \<Rightarrow> string \<Rightarrow> nat \<Rightarrow> string \<Rightarrow> string \<Rightarrow> string" where
  "fillHoles key val skip pre [] = []"
| "fillHoles key val (Suc n) pre (c # cs) = fillHoles key val n (pre @ [c]) cs"
| "fillHoles key val 0 pre (c # cs) =
     (case matchHole key (c # cs) of
        None \<Rightarrow> c # fillHoles key val 0 (pre @ [c]) cs
      | Some hole \<Rightarrow> expandReplacement hole pre (drop (length hole) (c # cs)) val @ fillHoles key val (length hole - 1) (pre @ [c]) cs)"

definition MessageTemplate_render :: "(string \<times> json) list \<Rightarrow> string \<Rightarrow> string" where
  "MessageTemplate_render variables content = foldl (\<lambda>resolved (key, v). fillHoles key (stringOf v) 0 [] resolved) content variables"

subsection \<open>Tables\<close>

text \<open>A row of \<^verbatim>\<open>messages\<close> is a \<open>Message\<close> whose children and events are empty.\<close>

record MsgDb =
  mb_messages :: "Message list"
  mb_attachments :: "MessageAttachment list"
  mb_reactions :: "MessageReaction list"
  mb_mentions :: "MessageMention list"
  mb_deliveries :: "MessageDeliveryStatus list"
  mb_drafts :: "MessageDraft list"
  mb_templates :: "MessageTemplate list"

definition sameMessage :: "uid \<Rightarrow> uid \<Rightarrow> Message \<Rightarrow> bool" where
  "sameMessage i tenantId r = (mg_id r = i \<and> mg_tenantId r = tenantId)"

definition messageColumns :: "millis \<Rightarrow> Message \<Rightarrow> Message" where
  "messageColumns now m =
     m\<lparr>mg_channelId := orUndefined (mg_channelId m), mg_customerId := orUndefined (mg_customerId m), mg_senderId := orUndefined (mg_senderId m),
       mg_externalMessageId := orUndefined (mg_externalMessageId m), mg_replyToMessageId := orUndefined (mg_replyToMessageId m),
       mg_threadId := orUndefined (mg_threadId m), mg_updatedAt := now, mg_attachments := [], mg_reactions := [], mg_mentions := [],
       mg_deliveryStatuses := [], mg_domainEvents := []\<rparr>"

definition externalClash :: "Message \<Rightarrow> Message \<Rightarrow> bool" where
  "externalClash x r \<longleftrightarrow> mg_id r \<noteq> mg_id x \<and> mg_tenantId r = mg_tenantId x \<and> mg_channelId x \<noteq> None \<and> mg_channelId r = mg_channelId x \<and>
     mg_externalMessageId x \<noteq> None \<and> mg_externalMessageId r = mg_externalMessageId x"

definition saveMessageRow :: "millis \<Rightarrow> Message \<Rightarrow> uid \<Rightarrow> Message list \<Rightarrow> Message list" where
  "saveMessageRow now m tenantId rows =
     (if list_ex (sameMessage (mg_id m) tenantId) rows
      then map (\<lambda>r. if sameMessage (mg_id m) tenantId r then (messageColumns now m)\<lparr>mg_createdAt := mg_createdAt r\<rparr> else r) rows
      else rows @ [messageColumns (mg_createdAt m) m])"

definition attachmentColumns :: "MessageAttachment \<Rightarrow> MessageAttachment" where
  "attachmentColumns a =
     a\<lparr>mga_fileType := orUndefined (mga_fileType a), mga_storageProvider := orUndefined (mga_storageProvider a),
       mga_storagePath := orUndefined (mga_storagePath a), mga_publicUrl := orUndefined (mga_publicUrl a),
       mga_checksum := orUndefined (mga_checksum a), mga_thumbnailUrl := orUndefined (mga_thumbnailUrl a)\<rparr>"

definition reactionClash :: "MessageReaction \<Rightarrow> MessageReaction \<Rightarrow> bool" where
  "reactionClash x r \<longleftrightarrow> mgr_id x = mgr_id r \<or>
     (mgr_tenantId x = mgr_tenantId r \<and> mgr_messageId x = mgr_messageId r \<and> mgr_userId x = mgr_userId r \<and> mgr_reaction x = mgr_reaction r)"

definition deliveryColumns :: "MessageDeliveryStatus \<Rightarrow> MessageDeliveryStatus" where
  "deliveryColumns d =
     d\<lparr>mgd_provider := (if truthyJs (mgd_provider d) then mgd_provider d else None), mgd_providerMessageId := orUndefined (mgd_providerMessageId d),
       mgd_failureReason := orUndefined (mgd_failureReason d)\<rparr>"

text \<open>One transaction: nothing is written when the unique index refuses the row.\<close>

definition saveMessage :: "millis \<Rightarrow> Message \<Rightarrow> uid \<Rightarrow> MsgDb \<Rightarrow> exn + MsgDb" where
  "saveMessage now m tenantId db =
     (if list_ex (externalClash (messageColumns now m)) (mb_messages db)
      then Inl (Error ''duplicate key value violates unique constraint uq_messages_external'')
      else Inr (db\<lparr>mb_messages := saveMessageRow now m tenantId (mb_messages db),
        mb_attachments := insertNew (\<lambda>x r. mga_id x = mga_id r) (map attachmentColumns (mg_attachments m)) (mb_attachments db),
        mb_reactions := insertNew reactionClash (mg_reactions m) (mb_reactions db),
        mb_mentions := insertNew (\<lambda>x r. mgm_id x = mgm_id r) (mg_mentions m) (mb_mentions db),
        mb_deliveries := insertNew (\<lambda>x r. mgd_id x = mgd_id r) (map deliveryColumns (mg_deliveryStatuses m)) (mb_deliveries db)\<rparr>))"

definition messageMapped :: "Message \<Rightarrow> Message" where
  "messageMapped r = r\<lparr>mg_version := (if mg_version r = 0 then 1 else mg_version r)\<rparr>"

definition findMessageAttachments :: "uid \<Rightarrow> uid \<Rightarrow> MsgDb \<Rightarrow> MessageAttachment list" where
  "findMessageAttachments tenantId i db = filter (\<lambda>x. mga_tenantId x = tenantId \<and> mga_messageId x = i) (mb_attachments db)"

definition findReactions :: "uid \<Rightarrow> uid \<Rightarrow> MsgDb \<Rightarrow> MessageReaction list" where
  "findReactions tenantId i db = filter (\<lambda>x. mgr_tenantId x = tenantId \<and> mgr_messageId x = i) (mb_reactions db)"

definition findMessageMentions :: "uid \<Rightarrow> uid \<Rightarrow> MsgDb \<Rightarrow> MessageMention list" where
  "findMessageMentions tenantId i db = filter (\<lambda>x. mgm_tenantId x = tenantId \<and> mgm_messageId x = i) (mb_mentions db)"

text \<open>\<^verbatim>\<open>findById\<close> and \<^verbatim>\<open>loadChildren\<close>. A deleted message is found like any other.\<close>

definition findMessage :: "uid \<Rightarrow> uid \<Rightarrow> MsgDb \<Rightarrow> Message option" where
  "findMessage i tenantId db =
     map_option (\<lambda>r. (messageMapped r)\<lparr>mg_attachments := findMessageAttachments tenantId i db, mg_reactions := findReactions tenantId i db,
         mg_mentions := findMessageMentions tenantId i db,
         mg_deliveryStatuses := filter (\<lambda>x. mgd_tenantId x = tenantId \<and> mgd_messageId x = i) (mb_deliveries db)\<rparr>)
       (List.find (sameMessage i tenantId) (mb_messages db))"

definition deleteMessage :: "millis \<Rightarrow> uid \<Rightarrow> uid \<Rightarrow> MsgDb \<Rightarrow> bool \<times> MsgDb" where
  "deleteMessage now i tenantId db =
     (if list_ex (sameMessage i tenantId) (mb_messages db)
      then (True, db\<lparr>mb_messages := map (\<lambda>r. if sameMessage i tenantId r
              then r\<lparr>mg_deletedAt := Some now, mg_status := MS_ARCHIVED, mg_updatedAt := now\<rparr> else r) (mb_messages db)\<rparr>)
      else (False, db))"

definition findAllMessages :: "uid \<Rightarrow> MsgDb \<Rightarrow> Message list" where
  "findAllMessages tenantId db = map messageMapped (filter (\<lambda>r. mg_tenantId r = tenantId \<and> mg_deletedAt r = None) (mb_messages db))"

subsection \<open>Listing and counting\<close>

record MessageQueryOptions =
  mq_page :: "nat option"
  mq_limit :: "nat option"
  mq_cursor :: "millis option"
  mq_ascending :: bool
  mq_conversationId :: "uid option"
  mq_channelId :: "uid option"
  mq_customerId :: "uid option"
  mq_direction :: "MessageDirectionEnum option"
  mq_status :: "MessageStatusEnum option"
  mq_messageType :: "MessageTypeEnum option"
  mq_threadId :: "uid option"
  mq_search :: "string option"

definition anyMessage :: MessageQueryOptions where
  "anyMessage = \<lparr>mq_page = None, mq_limit = None, mq_cursor = None, mq_ascending = False, mq_conversationId = None, mq_channelId = None,
     mq_customerId = None, mq_direction = None, mq_status = None, mq_messageType = None, mq_threadId = None, mq_search = None\<rparr>"

definition messageMatches :: "uid \<Rightarrow> MessageQueryOptions \<Rightarrow> Message \<Rightarrow> bool" where
  "messageMatches tenantId q r =
     (mg_tenantId r = tenantId \<and> mg_deletedAt r = None \<and> wanted (mq_conversationId q) (Some (mg_conversationId r)) \<and>
      wanted (mq_channelId q) (mg_channelId r) \<and> wanted (mq_customerId q) (mg_customerId r) \<and>
      (mq_direction q \<noteq> None \<longrightarrow> mq_direction q = Some (mg_direction r)) \<and> (mq_status q \<noteq> None \<longrightarrow> mq_status q = Some (mg_status r)) \<and>
      (mq_messageType q \<noteq> None \<longrightarrow> mq_messageType q = Some (mg_messageType r)) \<and> wanted (mq_threadId q) (mg_threadId r) \<and>
      (truthy (mq_search q) \<longrightarrow> contains (the (mq_search q)) (mg_content r)))"

definition findMessages :: "uid \<Rightarrow> MessageQueryOptions \<Rightarrow> MsgDb \<Rightarrow> (Message, millis) PaginatedResult" where
  "findMessages tenantId q db =
     (let limit = orCount (mq_limit q) 25;
          offset = (orCount (mq_page q) 1 - 1) * limit;
          found = filter (messageMatches tenantId q) (mb_messages db);
          before = (\<lambda>r. case mq_cursor q of None \<Rightarrow> True | Some t \<Rightarrow> mg_createdAt r < t);
          rows = take limit (drop (if mq_cursor q = None then offset else 0)
                   (sqlOrder (mq_ascending q) (\<lambda>r. Some (mg_createdAt r)) (filter before found)))
      in \<lparr>pg_data = map messageMapped rows, pg_total = length found,
          pg_nextCursor = (if length rows = limit \<and> rows \<noteq> [] then Some (mg_createdAt (last rows)) else None)\<rparr>)"

definition findThread :: "uid \<Rightarrow> uid \<Rightarrow> MsgDb \<Rightarrow> Message list" where
  "findThread tenantId thread db =
     map messageMapped (sort_key mg_createdAt (filter (\<lambda>r. mg_tenantId r = tenantId \<and> mg_threadId r = Some thread \<and> mg_deletedAt r = None) (mb_messages db)))"

definition findByExternalId :: "uid \<Rightarrow> uid option \<Rightarrow> string \<Rightarrow> MsgDb \<Rightarrow> Message option" where
  "findByExternalId tenantId channelId external db =
     map_option messageMapped (List.find (\<lambda>r. mg_tenantId r = tenantId \<and> mg_externalMessageId r = Some external \<and> wanted channelId (mg_channelId r)) (mb_messages db))"

definition searchMessages :: "uid \<Rightarrow> string \<Rightarrow> nat \<Rightarrow> MsgDb \<Rightarrow> Message list" where
  "searchMessages tenantId query limit db =
     map messageMapped (take limit (sort_key (\<lambda>r. - mg_createdAt r) (filter (\<lambda>r. mg_tenantId r = tenantId \<and> mg_deletedAt r = None \<and>
       (contains query (mg_content r) \<or> contains query (mg_contentHtml r))) (mb_messages db))))"

definition bulkUpdateMessageStatus :: "millis \<Rightarrow> uid \<Rightarrow> uid list \<Rightarrow> MessageStatusEnum \<Rightarrow> MsgDb \<Rightarrow> nat \<times> MsgDb" where
  "bulkUpdateMessageStatus now tenantId is st db =
     (if is = [] then (0, db)
      else let hit = (\<lambda>r. mg_tenantId r = tenantId \<and> mg_id r \<in> set is)
           in (length (filter hit (mb_messages db)),
               db\<lparr>mb_messages := map (\<lambda>r. if hit r then r\<lparr>mg_status := st, mg_updatedAt := now\<rparr> else r) (mb_messages db)\<rparr>))"

record MessageCounts =
  mc_total :: nat
  mc_attachments :: nat
  mc_unread :: nat

definition countByConversation :: "uid \<Rightarrow> uid \<Rightarrow> MsgDb \<Rightarrow> MessageCounts" where
  "countByConversation tenantId conversationId db =
     \<lparr>mc_total = length (filter (\<lambda>r. mg_tenantId r = tenantId \<and> mg_conversationId r = conversationId \<and> mg_deletedAt r = None) (mb_messages db)),
      mc_attachments = length (filter (\<lambda>(a, r). mga_messageId a = mg_id r \<and> mga_tenantId a = tenantId \<and> mg_conversationId r = conversationId)
        (List.product (mb_attachments db) (mb_messages db))),
      mc_unread = length (filter (\<lambda>r. mg_tenantId r = tenantId \<and> mg_conversationId r = conversationId \<and> mg_direction r = MD_INBOUND \<and>
        mg_readAt r = None \<and> mg_deletedAt r = None) (mb_messages db))\<rparr>"

subsection \<open>Child rows\<close>

definition removeReactionRow :: "uid \<Rightarrow> uid \<Rightarrow> uid \<Rightarrow> string \<Rightarrow> MsgDb \<Rightarrow> MsgDb" where
  "removeReactionRow tenantId i userId reaction db =
     db\<lparr>mb_reactions := filter (\<lambda>x. \<not> (mgr_tenantId x = tenantId \<and> mgr_messageId x = i \<and> mgr_userId x = userId \<and> mgr_reaction x = reaction)) (mb_reactions db)\<rparr>"

definition sameAttachment :: "uid \<Rightarrow> uid \<Rightarrow> MessageAttachment \<Rightarrow> bool" where
  "sameAttachment i tenantId r = (mga_id r = i \<and> mga_tenantId r = tenantId)"

definition saveAttachment :: "millis \<Rightarrow> MessageAttachment \<Rightarrow> uid \<Rightarrow> MsgDb \<Rightarrow> MsgDb" where
  "saveAttachment now a tenantId db =
     (let cols = (attachmentColumns a)\<lparr>mga_tenantId := tenantId, mga_updatedAt := now\<rparr>
      in db\<lparr>mb_attachments :=
        (if list_ex (sameAttachment (mga_id a) tenantId) (mb_attachments db)
         then map (\<lambda>r. if sameAttachment (mga_id a) tenantId r then cols\<lparr>mga_createdAt := mga_createdAt r\<rparr> else r) (mb_attachments db)
         else mb_attachments db @ [cols])\<rparr>)"

definition deleteAttachmentRow :: "uid \<Rightarrow> uid \<Rightarrow> MsgDb \<Rightarrow> bool \<times> MsgDb" where
  "deleteAttachmentRow tenantId i db =
     (if list_ex (sameAttachment i tenantId) (mb_attachments db)
      then (True, db\<lparr>mb_attachments := filter (\<lambda>r. \<not> sameAttachment i tenantId r) (mb_attachments db)\<rparr>) else (False, db))"

definition getAttachment :: "uid \<Rightarrow> uid \<Rightarrow> MsgDb \<Rightarrow> MessageAttachment option" where
  "getAttachment tenantId i db = List.find (sameAttachment i tenantId) (mb_attachments db)"

definition saveDeliveryStatus :: "millis \<Rightarrow> MessageDeliveryStatus \<Rightarrow> uid \<Rightarrow> MsgDb \<Rightarrow> MsgDb" where
  "saveDeliveryStatus now d tenantId db =
     (let cols = (deliveryColumns d)\<lparr>mgd_tenantId := tenantId, mgd_updatedAt := now\<rparr>; same = (\<lambda>r. mgd_id r = mgd_id d \<and> mgd_tenantId r = tenantId)
      in db\<lparr>mb_deliveries :=
        (if list_ex same (mb_deliveries db) then map (\<lambda>r. if same r then cols\<lparr>mgd_createdAt := mgd_createdAt r\<rparr> else r) (mb_deliveries db)
         else mb_deliveries db @ [cols])\<rparr>)"

definition findDeliveryStatuses :: "uid \<Rightarrow> uid \<Rightarrow> MsgDb \<Rightarrow> MessageDeliveryStatus list" where
  "findDeliveryStatuses tenantId i db =
     sqlOrder False mgd_lastAttemptAt (filter (\<lambda>x. mgd_tenantId x = tenantId \<and> mgd_messageId x = i) (mb_deliveries db))"

subsection \<open>Draft and template rows\<close>

definition sameDraft :: "uid \<Rightarrow> uid \<Rightarrow> MessageDraft \<Rightarrow> bool" where
  "sameDraft i tenantId r = (mgf_id r = i \<and> mgf_tenantId r = tenantId)"

definition findDraft :: "uid \<Rightarrow> uid \<Rightarrow> MsgDb \<Rightarrow> MessageDraft option" where
  "findDraft i tenantId db = List.find (sameDraft i tenantId) (mb_drafts db)"

definition findByConversationAndAuthor :: "uid \<Rightarrow> uid \<Rightarrow> uid \<Rightarrow> MsgDb \<Rightarrow> MessageDraft option" where
  "findByConversationAndAuthor tenantId conversationId author db =
     List.find (\<lambda>r. mgf_tenantId r = tenantId \<and> mgf_conversationId r = conversationId \<and> mgf_authorId r = author) (mb_drafts db)"

definition findDraftsByConversation :: "uid \<Rightarrow> uid \<Rightarrow> MsgDb \<Rightarrow> MessageDraft list" where
  "findDraftsByConversation tenantId conversationId db =
     sort_key (\<lambda>r. - mgf_updatedAt r) (filter (\<lambda>r. mgf_tenantId r = tenantId \<and> mgf_conversationId r = conversationId) (mb_drafts db))"

definition saveDraft :: "millis \<Rightarrow> MessageDraft \<Rightarrow> uid \<Rightarrow> MsgDb \<Rightarrow> MsgDb" where
  "saveDraft now d tenantId db =
     (let cols = d\<lparr>mgf_tenantId := tenantId, mgf_updatedAt := now\<rparr>
      in db\<lparr>mb_drafts :=
        (if list_ex (sameDraft (mgf_id d) tenantId) (mb_drafts db)
         then map (\<lambda>r. if sameDraft (mgf_id d) tenantId r then cols\<lparr>mgf_createdAt := mgf_createdAt r\<rparr> else r) (mb_drafts db)
         else mb_drafts db @ [cols])\<rparr>)"

definition deleteDraft :: "uid \<Rightarrow> uid \<Rightarrow> MsgDb \<Rightarrow> bool \<times> MsgDb" where
  "deleteDraft i tenantId db =
     (if list_ex (sameDraft i tenantId) (mb_drafts db)
      then (True, db\<lparr>mb_drafts := filter (\<lambda>r. \<not> sameDraft i tenantId r) (mb_drafts db)\<rparr>) else (False, db))"

definition deleteExpired :: "uid option \<Rightarrow> millis \<Rightarrow> MsgDb \<Rightarrow> nat \<times> MsgDb" where
  "deleteExpired tenantId now db =
     (let gone = (\<lambda>r. isExpired now r \<and> (truthy tenantId \<longrightarrow> tenantId = Some (mgf_tenantId r)))
      in (length (filter gone (mb_drafts db)), db\<lparr>mb_drafts := filter (\<lambda>r. \<not> gone r) (mb_drafts db)\<rparr>))"

definition sameMessageTemplate :: "uid \<Rightarrow> uid \<Rightarrow> MessageTemplate \<Rightarrow> bool" where
  "sameMessageTemplate i tenantId r = (mgt_id r = i \<and> mgt_tenantId r = tenantId)"

definition templateToDomain :: "MessageTemplate \<Rightarrow> MessageTemplate" where
  "templateToDomain r =
     r\<lparr>mgt_channelType := orUndefined (mgt_channelType r), mgt_category := orUndefined (mgt_category r), mgt_contentHtml := orUndefined (mgt_contentHtml r),
       mgt_variables := Some (patched (mgt_variables r) []), mgt_language := orS (mgt_language r) (Some ''en''),
       mgt_isActive := Some (patched (mgt_isActive r) True)\<rparr>"

definition findTemplate :: "uid \<Rightarrow> uid \<Rightarrow> MsgDb \<Rightarrow> MessageTemplate option" where
  "findTemplate i tenantId db = map_option templateToDomain (List.find (sameMessageTemplate i tenantId) (mb_templates db))"

definition findMessageTemplateByName :: "uid \<Rightarrow> string \<Rightarrow> MsgDb \<Rightarrow> MessageTemplate option" where
  "findMessageTemplateByName tenantId name db =
     map_option templateToDomain (List.find (\<lambda>r. mgt_tenantId r = tenantId \<and> mgt_name r = name) (mb_templates db))"

definition findMessageTemplates :: "uid \<Rightarrow> nat \<Rightarrow> nat \<Rightarrow> string option \<Rightarrow> MsgDb \<Rightarrow> MessageTemplate list \<times> nat" where
  "findMessageTemplates tenantId page limit category db =
     (let found = filter (\<lambda>r. mgt_tenantId r = tenantId \<and> mgt_deletedAt r = None \<and> wanted category (mgt_category r)) (mb_templates db)
      in (map templateToDomain (take limit (drop ((page - 1) * limit) (sort_key (\<lambda>r. - mgt_createdAt r) found))), length found))"

text \<open>The columns over the row they update: \<^verbatim>\<open>undefined\<close> content, language and activity leave the column.\<close>

definition messageTemplateColumns :: "millis \<Rightarrow> uid \<Rightarrow> MessageTemplate \<Rightarrow> MessageTemplate \<Rightarrow> MessageTemplate" where
  "messageTemplateColumns now tenantId t r =
     r\<lparr>mgt_id := mgt_id t, mgt_tenantId := tenantId, mgt_name := mgt_name t, mgt_channelType := orUndefined (mgt_channelType t),
       mgt_category := orUndefined (mgt_category t), mgt_content := (case mgt_content t of None \<Rightarrow> mgt_content r | Some c \<Rightarrow> Some c),
       mgt_contentHtml := orUndefined (mgt_contentHtml t), mgt_variables := mgt_variables t,
       mgt_language := (case mgt_language t of None \<Rightarrow> mgt_language r | Some l \<Rightarrow> Some l),
       mgt_isActive := (case mgt_isActive t of None \<Rightarrow> mgt_isActive r | Some a \<Rightarrow> Some a), mgt_updatedAt := now\<rparr>"

definition saveMessageTemplate :: "millis \<Rightarrow> MessageTemplate \<Rightarrow> uid \<Rightarrow> MsgDb \<Rightarrow> MsgDb" where
  "saveMessageTemplate now t tenantId db =
     db\<lparr>mb_templates :=
        (if list_ex (sameMessageTemplate (mgt_id t) tenantId) (mb_templates db)
         then map (\<lambda>r. if sameMessageTemplate (mgt_id t) tenantId r then messageTemplateColumns now tenantId t r else r) (mb_templates db)
         else mb_templates db @ [messageTemplateColumns now tenantId t (t\<lparr>mgt_deletedAt := None\<rparr>)])\<rparr>"

definition deleteMessageTemplate :: "millis \<Rightarrow> uid \<Rightarrow> uid \<Rightarrow> MsgDb \<Rightarrow> bool \<times> MsgDb" where
  "deleteMessageTemplate now i tenantId db =
     (if list_ex (sameMessageTemplate i tenantId) (mb_templates db)
      then (True, db\<lparr>mb_templates := map (\<lambda>r. if sameMessageTemplate i tenantId r
              then r\<lparr>mgt_deletedAt := Some now, mgt_isActive := Some False, mgt_updatedAt := now\<rparr> else r) (mb_templates db)\<rparr>)
      else (False, db))"

end
