(* ===== verification/Channel_Model.thy ===== *)
theory Channel_Model
  imports Conversation_Model
begin

text \<open>
  Channels (\<^verbatim>\<open>src/modules/channels/domain\<close>) and the tables behind them
  (\<^verbatim>\<open>src/modules/channels/repositories\<close>). The body of an update request carries every key of its class, with
  \<^verbatim>\<open>undefined\<close> for the ones the client left out, so the name, the default flag and the metadata of the aggregate are
  optional; a column that is set to \<^verbatim>\<open>undefined\<close> is not written. The type of a channel is checked by the validation of
  the request.
\<close>

subsection \<open>Value objects\<close>

datatype ChannelTypeEnum =
  CH_WHATSAPP | CH_EMAIL | CH_WEBCHAT | CH_TELEGRAM | CH_FACEBOOK | CH_INSTAGRAM | CH_SLACK | CH_TEAMS | CH_VOICE

fun channelTypeName :: "ChannelTypeEnum \<Rightarrow> string" where
  "channelTypeName CH_WHATSAPP = ''WHATSAPP''"
| "channelTypeName CH_EMAIL = ''EMAIL''"
| "channelTypeName CH_WEBCHAT = ''WEBCHAT''"
| "channelTypeName CH_TELEGRAM = ''TELEGRAM''"
| "channelTypeName CH_FACEBOOK = ''FACEBOOK''"
| "channelTypeName CH_INSTAGRAM = ''INSTAGRAM''"
| "channelTypeName CH_SLACK = ''SLACK''"
| "channelTypeName CH_TEAMS = ''TEAMS''"
| "channelTypeName CH_VOICE = ''VOICE''"

datatype ChannelStatusEnum = CHS_ACTIVE | CHS_INACTIVE

definition ChannelProvider_create :: "string \<Rightarrow> exn + string" where
  "ChannelProvider_create v =
     (let cleaned = toUpperCase (trim v)
      in if cleaned = [] then Inl (Error ''ChannelProvider cannot be empty'') else Inr cleaned)"

subsection \<open>Child entities\<close>

record ChannelConfiguration =
  chc_id :: uid
  chc_tenantId :: uid
  chc_channelId :: uid
  chc_authenticationType :: string
  chc_configuration :: "(string \<times> json) list"
  chc_credentials :: "(string \<times> json) list"
  chc_settings :: "(string \<times> json) list"
  chc_healthStatus :: string
  chc_lastHealthCheck :: millis
  chc_createdAt :: millis
  chc_updatedAt :: millis
  chc_version :: int

definition new_ChannelConfiguration ::
  "millis \<Rightarrow> uid \<Rightarrow> uid \<Rightarrow> uid \<Rightarrow> string \<Rightarrow> (string \<times> json) list \<Rightarrow> (string \<times> json) list \<Rightarrow> (string \<times> json) list option \<Rightarrow> ChannelConfiguration" where
  "new_ChannelConfiguration now i tenantId channelId authType configuration credentials settings =
     \<lparr>chc_id = i, chc_tenantId = tenantId, chc_channelId = channelId, chc_authenticationType = authType, chc_configuration = configuration,
      chc_credentials = credentials, chc_settings = patched settings [], chc_healthStatus = ''UNKNOWN'', chc_lastHealthCheck = now,
      chc_createdAt = now, chc_updatedAt = now, chc_version = 1\<rparr>"

record ChannelWebhook =
  chw_id :: uid
  chw_tenantId :: uid
  chw_channelId :: uid
  chw_webhookUrl :: string
  chw_webhookSecret :: "string option"
  chw_verificationToken :: "string option"
  chw_status :: string
  chw_lastReceivedAt :: "millis option"
  chw_createdAt :: millis
  chw_updatedAt :: millis
  chw_version :: int

definition new_ChannelWebhook :: "millis \<Rightarrow> uid \<Rightarrow> uid \<Rightarrow> uid \<Rightarrow> string \<Rightarrow> string option \<Rightarrow> string option \<Rightarrow> ChannelWebhook" where
  "new_ChannelWebhook now i tenantId channelId url secret token =
     \<lparr>chw_id = i, chw_tenantId = tenantId, chw_channelId = channelId, chw_webhookUrl = url, chw_webhookSecret = secret,
      chw_verificationToken = token, chw_status = ''ACTIVE'', chw_lastReceivedAt = None, chw_createdAt = now, chw_updatedAt = now, chw_version = 1\<rparr>"

record ChannelTemplate =
  cht_id :: uid
  cht_tenantId :: uid
  cht_channelId :: uid
  cht_templateName :: string
  cht_templateType :: string
  cht_templateContent :: string
  cht_variables :: "(string \<times> json) list"
  cht_isActive :: bool
  cht_createdAt :: millis
  cht_updatedAt :: millis
  cht_version :: int

definition new_ChannelTemplate :: "millis \<Rightarrow> uid \<Rightarrow> uid \<Rightarrow> uid \<Rightarrow> string \<Rightarrow> string \<Rightarrow> string \<Rightarrow> (string \<times> json) list option \<Rightarrow> ChannelTemplate" where
  "new_ChannelTemplate now i tenantId channelId name ty content variables =
     \<lparr>cht_id = i, cht_tenantId = tenantId, cht_channelId = channelId, cht_templateName = name, cht_templateType = ty,
      cht_templateContent = content, cht_variables = patched variables [], cht_isActive = True, cht_createdAt = now, cht_updatedAt = now,
      cht_version = 1\<rparr>"

text \<open>A limit of zero is falsy and stands for the default.\<close>

record ChannelRateLimit =
  chr_id :: uid
  chr_tenantId :: uid
  chr_channelId :: uid
  chr_providerLimit :: int
  chr_tenantLimit :: int
  chr_currentUsage :: int
  chr_resetAt :: millis
  chr_createdAt :: millis
  chr_updatedAt :: millis
  chr_version :: int

definition orNumber :: "int \<Rightarrow> int \<Rightarrow> int" where
  "orNumber n d = (if n = 0 then d else n)"

definition new_ChannelRateLimit :: "millis \<Rightarrow> uid \<Rightarrow> uid \<Rightarrow> uid \<Rightarrow> int \<Rightarrow> int \<Rightarrow> millis \<Rightarrow> ChannelRateLimit" where
  "new_ChannelRateLimit now i tenantId channelId providerLimit tenantLimit resetAt =
     \<lparr>chr_id = i, chr_tenantId = tenantId, chr_channelId = channelId, chr_providerLimit = orNumber providerLimit 100,
      chr_tenantLimit = orNumber tenantLimit 50, chr_currentUsage = 0, chr_resetAt = resetAt, chr_createdAt = now, chr_updatedAt = now,
      chr_version = 1\<rparr>"

definition incrementUsage :: "millis \<Rightarrow> ChannelRateLimit \<Rightarrow> ChannelRateLimit" where
  "incrementUsage now r =
     (if chr_resetAt r < now then r\<lparr>chr_currentUsage := 1, chr_resetAt := now + 60000, chr_updatedAt := now\<rparr>
      else r\<lparr>chr_currentUsage := chr_currentUsage r + 1, chr_updatedAt := now\<rparr>)"

definition isRateLimited :: "millis \<Rightarrow> ChannelRateLimit \<Rightarrow> bool" where
  "isRateLimited now r = (if chr_resetAt r < now then False else orNumber (chr_tenantLimit r) 50 \<le> chr_currentUsage r)"

subsection \<open>The aggregate\<close>

datatype channel_event =
    ChannelCreatedEvent uid uid "string option" string
  | ChannelUpdatedEvent uid uid "string option"
  | ChannelDisabledEvent uid uid
  | ChannelEnabledEvent uid uid
  | ChannelHealthFailedEvent uid uid string
  | ChannelHealthRestoredEvent uid uid
  | WebhookReceivedEvent uid uid uid json
  | ChannelMessageReceived uid uid uid string string
  | ChannelMessageNormalized uid uid uid json
  | ChannelMessageSent uid uid uid string uid
  | ChannelMessageFailed uid uid uid string

record Channel =
  ch_id :: uid
  ch_tenantId :: uid
  ch_name :: "string option"
  ch_type :: ChannelTypeEnum
  ch_status :: ChannelStatusEnum
  ch_provider :: string
  ch_isActive :: bool
  ch_isDefault :: "bool option"
  ch_metadata :: "(string \<times> json) list option"
  ch_createdAt :: millis
  ch_updatedAt :: millis
  ch_deletedAt :: "millis option"
  ch_version :: int
  ch_configuration :: "ChannelConfiguration option"
  ch_webhook :: "ChannelWebhook option"
  ch_templates :: "ChannelTemplate list"
  ch_rateLimit :: "ChannelRateLimit option"
  ch_domainEvents :: "channel_event list"

definition chEvent :: "channel_event \<Rightarrow> Channel \<Rightarrow> Channel" where
  "chEvent ev c = c\<lparr>ch_domainEvents := ch_domainEvents c @ [ev]\<rparr>"

definition Channel_create ::
  "millis \<Rightarrow> uid \<Rightarrow> uid \<Rightarrow> string \<Rightarrow> ChannelTypeEnum \<Rightarrow> string \<Rightarrow> bool \<Rightarrow> (string \<times> json) list option \<Rightarrow> Channel" where
  "Channel_create now i tenantId name ty provider isDefault metadata =
     chEvent (ChannelCreatedEvent tenantId i (Some name) (channelTypeName ty))
     \<lparr>ch_id = i, ch_tenantId = tenantId, ch_name = Some name, ch_type = ty, ch_status = CHS_ACTIVE, ch_provider = provider, ch_isActive = True,
      ch_isDefault = Some isDefault, ch_metadata = Some (patched metadata []), ch_createdAt = now, ch_updatedAt = now, ch_deletedAt = None,
      ch_version = 1, ch_configuration = None, ch_webhook = None, ch_templates = [], ch_rateLimit = None, ch_domainEvents = []\<rparr>"

record UpdateChannelDto =
  ucd_name :: "string field"
  ucd_isDefault :: "bool field"
  ucd_metadata :: "(string \<times> json) list field"

definition Channel_update :: "millis \<Rightarrow> UpdateChannelDto \<Rightarrow> Channel \<Rightarrow> Channel" where
  "Channel_update now dto c =
     (let c' = c\<lparr>ch_name := spread (ch_name c) (ucd_name dto), ch_isDefault := spread (ch_isDefault c) (ucd_isDefault dto),
                 ch_metadata := spread (ch_metadata c) (ucd_metadata dto), ch_updatedAt := now, ch_version := ch_version c + 1\<rparr>
      in chEvent (ChannelUpdatedEvent (ch_tenantId c) (ch_id c) (ch_name c')) c')"

definition Channel_enable :: "millis \<Rightarrow> Channel \<Rightarrow> Channel" where
  "Channel_enable now c =
     (if ch_isActive c then c
      else chEvent (ChannelEnabledEvent (ch_tenantId c) (ch_id c)) (c\<lparr>ch_isActive := True, ch_updatedAt := now, ch_version := ch_version c + 1\<rparr>))"

definition Channel_disable :: "millis \<Rightarrow> Channel \<Rightarrow> Channel" where
  "Channel_disable now c =
     (if ch_isActive c
      then chEvent (ChannelDisabledEvent (ch_tenantId c) (ch_id c)) (c\<lparr>ch_isActive := False, ch_updatedAt := now, ch_version := ch_version c + 1\<rparr>)
      else c)"

definition addTemplate :: "millis \<Rightarrow> ChannelTemplate \<Rightarrow> Channel \<Rightarrow> Channel" where
  "addTemplate now t c =
     (if list_ex (\<lambda>x. cht_templateName x = cht_templateName t) (ch_templates c) then c
      else c\<lparr>ch_templates := ch_templates c @ [t], ch_updatedAt := now\<rparr>)"

fun removeFirst :: "('a \<Rightarrow> bool) \<Rightarrow> 'a list \<Rightarrow> 'a list" where
  "removeFirst P [] = []"
| "removeFirst P (x # xs) = (if P x then xs else x # removeFirst P xs)"

definition removeTemplate :: "millis \<Rightarrow> string \<Rightarrow> Channel \<Rightarrow> Channel" where
  "removeTemplate now name c =
     (if list_ex (\<lambda>x. cht_templateName x = name) (ch_templates c)
      then c\<lparr>ch_templates := removeFirst (\<lambda>x. cht_templateName x = name) (ch_templates c), ch_updatedAt := now\<rparr> else c)"

subsection \<open>Tables\<close>

text \<open>A row of \<^verbatim>\<open>channels\<close> is a \<open>Channel\<close> without its children and events.\<close>

record ChannelDb =
  hb_channels :: "Channel list"
  hb_configurations :: "ChannelConfiguration list"
  hb_webhooks :: "ChannelWebhook list"
  hb_templates :: "ChannelTemplate list"
  hb_rateLimits :: "ChannelRateLimit list"

text \<open>Update the row a key names, or append a new one.\<close>

definition upsertRow :: "('r \<Rightarrow> bool) \<Rightarrow> ('r \<Rightarrow> 'r) \<Rightarrow> 'r \<Rightarrow> 'r list \<Rightarrow> 'r list" where
  "upsertRow same upd new rows = (if list_ex same rows then map (\<lambda>r. if same r then upd r else r) rows else rows @ [new])"

definition sameChannel :: "uid \<Rightarrow> uid \<Rightarrow> Channel \<Rightarrow> bool" where
  "sameChannel i tenantId r = (ch_id r = i \<and> ch_tenantId r = tenantId)"

definition liveChannel :: "uid \<Rightarrow> uid \<Rightarrow> Channel \<Rightarrow> bool" where
  "liveChannel i tenantId r = (sameChannel i tenantId r \<and> ch_deletedAt r = None)"

definition channelToDomain :: "uid \<Rightarrow> uid \<Rightarrow> ChannelDb \<Rightarrow> Channel \<Rightarrow> Channel" where
  "channelToDomain i tenantId db r =
     r\<lparr>ch_version := orNumber (ch_version r) 1,
       ch_configuration := List.find (\<lambda>x. chc_channelId x = i \<and> chc_tenantId x = tenantId) (hb_configurations db),
       ch_webhook := List.find (\<lambda>x. chw_channelId x = i \<and> chw_tenantId x = tenantId) (hb_webhooks db),
       ch_templates := filter (\<lambda>x. cht_channelId x = i \<and> cht_tenantId x = tenantId) (hb_templates db),
       ch_rateLimit := List.find (\<lambda>x. chr_channelId x = i \<and> chr_tenantId x = tenantId) (hb_rateLimits db)\<rparr>"

definition findChannel :: "uid \<Rightarrow> uid \<Rightarrow> ChannelDb \<Rightarrow> Channel option" where
  "findChannel i tenantId db = map_option (channelToDomain i tenantId db) (List.find (liveChannel i tenantId) (hb_channels db))"

definition findChannelByName :: "string \<Rightarrow> uid \<Rightarrow> ChannelDb \<Rightarrow> Channel option" where
  "findChannelByName name tenantId db =
     (case List.find (\<lambda>r. ch_name r = Some name \<and> ch_tenantId r = tenantId \<and> ch_deletedAt r = None) (hb_channels db) of
        None \<Rightarrow> None
      | Some r \<Rightarrow> findChannel (ch_id r) tenantId db)"

definition findConfigByChannelId :: "uid \<Rightarrow> uid \<Rightarrow> ChannelDb \<Rightarrow> ChannelConfiguration option" where
  "findConfigByChannelId i tenantId db = List.find (\<lambda>x. chc_channelId x = i \<and> chc_tenantId x = tenantId) (hb_configurations db)"

definition findWebhookByChannelId :: "uid \<Rightarrow> uid \<Rightarrow> ChannelDb \<Rightarrow> ChannelWebhook option" where
  "findWebhookByChannelId i tenantId db = List.find (\<lambda>x. chw_channelId x = i \<and> chw_tenantId x = tenantId) (hb_webhooks db)"

definition findTemplatesByChannelId :: "uid \<Rightarrow> uid \<Rightarrow> ChannelDb \<Rightarrow> ChannelTemplate list" where
  "findTemplatesByChannelId i tenantId db = filter (\<lambda>x. cht_channelId x = i \<and> cht_tenantId x = tenantId) (hb_templates db)"

definition findTemplateByName :: "uid \<Rightarrow> string \<Rightarrow> uid \<Rightarrow> ChannelDb \<Rightarrow> ChannelTemplate option" where
  "findTemplateByName i name tenantId db =
     List.find (\<lambda>x. cht_channelId x = i \<and> cht_templateName x = name \<and> cht_tenantId x = tenantId) (hb_templates db)"

definition findRateLimitByChannelId :: "uid \<Rightarrow> uid \<Rightarrow> ChannelDb \<Rightarrow> ChannelRateLimit option" where
  "findRateLimitByChannelId i tenantId db = List.find (\<lambda>x. chr_channelId x = i \<and> chr_tenantId x = tenantId) (hb_rateLimits db)"

definition saveConfig :: "millis \<Rightarrow> ChannelConfiguration \<Rightarrow> uid \<Rightarrow> ChannelDb \<Rightarrow> ChannelDb" where
  "saveConfig now x tenantId db =
     db\<lparr>hb_configurations := upsertRow (\<lambda>r. chc_id r = chc_id x \<and> chc_tenantId r = tenantId)
          (\<lambda>r. x\<lparr>chc_createdAt := chc_createdAt r, chc_updatedAt := now\<rparr>) (x\<lparr>chc_updatedAt := chc_createdAt x\<rparr>) (hb_configurations db)\<rparr>"

definition webhookColumns :: "ChannelWebhook \<Rightarrow> ChannelWebhook" where
  "webhookColumns x = x\<lparr>chw_webhookSecret := orUndefined (chw_webhookSecret x), chw_verificationToken := orUndefined (chw_verificationToken x)\<rparr>"

definition saveWebhook :: "millis \<Rightarrow> ChannelWebhook \<Rightarrow> uid \<Rightarrow> ChannelDb \<Rightarrow> ChannelDb" where
  "saveWebhook now x tenantId db =
     db\<lparr>hb_webhooks := upsertRow (\<lambda>r. chw_id r = chw_id x \<and> chw_tenantId r = tenantId)
          (\<lambda>r. (webhookColumns x)\<lparr>chw_createdAt := chw_createdAt r, chw_updatedAt := now\<rparr>)
          ((webhookColumns x)\<lparr>chw_updatedAt := chw_createdAt x\<rparr>) (hb_webhooks db)\<rparr>"

definition saveChannelTemplate :: "millis \<Rightarrow> ChannelTemplate \<Rightarrow> uid \<Rightarrow> ChannelDb \<Rightarrow> ChannelDb" where
  "saveChannelTemplate now x tenantId db =
     db\<lparr>hb_templates := upsertRow (\<lambda>r. cht_id r = cht_id x \<and> cht_tenantId r = tenantId)
          (\<lambda>r. x\<lparr>cht_createdAt := cht_createdAt r, cht_updatedAt := now\<rparr>) (x\<lparr>cht_updatedAt := cht_createdAt x\<rparr>) (hb_templates db)\<rparr>"

definition deleteChannelTemplate :: "uid \<Rightarrow> string \<Rightarrow> uid \<Rightarrow> ChannelDb \<Rightarrow> ChannelDb" where
  "deleteChannelTemplate i name tenantId db =
     db\<lparr>hb_templates := filter (\<lambda>x. \<not> (cht_channelId x = i \<and> cht_templateName x = name \<and> cht_tenantId x = tenantId)) (hb_templates db)\<rparr>"

definition saveRateLimit :: "millis \<Rightarrow> ChannelRateLimit \<Rightarrow> uid \<Rightarrow> ChannelDb \<Rightarrow> ChannelDb" where
  "saveRateLimit now x tenantId db =
     db\<lparr>hb_rateLimits := upsertRow (\<lambda>r. chr_id r = chr_id x \<and> chr_tenantId r = tenantId)
          (\<lambda>r. x\<lparr>chr_createdAt := chr_createdAt r, chr_updatedAt := now\<rparr>) (x\<lparr>chr_updatedAt := chr_createdAt x\<rparr>) (hb_rateLimits db)\<rparr>"

text \<open>The columns of a channel over the row it updates: an \<^verbatim>\<open>undefined\<close> name or default flag leaves the column, undefined
  metadata is read as an empty object.\<close>

definition channelColumns :: "millis \<Rightarrow> Channel \<Rightarrow> Channel \<Rightarrow> Channel" where
  "channelColumns now c r =
     c\<lparr>ch_name := (case ch_name c of None \<Rightarrow> ch_name r | Some n \<Rightarrow> Some n),
       ch_isDefault := (case ch_isDefault c of None \<Rightarrow> ch_isDefault r | Some d \<Rightarrow> Some d), ch_metadata := Some (patched (ch_metadata c) []),
       ch_createdAt := ch_createdAt r, ch_updatedAt := now, ch_configuration := None, ch_webhook := None, ch_templates := [], ch_rateLimit := None,
       ch_domainEvents := []\<rparr>"

text \<open>The unique index on tenant and name, also over deleted channels.\<close>

definition nameTaken :: "Channel list \<Rightarrow> Channel \<Rightarrow> bool" where
  "nameTaken rows c = list_ex (\<lambda>r. \<not> (ch_id r = ch_id c) \<and> ch_tenantId r = ch_tenantId c \<and> ch_name r = ch_name c \<and> ch_name c \<noteq> None) rows"

definition saveChannel :: "millis \<Rightarrow> Channel \<Rightarrow> uid \<Rightarrow> ChannelDb \<Rightarrow> exn + ChannelDb" where
  "saveChannel now c tenantId db =
     (if nameTaken (hb_channels db) c then Inl (Error ''duplicate key value violates unique constraint uq_channels_tenant_name'')
      else Inr
        (let db1 = db\<lparr>hb_channels := upsertRow (sameChannel (ch_id c) tenantId) (channelColumns now c) (channelColumns (ch_createdAt c) c c) (hb_channels db)\<rparr>;
             db2 = (case ch_configuration c of None \<Rightarrow> db1 | Some x \<Rightarrow> saveConfig now x tenantId db1);
             db3 = (case ch_webhook c of None \<Rightarrow> db2 | Some x \<Rightarrow> saveWebhook now x tenantId db2)
         in case ch_rateLimit c of None \<Rightarrow> db3 | Some x \<Rightarrow> saveRateLimit now x tenantId db3))"

definition deleteChannel :: "millis \<Rightarrow> uid \<Rightarrow> uid \<Rightarrow> ChannelDb \<Rightarrow> bool \<times> ChannelDb" where
  "deleteChannel now i tenantId db =
     (if list_ex (sameChannel i tenantId) (hb_channels db)
      then (True, db\<lparr>hb_channels := map (\<lambda>r. if sameChannel i tenantId r then r\<lparr>ch_deletedAt := Some now, ch_isActive := False\<rparr> else r) (hb_channels db)\<rparr>)
      else (False, db))"

subsection \<open>Listing\<close>

record ChannelQueryOptions =
  chq_page :: "nat option"
  chq_limit :: "nat option"
  chq_search :: "string option"
  chq_type :: "ChannelTypeEnum option"
  chq_descending :: bool

definition channelMatches :: "uid \<Rightarrow> ChannelQueryOptions \<Rightarrow> Channel \<Rightarrow> bool" where
  "channelMatches tenantId q r =
     (ch_tenantId r = tenantId \<and> ch_deletedAt r = None \<and> (chq_type q \<noteq> None \<longrightarrow> chq_type q = Some (ch_type r)) \<and>
      (truthy (chq_search q) \<longrightarrow> contains (the (chq_search q)) (ch_name r)))"

definition findChannels :: "uid \<Rightarrow> ChannelQueryOptions \<Rightarrow> ChannelDb \<Rightarrow> Channel list \<times> nat" where
  "findChannels tenantId q db =
     (let limit = orCount (chq_limit q) 20;
          offset = (orCount (chq_page q) 1 - 1) * limit;
          found = filter (channelMatches tenantId q) (hb_channels db)
      in (List.map_filter (\<lambda>r. findChannel (ch_id r) tenantId db)
            (take limit (drop offset (sqlOrder (\<not> chq_descending q) (\<lambda>r. Some (ch_createdAt r)) found))), length found))"

definition findAllChannels :: "uid \<Rightarrow> ChannelDb \<Rightarrow> Channel list" where
  "findAllChannels tenantId db =
     List.map_filter (\<lambda>r. findChannel (ch_id r) tenantId db) (filter (\<lambda>r. ch_tenantId r = tenantId \<and> ch_deletedAt r = None) (hb_channels db))"

end
