(* ===== verification/Channel_Connectors.thy ===== *)
theory Channel_Connectors
  imports Channel_Model
begin

text \<open>
  The connectors of the channel providers (\<^verbatim>\<open>src/modules/channels/connectors\<close>). A class that implements
  \<^verbatim>\<open>IChannelConnector\<close> is a record of its methods. Payloads are JSON values; the headers of a request are a list of
  names and texts. HMAC-SHA256 is a function of the runtime and an argument. An external identifier the payload does not
  carry is \<open>None\<close>: the connector makes up a random one.
\<close>

subsection \<open>Reading payloads\<close>

text \<open>\<^verbatim>\<open>x.k\<close> and \<^verbatim>\<open>x?.k\<close>.\<close>

definition jsMember :: "json \<Rightarrow> string \<Rightarrow> exn + json option" where
  "jsMember x k = (if x = JNull then Inl TypeError else Inr (propertyOf x k))"

definition optMember :: "json option \<Rightarrow> string \<Rightarrow> json option" where
  "optMember x k = (case x of None \<Rightarrow> None | Some j \<Rightarrow> if j = JNull then None else propertyOf j k)"

definition orText :: "json option \<Rightarrow> string \<Rightarrow> json" where
  "orText v d = (case v of Some j \<Rightarrow> if truthyJson j then j else JStr d | None \<Rightarrow> JStr d)"

definition orFresh :: "json option \<Rightarrow> json option" where
  "orFresh v = (if truthyJs v then v else None)"

definition isArray :: "json option \<Rightarrow> bool" where
  "isArray v = (case v of Some (JArr _) \<Rightarrow> True | _ \<Rightarrow> False)"

text \<open>An object literal: keys whose value is \<^verbatim>\<open>undefined\<close> are left out.\<close>

definition jsObject :: "(string \<times> json option) list \<Rightarrow> json" where
  "jsObject fs = JObj (List.map_filter (\<lambda>(k, v). map_option (Pair k) v) fs)"

text \<open>\<^verbatim>\<open>typeof message === 'string' ? message : message.text\<close>\<close>

definition textOf :: "json \<Rightarrow> json option" where
  "textOf msg = (case msg of JStr s \<Rightarrow> Some (JStr s) | _ \<Rightarrow> propertyOf msg ''text'')"

text \<open>Reading a property of \<^verbatim>\<open>null\<close> is the only way formatting can fail.\<close>

definition formatted :: "json \<Rightarrow> json \<Rightarrow> exn + json" where
  "formatted msg out = (if msg = JNull then Inl TypeError else Inr out)"

subsection \<open>Signatures\<close>

type_synonym hmac = "string \<Rightarrow> string \<Rightarrow> string"
type_synonym headers = "(string \<times> string) list"

definition bodyToBuffer :: "json \<Rightarrow> string option \<Rightarrow> string" where
  "bodyToBuffer payload rawBody =
     (if truthy rawBody then the rawBody
      else case payload of JStr s \<Rightarrow> s | JNull \<Rightarrow> jsonStringify (JObj []) | _ \<Rightarrow> jsonStringify payload)"

definition constantTimeEqual :: "string \<Rightarrow> string \<Rightarrow> bool" where
  "constantTimeEqual a b = (if length a \<noteq> length b then False else list_all2 (=) a b)"

definition headerOr :: "headers \<Rightarrow> string \<Rightarrow> string \<Rightarrow> string" where
  "headerOr hs name d = (case orUndefined (map_of hs name) of None \<Rightarrow> d | Some v \<Rightarrow> v)"

text \<open>\<^verbatim>\<open>parseInt(s, 10)\<close>: the longest numeral at the start, after blanks and a sign.\<close>

definition parseInt10 :: "string \<Rightarrow> int option" where
  "parseInt10 s =
     (let t = dropWhile isSpace s;
          neg = (t \<noteq> [] \<and> hd t = CHR ''-'');
          u = (if t \<noteq> [] \<and> (hd t = CHR ''-'' \<or> hd t = CHR ''+'') then tl t else t);
          ds = takeWhile isDigitChar u
      in if ds = [] then None else Some (if neg then - int (readNat ds) else int (readNat ds)))"

subsection \<open>The interface\<close>

record NormalizedMessage =
  nm_externalMessageId :: "json option"
  nm_senderId :: json
  nm_content :: json
  nm_rawPayload :: json

record IChannelConnector =
  cn_channelType :: ChannelTypeEnum
  cn_validateWebhook :: "json \<Rightarrow> bool"
  cn_verifySignature :: "hmac \<Rightarrow> millis \<Rightarrow> json \<Rightarrow> string \<Rightarrow> string \<Rightarrow> headers \<Rightarrow> string option \<Rightarrow> bool"
  cn_normalizeMessage :: "json \<Rightarrow> exn + NormalizedMessage"
  cn_formatOutgoingMessage :: "uid \<Rightarrow> millis \<Rightarrow> json \<Rightarrow> exn + json"
  cn_healthCheck :: "string \<times> int"
  cn_getCapabilities :: "string list"

subsection \<open>Web chat\<close>

definition WebChat_verifySignature :: "hmac \<Rightarrow> millis \<Rightarrow> json \<Rightarrow> string \<Rightarrow> string \<Rightarrow> headers \<Rightarrow> string option \<Rightarrow> bool" where
  "WebChat_verifySignature hmac now payload signature secret hs rawBody =
     (if signature = [] \<or> secret = [] then False else constantTimeEqual signature secret)"

definition WebChat_normalizeMessage :: "json \<Rightarrow> exn + NormalizedMessage" where
  "WebChat_normalizeMessage raw =
     rbind (jsMember raw ''id'') (\<lambda>i.
     Inr \<lparr>nm_externalMessageId = orFresh i, nm_senderId = orText (propertyOf raw ''senderId'') ''anonymous'',
          nm_content = orText (propertyOf raw ''text'') [], nm_rawPayload = raw\<rparr>)"

definition WebChat_formatOutgoingMessage :: "uid \<Rightarrow> millis \<Rightarrow> json \<Rightarrow> exn + json" where
  "WebChat_formatOutgoingMessage u now msg =
     formatted msg (jsObject [(''id'', Some (JStr u)), (''timestamp'', Some (JNum now)),
       (''text'', case msg of JStr s \<Rightarrow> Some (JStr s) | _ \<Rightarrow> Some (orText (propertyOf msg ''text'') (jsonStringify msg)))])"

definition WebChatConnector :: IChannelConnector where
  "WebChatConnector = \<lparr>cn_channelType = CH_WEBCHAT, cn_validateWebhook = (\<lambda>_. True), cn_verifySignature = WebChat_verifySignature,
     cn_normalizeMessage = WebChat_normalizeMessage, cn_formatOutgoingMessage = WebChat_formatOutgoingMessage, cn_healthCheck = (''ONLINE'', 1),
     cn_getCapabilities = [''TEXT'', ''RICH_MEDIA'', ''CAROUSELS'']\<rparr>"

subsection \<open>Email\<close>

definition Email_validateWebhook :: "json \<Rightarrow> bool" where
  "Email_validateWebhook payload = isArray (Some payload)"

definition Email_verifySignature :: "hmac \<Rightarrow> millis \<Rightarrow> json \<Rightarrow> string \<Rightarrow> string \<Rightarrow> headers \<Rightarrow> string option \<Rightarrow> bool" where
  "Email_verifySignature hmac now payload signature secret hs rawBody =
     (let sigHeader = headerOr hs ''x-sendgrid-signature'' signature
      in if secret = [] \<or> sigHeader = [] then False else constantTimeEqual sigHeader (hmac secret (bodyToBuffer payload rawBody)))"

definition Email_normalizeMessage :: "json \<Rightarrow> exn + NormalizedMessage" where
  "Email_normalizeMessage raw =
     rbind (jsMember raw ''messageId'') (\<lambda>i.
     Inr \<lparr>nm_externalMessageId = orFresh i, nm_senderId = orText (propertyOf raw ''from'') [],
          nm_content = orText (orJs (propertyOf raw ''text'') (propertyOf raw ''subject'')) [], nm_rawPayload = raw\<rparr>)"

definition Email_formatOutgoingMessage :: "uid \<Rightarrow> millis \<Rightarrow> json \<Rightarrow> exn + json" where
  "Email_formatOutgoingMessage u now msg =
     formatted msg (jsObject [(''to'', propertyOf msg ''to''),
       (''subject'', Some (orText (propertyOf msg ''subject'') ''Support Notification'')), (''text'', textOf msg),
       (''html'', propertyOf msg ''html'')])"

definition EmailConnector :: IChannelConnector where
  "EmailConnector = \<lparr>cn_channelType = CH_EMAIL, cn_validateWebhook = Email_validateWebhook, cn_verifySignature = Email_verifySignature,
     cn_normalizeMessage = Email_normalizeMessage, cn_formatOutgoingMessage = Email_formatOutgoingMessage, cn_healthCheck = (''ONLINE'', 5),
     cn_getCapabilities = [''TEXT'', ''HTML'', ''ATTACHMENTS'']\<rparr>"

subsection \<open>WhatsApp\<close>

definition WhatsApp_validateWebhook :: "json \<Rightarrow> bool" where
  "WhatsApp_validateWebhook payload = isArray (optMember (Some payload) ''entry'')"

definition WhatsApp_verifySignature :: "hmac \<Rightarrow> millis \<Rightarrow> json \<Rightarrow> string \<Rightarrow> string \<Rightarrow> headers \<Rightarrow> string option \<Rightarrow> bool" where
  "WhatsApp_verifySignature hmac now payload signature secret hs rawBody =
     (let sigHeader = headerOr hs ''x-hub-signature-256'' signature
      in if secret = [] \<or> sigHeader = [] then False
         else constantTimeEqual sigHeader (''sha256='' @ hmac secret (bodyToBuffer payload rawBody)))"

definition WhatsApp_normalizeMessage :: "json \<Rightarrow> exn + NormalizedMessage" where
  "WhatsApp_normalizeMessage raw =
     rbind (jsMember raw ''entry'') (\<lambda>entries.
     let entry = optMember entries ''0'';
         change = optMember (optMember entry ''changes'') ''0'';
         msg = optMember (optMember (optMember change ''value'') ''messages'') ''0''
     in Inr \<lparr>nm_externalMessageId = orFresh (optMember msg ''id''), nm_senderId = orText (optMember msg ''from'') ''unknown-wa-user'',
             nm_content = orText (optMember (optMember msg ''text'') ''body'') [], nm_rawPayload = raw\<rparr>)"

definition WhatsApp_formatOutgoingMessage :: "uid \<Rightarrow> millis \<Rightarrow> json \<Rightarrow> exn + json" where
  "WhatsApp_formatOutgoingMessage u now msg =
     formatted msg (jsObject [(''messaging_product'', Some (JStr ''whatsapp'')), (''recipient_type'', Some (JStr ''individual'')),
       (''to'', propertyOf msg ''to''), (''type'', Some (orText (propertyOf msg ''type'') ''text'')),
       (''text'', Some (jsObject [(''body'', textOf msg)]))])"

definition WhatsAppConnector :: IChannelConnector where
  "WhatsAppConnector = \<lparr>cn_channelType = CH_WHATSAPP, cn_validateWebhook = WhatsApp_validateWebhook, cn_verifySignature = WhatsApp_verifySignature,
     cn_normalizeMessage = WhatsApp_normalizeMessage, cn_formatOutgoingMessage = WhatsApp_formatOutgoingMessage, cn_healthCheck = (''ONLINE'', 10),
     cn_getCapabilities = [''TEXT'', ''TEMPLATES'', ''MEDIA'', ''INTERACTIVE'']\<rparr>"

subsection \<open>Telegram\<close>

definition Telegram_validateWebhook :: "json \<Rightarrow> bool" where
  "Telegram_validateWebhook payload = (case optMember (Some payload) ''update_id'' of Some (JNum _) \<Rightarrow> True | _ \<Rightarrow> False)"

definition Telegram_verifySignature :: "hmac \<Rightarrow> millis \<Rightarrow> json \<Rightarrow> string \<Rightarrow> string \<Rightarrow> headers \<Rightarrow> string option \<Rightarrow> bool" where
  "Telegram_verifySignature hmac now payload signature secret hs rawBody =
     (let token = headerOr hs ''x-telegram-bot-api-secret-token'' signature
      in if secret = [] \<or> token = [] then False else constantTimeEqual token secret)"

definition Telegram_normalizeMessage :: "json \<Rightarrow> exn + NormalizedMessage" where
  "Telegram_normalizeMessage raw =
     rbind (jsMember raw ''message'') (\<lambda>msg.
     Inr \<lparr>nm_externalMessageId = map_option (\<lambda>j. JStr (stringOf j)) (orFresh (optMember msg ''message_id'')),
          nm_senderId = JStr (stringOf (orText (optMember (optMember msg ''from'') ''id'') [])),
          nm_content = orText (optMember msg ''text'') [], nm_rawPayload = raw\<rparr>)"

definition Telegram_formatOutgoingMessage :: "uid \<Rightarrow> millis \<Rightarrow> json \<Rightarrow> exn + json" where
  "Telegram_formatOutgoingMessage u now msg =
     formatted msg (jsObject [(''chat_id'', propertyOf msg ''chatId''), (''text'', textOf msg)])"

definition TelegramConnector :: IChannelConnector where
  "TelegramConnector = \<lparr>cn_channelType = CH_TELEGRAM, cn_validateWebhook = Telegram_validateWebhook, cn_verifySignature = Telegram_verifySignature,
     cn_normalizeMessage = Telegram_normalizeMessage, cn_formatOutgoingMessage = Telegram_formatOutgoingMessage, cn_healthCheck = (''ONLINE'', 8),
     cn_getCapabilities = [''TEXT'', ''INLINE_KEYBOARDS'', ''MEDIA'']\<rparr>"

subsection \<open>Facebook and Instagram\<close>

definition Facebook_validateWebhook :: "json \<Rightarrow> bool" where
  "Facebook_validateWebhook payload =
     (optMember (Some payload) ''object'' = Some (JStr ''page'') \<and> isArray (optMember (Some payload) ''entry''))"

definition Facebook_verifySignature :: "hmac \<Rightarrow> millis \<Rightarrow> json \<Rightarrow> string \<Rightarrow> string \<Rightarrow> headers \<Rightarrow> string option \<Rightarrow> bool" where
  "Facebook_verifySignature hmac now payload signature secret hs rawBody =
     (let sigHeader = headerOr hs ''x-hub-signature-256'' signature
      in if secret = [] \<or> sigHeader = [] then False
         else constantTimeEqual sigHeader (''sha256='' @ hmac secret (bodyToBuffer payload rawBody)))"

definition Facebook_normalizeMessage :: "json \<Rightarrow> exn + NormalizedMessage" where
  "Facebook_normalizeMessage raw =
     rbind (jsMember raw ''entry'') (\<lambda>entries.
     let messaging = optMember (optMember (optMember entries ''0'') ''messaging'') ''0''
     in Inr \<lparr>nm_externalMessageId = orFresh (optMember (optMember messaging ''message'') ''mid''),
             nm_senderId = orText (optMember (optMember messaging ''sender'') ''id'') [],
             nm_content = orText (optMember (optMember messaging ''message'') ''text'') [], nm_rawPayload = raw\<rparr>)"

definition Facebook_formatOutgoingMessage :: "uid \<Rightarrow> millis \<Rightarrow> json \<Rightarrow> exn + json" where
  "Facebook_formatOutgoingMessage u now msg =
     formatted msg (jsObject [(''recipient'', Some (jsObject [(''id'', propertyOf msg ''recipientId'')])),
       (''message'', Some (jsObject [(''text'', textOf msg)]))])"

definition FacebookConnector :: IChannelConnector where
  "FacebookConnector = \<lparr>cn_channelType = CH_FACEBOOK, cn_validateWebhook = Facebook_validateWebhook, cn_verifySignature = Facebook_verifySignature,
     cn_normalizeMessage = Facebook_normalizeMessage, cn_formatOutgoingMessage = Facebook_formatOutgoingMessage, cn_healthCheck = (''ONLINE'', 12),
     cn_getCapabilities = [''TEXT'', ''TEMPLATES'', ''ATTACHMENTS'']\<rparr>"

definition Instagram_validateWebhook :: "json \<Rightarrow> bool" where
  "Instagram_validateWebhook payload =
     (optMember (Some payload) ''object'' = Some (JStr ''instagram'') \<and> isArray (optMember (Some payload) ''entry''))"

definition Instagram_verifySignature :: "hmac \<Rightarrow> millis \<Rightarrow> json \<Rightarrow> string \<Rightarrow> string \<Rightarrow> headers \<Rightarrow> string option \<Rightarrow> bool" where
  "Instagram_verifySignature hmac now payload signature secret hs rawBody =
     (let sigHeader = headerOr hs ''x-hub-signature-256'' signature
      in if secret = [] \<or> sigHeader = [] then False
         else constantTimeEqual sigHeader (''sha256='' @ hmac secret (bodyToBuffer payload rawBody)))"

definition Instagram_normalizeMessage :: "json \<Rightarrow> exn + NormalizedMessage" where
  "Instagram_normalizeMessage raw =
     rbind (jsMember raw ''entry'') (\<lambda>entries.
     let messaging = optMember (optMember (optMember entries ''0'') ''messaging'') ''0''
     in Inr \<lparr>nm_externalMessageId = orFresh (optMember (optMember messaging ''message'') ''mid''),
             nm_senderId = orText (optMember (optMember messaging ''sender'') ''id'') [],
             nm_content = orText (optMember (optMember messaging ''message'') ''text'') [], nm_rawPayload = raw\<rparr>)"

definition Instagram_formatOutgoingMessage :: "uid \<Rightarrow> millis \<Rightarrow> json \<Rightarrow> exn + json" where
  "Instagram_formatOutgoingMessage u now msg =
     formatted msg (jsObject [(''recipient'', Some (jsObject [(''id'', propertyOf msg ''recipientId'')])),
       (''message'', Some (jsObject [(''text'', textOf msg)]))])"

definition InstagramConnector :: IChannelConnector where
  "InstagramConnector = \<lparr>cn_channelType = CH_INSTAGRAM, cn_validateWebhook = Instagram_validateWebhook, cn_verifySignature = Instagram_verifySignature,
     cn_normalizeMessage = Instagram_normalizeMessage, cn_formatOutgoingMessage = Instagram_formatOutgoingMessage, cn_healthCheck = (''ONLINE'', 15),
     cn_getCapabilities = [''TEXT'', ''STORY_REPLIES'']\<rparr>"

subsection \<open>Slack and Teams\<close>

definition Slack_validateWebhook :: "json \<Rightarrow> bool" where
  "Slack_validateWebhook payload = (case optMember (Some payload) ''type'' of Some (JStr _) \<Rightarrow> True | _ \<Rightarrow> False)"

definition signatureValidityWindowSeconds :: int where
  "signatureValidityWindowSeconds = 300"

definition Slack_verifySignature :: "hmac \<Rightarrow> millis \<Rightarrow> json \<Rightarrow> string \<Rightarrow> string \<Rightarrow> headers \<Rightarrow> string option \<Rightarrow> bool" where
  "Slack_verifySignature hmac now payload signature secret hs rawBody =
     (let sigHeader = headerOr hs ''x-slack-signature'' signature;
          timestamp = map_of hs ''x-slack-request-timestamp''
      in if secret = [] \<or> sigHeader = [] \<or> \<not> truthy timestamp then False
         else case parseInt10 (the timestamp) of
                None \<Rightarrow> False
              | Some ts \<Rightarrow>
                  if 1000 * signatureValidityWindowSeconds < \<bar>now - 1000 * ts\<bar> then False
                  else constantTimeEqual sigHeader (''v0='' @ hmac secret (''v0:'' @ the timestamp @ '':'' @ bodyToBuffer payload rawBody)))"

definition Slack_normalizeMessage :: "json \<Rightarrow> exn + NormalizedMessage" where
  "Slack_normalizeMessage raw =
     rbind (jsMember raw ''event'') (\<lambda>event.
     Inr \<lparr>nm_externalMessageId = orFresh (optMember event ''client_msg_id''), nm_senderId = orText (optMember event ''user'') [],
          nm_content = orText (optMember event ''text'') [], nm_rawPayload = raw\<rparr>)"

definition Slack_formatOutgoingMessage :: "uid \<Rightarrow> millis \<Rightarrow> json \<Rightarrow> exn + json" where
  "Slack_formatOutgoingMessage u now msg =
     formatted msg (jsObject [(''channel'', propertyOf msg ''channelId''), (''text'', textOf msg),
       (''blocks'', propertyOf msg ''blocks'')])"

definition SlackConnector :: IChannelConnector where
  "SlackConnector = \<lparr>cn_channelType = CH_SLACK, cn_validateWebhook = Slack_validateWebhook, cn_verifySignature = Slack_verifySignature,
     cn_normalizeMessage = Slack_normalizeMessage, cn_formatOutgoingMessage = Slack_formatOutgoingMessage, cn_healthCheck = (''ONLINE'', 7),
     cn_getCapabilities = [''TEXT'', ''BLOCK_KIT'', ''ATTACHMENTS'']\<rparr>"

definition Teams_validateWebhook :: "json \<Rightarrow> bool" where
  "Teams_validateWebhook payload = (case optMember (Some payload) ''type'' of Some (JStr _) \<Rightarrow> True | _ \<Rightarrow> False)"

definition Teams_verifySignature :: "hmac \<Rightarrow> millis \<Rightarrow> json \<Rightarrow> string \<Rightarrow> string \<Rightarrow> headers \<Rightarrow> string option \<Rightarrow> bool" where
  "Teams_verifySignature hmac now payload signature secret hs rawBody =
     (if secret = [] \<or> signature = [] then False else constantTimeEqual signature (hmac secret (bodyToBuffer payload rawBody)))"

definition Teams_normalizeMessage :: "json \<Rightarrow> exn + NormalizedMessage" where
  "Teams_normalizeMessage raw =
     rbind (jsMember raw ''id'') (\<lambda>i.
     Inr \<lparr>nm_externalMessageId = orFresh i, nm_senderId = orText (optMember (propertyOf raw ''from'') ''id'') [],
          nm_content = orText (propertyOf raw ''text'') [], nm_rawPayload = raw\<rparr>)"

definition Teams_formatOutgoingMessage :: "uid \<Rightarrow> millis \<Rightarrow> json \<Rightarrow> exn + json" where
  "Teams_formatOutgoingMessage u now msg =
     formatted msg (jsObject [(''type'', Some (JStr ''message'')), (''text'', textOf msg)])"

definition TeamsConnector :: IChannelConnector where
  "TeamsConnector = \<lparr>cn_channelType = CH_TEAMS, cn_validateWebhook = Teams_validateWebhook, cn_verifySignature = Teams_verifySignature,
     cn_normalizeMessage = Teams_normalizeMessage, cn_formatOutgoingMessage = Teams_formatOutgoingMessage, cn_healthCheck = (''ONLINE'', 9),
     cn_getCapabilities = [''TEXT'', ''CARDS'']\<rparr>"

subsection \<open>The registry\<close>

text \<open>The voice channel has no connector.\<close>

definition channelConnectors :: "IChannelConnector list" where
  "channelConnectors = [WebChatConnector, EmailConnector, WhatsAppConnector, TelegramConnector, FacebookConnector, InstagramConnector,
     SlackConnector, TeamsConnector]"

definition getConnector :: "ChannelTypeEnum \<Rightarrow> exn + IChannelConnector" where
  "getConnector ty =
     (case List.find (\<lambda>c. cn_channelType c = ty) (rev channelConnectors) of
        None \<Rightarrow> Inl (NotFoundException (''No channel connector found for type: '' @ channelTypeName ty))
      | Some c \<Rightarrow> Inr c)"

end
