(* ===== verification/Message_World.thy ===== *)
theory Message_World
  imports Message_Model Channel_Connectors Conversation_Service
begin

text \<open>
  What the services of messages and channels run in. The state of the conversation module is a part of the world, so
  that a message needs a real conversation and rewrites its row of the read model. The sessions of the widget, the
  workflow triggers, the client of the file service and the customer directory are answers of the world; the calls
  that leave something behind are recorded. Also here: the read model of messages and their publisher.
\<close>

subsection \<open>The world\<close>

record InboundMessageDto =
  imd_channelId :: uid
  imd_conversationId :: "uid option"
  imd_customerId :: "uid option"
  imd_externalMessageId :: "string option"
  imd_messageType :: "MessageTypeEnum option"
  imd_content :: "string option"
  imd_metadata :: "(string \<times> json) list option"

datatype msg_job =
    MessageSendJob uid "uid option"
  | MessageDeliveryJob uid string "string option" "string option"
  | MessageRetryJob uid
  | AttachmentProcessingJob uid
  | DraftCleanupJob
  | MessageInboundJob uid InboundMessageDto
  | MessageAnalyticsJob uid string
  | AiWorkflowTriggerJob uid "uid option" string
  | AiProcessMessage uid uid uid "string option"
  | AnalyticsMessageEvent uid string uid
  | RunWorkflowJob uid "uid option" uid
  | IncomingMessageJob uid uid json
  | OutgoingMessageJob uid uid uid json
  | ChannelHealthJob uid
  | TemplateSyncJob uid
  | DeliveryStatusJob uid "string option"
  | OtherMessageJob string

record StorageReference =
  srf_storageProvider :: string
  srf_storagePath :: string
  srf_publicUrl :: "string option"
  srf_fileSize :: "int option"
  srf_contentType :: "string option"

datatype file_call =
    DeleteStoredFile uid string
  | UnlinkLocalFile string

record MsgWorld =
  mw_db :: MsgDb
  mw_channels :: ChannelDb
  mw_conv :: ConvWorld
  mw_jobs :: "(msg_job \<times> uid option) list"
  mw_sessions :: "uid \<Rightarrow> uid \<Rightarrow> uid list"
  mw_pushed :: "(uid \<times> uid \<times> Message) list"
  mw_triggerAnswer :: "uid \<Rightarrow> Message \<Rightarrow> exn + unit"
  mw_triggered :: "(uid \<times> uid) list"
  mw_confirmUpload :: "uid \<Rightarrow> string \<Rightarrow> StorageReference option"
  mw_scanStatus :: "uid \<Rightarrow> string \<Rightarrow> string option"
  mw_signedUrl :: "uid \<Rightarrow> string \<Rightarrow> string option"
  mw_deleteFile :: "uid \<Rightarrow> string \<Rightarrow> bool"
  mw_fileCalls :: "file_call list"
  mw_customerFor :: "uid \<Rightarrow> uid \<Rightarrow> json \<Rightarrow> string \<Rightarrow> exn + uid"
  mw_hmac :: hmac

type_synonym 'a mgsvc = "(MsgWorld, 'a) svc"

text \<open>A call into the conversation module.\<close>

definition onConv :: "'a cvsvc \<Rightarrow> 'a mgsvc" where
  "onConv m = (\<lambda>w. let (r, v) = m (mw_conv w) in (r, w\<lparr>mw_conv := v\<rparr>))"

definition mgNow :: "millis mgsvc" where
  "mgNow = onConv cvNow"

definition mgUUID :: "uid mgsvc" where
  "mgUUID = onConv cvUUID"

definition mgLog :: "uid \<Rightarrow> uid option \<Rightarrow> string \<Rightarrow> string \<Rightarrow> unit mgsvc" where
  "mgLog tenantId userId action details = onConv (cvLog tenantId userId action details)"

definition mgRead :: "(MsgDb \<Rightarrow> 'a) \<Rightarrow> 'a mgsvc" where
  "mgRead f = asks (\<lambda>w. f (mw_db w))"

definition mgWrite :: "(millis \<Rightarrow> MsgDb \<Rightarrow> MsgDb) \<Rightarrow> unit mgsvc" where
  "mgWrite f = modify (\<lambda>w. w\<lparr>mw_db := f (vw_now (mw_conv w)) (mw_db w)\<rparr>)"

text \<open>A write the database may refuse.\<close>

definition mgTryWrite :: "(millis \<Rightarrow> MsgDb \<Rightarrow> exn + MsgDb) \<Rightarrow> unit mgsvc" where
  "mgTryWrite f = (\<lambda>w. case f (vw_now (mw_conv w)) (mw_db w) of Inl e \<Rightarrow> (Inl e, w) | Inr db \<Rightarrow> (Inr (), w\<lparr>mw_db := db\<rparr>))"

definition mgAddJob :: "msg_job \<Rightarrow> unit mgsvc" where
  "mgAddJob j = (\<lambda>w. if vw_queueUp (mw_conv w) then (Inr (), w\<lparr>mw_jobs := mw_jobs w @ [(j, vw_tenantContext (mw_conv w))]\<rparr>)
                       else (Inl (Error ''Connection is closed.''), w))"

definition chRead :: "(ChannelDb \<Rightarrow> 'a) \<Rightarrow> 'a mgsvc" where
  "chRead f = asks (\<lambda>w. f (mw_channels w))"

definition chWrite :: "(millis \<Rightarrow> ChannelDb \<Rightarrow> ChannelDb) \<Rightarrow> unit mgsvc" where
  "chWrite f = modify (\<lambda>w. w\<lparr>mw_channels := f (vw_now (mw_conv w)) (mw_channels w)\<rparr>)"

definition chTryWrite :: "(millis \<Rightarrow> ChannelDb \<Rightarrow> exn + ChannelDb) \<Rightarrow> unit mgsvc" where
  "chTryWrite f = (\<lambda>w. case f (vw_now (mw_conv w)) (mw_channels w) of Inl e \<Rightarrow> (Inl e, w) | Inr db \<Rightarrow> (Inr (), w\<lparr>mw_channels := db\<rparr>))"

definition mgBestEffort :: "unit mgsvc \<Rightarrow> unit mgsvc" where
  "mgBestEffort m = tryCatch m (\<lambda>_. ret ())"

subsection \<open>Publishing\<close>

definition MESSAGE_ANALYTICS_EVENTS :: "string list" where
  "MESSAGE_ANALYTICS_EVENTS = [''message.created'', ''message.received'', ''message.sent'', ''message.delivered'', ''message.read'',
     ''message.failed'', ''message.retried'', ''message.archived'']"

definition AI_TRIGGER_EVENTS :: "string list" where
  "AI_TRIGGER_EVENTS = [''message.received'']"

fun msgEventConversation :: "msg_event \<Rightarrow> uid option" where
  "msgEventConversation (MessageCreatedEvent _ _ c _ _) = Some c"
| "msgEventConversation (MessageReceivedEvent _ _ c _ _) = Some c"
| "msgEventConversation (MessageSentEvent _ _ c _ _) = Some c"
| "msgEventConversation (MessageDeliveredEvent _ _ c _) = Some c"
| "msgEventConversation (MessageReadEvent _ _ c _) = Some c"
| "msgEventConversation (MessageRetriedEvent _ _ c _) = Some c"
| "msgEventConversation (MessageArchivedEvent _ _ c) = Some c"
| "msgEventConversation _ = None"

definition MessageEventPublisher_publish :: "msg_event \<Rightarrow> unit mgsvc" where
  "MessageEventPublisher_publish ev =
     (let n = msgEventName ev; i = msgEventAggregate ev
      in mgBestEffort (andThen
           (if n \<in> set MESSAGE_ANALYTICS_EVENTS then mgAddJob (MessageAnalyticsJob i n) else ret ()) (\<lambda>_.
           if n \<in> set AI_TRIGGER_EVENTS then mgAddJob (AiWorkflowTriggerJob i (msgEventConversation ev) n) else ret ())))"

text \<open>\<^verbatim>\<open>publishAll(message.domainEvents); message.clearEvents()\<close>\<close>

definition mgPublishAll :: "Message \<Rightarrow> Message mgsvc" where
  "mgPublishAll m = andThen (forEach (mg_domainEvents m) MessageEventPublisher_publish) (\<lambda>_. ret (m\<lparr>mg_domainEvents := []\<rparr>))"

subsection \<open>The read model\<close>

definition preview :: "Message \<Rightarrow> string" where
  "preview m =
     (let content = (case orUndefined (mg_content m) of Some c \<Rightarrow> c | None \<Rightarrow> ''['' @ messageTypeName (mg_messageType m) @ '']'')
      in if 280 < length content then take 277 content @ ''...'' else content)"

definition refreshedSummary :: "millis \<Rightarrow> uid \<Rightarrow> uid \<Rightarrow> uid \<Rightarrow> MessageCounts \<Rightarrow> Message option \<Rightarrow> ConversationSummary option \<Rightarrow> ConversationSummary" where
  "refreshedSummary now i tenantId conversationId counts lastMessage existing =
     \<lparr>su_id = i, su_tenantId = tenantId, su_conversationId = conversationId,
      su_customerName = Option.bind existing su_customerName, su_customerAvatar = Option.bind existing su_customerAvatar,
      su_lastMessage = (case lastMessage of Some m \<Rightarrow> Some (preview m) | None \<Rightarrow> Option.bind existing su_lastMessage),
      su_lastMessageType = (case lastMessage of Some m \<Rightarrow> Some (messageTypeName (mg_messageType m)) | None \<Rightarrow> Option.bind existing su_lastMessageType),
      su_lastMessageAt = (case lastMessage of Some m \<Rightarrow> Some (mg_createdAt m) | None \<Rightarrow> Option.bind existing su_lastMessageAt),
      su_unreadCount = int (mc_unread counts), su_totalMessages = int (mc_total counts), su_totalAttachments = int (mc_attachments counts),
      su_sentimentScore = (case existing of None \<Rightarrow> 0 | Some s \<Rightarrow> su_sentimentScore s), su_priority = Option.bind existing su_priority,
      su_status = Option.bind existing su_status, su_assignedAgentName = Option.bind existing su_assignedAgentName,
      su_assignedTeamName = Option.bind existing su_assignedTeamName,
      su_createdAt = (case existing of None \<Rightarrow> now | Some s \<Rightarrow> su_createdAt s), su_updatedAt = now\<rparr>"

definition refresh :: "uid \<Rightarrow> uid \<Rightarrow> Message option \<Rightarrow> unit mgsvc" where
  "refresh tenantId conversationId lastMessage =
     andThen (mgRead (countByConversation tenantId conversationId)) (\<lambda>counts.
     andThen (onConv (cvRead (getSummary conversationId tenantId))) (\<lambda>existing.
     andThen (case existing of Some s \<Rightarrow> ret (su_id s) | None \<Rightarrow> mgUUID) (\<lambda>i.
     andThen mgNow (\<lambda>now.
     onConv (cvWrite (\<lambda>t. upsertSummary t (refreshedSummary now i tenantId conversationId counts lastMessage existing) tenantId))))))"

definition applyMessage :: "uid \<Rightarrow> Message \<Rightarrow> unit mgsvc" where
  "applyMessage tenantId m = refresh tenantId (mg_conversationId m) (Some m)"

end
