(* ===== verification/Message_Service.thy ===== *)
theory Message_Service
  imports Message_World
begin

text \<open>
  \<^verbatim>\<open>MessageService\<close>, \<^verbatim>\<open>MessageTemplateService\<close>, \<^verbatim>\<open>MessageDraftService\<close> and \<^verbatim>\<open>MessageSearchService\<close>
  (\<^verbatim>\<open>src/modules/messages/services\<close>). Every change of a message loads it, changes it and persists it: the row, the row of
  the conversation in the read model, the jobs of its events, and a push to the widget sessions of the conversation.
\<close>

subsection \<open>Persisting\<close>

definition pushToWidget :: "uid \<Rightarrow> Message \<Rightarrow> unit mgsvc" where
  "pushToWidget tenantId m =
     (if mg_direction m = MD_OUTBOUND \<and> mg_messageType m \<noteq> MT_INTERNAL_NOTE
      then modify (\<lambda>w. w\<lparr>mw_pushed := mw_pushed w @ map (\<lambda>s. (tenantId, s, m)) (mw_sessions w tenantId (mg_conversationId m))\<rparr>)
      else ret ())"

definition persistMessage :: "Message \<Rightarrow> uid \<Rightarrow> Message mgsvc" where
  "persistMessage m tenantId =
     andThen (mgTryWrite (\<lambda>now. saveMessage now m tenantId)) (\<lambda>_.
     andThen (applyMessage tenantId m) (\<lambda>_.
     andThen (mgPublishAll m) (\<lambda>m'.
     andThen (pushToWidget tenantId m') (\<lambda>_. ret m'))))"

definition getMessageOrThrow :: "uid \<Rightarrow> uid \<Rightarrow> Message mgsvc" where
  "getMessageOrThrow tenantId i =
     andThen (mgRead (findMessage i tenantId)) (\<lambda>found. case found of
       None \<Rightarrow> throw (NotFoundException (''Message with ID '' @ i @ '' not found''))
     | Some m \<Rightarrow> ret m)"

subsection \<open>Creating and replying\<close>

record CreateMessageDto =
  cmd_conversationId :: uid
  cmd_channelId :: "uid option"
  cmd_customerId :: "uid option"
  cmd_senderId :: "uid option"
  cmd_senderType :: string
  cmd_messageType :: "string option"
  cmd_direction :: "MessageDirectionEnum option"
  cmd_content :: "string option"
  cmd_contentHtml :: "string option"
  cmd_replyToMessageId :: "uid option"
  cmd_threadId :: "uid option"
  cmd_metadata :: "(string \<times> json) list option"

definition evaluateMessageTriggers :: "uid \<Rightarrow> Message \<Rightarrow> unit mgsvc" where
  "evaluateMessageTriggers tenantId m =
     mgBestEffort (\<lambda>w. (mw_triggerAnswer w tenantId m, w\<lparr>mw_triggered := mw_triggered w @ [(tenantId, mg_id m)]\<rparr>))"

definition MessageService_create :: "uid \<Rightarrow> CreateMessageDto \<Rightarrow> uid option \<Rightarrow> Message mgsvc" where
  "MessageService_create tenantId dto userId =
     andThen (onConv (getConversationOrThrow tenantId (cmd_conversationId dto))) (\<lambda>conversation.
     let dir = patched (cmd_direction dto) MD_OUTBOUND;
         initialStatus = (if dir = MD_INBOUND then MS_DELIVERED else MS_QUEUED)
     in andThen mgUUID (\<lambda>i.
        andThen (liftR (MessageType_create (inTemplate (orS (cmd_messageType dto) (Some ''TEXT''))))) (\<lambda>ty.
        andThen mgNow (\<lambda>now.
        andThen (persistMessage (Message_create now i tenantId (cmd_conversationId dto) (orS (cmd_channelId dto) (cv_channelId conversation))
            (orS (cmd_customerId dto) (Some (cv_customerId conversation))) (cmd_senderId dto) (cmd_senderType dto) ty dir (cmd_content dto)
            (cmd_contentHtml dto) initialStatus None (cmd_replyToMessageId dto) (orS (cmd_threadId dto) (cmd_replyToMessageId dto))
            (patched (cmd_metadata dto) [])) tenantId) (\<lambda>m.
        andThen (mgLog tenantId userId ''MESSAGE_CREATE''
            (''Created '' @ messageDirectionName dir @ '' message '' @ i @ '' in conversation '' @ cmd_conversationId dto)) (\<lambda>_.
        andThen (if dir = MD_INBOUND
                 then andThen (evaluateMessageTriggers tenantId m) (\<lambda>_.
                      if cmd_senderType dto = ''CUSTOMER''
                      then mgBestEffort (mgAddJob (AiProcessMessage tenantId i (mg_conversationId m) (mg_content m))) else ret ())
                 else ret ()) (\<lambda>_.
        ret m)))))))"

record ReplyMessageDto =
  rmd_content :: string
  rmd_messageType :: "string option"
  rmd_senderType :: string
  rmd_senderId :: "uid option"

definition MessageService_reply :: "uid \<Rightarrow> uid \<Rightarrow> ReplyMessageDto \<Rightarrow> uid option \<Rightarrow> Message mgsvc" where
  "MessageService_reply tenantId i dto userId =
     andThen (getMessageOrThrow tenantId i) (\<lambda>parent.
     MessageService_create tenantId
       \<lparr>cmd_conversationId = mg_conversationId parent, cmd_channelId = mg_channelId parent, cmd_customerId = mg_customerId parent,
        cmd_senderId = rmd_senderId dto, cmd_senderType = rmd_senderType dto, cmd_messageType = orS (rmd_messageType dto) (Some ''TEXT''),
        cmd_direction = Some MD_OUTBOUND, cmd_content = Some (rmd_content dto), cmd_contentHtml = None, cmd_replyToMessageId = Some i,
        cmd_threadId = orS (mg_threadId parent) (Some (mg_id parent)), cmd_metadata = None\<rparr> userId)"

definition getThread :: "uid \<Rightarrow> uid \<Rightarrow> Message list mgsvc" where
  "getThread tenantId thread = mgRead (findThread tenantId thread)"

subsection \<open>Changing a message\<close>

text \<open>Load, change, persist.\<close>

definition changeMessage :: "uid \<Rightarrow> uid \<Rightarrow> (millis \<Rightarrow> Message \<Rightarrow> Message) \<Rightarrow> Message mgsvc" where
  "changeMessage tenantId i f =
     andThen (getMessageOrThrow tenantId i) (\<lambda>m.
     andThen mgNow (\<lambda>now. persistMessage (f now m) tenantId))"

record UpdateMessageDto =
  umd_content :: "string option"
  umd_contentHtml :: "string option"
  umd_status :: "MessageStatusEnum option"

definition applyStatus :: "millis \<Rightarrow> Message \<Rightarrow> MessageStatusEnum \<Rightarrow> exn + Message" where
  "applyStatus now m st =
     (case st of
        MS_READ \<Rightarrow> Inr (Message_markRead now None m)
      | MS_DELIVERED \<Rightarrow> Inr (markDelivered now None m)
      | MS_ARCHIVED \<Rightarrow> Inr (Message_archive now m)
      | MS_SENT \<Rightarrow> Inr (markSent now None m)
      | MS_FAILED \<Rightarrow> Inr (Message_markFailed now ''Marked failed'' m)
      | _ \<Rightarrow> Inl (BadRequestException (''Status '' @ messageStatusName st @ '' cannot be set directly'')))"

definition MessageService_update :: "uid \<Rightarrow> uid \<Rightarrow> UpdateMessageDto \<Rightarrow> uid option \<Rightarrow> Message mgsvc" where
  "MessageService_update tenantId i dto userId =
     andThen (getMessageOrThrow tenantId i) (\<lambda>m.
     andThen mgNow (\<lambda>now.
     let m1 = (if umd_content dto \<noteq> None \<or> umd_contentHtml dto \<noteq> None
               then editContent now (case umd_content dto of Some c \<Rightarrow> c | None \<Rightarrow> orBlank (mg_content m)) (umd_contentHtml dto) m else m)
     in andThen (liftR (case umd_status dto of None \<Rightarrow> Inr m1 | Some st \<Rightarrow> applyStatus now m1 st)) (\<lambda>m2.
        andThen (persistMessage m2 tenantId) (\<lambda>m'.
        andThen (mgLog tenantId userId ''MESSAGE_UPDATE'' (''Updated message '' @ i)) (\<lambda>_. ret m')))))"

definition MessageService_markRead :: "uid \<Rightarrow> uid \<Rightarrow> uid option \<Rightarrow> Message mgsvc" where
  "MessageService_markRead tenantId i userId = changeMessage tenantId i (\<lambda>now. Message_markRead now userId)"

definition MessageService_archive :: "uid \<Rightarrow> uid \<Rightarrow> uid option \<Rightarrow> Message mgsvc" where
  "MessageService_archive tenantId i userId =
     andThen (changeMessage tenantId i Message_archive) (\<lambda>m.
     andThen (mgLog tenantId userId ''MESSAGE_ARCHIVE'' (''Archived message '' @ i)) (\<lambda>_. ret m))"

definition MessageService_delete :: "uid \<Rightarrow> uid \<Rightarrow> uid option \<Rightarrow> bool mgsvc" where
  "MessageService_delete tenantId i userId =
     andThen (getMessageOrThrow tenantId i) (\<lambda>m.
     andThen (mgWrite (\<lambda>now db. snd (deleteMessage now i tenantId db))) (\<lambda>_.
     andThen (refresh tenantId (mg_conversationId m) None) (\<lambda>_.
     andThen (mgLog tenantId userId ''MESSAGE_DELETE'' (''Soft deleted message '' @ i)) (\<lambda>_. ret True))))"

definition react :: "uid \<Rightarrow> uid \<Rightarrow> uid \<Rightarrow> string \<Rightarrow> Message mgsvc" where
  "react tenantId i userId reaction =
     andThen (getMessageOrThrow tenantId i) (\<lambda>m.
     andThen mgUUID (\<lambda>u.
     andThen mgNow (\<lambda>now.
     persistMessage (Message_addReaction now
       \<lparr>mgr_id = u, mgr_tenantId = tenantId, mgr_messageId = i, mgr_userId = userId, mgr_reaction = reaction, mgr_createdAt = now\<rparr> m) tenantId)))"

definition MessageService_removeReaction :: "uid \<Rightarrow> uid \<Rightarrow> uid \<Rightarrow> string \<Rightarrow> unit mgsvc" where
  "MessageService_removeReaction tenantId i userId reaction =
     andThen (getMessageOrThrow tenantId i) (\<lambda>_. mgWrite (\<lambda>_. removeReactionRow tenantId i userId reaction))"

definition mentionInMessage :: "uid \<Rightarrow> uid \<Rightarrow> uid \<Rightarrow> uid \<Rightarrow> Message mgsvc" where
  "mentionInMessage tenantId i mentionedUserId mentionedBy =
     andThen (getMessageOrThrow tenantId i) (\<lambda>m.
     andThen mgUUID (\<lambda>u.
     andThen mgNow (\<lambda>now.
     persistMessage (Message_addMention now
       \<lparr>mgm_id = u, mgm_tenantId = tenantId, mgm_messageId = i, mgm_mentionedUserId = mentionedUserId, mgm_mentionedBy = mentionedBy, mgm_createdAt = now\<rparr> m) tenantId)))"

definition findMessagesOfConversation :: "uid \<Rightarrow> uid \<Rightarrow> MessageQueryOptions \<Rightarrow> (Message, millis) PaginatedResult mgsvc" where
  "findMessagesOfConversation tenantId conversationId q = mgRead (findMessages tenantId (q\<lparr>mq_conversationId := Some conversationId\<rparr>))"

definition MessageService_bulkUpdateStatus :: "uid \<Rightarrow> uid list \<Rightarrow> MessageStatusEnum \<Rightarrow> uid option \<Rightarrow> nat mgsvc" where
  "MessageService_bulkUpdateStatus tenantId is st userId =
     andThen mgNow (\<lambda>now.
     andThen (mgRead (\<lambda>db. fst (bulkUpdateMessageStatus now tenantId is st db))) (\<lambda>updated.
     andThen (mgWrite (\<lambda>now db. snd (bulkUpdateMessageStatus now tenantId is st db))) (\<lambda>_.
     andThen (mgLog tenantId userId ''MESSAGE_BULK_UPDATE''
        (''Bulk set status '' @ messageStatusName st @ '' on '' @ showNat updated @ '' messages'')) (\<lambda>_. ret updated))))"

definition MessageSearchService_search :: "uid \<Rightarrow> string \<Rightarrow> nat \<Rightarrow> Message list mgsvc" where
  "MessageSearchService_search tenantId query limit =
     (if trim query = [] then ret [] else mgRead (searchMessages tenantId (trim query) limit))"

subsection \<open>Templates\<close>

record CreateMessageTemplateDto =
  ctd_name :: string
  ctd_content :: string
  ctd_props :: TemplateProps

definition MessageTemplateService_create :: "uid \<Rightarrow> CreateMessageTemplateDto \<Rightarrow> uid option \<Rightarrow> MessageTemplate mgsvc" where
  "MessageTemplateService_create tenantId dto userId =
     andThen (mgRead (findMessageTemplateByName tenantId (ctd_name dto))) (\<lambda>existing.
     if existing \<noteq> None then throw (HttpException 409 (''Template with name '' @ ctd_name dto @ '' already exists''))
     else andThen mgUUID (\<lambda>i.
          andThen mgNow (\<lambda>now.
          let t = \<lparr>mgt_id = i, mgt_tenantId = tenantId, mgt_name = ctd_name dto, mgt_channelType = tp_channelType (ctd_props dto),
                   mgt_category = tp_category (ctd_props dto), mgt_content = Some (ctd_content dto), mgt_contentHtml = tp_contentHtml (ctd_props dto),
                   mgt_variables = Some (patched (tp_variables (ctd_props dto)) []), mgt_language = orS (tp_language (ctd_props dto)) (Some ''en''),
                   mgt_isActive = Some (patched (tp_isActive (ctd_props dto)) True), mgt_createdAt = now, mgt_updatedAt = now, mgt_deletedAt = None\<rparr>
          in andThen (mgWrite (\<lambda>now. saveMessageTemplate now t tenantId)) (\<lambda>_.
             andThen (mgLog tenantId userId ''MESSAGE_TEMPLATE_CREATE'' (''Created message template '' @ ctd_name dto)) (\<lambda>_. ret t)))))"

definition getMessageTemplateOrThrow :: "uid \<Rightarrow> uid \<Rightarrow> MessageTemplate mgsvc" where
  "getMessageTemplateOrThrow tenantId i =
     andThen (mgRead (findTemplate i tenantId)) (\<lambda>found. case found of
       None \<Rightarrow> throw (NotFoundException (''Template with ID '' @ i @ '' not found''))
     | Some t \<Rightarrow> ret t)"

definition MessageTemplateService_update :: "uid \<Rightarrow> uid \<Rightarrow> TemplateProps \<Rightarrow> uid option \<Rightarrow> MessageTemplate mgsvc" where
  "MessageTemplateService_update tenantId i p userId =
     andThen (getMessageTemplateOrThrow tenantId i) (\<lambda>t.
     andThen mgNow (\<lambda>now.
     let t' = MessageTemplate_update now p t
     in andThen (mgWrite (\<lambda>now. saveMessageTemplate now t' tenantId)) (\<lambda>_.
        andThen (mgLog tenantId userId ''MESSAGE_TEMPLATE_UPDATE'' (''Updated message template '' @ i)) (\<lambda>_. ret t'))))"

definition MessageTemplateService_delete :: "uid \<Rightarrow> uid \<Rightarrow> uid option \<Rightarrow> bool mgsvc" where
  "MessageTemplateService_delete tenantId i userId =
     andThen (getMessageTemplateOrThrow tenantId i) (\<lambda>_.
     andThen mgNow (\<lambda>now.
     andThen (mgRead (\<lambda>db. fst (deleteMessageTemplate now i tenantId db))) (\<lambda>deleted.
     andThen (mgWrite (\<lambda>now db. snd (deleteMessageTemplate now i tenantId db))) (\<lambda>_.
     andThen (mgLog tenantId userId ''MESSAGE_TEMPLATE_DELETE'' (''Deleted message template '' @ i)) (\<lambda>_. ret deleted)))))"

definition listTemplates :: "uid \<Rightarrow> nat option \<Rightarrow> nat option \<Rightarrow> string option \<Rightarrow> (MessageTemplate list \<times> nat) mgsvc" where
  "listTemplates tenantId page limit category = mgRead (findMessageTemplates tenantId (orCount page 1) (orCount limit 25) category)"

definition MessageTemplateService_render :: "uid \<Rightarrow> string \<Rightarrow> (string \<times> json) list \<Rightarrow> string mgsvc" where
  "MessageTemplateService_render tenantId name variables =
     andThen (mgRead (findMessageTemplateByName tenantId name)) (\<lambda>found. case found of
       None \<Rightarrow> throw (NotFoundException (''Template '' @ name @ '' not found''))
     | Some t \<Rightarrow>
         if mgt_isActive t \<noteq> Some True then throw (NotFoundException (''Template '' @ name @ '' is inactive''))
         else ret (MessageTemplate_render variables (orBlank (mgt_content t))))"

subsection \<open>Drafts\<close>

definition MessageDraftService_save :: "uid \<Rightarrow> uid \<Rightarrow> uid \<Rightarrow> string \<Rightarrow> string option \<Rightarrow> millis option \<Rightarrow> MessageDraft mgsvc" where
  "MessageDraftService_save tenantId author conversationId content ty expiresAt =
     andThen (mgRead (findByConversationAndAuthor tenantId conversationId author)) (\<lambda>existing.
     andThen mgNow (\<lambda>now. case existing of
       Some d \<Rightarrow>
         let d' = MessageDraft_update now content ty expiresAt d
         in andThen (mgWrite (\<lambda>now. saveDraft now d' tenantId)) (\<lambda>_. ret d')
     | None \<Rightarrow>
         andThen mgUUID (\<lambda>i.
         let d = \<lparr>mgf_id = i, mgf_tenantId = tenantId, mgf_conversationId = conversationId, mgf_authorId = author, mgf_draftContent = content,
                  mgf_draftType = inTemplate (orS ty (Some ''TEXT'')), mgf_expiresAt = expiresAt, mgf_createdAt = now, mgf_updatedAt = now\<rparr>
         in andThen (mgWrite (\<lambda>now. saveDraft now d tenantId)) (\<lambda>_. ret d))))"

definition getDraftForAuthor :: "uid \<Rightarrow> uid \<Rightarrow> uid \<Rightarrow> MessageDraft mgsvc" where
  "getDraftForAuthor tenantId conversationId author =
     andThen (mgRead (findByConversationAndAuthor tenantId conversationId author)) (\<lambda>found. case found of
       None \<Rightarrow> throw (NotFoundException ''No draft found for this author'')
     | Some d \<Rightarrow> ret d)"

definition listDraftsForConversation :: "uid \<Rightarrow> uid \<Rightarrow> MessageDraft list mgsvc" where
  "listDraftsForConversation tenantId conversationId = mgRead (findDraftsByConversation tenantId conversationId)"

definition discardDraft :: "uid \<Rightarrow> uid \<Rightarrow> bool mgsvc" where
  "discardDraft tenantId i =
     andThen (mgRead (\<lambda>db. fst (deleteDraft i tenantId db))) (\<lambda>r.
     andThen (mgWrite (\<lambda>_ db. snd (deleteDraft i tenantId db))) (\<lambda>_. ret r))"

definition draftMessage :: "MessageDraft \<Rightarrow> string \<Rightarrow> uid option \<Rightarrow> CreateMessageDto" where
  "draftMessage d senderType senderId =
     \<lparr>cmd_conversationId = mgf_conversationId d, cmd_channelId = None, cmd_customerId = None, cmd_senderId = senderId, cmd_senderType = senderType,
      cmd_messageType = orS (Some (mgf_draftType d)) (Some ''TEXT''), cmd_direction = Some MD_OUTBOUND, cmd_content = Some (mgf_draftContent d),
      cmd_contentHtml = None, cmd_replyToMessageId = None, cmd_threadId = None, cmd_metadata = None\<rparr>"

definition sendDraft :: "uid \<Rightarrow> uid \<Rightarrow> string \<Rightarrow> uid option \<Rightarrow> Message mgsvc" where
  "sendDraft tenantId i senderType senderId =
     andThen (mgRead (findDraft i tenantId)) (\<lambda>found. case found of
       None \<Rightarrow> throw (NotFoundException (''Draft with ID '' @ i @ '' not found''))
     | Some d \<Rightarrow>
         andThen (MessageService_create tenantId (draftMessage d senderType senderId) senderId) (\<lambda>m.
         andThen (mgWrite (\<lambda>_ db. snd (deleteDraft i tenantId db))) (\<lambda>_.
         andThen (mgLog tenantId senderId ''MESSAGE_DRAFT_SEND'' (''Sent draft '' @ i @ '' as message '' @ mg_id m)) (\<lambda>_. ret m))))"

definition cleanupExpired :: "uid option \<Rightarrow> nat mgsvc" where
  "cleanupExpired tenantId =
     andThen mgNow (\<lambda>now.
     andThen (mgRead (\<lambda>db. fst (deleteExpired tenantId now db))) (\<lambda>removed.
     andThen (mgWrite (\<lambda>_ db. snd (deleteExpired tenantId now db))) (\<lambda>_. ret removed)))"

end
