(* ===== verification/Channel_Service.thy ===== *)
theory Channel_Service
  imports Message_World
begin

text \<open>
  The services of channels (\<^verbatim>\<open>src/modules/channels/services\<close>) up to the processing of an incoming message, which needs the
  message module. Of the events of a channel the publisher acts on one only: a failed health check asks for another one.
\<close>

subsection \<open>Publishing\<close>

definition ChannelEventPublisher_publish :: "channel_event \<Rightarrow> unit mgsvc" where
  "ChannelEventPublisher_publish ev =
     (case ev of ChannelHealthFailedEvent _ i _ \<Rightarrow> mgBestEffort (mgAddJob (ChannelHealthJob i)) | _ \<Rightarrow> ret ())"

definition getChannelOrThrow :: "uid \<Rightarrow> uid \<Rightarrow> Channel mgsvc" where
  "getChannelOrThrow tenantId i =
     andThen (chRead (findChannel i tenantId)) (\<lambda>found. case found of
       None \<Rightarrow> throw (NotFoundException (''Channel '' @ i @ '' not found''))
     | Some c \<Rightarrow> ret c)"

definition persistChannel :: "uid \<Rightarrow> Channel \<Rightarrow> Channel mgsvc" where
  "persistChannel tenantId c =
     andThen (chTryWrite (\<lambda>now. saveChannel now c tenantId)) (\<lambda>_.
     andThen (forEach (ch_domainEvents c) ChannelEventPublisher_publish) (\<lambda>_. ret (c\<lparr>ch_domainEvents := []\<rparr>)))"

subsection \<open>Channels\<close>

record CreateChannelDto =
  chd_name :: string
  chd_type :: ChannelTypeEnum
  chd_provider :: string
  chd_isDefault :: "bool option"
  chd_metadata :: "(string \<times> json) list option"

definition ChannelService_create :: "uid \<Rightarrow> CreateChannelDto \<Rightarrow> uid option \<Rightarrow> Channel mgsvc" where
  "ChannelService_create tenantId dto userId =
     andThen (chRead (findChannelByName (chd_name dto) tenantId)) (\<lambda>existing.
     if existing \<noteq> None then throw (HttpException 409 (''Channel with name '' @ chd_name dto @ '' already exists''))
     else andThen (liftR (ChannelProvider_create (chd_provider dto))) (\<lambda>provider.
          andThen mgUUID (\<lambda>i.
          andThen mgNow (\<lambda>now.
          andThen (persistChannel tenantId (Channel_create now i tenantId (chd_name dto) (chd_type dto) provider (patched (chd_isDefault dto) False) (chd_metadata dto))) (\<lambda>c.
          andThen (mgLog tenantId userId ''CHANNEL_CREATE''
             (''Created channel '' @ chd_name dto @ '' of type '' @ channelTypeName (chd_type dto))) (\<lambda>_. ret c))))))"

definition changeChannel :: "uid \<Rightarrow> uid \<Rightarrow> (millis \<Rightarrow> Channel \<Rightarrow> Channel) \<Rightarrow> Channel mgsvc" where
  "changeChannel tenantId i f =
     andThen (getChannelOrThrow tenantId i) (\<lambda>c.
     andThen mgNow (\<lambda>now. persistChannel tenantId (f now c)))"

definition ChannelService_update :: "uid \<Rightarrow> uid \<Rightarrow> UpdateChannelDto \<Rightarrow> uid option \<Rightarrow> Channel mgsvc" where
  "ChannelService_update tenantId i dto userId =
     andThen (changeChannel tenantId i (\<lambda>now. Channel_update now dto)) (\<lambda>c.
     andThen (mgLog tenantId userId ''CHANNEL_UPDATE'' (''Updated channel '' @ inTemplate (ch_name c))) (\<lambda>_. ret c))"

definition ChannelService_enable :: "uid \<Rightarrow> uid \<Rightarrow> uid option \<Rightarrow> unit mgsvc" where
  "ChannelService_enable tenantId i userId =
     andThen (changeChannel tenantId i Channel_enable) (\<lambda>_. mgLog tenantId userId ''CHANNEL_ENABLE'' (''Enabled channel '' @ i))"

definition ChannelService_disable :: "uid \<Rightarrow> uid \<Rightarrow> uid option \<Rightarrow> unit mgsvc" where
  "ChannelService_disable tenantId i userId =
     andThen (changeChannel tenantId i Channel_disable) (\<lambda>_. mgLog tenantId userId ''CHANNEL_DISABLE'' (''Disabled channel '' @ i))"

subsection \<open>Configuration\<close>

record ChannelConfigurationDto =
  cfd_authenticationType :: string
  cfd_configuration :: "(string \<times> json) list"
  cfd_credentials :: "(string \<times> json) list"
  cfd_settings :: "(string \<times> json) list option"

definition saveConfiguration :: "uid \<Rightarrow> uid \<Rightarrow> ChannelConfigurationDto \<Rightarrow> uid option \<Rightarrow> ChannelConfiguration mgsvc" where
  "saveConfiguration tenantId i dto userId =
     andThen (getChannelOrThrow tenantId i) (\<lambda>_.
     andThen (chRead (findConfigByChannelId i tenantId)) (\<lambda>found.
     andThen mgNow (\<lambda>now.
     andThen (case found of
        Some x \<Rightarrow> ret (x\<lparr>chc_authenticationType := cfd_authenticationType dto, chc_configuration := cfd_configuration dto,
                       chc_credentials := cfd_credentials dto, chc_settings := patched (cfd_settings dto) [], chc_updatedAt := now\<rparr>)
      | None \<Rightarrow> andThen mgUUID (\<lambda>u. ret (new_ChannelConfiguration now u tenantId i (cfd_authenticationType dto) (cfd_configuration dto)
                   (cfd_credentials dto) (cfd_settings dto)))) (\<lambda>x.
     andThen (chWrite (\<lambda>now. saveConfig now x tenantId)) (\<lambda>_.
     andThen (mgLog tenantId userId ''CHANNEL_CONFIG_SAVE'' (''Saved configuration for channel '' @ i)) (\<lambda>_. ret x))))))"

definition getConfigurationOrThrow :: "uid \<Rightarrow> uid \<Rightarrow> ChannelConfiguration mgsvc" where
  "getConfigurationOrThrow tenantId i =
     andThen (chRead (findConfigByChannelId i tenantId)) (\<lambda>found. case found of
       None \<Rightarrow> throw (NotFoundException (''Configuration for channel '' @ i @ '' not found''))
     | Some x \<Rightarrow> ret x)"

definition rotateSecrets :: "uid \<Rightarrow> uid \<Rightarrow> uid option \<Rightarrow> unit mgsvc" where
  "rotateSecrets tenantId i userId =
     andThen (getConfigurationOrThrow tenantId i) (\<lambda>x.
     andThen mgUUID (\<lambda>newSecret.
     andThen mgNow (\<lambda>now.
     andThen (chWrite (\<lambda>t. saveConfig t (x\<lparr>chc_credentials := withEntry ''api_key'' (JStr newSecret) (chc_credentials x), chc_updatedAt := now\<rparr>) tenantId)) (\<lambda>_.
     mgLog tenantId userId ''CHANNEL_SECRET_ROTATE'' (''Rotated API secrets for channel '' @ i)))))"

subsection \<open>Templates of a channel\<close>

definition createChannelTemplate :: "uid \<Rightarrow> uid \<Rightarrow> string \<Rightarrow> string \<Rightarrow> string \<Rightarrow> (string \<times> json) list option \<Rightarrow> uid option \<Rightarrow> ChannelTemplate mgsvc" where
  "createChannelTemplate tenantId i name ty content variables userId =
     andThen (getChannelOrThrow tenantId i) (\<lambda>_.
     andThen (chRead (findTemplateByName i name tenantId)) (\<lambda>existing.
     if existing \<noteq> None then throw (HttpException 409 (''Template '' @ name @ '' already exists for channel '' @ i))
     else andThen mgUUID (\<lambda>u.
          andThen mgNow (\<lambda>now.
          let t = new_ChannelTemplate now u tenantId i name ty content variables
          in andThen (chWrite (\<lambda>now. saveChannelTemplate now t tenantId)) (\<lambda>_.
             andThen (mgLog tenantId userId ''CHANNEL_TEMPLATE_CREATE'' (''Created template '' @ name @ '' for channel '' @ i)) (\<lambda>_. ret t))))))"

definition getChannelTemplateOrThrow :: "uid \<Rightarrow> uid \<Rightarrow> string \<Rightarrow> ChannelTemplate mgsvc" where
  "getChannelTemplateOrThrow tenantId i name =
     andThen (chRead (findTemplateByName i name tenantId)) (\<lambda>found. case found of
       None \<Rightarrow> throw (NotFoundException (''Template '' @ name @ '' for channel '' @ i @ '' not found''))
     | Some t \<Rightarrow> ret t)"

definition ChannelTemplateService_deleteTemplate :: "uid \<Rightarrow> uid \<Rightarrow> string \<Rightarrow> uid option \<Rightarrow> unit mgsvc" where
  "ChannelTemplateService_deleteTemplate tenantId i name userId =
     andThen (getChannelTemplateOrThrow tenantId i name) (\<lambda>_.
     andThen (chWrite (\<lambda>_. deleteChannelTemplate i name tenantId)) (\<lambda>_.
     mgLog tenantId userId ''CHANNEL_TEMPLATE_DELETE'' (''Deleted template '' @ name @ '' from channel '' @ i)))"

subsection \<open>Health\<close>

text \<open>Every connector answers its health check with a constant.\<close>

definition checkHealth :: "uid \<Rightarrow> uid \<Rightarrow> (string \<times> int) mgsvc" where
  "checkHealth tenantId i =
     andThen (getChannelOrThrow tenantId i) (\<lambda>c.
     andThen (getConfigurationOrThrow tenantId i) (\<lambda>config.
     andThen (liftR (getConnector (ch_type c))) (\<lambda>connector.
     let (online, latency) = cn_healthCheck connector;
         current = (if online = ''ONLINE'' then ''HEALTHY'' else ''UNHEALTHY'')
     in andThen mgNow (\<lambda>now.
        andThen (chWrite (\<lambda>t. saveConfig t (config\<lparr>chc_healthStatus := current, chc_lastHealthCheck := now, chc_updatedAt := now\<rparr>) tenantId)) (\<lambda>_.
        andThen (if chc_healthStatus config = current then ret ()
                 else if current = ''UNHEALTHY''
                 then andThen (ChannelEventPublisher_publish (ChannelHealthFailedEvent tenantId i ''Connection Failed'')) (\<lambda>_.
                      mgLog tenantId None ''CHANNEL_HEALTH_FAILED'' (''Channel '' @ i @ '' health status degraded to UNHEALTHY: undefined''))
                 else andThen (ChannelEventPublisher_publish (ChannelHealthRestoredEvent tenantId i)) (\<lambda>_.
                      mgLog tenantId None ''CHANNEL_HEALTH_RESTORED'' (''Channel '' @ i @ '' health status restored to HEALTHY''))) (\<lambda>_.
        ret (current, latency)))))))"

definition getHealth :: "uid \<Rightarrow> uid \<Rightarrow> (string \<times> millis) mgsvc" where
  "getHealth tenantId i = andThen (getConfigurationOrThrow tenantId i) (\<lambda>x. ret (chc_healthStatus x, chc_lastHealthCheck x))"

subsection \<open>Webhooks\<close>

text \<open>The job of an incoming webhook also carries the headers, which its handler does not read.\<close>

definition registerWebhook :: "uid \<Rightarrow> uid \<Rightarrow> string \<Rightarrow> string option \<Rightarrow> string option \<Rightarrow> uid option \<Rightarrow> ChannelWebhook mgsvc" where
  "registerWebhook tenantId i url secret token userId =
     andThen (getChannelOrThrow tenantId i) (\<lambda>_.
     andThen (chRead (findWebhookByChannelId i tenantId)) (\<lambda>found.
     andThen mgNow (\<lambda>now.
     andThen (case found of
        Some x \<Rightarrow> ret (x\<lparr>chw_webhookUrl := url, chw_webhookSecret := orS secret (chw_webhookSecret x),
                       chw_verificationToken := orS token (chw_verificationToken x), chw_updatedAt := now\<rparr>)
      | None \<Rightarrow>
          andThen mgUUID (\<lambda>u.
          andThen (if truthy secret then ret (the secret) else mgUUID) (\<lambda>s.
          andThen (if truthy token then ret (the token) else mgUUID) (\<lambda>t.
          ret (new_ChannelWebhook now u tenantId i url (Some s) (Some t)))))) (\<lambda>x.
     andThen (chWrite (\<lambda>now. saveWebhook now x tenantId)) (\<lambda>_.
     andThen (mgLog tenantId userId ''CHANNEL_WEBHOOK_REGISTER'' (''Registered webhook for channel '' @ i)) (\<lambda>_. ret x))))))"

definition verifyWebhook :: "uid \<Rightarrow> uid \<Rightarrow> (string \<times> string) list \<Rightarrow> string mgsvc" where
  "verifyWebhook tenantId i query =
     andThen (chRead (findWebhookByChannelId i tenantId)) (\<lambda>found. case found of
       None \<Rightarrow> throw (NotFoundException (''Webhook config for channel '' @ i @ '' not found''))
     | Some x \<Rightarrow>
         let mode = orS (map_of query ''hub.mode'') (map_of query ''mode'');
             token = orS (map_of query ''hub.verify_token'') (map_of query ''token'');
             challenge = orS (map_of query ''hub.challenge'') (map_of query ''challenge'')
         in if truthy mode \<and> truthy token
            then if token = chw_verificationToken x then ret (inTemplate (orS challenge (Some ''OK'')))
                 else throw (BadRequestException ''Verification token mismatch'')
            else ret ''OK'')"

definition signatureOf :: "headers \<Rightarrow> string" where
  "signatureOf hs = headerOr hs ''x-hub-signature-256'' (headerOr hs ''x-slack-signature'' (headerOr hs ''x-telegram-bot-api-secret-token''
     (headerOr hs ''x-sendgrid-signature'' (headerOr hs ''signature'' []))))"

definition handleIncomingWebhook :: "uid \<Rightarrow> uid \<Rightarrow> json \<Rightarrow> headers \<Rightarrow> string option \<Rightarrow> unit mgsvc" where
  "handleIncomingWebhook tenantId i payload hs rawBody =
     andThen (getChannelOrThrow tenantId i) (\<lambda>c.
     andThen (chRead (findWebhookByChannelId i tenantId)) (\<lambda>found. case found of
       None \<Rightarrow> throw (NotFoundException (''Webhook for channel '' @ i @ '' not found''))
     | Some x \<Rightarrow>
         andThen (liftR (getConnector (ch_type c))) (\<lambda>connector.
         andThen mgNow (\<lambda>now.
         andThen (asks mw_hmac) (\<lambda>hmac.
         if truthy (chw_webhookSecret x) \<and> \<not> cn_verifySignature connector hmac now payload (signatureOf hs) (the (chw_webhookSecret x)) hs rawBody
         then throw (BadRequestException ''Invalid signature'')
         else if \<not> cn_validateWebhook connector payload then throw (BadRequestException ''Webhook payload validation failed'')
         else andThen (chWrite (\<lambda>t. saveWebhook t (x\<lparr>chw_lastReceivedAt := Some now, chw_updatedAt := now\<rparr>) tenantId)) (\<lambda>_.
              andThen mgUUID (\<lambda>u.
              andThen (ChannelEventPublisher_publish (WebhookReceivedEvent tenantId u i payload)) (\<lambda>_.
              mgAddJob (IncomingMessageJob tenantId i payload)))))))))"

subsection \<open>Sending\<close>

definition resolveTemplateContent :: "string \<Rightarrow> (string \<times> json) list \<Rightarrow> string" where
  "resolveTemplateContent content variables =
     foldl (\<lambda>resolved (key, v). replaceAll (''{{'' @ key @ ''}}'') (stringOf v) resolved) content variables"

definition sendOutgoingMessage :: "uid \<Rightarrow> uid \<Rightarrow> uid \<Rightarrow> json \<Rightarrow> (string \<times> (string \<times> json) list) option \<Rightarrow> unit mgsvc" where
  "sendOutgoingMessage tenantId i recipient content template =
     andThen (getChannelOrThrow tenantId i) (\<lambda>_.
     andThen (case template of
        None \<Rightarrow> ret content
      | Some (name, variables) \<Rightarrow>
          if name = [] then ret content
          else andThen (chRead (findTemplateByName i name tenantId)) (\<lambda>found. case found of
                 None \<Rightarrow> throw (NotFoundException (''Template '' @ name @ '' not found''))
               | Some t \<Rightarrow> ret (JStr (resolveTemplateContent (cht_templateContent t) variables)))) (\<lambda>finalContent.
     andThen (mgAddJob (OutgoingMessageJob tenantId i recipient finalContent)) (\<lambda>_.
     mgLog tenantId None ''MESSAGE_OUTGOING_ENQUEUE'' (''Enqueued outgoing message for channel '' @ i @ '' to '' @ recipient))))"

text \<open>The connectors write a line to the log and report success under a random identifier.\<close>

definition sendViaConnector :: "uid mgsvc" where
  "sendViaConnector = mgUUID"

definition deliverOutgoingMessage :: "uid \<Rightarrow> uid \<Rightarrow> uid \<Rightarrow> json \<Rightarrow> unit mgsvc" where
  "deliverOutgoingMessage tenantId i recipient content =
     andThen (getChannelOrThrow tenantId i) (\<lambda>c.
     andThen (liftR (getConnector (ch_type c))) (\<lambda>connector.
     tryCatch
       (andThen (if ch_type c = CH_WEBCHAT then mgUUID else ret []) (\<lambda>u.
        andThen mgNow (\<lambda>now.
        andThen (liftR (cn_formatOutgoingMessage connector u now content)) (\<lambda>_.
        andThen sendViaConnector (\<lambda>messageId.
        andThen mgUUID (\<lambda>conversationId.
        ChannelEventPublisher_publish (ChannelMessageSent tenantId messageId conversationId
          (case content of JStr s \<Rightarrow> s | _ \<Rightarrow> jsonStringify content) recipient)))))))
       (\<lambda>e. andThen mgUUID (\<lambda>messageId.
            andThen (ChannelEventPublisher_publish (ChannelMessageFailed tenantId messageId i (message e))) (\<lambda>_. throw e)))))"

definition spamWords :: "string list" where
  "spamWords = [''buy crypto'', ''win free ticket'', ''lottery winner'', ''casino bonus'']"

text \<open>A content that is not a text has no \<^verbatim>\<open>toLowerCase\<close>.\<close>

definition checkForSpam :: "json \<Rightarrow> exn + bool" where
  "checkForSpam content =
     (if \<not> truthyJson content then Inr False
      else case content of JStr s \<Rightarrow> Inr (list_ex (\<lambda>word. includesText word (toLowerCase s)) spamWords) | _ \<Rightarrow> Inl TypeError)"

end
