(* ===== verification/Message_Delivery.thy ===== *)
theory Message_Delivery
  imports Message_Service Channel_Service
begin

text \<open>
  Delivery, inbound messages and attachments (\<^verbatim>\<open>MessageDeliveryService\<close>, \<^verbatim>\<open>MessageInboundService\<close>,
  \<^verbatim>\<open>MessageAttachmentService\<close>), the incoming side of the channels (\<^verbatim>\<open>ChannelMessageService.processIncomingWebhook\<close>) and the
  processors of the message and channel queues.
\<close>

subsection \<open>Delivery\<close>

text \<open>The delivery service persists the row and publishes; it leaves the read model and the widget alone.\<close>

definition persistDelivery :: "Message \<Rightarrow> uid \<Rightarrow> Message mgsvc" where
  "persistDelivery m tenantId = andThen (mgTryWrite (\<lambda>now. saveMessage now m tenantId)) (\<lambda>_. mgPublishAll m)"

record SendOptions =
  so_templateName :: "string option"
  so_variables :: "(string \<times> json) list option"
  so_channelId :: "uid option"

definition queueSend :: "uid \<Rightarrow> uid \<Rightarrow> SendOptions \<Rightarrow> uid option \<Rightarrow> Message mgsvc" where
  "queueSend tenantId i opts userId =
     andThen (getMessageOrThrow tenantId i) (\<lambda>m.
     if mg_direction m = MD_INBOUND then throw (BadRequestException ''Inbound messages cannot be sent'')
     else andThen mgNow (\<lambda>now.
          andThen (if truthy (so_templateName opts)
                   then andThen (MessageTemplateService_render tenantId (the (so_templateName opts)) (patched (so_variables opts) [])) (\<lambda>rendered.
                        ret (editContent now rendered None m))
                   else ret m) (\<lambda>m1.
          andThen (persistDelivery (markProcessing now m1) tenantId) (\<lambda>m2.
          andThen (mgAddJob (MessageSendJob i (orS (so_channelId opts) (mg_channelId m2)))) (\<lambda>_.
          andThen (mgLog tenantId userId ''MESSAGE_SEND_ENQUEUE'' (''Enqueued message '' @ i @ '' for delivery'')) (\<lambda>_. ret m2))))))"

definition providerOf :: "Message \<Rightarrow> json option" where
  "providerOf m = map_of (mg_metadata m) ''provider''"

text \<open>The ledger entry of one attempt goes to its own table first and then again with the message, which drops the second
  copy.\<close>

definition recordAndPersist :: "uid \<Rightarrow> MessageDeliveryStatus \<Rightarrow> Message \<Rightarrow> Message mgsvc" where
  "recordAndPersist tenantId d m =
     andThen (mgWrite (\<lambda>now. saveDeliveryStatus now d tenantId)) (\<lambda>_. persistDelivery m tenantId)"

definition dispatchMessage :: "uid \<Rightarrow> uid \<Rightarrow> Message mgsvc" where
  "dispatchMessage tenantId i =
     andThen (getMessageOrThrow tenantId i) (\<lambda>m.
     if \<not> truthy (mg_channelId m) then throw (BadRequestException (''Message '' @ i @ '' has no channel to dispatch on''))
     else if \<not> truthy (mg_customerId m) then throw (BadRequestException (''Message '' @ i @ '' has no recipient to dispatch to''))
     else andThen mgUUID (\<lambda>u.
          andThen mgNow (\<lambda>now.
          let delivery = new_MessageDeliveryStatus now u tenantId i (providerOf m) None ''PROCESSING''
          in tryCatch
               (andThen (sendOutgoingMessage tenantId (the (mg_channelId m)) (the (mg_customerId m)) (JStr (orBlank (mg_content m))) None) (\<lambda>_.
                let d = recordAttempt now ''SENT'' None None delivery
                in recordAndPersist tenantId d (markSent now None (recordDeliveryStatus now d m))))
               (\<lambda>e. let d = recordAttempt now ''FAILED'' None (Some (message e)) delivery
                    in andThen (recordAndPersist tenantId d (Message_markFailed now (message e) (recordDeliveryStatus now d m))) (\<lambda>_. throw e)))))"

definition retryMessage :: "uid \<Rightarrow> uid \<Rightarrow> uid option \<Rightarrow> Message mgsvc" where
  "retryMessage tenantId i userId =
     andThen (getMessageOrThrow tenantId i) (\<lambda>m.
     if \<not> canRetry (mg_status m) then throw (BadRequestException (''Message '' @ i @ '' is not in a retryable state''))
     else andThen (mgRead (findDeliveryStatuses tenantId i)) (\<lambda>statuses.
          andThen mgNow (\<lambda>now.
          andThen (persistDelivery (Message_markRetrying now (length statuses + 1) m) tenantId) (\<lambda>m'.
          andThen (mgAddJob (MessageSendJob i (mg_channelId m'))) (\<lambda>_.
          andThen (mgLog tenantId userId ''MESSAGE_RETRY'' (''Retrying delivery of message '' @ i)) (\<lambda>_. ret m'))))))"

definition receiptStatus :: "millis \<Rightarrow> string \<Rightarrow> string option \<Rightarrow> string option \<Rightarrow> Message \<Rightarrow> Message" where
  "receiptStatus now status providerMessageId failureReason m =
     (if status = ''DELIVERED'' then markDelivered now (providerOf m) m
      else if status = ''READ'' then Message_markRead now None m
      else if status = ''FAILED'' then Message_markFailed now (inTemplate (orS failureReason (Some ''Provider reported failure''))) m
      else if status = ''SENT'' then markSent now providerMessageId m
      else m)"

definition applyDeliveryReceipt :: "uid \<Rightarrow> uid \<Rightarrow> string \<Rightarrow> string option \<Rightarrow> string option \<Rightarrow> Message mgsvc" where
  "applyDeliveryReceipt tenantId i status providerMessageId failureReason =
     andThen (getMessageOrThrow tenantId i) (\<lambda>m.
     andThen mgUUID (\<lambda>u.
     andThen mgNow (\<lambda>now.
     let d = recordAttempt now status providerMessageId failureReason (new_MessageDeliveryStatus now u tenantId i None providerMessageId status)
     in andThen (mgWrite (\<lambda>t. saveDeliveryStatus t d tenantId)) (\<lambda>_.
        andThen (persistDelivery (recordDeliveryStatus now d (receiptStatus now status providerMessageId failureReason m)) tenantId) (\<lambda>m'.
        andThen (refresh tenantId (mg_conversationId m) None) (\<lambda>_. ret m'))))))"

subsection \<open>Inbound messages\<close>

definition validateInbound :: "InboundMessageDto \<Rightarrow> exn + unit" where
  "validateInbound dto =
     (if imd_channelId dto = [] then Inl (BadRequestException ''Inbound message requires a channelId'')
      else if \<not> truthy (imd_conversationId dto) \<and> \<not> truthy (imd_customerId dto)
      then Inl (BadRequestException ''Inbound message requires a conversationId or customerId to resolve a conversation'')
      else Inr ())"

definition inboundConversation :: "InboundMessageDto \<Rightarrow> CreateConversationDto" where
  "inboundConversation dto =
     \<lparr>ccd_customerId = orBlank (imd_customerId dto), ccd_channelId = Some (imd_channelId dto), ccd_assignedAgentId = None,
      ccd_assignedTeamId = None, ccd_priority = None, ccd_subject = None, ccd_language = None, ccd_source = Some ''INBOUND'', ccd_metadata = None\<rparr>"

definition resolveConversationId :: "uid \<Rightarrow> InboundMessageDto \<Rightarrow> uid mgsvc" where
  "resolveConversationId tenantId dto =
     (if truthy (imd_conversationId dto)
      then andThen (onConv (getConversationOrThrow tenantId (the (imd_conversationId dto)))) (\<lambda>c. ret (cv_id c))
      else andThen (onConv (ConversationService_create tenantId (inboundConversation dto) None)) (\<lambda>c. ret (cv_id c)))"

text \<open>\<open>None\<close> is the answer \<^verbatim>\<open>{ deduplicated: true }\<close>.\<close>

definition ingest :: "uid \<Rightarrow> InboundMessageDto \<Rightarrow> Message option mgsvc" where
  "ingest tenantId dto =
     andThen (liftR (validateInbound dto)) (\<lambda>_.
     andThen (if truthy (imd_externalMessageId dto)
              then mgRead (findByExternalId tenantId (Some (imd_channelId dto)) (the (imd_externalMessageId dto))) else ret None) (\<lambda>existing.
     if existing \<noteq> None then ret None
     else andThen (resolveConversationId tenantId dto) (\<lambda>conversationId.
          andThen mgUUID (\<lambda>i.
          andThen mgNow (\<lambda>now.
          let m = Message_create now i tenantId conversationId (Some (imd_channelId dto)) (imd_customerId dto) None ''CUSTOMER''
                (patched (imd_messageType dto) MT_TEXT) MD_INBOUND (Some (orBlank (imd_content dto))) None MS_DELIVERED (imd_externalMessageId dto)
                None None (patched (imd_metadata dto) [])
          in andThen (mgTryWrite (\<lambda>now. saveMessage now m tenantId)) (\<lambda>_.
             andThen (applyMessage tenantId m) (\<lambda>_.
             andThen (mgPublishAll m) (\<lambda>m'.
             andThen (mgLog tenantId None ''MESSAGE_RECEIVE'' (''Persisted inbound message '' @ i @ '' on channel '' @ imd_channelId dto)) (\<lambda>_.
             ret (Some m'))))))))))"

definition enqueueWebhook :: "uid \<Rightarrow> InboundMessageDto \<Rightarrow> unit mgsvc" where
  "enqueueWebhook tenantId dto = mgAddJob (MessageInboundJob tenantId dto)"

subsection \<open>Attachments\<close>

text \<open>\<^verbatim>\<open>FileUploadIntegrationService\<close>: a client that fails makes the service unavailable; there are no thumbnails.\<close>

definition unavailable :: exn where
  "unavailable = HttpException 503 ''File Upload Service is unavailable''"

definition fileAnswer :: "(MsgWorld \<Rightarrow> 'a option) \<Rightarrow> 'a mgsvc" where
  "fileAnswer f = (\<lambda>w. (case f w of None \<Rightarrow> Inl unavailable | Some a \<Rightarrow> Inr a, w))"

definition finalizeUpload :: "uid \<Rightarrow> string \<Rightarrow> StorageReference mgsvc" where
  "finalizeUpload tenantId uploadReference = fileAnswer (\<lambda>w. mw_confirmUpload w tenantId uploadReference)"

definition requestVirusScan :: "uid \<Rightarrow> string \<Rightarrow> string mgsvc" where
  "requestVirusScan tenantId path = fileAnswer (\<lambda>w. mw_scanStatus w tenantId path)"

definition generateSignedUrl :: "uid \<Rightarrow> string \<Rightarrow> string mgsvc" where
  "generateSignedUrl tenantId path = fileAnswer (\<lambda>w. mw_signedUrl w tenantId path)"

definition requestThumbnail :: "uid \<Rightarrow> string \<Rightarrow> string option mgsvc" where
  "requestThumbnail tenantId path = ret None"

definition deleteStoredFile :: "uid \<Rightarrow> string \<Rightarrow> unit mgsvc" where
  "deleteStoredFile tenantId path =
     (\<lambda>w. if mw_deleteFile w tenantId path then (Inr (), w\<lparr>mw_fileCalls := mw_fileCalls w @ [DeleteStoredFile tenantId path]\<rparr>) else (Inl unavailable, w))"

definition persistAndNotify :: "MessageAttachment \<Rightarrow> uid \<Rightarrow> uid option \<Rightarrow> MessageAttachment mgsvc" where
  "persistAndNotify a conversationId userId =
     (let tenantId = mga_tenantId a
      in andThen (mgWrite (\<lambda>now. saveAttachment now a tenantId)) (\<lambda>_.
         andThen (refresh tenantId conversationId None) (\<lambda>_.
         andThen (mgAddJob (AttachmentProcessingJob (mga_id a))) (\<lambda>_.
         andThen (MessageEventPublisher_publish (AttachmentUploadedEvent tenantId (mga_id a) (mga_messageId a) (mga_fileName a))) (\<lambda>_.
         andThen (mgLog tenantId userId ''ATTACHMENT_UPLOAD''
            (''Registered attachment '' @ mga_id a @ '' on message '' @ mga_messageId a)) (\<lambda>_. ret a))))))"

record RegisterAttachmentDto =
  rad_fileName :: string
  rad_fileType :: "string option"
  rad_fileSize :: "int option"
  rad_uploadReference :: string
  rad_metadata :: "(string \<times> json) list option"

definition registerAttachment :: "uid \<Rightarrow> uid \<Rightarrow> RegisterAttachmentDto \<Rightarrow> uid option \<Rightarrow> MessageAttachment mgsvc" where
  "registerAttachment tenantId i dto userId =
     andThen (getMessageOrThrow tenantId i) (\<lambda>m.
     andThen (finalizeUpload tenantId (rad_uploadReference dto)) (\<lambda>r.
     andThen mgUUID (\<lambda>u.
     andThen mgNow (\<lambda>now.
     persistAndNotify
       \<lparr>mga_id = u, mga_tenantId = tenantId, mga_messageId = i, mga_fileName = rad_fileName dto, mga_fileType = orS (rad_fileType dto) (srf_contentType r),
        mga_fileSize = (case rad_fileSize dto of None \<Rightarrow> srf_fileSize r | Some n \<Rightarrow> Some n), mga_storageProvider = Some (srf_storageProvider r),
        mga_storagePath = Some (srf_storagePath r), mga_publicUrl = srf_publicUrl r, mga_checksum = None, mga_thumbnailUrl = None,
        mga_metadata = patched (rad_metadata dto) [], mga_createdAt = now, mga_updatedAt = now\<rparr> (mg_conversationId m) userId))))"

definition registerLocal :: "uid \<Rightarrow> uid \<Rightarrow> string \<Rightarrow> string option \<Rightarrow> int option \<Rightarrow> string \<Rightarrow> string \<Rightarrow> uid option \<Rightarrow> MessageAttachment mgsvc" where
  "registerLocal tenantId i fileName fileType fileSize path url userId =
     andThen (getMessageOrThrow tenantId i) (\<lambda>m.
     andThen mgUUID (\<lambda>u.
     andThen mgNow (\<lambda>now.
     persistAndNotify
       \<lparr>mga_id = u, mga_tenantId = tenantId, mga_messageId = i, mga_fileName = fileName, mga_fileType = fileType, mga_fileSize = fileSize,
        mga_storageProvider = Some ''LOCAL'', mga_storagePath = Some path, mga_publicUrl = Some url, mga_checksum = None, mga_thumbnailUrl = None,
        mga_metadata = [], mga_createdAt = now, mga_updatedAt = now\<rparr> (mg_conversationId m) userId)))"

definition MEDIA_THUMBNAIL_TYPES :: "string list" where
  "MEDIA_THUMBNAIL_TYPES = [''image/'', ''video/'']"

definition processAttachment :: "uid \<Rightarrow> uid \<Rightarrow> unit mgsvc" where
  "processAttachment tenantId i =
     andThen (mgRead (getAttachment tenantId i)) (\<lambda>found. case found of
       None \<Rightarrow> ret ()
     | Some a \<Rightarrow>
         if \<not> truthy (mga_storagePath a) \<or> mga_storageProvider a = Some ''LOCAL'' then ret ()
         else andThen (requestVirusScan tenantId (the (mga_storagePath a))) (\<lambda>scan.
              if scan = ''INFECTED''
              then andThen (deleteStoredFile tenantId (the (mga_storagePath a))) (\<lambda>_.
                   mgWrite (\<lambda>_ db. snd (deleteAttachmentRow tenantId i db)))
              else if list_ex (\<lambda>p. startsWith p (orBlank (mga_fileType a))) MEDIA_THUMBNAIL_TYPES
              then andThen (requestThumbnail tenantId (the (mga_storagePath a))) (\<lambda>url.
                   if truthy url
                   then andThen mgNow (\<lambda>now. mgWrite (\<lambda>t. saveAttachment t (attachThumbnail now (the url) a) tenantId)) else ret ())
              else ret ()))"

definition getAttachmentOrThrow :: "uid \<Rightarrow> uid \<Rightarrow> MessageAttachment mgsvc" where
  "getAttachmentOrThrow tenantId i =
     andThen (mgRead (getAttachment tenantId i)) (\<lambda>found. case found of
       None \<Rightarrow> throw (NotFoundException (''Attachment '' @ i @ '' not found''))
     | Some a \<Rightarrow> ret a)"

definition getSignedUrl :: "uid \<Rightarrow> uid \<Rightarrow> string option mgsvc" where
  "getSignedUrl tenantId i =
     andThen (getAttachmentOrThrow tenantId i) (\<lambda>a.
     if \<not> truthy (mga_storagePath a) then throw (NotFoundException (''Attachment '' @ i @ '' not found''))
     else if mga_storageProvider a = Some ''LOCAL'' then ret (mga_publicUrl a)
     else andThen (generateSignedUrl tenantId (the (mga_storagePath a))) (\<lambda>url. ret (Some url)))"

definition deleteAttachment :: "uid \<Rightarrow> uid \<Rightarrow> uid option \<Rightarrow> bool mgsvc" where
  "deleteAttachment tenantId i userId =
     andThen (getAttachmentOrThrow tenantId i) (\<lambda>a.
     andThen (if truthy (mga_storagePath a) \<and> mga_storageProvider a = Some ''LOCAL''
              then modify (\<lambda>w. w\<lparr>mw_fileCalls := mw_fileCalls w @ [UnlinkLocalFile (the (mga_storagePath a))]\<rparr>)
              else if truthy (mga_storagePath a) then deleteStoredFile tenantId (the (mga_storagePath a)) else ret ()) (\<lambda>_.
     andThen (mgRead (\<lambda>db. fst (deleteAttachmentRow tenantId i db))) (\<lambda>deleted.
     andThen (mgWrite (\<lambda>_ db. snd (deleteAttachmentRow tenantId i db))) (\<lambda>_.
     andThen (mgRead (findMessage (mga_messageId a) tenantId)) (\<lambda>owner.
     andThen (case owner of None \<Rightarrow> ret () | Some m \<Rightarrow> refresh tenantId (mg_conversationId m) None) (\<lambda>_.
     andThen (MessageEventPublisher_publish (AttachmentDeletedEvent tenantId i (mga_messageId a))) (\<lambda>_.
     andThen (mgLog tenantId userId ''ATTACHMENT_DELETE'' (''Deleted attachment '' @ i)) (\<lambda>_.
     ret deleted))))))))"

subsection \<open>Messages that arrive on a channel\<close>

text \<open>The external identifier is bound as text.\<close>

definition processIncomingWebhook :: "uid \<Rightarrow> uid \<Rightarrow> json \<Rightarrow> unit mgsvc" where
  "processIncomingWebhook tenantId i payload =
     andThen (getChannelOrThrow tenantId i) (\<lambda>c.
     andThen mgNow (\<lambda>now.
     andThen (chRead (findRateLimitByChannelId i tenantId)) (\<lambda>found.
     andThen (case found of Some r \<Rightarrow> ret r
              | None \<Rightarrow> andThen mgUUID (\<lambda>u. ret (new_ChannelRateLimit now u tenantId i 100 50 (now + 60000)))) (\<lambda>limit.
     if isRateLimited now limit then throw (BadRequestException ''Rate limit exceeded for this channel'')
     else andThen (chWrite (\<lambda>t. saveRateLimit t (incrementUsage now limit) tenantId)) (\<lambda>_.
          andThen (liftR (getConnector (ch_type c))) (\<lambda>connector.
          andThen (liftR (cn_normalizeMessage connector payload)) (\<lambda>normalized.
          andThen (case nm_externalMessageId normalized of Some j \<Rightarrow> ret (stringOf j) | None \<Rightarrow> mgUUID) (\<lambda>external.
          andThen (liftR (checkForSpam (nm_content normalized))) (\<lambda>isSpam.
          if isSpam then ret ()
          else andThen (asks (\<lambda>w. mw_customerFor w tenantId i (nm_senderId normalized) (channelTypeName (ch_type c)))) (\<lambda>answer.
               andThen (liftR answer) (\<lambda>customer.
               andThen (ingest tenantId \<lparr>imd_channelId = i, imd_conversationId = None, imd_customerId = Some customer,
                   imd_externalMessageId = Some external, imd_messageType = None, imd_content = Some (stringOf (nm_content normalized)),
                   imd_metadata = Some [(''rawPayload'', nm_rawPayload normalized)]\<rparr>) (\<lambda>result.
               andThen (case result of
                  None \<Rightarrow> ret ()
                | Some m \<Rightarrow>
                    andThen (ChannelEventPublisher_publish (ChannelMessageReceived tenantId (mg_id m) (mg_conversationId m) (stringOf (nm_content normalized)) ''CUSTOMER'')) (\<lambda>_.
                    ChannelEventPublisher_publish (ChannelMessageNormalized tenantId (mg_id m) i payload))) (\<lambda>_.
               mgLog tenantId None ''MESSAGE_RECEIVE'' (''Received message on channel '' @ i @ '' (deduplicated='' @
                 (if result = None then ''true'' else ''false'') @ '')''))))))))))))))"

subsection \<open>Queue processors\<close>

fun msgJobName :: "msg_job \<Rightarrow> string" where
  "msgJobName (MessageSendJob _ _) = ''message-send-job''"
| "msgJobName (MessageDeliveryJob _ _ _ _) = ''message-delivery-job''"
| "msgJobName (MessageRetryJob _) = ''message-retry-job''"
| "msgJobName (AttachmentProcessingJob _) = ''attachment-processing-job''"
| "msgJobName DraftCleanupJob = ''draft-cleanup-job''"
| "msgJobName (MessageInboundJob _ _) = ''message-inbound-job''"
| "msgJobName (MessageAnalyticsJob _ _) = ''message-analytics-job''"
| "msgJobName (AiWorkflowTriggerJob _ _ _) = ''ai-workflow-trigger-job''"
| "msgJobName (AiProcessMessage _ _ _ _) = ''ai-process-message''"
| "msgJobName (AnalyticsMessageEvent _ _ _) = ''message-event''"
| "msgJobName (RunWorkflowJob _ _ _) = ''run-workflow''"
| "msgJobName (IncomingMessageJob _ _ _) = ''incoming-message-job''"
| "msgJobName (OutgoingMessageJob _ _ _ _) = ''outgoing-message-job''"
| "msgJobName (ChannelHealthJob _) = ''channel-health-job''"
| "msgJobName (TemplateSyncJob _) = ''template-sync-job''"
| "msgJobName (DeliveryStatusJob _ _) = ''delivery-status-job''"
| "msgJobName (OtherMessageJob n) = n"

text \<open>The tenant is the one of the envelope, else that of the data. A job without a tenant is run with an empty one, which
  no row carries.\<close>

fun jobDataTenant :: "msg_job \<Rightarrow> uid option" where
  "jobDataTenant (MessageInboundJob t _) = Some t"
| "jobDataTenant (IncomingMessageJob t _ _) = Some t"
| "jobDataTenant (OutgoingMessageJob t _ _ _) = Some t"
| "jobDataTenant _ = None"

definition messageOutcome :: "Message \<Rightarrow> json" where
  "messageOutcome m = JObj [(''messageId'', JStr (mg_id m)), (''status'', JStr (messageStatusName (mg_status m)))]"

definition handleMessageJob :: "msg_job \<times> uid option \<Rightarrow> json mgsvc" where
  "handleMessageJob q =
     (let tenant = orS (snd q) (jobDataTenant (fst q)); tenantId = orBlank tenant
      in case fst q of
           MessageSendJob i _ \<Rightarrow> andThen (dispatchMessage tenantId i) (\<lambda>m. ret (messageOutcome m))
         | MessageDeliveryJob i status providerMessageId failureReason \<Rightarrow>
             andThen (applyDeliveryReceipt tenantId i status providerMessageId failureReason) (\<lambda>m. ret (messageOutcome m))
         | MessageRetryJob i \<Rightarrow> andThen (retryMessage tenantId i None) (\<lambda>m. ret (messageOutcome m))
         | AttachmentProcessingJob i \<Rightarrow>
             andThen (processAttachment tenantId i) (\<lambda>_. ret (JObj [(''processed'', JBool True), (''attachmentId'', JStr i)]))
         | DraftCleanupJob \<Rightarrow> andThen (cleanupExpired tenant) (\<lambda>n. ret (JObj [(''removed'', JNum (int n))]))
         | MessageInboundJob _ dto \<Rightarrow> andThen (ingest tenantId dto) (\<lambda>r. ret (JObj [(''deduplicated'', JBool (r = None))]))
         | MessageAnalyticsJob i n \<Rightarrow>
             andThen (mgAddJob (AnalyticsMessageEvent i n tenantId)) (\<lambda>_. ret (JObj [(''forwarded'', JBool True), (''messageId'', JStr i)]))
         | AiWorkflowTriggerJob i c _ \<Rightarrow>
             andThen (mgAddJob (RunWorkflowJob i c tenantId)) (\<lambda>_. ret (JObj [(''triggered'', JBool True), (''messageId'', JStr i)]))
         | _ \<Rightarrow> throw (Error (''Unknown job name: '' @ msgJobName (fst q))))"

definition handleChannelJob :: "msg_job \<times> uid option \<Rightarrow> unit mgsvc" where
  "handleChannelJob q =
     (let tenantId = orBlank (orS (snd q) (jobDataTenant (fst q)))
      in case fst q of
           IncomingMessageJob _ i payload \<Rightarrow> processIncomingWebhook tenantId i payload
         | OutgoingMessageJob _ i recipient content \<Rightarrow> deliverOutgoingMessage tenantId i recipient content
         | ChannelHealthJob i \<Rightarrow> andThen (checkHealth tenantId i) (\<lambda>_. ret ())
         | TemplateSyncJob i \<Rightarrow> ret ()
         | DeliveryStatusJob i status \<Rightarrow> ret ()
         | _ \<Rightarrow> throw (Error (''Unknown job name: '' @ msgJobName (fst q))))"

end
