(* ===== verification/Message_Facts.thy ===== *)
theory Message_Facts
  imports Message_Delivery Conversation_Facts
begin

text \<open>
  What saving, refreshing and publishing do: a saved message is read back with its columns, the refreshed summary carries
  the counters of the tables, the unique index on external identifiers holds, and publishing adds jobs only.
\<close>

subsection \<open>Rows\<close>

lemma messageColumns_simps [simp]:
  "mg_id (messageColumns now m) = mg_id m" "mg_tenantId (messageColumns now m) = mg_tenantId m"
  "mg_status (messageColumns now m) = mg_status m" "mg_conversationId (messageColumns now m) = mg_conversationId m"
  "mg_content (messageColumns now m) = mg_content m" "mg_direction (messageColumns now m) = mg_direction m"
  "mg_messageType (messageColumns now m) = mg_messageType m" "mg_readAt (messageColumns now m) = mg_readAt m"
  "mg_deletedAt (messageColumns now m) = mg_deletedAt m" "mg_createdAt (messageColumns now m) = mg_createdAt m"
  "mg_channelId (messageColumns now m) = orUndefined (mg_channelId m)"
  "mg_externalMessageId (messageColumns now m) = orUndefined (mg_externalMessageId m)"
  by (simp_all add: messageColumns_def)

lemma messageMapped_simps [simp]:
  "mg_id (messageMapped m) = mg_id m" "mg_tenantId (messageMapped m) = mg_tenantId m" "mg_status (messageMapped m) = mg_status m"
  "mg_conversationId (messageMapped m) = mg_conversationId m" "mg_content (messageMapped m) = mg_content m"
  "mg_direction (messageMapped m) = mg_direction m" "mg_messageType (messageMapped m) = mg_messageType m"
  "mg_readAt (messageMapped m) = mg_readAt m" "mg_deletedAt (messageMapped m) = mg_deletedAt m"
  "mg_createdAt (messageMapped m) = mg_createdAt m" "mg_channelId (messageMapped m) = mg_channelId m"
  "mg_externalMessageId (messageMapped m) = mg_externalMessageId m" "mg_customerId (messageMapped m) = mg_customerId m"
  by (simp_all add: messageMapped_def)

lemma findMessage_row:
  assumes "findMessage i t db = Some m"
  obtains r where "List.find (sameMessage i t) (mb_messages db) = Some r" "r \<in> set (mb_messages db)" "mg_id r = i" "mg_tenantId r = t"
    "mg_id m = i" "mg_tenantId m = t" "mg_conversationId m = mg_conversationId r" "mg_status m = mg_status r" "mg_createdAt m = mg_createdAt r"
    "mg_channelId m = mg_channelId r" "mg_externalMessageId m = mg_externalMessageId r" "mg_direction m = mg_direction r"
    "mg_messageType m = mg_messageType r" "mg_content m = mg_content r" "mg_customerId m = mg_customerId r"
proof -
  from assms obtain r where r: "List.find (sameMessage i t) (mb_messages db) = Some r" "m = (messageMapped r)\<lparr>
      mg_attachments := findMessageAttachments t i db, mg_reactions := findReactions t i db, mg_mentions := findMessageMentions t i db,
      mg_deliveryStatuses := filter (\<lambda>x. mgd_tenantId x = t \<and> mgd_messageId x = i) (mb_deliveries db)\<rparr>"
    by (auto simp: findMessage_def)
  moreover have "r \<in> set (mb_messages db)" "mg_id r = i" "mg_tenantId r = t"
    using find_Some_set [OF r(1)] by (auto simp: sameMessage_def)
  ultimately show thesis by (intro that [of r]) simp_all
qed

lemma savedMessage_row:
  assumes "mg_tenantId m = t"
  shows "\<exists>now' ca. List.find (sameMessage (mg_id m) t) (saveMessageRow now m t rows) = Some ((messageColumns now' m)\<lparr>mg_createdAt := ca\<rparr>)"
proof (cases "list_ex (sameMessage (mg_id m) t) rows")
  case True
  then obtain r where r: "List.find (sameMessage (mg_id m) t) rows = Some r" using list_ex_find by fastforce
  have "List.find (sameMessage (mg_id m) t) (map (\<lambda>r. if sameMessage (mg_id m) t r then (messageColumns now m)\<lparr>mg_createdAt := mg_createdAt r\<rparr> else r) rs)
    = map_option (\<lambda>r. (messageColumns now m)\<lparr>mg_createdAt := mg_createdAt r\<rparr>) (List.find (sameMessage (mg_id m) t) rs)" for rs
    using assms by (induction rs) (auto simp: sameMessage_def)
  then show ?thesis using True r by (auto simp: saveMessageRow_def)
next
  case False
  then have "List.find (sameMessage (mg_id m) t) (saveMessageRow now m t rows) = Some (messageColumns (mg_createdAt m) m)"
    using assms by (simp add: saveMessageRow_def find_append_new sameMessage_def)
  moreover have "messageColumns n m = (messageColumns n m)\<lparr>mg_createdAt := mg_createdAt m\<rparr>" for n
    by (simp add: messageColumns_def)
  ultimately show ?thesis by metis
qed

lemma saveMessageRow_cases:
  "r \<in> set (saveMessageRow now m t rows) \<Longrightarrow> r \<in> set rows \<or> (\<exists>now' ca. r = (messageColumns now' m)\<lparr>mg_createdAt := ca\<rparr>)"
proof -
  have "messageColumns n m = (messageColumns n m)\<lparr>mg_createdAt := mg_createdAt m\<rparr>" for n by (simp add: messageColumns_def)
  then have "\<exists>now' ca. messageColumns n m = (messageColumns now' m)\<lparr>mg_createdAt := ca\<rparr>" for n by metis
  then show "r \<in> set (saveMessageRow now m t rows) \<Longrightarrow> r \<in> set rows \<or> (\<exists>now' ca. r = (messageColumns now' m)\<lparr>mg_createdAt := ca\<rparr>)"
    by (auto simp: saveMessageRow_def split: if_splits)
qed

lemma find_saved_other:
  assumes "j \<noteq> mg_id m"
  shows "List.find (sameMessage j t) (saveMessageRow now m t' rows) = List.find (sameMessage j t) rows"
proof -
  have "List.find (sameMessage j t) (map (\<lambda>r. if sameMessage (mg_id m) t' r then (messageColumns now m)\<lparr>mg_createdAt := mg_createdAt r\<rparr> else r) rs)
      = List.find (sameMessage j t) rs" for rs
    using assms by (induction rs) (auto simp: sameMessage_def)
  then show ?thesis using assms by (simp add: saveMessageRow_def find_append_other sameMessage_def)
qed

subsection \<open>External identifiers\<close>

text \<open>What the unique index promises of the table.\<close>

definition externalUnique :: "MsgDb \<Rightarrow> bool" where
  "externalUnique db \<longleftrightarrow> list_all (\<lambda>x. \<not> list_ex (externalClash x) (mb_messages db)) (mb_messages db)"

lemma externalUniqueD: "externalUnique db \<Longrightarrow> x \<in> set (mb_messages db) \<Longrightarrow> r \<in> set (mb_messages db) \<Longrightarrow> \<not> externalClash x r"
  by (auto simp: externalUnique_def list_all_iff list_ex_iff)

lemma externalClash_sym: "externalClash x r \<longleftrightarrow> externalClash r x"
  by (auto simp: externalClash_def)

lemma externalClash_columns [simp]:
  "externalClash ((messageColumns now m)\<lparr>mg_createdAt := ca\<rparr>) r \<longleftrightarrow> externalClash (messageColumns now m) r"
  by (simp add: externalClash_def)

lemma saveMessage_keeps_unique:
  assumes "externalUnique db" "saveMessage now m t db = Inr db'"
  shows "externalUnique db'"
proof -
  have ok: "\<not> externalClash (messageColumns n m) r" if "r \<in> set (mb_messages db)" for n r
    using assms(2) that by (auto simp: saveMessage_def list_ex_iff externalClash_def split: if_splits)
  have rows: "mb_messages db' = saveMessageRow now m t (mb_messages db)" using assms(2) by (auto simp: saveMessage_def split: if_splits)
  have "\<not> externalClash x r" if "x \<in> set (mb_messages db')" "r \<in> set (mb_messages db')" for x r
  proof -
    have new: "\<not> externalClash ((messageColumns n m)\<lparr>mg_createdAt := ca\<rparr>) y" if "y \<in> set (mb_messages db)" for n ca y
      using ok that by simp
    have same: "\<not> externalClash ((messageColumns n m)\<lparr>mg_createdAt := ca\<rparr>) ((messageColumns n' m)\<lparr>mg_createdAt := ca'\<rparr>)" for n ca n' ca'
      by (simp add: externalClash_def)
    from that(1) rows consider "x \<in> set (mb_messages db)" | n ca where "x = (messageColumns n m)\<lparr>mg_createdAt := ca\<rparr>"
      using saveMessageRow_cases by metis
    moreover from that(2) rows consider "r \<in> set (mb_messages db)" | n ca where "r = (messageColumns n m)\<lparr>mg_createdAt := ca\<rparr>"
      using saveMessageRow_cases by metis
    ultimately show ?thesis using new same externalUniqueD [OF assms(1)] externalClash_sym by metis
  qed
  then show ?thesis by (auto simp: externalUnique_def list_all_iff list_ex_iff)
qed

lemma no_clash_loaded:
  assumes "externalUnique db" "findMessage i t db = Some m"
    "mg_id m' = i" "mg_tenantId m' = t" "mg_channelId m' = mg_channelId m" "mg_externalMessageId m' = mg_externalMessageId m"
  shows "\<not> list_ex (externalClash (messageColumns now m')) (mb_messages db)"
proof -
  obtain r0 where r0: "r0 \<in> set (mb_messages db)" "mg_id r0 = i" "mg_tenantId r0 = t" "mg_channelId m = mg_channelId r0"
    "mg_externalMessageId m = mg_externalMessageId r0" using findMessage_row [OF assms(2)] by metis
  have "\<not> externalClash (messageColumns now m') r" if "r \<in> set (mb_messages db)" for r
    using externalUniqueD [OF assms(1) r0(1) that] r0(2-5) assms(3-6)
    by (auto simp: externalClash_def orUndefined_def split: if_splits)
  then show ?thesis by (auto simp: list_ex_iff)
qed

subsection \<open>The world\<close>

lemma onConv_app [svc_simps]: "onConv m w = (case m (mw_conv w) of (r, v) \<Rightarrow> (r, w\<lparr>mw_conv := v\<rparr>))"
  by (simp add: onConv_def)

lemma mgNow_app [simp]: "mgNow w = (Inr (vw_now (mw_conv w)), w)"
  by (simp add: mgNow_def onConv_def cvNow_def)

lemma mgUUID_app [simp]:
  "mgUUID w = (Inr (vw_uuid (mw_conv w) (vw_uuidNext (mw_conv w))), w\<lparr>mw_conv := (mw_conv w)\<lparr>vw_uuidNext := vw_uuidNext (mw_conv w) + 1\<rparr>\<rparr>)"
  by (simp add: mgUUID_def onConv_def cvUUID_def)

lemma mgLog_app [simp]:
  "mgLog t u a d w = (Inr (), w\<lparr>mw_conv := (mw_conv w)\<lparr>vw_audit := vw_audit (mw_conv w) @ [(t, u, a, d)]\<rparr>\<rparr>)"
  by (simp add: mgLog_def onConv_def cvLog_def)

lemma mgRead_app [simp]: "mgRead f w = (Inr (f (mw_db w)), w)"
  by (simp add: mgRead_def)

lemma mgWrite_app [simp]: "mgWrite f w = (Inr (), w\<lparr>mw_db := f (vw_now (mw_conv w)) (mw_db w)\<rparr>)"
  by (simp add: mgWrite_def)

lemma chRead_app [simp]: "chRead f w = (Inr (f (mw_channels w)), w)"
  by (simp add: chRead_def)

lemma chWrite_app [simp]: "chWrite f w = (Inr (), w\<lparr>mw_channels := f (vw_now (mw_conv w)) (mw_channels w)\<rparr>)"
  by (simp add: chWrite_def)

lemma mgTryWrite_Inr: "f (vw_now (mw_conv w)) (mw_db w) = Inr db \<Longrightarrow> mgTryWrite f w = (Inr (), w\<lparr>mw_db := db\<rparr>)"
  by (simp add: mgTryWrite_def)

lemma getMessage_ok: "findMessage i t (mw_db w) = Some m \<Longrightarrow> getMessageOrThrow t i w = (Inr m, w)"
  by (simp add: getMessageOrThrow_def svc_simps)

lemma getMessage_unknown: "findMessage i t (mw_db w) = None \<Longrightarrow> getMessageOrThrow t i w = (Inl (NotFoundException (''Message with ID '' @ i @ '' not found'')), w)"
  by (simp add: getMessageOrThrow_def svc_simps)

subsection \<open>Publishing\<close>

definition onlyMsgJobs :: "MsgWorld \<Rightarrow> MsgWorld \<Rightarrow> bool" where
  "onlyMsgJobs w w' \<longleftrightarrow> (\<exists>js. w' = w\<lparr>mw_jobs := mw_jobs w @ js\<rparr>)"

lemma onlyMsgJobs_refl: "onlyMsgJobs w w"
  unfolding onlyMsgJobs_def by (rule exI [of _ "[]"]) simp

lemma onlyMsgJobs_trans: "onlyMsgJobs w w' \<Longrightarrow> onlyMsgJobs w' w'' \<Longrightarrow> onlyMsgJobs w w''"
  by (auto simp: onlyMsgJobs_def)

lemma onlyMsgJobs_keep: "onlyMsgJobs w w' \<Longrightarrow> set (mw_jobs w) \<subseteq> set (mw_jobs w')"
  by (auto simp: onlyMsgJobs_def)

lemma onlyMsgJobs_same:
  assumes "onlyMsgJobs w w'"
  shows "mw_db w' = mw_db w" "mw_channels w' = mw_channels w" "mw_conv w' = mw_conv w" "mw_sessions w' = mw_sessions w"
    "mw_pushed w' = mw_pushed w" "mw_triggerAnswer w' = mw_triggerAnswer w" "mw_triggered w' = mw_triggered w"
  using assms by (auto simp: onlyMsgJobs_def)

interpretation msgJobs: state_frame onlyMsgJobs
  by unfold_locales (auto intro: onlyMsgJobs_refl onlyMsgJobs_trans)

lemma framed_mgAddJob: "framed onlyMsgJobs (mgAddJob j)"
  unfolding framed_def mgAddJob_def using onlyMsgJobs_refl by (auto simp: onlyMsgJobs_def)

lemma framed_publishMessage: "framed onlyMsgJobs (MessageEventPublisher_publish ev)"
  by (auto simp: MessageEventPublisher_publish_def mgBestEffort_def Let_def intro!: msgJobs.frame_rules framed_mgAddJob)

lemma mgBestEffort_ok: "fst (mgBestEffort m w) = Inr ()"
  by (auto simp: mgBestEffort_def svc_simps split: prod.splits sum.splits)

lemma mgPublishAll_ok:
  obtains w' where "mgPublishAll m w = (Inr (m\<lparr>mg_domainEvents := []\<rparr>), w')" "onlyMsgJobs w w'"
proof -
  obtain r w' where run: "forEach (mg_domainEvents m) MessageEventPublisher_publish w = (r, w')" by fastforce
  moreover have "r = Inr ()"
    using forEach_unit_ok [of MessageEventPublisher_publish "mg_domainEvents m" w] run
    by (simp add: MessageEventPublisher_publish_def mgBestEffort_ok Let_def)
  moreover have "onlyMsgJobs w w'"
    using run by (blast intro: framedD msgJobs.frame_forEach framed_publishMessage)
  ultimately show thesis by (intro that [of w']) (simp_all add: mgPublishAll_def)
qed

subsection \<open>The read model\<close>

lemma getSummary_upsert_columns:
  assumes "su_tenantId s = t"
  shows "\<exists>ca. getSummary (su_conversationId s) t (upsertSummary now s t db) = Some ((summaryColumns now t s)\<lparr>su_createdAt := ca\<rparr>)"
proof -
  define same where "same = sameSummary (su_conversationId s) t"
  have upd: "List.find same (map (\<lambda>r. if same r then (summaryColumns now t s)\<lparr>su_createdAt := su_createdAt r\<rparr> else r) rs)
    = map_option (\<lambda>r. (summaryColumns now t s)\<lparr>su_createdAt := su_createdAt r\<rparr>) (List.find same rs)" for rs
    using assms by (induction rs) (auto simp: same_def sameSummary_def summaryColumns_def)
  have new: "same (summaryColumns now t s)" by (simp add: same_def sameSummary_def summaryColumns_def)
  show ?thesis
  proof (cases "list_ex same (vb_summaries db)")
    case True
    then obtain r where "List.find same (vb_summaries db) = Some r" using list_ex_find by fastforce
    with True upd show ?thesis by (auto simp: getSummary_def upsertSummary_def same_def [symmetric] Let_def)
  next
    case False
    with new have "List.find same (vb_summaries db @ [summaryColumns now t s]) = Some (summaryColumns now t s)" by (simp add: find_append_new)
    moreover have "summaryColumns now t s = (summaryColumns now t s)\<lparr>su_createdAt := su_createdAt s\<rparr>" by (simp add: summaryColumns_def)
    ultimately show ?thesis using False by (auto simp: getSummary_def upsertSummary_def same_def [symmetric] Let_def intro: exI [of _ "su_createdAt s"])
  qed
qed

text \<open>The inbox counts what the tables of the messages hold.\<close>

definition inboxCounts :: "uid \<Rightarrow> uid \<Rightarrow> MsgWorld \<Rightarrow> bool" where
  "inboxCounts t c w \<longleftrightarrow>
     map_option (\<lambda>s. (su_unreadCount s, su_totalMessages s, su_totalAttachments s)) (getSummary c t (vw_db (mw_conv w))) =
     Some (let n = countByConversation t c (mw_db w) in (int (mc_unread n), int (mc_total n), int (mc_attachments n)))"

text \<open>What the inbox shows of the last message.\<close>

definition inboxPreview :: "uid \<Rightarrow> uid \<Rightarrow> MsgWorld \<Rightarrow> (string option \<times> string option \<times> millis option) option" where
  "inboxPreview t c w = map_option (\<lambda>s. (su_lastMessage s, su_lastMessageType s, su_lastMessageAt s)) (getSummary c t (vw_db (mw_conv w)))"

text \<open>The parts of the world a refresh leaves alone.\<close>

definition sameOutside :: "MsgWorld \<Rightarrow> MsgWorld \<Rightarrow> bool" where
  "sameOutside w w' \<longleftrightarrow> mw_db w' = mw_db w \<and> mw_channels w' = mw_channels w \<and> mw_sessions w' = mw_sessions w \<and> mw_pushed w' = mw_pushed w \<and>
     mw_jobs w' = mw_jobs w \<and> vw_now (mw_conv w') = vw_now (mw_conv w) \<and> vw_queueUp (mw_conv w') = vw_queueUp (mw_conv w) \<and>
     vb_conversations (vw_db (mw_conv w')) = vb_conversations (vw_db (mw_conv w)) \<and> vw_uuid (mw_conv w') = vw_uuid (mw_conv w)"

lemma preview_not_Nil [simp]: "preview m \<noteq> []"
  by (auto simp: preview_def Let_def orUndefined_def split: option.splits)

lemma inbox_audit [simp]:
  "inboxCounts t c (w\<lparr>mw_conv := (mw_conv w)\<lparr>vw_audit := a\<rparr>\<rparr>) = inboxCounts t c w"
  "inboxPreview t c (w\<lparr>mw_conv := (mw_conv w)\<lparr>vw_audit := a\<rparr>\<rparr>) = inboxPreview t c w"
  by (simp_all add: inboxCounts_def inboxPreview_def)

lemma refresh_ok:
  obtains w' where "refresh t c lm w = (Inr (), w')" "sameOutside w w'" "inboxCounts t c w'"
    "inboxPreview t c w' = Some (case lm of
        Some m \<Rightarrow> (Some (preview m), Some (messageTypeName (mg_messageType m)), Some (mg_createdAt m))
      | None \<Rightarrow> (case getSummary c t (vw_db (mw_conv w)) of None \<Rightarrow> (None, None, None)
                 | Some s \<Rightarrow> (orUndefined (su_lastMessage s), orUndefined (su_lastMessageType s), su_lastMessageAt s)))"
proof -
  let ?ex = "getSummary c t (vw_db (mw_conv w))"
  define i where "i = (case ?ex of Some s \<Rightarrow> su_id s | None \<Rightarrow> vw_uuid (mw_conv w) (vw_uuidNext (mw_conv w)))"
  define u where "u = (case ?ex of Some s \<Rightarrow> vw_uuidNext (mw_conv w) | None \<Rightarrow> vw_uuidNext (mw_conv w) + 1)"
  define s where "s = refreshedSummary (vw_now (mw_conv w)) i t c (countByConversation t c (mw_db w)) lm ?ex"
  define w' where "w' = w\<lparr>mw_conv := (mw_conv w)\<lparr>vw_uuidNext := u, vw_db := upsertSummary (vw_now (mw_conv w)) s t (vw_db (mw_conv w))\<rparr>\<rparr>"
  have run: "refresh t c lm w = (Inr (), w')"
    by (cases ?ex) (simp_all add: refresh_def svc_simps cvRead_def cvWrite_def w'_def s_def i_def u_def)
  have keys: "su_tenantId s = t" "su_conversationId s = c" by (simp_all add: s_def refreshedSummary_def)
  obtain ca where row: "getSummary c t (vw_db (mw_conv w')) = Some ((summaryColumns (vw_now (mw_conv w)) t s)\<lparr>su_createdAt := ca\<rparr>)"
    using getSummary_upsert_columns [OF keys(1)] unfolding keys(2) w'_def by force
  have type: "messageTypeName ty \<noteq> []" for ty by (cases ty) simp_all
  have "sameOutside w w'" by (simp add: sameOutside_def w'_def upsertSummary_def Let_def)
  moreover have "inboxCounts t c w'"
    using row by (simp add: inboxCounts_def Let_def) (simp add: summaryColumns_def s_def refreshedSummary_def w'_def)
  moreover have "inboxPreview t c w' = Some (case lm of
        Some m \<Rightarrow> (Some (preview m), Some (messageTypeName (mg_messageType m)), Some (mg_createdAt m))
      | None \<Rightarrow> (case ?ex of None \<Rightarrow> (None, None, None)
                 | Some s \<Rightarrow> (orUndefined (su_lastMessage s), orUndefined (su_lastMessageType s), su_lastMessageAt s)))"
    using row type
    by (cases ?ex; cases lm) (simp_all add: inboxPreview_def summaryColumns_def s_def refreshedSummary_def)
  ultimately show thesis using run by (intro that)
qed

subsection \<open>Reading back and persisting\<close>

text \<open>The part of a message its row keeps.\<close>

definition keptMessage :: "Message \<Rightarrow> MessageStatusEnum \<times> string option \<times> MessageDirectionEnum \<times> MessageTypeEnum \<times> millis option \<times> millis option \<times> uid" where
  "keptMessage m = (mg_status m, mg_content m, mg_direction m, mg_messageType m, mg_readAt m, mg_deletedAt m, mg_conversationId m)"

lemma saveMessage_ok: "\<not> list_ex (externalClash (messageColumns now m)) (mb_messages db) \<Longrightarrow> \<exists>db'. saveMessage now m t db = Inr db'"
  by (simp add: saveMessage_def)

lemma saveMessage_rows: "saveMessage now m t db = Inr db' \<Longrightarrow> mb_messages db' = saveMessageRow now m t (mb_messages db)"
  by (auto simp: saveMessage_def split: if_splits)

lemma findMessage_save:
  assumes "saveMessage now m t db = Inr db'" "mg_tenantId m = t"
  obtains m' where "findMessage (mg_id m) t db' = Some m'" "keptMessage m' = keptMessage m"
proof -
  obtain n ca where "List.find (sameMessage (mg_id m) t) (mb_messages db') = Some ((messageColumns n m)\<lparr>mg_createdAt := ca\<rparr>)"
    using savedMessage_row [OF assms(2)] saveMessage_rows [OF assms(1)] by metis
  then have "map_option keptMessage (findMessage (mg_id m) t db') = Some (keptMessage m)" by (simp add: findMessage_def keptMessage_def)
  then show thesis using that by auto
qed

lemma findMessage_save_other:
  assumes "saveMessage now m t db = Inr db'" "j \<noteq> mg_id m"
  shows "map_option keptMessage (findMessage j t' db') = map_option keptMessage (findMessage j t' db)"
  using find_saved_other [OF assms(2), of t' now t "mb_messages db"] saveMessage_rows [OF assms(1)]
  by (cases "List.find (sameMessage j t') (mb_messages db)") (simp_all add: findMessage_def keptMessage_def)

definition widgetCopies :: "uid \<Rightarrow> Message \<Rightarrow> MsgWorld \<Rightarrow> (uid \<times> uid \<times> Message) list" where
  "widgetCopies t m w =
     (if mg_direction m = MD_OUTBOUND \<and> mg_messageType m \<noteq> MT_INTERNAL_NOTE
      then map (\<lambda>s. (t, s, m\<lparr>mg_domainEvents := []\<rparr>)) (mw_sessions w t (mg_conversationId m)) else [])"

lemma persistMessage_ok:
  assumes "\<not> list_ex (externalClash (messageColumns (vw_now (mw_conv w)) m)) (mb_messages (mw_db w))"
  obtains w' where "persistMessage m t w = (Inr (m\<lparr>mg_domainEvents := []\<rparr>), w')"
    "saveMessage (vw_now (mw_conv w)) m t (mw_db w) = Inr (mw_db w')" "inboxCounts t (mg_conversationId m) w'"
    "inboxPreview t (mg_conversationId m) w' =
       Some (Some (preview m), Some (messageTypeName (mg_messageType m)), Some (mg_createdAt m))"
    "mw_pushed w' = mw_pushed w @ widgetCopies t m w" "mw_channels w' = mw_channels w" "mw_sessions w' = mw_sessions w"
    "vw_now (mw_conv w') = vw_now (mw_conv w)" "vb_conversations (vw_db (mw_conv w')) = vb_conversations (vw_db (mw_conv w))"
    "vw_queueUp (mw_conv w') = vw_queueUp (mw_conv w)"
proof -
  let ?c = "mg_conversationId m" and ?m' = "m\<lparr>mg_domainEvents := []\<rparr>"
  obtain db where db: "saveMessage (vw_now (mw_conv w)) m t (mw_db w) = Inr db" using saveMessage_ok [OF assms] by blast
  obtain w2 where w2: "refresh t ?c (Some m) (w\<lparr>mw_db := db\<rparr>) = (Inr (), w2)" "sameOutside (w\<lparr>mw_db := db\<rparr>) w2" "inboxCounts t ?c w2"
    "inboxPreview t ?c w2 = Some (Some (preview m), Some (messageTypeName (mg_messageType m)), Some (mg_createdAt m))"
    by (rule refresh_ok [of t ?c "Some m" "w\<lparr>mw_db := db\<rparr>"]) simp
  obtain w3 where w3: "mgPublishAll m w2 = (Inr ?m', w3)" "onlyMsgJobs w2 w3" by (rule mgPublishAll_ok)
  define w4 where "w4 = w3\<lparr>mw_pushed := mw_pushed w3 @ widgetCopies t m w\<rparr>"
  note same = onlyMsgJobs_same [OF w3(2)]
  have push: "pushToWidget t ?m' w3 = (Inr (), w4)"
    using w2(2) same by (simp add: pushToWidget_def w4_def widgetCopies_def sameOutside_def)
  have run: "persistMessage m t w = (Inr ?m', w4)"
    using mgTryWrite_Inr [of "\<lambda>now. saveMessage now m t", OF db] w2(1) w3(1) push
    by (simp only: persistMessage_def applyMessage_def andThen_Inr ret_app)
  have conv: "mw_conv w4 = mw_conv w2" "mw_db w4 = db" using same w2(2) by (simp_all add: w4_def sameOutside_def)
  have both: "mw_db w4 = mw_db w2" using conv(2) w2(2) by (simp add: sameOutside_def)
  show thesis
  proof (rule that)
    show "inboxCounts t ?c w4" using w2(3) by (simp only: inboxCounts_def conv(1) both)
    show "inboxPreview t ?c w4 = Some (Some (preview m), Some (messageTypeName (mg_messageType m)), Some (mg_createdAt m))"
      using w2(4) conv by (simp add: inboxPreview_def)
  qed (use run db conv w2(2) same in \<open>simp_all add: w4_def sameOutside_def\<close>)
qed

text \<open>The shape of the methods that change a loaded message.\<close>

lemma change_message_ok:
  assumes found: "findMessage i t (mw_db w) = Some m" and unique: "externalUnique (mw_db w)"
    and keys: "\<And>now. mg_id (f now m) = mg_id m" "\<And>now. mg_tenantId (f now m) = mg_tenantId m" "\<And>now. mg_channelId (f now m) = mg_channelId m"
      "\<And>now. mg_externalMessageId (f now m) = mg_externalMessageId m" "\<And>now. mg_conversationId (f now m) = mg_conversationId m"
  obtains w' where "changeMessage t i f w = (Inr ((f (vw_now (mw_conv w)) m)\<lparr>mg_domainEvents := []\<rparr>), w')"
    "saveMessage (vw_now (mw_conv w)) (f (vw_now (mw_conv w)) m) t (mw_db w) = Inr (mw_db w')" "inboxCounts t (mg_conversationId m) w'"
    "inboxPreview t (mg_conversationId m) w' = Some (Some (preview (f (vw_now (mw_conv w)) m)),
       Some (messageTypeName (mg_messageType (f (vw_now (mw_conv w)) m))), Some (mg_createdAt (f (vw_now (mw_conv w)) m)))"
    "mw_pushed w' = mw_pushed w @ widgetCopies t (f (vw_now (mw_conv w)) m) w"
proof -
  let ?m = "f (vw_now (mw_conv w)) m"
  have ids: "mg_id m = i" "mg_tenantId m = t" using findMessage_row [OF found] by metis+
  have ok: "\<not> list_ex (externalClash (messageColumns (vw_now (mw_conv w)) ?m)) (mb_messages (mw_db w))"
    by (rule no_clash_loaded [OF unique found]) (simp_all add: keys ids)
  obtain w' where w': "persistMessage ?m t w = (Inr (?m\<lparr>mg_domainEvents := []\<rparr>), w')"
    "saveMessage (vw_now (mw_conv w)) ?m t (mw_db w) = Inr (mw_db w')" "inboxCounts t (mg_conversationId ?m) w'"
    "inboxPreview t (mg_conversationId ?m) w' = Some (Some (preview ?m), Some (messageTypeName (mg_messageType ?m)), Some (mg_createdAt ?m))"
    "mw_pushed w' = mw_pushed w @ widgetCopies t ?m w"
    by (rule persistMessage_ok [OF ok]) blast
  have "changeMessage t i f w = (Inr (?m\<lparr>mg_domainEvents := []\<rparr>), w')"
    using getMessage_ok [OF found] mgNow_app [of w] w'(1) by (simp only: changeMessage_def andThen_Inr)
  then show thesis using w'(2-5) unfolding keys(5) by (intro that)
qed

lemmas message_methods = Message_markRead_def Message_archive_def markDelivered_def markSent_def Message_markFailed_def Message_markRetrying_def
  markProcessing_def editContent_def recordDeliveryStatus_def mgEvent_def mgTouch_def

lemma Message_markRead_sel [simp]:
  "mg_id (Message_markRead now u m) = mg_id m" "mg_tenantId (Message_markRead now u m) = mg_tenantId m"
  "mg_conversationId (Message_markRead now u m) = mg_conversationId m" "mg_channelId (Message_markRead now u m) = mg_channelId m"
  "mg_customerId (Message_markRead now u m) = mg_customerId m" "mg_direction (Message_markRead now u m) = mg_direction m"
  "mg_messageType (Message_markRead now u m) = mg_messageType m" "mg_createdAt (Message_markRead now u m) = mg_createdAt m"
  "mg_deletedAt (Message_markRead now u m) = mg_deletedAt m" "mg_metadata (Message_markRead now u m) = mg_metadata m"
  "mg_content (Message_markRead now u m) = mg_content m" "mg_externalMessageId (Message_markRead now u m) = mg_externalMessageId m"
  "mg_status (Message_markRead now u m) = MS_READ" "mg_readAt (Message_markRead now u m) = Some now"
  "mg_deliveryStatuses (Message_markRead now u m) = mg_deliveryStatuses m"
  by (simp_all add: message_methods)

lemma Message_archive_sel [simp]:
  "mg_id (Message_archive now m) = mg_id m" "mg_tenantId (Message_archive now m) = mg_tenantId m"
  "mg_conversationId (Message_archive now m) = mg_conversationId m" "mg_channelId (Message_archive now m) = mg_channelId m"
  "mg_customerId (Message_archive now m) = mg_customerId m" "mg_direction (Message_archive now m) = mg_direction m"
  "mg_messageType (Message_archive now m) = mg_messageType m" "mg_createdAt (Message_archive now m) = mg_createdAt m"
  "mg_deletedAt (Message_archive now m) = mg_deletedAt m" "mg_metadata (Message_archive now m) = mg_metadata m"
  "mg_content (Message_archive now m) = mg_content m" "mg_externalMessageId (Message_archive now m) = mg_externalMessageId m"
  "mg_readAt (Message_archive now m) = mg_readAt m" "mg_status (Message_archive now m) = MS_ARCHIVED"
  "mg_deliveryStatuses (Message_archive now m) = mg_deliveryStatuses m"
  by (simp_all add: message_methods)

lemma markDelivered_sel [simp]:
  "mg_id (markDelivered now p m) = mg_id m" "mg_tenantId (markDelivered now p m) = mg_tenantId m"
  "mg_conversationId (markDelivered now p m) = mg_conversationId m" "mg_channelId (markDelivered now p m) = mg_channelId m"
  "mg_customerId (markDelivered now p m) = mg_customerId m" "mg_direction (markDelivered now p m) = mg_direction m"
  "mg_messageType (markDelivered now p m) = mg_messageType m" "mg_createdAt (markDelivered now p m) = mg_createdAt m"
  "mg_deletedAt (markDelivered now p m) = mg_deletedAt m" "mg_metadata (markDelivered now p m) = mg_metadata m"
  "mg_content (markDelivered now p m) = mg_content m" "mg_externalMessageId (markDelivered now p m) = mg_externalMessageId m"
  "mg_readAt (markDelivered now p m) = mg_readAt m" "mg_status (markDelivered now p m) = MS_DELIVERED"
  "mg_deliveryStatuses (markDelivered now p m) = mg_deliveryStatuses m"
  by (simp_all add: message_methods)

lemma markSent_sel [simp]:
  "mg_id (markSent now x m) = mg_id m" "mg_tenantId (markSent now x m) = mg_tenantId m"
  "mg_conversationId (markSent now x m) = mg_conversationId m" "mg_channelId (markSent now x m) = mg_channelId m"
  "mg_customerId (markSent now x m) = mg_customerId m" "mg_direction (markSent now x m) = mg_direction m"
  "mg_messageType (markSent now x m) = mg_messageType m" "mg_createdAt (markSent now x m) = mg_createdAt m"
  "mg_deletedAt (markSent now x m) = mg_deletedAt m" "mg_metadata (markSent now x m) = mg_metadata m"
  "mg_content (markSent now x m) = mg_content m" "mg_readAt (markSent now x m) = mg_readAt m" "mg_status (markSent now x m) = MS_SENT"
  "mg_deliveryStatuses (markSent now x m) = mg_deliveryStatuses m"
  by (simp_all add: message_methods)

lemma Message_markFailed_sel [simp]:
  "mg_id (Message_markFailed now r m) = mg_id m" "mg_tenantId (Message_markFailed now r m) = mg_tenantId m"
  "mg_conversationId (Message_markFailed now r m) = mg_conversationId m" "mg_channelId (Message_markFailed now r m) = mg_channelId m"
  "mg_customerId (Message_markFailed now r m) = mg_customerId m" "mg_direction (Message_markFailed now r m) = mg_direction m"
  "mg_messageType (Message_markFailed now r m) = mg_messageType m" "mg_createdAt (Message_markFailed now r m) = mg_createdAt m"
  "mg_deletedAt (Message_markFailed now r m) = mg_deletedAt m" "mg_metadata (Message_markFailed now r m) = mg_metadata m"
  "mg_content (Message_markFailed now r m) = mg_content m" "mg_externalMessageId (Message_markFailed now r m) = mg_externalMessageId m"
  "mg_readAt (Message_markFailed now r m) = mg_readAt m" "mg_status (Message_markFailed now r m) = MS_FAILED"
  "mg_deliveryStatuses (Message_markFailed now r m) = mg_deliveryStatuses m"
  by (simp_all add: message_methods)

lemma Message_markRetrying_sel [simp]:
  "mg_id (Message_markRetrying now n m) = mg_id m" "mg_tenantId (Message_markRetrying now n m) = mg_tenantId m"
  "mg_conversationId (Message_markRetrying now n m) = mg_conversationId m"
  "mg_channelId (Message_markRetrying now n m) = mg_channelId m" "mg_customerId (Message_markRetrying now n m) = mg_customerId m"
  "mg_direction (Message_markRetrying now n m) = mg_direction m" "mg_messageType (Message_markRetrying now n m) = mg_messageType m"
  "mg_createdAt (Message_markRetrying now n m) = mg_createdAt m" "mg_deletedAt (Message_markRetrying now n m) = mg_deletedAt m"
  "mg_metadata (Message_markRetrying now n m) = mg_metadata m" "mg_content (Message_markRetrying now n m) = mg_content m"
  "mg_externalMessageId (Message_markRetrying now n m) = mg_externalMessageId m"
  "mg_readAt (Message_markRetrying now n m) = mg_readAt m" "mg_status (Message_markRetrying now n m) = MS_RETRYING"
  "mg_deliveryStatuses (Message_markRetrying now n m) = mg_deliveryStatuses m"
  by (simp_all add: message_methods)

lemma markProcessing_sel [simp]:
  "mg_id (markProcessing now m) = mg_id m" "mg_tenantId (markProcessing now m) = mg_tenantId m"
  "mg_conversationId (markProcessing now m) = mg_conversationId m" "mg_channelId (markProcessing now m) = mg_channelId m"
  "mg_customerId (markProcessing now m) = mg_customerId m" "mg_direction (markProcessing now m) = mg_direction m"
  "mg_messageType (markProcessing now m) = mg_messageType m" "mg_createdAt (markProcessing now m) = mg_createdAt m"
  "mg_deletedAt (markProcessing now m) = mg_deletedAt m" "mg_metadata (markProcessing now m) = mg_metadata m"
  "mg_content (markProcessing now m) = mg_content m" "mg_externalMessageId (markProcessing now m) = mg_externalMessageId m"
  "mg_readAt (markProcessing now m) = mg_readAt m" "mg_status (markProcessing now m) = MS_PROCESSING"
  "mg_deliveryStatuses (markProcessing now m) = mg_deliveryStatuses m"
  by (simp_all add: message_methods)

lemma recordDeliveryStatus_sel [simp]:
  "mg_id (recordDeliveryStatus now d m) = mg_id m" "mg_tenantId (recordDeliveryStatus now d m) = mg_tenantId m"
  "mg_conversationId (recordDeliveryStatus now d m) = mg_conversationId m"
  "mg_channelId (recordDeliveryStatus now d m) = mg_channelId m" "mg_customerId (recordDeliveryStatus now d m) = mg_customerId m"
  "mg_direction (recordDeliveryStatus now d m) = mg_direction m" "mg_messageType (recordDeliveryStatus now d m) = mg_messageType m"
  "mg_createdAt (recordDeliveryStatus now d m) = mg_createdAt m" "mg_deletedAt (recordDeliveryStatus now d m) = mg_deletedAt m"
  "mg_metadata (recordDeliveryStatus now d m) = mg_metadata m" "mg_content (recordDeliveryStatus now d m) = mg_content m"
  "mg_externalMessageId (recordDeliveryStatus now d m) = mg_externalMessageId m"
  "mg_readAt (recordDeliveryStatus now d m) = mg_readAt m" "mg_status (recordDeliveryStatus now d m) = mg_status m"
  "mg_deliveryStatuses (recordDeliveryStatus now d m) = mg_deliveryStatuses m @ [d]"
  by (simp_all add: message_methods)

lemma editContent_sel [simp]:
  "mg_id (editContent now c h m) = mg_id m" "mg_tenantId (editContent now c h m) = mg_tenantId m"
  "mg_conversationId (editContent now c h m) = mg_conversationId m" "mg_channelId (editContent now c h m) = mg_channelId m"
  "mg_customerId (editContent now c h m) = mg_customerId m" "mg_direction (editContent now c h m) = mg_direction m"
  "mg_messageType (editContent now c h m) = mg_messageType m" "mg_createdAt (editContent now c h m) = mg_createdAt m"
  "mg_deletedAt (editContent now c h m) = mg_deletedAt m" "mg_metadata (editContent now c h m) = mg_metadata m"
  "mg_externalMessageId (editContent now c h m) = mg_externalMessageId m" "mg_readAt (editContent now c h m) = mg_readAt m"
  "mg_deliveryStatuses (editContent now c h m) = mg_deliveryStatuses m"
  by (simp_all add: message_methods)

lemma markSent_external [simp]: "mg_externalMessageId (markSent now None m) = mg_externalMessageId m"
  by (simp add: message_methods)

lemma preview_cong: "mg_content m = mg_content m' \<Longrightarrow> mg_messageType m = mg_messageType m' \<Longrightarrow> preview m = preview m'"
  by (simp only: preview_def)

end
