(* ===== verification/Message_Properties.thy ===== *)
theory Message_Properties
  imports Message_Facts Message_Delivery Conversation_Facts
begin

text \<open>
  What the services of messages promise of the inbox and of the external identifiers, and where the inbox goes wrong: a
  change of an old message makes it the last one, a deleted message stays in the preview, and a status set in bulk is not
  counted.
\<close>

section \<open>A sample world\<close>

text \<open>A conversation with an old message of the customer and a newer answer, on a tenant with a Telegram and a WhatsApp channel.\<close>

definition sampleMessage :: "uid \<Rightarrow> millis \<Rightarrow> MessageDirectionEnum \<Rightarrow> MessageTypeEnum \<Rightarrow> MessageStatusEnum \<Rightarrow> Message" where
  "sampleMessage i at' dir ty st =
     (Message_create at' i ''acme'' ''c1'' (Some ''tg'') (Some ''cust'') None (if dir = MD_INBOUND then ''CUSTOMER'' else ''AGENT'') ty dir
        (Some (''text of '' @ i)) None st (if dir = MD_INBOUND then Some ''7'' else None) None None [])\<lparr>mg_domainEvents := []\<rparr>"

definition sampleDraft :: MessageDraft where
  "sampleDraft = \<lparr>mgf_id = ''d1'', mgf_tenantId = ''acme'', mgf_conversationId = ''c1'', mgf_authorId = ''ann'', mgf_draftContent = ''Hello'',
     mgf_draftType = ''TEXT'', mgf_expiresAt = None, mgf_createdAt = 0, mgf_updatedAt = 0\<rparr>"

definition sampleMsgTemplate :: MessageTemplate where
  "sampleMsgTemplate = \<lparr>mgt_id = ''t1'', mgt_tenantId = ''acme'', mgt_name = ''hello'', mgt_channelType = Some ''EMAIL'', mgt_category = Some ''greeting'',
     mgt_content = Some ''Dear {{name}}'', mgt_contentHtml = Some ''<b>'', mgt_variables = Some [(''name'', JStr ''text'')], mgt_language = Some ''en'',
     mgt_isActive = Some True, mgt_createdAt = 0, mgt_updatedAt = 0, mgt_deletedAt = None\<rparr>"

definition sampleMsgDb :: MsgDb where
  "sampleMsgDb = \<lparr>mb_messages = [sampleMessage ''m1'' 100 MD_INBOUND MT_TEXT MS_DELIVERED, sampleMessage ''m2'' 200 MD_OUTBOUND MT_TEXT MS_QUEUED,
       sampleMessage ''m3'' 150 MD_OUTBOUND MT_INTERNAL_NOTE MS_QUEUED],
     mb_attachments = [], mb_reactions = [], mb_mentions = [], mb_deliveries = [], mb_drafts = [sampleDraft], mb_templates = [sampleMsgTemplate]\<rparr>"

definition sampleChannel :: "uid \<Rightarrow> ChannelTypeEnum \<Rightarrow> Channel" where
  "sampleChannel i ty = (Channel_create 0 i ''acme'' i ty ''NATIVE'' False (Some [(''region'', JStr ''eu'')]))\<lparr>ch_domainEvents := []\<rparr>"

definition sampleWebhook :: "uid \<Rightarrow> ChannelWebhook" where
  "sampleWebhook i = new_ChannelWebhook 0 (''w-'' @ i) ''acme'' i ''https://hook.test'' (Some ''topsecret'') (Some ''token'')"

definition sampleChannelDb :: ChannelDb where
  "sampleChannelDb = \<lparr>hb_channels = [sampleChannel ''tg'' CH_TELEGRAM, sampleChannel ''wa'' CH_WHATSAPP], hb_configurations = [],
     hb_webhooks = [sampleWebhook ''tg'', sampleWebhook ''wa''], hb_templates = [], hb_rateLimits = []\<rparr>"

definition sampleMsgWorld :: MsgWorld where
  "sampleMsgWorld = \<lparr>mw_db = sampleMsgDb, mw_channels = sampleChannelDb, mw_conv = sampleConvWorld, mw_jobs = [],
     mw_sessions = (\<lambda>_ _. [''sess'']), mw_pushed = [], mw_triggerAnswer = (\<lambda>_ _. Inr ()), mw_triggered = [],
     mw_confirmUpload = (\<lambda>_ _. None), mw_scanStatus = (\<lambda>_ _. Some ''PENDING''), mw_signedUrl = (\<lambda>_ _. None), mw_deleteFile = (\<lambda>_ _. True),
     mw_fileCalls = [], mw_customerFor = (\<lambda>_ _ _ _. Inr ''cust''), mw_hmac = (\<lambda>k d. k @ d)\<rparr>"

section \<open>What the inbox shows\<close>

subsection \<open>Samples\<close>

lemmas sample_message_defs = sampleMsgWorld_def sampleMsgDb_def sampleMessage_def Message_create_def mgEvent_def

lemma sample_messages:
  "findMessage ''m1'' ''acme'' (mw_db sampleMsgWorld) = Some (sampleMessage ''m1'' 100 MD_INBOUND MT_TEXT MS_DELIVERED)"
  "findMessage ''m2'' ''acme'' (mw_db sampleMsgWorld) = Some (sampleMessage ''m2'' 200 MD_OUTBOUND MT_TEXT MS_QUEUED)"
  "findMessage ''m3'' ''acme'' (mw_db sampleMsgWorld) = Some (sampleMessage ''m3'' 150 MD_OUTBOUND MT_INTERNAL_NOTE MS_QUEUED)"
  by (simp_all add: sample_message_defs Let_def findMessage_def sameMessage_def messageMapped_def findMessageAttachments_def findReactions_def
      findMessageMentions_def)

lemma sample_unique: "externalUnique (mw_db sampleMsgWorld)"
  by (simp add: externalUnique_def sample_message_defs Let_def externalClash_def)

lemma sample_conversation: "mg_conversationId (sampleMessage i at' dir ty st) = ''c1''"
  by (simp add: sampleMessage_def Message_create_def mgEvent_def Let_def)

subsection \<open>The counters of the inbox\<close>

lemma markRead_ok:
  assumes "findMessage i t (mw_db w) = Some m" "externalUnique (mw_db w)"
  obtains w' where "MessageService_markRead t i u w = (Inr ((Message_markRead (vw_now (mw_conv w)) u m)\<lparr>mg_domainEvents := []\<rparr>), w')"
    "saveMessage (vw_now (mw_conv w)) (Message_markRead (vw_now (mw_conv w)) u m) t (mw_db w) = Inr (mw_db w')"
    "inboxCounts t (mg_conversationId m) w'"
    "inboxPreview t (mg_conversationId m) w' = Some (Some (preview m), Some (messageTypeName (mg_messageType m)), Some (mg_createdAt m))"
proof -
  have same: "preview (Message_markRead now u m) = preview m" for now by (rule preview_cong) simp_all
  show thesis
    by (rule change_message_ok [OF assms, of "\<lambda>now. Message_markRead now u"]) (simp_all, rule that, simp_all add: MessageService_markRead_def same)
qed

lemma archive_ok:
  assumes "findMessage i t (mw_db w) = Some m" "externalUnique (mw_db w)"
  obtains w' where "MessageService_archive t i u w = (Inr ((Message_archive (vw_now (mw_conv w)) m)\<lparr>mg_domainEvents := []\<rparr>), w')"
    "saveMessage (vw_now (mw_conv w)) (Message_archive (vw_now (mw_conv w)) m) t (mw_db w) = Inr (mw_db w')"
    "inboxCounts t (mg_conversationId m) w'"
proof -
  obtain w1 where w1: "changeMessage t i Message_archive w = (Inr ((Message_archive (vw_now (mw_conv w)) m)\<lparr>mg_domainEvents := []\<rparr>), w1)"
    "saveMessage (vw_now (mw_conv w)) (Message_archive (vw_now (mw_conv w)) m) t (mw_db w) = Inr (mw_db w1)" "inboxCounts t (mg_conversationId m) w1"
    by (rule change_message_ok [OF assms, of Message_archive]) simp_all
  let ?w = "w1\<lparr>mw_conv := (mw_conv w1)\<lparr>vw_audit := vw_audit (mw_conv w1) @ [(t, u, ''MESSAGE_ARCHIVE'', ''Archived message '' @ i)]\<rparr>\<rparr>"
  show thesis
  proof (rule that [of ?w])
    show "MessageService_archive t i u w = (Inr ((Message_archive (vw_now (mw_conv w)) m)\<lparr>mg_domainEvents := []\<rparr>), ?w)"
      using w1(1) by (simp add: MessageService_archive_def)
  qed (use w1(2,3) in simp_all)
qed

lemma find_deleted:
  "List.find (sameMessage i t) (map (\<lambda>r. if sameMessage i t r then r\<lparr>mg_deletedAt := Some now, mg_status := MS_ARCHIVED, mg_updatedAt := now\<rparr> else r) rs)
   = map_option (\<lambda>r. r\<lparr>mg_deletedAt := Some now, mg_status := MS_ARCHIVED, mg_updatedAt := now\<rparr>) (List.find (sameMessage i t) rs)"
  by (induction rs) (auto simp: sameMessage_def)

lemma findMessage_deleted:
  assumes "findMessage i t db = Some m"
  shows "map_option (\<lambda>m. (mg_status m, mg_deletedAt m)) (findMessage i t (snd (deleteMessage now i t db))) = Some (MS_ARCHIVED, Some now)"
proof -
  obtain r where r: "List.find (sameMessage i t) (mb_messages db) = Some r" using findMessage_row [OF assms] by metis
  then have "list_ex (sameMessage i t) (mb_messages db)" using find_Some_set [OF r] by (auto simp: list_ex_iff)
  then have "mb_messages (snd (deleteMessage now i t db)) = map (\<lambda>r. if sameMessage i t r
      then r\<lparr>mg_deletedAt := Some now, mg_status := MS_ARCHIVED, mg_updatedAt := now\<rparr> else r) (mb_messages db)"
    by (simp add: deleteMessage_def)
  then have "List.find (sameMessage i t) (mb_messages (snd (deleteMessage now i t db))) =
      Some (r\<lparr>mg_deletedAt := Some now, mg_status := MS_ARCHIVED, mg_updatedAt := now\<rparr>)"
    using r by (simp only: find_deleted option.map)
  then show ?thesis by (simp add: findMessage_def)
qed

lemma delete_ok:
  assumes "findMessage i t (mw_db w) = Some m"
  obtains w' where "MessageService_delete t i u w = (Inr True, w')" "mw_db w' = snd (deleteMessage (vw_now (mw_conv w)) i t (mw_db w))"
    "inboxCounts t (mg_conversationId m) w'"
    "inboxPreview t (mg_conversationId m) w' = Some (case getSummary (mg_conversationId m) t (vw_db (mw_conv w)) of None \<Rightarrow> (None, None, None)
       | Some s \<Rightarrow> (orUndefined (su_lastMessage s), orUndefined (su_lastMessageType s), su_lastMessageAt s))"
proof -
  let ?c = "mg_conversationId m"
  define w1 where "w1 = w\<lparr>mw_db := snd (deleteMessage (vw_now (mw_conv w)) i t (mw_db w))\<rparr>"
  obtain w2 where w2: "refresh t ?c None w1 = (Inr (), w2)" "sameOutside w1 w2" "inboxCounts t ?c w2"
    "inboxPreview t ?c w2 = Some (case getSummary ?c t (vw_db (mw_conv w1)) of None \<Rightarrow> (None, None, None)
       | Some s \<Rightarrow> (orUndefined (su_lastMessage s), orUndefined (su_lastMessageType s), su_lastMessageAt s))"
    by (rule refresh_ok [of t ?c None w1]) simp
  let ?w = "w2\<lparr>mw_conv := (mw_conv w2)\<lparr>vw_audit := vw_audit (mw_conv w2) @ [(t, u, ''MESSAGE_DELETE'', ''Soft deleted message '' @ i)]\<rparr>\<rparr>"
  show thesis
  proof (rule that [of ?w])
    show "MessageService_delete t i u w = (Inr True, ?w)"
      using getMessage_ok [OF assms] w2(1) by (simp add: MessageService_delete_def flip: w1_def)
    show "inboxCounts t ?c ?w" using w2(3) by simp
    show "inboxPreview t ?c ?w = Some (case getSummary ?c t (vw_db (mw_conv w)) of None \<Rightarrow> (None, None, None)
       | Some s \<Rightarrow> (orUndefined (su_lastMessage s), orUndefined (su_lastMessageType s), su_lastMessageAt s))"
      using w2(4) by (simp add: w1_def)
  qed (use w2(2) in \<open>simp add: sameOutside_def w1_def\<close>)
qed

text \<open>C40: Reading, archiving and deleting a message succeed for every known message, write its new status to its row and leave the inbox row
  of its conversation with exactly the unread, total and attachment counts of the message tables.\<close>

theorem message_changes_keep_the_inbox_counters:
  assumes "findMessage i t (mw_db w) = Some m" "externalUnique (mw_db w)"
  shows "(\<exists>m' w'. MessageService_markRead t i u w = (Inr m', w') \<and> map_option mg_status (findMessage i t (mw_db w')) = Some MS_READ \<and>
      externalUnique (mw_db w') \<and> inboxCounts t (mg_conversationId m) w') \<and>
    (\<exists>m' w'. MessageService_archive t i u w = (Inr m', w') \<and> map_option mg_status (findMessage i t (mw_db w')) = Some MS_ARCHIVED \<and>
      externalUnique (mw_db w') \<and> inboxCounts t (mg_conversationId m) w') \<and>
    (\<exists>w'. MessageService_delete t i u w = (Inr True, w') \<and>
      map_option (\<lambda>m. (mg_status m, mg_deletedAt m)) (findMessage i t (mw_db w')) = Some (MS_ARCHIVED, Some (vw_now (mw_conv w))) \<and>
      inboxCounts t (mg_conversationId m) w')"
proof (intro conjI)
  have ids: "mg_id m = i" "mg_tenantId m = t" using findMessage_row [OF assms(1)] by metis+
  have read: "map_option mg_status (findMessage i t db') = Some (mg_status x)"
    if "saveMessage n x t db = Inr db'" "mg_id x = i" "mg_tenantId x = t" for n x db db'
    using findMessage_save [OF that(1,3)] that(2) by (metis keptMessage_def option.simps(9) prod.inject)
  obtain w1 where w1: "MessageService_markRead t i u w = (Inr ((Message_markRead (vw_now (mw_conv w)) u m)\<lparr>mg_domainEvents := []\<rparr>), w1)"
    "saveMessage (vw_now (mw_conv w)) (Message_markRead (vw_now (mw_conv w)) u m) t (mw_db w) = Inr (mw_db w1)" "inboxCounts t (mg_conversationId m) w1"
    by (rule markRead_ok [OF assms]) blast
  show "\<exists>m' w'. MessageService_markRead t i u w = (Inr m', w') \<and> map_option mg_status (findMessage i t (mw_db w')) = Some MS_READ \<and>
      externalUnique (mw_db w') \<and> inboxCounts t (mg_conversationId m) w'"
    using w1(1,3) read [OF w1(2)] saveMessage_keeps_unique [OF assms(2) w1(2)] ids by (intro exI conjI) auto
  obtain w2 where w2: "MessageService_archive t i u w = (Inr ((Message_archive (vw_now (mw_conv w)) m)\<lparr>mg_domainEvents := []\<rparr>), w2)"
    "saveMessage (vw_now (mw_conv w)) (Message_archive (vw_now (mw_conv w)) m) t (mw_db w) = Inr (mw_db w2)" "inboxCounts t (mg_conversationId m) w2"
    by (rule archive_ok [OF assms]) blast
  show "\<exists>m' w'. MessageService_archive t i u w = (Inr m', w') \<and> map_option mg_status (findMessage i t (mw_db w')) = Some MS_ARCHIVED \<and>
      externalUnique (mw_db w') \<and> inboxCounts t (mg_conversationId m) w'"
    using w2(1,3) read [OF w2(2)] saveMessage_keeps_unique [OF assms(2) w2(2)] ids by (intro exI conjI) auto
  obtain w3 where w3: "MessageService_delete t i u w = (Inr True, w3)" "mw_db w3 = snd (deleteMessage (vw_now (mw_conv w)) i t (mw_db w))"
    "inboxCounts t (mg_conversationId m) w3" by (rule delete_ok [OF assms(1)]) blast
  show "\<exists>w'. MessageService_delete t i u w = (Inr True, w') \<and>
      map_option (\<lambda>m. (mg_status m, mg_deletedAt m)) (findMessage i t (mw_db w')) = Some (MS_ARCHIVED, Some (vw_now (mw_conv w))) \<and>
      inboxCounts t (mg_conversationId m) w'"
    using w3(1,3) findMessage_deleted [OF assms(1), of "vw_now (mw_conv w)"] unfolding w3(2) [symmetric] by blast
qed

theorem message_changes_keep_the_inbox_counters_witness:
  "\<exists>m' w'. MessageService_markRead ''acme'' ''m1'' None sampleMsgWorld = (Inr m', w') \<and>
     map_option mg_status (findMessage ''m1'' ''acme'' (mw_db w')) = Some MS_READ \<and> externalUnique (mw_db w') \<and> inboxCounts ''acme'' ''c1'' w'"
  using message_changes_keep_the_inbox_counters [OF sample_messages(1) sample_unique, of None] by (simp add: sample_conversation)

text \<open>Any change of a message makes it the message the inbox shows as the last one of its conversation, with the time it was written,
  however many newer messages the conversation has.\<close>

theorem reading_an_old_message_makes_it_the_last_one:
  assumes "findMessage i t (mw_db w) = Some m" "externalUnique (mw_db w)"
  shows "\<exists>m' w'. MessageService_markRead t i u w = (Inr m', w') \<and>
    inboxPreview t (mg_conversationId m) w' = Some (Some (preview m), Some (messageTypeName (mg_messageType m)), Some (mg_createdAt m))"
  using markRead_ok [OF assms, of u] by metis

theorem reading_an_old_message_makes_it_the_last_one_witness:
  "\<exists>m' w'. MessageService_markRead ''acme'' ''m1'' None sampleMsgWorld = (Inr m', w') \<and>
     inboxPreview ''acme'' ''c1'' w' = Some (Some ''text of m1'', Some ''TEXT'', Some 100) \<and>
     \<not> list_all (\<lambda>r. mg_createdAt r \<le> 100) (mb_messages (mw_db sampleMsgWorld))"
proof -
  have "preview (sampleMessage ''m1'' 100 MD_INBOUND MT_TEXT MS_DELIVERED) = ''text of m1''"
    "messageTypeName (mg_messageType (sampleMessage ''m1'' 100 MD_INBOUND MT_TEXT MS_DELIVERED)) = ''TEXT''"
    "mg_createdAt (sampleMessage ''m1'' 100 MD_INBOUND MT_TEXT MS_DELIVERED) = 100" by code_simp+
  moreover have "\<not> list_all (\<lambda>r. mg_createdAt r \<le> 100) (mb_messages (mw_db sampleMsgWorld))" by code_simp
  ultimately show ?thesis
    using reading_an_old_message_makes_it_the_last_one [OF sample_messages(1) sample_unique, of None] by (simp add: sample_conversation)
qed

text \<open>Deleting a message leaves what the inbox shows as the last message of the conversation, also when it is the deleted one.\<close>

theorem deleted_message_stays_in_the_preview:
  assumes "findMessage i t (mw_db w) = Some m" "getSummary (mg_conversationId m) t (vw_db (mw_conv w)) = Some s" "su_lastMessage s = Some (preview m)"
  shows "\<exists>w' x y. MessageService_delete t i u w = (Inr True, w') \<and> inboxPreview t (mg_conversationId m) w' = Some (Some (preview m), x, y)"
proof -
  obtain w' where w': "MessageService_delete t i u w = (Inr True, w')"
    "inboxPreview t (mg_conversationId m) w' = Some (case getSummary (mg_conversationId m) t (vw_db (mw_conv w)) of None \<Rightarrow> (None, None, None)
       | Some s \<Rightarrow> (orUndefined (su_lastMessage s), orUndefined (su_lastMessageType s), su_lastMessageAt s))"
    by (rule delete_ok [OF assms(1)]) blast
  have "orUndefined (su_lastMessage s) = Some (preview m)" using assms(3) by simp
  with w' assms(2) show ?thesis by auto
qed

definition previewWorld :: MsgWorld where
  "previewWorld = sampleMsgWorld\<lparr>mw_conv := sampleConvWorld\<lparr>vw_db := sampleConvDb\<lparr>vb_summaries :=
     [(sampleSummary ''c1'' (Some 200))\<lparr>su_lastMessage := Some ''text of m2''\<rparr>]\<rparr>\<rparr>\<rparr>"

theorem deleted_message_stays_in_the_preview_witness:
  "\<exists>w' x y. MessageService_delete ''acme'' ''m2'' None previewWorld = (Inr True, w') \<and>
     inboxPreview ''acme'' ''c1'' w' = Some (Some ''text of m2'', x, y)"
proof -
  have found: "findMessage ''m2'' ''acme'' (mw_db previewWorld) = Some (sampleMessage ''m2'' 200 MD_OUTBOUND MT_TEXT MS_QUEUED)"
    using sample_messages(2) by (simp add: previewWorld_def)
  have shownText: "preview (sampleMessage ''m2'' 200 MD_OUTBOUND MT_TEXT MS_QUEUED) = ''text of m2''" by code_simp
  have "getSummary ''c1'' ''acme'' (vw_db (mw_conv previewWorld)) = Some ((sampleSummary ''c1'' (Some 200))\<lparr>su_lastMessage := Some ''text of m2''\<rparr>)"
    by (simp add: previewWorld_def getSummary_def sameSummary_def sampleSummary_def)
  then show ?thesis
    using deleted_message_stays_in_the_preview [OF found, of "(sampleSummary ''c1'' (Some 200))\<lparr>su_lastMessage := Some ''text of m2''\<rparr>" None]
    by (simp add: sample_conversation shownText)
qed

lemma product_map: "List.product xs (map f ys) = map (\<lambda>(a, b). (a, f b)) (List.product xs ys)"
  by (induction xs) auto

text \<open>The counters read only these fields.\<close>

lemma count_map:
  assumes "\<And>r. mg_tenantId (f r) = mg_tenantId r" "\<And>r. mg_conversationId (f r) = mg_conversationId r" "\<And>r. mg_deletedAt (f r) = mg_deletedAt r"
    "\<And>r. mg_readAt (f r) = mg_readAt r" "\<And>r. mg_direction (f r) = mg_direction r" "\<And>r. mg_id (f r) = mg_id r"
  shows "countByConversation t c (db\<lparr>mb_messages := map f (mb_messages db)\<rparr>) = countByConversation t c db"
  by (simp add: countByConversation_def product_map filter_map comp_def split_def assms)

text \<open>Setting the status of messages in bulk changes the status of each of them and nothing the inbox counts: a message set to read keeps its
  empty reading time and stays unread in the counters, and the row of the inbox is not rewritten.\<close>

theorem bulk_status_is_not_counted:
  assumes "i \<in> set is" "findMessage i t (mw_db w) = Some m"
  shows "\<exists>n w'. MessageService_bulkUpdateStatus t is st u w = (Inr n, w') \<and>
    map_option (\<lambda>m. (mg_status m, mg_readAt m)) (findMessage i t (mw_db w')) = Some (st, mg_readAt m) \<and>
    countByConversation t c (mw_db w') = countByConversation t c (mw_db w) \<and> vw_db (mw_conv w') = vw_db (mw_conv w) \<and>
    mw_pushed w' = mw_pushed w \<and> mw_jobs w' = mw_jobs w"
proof -
  let ?hit = "\<lambda>r. mg_tenantId r = t \<and> mg_id r \<in> set is"
  let ?f = "\<lambda>r. if ?hit r then r\<lparr>mg_status := st, mg_updatedAt := vw_now (mw_conv w)\<rparr> else r"
  let ?db = "(mw_db w)\<lparr>mb_messages := map ?f (mb_messages (mw_db w))\<rparr>"
  have bulk: "snd (bulkUpdateMessageStatus (vw_now (mw_conv w)) t is st (mw_db w)) = ?db"
    using assms(1) by (cases "is") (simp_all add: bulkUpdateMessageStatus_def Let_def)
  obtain r where r: "List.find (sameMessage i t) (mb_messages (mw_db w)) = Some r" using findMessage_row [OF assms(2)] by metis
  have "List.find (sameMessage i t) (map ?f rs) = map_option ?f (List.find (sameMessage i t) rs)" for rs
    by (induction rs) (auto simp: sameMessage_def)
  with r have "List.find (sameMessage i t) (mb_messages ?db) = Some (?f r)" by simp
  moreover have "?hit r" "mg_readAt m = mg_readAt r"
    using find_Some_set [OF r] assms r by (auto simp: sameMessage_def findMessage_def)
  ultimately have row: "map_option (\<lambda>m. (mg_status m, mg_readAt m)) (findMessage i t ?db) = Some (st, mg_readAt m)"
    by (simp add: findMessage_def)
  have count: "countByConversation t c ?db = countByConversation t c (mw_db w)" by (rule count_map) simp_all
  show ?thesis
    by (intro exI conjI) (simp add: MessageService_bulkUpdateStatus_def, simp_all add: bulk row count)
qed

theorem bulk_status_is_not_counted_witness:
  "\<exists>n w'. MessageService_bulkUpdateStatus ''acme'' [''m1''] MS_READ None sampleMsgWorld = (Inr n, w') \<and>
     map_option mg_status (findMessage ''m1'' ''acme'' (mw_db w')) = Some MS_READ \<and> mc_unread (countByConversation ''acme'' ''c1'' (mw_db w')) = 1"
proof -
  have "mc_unread (countByConversation ''acme'' ''c1'' (mw_db sampleMsgWorld)) = 1" by code_simp
  moreover obtain n w' where run: "MessageService_bulkUpdateStatus ''acme'' [''m1''] MS_READ None sampleMsgWorld = (Inr n, w')"
    "map_option (\<lambda>m. (mg_status m, mg_readAt m)) (findMessage ''m1'' ''acme'' (mw_db w')) =
       Some (MS_READ, mg_readAt (sampleMessage ''m1'' 100 MD_INBOUND MT_TEXT MS_DELIVERED))"
    "countByConversation ''acme'' ''c1'' (mw_db w') = countByConversation ''acme'' ''c1'' (mw_db sampleMsgWorld)"
    using bulk_status_is_not_counted [OF _ sample_messages(1), of "[''m1'']" MS_READ None "''c1''"] by auto
  moreover have "map_option mg_status (findMessage ''m1'' ''acme'' (mw_db w')) = Some MS_READ" using run(2) by auto
  ultimately show ?thesis by metis
qed

end
