(* ===== verification/Message_Transport.thy ===== *)
theory Message_Transport
  imports Message_Properties
begin

text \<open>
  Delivery: what \<^verbatim>\<open>dispatch\<close> records when it hands a message to the channel queue and when it cannot, what a delivery
  receipt does to the status, and what never happens: the outcome of the channel queue does not reach the message, and a
  created or sent draft is not dispatched. Inbound: an external identifier is stored once per channel.
\<close>

subsection \<open>The ledger\<close>

lemma insertNew_noop: "(\<And>x. x \<in> set new \<Longrightarrow> list_ex (clash x) rows) \<Longrightarrow> insertNew clash new rows = rows"
  by (induction new) (auto simp: insertNew_def)

lemma deliveryColumns_sel [simp]:
  "mgd_id (deliveryColumns d) = mgd_id d" "mgd_status (deliveryColumns d) = mgd_status d" "mgd_attemptCount (deliveryColumns d) = mgd_attemptCount d"
  "mgd_messageId (deliveryColumns d) = mgd_messageId d" "mgd_failureReason (deliveryColumns d) = orUndefined (mgd_failureReason d)"
  by (simp_all add: deliveryColumns_def)

lemma saveDelivery_new:
  assumes "\<not> list_ex (\<lambda>r. mgd_id r = mgd_id d) (mb_deliveries db)"
  shows "saveDeliveryStatus now d t db = db\<lparr>mb_deliveries := mb_deliveries db @ [(deliveryColumns d)\<lparr>mgd_tenantId := t, mgd_updatedAt := now\<rparr>]\<rparr>"
proof -
  have "\<not> list_ex (\<lambda>r. mgd_id r = mgd_id d \<and> mgd_tenantId r = t) (mb_deliveries db)" using assms by (auto simp: list_ex_iff)
  then show ?thesis by (simp add: saveDeliveryStatus_def Let_def)
qed

lemma loaded_deliveries: "findMessage i t db = Some m \<Longrightarrow> set (mg_deliveryStatuses m) \<subseteq> set (mb_deliveries db)"
  by (auto simp: findMessage_def)

text \<open>One attempt adds one row to the ledger, under the message as the attempt left it.\<close>

lemma recordAndPersist_ok:
  assumes found: "findMessage i t (mw_db w) = Some m" and unique: "externalUnique (mw_db w)"
    and fresh: "\<not> list_ex (\<lambda>r. mgd_id r = mgd_id d) (mb_deliveries (mw_db w))"
    and keys: "mg_id m' = i" "mg_tenantId m' = t" "mg_channelId m' = mg_channelId m" "mg_externalMessageId m' = mg_externalMessageId m"
    and ledger: "mg_deliveryStatuses m' = mg_deliveryStatuses m @ [d]"
  obtains w' where "recordAndPersist t d m' w = (Inr (m'\<lparr>mg_domainEvents := []\<rparr>), w')" "mb_messages (mw_db w') = saveMessageRow (vw_now (mw_conv w)) m' t (mb_messages (mw_db w))"
    "mb_deliveries (mw_db w') = mb_deliveries (mw_db w) @ [(deliveryColumns d)\<lparr>mgd_tenantId := t, mgd_updatedAt := vw_now (mw_conv w)\<rparr>]"
    "set (mw_jobs w) \<subseteq> set (mw_jobs w')" "mw_conv w' = mw_conv w" "mw_channels w' = mw_channels w"
proof -
  let ?now = "vw_now (mw_conv w)"
  define db1 where "db1 = saveDeliveryStatus ?now d t (mw_db w)"
  define w1 where "w1 = w\<lparr>mw_db := db1\<rparr>"
  have rows1: "mb_messages db1 = mb_messages (mw_db w)"
    "mb_deliveries db1 = mb_deliveries (mw_db w) @ [(deliveryColumns d)\<lparr>mgd_tenantId := t, mgd_updatedAt := ?now\<rparr>]"
    by (simp_all add: db1_def saveDelivery_new [OF fresh])
  have noClash: "\<not> list_ex (externalClash (messageColumns ?now m')) (mb_messages db1)"
    unfolding rows1 by (rule no_clash_loaded [OF unique found keys])
  then obtain db2 where db2: "saveMessage ?now m' t db1 = Inr db2" using saveMessage_ok by blast
  have "insertNew (\<lambda>x r. mgd_id x = mgd_id r) (map deliveryColumns (mg_deliveryStatuses m')) (mb_deliveries db1) = mb_deliveries db1"
    by (rule insertNew_noop) (use loaded_deliveries [OF found] in \<open>auto simp: ledger rows1 list_ex_iff\<close>)
  with db2 have rows2: "mb_deliveries db2 = mb_deliveries db1" "mb_messages db2 = saveMessageRow ?now m' t (mb_messages db1)"
    by (auto simp: saveMessage_def split: if_splits)
  obtain w2 where w2: "mgPublishAll m' (w1\<lparr>mw_db := db2\<rparr>) = (Inr (m'\<lparr>mg_domainEvents := []\<rparr>), w2)" "onlyMsgJobs (w1\<lparr>mw_db := db2\<rparr>) w2"
    by (rule mgPublishAll_ok)
  have ledgerRow: "mgWrite (\<lambda>now. saveDeliveryStatus now d t) w = (Inr (), w1)" by (simp add: w1_def db1_def)
  have saved: "mgTryWrite (\<lambda>now. saveMessage now m' t) w1 = (Inr (), w1\<lparr>mw_db := db2\<rparr>)"
    by (rule mgTryWrite_Inr) (simp add: w1_def db2)
  have "recordAndPersist t d m' w = (Inr (m'\<lparr>mg_domainEvents := []\<rparr>), w2)"
    using ledgerRow saved w2(1) by (simp only: recordAndPersist_def persistDelivery_def andThen_Inr)
  then show thesis
    using onlyMsgJobs_same [OF w2(2)] onlyMsgJobs_keep [OF w2(2)] rows1 rows2 by (intro that [of w2]) (simp_all add: w1_def)
qed

subsection \<open>Dispatch\<close>

lemma getChannel_ok: "findChannel i t (mw_channels w) = Some c \<Longrightarrow> getChannelOrThrow t i w = (Inr c, w)"
  by (simp add: getChannelOrThrow_def svc_simps)

lemma sendOutgoing_ok:
  assumes "findChannel ch t (mw_channels w) = Some c" "vw_queueUp (mw_conv w)"
  obtains w' where "sendOutgoingMessage t ch r content None w = (Inr (), w')" "mw_db w' = mw_db w" "mw_channels w' = mw_channels w"
    "mw_jobs w' = mw_jobs w @ [(OutgoingMessageJob t ch r content, vw_tenantContext (mw_conv w))]" "vw_now (mw_conv w') = vw_now (mw_conv w)"
proof -
  have run: "sendOutgoingMessage t ch r content None w = (Inr (), w\<lparr>mw_jobs := mw_jobs w @ [(OutgoingMessageJob t ch r content, vw_tenantContext (mw_conv w))],
      mw_conv := (mw_conv w)\<lparr>vw_audit := vw_audit (mw_conv w) @
        [(t, None, ''MESSAGE_OUTGOING_ENQUEUE'', ''Enqueued outgoing message for channel '' @ ch @ '' to '' @ r)]\<rparr>\<rparr>)"
    using assms getChannel_ok [OF assms(1)] by (simp add: sendOutgoingMessage_def mgAddJob_def svc_simps del: append_Cons)
  show thesis by (rule that [OF run]) simp_all
qed

lemma sendOutgoing_fails:
  assumes "findChannel ch t (mw_channels w) = None \<or> \<not> vw_queueUp (mw_conv w)"
  obtains e where "sendOutgoingMessage t ch r content None w = (Inl e, w)" "message e \<noteq> []"
  using assms
  by (cases "findChannel ch t (mw_channels w)") (auto simp: sendOutgoingMessage_def getChannelOrThrow_def mgAddJob_def svc_simps)

lemma saved_status:
  assumes "mb_messages db' = saveMessageRow now m t (mb_messages db)" "mg_tenantId m = t"
  shows "map_option mg_status (findMessage (mg_id m) t db') = Some (mg_status m)"
proof -
  obtain n ca where "List.find (sameMessage (mg_id m) t) (mb_messages db') = Some ((messageColumns n m)\<lparr>mg_createdAt := ca\<rparr>)"
    using savedMessage_row [OF assms(2)] assms(1) by metis
  then show ?thesis by (simp add: findMessage_def)
qed

text \<open>What a dispatchable message is: known, on a channel, with a recipient, and a new identifier for the ledger.\<close>

definition dispatchable :: "uid \<Rightarrow> uid \<Rightarrow> Message \<Rightarrow> uid \<Rightarrow> uid \<Rightarrow> MsgWorld \<Rightarrow> bool" where
  "dispatchable t i m ch cu w \<longleftrightarrow> findMessage i t (mw_db w) = Some m \<and> externalUnique (mw_db w) \<and> mg_channelId m = Some ch \<and> ch \<noteq> [] \<and>
     mg_customerId m = Some cu \<and> cu \<noteq> [] \<and>
     \<not> list_ex (\<lambda>r. mgd_id r = vw_uuid (mw_conv w) (vw_uuidNext (mw_conv w))) (mb_deliveries (mw_db w))"

lemma dispatch_unfold:
  assumes "dispatchable t i m ch cu w"
  shows "dispatchMessage t i w =
    (let w1 = snd (mgUUID w); now = vw_now (mw_conv w);
         delivery = new_MessageDeliveryStatus now (vw_uuid (mw_conv w) (vw_uuidNext (mw_conv w))) t i (providerOf m) None ''PROCESSING''
     in tryCatch
          (andThen (sendOutgoingMessage t ch cu (JStr (orBlank (mg_content m))) None) (\<lambda>_.
           let d = recordAttempt now ''SENT'' None None delivery
           in recordAndPersist t d (markSent now None (recordDeliveryStatus now d m))))
          (\<lambda>e. let d = recordAttempt now ''FAILED'' None (Some (message e)) delivery
               in andThen (recordAndPersist t d (Message_markFailed now (message e) (recordDeliveryStatus now d m))) (\<lambda>_. throw e)) w1)"
  using assms getMessage_ok [of i t w m] by (simp add: dispatchable_def dispatchMessage_def Let_def)

text \<open>Dispatching a message whose channel exists while the queue answers marks it as sent, hands its text to the queue of the channel
  under the identifier of the customer, and adds one successful attempt to the ledger. The type of the message plays no role: an
  internal note is handed over like any other.\<close>

theorem dispatch_marks_sent_when_queued:
  assumes disp: "dispatchable t i m ch cu w" and chan: "findChannel ch t (mw_channels w) = Some c" and up: "vw_queueUp (mw_conv w)"
  shows "\<exists>m' w' d. dispatchMessage t i w = (Inr m', w') \<and> map_option mg_status (findMessage i t (mw_db w')) = Some MS_SENT \<and>
    (OutgoingMessageJob t ch cu (JStr (orBlank (mg_content m))), vw_tenantContext (mw_conv w)) \<in> set (mw_jobs w') \<and>
    mb_deliveries (mw_db w') = mb_deliveries (mw_db w) @ [d] \<and> mgd_status d = ''SENT'' \<and> mgd_attemptCount d = 1"
proof -
  let ?now = "vw_now (mw_conv w)" and ?u = "vw_uuid (mw_conv w) (vw_uuidNext (mw_conv w))"
  define w1 where "w1 = snd (mgUUID w)"
  define d where "d = recordAttempt ?now ''SENT'' None None (new_MessageDeliveryStatus ?now ?u t i (providerOf m) None ''PROCESSING'')"
  define m1 where "m1 = markSent ?now None (recordDeliveryStatus ?now d m)"
  note parts = disp [unfolded dispatchable_def]
  have ids: "mg_id m = i" "mg_tenantId m = t" using findMessage_row [of i t "mw_db w" m] parts by metis+
  obtain w2 where w2: "sendOutgoingMessage t ch cu (JStr (orBlank (mg_content m))) None w1 = (Inr (), w2)" "mw_db w2 = mw_db w"
    "mw_jobs w2 = mw_jobs w @ [(OutgoingMessageJob t ch cu (JStr (orBlank (mg_content m))), vw_tenantContext (mw_conv w))]" "vw_now (mw_conv w2) = ?now"
    by (rule sendOutgoing_ok [of ch t w1 c]) (use chan up in \<open>auto simp: w1_def\<close>)
  have dsel: "mgd_id d = ?u" "mgd_status d = ''SENT''" "mgd_attemptCount d = 1"
    by (simp_all add: d_def recordAttempt_def new_MessageDeliveryStatus_def)
  obtain w3 where w3: "recordAndPersist t d m1 w2 = (Inr (m1\<lparr>mg_domainEvents := []\<rparr>), w3)"
    "mb_messages (mw_db w3) = saveMessageRow ?now m1 t (mb_messages (mw_db w))"
    "mb_deliveries (mw_db w3) = mb_deliveries (mw_db w) @ [(deliveryColumns d)\<lparr>mgd_tenantId := t, mgd_updatedAt := ?now\<rparr>]"
    "set (mw_jobs w2) \<subseteq> set (mw_jobs w3)"
    by (rule recordAndPersist_ok [of i t w2 m d m1]) (use parts ids w2(2,4) dsel in \<open>simp_all add: m1_def\<close>)
  have "dispatchMessage t i w = (Inr (m1\<lparr>mg_domainEvents := []\<rparr>), w3)"
    unfolding dispatch_unfold [OF disp] Let_def d_def [symmetric] m1_def [symmetric] w1_def [symmetric]
    using w2(1) w3(1) by simp
  moreover have "map_option mg_status (findMessage i t (mw_db w3)) = Some MS_SENT"
    using saved_status [OF w3(2)] ids by (simp add: m1_def)
  ultimately show ?thesis using w3(3,4) w2(3) dsel
    by (intro exI [of _ "m1\<lparr>mg_domainEvents := []\<rparr>"] exI [of _ w3] exI [of _ "(deliveryColumns d)\<lparr>mgd_tenantId := t, mgd_updatedAt := ?now\<rparr>"] conjI) auto
qed

text \<open>C24: When the channel is unknown or the queue does not answer, the message is marked as failed, the ledger gets one failed attempt
  with the reason, and the error is thrown on, so that the queue tries the job again.\<close>

theorem dispatch_failure_is_recorded_and_rethrown:
  assumes disp: "dispatchable t i m ch cu w" and bad: "findChannel ch t (mw_channels w) = None \<or> \<not> vw_queueUp (mw_conv w)"
  shows "\<exists>e w' d. dispatchMessage t i w = (Inl e, w') \<and> map_option mg_status (findMessage i t (mw_db w')) = Some MS_FAILED \<and>
    mb_deliveries (mw_db w') = mb_deliveries (mw_db w) @ [d] \<and> mgd_status d = ''FAILED'' \<and> mgd_failureReason d = Some (message e)"
proof -
  let ?now = "vw_now (mw_conv w)" and ?u = "vw_uuid (mw_conv w) (vw_uuidNext (mw_conv w))"
  define w1 where "w1 = snd (mgUUID w)"
  note parts = disp [unfolded dispatchable_def]
  have ids: "mg_id m = i" "mg_tenantId m = t" using findMessage_row [of i t "mw_db w" m] parts by metis+
  obtain e where e: "sendOutgoingMessage t ch cu (JStr (orBlank (mg_content m))) None w1 = (Inl e, w1)" "message e \<noteq> []"
    by (rule sendOutgoing_fails [of ch t w1]) (use bad in \<open>auto simp: w1_def\<close>)
  define d where "d = recordAttempt ?now ''FAILED'' None (Some (message e)) (new_MessageDeliveryStatus ?now ?u t i (providerOf m) None ''PROCESSING'')"
  define m1 where "m1 = Message_markFailed ?now (message e) (recordDeliveryStatus ?now d m)"
  have dsel: "mgd_id d = ?u" "mgd_status d = ''FAILED''" "mgd_failureReason d = Some (message e)"
    by (simp_all add: d_def recordAttempt_def new_MessageDeliveryStatus_def)
  obtain w3 where w3: "recordAndPersist t d m1 w1 = (Inr (m1\<lparr>mg_domainEvents := []\<rparr>), w3)"
    "mb_messages (mw_db w3) = saveMessageRow ?now m1 t (mb_messages (mw_db w))"
    "mb_deliveries (mw_db w3) = mb_deliveries (mw_db w) @ [(deliveryColumns d)\<lparr>mgd_tenantId := t, mgd_updatedAt := ?now\<rparr>]"
    by (rule recordAndPersist_ok [of i t w1 m d m1]) (use parts ids dsel in \<open>simp_all add: m1_def w1_def\<close>)
  have "dispatchMessage t i w = (Inl e, w3)"
    unfolding dispatch_unfold [OF disp] Let_def w1_def [symmetric]
    using e(1) w3(1) by (simp flip: d_def m1_def)
  moreover have "map_option mg_status (findMessage i t (mw_db w3)) = Some MS_FAILED"
    using saved_status [OF w3(2)] ids by (simp add: m1_def)
  ultimately show ?thesis using w3(3) dsel e(2)
    by (intro exI [of _ e] exI [of _ w3] exI [of _ "(deliveryColumns d)\<lparr>mgd_tenantId := t, mgd_updatedAt := ?now\<rparr>"] conjI) auto
qed

lemma sample_dispatchable:
  "dispatchable ''acme'' ''m2'' (sampleMessage ''m2'' 200 MD_OUTBOUND MT_TEXT MS_QUEUED) ''tg'' ''cust'' sampleMsgWorld"
  "dispatchable ''acme'' ''m3'' (sampleMessage ''m3'' 150 MD_OUTBOUND MT_INTERNAL_NOTE MS_QUEUED) ''tg'' ''cust'' sampleMsgWorld"
  using sample_messages sample_unique by (auto simp: dispatchable_def sample_message_defs Let_def)

lemma sample_channel: "\<exists>c. findChannel ''tg'' ''acme'' (mw_channels sampleMsgWorld) = Some c"
  by (simp add: findChannel_def sampleMsgWorld_def sampleChannelDb_def sampleChannel_def Channel_create_def chEvent_def liveChannel_def sameChannel_def)

lemma sample_queue: "vw_queueUp (mw_conv sampleMsgWorld)"
  by (simp add: sampleMsgWorld_def sampleConvWorld_def)

theorem dispatch_marks_sent_when_queued_witness:
  "\<exists>m' w' d. dispatchMessage ''acme'' ''m3'' sampleMsgWorld = (Inr m', w') \<and>
     (OutgoingMessageJob ''acme'' ''tg'' ''cust'' (JStr ''text of m3''), Some ''acme'') \<in> set (mw_jobs w') \<and>
     mb_deliveries (mw_db w') = [d] \<and> mgd_status d = ''SENT''"
proof -
  obtain c where c: "findChannel ''tg'' ''acme'' (mw_channels sampleMsgWorld) = Some c" using sample_channel by blast
  have facts: "orBlank (mg_content (sampleMessage ''m3'' 150 MD_OUTBOUND MT_INTERNAL_NOTE MS_QUEUED)) = ''text of m3''"
    "vw_tenantContext (mw_conv sampleMsgWorld) = Some ''acme''" "mb_deliveries (mw_db sampleMsgWorld) = []" by code_simp+
  show ?thesis
    using dispatch_marks_sent_when_queued [OF sample_dispatchable(2) c sample_queue] unfolding facts append_Nil by blast
qed

theorem dispatch_failure_is_recorded_and_rethrown_witness:
  "\<exists>e w' d. dispatchMessage ''acme'' ''m2'' (sampleMsgWorld\<lparr>mw_channels := \<lparr>hb_channels = [], hb_configurations = [], hb_webhooks = [], hb_templates = [],
       hb_rateLimits = []\<rparr>\<rparr>) = (Inl e, w') \<and> map_option mg_status (findMessage ''m2'' ''acme'' (mw_db w')) = Some MS_FAILED \<and>
     mb_deliveries (mw_db w') = [d] \<and> mgd_status d = ''FAILED'' \<and> mgd_failureReason d = Some (message e)"
proof -
  define w where "w = sampleMsgWorld\<lparr>mw_channels := \<lparr>hb_channels = [], hb_configurations = [], hb_webhooks = [], hb_templates = [], hb_rateLimits = []\<rparr>\<rparr>"
  have disp: "dispatchable ''acme'' ''m2'' (sampleMessage ''m2'' 200 MD_OUTBOUND MT_TEXT MS_QUEUED) ''tg'' ''cust'' w"
    using sample_dispatchable(1) by (simp add: dispatchable_def w_def)
  have none: "findChannel ''tg'' ''acme'' (mw_channels w) = None \<or> \<not> vw_queueUp (mw_conv w)" by (simp add: w_def findChannel_def)
  have "mb_deliveries (mw_db w) = []" by (simp add: w_def sampleMsgWorld_def sampleMsgDb_def)
  then show ?thesis using dispatch_failure_is_recorded_and_rethrown [OF disp none] unfolding w_def [symmetric] by simp
qed

subsection \<open>Receipts\<close>

lemma receipt_sel:
  "mg_id (receiptStatus now st p r m) = mg_id m" "mg_tenantId (receiptStatus now st p r m) = mg_tenantId m"
  "mg_channelId (receiptStatus now st p r m) = mg_channelId m" "mg_conversationId (receiptStatus now st p r m) = mg_conversationId m"
  "mg_deliveryStatuses (receiptStatus now st p r m) = mg_deliveryStatuses m"
  "st \<noteq> ''SENT'' \<Longrightarrow> mg_externalMessageId (receiptStatus now st p r m) = mg_externalMessageId m"
  by (simp_all add: receiptStatus_def)

lemma receipt_status:
  "s \<in> {MS_DELIVERED, MS_READ, MS_FAILED} \<Longrightarrow> mg_status (receiptStatus now (messageStatusName s) p r m) = s"
  by (auto simp: receiptStatus_def)

text \<open>A delivery receipt sets the status it reports, whatever the status was before: the rank of the statuses plays no role, so a
  receipt that arrives late takes the message back. The counters of the inbox follow.\<close>

theorem receipts_win_in_arrival_order:
  assumes found: "findMessage i t (mw_db w) = Some m" and unique: "externalUnique (mw_db w)"
    and fresh: "\<not> list_ex (\<lambda>r. mgd_id r = vw_uuid (mw_conv w) (vw_uuidNext (mw_conv w))) (mb_deliveries (mw_db w))"
    and s: "s \<in> {MS_DELIVERED, MS_READ, MS_FAILED}"
  shows "\<exists>m' w'. applyDeliveryReceipt t i (messageStatusName s) p r w = (Inr m', w') \<and> map_option mg_status (findMessage i t (mw_db w')) = Some s \<and>
    length (mb_deliveries (mw_db w')) = length (mb_deliveries (mw_db w)) + 1 \<and> inboxCounts t (mg_conversationId m) w'"
proof -
  let ?now = "vw_now (mw_conv w)" and ?u = "vw_uuid (mw_conv w) (vw_uuidNext (mw_conv w))" and ?st = "messageStatusName s"
  define w1 where "w1 = snd (mgUUID w)"
  define d where "d = recordAttempt ?now ?st p r (new_MessageDeliveryStatus ?now ?u t i None p ?st)"
  define m1 where "m1 = recordDeliveryStatus ?now d (receiptStatus ?now ?st p r m)"
  have ids: "mg_id m = i" "mg_tenantId m = t" using findMessage_row [OF found] by metis+
  have notSent: "?st \<noteq> ''SENT''" using s by auto
  have dsel: "mgd_id d = ?u" by (simp add: d_def recordAttempt_def new_MessageDeliveryStatus_def)
  obtain w2 where w2: "recordAndPersist t d m1 w1 = (Inr (m1\<lparr>mg_domainEvents := []\<rparr>), w2)"
    "mb_messages (mw_db w2) = saveMessageRow ?now m1 t (mb_messages (mw_db w))"
    "mb_deliveries (mw_db w2) = mb_deliveries (mw_db w) @ [(deliveryColumns d)\<lparr>mgd_tenantId := t, mgd_updatedAt := ?now\<rparr>]"
    by (rule recordAndPersist_ok [of i t w1 m d m1]) (use found unique fresh ids dsel notSent in \<open>simp_all add: m1_def w1_def receipt_sel\<close>)
  obtain w3 where w3: "refresh t (mg_conversationId m) None w2 = (Inr (), w3)" "sameOutside w2 w3" "inboxCounts t (mg_conversationId m) w3"
    by (rule refresh_ok [of t "mg_conversationId m" None w2]) blast
  have "applyDeliveryReceipt t i ?st p r w =
      andThen (recordAndPersist t d m1) (\<lambda>m'. andThen (refresh t (mg_conversationId m) None) (\<lambda>_. ret m')) w1"
    using getMessage_ok [OF found] by (simp add: applyDeliveryReceipt_def recordAndPersist_def andThen_assoc Let_def w1_def d_def m1_def)
  then have "applyDeliveryReceipt t i ?st p r w = (Inr (m1\<lparr>mg_domainEvents := []\<rparr>), w3)" using w2(1) w3(1) by simp
  moreover have "map_option mg_status (findMessage i t (mw_db w3)) = Some s"
    using saved_status [OF w2(2)] w3(2) ids receipt_status [OF s] by (simp add: m1_def receipt_sel sameOutside_def)
  ultimately show ?thesis using w2(3) w3(2,3) by (intro exI conjI) (auto simp: sameOutside_def)
qed

definition readWorld :: MsgWorld where
  "readWorld = sampleMsgWorld\<lparr>mw_db := sampleMsgDb\<lparr>mb_messages := [sampleMessage ''m2'' 200 MD_OUTBOUND MT_TEXT MS_READ]\<rparr>\<rparr>"

theorem receipts_win_in_arrival_order_witness:
  "\<exists>m' w'. applyDeliveryReceipt ''acme'' ''m2'' ''DELIVERED'' None None readWorld = (Inr m', w') \<and>
     map_option mg_status (findMessage ''m2'' ''acme'' (mw_db w')) = Some MS_DELIVERED \<and> STATUS_RANK MS_DELIVERED < STATUS_RANK MS_READ"
proof -
  have found: "findMessage ''m2'' ''acme'' (mw_db readWorld) = Some (sampleMessage ''m2'' 200 MD_OUTBOUND MT_TEXT MS_READ)"
    by (simp add: readWorld_def sample_message_defs Let_def findMessage_def sameMessage_def messageMapped_def findMessageAttachments_def
        findReactions_def findMessageMentions_def)
  have unique: "externalUnique (mw_db readWorld)" by (simp add: readWorld_def externalUnique_def sample_message_defs Let_def externalClash_def)
  have "\<not> list_ex (\<lambda>r. mgd_id r = vw_uuid (mw_conv readWorld) (vw_uuidNext (mw_conv readWorld))) (mb_deliveries (mw_db readWorld))"
    by (simp add: readWorld_def sampleMsgDb_def)
  from receipts_win_in_arrival_order [OF found unique this, of MS_DELIVERED None None] show ?thesis by auto
qed

end
