(* ===== verification/Message_Inbound.thy ===== *)
theory Message_Inbound
  imports Message_Properties
begin

text \<open>
  Inbound messages: an external identifier is stored once per channel, every message without a conversation opens a new
  one, and two messages of different Telegram chats with the same number are taken for one.
\<close>

subsection \<open>Frames\<close>

text \<open>The tables of the messages stay, and identifiers are only drawn.\<close>

definition sameMsgDb :: "MsgWorld \<Rightarrow> MsgWorld \<Rightarrow> bool" where
  "sameMsgDb w w' \<longleftrightarrow> mw_db w' = mw_db w \<and> mw_channels w' = mw_channels w"

interpretation msgDb: state_frame sameMsgDb
  by unfold_locales (auto simp: sameMsgDb_def)

lemma framed_onConv: "framed sameMsgDb (onConv m)"
  by (auto simp: framed_def sameMsgDb_def onConv_def split: prod.splits)

lemma framed_addJob_db: "framed sameMsgDb (mgAddJob j)"
  by (auto simp: framed_def sameMsgDb_def mgAddJob_def)

lemma framed_publishAll_db: "framed sameMsgDb (mgPublishAll m)"
  by (auto simp: mgPublishAll_def MessageEventPublisher_publish_def mgBestEffort_def Let_def intro!: msgDb.frame_rules framed_addJob_db)

lemma framed_refresh_db: "framed sameMsgDb (refresh t c lm)"
  by (auto simp: refresh_def mgRead_def mgUUID_def mgNow_def intro!: msgDb.frame_rules framed_onConv split: option.splits)

lemma framed_resolve_db: "framed sameMsgDb (resolveConversationId t dto)"
  by (auto simp: resolveConversationId_def intro!: msgDb.frame_rules framed_onConv)

definition idsGrow :: "ConvWorld \<Rightarrow> ConvWorld \<Rightarrow> bool" where
  "idsGrow v v' \<longleftrightarrow> vw_uuid v' = vw_uuid v \<and> vw_uuidNext v \<le> vw_uuidNext v'"

interpretation ids: state_frame idsGrow
  by unfold_locales (auto simp: idsGrow_def)

lemma framed_cvUUID: "framed idsGrow cvUUID"
  by (simp add: framed_def cvUUID_def idsGrow_def)

lemma framed_cvAddJob_ids: "framed idsGrow (cvAddJob j)"
  by (auto simp: framed_def cvAddJob_def idsGrow_def)

lemma framed_cvWrite: "framed idsGrow (cvWrite f)"
  by (simp add: framed_def cvWrite_def idsGrow_def)

lemma framed_cvLog: "framed idsGrow (cvLog a b c d)"
  by (simp add: framed_def cvLog_def idsGrow_def)

lemmas ids_rules = ids.frame_rules framed_cvUUID framed_cvAddJob_ids framed_cvWrite framed_cvLog

lemma framed_rebuild: "framed idsGrow (rebuild t i)"
  unfolding rebuild_def cvRead_def cvNow_def Let_def
  by (intro ids.frame_andThen ids.frame_asks) (auto intro!: ids_rules split: option.splits)

lemma framed_persistConversation: "framed idsGrow (persistConversation c t)"
  by (auto simp: persistConversation_def cvPublishAll_def ConversationEventPublisher_publish_def bestEffort_def Let_def intro!: ids_rules framed_rebuild)

definition msgIdsGrow :: "MsgWorld \<Rightarrow> MsgWorld \<Rightarrow> bool" where
  "msgIdsGrow w w' \<longleftrightarrow> idsGrow (mw_conv w) (mw_conv w')"

interpretation msgIds: state_frame msgIdsGrow
  by unfold_locales (auto simp: msgIdsGrow_def intro: ids.R_trans simp: idsGrow_def)

lemma framed_onConv_ids: "framed idsGrow m \<Longrightarrow> framed msgIdsGrow (onConv m)"
  unfolding framed_def [of msgIdsGrow] by (auto simp: msgIdsGrow_def onConv_def split: prod.splits dest: framedD)

lemma framed_same_conv: "(\<And>w. mw_conv (snd (m w)) = mw_conv w) \<Longrightarrow> framed msgIdsGrow m"
  by (auto simp: framed_def msgIdsGrow_def idsGrow_def)

lemma framed_publishAll_ids: "framed msgIdsGrow (mgPublishAll m)"
  by (rule framed_same_conv) (metis mgPublishAll_ok onlyMsgJobs_same(3) snd_conv)

lemma framed_refresh_ids: "framed msgIdsGrow (refresh t c lm)"
  by (auto simp: refresh_def mgRead_def mgUUID_def mgNow_def cvRead_def cvNow_def intro!: msgIds.frame_rules framed_onConv_ids ids_rules split: option.splits)

subsection \<open>Opening a conversation\<close>

lemma conversation_created:
  assumes "ConversationService_create t dto u v = (Inr c, v')"
  shows "cv_id c = vw_uuid v (vw_uuidNext v) \<and> vw_uuid v' = vw_uuid v \<and> vw_uuidNext v < vw_uuidNext v'"
proof -
  let ?v = "v\<lparr>vw_uuidNext := vw_uuidNext v + 2\<rparr>"
  from assms obtain c0 v1 where run: "persistConversation c0 t ?v = (Inr c, v1)" and id0: "cv_id c0 = vw_uuid v (vw_uuidNext v)"
      "cv_tenantId c0 = t" and v': "vw_uuid v' = vw_uuid v1" "vw_uuidNext v' = vw_uuidNext v1"
    by (auto simp: ConversationService_create_def cvRead_def cvUUID_def cvNow_def cvLog_def svc_simps Let_def
        addParticipant_def Conversation_create_def cvEvent_def cvTouch_def split: sum.splits prod.splits)
  have "c = c0\<lparr>cv_domainEvents := []\<rparr>" by (rule persistConversation_ok [OF id0(2), of ?v]) (use run in simp)
  moreover have "idsGrow ?v v1" using run by (blast intro: framedD framed_persistConversation)
  ultimately show ?thesis using id0(1) v' by (simp add: idsGrow_def)
qed

subsection \<open>Ingesting\<close>

text \<open>The message an inbound request stores.\<close>

definition inboundMessage :: "millis \<Rightarrow> uid \<Rightarrow> uid \<Rightarrow> uid \<Rightarrow> InboundMessageDto \<Rightarrow> Message" where
  "inboundMessage now i t conversationId dto =
     Message_create now i t conversationId (Some (imd_channelId dto)) (imd_customerId dto) None ''CUSTOMER'' (patched (imd_messageType dto) MT_TEXT)
       MD_INBOUND (Some (orBlank (imd_content dto))) None MS_DELIVERED (imd_externalMessageId dto) None None (patched (imd_metadata dto) [])"

lemma inboundMessage_sel:
  "mg_id (inboundMessage now i t c dto) = i" "mg_tenantId (inboundMessage now i t c dto) = t" "mg_conversationId (inboundMessage now i t c dto) = c"
  "mg_channelId (inboundMessage now i t c dto) = Some (imd_channelId dto)"
  "mg_externalMessageId (inboundMessage now i t c dto) = imd_externalMessageId dto"
  by (simp_all add: inboundMessage_def Message_create_def mgEvent_def Let_def)

lemma mgTryWrite_InrE:
  assumes "mgTryWrite f w = (Inr u, w')"
  obtains db where "f (vw_now (mw_conv w)) (mw_db w) = Inr db" "w' = w\<lparr>mw_db := db\<rparr>"
  using assms by (auto simp: mgTryWrite_def split: sum.splits)

lemma ingest_stored:
  assumes "ingest t dto w = (Inr (Some m), w')"
  obtains now i c w1 db where "resolveConversationId t dto w = (Inr c, w1)" "saveMessage now (inboundMessage now i t c dto) t (mw_db w) = Inr db"
    "mw_db w' = db" "m = (inboundMessage now i t c dto)\<lparr>mg_domainEvents := []\<rparr>" "msgIdsGrow w1 w'" "imd_channelId dto \<noteq> []"
proof -
  from assms obtain ex where valid: "validateInbound dto = Inr ()" and none: "ex = None" and
    ex: "(if truthy (imd_externalMessageId dto) then findByExternalId t (Some (imd_channelId dto)) (the (imd_externalMessageId dto)) (mw_db w) else None) = ex"
    by (auto simp: ingest_def svc_simps split: if_splits sum.splits)
  from assms obtain c w1 where res: "resolveConversationId t dto w = (Inr c, w1)"
    by (auto simp: ingest_def svc_simps split: if_splits sum.splits prod.splits)
  let ?now = "vw_now (mw_conv w1)" and ?i = "vw_uuid (mw_conv w1) (vw_uuidNext (mw_conv w1))"
  define w2 where "w2 = snd (mgUUID w1)"
  define m0 where "m0 = inboundMessage ?now ?i t c dto"
  have "ingest t dto w = andThen (mgTryWrite (\<lambda>now. saveMessage now m0 t)) (\<lambda>_. andThen (applyMessage t m0) (\<lambda>_. andThen (mgPublishAll m0) (\<lambda>m'.
      andThen (mgLog t None ''MESSAGE_RECEIVE'' (''Persisted inbound message '' @ ?i @ '' on channel '' @ imd_channelId dto)) (\<lambda>_. ret (Some m'))))) w2"
  proof -
    have "liftR (validateInbound dto) w = (Inr (), w)" using valid by (simp add: liftR_def)
    moreover have "(if truthy (imd_externalMessageId dto)
        then mgRead (findByExternalId t (Some (imd_channelId dto)) (the (imd_externalMessageId dto))) else ret None) w = (Inr None, w)"
      using ex none by (auto split: if_splits)
    ultimately show ?thesis using res by (simp add: ingest_def m0_def w2_def inboundMessage_def Let_def del: append_Cons)
  qed
  with assms obtain u w3 where w3: "mgTryWrite (\<lambda>now. saveMessage now m0 t) w2 = (Inr u, w3)" and
    rest: "andThen (applyMessage t m0) (\<lambda>_. andThen (mgPublishAll m0) (\<lambda>m'.
      andThen (mgLog t None ''MESSAGE_RECEIVE'' (''Persisted inbound message '' @ ?i @ '' on channel '' @ imd_channelId dto)) (\<lambda>_. ret (Some m')))) w3 = (Inr (Some m), w')"
    by (auto elim!: andThen_InrE)
  obtain db where db: "saveMessage (vw_now (mw_conv w2)) m0 t (mw_db w2) = Inr db" "w3 = w2\<lparr>mw_db := db\<rparr>"
    using w3 by (rule mgTryWrite_InrE)
  from rest obtain u' w4 where w4: "applyMessage t m0 w3 = (Inr u', w4)" and rest4: "andThen (mgPublishAll m0) (\<lambda>m'.
      andThen (mgLog t None ''MESSAGE_RECEIVE'' (''Persisted inbound message '' @ ?i @ '' on channel '' @ imd_channelId dto)) (\<lambda>_. ret (Some m'))) w4 = (Inr (Some m), w')"
    by (rule andThen_InrE)
  obtain w5 where w5: "mgPublishAll m0 w4 = (Inr (m0\<lparr>mg_domainEvents := []\<rparr>), w5)" "onlyMsgJobs w4 w5" by (rule mgPublishAll_ok)
  have out: "m = m0\<lparr>mg_domainEvents := []\<rparr>" "mw_db w' = mw_db w5" "vw_uuid (mw_conv w') = vw_uuid (mw_conv w5)" "vw_uuidNext (mw_conv w') = vw_uuidNext (mw_conv w5)"
    using rest4 w5(1) by (auto simp: mgLog_app simp del: append_Cons)
  have "sameMsgDb w3 w4" "msgIdsGrow w3 w4"
    using w4 framedD [OF framed_refresh_db] framedD [OF framed_refresh_ids] by (auto simp: applyMessage_def)
  moreover have "mw_db w2 = mw_db w" using framedD [OF framed_resolve_db res] by (simp add: w2_def sameMsgDb_def)
  moreover have "vw_now (mw_conv w2) = ?now" by (simp add: w2_def)
  ultimately show thesis
    using db out onlyMsgJobs_same [OF w5(2)] res valid
    by (intro that [of c w1 ?now ?i db])
      (auto simp: m0_def sameMsgDb_def msgIdsGrow_def idsGrow_def w2_def validateInbound_def split: if_splits)
qed

lemma stored_is_found:
  assumes "saveMessage now m t db = Inr db'" "mg_tenantId m = t" "mg_channelId m = Some ch" "ch \<noteq> []" "mg_externalMessageId m = Some x" "x \<noteq> []"
  shows "findByExternalId t (Some ch) x db' \<noteq> None"
proof -
  obtain n ca where "List.find (sameMessage (mg_id m) t) (mb_messages db') = Some ((messageColumns n m)\<lparr>mg_createdAt := ca\<rparr>)"
    using savedMessage_row [OF assms(2)] saveMessage_rows [OF assms(1)] by metis
  then have "(messageColumns n m)\<lparr>mg_createdAt := ca\<rparr> \<in> set (mb_messages db')" using find_Some_set by fast
  then have "list_ex (\<lambda>r. mg_tenantId r = t \<and> mg_externalMessageId r = Some x \<and> wanted (Some ch) (mg_channelId r)) (mb_messages db')"
    unfolding list_ex_iff using assms(2-6) by (intro bexI [of _ "(messageColumns n m)\<lparr>mg_createdAt := ca\<rparr>"]) (simp_all add: wanted_def)
  then show ?thesis by (auto simp: findByExternalId_def find_None_iff list_ex_iff)
qed

text \<open>C27: A message with an external identifier is stored once per channel: when the provider sends it again, whatever else the second
  request says, it is reported as a duplicate and nothing changes.\<close>

theorem ingest_is_idempotent:
  assumes first: "ingest t dto w = (Inr (Some m), w')" and ext: "truthy (imd_externalMessageId dto)"
    and again: "imd_channelId dto' = imd_channelId dto" "imd_externalMessageId dto' = imd_externalMessageId dto" "validateInbound dto' = Inr ()"
  shows "ingest t dto' w' = (Inr None, w')"
proof -
  obtain now i c w1 db where stored: "saveMessage now (inboundMessage now i t c dto) t (mw_db w) = Inr db" "mw_db w' = db" "imd_channelId dto \<noteq> []"
    by (rule ingest_stored [OF first]) blast
  from ext obtain x where x: "imd_externalMessageId dto = Some x" "x \<noteq> []" by (cases "imd_externalMessageId dto") auto
  have "findByExternalId t (Some (imd_channelId dto)) x (mw_db w') \<noteq> None"
    unfolding stored(2) by (rule stored_is_found [OF stored(1)]) (use stored(3) x in \<open>simp_all add: inboundMessage_sel\<close>)
  then show ?thesis using again x by (simp add: ingest_def svc_simps)
qed

text \<open>Two inbound messages that name no conversation are put into two different conversations, also when they come from one customer on
  one channel.\<close>

theorem every_inbound_message_opens_a_conversation:
  assumes "ingest t dto1 w = (Inr (Some m1), w1)" "ingest t dto2 w1 = (Inr (Some m2), w2)"
    "\<not> truthy (imd_conversationId dto1)" "\<not> truthy (imd_conversationId dto2)" "inj (vw_uuid (mw_conv w))"
  shows "mg_conversationId m1 \<noteq> mg_conversationId m2"
proof -
  have new: "\<exists>v. mg_conversationId m = vw_uuid (mw_conv x) (vw_uuidNext (mw_conv x)) \<and> vw_uuid v = vw_uuid (mw_conv x) \<and>
      vw_uuidNext (mw_conv x) < vw_uuidNext v \<and> idsGrow v (mw_conv x')"
    if run: "ingest t dto x = (Inr (Some m), x')" and noConv: "\<not> truthy (imd_conversationId dto)" for dto x m x'
  proof -
    obtain now i c y db where st: "resolveConversationId t dto x = (Inr c, y)" "m = (inboundMessage now i t c dto)\<lparr>mg_domainEvents := []\<rparr>" "msgIdsGrow y x'"
      by (rule ingest_stored [OF run]) blast
    from st(1) noConv obtain cv v where "ConversationService_create t (inboundConversation dto) None (mw_conv x) = (Inr cv, v)" "c = cv_id cv" "mw_conv y = v"
      by (auto simp: resolveConversationId_def onConv_def svc_simps split: prod.splits sum.splits)
    with conversation_created [of t "inboundConversation dto" None "mw_conv x" cv v] st(2,3) show ?thesis
      by (auto simp: inboundMessage_sel msgIdsGrow_def)
  qed
  obtain v1 where v1: "mg_conversationId m1 = vw_uuid (mw_conv w) (vw_uuidNext (mw_conv w))" "vw_uuid v1 = vw_uuid (mw_conv w)"
    "vw_uuidNext (mw_conv w) < vw_uuidNext v1" "idsGrow v1 (mw_conv w1)" using new [OF assms(1,3)] by blast
  have "mg_conversationId m2 = vw_uuid (mw_conv w1) (vw_uuidNext (mw_conv w1))" using new [OF assms(2,4)] by blast
  with v1 show ?thesis by (simp add: idsGrow_def inj_eq [OF assms(5)])
qed

subsection \<open>Witnesses\<close>

definition sampleInbound :: "string \<Rightarrow> InboundMessageDto" where
  "sampleInbound x = \<lparr>imd_channelId = ''tg'', imd_conversationId = None, imd_customerId = Some ''cust'', imd_externalMessageId = Some x,
     imd_messageType = None, imd_content = Some ''hello'', imd_metadata = None\<rparr>"

definition emptyInboundWorld :: MsgWorld where
  "emptyInboundWorld = sampleMsgWorld\<lparr>mw_db := \<lparr>mb_messages = [], mb_attachments = [], mb_reactions = [], mb_mentions = [], mb_deliveries = [],
       mb_drafts = [], mb_templates = []\<rparr>,
     mw_conv := sampleConvWorld\<lparr>vw_uuid := (\<lambda>n. replicate n (CHR ''u'')), vw_queueUp := False\<rparr>\<rparr>"

definition isStored :: "exn + Message option \<Rightarrow> bool" where
  "isStored r = (case r of Inr (Some m) \<Rightarrow> True | _ \<Rightarrow> False)"

lemma isStored_iff: "isStored r \<longleftrightarrow> (\<exists>m. r = Inr (Some m))"
  by (auto simp: isStored_def split: sum.splits option.splits)

lemma sample_ingested_twice:
  obtains m1 w1 m2 w2 where "ingest ''acme'' (sampleInbound ''8'') emptyInboundWorld = (Inr (Some m1), w1)"
    "ingest ''acme'' (sampleInbound ''9'') w1 = (Inr (Some m2), w2)"
proof -
  have "(case ingest ''acme'' (sampleInbound ''8'') emptyInboundWorld of (r, w1) \<Rightarrow>
      isStored r \<and> isStored (fst (ingest ''acme'' (sampleInbound ''9'') w1)))" by code_simp
  then show thesis by (auto simp: isStored_iff intro: that split: prod.splits) (metis prod.collapse that)
qed

lemma inj_replicate: "inj (\<lambda>n. replicate n a)"
  by (rule injI) (metis length_replicate)

theorem ingest_is_idempotent_witness:
  "\<exists>m w'. ingest ''acme'' (sampleInbound ''8'') emptyInboundWorld = (Inr (Some m), w') \<and>
     ingest ''acme'' ((sampleInbound ''8'')\<lparr>imd_content := Some ''hello again''\<rparr>) w' = (Inr None, w')"
proof -
  obtain m w' where first: "ingest ''acme'' (sampleInbound ''8'') emptyInboundWorld = (Inr (Some m), w')" by (rule sample_ingested_twice)
  have "ingest ''acme'' ((sampleInbound ''8'')\<lparr>imd_content := Some ''hello again''\<rparr>) w' = (Inr None, w')"
    by (rule ingest_is_idempotent [OF first]) (simp_all add: sampleInbound_def validateInbound_def)
  with first show ?thesis by blast
qed

theorem every_inbound_message_opens_a_conversation_witness:
  "\<exists>m1 w1 m2 w2. ingest ''acme'' (sampleInbound ''8'') emptyInboundWorld = (Inr (Some m1), w1) \<and>
     ingest ''acme'' (sampleInbound ''9'') w1 = (Inr (Some m2), w2) \<and> mg_conversationId m1 \<noteq> mg_conversationId m2"
proof -
  obtain m1 w1 m2 w2 where runs: "ingest ''acme'' (sampleInbound ''8'') emptyInboundWorld = (Inr (Some m1), w1)"
    "ingest ''acme'' (sampleInbound ''9'') w1 = (Inr (Some m2), w2)" by (rule sample_ingested_twice)
  have "mg_conversationId m1 \<noteq> mg_conversationId m2"
    by (rule every_inbound_message_opens_a_conversation [OF runs]) (simp_all add: sampleInbound_def emptyInboundWorld_def inj_replicate)
  with runs show ?thesis by blast
qed

end
