(* ===== verification/Channel_Properties.thy ===== *)
theory Channel_Properties
  imports Message_Inbound
begin

text \<open>
  Webhooks: what is accepted was signed, an accepted email loses its message, and a Telegram message is identified without its
  chat.
\<close>

subsection \<open>Signatures\<close>

lemma constantTimeEqual_iff [simp]: "constantTimeEqual a b \<longleftrightarrow> a = b"
  by (auto simp: constantTimeEqual_def list_all2_eq dest: list_all2_lengthD)

text \<open>What a provider of each kind has to present, and where the connector reads it. Web chat and Telegram present the secret
  itself.\<close>

definition expectedSignature :: "ChannelTypeEnum \<Rightarrow> hmac \<Rightarrow> string \<Rightarrow> headers \<Rightarrow> string \<Rightarrow> string" where
  "expectedSignature ty mac secret hs body =
     (case ty of CH_WEBCHAT \<Rightarrow> secret | CH_TELEGRAM \<Rightarrow> secret | CH_EMAIL \<Rightarrow> mac secret body | CH_TEAMS \<Rightarrow> mac secret body
      | CH_SLACK \<Rightarrow> ''v0='' @ mac secret (''v0:'' @ the (map_of hs ''x-slack-request-timestamp'') @ '':'' @ body)
      | _ \<Rightarrow> ''sha256='' @ mac secret body)"

definition presentedSignature :: "ChannelTypeEnum \<Rightarrow> headers \<Rightarrow> string" where
  "presentedSignature ty hs =
     (case ty of CH_WEBCHAT \<Rightarrow> signatureOf hs | CH_TEAMS \<Rightarrow> signatureOf hs
      | CH_TELEGRAM \<Rightarrow> headerOr hs ''x-telegram-bot-api-secret-token'' (signatureOf hs)
      | CH_EMAIL \<Rightarrow> headerOr hs ''x-sendgrid-signature'' (signatureOf hs)
      | CH_SLACK \<Rightarrow> headerOr hs ''x-slack-signature'' (signatureOf hs)
      | _ \<Rightarrow> headerOr hs ''x-hub-signature-256'' (signatureOf hs))"

lemmas connector_defs = WebChatConnector_def EmailConnector_def WhatsAppConnector_def TelegramConnector_def FacebookConnector_def
  InstagramConnector_def SlackConnector_def TeamsConnector_def

lemma getConnector_type:
  assumes "getConnector ty = Inr k"
  shows "cn_channelType k = ty \<and> k \<in> set channelConnectors"
  using assms find_Some_set [of "\<lambda>c. cn_channelType c = ty" "rev channelConnectors"]
  by (auto simp: getConnector_def split: option.splits)

lemma verified_signature:
  assumes "getConnector ty = Inr k" "cn_verifySignature k mac now payload (signatureOf hs) secret hs raw"
  shows "presentedSignature ty hs = expectedSignature ty mac secret hs (bodyToBuffer payload raw)"
  using assms(2) getConnector_type [OF assms(1)]
  by (auto simp: channelConnectors_def connector_defs presentedSignature_def expectedSignature_def Let_def WebChat_verifySignature_def
      Email_verifySignature_def WhatsApp_verifySignature_def Telegram_verifySignature_def Facebook_verifySignature_def
      Instagram_verifySignature_def Slack_verifySignature_def Teams_verifySignature_def simp del: append_Cons split: if_splits option.splits)

lemma mgAddJob_InrD: "mgAddJob j w = (Inr u, w') \<Longrightarrow> (j, vw_tenantContext (mw_conv w)) \<in> set (mw_jobs w')"
  by (auto simp: mgAddJob_def split: if_splits)


subsection \<open>Email\<close>

text \<open>The email connector accepts arrays of events only, and reads the fields of a message from the array itself: every accepted
  payload becomes a message without identifier, sender and content.\<close>

theorem email_webhooks_lose_their_message:
  assumes "Email_validateWebhook payload"
  shows "Email_normalizeMessage payload =
    Inr \<lparr>nm_externalMessageId = None, nm_senderId = JStr [], nm_content = JStr [], nm_rawPayload = payload\<rparr>"
proof -
  from assms obtain js where [simp]: "payload = JArr js"
    by (cases payload) (auto simp: Email_validateWebhook_def isArray_def)
  have [simp]: "arrayIndex ''messageId'' = None" "arrayIndex ''from'' = None" "arrayIndex ''text'' = None" "arrayIndex ''subject'' = None"
    by code_simp+
  show ?thesis by (simp add: Email_normalizeMessage_def jsMember_def orFresh_def orText_def orJs_def)
qed

theorem email_webhooks_lose_their_message_witness:
  "Email_normalizeMessage (JArr [JObj [(''from'', JStr ''eve@mail.test''), (''text'', JStr ''Help'')]]) =
    Inr \<lparr>nm_externalMessageId = None, nm_senderId = JStr [], nm_content = JStr [],
      nm_rawPayload = JArr [JObj [(''from'', JStr ''eve@mail.test''), (''text'', JStr ''Help'')]]\<rparr>"
  by (rule email_webhooks_lose_their_message) (simp add: Email_validateWebhook_def isArray_def)

subsection \<open>Telegram\<close>

definition keepsMessages :: "MsgDb \<Rightarrow> MsgWorld \<Rightarrow> MsgWorld \<Rightarrow> bool" where
  "keepsMessages D w w' \<longleftrightarrow> (mw_db w = D \<longrightarrow> mw_db w' = D)"

interpretation keeps: state_frame "keepsMessages D" for D
  by unfold_locales (auto simp: keepsMessages_def)

lemma keepsD: "framed (keepsMessages (mw_db w)) m \<Longrightarrow> mw_db (snd (m w)) = mw_db w"
  by (auto simp: framed_def keepsMessages_def)

lemma keeps_same: "(\<And>w. mw_db (snd (m w)) = mw_db w) \<Longrightarrow> framed (keepsMessages D) m"
  by (auto simp: framed_def keepsMessages_def)

lemma ingest_duplicate:
  assumes "truthy (imd_externalMessageId dto)" "findByExternalId t (Some (imd_channelId dto)) (the (imd_externalMessageId dto)) (mw_db v) \<noteq> None"
  shows "snd (ingest t dto v) = v"
  using assms by (cases "validateInbound dto") (auto simp: ingest_def svc_simps)

lemma keeps_duplicate:
  assumes "findByExternalId t (Some i) x D \<noteq> None" "x \<noteq> []" "imd_channelId dto = i" "imd_externalMessageId dto = Some x"
  shows "framed (keepsMessages D) (ingest t dto)"
  using ingest_duplicate [of dto t] assms by (auto simp: framed_def keepsMessages_def)

lemma keeps_publish: "framed (keepsMessages D) (ChannelEventPublisher_publish ev)"
  by (cases ev) (auto simp: ChannelEventPublisher_publish_def mgBestEffort_def mgAddJob_def framed_def keepsMessages_def svc_simps)

lemma keeps_basic:
  "framed (keepsMessages D) mgNow" "framed (keepsMessages D) mgUUID" "framed (keepsMessages D) (mgLog a b c d)"
  "framed (keepsMessages D) (chRead f)" "framed (keepsMessages D) (chWrite g)"
  by (rule keeps_same, simp add: chWrite_def)+

lemmas keeps_rules = keeps_basic keeps.frame_ret keeps.frame_throw keeps.frame_liftR keeps.frame_asks keeps.frame_andThen keeps_publish

lemma keeps_option: "framed (keepsMessages D) a \<Longrightarrow> (\<And>x. framed (keepsMessages D) (b x)) \<Longrightarrow> framed (keepsMessages D) (case v of None \<Rightarrow> a | Some x \<Rightarrow> b x)"
  by (cases v) simp_all

lemma keeps_if: "framed (keepsMessages D) a \<Longrightarrow> framed (keepsMessages D) b \<Longrightarrow> framed (keepsMessages D) (if p then a else b)"
  by simp

lemma andThen_known: "andThen (liftR (Inr a)) k = k a" "andThen (ret a) k = k a"
  by (rule ext, simp add: liftR_def)+

text \<open>Telegram numbers messages per chat; the connector uses the number alone. A message from another chat whose number was seen before
  on the channel is dropped as a duplicate, whatever chat, sender and text it has.\<close>

theorem telegram_message_of_another_chat_is_dropped:
  assumes "findChannel i t (mw_channels w) = Some c" "ch_type c = CH_TELEGRAM"
    "propertyOf payload ''message'' = Some msg" "propertyOf msg ''message_id'' = Some (JNum n)" "n \<noteq> 0"
    "findByExternalId t (Some i) (stringOf (JNum n)) (mw_db w) \<noteq> None"
  shows "mw_db (snd (processIncomingWebhook t i payload w)) = mw_db w"
proof -
  have conn: "getConnector CH_TELEGRAM = Inr TelegramConnector"
    by (simp add: getConnector_def channelConnectors_def connector_defs)
  have "payload \<noteq> JNull" "msg \<noteq> JNull" using assms(3,4) by auto
  then have norm: "\<exists>nm. cn_normalizeMessage TelegramConnector payload = Inr nm \<and> nm_externalMessageId nm = Some (JStr (stringOf (JNum n)))"
    using assms(3-5) by (simp add: TelegramConnector_def Telegram_normalizeMessage_def jsMember_def optMember_def orFresh_def truthyJs_def)
  then obtain nm where nm: "cn_normalizeMessage TelegramConnector payload = Inr nm" "nm_externalMessageId nm = Some (JStr (stringOf (JNum n)))" by blast
  have shown: "stringOf (JNum n) \<noteq> []" by (simp add: showInt_def)
  have found: "getChannelOrThrow t i w = (Inr c, w)" using assms(1) by (simp add: getChannelOrThrow_def)
  show ?thesis
    unfolding processIncomingWebhook_def andThen_Inr [where m = "getChannelOrThrow t i", OF found] assms(2) conn nm andThen_known option.case stringOf.simps(4)
    by (rule keepsD [of w], intro keeps_rules keeps_option keeps_if) (rule keeps_duplicate [OF assms(6) shown], simp_all)
qed

subsection \<open>Witnesses\<close>


theorem telegram_message_of_another_chat_is_dropped_witness:
  "mw_db (snd (processIncomingWebhook ''acme'' ''tg'' (JObj [(''update_id'', JNum 90), (''message'', JObj [(''message_id'', JNum 7),
     (''chat'', JObj [(''id'', JNum 555)]), (''from'', JObj [(''id'', JNum 42)]), (''text'', JStr ''Help'')])]) sampleMsgWorld)) = mw_db sampleMsgWorld"
proof -
  have "map_option ch_type (findChannel ''tg'' ''acme'' (mw_channels sampleMsgWorld)) = Some CH_TELEGRAM" by code_simp
  then obtain c where c: "findChannel ''tg'' ''acme'' (mw_channels sampleMsgWorld) = Some c" "ch_type c = CH_TELEGRAM" by auto
  have known: "findByExternalId ''acme'' (Some ''tg'') (stringOf (JNum 7)) (mw_db sampleMsgWorld) \<noteq> None" by code_simp
  show ?thesis by (rule telegram_message_of_another_chat_is_dropped [OF c _ _ _ known]) simp+
qed

end
