(* ===== verification/Customer_Model.thy ===== *)
theory Customer_Model
  imports Conversation_Model Business_Hours
begin

text \<open>
  Customers: value objects, aggregate, profile, metrics and segments (\<^verbatim>\<open>src/modules/customers/domain\<close>) and the two
  repositories. Amounts of money are cents, as their columns keep two decimals; scores are rationals, the rounding of
  doubles is left out. The mapper builds the value objects of a row again, which cannot fail for a row they wrote (lemma
  \<open>values_are_stable\<close>), so reading is a total function.
\<close>

subsection \<open>Value objects\<close>

text \<open>\<^verbatim>\<open>/^[^\s@]+@[^\s@]+\.[^\s@]+$/\<close>: one at sign, no blanks, and a dot inside the part behind it.\<close>

definition emailFormat :: "string \<Rightarrow> bool" where
  "emailFormat s =
     (list_all (\<lambda>c. \<not> isSpace c) s \<and>
      (case splitOn (CHR ''@'') s of
         [l, d] \<Rightarrow> l \<noteq> [] \<and> list_ex (\<lambda>i. 0 < i \<and> i + 1 < length d \<and> d ! i = CHR ''.'') [0..<length d]
       | _ \<Rightarrow> False))"

definition CustomerEmail_create :: "string \<Rightarrow> exn + string" where
  "CustomerEmail_create v =
     (let cleaned = toLowerCase (trim v)
      in if cleaned = [] \<or> \<not> emailFormat cleaned then Inl (Error (''Invalid email address format: '' @ v)) else Inr cleaned)"

text \<open>\<^verbatim>\<open>/^\+?[0-9\s\-()]{7,20}$/\<close>\<close>

definition phoneFormat :: "string \<Rightarrow> bool" where
  "phoneFormat s =
     (let t = (if s \<noteq> [] \<and> hd s = CHR ''+'' then tl s else s)
      in 7 \<le> length t \<and> length t \<le> 20 \<and>
         list_all (\<lambda>c. isDigitChar c \<or> isSpace c \<or> c = CHR ''-'' \<or> c = CHR ''('' \<or> c = CHR '')'') t)"

definition CustomerPhone_create :: "string \<Rightarrow> exn + string" where
  "CustomerPhone_create v =
     (let cleaned = trim v
      in if cleaned \<noteq> [] \<and> \<not> phoneFormat cleaned then Inl (Error (''Invalid phone number format: '' @ v)) else Inr cleaned)"

datatype CustomerStatusEnum = CUS_ACTIVE | CUS_INACTIVE | CUS_MERGED

fun customerStatusName :: "CustomerStatusEnum \<Rightarrow> string" where
  "customerStatusName CUS_ACTIVE = ''ACTIVE''"
| "customerStatusName CUS_INACTIVE = ''INACTIVE''"
| "customerStatusName CUS_MERGED = ''MERGED''"

definition CustomerStatus_create :: "string \<Rightarrow> exn + CustomerStatusEnum" where
  "CustomerStatus_create v =
     (case List.find (\<lambda>s. customerStatusName s = v) [CUS_ACTIVE, CUS_INACTIVE, CUS_MERGED] of
        None \<Rightarrow> Inl (Error (''Invalid customer status: '' @ v))
      | Some s \<Rightarrow> Inr s)"

definition CustomerLanguage_create :: "string \<Rightarrow> exn + string" where
  "CustomerLanguage_create v =
     (let cleaned = toLowerCase (trim v)
      in if cleaned = [] \<or> 10 < length cleaned then Inl (Error (''Invalid language code: '' @ v)) else Inr cleaned)"

definition CustomerTimezone_create :: "string \<Rightarrow> exn + string" where
  "CustomerTimezone_create v =
     (let cleaned = trim v
      in if cleaned = [] \<or> 50 < length cleaned then Inl (Error (''Invalid timezone string: '' @ v)) else Inr cleaned)"

subsection \<open>Profile, metrics and segment\<close>

record CustomerProfile =
  csp_id :: uid
  csp_tenantId :: uid
  csp_customerId :: uid
  csp_firstName :: "string option"
  csp_lastName :: "string option"
  csp_displayName :: "string option"
  csp_avatarUrl :: "string option"
  csp_company :: "string option"
  csp_jobTitle :: "string option"
  csp_country :: "string option"
  csp_city :: "string option"
  csp_state :: "string option"
  csp_postalCode :: "string option"
  csp_tags :: "string list option"
  csp_customAttributes :: "(string \<times> json) list option"
  csp_createdAt :: millis
  csp_updatedAt :: millis

text \<open>The keys of a request for a profile: missing, \<^verbatim>\<open>undefined\<close>, or a value.\<close>

record CustomerProfileDto =
  cpf_firstName :: "string field"
  cpf_lastName :: "string field"
  cpf_displayName :: "string field"
  cpf_avatarUrl :: "string field"
  cpf_company :: "string field"
  cpf_jobTitle :: "string field"
  cpf_country :: "string field"
  cpf_city :: "string field"
  cpf_state :: "string field"
  cpf_postalCode :: "string field"
  cpf_tags :: "string list field"
  cpf_customAttributes :: "(string \<times> json) list field"

definition CustomerProfile_update :: "millis \<Rightarrow> CustomerProfileDto \<Rightarrow> CustomerProfile \<Rightarrow> CustomerProfile" where
  "CustomerProfile_update now d p =
     p\<lparr>csp_firstName := spread (csp_firstName p) (cpf_firstName d), csp_lastName := spread (csp_lastName p) (cpf_lastName d),
       csp_displayName := spread (csp_displayName p) (cpf_displayName d), csp_avatarUrl := spread (csp_avatarUrl p) (cpf_avatarUrl d),
       csp_company := spread (csp_company p) (cpf_company d), csp_jobTitle := spread (csp_jobTitle p) (cpf_jobTitle d),
       csp_country := spread (csp_country p) (cpf_country d), csp_city := spread (csp_city p) (cpf_city d),
       csp_state := spread (csp_state p) (cpf_state d), csp_postalCode := spread (csp_postalCode p) (cpf_postalCode d),
       csp_tags := spread (csp_tags p) (cpf_tags d), csp_customAttributes := spread (csp_customAttributes p) (cpf_customAttributes d),
       csp_updatedAt := now\<rparr>"

text \<open>A new profile from the values of a request, with the display name given apart.\<close>

definition new_CustomerProfile :: "millis \<Rightarrow> uid \<Rightarrow> uid \<Rightarrow> uid \<Rightarrow> string option \<Rightarrow> CustomerProfileDto \<Rightarrow> CustomerProfile" where
  "new_CustomerProfile now i tenantId customerId displayName d =
     \<lparr>csp_id = i, csp_tenantId = tenantId, csp_customerId = customerId, csp_firstName = spread None (cpf_firstName d),
      csp_lastName = spread None (cpf_lastName d), csp_displayName = displayName, csp_avatarUrl = spread None (cpf_avatarUrl d),
      csp_company = spread None (cpf_company d), csp_jobTitle = spread None (cpf_jobTitle d), csp_country = spread None (cpf_country d),
      csp_city = spread None (cpf_city d), csp_state = spread None (cpf_state d), csp_postalCode = spread None (cpf_postalCode d),
      csp_tags = Some (patched (spread None (cpf_tags d)) []), csp_customAttributes = Some (patched (spread None (cpf_customAttributes d)) []),
      csp_createdAt = now, csp_updatedAt = now\<rparr>"

text \<open>Every number can become \<^verbatim>\<open>undefined\<close> by an update.\<close>

record CustomerMetrics =
  csm_id :: uid
  csm_tenantId :: uid
  csm_customerId :: uid
  csm_totalConversations :: "int option"
  csm_totalTickets :: "int option"
  csm_totalOrders :: "int option"
  csm_totalSpend :: "int option"
  csm_averageCsat :: "rat option"
  csm_averageResponseTime :: "int option"
  csm_averageResolutionTime :: "int option"
  csm_sentimentScore :: "rat option"
  csm_lifetimeValue :: "int option"
  csm_riskScore :: "rat option"
  csm_vipStatus :: "bool option"
  csm_createdAt :: millis
  csm_updatedAt :: millis

record CustomerMetricsDto =
  cmt_totalConversations :: "int field"
  cmt_totalTickets :: "int field"
  cmt_totalOrders :: "int field"
  cmt_totalSpend :: "int field"
  cmt_averageCsat :: "rat field"
  cmt_averageResponseTime :: "int field"
  cmt_averageResolutionTime :: "int field"
  cmt_sentimentScore :: "rat field"
  cmt_lifetimeValue :: "int field"
  cmt_riskScore :: "rat field"
  cmt_vipStatus :: "bool field"

definition orDefaultField :: "'a field \<Rightarrow> 'a \<Rightarrow> 'a option" where
  "orDefaultField f d = Some (patched (spread None f) d)"

definition new_CustomerMetrics :: "millis \<Rightarrow> uid \<Rightarrow> uid \<Rightarrow> uid \<Rightarrow> CustomerMetricsDto \<Rightarrow> CustomerMetrics" where
  "new_CustomerMetrics now i tenantId customerId d =
     \<lparr>csm_id = i, csm_tenantId = tenantId, csm_customerId = customerId, csm_totalConversations = orDefaultField (cmt_totalConversations d) 0,
      csm_totalTickets = orDefaultField (cmt_totalTickets d) 0, csm_totalOrders = orDefaultField (cmt_totalOrders d) 0,
      csm_totalSpend = orDefaultField (cmt_totalSpend d) 0, csm_averageCsat = orDefaultField (cmt_averageCsat d) 0,
      csm_averageResponseTime = orDefaultField (cmt_averageResponseTime d) 0,
      csm_averageResolutionTime = orDefaultField (cmt_averageResolutionTime d) 0, csm_sentimentScore = orDefaultField (cmt_sentimentScore d) 0,
      csm_lifetimeValue = orDefaultField (cmt_lifetimeValue d) 0, csm_riskScore = orDefaultField (cmt_riskScore d) 0,
      csm_vipStatus = orDefaultField (cmt_vipStatus d) False, csm_createdAt = now, csm_updatedAt = now\<rparr>"

definition CustomerMetrics_update :: "millis \<Rightarrow> CustomerMetricsDto \<Rightarrow> CustomerMetrics \<Rightarrow> CustomerMetrics" where
  "CustomerMetrics_update now d m =
     m\<lparr>csm_totalConversations := spread (csm_totalConversations m) (cmt_totalConversations d),
       csm_totalTickets := spread (csm_totalTickets m) (cmt_totalTickets d), csm_totalOrders := spread (csm_totalOrders m) (cmt_totalOrders d),
       csm_totalSpend := spread (csm_totalSpend m) (cmt_totalSpend d), csm_averageCsat := spread (csm_averageCsat m) (cmt_averageCsat d),
       csm_averageResponseTime := spread (csm_averageResponseTime m) (cmt_averageResponseTime d),
       csm_averageResolutionTime := spread (csm_averageResolutionTime m) (cmt_averageResolutionTime d),
       csm_sentimentScore := spread (csm_sentimentScore m) (cmt_sentimentScore d),
       csm_lifetimeValue := spread (csm_lifetimeValue m) (cmt_lifetimeValue d), csm_riskScore := spread (csm_riskScore m) (cmt_riskScore d),
       csm_vipStatus := spread (csm_vipStatus m) (cmt_vipStatus d), csm_updatedAt := now\<rparr>"

record CustomerSegment =
  csg_id :: uid
  csg_tenantId :: uid
  csg_segmentName :: string
  csg_segmentType :: string
  csg_rules :: "json option"
  csg_description :: "string option"
  csg_isActive :: "bool option"
  csg_createdAt :: millis
  csg_updatedAt :: millis

text \<open>Every key of the argument is present; only the optional ones can be \<^verbatim>\<open>undefined\<close>.\<close>

definition CustomerSegment_update ::
  "millis \<Rightarrow> string \<Rightarrow> string \<Rightarrow> json option \<Rightarrow> string option \<Rightarrow> bool option \<Rightarrow> CustomerSegment \<Rightarrow> CustomerSegment" where
  "CustomerSegment_update now name ty rules description isActive s =
     s\<lparr>csg_segmentName := name, csg_segmentType := ty, csg_rules := rules, csg_description := description, csg_isActive := isActive,
       csg_updatedAt := now\<rparr>"

subsection \<open>The aggregate\<close>

datatype customer_event =
    CustomerCreatedEvent uid uid string string
  | CustomerUpdatedEvent uid uid string string
  | CustomerDeletedEvent uid uid
  | CustomerRestoredEvent uid uid
  | CustomerSegmentAssignedEvent uid uid uid
  | CustomerMetricsUpdatedEvent uid uid CustomerMetrics

record Customer =
  cs_id :: uid
  cs_tenantId :: uid
  cs_externalCustomerId :: "string option"
  cs_email :: string
  cs_phone :: "string option"
  cs_status :: CustomerStatusEnum
  cs_preferredLanguage :: string
  cs_timezone :: string
  cs_lastSeenAt :: "millis option"
  cs_source :: string
  cs_metadata :: "(string \<times> json) list option"
  cs_createdAt :: millis
  cs_updatedAt :: millis
  cs_deletedAt :: "millis option"
  cs_version :: nat
  cs_profile :: "CustomerProfile option"
  cs_metrics :: "CustomerMetrics option"
  cs_domainEvents :: "customer_event list"

definition csEvent :: "customer_event \<Rightarrow> Customer \<Rightarrow> Customer" where
  "csEvent ev c = c\<lparr>cs_domainEvents := cs_domainEvents c @ [ev]\<rparr>"

text \<open>\<^verbatim>\<open>this.profile?.displayName || this.email.value\<close>\<close>

definition shownName :: "Customer \<Rightarrow> string" where
  "shownName c = (case orUndefined (Option.bind (cs_profile c) csp_displayName) of None \<Rightarrow> cs_email c | Some n \<Rightarrow> n)"

definition setProfile :: "millis \<Rightarrow> CustomerProfile \<Rightarrow> Customer \<Rightarrow> Customer" where
  "setProfile now p c = c\<lparr>cs_profile := Some p, cs_updatedAt := now\<rparr>"

definition setMetrics :: "millis \<Rightarrow> CustomerMetrics \<Rightarrow> Customer \<Rightarrow> Customer" where
  "setMetrics now m c = c\<lparr>cs_metrics := Some m, cs_updatedAt := now\<rparr>"

definition Customer_create ::
  "millis \<Rightarrow> uid \<Rightarrow> uid \<Rightarrow> string option \<Rightarrow> string \<Rightarrow> string option \<Rightarrow> string \<Rightarrow> string \<Rightarrow> string \<Rightarrow> (string \<times> json) list \<Rightarrow>
     CustomerProfile option \<Rightarrow> Customer" where
  "Customer_create now i tenantId external email phone lang tz source metadata profile =
     (let c = \<lparr>cs_id = i, cs_tenantId = tenantId, cs_externalCustomerId = external, cs_email = email, cs_phone = phone, cs_status = CUS_ACTIVE,
           cs_preferredLanguage = lang, cs_timezone = tz, cs_lastSeenAt = None, cs_source = source, cs_metadata = Some metadata,
           cs_createdAt = now, cs_updatedAt = now, cs_deletedAt = None, cs_version = 1, cs_profile = profile, cs_metrics = None, cs_domainEvents = []\<rparr>
      in csEvent (CustomerCreatedEvent tenantId i (shownName c) email) c)"

text \<open>The keys the service builds: present when the request has them.\<close>

record CustomerPatch =
  cpx_externalCustomerId :: "string field"
  cpx_email :: "string option"
  cpx_phone :: "string field"
  cpx_status :: "CustomerStatusEnum option"
  cpx_preferredLanguage :: "string option"
  cpx_timezone :: "string option"
  cpx_source :: "string option"
  cpx_metadata :: "(string \<times> json) list field"

definition noCustomerPatch :: CustomerPatch where
  "noCustomerPatch = \<lparr>cpx_externalCustomerId = Absent, cpx_email = None, cpx_phone = Absent, cpx_status = None, cpx_preferredLanguage = None,
     cpx_timezone = None, cpx_source = None, cpx_metadata = Absent\<rparr>"

definition Customer_update :: "millis \<Rightarrow> CustomerPatch \<Rightarrow> Customer \<Rightarrow> Customer" where
  "Customer_update now p c =
     (let c' = c\<lparr>cs_externalCustomerId := spread (cs_externalCustomerId c) (cpx_externalCustomerId p), cs_email := patched (cpx_email p) (cs_email c),
           cs_phone := spread (cs_phone c) (cpx_phone p), cs_status := patched (cpx_status p) (cs_status c),
           cs_preferredLanguage := patched (cpx_preferredLanguage p) (cs_preferredLanguage c),
           cs_timezone := patched (cpx_timezone p) (cs_timezone c), cs_source := patched (cpx_source p) (cs_source c),
           cs_metadata := spread (cs_metadata c) (cpx_metadata p), cs_updatedAt := now, cs_version := cs_version c + 1\<rparr>
      in csEvent (CustomerUpdatedEvent (cs_tenantId c) (cs_id c) (shownName c') (cs_email c')) c')"

definition Customer_delete :: "millis \<Rightarrow> Customer \<Rightarrow> Customer" where
  "Customer_delete now c =
     csEvent (CustomerDeletedEvent (cs_tenantId c) (cs_id c))
       (c\<lparr>cs_deletedAt := Some now, cs_status := CUS_INACTIVE, cs_updatedAt := now, cs_version := cs_version c + 1\<rparr>)"

definition Customer_restore :: "millis \<Rightarrow> Customer \<Rightarrow> Customer" where
  "Customer_restore now c =
     csEvent (CustomerRestoredEvent (cs_tenantId c) (cs_id c))
       (c\<lparr>cs_deletedAt := None, cs_status := CUS_ACTIVE, cs_updatedAt := now, cs_version := cs_version c + 1\<rparr>)"

definition Customer_assignSegment :: "uid \<Rightarrow> Customer \<Rightarrow> Customer" where
  "Customer_assignSegment segmentId c = csEvent (CustomerSegmentAssignedEvent (cs_tenantId c) (cs_id c) segmentId) c"

definition Customer_updateMetrics :: "millis \<Rightarrow> CustomerMetrics \<Rightarrow> Customer \<Rightarrow> Customer" where
  "Customer_updateMetrics now m c = csEvent (CustomerMetricsUpdatedEvent (cs_tenantId c) (cs_id c) m) (setMetrics now m c)"

subsection \<open>Tables\<close>

record CustomerSegmentMember =
  cse_id :: uid
  cse_tenantId :: uid
  cse_customerId :: uid
  cse_segmentId :: uid

text \<open>A row of \<^verbatim>\<open>customers\<close> is a customer without profile, metrics and events.\<close>

record CustDb =
  ub_customers :: "Customer list"
  ub_profiles :: "CustomerProfile list"
  ub_metrics :: "CustomerMetrics list"
  ub_segments :: "CustomerSegment list"
  ub_members :: "CustomerSegmentMember list"

definition sameCustomer :: "uid \<Rightarrow> uid \<Rightarrow> Customer \<Rightarrow> bool" where
  "sameCustomer i tenantId r = (cs_id r = i \<and> cs_tenantId r = tenantId)"

text \<open>The left joins go by the identifier of the customer alone.\<close>

definition customerOf :: "CustDb \<Rightarrow> Customer \<Rightarrow> Customer" where
  "customerOf db r =
     r\<lparr>cs_externalCustomerId := orUndefined (cs_externalCustomerId r), cs_phone := orUndefined (cs_phone r),
       cs_source := the (orS (Some (cs_source r)) (Some ''API'')),
       cs_metadata := Some (patched (cs_metadata r) []), cs_domainEvents := [],
       cs_profile := map_option (\<lambda>p. p\<lparr>csp_tags := Some (patched (csp_tags p) []), csp_customAttributes := Some (patched (csp_customAttributes p) [])\<rparr>)
         (List.find (\<lambda>p. csp_customerId p = cs_id r) (ub_profiles db)),
       cs_metrics := List.find (\<lambda>m. csm_customerId m = cs_id r) (ub_metrics db)\<rparr>"

definition findCustomer :: "uid \<Rightarrow> uid \<Rightarrow> CustDb \<Rightarrow> Customer option" where
  "findCustomer i tenantId db = map_option (customerOf db) (List.find (sameCustomer i tenantId) (ub_customers db))"

definition findCustomerByEmail :: "string \<Rightarrow> uid \<Rightarrow> CustDb \<Rightarrow> Customer option" where
  "findCustomerByEmail email tenantId db =
     map_option (customerOf db) (List.find (\<lambda>r. cs_email r = toLowerCase (trim email) \<and> cs_tenantId r = tenantId) (ub_customers db))"

definition findCustomerByExternalId :: "string \<Rightarrow> uid \<Rightarrow> CustDb \<Rightarrow> Customer option" where
  "findCustomerByExternalId external tenantId db =
     map_option (customerOf db) (List.find (\<lambda>r. cs_externalCustomerId r = Some external \<and> cs_tenantId r = tenantId) (ub_customers db))"

definition findAllCustomers :: "uid \<Rightarrow> CustDb \<Rightarrow> Customer list" where
  "findAllCustomers tenantId db =
     map (customerOf db) (filter (\<lambda>r. cs_tenantId r = tenantId \<and> cs_deletedAt r = None) (ub_customers db))"

definition customerColumns :: "millis \<Rightarrow> Customer \<Rightarrow> Customer" where
  "customerColumns now c =
     c\<lparr>cs_externalCustomerId := orUndefined (cs_externalCustomerId c), cs_phone := orUndefined (cs_phone c), cs_updatedAt := now,
       cs_profile := None, cs_metrics := None, cs_domainEvents := []\<rparr>"

text \<open>The two unique indexes; a missing external identifier is not compared, and the error names what the two have in common.\<close>

definition customerClash :: "Customer \<Rightarrow> Customer \<Rightarrow> bool" where
  "customerClash a b =
     (cs_tenantId a = cs_tenantId b \<and>
      (cs_email a = cs_email b \<or> (cs_externalCustomerId a \<noteq> None \<and> cs_externalCustomerId a = cs_externalCustomerId b)))"

definition saveCustomerRow :: "millis \<Rightarrow> Customer \<Rightarrow> uid \<Rightarrow> Customer list \<Rightarrow> exn + Customer list" where
  "saveCustomerRow now c tenantId rows =
     (let cols = customerColumns now c; same = sameCustomer (cs_id c) tenantId
      in if list_ex (\<lambda>r. \<not> same r \<and> customerClash cols r) rows
         then Inl (Error ''duplicate key value violates unique constraint uq_customers_tenant'')
         else if list_ex same rows then Inr (map (\<lambda>r. if same r then cols\<lparr>cs_createdAt := cs_createdAt r\<rparr> else r) rows)
         else Inr (rows @ [cols\<lparr>cs_updatedAt := cs_createdAt c\<rparr>]))"

definition customerProfileColumns :: "millis \<Rightarrow> CustomerProfile \<Rightarrow> CustomerProfile" where
  "customerProfileColumns now p =
     p\<lparr>csp_firstName := orUndefined (csp_firstName p), csp_lastName := orUndefined (csp_lastName p),
       csp_displayName := orUndefined (csp_displayName p), csp_avatarUrl := orUndefined (csp_avatarUrl p),
       csp_company := orUndefined (csp_company p), csp_jobTitle := orUndefined (csp_jobTitle p), csp_country := orUndefined (csp_country p),
       csp_city := orUndefined (csp_city p), csp_state := orUndefined (csp_state p), csp_postalCode := orUndefined (csp_postalCode p),
       csp_tags := Some (patched (csp_tags p) []), csp_customAttributes := Some (patched (csp_customAttributes p) []), csp_updatedAt := now\<rparr>"

definition saveProfileRow :: "millis \<Rightarrow> uid \<Rightarrow> uid \<Rightarrow> CustomerProfile \<Rightarrow> CustomerProfile list \<Rightarrow> CustomerProfile list" where
  "saveProfileRow now customerId tenantId p rows =
     (let same = (\<lambda>r. csp_customerId r = customerId \<and> csp_tenantId r = tenantId)
      in if list_ex same rows then map (\<lambda>r. if same r then (customerProfileColumns now p)\<lparr>csp_createdAt := csp_createdAt r\<rparr> else r) rows
         else rows @ [(customerProfileColumns now p)\<lparr>csp_updatedAt := csp_createdAt p\<rparr>])"

text \<open>Numbers that are \<^verbatim>\<open>undefined\<close> leave the column, but formatting an amount that is \<^verbatim>\<open>undefined\<close> fails.\<close>

definition orColumn :: "'a option \<Rightarrow> 'a option \<Rightarrow> 'a option" where
  "orColumn v col = (case v of None \<Rightarrow> col | Some x \<Rightarrow> Some x)"

definition metricsColumns :: "millis \<Rightarrow> CustomerMetrics \<Rightarrow> CustomerMetrics \<Rightarrow> CustomerMetrics" where
  "metricsColumns now m r =
     r\<lparr>csm_id := csm_id m, csm_tenantId := csm_tenantId m, csm_customerId := csm_customerId m,
       csm_totalConversations := orColumn (csm_totalConversations m) (csm_totalConversations r),
       csm_totalTickets := orColumn (csm_totalTickets m) (csm_totalTickets r), csm_totalOrders := orColumn (csm_totalOrders m) (csm_totalOrders r),
       csm_totalSpend := csm_totalSpend m, csm_averageCsat := orColumn (csm_averageCsat m) (csm_averageCsat r),
       csm_averageResponseTime := orColumn (csm_averageResponseTime m) (csm_averageResponseTime r),
       csm_averageResolutionTime := orColumn (csm_averageResolutionTime m) (csm_averageResolutionTime r),
       csm_sentimentScore := orColumn (csm_sentimentScore m) (csm_sentimentScore r), csm_lifetimeValue := csm_lifetimeValue m,
       csm_riskScore := orColumn (csm_riskScore m) (csm_riskScore r), csm_vipStatus := orColumn (csm_vipStatus m) (csm_vipStatus r),
       csm_updatedAt := now\<rparr>"

definition saveMetricsRow :: "millis \<Rightarrow> uid \<Rightarrow> uid \<Rightarrow> CustomerMetrics \<Rightarrow> CustomerMetrics list \<Rightarrow> exn + CustomerMetrics list" where
  "saveMetricsRow now customerId tenantId m rows =
     (let same = (\<lambda>r. csm_customerId r = customerId \<and> csm_tenantId r = tenantId)
      in if csm_totalSpend m = None \<or> csm_lifetimeValue m = None then Inl TypeError
         else if list_ex same rows then Inr (map (\<lambda>r. if same r then metricsColumns now m r else r) rows)
         else Inr (rows @ [m\<lparr>csm_updatedAt := csm_createdAt m\<rparr>]))"

text \<open>One transaction: all three tables or none.\<close>

definition saveCustomer :: "millis \<Rightarrow> Customer \<Rightarrow> uid \<Rightarrow> CustDb \<Rightarrow> exn + CustDb" where
  "saveCustomer now c tenantId db =
     rbind (saveCustomerRow now c tenantId (ub_customers db)) (\<lambda>customers.
     let profiles = (case cs_profile c of None \<Rightarrow> ub_profiles db | Some p \<Rightarrow> saveProfileRow now (cs_id c) tenantId p (ub_profiles db))
     in rbind (case cs_metrics c of None \<Rightarrow> Inr (ub_metrics db) | Some m \<Rightarrow> saveMetricsRow now (cs_id c) tenantId m (ub_metrics db)) (\<lambda>metrics.
        Inr (db\<lparr>ub_customers := customers, ub_profiles := profiles, ub_metrics := metrics\<rparr>)))"

definition deleteCustomerRow :: "millis \<Rightarrow> uid \<Rightarrow> uid \<Rightarrow> CustDb \<Rightarrow> bool \<times> CustDb" where
  "deleteCustomerRow now i tenantId db =
     (if list_ex (sameCustomer i tenantId) (ub_customers db)
      then (True, db\<lparr>ub_customers := map (\<lambda>r. if sameCustomer i tenantId r then r\<lparr>cs_deletedAt := Some now, cs_status := CUS_INACTIVE\<rparr> else r) (ub_customers db)\<rparr>)
      else (False, db))"

definition restoreCustomerRow :: "uid \<Rightarrow> uid \<Rightarrow> CustDb \<Rightarrow> bool \<times> CustDb" where
  "restoreCustomerRow i tenantId db =
     (if list_ex (sameCustomer i tenantId) (ub_customers db)
      then (True, db\<lparr>ub_customers := map (\<lambda>r. if sameCustomer i tenantId r then r\<lparr>cs_deletedAt := None, cs_status := CUS_ACTIVE\<rparr> else r) (ub_customers db)\<rparr>)
      else (False, db))"

subsection \<open>Queries\<close>

record CustomerQueryOptions =
  csq_page :: "nat option"
  csq_limit :: "nat option"
  csq_cursor :: "uid option"
  csq_sortBy :: "string option"
  csq_descending :: bool
  csq_status :: "string option"
  csq_email :: "string option"
  csq_phone :: "string option"
  csq_vipStatus :: "bool option"
  csq_search :: "string option"
  csq_segmentId :: "uid option"

definition customerTextMatch :: "string \<Rightarrow> bool \<Rightarrow> Customer \<Rightarrow> bool" where
  "customerTextMatch q withCompany c =
     (contains q (Some (cs_email c)) \<or> contains q (cs_phone c) \<or> contains q (Option.bind (cs_profile c) csp_firstName) \<or>
      contains q (Option.bind (cs_profile c) csp_lastName) \<or> contains q (Option.bind (cs_profile c) csp_displayName) \<or>
      (withCompany \<and> contains q (Option.bind (cs_profile c) csp_company)))"

definition customerMatches :: "uid \<Rightarrow> CustomerQueryOptions \<Rightarrow> CustDb \<Rightarrow> Customer \<Rightarrow> bool" where
  "customerMatches tenantId q db c =
     (cs_tenantId c = tenantId \<and> cs_deletedAt c = None \<and> wanted (csq_status q) (Some (customerStatusName (cs_status c))) \<and>
      (truthy (csq_email q) \<longrightarrow> cs_email c = toLowerCase (trim (the (csq_email q)))) \<and>
      (truthy (csq_phone q) \<longrightarrow> cs_phone c = Some (trim (the (csq_phone q)))) \<and>
      (csq_vipStatus q \<noteq> None \<longrightarrow> Option.bind (cs_metrics c) csm_vipStatus = csq_vipStatus q) \<and>
      (truthy (csq_search q) \<longrightarrow> customerTextMatch (the (csq_search q)) True c) \<and>
      (truthy (csq_cursor q) \<longrightarrow> textLess (the (csq_cursor q)) (cs_id c)) \<and>
      (truthy (csq_segmentId q) \<longrightarrow> list_ex (\<lambda>e. cse_customerId e = cs_id c \<and> Some (cse_segmentId e) = csq_segmentId q) (ub_members db)))"

text \<open>The column the page is ordered by; texts are ranked by the collation of the database, an argument.\<close>

definition customerSortKey :: "(string \<Rightarrow> int) \<Rightarrow> string option \<Rightarrow> Customer \<Rightarrow> int option" where
  "customerSortKey collation sortBy c =
     (if sortBy = Some ''name'' then map_option collation (Option.bind (cs_profile c) csp_displayName)
      else if sortBy = Some ''email'' then Some (collation (cs_email c))
      else if sortBy = Some ''lastSeenAt'' then cs_lastSeenAt c
      else if sortBy = Some ''totalSpend'' then Option.bind (cs_metrics c) csm_totalSpend
      else Some (cs_createdAt c))"

definition findCustomers :: "(string \<Rightarrow> int) \<Rightarrow> uid \<Rightarrow> CustomerQueryOptions \<Rightarrow> CustDb \<Rightarrow> Customer list \<times> nat \<times> uid option" where
  "findCustomers collation tenantId q db =
     (let limit = orCount (csq_limit q) 20;
          found = filter (customerMatches tenantId q db) (map (customerOf db) (ub_customers db));
          page = take limit (drop ((orCount (csq_page q) 1 - 1) * limit) (sqlOrder (\<not> csq_descending q) (customerSortKey collation (csq_sortBy q)) found))
      in (page, length found, if page \<noteq> [] \<and> length page = limit then Some (cs_id (last page)) else None))"

definition searchCustomers :: "uid \<Rightarrow> string \<Rightarrow> nat \<Rightarrow> CustDb \<Rightarrow> Customer list" where
  "searchCustomers tenantId q limit db =
     take limit (filter (\<lambda>c. cs_tenantId c = tenantId \<and> cs_deletedAt c = None \<and> customerTextMatch q False c) (map (customerOf db) (ub_customers db)))"

subsection \<open>Segments\<close>

definition isMemberRow :: "uid \<Rightarrow> uid \<Rightarrow> uid \<Rightarrow> CustomerSegmentMember \<Rightarrow> bool" where
  "isMemberRow customerId segmentId tenantId e =
     (cse_customerId e = customerId \<and> cse_segmentId e = segmentId \<and> cse_tenantId e = tenantId)"

text \<open>The identifier of a new row is drawn from the runtime.\<close>

definition assignSegmentRow :: "uid \<Rightarrow> uid \<Rightarrow> uid \<Rightarrow> uid \<Rightarrow> CustDb \<Rightarrow> CustDb" where
  "assignSegmentRow u customerId segmentId tenantId db =
     (if list_ex (isMemberRow customerId segmentId tenantId) (ub_members db) then db
      else db\<lparr>ub_members := ub_members db @ [\<lparr>cse_id = u, cse_tenantId = tenantId, cse_customerId = customerId, cse_segmentId = segmentId\<rparr>]\<rparr>)"

definition removeSegmentRow :: "uid \<Rightarrow> uid \<Rightarrow> uid \<Rightarrow> CustDb \<Rightarrow> CustDb" where
  "removeSegmentRow customerId segmentId tenantId db =
     db\<lparr>ub_members := filter (\<lambda>e. \<not> isMemberRow customerId segmentId tenantId e) (ub_members db)\<rparr>"

definition findSegmentIds :: "uid \<Rightarrow> uid \<Rightarrow> CustDb \<Rightarrow> uid list" where
  "findSegmentIds customerId tenantId db =
     map cse_segmentId (filter (\<lambda>e. cse_customerId e = customerId \<and> cse_tenantId e = tenantId) (ub_members db))"

definition findSegmentMembers :: "uid \<Rightarrow> uid \<Rightarrow> CustDb \<Rightarrow> Customer list" where
  "findSegmentMembers segmentId tenantId db =
     map (customerOf db) (filter (\<lambda>r. cs_tenantId r = tenantId \<and> cs_deletedAt r = None \<and>
       list_ex (\<lambda>e. cse_customerId e = cs_id r \<and> cse_segmentId e = segmentId) (ub_members db)) (ub_customers db))"

definition sameSegment :: "uid \<Rightarrow> uid \<Rightarrow> CustomerSegment \<Rightarrow> bool" where
  "sameSegment i tenantId r = (csg_id r = i \<and> csg_tenantId r = tenantId)"

definition segmentToDomain :: "CustomerSegment \<Rightarrow> CustomerSegment" where
  "segmentToDomain r = r\<lparr>csg_description := orUndefined (csg_description r), csg_isActive := Some (csg_isActive r = Some True)\<rparr>"

definition findSegment :: "uid \<Rightarrow> uid \<Rightarrow> CustDb \<Rightarrow> CustomerSegment option" where
  "findSegment i tenantId db = map_option segmentToDomain (List.find (sameSegment i tenantId) (ub_segments db))"

definition findSegmentByName :: "string \<Rightarrow> uid \<Rightarrow> CustDb \<Rightarrow> CustomerSegment option" where
  "findSegmentByName name tenantId db =
     map_option segmentToDomain (List.find (\<lambda>r. csg_segmentName r = name \<and> csg_tenantId r = tenantId) (ub_segments db))"

definition findAllSegments :: "uid \<Rightarrow> CustDb \<Rightarrow> CustomerSegment list" where
  "findAllSegments tenantId db = map segmentToDomain (filter (\<lambda>r. csg_tenantId r = tenantId) (ub_segments db))"

definition findActiveSegments :: "uid \<Rightarrow> CustDb \<Rightarrow> CustomerSegment list" where
  "findActiveSegments tenantId db =
     map segmentToDomain (filter (\<lambda>r. csg_tenantId r = tenantId \<and> csg_isActive r = Some True) (ub_segments db))"

definition segmentColumns :: "millis \<Rightarrow> CustomerSegment \<Rightarrow> CustomerSegment \<Rightarrow> CustomerSegment" where
  "segmentColumns now s r =
     r\<lparr>csg_id := csg_id s, csg_tenantId := csg_tenantId s, csg_segmentName := csg_segmentName s, csg_segmentType := csg_segmentType s,
       csg_rules := (if truthyJs (csg_rules s) then csg_rules s else None), csg_description := orUndefined (csg_description s),
       csg_isActive := orColumn (csg_isActive s) (csg_isActive r), csg_updatedAt := now\<rparr>"

definition saveSegment :: "millis \<Rightarrow> CustomerSegment \<Rightarrow> uid \<Rightarrow> CustDb \<Rightarrow> exn + CustDb" where
  "saveSegment now s tenantId db =
     (let same = sameSegment (csg_id s) tenantId
      in if list_ex (\<lambda>r. \<not> same r \<and> csg_tenantId r = csg_tenantId s \<and> csg_segmentName r = csg_segmentName s) (ub_segments db)
         then Inl (Error ''duplicate key value violates unique constraint uq_customer_segments_tenant_name'')
         else Inr (db\<lparr>ub_segments :=
           (if list_ex same (ub_segments db) then map (\<lambda>r. if same r then segmentColumns now s r else r) (ub_segments db)
            else ub_segments db @ [(segmentColumns now s s)\<lparr>csg_updatedAt := csg_createdAt s\<rparr>])\<rparr>))"

text \<open>The rows of members go with their segment.\<close>

definition deleteSegment :: "uid \<Rightarrow> uid \<Rightarrow> CustDb \<Rightarrow> bool \<times> CustDb" where
  "deleteSegment i tenantId db =
     (if list_ex (sameSegment i tenantId) (ub_segments db)
      then (True, db\<lparr>ub_segments := filter (\<lambda>r. \<not> sameSegment i tenantId r) (ub_segments db),
                     ub_members := filter (\<lambda>e. cse_segmentId e \<noteq> i) (ub_members db)\<rparr>)
      else (False, db))"

end
