(* ===== verification/Customer_Service.thy ===== *)
theory Customer_Service
  imports Customer_Model Channel_Connectors
begin

text \<open>
  The services of customers (\<^verbatim>\<open>src/modules/customers/services\<close>) and the queue processor. The workflow engine is an answer
  of the world; its call is recorded.
\<close>

subsection \<open>The world\<close>

text \<open>A record of an import: its fields are texts or missing.\<close>

record ImportRecord =
  ir_email :: "string option"
  ir_phone :: "string option"
  ir_externalCustomerId :: "string option"
  ir_preferredLanguage :: "string option"
  ir_timezone :: "string option"
  ir_source :: "string option"
  ir_metadata :: "(string \<times> json) list option"
  ir_profile :: "CustomerProfileDto option"
  ir_firstName :: "string option"
  ir_lastName :: "string option"
  ir_displayName :: "string option"

datatype cust_job =
    CustomerSegmentationJob uid
  | CustomerMetricsJob uid
  | CustomerImportJob "ImportRecord option list" "uid option"
  | CustomerExportJob
  | OtherCustomerJob string

record CustWorld =
  uw_db :: CustDb
  uw_now :: millis
  uw_uuid :: "nat \<Rightarrow> uid"
  uw_uuidNext :: nat
  uw_triggerAnswer :: "uid \<Rightarrow> string \<Rightarrow> Customer \<Rightarrow> exn + unit"
  uw_triggered :: "(uid \<times> string \<times> uid) list"
  uw_tenantContext :: "uid option"
  uw_queueUp :: bool
  uw_jobs :: "(cust_job \<times> uid option) list"
  uw_audit :: "(uid \<times> uid option \<times> string \<times> string) list"

type_synonym 'a cusvc = "(CustWorld, 'a) svc"

definition cuNow :: "millis cusvc" where
  "cuNow = asks uw_now"

definition cuUUID :: "uid cusvc" where
  "cuUUID = (\<lambda>w. (Inr (uw_uuid w (uw_uuidNext w)), w\<lparr>uw_uuidNext := uw_uuidNext w + 1\<rparr>))"

definition cuRead :: "(CustDb \<Rightarrow> 'a) \<Rightarrow> 'a cusvc" where
  "cuRead f = asks (\<lambda>w. f (uw_db w))"

definition cuWrite :: "(CustDb \<Rightarrow> CustDb) \<Rightarrow> unit cusvc" where
  "cuWrite f = modify (\<lambda>w. w\<lparr>uw_db := f (uw_db w)\<rparr>)"

definition cuTryWrite :: "(millis \<Rightarrow> CustDb \<Rightarrow> exn + CustDb) \<Rightarrow> unit cusvc" where
  "cuTryWrite f = (\<lambda>w. case f (uw_now w) (uw_db w) of Inl e \<Rightarrow> (Inl e, w) | Inr db \<Rightarrow> (Inr (), w\<lparr>uw_db := db\<rparr>))"

definition cuLog :: "uid \<Rightarrow> uid option \<Rightarrow> string \<Rightarrow> string \<Rightarrow> unit cusvc" where
  "cuLog tenantId userId action details = modify (\<lambda>w. w\<lparr>uw_audit := uw_audit w @ [(tenantId, userId, action, details)]\<rparr>)"

definition cuAddJob :: "cust_job \<Rightarrow> unit cusvc" where
  "cuAddJob j = (\<lambda>w. if uw_queueUp w then (Inr (), w\<lparr>uw_jobs := uw_jobs w @ [(j, uw_tenantContext w)]\<rparr>)
                       else (Inl (Error ''Connection is closed.''), w))"

definition evaluateCustomerTriggers :: "uid \<Rightarrow> string \<Rightarrow> Customer \<Rightarrow> unit cusvc" where
  "evaluateCustomerTriggers tenantId trigger c =
     tryCatch (\<lambda>w. (uw_triggerAnswer w tenantId trigger c, w\<lparr>uw_triggered := uw_triggered w @ [(tenantId, trigger, cs_id c)]\<rparr>)) (\<lambda>_. ret ())"

subsection \<open>Publishing\<close>

definition CustomerEventPublisher_publish :: "customer_event \<Rightarrow> unit cusvc" where
  "CustomerEventPublisher_publish ev =
     (let jobs = (\<lambda>i. tryCatch (andThen (cuAddJob (CustomerSegmentationJob i)) (\<lambda>_. cuAddJob (CustomerMetricsJob i))) (\<lambda>_. ret ()))
      in case ev of CustomerCreatedEvent t i n e \<Rightarrow> jobs i | CustomerUpdatedEvent t i n e \<Rightarrow> jobs i | _ \<Rightarrow> ret ())"

text \<open>\<^verbatim>\<open>publishAll\<close> and \<^verbatim>\<open>clearEvents\<close>.\<close>

definition cuPublishAll :: "Customer \<Rightarrow> Customer cusvc" where
  "cuPublishAll c = andThen (forEach (cs_domainEvents c) CustomerEventPublisher_publish) (\<lambda>_. ret (c\<lparr>cs_domainEvents := []\<rparr>))"

definition persistCustomer :: "uid \<Rightarrow> Customer \<Rightarrow> Customer cusvc" where
  "persistCustomer tenantId c = andThen (cuTryWrite (\<lambda>now. saveCustomer now c tenantId)) (\<lambda>_. cuPublishAll c)"

definition getCustomerOrThrow :: "uid \<Rightarrow> uid \<Rightarrow> Customer cusvc" where
  "getCustomerOrThrow tenantId i =
     andThen (cuRead (findCustomer i tenantId)) (\<lambda>found. case found of
       None \<Rightarrow> throw (NotFoundException (''Customer with ID '' @ i @ '' not found''))
     | Some c \<Rightarrow> ret c)"

subsection \<open>Creating\<close>

record CreateCustomerDto =
  ccu_externalCustomerId :: "string option"
  ccu_email :: string
  ccu_phone :: "string option"
  ccu_preferredLanguage :: "string option"
  ccu_timezone :: "string option"
  ccu_source :: "string option"
  ccu_metadata :: "(string \<times> json) list option"
  ccu_profile :: "CustomerProfileDto option"

text \<open>\<^verbatim>\<open>displayName || `${first || ''} ${last || ''}`.trim() || email\<close>\<close>

definition orTextOpt :: "string option \<Rightarrow> string" where
  "orTextOpt s = (if truthy s then the s else [])"

definition fullName :: "string option \<Rightarrow> string option \<Rightarrow> string" where
  "fullName first lastN = trim (orTextOpt first @ '' '' @ orTextOpt lastN)"

definition createdDisplayName :: "CustomerProfileDto \<Rightarrow> string \<Rightarrow> string" where
  "createdDisplayName d email =
     the (orS (spread None (cpf_displayName d)) (orS (Some (fullName (spread None (cpf_firstName d)) (spread None (cpf_lastName d)))) (Some email)))"

definition noMetrics :: CustomerMetricsDto where
  "noMetrics = \<lparr>cmt_totalConversations = Absent, cmt_totalTickets = Absent, cmt_totalOrders = Absent, cmt_totalSpend = Absent,
     cmt_averageCsat = Absent, cmt_averageResponseTime = Absent, cmt_averageResolutionTime = Absent, cmt_sentimentScore = Absent,
     cmt_lifetimeValue = Absent, cmt_riskScore = Absent, cmt_vipStatus = Absent\<rparr>"

definition CustomerService_create :: "uid \<Rightarrow> CreateCustomerDto \<Rightarrow> uid option \<Rightarrow> Customer cusvc" where
  "CustomerService_create tenantId dto userId =
     andThen (cuRead (findCustomerByEmail (ccu_email dto) tenantId)) (\<lambda>existing.
     if existing \<noteq> None then throw (HttpException 409 (''Customer with email '' @ ccu_email dto @ '' already exists''))
     else andThen cuUUID (\<lambda>i.
          andThen cuNow (\<lambda>now.
          andThen (case ccu_profile dto of None \<Rightarrow> ret None
                   | Some d \<Rightarrow> andThen cuUUID (\<lambda>u. ret (Some (new_CustomerProfile now u tenantId i (Some (createdDisplayName d (ccu_email dto))) d)))) (\<lambda>profile.
          andThen (liftR (CustomerEmail_create (ccu_email dto))) (\<lambda>email.
          andThen (if truthy (ccu_phone dto) then andThen (liftR (CustomerPhone_create (the (ccu_phone dto)))) (\<lambda>p. ret (Some p)) else ret None) (\<lambda>phone.
          andThen (liftR (CustomerLanguage_create (the (orS (ccu_preferredLanguage dto) (Some ''en''))))) (\<lambda>lang.
          andThen (liftR (CustomerTimezone_create (the (orS (ccu_timezone dto) (Some ''UTC''))))) (\<lambda>tz.
          let c = Customer_create now i tenantId (ccu_externalCustomerId dto) email phone lang tz (the (orS (ccu_source dto) (Some ''API'')))
                    (patched (ccu_metadata dto) []) profile
          in andThen cuUUID (\<lambda>u.
             andThen (persistCustomer tenantId (setMetrics now (new_CustomerMetrics now u tenantId i noMetrics) c)) (\<lambda>c'.
             andThen (cuLog tenantId userId ''CUSTOMER_CREATE'' (''Created customer '' @ i @ '' ('' @ email @ '')'')) (\<lambda>_.
             andThen (evaluateCustomerTriggers tenantId ''CUSTOMER_CREATED'' c') (\<lambda>_. ret c'))))))))))))"

text \<open>\<^verbatim>\<open>externalId.replace(/[^a-zA-Z0-9._-]/g, '_')\<close>\<close>

definition isLetter :: "char \<Rightarrow> bool" where
  "isLetter c = (let n = (of_char c :: nat) in (65 \<le> n \<and> n \<le> 90) \<or> (97 \<le> n \<and> n \<le> 122))"

definition localPart :: "string \<Rightarrow> string" where
  "localPart external =
     map (\<lambda>c. if isLetter c \<or> isDigitChar c \<or> c = CHR ''.'' \<or> c = CHR ''_'' \<or> c = CHR ''-'' then c else CHR ''_'') external"

definition syntheticEmail :: "uid \<Rightarrow> string \<Rightarrow> string" where
  "syntheticEmail channelId external = localPart external @ ''.'' @ channelId @ ''@channel.invalid''"

definition findOrCreateByExternalId :: "uid \<Rightarrow> uid \<Rightarrow> string \<Rightarrow> string \<Rightarrow> Customer cusvc" where
  "findOrCreateByExternalId tenantId channelId external channelType =
     andThen (cuRead (findCustomerByExternalId external tenantId)) (\<lambda>existing. case existing of
       Some c \<Rightarrow> ret c
     | None \<Rightarrow>
         andThen cuUUID (\<lambda>i.
         andThen cuNow (\<lambda>now.
         andThen (liftR (CustomerEmail_create (syntheticEmail channelId external))) (\<lambda>email.
         let c = Customer_create now i tenantId (Some external) email None ''en'' ''UTC'' channelType
                   [(''syntheticEmail'', JBool True), (''channelId'', JStr channelId)] None
         in andThen cuUUID (\<lambda>u.
            andThen (persistCustomer tenantId (setMetrics now (new_CustomerMetrics now u tenantId i noMetrics) c)) (\<lambda>c'.
            andThen (cuLog tenantId None ''CUSTOMER_CREATE'' (''Created customer '' @ i @ '' from '' @ channelType @ '' channel identity'')) (\<lambda>_.
            andThen (evaluateCustomerTriggers tenantId ''CUSTOMER_CREATED'' c') (\<lambda>_. ret c'))))))))"

subsection \<open>Changing\<close>

record UpdateCustomerDto =
  ucu_externalCustomerId :: "string option"
  ucu_email :: "string option"
  ucu_phone :: "string option"
  ucu_status :: "string option"
  ucu_preferredLanguage :: "string option"
  ucu_timezone :: "string option"
  ucu_source :: "string option"
  ucu_metadata :: "(string \<times> json) list option"
  ucu_profile :: "CustomerProfileDto option"

definition made :: "(string \<Rightarrow> exn + 'a) \<Rightarrow> string option \<Rightarrow> exn + 'a option" where
  "made create v = (case v of None \<Rightarrow> Inr None | Some x \<Rightarrow> rbind (create x) (\<lambda>y. Inr (Some y)))"

definition customerPatch :: "UpdateCustomerDto \<Rightarrow> exn + CustomerPatch" where
  "customerPatch dto =
     rbind (made CustomerEmail_create (ucu_email dto)) (\<lambda>email.
     rbind (if truthy (ucu_phone dto) then rbind (CustomerPhone_create (the (ucu_phone dto))) (\<lambda>p. Inr (Val p))
            else Inr (if ucu_phone dto = None then Absent else Undef)) (\<lambda>phone.
     rbind (made CustomerStatus_create (ucu_status dto)) (\<lambda>status.
     rbind (made CustomerLanguage_create (ucu_preferredLanguage dto)) (\<lambda>lang.
     rbind (made CustomerTimezone_create (ucu_timezone dto)) (\<lambda>tz.
     Inr \<lparr>cpx_externalCustomerId = (case ucu_externalCustomerId dto of None \<Rightarrow> Absent | Some x \<Rightarrow> Val x), cpx_email = email, cpx_phone = phone,
          cpx_status = status, cpx_preferredLanguage = lang, cpx_timezone = tz, cpx_source = ucu_source dto,
          cpx_metadata = (case ucu_metadata dto of None \<Rightarrow> Absent | Some x \<Rightarrow> Val x)\<rparr>)))))"

definition withProfile :: "uid \<Rightarrow> CustomerProfileDto option \<Rightarrow> Customer \<Rightarrow> Customer cusvc" where
  "withProfile tenantId profile c =
     (case profile of None \<Rightarrow> ret c
      | Some d \<Rightarrow>
          andThen cuNow (\<lambda>now. case cs_profile c of
            Some p \<Rightarrow> ret (c\<lparr>cs_profile := Some (CustomerProfile_update now d p)\<rparr>)
          | None \<Rightarrow> andThen cuUUID (\<lambda>u. ret (setProfile now (new_CustomerProfile now u tenantId (cs_id c) (spread None (cpf_displayName d)) d) c))))"

definition CustomerService_update :: "uid \<Rightarrow> uid \<Rightarrow> UpdateCustomerDto \<Rightarrow> uid option \<Rightarrow> Customer cusvc" where
  "CustomerService_update tenantId i dto userId =
     andThen (getCustomerOrThrow tenantId i) (\<lambda>c.
     andThen (liftR (customerPatch dto)) (\<lambda>p.
     andThen cuNow (\<lambda>now.
     andThen (withProfile tenantId (ucu_profile dto) (Customer_update now p c)) (\<lambda>c'.
     andThen (persistCustomer tenantId c') (\<lambda>c''.
     andThen (cuLog tenantId userId ''CUSTOMER_UPDATE'' (''Updated customer '' @ cs_id c)) (\<lambda>_.
     andThen (evaluateCustomerTriggers tenantId ''CUSTOMER_UPDATED'' c'') (\<lambda>_. ret c'')))))))"

definition CustomerService_delete :: "uid \<Rightarrow> uid \<Rightarrow> uid option \<Rightarrow> bool cusvc" where
  "CustomerService_delete tenantId i userId =
     andThen (getCustomerOrThrow tenantId i) (\<lambda>c.
     andThen cuNow (\<lambda>now.
     andThen (persistCustomer tenantId (Customer_delete now c)) (\<lambda>_.
     andThen (cuLog tenantId userId ''CUSTOMER_DELETE'' (''Soft deleted customer '' @ i)) (\<lambda>_. ret True))))"

definition CustomerService_restore :: "uid \<Rightarrow> uid \<Rightarrow> uid option \<Rightarrow> bool cusvc" where
  "CustomerService_restore tenantId i userId =
     andThen (getCustomerOrThrow tenantId i) (\<lambda>c.
     andThen cuNow (\<lambda>now.
     andThen (persistCustomer tenantId (Customer_restore now c)) (\<lambda>_.
     andThen (cuLog tenantId userId ''CUSTOMER_RESTORE'' (''Restored customer '' @ i)) (\<lambda>_. ret True))))"

text \<open>The columns of the metrics are not null, so a stored number is always there.\<close>

definition both :: "(CustomerMetrics \<Rightarrow> 'a option) \<Rightarrow> ('a \<Rightarrow> 'a \<Rightarrow> 'a) \<Rightarrow> CustomerMetrics \<Rightarrow> CustomerMetrics \<Rightarrow> 'a option" where
  "both f g a b = (case (f a, f b) of (Some x, Some y) \<Rightarrow> Some (g x y) | _ \<Rightarrow> None)"

definition mergedMetrics :: "millis \<Rightarrow> uid \<Rightarrow> uid \<Rightarrow> CustomerMetrics \<Rightarrow> CustomerMetrics \<Rightarrow> CustomerMetrics" where
  "mergedMetrics now tenantId targetId target source =
     \<lparr>csm_id = csm_id target, csm_tenantId = tenantId, csm_customerId = targetId,
      csm_totalConversations = both csm_totalConversations (+) target source, csm_totalTickets = both csm_totalTickets (+) target source,
      csm_totalOrders = both csm_totalOrders (+) target source, csm_totalSpend = both csm_totalSpend (+) target source,
      csm_averageCsat = both csm_averageCsat (\<lambda>x y. (x + y) / 2) target source,
      csm_averageResponseTime = both csm_averageResponseTime (\<lambda>x y. roundDiv (x + y) 2) target source,
      csm_averageResolutionTime = both csm_averageResolutionTime (\<lambda>x y. roundDiv (x + y) 2) target source,
      csm_sentimentScore = both csm_sentimentScore (\<lambda>x y. (x + y) / 2) target source,
      csm_lifetimeValue = both csm_lifetimeValue (+) target source, csm_riskScore = both csm_riskScore max target source,
      csm_vipStatus = both csm_vipStatus (\<or>) target source, csm_createdAt = now, csm_updatedAt = now\<rparr>"

definition CustomerService_merge :: "uid \<Rightarrow> uid \<Rightarrow> uid \<Rightarrow> uid option \<Rightarrow> Customer cusvc" where
  "CustomerService_merge tenantId sourceId targetId userId =
     andThen (cuRead (findCustomer sourceId tenantId)) (\<lambda>source.
     andThen (cuRead (findCustomer targetId tenantId)) (\<lambda>target. case (source, target) of
       (Some s, Some t) \<Rightarrow>
         andThen cuNow (\<lambda>now.
         let t' = (case (cs_metrics s, cs_metrics t) of
               (Some ms, Some mt) \<Rightarrow> Customer_updateMetrics now (mergedMetrics now tenantId (cs_id t) mt ms) t
             | _ \<Rightarrow> t);
             s' = Customer_update now (noCustomerPatch\<lparr>cpx_status := Some CUS_MERGED\<rparr>) (Customer_delete now s)
         in andThen (cuTryWrite (\<lambda>now. saveCustomer now t' tenantId)) (\<lambda>_.
            andThen (cuTryWrite (\<lambda>now. saveCustomer now s' tenantId)) (\<lambda>_.
            andThen (cuPublishAll t') (\<lambda>t''.
            andThen (cuPublishAll s') (\<lambda>_.
            andThen (cuLog tenantId userId ''CUSTOMER_MERGE'' (''Merged customer '' @ sourceId @ '' into '' @ targetId)) (\<lambda>_. ret t''))))))
     | _ \<Rightarrow> throw (NotFoundException ''Source or Target customer not found'')))"

subsection \<open>Export and import\<close>

text \<open>\<^verbatim>\<open>`"${val.replace(/"/g, '""')}"`\<close>\<close>

definition csvQuote :: "string \<Rightarrow> string" where
  "csvQuote val = CHR 0x22 # concat (map (\<lambda>c. if c = CHR 0x22 then [c, c] else [c]) val) @ [CHR 0x22]"

definition csvHeaders :: "string list" where
  "csvHeaders = [''id'', ''email'', ''phone'', ''status'', ''preferredLanguage'', ''timezone'', ''source'', ''createdAt'']"

definition csvValues :: "Customer \<Rightarrow> string list" where
  "csvValues c = [cs_id c, cs_email c, orTextOpt (cs_phone c), customerStatusName (cs_status c), cs_preferredLanguage c, cs_timezone c,
     cs_source c, toISOString (cs_createdAt c)]"

definition csvRow :: "string list \<Rightarrow> string" where
  "csvRow values = joinWith '','' (map csvQuote values)"

text \<open>The format \<^verbatim>\<open>CSV\<close>.\<close>

definition exportCsv :: "uid \<Rightarrow> string cusvc" where
  "exportCsv tenantId =
     andThen (cuRead (findAllCustomers tenantId)) (\<lambda>customers.
     ret (joinWith [CHR 0x0A] (joinWith '','' csvHeaders # map (\<lambda>c. csvRow (csvValues c)) customers)))"

definition textField :: "string option \<Rightarrow> string field" where
  "textField v = (case v of None \<Rightarrow> Undef | Some x \<Rightarrow> Val x)"

definition importedDto :: "string \<Rightarrow> ImportRecord \<Rightarrow> CreateCustomerDto" where
  "importedDto email r =
     \<lparr>ccu_externalCustomerId = ir_externalCustomerId r, ccu_email = email, ccu_phone = ir_phone r, ccu_preferredLanguage = ir_preferredLanguage r,
      ccu_timezone = ir_timezone r, ccu_source = orS (ir_source r) (Some ''IMPORT''), ccu_metadata = ir_metadata r,
      ccu_profile = Some (case ir_profile r of Some d \<Rightarrow> d
        | None \<Rightarrow> \<lparr>cpf_firstName = textField (ir_firstName r), cpf_lastName = textField (ir_lastName r),
                   cpf_displayName = textField (orUndefined (orS (ir_displayName r) (Some (fullName (ir_firstName r) (ir_lastName r))))),
                   cpf_avatarUrl = Absent, cpf_company = Absent, cpf_jobTitle = Absent, cpf_country = Absent, cpf_city = Absent, cpf_state = Absent,
                   cpf_postalCode = Absent, cpf_tags = Absent, cpf_customAttributes = Absent\<rparr>)\<rparr>"

text \<open>A record that is \<^verbatim>\<open>null\<close> is \<open>None\<close>: reading its email fails, and so does the handler of that failure.\<close>

definition importOne :: "uid \<Rightarrow> uid option \<Rightarrow> ImportRecord option \<Rightarrow> nat \<times> string list \<Rightarrow> (nat \<times> string list) cusvc" where
  "importOne tenantId userId record acc =
     (case record of
        None \<Rightarrow> throw TypeError
      | Some r \<Rightarrow>
          if \<not> truthy (ir_email r) then ret (fst acc, snd acc @ [''Record missing email field''])
          else tryCatch (andThen (CustomerService_create tenantId (importedDto (the (ir_email r)) r) userId) (\<lambda>_. ret (fst acc + 1, snd acc)))
                 (\<lambda>e. ret (fst acc, snd acc @ [''Failed to import record '' @ the (ir_email r) @ '': '' @ message e])))"

fun importAll :: "uid \<Rightarrow> uid option \<Rightarrow> ImportRecord option list \<Rightarrow> nat \<times> string list \<Rightarrow> (nat \<times> string list) cusvc" where
  "importAll tenantId userId [] acc = ret acc"
| "importAll tenantId userId (r # rs) acc = andThen (importOne tenantId userId r acc) (importAll tenantId userId rs)"

definition CustomerService_import :: "uid \<Rightarrow> ImportRecord option list \<Rightarrow> uid option \<Rightarrow> (nat \<times> string list) cusvc" where
  "CustomerService_import tenantId records userId = importAll tenantId userId records (0, [])"

subsection \<open>Metrics and profile\<close>

definition updateMetrics :: "uid \<Rightarrow> uid \<Rightarrow> CustomerMetricsDto \<Rightarrow> CustomerMetrics cusvc" where
  "updateMetrics tenantId i dto =
     andThen (getCustomerOrThrow tenantId i) (\<lambda>c.
     andThen cuNow (\<lambda>now.
     andThen (case cs_metrics c of
        Some m \<Rightarrow> ret (CustomerMetrics_update now dto m)
      | None \<Rightarrow> andThen cuUUID (\<lambda>u. ret (new_CustomerMetrics now u tenantId i
            (dto\<lparr>cmt_lifetimeValue := (case spread None (cmt_lifetimeValue dto) of None \<Rightarrow> cmt_totalSpend dto | Some x \<Rightarrow> Val x)\<rparr>)))) (\<lambda>m.
     andThen (cuTryWrite (\<lambda>now'. saveCustomer now' (Customer_updateMetrics now m c) tenantId)) (\<lambda>_. ret m))))"

definition metricOr0 :: "(CustomerMetrics \<Rightarrow> ('a :: zero) option) \<Rightarrow> CustomerMetrics option \<Rightarrow> 'a" where
  "metricOr0 f m = patched (Option.bind m f) 0"

text \<open>A hundred units of money are ten thousand cents.\<close>

definition recalculated :: "CustomerMetrics option \<Rightarrow> CustomerMetricsDto" where
  "recalculated m =
     noMetrics\<lparr>cmt_totalConversations := Val (metricOr0 csm_totalConversations m + 1), cmt_totalSpend := Val (metricOr0 csm_totalSpend m + 10000),
       cmt_lifetimeValue := Val (metricOr0 csm_lifetimeValue m + 10000),
       cmt_sentimentScore := Val (min 1 (max (- 1) (metricOr0 csm_sentimentScore m + 1 / 10))),
       cmt_vipStatus := Val (100000 < metricOr0 csm_lifetimeValue m + 10000)\<rparr>"

definition recalculateMetrics :: "uid \<Rightarrow> uid \<Rightarrow> CustomerMetrics cusvc" where
  "recalculateMetrics tenantId i =
     andThen (getCustomerOrThrow tenantId i) (\<lambda>c. updateMetrics tenantId i (recalculated (cs_metrics c)))"

definition CustomerProfileService_updateProfile :: "uid \<Rightarrow> uid \<Rightarrow> CustomerProfileDto \<Rightarrow> CustomerProfile option cusvc" where
  "CustomerProfileService_updateProfile tenantId i d =
     andThen (getCustomerOrThrow tenantId i) (\<lambda>c.
     andThen (withProfile tenantId (Some d) c) (\<lambda>c'.
     andThen (cuTryWrite (\<lambda>now. saveCustomer now c' tenantId)) (\<lambda>_. ret (cs_profile c'))))"

definition CustomerSearchService_search :: "uid \<Rightarrow> string \<Rightarrow> nat \<Rightarrow> Customer list cusvc" where
  "CustomerSearchService_search tenantId q limit =
     (if trim q = [] then ret [] else cuRead (searchCustomers tenantId (trim q) limit))"

subsection \<open>Segments\<close>

record CustomerSegmentDto =
  sgd_segmentName :: string
  sgd_segmentType :: string
  sgd_rules :: "json option"
  sgd_description :: "string option"
  sgd_isActive :: "bool option"

definition createSegment :: "uid \<Rightarrow> CustomerSegmentDto \<Rightarrow> CustomerSegment cusvc" where
  "createSegment tenantId dto =
     andThen cuUUID (\<lambda>u.
     andThen cuNow (\<lambda>now.
     let s = \<lparr>csg_id = u, csg_tenantId = tenantId, csg_segmentName = sgd_segmentName dto, csg_segmentType = sgd_segmentType dto,
              csg_rules = sgd_rules dto, csg_description = sgd_description dto, csg_isActive = Some (patched (sgd_isActive dto) True),
              csg_createdAt = now, csg_updatedAt = now\<rparr>
     in andThen (cuTryWrite (\<lambda>now. saveSegment now s tenantId)) (\<lambda>_. ret s)))"

definition getSegmentOrThrow :: "uid \<Rightarrow> uid \<Rightarrow> CustomerSegment cusvc" where
  "getSegmentOrThrow tenantId i =
     andThen (cuRead (findSegment i tenantId)) (\<lambda>found. case found of
       None \<Rightarrow> throw (NotFoundException (''Segment with ID '' @ i @ '' not found''))
     | Some s \<Rightarrow> ret s)"

definition updateSegment :: "uid \<Rightarrow> uid \<Rightarrow> CustomerSegmentDto \<Rightarrow> CustomerSegment cusvc" where
  "updateSegment tenantId i dto =
     andThen (getSegmentOrThrow tenantId i) (\<lambda>s.
     andThen cuNow (\<lambda>now.
     let s' = CustomerSegment_update now (sgd_segmentName dto) (sgd_segmentType dto) (sgd_rules dto) (sgd_description dto) (sgd_isActive dto) s
     in andThen (cuTryWrite (\<lambda>now. saveSegment now s' tenantId)) (\<lambda>_. ret s')))"

definition CustomerSegmentService_deleteSegment :: "uid \<Rightarrow> uid \<Rightarrow> bool cusvc" where
  "CustomerSegmentService_deleteSegment tenantId i =
     andThen (cuRead (\<lambda>db. fst (deleteSegment i tenantId db))) (\<lambda>deleted.
     andThen (cuWrite (\<lambda>db. snd (deleteSegment i tenantId db))) (\<lambda>_. ret deleted))"

definition assignToSegment :: "uid \<Rightarrow> uid \<Rightarrow> uid \<Rightarrow> unit cusvc" where
  "assignToSegment tenantId customerId segmentId =
     andThen (cuRead (\<lambda>db. list_ex (isMemberRow customerId segmentId tenantId) (ub_members db))) (\<lambda>existing.
     if existing then ret ()
     else andThen cuUUID (\<lambda>u. cuWrite (assignSegmentRow u customerId segmentId tenantId)))"

definition assignCustomerToSegment :: "uid \<Rightarrow> uid \<Rightarrow> uid \<Rightarrow> unit cusvc" where
  "assignCustomerToSegment tenantId customerId segmentId =
     andThen (getCustomerOrThrow tenantId customerId) (\<lambda>c.
     andThen (getSegmentOrThrow tenantId segmentId) (\<lambda>_.
     andThen (assignToSegment tenantId customerId segmentId) (\<lambda>_.
     cuTryWrite (\<lambda>now. saveCustomer now (Customer_assignSegment segmentId c) tenantId))))"

definition removeCustomerFromSegment :: "uid \<Rightarrow> uid \<Rightarrow> uid \<Rightarrow> unit cusvc" where
  "removeCustomerFromSegment tenantId customerId segmentId = cuWrite (removeSegmentRow customerId segmentId tenantId)"

text \<open>\<^verbatim>\<open>rules.spend?.gt\<close> and \<^verbatim>\<open>rules.csat?.lt\<close>; a rule whose bound is not truthy does not count, nor does any rule for a
  customer without metrics.\<close>

definition ruleBound :: "json \<Rightarrow> string \<Rightarrow> string \<Rightarrow> json option" where
  "ruleBound rules k op = orFresh (optMember (propertyOf rules k) op)"

definition amount :: "int option \<Rightarrow> jsnum" where
  "amount cents = (case cents of None \<Rightarrow> NaN | Some n \<Rightarrow> Fin (of_int n / 100))"

definition segmentMatches :: "json \<Rightarrow> Customer \<Rightarrow> bool" where
  "segmentMatches rules c =
     (case cs_metrics c of
        None \<Rightarrow> True
      | Some m \<Rightarrow>
          (case ruleBound rules ''spend'' ''gt'' of None \<Rightarrow> True | Some g \<Rightarrow> \<not> jsLeq (amount (csm_totalSpend m)) (numberOf g)) \<and>
          (case ruleBound rules ''csat'' ''lt'' of None \<Rightarrow> True
           | Some l \<Rightarrow> \<not> jsLeq (numberOf l) (case csm_averageCsat m of None \<Rightarrow> NaN | Some r \<Rightarrow> Fin r)))"

definition runDynamicSegmentation :: "uid \<Rightarrow> uid \<Rightarrow> unit cusvc" where
  "runDynamicSegmentation tenantId segmentId =
     andThen (cuRead (findSegment segmentId tenantId)) (\<lambda>found. case found of
       None \<Rightarrow> ret ()
     | Some s \<Rightarrow>
         if csg_segmentType s \<noteq> ''DYNAMIC'' then ret ()
         else andThen (cuRead (findAllCustomers tenantId)) (\<lambda>customers.
              let rules = (if truthyJs (csg_rules s) then the (csg_rules s) else JObj [])
              in forEach customers (\<lambda>c.
                   if segmentMatches rules c then assignToSegment tenantId (cs_id c) (csg_id s)
                   else cuWrite (removeSegmentRow (cs_id c) (csg_id s) tenantId))))"

subsection \<open>The queue processor\<close>

datatype cust_result = CustImported nat "string list" | CustExported nat | CustMetricsDone CustomerMetrics | CustSegmented

definition handleCustomerJob :: "uid \<Rightarrow> cust_job \<Rightarrow> cust_result cusvc" where
  "handleCustomerJob tenantId job =
     (case job of
        CustomerImportJob records userId \<Rightarrow> andThen (CustomerService_import tenantId records userId) (\<lambda>(n, errors). ret (CustImported n errors))
      | CustomerExportJob \<Rightarrow> andThen (exportCsv tenantId) (\<lambda>csv. ret (CustExported (length csv)))
      | CustomerMetricsJob i \<Rightarrow> andThen (recalculateMetrics tenantId i) (\<lambda>m. ret (CustMetricsDone m))
      | CustomerSegmentationJob i \<Rightarrow>
          andThen (cuRead (findAllSegments tenantId)) (\<lambda>segments.
          andThen (forEach segments (\<lambda>s. if csg_segmentType s = ''DYNAMIC'' then runDynamicSegmentation tenantId (csg_id s) else ret ())) (\<lambda>_.
          ret CustSegmented))
      | OtherCustomerJob name \<Rightarrow> throw (Error (''Unknown job name: '' @ name)))"

end
