(* ===== verification/Customer_Properties.thy ===== *)
theory Customer_Properties
  imports Customer_Service State_Frame
begin

text \<open>
  Customers: what the value objects write they read back, the unique indexes are kept by every operation, an export is
  read back, an import accounts for its records, merging adds up, dynamic segments hold exactly the matching customers,
  and the metrics job invents spend.
\<close>

subsection \<open>Value objects\<close>

lemma lowChar_idem [simp]: "lowChar (lowChar c) = lowChar c"
proof -
  have "of_char (char_of n :: char) = n" if "n < 256" for n :: nat using that by (simp add: of_char_of)
  then show ?thesis by (auto simp: lowChar_def)
qed

lemma toLowerCase_idem [simp]: "toLowerCase (toLowerCase s) = toLowerCase s"
  by (simp add: toLowerCase_def)

lemma isSpace_lowChar [simp]: "isSpace (lowChar c) = isSpace c"
proof (cases "65 \<le> (of_char c :: nat) \<and> (of_char c :: nat) \<le> 90")
  case True
  then have "(of_char (lowChar c) :: nat) = of_char c + 32" by (simp add: lowChar_def of_char_of)
  then show ?thesis using True by (auto simp: isSpace_def)
next
  case False
  then have "lowChar c = c" unfolding lowChar_def by (rule if_not_P)
  then show ?thesis by simp
qed

lemma dropWhile_map_space: "dropWhile isSpace (map lowChar s) = map lowChar (dropWhile isSpace s)"
  by (induction s) simp_all

lemma trim_toLowerCase: "trim (toLowerCase s) = toLowerCase (trim s)"
  by (simp add: trim_def toLowerCase_def dropWhile_map_space rev_map)

lemma trim_Nil [simp]: "trim [] = []"
  by (simp add: trim_def)

lemma values_are_stable:
  "CustomerEmail_create v = Inr e \<Longrightarrow> CustomerEmail_create e = Inr e"
  "CustomerPhone_create v = Inr e \<Longrightarrow> CustomerPhone_create e = Inr e"
  "CustomerLanguage_create v = Inr e \<Longrightarrow> CustomerLanguage_create e = Inr e"
  "CustomerTimezone_create v = Inr e \<Longrightarrow> CustomerTimezone_create e = Inr e"
  by (auto simp: CustomerEmail_create_def CustomerPhone_create_def CustomerLanguage_create_def CustomerTimezone_create_def Let_def
      trim_toLowerCase split: if_splits)

subsection \<open>Tables\<close>

lemma customerColumns_sel [simp]:
  "cs_id (customerColumns now c) = cs_id c" "cs_tenantId (customerColumns now c) = cs_tenantId c" "cs_email (customerColumns now c) = cs_email c"
  "cs_status (customerColumns now c) = cs_status c" "cs_deletedAt (customerColumns now c) = cs_deletedAt c"
  "cs_externalCustomerId (customerColumns now c) = orUndefined (cs_externalCustomerId c)" "cs_version (customerColumns now c) = cs_version c"
  by (simp_all add: customerColumns_def)

lemma customerOf_sel [simp]:
  "cs_id (customerOf db r) = cs_id r" "cs_tenantId (customerOf db r) = cs_tenantId r" "cs_email (customerOf db r) = cs_email r"
  "cs_status (customerOf db r) = cs_status r" "cs_deletedAt (customerOf db r) = cs_deletedAt r" "cs_version (customerOf db r) = cs_version r"
  "cs_externalCustomerId (customerOf db r) = orUndefined (cs_externalCustomerId r)" "cs_createdAt (customerOf db r) = cs_createdAt r"
  "cs_metrics (customerOf db r) = List.find (\<lambda>m. csm_customerId m = cs_id r) (ub_metrics db)"
  by (simp_all add: customerOf_def)

lemma orUndefined_Some: "orUndefined s = Some x \<longleftrightarrow> s = Some x \<and> x \<noteq> []"
  by (cases s) (auto simp: orUndefined_def truthy_def)

lemma findCustomer_row:
  assumes "findCustomer i t db = Some c"
  obtains r where "List.find (sameCustomer i t) (ub_customers db) = Some r" "r \<in> set (ub_customers db)" "sameCustomer i t r" "c = customerOf db r"
    "cs_id c = i" "cs_tenantId c = t"
proof -
  from assms obtain r where r: "List.find (sameCustomer i t) (ub_customers db) = Some r" "c = customerOf db r" by (auto simp: findCustomer_def)
  with find_Some_set [OF r(1)] show thesis by (intro that) (auto simp: sameCustomer_def)
qed

definition customersUnique :: "Customer list \<Rightarrow> bool" where
  "customersUnique rows \<longleftrightarrow> (\<forall>a\<in>set rows. \<forall>b\<in>set rows. customerClash a b \<longrightarrow> cs_id a = cs_id b \<and> cs_tenantId a = cs_tenantId b)"

lemma customerClash_cong:
  "cs_tenantId a = cs_tenantId a' \<Longrightarrow> cs_email a = cs_email a' \<Longrightarrow> cs_externalCustomerId a = cs_externalCustomerId a' \<Longrightarrow> customerClash a b = customerClash a' b"
  "cs_tenantId a = cs_tenantId a' \<Longrightarrow> cs_email a = cs_email a' \<Longrightarrow> cs_externalCustomerId a = cs_externalCustomerId a' \<Longrightarrow> customerClash b a = customerClash b a'"
  by (auto simp: customerClash_def)

lemma customerClash_sym: "customerClash a b = customerClash b a"
  unfolding customerClash_def by metis

text \<open>The row a customer is stored in, up to the two dates.\<close>

definition storedAs :: "Customer \<Rightarrow> Customer \<Rightarrow> bool" where
  "storedAs c r \<longleftrightarrow> (\<exists>n ca. r = (customerColumns n c)\<lparr>cs_createdAt := ca\<rparr>)"

lemma storedAs_row [simp]:
  "storedAs c ((customerColumns n c)\<lparr>cs_createdAt := ca\<rparr>)" "storedAs c ((customerColumns n c)\<lparr>cs_updatedAt := ca\<rparr>)"
  unfolding storedAs_def by blast (rule exI [of _ ca], rule exI [of _ "cs_createdAt c"], simp add: customerColumns_def)

lemma storedAs_sel:
  assumes "storedAs c r"
  shows "cs_id r = cs_id c" "cs_tenantId r = cs_tenantId c" "cs_email r = cs_email c" "cs_status r = cs_status c" "cs_deletedAt r = cs_deletedAt c"
    "cs_externalCustomerId r = orUndefined (cs_externalCustomerId c)"
  using assms by (auto simp: storedAs_def)

lemma saveCustomerRow_cases:
  assumes "saveCustomerRow now c t rows = Inr rows'"
  obtains "\<forall>r\<in>set rows. sameCustomer (cs_id c) t r \<or> \<not> customerClash (customerColumns now c) r"
    "\<forall>r\<in>set rows'. r \<in> set rows \<and> \<not> sameCustomer (cs_id c) t r \<or>
       storedAs c r"
  using assms by (intro that) (auto simp: saveCustomerRow_def Let_def list_ex_iff split: if_splits)

lemma saveCustomerRow_unique:
  assumes "saveCustomerRow now c t rows = Inr rows'" "customersUnique rows"
  shows "customersUnique rows'"
proof -
  obtain free: "\<forall>r\<in>set rows. sameCustomer (cs_id c) t r \<or> \<not> customerClash (customerColumns now c) r"
    and new: "\<forall>r\<in>set rows'. r \<in> set rows \<and> \<not> sameCustomer (cs_id c) t r \<or> storedAs c r"
    by (rule saveCustomerRow_cases [OF assms(1)])
  have clash: "customerClash a b = customerClash (customerColumns now c) b" "customerClash b a = customerClash (customerColumns now c) b"
    if "storedAs c a" for a b
    using storedAs_sel [OF that] by (simp_all add: customerClash_sym [of b a] customerClash_cong(1) [of a "customerColumns now c"])
  show ?thesis
    unfolding customersUnique_def
  proof (intro ballI impI)
    fix a b assume ab: "a \<in> set rows'" "b \<in> set rows'" "customerClash a b"
    with new have "a \<in> set rows \<and> \<not> sameCustomer (cs_id c) t a \<or> storedAs c a" "b \<in> set rows \<and> \<not> sameCustomer (cs_id c) t b \<or> storedAs c b"
      by blast+
    then show "cs_id a = cs_id b \<and> cs_tenantId a = cs_tenantId b"
      using ab(3) free assms(2) clash storedAs_sel(1,2) by (auto simp: customersUnique_def)
  qed
qed

lemma saveCustomer_InrE:
  assumes "saveCustomer now c t db = Inr db'"
  obtains rows ms where "saveCustomerRow now c t (ub_customers db) = Inr rows" "ub_customers db' = rows" "ub_metrics db' = ms"
    "(case cs_metrics c of None \<Rightarrow> ms = ub_metrics db | Some m \<Rightarrow> saveMetricsRow now (cs_id c) t m (ub_metrics db) = Inr ms)"
    "ub_segments db' = ub_segments db" "ub_members db' = ub_members db"
proof -
  from assms obtain rows where rows: "saveCustomerRow now c t (ub_customers db) = Inr rows"
    by (cases "saveCustomerRow now c t (ub_customers db)") (auto simp: saveCustomer_def)
  show thesis
  proof (cases "cs_metrics c")
    case None
    with assms rows show ?thesis by (intro that [of rows "ub_metrics db"]) (auto simp: saveCustomer_def Let_def)
  next
    case (Some m)
    with assms rows obtain ms where "saveMetricsRow now (cs_id c) t m (ub_metrics db) = Inr ms"
      by (cases "saveMetricsRow now (cs_id c) t m (ub_metrics db)") (auto simp: saveCustomer_def Let_def)
    with assms rows Some show ?thesis by (intro that [of rows ms]) (auto simp: saveCustomer_def Let_def)
  qed
qed

lemma saved_customer_row:
  assumes "saveCustomerRow now c t rows = Inr rows'" "cs_tenantId c = t"
  obtains r where "List.find (sameCustomer (cs_id c) t) rows' = Some r" "storedAs c r"
proof (cases "list_ex (sameCustomer (cs_id c) t) rows")
  case True
  then obtain r where "List.find (sameCustomer (cs_id c) t) rows = Some r" using list_ex_find by fastforce
  moreover have "List.find (sameCustomer (cs_id c) t) (map (\<lambda>r. if sameCustomer (cs_id c) t r then (customerColumns now c)\<lparr>cs_createdAt := cs_createdAt r\<rparr> else r) rows)
      = map_option (\<lambda>r. (customerColumns now c)\<lparr>cs_createdAt := cs_createdAt r\<rparr>) (List.find (sameCustomer (cs_id c) t) rows)"
    by (rule find_map_upd) (simp add: sameCustomer_def assms(2))
  ultimately show ?thesis using assms(1) True by (intro that) (auto simp: saveCustomerRow_def Let_def split: if_splits)
next
  case False
  then show ?thesis using assms
    by (intro that [of "(customerColumns now c)\<lparr>cs_updatedAt := cs_createdAt c\<rparr>"])
      (auto simp: saveCustomerRow_def Let_def find_append_new sameCustomer_def split: if_splits)
qed

lemma saved_other_row:
  assumes "saveCustomerRow now c t rows = Inr rows'" "cs_tenantId c = t" "i \<noteq> cs_id c"
  shows "List.find (sameCustomer i t) rows' = List.find (sameCustomer i t) rows"
proof -
  have "List.find (sameCustomer i t) (map (\<lambda>r. if sameCustomer (cs_id c) t r then (customerColumns now c)\<lparr>cs_createdAt := cs_createdAt r\<rparr> else r) rows)
      = List.find (sameCustomer i t) rows" using assms(3) by (intro find_map_other) (auto simp: sameCustomer_def)
  then show ?thesis using assms(1,3)
    by (auto simp: saveCustomerRow_def Let_def find_append_other sameCustomer_def split: if_splits)
qed

subsection \<open>The unique indexes\<close>

definition keepsUnique :: "CustWorld \<Rightarrow> CustWorld \<Rightarrow> bool" where
  "keepsUnique w w' \<longleftrightarrow> (customersUnique (ub_customers (uw_db w)) \<longrightarrow> customersUnique (ub_customers (uw_db w')))"

interpretation unique: state_frame keepsUnique
  by unfold_locales (auto simp: keepsUnique_def)

lemma unique_save: "framed keepsUnique (cuTryWrite (\<lambda>now. saveCustomer now c t))"
  by (auto simp: framed_def keepsUnique_def cuTryWrite_def split: sum.splits elim!: saveCustomer_InrE dest: saveCustomerRow_unique)

lemma unique_save_at: "framed keepsUnique (cuTryWrite (\<lambda>now. saveCustomer (f now) c t))"
  by (auto simp: framed_def keepsUnique_def cuTryWrite_def split: sum.splits elim!: saveCustomer_InrE dest: saveCustomerRow_unique)

lemma unique_segment: "framed keepsUnique (cuTryWrite (\<lambda>now. saveSegment now s t))"
  by (auto simp: framed_def keepsUnique_def cuTryWrite_def saveSegment_def Let_def split: sum.splits if_splits)

lemma unique_same: "(\<And>w. ub_customers (uw_db (snd (m w))) = ub_customers (uw_db w)) \<Longrightarrow> framed keepsUnique m"
  by (auto simp: framed_def keepsUnique_def)

lemma unique_basic:
  "framed keepsUnique cuNow" "framed keepsUnique cuUUID" "framed keepsUnique (cuRead f)" "framed keepsUnique (cuLog a b d e)"
  "framed keepsUnique (cuAddJob j)" "framed keepsUnique (evaluateCustomerTriggers t tr c)" "framed keepsUnique (cuWrite (removeSegmentRow i g t))"
  "framed keepsUnique (cuWrite (assignSegmentRow u i g t))" "framed keepsUnique (cuWrite (\<lambda>db. snd (deleteSegment i t db)))"
  by (rule unique_same, auto simp: cuNow_def cuUUID_def cuRead_def cuLog_def cuAddJob_def evaluateCustomerTriggers_def svc_simps cuWrite_def
      removeSegmentRow_def assignSegmentRow_def deleteSegment_def split: sum.splits)+

lemma unique_case_option: "framed keepsUnique a \<Longrightarrow> (\<And>x. framed keepsUnique (b x)) \<Longrightarrow> framed keepsUnique (case v of None \<Rightarrow> a | Some x \<Rightarrow> b x)"
  by (cases v) simp_all

lemma unique_if: "framed keepsUnique a \<Longrightarrow> framed keepsUnique b \<Longrightarrow> framed keepsUnique (if p then a else b)"
  by simp

lemmas unique_rules = unique.frame_rules unique_basic unique_save unique_segment unique_case_option unique_if

lemma unique_publishAll: "framed keepsUnique (cuPublishAll c)"
proof -
  have "framed keepsUnique (CustomerEventPublisher_publish ev)" for ev
    by (cases ev) (auto simp: CustomerEventPublisher_publish_def Let_def intro!: unique_rules)
  then show ?thesis by (auto simp: cuPublishAll_def intro!: unique_rules)
qed

lemma unique_create: "framed keepsUnique (CustomerService_create t dto u)"
  unfolding CustomerService_create_def persistCustomer_def Let_def by (intro unique_rules unique_publishAll)

lemma unique_import: "framed keepsUnique (importAll t u rs acc)"
  by (induction rs arbitrary: acc) (auto simp: importOne_def intro!: unique_rules unique_create split: option.splits)

lemma unique_getCustomer: "framed keepsUnique (getCustomerOrThrow t i)" "framed keepsUnique (getSegmentOrThrow t i)"
  unfolding getCustomerOrThrow_def getSegmentOrThrow_def by (intro unique_rules)+

lemma unique_withProfile: "framed keepsUnique (withProfile t d c)"
  unfolding withProfile_def by (intro unique_rules)

lemma unique_updateMetrics: "framed keepsUnique (updateMetrics t i d)"
  unfolding updateMetrics_def by (intro unique_rules unique_getCustomer)

lemma unique_assign: "framed keepsUnique (assignToSegment t i g)"
  unfolding assignToSegment_def by (intro unique_rules)

lemma unique_segmentation: "framed keepsUnique (runDynamicSegmentation t g)"
  unfolding runDynamicSegmentation_def Let_def by (intro unique_rules unique_assign)

text \<open>The operations of the module as steps of its world, for any tenant and any request.\<close>

inductive custStep :: "CustWorld \<Rightarrow> CustWorld \<Rightarrow> bool" where
  step_create: "CustomerService_create t dto u w = (r, w') \<Longrightarrow> custStep w w'"
| step_channel: "findOrCreateByExternalId t ch x ty w = (r, w') \<Longrightarrow> custStep w w'"
| step_update: "CustomerService_update t i d u w = (r, w') \<Longrightarrow> custStep w w'"
| step_delete: "CustomerService_delete t i u w = (r', w') \<Longrightarrow> custStep w w'"
| step_restore: "CustomerService_restore t i u w = (r', w') \<Longrightarrow> custStep w w'"
| step_merge: "CustomerService_merge t i j u w = (r, w') \<Longrightarrow> custStep w w'"
| step_profile: "CustomerProfileService_updateProfile t i p w = (rp, w') \<Longrightarrow> custStep w w'"
| step_metrics: "updateMetrics t i md w = (rm, w') \<Longrightarrow> custStep w w'"
| step_segment: "createSegment t sd w = (rs, w') \<Longrightarrow> custStep w w'"
| step_resegment: "updateSegment t i sd w = (rs, w') \<Longrightarrow> custStep w w'"
| step_unsegment: "CustomerSegmentService_deleteSegment t i w = (r', w') \<Longrightarrow> custStep w w'"
| step_assign: "assignCustomerToSegment t i j w = (ru, w') \<Longrightarrow> custStep w w'"
| step_unassign: "removeCustomerFromSegment t i j w = (ru, w') \<Longrightarrow> custStep w w'"
| step_job: "handleCustomerJob t job w = (rj, w') \<Longrightarrow> custStep w w'"

lemma unique_operations:
  "framed keepsUnique (findOrCreateByExternalId t ch x ty)" "framed keepsUnique (CustomerService_update t i d u)"
  "framed keepsUnique (CustomerService_delete t i u)" "framed keepsUnique (CustomerService_restore t i u)"
  "framed keepsUnique (CustomerProfileService_updateProfile t i p)" "framed keepsUnique (createSegment t sd)"
  "framed keepsUnique (updateSegment t i sd)" "framed keepsUnique (CustomerSegmentService_deleteSegment t i)"
  "framed keepsUnique (assignCustomerToSegment t i j)" "framed keepsUnique (removeCustomerFromSegment t i j)"
  unfolding findOrCreateByExternalId_def CustomerService_update_def CustomerService_delete_def CustomerService_restore_def
    CustomerProfileService_updateProfile_def createSegment_def updateSegment_def CustomerSegmentService_deleteSegment_def
    assignCustomerToSegment_def removeCustomerFromSegment_def persistCustomer_def Let_def
  by (intro unique_rules unique_publishAll unique_getCustomer unique_withProfile unique_assign)+

lemma unique_merge: "framed keepsUnique (CustomerService_merge t i j u)"
  by (auto simp: CustomerService_merge_def Let_def intro!: unique_rules unique_publishAll split: option.splits)

lemma unique_job: "framed keepsUnique (handleCustomerJob t job)"
  by (cases job) (auto simp: handleCustomerJob_def CustomerService_import_def exportCsv_def recalculateMetrics_def case_prod_unfold
      intro!: unique_rules unique_import unique_getCustomer unique_updateMetrics unique_segmentation)

lemma custStep_unique: "custStep w w' \<Longrightarrow> keepsUnique w w'"
  by (induction rule: custStep.induct)
    (rule framedD [where R = keepsUnique, rotated], assumption, rule unique_create unique_operations unique_merge unique_updateMetrics unique_job)+


subsection \<open>Import\<close>

text \<open>An import ends with every record either imported or reported, whatever the records hold, unless one of them is \<^verbatim>\<open>null\<close>: then it
  fails and reports nothing.\<close>

theorem import_accounts_for_every_record:
  "case fst (CustomerService_import t records u w) of
     Inr (imported, errors) \<Rightarrow> None \<notin> set records \<and> imported + length errors = length records
   | Inl e \<Rightarrow> None \<in> set records \<and> e = TypeError"
proof -
  have "case fst (importAll t u rs (n, es) v) of Inr (n', es') \<Rightarrow> None \<notin> set rs \<and> n' + length es' = n + length es + length rs
      | Inl e \<Rightarrow> None \<in> set rs \<and> e = TypeError" for rs n es v
  proof (induction rs arbitrary: n es v)
    case (Cons r rs)
    show ?case
    proof (cases r)
      case (Some x)
      have "\<exists>n' es' v'. importOne t u (Some x) (n, es) v = (Inr (n', es'), v') \<and> n' + length es' = n + length es + 1"
        by (cases "CustomerService_create t (importedDto (the (ir_email x)) x) u v")
          (auto simp: importOne_def svc_simps split: sum.splits)
      then obtain n' es' v' where one: "importOne t u (Some x) (n, es) v = (Inr (n', es'), v')" "n' + length es' = n + length es + 1" by blast
      have "importAll t u (r # rs) (n, es) v = importAll t u rs (n', es') v'" using one(1) Some by simp
      with Cons.IH [of n' es' v'] one(2) Some show ?thesis by (auto split: sum.splits)
    qed (simp add: importOne_def svc_simps)
  qed simp
  from this [of records 0 "[]" w] show ?thesis by (auto simp: CustomerService_import_def split: sum.splits)
qed

subsection \<open>Export\<close>

text \<open>A reader of comma separated values: one quoted field, the fields of a row, the rows of a file.\<close>

fun readField :: "string \<Rightarrow> (string \<times> string) option" where
  "readField [] = None"
| "readField (c # cs) =
     (if c = CHR 0x22 then
        (case cs of d # ds \<Rightarrow> if d = CHR 0x22 then map_option (\<lambda>(v, rest). (d # v, rest)) (readField ds) else Some ([], cs) | [] \<Rightarrow> Some ([], []))
      else map_option (\<lambda>(v, rest). (c # v, rest)) (readField cs))"

lemma readField_shorter: "readField s = Some (v, rest) \<Longrightarrow> length rest < length s"
proof (induction s arbitrary: v rest rule: readField.induct)
  case (2 c cs)
  then show ?case by (cases cs) (fastforce split: if_splits)+
qed simp

function readRows :: "string \<Rightarrow> string list list option" where
  "readRows s =
     (case s of
        c # cs \<Rightarrow>
          if c \<noteq> CHR 0x22 then None
          else (case readField cs of
                  None \<Rightarrow> None
                | Some (v, []) \<Rightarrow> Some [[v]]
                | Some (v, d # ds) \<Rightarrow>
                    if d = CHR '','' then (case readRows ds of Some (r # rs) \<Rightarrow> Some ((v # r) # rs) | _ \<Rightarrow> None)
                    else if d = CHR 0x0A then map_option (\<lambda>rs. [v] # rs) (readRows ds)
                    else None)
      | [] \<Rightarrow> None)"
  by pat_completeness auto
termination
  by (relation "measure length") (auto dest!: readField_shorter)

declare readRows.simps [simp del]

lemma readField_quoted:
  assumes "rest = [] \<or> hd rest \<noteq> CHR 0x22"
  shows "readField (concat (map (\<lambda>c. if c = CHR 0x22 then [c, c] else [c]) v) @ CHR 0x22 # rest) = Some (v, rest)"
  using assms by (induction v) (auto split: list.splits)

lemma csvQuote_app: "csvQuote v @ rest = CHR 0x22 # concat (map (\<lambda>c. if c = CHR 0x22 then [c, c] else [c]) v) @ CHR 0x22 # rest"
  by (simp add: csvQuote_def)

lemma readRows_field:
  "readRows (csvQuote v) = Some [[v]]"
  "readRows (csvQuote v @ CHR '','' # s) = (case readRows s of Some (r # rs) \<Rightarrow> Some ((v # r) # rs) | _ \<Rightarrow> None)"
  "readRows (csvQuote v @ CHR 0x0A # s) = map_option (\<lambda>rs. [v] # rs) (readRows s)"
  using readField_quoted [of "[]" v]
  by (simp_all add: csvQuote_def readField_quoted readRows.simps [of "CHR 0x22 # _"])

lemma readRows_row:
  assumes "vs \<noteq> []"
  shows "readRows (csvRow vs) = Some [vs]" "readRows s = Some rs \<Longrightarrow> readRows (csvRow vs @ CHR 0x0A # s) = Some (vs # rs)"
  using assms by (induction vs rule: induct_list012) (auto simp: csvRow_def readRows_field)

lemma readRows_body: "rows \<noteq> [] \<Longrightarrow> \<forall>r\<in>set rows. r \<noteq> [] \<Longrightarrow> readRows (joinWith [CHR 0x0A] (map csvRow rows)) = Some rows"
  by (induction rows rule: induct_list012) (auto simp: readRows_row)

text \<open>C29: An export is the header line followed by rows that read back, whatever quotes, commas and line ends the values hold, as the values
  of the customers of the tenant that are not deleted, in the order of the table.\<close>

theorem export_reads_back:
  "\<exists>body. exportCsv t w = (Inr (joinWith '','' csvHeaders @ body), w) \<and>
     (if findAllCustomers t (uw_db w) = [] then body = []
      else \<exists>rows. body = CHR 0x0A # rows \<and> readRows rows = Some (map csvValues (findAllCustomers t (uw_db w))))"
proof (cases "findAllCustomers t (uw_db w)")
  case Nil
  then show ?thesis by (simp add: exportCsv_def cuRead_def)
next
  case (Cons c cs)
  define rows where "rows = joinWith [CHR 0x0A] (map csvRow (map csvValues (findAllCustomers t (uw_db w))))"
  have "readRows rows = Some (map csvValues (findAllCustomers t (uw_db w)))"
    unfolding rows_def by (rule readRows_body) (auto simp: Cons csvValues_def)
  moreover have "exportCsv t w = (Inr (joinWith '','' csvHeaders @ CHR 0x0A # rows), w)"
    by (simp add: exportCsv_def cuRead_def Cons rows_def comp_def)
  ultimately show ?thesis by (simp add: Cons)
qed

subsection \<open>Stored metrics\<close>

definition numbers :: "CustomerMetrics \<Rightarrow> (int option \<times> int option \<times> int option \<times> int option \<times> rat option) \<times> (int option \<times> int option \<times> rat option \<times> int option \<times> rat option \<times> bool option)" where
  "numbers m = ((csm_totalConversations m, csm_totalTickets m, csm_totalOrders m, csm_totalSpend m, csm_averageCsat m),
     (csm_averageResponseTime m, csm_averageResolutionTime m, csm_sentimentScore m, csm_lifetimeValue m, csm_riskScore m, csm_vipStatus m))"

definition full :: "CustomerMetrics \<Rightarrow> bool" where
  "full m = (csm_totalConversations m \<noteq> None \<and> csm_totalTickets m \<noteq> None \<and> csm_totalOrders m \<noteq> None \<and> csm_totalSpend m \<noteq> None \<and>
     csm_averageCsat m \<noteq> None \<and> csm_averageResponseTime m \<noteq> None \<and> csm_averageResolutionTime m \<noteq> None \<and> csm_sentimentScore m \<noteq> None \<and>
     csm_lifetimeValue m \<noteq> None \<and> csm_riskScore m \<noteq> None \<and> csm_vipStatus m \<noteq> None)"

lemma full_cong: "numbers m = numbers m' \<Longrightarrow> full m = full m'"
  by (simp add: numbers_def full_def)

lemma metricsColumns_numbers [simp]: "full m \<Longrightarrow> numbers (metricsColumns now m r) = numbers m"
  by (auto simp: numbers_def full_def metricsColumns_def orColumn_def)

lemma metricsColumns_sel [simp]:
  "csm_customerId (metricsColumns now m r) = csm_customerId m" "csm_tenantId (metricsColumns now m r) = csm_tenantId m"
  by (simp_all add: metricsColumns_def)

abbreviation ofCustomer :: "uid \<Rightarrow> CustomerMetrics \<Rightarrow> bool" where
  "ofCustomer i \<equiv> (\<lambda>m. csm_customerId m = i)"

definition metricsOwned :: "uid \<Rightarrow> uid \<Rightarrow> CustomerMetrics list \<Rightarrow> bool" where
  "metricsOwned t i rows \<longleftrightarrow> (\<forall>r\<in>set rows. csm_customerId r = i \<longrightarrow> csm_tenantId r = t)"

lemma saved_metrics:
  assumes "full m" "csm_customerId m = i" "csm_tenantId m = t" "metricsOwned t i rows"
  obtains rows' m' where "saveMetricsRow now i t m rows = Inr rows'" "List.find (ofCustomer i) rows' = Some m'" "numbers m' = numbers m"
    "metricsOwned t i rows'" "\<And>j. j \<noteq> i \<Longrightarrow> List.find (ofCustomer j) rows' = List.find (ofCustomer j) rows"
    "\<And>j t'. j \<noteq> i \<Longrightarrow> metricsOwned t' j rows \<Longrightarrow> metricsOwned t' j rows'"
proof -
  let ?same = "\<lambda>r. csm_customerId r = i \<and> csm_tenantId r = t"
  have same: "\<forall>r\<in>set rows. ?same r \<longleftrightarrow> csm_customerId r = i" using assms(4) by (auto simp: metricsOwned_def)
  have there: "csm_totalSpend m \<noteq> None" "csm_lifetimeValue m \<noteq> None" using assms(1) by (simp_all add: full_def)
  show thesis
  proof (cases "list_ex ?same rows")
    case True
    let ?rows = "map (\<lambda>r. if ?same r then metricsColumns now m r else r) rows"
    from True obtain r where r: "List.find ?same rows = Some r" using list_ex_find [OF True] by blast
    have "List.find (ofCustomer i) ?rows = map_option (metricsColumns now m) (List.find ?same rows)"
      using assms(2,3) same by (induction rows) auto
    moreover have "List.find (ofCustomer j) ?rows = List.find (ofCustomer j) rows" if "j \<noteq> i" for j
      using assms(2) that by (intro find_map_other) auto
    moreover have "metricsOwned t' j ?rows" if "metricsOwned t' j rows" "j = i \<and> t' = t \<or> j \<noteq> i" for j t'
      using that assms(2,3) by (auto simp: metricsOwned_def)
    ultimately show ?thesis using r True there assms(1,4)
      by (intro that [of ?rows "metricsColumns now m r"]) (auto simp: saveMetricsRow_def Let_def)
  next
    case False
    let ?rows = "rows @ [m\<lparr>csm_updatedAt := csm_createdAt m\<rparr>]"
    have "\<not> list_ex (ofCustomer i) rows" using False same by (auto simp: list_ex_iff)
    then have "List.find (ofCustomer i) ?rows = Some (m\<lparr>csm_updatedAt := csm_createdAt m\<rparr>)" using assms(2) by (simp add: find_append_new)
    moreover have "List.find (ofCustomer j) ?rows = List.find (ofCustomer j) rows" if "j \<noteq> i" for j
      using assms(2) that by (intro find_append_other) auto
    moreover have "metricsOwned t' j ?rows" if "metricsOwned t' j rows" "j = i \<and> t' = t \<or> j \<noteq> i" for j t'
      using that assms(2,3) by (auto simp: metricsOwned_def)
    ultimately show ?thesis using False there assms(4)
      by (intro that [of ?rows "m\<lparr>csm_updatedAt := csm_createdAt m\<rparr>"]) (auto simp: saveMetricsRow_def Let_def numbers_def)
  qed
qed

text \<open>A customer of the tables: found under its key, with metrics whose columns are all there.\<close>

definition keptCustomer :: "uid \<Rightarrow> Customer \<Rightarrow> CustomerMetrics \<Rightarrow> CustDb \<Rightarrow> bool" where
  "keptCustomer t c m db \<longleftrightarrow> customersUnique (ub_customers db) \<and> findCustomer (cs_id c) t db = Some c \<and> cs_metrics c = Some m \<and> full m \<and>
     metricsOwned t (cs_id c) (ub_metrics db)"

lemma resave_no_clash:
  assumes "keptCustomer t c m db" "cs_id c' = cs_id c" "cs_tenantId c' = t" "cs_email c' = cs_email c" "cs_externalCustomerId c' = cs_externalCustomerId c"
    "r \<in> set (ub_customers db)" "customerClash (customerColumns now c') r"
  shows "sameCustomer (cs_id c) t r"
proof -
  from assms(1) obtain r0 where r0: "r0 \<in> set (ub_customers db)" "sameCustomer (cs_id c) t r0" "c = customerOf db r0"
    by (auto simp: keptCustomer_def elim: findCustomer_row)
  have cols: "cs_email (customerColumns now c') = cs_email r0" "cs_tenantId (customerColumns now c') = cs_tenantId r0"
    "cs_externalCustomerId (customerColumns now c') = orUndefined (cs_externalCustomerId r0)"
    using assms(3-5) r0(2,3) by (simp_all add: sameCustomer_def)
  have "orUndefined x = y \<Longrightarrow> y \<noteq> None \<Longrightarrow> x = y" for x y by (cases x) (auto simp: orUndefined_def split: if_splits)
  then have "customerClash r0 r" using assms(7) cols unfolding customerClash_def by metis
  then show ?thesis using assms(1,6) r0(1,2) by (auto simp: keptCustomer_def customersUnique_def sameCustomer_def)
qed

lemma resave_kept:
  assumes kept: "keptCustomer t c m db" and c': "cs_id c' = cs_id c" "cs_tenantId c' = t" "cs_email c' = cs_email c"
    "cs_externalCustomerId c' = cs_externalCustomerId c" "cs_metrics c' = Some m'" "full m'" "csm_customerId m' = cs_id c" "csm_tenantId m' = t"
  obtains db' c'' m'' where "saveCustomer now c' t db = Inr db'" "keptCustomer t c'' m'' db'" "cs_id c'' = cs_id c" "numbers m'' = numbers m'"
    "cs_status c'' = cs_status c'" "cs_deletedAt c'' = cs_deletedAt c'" "cs_email c'' = cs_email c" "cs_externalCustomerId c'' = cs_externalCustomerId c"
    "\<And>d n. keptCustomer t d n db \<Longrightarrow> cs_id d \<noteq> cs_id c \<Longrightarrow> \<exists>d'. keptCustomer t d' n db' \<and> cs_id d' = cs_id d \<and> cs_status d' = cs_status d \<and>
        cs_deletedAt d' = cs_deletedAt d \<and> cs_email d' = cs_email d \<and> cs_externalCustomerId d' = cs_externalCustomerId d"
    "ub_members db' = ub_members db"
proof -
  have free: "\<not> list_ex (\<lambda>r. \<not> sameCustomer (cs_id c') t r \<and> customerClash (customerColumns now c') r) (ub_customers db)"
    using resave_no_clash [OF kept c'(1-4)] c'(1) by (auto simp: list_ex_iff)
  then obtain rows where rows: "saveCustomerRow now c' t (ub_customers db) = Inr rows"
    by (cases "list_ex (sameCustomer (cs_id c') t) (ub_customers db)") (auto simp: saveCustomerRow_def Let_def)
  have owned: "metricsOwned t (cs_id c) (ub_metrics db)" using kept by (simp add: keptCustomer_def)
  obtain ms m'' where ms: "saveMetricsRow now (cs_id c) t m' (ub_metrics db) = Inr ms" "List.find (ofCustomer (cs_id c)) ms = Some m''"
      "numbers m'' = numbers m'" "metricsOwned t (cs_id c) ms" "\<And>j. j \<noteq> cs_id c \<Longrightarrow> List.find (ofCustomer j) ms = List.find (ofCustomer j) (ub_metrics db)"
      "\<And>j t'. j \<noteq> cs_id c \<Longrightarrow> metricsOwned t' j (ub_metrics db) \<Longrightarrow> metricsOwned t' j ms"
    using saved_metrics [OF c'(6-8) owned] by metis
  define db' where "db' = db\<lparr>ub_customers := rows, ub_profiles := (case cs_profile c' of None \<Rightarrow> ub_profiles db | Some p \<Rightarrow> saveProfileRow now (cs_id c') t p (ub_profiles db)), ub_metrics := ms\<rparr>"
  have saved: "saveCustomer now c' t db = Inr db'" using rows ms(1) c'(1,5) by (simp add: saveCustomer_def db'_def Let_def)
  have uniq: "customersUnique rows" by (rule saveCustomerRow_unique [OF rows]) (use kept in \<open>simp add: keptCustomer_def\<close>)
  obtain r where r: "List.find (sameCustomer (cs_id c) t) rows = Some r" "storedAs c' r" using saved_customer_row [OF rows c'(2)] c'(1) by metis
  note sel = storedAs_sel [OF r(2)]
  have ext: "orUndefined (cs_externalCustomerId c) = cs_externalCustomerId c" using kept by (auto simp: keptCustomer_def elim!: findCustomer_row)
  have mine: "keptCustomer t (customerOf db' r) m'' db'"
    using r sel uniq ms c' full_cong [OF ms(3)] by (simp add: keptCustomer_def findCustomer_def db'_def)
  have others: "\<exists>d'. keptCustomer t d' n db' \<and> cs_id d' = cs_id d \<and> cs_status d' = cs_status d \<and> cs_deletedAt d' = cs_deletedAt d \<and>
      cs_email d' = cs_email d \<and> cs_externalCustomerId d' = cs_externalCustomerId d" if d: "keptCustomer t d n db" "cs_id d \<noteq> cs_id c" for d n
  proof -
    have "findCustomer (cs_id d) t db = Some d" using d(1) by (simp add: keptCustomer_def)
    then obtain q where q: "List.find (sameCustomer (cs_id d) t) (ub_customers db) = Some q" "sameCustomer (cs_id d) t q" "d = customerOf db q"
      by (rule findCustomer_row)
    have row: "List.find (sameCustomer (cs_id d) t) rows = Some q" using saved_other_row [OF rows c'(2)] d(2) c'(1) q(1) by simp
    have id: "cs_id q = cs_id d" using q(2) by (simp add: sameCustomer_def)
    have "findCustomer (cs_id d) t db' = Some (customerOf db' q)" using row by (simp add: findCustomer_def db'_def)
    moreover have "cs_metrics (customerOf db' q) = cs_metrics d" 
      using ms(5) [OF d(2)] arg_cong [OF q(3), of cs_metrics] id by (simp add: db'_def)
    moreover have "metricsOwned t (cs_id d) ms" using ms(6) [OF d(2)] d(1) by (simp add: keptCustomer_def)
    ultimately have "keptCustomer t (customerOf db' q) n db'" using d(1) uniq id by (simp add: keptCustomer_def db'_def)
    moreover have "cs_status q = cs_status d" "cs_deletedAt q = cs_deletedAt d" "cs_email q = cs_email d"
        "orUndefined (cs_externalCustomerId q) = cs_externalCustomerId d" using q(3) by simp_all
    ultimately show ?thesis using id by (intro exI [of _ "customerOf db' q"]) simp
  qed
  show thesis
    using sel c' ext by (intro that [OF saved mine _ ms(3)] others) (simp_all add: db'_def)
qed

lemma kept_sel:
  assumes "keptCustomer t c m db"
  shows "findCustomer (cs_id c) t db = Some c" "cs_metrics c = Some m" "full m" "cs_tenantId c = t" "csm_customerId m = cs_id c" "csm_tenantId m = t"
proof -
  show f: "findCustomer (cs_id c) t db = Some c" and m: "cs_metrics c = Some m" and "full m" using assms by (simp_all add: keptCustomer_def)
  obtain r where r: "c = customerOf db r" "cs_tenantId c = t" by (rule findCustomer_row [OF f]) blast
  have found: "List.find (ofCustomer (cs_id c)) (ub_metrics db) = Some m" using m r(1) by simp
  then have "m \<in> set (ub_metrics db)" and id: "csm_customerId m = cs_id c" using find_Some_set [OF found] by simp_all
  then show "csm_tenantId m = t" using assms by (simp add: keptCustomer_def metricsOwned_def)
  show "csm_customerId m = cs_id c" by (rule id)
  show "cs_tenantId c = t" by (rule r(2))
qed

subsection \<open>The metrics job\<close>

lemma recalculated_update:
  assumes "full m"
  shows "full (CustomerMetrics_update now (recalculated (Some m)) m)"
    "csm_customerId (CustomerMetrics_update now (recalculated (Some m)) m) = csm_customerId m"
    "csm_tenantId (CustomerMetrics_update now (recalculated (Some m)) m) = csm_tenantId m"
    "csm_totalConversations (CustomerMetrics_update now (recalculated (Some m)) m) = Some (the (csm_totalConversations m) + 1)"
    "csm_totalSpend (CustomerMetrics_update now (recalculated (Some m)) m) = Some (the (csm_totalSpend m) + 10000)"
    "csm_lifetimeValue (CustomerMetrics_update now (recalculated (Some m)) m) = Some (the (csm_lifetimeValue m) + 10000)"
    "csm_vipStatus (CustomerMetrics_update now (recalculated (Some m)) m) = Some (100000 < the (csm_lifetimeValue m) + 10000)"
  using assms by (auto simp: full_def recalculated_def noMetrics_def CustomerMetrics_update_def metricOr0_def patched_def)

definition metricsJob :: "uid \<Rightarrow> uid \<Rightarrow> CustWorld \<Rightarrow> CustWorld" where
  "metricsJob t i w = snd (handleCustomerJob t (CustomerMetricsJob i) w)"

lemma metricsJob_step:
  assumes kept: "keptCustomer t c m (uw_db w)"
  obtains c' m' where "keptCustomer t c' m' (uw_db (metricsJob t (cs_id c) w))" "cs_id c' = cs_id c"
    "csm_totalConversations m' = Some (the (csm_totalConversations m) + 1)" "csm_totalSpend m' = Some (the (csm_totalSpend m) + 10000)"
    "csm_lifetimeValue m' = Some (the (csm_lifetimeValue m) + 10000)" "csm_vipStatus m' = Some (100000 < the (csm_lifetimeValue m) + 10000)"
proof -
  note k = kept_sel [OF kept]
  define m0 where "m0 = CustomerMetrics_update (uw_now w) (recalculated (Some m)) m"
  define c0 where "c0 = Customer_updateMetrics (uw_now w) m0 c"
  note r = recalculated_update [OF k(3), of "uw_now w", folded m0_def]
  have sel: "cs_id c0 = cs_id c" "cs_tenantId c0 = t" "cs_email c0 = cs_email c" "cs_externalCustomerId c0 = cs_externalCustomerId c" "cs_metrics c0 = Some m0"
    using k(4) by (simp_all add: c0_def Customer_updateMetrics_def csEvent_def setMetrics_def)
  obtain db' c' m' where s: "saveCustomer (uw_now w) c0 t (uw_db w) = Inr db'" "keptCustomer t c' m' db'" "cs_id c' = cs_id c" "numbers m' = numbers m0"
    by (rule resave_kept [OF kept sel r(1), where now = "uw_now w"]) (use r k in simp_all)
  have "metricsJob t (cs_id c) w = w\<lparr>uw_db := db'\<rparr>"
    using s(1) k by (simp add: metricsJob_def handleCustomerJob_def recalculateMetrics_def updateMetrics_def getCustomerOrThrow_def cuRead_def cuNow_def
        svc_simps cuTryWrite_def m0_def c0_def)
  then show thesis using s(2,3,4) r by (intro that [of c' m']) (simp_all add: numbers_def)
qed

text \<open>The job that recalculates the metrics of a customer reads nothing but the metrics: each run adds one conversation and a hundred
  units of spend, and a customer of lifetime value 0 is a VIP after eleven runs.\<close>

theorem metrics_job_invents_spend:
  assumes "keptCustomer t c m (uw_db w)" "0 < k"
  shows "\<exists>c' m'. findCustomer (cs_id c) t (uw_db ((metricsJob t (cs_id c) ^^ k) w)) = Some c' \<and> cs_metrics c' = Some m' \<and>
    csm_totalConversations m' = Some (the (csm_totalConversations m) + int k) \<and> csm_totalSpend m' = Some (the (csm_totalSpend m) + 10000 * int k) \<and>
    csm_lifetimeValue m' = Some (the (csm_lifetimeValue m) + 10000 * int k) \<and>
    csm_vipStatus m' = Some (100000 < the (csm_lifetimeValue m) + 10000 * int k)"
proof -
  have "\<exists>c' m'. keptCustomer t c' m' (uw_db ((metricsJob t (cs_id c) ^^ k) w)) \<and> cs_id c' = cs_id c \<and>
    csm_totalConversations m' = Some (the (csm_totalConversations m) + int k) \<and> csm_totalSpend m' = Some (the (csm_totalSpend m) + 10000 * int k) \<and>
    csm_lifetimeValue m' = Some (the (csm_lifetimeValue m) + 10000 * int k) \<and>
    csm_vipStatus m' = Some (100000 < the (csm_lifetimeValue m) + 10000 * int k)"
    using assms(2)
  proof (induction k rule: nat_induct_non_zero)
    case 1
    show ?case by (rule metricsJob_step [OF assms(1)]) auto
  next
    case (Suc k)
    then obtain c' m' where c': "keptCustomer t c' m' (uw_db ((metricsJob t (cs_id c) ^^ k) w))" "cs_id c' = cs_id c"
      "csm_totalConversations m' = Some (the (csm_totalConversations m) + int k)" "csm_totalSpend m' = Some (the (csm_totalSpend m) + 10000 * int k)"
      "csm_lifetimeValue m' = Some (the (csm_lifetimeValue m) + 10000 * int k)" by blast
    show ?case by (rule metricsJob_step [OF c'(1)]) (use c'(2-) in \<open>auto simp: algebra_simps\<close>)
  qed
  then show ?thesis using kept_sel(1,2) by metis
qed

subsection \<open>Dynamic segments\<close>

definition inSegment :: "uid \<Rightarrow> uid \<Rightarrow> uid \<Rightarrow> CustDb \<Rightarrow> bool" where
  "inSegment i g t db = list_ex (isMemberRow i g t) (ub_members db)"

lemma inSegment_assign: "inSegment i g t (assignSegmentRow u j g' t' db) \<longleftrightarrow> inSegment i g t db \<or> (i = j \<and> g = g' \<and> t = t')"
  by (auto simp: inSegment_def assignSegmentRow_def isMemberRow_def list_ex_iff)

lemma inSegment_remove: "inSegment i g t (removeSegmentRow j g' t' db) \<longleftrightarrow> inSegment i g t db \<and> \<not> (i = j \<and> g = g' \<and> t = t')"
  by (auto simp: inSegment_def removeSegmentRow_def isMemberRow_def list_ex_iff)

lemma assignToSegment_run:
  obtains w' where "assignToSegment t j g w = (Inr (), w')"
    "\<forall>i. inSegment i g t (uw_db w') \<longleftrightarrow> inSegment i g t (uw_db w) \<or> i = j"
proof (cases "inSegment j g t (uw_db w)")
  case True
  then show ?thesis by (intro that [of w]) (auto simp: assignToSegment_def cuRead_def inSegment_def)
next
  case False
  let ?w = "w\<lparr>uw_uuidNext := uw_uuidNext w + 1, uw_db := assignSegmentRow (uw_uuid w (uw_uuidNext w)) j g t (uw_db w)\<rparr>"
  have "assignToSegment t j g w = (Inr (), ?w)"
    using False by (simp add: assignToSegment_def cuRead_def inSegment_def cuUUID_def cuWrite_def svc_simps)
  then show ?thesis by (rule that) (auto simp: inSegment_assign)
qed

definition placed :: "uid \<Rightarrow> uid \<Rightarrow> json \<Rightarrow> Customer \<Rightarrow> unit cusvc" where
  "placed t g rules c = (if segmentMatches rules c then assignToSegment t (cs_id c) g else cuWrite (removeSegmentRow (cs_id c) g t))"

lemma placed_run:
  obtains w' where "placed t g rules c w = (Inr (), w')"
    "\<forall>i. inSegment i g t (uw_db w') \<longleftrightarrow> (if i = cs_id c then segmentMatches rules c else inSegment i g t (uw_db w))"
proof (cases "segmentMatches rules c")
  case True
  obtain w' where w': "assignToSegment t (cs_id c) g w = (Inr (), w')" "\<forall>i. inSegment i g t (uw_db w') \<longleftrightarrow> inSegment i g t (uw_db w) \<or> i = cs_id c"
    by (rule assignToSegment_run)
  then show ?thesis using True by (intro that [of w']) (auto simp: placed_def)
next
  case False
  then show ?thesis
    by (intro that [of "w\<lparr>uw_db := removeSegmentRow (cs_id c) g t (uw_db w)\<rparr>"]) (auto simp: placed_def cuWrite_def inSegment_remove)
qed

lemma placed_all:
  assumes "distinct (map cs_id cs)"
  shows "\<exists>w'. forEach cs (placed t g rules) w = (Inr (), w') \<and>
    (\<forall>i. inSegment i g t (uw_db w') \<longleftrightarrow> (case List.find (\<lambda>c. cs_id c = i) cs of Some c \<Rightarrow> segmentMatches rules c | None \<Rightarrow> inSegment i g t (uw_db w)))"
  using assms
proof (induction cs arbitrary: w)
  case (Cons c cs)
  obtain w1 where w1: "placed t g rules c w = (Inr (), w1)"
    "\<forall>i. inSegment i g t (uw_db w1) \<longleftrightarrow> (if i = cs_id c then segmentMatches rules c else inSegment i g t (uw_db w))" by (rule placed_run)
  from Cons obtain w' where w': "forEach cs (placed t g rules) w1 = (Inr (), w')"
    "\<forall>i. inSegment i g t (uw_db w') \<longleftrightarrow> (case List.find (\<lambda>c. cs_id c = i) cs of Some c \<Rightarrow> segmentMatches rules c | None \<Rightarrow> inSegment i g t (uw_db w1))"
    by fastforce
  have "List.find (\<lambda>d. cs_id d = cs_id c) cs = None" using Cons.prems by (simp add: find_None_iff) (metis imageI)
  moreover have "forEach (c # cs) (placed t g rules) w = (Inr (), w')" using w1(1) w'(1) by simp
  ultimately show ?case using w1(2) w'(2) by (intro exI [of _ w']) (auto split: option.splits)
qed simp


text \<open>A bound of 0 is no bound: a customer matches every rule that asks for more than 0 spend, or for a score below 0.\<close>

lemma zero_bound_is_no_rule:
  "segmentMatches (JObj [(''spend'', JObj [(''gt'', JNum 0)]), (''csat'', JObj [(''lt'', JNum 0)])]) c"
  by (cases "cs_metrics c") (simp_all add: segmentMatches_def ruleBound_def optMember_def orFresh_def truthyJs_def)

subsection \<open>Merging\<close>

lemma mergedMetrics_sel:
  assumes "full a" "full b"
  shows "full (mergedMetrics now t i a b)" "csm_customerId (mergedMetrics now t i a b) = i" "csm_tenantId (mergedMetrics now t i a b) = t"
    "csm_totalSpend (mergedMetrics now t i a b) = Some (the (csm_totalSpend a) + the (csm_totalSpend b))"
    "csm_totalConversations (mergedMetrics now t i a b) = Some (the (csm_totalConversations a) + the (csm_totalConversations b))"
    "csm_totalTickets (mergedMetrics now t i a b) = Some (the (csm_totalTickets a) + the (csm_totalTickets b))"
    "csm_vipStatus (mergedMetrics now t i a b) = Some (the (csm_vipStatus a) \<or> the (csm_vipStatus b))"
proof -
  have both: "f a \<noteq> None \<Longrightarrow> f b \<noteq> None \<Longrightarrow> both f g a b = Some (g (the (f a)) (the (f b)))" for f g by (auto simp: both_def)
  show "full (mergedMetrics now t i a b)" "csm_customerId (mergedMetrics now t i a b) = i" "csm_tenantId (mergedMetrics now t i a b) = t"
    "csm_totalSpend (mergedMetrics now t i a b) = Some (the (csm_totalSpend a) + the (csm_totalSpend b))"
    "csm_totalConversations (mergedMetrics now t i a b) = Some (the (csm_totalConversations a) + the (csm_totalConversations b))"
    "csm_totalTickets (mergedMetrics now t i a b) = Some (the (csm_totalTickets a) + the (csm_totalTickets b))"
    "csm_vipStatus (mergedMetrics now t i a b) = Some (the (csm_vipStatus a) \<or> the (csm_vipStatus b))"
    using assms unfolding full_def by (simp_all add: mergedMetrics_def both del: not_None_eq)
qed

lemma cuPublishAll_run: "\<exists>w'. cuPublishAll c w = (Inr (c\<lparr>cs_domainEvents := []\<rparr>), w') \<and> uw_db w' = uw_db w"
proof -
  have one: "\<exists>w'. CustomerEventPublisher_publish ev v = (Inr (), w') \<and> uw_db w' = uw_db v" for ev v
    by (cases ev) (auto simp: CustomerEventPublisher_publish_def svc_simps cuAddJob_def)
  have "\<exists>w'. forEach es CustomerEventPublisher_publish v = (Inr (), w') \<and> uw_db w' = uw_db v" for es v
  proof (induction es arbitrary: v)
    case (Cons e es)
    obtain v' where v': "CustomerEventPublisher_publish e v = (Inr (), v')" "uw_db v' = uw_db v" using one by blast
    with Cons [of v'] show ?case by auto
  qed simp
  from this [of "cs_domainEvents c" w] show ?thesis by (auto simp: cuPublishAll_def)
qed

definition mergedSource :: "millis \<Rightarrow> Customer \<Rightarrow> Customer" where
  "mergedSource now c = Customer_update now (noCustomerPatch\<lparr>cpx_status := Some CUS_MERGED\<rparr>) (Customer_delete now c)"

lemma mergedSource_sel [simp]:
  "cs_id (mergedSource now c) = cs_id c" "cs_tenantId (mergedSource now c) = cs_tenantId c" "cs_email (mergedSource now c) = cs_email c"
  "cs_externalCustomerId (mergedSource now c) = cs_externalCustomerId c" "cs_metrics (mergedSource now c) = cs_metrics c"
  "cs_status (mergedSource now c) = CUS_MERGED" "cs_deletedAt (mergedSource now c) = Some now"
  by (simp_all add: mergedSource_def Customer_update_def Let_def csEvent_def noCustomerPatch_def Customer_delete_def patched_def)

lemma updateMetrics_sel [simp]:
  "cs_id (Customer_updateMetrics now m c) = cs_id c" "cs_tenantId (Customer_updateMetrics now m c) = cs_tenantId c"
  "cs_email (Customer_updateMetrics now m c) = cs_email c" "cs_externalCustomerId (Customer_updateMetrics now m c) = cs_externalCustomerId c"
  "cs_metrics (Customer_updateMetrics now m c) = Some m" "cs_status (Customer_updateMetrics now m c) = cs_status c"
  "cs_deletedAt (Customer_updateMetrics now m c) = cs_deletedAt c"
  by (simp_all add: Customer_updateMetrics_def csEvent_def setMetrics_def)

lemma merge_run:
  assumes kept: "keptCustomer t s ms (uw_db w)" "keptCustomer t d md (uw_db w)"
    and db1: "saveCustomer (uw_now w) (Customer_updateMetrics (uw_now w) (mergedMetrics (uw_now w) t (cs_id d) md ms) d) t (uw_db w) = Inr db1"
    and db2: "saveCustomer (uw_now w) (mergedSource (uw_now w) s) t db1 = Inr db2"
  shows "\<exists>r w'. CustomerService_merge t (cs_id s) (cs_id d) u w = (Inr r, w') \<and> uw_db w' = db2"
proof -
  note s = kept_sel [OF kept(1)] and d = kept_sel [OF kept(2)]
  define d' where "d' = Customer_updateMetrics (uw_now w) (mergedMetrics (uw_now w) t (cs_id d) md ms) d"
  obtain w1 where w1: "cuPublishAll d' (w\<lparr>uw_db := db2\<rparr>) = (Inr (d'\<lparr>cs_domainEvents := []\<rparr>), w1)" "uw_db w1 = db2"
    using cuPublishAll_run [of d' "w\<lparr>uw_db := db2\<rparr>"] by auto
  obtain w2 where w2: "cuPublishAll (mergedSource (uw_now w) s) w1 = (Inr ((mergedSource (uw_now w) s)\<lparr>cs_domainEvents := []\<rparr>), w2)" "uw_db w2 = db2"
    using cuPublishAll_run [of "mergedSource (uw_now w) s" w1] w1(2) by auto
  show ?thesis
    using s(1,2) d(1,2) db1 db2 w1 w2
    by (simp add: CustomerService_merge_def cuRead_def cuNow_def cuTryWrite_def cuLog_def Let_def svc_simps d'_def mergedSource_def)
qed

text \<open>Merging two customers puts the sums of their metrics on the target and leaves the source deleted and marked as merged.\<close>

theorem merge_adds_up:
  assumes "keptCustomer t s ms (uw_db w)" "keptCustomer t d md (uw_db w)" "cs_id s \<noteq> cs_id d"
  shows "\<exists>r w' s' d' m. CustomerService_merge t (cs_id s) (cs_id d) u w = (Inr r, w') \<and>
    findCustomer (cs_id d) t (uw_db w') = Some d' \<and> cs_deletedAt d' = cs_deletedAt d \<and> cs_status d' = cs_status d \<and> cs_metrics d' = Some m \<and>
    csm_totalSpend m = Some (the (csm_totalSpend md) + the (csm_totalSpend ms)) \<and>
    csm_totalConversations m = Some (the (csm_totalConversations md) + the (csm_totalConversations ms)) \<and>
    csm_totalTickets m = Some (the (csm_totalTickets md) + the (csm_totalTickets ms)) \<and>
    csm_vipStatus m = Some (the (csm_vipStatus md) \<or> the (csm_vipStatus ms)) \<and>
    findCustomer (cs_id s) t (uw_db w') = Some s' \<and> cs_status s' = CUS_MERGED \<and> cs_deletedAt s' = Some (uw_now w)"
proof -
  note s = kept_sel [OF assms(1)] and d = kept_sel [OF assms(2)]
  define m0 where "m0 = mergedMetrics (uw_now w) t (cs_id d) md ms"
  define d0 where "d0 = Customer_updateMetrics (uw_now w) m0 d"
  note m0 = mergedMetrics_sel [OF d(3) s(3), of "uw_now w" t "cs_id d", folded m0_def]
  obtain db1 d1 m1 where d1: "saveCustomer (uw_now w) d0 t (uw_db w) = Inr db1" "keptCustomer t d1 m1 db1" "cs_id d1 = cs_id d" "numbers m1 = numbers m0"
      "cs_status d1 = cs_status d0" "cs_deletedAt d1 = cs_deletedAt d0"
    and other: "\<exists>s1. keptCustomer t s1 ms db1 \<and> cs_id s1 = cs_id s \<and> cs_status s1 = cs_status s \<and>
        cs_deletedAt s1 = cs_deletedAt s \<and> cs_email s1 = cs_email s \<and> cs_externalCustomerId s1 = cs_externalCustomerId s"
    by (rule resave_kept [OF assms(2), where c' = d0 and m' = m0 and now = "uw_now w"]) (use m0 d assms(1,3) in \<open>simp_all add: d0_def\<close>)
  from other obtain s1 where s1: "keptCustomer t s1 ms db1" "cs_id s1 = cs_id s" "cs_email s1 = cs_email s" "cs_externalCustomerId s1 = cs_externalCustomerId s"
    by blast
  have apart: "cs_id d1 \<noteq> cs_id s" using d1(3) assms(3) by simp
  define s0 where "s0 = mergedSource (uw_now w) s"
  obtain db2 s2 m2 where s2: "saveCustomer (uw_now w) s0 t db1 = Inr db2" "keptCustomer t s2 m2 db2" "cs_id s2 = cs_id s1"
      "cs_status s2 = cs_status s0" "cs_deletedAt s2 = cs_deletedAt s0"
    and other2: "\<exists>d2. keptCustomer t d2 m1 db2 \<and> cs_id d2 = cs_id d1 \<and> cs_status d2 = cs_status d1 \<and> cs_deletedAt d2 = cs_deletedAt d1 \<and>
        cs_email d2 = cs_email d1 \<and> cs_externalCustomerId d2 = cs_externalCustomerId d1"
    by (rule resave_kept [OF s1(1), where c' = s0 and m' = ms and now = "uw_now w"]) (use s s1 d1(2) apart in \<open>simp_all add: s0_def\<close>)
  from other2 obtain d2 where d2: "keptCustomer t d2 m1 db2" "cs_id d2 = cs_id d1" "cs_status d2 = cs_status d1" "cs_deletedAt d2 = cs_deletedAt d1" by blast
  obtain r w' where run: "CustomerService_merge t (cs_id s) (cs_id d) u w = (Inr r, w')" "uw_db w' = db2"
    using merge_run [OF assms(1,2)] d1(1) s2(1) unfolding d0_def m0_def s0_def by blast
  show ?thesis
    using run m0 d1 d2 s2 s1 kept_sel(1,2) [OF d2(1)] kept_sel(1) [OF s2(2)]
    by (intro exI [of _ r] exI [of _ w'] exI [of _ s2] exI [of _ d2] exI [of _ m1]) (simp add: numbers_def d0_def s0_def)
qed

subsection \<open>Senders of a channel\<close>

lemma triggers_run: "\<exists>w'. evaluateCustomerTriggers t tr c w = (Inr (), w') \<and> uw_db w' = uw_db w"
  by (cases "uw_triggerAnswer w t tr c") (simp_all add: evaluateCustomerTriggers_def svc_simps)

text \<open>The customer a message of an unknown sender makes.\<close>

definition channelCustomer :: "CustWorld \<Rightarrow> uid \<Rightarrow> uid \<Rightarrow> string \<Rightarrow> string \<Rightarrow> string \<Rightarrow> Customer" where
  "channelCustomer w t ch x ty email =
     (let i = uw_uuid w (uw_uuidNext w)
      in setMetrics (uw_now w) (new_CustomerMetrics (uw_now w) (uw_uuid w (uw_uuidNext w + 1)) t i noMetrics)
           (Customer_create (uw_now w) i t (Some x) email None ''en'' ''UTC'' ty [(''syntheticEmail'', JBool True), (''channelId'', JStr ch)] None))"

lemma channelCustomer_sel [simp]:
  "cs_id (channelCustomer w t ch x ty email) = uw_uuid w (uw_uuidNext w)" "cs_tenantId (channelCustomer w t ch x ty email) = t"
  "cs_externalCustomerId (channelCustomer w t ch x ty email) = Some x" "cs_email (channelCustomer w t ch x ty email) = email"
  "cs_deletedAt (channelCustomer w t ch x ty email) = None" "cs_status (channelCustomer w t ch x ty email) = CUS_ACTIVE"
  by (simp_all add: channelCustomer_def setMetrics_def Customer_create_def Let_def csEvent_def)

lemma fromChannel_run:
  assumes "findCustomerByExternalId x t (uw_db w) = None" "CustomerEmail_create (syntheticEmail ch x) = Inr email"
  shows "findOrCreateByExternalId t ch x ty w =
      andThen (persistCustomer t (channelCustomer w t ch x ty email)) (\<lambda>c'.
        andThen (cuLog t None ''CUSTOMER_CREATE'' (''Created customer '' @ uw_uuid w (uw_uuidNext w) @ '' from '' @ ty @ '' channel identity'')) (\<lambda>_.
        andThen (evaluateCustomerTriggers t ''CUSTOMER_CREATED'' c') (\<lambda>_. ret c'))) (w\<lparr>uw_uuidNext := uw_uuidNext w + 1 + 1\<rparr>)"
  using assms by (simp add: findOrCreateByExternalId_def cuRead_def cuUUID_def cuNow_def channelCustomer_def Let_def)

lemma fromChannel_email:
  assumes "findOrCreateByExternalId t ch x ty w = (Inr c, w')" "findCustomerByExternalId x t (uw_db w) = None"
  shows "CustomerEmail_create (syntheticEmail ch x) = Inr (toLowerCase (trim (syntheticEmail ch x)))"
  using assms by (cases "CustomerEmail_create (syntheticEmail ch x)")
    (auto simp: findOrCreateByExternalId_def cuRead_def cuUUID_def cuNow_def svc_simps CustomerEmail_create_def Let_def split: if_splits)

lemma created_from_channel:
  assumes "findOrCreateByExternalId t ch x ty w = (Inr c, w')" "findCustomerByExternalId x t (uw_db w) = None"
  obtains c0 where "saveCustomer (uw_now w) c0 t (uw_db w) = Inr (uw_db w')" "cs_externalCustomerId c0 = Some x" "cs_tenantId c0 = t"
    "cs_id c0 = cs_id c" "cs_email c0 = toLowerCase (trim (syntheticEmail ch x))" "cs_deletedAt c0 = None" "cs_status c0 = CUS_ACTIVE"
proof -
  define i where "i = uw_uuid w (uw_uuidNext w)"
  define w1 where "w1 = w\<lparr>uw_uuidNext := uw_uuidNext w + 1 + 1\<rparr>"
  define c0 where "c0 = channelCustomer w t ch x ty (toLowerCase (trim (syntheticEmail ch x)))"
  note run = fromChannel_run [OF assms(2) fromChannel_email [OF assms], of ty, folded c0_def w1_def i_def]
  obtain db where db: "saveCustomer (uw_now w) c0 t (uw_db w) = Inr db"
  proof (cases "saveCustomer (uw_now w) c0 t (uw_db w)")
    case (Inl e)
    then have "persistCustomer t c0 w1 = (Inl e, w1)" by (simp add: persistCustomer_def cuTryWrite_def w1_def)
    with assms(1) run show ?thesis by simp
  qed
  obtain w2 where w2: "cuPublishAll c0 (w1\<lparr>uw_db := db\<rparr>) = (Inr (c0\<lparr>cs_domainEvents := []\<rparr>), w2)" "uw_db w2 = db"
    using cuPublishAll_run [of c0 "w1\<lparr>uw_db := db\<rparr>"] by auto
  have saved: "persistCustomer t c0 w1 = (Inr (c0\<lparr>cs_domainEvents := []\<rparr>), w2)"
    using db w2(1) by (simp add: persistCustomer_def cuTryWrite_def w1_def)
  define w3 where "w3 = w2\<lparr>uw_audit := uw_audit w2 @ [(t, None, ''CUSTOMER_CREATE'', ''Created customer '' @ i @ '' from '' @ ty @ '' channel identity'')]\<rparr>"
  obtain w4 where w4: "evaluateCustomerTriggers t ''CUSTOMER_CREATED'' (c0\<lparr>cs_domainEvents := []\<rparr>) w3 = (Inr (), w4)" "uw_db w4 = db"
    using triggers_run [of t "''CUSTOMER_CREATED''" "c0\<lparr>cs_domainEvents := []\<rparr>" w3] w2(2) by (auto simp: w3_def)
  have "findOrCreateByExternalId t ch x ty w = (Inr (c0\<lparr>cs_domainEvents := []\<rparr>), w4)"
    unfolding run using saved w4(1) by (simp add: cuLog_def w3_def)
  with assms(1) have c: "c = c0\<lparr>cs_domainEvents := []\<rparr>" "w' = w4" by simp_all
  show thesis
    using db w4(2) by (intro that [of c0]) (simp_all add: c0_def c)
qed


text \<open>A sender without an identifier is no customer: the first message of a channel whose sender is empty makes a customer, and from then on
  every such message of the channel is refused by the unique index on the email address, because the identifier is stored as missing and is never found.\<close>

theorem empty_sender_is_refused_later:
  assumes "findOrCreateByExternalId t ch [] ty w = (Inr c, w')" "uw_uuid w' (uw_uuidNext w') \<noteq> cs_id c"
    and "\<forall>r\<in>set (ub_customers (uw_db w)). cs_externalCustomerId r \<noteq> Some []"
  shows "\<exists>w''. findOrCreateByExternalId t ch [] ty' w' =
    (Inl (Error ''duplicate key value violates unique constraint uq_customers_tenant''), w'') \<and> uw_db w'' = uw_db w'"
proof -
  have None: "findCustomerByExternalId [] t (uw_db w) = None" using assms(3) by (auto simp: findCustomerByExternalId_def find_None_iff)
  obtain c0 where c0: "saveCustomer (uw_now w) c0 t (uw_db w) = Inr (uw_db w')" "cs_externalCustomerId c0 = Some []" "cs_tenantId c0 = t" "cs_id c0 = cs_id c"
      "cs_email c0 = toLowerCase (trim (syntheticEmail ch []))"
    by (rule created_from_channel [OF assms(1) None])
  from c0(1) obtain rows where rows: "saveCustomerRow (uw_now w) c0 t (ub_customers (uw_db w)) = Inr rows" "ub_customers (uw_db w') = rows"
    by (rule saveCustomer_InrE)
  obtain r where r: "List.find (sameCustomer (cs_id c0) t) rows = Some r" "storedAs c0 r" by (rule saved_customer_row [OF rows(1) c0(3)])
  note sel = storedAs_sel [OF r(2)]
  have in': "r \<in> set rows" using find_Some_set [OF r(1)] by simp
  have "\<forall>r\<in>set rows. r \<in> set (ub_customers (uw_db w)) \<and> \<not> sameCustomer (cs_id c0) t r \<or> storedAs c0 r"
    by (rule saveCustomerRow_cases [OF rows(1)])
  then have "\<forall>r\<in>set rows. cs_externalCustomerId r \<noteq> Some []" using assms(3) storedAs_sel(6) orUndefined_Some by fastforce
  then have None': "findCustomerByExternalId [] t (uw_db w') = None" using rows(2) by (auto simp: findCustomerByExternalId_def find_None_iff)
  define c1 where "c1 = channelCustomer w' t ch [] ty' (toLowerCase (trim (syntheticEmail ch [])))"
  note run = fromChannel_run [OF None' fromChannel_email [OF assms(1) None], of ty', folded c1_def]
  have "customerClash (customerColumns (uw_now w') c1) r" "\<not> sameCustomer (cs_id c1) t r"
    using sel c0(3-5) assms(2) by (auto simp: customerClash_def sameCustomer_def c1_def)
  then have "list_ex (\<lambda>r. \<not> sameCustomer (cs_id c1) t r \<and> customerClash (customerColumns (uw_now w') c1) r) (ub_customers (uw_db w'))"
    using in' rows(2) by (auto simp: list_ex_iff)
  then have "saveCustomer (uw_now w') c1 t (uw_db w') = Inl (Error ''duplicate key value violates unique constraint uq_customers_tenant'')"
    by (simp add: saveCustomer_def saveCustomerRow_def Let_def)
  then show ?thesis unfolding run by (simp add: persistCustomer_def cuTryWrite_def)
qed

subsection \<open>Witnesses\<close>

definition sampleMetrics :: "uid \<Rightarrow> CustomerMetrics" where
  "sampleMetrics i = new_CustomerMetrics 0 (''m'' @ i) ''t1'' i (noMetrics\<lparr>cmt_totalSpend := Val 500, cmt_totalConversations := Val 2\<rparr>)"

definition sampleCustomerRow :: "uid \<Rightarrow> string \<Rightarrow> Customer" where
  "sampleCustomerRow i email = customerColumns 0 (Customer_create 0 i ''t1'' None email None ''en'' ''UTC'' ''API'' [] None)"

definition sampleCustDb :: CustDb where
  "sampleCustDb = \<lparr>ub_customers = [sampleCustomerRow ''c1'' ''ann@x.io'', sampleCustomerRow ''c2'' ''bob@x.io''], ub_profiles = [],
     ub_metrics = [sampleMetrics ''c1'', sampleMetrics ''c2''],
     ub_segments = [\<lparr>csg_id = ''g1'', csg_tenantId = ''t1'', csg_segmentName = ''Spenders'', csg_segmentType = ''DYNAMIC'',
       csg_rules = Some (JObj [(''spend'', JObj [(''gt'', JNum 4)])]), csg_description = None, csg_isActive = Some True,
       csg_createdAt = 0, csg_updatedAt = 0\<rparr>], ub_members = []\<rparr>"

definition sampleCustWorld :: "CustDb \<Rightarrow> CustWorld" where
  "sampleCustWorld db = \<lparr>uw_db = db, uw_now = 7, uw_uuid = (\<lambda>n. replicate (n + 1) (CHR ''u'')), uw_uuidNext = 0, uw_triggerAnswer = (\<lambda>_ _ _. Inr ()),
     uw_triggered = [], uw_tenantContext = Some ''t1'', uw_queueUp = True, uw_jobs = [], uw_audit = []\<rparr>"

lemma sampleCustomerRow_sel [simp]:
  "cs_id (sampleCustomerRow i e) = i" "cs_tenantId (sampleCustomerRow i e) = ''t1''" "cs_email (sampleCustomerRow i e) = e" "cs_externalCustomerId (sampleCustomerRow i e) = None"
  "cs_deletedAt (sampleCustomerRow i e) = None" "cs_status (sampleCustomerRow i e) = CUS_ACTIVE"
  by (simp_all add: sampleCustomerRow_def Customer_create_def Let_def csEvent_def orUndefined_def truthy_def)

lemma sampleMetrics_sel [simp]:
  "csm_customerId (sampleMetrics i) = i" "csm_tenantId (sampleMetrics i) = ''t1''" "full (sampleMetrics i)" "csm_totalSpend (sampleMetrics i) = Some 500"
  "csm_totalConversations (sampleMetrics i) = Some 2" "csm_totalTickets (sampleMetrics i) = Some 0" "csm_lifetimeValue (sampleMetrics i) = Some 0"
  "csm_vipStatus (sampleMetrics i) = Some False"
  by (simp_all add: sampleMetrics_def new_CustomerMetrics_def noMetrics_def orDefaultField_def full_def patched_def)

lemma sample_kept:
  "keptCustomer ''t1'' (customerOf sampleCustDb (sampleCustomerRow ''c1'' ''ann@x.io'')) (sampleMetrics ''c1'') sampleCustDb"
  "keptCustomer ''t1'' (customerOf sampleCustDb (sampleCustomerRow ''c2'' ''bob@x.io'')) (sampleMetrics ''c2'') sampleCustDb"
  by (simp_all add: keptCustomer_def sampleCustDb_def customersUnique_def customerClash_def findCustomer_def sameCustomer_def metricsOwned_def)

lemma sampleCustWorld_sel [simp]: "uw_db (sampleCustWorld db) = db" "uw_now (sampleCustWorld db) = 7"
  by (simp_all add: sampleCustWorld_def)

theorem metrics_job_invents_spend_witness:
  "\<exists>c m. findCustomer ''c1'' ''t1'' (uw_db ((metricsJob ''t1'' ''c1'' ^^ 11) (sampleCustWorld sampleCustDb))) = Some c \<and> cs_metrics c = Some m \<and>
     csm_totalSpend m = Some 110500 \<and> csm_vipStatus m = Some True"
  using metrics_job_invents_spend [of "''t1''" _ "sampleMetrics ''c1''" "sampleCustWorld sampleCustDb" 11, unfolded sampleCustWorld_sel, OF sample_kept(1)]
  by simp blast

theorem merge_adds_up_witness:
  "\<exists>r w' s d m. CustomerService_merge ''t1'' ''c1'' ''c2'' None (sampleCustWorld sampleCustDb) = (Inr r, w') \<and>
     findCustomer ''c2'' ''t1'' (uw_db w') = Some d \<and> cs_metrics d = Some m \<and> csm_totalSpend m = Some 1000 \<and>
     findCustomer ''c1'' ''t1'' (uw_db w') = Some s \<and> cs_status s = CUS_MERGED \<and> cs_deletedAt s = Some 7"
  using merge_adds_up [of "''t1''" _ "sampleMetrics ''c1''" "sampleCustWorld sampleCustDb", unfolded sampleCustWorld_sel, OF sample_kept, of None]
  by simp blast


abbreviation emptyDb :: CustDb where
  "emptyDb \<equiv> \<lparr>ub_customers = [], ub_profiles = [], ub_metrics = [], ub_segments = [], ub_members = []\<rparr>"

definition firstMessage :: "string \<Rightarrow> (exn + Customer) \<times> CustWorld" where
  "firstMessage x = findOrCreateByExternalId ''t1'' ''ch1'' x ''WEB_WIDGET'' (sampleCustWorld emptyDb)"

lemma firstMessage_Inr:
  assumes "case firstMessage x of (Inr c, w') \<Rightarrow> uw_uuid w' (uw_uuidNext w') \<noteq> cs_id c | _ \<Rightarrow> False"
  obtains c w' where "findOrCreateByExternalId ''t1'' ''ch1'' x ''WEB_WIDGET'' (sampleCustWorld emptyDb) = (Inr c, w')"
    "uw_uuid w' (uw_uuidNext w') \<noteq> cs_id c" "firstMessage x = (Inr c, w')"
  using assms by (auto simp: firstMessage_def split: prod.splits sum.splits)

lemma firstMessage_runs:
  "case firstMessage ''x1'' of (Inr c, w') \<Rightarrow> uw_uuid w' (uw_uuidNext w') \<noteq> cs_id c | _ \<Rightarrow> False"
  "case firstMessage [] of (Inr c, w') \<Rightarrow> uw_uuid w' (uw_uuidNext w') \<noteq> cs_id c | _ \<Rightarrow> False"
  by code_simp+


theorem empty_sender_is_refused_later_witness:
  "case firstMessage [] of
     (Inr c, w') \<Rightarrow> \<exists>w''. findOrCreateByExternalId ''t1'' ''ch1'' [] ''EMAIL'' w' =
        (Inl (Error ''duplicate key value violates unique constraint uq_customers_tenant''), w'') \<and> uw_db w'' = uw_db w'
   | _ \<Rightarrow> False"
proof (rule firstMessage_Inr [OF firstMessage_runs(2)])
  fix c w'
  assume run: "findOrCreateByExternalId ''t1'' ''ch1'' [] ''WEB_WIDGET'' (sampleCustWorld emptyDb) = (Inr c, w')"
    "uw_uuid w' (uw_uuidNext w') \<noteq> cs_id c" "firstMessage [] = (Inr c, w')"
  show ?thesis using empty_sender_is_refused_later [OF run(1,2), of "''EMAIL''"] run(3) by simp
qed


end
