(* ===== verification/Knowledge_Model.thy ===== *)
theory Knowledge_Model
  imports Conversation_Model
begin

text \<open>
  Knowledge base: values, entities and tables (\<^verbatim>\<open>src/modules/knowledge-base/domain\<close>, \<^verbatim>\<open>repositories\<close>). A row of a table is the
  entity without events, with the deletion date where the table has one.
\<close>

subsection \<open>Values\<close>

datatype SourceTypeEnum =
  SRC_PDF | SRC_DOCX | SRC_TXT | SRC_CSV | SRC_MARKDOWN | SRC_FAQ | SRC_WEBSITE | SRC_SITEMAP | SRC_URL | SRC_CONFLUENCE | SRC_NOTION | SRC_GOOGLE_DOC | SRC_MANUAL

datatype DocumentTypeEnum =
  DOC_PDF | DOC_DOCX | DOC_TXT | DOC_CSV | DOC_MARKDOWN | DOC_FAQ | DOC_HTML | DOC_WEBPAGE | DOC_MANUAL

fun documentTypeName :: "DocumentTypeEnum \<Rightarrow> string" where
  "documentTypeName DOC_PDF = ''PDF''"
| "documentTypeName DOC_DOCX = ''DOCX''"
| "documentTypeName DOC_TXT = ''TXT''"
| "documentTypeName DOC_CSV = ''CSV''"
| "documentTypeName DOC_MARKDOWN = ''MARKDOWN''"
| "documentTypeName DOC_FAQ = ''FAQ''"
| "documentTypeName DOC_HTML = ''HTML''"
| "documentTypeName DOC_WEBPAGE = ''WEBPAGE''"
| "documentTypeName DOC_MANUAL = ''MANUAL''"

datatype DocumentStatusEnum = DST_DRAFT | DST_PROCESSING | DST_INDEXING | DST_ACTIVE | DST_ARCHIVED | DST_FAILED

fun documentStatusName :: "DocumentStatusEnum \<Rightarrow> string" where
  "documentStatusName DST_DRAFT = ''DRAFT''"
| "documentStatusName DST_PROCESSING = ''PROCESSING''"
| "documentStatusName DST_INDEXING = ''INDEXING''"
| "documentStatusName DST_ACTIVE = ''ACTIVE''"
| "documentStatusName DST_ARCHIVED = ''ARCHIVED''"
| "documentStatusName DST_FAILED = ''FAILED''"

datatype SyncStatusEnum = SYNC_PENDING | SYNCING | SYNCED | SYNC_FAILED

datatype IngestionStatusEnum = INGEST_PENDING | INGESTING | INGESTED | INGEST_FAILED

datatype EmbeddingStatusEnum = EMBED_PENDING | EMBEDDING | EMBEDDED | EMBED_FAILED

definition DocumentLanguage_create :: "string \<Rightarrow> exn + string" where
  "DocumentLanguage_create v = (if trim v = [] then Inl (Error ''Language cannot be empty'') else Inr (toLowerCase v))"

text \<open>\<^verbatim>\<open>(n || 1) + 1\<close>\<close>

definition nextVersion :: "int \<Rightarrow> int" where
  "nextVersion n = (if n = 0 then 1 else n) + 1"

subsection \<open>Events\<close>

datatype knowledge_event =
    KnowledgeSourceCreatedEvent uid uid SourceTypeEnum
  | KnowledgeDocumentCreatedEvent uid uid uid DocumentStatusEnum
  | KnowledgeDocumentUpdatedEvent uid uid DocumentStatusEnum
  | KnowledgeDocumentPublishedEvent uid uid int "uid option"
  | KnowledgeDocumentArchivedEvent uid uid "uid option"
  | KnowledgeIngestionStartedEvent uid uid uid
  | KnowledgeIngestionCompletedEvent uid uid nat
  | KnowledgeIngestionFailedEvent uid uid string
  | KnowledgeSyncStartedEvent uid uid uid
  | KnowledgeSyncCompletedEvent uid uid nat

subsection \<open>Documents\<close>

text \<open>A title that an update made \<^verbatim>\<open>undefined\<close> is \<open>None\<close>.\<close>

record KnowledgeDocument =
  kd_id :: uid
  kd_tenantId :: uid
  kd_sourceId :: uid
  kd_categoryId :: "uid option"
  kd_title :: "string option"
  kd_slug :: string
  kd_documentType :: DocumentTypeEnum
  kd_status :: DocumentStatusEnum
  kd_language :: string
  kd_version :: int
  kd_syncStatus :: SyncStatusEnum
  kd_ingestionStatus :: IngestionStatusEnum
  kd_embeddingStatus :: EmbeddingStatusEnum
  kd_externalRef :: "string option"
  kd_sourceUri :: "string option"
  kd_contentHash :: "string option"
  kd_chunkCount :: nat
  kd_fileUrl :: "string option"
  kd_storageProvider :: "string option"
  kd_fileSize :: "int option"
  kd_mimeType :: "string option"
  kd_checksum :: "string option"
  kd_tags :: "string list option"
  kd_publishedAt :: "millis option"
  kd_metadata :: "(string \<times> json) list option"
  kd_createdAt :: millis
  kd_updatedAt :: millis
  kd_aggregateVersion :: int
  kd_deletedAt :: "millis option"
  kd_domainEvents :: "knowledge_event list"

definition kdEvent :: "knowledge_event \<Rightarrow> KnowledgeDocument \<Rightarrow> KnowledgeDocument" where
  "kdEvent e d = d\<lparr>kd_domainEvents := kd_domainEvents d @ [e]\<rparr>"

definition kdTouch :: "millis \<Rightarrow> KnowledgeDocument \<Rightarrow> KnowledgeDocument" where
  "kdTouch now d = d\<lparr>kd_updatedAt := now, kd_aggregateVersion := nextVersion (kd_aggregateVersion d)\<rparr>"

text \<open>\<^verbatim>\<open>UpdateDocumentDto\<close>: a key the request leaves out is a property that is \<^verbatim>\<open>undefined\<close>.\<close>

record DocumentPatch =
  dpx_title :: "string field"
  dpx_categoryId :: "uid field"
  dpx_tags :: "string list field"
  dpx_metadata :: "(string \<times> json) list field"

definition KnowledgeDocument_update :: "millis \<Rightarrow> DocumentPatch \<Rightarrow> KnowledgeDocument \<Rightarrow> KnowledgeDocument" where
  "KnowledgeDocument_update now p d =
     kdEvent (KnowledgeDocumentUpdatedEvent (kd_tenantId d) (kd_id d) (kd_status d))
       (kdTouch now (d\<lparr>kd_title := spread (kd_title d) (dpx_title p), kd_categoryId := spread (kd_categoryId d) (dpx_categoryId p),
          kd_tags := spread (kd_tags d) (dpx_tags p), kd_metadata := spread (kd_metadata d) (dpx_metadata p)\<rparr>))"

definition startIngestion :: "millis \<Rightarrow> uid \<Rightarrow> KnowledgeDocument \<Rightarrow> KnowledgeDocument" where
  "startIngestion now jobId d =
     kdEvent (KnowledgeIngestionStartedEvent (kd_tenantId d) (kd_id d) jobId)
       (kdTouch now (d\<lparr>kd_status := DST_PROCESSING, kd_ingestionStatus := INGESTING, kd_syncStatus := SYNCING\<rparr>))"

definition completeIngestion :: "millis \<Rightarrow> nat \<Rightarrow> KnowledgeDocument \<Rightarrow> KnowledgeDocument" where
  "completeIngestion now chunkCount d =
     kdEvent (KnowledgeIngestionCompletedEvent (kd_tenantId d) (kd_id d) chunkCount)
       (kdTouch now (d\<lparr>kd_status := DST_INDEXING, kd_ingestionStatus := INGESTED, kd_embeddingStatus := EMBEDDING, kd_chunkCount := chunkCount\<rparr>))"

text \<open>\<^verbatim>\<open>o[k] = v\<close>\<close>

definition setEntry :: "string \<Rightarrow> json \<Rightarrow> (string \<times> json) list \<Rightarrow> (string \<times> json) list" where
  "setEntry k v o' = (if k \<in> set (map fst o') then map (\<lambda>(x, y). (x, if x = k then v else y)) o' else o' @ [(k, v)])"

definition failIngestion :: "millis \<Rightarrow> string \<Rightarrow> KnowledgeDocument \<Rightarrow> KnowledgeDocument" where
  "failIngestion now reason d =
     kdEvent (KnowledgeIngestionFailedEvent (kd_tenantId d) (kd_id d) reason)
       (kdTouch now (d\<lparr>kd_status := DST_FAILED, kd_ingestionStatus := INGEST_FAILED, kd_embeddingStatus := EMBED_FAILED, kd_syncStatus := SYNC_FAILED,
          kd_metadata := map_option (setEntry ''ingestionError'' (JStr reason)) (kd_metadata d)\<rparr>))"

definition markEmbedded :: "millis \<Rightarrow> KnowledgeDocument \<Rightarrow> KnowledgeDocument" where
  "markEmbedded now d = kdTouch now (d\<lparr>kd_embeddingStatus := EMBEDDED, kd_status := DST_ACTIVE, kd_syncStatus := SYNCED\<rparr>)"

definition KnowledgeDocument_publish :: "millis \<Rightarrow> uid option \<Rightarrow> KnowledgeDocument \<Rightarrow> KnowledgeDocument" where
  "KnowledgeDocument_publish now publishedBy d =
     kdEvent (KnowledgeDocumentPublishedEvent (kd_tenantId d) (kd_id d) (nextVersion (kd_version d)) publishedBy)
       (kdTouch now (d\<lparr>kd_status := DST_ACTIVE, kd_publishedAt := Some now, kd_version := nextVersion (kd_version d)\<rparr>))"

definition KnowledgeDocument_archive :: "millis \<Rightarrow> uid option \<Rightarrow> KnowledgeDocument \<Rightarrow> KnowledgeDocument" where
  "KnowledgeDocument_archive now archivedBy d =
     kdEvent (KnowledgeDocumentArchivedEvent (kd_tenantId d) (kd_id d) archivedBy) (kdTouch now (d\<lparr>kd_status := DST_ARCHIVED\<rparr>))"

subsection \<open>Sources\<close>

record KnowledgeSource =
  kr_id :: uid
  kr_tenantId :: uid
  kr_name :: "string option"
  kr_description :: "string option"
  kr_sourceType :: SourceTypeEnum
  kr_status :: string
  kr_syncStatus :: SyncStatusEnum
  kr_uri :: "string option"
  kr_connectorId :: "uid option"
  kr_config :: "(string \<times> json) list option"
  kr_documentCount :: nat
  kr_lastSyncedAt :: "millis option"
  kr_lastError :: "string option"
  kr_metadata :: "(string \<times> json) list option"
  kr_createdAt :: millis
  kr_updatedAt :: millis
  kr_version :: int
  kr_deletedAt :: "millis option"
  kr_domainEvents :: "knowledge_event list"

definition krTouch :: "millis \<Rightarrow> KnowledgeSource \<Rightarrow> KnowledgeSource" where
  "krTouch now s = s\<lparr>kr_updatedAt := now, kr_version := nextVersion (kr_version s)\<rparr>"

record SourcePatch =
  spx_name :: "string field"
  spx_description :: "string field"
  spx_config :: "(string \<times> json) list field"
  spx_metadata :: "(string \<times> json) list field"
  spx_uri :: "string field"

definition KnowledgeSource_update :: "millis \<Rightarrow> SourcePatch \<Rightarrow> KnowledgeSource \<Rightarrow> KnowledgeSource" where
  "KnowledgeSource_update now p s =
     krTouch now (s\<lparr>kr_name := spread (kr_name s) (spx_name p), kr_description := spread (kr_description s) (spx_description p),
       kr_config := spread (kr_config s) (spx_config p), kr_metadata := spread (kr_metadata s) (spx_metadata p), kr_uri := spread (kr_uri s) (spx_uri p)\<rparr>)"

definition startSync :: "millis \<Rightarrow> uid \<Rightarrow> KnowledgeSource \<Rightarrow> KnowledgeSource" where
  "startSync now jobId s =
     (krTouch now (s\<lparr>kr_syncStatus := SYNCING\<rparr>))\<lparr>kr_domainEvents := kr_domainEvents s @ [KnowledgeSyncStartedEvent (kr_tenantId s) (kr_id s) jobId]\<rparr>"

definition completeSync :: "millis \<Rightarrow> nat \<Rightarrow> KnowledgeSource \<Rightarrow> KnowledgeSource" where
  "completeSync now docCount s =
     (krTouch now (s\<lparr>kr_syncStatus := SYNCED, kr_documentCount := docCount, kr_lastSyncedAt := Some now, kr_lastError := None\<rparr>))
       \<lparr>kr_domainEvents := kr_domainEvents s @ [KnowledgeSyncCompletedEvent (kr_tenantId s) (kr_id s) docCount]\<rparr>"

definition failSync :: "millis \<Rightarrow> string \<Rightarrow> KnowledgeSource \<Rightarrow> KnowledgeSource" where
  "failSync now reason s = krTouch now (s\<lparr>kr_syncStatus := SYNC_FAILED, kr_lastError := Some reason, kr_lastSyncedAt := Some now\<rparr>)"

subsection \<open>Jobs, chunks, versions, permissions, categories, logs\<close>

datatype kb_job_type = JOB_SYNC | JOB_CRAWL | JOB_INGEST | JOB_INDEX | JOB_CLEANUP

datatype kb_job_status = JOB_PENDING | JOB_RUNNING | JOB_COMPLETED | JOB_FAILED

record KnowledgeSyncJob =
  kj_id :: uid
  kj_tenantId :: uid
  kj_sourceId :: uid
  kj_documentId :: "uid option"
  kj_jobType :: kb_job_type
  kj_status :: kb_job_status
  kj_totalItems :: nat
  kj_processedItems :: nat
  kj_failedItems :: nat
  kj_error :: "string option"
  kj_stats :: "(string \<times> json) list"
  kj_startedAt :: "millis option"
  kj_completedAt :: "millis option"
  kj_createdAt :: millis
  kj_updatedAt :: millis

definition new_KnowledgeSyncJob :: "millis \<Rightarrow> uid \<Rightarrow> uid \<Rightarrow> uid \<Rightarrow> uid option \<Rightarrow> kb_job_type \<Rightarrow> KnowledgeSyncJob" where
  "new_KnowledgeSyncJob now i tenantId sourceId documentId jobType =
     \<lparr>kj_id = i, kj_tenantId = tenantId, kj_sourceId = sourceId, kj_documentId = documentId, kj_jobType = jobType, kj_status = JOB_PENDING,
      kj_totalItems = 0, kj_processedItems = 0, kj_failedItems = 0, kj_error = None, kj_stats = [], kj_startedAt = None, kj_completedAt = None,
      kj_createdAt = now, kj_updatedAt = now\<rparr>"

definition KnowledgeSyncJob_start :: "millis \<Rightarrow> KnowledgeSyncJob \<Rightarrow> KnowledgeSyncJob" where
  "KnowledgeSyncJob_start now j = j\<lparr>kj_status := JOB_RUNNING, kj_startedAt := Some now, kj_updatedAt := now\<rparr>"

definition updateProgress :: "millis \<Rightarrow> nat \<Rightarrow> nat \<Rightarrow> nat \<Rightarrow> KnowledgeSyncJob \<Rightarrow> KnowledgeSyncJob" where
  "updateProgress now processed failed totalN j =
     j\<lparr>kj_processedItems := processed, kj_failedItems := failed, kj_totalItems := totalN, kj_updatedAt := now\<rparr>"

definition KnowledgeSyncJob_complete :: "millis \<Rightarrow> (string \<times> json) list \<Rightarrow> KnowledgeSyncJob \<Rightarrow> KnowledgeSyncJob" where
  "KnowledgeSyncJob_complete now stats j =
     j\<lparr>kj_status := JOB_COMPLETED, kj_completedAt := Some now, kj_stats := fold (\<lambda>(k, v). setEntry k v) stats (kj_stats j), kj_updatedAt := now\<rparr>"

definition KnowledgeSyncJob_fail :: "millis \<Rightarrow> string \<Rightarrow> KnowledgeSyncJob \<Rightarrow> KnowledgeSyncJob" where
  "KnowledgeSyncJob_fail now e j = j\<lparr>kj_status := JOB_FAILED, kj_error := Some e, kj_completedAt := Some now, kj_updatedAt := now\<rparr>"

record KnowledgeChunk =
  kc_id :: uid
  kc_tenantId :: uid
  kc_documentId :: uid
  kc_chunkIndex :: nat
  kc_chunkHash :: string
  kc_content :: string
  kc_tokenCount :: int
  kc_externalRef :: "string option"
  kc_createdAt :: millis

record KnowledgeVersion =
  kv_id :: uid
  kv_tenantId :: uid
  kv_documentId :: uid
  kv_versionNumber :: int
  kv_changeSummary :: "string option"
  kv_contentHash :: "string option"
  kv_snapshot :: KnowledgeDocument
  kv_publishedBy :: "uid option"
  kv_publishedAt :: millis

record KnowledgePermission =
  kp_id :: uid
  kp_tenantId :: uid
  kp_documentId :: uid
  kp_teamId :: "uid option"
  kp_role :: "string option"
  kp_accessLevel :: string

record KnowledgeCategory =
  kg_id :: uid
  kg_tenantId :: uid
  kg_name :: "string option"
  kg_description :: "string option"
  kg_parentCategoryId :: "uid option"
  kg_color :: "string option"
  kg_sortOrder :: int
  kg_createdAt :: millis
  kg_updatedAt :: millis
  kg_version :: int

record CategoryPatch =
  gpx_name :: "string field"
  gpx_description :: "string field"
  gpx_parentCategoryId :: "uid field"
  gpx_color :: "string field"
  gpx_sortOrder :: "int field"

text \<open>The getter of the sort order reads a missing one as 0.\<close>

definition KnowledgeCategory_update :: "millis \<Rightarrow> CategoryPatch \<Rightarrow> KnowledgeCategory \<Rightarrow> KnowledgeCategory" where
  "KnowledgeCategory_update now p g =
     g\<lparr>kg_name := spread (kg_name g) (gpx_name p), kg_description := spread (kg_description g) (gpx_description p),
       kg_parentCategoryId := spread (kg_parentCategoryId g) (gpx_parentCategoryId p), kg_color := spread (kg_color g) (gpx_color p),
       kg_sortOrder := patched (spread (Some (kg_sortOrder g)) (gpx_sortOrder p)) 0, kg_updatedAt := now, kg_version := nextVersion (kg_version g)\<rparr>"

record KnowledgeSearchLog =
  kl_id :: uid
  kl_tenantId :: uid
  kl_userId :: "uid option"
  kl_query :: string
  kl_resultsCount :: nat
  kl_latencyMs :: int
  kl_source :: string
  kl_createdAt :: millis

subsection \<open>Tables\<close>

record KbDb =
  nb_sources :: "KnowledgeSource list"
  nb_documents :: "KnowledgeDocument list"
  nb_chunks :: "KnowledgeChunk list"
  nb_categories :: "KnowledgeCategory list"
  nb_versions :: "KnowledgeVersion list"
  nb_permissions :: "KnowledgePermission list"
  nb_syncJobs :: "KnowledgeSyncJob list"
  nb_searchLogs :: "KnowledgeSearchLog list"

text \<open>Select by key, then update or insert. A column whose value is \<^verbatim>\<open>undefined\<close> is left out of the update.\<close>

definition putRow :: "('r \<Rightarrow> bool) \<Rightarrow> ('r \<Rightarrow> 'r) \<Rightarrow> 'r \<Rightarrow> 'r list \<Rightarrow> 'r list" where
  "putRow same upd new rows = (if list_ex same rows then map (\<lambda>r. if same r then upd r else r) rows else rows @ [new])"

definition keptIfUndefined :: "'a option \<Rightarrow> 'a option \<Rightarrow> 'a option" where
  "keptIfUndefined new old = (case new of None \<Rightarrow> old | Some x \<Rightarrow> Some x)"

definition sameSource :: "uid \<Rightarrow> uid \<Rightarrow> KnowledgeSource \<Rightarrow> bool" where
  "sameSource i tenantId r = (kr_id r = i \<and> kr_tenantId r = tenantId)"

definition sourceColumns :: "millis \<Rightarrow> KnowledgeSource \<Rightarrow> KnowledgeSource \<Rightarrow> KnowledgeSource" where
  "sourceColumns now s r =
     s\<lparr>kr_name := keptIfUndefined (kr_name s) (kr_name r), kr_description := orUndefined (kr_description s), kr_uri := orUndefined (kr_uri s),
       kr_connectorId := orUndefined (kr_connectorId s), kr_lastError := orUndefined (kr_lastError s), kr_createdAt := kr_createdAt r,
       kr_deletedAt := kr_deletedAt r, kr_updatedAt := now, kr_domainEvents := []\<rparr>"

definition saveSource :: "millis \<Rightarrow> KnowledgeSource \<Rightarrow> uid \<Rightarrow> KbDb \<Rightarrow> KbDb" where
  "saveSource now s tenantId db =
     db\<lparr>nb_sources := putRow (sameSource (kr_id s) tenantId) (sourceColumns now s) (sourceColumns now s (s\<lparr>kr_deletedAt := None\<rparr>)) (nb_sources db)\<rparr>"

definition sourceToDomain :: "KnowledgeSource \<Rightarrow> KnowledgeSource" where
  "sourceToDomain r =
     r\<lparr>kr_description := orUndefined (kr_description r), kr_uri := orUndefined (kr_uri r), kr_connectorId := orUndefined (kr_connectorId r),
       kr_lastError := orUndefined (kr_lastError r), kr_config := Some (patched (kr_config r) []), kr_metadata := Some (patched (kr_metadata r) []),
       kr_domainEvents := []\<rparr>"

definition getSourceById :: "uid \<Rightarrow> uid \<Rightarrow> KbDb \<Rightarrow> KnowledgeSource option" where
  "getSourceById i tenantId db = map_option sourceToDomain (List.find (sameSource i tenantId) (nb_sources db))"

definition findSources :: "uid \<Rightarrow> KbDb \<Rightarrow> KnowledgeSource list" where
  "findSources tenantId db =
     map sourceToDomain (sqlOrder False (\<lambda>r. Some (kr_createdAt r)) (filter (\<lambda>r. kr_tenantId r = tenantId \<and> kr_deletedAt r = None) (nb_sources db)))"

definition deleteSourceRow :: "millis \<Rightarrow> uid \<Rightarrow> uid \<Rightarrow> KbDb \<Rightarrow> bool \<times> KbDb" where
  "deleteSourceRow now i tenantId db =
     (if list_ex (sameSource i tenantId) (nb_sources db)
      then (True, db\<lparr>nb_sources := map (\<lambda>r. if sameSource i tenantId r then r\<lparr>kr_deletedAt := Some now, kr_status := ''DISABLED''\<rparr> else r) (nb_sources db)\<rparr>)
      else (False, db))"

definition sameDocument :: "uid \<Rightarrow> uid \<Rightarrow> KnowledgeDocument \<Rightarrow> bool" where
  "sameDocument i tenantId r = (kd_id r = i \<and> kd_tenantId r = tenantId)"

text \<open>The row has no version of the aggregate: a reader takes that of the document.\<close>

definition documentToDomain :: "KnowledgeDocument \<Rightarrow> KnowledgeDocument" where
  "documentToDomain r =
     r\<lparr>kd_categoryId := orUndefined (kd_categoryId r), kd_externalRef := orUndefined (kd_externalRef r), kd_sourceUri := orUndefined (kd_sourceUri r),
       kd_contentHash := orUndefined (kd_contentHash r), kd_fileUrl := orUndefined (kd_fileUrl r), kd_storageProvider := orUndefined (kd_storageProvider r),
       kd_mimeType := orUndefined (kd_mimeType r), kd_checksum := orUndefined (kd_checksum r), kd_tags := Some (patched (kd_tags r) []),
       kd_metadata := Some (patched (kd_metadata r) []), kd_aggregateVersion := (if kd_version r = 0 then 1 else kd_version r), kd_domainEvents := []\<rparr>"

definition findDocument :: "uid \<Rightarrow> uid \<Rightarrow> KbDb \<Rightarrow> KnowledgeDocument option" where
  "findDocument i tenantId db =
     map_option documentToDomain (List.find (\<lambda>r. sameDocument i tenantId r \<and> kd_deletedAt r = None) (nb_documents db))"

definition findBySlug :: "uid \<Rightarrow> string \<Rightarrow> KbDb \<Rightarrow> KnowledgeDocument option" where
  "findBySlug tenantId slug db =
     map_option documentToDomain (List.find (\<lambda>r. kd_slug r = slug \<and> kd_tenantId r = tenantId \<and> kd_deletedAt r = None) (nb_documents db))"

definition findAllDocuments :: "uid \<Rightarrow> KbDb \<Rightarrow> KnowledgeDocument list" where
  "findAllDocuments tenantId db = map documentToDomain (filter (\<lambda>r. kd_tenantId r = tenantId \<and> kd_deletedAt r = None) (nb_documents db))"

definition documentColumns :: "millis \<Rightarrow> KnowledgeDocument \<Rightarrow> KnowledgeDocument \<Rightarrow> KnowledgeDocument" where
  "documentColumns now d r =
     d\<lparr>kd_categoryId := orUndefined (kd_categoryId d), kd_title := keptIfUndefined (kd_title d) (kd_title r), kd_externalRef := orUndefined (kd_externalRef d),
       kd_sourceUri := orUndefined (kd_sourceUri d), kd_contentHash := orUndefined (kd_contentHash d), kd_fileUrl := orUndefined (kd_fileUrl d),
       kd_storageProvider := orUndefined (kd_storageProvider d), kd_fileSize := (if kd_fileSize d = Some 0 then None else kd_fileSize d),
       kd_mimeType := orUndefined (kd_mimeType d), kd_checksum := orUndefined (kd_checksum d), kd_tags := Some (patched (kd_tags d) []),
       kd_updatedAt := now, kd_createdAt := kd_createdAt r, kd_deletedAt := kd_deletedAt r, kd_aggregateVersion := kd_aggregateVersion r,
       kd_domainEvents := []\<rparr>"

text \<open>The unique index on tenant and slug counts deleted documents too.\<close>

definition saveDocument :: "millis \<Rightarrow> KnowledgeDocument \<Rightarrow> uid \<Rightarrow> KbDb \<Rightarrow> exn + KbDb" where
  "saveDocument now d tenantId db =
     (let same = sameDocument (kd_id d) tenantId
      in if list_ex (\<lambda>r. \<not> same r \<and> kd_tenantId r = kd_tenantId d \<and> kd_slug r = kd_slug d) (nb_documents db)
         then Inl (Error ''duplicate key value violates unique constraint uq_knowledge_documents_slug'')
         else Inr (db\<lparr>nb_documents := putRow same (documentColumns now d) (documentColumns now d (d\<lparr>kd_deletedAt := None\<rparr>)) (nb_documents db)\<rparr>))"

definition deleteDocumentRow :: "millis \<Rightarrow> uid \<Rightarrow> uid \<Rightarrow> KbDb \<Rightarrow> bool \<times> KbDb" where
  "deleteDocumentRow now i tenantId db =
     (if list_ex (sameDocument i tenantId) (nb_documents db)
      then (True, db\<lparr>nb_documents := map (\<lambda>r. if sameDocument i tenantId r then r\<lparr>kd_deletedAt := Some now, kd_status := DST_ARCHIVED\<rparr> else r) (nb_documents db)\<rparr>)
      else (False, db))"

text \<open>The tags of the options are not read.\<close>

record DocumentQueryOptions =
  dqo_page :: "nat option"
  dqo_limit :: "nat option"
  dqo_sourceId :: "uid option"
  dqo_categoryId :: "uid option"
  dqo_status :: "string option"
  dqo_language :: "string option"
  dqo_search :: "string option"
  dqo_tags :: "string list option"

definition documentMatches :: "uid \<Rightarrow> DocumentQueryOptions \<Rightarrow> KnowledgeDocument \<Rightarrow> bool" where
  "documentMatches tenantId q r =
     (kd_tenantId r = tenantId \<and> kd_deletedAt r = None \<and> wanted (dqo_sourceId q) (Some (kd_sourceId r)) \<and> wanted (dqo_categoryId q) (kd_categoryId r) \<and>
      wanted (dqo_status q) (Some (documentStatusName (kd_status r))) \<and> wanted (dqo_language q) (Some (kd_language r)) \<and>
      (truthy (dqo_search q) \<longrightarrow> contains (the (dqo_search q)) (kd_title r) \<or> contains (the (dqo_search q)) (Some (kd_slug r))))"

definition findDocuments :: "uid \<Rightarrow> DocumentQueryOptions \<Rightarrow> KbDb \<Rightarrow> KnowledgeDocument list \<times> nat" where
  "findDocuments tenantId q db =
     (let limit = orCount (dqo_limit q) 20; found = filter (documentMatches tenantId q) (nb_documents db)
      in (map documentToDomain (take limit (drop ((orCount (dqo_page q) 1 - 1) * limit) (sqlOrder False (\<lambda>r. Some (kd_createdAt r)) found))),
          length found))"

definition incrementDocVersion :: "millis \<Rightarrow> uid \<Rightarrow> uid \<Rightarrow> KbDb \<Rightarrow> exn + int \<times> KbDb" where
  "incrementDocVersion now i tenantId db =
     (case List.find (sameDocument i tenantId) (nb_documents db) of
        None \<Rightarrow> Inl (Error (''Document '' @ i @ '' not found''))
      | Some r \<Rightarrow> Inr (kd_version r + 1, db\<lparr>nb_documents := map (\<lambda>x. if sameDocument i tenantId x then x\<lparr>kd_version := kd_version r + 1, kd_updatedAt := now\<rparr> else x) (nb_documents db)\<rparr>))"

definition saveChunkRows :: "KnowledgeChunk list \<Rightarrow> uid \<Rightarrow> KbDb \<Rightarrow> KbDb" where
  "saveChunkRows chunks tenantId db =
     (case chunks of
        [] \<Rightarrow> db
      | c # _ \<Rightarrow> db\<lparr>nb_chunks := filter (\<lambda>r. \<not> (kc_documentId r = kc_documentId c \<and> kc_tenantId r = tenantId)) (nb_chunks db) @
            map (\<lambda>x. x\<lparr>kc_tenantId := tenantId, kc_externalRef := orUndefined (kc_externalRef x)\<rparr>) chunks\<rparr>)"

definition getChunksByDocumentId :: "uid \<Rightarrow> uid \<Rightarrow> KbDb \<Rightarrow> KnowledgeChunk list" where
  "getChunksByDocumentId documentId tenantId db =
     sort_key kc_chunkIndex (filter (\<lambda>r. kc_documentId r = documentId \<and> kc_tenantId r = tenantId) (nb_chunks db))"

definition deleteChunksByDocumentId :: "uid \<Rightarrow> uid \<Rightarrow> KbDb \<Rightarrow> KbDb" where
  "deleteChunksByDocumentId documentId tenantId db =
     db\<lparr>nb_chunks := filter (\<lambda>r. \<not> (kc_documentId r = documentId \<and> kc_tenantId r = tenantId)) (nb_chunks db)\<rparr>"

definition sameCategory :: "uid \<Rightarrow> uid \<Rightarrow> KnowledgeCategory \<Rightarrow> bool" where
  "sameCategory i tenantId r = (kg_id r = i \<and> kg_tenantId r = tenantId)"

definition categoryColumns :: "millis \<Rightarrow> KnowledgeCategory \<Rightarrow> KnowledgeCategory \<Rightarrow> KnowledgeCategory" where
  "categoryColumns now g r =
     g\<lparr>kg_name := keptIfUndefined (kg_name g) (kg_name r), kg_description := orUndefined (kg_description g),
       kg_parentCategoryId := orUndefined (kg_parentCategoryId g), kg_color := orUndefined (kg_color g), kg_updatedAt := now,
       kg_createdAt := kg_createdAt r, kg_version := kg_version r\<rparr>"

definition saveCategory :: "millis \<Rightarrow> KnowledgeCategory \<Rightarrow> uid \<Rightarrow> KbDb \<Rightarrow> KbDb" where
  "saveCategory now g tenantId db =
     db\<lparr>nb_categories := putRow (sameCategory (kg_id g) tenantId) (categoryColumns now g) (categoryColumns now g (g\<lparr>kg_version := 1\<rparr>)) (nb_categories db)\<rparr>"

definition getCategoryById :: "uid \<Rightarrow> uid \<Rightarrow> KbDb \<Rightarrow> KnowledgeCategory option" where
  "getCategoryById i tenantId db = List.find (sameCategory i tenantId) (nb_categories db)"

definition findCategories :: "uid \<Rightarrow> KbDb \<Rightarrow> KnowledgeCategory list" where
  "findCategories tenantId db = sort_key kg_sortOrder (filter (\<lambda>r. kg_tenantId r = tenantId) (nb_categories db))"

text \<open>The children lose their parent; the foreign key of the documents is set to null.\<close>

definition deleteCategoryRow :: "uid \<Rightarrow> uid \<Rightarrow> KbDb \<Rightarrow> bool \<times> KbDb" where
  "deleteCategoryRow i tenantId db =
     (if list_ex (sameCategory i tenantId) (nb_categories db)
      then (True, db\<lparr>nb_categories := filter (\<lambda>r. \<not> sameCategory i tenantId r)
                 (map (\<lambda>r. if kg_parentCategoryId r = Some i \<and> kg_tenantId r = tenantId then r\<lparr>kg_parentCategoryId := None\<rparr> else r) (nb_categories db)),
               nb_documents := map (\<lambda>d. if kd_categoryId d = Some i then d\<lparr>kd_categoryId := None\<rparr> else d) (nb_documents db)\<rparr>)
      else (False, db))"

definition saveDocVersion :: "KnowledgeVersion \<Rightarrow> KbDb \<Rightarrow> exn + KbDb" where
  "saveDocVersion v db =
     (if list_ex (\<lambda>r. kv_tenantId r = kv_tenantId v \<and> kv_documentId r = kv_documentId v \<and> kv_versionNumber r = kv_versionNumber v) (nb_versions db)
      then Inl (Error ''duplicate key value violates unique constraint uq_knowledge_versions_number'')
      else Inr (db\<lparr>nb_versions := nb_versions db @ [v\<lparr>kv_changeSummary := orUndefined (kv_changeSummary v), kv_contentHash := orUndefined (kv_contentHash v),
              kv_publishedBy := orUndefined (kv_publishedBy v)\<rparr>]\<rparr>))"

definition getVersionsByDocumentId :: "uid \<Rightarrow> uid \<Rightarrow> KbDb \<Rightarrow> KnowledgeVersion list" where
  "getVersionsByDocumentId documentId tenantId db =
     sqlOrder False (\<lambda>v. Some (kv_versionNumber v)) (filter (\<lambda>v. kv_documentId v = documentId \<and> kv_tenantId v = tenantId) (nb_versions db))"

text \<open>The unique index on grants compares only grants that name both a team and a role, because nulls are distinct.\<close>

definition savePermission :: "KnowledgePermission \<Rightarrow> uid \<Rightarrow> KbDb \<Rightarrow> exn + KbDb" where
  "savePermission p tenantId db =
     (let row = p\<lparr>kp_teamId := orUndefined (kp_teamId p), kp_role := orUndefined (kp_role p)\<rparr>; same = (\<lambda>r. kp_id r = kp_id p \<and> kp_tenantId r = tenantId)
      in if list_ex (\<lambda>r. \<not> same r \<and> kp_tenantId r = kp_tenantId row \<and> kp_documentId r = kp_documentId row \<and> kp_teamId row \<noteq> None \<and> kp_role row \<noteq> None \<and>
                      kp_teamId r = kp_teamId row \<and> kp_role r = kp_role row) (nb_permissions db)
         then Inl (Error ''duplicate key value violates unique constraint uq_knowledge_permissions_grant'')
         else Inr (db\<lparr>nb_permissions := putRow same (\<lambda>_. row) row (nb_permissions db)\<rparr>))"

definition getPermissionsByDocumentId :: "uid \<Rightarrow> uid \<Rightarrow> KbDb \<Rightarrow> KnowledgePermission list" where
  "getPermissionsByDocumentId documentId tenantId db =
     filter (\<lambda>r. kp_documentId r = documentId \<and> kp_tenantId r = tenantId) (nb_permissions db)"

definition deletePermissionRow :: "uid \<Rightarrow> uid \<Rightarrow> KbDb \<Rightarrow> bool \<times> KbDb" where
  "deletePermissionRow i tenantId db =
     (if list_ex (\<lambda>r. kp_id r = i \<and> kp_tenantId r = tenantId) (nb_permissions db)
      then (True, db\<lparr>nb_permissions := filter (\<lambda>r. \<not> (kp_id r = i \<and> kp_tenantId r = tenantId)) (nb_permissions db)\<rparr>)
      else (False, db))"

definition accessWeight :: "string \<Rightarrow> nat" where
  "accessWeight level = (if level = ''MANAGE'' then 3 else if level = ''WRITE'' then 2 else 1)"

fun someGrant :: "uid option \<Rightarrow> string option \<Rightarrow> nat \<Rightarrow> KnowledgePermission list \<Rightarrow> bool" where
  "someGrant teamId role reqWeight [] = False"
| "someGrant teamId role reqWeight (r # rs) =
     (let matchTeam = (truthy teamId \<and> kp_teamId r = teamId); matchRole = (truthy role \<and> kp_role r = role);
          matchPublic = (\<not> truthy (kp_teamId r) \<and> \<not> truthy (kp_role r))
      in if (matchTeam \<or> matchRole \<or> matchPublic) \<and> reqWeight \<le> accessWeight (kp_accessLevel r) then True
         else someGrant teamId role reqWeight rs)"

definition checkPermission :: "uid \<Rightarrow> uid \<Rightarrow> uid option \<Rightarrow> string option \<Rightarrow> string \<Rightarrow> KbDb \<Rightarrow> bool" where
  "checkPermission documentId tenantId teamId role requiredLevel db =
     (let rows = getPermissionsByDocumentId documentId tenantId db
      in if rows = [] then True else someGrant teamId role (accessWeight requiredLevel) rows)"

definition sameSyncJob :: "uid \<Rightarrow> uid \<Rightarrow> KnowledgeSyncJob \<Rightarrow> bool" where
  "sameSyncJob i tenantId r = (kj_id r = i \<and> kj_tenantId r = tenantId)"

definition saveSyncJob :: "millis \<Rightarrow> KnowledgeSyncJob \<Rightarrow> uid \<Rightarrow> KbDb \<Rightarrow> KbDb" where
  "saveSyncJob now j tenantId db =
     (let row = j\<lparr>kj_error := orUndefined (kj_error j), kj_updatedAt := now\<rparr>
      in db\<lparr>nb_syncJobs := putRow (sameSyncJob (kj_id j) tenantId) (\<lambda>r. row\<lparr>kj_createdAt := kj_createdAt r\<rparr>) row (nb_syncJobs db)\<rparr>)"

definition getSyncJobById :: "uid \<Rightarrow> uid \<Rightarrow> KbDb \<Rightarrow> KnowledgeSyncJob option" where
  "getSyncJobById i tenantId db = List.find (sameSyncJob i tenantId) (nb_syncJobs db)"

definition findSyncJobs :: "uid \<Rightarrow> uid \<Rightarrow> KbDb \<Rightarrow> KnowledgeSyncJob list" where
  "findSyncJobs tenantId sourceId db =
     sqlOrder False (\<lambda>r. Some (kj_createdAt r)) (filter (\<lambda>r. kj_sourceId r = sourceId \<and> kj_tenantId r = tenantId) (nb_syncJobs db))"

definition addSearchLog :: "KnowledgeSearchLog \<Rightarrow> KbDb \<Rightarrow> KbDb" where
  "addSearchLog l db = db\<lparr>nb_searchLogs := nb_searchLogs db @ [l]\<rparr>"

definition getSearchLogs :: "uid \<Rightarrow> nat option \<Rightarrow> KbDb \<Rightarrow> KnowledgeSearchLog list" where
  "getSearchLogs tenantId limit db =
     take (orCount limit 100) (sqlOrder False (\<lambda>l. Some (kl_createdAt l)) (filter (\<lambda>l. kl_tenantId l = tenantId) (nb_searchLogs db)))"

end
