(* ===== verification/Knowledge_Service.thy ===== *)
theory Knowledge_Service
  imports Knowledge_Model Settings_Service
begin

text \<open>
  Knowledge base: the crawler, the services, the queue processor and the controllers that check permissions
  (\<^verbatim>\<open>src/modules/knowledge-base/services\<close>, \<^verbatim>\<open>jobs\<close>, \<^verbatim>\<open>controllers\<close>, \<^verbatim>\<open>src/modules/public-help/controllers/public-knowledge.controller.ts\<close>).
  The network, the AI platform, the upload service, \<^verbatim>\<open>new URL\<close> and the hash function are answers of the world; the plan limit is the code
  of the settings module.
\<close>

subsection \<open>Reading a page\<close>

text \<open>The expressions of the crawler as matchers: what is left of the text after a match at its head. A text is compared with a lower case
  pattern as under the flag \<^verbatim>\<open>i\<close>.\<close>

definition hasPrefixCI :: "string \<Rightarrow> string \<Rightarrow> bool" where
  "hasPrefixCI pat s = (toLowerCase (take (length pat) s) = pat)"

fun afterMatch :: "string \<Rightarrow> string \<Rightarrow> string option" where
  "afterMatch pat [] = (if pat = [] then Some [] else None)"
| "afterMatch pat (c # cs) = (if hasPrefixCI pat (c # cs) then Some (drop (length pat) (c # cs)) else afterMatch pat cs)"

text \<open>\<^verbatim>\<open>s.replace(/.../g, by)\<close> for a matcher that consumes at least one character.\<close>

function replaceMatches :: "(string \<Rightarrow> string option) \<Rightarrow> string \<Rightarrow> string \<Rightarrow> string" where
  "replaceMatches m by' [] = []"
| "replaceMatches m by' (c # cs) =
     (case m (c # cs) of
        Some rest \<Rightarrow> if length rest \<le> length cs then by' @ replaceMatches m by' rest else c # replaceMatches m by' cs
      | None \<Rightarrow> c # replaceMatches m by' cs)"
  by pat_completeness auto
termination
  by (relation "measure (\<lambda>(m, by', s). length s)") auto

definition isAlnumChar :: "char \<Rightarrow> bool" where
  "isAlnumChar c = (let n = (of_char c :: nat) in (48 \<le> n \<and> n \<le> 57) \<or> (65 \<le> n \<and> n \<le> 90) \<or> (97 \<le> n \<and> n \<le> 122))"

text \<open>\<^verbatim>\<open>/<name\b[^<]*(?:(?!<\/name>)<[^<]*)*<\/name>/i\<close>: up to the first closing tag.\<close>

definition elementAt :: "string \<Rightarrow> string \<Rightarrow> string option" where
  "elementAt name s =
     (let rest = drop (length name + 1) s
      in if hasPrefixCI (CHR ''<'' # name) s \<and> (rest = [] \<or> \<not> (isAlnumChar (hd rest) \<or> hd rest = CHR ''_''))
         then afterMatch (''</'' @ name @ ''>'') rest else None)"

definition commentAt :: "string \<Rightarrow> string option" where
  "commentAt s = (if startsWith ''<!--'' s then afterMatch ''-->'' (drop 4 s) else None)"

definition literalAt :: "string \<Rightarrow> string \<Rightarrow> string option" where
  "literalAt p s = (if startsWith p s then Some (drop (length p) s) else None)"

definition tagAt :: "string \<Rightarrow> string option" where
  "tagAt s = (if startsWith ''<'' s then afterMatch ''>'' (drop 1 s) else None)"

definition spaceAt :: "string \<Rightarrow> string option" where
  "spaceAt s = (if s \<noteq> [] \<and> isSpace (hd s) then Some (dropWhile isSpace s) else None)"

definition extractTextContent :: "string \<Rightarrow> string" where
  "extractTextContent html =
     (let content = replaceMatches (elementAt ''script'') [] html;
          content = replaceMatches (elementAt ''style'') [] content;
          content = replaceMatches commentAt [] content;
          content = replaceMatches (literalAt ''&amp;'') ''&'' (replaceMatches (literalAt ''&gt;'') ''>''
            (replaceMatches (literalAt ''&lt;'') ''<'' (replaceMatches (literalAt ''&nbsp;'') '' '' content)));
          content = replaceMatches tagAt '' '' content
      in trim (replaceMatches spaceAt '' '' content))"

fun extractTitle :: "string \<Rightarrow> string" where
  "extractTitle [] = []"
| "extractTitle (c # cs) =
     (let rest = drop 7 (c # cs); t = takeWhile (\<lambda>x. x \<noteq> CHR ''<'') rest
      in if hasPrefixCI ''<title>'' (c # cs) \<and> t \<noteq> [] \<and> hasPrefixCI ''</title>'' (drop (length t) rest) then trim t else extractTitle cs)"

text \<open>All captures of an expression, from left to right.\<close>

function collectMatches :: "(string \<Rightarrow> (string \<times> string) option) \<Rightarrow> string \<Rightarrow> string list" where
  "collectMatches m [] = []"
| "collectMatches m (c # cs) =
     (case m (c # cs) of
        Some (v, rest) \<Rightarrow> if length rest \<le> length cs then v # collectMatches m rest else collectMatches m cs
      | None \<Rightarrow> collectMatches m cs)"
  by pat_completeness auto
termination
  by (relation "measure (\<lambda>(m, s). length s)") auto

definition locAt :: "string \<Rightarrow> (string \<times> string) option" where
  "locAt s =
     (let u = takeWhile (\<lambda>c. \<not> isSpace c \<and> c \<noteq> CHR ''<'') (drop 5 s); rest = drop (5 + length u) s
      in if startsWith ''<loc>'' s \<and> ((startsWith ''http://'' u \<and> 7 < length u) \<or> (startsWith ''https://'' u \<and> 8 < length u)) \<and> startsWith ''</loc>'' rest
         then Some (u, drop 6 rest) else None)"

definition hrefAt :: "string \<Rightarrow> (string \<times> string) option" where
  "hrefAt s =
     (let v = takeWhile (\<lambda>c. c \<noteq> CHR 0x22) (drop 6 s); rest = drop (6 + length v) s
      in if hasPrefixCI (''href='' @ [CHR 0x22]) s \<and> v \<noteq> [] \<and> rest \<noteq> [] then Some (v, tl rest) else None)"

subsection \<open>The crawler\<close>

text \<open>\<open>net_url href base\<close> is \<^verbatim>\<open>new URL(href, base)\<close>: its host name and its text without fragment, or \<open>None\<close> when it throws.
  A response is a text or another value.\<close>

record KbNet =
  net_get :: "string \<Rightarrow> exn + json"
  net_url :: "string \<Rightarrow> string option \<Rightarrow> (string \<times> string) option"
  net_sha256 :: "string \<Rightarrow> string"

record ScrapedPage =
  sp_url :: string
  sp_title :: string
  sp_content :: string
  sp_checksum :: string

text \<open>\<^verbatim>\<open>Array.from(new Set(xs))\<close>\<close>

definition firstUnique :: "'a list \<Rightarrow> 'a list" where
  "firstUnique xs = rev (remdups (rev xs))"

definition linkOf :: "KbNet \<Rightarrow> string \<Rightarrow> string \<Rightarrow> string \<Rightarrow> string list" where
  "linkOf net baseUrl targetDomain raw =
     (if startsWith ''javascript:'' raw \<or> startsWith ''mailto:'' raw \<or> startsWith ''#'' raw then []
      else case net_url net raw (Some baseUrl) of
             None \<Rightarrow> []
           | Some (host, href) \<Rightarrow> if host = targetDomain then [href] else [])"

definition discoverLinks :: "KbNet \<Rightarrow> string \<Rightarrow> string \<Rightarrow> string \<Rightarrow> string list" where
  "discoverLinks net html baseUrl targetDomain = firstUnique (concat (map (linkOf net baseUrl targetDomain) (collectMatches hrefAt html)))"

definition scraped :: "KbNet \<Rightarrow> string \<Rightarrow> string \<Rightarrow> ScrapedPage" where
  "scraped net url html =
     (let t = extractTextContent html
      in \<lparr>sp_url = url, sp_title = (if extractTitle html \<noteq> [] then extractTitle html else url), sp_content = t, sp_checksum = net_sha256 net t\<rparr>)"

definition enqueueLinks :: "string list \<Rightarrow> string list \<Rightarrow> string list \<Rightarrow> string list" where
  "enqueueLinks visited links queue = fold (\<lambda>l q. if l \<in> set visited \<or> l \<in> set q then q else q @ [l]) links queue"

text \<open>The body of a response that is a text.\<close>

definition pageText :: "exn + json \<Rightarrow> string option" where
  "pageText r = (case r of Inr (JStr html) \<Rightarrow> Some html | _ \<Rightarrow> None)"

text \<open>The loop ends although pages may name ever new links: only a page that counts adds to the queue.\<close>

function crawlLoop :: "KbNet \<Rightarrow> string \<Rightarrow> int \<Rightarrow> string list \<Rightarrow> string list \<Rightarrow> ScrapedPage list \<Rightarrow> ScrapedPage list" where
  "crawlLoop net domain limit [] visited results = results"
| "crawlLoop net domain limit (url # queue) visited results =
     (if \<not> int (length results) < limit then results
      else if url \<in> set visited then crawlLoop net domain limit queue visited results
      else case pageText (net_get net url) of
             Some html \<Rightarrow>
               crawlLoop net domain limit (enqueueLinks (url # visited) (discoverLinks net html url domain) queue) (url # visited)
                 (results @ [scraped net url html])
           | None \<Rightarrow> crawlLoop net domain limit queue (url # visited) results)"
  by pat_completeness auto
termination
  by (relation "measures [\<lambda>(net, domain, limit, queue, visited, results). nat (limit - int (length results)),
        \<lambda>(net, domain, limit, queue, visited, results). length queue]") auto

definition crawlWebsite :: "KbNet \<Rightarrow> string \<Rightarrow> int \<Rightarrow> exn + ScrapedPage list" where
  "crawlWebsite net startUrl limit =
     (case net_url net startUrl None of
        None \<Rightarrow> Inl (Error ''Invalid URL'')
      | Some (domain, _) \<Rightarrow> Inr (crawlLoop net domain limit [startUrl] [] []))"

definition parseSitemap :: "KbNet \<Rightarrow> string \<Rightarrow> string list" where
  "parseSitemap net sitemapUrl = (case pageText (net_get net sitemapUrl) of Some xml \<Rightarrow> collectMatches locAt xml | None \<Rightarrow> [])"

subsection \<open>The world\<close>

record VerifiedUpload =
  vu_publicUrl :: "string option"
  vu_storageProvider :: "string option"
  vu_fileSize :: "int option"
  vu_contentType :: "string option"
  vu_checksum :: "string option"

record IngestChunk =
  ic_content :: string
  ic_tokenCount :: "int option"
  ic_hash :: "string option"

record IngestRequest =
  irq_tenantId :: uid
  irq_documentId :: uid
  irq_fileUrl :: string
  irq_mimeType :: string
  irq_chunkSize :: json
  irq_chunkOverlap :: json

datatype kb_queue_job =
    KnowledgeIngestionJob uid uid
  | KnowledgeSyncQueueJob uid uid uid
  | KnowledgeCrawlJob uid uid uid
  | KnowledgeIndexJob uid
  | KnowledgeCleanupJob
  | OtherKnowledgeJob string

text \<open>The answer of the AI platform to an ingestion is the reason of a failure or the chunks, if it sends any.\<close>

record KbWorld =
  kw_db :: KbDb
  kw_now :: millis
  kw_uuid :: "nat \<Rightarrow> uid"
  kw_uuidNext :: nat
  kw_settings :: SettingsWorld
  kw_confirmUpload :: "uid \<Rightarrow> string \<Rightarrow> VerifiedUpload option"
  kw_net :: KbNet
  kw_ingestAnswer :: "IngestRequest \<Rightarrow> string + IngestChunk list option"
  kw_rerankAnswer :: "uid \<Rightarrow> string \<Rightarrow> string list \<Rightarrow> nat \<Rightarrow> exn + (nat \<times> rat) list"
  kw_tenantContext :: "uid option"
  kw_queueUp :: bool
  kw_jobs :: "(kb_queue_job \<times> uid option) list"

type_synonym 'a kbsvc = "(KbWorld, 'a) svc"

definition kbNow :: "millis kbsvc" where
  "kbNow = asks kw_now"

definition kbUUID :: "uid kbsvc" where
  "kbUUID = (\<lambda>w. (Inr (kw_uuid w (kw_uuidNext w)), w\<lparr>kw_uuidNext := kw_uuidNext w + 1\<rparr>))"

definition kbRead :: "(KbDb \<Rightarrow> 'a) \<Rightarrow> 'a kbsvc" where
  "kbRead f = asks (\<lambda>w. f (kw_db w))"

definition kbWrite :: "(millis \<Rightarrow> KbDb \<Rightarrow> KbDb) \<Rightarrow> unit kbsvc" where
  "kbWrite f = modify (\<lambda>w. w\<lparr>kw_db := f (kw_now w) (kw_db w)\<rparr>)"

definition kbTryWrite :: "(millis \<Rightarrow> KbDb \<Rightarrow> exn + KbDb) \<Rightarrow> unit kbsvc" where
  "kbTryWrite f = (\<lambda>w. case f (kw_now w) (kw_db w) of Inl e \<Rightarrow> (Inl e, w) | Inr db \<Rightarrow> (Inr (), w\<lparr>kw_db := db\<rparr>))"

definition kbAddJob :: "kb_queue_job \<Rightarrow> unit kbsvc" where
  "kbAddJob j = (\<lambda>w. if kw_queueUp w then (Inr (), w\<lparr>kw_jobs := kw_jobs w @ [(j, kw_tenantContext w)]\<rparr>)
                       else (Inl (Error ''Connection is closed.''), w))"

definition onSettings :: "'a sesvc \<Rightarrow> 'a kbsvc" where
  "onSettings m = (\<lambda>w. let (r, s) = m ((kw_settings w)\<lparr>sw_now := kw_now w\<rparr>) in (r, w\<lparr>kw_settings := s\<rparr>))"

text \<open>What a \<^verbatim>\<open>try\<close> block came to, for a handler that reads variables the block has changed.\<close>

definition attempt :: "('s, 'a) svc \<Rightarrow> ('s, exn + 'a) svc" where
  "attempt m = (\<lambda>s. let (r, s') = m s in (Inr r, s'))"

subsection \<open>Publishing\<close>

definition KnowledgeEventPublisher_publish :: "knowledge_event \<Rightarrow> unit kbsvc" where
  "KnowledgeEventPublisher_publish ev =
     tryCatch (case ev of
        KnowledgeDocumentCreatedEvent t i s st \<Rightarrow> kbAddJob (KnowledgeIngestionJob t i)
      | KnowledgeSyncStartedEvent t s j \<Rightarrow> kbAddJob (KnowledgeSyncQueueJob t s j)
      | _ \<Rightarrow> ret ()) (\<lambda>_. ret ())"

definition kbPublishAll :: "knowledge_event list \<Rightarrow> unit kbsvc" where
  "kbPublishAll evs = forEach evs KnowledgeEventPublisher_publish"

subsection \<open>Documents\<close>

record CreateDocumentDto =
  cdd_sourceId :: uid
  cdd_categoryId :: "uid option"
  cdd_title :: string
  cdd_slug :: string
  cdd_documentType :: DocumentTypeEnum
  cdd_language :: string
  cdd_uploadReference :: "string option"
  cdd_fileUrl :: "string option"
  cdd_storageProvider :: "string option"
  cdd_fileSize :: "int option"
  cdd_mimeType :: "string option"
  cdd_checksum :: "string option"
  cdd_tags :: "string list option"
  cdd_metadata :: "(string \<times> json) list option"

definition FILE_BACKED_DOCUMENT_TYPES :: "DocumentTypeEnum list" where
  "FILE_BACKED_DOCUMENT_TYPES = [DOC_PDF, DOC_DOCX, DOC_CSV, DOC_TXT]"

definition uploadUnavailable :: exn where
  "uploadUnavailable = HttpException 503 ''File Upload Service is unavailable''"

definition fileFields :: "uid \<Rightarrow> CreateDocumentDto \<Rightarrow> VerifiedUpload kbsvc" where
  "fileFields tenantId dto =
     (if cdd_documentType dto \<in> set FILE_BACKED_DOCUMENT_TYPES then
        (if \<not> truthy (cdd_uploadReference dto)
         then throw (BadRequestException (''uploadReference is required for document type '' @ documentTypeName (cdd_documentType dto)))
         else (\<lambda>w. (case kw_confirmUpload w tenantId (the (cdd_uploadReference dto)) of None \<Rightarrow> Inl uploadUnavailable | Some f \<Rightarrow> Inr f, w)))
      else ret \<lparr>vu_publicUrl = cdd_fileUrl dto, vu_storageProvider = cdd_storageProvider dto, vu_fileSize = cdd_fileSize dto,
                vu_contentType = cdd_mimeType dto, vu_checksum = cdd_checksum dto\<rparr>)"

definition KnowledgeDocument_create :: "millis \<Rightarrow> uid \<Rightarrow> uid \<Rightarrow> CreateDocumentDto \<Rightarrow> string \<Rightarrow> VerifiedUpload \<Rightarrow> KnowledgeDocument" where
  "KnowledgeDocument_create now i tenantId dto language f =
     \<lparr>kd_id = i, kd_tenantId = tenantId, kd_sourceId = cdd_sourceId dto, kd_categoryId = cdd_categoryId dto, kd_title = Some (cdd_title dto),
      kd_slug = cdd_slug dto, kd_documentType = cdd_documentType dto, kd_status = DST_DRAFT, kd_language = language, kd_version = 1,
      kd_syncStatus = SYNC_PENDING, kd_ingestionStatus = INGEST_PENDING, kd_embeddingStatus = EMBED_PENDING, kd_externalRef = None,
      kd_sourceUri = None, kd_contentHash = None, kd_chunkCount = 0, kd_fileUrl = vu_publicUrl f, kd_storageProvider = vu_storageProvider f,
      kd_fileSize = vu_fileSize f, kd_mimeType = vu_contentType f, kd_checksum = vu_checksum f, kd_tags = Some (patched (cdd_tags dto) []),
      kd_publishedAt = None, kd_metadata = Some (patched (cdd_metadata dto) []), kd_createdAt = now, kd_updatedAt = now, kd_aggregateVersion = 1,
      kd_deletedAt = None, kd_domainEvents = [KnowledgeDocumentCreatedEvent tenantId i (cdd_sourceId dto) DST_DRAFT]\<rparr>"

definition anyDocument :: DocumentQueryOptions where
  "anyDocument = \<lparr>dqo_page = None, dqo_limit = None, dqo_sourceId = None, dqo_categoryId = None, dqo_status = None, dqo_language = None,
     dqo_search = None, dqo_tags = None\<rparr>"

text \<open>\<^verbatim>\<open>save\<close>, \<^verbatim>\<open>publishAll\<close>, \<^verbatim>\<open>clearEvents\<close>\<close>

definition persistDocument :: "uid \<Rightarrow> KnowledgeDocument \<Rightarrow> KnowledgeDocument kbsvc" where
  "persistDocument tenantId d =
     andThen (kbTryWrite (\<lambda>now. saveDocument now d tenantId)) (\<lambda>_.
     andThen (kbPublishAll (kd_domainEvents d)) (\<lambda>_. ret (d\<lparr>kd_domainEvents := []\<rparr>)))"

definition createDocument :: "uid \<Rightarrow> CreateDocumentDto \<Rightarrow> KnowledgeDocument kbsvc" where
  "createDocument tenantId dto =
     andThen (kbRead (\<lambda>db. snd (findDocuments tenantId (anyDocument\<lparr>dqo_limit := Some 1\<rparr>) db))) (\<lambda>total.
     andThen (onSettings (enforceLimit tenantId QuotaDocuments total)) (\<lambda>_.
     andThen (fileFields tenantId dto) (\<lambda>f.
     andThen kbUUID (\<lambda>i.
     andThen (liftR (DocumentLanguage_create (cdd_language dto))) (\<lambda>language.
     andThen kbNow (\<lambda>now.
     persistDocument tenantId (KnowledgeDocument_create now i tenantId dto language f)))))))"

definition getDocument :: "uid \<Rightarrow> uid \<Rightarrow> KnowledgeDocument kbsvc" where
  "getDocument tenantId i =
     andThen (kbRead (findDocument i tenantId)) (\<lambda>found. case found of
       None \<Rightarrow> throw (NotFoundException (''Knowledge Document '' @ i @ '' not found''))
     | Some d \<Rightarrow> ret d)"

definition getDocumentBySlug :: "uid \<Rightarrow> string \<Rightarrow> KnowledgeDocument kbsvc" where
  "getDocumentBySlug tenantId slug =
     andThen (kbRead (findBySlug tenantId slug)) (\<lambda>found. case found of
       None \<Rightarrow> throw (NotFoundException (''Knowledge Document '' @ [CHR 0x22] @ slug @ [CHR 0x22] @ '' not found''))
     | Some d \<Rightarrow> ret d)"

definition getDocumentContent :: "uid \<Rightarrow> uid \<Rightarrow> string kbsvc" where
  "getDocumentContent tenantId i =
     kbRead (\<lambda>db. joinWith [CHR 0x0A, CHR 0x0A] (map kc_content (getChunksByDocumentId i tenantId db)))"

definition updateDocument :: "uid \<Rightarrow> uid \<Rightarrow> DocumentPatch \<Rightarrow> KnowledgeDocument kbsvc" where
  "updateDocument tenantId i p =
     andThen (getDocument tenantId i) (\<lambda>d. andThen kbNow (\<lambda>now. persistDocument tenantId (KnowledgeDocument_update now p d)))"

definition newVersion :: "millis \<Rightarrow> uid \<Rightarrow> uid \<Rightarrow> string option \<Rightarrow> uid option \<Rightarrow> KnowledgeDocument \<Rightarrow> KnowledgeVersion" where
  "newVersion now i tenantId changeSummary publishedBy d =
     \<lparr>kv_id = i, kv_tenantId = tenantId, kv_documentId = kd_id d, kv_versionNumber = kd_version d, kv_changeSummary = changeSummary,
      kv_contentHash = kd_contentHash d, kv_snapshot = d\<lparr>kd_domainEvents := []\<rparr>, kv_publishedBy = publishedBy, kv_publishedAt = now\<rparr>"

definition publishDocument :: "uid \<Rightarrow> uid \<Rightarrow> string option \<Rightarrow> uid option \<Rightarrow> KnowledgeDocument kbsvc" where
  "publishDocument tenantId i changeSummary publishedBy =
     andThen (getDocument tenantId i) (\<lambda>d0.
     andThen kbNow (\<lambda>now.
     let d = KnowledgeDocument_publish now publishedBy d0
     in andThen (kbTryWrite (\<lambda>now. saveDocument now d tenantId)) (\<lambda>_.
        andThen kbUUID (\<lambda>u.
        andThen (kbTryWrite (\<lambda>_. saveDocVersion (newVersion now u tenantId changeSummary publishedBy d))) (\<lambda>_.
        andThen (kbPublishAll (kd_domainEvents d)) (\<lambda>_. ret (d\<lparr>kd_domainEvents := []\<rparr>)))))))"

definition archiveDocument :: "uid \<Rightarrow> uid \<Rightarrow> uid option \<Rightarrow> KnowledgeDocument kbsvc" where
  "archiveDocument tenantId i archivedBy =
     andThen (getDocument tenantId i) (\<lambda>d. andThen kbNow (\<lambda>now. persistDocument tenantId (KnowledgeDocument_archive now archivedBy d)))"

text \<open>A deletion that reports whether there was a row.\<close>

definition kbDelete :: "(millis \<Rightarrow> KbDb \<Rightarrow> bool \<times> KbDb) \<Rightarrow> bool kbsvc" where
  "kbDelete f = (\<lambda>w. let (b, db) = f (kw_now w) (kw_db w) in (Inr b, w\<lparr>kw_db := db\<rparr>))"

definition deleteOrThrow :: "string \<Rightarrow> (millis \<Rightarrow> KbDb \<Rightarrow> bool \<times> KbDb) \<Rightarrow> bool kbsvc" where
  "deleteOrThrow what f =
     andThen (kbDelete f) (\<lambda>deleted. if \<not> deleted then throw (NotFoundException (what @ '' not found'')) else ret deleted)"

definition deleteDocument :: "uid \<Rightarrow> uid \<Rightarrow> bool kbsvc" where
  "deleteDocument tenantId i = deleteOrThrow (''Knowledge Document '' @ i) (\<lambda>now. deleteDocumentRow now i tenantId)"

subsection \<open>Sources, categories and permissions\<close>

record CreateSourceDto =
  csd_name :: string
  csd_description :: "string option"
  csd_sourceType :: SourceTypeEnum
  csd_uri :: "string option"
  csd_config :: "(string \<times> json) list option"
  csd_metadata :: "(string \<times> json) list option"

definition createSource :: "uid \<Rightarrow> CreateSourceDto \<Rightarrow> KnowledgeSource kbsvc" where
  "createSource tenantId dto =
     andThen kbUUID (\<lambda>i.
     andThen kbNow (\<lambda>now.
     let s = \<lparr>kr_id = i, kr_tenantId = tenantId, kr_name = Some (csd_name dto), kr_description = csd_description dto, kr_sourceType = csd_sourceType dto,
              kr_status = ''ACTIVE'', kr_syncStatus = SYNC_PENDING, kr_uri = csd_uri dto, kr_connectorId = None, kr_config = Some (patched (csd_config dto) []),
              kr_documentCount = 0, kr_lastSyncedAt = None, kr_lastError = None, kr_metadata = Some (patched (csd_metadata dto) []), kr_createdAt = now,
              kr_updatedAt = now, kr_version = 1, kr_deletedAt = None, kr_domainEvents = [KnowledgeSourceCreatedEvent tenantId i (csd_sourceType dto)]\<rparr>
     in andThen (kbWrite (\<lambda>now. saveSource now s tenantId)) (\<lambda>_.
        andThen (kbPublishAll (kr_domainEvents s)) (\<lambda>_. ret (s\<lparr>kr_domainEvents := []\<rparr>)))))"

definition getSource :: "uid \<Rightarrow> uid \<Rightarrow> KnowledgeSource kbsvc" where
  "getSource tenantId i =
     andThen (kbRead (getSourceById i tenantId)) (\<lambda>found. case found of
       None \<Rightarrow> throw (NotFoundException (''Knowledge Source '' @ i @ '' not found''))
     | Some s \<Rightarrow> ret s)"

definition updateSource :: "uid \<Rightarrow> uid \<Rightarrow> SourcePatch \<Rightarrow> KnowledgeSource kbsvc" where
  "updateSource tenantId i p =
     andThen (getSource tenantId i) (\<lambda>s0.
     andThen kbNow (\<lambda>now.
     let s = KnowledgeSource_update now p s0
     in andThen (kbWrite (\<lambda>now. saveSource now s tenantId)) (\<lambda>_.
        andThen (kbPublishAll (kr_domainEvents s)) (\<lambda>_. ret (s\<lparr>kr_domainEvents := []\<rparr>)))))"

definition deleteSource :: "uid \<Rightarrow> uid \<Rightarrow> bool kbsvc" where
  "deleteSource tenantId i = deleteOrThrow (''Knowledge Source '' @ i) (\<lambda>now. deleteSourceRow now i tenantId)"

record CreateCategoryDto =
  cgd_name :: string
  cgd_description :: "string option"
  cgd_parentCategoryId :: "uid option"
  cgd_color :: "string option"
  cgd_sortOrder :: "int option"

definition createCategory :: "uid \<Rightarrow> CreateCategoryDto \<Rightarrow> KnowledgeCategory kbsvc" where
  "createCategory tenantId dto =
     andThen kbUUID (\<lambda>i.
     andThen kbNow (\<lambda>now.
     let g = \<lparr>kg_id = i, kg_tenantId = tenantId, kg_name = Some (cgd_name dto), kg_description = cgd_description dto,
              kg_parentCategoryId = cgd_parentCategoryId dto, kg_color = cgd_color dto, kg_sortOrder = patched (cgd_sortOrder dto) 0,
              kg_createdAt = now, kg_updatedAt = now, kg_version = 1\<rparr>
     in andThen (kbWrite (\<lambda>now. saveCategory now g tenantId)) (\<lambda>_. ret g)))"

definition getCategory :: "uid \<Rightarrow> uid \<Rightarrow> KnowledgeCategory kbsvc" where
  "getCategory tenantId i =
     andThen (kbRead (getCategoryById i tenantId)) (\<lambda>found. case found of
       None \<Rightarrow> throw (NotFoundException (''Knowledge Category '' @ i @ '' not found''))
     | Some g \<Rightarrow> ret g)"

definition updateCategory :: "uid \<Rightarrow> uid \<Rightarrow> CategoryPatch \<Rightarrow> KnowledgeCategory kbsvc" where
  "updateCategory tenantId i p =
     andThen (getCategory tenantId i) (\<lambda>g0.
     andThen kbNow (\<lambda>now.
     let g = KnowledgeCategory_update now p g0 in andThen (kbWrite (\<lambda>now. saveCategory now g tenantId)) (\<lambda>_. ret g)))"

definition deleteCategory :: "uid \<Rightarrow> uid \<Rightarrow> bool kbsvc" where
  "deleteCategory tenantId i = deleteOrThrow (''Knowledge Category '' @ i) (\<lambda>_. deleteCategoryRow i tenantId)"

definition addPermission :: "uid \<Rightarrow> uid \<Rightarrow> uid option \<Rightarrow> string option \<Rightarrow> string \<Rightarrow> KnowledgePermission kbsvc" where
  "addPermission tenantId documentId teamId role accessLevel =
     andThen kbUUID (\<lambda>i.
     let p = \<lparr>kp_id = i, kp_tenantId = tenantId, kp_documentId = documentId, kp_teamId = teamId, kp_role = role,
              kp_accessLevel = (if accessLevel = [] then ''READ'' else accessLevel)\<rparr>
     in andThen (kbTryWrite (\<lambda>_. savePermission p tenantId)) (\<lambda>_. ret p))"

definition deletePermission :: "uid \<Rightarrow> uid \<Rightarrow> bool kbsvc" where
  "deletePermission tenantId i = deleteOrThrow (''Permission '' @ i) (\<lambda>_. deletePermissionRow i tenantId)"

definition checkAccess :: "uid \<Rightarrow> uid \<Rightarrow> uid option \<Rightarrow> string option \<Rightarrow> string \<Rightarrow> bool kbsvc" where
  "checkAccess tenantId documentId teamId role requiredLevel = kbRead (checkPermission documentId tenantId teamId role requiredLevel)"

subsection \<open>Search\<close>

record SearchQueryDto =
  sqd_query :: string
  sqd_categoryId :: "uid option"
  sqd_sourceId :: "uid option"
  sqd_language :: "string option"
  sqd_status :: "string option"
  sqd_tags :: "string list option"
  sqd_limit :: "nat option"

definition logSearch :: "uid \<Rightarrow> string \<Rightarrow> nat \<Rightarrow> uid option \<Rightarrow> unit kbsvc" where
  "logSearch tenantId q count userId =
     andThen kbUUID (\<lambda>i.
     andThen kbNow (\<lambda>now.
     kbWrite (\<lambda>_. addSearchLog \<lparr>kl_id = i, kl_tenantId = tenantId, kl_userId = orUndefined userId, kl_query = q, kl_resultsCount = count,
                     kl_latencyMs = 0, kl_source = ''API'', kl_createdAt = now\<rparr>)))"

definition searchOptions :: "SearchQueryDto \<Rightarrow> DocumentQueryOptions" where
  "searchOptions dto =
     \<lparr>dqo_page = None, dqo_limit = Some (orCount (sqd_limit dto) 50), dqo_sourceId = sqd_sourceId dto, dqo_categoryId = sqd_categoryId dto,
      dqo_status = orS (sqd_status dto) (Some ''ACTIVE''), dqo_language = sqd_language dto, dqo_search = Some (sqd_query dto), dqo_tags = sqd_tags dto\<rparr>"

definition rankText :: "KnowledgeDocument \<Rightarrow> string" where
  "rankText d = inTemplate (kd_title d) @ [CHR 0x0A] @ jsonStringify (JObj (patched (kd_metadata d) []))"

text \<open>\<^verbatim>\<open>scoredMap\<close>: a later entry for an index replaces an earlier one.\<close>

definition scoreAt :: "(nat \<times> rat) list \<Rightarrow> nat \<Rightarrow> rat" where
  "scoreAt results i = patched (map_of (rev results) i) 0"

definition rankedDocuments :: "(nat \<times> rat) list \<Rightarrow> KnowledgeDocument list \<Rightarrow> (KnowledgeDocument \<times> rat) list" where
  "rankedDocuments results docs = sort_key (\<lambda>p. - snd p) (map (\<lambda>i. (docs ! i, scoreAt results i)) [0..<length docs])"

definition rerank :: "uid \<Rightarrow> string \<Rightarrow> string list \<Rightarrow> nat \<Rightarrow> (nat \<times> rat) list kbsvc" where
  "rerank tenantId q texts topK = (\<lambda>w. (kw_rerankAnswer w tenantId q texts topK, w))"

definition KnowledgeSearchService_search ::
  "uid \<Rightarrow> SearchQueryDto \<Rightarrow> uid option \<Rightarrow> uid option \<Rightarrow> string option \<Rightarrow> (KnowledgeDocument \<times> rat) list kbsvc" where
  "KnowledgeSearchService_search tenantId dto userId teamId role =
     andThen (kbRead (\<lambda>db. filter (\<lambda>d. checkPermission (kd_id d) tenantId teamId role ''READ'' db) (fst (findDocuments tenantId (searchOptions dto) db)))) (\<lambda>docs.
     if docs = [] then andThen (logSearch tenantId (sqd_query dto) 0 userId) (\<lambda>_. ret [])
     else andThen (if 2 < length (trim (sqd_query dto)) \<and> 1 < length docs
                   then tryCatch (andThen (rerank tenantId (sqd_query dto) (map rankText docs) (orCount (sqd_limit dto) 10)) (\<lambda>results. ret (rankedDocuments results docs)))
                          (\<lambda>_. ret (map (\<lambda>d. (d, 1)) docs))
                   else ret (map (\<lambda>d. (d, 1)) docs)) (\<lambda>finalResults.
          andThen (logSearch tenantId (sqd_query dto) (length finalResults) userId) (\<lambda>_. ret finalResults)))"

subsection \<open>Ingestion\<close>

text \<open>\<^verbatim>\<open>o?.[k] || d\<close> for the options of the AI platform.\<close>

definition optionOr :: "(string \<times> json) list option \<Rightarrow> string \<Rightarrow> int \<Rightarrow> json" where
  "optionOr m k d = the (orJs (Option.bind m (\<lambda>o'. map_of o' k)) (Some (JNum d)))"

definition ingestRequest :: "uid \<Rightarrow> KnowledgeDocument \<Rightarrow> IngestRequest" where
  "ingestRequest tenantId d =
     \<lparr>irq_tenantId = tenantId, irq_documentId = kd_id d, irq_fileUrl = the (orS (kd_fileUrl d) (orS (kd_sourceUri d) (Some []))),
      irq_mimeType = the (orS (kd_mimeType d) (Some ''text/plain'')), irq_chunkSize = optionOr (kd_metadata d) ''chunkSize'' 500,
      irq_chunkOverlap = optionOr (kd_metadata d) ''chunkOverlap'' 50\<rparr>"

definition ingestDocument :: "IngestRequest \<Rightarrow> IngestChunk list option kbsvc" where
  "ingestDocument r = (\<lambda>w. (case kw_ingestAnswer w r of Inl m \<Rightarrow> Inl (Error (''AI Platform Ingestion failed: '' @ m)) | Inr cs \<Rightarrow> Inr cs, w))"

text \<open>Each chunk draws its identifier.\<close>

fun makeChunks :: "uid \<Rightarrow> uid \<Rightarrow> nat \<Rightarrow> IngestChunk list \<Rightarrow> KnowledgeChunk list kbsvc" where
  "makeChunks tenantId documentId idx [] = ret []"
| "makeChunks tenantId documentId idx (c # cs) =
     andThen kbUUID (\<lambda>u.
     andThen kbNow (\<lambda>now.
     andThen (asks (\<lambda>w. net_sha256 (kw_net w) (ic_content c))) (\<lambda>hash.
     andThen (makeChunks tenantId documentId (idx + 1) cs) (\<lambda>rest.
     ret (\<lparr>kc_id = u, kc_tenantId = tenantId, kc_documentId = documentId, kc_chunkIndex = idx, kc_chunkHash = hash, kc_content = ic_content c,
           kc_tokenCount = patched (ic_tokenCount c) 0, kc_externalRef = ic_hash c, kc_createdAt = now\<rparr> # rest)))))"

definition KnowledgeChunkService_saveChunks :: "uid \<Rightarrow> uid \<Rightarrow> IngestChunk list \<Rightarrow> unit kbsvc" where
  "KnowledgeChunkService_saveChunks tenantId documentId cs =
     andThen (makeChunks tenantId documentId 0 cs) (\<lambda>chunks. kbWrite (\<lambda>_. saveChunkRows chunks tenantId))"

definition kbSaveJob :: "uid \<Rightarrow> KnowledgeSyncJob \<Rightarrow> unit kbsvc" where
  "kbSaveJob tenantId j = kbWrite (\<lambda>now. saveSyncJob now j tenantId)"

text \<open>The handler of the \<^verbatim>\<open>try\<close> block: document and job as they are when the block fails.\<close>

definition ingestionFailed :: "uid \<Rightarrow> KnowledgeDocument \<Rightarrow> KnowledgeSyncJob \<Rightarrow> exn \<Rightarrow> unit kbsvc" where
  "ingestionFailed tenantId d j e =
     andThen kbNow (\<lambda>now.
     andThen (kbTryWrite (\<lambda>now'. saveDocument now' (failIngestion now (message e) d) tenantId)) (\<lambda>_.
     kbSaveJob tenantId (KnowledgeSyncJob_fail now (message e) j)))"

text \<open>The block after the document was stored as processing.\<close>

definition ingestChunks :: "uid \<Rightarrow> KnowledgeDocument \<Rightarrow> KnowledgeSyncJob \<Rightarrow> IngestChunk list kbsvc" where
  "ingestChunks tenantId d j =
     andThen (kbSaveJob tenantId j) (\<lambda>_.
     andThen (ingestDocument (ingestRequest tenantId d)) (\<lambda>answer.
     let chunks = patched answer []
     in andThen (if chunks \<noteq> [] then KnowledgeChunkService_saveChunks tenantId (kd_id d) chunks else ret ()) (\<lambda>_. ret chunks)))"

definition finishIngestion :: "uid \<Rightarrow> KnowledgeDocument \<Rightarrow> KnowledgeSyncJob \<Rightarrow> nat \<Rightarrow> unit kbsvc" where
  "finishIngestion tenantId d j count =
     andThen (kbTryWrite (\<lambda>now. saveDocument now d tenantId)) (\<lambda>_.
     andThen (publishDocument tenantId (kd_id d) (Some ''Document ingested and parsed successfully.'') None) (\<lambda>_.
     andThen kbNow (\<lambda>now.
     kbSaveJob tenantId (KnowledgeSyncJob_complete now [(''chunksCount'', JNum (int count))] j))))"

definition triggerIngestion :: "uid \<Rightarrow> uid \<Rightarrow> unit kbsvc" where
  "triggerIngestion tenantId documentId =
     andThen (kbRead (findDocument documentId tenantId)) (\<lambda>found. case found of
       None \<Rightarrow> throw (BadRequestException (''Document '' @ documentId @ '' not found''))
     | Some d0 \<Rightarrow>
         if \<not> truthy (kd_fileUrl d0) \<and> \<not> truthy (kd_sourceUri d0) then throw (BadRequestException ''Document has no URL or URI source reference'')
         else andThen kbUUID (\<lambda>jobId.
              andThen kbNow (\<lambda>now.
              let j0 = new_KnowledgeSyncJob now jobId tenantId (kd_sourceId d0) (Some (kd_id d0)) JOB_INGEST;
                  d1 = startIngestion now jobId d0; j1 = KnowledgeSyncJob_start now j0
              in andThen (kbSaveJob tenantId j0) (\<lambda>_.
                 andThen (attempt (kbTryWrite (\<lambda>now. saveDocument now d1 tenantId))) (\<lambda>stored. case stored of
                   Inl e \<Rightarrow> ingestionFailed tenantId d1 j0 e
                 | Inr _ \<Rightarrow>
                     andThen (attempt (ingestChunks tenantId d1 j1)) (\<lambda>answer. case answer of
                       Inl e \<Rightarrow> ingestionFailed tenantId d1 j1 e
                     | Inr chunks \<Rightarrow>
                         let d2 = markEmbedded now (completeIngestion now (length chunks) d1)
                         in andThen (attempt (finishIngestion tenantId d2 j1 (length chunks))) (\<lambda>done'. case done' of
                              Inl e \<Rightarrow> ingestionFailed tenantId d2 j1 e
                            | Inr _ \<Rightarrow> ret ())))))))"

subsection \<open>Crawls\<close>

definition triggerWebsiteCrawl :: "uid \<Rightarrow> uid \<Rightarrow> unit kbsvc" where
  "triggerWebsiteCrawl tenantId sourceId =
     andThen (kbRead (getSourceById sourceId tenantId)) (\<lambda>found. case found of
       Some s \<Rightarrow>
         if \<not> truthy (kr_uri s) then throw (BadRequestException (''Knowledge Source '' @ sourceId @ '' has no website URL configured''))
         else andThen kbUUID (\<lambda>jobId.
              andThen kbNow (\<lambda>now.
              andThen (kbSaveJob tenantId (new_KnowledgeSyncJob now jobId tenantId sourceId None JOB_CRAWL)) (\<lambda>_.
              andThen (kbAddJob (KnowledgeCrawlJob tenantId sourceId jobId)) (\<lambda>_.
              kbWrite (\<lambda>now'. saveSource now' (startSync now jobId s) tenantId)))))
     | None \<Rightarrow> throw (BadRequestException (''Knowledge Source '' @ sourceId @ '' has no website URL configured'')))"

definition anyToDocType :: "SourceTypeEnum \<Rightarrow> DocumentTypeEnum" where
  "anyToDocType t = (if t = SRC_WEBSITE \<or> t = SRC_SITEMAP \<or> t = SRC_URL then DOC_WEBPAGE else DOC_MANUAL)"

text \<open>\<^verbatim>\<open>url.replace(/^https?:\/\//, '').replace(/[^a-zA-Z0-9]/g, '-')\<close>\<close>

definition slugOf :: "string \<Rightarrow> string" where
  "slugOf url =
     map (\<lambda>c. if isAlnumChar c then c else CHR ''-'')
       (if startsWith ''https://'' url then drop 8 url else if startsWith ''http://'' url then drop 7 url else url)"

definition webDocument :: "KnowledgeSource \<Rightarrow> string \<Rightarrow> string \<Rightarrow> string option \<Rightarrow> (string \<times> json) list \<Rightarrow> CreateDocumentDto" where
  "webDocument s url title checksum metadata =
     \<lparr>cdd_sourceId = kr_id s, cdd_categoryId = None, cdd_title = title, cdd_slug = slugOf url, cdd_documentType = anyToDocType (kr_sourceType s),
      cdd_language = ''en'', cdd_uploadReference = None, cdd_fileUrl = Some url, cdd_storageProvider = Some ''website'', cdd_fileSize = None,
      cdd_mimeType = Some ''text/html'', cdd_checksum = checksum, cdd_tags = None, cdd_metadata = Some metadata\<rparr>"

definition pageDocument :: "KnowledgeSource \<Rightarrow> ScrapedPage \<Rightarrow> CreateDocumentDto" where
  "pageDocument s page =
     webDocument s (sp_url page) (if sp_title page \<noteq> [] then sp_title page else ''Crawled Webpage'') (Some (sp_checksum page))
       [(''url'', JStr (sp_url page)), (''scrapedText'', JStr (take 1000 (sp_content page)))]"

text \<open>A document of the web: whether creating and ingesting it went without an exception.\<close>

definition addWebDocument :: "uid \<Rightarrow> CreateDocumentDto \<Rightarrow> bool kbsvc" where
  "addWebDocument tenantId dto =
     tryCatch (andThen (createDocument tenantId dto) (\<lambda>d. andThen (triggerIngestion tenantId (kd_id d)) (\<lambda>_. ret True))) (\<lambda>_. ret False)"

fun addPages :: "uid \<Rightarrow> KnowledgeSource \<Rightarrow> ScrapedPage list \<Rightarrow> nat \<Rightarrow> nat kbsvc" where
  "addPages tenantId s [] n = ret n"
| "addPages tenantId s (p # ps) n = andThen (addWebDocument tenantId (pageDocument s p)) (\<lambda>ok. addPages tenantId s ps (if ok then n + 1 else n))"

fun addUrls :: "uid \<Rightarrow> KnowledgeSource \<Rightarrow> nat \<Rightarrow> string list \<Rightarrow> KnowledgeSyncJob \<times> nat \<times> nat \<Rightarrow> (KnowledgeSyncJob \<times> nat \<times> nat) kbsvc" where
  "addUrls tenantId s totalN [] acc = ret acc"
| "addUrls tenantId s totalN (u # us) acc =
     andThen (addWebDocument tenantId (webDocument s u ''Sitemap Webpage'' None [(''url'', JStr u)])) (\<lambda>ok.
     andThen kbNow (\<lambda>now.
     let (j, processed, failed) = acc; processed' = (if ok then processed + 1 else processed); failed' = (if ok then failed else failed + 1);
         j' = updateProgress now processed' failed' totalN j
     in andThen (kbSaveJob tenantId j') (\<lambda>_. addUrls tenantId s totalN us (j', processed', failed'))))"

text \<open>\<^verbatim>\<open>config.maxPages || 20\<close>; the limit is a number, and a text is read as one. A text that is no finite number stops before the first page.\<close>

definition pageLimit :: "(string \<times> json) list \<Rightarrow> int" where
  "pageLimit config =
     (case orJs (map_of config ''maxPages'') (Some (JNum 20)) of
        Some v \<Rightarrow> (case numberOf v of Fin r \<Rightarrow> \<lceil>r\<rceil> | _ \<Rightarrow> 0)
      | None \<Rightarrow> 0)"

definition sitemapUrls :: "KbNet \<Rightarrow> (string \<times> json) list \<Rightarrow> string list" where
  "sitemapUrls net config = (case map_of config ''sitemapUrl'' of Some (JStr u) \<Rightarrow> if u = [] then [] else parseSitemap net u | _ \<Rightarrow> [])"

definition finishCrawl :: "uid \<Rightarrow> KnowledgeSource \<Rightarrow> KnowledgeSyncJob \<Rightarrow> nat \<Rightarrow> (string \<times> json) list \<Rightarrow> unit kbsvc" where
  "finishCrawl tenantId s j count stats =
     andThen kbNow (\<lambda>now.
     andThen (kbWrite (\<lambda>now'. saveSource now' (completeSync now count s) tenantId)) (\<lambda>_.
     kbSaveJob tenantId (KnowledgeSyncJob_complete now stats j)))"

definition failCrawl :: "uid \<Rightarrow> KnowledgeSource \<Rightarrow> KnowledgeSyncJob \<Rightarrow> exn \<Rightarrow> unit kbsvc" where
  "failCrawl tenantId s j e =
     andThen kbNow (\<lambda>now.
     andThen (kbWrite (\<lambda>now'. saveSource now' (failSync now (message e) s) tenantId)) (\<lambda>_.
     kbSaveJob tenantId (KnowledgeSyncJob_fail now (message e) j)))"

definition processCrawlJob :: "uid \<Rightarrow> uid \<Rightarrow> uid \<Rightarrow> unit kbsvc" where
  "processCrawlJob tenantId sourceId jobId =
     andThen (kbRead (getSyncJobById jobId tenantId)) (\<lambda>foundJob.
     andThen (kbRead (getSourceById sourceId tenantId)) (\<lambda>foundSource. case (foundJob, foundSource) of
       (Some j0, Some s) \<Rightarrow>
         if \<not> truthy (kr_uri s) then ret ()
         else andThen kbNow (\<lambda>now.
              let j = KnowledgeSyncJob_start now j0; config = patched (kr_config s) []
              in andThen (kbSaveJob tenantId j) (\<lambda>_.
                 andThen (asks kw_net) (\<lambda>net.
                 let urls = sitemapUrls net config
                 in if urls = [] then
                      (case crawlWebsite net (the (kr_uri s)) (pageLimit config) of
                         Inl e \<Rightarrow> failCrawl tenantId s j e
                       | Inr pages \<Rightarrow>
                           let j' = updateProgress now (length pages) 0 (length pages) j
                           in andThen (kbSaveJob tenantId j') (\<lambda>_.
                              andThen (addPages tenantId s pages 0) (\<lambda>n.
                              finishCrawl tenantId s j' n [(''crawledCount'', JNum (int (length pages))), (''successCount'', JNum (int n))])))
                    else
                      (let j' = updateProgress now 0 0 (length urls) j
                       in andThen (kbSaveJob tenantId j') (\<lambda>_.
                          andThen (addUrls tenantId s (length urls) urls (j', 0, 0)) (\<lambda>(j'', processed, failed).
                          finishCrawl tenantId s j'' processed
                            [(''sitemapCount'', JNum (int (length urls))), (''processed'', JNum (int processed)), (''failed'', JNum (int failed))]))))))
     | _ \<Rightarrow> ret ()))"

subsection \<open>The queue processor\<close>

datatype kb_job_result = KbDone | KbIndexed uid | KbCleaned millis

definition handleKnowledgeJob :: "kb_queue_job \<times> uid option \<Rightarrow> kb_job_result kbsvc" where
  "handleKnowledgeJob q =
     (let tenant = (\<lambda>data. the (orS (snd q) (Some data)))
      in case fst q of
           KnowledgeIngestionJob t i \<Rightarrow> andThen (triggerIngestion (tenant t) i) (\<lambda>_. ret KbDone)
         | KnowledgeSyncQueueJob t s j \<Rightarrow> andThen (processCrawlJob (tenant t) s j) (\<lambda>_. ret KbDone)
         | KnowledgeCrawlJob t s j \<Rightarrow> andThen (processCrawlJob (tenant t) s j) (\<lambda>_. ret KbDone)
         | KnowledgeIndexJob i \<Rightarrow> ret (KbIndexed i)
         | KnowledgeCleanupJob \<Rightarrow> andThen kbNow (\<lambda>now. ret (KbCleaned now))
         | OtherKnowledgeJob name \<Rightarrow> throw (Error (''Unknown job name: '' @ name)))"

subsection \<open>Controllers\<close>

definition guarded :: "string \<Rightarrow> string \<Rightarrow> uid \<Rightarrow> uid \<Rightarrow> uid option \<Rightarrow> string option \<Rightarrow> 'a kbsvc \<Rightarrow> 'a kbsvc" where
  "guarded level denied tenantId i teamId role m =
     andThen (checkAccess tenantId i teamId role level) (\<lambda>hasAccess. if \<not> hasAccess then throw (HttpException 403 denied) else m)"

definition KnowledgeDocumentController_getDocument :: "uid \<Rightarrow> uid \<Rightarrow> string option \<Rightarrow> uid option \<Rightarrow> KnowledgeDocument kbsvc" where
  "KnowledgeDocumentController_getDocument tenantId i role teamId =
     guarded ''READ'' ''Access denied to this document'' tenantId i teamId role (getDocument tenantId i)"

definition KnowledgeDocumentController_findDocuments ::
  "uid \<Rightarrow> DocumentQueryOptions \<Rightarrow> string option \<Rightarrow> uid option \<Rightarrow> (KnowledgeDocument list \<times> nat) kbsvc" where
  "KnowledgeDocumentController_findDocuments tenantId q role teamId =
     kbRead (\<lambda>db. let (docs, total) = findDocuments tenantId q db
                  in (filter (\<lambda>d. checkPermission (kd_id d) tenantId teamId role ''READ'' db) docs, total))"

definition KnowledgeDocumentController_updateDocument :: "uid \<Rightarrow> uid \<Rightarrow> DocumentPatch \<Rightarrow> string option \<Rightarrow> uid option \<Rightarrow> KnowledgeDocument kbsvc" where
  "KnowledgeDocumentController_updateDocument tenantId i p role teamId =
     guarded ''WRITE'' ''Access denied: Write permission required'' tenantId i teamId role (updateDocument tenantId i p)"

definition KnowledgeDocumentController_deleteDocument :: "uid \<Rightarrow> uid \<Rightarrow> string option \<Rightarrow> uid option \<Rightarrow> bool kbsvc" where
  "KnowledgeDocumentController_deleteDocument tenantId i role teamId =
     guarded ''MANAGE'' ''Access denied: Manage permission required'' tenantId i teamId role (deleteDocument tenantId i)"

text \<open>The public help centre: a visitor has no team and no role.\<close>

definition requireTenant :: "string \<Rightarrow> 'a kbsvc \<Rightarrow> 'a kbsvc" where
  "requireTenant tenantId m = (if tenantId = [] then throw (BadRequestException ''Missing Tenant ID'') else m)"

definition PublicKnowledge_listDocuments :: "uid \<Rightarrow> uid option \<Rightarrow> string option \<Rightarrow> KnowledgeDocument list kbsvc" where
  "PublicKnowledge_listDocuments tenantId categoryId documentType =
     requireTenant tenantId (kbRead (\<lambda>db.
       let found = fst (findDocuments tenantId (anyDocument\<lparr>dqo_categoryId := categoryId, dqo_status := Some ''ACTIVE'', dqo_limit := Some 100\<rparr>) db);
           docs = (if truthy documentType then filter (\<lambda>d. documentTypeName (kd_documentType d) = the documentType) found else found)
       in filter (\<lambda>d. checkPermission (kd_id d) tenantId None None ''READ'' db) docs))"

definition articleNotFound :: "string \<Rightarrow> exn" where
  "articleNotFound slug = NotFoundException (''Article '' @ [CHR 0x22] @ slug @ [CHR 0x22] @ '' not found'')"

definition PublicKnowledge_getDocumentBySlug :: "uid \<Rightarrow> string \<Rightarrow> (KnowledgeDocument \<times> string) kbsvc" where
  "PublicKnowledge_getDocumentBySlug tenantId slug =
     requireTenant tenantId (andThen (getDocumentBySlug tenantId slug) (\<lambda>d.
       if kd_status d \<noteq> DST_ACTIVE then throw (articleNotFound slug)
       else andThen (checkAccess tenantId (kd_id d) None None ''READ'') (\<lambda>hasAccess.
            if \<not> hasAccess then throw (articleNotFound slug)
            else andThen (getDocumentContent tenantId (kd_id d)) (\<lambda>content. ret (d, content)))))"

definition PublicKnowledge_search :: "uid \<Rightarrow> string \<Rightarrow> uid option \<Rightarrow> (KnowledgeDocument \<times> rat) list kbsvc" where
  "PublicKnowledge_search tenantId q categoryId =
     requireTenant tenantId (KnowledgeSearchService_search tenantId
       \<lparr>sqd_query = q, sqd_categoryId = categoryId, sqd_sourceId = None, sqd_language = None, sqd_status = Some ''ACTIVE'', sqd_tags = None, sqd_limit = None\<rparr>
       None None None)"

end
