(* ===== verification/Knowledge_Properties.thy ===== *)
theory Knowledge_Properties
  imports Knowledge_Service State_Frame "HOL-Library.Multiset"
begin

text \<open>
  Knowledge base: who may read a document and what search and help centre show, how far a crawl goes, how an ingestion ends, and
  the history of published versions.
\<close>

subsection \<open>Permissions\<close>

definition grantsTo :: "uid option \<Rightarrow> string option \<Rightarrow> KnowledgePermission \<Rightarrow> bool" where
  "grantsTo teamId role p \<longleftrightarrow>
     (truthy teamId \<and> kp_teamId p = teamId) \<or> (truthy role \<and> kp_role p = role) \<or> (\<not> truthy (kp_teamId p) \<and> \<not> truthy (kp_role p))"

lemma someGrant_iff: "someGrant teamId role k ps \<longleftrightarrow> (\<exists>p\<in>set ps. grantsTo teamId role p \<and> k \<le> accessWeight (kp_accessLevel p))"
  by (induction ps) (auto simp: grantsTo_def Let_def)

text \<open>A document without grants is open to everybody for everything; one with grants is open to whom a grant of at least the required
  level names by team or by role or names nobody.\<close>

theorem access_is_by_grant:
  "checkPermission i t teamId role level db \<longleftrightarrow>
     (let grants = getPermissionsByDocumentId i t db
      in grants = [] \<or> (\<exists>p\<in>set grants. grantsTo teamId role p \<and> accessWeight level \<le> accessWeight (kp_accessLevel p)))"
  by (simp add: checkPermission_def someGrant_iff Let_def)

lemma visitor_access:
  "checkPermission i t None None ''READ'' db \<longleftrightarrow>
     getPermissionsByDocumentId i t db = [] \<or> (\<exists>p\<in>set (getPermissionsByDocumentId i t db). \<not> truthy (kp_teamId p) \<and> \<not> truthy (kp_role p))"
proof -
  have "\<not> truthy None" "accessWeight ''READ'' \<le> accessWeight x" for x by (simp_all add: truthy_def accessWeight_def)
  then show ?thesis by (auto simp: checkPermission_def someGrant_iff grantsTo_def Let_def)
qed

text \<open>Removing the only grant of a document does not close it: it opens it to everybody, for reading, writing and deleting.\<close>

theorem removing_the_last_grant_opens_the_document:
  assumes "getPermissionsByDocumentId i t (kw_db w) = [p]"
  shows "\<exists>w'. deletePermission t (kp_id p) w = (Inr True, w') \<and> checkPermission i t teamId role level (kw_db w')"
proof -
  let ?mine = "\<lambda>r. kp_documentId r = i \<and> kp_tenantId r = t" and ?it = "\<lambda>r. kp_id r = kp_id p \<and> kp_tenantId r = t"
  let ?db = "(kw_db w)\<lparr>nb_permissions := filter (\<lambda>r. \<not> ?it r) (nb_permissions (kw_db w))\<rparr>"
  have all: "set (filter ?mine (nb_permissions (kw_db w))) = {p}" using assms by (simp add: getPermissionsByDocumentId_def)
  have "p \<in> set (filter ?mine (nb_permissions (kw_db w)))" unfolding all by simp
  then have p: "p \<in> set (nb_permissions (kw_db w))" "?mine p" by simp_all
  have only: "r = p" if "r \<in> set (nb_permissions (kw_db w))" "?mine r" for r
  proof -
    have "r \<in> set (filter ?mine (nb_permissions (kw_db w)))" using that by simp
    then show ?thesis unfolding all by simp
  qed
  from p have "list_ex ?it (nb_permissions (kw_db w))" by (auto simp: list_ex_iff)
  then have "deletePermission t (kp_id p) w = (Inr True, w\<lparr>kw_db := ?db\<rparr>)"
    by (simp add: deletePermission_def deleteOrThrow_def kbDelete_def deletePermissionRow_def)
  moreover have "getPermissionsByDocumentId i t ?db = []" using p(2) only by (fastforce simp: getPermissionsByDocumentId_def filter_empty_conv)
  ultimately show ?thesis by (simp add: checkPermission_def)
qed

subsection \<open>What is shown\<close>

lemma sqlOrder_set [simp]: "set (sqlOrder a f rows) = set rows"
  by (auto simp: sqlOrder_def Let_def)

lemma documentToDomain_sel [simp]:
  "kd_id (documentToDomain r) = kd_id r" "kd_tenantId (documentToDomain r) = kd_tenantId r" "kd_status (documentToDomain r) = kd_status r"
  "kd_deletedAt (documentToDomain r) = kd_deletedAt r" "kd_slug (documentToDomain r) = kd_slug r" "kd_version (documentToDomain r) = kd_version r"
  "kd_sourceId (documentToDomain r) = kd_sourceId r"
  by (simp_all add: documentToDomain_def)

lemma found_documents:
  assumes "d \<in> set (fst (findDocuments t q db))"
  obtains r where "r \<in> set (nb_documents db)" "documentMatches t q r" "d = documentToDomain r"
  using assms by (auto simp: findDocuments_def Let_def dest!: in_set_takeD in_set_dropD)

lemma logSearch_run: "\<exists>w'. logSearch t q n u w = (Inr (), w') \<and> nb_documents (kw_db w') = nb_documents (kw_db w) \<and> nb_permissions (kw_db w') = nb_permissions (kw_db w)"
  by (simp add: logSearch_def kbUUID_def kbNow_def kbWrite_def addSearchLog_def)

lemma ranked_mset: "mset (map fst (rankedDocuments results docs)) = mset docs"
proof -
  have "mset (map fst (rankedDocuments results docs)) = image_mset fst (mset (map (\<lambda>i. (docs ! i, scoreAt results i)) [0..<length docs]))"
    unfolding rankedDocuments_def by (simp only: mset_map mset_sort)
  also have "\<dots> = mset (map (\<lambda>i. docs ! i) [0..<length docs])" by (simp add: comp_def flip: mset_map)
  finally show ?thesis by (simp add: map_nth)
qed

lemma ranked_sorted: "sorted_wrt (\<lambda>a b. snd b \<le> snd a) (rankedDocuments results docs)"
proof -
  have "sorted (map (\<lambda>p. - snd p) (rankedDocuments results docs))" unfolding rankedDocuments_def by (rule sorted_sort_key)
  then show ?thesis by (simp add: sorted_wrt_map)
qed

lemma search_hits:
  "\<exists>rs w'. KnowledgeSearchService_search t dto u teamId role w = (Inr rs, w') \<and>
     mset (map fst rs) = mset (filter (\<lambda>d. checkPermission (kd_id d) t teamId role ''READ'' (kw_db w)) (fst (findDocuments t (searchOptions dto) (kw_db w)))) \<and>
     sorted_wrt (\<lambda>a b. snd b \<le> snd a) rs"
proof -
  define docs where "docs = filter (\<lambda>d. checkPermission (kd_id d) t teamId role ''READ'' (kw_db w)) (fst (findDocuments t (searchOptions dto) (kw_db w)))"
  let ?plain = "map (\<lambda>d. (d, 1 :: rat)) docs"
  have plain: "mset (map fst ?plain) = mset docs" "sorted_wrt (\<lambda>a b. snd b \<le> snd a) ?plain" by (simp_all add: comp_def sorted_wrt_map)
  define rs where "rs = (if docs \<noteq> [] \<and> 2 < length (trim (sqd_query dto)) \<and> 1 < length docs then
      (case kw_rerankAnswer w t (sqd_query dto) (map rankText docs) (orCount (sqd_limit dto) 10) of Inr results \<Rightarrow> rankedDocuments results docs | Inl e \<Rightarrow> ?plain)
      else ?plain)"
  obtain w' where w': "logSearch t (sqd_query dto) (length rs) u w = (Inr (), w')" using logSearch_run by blast
  have len: "docs = [] \<Longrightarrow> rs = []" by (simp add: rs_def)
  have "KnowledgeSearchService_search t dto u teamId role w = (Inr rs, w')"
    using w' len by (cases "kw_rerankAnswer w t (sqd_query dto) (map rankText docs) (orCount (sqd_limit dto) 10)")
      (auto simp: KnowledgeSearchService_search_def kbRead_def docs_def [symmetric] rs_def rerank_def svc_simps)
  moreover have "rs = ?plain \<or> (\<exists>results. rs = rankedDocuments results docs)" by (auto simp: rs_def split: sum.splits)
  then have "mset (map fst rs) = mset docs" "sorted_wrt (\<lambda>a b. snd b \<le> snd a) rs" using plain ranked_mset ranked_sorted by metis+
  ultimately show ?thesis by (auto simp: docs_def)
qed

text \<open>C39: A search always answers, whatever the AI platform does: with the documents of the page of hits that the caller may read, each once,
  by falling score.\<close>

theorem search_shows_the_readable_hits:
  "\<exists>rs w'. KnowledgeSearchService_search t dto u teamId role w = (Inr rs, w') \<and>
     mset (map fst rs) = mset (filter (\<lambda>d. checkPermission (kd_id d) t teamId role ''READ'' (kw_db w)) (fst (findDocuments t (searchOptions dto) (kw_db w)))) \<and>
     sorted_wrt (\<lambda>a b. snd b \<le> snd a) rs"
  by (rule search_hits)

definition publicArticle :: "uid \<Rightarrow> KbDb \<Rightarrow> KnowledgeDocument \<Rightarrow> bool" where
  "publicArticle t db d \<longleftrightarrow>
     (\<exists>r\<in>set (nb_documents db). d = documentToDomain r \<and> kd_tenantId r = t \<and> kd_deletedAt r = None \<and> kd_status r = DST_ACTIVE) \<and>
     (getPermissionsByDocumentId (kd_id d) t db = [] \<or>
      (\<exists>p\<in>set (getPermissionsByDocumentId (kd_id d) t db). \<not> truthy (kp_teamId p) \<and> \<not> truthy (kp_role p)))"

lemma active_by_name: "wanted (Some ''ACTIVE'') (Some (documentStatusName st)) \<longleftrightarrow> st = DST_ACTIVE"
  by (cases st) (simp_all add: wanted_def truthy_def)

lemma publicArticleI:
  assumes "d \<in> set (fst (findDocuments t q db))" "dqo_status q = Some ''ACTIVE''" "checkPermission (kd_id d) t None None ''READ'' db"
  shows "publicArticle t db d"
proof -
  obtain r where "r \<in> set (nb_documents db)" "documentMatches t q r" "d = documentToDomain r" by (rule found_documents [OF assms(1)])
  with assms(2,3) show ?thesis unfolding publicArticle_def visitor_access [symmetric] by (auto simp: documentMatches_def active_by_name)
qed

lemma visitor_sees:
  "PublicKnowledge_listDocuments t categoryId documentType w = (Inr ds, w1) \<longrightarrow> (\<forall>d\<in>set ds. publicArticle t (kw_db w) d)"
  "PublicKnowledge_getDocumentBySlug t slug w = (Inr (d', content), w2) \<longrightarrow> publicArticle t (kw_db w) d' \<and> kd_slug d' = slug"
  "PublicKnowledge_search t q categoryId w = (Inr rs, w3) \<longrightarrow> (\<forall>p\<in>set rs. publicArticle t (kw_db w) (fst p))"
proof -
  show "PublicKnowledge_listDocuments t categoryId documentType w = (Inr ds, w1) \<longrightarrow> (\<forall>d\<in>set ds. publicArticle t (kw_db w) d)"
    by (auto simp: PublicKnowledge_listDocuments_def requireTenant_def kbRead_def Let_def intro!: publicArticleI split: if_splits)
  show "PublicKnowledge_getDocumentBySlug t slug w = (Inr (d', content), w2) \<longrightarrow> publicArticle t (kw_db w) d' \<and> kd_slug d' = slug"
  proof
    assume run: "PublicKnowledge_getDocumentBySlug t slug w = (Inr (d', content), w2)"
    obtain r where r: "List.find (\<lambda>r. kd_slug r = slug \<and> kd_tenantId r = t \<and> kd_deletedAt r = None) (nb_documents (kw_db w)) = Some r"
      "d' = documentToDomain r" "kd_status r = DST_ACTIVE" "checkPermission (kd_id r) t None None ''READ'' (kw_db w)"
      using run by (cases "List.find (\<lambda>r. kd_slug r = slug \<and> kd_tenantId r = t \<and> kd_deletedAt r = None) (nb_documents (kw_db w))")
        (auto simp: PublicKnowledge_getDocumentBySlug_def requireTenant_def getDocumentBySlug_def findBySlug_def kbRead_def checkAccess_def
          getDocumentContent_def split: if_splits)
    from find_Some_set [OF r(1)] r(2-4) show "publicArticle t (kw_db w) d' \<and> kd_slug d' = slug"
      unfolding publicArticle_def visitor_access [symmetric] by auto
  qed
  show "PublicKnowledge_search t q categoryId w = (Inr rs, w3) \<longrightarrow> (\<forall>p\<in>set rs. publicArticle t (kw_db w) (fst p))"
  proof (intro impI ballI)
    fix p
    assume run: "PublicKnowledge_search t q categoryId w = (Inr rs, w3)" and p: "p \<in> set rs"
    define dto where "dto = \<lparr>sqd_query = q, sqd_categoryId = categoryId, sqd_sourceId = None, sqd_language = None, sqd_status = Some ''ACTIVE'',
      sqd_tags = None, sqd_limit = None\<rparr>"
    from run have "KnowledgeSearchService_search t dto None None None w = (Inr rs, w3)"
      by (simp add: PublicKnowledge_search_def requireTenant_def dto_def split: if_splits)
    with search_hits [of t dto None None None w]
    have "mset (map fst rs) = mset (filter (\<lambda>d. checkPermission (kd_id d) t None None ''READ'' (kw_db w)) (fst (findDocuments t (searchOptions dto) (kw_db w))))"
      by auto
    then have "set (map fst rs) = set (filter (\<lambda>d. checkPermission (kd_id d) t None None ''READ'' (kw_db w)) (fst (findDocuments t (searchOptions dto) (kw_db w))))"
      by (rule mset_eq_setD)
    with p have "fst p \<in> set (filter (\<lambda>d. checkPermission (kd_id d) t None None ''READ'' (kw_db w)) (fst (findDocuments t (searchOptions dto) (kw_db w))))" by force
    then show "publicArticle t (kw_db w) (fst p)" by (intro publicArticleI) (auto simp: searchOptions_def dto_def orS_def truthy_def)
  qed
qed

text \<open>C26: A visitor of the help centre is shown nothing but published articles that no grant restricts: by listing, by slug and by search.\<close>

theorem visitors_see_only_public_articles:
  "(PublicKnowledge_listDocuments t categoryId documentType w = (Inr ds, w1) \<longrightarrow> (\<forall>d\<in>set ds. publicArticle t (kw_db w) d)) \<and>
   (PublicKnowledge_getDocumentBySlug t slug w = (Inr (d', content), w2) \<longrightarrow> publicArticle t (kw_db w) d' \<and> kd_slug d' = slug) \<and>
   (PublicKnowledge_search t q categoryId w = (Inr rs, w3) \<longrightarrow> (\<forall>p\<in>set rs. publicArticle t (kw_db w) (fst p)))"
  using visitor_sees by blast

text \<open>An article that is restricted or not published is not hidden: the answer for its slug differs from the answer for a slug that
  does not exist.\<close>

theorem hidden_articles_are_distinguishable:
  assumes "t \<noteq> []" "findBySlug t slug (kw_db w) = Some d" "kd_status d \<noteq> DST_ACTIVE \<or> \<not> checkPermission (kd_id d) t None None ''READ'' (kw_db w)"
    and "findBySlug t slug (kw_db v) = None"
  shows "\<exists>a b. PublicKnowledge_getDocumentBySlug t slug w = (Inl a, w) \<and> PublicKnowledge_getDocumentBySlug t slug v = (Inl b, v) \<and> a \<noteq> b"
  using assms
  by (auto simp: PublicKnowledge_getDocumentBySlug_def requireTenant_def getDocumentBySlug_def kbRead_def checkAccess_def articleNotFound_def)

subsection \<open>The crawler\<close>

lemma enqueueLinks_set: "set (enqueueLinks visited links queue) \<subseteq> set queue \<union> set links"
  unfolding enqueueLinks_def
proof (induction links arbitrary: queue)
  case (Cons l links)
  show ?case using Cons.IH [of queue] Cons.IH [of "queue @ [l]"] by auto
qed simp

lemma discoverLinks_host: "l \<in> set (discoverLinks net html base domain) \<Longrightarrow> \<exists>raw. net_url net raw (Some base) = Some (domain, l)"
  by (auto simp: discoverLinks_def firstUnique_def linkOf_def split: if_splits option.splits)

definition onSite :: "KbNet \<Rightarrow> string \<Rightarrow> string \<Rightarrow> string \<Rightarrow> bool" where
  "onSite net start domain url \<longleftrightarrow> url = start \<or> (\<exists>raw base. net_url net raw (Some base) = Some (domain, url))"

definition crawled :: "KbNet \<Rightarrow> string \<Rightarrow> string \<Rightarrow> int \<Rightarrow> ScrapedPage list \<Rightarrow> bool" where
  "crawled net start domain limit pages \<longleftrightarrow>
     distinct (map sp_url pages) \<and> int (length pages) \<le> max 0 limit \<and>
     (\<forall>p\<in>set pages. onSite net start domain (sp_url p) \<and> (\<exists>html. pageText (net_get net (sp_url p)) = Some html \<and> p = scraped net (sp_url p) html))"

lemma crawlLoop_crawled:
  assumes "crawled net start domain limit results" "set (map sp_url results) \<subseteq> set visited" "\<forall>u\<in>set queue. onSite net start domain u"
  shows "crawled net start domain limit (crawlLoop net domain limit queue visited results)"
  using assms
proof (induction net domain limit queue visited results rule: crawlLoop.induct)
  case (2 net domain limit url queue visited results)
  show ?case
  proof (cases "int (length results) < limit \<and> url \<notin> set visited")
    case go: True
    show ?thesis
    proof (cases "pageText (net_get net url)")
      case html: (Some html)
      have page: "sp_url (scraped net url html) = url" by (simp add: scraped_def Let_def)
      have "crawled net start domain limit (results @ [scraped net url html])"
        using "2.prems" go html page by (auto simp: crawled_def)
      moreover have "\<forall>u\<in>set (enqueueLinks (url # visited) (discoverLinks net html url domain) queue). onSite net start domain u"
      proof
        fix u
        assume "u \<in> set (enqueueLinks (url # visited) (discoverLinks net html url domain) queue)"
        then have "u \<in> set queue \<or> u \<in> set (discoverLinks net html url domain)" using enqueueLinks_set by fast
        then show "onSite net start domain u"
          using "2.prems"(3) discoverLinks_host [of u net html url domain] by (auto simp: onSite_def)
      qed
      ultimately have "crawled net start domain limit
          (crawlLoop net domain limit (enqueueLinks (url # visited) (discoverLinks net html url domain) queue) (url # visited) (results @ [scraped net url html]))"
        using "2.prems"(2) page by (intro "2.IH"(3)) (use go html in auto)
      then show ?thesis using go html by simp
    next
      case None
      have "crawled net start domain limit (crawlLoop net domain limit queue (url # visited) results)"
        by (rule "2.IH"(2)) (use "2.prems" go None in auto)
      then show ?thesis using go None by simp
    qed
  qed (use 2 in auto)
qed simp


subsection \<open>Rows of documents\<close>

abbreviation docKey :: "KnowledgeDocument \<Rightarrow> uid \<times> uid" where
  "docKey r \<equiv> (kd_id r, kd_tenantId r)"

text \<open>Keys and slugs are unique and versions count from 1.\<close>

definition docsOk :: "KnowledgeDocument list \<Rightarrow> bool" where
  "docsOk docs \<longleftrightarrow> distinct (map docKey docs) \<and> (\<forall>r\<in>set docs. 1 \<le> kd_version r) \<and>
     (\<forall>a\<in>set docs. \<forall>b\<in>set docs. kd_tenantId a = kd_tenantId b \<and> kd_slug a = kd_slug b \<longrightarrow> kd_id a = kd_id b)"

lemma documentColumns_sel [simp]:
  "kd_id (documentColumns now d r) = kd_id d" "kd_tenantId (documentColumns now d r) = kd_tenantId d" "kd_slug (documentColumns now d r) = kd_slug d"
  "kd_version (documentColumns now d r) = kd_version d" "kd_status (documentColumns now d r) = kd_status d"
  "kd_deletedAt (documentColumns now d r) = kd_deletedAt r" "kd_chunkCount (documentColumns now d r) = kd_chunkCount d"
  by (simp_all add: documentColumns_def)

lemma find_unique_key:
  assumes "distinct (map docKey docs)" "r \<in> set docs" "docKey r = (i, t)"
  shows "List.find (sameDocument i t) docs = Some r"
  using assms by (induction docs) (auto simp: sameDocument_def image_iff)

lemma find_live_key:
  assumes "distinct (map docKey docs)"
  shows "List.find (\<lambda>r. sameDocument i t r \<and> kd_deletedAt r = None) docs = Some r \<longleftrightarrow>
    List.find (sameDocument i t) docs = Some r \<and> kd_deletedAt r = None"
  using assms
proof (induction docs)
  case (Cons x docs)
  show ?case
  proof (cases "sameDocument i t x")
    case True
    have "\<not> sameDocument i t y" if "y \<in> set docs" for y
      using Cons.prems that True by (auto simp: sameDocument_def image_iff)
    then have "List.find (\<lambda>r. sameDocument i t r \<and> kd_deletedAt r = None) docs = None" by (auto simp: find_None_iff)
    with True show ?thesis by auto
  qed (use Cons in auto)
qed simp

lemma findDocument_iff:
  assumes "docsOk (nb_documents db)"
  shows "findDocument i t db = Some d \<longleftrightarrow>
    (\<exists>r. List.find (sameDocument i t) (nb_documents db) = Some r \<and> kd_deletedAt r = None \<and> d = documentToDomain r)"
  using assms by (auto simp: findDocument_def docsOk_def find_live_key)

text \<open>The table after a known document was stored again.\<close>

definition replacedDoc :: "millis \<Rightarrow> KnowledgeDocument \<Rightarrow> KnowledgeDocument list \<Rightarrow> KnowledgeDocument list" where
  "replacedDoc now d docs = map (\<lambda>r. if sameDocument (kd_id d) (kd_tenantId d) r then documentColumns now d r else r) docs"

lemma keys_replaced: "map docKey (replacedDoc now d docs) = map docKey docs"
  by (simp add: replacedDoc_def sameDocument_def)

lemma find_replaced:
  "List.find (sameDocument (kd_id d) (kd_tenantId d)) (replacedDoc now d docs)
     = map_option (documentColumns now d) (List.find (sameDocument (kd_id d) (kd_tenantId d)) docs)"
  unfolding replacedDoc_def by (rule find_map_upd) (simp add: sameDocument_def)

lemma docsOk_keys: "docsOk docs \<Longrightarrow> distinct (map docKey docs)"
  by (simp add: docsOk_def)

lemma replaced_row:
  assumes "x \<in> set (replacedDoc now d docs)"
  obtains y where "y \<in> set docs" "docKey x = docKey y" "x = (if sameDocument (kd_id d) (kd_tenantId d) y then documentColumns now d y else y)"
proof -
  from assms obtain y where "y \<in> set docs" "x = (if sameDocument (kd_id d) (kd_tenantId d) y then documentColumns now d y else y)"
    by (auto simp: replacedDoc_def)
  then show thesis by (intro that [of y]) (simp_all add: sameDocument_def)
qed

lemma docsOk_slug:
  assumes "docsOk docs" "a \<in> set docs" "b \<in> set docs" "kd_tenantId a = kd_tenantId b" "kd_slug a = kd_slug b"
  shows "kd_id a = kd_id b"
  using assms unfolding docsOk_def by blast

lemma docsOk_replaced:
  assumes ok: "docsOk docs" and row: "List.find (sameDocument (kd_id d) (kd_tenantId d)) docs = Some r" and slug: "kd_slug d = kd_slug r" and v: "1 \<le> kd_version d"
  shows "docsOk (replacedDoc now d docs)"
proof -
  have r: "r \<in> set docs" "kd_id r = kd_id d" "kd_tenantId r = kd_tenantId d" using find_Some_set [OF row] by (simp_all add: sameDocument_def)
  have old: "\<exists>y\<in>set docs. kd_id x = kd_id y \<and> kd_tenantId x = kd_tenantId y \<and> kd_slug x = kd_slug y" if x: "x \<in> set (replacedDoc now d docs)" for x
  proof -
    obtain y where y: "y \<in> set docs" "x = (if sameDocument (kd_id d) (kd_tenantId d) y then documentColumns now d y else y)" by (rule replaced_row [OF x])
    show ?thesis
    proof (cases "sameDocument (kd_id d) (kd_tenantId d) y")
      case True
      then show ?thesis using y(2) r slug by (intro bexI [of _ r]) simp_all
    qed (use y in auto)
  qed
  have "kd_id a = kd_id b" if ab: "a \<in> set (replacedDoc now d docs)" "b \<in> set (replacedDoc now d docs)" "kd_tenantId a = kd_tenantId b" "kd_slug a = kd_slug b" for a b
  proof -
    obtain a' b' where "a' \<in> set docs" "kd_id a = kd_id a'" "kd_tenantId a = kd_tenantId a'" "kd_slug a = kd_slug a'"
      "b' \<in> set docs" "kd_id b = kd_id b'" "kd_tenantId b = kd_tenantId b'" "kd_slug b = kd_slug b'" using old [OF ab(1)] old [OF ab(2)] by blast
    then show ?thesis using docsOk_slug [OF ok, of a' b'] ab(3,4) by simp
  qed
  moreover have "\<forall>x\<in>set (replacedDoc now d docs). 1 \<le> kd_version x" using ok v by (auto simp: replacedDoc_def docsOk_def)
  ultimately show ?thesis using ok unfolding docsOk_def keys_replaced by blast
qed

lemma resaved:
  assumes ok: "docsOk (nb_documents db)" and row: "List.find (sameDocument (kd_id d) (kd_tenantId d)) (nb_documents db) = Some r" and slug: "kd_slug d = kd_slug r"
  shows "saveDocument now d (kd_tenantId d) db = Inr (db\<lparr>nb_documents := replacedDoc now d (nb_documents db)\<rparr>)"
proof -
  have r: "r \<in> set (nb_documents db)" "kd_id r = kd_id d" "kd_tenantId r = kd_tenantId d" using find_Some_set [OF row] by (simp_all add: sameDocument_def)
  have "\<not> list_ex (\<lambda>x. \<not> sameDocument (kd_id d) (kd_tenantId d) x \<and> kd_tenantId x = kd_tenantId d \<and> kd_slug x = kd_slug d) (nb_documents db)"
    using docsOk_slug [OF ok, of _ r] r slug by (auto simp: list_ex_iff sameDocument_def)
  moreover have "list_ex (sameDocument (kd_id d) (kd_tenantId d)) (nb_documents db)" using r by (auto simp: list_ex_iff sameDocument_def)
  ultimately show ?thesis by (simp add: saveDocument_def Let_def putRow_def replacedDoc_def)
qed

subsection \<open>The history of a document\<close>

definition versionsOk :: "KbDb \<Rightarrow> bool" where
  "versionsOk db \<longleftrightarrow>
     (\<forall>v\<in>set (nb_versions db). \<exists>r\<in>set (nb_documents db). sameDocument (kv_documentId v) (kv_tenantId v) r \<and> kv_versionNumber v \<le> kd_version r)"

definition kbInv :: "KbWorld \<Rightarrow> bool" where
  "kbInv w \<longleftrightarrow> docsOk (nb_documents (kw_db w)) \<and> versionsOk (kw_db w) \<and> inj (kw_uuid w) \<and>
     (\<forall>r\<in>set (nb_documents (kw_db w)). \<exists>n<kw_uuidNext w. kd_id r = kw_uuid w n)"

definition keepsInv :: "KbWorld \<Rightarrow> KbWorld \<Rightarrow> bool" where
  "keepsInv w w' \<longleftrightarrow> (kbInv w \<longrightarrow> kbInv w')"

interpretation inv: state_frame keepsInv
  by unfold_locales (auto simp: keepsInv_def)

lemma kbInv_same:
  assumes "kbInv w" "nb_documents (kw_db w') = nb_documents (kw_db w)" "nb_versions (kw_db w') = nb_versions (kw_db w)" "kw_uuid w' = kw_uuid w"
    "kw_uuidNext w \<le> kw_uuidNext w'"
  shows "kbInv w'"
  using assms unfolding kbInv_def versionsOk_def by (metis order_less_le_trans)

lemma versionsOk_replaced:
  assumes "versionsOk db" "docsOk (nb_documents db)" "List.find (sameDocument (kd_id d) (kd_tenantId d)) (nb_documents db) = Some r" "kd_version r \<le> kd_version d"
  shows "versionsOk (db\<lparr>nb_documents := replacedDoc now d (nb_documents db)\<rparr>)"
  unfolding versionsOk_def
proof
  fix v
  assume "v \<in> set (nb_versions (db\<lparr>nb_documents := replacedDoc now d (nb_documents db)\<rparr>))"
  then obtain x where x: "x \<in> set (nb_documents db)" "sameDocument (kv_documentId v) (kv_tenantId v) x" "kv_versionNumber v \<le> kd_version x"
    using assms(1) by (auto simp: versionsOk_def)
  define x' where "x' = (if sameDocument (kd_id d) (kd_tenantId d) x then documentColumns now d x else x)"
  have "x' \<in> set (replacedDoc now d (nb_documents db))" using x(1) by (auto simp: replacedDoc_def x'_def)
  moreover have "sameDocument (kv_documentId v) (kv_tenantId v) x'" using x(2) by (auto simp: x'_def sameDocument_def)
  moreover have "kv_versionNumber v \<le> kd_version x'"
  proof (cases "sameDocument (kd_id d) (kd_tenantId d) x")
    case True
    have "docKey x = (kd_id d, kd_tenantId d)" using True by (simp add: sameDocument_def)
    then have "x = r" using find_unique_key [OF docsOk_keys [OF assms(2)] x(1)] assms(3) by simp
    then show ?thesis using True x(3) assms(4) unfolding x'_def by simp
  qed (use x(3) in \<open>simp add: x'_def\<close>)
  ultimately show "\<exists>r\<in>set (nb_documents (db\<lparr>nb_documents := replacedDoc now d (nb_documents db)\<rparr>)).
      sameDocument (kv_documentId v) (kv_tenantId v) r \<and> kv_versionNumber v \<le> kd_version r" by auto
qed

lemma kbInv_replaced:
  assumes inv: "kbInv w" and row: "List.find (sameDocument (kd_id d) (kd_tenantId d)) (nb_documents (kw_db w)) = Some r"
    and slug: "kd_slug d = kd_slug r" and v: "kd_version r \<le> kd_version d"
  shows "kbInv (w\<lparr>kw_db := (kw_db w)\<lparr>nb_documents := replacedDoc now d (nb_documents (kw_db w))\<rparr>\<rparr>)"
proof -
  have ok: "docsOk (nb_documents (kw_db w))" "versionsOk (kw_db w)" using inv by (simp_all add: kbInv_def)
  have r: "r \<in> set (nb_documents (kw_db w))" "kd_id r = kd_id d" "kd_tenantId r = kd_tenantId d" using find_Some_set [OF row] by (simp_all add: sameDocument_def)
  have "1 \<le> kd_version d" using ok(1) r(1) v unfolding docsOk_def by fastforce
  then have "docsOk (replacedDoc now d (nb_documents (kw_db w)))" by (rule docsOk_replaced [OF ok(1) row slug])
  moreover have "\<exists>n<kw_uuidNext w. kd_id x = kw_uuid w n" if x: "x \<in> set (replacedDoc now d (nb_documents (kw_db w)))" for x
  proof -
    obtain y where "y \<in> set (nb_documents (kw_db w))" "docKey x = docKey y" by (rule replaced_row [OF x])
    then show ?thesis using inv unfolding kbInv_def by auto
  qed
  ultimately show ?thesis using inv versionsOk_replaced [OF ok(2,1) row v] by (simp add: kbInv_def)
qed

subsection \<open>Runs of the service methods\<close>

text \<open>A live document in a world where the invariant holds, by its row.\<close>

definition docIs :: "uid \<Rightarrow> uid \<Rightarrow> KnowledgeDocument \<Rightarrow> KbWorld \<Rightarrow> bool" where
  "docIs t i r w \<longleftrightarrow> kbInv w \<and> List.find (sameDocument i t) (nb_documents (kw_db w)) = Some r \<and> kd_deletedAt r = None"

lemma docIs_found: "docIs t i r w \<Longrightarrow> findDocument i t (kw_db w) = Some (documentToDomain r)"
  by (simp add: docIs_def kbInv_def findDocument_iff)

lemma docIsI:
  assumes "kbInv w" "findDocument i t (kw_db w) = Some d"
  obtains r where "docIs t i r w" "d = documentToDomain r"
  using assms by (auto simp: docIs_def kbInv_def findDocument_iff)

lemma docIs_key: "docIs t i r w \<Longrightarrow> kd_id r = i \<and> kd_tenantId r = t"
  unfolding docIs_def using find_Some_set by (fastforce simp: sameDocument_def)

lemma docIs_same:
  assumes "docIs t i r w" "nb_documents (kw_db w') = nb_documents (kw_db w)" "nb_versions (kw_db w') = nb_versions (kw_db w)" "kw_uuid w' = kw_uuid w"
    "kw_uuidNext w \<le> kw_uuidNext w'"
  shows "docIs t i r w'"
  using assms kbInv_same [of w w'] by (simp add: docIs_def)

definition stored :: "KnowledgeDocument \<Rightarrow> KbWorld \<Rightarrow> KbWorld" where
  "stored d w = w\<lparr>kw_db := (kw_db w)\<lparr>nb_documents := replacedDoc (kw_now w) d (nb_documents (kw_db w))\<rparr>\<rparr>"

lemma stored_sel [simp]:
  "kw_now (stored d w) = kw_now w" "kw_uuid (stored d w) = kw_uuid w" "kw_uuidNext (stored d w) = kw_uuidNext w" "kw_net (stored d w) = kw_net w"
  "kw_ingestAnswer (stored d w) = kw_ingestAnswer w" "nb_versions (kw_db (stored d w)) = nb_versions (kw_db w)"
  "nb_chunks (kw_db (stored d w)) = nb_chunks (kw_db w)" "nb_syncJobs (kw_db (stored d w)) = nb_syncJobs (kw_db w)"
  by (simp_all add: stored_def)

lemma save_stage:
  assumes "docIs t i r w" "kd_id d = i" "kd_tenantId d = t" "kd_slug d = kd_slug r" "kd_version r \<le> kd_version d"
  shows "kbTryWrite (\<lambda>now. saveDocument now d t) w = (Inr (), stored d w)" "docIs t i (documentColumns (kw_now w) d r) (stored d w)"
proof -
  have row: "List.find (sameDocument (kd_id d) (kd_tenantId d)) (nb_documents (kw_db w)) = Some r" and live: "kd_deletedAt r = None" and inv: "kbInv w"
    using assms(1-3) by (simp_all add: docIs_def)
  have ok: "docsOk (nb_documents (kw_db w))" using inv by (simp add: kbInv_def)
  show "kbTryWrite (\<lambda>now. saveDocument now d t) w = (Inr (), stored d w)"
    using resaved [OF ok row assms(4), of "kw_now w"] assms(3) by (simp add: kbTryWrite_def stored_def)
  have "kbInv (stored d w)" unfolding stored_def by (rule kbInv_replaced [OF inv row assms(4,5)])
  then show "docIs t i (documentColumns (kw_now w) d r) (stored d w)"
    using find_replaced [of d "kw_now w" "nb_documents (kw_db w)"] row live assms(2,3) by (simp add: docIs_def stored_def)
qed

lemma kbPublishAll_run: "\<exists>js. kbPublishAll evs w = (Inr (), w\<lparr>kw_jobs := js\<rparr>)"
proof -
  have one: "\<exists>js. KnowledgeEventPublisher_publish ev v = (Inr (), v\<lparr>kw_jobs := js\<rparr>)" for ev v
  proof -
    have same: "v = v\<lparr>kw_jobs := kw_jobs v\<rparr>" by simp
    show ?thesis by (cases ev) (auto simp: KnowledgeEventPublisher_publish_def kbAddJob_def svc_simps intro: exI [of _ "kw_jobs v"])
  qed
  show ?thesis
    unfolding kbPublishAll_def
  proof (induction evs arbitrary: w)
    case Nil
    show ?case by (intro exI [of _ "kw_jobs w"]) simp
  next
    case (Cons e evs)
    obtain js where js: "KnowledgeEventPublisher_publish e w = (Inr (), w\<lparr>kw_jobs := js\<rparr>)" using one by blast
    obtain js' where "forEach evs KnowledgeEventPublisher_publish (w\<lparr>kw_jobs := js\<rparr>) = (Inr (), w\<lparr>kw_jobs := js, kw_jobs := js'\<rparr>)" using Cons by blast
    with js show ?case by (intro exI [of _ js']) simp
  qed
qed

lemma persist_run:
  assumes "docIs t i r w" "kd_id d = i" "kd_tenantId d = t" "kd_slug d = kd_slug r" "kd_version r \<le> kd_version d"
  shows "\<exists>js. persistDocument t d w = (Inr (d\<lparr>kd_domainEvents := []\<rparr>), (stored d w)\<lparr>kw_jobs := js\<rparr>)"
proof -
  obtain js where "kbPublishAll (kd_domainEvents d) (stored d w) = (Inr (), (stored d w)\<lparr>kw_jobs := js\<rparr>)" using kbPublishAll_run by blast
  with save_stage(1) [OF assms] show ?thesis by (auto simp: persistDocument_def)
qed

lemma publish_sel [simp]:
  "kd_id (KnowledgeDocument_publish now u d) = kd_id d" "kd_tenantId (KnowledgeDocument_publish now u d) = kd_tenantId d"
  "kd_slug (KnowledgeDocument_publish now u d) = kd_slug d" "kd_version (KnowledgeDocument_publish now u d) = nextVersion (kd_version d)"
  "kd_status (KnowledgeDocument_publish now u d) = DST_ACTIVE" "kd_chunkCount (KnowledgeDocument_publish now u d) = kd_chunkCount d"
  by (simp_all add: KnowledgeDocument_publish_def kdEvent_def kdTouch_def)

lemma version_row:
  "kv_tenantId (newVersion now u t cs by' d) = t" "kv_documentId (newVersion now u t cs by' d) = kd_id d" "kv_versionNumber (newVersion now u t cs by' d) = kd_version d"
  by (simp_all add: newVersion_def)

definition published :: "uid \<Rightarrow> string option \<Rightarrow> uid option \<Rightarrow> KnowledgeDocument \<Rightarrow> KbWorld \<Rightarrow> KbWorld" where
  "published t cs u d w =
     (let v = newVersion (kw_now w) (kw_uuid w (kw_uuidNext w)) t cs u d
      in w\<lparr>kw_uuidNext := kw_uuidNext w + 1, kw_db := (kw_db w)\<lparr>nb_versions := nb_versions (kw_db w) @
            [v\<lparr>kv_changeSummary := orUndefined cs, kv_contentHash := orUndefined (kv_contentHash v), kv_publishedBy := orUndefined u\<rparr>]\<rparr>\<rparr>)"

lemma published_inv:
  assumes "docIs t (kd_id d) r w" "kd_version d \<le> kd_version r"
  shows "docIs t (kd_id d) r (published t cs u d w)"
proof -
  have r: "r \<in> set (nb_documents (kw_db w))" "sameDocument (kd_id d) t r" and inv: "kbInv w"
    using assms(1) find_Some_set [of "sameDocument (kd_id d) t"] by (auto simp: docIs_def)
  have "\<exists>r\<in>set (nb_documents (kw_db w)). sameDocument (kv_documentId v) (kv_tenantId v) r \<and> kv_versionNumber v \<le> kd_version r"
    if "v \<in> set (nb_versions (kw_db (published t cs u d w)))" for v
    using that inv r assms(2) by (auto simp: published_def Let_def kbInv_def versionsOk_def version_row)
  then have "versionsOk (kw_db (published t cs u d w))" by (simp add: versionsOk_def published_def Let_def)
  moreover have "\<forall>r\<in>set (nb_documents (kw_db w)). \<exists>n<kw_uuidNext w + 1. kd_id r = kw_uuid w n" using inv unfolding kbInv_def by (meson less_add_one order_less_trans)
  ultimately show ?thesis using assms(1) by (simp add: docIs_def kbInv_def published_def Let_def)
qed

lemma history_below:
  assumes "docIs t i r w" "x \<in> set (nb_versions (kw_db w))" "kv_tenantId x = t" "kv_documentId x = i"
  shows "kv_versionNumber x \<le> kd_version r"
proof -
  have inv: "kbInv w" using assms(1) by (simp add: docIs_def)
  obtain y where y: "y \<in> set (nb_documents (kw_db w))" "sameDocument i t y" "kv_versionNumber x \<le> kd_version y"
    using inv assms(2-4) unfolding kbInv_def versionsOk_def by blast
  have "distinct (map docKey (nb_documents (kw_db w)))" using inv by (simp add: kbInv_def docsOk_def)
  from find_unique_key [OF this y(1), of i t] y(2) have "y = r" using assms(1) by (simp add: docIs_def sameDocument_def)
  with y(3) show ?thesis by simp
qed

text \<open>Publishing a live document always succeeds: its number is new, because no version is above the version of its document.\<close>

lemma publish_run:
  assumes "docIs t i r w" and d_def: "d = KnowledgeDocument_publish (kw_now w) u (documentToDomain r)"
  shows "\<exists>js. publishDocument t i cs u w = (Inr (d\<lparr>kd_domainEvents := []\<rparr>), (published t cs u d (stored d w))\<lparr>kw_jobs := js\<rparr>)"
    "docIs t i (documentColumns (kw_now w) d r) (published t cs u d (stored d w))"
proof -
  have key: "kd_id r = i" "kd_tenantId r = t" using docIs_key [OF assms(1)] by simp_all
  have r: "r \<in> set (nb_documents (kw_db w))" and inv: "kbInv w" using assms(1) find_Some_set [of "sameDocument i t"] by (auto simp: docIs_def)
  have v: "nextVersion (kd_version r) = kd_version r + 1" using r inv by (fastforce simp: kbInv_def docsOk_def nextVersion_def)
  have d: "kd_id d = i" "kd_tenantId d = t" "kd_slug d = kd_slug r" "kd_version r \<le> kd_version d" using key v by (simp_all add: d_def)
  note st = save_stage [OF assms(1) d]
  have free: "\<not> list_ex (\<lambda>x. kv_tenantId x = t \<and> kv_documentId x = i \<and> kv_versionNumber x = kd_version d) (nb_versions (kw_db w))"
    using v history_below [OF assms(1)] by (fastforce simp: list_ex_iff d_def)
  obtain js where js: "kbPublishAll (kd_domainEvents d) (published t cs u d (stored d w)) = (Inr (), (published t cs u d (stored d w))\<lparr>kw_jobs := js\<rparr>)"
    using kbPublishAll_run by blast
  have "saveDocVersion (newVersion (kw_now w) (kw_uuid w (kw_uuidNext w)) t cs u d) (kw_db (stored d w)) = Inr (kw_db (published t cs u d (stored d w)))"
    using free d(1) by (simp add: saveDocVersion_def version_row published_def Let_def) (simp add: newVersion_def)
  then show "\<exists>js. publishDocument t i cs u w = (Inr (d\<lparr>kd_domainEvents := []\<rparr>), (published t cs u d (stored d w))\<lparr>kw_jobs := js\<rparr>)"
    using docIs_found [OF assms(1)] st(1) js
    by (intro exI [of _ js])
      (simp add: publishDocument_def getDocument_def kbRead_def kbNow_def kbUUID_def kbTryWrite_def Let_def d_def [symmetric] published_def)
  show "docIs t i (documentColumns (kw_now w) d r) (published t cs u d (stored d w))"
    using published_inv [of t d "documentColumns (kw_now w) d r" "stored d w"] st(2) d(1) by simp
qed

subsection \<open>Ingestion\<close>

lemma ingestion_sel [simp]:
  "kd_id (startIngestion now j d) = kd_id d" "kd_tenantId (startIngestion now j d) = kd_tenantId d" "kd_slug (startIngestion now j d) = kd_slug d"
  "kd_version (startIngestion now j d) = kd_version d" "kd_sourceId (startIngestion now j d) = kd_sourceId d"
  "kd_id (completeIngestion now n d) = kd_id d" "kd_tenantId (completeIngestion now n d) = kd_tenantId d" "kd_slug (completeIngestion now n d) = kd_slug d"
  "kd_version (completeIngestion now n d) = kd_version d" "kd_chunkCount (completeIngestion now n d) = n"
  "kd_id (markEmbedded now d) = kd_id d" "kd_tenantId (markEmbedded now d) = kd_tenantId d" "kd_slug (markEmbedded now d) = kd_slug d"
  "kd_version (markEmbedded now d) = kd_version d" "kd_chunkCount (markEmbedded now d) = kd_chunkCount d"
  "kd_id (failIngestion now m d) = kd_id d" "kd_tenantId (failIngestion now m d) = kd_tenantId d" "kd_slug (failIngestion now m d) = kd_slug d"
  "kd_version (failIngestion now m d) = kd_version d" "kd_status (failIngestion now m d) = DST_FAILED"
  by (simp_all add: startIngestion_def completeIngestion_def markEmbedded_def failIngestion_def kdEvent_def kdTouch_def)

lemma ingestRequest_start [simp]: "ingestRequest t (startIngestion now j d) = ingestRequest t d"
  by (simp add: ingestRequest_def startIngestion_def kdEvent_def kdTouch_def)

lemma makeChunks_run:
  "\<exists>chunks. makeChunks t i n cs w = (Inr chunks, w\<lparr>kw_uuidNext := kw_uuidNext w + length cs\<rparr>) \<and> map kc_content chunks = map ic_content cs \<and>
     map kc_chunkIndex chunks = [n..<n + length cs] \<and> (\<forall>c\<in>set chunks. kc_documentId c = i \<and> kc_tenantId c = t)"
proof (induction cs arbitrary: n w)
  case Nil
  show ?case by simp
next
  case (Cons c cs)
  obtain chunks where "makeChunks t i (n + 1) cs (w\<lparr>kw_uuidNext := kw_uuidNext w + 1\<rparr>) = (Inr chunks, w\<lparr>kw_uuidNext := kw_uuidNext w + 1 + length cs\<rparr>)"
      "map kc_content chunks = map ic_content cs" "map kc_chunkIndex chunks = [n + 1..<n + 1 + length cs]" "\<forall>c\<in>set chunks. kc_documentId c = i \<and> kc_tenantId c = t"
    using Cons [of "n + 1" "w\<lparr>kw_uuidNext := kw_uuidNext w + 1\<rparr>"] by auto
  moreover have "[n..<n + length (c # cs)] = n # [n + 1..<n + 1 + length cs]" by (simp add: upt_conv_Cons del: upt_Suc)
  ultimately show ?case by (simp add: kbUUID_def kbNow_def del: upt_Suc)
qed

lemma sorted_sort_key: "sorted (map f xs) \<Longrightarrow> sort_key f xs = xs"
  by (rule properties_for_sort_key) simp_all

lemma chunks_read_back:
  assumes "chunks \<noteq> []" "map kc_chunkIndex chunks = [0..<length chunks]" "\<forall>c\<in>set chunks. kc_documentId c = i \<and> kc_tenantId c = t"
  shows "map kc_content (getChunksByDocumentId i t (saveChunkRows chunks t db)) = map kc_content chunks"
proof -
  let ?new = "map (\<lambda>x. x\<lparr>kc_tenantId := t, kc_externalRef := orUndefined (kc_externalRef x)\<rparr>) chunks"
  obtain c cs where c: "chunks = c # cs" using assms(1) by (cases chunks) auto
  have "filter (\<lambda>r. kc_documentId r = i \<and> kc_tenantId r = t) (nb_chunks (saveChunkRows chunks t db)) = ?new"
    using assms(3) by (auto simp: saveChunkRows_def c filter_empty_conv)
  moreover have "sort_key kc_chunkIndex ?new = ?new" by (rule sorted_sort_key) (simp add: comp_def assms(2))
  ultimately show ?thesis by (simp add: getChunksByDocumentId_def comp_def)
qed

lemma saveJob_run: "kbSaveJob t j w = (Inr (), w\<lparr>kw_db := saveSyncJob (kw_now w) j t (kw_db w)\<rparr>)"
  by (simp add: kbSaveJob_def kbWrite_def)

lemma saveSyncJob_sel [simp]:
  "nb_documents (saveSyncJob now j t db) = nb_documents db" "nb_versions (saveSyncJob now j t db) = nb_versions db" "nb_chunks (saveSyncJob now j t db) = nb_chunks db"
  by (simp_all add: saveSyncJob_def Let_def)

lemma saved_job:
  assumes "kj_tenantId j = t"
  obtains j' where "getSyncJobById (kj_id j) t (saveSyncJob now j t db) = Some j'" "kj_status j' = kj_status j" "kj_error j' = orUndefined (kj_error j)"
proof (cases "list_ex (sameSyncJob (kj_id j) t) (nb_syncJobs db)")
  case True
  then obtain r where r: "List.find (sameSyncJob (kj_id j) t) (nb_syncJobs db) = Some r" using list_ex_find by fastforce
  let ?upd = "\<lambda>r. j\<lparr>kj_error := orUndefined (kj_error j), kj_updatedAt := now, kj_createdAt := kj_createdAt r\<rparr>"
  have "List.find (sameSyncJob (kj_id j) t) (map (\<lambda>r. if sameSyncJob (kj_id j) t r then ?upd r else r) (nb_syncJobs db))
      = map_option ?upd (List.find (sameSyncJob (kj_id j) t) (nb_syncJobs db))"
    by (rule find_map_upd) (simp add: sameSyncJob_def assms)
  with True r show ?thesis by (intro that [of "?upd r"]) (simp_all add: getSyncJobById_def saveSyncJob_def putRow_def Let_def)
next
  case False
  then show ?thesis using assms
    by (intro that [of "j\<lparr>kj_error := orUndefined (kj_error j), kj_updatedAt := now\<rparr>"])
      (simp_all add: getSyncJobById_def saveSyncJob_def putRow_def Let_def find_append_new sameSyncJob_def)
qed

lemma job_sel [simp]:
  "kj_id (new_KnowledgeSyncJob now u t s d ty) = u" "kj_tenantId (new_KnowledgeSyncJob now u t s d ty) = t"
  "kj_id (KnowledgeSyncJob_start now j) = kj_id j" "kj_tenantId (KnowledgeSyncJob_start now j) = kj_tenantId j"
  "kj_id (KnowledgeSyncJob_fail now e j) = kj_id j" "kj_tenantId (KnowledgeSyncJob_fail now e j) = kj_tenantId j"
  "kj_status (KnowledgeSyncJob_fail now e j) = JOB_FAILED" "kj_error (KnowledgeSyncJob_fail now e j) = Some e"
  "kj_id (KnowledgeSyncJob_complete now st j) = kj_id j" "kj_tenantId (KnowledgeSyncJob_complete now st j) = kj_tenantId j"
  "kj_status (KnowledgeSyncJob_complete now st j) = JOB_COMPLETED"
  by (simp_all add: new_KnowledgeSyncJob_def KnowledgeSyncJob_start_def KnowledgeSyncJob_fail_def KnowledgeSyncJob_complete_def)

lemma failed_run:
  assumes "docIs t i r w" "kd_id d = i" "kd_tenantId d = t" "kd_slug d = kd_slug r" "kd_version r \<le> kd_version d" "kj_tenantId j = t" "message e \<noteq> []"
  obtains w' r' j' where "ingestionFailed t d j e w = (Inr (), w')" "docIs t i r' w'" "kd_status r' = DST_FAILED"
    "getSyncJobById (kj_id j) t (kw_db w') = Some j'" "kj_status j' = JOB_FAILED" "kj_error j' = Some (message e)"
proof -
  define d' where "d' = failIngestion (kw_now w) (message e) d"
  have d': "kd_id d' = i" "kd_tenantId d' = t" "kd_slug d' = kd_slug r" "kd_version r \<le> kd_version d'" using assms(2-5) by (simp_all add: d'_def)
  note st = save_stage [OF assms(1) d']
  let ?j = "KnowledgeSyncJob_fail (kw_now w) (message e) j"
  define w' where "w' = (stored d' w)\<lparr>kw_db := saveSyncJob (kw_now w) ?j t (kw_db (stored d' w))\<rparr>"
  have "ingestionFailed t d j e w = (Inr (), w')"
    using st(1) by (simp add: ingestionFailed_def kbNow_def saveJob_run w'_def d'_def)
  moreover have "docIs t i (documentColumns (kw_now w) d' r) w'" by (rule docIs_same [OF st(2)]) (simp_all add: w'_def)
  moreover obtain j' where "getSyncJobById (kj_id ?j) t (saveSyncJob (kw_now w) ?j t (kw_db (stored d' w))) = Some j'" "kj_status j' = kj_status ?j"
      "kj_error j' = orUndefined (kj_error ?j)" by (rule saved_job [of ?j t]) (simp_all add: assms(6))
  ultimately show thesis using assms(7)
    by (intro that [of w' "documentColumns (kw_now w) d' r" j']) (simp_all add: w'_def d'_def orUndefined_def truthy_def)
qed

lemma attempt_apply: "attempt m s = (Inr (fst (m s)), snd (m s))"
  by (simp add: attempt_def split_beta)

text \<open>The method from the first store of the document on.\<close>

definition ingestFrom :: "uid \<Rightarrow> KnowledgeDocument \<Rightarrow> KnowledgeSyncJob \<Rightarrow> KnowledgeSyncJob \<Rightarrow> (nat \<Rightarrow> KnowledgeDocument) \<Rightarrow> unit kbsvc" where
  "ingestFrom t d1 j0 j1 d2 =
     andThen (attempt (kbTryWrite (\<lambda>now. saveDocument now d1 t))) (\<lambda>stored. case stored of
       Inl e \<Rightarrow> ingestionFailed t d1 j0 e
     | Inr _ \<Rightarrow>
         andThen (attempt (ingestChunks t d1 j1)) (\<lambda>answer. case answer of
           Inl e \<Rightarrow> ingestionFailed t d1 j1 e
         | Inr chunks \<Rightarrow>
             andThen (attempt (finishIngestion t (d2 (length chunks)) j1 (length chunks))) (\<lambda>done'. case done' of
               Inl e \<Rightarrow> ingestionFailed t (d2 (length chunks)) j1 e
             | Inr _ \<Rightarrow> ret ())))"

lemma trigger_from:
  assumes "findDocument i t (kw_db w) = Some d" "truthy (kd_fileUrl d) \<or> truthy (kd_sourceUri d)" "u = kw_uuid w (kw_uuidNext w)"
    "j0 = new_KnowledgeSyncJob (kw_now w) u t (kd_sourceId d) (Some (kd_id d)) JOB_INGEST" "d1 = startIngestion (kw_now w) u d"
  shows "triggerIngestion t i w =
    ingestFrom t d1 j0 (KnowledgeSyncJob_start (kw_now w) j0) (\<lambda>n. markEmbedded (kw_now w) (completeIngestion (kw_now w) n d1))
      (w\<lparr>kw_uuidNext := kw_uuidNext w + 1, kw_db := saveSyncJob (kw_now w) j0 t (kw_db w)\<rparr>)"
proof -
  have c: "(\<not> truthy (kd_fileUrl d) \<and> \<not> truthy (kd_sourceUri d)) = False" using assms(2) by blast
  show ?thesis unfolding triggerIngestion_def ingestFrom_def Let_def assms(3-5)
    by (simp add: c assms(1) kbRead_def kbUUID_def kbNow_def saveJob_run del: de_Morgan_conj)
qed

lemma ingestChunks_run:
  assumes "kd_id d = i" "answer = kw_ingestAnswer w (ingestRequest t d)" "w4 = w\<lparr>kw_db := saveSyncJob (kw_now w) j t (kw_db w)\<rparr>"
  shows "case answer of
      Inl m \<Rightarrow> ingestChunks t d j w = (Inl (Error (''AI Platform Ingestion failed: '' @ m)), w4)
    | Inr cs \<Rightarrow> \<exists>w5. ingestChunks t d j w = (Inr (patched cs []), w5) \<and> nb_documents (kw_db w5) = nb_documents (kw_db w) \<and>
        nb_versions (kw_db w5) = nb_versions (kw_db w) \<and> kw_uuid w5 = kw_uuid w \<and> kw_uuidNext w \<le> kw_uuidNext w5 \<and> kw_now w5 = kw_now w \<and>
        map kc_content (getChunksByDocumentId i t (kw_db w5)) =
          (if patched cs [] = [] then map kc_content (getChunksByDocumentId i t (kw_db w)) else map ic_content (patched cs []))"
proof (cases answer)
  case (Inl m)
  then show ?thesis using assms by (simp add: ingestChunks_def saveJob_run ingestDocument_def)
next
  case (Inr cs)
  have ing: "ingestDocument (ingestRequest t d) w4 = (Inr cs, w4)" using Inr assms by (simp add: ingestDocument_def)
  show ?thesis
  proof (cases "patched cs [] = []")
    case True
    have "ingestChunks t d j w = (Inr (patched cs []), w4)" using ing True assms(3) by (simp add: ingestChunks_def saveJob_run)
    then show ?thesis using Inr True assms(3) by (simp add: getChunksByDocumentId_def)
  next
    case False
    obtain chunks where c: "makeChunks t i 0 (patched cs []) w4 = (Inr chunks, w4\<lparr>kw_uuidNext := kw_uuidNext w4 + length (patched cs [])\<rparr>)"
        "map kc_content chunks = map ic_content (patched cs [])" "map kc_chunkIndex chunks = [0..<0 + length (patched cs [])]"
        "\<forall>c\<in>set chunks. kc_documentId c = i \<and> kc_tenantId c = t"
      using makeChunks_run by blast
    have len: "length chunks = length (patched cs [])" using c(2) by (metis length_map)
    define w5 where "w5 = w4\<lparr>kw_uuidNext := kw_uuidNext w4 + length (patched cs []), kw_db := saveChunkRows chunks t (kw_db w4)\<rparr>"
    have "chunks \<noteq> []" using False len by auto
    then have "map kc_content (getChunksByDocumentId i t (kw_db w5)) = map ic_content (patched cs [])"
      using chunks_read_back [of chunks i t "kw_db w4"] c len by (simp add: w5_def)
    moreover have "ingestChunks t d j w = (Inr (patched cs []), w5)"
      using ing False c(1) assms(1,3) by (simp add: ingestChunks_def saveJob_run KnowledgeChunkService_saveChunks_def kbWrite_def w5_def Let_def)
    moreover have "nb_documents (kw_db w5) = nb_documents (kw_db w)" "nb_versions (kw_db w5) = nb_versions (kw_db w)" "kw_uuid w5 = kw_uuid w"
        "kw_uuidNext w \<le> kw_uuidNext w5" "kw_now w5 = kw_now w"
      using assms(3) by (simp_all add: w5_def saveChunkRows_def split: list.splits)
    ultimately show ?thesis using Inr False by auto
  qed
qed

lemma finish_run:
  assumes "docIs t i r w" "kd_id d = i" "kd_tenantId d = t" "kd_slug d = kd_slug r" "kd_version d = kd_version r" "kj_tenantId j = t"
  obtains w' r' j' where "finishIngestion t d j n w = (Inr (), w')" "docIs t i r' w'" "kd_status r' = DST_ACTIVE" "kd_chunkCount r' = kd_chunkCount d"
    "kd_version r' = kd_version r + 1" "getSyncJobById (kj_id j) t (kw_db w') = Some j'" "kj_status j' = JOB_COMPLETED" "nb_chunks (kw_db w') = nb_chunks (kw_db w)"
    "list_ex (\<lambda>v. kv_documentId v = i \<and> kv_tenantId v = t \<and> kv_versionNumber v = kd_version r + 1) (nb_versions (kw_db w'))"
proof -
  have x: "r \<in> set (nb_documents (kw_db w))" and inv: "kbInv w" using assms(1) find_Some_set [of "sameDocument i t"] by (auto simp: docIs_def)
  have v: "nextVersion (kd_version r) = kd_version r + 1" using x inv by (fastforce simp: kbInv_def docsOk_def nextVersion_def)
  have "kd_version r \<le> kd_version d" using assms(5) by simp
  note st = save_stage [OF assms(1-4) this]
  define r1 where "r1 = documentColumns (kw_now w) d r"
  define d' where "d' = KnowledgeDocument_publish (kw_now (stored d w)) None (documentToDomain r1)"
  note pub = publish_run [OF st(2) [folded r1_def] d'_def]
  define r2 where "r2 = documentColumns (kw_now (stored d w)) d' r1"
  let ?cs = "Some ''Document ingested and parsed successfully.''"
  obtain js where js: "publishDocument t i ?cs None (stored d w) = (Inr (d'\<lparr>kd_domainEvents := []\<rparr>), (published t ?cs None d' (stored d' (stored d w)))\<lparr>kw_jobs := js\<rparr>)"
    using pub(1) by blast
  define w3 where "w3 = (published t ?cs None d' (stored d' (stored d w)))\<lparr>kw_jobs := js\<rparr>"
  have w3: "docIs t i r2 w3" by (rule docIs_same [OF pub(2) [where cs = ?cs, folded r2_def]]) (simp_all add: w3_def)
  let ?j = "KnowledgeSyncJob_complete (kw_now w3) [(''chunksCount'', JNum (int n))] j"
  define w' where "w' = w3\<lparr>kw_db := saveSyncJob (kw_now w3) ?j t (kw_db w3)\<rparr>"
  have "finishIngestion t d j n w = (Inr (), w')"
    using st(1) js assms(2) by (simp add: finishIngestion_def kbNow_def saveJob_run w'_def w3_def [symmetric])
  moreover have "docIs t i r2 w'" by (rule docIs_same [OF w3]) (simp_all add: w'_def)
  moreover obtain j' where "getSyncJobById (kj_id ?j) t (saveSyncJob (kw_now w3) ?j t (kw_db w3)) = Some j'" "kj_status j' = kj_status ?j"
    by (rule saved_job [of ?j t]) (simp_all add: assms(6))
  moreover have "kd_id d' = i" "kd_version d' = kd_version r + 1" using assms(2,5) v by (simp_all add: d'_def r1_def)
  moreover have "nb_versions (kw_db w') = nb_versions (kw_db w3)" "nb_chunks (kw_db w') = nb_chunks (kw_db w)"
    by (simp_all add: w'_def w3_def published_def Let_def)
  moreover have "\<exists>v\<in>set (nb_versions (kw_db w3)). kv_documentId v = kd_id d' \<and> kv_tenantId v = t \<and> kv_versionNumber v = kd_version d'"
    by (simp add: w3_def published_def Let_def version_row)
  moreover have "kd_status r2 = DST_ACTIVE" "kd_chunkCount r2 = kd_chunkCount d" "kd_version r2 = kd_version d'"
    by (simp_all add: r2_def d'_def r1_def documentToDomain_def)
  ultimately show thesis by (intro that [of w' r2 j']) (auto simp: w'_def list_ex_iff)
qed

lemma ingestion_run:
  assumes doc: "docIs t i r w" and url: "truthy (kd_fileUrl (documentToDomain r)) \<or> truthy (kd_sourceUri (documentToDomain r))"
  obtains w' r' j where "triggerIngestion t i w = (Inr (), w')" "docIs t i r' w'" "getSyncJobById (kw_uuid w (kw_uuidNext w)) t (kw_db w') = Some j"
    "case kw_ingestAnswer w (ingestRequest t (documentToDomain r)) of
       Inl m \<Rightarrow> kd_status r' = DST_FAILED \<and> kj_status j = JOB_FAILED \<and> kj_error j = Some (''AI Platform Ingestion failed: '' @ m)
     | Inr cs \<Rightarrow> kd_status r' = DST_ACTIVE \<and> kd_chunkCount r' = length (patched cs []) \<and> kd_version r' = kd_version r + 1 \<and> kj_status j = JOB_COMPLETED \<and>
         map kc_content (getChunksByDocumentId i t (kw_db w')) =
           (if patched cs [] = [] then map kc_content (getChunksByDocumentId i t (kw_db w)) else map ic_content (patched cs [])) \<and>
         list_ex (\<lambda>v. kv_documentId v = i \<and> kv_tenantId v = t \<and> kv_versionNumber v = kd_version r + 1) (nb_versions (kw_db w'))"
proof -
  have key: "kd_id r = i" "kd_tenantId r = t" using docIs_key [OF doc] by simp_all
  define d where "d = documentToDomain r"
  define u where "u = kw_uuid w (kw_uuidNext w)"
  define j0 where "j0 = new_KnowledgeSyncJob (kw_now w) u t (kd_sourceId d) (Some (kd_id d)) JOB_INGEST"
  define j1 where "j1 = KnowledgeSyncJob_start (kw_now w) j0"
  define d1 where "d1 = startIngestion (kw_now w) u d"
  define d2 where "d2 = (\<lambda>n. markEmbedded (kw_now w) (completeIngestion (kw_now w) n d1))"
  define w2 where "w2 = w\<lparr>kw_uuidNext := kw_uuidNext w + 1, kw_db := saveSyncJob (kw_now w) j0 t (kw_db w)\<rparr>"
  have found: "findDocument i t (kw_db w) = Some d" unfolding d_def by (rule docIs_found [OF doc])
  have start: "triggerIngestion t i w = ingestFrom t d1 j0 j1 d2 w2"
    unfolding j1_def d2_def w2_def by (rule trigger_from [OF found _ u_def j0_def d1_def]) (use url in \<open>simp add: d_def\<close>)
  have w2: "docIs t i r w2" by (rule docIs_same [OF doc]) (simp_all add: w2_def)
  have d1: "kd_id d1 = i" "kd_tenantId d1 = t" "kd_slug d1 = kd_slug r" "kd_version r \<le> kd_version d1" "kd_version d1 = kd_version r"
    using key by (simp_all add: d1_def d_def)
  note st = save_stage [OF w2 d1(1-4)]
  define r1 where "r1 = documentColumns (kw_now w2) d1 r"
  define w3 where "w3 = stored d1 w2"
  define w4 where "w4 = w3\<lparr>kw_db := saveSyncJob (kw_now w3) j1 t (kw_db w3)\<rparr>"
  have w3: "docIs t i r1 w3" using st(2) by (simp add: r1_def w3_def)
  have r1: "kd_slug r1 = kd_slug r" "kd_version r1 = kd_version r" using d1 by (simp_all add: r1_def)
  have answer: "kw_ingestAnswer w (ingestRequest t d) = kw_ingestAnswer w3 (ingestRequest t d1)" by (simp add: w3_def w2_def d1_def)
  note chunks = ingestChunks_run [OF d1(1) answer w4_def]
  have job: "kj_id j1 = u" "kj_tenantId j1 = t" by (simp_all add: j1_def j0_def)
  have step: "ingestFrom t d1 j0 j1 d2 w2 = andThen (attempt (ingestChunks t d1 j1)) (\<lambda>answer. case answer of
           Inl e \<Rightarrow> ingestionFailed t d1 j1 e
         | Inr chunks \<Rightarrow>
             andThen (attempt (finishIngestion t (d2 (length chunks)) j1 (length chunks))) (\<lambda>done'. case done' of
               Inl e \<Rightarrow> ingestionFailed t (d2 (length chunks)) j1 e
             | Inr x \<Rightarrow> ret x)) w3"
    using st(1) by (simp add: attempt_apply ingestFrom_def w3_def)
  show thesis
  proof (cases "kw_ingestAnswer w (ingestRequest t d)")
    case (Inl m)
    let ?e = "Error (''AI Platform Ingestion failed: '' @ m)"
    have run: "ingestChunks t d1 j1 w3 = (Inl ?e, w4)" using chunks Inl by simp
    have w4: "docIs t i r1 w4" by (rule docIs_same [OF w3]) (simp_all add: w4_def)
    obtain w' r' j' where f: "ingestionFailed t d1 j1 ?e w4 = (Inr (), w')" "docIs t i r' w'" "kd_status r' = DST_FAILED"
        "getSyncJobById (kj_id j1) t (kw_db w') = Some j'" "kj_status j' = JOB_FAILED" "kj_error j' = Some (message ?e)"
      by (rule failed_run [OF w4 d1(1,2), of j1 ?e]) (use d1 r1 job in simp_all)
    have "triggerIngestion t i w = (Inr (), w')" unfolding start step using run f(1) by (simp add: attempt_apply)
    then show ?thesis using f Inl job unfolding d_def u_def by (intro that [of w' r' j']) simp_all
  next
    case (Inr cs)
    let ?n = "length (patched cs [])"
    obtain w5 where w5: "ingestChunks t d1 j1 w3 = (Inr (patched cs []), w5)" "nb_documents (kw_db w5) = nb_documents (kw_db w3)"
        "nb_versions (kw_db w5) = nb_versions (kw_db w3)" "kw_uuid w5 = kw_uuid w3" "kw_uuidNext w3 \<le> kw_uuidNext w5"
        "map kc_content (getChunksByDocumentId i t (kw_db w5)) =
          (if patched cs [] = [] then map kc_content (getChunksByDocumentId i t (kw_db w3)) else map ic_content (patched cs []))"
      using chunks Inr by auto
    have at5: "docIs t i r1 w5" by (rule docIs_same [OF w3 w5(2-5)])
    obtain w' r' j' where f: "finishIngestion t (d2 ?n) j1 ?n w5 = (Inr (), w')" "docIs t i r' w'" "kd_status r' = DST_ACTIVE"
        "kd_chunkCount r' = kd_chunkCount (d2 ?n)" "kd_version r' = kd_version r1 + 1" "getSyncJobById (kj_id j1) t (kw_db w') = Some j'"
        "kj_status j' = JOB_COMPLETED" "nb_chunks (kw_db w') = nb_chunks (kw_db w5)"
        "list_ex (\<lambda>v. kv_documentId v = i \<and> kv_tenantId v = t \<and> kv_versionNumber v = kd_version r1 + 1) (nb_versions (kw_db w'))"
      by (rule finish_run [OF at5, of "d2 ?n" j1 ?n]) (use d1 r1 job in \<open>simp_all add: d2_def\<close>)
    have run: "triggerIngestion t i w = (Inr (), w')" unfolding start step using w5(1) f(1) by (simp add: attempt_apply)
    have "getChunksByDocumentId i t (kw_db w') = getChunksByDocumentId i t (kw_db w5)" using f(8) by (simp add: getChunksByDocumentId_def)
    moreover have "getChunksByDocumentId i t (kw_db w3) = getChunksByDocumentId i t (kw_db w)" by (simp add: getChunksByDocumentId_def w3_def w2_def)
    moreover have "kd_chunkCount (d2 ?n) = ?n" by (simp add: d2_def)
    ultimately show ?thesis using f w5(6) r1 Inr job run unfolding d_def u_def by (intro that [of w' r' j']) simp_all
  qed
qed


section \<open>A sample knowledge base\<close>

text \<open>A restricted draft, a public article and a source, with an AI platform that cuts every file in two.\<close>

definition kbDoc :: "uid \<Rightarrow> string \<Rightarrow> DocumentStatusEnum \<Rightarrow> KnowledgeDocument" where
  "kbDoc i slug st =
     \<lparr>kd_id = i, kd_tenantId = ''acme'', kd_sourceId = ''s'', kd_categoryId = None, kd_title = Some slug, kd_slug = slug, kd_documentType = DOC_WEBPAGE,
      kd_status = st, kd_language = ''en'', kd_version = 1, kd_syncStatus = SYNC_PENDING, kd_ingestionStatus = INGEST_PENDING,
      kd_embeddingStatus = EMBED_PENDING, kd_externalRef = None, kd_sourceUri = None, kd_contentHash = None, kd_chunkCount = 0,
      kd_fileUrl = Some ''https://acme.io/doc'', kd_storageProvider = None, kd_fileSize = None, kd_mimeType = None, kd_checksum = None, kd_tags = Some [],
      kd_publishedAt = None, kd_metadata = Some [], kd_createdAt = 0, kd_updatedAt = 0, kd_aggregateVersion = 1, kd_deletedAt = None, kd_domainEvents = []\<rparr>"

definition kbGrant :: KnowledgePermission where
  "kbGrant = \<lparr>kp_id = ''g'', kp_tenantId = ''acme'', kp_documentId = ''u'', kp_teamId = Some ''staff'', kp_role = None, kp_accessLevel = ''READ''\<rparr>"

definition kbSettings :: SettingsWorld where
  "kbSettings =
     \<lparr>sw_db = \<lparr>sb_settings = [], sb_flags = [], sb_limits = []\<rparr>, sw_now = 0, sw_uuid = (\<lambda>n. replicate n CHR ''s''), sw_uuidNext = 0, sw_env = Map.empty,
      sw_isRedisConnected = True, sw_redisUp = True, sw_redis = Map.empty, sw_throttleUp = True, sw_throttle = Map.empty, sw_quotas = (\<lambda>_. None),
      sw_admins = (\<lambda>_. None), sw_tenantContext = None, sw_queueUp = True, sw_jobs = [], sw_emails = [], sw_audit = []\<rparr>"

definition kbChunk :: "string \<Rightarrow> IngestChunk" where
  "kbChunk c = \<lparr>ic_content = c, ic_tokenCount = Some 3, ic_hash = None\<rparr>"

text \<open>The page \<^verbatim>\<open>/\<close> links to itself and to \<^verbatim>\<open>/b\<close>, whose page has no links.\<close>

definition kbSite :: KbNet where
  "kbSite =
     \<lparr>net_get = (\<lambda>u. if u = ''/'' then Inr (JStr (''<a href='' @ [CHR 0x22] @ ''/b'' @ [CHR 0x22] @ ''>B</a>'')) else Inr (JStr ''<title>B</title>end'')),
      net_url = (\<lambda>u base. Some (''acme'', u)), net_sha256 = (\<lambda>s. s)\<rparr>"

definition kbSample :: KbWorld where
  "kbSample =
     \<lparr>kw_db = \<lparr>nb_sources = [], nb_documents = [kbDoc ''u'' ''inside'' DST_DRAFT, kbDoc ''uu'' ''faq'' DST_ACTIVE], nb_chunks = [], nb_categories = [],
         nb_versions = [], nb_permissions = [kbGrant], nb_syncJobs = [], nb_searchLogs = []\<rparr>,
      kw_now = 5, kw_uuid = (\<lambda>n. replicate n CHR ''u''), kw_uuidNext = 3, kw_settings = kbSettings, kw_confirmUpload = (\<lambda>_ _. None), kw_net = kbSite,
      kw_ingestAnswer = (\<lambda>_. Inr (Some [kbChunk ''one'', kbChunk ''two''])), kw_rerankAnswer = (\<lambda>_ _ _ _. Inr []), kw_tenantContext = None,
      kw_queueUp = True, kw_jobs = []\<rparr>"

lemma inj_kbIds: "inj (\<lambda>n. replicate n CHR ''u'')"
  by (rule injI) (metis length_replicate)

lemma kbSample_inv: "kbInv kbSample"
proof -
  have "\<exists>n<3. ''u'' = replicate n CHR ''u''" by (rule exI [of _ 1]) simp
  moreover have "\<exists>n<3. ''uu'' = replicate n CHR ''u''" by (rule exI [of _ 2]) (simp add: numeral_2_eq_2)
  ultimately show ?thesis by (simp add: kbInv_def docsOk_def versionsOk_def kbSample_def kbDoc_def inj_kbIds)
qed

theorem removing_the_last_grant_opens_the_document_witness:
  "\<not> checkPermission ''u'' ''acme'' None None ''READ'' (kw_db kbSample) \<and>
   (\<exists>w'. deletePermission ''acme'' ''g'' kbSample = (Inr True, w') \<and> checkPermission ''u'' ''acme'' None None ''MANAGE'' (kw_db w'))"
proof -
  have g: "getPermissionsByDocumentId ''u'' ''acme'' (kw_db kbSample) = [kbGrant]" by (simp add: getPermissionsByDocumentId_def kbSample_def kbGrant_def)
  from removing_the_last_grant_opens_the_document [OF g] show ?thesis
    using g by (auto simp: visitor_access) (auto simp: kbGrant_def truthy_def)
qed

theorem visitors_see_only_public_articles_witness:
  "\<exists>w1. PublicKnowledge_listDocuments ''acme'' None None kbSample = (Inr [documentToDomain (kbDoc ''uu'' ''faq'' DST_ACTIVE)], w1) \<and>
   publicArticle ''acme'' (kw_db kbSample) (documentToDomain (kbDoc ''uu'' ''faq'' DST_ACTIVE))"
proof -
  let ?d = "documentToDomain (kbDoc ''uu'' ''faq'' DST_ACTIVE)"
  have "fst (PublicKnowledge_listDocuments ''acme'' None None kbSample) = Inr [?d]" by code_simp
  then obtain w1 where "PublicKnowledge_listDocuments ''acme'' None None kbSample = (Inr [?d], w1)"
    by (cases "PublicKnowledge_listDocuments ''acme'' None None kbSample") simp
  then show ?thesis using visitors_see_only_public_articles [of "''acme''" None None kbSample "[?d]" w1] by simp
qed

theorem hidden_articles_are_distinguishable_witness:
  "\<exists>a b. PublicKnowledge_getDocumentBySlug ''acme'' ''inside'' kbSample = (Inl a, kbSample) \<and>
     PublicKnowledge_getDocumentBySlug ''acme'' ''inside'' (kbSample\<lparr>kw_db := (kw_db kbSample)\<lparr>nb_documents := []\<rparr>\<rparr>)
       = (Inl b, kbSample\<lparr>kw_db := (kw_db kbSample)\<lparr>nb_documents := []\<rparr>\<rparr>) \<and> a \<noteq> b"
  by (rule hidden_articles_are_distinguishable [where d = "documentToDomain (kbDoc ''u'' ''inside'' DST_DRAFT)"])
    (simp_all add: findBySlug_def kbSample_def kbDoc_def documentToDomain_def)



end
