(* ===== verification/Knowledge_Reach.thy ===== *)
theory Knowledge_Reach
  imports Knowledge_Properties
begin

text \<open>
  The knowledge bases that the service methods and the queue processor can build from empty tables. Keys and slugs of documents stay
  unique, versions never run ahead of their document, and so a live document can always be published.
\<close>

section \<open>Methods that leave documents and versions alone\<close>

definition keepsDocs :: "KbWorld \<Rightarrow> KbWorld \<Rightarrow> bool" where
  "keepsDocs w w' \<longleftrightarrow> nb_documents (kw_db w') = nb_documents (kw_db w) \<and> nb_versions (kw_db w') = nb_versions (kw_db w) \<and> kw_uuid w' = kw_uuid w \<and>
     kw_uuidNext w \<le> kw_uuidNext w'"

interpretation docs: state_frame keepsDocs
  by unfold_locales (auto simp: keepsDocs_def)

named_theorems kept_docs \<open>methods that leave documents and versions alone\<close>
named_theorems kept_inv \<open>methods that keep the invariant\<close>

lemma framed_inv: "framed keepsDocs m \<Longrightarrow> framed keepsInv m"
  unfolding framed_def keepsDocs_def keepsInv_def using kbInv_same by blast

lemma kept_leaves [kept_docs]:
  "framed keepsDocs kbNow" "framed keepsDocs kbUUID" "framed keepsDocs (kbRead f)" "framed keepsDocs (kbAddJob j)" "framed keepsDocs (fileFields t dto)"
  "framed keepsDocs (onSettings m)" "framed keepsDocs (kbSaveJob t k)" "framed keepsDocs (kbPublishAll evs)"
proof -
  have "keepsDocs w (snd (kbPublishAll evs w))" for w
  proof -
    obtain js where "kbPublishAll evs w = (Inr (), w\<lparr>kw_jobs := js\<rparr>)" using kbPublishAll_run by blast
    then show ?thesis by (simp add: keepsDocs_def)
  qed
  then show "framed keepsDocs (kbPublishAll evs)" by (simp add: framed_def)
qed (auto simp: framed_def keepsDocs_def kbNow_def kbUUID_def kbRead_def kbAddJob_def fileFields_def onSettings_def saveJob_run split: prod.splits)

lemma kept_kbWrite [kept_docs]:
  "(\<And>now db. nb_documents (f now db) = nb_documents db \<and> nb_versions (f now db) = nb_versions db) \<Longrightarrow> framed keepsDocs (kbWrite f)"
  by (simp add: framed_def keepsDocs_def kbWrite_def)

lemma kept_kbTryWrite [kept_docs]:
  "(\<And>now db db'. f now db = Inr db' \<Longrightarrow> nb_documents db' = nb_documents db \<and> nb_versions db' = nb_versions db) \<Longrightarrow> framed keepsDocs (kbTryWrite f)"
  by (auto simp: framed_def keepsDocs_def kbTryWrite_def split: sum.splits)

lemma deleteOrThrow_state: "snd (deleteOrThrow what f w) = w\<lparr>kw_db := snd (f (kw_now w) (kw_db w))\<rparr>"
  by (simp add: deleteOrThrow_def kbDelete_def svc_simps split_beta)

lemma kept_deleteOrThrow [kept_docs]:
  "(\<And>now db. nb_documents (snd (f now db)) = nb_documents db \<and> nb_versions (snd (f now db)) = nb_versions db) \<Longrightarrow> framed keepsDocs (deleteOrThrow what f)"
  by (simp add: framed_def keepsDocs_def deleteOrThrow_state)

lemma other_tables [simp]:
  "nb_documents (saveSource now s t db) = nb_documents db" "nb_versions (saveSource now s t db) = nb_versions db"
  "nb_documents (saveCategory now g t db) = nb_documents db" "nb_versions (saveCategory now g t db) = nb_versions db"
  "nb_documents (snd (deleteSourceRow now i t db)) = nb_documents db" "nb_versions (snd (deleteSourceRow now i t db)) = nb_versions db"
  "nb_documents (snd (deletePermissionRow i t db)) = nb_documents db" "nb_versions (snd (deletePermissionRow i t db)) = nb_versions db"
  "nb_documents (addSearchLog l db) = nb_documents db" "nb_versions (addSearchLog l db) = nb_versions db"
  by (simp_all add: saveSource_def saveCategory_def deleteSourceRow_def deletePermissionRow_def addSearchLog_def Let_def)

lemma savePermission_tables: "savePermission p t db = Inr db' \<Longrightarrow> nb_documents db' = nb_documents db \<and> nb_versions db' = nb_versions db"
  by (auto simp: savePermission_def Let_def split: if_splits)

lemma kept_sources [kept_docs]:
  "framed keepsDocs (createSource t cs)" "framed keepsDocs (updateSource t i sp)" "framed keepsDocs (deleteSource t i)"
  unfolding createSource_def updateSource_def getSource_def deleteSource_def Let_def
  by (auto intro!: docs.frame_rules kept_docs split: option.splits)

lemma kept_categories [kept_docs]:
  "framed keepsDocs (createCategory t cg)" "framed keepsDocs (updateCategory t i gp)"
  unfolding createCategory_def updateCategory_def getCategory_def Let_def
  by (auto intro!: docs.frame_rules kept_docs split: option.splits)

lemma kept_permissions [kept_docs]: "framed keepsDocs (addPermission t d tm r l)" "framed keepsDocs (deletePermission t i)"
  unfolding addPermission_def deletePermission_def Let_def
  by (auto intro!: docs.frame_rules kept_docs dest: savePermission_tables)

lemma kept_search [kept_docs]: "framed keepsDocs (KnowledgeSearchService_search t dto u tm r)"
proof -
  have "framed keepsDocs (rerank t q ts k)" for q ts k by (simp add: framed_def keepsDocs_def rerank_def)
  then show ?thesis unfolding KnowledgeSearchService_search_def logSearch_def by (auto intro!: docs.frame_rules kept_docs)
qed

lemma kept_crawl_ends [kept_docs]:
  "framed keepsDocs (triggerWebsiteCrawl t i)" "framed keepsDocs (finishCrawl t s j n st)" "framed keepsDocs (failCrawl t s j e)"
  unfolding triggerWebsiteCrawl_def finishCrawl_def failCrawl_def
  by (auto intro!: docs.frame_rules kept_docs split: option.splits)

section \<open>Methods that write documents\<close>

definition sameIdentity :: "KnowledgeDocument \<Rightarrow> KnowledgeDocument \<Rightarrow> bool" where
  "sameIdentity r r' \<longleftrightarrow> kd_id r' = kd_id r \<and> kd_tenantId r' = kd_tenantId r \<and> kd_slug r' = kd_slug r \<and> kd_version r' = kd_version r"

lemma docsOk_version: "docsOk docs \<Longrightarrow> r \<in> set docs \<Longrightarrow> 1 \<le> kd_version r"
  unfolding docsOk_def by blast

lemma docsOk_same_keys:
  assumes ok: "docsOk docs" and f: "\<And>r. sameIdentity r (f r)"
  shows "docsOk (map f docs)"
proof -
  have "map docKey (map f docs) = map docKey docs" using f by (simp add: sameIdentity_def)
  then have "distinct (map docKey (map f docs))" using docsOk_keys [OF ok] by (simp only:)
  moreover have "1 \<le> kd_version x" if x: "x \<in> set (map f docs)" for x
  proof -
    obtain r where r: "r \<in> set docs" "x = f r" using x by auto
    then show ?thesis using docsOk_version [OF ok r(1)] f [of r] by (simp add: sameIdentity_def)
  qed
  moreover have "kd_id x = kd_id y"
    if xy: "x \<in> set (map f docs)" "y \<in> set (map f docs)" "kd_tenantId x = kd_tenantId y" "kd_slug x = kd_slug y" for x y
  proof -
    obtain a b where ab: "a \<in> set docs" "x = f a" "b \<in> set docs" "y = f b" using xy(1,2) by auto
    show ?thesis using docsOk_slug [OF ok ab(1,3)] xy(3,4) f [of a] f [of b] ab(2,4) by (simp add: sameIdentity_def)
  qed
  ultimately show ?thesis unfolding docsOk_def by blast
qed

lemma kbInv_mapped:
  assumes inv: "kbInv w" and f: "\<And>r. sameIdentity r (f r)" and db: "nb_documents db' = map f (nb_documents (kw_db w))" "nb_versions db' = nb_versions (kw_db w)"
  shows "kbInv (w\<lparr>kw_db := db'\<rparr>)"
proof -
  have "docsOk (nb_documents db')" unfolding db by (rule docsOk_same_keys [OF _ f]) (use inv in \<open>simp add: kbInv_def\<close>)
  moreover have "versionsOk db'"
    unfolding versionsOk_def
  proof
    fix v
    assume "v \<in> set (nb_versions db')"
    then obtain r where r: "r \<in> set (nb_documents (kw_db w))" "sameDocument (kv_documentId v) (kv_tenantId v) r" "kv_versionNumber v \<le> kd_version r"
      using inv db(2) unfolding kbInv_def versionsOk_def by auto
    then show "\<exists>r\<in>set (nb_documents db'). sameDocument (kv_documentId v) (kv_tenantId v) r \<and> kv_versionNumber v \<le> kd_version r"
      using f [of r] db(1) by (intro bexI [of _ "f r"]) (simp_all add: sameDocument_def sameIdentity_def)
  qed
  moreover have "\<exists>n<kw_uuidNext w. kd_id (f r) = kw_uuid w n" if "r \<in> set (nb_documents (kw_db w))" for r
    using inv that f [of r] by (simp add: kbInv_def sameIdentity_def)
  ultimately show ?thesis using inv db(1) by (simp add: kbInv_def)
qed

lemma kept_deletes [kept_inv]: "framed keepsInv (deleteDocument t i)" "framed keepsInv (deleteCategory t i)"
proof -
  have "kbInv (snd (deleteDocument t i w))" if inv: "kbInv w" for w
  proof -
    have "kbInv (w\<lparr>kw_db := (kw_db w)\<lparr>nb_documents := map (\<lambda>r. if sameDocument i t r then r\<lparr>kd_deletedAt := Some (kw_now w), kd_status := DST_ARCHIVED\<rparr> else r)
        (nb_documents (kw_db w))\<rparr>\<rparr>)"
      by (rule kbInv_mapped [OF inv, where f = "\<lambda>r. if sameDocument i t r then r\<lparr>kd_deletedAt := Some (kw_now w), kd_status := DST_ARCHIVED\<rparr> else r"])
        (simp_all add: sameIdentity_def)
    then show ?thesis using inv by (simp add: deleteDocument_def deleteOrThrow_state deleteDocumentRow_def)
  qed
  moreover have "kbInv (snd (deleteCategory t i w))" if inv: "kbInv w" for w
  proof -
    have "kbInv (w\<lparr>kw_db := snd (deleteCategoryRow i t (kw_db w))\<rparr>)"
    proof (cases "list_ex (sameCategory i t) (nb_categories (kw_db w))")
      case True
      then show ?thesis
        by (intro kbInv_mapped [OF inv, where f = "\<lambda>d. if kd_categoryId d = Some i then d\<lparr>kd_categoryId := None\<rparr> else d"])
          (simp_all add: sameIdentity_def deleteCategoryRow_def)
    qed (use inv in \<open>simp add: deleteCategoryRow_def\<close>)
    then show ?thesis using inv by (simp add: deleteCategory_def deleteOrThrow_state)
  qed
  ultimately show "framed keepsInv (deleteDocument t i)" "framed keepsInv (deleteCategory t i)" by (simp_all add: framed_def keepsInv_def)
qed

lemma kbInv_inserted:
  assumes inv: "kbInv w" and save: "saveDocument now d (kd_tenantId d) (kw_db w) = Inr db'" and i: "kd_id d = kw_uuid w (kw_uuidNext w)" and v: "1 \<le> kd_version d"
  shows "kbInv (w\<lparr>kw_uuidNext := kw_uuidNext w + 1, kw_db := db'\<rparr>)"
proof -
  let ?docs = "nb_documents (kw_db w)" and ?new = "documentColumns now d (d\<lparr>kd_deletedAt := None\<rparr>)"
  have ids: "\<exists>n<kw_uuidNext w. kd_id r = kw_uuid w n" if "r \<in> set ?docs" for r using inv that by (simp add: kbInv_def)
  have fresh: "kd_id r \<noteq> kd_id d" if "r \<in> set ?docs" for r
    using ids [OF that] inv i by (auto simp: kbInv_def inj_eq)
  then have none: "\<not> list_ex (sameDocument (kd_id d) (kd_tenantId d)) ?docs" by (auto simp: list_ex_iff sameDocument_def)
  have slug: "\<not> (kd_tenantId r = kd_tenantId d \<and> kd_slug r = kd_slug d)" if "r \<in> set ?docs" for r
    using save that fresh by (auto simp: saveDocument_def Let_def list_ex_iff sameDocument_def split: if_splits)
  have db': "db' = (kw_db w)\<lparr>nb_documents := ?docs @ [?new]\<rparr>" using save none by (auto simp: saveDocument_def Let_def putRow_def split: if_splits)
  have ok: "docsOk ?docs" using inv by (simp add: kbInv_def)
  have "docKey ?new \<notin> docKey ` set ?docs"
  proof
    assume "docKey ?new \<in> docKey ` set ?docs"
    then obtain r where "r \<in> set ?docs" "kd_id r = kd_id d" by auto
    then show False using fresh by blast
  qed
  then have "distinct (map docKey (?docs @ [?new]))" using docsOk_keys [OF ok] by simp
  moreover have "kd_id a = kd_id b" if "a \<in> set (?docs @ [?new])" "b \<in> set (?docs @ [?new])" "kd_tenantId a = kd_tenantId b" "kd_slug a = kd_slug b" for a b
    using that slug [of a] slug [of b] docsOk_slug [OF ok, of a b] by auto
  moreover have "\<forall>r\<in>set (?docs @ [?new]). 1 \<le> kd_version r" using docsOk_version [OF ok] v by auto
  ultimately have "docsOk (?docs @ [?new])" unfolding docsOk_def by blast
  moreover have "versionsOk db'" using inv unfolding kbInv_def versionsOk_def db' by (auto simp: Bex_def)
  moreover have "\<exists>n<kw_uuidNext w + 1. kd_id r = kw_uuid w n" if "r \<in> set (?docs @ [?new])" for r
    using that ids i by (auto intro: less_SucI)
  ultimately show ?thesis using inv by (simp add: kbInv_def db')
qed

lemma kept_createDocument [kept_inv]: "framed keepsInv (createDocument t dto)"
proof -
  have "kbInv (snd (andThen kbUUID (\<lambda>i. andThen (liftR (DocumentLanguage_create (cdd_language dto))) (\<lambda>language.
      andThen kbNow (\<lambda>now. persistDocument t (KnowledgeDocument_create now i t dto language f)))) w))" if inv: "kbInv w" for f w
  proof -
    have drawn: "kbInv (w\<lparr>kw_uuidNext := kw_uuidNext w + 1\<rparr>)" by (rule kbInv_same [OF inv]) simp_all
    show ?thesis
    proof (cases "DocumentLanguage_create (cdd_language dto)")
      case (Inl e)
      then show ?thesis using drawn by (simp add: kbUUID_def)
    next
      case (Inr language)
      let ?d = "KnowledgeDocument_create (kw_now w) (kw_uuid w (kw_uuidNext w)) t dto language f"
      have d: "kd_tenantId ?d = t" "kd_id ?d = kw_uuid w (kw_uuidNext w)" "1 \<le> kd_version ?d" by (simp_all add: KnowledgeDocument_create_def)
      show ?thesis
      proof (cases "saveDocument (kw_now w) ?d t (kw_db w)")
        case (Inl e)
        then show ?thesis using drawn Inr by (simp add: kbUUID_def kbNow_def persistDocument_def kbTryWrite_def)
      next
        case save: (Inr db')
        let ?w = "w\<lparr>kw_uuidNext := kw_uuidNext w + 1, kw_db := db'\<rparr>"
        have ok: "kbInv ?w" using kbInv_inserted [OF inv, of "kw_now w" ?d db'] save d by simp
        obtain js where js: "kbPublishAll (kd_domainEvents ?d) ?w = (Inr (), ?w\<lparr>kw_jobs := js\<rparr>)" using kbPublishAll_run by blast
        have "kbInv (?w\<lparr>kw_jobs := js\<rparr>)" by (rule kbInv_same [OF ok]) simp_all
        then show ?thesis using save Inr js by (simp add: kbUUID_def kbNow_def persistDocument_def kbTryWrite_def)
      qed
    qed
  qed
  then have tail: "framed keepsInv (andThen kbUUID (\<lambda>i. andThen (liftR (DocumentLanguage_create (cdd_language dto))) (\<lambda>language.
      andThen kbNow (\<lambda>now. persistDocument t (KnowledgeDocument_create now i t dto language f)))))" for f by (simp add: framed_def keepsInv_def)
  show ?thesis unfolding createDocument_def
    by (rule inv.frame_andThen [OF framed_inv [OF kept_leaves(3)]], rule inv.frame_andThen [OF framed_inv [OF kept_leaves(6)]],
        rule inv.frame_andThen [OF framed_inv [OF kept_leaves(5)]], rule tail)
qed

text \<open>A method that reads a live document first.\<close>

lemma kept_by_run:
  assumes "\<And>w r. docIs t i r w \<Longrightarrow> kbInv (snd (m w))" "\<And>w. findDocument i t (kw_db w) = None \<Longrightarrow> snd (m w) = w"
  shows "framed keepsInv m"
  unfolding framed_def keepsInv_def
proof (intro allI impI)
  fix w
  assume inv: "kbInv w"
  show "kbInv (snd (m w))"
  proof (cases "findDocument i t (kw_db w)")
    case None
    then show ?thesis using inv assms(2) by simp
  next
    case (Some d)
    then obtain r where "docIs t i r w" by (rule docIsI [OF inv])
    then show ?thesis by (rule assms(1))
  qed
qed

lemma not_found: "findDocument i t (kw_db w) = None \<Longrightarrow> snd (andThen (getDocument t i) k w) = w"
  by (simp add: getDocument_def kbRead_def)

lemma persistDocument_inv:
  assumes "docIs t i r w" "kd_id d = i" "kd_tenantId d = t" "kd_slug d = kd_slug r" "kd_version r \<le> kd_version d"
  shows "kbInv (snd (persistDocument t d w))"
proof -
  obtain js where "persistDocument t d w = (Inr (d\<lparr>kd_domainEvents := []\<rparr>), (stored d w)\<lparr>kw_jobs := js\<rparr>)" using persist_run [OF assms] by blast
  moreover have "kbInv ((stored d w)\<lparr>kw_jobs := js\<rparr>)"
    by (rule kbInv_same [of "stored d w"]) (use save_stage(2) [OF assms] in \<open>simp_all add: docIs_def\<close>)
  ultimately show ?thesis by simp
qed

lemma kept_updates [kept_inv]: "framed keepsInv (updateDocument t i p)" "framed keepsInv (archiveDocument t i u)"
proof -
  show "framed keepsInv (updateDocument t i p)"
  proof (rule kept_by_run)
    fix w r
    assume r: "docIs t i r w"
    show "kbInv (snd (updateDocument t i p w))"
      using docIs_found [OF r] docIs_key [OF r] persistDocument_inv [OF r, of "KnowledgeDocument_update (kw_now w) p (documentToDomain r)"]
      by (simp add: updateDocument_def getDocument_def kbRead_def kbNow_def KnowledgeDocument_update_def kdEvent_def kdTouch_def)
  qed (simp add: updateDocument_def not_found)
  show "framed keepsInv (archiveDocument t i u)"
  proof (rule kept_by_run)
    fix w r
    assume r: "docIs t i r w"
    show "kbInv (snd (archiveDocument t i u w))"
      using docIs_found [OF r] docIs_key [OF r] persistDocument_inv [OF r, of "KnowledgeDocument_archive (kw_now w) u (documentToDomain r)"]
      by (simp add: archiveDocument_def getDocument_def kbRead_def kbNow_def KnowledgeDocument_archive_def kdEvent_def kdTouch_def)
  qed (simp add: archiveDocument_def not_found)
qed

lemma publish_inv: "docIs t i r w \<Longrightarrow> kbInv (snd (publishDocument t i cs u w))"
proof -
  assume r: "docIs t i r w"
  define d where "d = KnowledgeDocument_publish (kw_now w) u (documentToDomain r)"
  note pub = publish_run [OF r d_def]
  obtain js where "publishDocument t i cs u w = (Inr (d\<lparr>kd_domainEvents := []\<rparr>), (published t cs u d (stored d w))\<lparr>kw_jobs := js\<rparr>)" using pub(1) by blast
  moreover have "kbInv ((published t cs u d (stored d w))\<lparr>kw_jobs := js\<rparr>)"
    by (rule kbInv_same [of "published t cs u d (stored d w)"]) (use pub(2) in \<open>simp_all add: docIs_def\<close>)
  ultimately show ?thesis by simp
qed

lemma kept_publishDocument [kept_inv]: "framed keepsInv (publishDocument t i cs u)"
  by (rule kept_by_run [OF publish_inv]) (assumption, simp add: publishDocument_def not_found)

lemma kept_triggerIngestion [kept_inv]: "framed keepsInv (triggerIngestion t i)"
proof (rule kept_by_run)
  fix w r
  assume r: "docIs t i r w"
  show "kbInv (snd (triggerIngestion t i w))"
  proof (cases "truthy (kd_fileUrl (documentToDomain r)) \<or> truthy (kd_sourceUri (documentToDomain r))")
    case True
    then show ?thesis by (rule ingestion_run [OF r]) (simp add: docIs_def)
  next
    case False
    then show ?thesis using docIs_found [OF r] r by (simp add: triggerIngestion_def kbRead_def docIs_def)
  qed
qed (simp add: triggerIngestion_def kbRead_def)

lemma kept_addWebDocument [kept_inv]: "framed keepsInv (addWebDocument t dto)"
  unfolding addWebDocument_def by (intro inv.frame_rules kept_inv)

lemma kept_addPages [kept_inv]: "framed keepsInv (addPages t s ps n)"
  by (induction ps arbitrary: n) (auto intro!: inv.frame_rules kept_inv)

lemma kept_addUrls [kept_inv]: "framed keepsInv (addUrls t s n us acc)"
  by (induction us arbitrary: acc) (auto simp: Let_def split_beta intro!: inv.frame_rules kept_inv framed_inv [OF kept_leaves(1)] framed_inv [OF kept_leaves(7)])

lemma kept_crawl [kept_inv]: "framed keepsInv (processCrawlJob t s j)"
  unfolding processCrawlJob_def Let_def
  by (auto split: option.splits sum.splits prod.splits
      intro!: inv.frame_rules kept_inv framed_inv [OF kept_crawl_ends(2)] framed_inv [OF kept_crawl_ends(3)] framed_inv [OF kept_leaves(1)]
        framed_inv [OF kept_leaves(3)] framed_inv [OF kept_leaves(7)])

lemma kept_job [kept_inv]: "framed keepsInv (handleKnowledgeJob q)"
  unfolding handleKnowledgeJob_def Let_def
  by (auto split: kb_queue_job.splits intro!: inv.frame_rules kept_inv framed_inv [OF kept_leaves(1)])

section \<open>Reachable knowledge bases\<close>

datatype kb_op =
    OpCreateDocument uid CreateDocumentDto
  | OpUpdateDocument uid uid DocumentPatch
  | OpPublishDocument uid uid "string option" "uid option"
  | OpArchiveDocument uid uid "uid option"
  | OpDeleteDocument uid uid
  | OpIngest uid uid
  | OpCrawl uid uid
  | OpJob kb_queue_job "uid option"
  | OpCreateSource uid CreateSourceDto
  | OpUpdateSource uid uid SourcePatch
  | OpDeleteSource uid uid
  | OpCreateCategory uid CreateCategoryDto
  | OpUpdateCategory uid uid CategoryPatch
  | OpDeleteCategory uid uid
  | OpAddPermission uid uid "uid option" "string option" string
  | OpDeletePermission uid uid
  | OpSearch uid SearchQueryDto "uid option" "uid option" "string option"

fun kbPerform :: "kb_op \<Rightarrow> KbWorld \<Rightarrow> KbWorld" where
  "kbPerform (OpCreateDocument t dto) w = snd (createDocument t dto w)"
| "kbPerform (OpUpdateDocument t i p) w = snd (updateDocument t i p w)"
| "kbPerform (OpPublishDocument t i cs u) w = snd (publishDocument t i cs u w)"
| "kbPerform (OpArchiveDocument t i u) w = snd (archiveDocument t i u w)"
| "kbPerform (OpDeleteDocument t i) w = snd (deleteDocument t i w)"
| "kbPerform (OpIngest t i) w = snd (triggerIngestion t i w)"
| "kbPerform (OpCrawl t i) w = snd (triggerWebsiteCrawl t i w)"
| "kbPerform (OpJob j c) w = snd (handleKnowledgeJob (j, c) w)"
| "kbPerform (OpCreateSource t dto) w = snd (createSource t dto w)"
| "kbPerform (OpUpdateSource t i p) w = snd (updateSource t i p w)"
| "kbPerform (OpDeleteSource t i) w = snd (deleteSource t i w)"
| "kbPerform (OpCreateCategory t dto) w = snd (createCategory t dto w)"
| "kbPerform (OpUpdateCategory t i p) w = snd (updateCategory t i p w)"
| "kbPerform (OpDeleteCategory t i) w = snd (deleteCategory t i w)"
| "kbPerform (OpAddPermission t i tm r l) w = snd (addPermission t i tm r l w)"
| "kbPerform (OpDeletePermission t i) w = snd (deletePermission t i w)"
| "kbPerform (OpSearch t dto u tm r) w = snd (KnowledgeSearchService_search t dto u tm r w)"

text \<open>Between two operations everything but the tables and the supply of identifiers may change: time, settings, network, AI platform, queue.\<close>

inductive kb_step :: "KbWorld \<Rightarrow> KbWorld \<Rightarrow> bool" where
  operation: "kb_step w (kbPerform oper w)"
| outside: "kw_db w' = kw_db w \<Longrightarrow> kw_uuid w' = kw_uuid w \<Longrightarrow> kw_uuidNext w \<le> kw_uuidNext w' \<Longrightarrow> kb_step w w'"

inductive kb_reach :: "KbWorld \<Rightarrow> bool" where
  start: "inj (kw_uuid w) \<Longrightarrow> nb_documents (kw_db w) = [] \<Longrightarrow> nb_versions (kw_db w) = [] \<Longrightarrow> kb_reach w"
| move: "kb_reach w \<Longrightarrow> kb_step w w' \<Longrightarrow> kb_reach w'"

inductive_cases kb_stepE: "kb_step w w'"

lemma kb_framed: "framed keepsInv m \<Longrightarrow> kbInv w \<Longrightarrow> kbInv (snd (m w))"
  by (simp add: framed_def keepsInv_def)

lemma perform_inv: "kbInv w \<Longrightarrow> kbInv (kbPerform oper w)"
  by (cases oper)
    (auto intro: kb_framed kept_inv kb_framed [OF framed_inv [OF kept_crawl_ends(1)]] kb_framed [OF framed_inv [OF kept_sources(1)]]
      kb_framed [OF framed_inv [OF kept_sources(2)]] kb_framed [OF framed_inv [OF kept_sources(3)]]
      kb_framed [OF framed_inv [OF kept_categories(1)]] kb_framed [OF framed_inv [OF kept_categories(2)]]
      kb_framed [OF framed_inv [OF kept_permissions(1)]] kb_framed [OF framed_inv [OF kept_permissions(2)]]
      kb_framed [OF framed_inv [OF kept_search]])

lemma kb_step_inv: "kb_step w w' \<Longrightarrow> kbInv w \<Longrightarrow> kbInv w'"
proof (erule kb_stepE)
  assume "kbInv w" "kw_db w' = kw_db w" "kw_uuid w' = kw_uuid w" "kw_uuidNext w \<le> kw_uuidNext w'"
  then show "kbInv w'" by (intro kbInv_same [of w w']) simp_all
qed (simp add: perform_inv)

lemma kb_reach_inv: "kb_reach w \<Longrightarrow> kbInv w"
proof (induction rule: kb_reach.induct)
  case (start w)
  then show ?case by (simp add: kbInv_def docsOk_def versionsOk_def)
qed (rule kb_step_inv)

section \<open>Publishing\<close>

lemma least_first:
  fixes k :: "'a \<Rightarrow> int"
  assumes "x \<in> set rows" "\<And>y. y \<in> set rows \<Longrightarrow> y \<noteq> x \<Longrightarrow> k x < k y"
  shows "\<exists>ys. sort_key k rows = x # ys"
proof (cases "sort_key k rows")
  case Nil
  then have "set rows = {}" by (metis set_sort list.set(1))
  then show ?thesis using assms(1) by simp
next
  case (Cons y ys)
  have all: "set (y # ys) = set rows" unfolding Cons [symmetric] by simp
  have "sorted (map k (y # ys))" unfolding Cons [symmetric] by simp
  then have "\<forall>z\<in>set (y # ys). k y \<le> k z" by simp
  then have "k y \<le> k x" using all assms(1) by blast
  moreover have "y \<in> set rows" using all by auto
  ultimately have "y = x" using assms(2) [of y] by fastforce
  then show ?thesis using Cons by simp
qed

lemma getVersions_sort: "getVersionsByDocumentId i t db = sort_key (\<lambda>v. - kv_versionNumber v) (filter (\<lambda>v. kv_documentId v = i \<and> kv_tenantId v = t) (nb_versions db))"
  by (simp add: getVersionsByDocumentId_def sqlOrder_def)

text \<open>C36: Whatever was done before, a document that is found can be published: its version goes up by one, and the history gets exactly one
  entry more, which comes first and is a snapshot of the document as published.\<close>

theorem found_documents_can_be_published:
  assumes "kb_reach w" "findDocument i t (kw_db w) = Some d"
  shows "\<exists>d' w' v vs. publishDocument t i cs u w = (Inr d', w') \<and> kd_status d' = DST_ACTIVE \<and> kd_version d' = kd_version d + 1 \<and>
    map_option kd_version (findDocument i t (kw_db w')) = Some (kd_version d + 1) \<and>
    getVersionsByDocumentId i t (kw_db w') = v # vs \<and> kv_versionNumber v = kd_version d + 1 \<and> kv_snapshot v = d' \<and>
    mset vs = mset (getVersionsByDocumentId i t (kw_db w))"
proof -
  obtain r where r: "docIs t i r w" "d = documentToDomain r" by (rule docIsI [OF kb_reach_inv [OF assms(1)] assms(2)])
  have x: "r \<in> set (nb_documents (kw_db w))" and inv: "kbInv w" using r(1) find_Some_set [of "sameDocument i t"] by (auto simp: docIs_def)
  have "docsOk (nb_documents (kw_db w))" using inv by (simp add: kbInv_def)
  from docsOk_version [OF this x] have n: "nextVersion (kd_version r) = kd_version r + 1" by (simp add: nextVersion_def)
  define d' where "d' = KnowledgeDocument_publish (kw_now w) u (documentToDomain r)"
  note pub = publish_run [OF r(1) d'_def]
  define w1 where "w1 = published t cs u d' (stored d' w)"
  obtain js where js: "publishDocument t i cs u w = (Inr (d'\<lparr>kd_domainEvents := []\<rparr>), w1\<lparr>kw_jobs := js\<rparr>)" using pub(1) unfolding w1_def by blast
  have d': "kd_version d' = kd_version r + 1" "kd_status d' = DST_ACTIVE" "kd_id d' = i" using n docIs_key [OF r(1)] by (simp_all add: d'_def)
  have "docIs t i (documentColumns (kw_now w) d' r) (w1\<lparr>kw_jobs := js\<rparr>)" by (rule docIs_same [OF pub(2) [of cs]]) (simp_all add: w1_def)
  then have found: "map_option kd_version (findDocument i t (kw_db (w1\<lparr>kw_jobs := js\<rparr>))) = Some (kd_version r + 1)"
    using docIs_found d'(1) by fastforce
  obtain v where v: "nb_versions (kw_db w1) = nb_versions (kw_db w) @ [v]" "kv_documentId v = i" "kv_tenantId v = t" "kv_versionNumber v = kd_version r + 1"
      "kv_snapshot v = d'\<lparr>kd_domainEvents := []\<rparr>"
    using d'(1,3) by (simp add: w1_def published_def Let_def version_row) (simp add: newVersion_def)
  let ?mine = "\<lambda>v. kv_documentId v = i \<and> kv_tenantId v = t"
  let ?old = "filter ?mine (nb_versions (kw_db w))"
  have mine: "filter ?mine (nb_versions (kw_db w1)) = ?old @ [v]" using v by simp
  have "\<exists>vs. sort_key (\<lambda>v. - kv_versionNumber v) (?old @ [v]) = v # vs"
    by (rule least_first) (use history_below [OF r(1)] v(4) in fastforce)+
  then obtain vs where vs: "sort_key (\<lambda>v. - kv_versionNumber v) (?old @ [v]) = v # vs" by blast
  have "mset (v # vs) = mset (?old @ [v])" unfolding vs [symmetric] by simp
  then have "mset vs = mset (getVersionsByDocumentId i t (kw_db w))" by (simp add: getVersions_sort)
  moreover have "getVersionsByDocumentId i t (kw_db (w1\<lparr>kw_jobs := js\<rparr>)) = v # vs" using vs mine by (simp add: getVersions_sort)
  ultimately show ?thesis using js found d' v(4,5) r(2)
    by (intro exI [of _ "d'\<lparr>kd_domainEvents := []\<rparr>"] exI [of _ "w1\<lparr>kw_jobs := js\<rparr>"] exI [of _ v] exI [of _ vs]) simp
qed

definition kbDto :: CreateDocumentDto where
  "kbDto = \<lparr>cdd_sourceId = ''s'', cdd_categoryId = None, cdd_title = ''FAQ'', cdd_slug = ''faq'', cdd_documentType = DOC_WEBPAGE, cdd_language = ''en'',
     cdd_uploadReference = None, cdd_fileUrl = Some ''/b'', cdd_storageProvider = None, cdd_fileSize = None, cdd_mimeType = None, cdd_checksum = None,
     cdd_tags = None, cdd_metadata = None\<rparr>"

definition kbEmpty :: KbWorld where
  "kbEmpty = kbSample\<lparr>kw_db := (kw_db kbSample)\<lparr>nb_documents := []\<rparr>\<rparr>"

theorem found_documents_can_be_published_witness:
  "\<exists>d' w'. publishDocument ''acme'' ''uuu'' None None (kbPerform (OpCreateDocument ''acme'' kbDto) kbEmpty) = (Inr d', w') \<and> kd_version d' = 2"
proof -
  let ?w = "kbPerform (OpCreateDocument ''acme'' kbDto) kbEmpty"
  have "kb_reach kbEmpty" by (rule kb_reach.start) (simp_all add: kbEmpty_def kbSample_def inj_kbIds)
  then have reach: "kb_reach ?w" by (rule kb_reach.move) (rule kb_step.operation)
  have "map_option kd_version (findDocument ''uuu'' ''acme'' (kw_db ?w)) = Some 1" by code_simp
  then obtain d where d: "findDocument ''uuu'' ''acme'' (kw_db ?w) = Some d" "kd_version d = 1" by auto
  show ?thesis using found_documents_can_be_published [OF reach d(1), of None None] d(2) by auto
qed

end
