(* ===== verification/Outbox.thy ===== *)
theory Outbox
  imports Js_Values "HOL-Library.Multiset"
begin

text \<open>
  The transactional outbox (\<^verbatim>\<open>src/modules/hardening/outbox/outbox.service.ts\<close>): events wait in a table until a scheduled run has put them
  on a queue. The query of a run asks for a hundred rows without an order, so the order the database answers in is a parameter that only
  rearranges rows. A call of the queue may fail, each one by itself. The theory shows that the runs drain the table and that no event is
  queued twice.
\<close>

section \<open>The service\<close>

datatype outbox_status = OB_PENDING | OB_PROCESSED | OB_FAILED

record OutboxEvent =
  ob_id :: uid
  ob_tenantId :: uid
  ob_eventName :: string
  ob_payload :: json
  ob_status :: outbox_status
  ob_attempts :: nat
  ob_lastError :: "string option"
  ob_processedAt :: "millis option"

record OutboxJob =
  oj_queue :: string
  oj_name :: string
  oj_tenantId :: uid
  oj_payload :: json
  oj_outboxEventId :: uid

record OutboxWorld =
  ow_events :: "OutboxEvent list"
  ow_now :: millis
  ow_uuid :: "nat \<Rightarrow> uid"
  ow_uuidNext :: nat
  ow_order :: "OutboxEvent list \<Rightarrow> OutboxEvent list"
  ow_queueError :: "nat \<Rightarrow> string option"
  ow_queueCalls :: nat
  ow_jobs :: "OutboxJob list"

type_synonym 'a obsvc = "(OutboxWorld, 'a) svc"

definition storeEvent :: "uid \<Rightarrow> string \<Rightarrow> json \<Rightarrow> uid obsvc" where
  "storeEvent tenantId eventName payload =
     (\<lambda>w. let eventId = ow_uuid w (ow_uuidNext w)
          in (Inr eventId, w\<lparr>ow_uuidNext := ow_uuidNext w + 1, ow_events := ow_events w @
                [\<lparr>ob_id = eventId, ob_tenantId = tenantId, ob_eventName = eventName, ob_payload = payload, ob_status = OB_PENDING, ob_attempts = 0,
                  ob_lastError = None, ob_processedAt = None\<rparr>]\<rparr>))"

text \<open>\<^verbatim>\<open>update ... set ... where id = ...\<close>\<close>

definition setOutbox :: "uid \<Rightarrow> (OutboxEvent \<Rightarrow> OutboxEvent) \<Rightarrow> OutboxEvent list \<Rightarrow> OutboxEvent list" where
  "setOutbox i f rows = map (\<lambda>r. if ob_id r = i then f r else r) rows"

definition updateOutbox :: "uid \<Rightarrow> (OutboxEvent \<Rightarrow> OutboxEvent) \<Rightarrow> unit obsvc" where
  "updateOutbox i f = modify (\<lambda>w. w\<lparr>ow_events := setOutbox i f (ow_events w)\<rparr>)"

definition queueNameOf :: "string \<Rightarrow> string" where
  "queueNameOf eventName =
     (if startsWith ''widget.'' eventName then ''widget-queue''
      else if startsWith ''conversation.'' eventName then ''conversation-queue''
      else if startsWith ''message.'' eventName then ''message-queue''
      else ''analytics-queue'')"

definition outboxJob :: "OutboxEvent \<Rightarrow> OutboxJob" where
  "outboxJob e = \<lparr>oj_queue = queueNameOf (ob_eventName e), oj_name = ob_eventName e, oj_tenantId = ob_tenantId e, oj_payload = ob_payload e,
     oj_outboxEventId = ob_id e\<rparr>"

definition addOutboxJob :: "OutboxJob \<Rightarrow> unit obsvc" where
  "addOutboxJob j = (\<lambda>w. case ow_queueError w (ow_queueCalls w) of
       None \<Rightarrow> (Inr (), w\<lparr>ow_queueCalls := ow_queueCalls w + 1, ow_jobs := ow_jobs w @ [j]\<rparr>)
     | Some m \<Rightarrow> (Inl (Error m), w\<lparr>ow_queueCalls := ow_queueCalls w + 1\<rparr>))"

definition publishOutboxEvent :: "OutboxEvent \<Rightarrow> bool obsvc" where
  "publishOutboxEvent e =
     tryCatch
       (andThen (updateOutbox (ob_id e) (\<lambda>r. r\<lparr>ob_attempts := ob_attempts e + 1\<rparr>)) (\<lambda>_.
        andThen (addOutboxJob (outboxJob e)) (\<lambda>_.
        andThen (asks ow_now) (\<lambda>now.
        andThen (updateOutbox (ob_id e) (\<lambda>r. r\<lparr>ob_status := OB_PROCESSED, ob_processedAt := Some now\<rparr>)) (\<lambda>_. ret True)))))
       (\<lambda>err. andThen (updateOutbox (ob_id e) (\<lambda>r. r\<lparr>ob_status := OB_FAILED, ob_lastError := Some (message err)\<rparr>)) (\<lambda>_. ret False))"

fun publishOutboxEvents :: "OutboxEvent list \<Rightarrow> nat \<Rightarrow> nat obsvc" where
  "publishOutboxEvents [] processedCount = ret processedCount"
| "publishOutboxEvents (e # es) processedCount =
     andThen (publishOutboxEvent e) (\<lambda>ok. publishOutboxEvents es (if ok then processedCount + 1 else processedCount))"

definition retriable :: "OutboxEvent \<Rightarrow> bool" where
  "retriable e = ((ob_status e = OB_PENDING \<or> ob_status e = OB_FAILED) \<and> ob_attempts e < 5)"

definition pendingOutbox :: "OutboxWorld \<Rightarrow> OutboxEvent list" where
  "pendingOutbox w = take 100 (ow_order w (filter retriable (ow_events w)))"

definition processPendingEvents :: "nat obsvc" where
  "processPendingEvents = andThen (asks pendingOutbox) (\<lambda>pendingEvents. publishOutboxEvents pendingEvents 0)"

definition replayFailedEvents :: "uid \<Rightarrow> nat obsvc" where
  "replayFailedEvents tenantId =
     andThen (asks (\<lambda>w. filter (\<lambda>e. ob_tenantId e = tenantId \<and> ob_status e = OB_FAILED) (ow_events w))) (\<lambda>failedEvents.
     andThen (forEach failedEvents (\<lambda>e. updateOutbox (ob_id e) (\<lambda>r. r\<lparr>ob_status := OB_PENDING, ob_attempts := 0, ob_lastError := None\<rparr>))) (\<lambda>_.
     ret (length failedEvents)))"

text \<open>The cutoff goes back whole days; the clock of the server is UTC. The result of a deletion is an object, so the answer is 1.\<close>

definition cleanupProcessedEvents :: "nat \<Rightarrow> nat obsvc" where
  "cleanupProcessedEvents retentionDays =
     andThen (modify (\<lambda>w. w\<lparr>ow_events := filter (\<lambda>e. \<not> (ob_status e = OB_PROCESSED \<and>
       (case ob_processedAt e of None \<Rightarrow> False | Some t \<Rightarrow> t < ow_now w - int retentionDays * 86400000))) (ow_events w)\<rparr>)) (\<lambda>_. ret 1)"

section \<open>One run\<close>

text \<open>What becomes of a row that was tried, and how many jobs there are for an event.\<close>

definition tried :: "millis \<Rightarrow> string option \<Rightarrow> OutboxEvent \<Rightarrow> OutboxEvent" where
  "tried now err r = (case err of
       None \<Rightarrow> r\<lparr>ob_attempts := ob_attempts r + 1, ob_status := OB_PROCESSED, ob_processedAt := Some now\<rparr>
     | Some m \<Rightarrow> r\<lparr>ob_attempts := ob_attempts r + 1, ob_status := OB_FAILED, ob_lastError := Some m\<rparr>)"

definition jobsFor :: "uid \<Rightarrow> OutboxWorld \<Rightarrow> nat" where
  "jobsFor i w = length (filter (\<lambda>j. oj_outboxEventId j = i) (ow_jobs w))"

abbreviation outboxIds :: "OutboxWorld \<Rightarrow> uid list" where
  "outboxIds w \<equiv> map ob_id (ow_events w)"

lemma setOutbox_ids: "(\<And>r. ob_id (f r) = ob_id r) \<Longrightarrow> map ob_id (setOutbox i f rows) = map ob_id rows"
  by (simp add: setOutbox_def)

lemma tried_sel [simp]: "ob_id (tried now err r) = ob_id r" "ob_attempts (tried now err r) = ob_attempts r + 1"
  "ob_status (tried now err r) = (if err = None then OB_PROCESSED else OB_FAILED)"
  by (simp_all add: tried_def split: option.splits)

lemma same_row: "distinct (map ob_id rows) \<Longrightarrow> a \<in> set rows \<Longrightarrow> b \<in> set rows \<Longrightarrow> ob_id a = ob_id b \<Longrightarrow> a = b"
  by (simp add: distinct_map inj_on_def)

lemma publish_one:
  assumes "distinct (outboxIds w)" "e \<in> set (ow_events w)" and err_def: "err = ow_queueError w (ow_queueCalls w)"
  shows "publishOutboxEvent e w = (Inr (err = None),
    w\<lparr>ow_events := map (\<lambda>r. if r = e then tried (ow_now w) err r else r) (ow_events w), ow_queueCalls := ow_queueCalls w + 1,
      ow_jobs := ow_jobs w @ (if err = None then [outboxJob e] else [])\<rparr>)"
proof -
  have eq: "ob_id r = ob_id e \<longleftrightarrow> r = e" if "r \<in> set (ow_events w)" for r using same_row [OF assms(1) that assms(2)] by auto
  have rows: "setOutbox (ob_id e) g (setOutbox (ob_id e) f (ow_events w)) = map (\<lambda>r. if r = e then g (f r) else r) (ow_events w)"
    if "\<And>r. ob_id (f r) = ob_id r" for f g
    using that eq by (auto simp: setOutbox_def)
  have one: "map (\<lambda>r. if r = e then g r else r) (ow_events w) = map (\<lambda>r. if r = e then g e else r) (ow_events w)" for g :: "OutboxEvent \<Rightarrow> OutboxEvent"
    by (rule map_cong) auto
  show ?thesis
    by (cases err)
      (use err_def in \<open>simp_all add: publishOutboxEvent_def updateOutbox_def addOutboxJob_def rows one [of "tried _ _"] tried_def cong: map_cong if_cong\<close>)
qed

text \<open>A run that tries a list of rows: every row of the list has one attempt more and is processed or failed, every other row is as it was, and
  a processed row has one job more.\<close>

definition ranOver :: "OutboxEvent set \<Rightarrow> OutboxEvent \<Rightarrow> OutboxEvent \<Rightarrow> bool" where
  "ranOver B r r' \<longleftrightarrow> (if r \<in> B then ob_id r' = ob_id r \<and> ob_attempts r' = ob_attempts r + 1 \<and> ob_status r' \<noteq> OB_PENDING else r' = r)"

definition counted :: "OutboxWorld \<Rightarrow> bool" where
  "counted w \<longleftrightarrow> (\<forall>i. jobsFor i w \<le> 1) \<and> (\<forall>e\<in>set (ow_events w). jobsFor (ob_id e) w = (if ob_status e = OB_PROCESSED then 1 else 0))"

definition sameSupply :: "OutboxWorld \<Rightarrow> OutboxWorld \<Rightarrow> bool" where
  "sameSupply w w' \<longleftrightarrow> ow_uuid w' = ow_uuid w \<and> ow_uuidNext w' = ow_uuidNext w \<and> ow_order w' = ow_order w \<and> ow_now w' = ow_now w \<and> outboxIds w' = outboxIds w \<and>
     set (ow_jobs w') \<subseteq> set (ow_jobs w) \<union> outboxJob ` set (ow_events w)"

lemma publish_counted:
  assumes "distinct (outboxIds w)" "e \<in> set (ow_events w)" "ob_status e \<noteq> OB_PROCESSED" "counted w"
  shows "counted (snd (publishOutboxEvent e w))"
proof -
  define err where "err = ow_queueError w (ow_queueCalls w)"
  have e0: "jobsFor (ob_id e) w = 0" using assms(2-4) by (auto simp: counted_def)
  have jobs: "jobsFor i (snd (publishOutboxEvent e w)) = jobsFor i w + (if err = None \<and> i = ob_id e then 1 else 0)" for i
    by (simp add: publish_one [OF assms(1,2) err_def] jobsFor_def outboxJob_def)
  have "jobsFor (ob_id r') (snd (publishOutboxEvent e w)) = (if ob_status r' = OB_PROCESSED then 1 else 0)"
    if "r' \<in> set (ow_events (snd (publishOutboxEvent e w)))" for r'
  proof -
    from that obtain r where r: "r \<in> set (ow_events w)" "r' = (if r = e then tried (ow_now w) err r else r)"
      by (auto simp: publish_one [OF assms(1,2) err_def])
    show ?thesis
    proof (cases "r = e")
      case True
      then show ?thesis using r(2) e0 by (simp add: jobs)
    next
      case False
      then have "ob_id r \<noteq> ob_id e" using same_row [OF assms(1) r(1) assms(2)] by auto
      then show ?thesis using False r assms(4) by (simp add: jobs counted_def)
    qed
  qed
  moreover have "jobsFor i (snd (publishOutboxEvent e w)) \<le> 1" for i
    using e0 assms(4) by (cases "i = ob_id e") (simp_all add: jobs counted_def)
  ultimately show ?thesis by (simp add: counted_def)
qed

lemma publish_list:
  assumes "distinct (outboxIds w)" "set es \<subseteq> set (ow_events w)" "distinct es"
  shows "\<exists>c w'. publishOutboxEvents es n w = (Inr c, w') \<and> list_all2 (ranOver (set es)) (ow_events w) (ow_events w') \<and> sameSupply w w' \<and>
     ((\<forall>e\<in>set es. ob_status e \<noteq> OB_PROCESSED) \<and> counted w \<longrightarrow> counted w')"
  using assms
proof (induction es arbitrary: n w)
  case Nil
  have "list_all2 (ranOver {}) (ow_events w) (ow_events w)" by (simp add: list_all2_same ranOver_def)
  then show ?case by (simp add: sameSupply_def)
next
  case (Cons e es)
  define err where "err = ow_queueError w (ow_queueCalls w)"
  have e: "e \<in> set (ow_events w)" using Cons.prems(2) by simp
  define w1 where "w1 = snd (publishOutboxEvent e w)"
  have run: "publishOutboxEvent e w = (Inr (err = None), w1)" unfolding w1_def by (simp add: publish_one [OF Cons.prems(1) e err_def])
  have ev: "ow_events w1 = map (\<lambda>r. if r = e then tried (ow_now w) err r else r) (ow_events w)"
    unfolding w1_def by (simp add: publish_one [OF Cons.prems(1) e err_def])
  have ids: "outboxIds w1 = outboxIds w" by (simp add: ev)
  have sup: "sameSupply w w1" using e ids unfolding w1_def by (auto simp: sameSupply_def publish_one [OF Cons.prems(1) e err_def])
  have sub: "set es \<subseteq> set (ow_events w1)" using Cons.prems(2,3) by (auto simp: ev image_iff)
  have d: "distinct (outboxIds w1)" using ids Cons.prems(1) by (simp only:)
  have de: "distinct es" using Cons.prems(3) by simp
  obtain c w' where w': "publishOutboxEvents es (if err = None then n + 1 else n) w1 = (Inr c, w')" "list_all2 (ranOver (set es)) (ow_events w1) (ow_events w')"
      "sameSupply w1 w'" "(\<forall>e\<in>set es. ob_status e \<noteq> OB_PROCESSED) \<and> counted w1 \<longrightarrow> counted w'"
    using Cons.IH [OF d sub de] by blast
  have "list_all2 (ranOver (set (e # es))) (ow_events w) (ow_events w')"
  proof (rule list_all2_all_nthI)
    show len: "length (ow_events w) = length (ow_events w')" using list_all2_lengthD [OF w'(2)] by (simp add: ev)
    fix k
    assume k: "k < length (ow_events w)"
    let ?r = "ow_events w ! k"
    have r1: "ow_events w1 ! k = (if ?r = e then tried (ow_now w) err ?r else ?r)" using k by (simp add: ev)
    have t: "ranOver (set es) (ow_events w1 ! k) (ow_events w' ! k)" using list_all2_nthD [OF w'(2)] k by (simp add: ev)
    show "ranOver (set (e # es)) ?r (ow_events w' ! k)"
    proof (cases "?r = e")
      case True
      have "tried (ow_now w) err e \<notin> set es"
      proof
        assume "tried (ow_now w) err e \<in> set es"
        then have "tried (ow_now w) err e \<in> set (ow_events w)" using Cons.prems(2) by auto
        then have "tried (ow_now w) err e = e" using same_row [OF Cons.prems(1) _ e] by simp
        then have "ob_attempts e = ob_attempts e + 1" by (metis tried_sel(2))
        then show False by simp
      qed
      then have "ow_events w' ! k = tried (ow_now w) err e" using t True r1 by (simp add: ranOver_def)
      then show ?thesis using True by (simp add: ranOver_def)
    next
      case False
      then show ?thesis using t r1 by (simp add: ranOver_def)
    qed
  qed
  moreover have "sameSupply w w'"
  proof -
    have "outboxJob ` set (ow_events w1) \<subseteq> outboxJob ` set (ow_events w)" by (auto simp: ev outboxJob_def tried_def split: option.splits)
    then have "set (ow_jobs w') \<subseteq> set (ow_jobs w) \<union> outboxJob ` set (ow_events w)" using sup w'(3) unfolding sameSupply_def by blast
    then show ?thesis using sup w'(3) by (simp add: sameSupply_def)
  qed
  moreover have "counted w'" if "\<forall>x\<in>set (e # es). ob_status x \<noteq> OB_PROCESSED" "counted w"
    using that w'(4) publish_counted [OF Cons.prems(1) e] by (simp add: w1_def)
  ultimately show ?case using run w'(1) by auto
qed

text \<open>The order of an answer only rearranges rows.\<close>

definition rearranges :: "OutboxWorld \<Rightarrow> bool" where
  "rearranges w \<longleftrightarrow> (\<forall>xs. mset (ow_order w xs) = mset xs)"

lemma pending_rows:
  assumes "distinct (outboxIds w)" "rearranges w"
  shows "set (pendingOutbox w) \<subseteq> set (ow_events w)" "distinct (pendingOutbox w)" "\<forall>e\<in>set (pendingOutbox w). retriable e"
    "length (pendingOutbox w) = min 100 (length (filter retriable (ow_events w)))"
    "length (filter retriable (ow_events w)) \<le> 100 \<Longrightarrow> set (pendingOutbox w) = set (filter retriable (ow_events w))"
proof -
  let ?f = "filter retriable (ow_events w)"
  have m: "mset (ow_order w ?f) = mset ?f" using assms(2) by (simp add: rearranges_def)
  have s: "set (ow_order w ?f) = set ?f" using m by (metis set_mset_mset)
  have l: "length (ow_order w ?f) = length ?f" using m by (metis size_mset)
  have "distinct (ow_events w)" using assms(1) by (simp add: distinct_map)
  then have d: "distinct (ow_order w ?f)" using m by (metis distinct_filter mset_eq_imp_distinct_iff)
  show "set (pendingOutbox w) \<subseteq> set (ow_events w)" "\<forall>e\<in>set (pendingOutbox w). retriable e"
    using s set_take_subset [of 100 "ow_order w ?f"] by (auto simp: pendingOutbox_def)
  show "distinct (pendingOutbox w)" using d by (simp add: pendingOutbox_def)
  show "length (pendingOutbox w) = min 100 (length ?f)" using l by (simp add: pendingOutbox_def)
  show "set (pendingOutbox w) = set ?f" if "length ?f \<le> 100" using that s l by (simp add: pendingOutbox_def)
qed

lemma run_over:
  assumes "distinct (outboxIds w)" "rearranges w"
  shows "\<exists>c w'. processPendingEvents w = (Inr c, w') \<and> list_all2 (ranOver (set (pendingOutbox w))) (ow_events w) (ow_events w') \<and> sameSupply w w' \<and>
    (counted w \<longrightarrow> counted w')"
proof -
  note p = pending_rows [OF assms]
  have "\<forall>e\<in>set (pendingOutbox w). ob_status e \<noteq> OB_PROCESSED" using p(3) by (auto simp: retriable_def)
  then show ?thesis using publish_list [OF assms(1) p(1,2), of 0] by (auto simp: processPendingEvents_def)
qed

section \<open>The runs drain the table\<close>

fun outboxRuns :: "nat \<Rightarrow> OutboxWorld \<Rightarrow> OutboxWorld" where
  "outboxRuns 0 w = w"
| "outboxRuns (Suc n) w = outboxRuns n (snd (processPendingEvents w))"

definition triesLeft :: "OutboxEvent \<Rightarrow> nat" where
  "triesLeft e = (if retriable e then 5 - ob_attempts e else 0)"

definition outboxWork :: "OutboxWorld \<Rightarrow> nat" where
  "outboxWork w = sum_list (map triesLeft (ow_events w))"

definition settledEvent :: "OutboxEvent \<Rightarrow> bool" where
  "settledEvent e \<longleftrightarrow> ob_status e = OB_PROCESSED \<or> (ob_status e = OB_FAILED \<and> 5 \<le> ob_attempts e)"

definition outboxOk :: "OutboxWorld \<Rightarrow> bool" where
  "outboxOk w \<longleftrightarrow> distinct (outboxIds w) \<and> rearranges w \<and> (\<forall>e\<in>set (ow_events w). ob_status e = OB_PENDING \<longrightarrow> ob_attempts e < 5)"

lemma ranOver_tries: "ranOver B r r' \<Longrightarrow> r \<in> B \<Longrightarrow> retriable r \<Longrightarrow> triesLeft r' + 1 \<le> triesLeft r"
  by (auto simp: ranOver_def triesLeft_def retriable_def)

lemma ranOver_work:
  "list_all2 (ranOver B) rows rows' \<Longrightarrow> \<forall>r\<in>B. retriable r \<Longrightarrow>
    sum_list (map triesLeft rows') + length (filter (\<lambda>r. r \<in> B) rows) \<le> sum_list (map triesLeft rows)"
proof (induction rows rows' rule: list_all2_induct)
  case (Cons r rows r' rows')
  show ?case
  proof (cases "r \<in> B")
    case True
    then show ?thesis using ranOver_tries [OF Cons.hyps(1) True] Cons.IH Cons.prems by auto
  next
    case False
    then show ?thesis using Cons by (simp add: ranOver_def)
  qed
qed simp

lemma run_ok:
  assumes "outboxOk w"
  obtains w' where "snd (processPendingEvents w) = w'" "outboxOk w'" "list_all2 (ranOver (set (pendingOutbox w))) (ow_events w) (ow_events w')"
    "length (ow_events w') = length (ow_events w)"
proof -
  have ok: "distinct (outboxIds w)" "rearranges w" using assms by (simp_all add: outboxOk_def)
  obtain c w' where w': "processPendingEvents w = (Inr c, w')" "list_all2 (ranOver (set (pendingOutbox w))) (ow_events w) (ow_events w')" "sameSupply w w'"
    using run_over [OF ok] by blast
  have "ob_attempts r' < 5" if r': "r' \<in> set (ow_events w')" "ob_status r' = OB_PENDING" for r'
  proof -
    obtain k where k: "k < length (ow_events w')" "r' = ow_events w' ! k" using r'(1) by (auto simp: in_set_conv_nth)
    have len: "length (ow_events w) = length (ow_events w')" using list_all2_lengthD [OF w'(2)] .
    have "ranOver (set (pendingOutbox w)) (ow_events w ! k) r'" using list_all2_nthD [OF w'(2)] k len by simp
    then have "r' = ow_events w ! k" using r'(2) by (auto simp: ranOver_def split: if_splits)
    then have "r' \<in> set (ow_events w)" using k len by simp
    then show ?thesis using assms r'(2) by (simp add: outboxOk_def)
  qed
  then have "outboxOk w'" using ok w'(3) by (simp add: outboxOk_def sameSupply_def rearranges_def)
  then show thesis using that w' list_all2_lengthD [OF w'(2)] by simp
qed

lemma few_left:
  assumes "outboxOk w" "length (filter retriable (ow_events w)) \<le> 100" "\<forall>e\<in>set (ow_events w). retriable e \<longrightarrow> k \<le> ob_attempts e" "5 \<le> n + k"
  shows "\<forall>e\<in>set (ow_events (outboxRuns n w)). \<not> retriable e"
  using assms
proof (induction n arbitrary: k w)
  case 0
  then show ?case by (fastforce simp: retriable_def)
next
  case (Suc n)
  have ok: "distinct (outboxIds w)" "rearranges w" using Suc.prems(1) by (simp_all add: outboxOk_def)
  obtain w' where w': "snd (processPendingEvents w) = w'" "outboxOk w'" "list_all2 (ranOver (set (pendingOutbox w))) (ow_events w) (ow_events w')"
    by (rule run_ok [OF Suc.prems(1)])
  have all: "set (pendingOutbox w) = set (filter retriable (ow_events w))" by (rule pending_rows(5) [OF ok Suc.prems(2)])
  have len: "length (ow_events w) = length (ow_events w')" by (rule list_all2_lengthD [OF w'(3)])
  have was: "retriable (ow_events w ! i) \<and> ob_attempts (ow_events w' ! i) = ob_attempts (ow_events w ! i) + 1" if i: "i < length (ow_events w')" "retriable (ow_events w' ! i)" for i
  proof -
    have "ranOver (set (pendingOutbox w)) (ow_events w ! i) (ow_events w' ! i)" using list_all2_nthD [OF w'(3)] i len by simp
    moreover have "ow_events w ! i \<in> set (ow_events w)" using i len by simp
    ultimately show ?thesis using i(2) all by (auto simp: ranOver_def split: if_splits)
  qed
  have fewer: "length (filter retriable (ow_events w')) \<le> length (filter retriable (ow_events w))"
    using was len by (auto simp: length_filter_conv_card intro!: card_mono)
  have later: "\<forall>e\<in>set (ow_events w'). retriable e \<longrightarrow> Suc k \<le> ob_attempts e"
  proof (intro ballI impI)
    fix e
    assume "e \<in> set (ow_events w')" "retriable e"
    then obtain i where i: "i < length (ow_events w')" "e = ow_events w' ! i" "retriable (ow_events w' ! i)" by (auto simp: in_set_conv_nth)
    have "ow_events w ! i \<in> set (ow_events w)" using i len by simp
    then show "Suc k \<le> ob_attempts e" using was [OF i(1,3)] i(2) Suc.prems(3) by auto
  qed
  have "\<forall>e\<in>set (ow_events (outboxRuns n w')). \<not> retriable e"
    by (rule Suc.IH [OF w'(2) _ later]) (use fewer Suc.prems(2,4) in simp_all)
  then show ?case unfolding outboxRuns.simps w'(1) .
qed

lemma runs_ok: "outboxOk w \<Longrightarrow> outboxOk (outboxRuns n w)"
proof (induction n arbitrary: w)
  case (Suc n)
  obtain w' where "snd (processPendingEvents w) = w'" "outboxOk w'" by (rule run_ok [OF Suc.prems])
  then show ?case using Suc.IH by simp
qed simp

lemma full_batch:
  assumes "outboxOk w" "100 < length (filter retriable (ow_events w))"
  shows "outboxWork (snd (processPendingEvents w)) + 100 \<le> outboxWork w"
proof -
  have ok: "distinct (outboxIds w)" "rearranges w" using assms(1) by (simp_all add: outboxOk_def)
  note p = pending_rows [OF ok]
  obtain w' where w': "snd (processPendingEvents w) = w'" "list_all2 (ranOver (set (pendingOutbox w))) (ow_events w) (ow_events w')"
    by (rule run_ok [OF assms(1)])
  let ?hit = "filter (\<lambda>r. r \<in> set (pendingOutbox w)) (ow_events w)"
  have "set ?hit = set (pendingOutbox w)" using p(1) by auto
  moreover have "distinct ?hit" using ok(1) by (simp add: distinct_map)
  ultimately have "length ?hit = length (pendingOutbox w)" using p(2) by (metis distinct_card)
  then have "length ?hit = 100" using p(4) assms(2) by simp
  then show ?thesis using ranOver_work [OF w'(2) p(3)] w'(1) by (simp add: outboxWork_def)
qed

lemma work_left:
  assumes "outboxOk w" "outboxWork w div 100 + 5 \<le> n"
  shows "\<forall>e\<in>set (ow_events (outboxRuns n w)). \<not> retriable e"
  using assms
proof (induction n arbitrary: w)
  case (Suc n)
  show ?case
  proof (cases "length (filter retriable (ow_events w)) \<le> 100")
    case True
    show ?thesis by (rule few_left [OF Suc.prems(1) True, of 0]) (use Suc.prems(2) in simp_all)
  next
    case False
    obtain w' where w': "snd (processPendingEvents w) = w'" "outboxOk w'" by (rule run_ok [OF Suc.prems(1)])
    have "outboxWork w' + 100 \<le> outboxWork w" using full_batch [OF Suc.prems(1)] False w'(1) by simp
    from div_le_mono [OF this, of 100] have "outboxWork w' div 100 + 1 \<le> outboxWork w div 100" by simp
    then have "outboxWork w' div 100 + 5 \<le> n" using Suc.prems(2) by linarith
    from Suc.IH [OF w'(2) this] show ?thesis unfolding outboxRuns.simps w'(1) .
  qed
qed simp

lemma work_bound: "outboxWork w \<le> 5 * length (ow_events w)"
proof -
  have "sum_list (map triesLeft rows) \<le> 5 * length rows" for rows by (induction rows) (auto simp: triesLeft_def)
  then show ?thesis by (simp add: outboxWork_def)
qed

text \<open>C37: However the calls of the queue fail and in whatever order the database answers: after five runs, and five more for every hundred
  rows of the table, every event was queued or has failed five times.\<close>

theorem outbox_is_drained:
  assumes "outboxOk w" "5 * length (ow_events w) div 100 + 5 \<le> n"
  shows "\<forall>e\<in>set (ow_events (outboxRuns n w)). settledEvent e"
proof
  fix e
  assume e: "e \<in> set (ow_events (outboxRuns n w))"
  have "outboxWork w div 100 \<le> 5 * length (ow_events w) div 100" by (rule div_le_mono [OF work_bound])
  then have "outboxWork w div 100 + 5 \<le> n" using assms(2) by simp
  from work_left [OF assms(1) this] have "\<not> retriable e" using e by blast
  moreover have "ob_status e = OB_PENDING \<longrightarrow> ob_attempts e < 5" using runs_ok [OF assms(1)] e by (simp add: outboxOk_def)
  ultimately show "settledEvent e" by (cases "ob_status e") (auto simp: retriable_def settledEvent_def)
qed

section \<open>No event is queued twice\<close>

datatype outbox_op = OpStore uid string json | OpRun | OpReplay uid | OpCleanup nat

fun outboxPerform :: "outbox_op \<Rightarrow> OutboxWorld \<Rightarrow> OutboxWorld" where
  "outboxPerform (OpStore t n p) w = snd (storeEvent t n p w)"
| "outboxPerform OpRun w = snd (processPendingEvents w)"
| "outboxPerform (OpReplay t) w = snd (replayFailedEvents t w)"
| "outboxPerform (OpCleanup d) w = snd (cleanupProcessedEvents d w)"

inductive outbox_reach :: "OutboxWorld \<Rightarrow> bool" where
  start: "inj (ow_uuid w) \<Longrightarrow> rearranges w \<Longrightarrow> ow_events w = [] \<Longrightarrow> ow_jobs w = [] \<Longrightarrow> outbox_reach w"
| operation: "outbox_reach w \<Longrightarrow> outbox_reach (outboxPerform oper w)"
| outside: "outbox_reach w \<Longrightarrow> rearranges w' \<Longrightarrow> ow_events w' = ow_events w \<Longrightarrow> ow_jobs w' = ow_jobs w \<Longrightarrow> ow_uuid w' = ow_uuid w \<Longrightarrow>
    ow_uuidNext w' = ow_uuidNext w \<Longrightarrow> outbox_reach w'"

definition drawn :: "uid \<Rightarrow> OutboxWorld \<Rightarrow> bool" where
  "drawn i w \<longleftrightarrow> (\<exists>n<ow_uuidNext w. i = ow_uuid w n)"

definition outboxInv :: "OutboxWorld \<Rightarrow> bool" where
  "outboxInv w \<longleftrightarrow> inj (ow_uuid w) \<and> outboxOk w \<and> counted w \<and> (\<forall>e\<in>set (ow_events w). drawn (ob_id e) w) \<and> (\<forall>j\<in>set (ow_jobs w). drawn (oj_outboxEventId j) w)"

lemma inv_store: "outboxInv w \<Longrightarrow> outboxInv (snd (storeEvent t n p w))"
proof -
  assume inv: "outboxInv w"
  let ?i = "ow_uuid w (ow_uuidNext w)" and ?w = "snd (storeEvent t n p w)"
  have new: "\<not> drawn ?i w" using inv by (auto simp: outboxInv_def drawn_def inj_eq)
  then have none: "jobsFor ?i w = 0" using inv by (auto simp: jobsFor_def outboxInv_def filter_empty_conv)
  have fresh: "?i \<notin> set (outboxIds w)" using inv new by (auto simp: outboxInv_def)
  have jobs: "jobsFor i ?w = jobsFor i w" for i by (simp add: jobsFor_def storeEvent_def Let_def)
  have up: "drawn i w \<Longrightarrow> drawn i ?w" for i by (auto simp: drawn_def storeEvent_def Let_def intro: less_SucI)
  have "drawn ?i ?w" by (auto simp: drawn_def storeEvent_def Let_def)
  moreover have "outboxOk ?w" using inv fresh by (auto simp: outboxInv_def outboxOk_def rearranges_def storeEvent_def Let_def)
  moreover have "counted ?w" using inv none unfolding outboxInv_def counted_def jobs by (auto simp: storeEvent_def Let_def)
  ultimately show ?thesis using inv up by (auto simp: outboxInv_def storeEvent_def Let_def)
qed

lemma inv_run: "outboxInv w \<Longrightarrow> outboxInv (snd (processPendingEvents w))"
proof -
  assume inv: "outboxInv w"
  have ok: "outboxOk w" "distinct (outboxIds w)" "rearranges w" "counted w" using inv by (simp_all add: outboxInv_def outboxOk_def)
  obtain c w' where w': "processPendingEvents w = (Inr c, w')" "sameSupply w w'" "counted w'" using run_over [OF ok(2,3)] ok(4) by blast
  have "outboxOk w'" using run_ok [OF ok(1)] w'(1) by (metis snd_conv)
  moreover have same: "drawn i w' = drawn i w" for i using w'(2) by (simp add: drawn_def sameSupply_def)
  moreover have "drawn (ob_id e) w" if "e \<in> set (ow_events w')" for e
  proof -
    have "ob_id e \<in> set (outboxIds w')" using that by simp
    then have "ob_id e \<in> set (outboxIds w)" using w'(2) unfolding sameSupply_def by metis
    then show ?thesis using inv by (auto simp: outboxInv_def)
  qed
  moreover have "drawn (oj_outboxEventId j) w" if "j \<in> set (ow_jobs w')" for j
  proof -
    have "j \<in> set (ow_jobs w) \<union> outboxJob ` set (ow_events w)" using that w'(2) unfolding sameSupply_def by blast
    then show ?thesis using inv by (auto simp: outboxInv_def outboxJob_def)
  qed
  ultimately show ?thesis using inv w' by (simp add: outboxInv_def sameSupply_def)
qed

lemma inv_rows:
  assumes inv: "outboxInv w" and rows: "\<forall>e'\<in>set es. \<exists>e\<in>set (ow_events w). ob_id e' = ob_id e \<and> (ob_status e' = OB_PROCESSED) = (ob_status e = OB_PROCESSED) \<and>
      (ob_status e' = OB_PENDING \<longrightarrow> ob_attempts e' < 5)" and d: "distinct (map ob_id es)"
  shows "outboxInv (w\<lparr>ow_events := es\<rparr>)"
proof -
  have "outboxOk (w\<lparr>ow_events := es\<rparr>)" using inv rows d by (auto simp: outboxInv_def outboxOk_def rearranges_def)
  moreover have "counted (w\<lparr>ow_events := es\<rparr>)"
    unfolding counted_def
  proof (intro conjI allI ballI)
    fix e'
    assume "e' \<in> set (ow_events (w\<lparr>ow_events := es\<rparr>))"
    then obtain e where e: "e \<in> set (ow_events w)" "ob_id e' = ob_id e" "(ob_status e' = OB_PROCESSED) = (ob_status e = OB_PROCESSED)" using rows by auto
    then have "jobsFor (ob_id e) w = (if ob_status e = OB_PROCESSED then 1 else 0)" using inv by (simp add: outboxInv_def counted_def)
    then show "jobsFor (ob_id e') (w\<lparr>ow_events := es\<rparr>) = (if ob_status e' = OB_PROCESSED then 1 else 0)" using e by (simp add: jobsFor_def)
  qed (use inv in \<open>simp add: outboxInv_def counted_def jobsFor_def\<close>)
  moreover have "drawn (ob_id e') w" if "e' \<in> set es" for e' using rows that inv by (fastforce simp: outboxInv_def)
  ultimately show ?thesis using inv by (simp add: outboxInv_def drawn_def)
qed

lemma inv_cleanup: "outboxInv w \<Longrightarrow> outboxInv (snd (cleanupProcessedEvents d w))"
  by (simp add: cleanupProcessedEvents_def, rule inv_rows) (auto simp: outboxInv_def outboxOk_def distinct_map inj_on_def)

lemma replay_rows:
  "snd (forEach es (\<lambda>e. updateOutbox (ob_id e) f) w) = w\<lparr>ow_events := fold (\<lambda>e. setOutbox (ob_id e) f) es (ow_events w)\<rparr>"
  "fst (forEach es (\<lambda>e. updateOutbox (ob_id e) f) w) = Inr ()"
  by (induction es arbitrary: w) (simp_all add: updateOutbox_def)

lemma replayed_rows:
  assumes "\<And>r. f (f r) = f r" "\<And>r. ob_id (f r) = ob_id r"
  shows "fold (\<lambda>e. setOutbox (ob_id e) f) es rows = map (\<lambda>r. if ob_id r \<in> ob_id ` set es then f r else r) rows"
  by (induction es arbitrary: rows) (auto simp: setOutbox_def assms)

lemma inv_replay: "outboxInv w \<Longrightarrow> outboxInv (snd (replayFailedEvents t w))"
proof -
  assume inv: "outboxInv w"
  let ?f = "\<lambda>r. r\<lparr>ob_status := OB_PENDING, ob_attempts := 0, ob_lastError := None\<rparr>"
  let ?es = "filter (\<lambda>e. ob_tenantId e = t \<and> ob_status e = OB_FAILED) (ow_events w)"
  let ?rows = "map (\<lambda>r. if ob_id r \<in> ob_id ` set ?es then ?f r else r) (ow_events w)"
  have d: "distinct (outboxIds w)" using inv by (simp add: outboxInv_def outboxOk_def)
  have "snd (replayFailedEvents t w) = w\<lparr>ow_events := fold (\<lambda>e. setOutbox (ob_id e) ?f) ?es (ow_events w)\<rparr>"
    using replay_rows [of ?es ?f w] by (auto simp: replayFailedEvents_def svc_simps split: sum.splits prod.splits)
  also have "fold (\<lambda>e. setOutbox (ob_id e) ?f) ?es (ow_events w) = ?rows" by (rule replayed_rows) simp_all
  finally have eq: "snd (replayFailedEvents t w) = w\<lparr>ow_events := ?rows\<rparr>" .
  have ids: "map ob_id ?rows = outboxIds w" by simp
  have rows: "\<exists>e\<in>set (ow_events w). ob_id e' = ob_id e \<and> (ob_status e' = OB_PROCESSED) = (ob_status e = OB_PROCESSED) \<and>
      (ob_status e' = OB_PENDING \<longrightarrow> ob_attempts e' < 5)" if e': "e' \<in> set ?rows" for e'
  proof -
    obtain r where r: "r \<in> set (ow_events w)" "e' = (if ob_id r \<in> ob_id ` set ?es then ?f r else r)" using e' by auto
    show ?thesis
    proof (cases "ob_id r \<in> ob_id ` set ?es")
      case True
      then obtain x where "x \<in> set (ow_events w)" "ob_status x = OB_FAILED" "ob_id x = ob_id r" by auto
      then have "ob_status r = OB_FAILED" using same_row [OF d r(1)] by fastforce
      then show ?thesis using r True by (intro bexI [of _ r]) simp_all
    next
      case False
      then show ?thesis using r inv by (intro bexI [of _ r]) (simp_all add: outboxInv_def outboxOk_def)
    qed
  qed
  show ?thesis unfolding eq
  proof (rule inv_rows [OF inv])
    show "distinct (map ob_id ?rows)" using d unfolding ids .
  qed (intro ballI rows)
qed

lemma outbox_reach_inv: "outbox_reach w \<Longrightarrow> outboxInv w"
proof (induction rule: outbox_reach.induct)
  case (start w)
  then show ?case by (simp add: outboxInv_def outboxOk_def counted_def jobsFor_def)
next
  case (operation w oper)
  then show ?case by (cases oper) (simp_all add: inv_store inv_run inv_replay inv_cleanup)
next
  case (outside w w')
  then show ?case by (simp add: outboxInv_def outboxOk_def counted_def jobsFor_def drawn_def)
qed

text \<open>C38: Whatever is stored, run, replayed and cleaned up, and however the queue fails, an event is queued at most once, and an event of the
  table has been queued exactly when it is marked as processed.\<close>

theorem outbox_queues_each_event_once:
  assumes "outbox_reach w"
  shows "jobsFor i w \<le> 1 \<and> (\<forall>e\<in>set (ow_events w). (jobsFor (ob_id e) w = 1) = (ob_status e = OB_PROCESSED))"
proof -
  have "counted w" using outbox_reach_inv [OF assms] by (simp add: outboxInv_def)
  then show ?thesis by (simp add: counted_def)
qed

section \<open>A sample outbox\<close>

text \<open>A table that answers backwards and a queue whose first call fails.\<close>

definition sampleOutbox :: OutboxWorld where
  "sampleOutbox = \<lparr>ow_events = [], ow_now = 0, ow_uuid = (\<lambda>n. replicate n CHR ''o''), ow_uuidNext = 0, ow_order = rev,
     ow_queueError = (\<lambda>n. if n = 0 then Some ''down'' else None), ow_queueCalls = 0, ow_jobs = []\<rparr>"

definition storedOutbox :: OutboxWorld where
  "storedOutbox = outboxPerform (OpStore ''acme'' ''widget.opened'' JNull) sampleOutbox"

lemma sample_reach: "outbox_reach storedOutbox"
proof -
  have "inj (\<lambda>n. replicate n CHR ''o'')" by (rule injI) (metis length_replicate)
  then have "outbox_reach sampleOutbox" by (intro outbox_reach.start) (simp_all add: sampleOutbox_def rearranges_def)
  then show ?thesis unfolding storedOutbox_def by (rule outbox_reach.operation)
qed

theorem outbox_is_drained_witness:
  "outboxOk storedOutbox \<and> map ob_status (ow_events (outboxRuns 1 storedOutbox)) = [OB_FAILED] \<and>
   list_all settledEvent (ow_events (outboxRuns 5 storedOutbox))"
proof -
  have ok: "outboxOk storedOutbox" using outbox_reach_inv [OF sample_reach] by (simp add: outboxInv_def)
  have "length (ow_events storedOutbox) = 1" by (simp add: storedOutbox_def sampleOutbox_def storeEvent_def)
  then have "\<forall>e\<in>set (ow_events (outboxRuns 5 storedOutbox)). settledEvent e" by (intro outbox_is_drained [OF ok]) simp
  moreover have "map ob_status (ow_events (outboxRuns 1 storedOutbox)) = [OB_FAILED]" by code_simp
  ultimately show ?thesis using ok by (simp add: list_all_iff)
qed

theorem outbox_queues_each_event_once_witness:
  "map ob_status (ow_events (outboxPerform OpRun (outboxPerform OpRun storedOutbox))) = [OB_PROCESSED] \<and>
   jobsFor [] (outboxPerform OpRun (outboxPerform OpRun storedOutbox)) = 1"
proof -
  let ?w = "outboxPerform OpRun (outboxPerform OpRun storedOutbox)"
  have "outbox_reach ?w" by (intro outbox_reach.operation sample_reach)
  from outbox_queues_each_event_once [OF this, of "[]"]
  have "\<forall>e\<in>set (ow_events ?w). (jobsFor (ob_id e) ?w = 1) = (ob_status e = OB_PROCESSED)" by blast
  moreover have "map (\<lambda>e. (ob_id e, ob_status e)) (ow_events ?w) = [([], OB_PROCESSED)]" by code_simp
  ultimately show ?thesis by auto
qed

end
