(* ===== verification/Spec2Isabelle.thy ===== *)
theory Spec2Isabelle
  imports Ticket_Domain_Properties Ticket_Desk_Properties Connector_Properties Connector_Limits Queue_Worker
    Workflow_Properties Workflow_Sweep Workflow_Templates Workflow_Platform Settings_Properties
    Conversation_Resolution Conversation_Listing Conversation_Sweep
    Message_Transport Channel_Properties Customer_Properties Knowledge_Reach Outbox
begin

text \<open>
  \<^bold>\<open>EasyDev Support: a verification development of its ticket desk, conversations, messages, customers, knowledge base, connectors, workflows, teams and settings\<close>

  The program is a multi-tenant customer support platform (NestJS, TypeScript). Each module under
  \<^verbatim>\<open>src/modules\<close> has a domain layer (aggregates and value objects), a repository over Postgres, services that
  the controllers and the queue processors call, and jobs. The modules talk by direct calls, by jobs
  on BullMQ queues (\<^verbatim>\<open>packages/shared-queues\<close>) and by domain events that become such jobs. Twelve
  parts are modelled here: the ticket module, the conversation module with the inbox it feeds, the messages and the channels they travel on, the customers, the
  knowledge base with the articles of the help centre, the connector execution
  engine, the workflow module, the team module, the settings that decide about other modules (feature flags and plan
  limits), the base class of the queue workers, and the outbox. A workflow acts on tickets and connectors, conversations are given to
  the agents the team module chooses, messages change the inbox line of their conversation and leave through a channel, the plan limits decide about new agents, workflows and documents, and these
  compositions are modelled too.

  \<^bold>\<open>Reading the code in HOL.\<close> \<^verbatim>\<open>Prelude\<close> fixes it: a \<^verbatim>\<open>Date\<close> is its milliseconds, an optional property is an
  option, a thrown exception is a value, and an \<^verbatim>\<open>async\<close> method is a state transformer that returns a result or
  an exception together with the state its effects left, so effects made before a throw stay. A
  class is a record with one definition per method; a definition carries the name of the method,
  with the class in front when several classes have it. \<^verbatim>\<open>Keyed_Store\<close> has tables as lists and the contract of
  an upsert by key as a locale, interpreted on the SLA rows, the approval rows, the
  rate limit rows, the breaker cache and the approvals and schedules of workflows. \<^verbatim>\<open>Js_Values\<close> has the parts of the
  JavaScript runtime that work on untyped values (\<^verbatim>\<open>String\<close>, \<^verbatim>\<open>Number\<close>, \<^verbatim>\<open>JSON.stringify\<close>, truthiness);
  \<^verbatim>\<open>State_Frame\<close> has, as a locale over a relation on states, the rules by which whole service methods keep what
  their parts keep.

  \<^bold>\<open>Tickets\<close> (\<^verbatim>\<open>src/modules/tickets\<close>)
  \<^item> \<^verbatim>\<open>Ticket_Values\<close>: ticket numbers, the status machine, priorities, sources (\<^verbatim>\<open>domain/value-objects.ts\<close>).
  \<^item> \<^verbatim>\<open>Ticket_Children\<close>: comments, tags, watchers, attachments, assignments, approvals, categories.
  \<^item> \<^verbatim>\<open>Ticket_Aggregate\<close>: the aggregate root, method by method (\<^verbatim>\<open>domain/ticket.aggregate.ts\<close>);
    \<^verbatim>\<open>Ticket_Lifecycle\<close>: its operations as a step relation, reachability and invariants by rule induction.
  \<^item> \<^verbatim>\<open>Business_Hours\<close>, \<^verbatim>\<open>Ticket_SLA\<close>: the working calendar and the SLA clock, with the running time as
    the abstract specification the clock refines.
  \<^item> \<^verbatim>\<open>Ticket_Store\<close>: rows, mapper, \<^verbatim>\<open>save\<close> with its children, deletion, number sequence, SLA and approval
    tables (\<^verbatim>\<open>repositories\<close>); \<^verbatim>\<open>Ticket_Store_Facts\<close>: what a reader finds after a write.
  \<^item> \<^verbatim>\<open>Ticket_World\<close>: the state the services share (database, jobs, audit trail, broadcasts, clock,
    identifiers) and the environment of the modules they only consult.
  \<^item> \<^verbatim>\<open>Ticket_SLA_Service\<close>, \<^verbatim>\<open>Ticket_Service\<close>, \<^verbatim>\<open>Ticket_Desk\<close>: the SLA service, the ticket service, and the
    approval, escalation, assignment and comment services with the queue processor.
  \<^item> \<^verbatim>\<open>Ticket_Service_Facts\<close>: the lemmas about whole service methods: audit, customer notification
    and triggers are silent for the database, and the methods refine one atomic database step.
  \<^item> Properties: \<^verbatim>\<open>Ticket_Domain_Properties\<close> (aggregate, clock, calendar, tables), \<^verbatim>\<open>Ticket_Service_Properties\<close>
    (lifecycle methods), \<^verbatim>\<open>Ticket_Creation\<close> (numbers and deadlines), \<^verbatim>\<open>Ticket_Desk_Properties\<close> (approvals,
    merge, escalation, transfer), \<^verbatim>\<open>Ticket_SLA_Sweep\<close> (the breach sweep), \<^verbatim>\<open>Ticket_Service_Limits\<close>
    (what the methods do not do). \<^verbatim>\<open>Ticket_World\<close> ends with the concrete world the witnesses run in.

  \<^bold>\<open>Connectors\<close> (\<^verbatim>\<open>src/modules/connectors\<close>)
  \<^item> \<^verbatim>\<open>Circuit_Breaker\<close>: the breaker and the manager that caches it (\<^verbatim>\<open>domain/circuit-breaker.ts\<close>,
    \<^verbatim>\<open>engine/circuit-breaker-manager.ts\<close>), with trip and recovery.
  \<^item> \<^verbatim>\<open>Connector_Rate_Limit\<close>: the fixed window, its rows and the Lua script.
  \<^item> \<^verbatim>\<open>Connector_Request\<close>, \<^verbatim>\<open>Connector_Request_Facts\<close>: how a request is built
    (\<^verbatim>\<open>engine/connector-factory.ts\<close>) and templates as segments, the specification of the URL scan.
  \<^item> \<^verbatim>\<open>Connector_Engine\<close>: entities, repository statements, credentials, \<^verbatim>\<open>execute\<close>, the retry engine and the
    execution service; \<^verbatim>\<open>Connector_Engine_Facts\<close>: the engine past its guards, and runs of executions.
  \<^item> \<^verbatim>\<open>Connector_Limits\<close>, \<^verbatim>\<open>Connector_Properties\<close>: the properties.

  \<^bold>\<open>Workflows\<close> (\<^verbatim>\<open>src/modules/workflows\<close>)
  \<^item> \<^verbatim>\<open>Workflow_Model\<close>, \<^verbatim>\<open>Workflow_Store\<close>: the entities, the rows and the statements of the repository, trigger
    matching and the evaluation of conditions, with a declarative reading.
  \<^item> \<^verbatim>\<open>Workflow_World\<close>: the state of the module. A run of actions that the code starts without awaiting it is a task of
    the world; \<open>runPending\<close> runs one of them, and tasks and requests are interleaved whole. \<^verbatim>\<open>Workflow_Actions\<close>:
    interpolation and the actions, over ports to the other modules; \<^verbatim>\<open>Workflow_Engine\<close>: retries, runs, approvals and the
    timeout sweep; \<^verbatim>\<open>Workflow_Admin\<close>: templates, versions, schedules, the queue processor.
  \<^item> \<^verbatim>\<open>Workflow_Runs\<close>, \<^verbatim>\<open>Workflow_Reach\<close>: frames, the invariant that ties executions to tasks, and
    the module as a step relation with its reachable states.
  \<^item> Properties: \<^verbatim>\<open>Workflow_Properties\<close> (conditions, ends of runs, types of rows), \<^verbatim>\<open>Workflow_Limits\<close> (retries, waits,
    interpolation), \<^verbatim>\<open>Workflow_Approvals\<close>, \<^verbatim>\<open>Workflow_Sweep\<close>, \<^verbatim>\<open>Workflow_Templates\<close>; \<^verbatim>\<open>Workflow_Platform\<close> connects the
    ports to the ticket services and the connector engine. The sample worlds end \<^verbatim>\<open>Workflow_Reach\<close>.

  \<^bold>\<open>Teams\<close> (\<^verbatim>\<open>src/modules/teams\<close>): \<^verbatim>\<open>Team_Model\<close> (aggregate, agents, tables), \<^verbatim>\<open>Team_Service\<close> (the services,
  the choice of an agent and the team queue), \<^verbatim>\<open>Team_Properties\<close>: the chosen agent is the best one with
  room, and what goes wrong (turns, working hours, deleted agents).

  \<^bold>\<open>Conversations\<close> (\<^verbatim>\<open>src/modules/conversations\<close>)
  \<^item> \<^verbatim>\<open>Conversation_Model\<close>: value objects, aggregate, child entities, the tables with pagination and search.
  \<^item> \<^verbatim>\<open>Conversation_World\<close>: the state of the module with the state of the team module inside, the
    query of the inbox and its cache; \<^verbatim>\<open>Conversation_Service\<close>: the services, the read model and the queue processor.
  \<^item> \<^verbatim>\<open>Conversation_Facts\<close>: what a reader finds after a method persisted, and that publishing touches no table.
  \<^item> Properties: \<^verbatim>\<open>Conversation_Properties\<close> (the read model follows the rows, deletion, bulk methods),
    \<^verbatim>\<open>Conversation_Resolution\<close> (merge, resolution by an agent), \<^verbatim>\<open>Conversation_Listing\<close> (age of cached pages, cursors),
    \<^verbatim>\<open>Conversation_Sweep\<close> (offline agents, over the code of the team module). The sample world ends \<^verbatim>\<open>Conversation_Facts\<close>.

  \<^bold>\<open>Channels and messages\<close> (\<^verbatim>\<open>src/modules/channels\<close>, \<^verbatim>\<open>src/modules/messages\<close>)
  \<^item> \<^verbatim>\<open>Channel_Model\<close>: the channel aggregate with configuration, webhook, templates and rate limit, and their tables;
    \<^verbatim>\<open>Channel_Connectors\<close>: the eight connectors as records of their methods (signatures, normalisation, formatting).
  \<^item> \<^verbatim>\<open>Message_Model\<close>: value objects, the message aggregate, drafts, templates, and the tables with the unique index on external
    identifiers; \<^verbatim>\<open>Message_World\<close>: the state of both modules around the state of the conversation module, publishing and the
    read model that keeps the inbox line.
  \<^item> \<^verbatim>\<open>Message_Service\<close>, \<^verbatim>\<open>Channel_Service\<close>, \<^verbatim>\<open>Message_Delivery\<close>: the services of both modules in the order of their calls, up to
    the two queue processors.
  \<^item> \<^verbatim>\<open>Message_Facts\<close>: rows after a save, the unique index as an invariant, what a refresh leaves in the inbox.
  \<^item> Properties: \<^verbatim>\<open>Message_Properties\<close> (counters and preview of the inbox line), \<^verbatim>\<open>Message_Transport\<close> (dispatch, failures,
    receipts), \<^verbatim>\<open>Message_Inbound\<close> (duplicates, one conversation per message), \<^verbatim>\<open>Channel_Properties\<close> (signatures, email and
    Telegram payloads).

  \<^bold>\<open>Customers\<close> (\<^verbatim>\<open>src/modules/customers\<close>)
  \<^item> \<^verbatim>\<open>Customer_Model\<close>: value objects, the aggregate with profile and metrics, segments, and the tables with their two unique indexes.
    Amounts are whole cents, scores are exact fractions.
  \<^item> \<^verbatim>\<open>Customer_Service\<close>: the services (creation, channel identities, merge, CSV export, import, metrics, segments) and the queue processor.
    The fields of an imported record are texts.
  \<^item> \<^verbatim>\<open>Customer_Properties\<close>: the unique indexes over every sequence of operations, a reader that gets the export back, the account of an
    import, sums after a merge, exact dynamic segments, senders of a channel, and the metrics job.

  \<^bold>\<open>Knowledge base\<close> (\<^verbatim>\<open>src/modules/knowledge-base\<close>, and the public controller of \<^verbatim>\<open>src/modules/public-help\<close>)
  \<^item> \<^verbatim>\<open>Knowledge_Model\<close>: documents, sources, jobs, chunks, versions, grants and categories with their tables.
  \<^item> \<^verbatim>\<open>Knowledge_Service\<close>: the crawler with its expressions as matchers, the services, the queue processor and the controllers that check
    grants. Network, URL parser, hash, upload service and AI platform are answers of the world.
  \<^item> \<^verbatim>\<open>Knowledge_Properties\<close>: grants, search, what a visitor sees, the crawl, and the run of an ingestion; \<^verbatim>\<open>Knowledge_Reach\<close>: the operations,
    jobs and crawls as a step relation whose invariant makes every found document publishable.

  \<^bold>\<open>Settings\<close> (\<^verbatim>\<open>src/modules/settings\<close>): \<^verbatim>\<open>Settings_Service\<close> has the tenant profile, the flag engine with
  its cache and its guard, the plan limits with their synchronisation from billing, and the settings queue.
  \<^verbatim>\<open>Settings_Properties\<close>: buckets (the shift of the hash is done on 32-bit words), rollouts, the cache, limits that
  stay in the range of their columns, and the limit on agents.

  \<^bold>\<open>Queue workers\<close> (\<^verbatim>\<open>packages/shared-queues\<close>): \<^verbatim>\<open>Queue_Worker\<close> has the base worker and dead-letter routing.

  \<^bold>\<open>Outbox\<close> (\<^verbatim>\<open>src/modules/hardening/outbox\<close>): \<^verbatim>\<open>Outbox\<close> has the table and its service; its runs drain the table, and they queue
  no event twice. The order in which the database answers is a parameter that only rearranges rows.

  \<^bold>\<open>Bounds.\<close> The loop of \<^verbatim>\<open>addBusinessMinutes\<close> keeps the guard of the code (366 days of minutes) as its
  measure, and the theorems say what happens when it is exhausted. The sweep keeps the batch size
  of the code. Ticket numbers are shown to read back for sequences below \<^verbatim>\<open>10^40\<close>, far above what
  the integer column holds. The retry loop of an action runs over the list of its delays, the crawl loop has the
  pages left and then the length of its queue as its measure, and every other loop of the modelled code runs over a list. The hash of a flag is shown exact for identifiers of up to four million characters.

  \<^bold>\<open>Simplifications.\<close> Within one operation the clock stands still, except that a call of an upstream service takes its
  latency; statements of the database do not fail, jobs may fail to be queued. Strings are ASCII;
  an em dash in an audit text is written as a hyphen. Interleavings are stated explicitly where a
  property is about them (creation of tickets); elsewhere an operation runs alone. Logging is left out.

  \<^bold>\<open>Not modelled.\<close> Controllers but for those with logic of their own, decorators and module wiring; the paginated
  and full text queries of tickets, teams and workflows; foreign keys; connector administration, health checks and imports; the seeding of
  system workflows; the settings that are stored values only; and the other modules of the platform, which
  appear as parameters (the customers a ticket names, presence, widget sessions, HMAC, uploads, billing, administrators of a tenant) or
  as recorded calls (notifications, analytics, broadcasts, AI requests).
  The inbox views, the AI integration, analytics, administration, the widget, identity and notifications are left out as a whole: they
  are queries for a screen or calls of services outside the repository. Of the knowledge base the tags of documents and the states of a
  source that only an administrator sets are left out; a page limit given as a text that is not finite stops a crawl at once.
\<close>

end
